(* ===== verification/Prelude.thy ===== *)
theory Prelude
  imports Main "HOL-Library.Word" "HOL-Library.Multiset"
begin

text \<open>
  Shared vocabulary of the development: the identifier, clock and machine-integer types the
  Rust sources use, the result type of fallible operations, and the generic facts on lists,
  sums and wrapped integers that the component theories rely on.

  \<^item> \<open>uuid\<close> is a 128-bit value; \<open>nil_uuid\<close> is \<open>Uuid::nil()\<close>.
  \<^item> \<open>datetime\<close> is an instant of \<open>chrono::DateTime<Utc>\<close>, as an integer count of
    nanoseconds: the sources only copy, compare and shift instants. A stored instant is kept as
    it is, except in \<open>Interface_Rows\<close>, where the microseconds of the database are written out.
  \<^item> An \<open>i32\<close> is an \<open>int\<close> in the range \<open>i32_range\<close>; every source-level cast or
    arithmetic step that may leave the range goes through \<open>wrap_i32\<close>.
  \<^item> \<open>Result<T, E>\<close> is \<open>'e + 'a\<close>: \<open>Inl\<close> is \<open>Err\<close>, \<open>Inr\<close> is \<open>Ok\<close>.
\<close>

section \<open>Types\<close>

type_synonym uuid = "128 word"
type_synonym datetime = int
type_synonym ('e, 'a) result = "'e + 'a"

abbreviation nil_uuid :: uuid where
  "nil_uuid \<equiv> 0"

abbreviation Err :: "'e \<Rightarrow> 'e + 'a" where
  "Err \<equiv> Inl"

abbreviation Ok :: "'a \<Rightarrow> 'e + 'a" where
  "Ok \<equiv> Inr"

named_theorems i32_simps \<open>evaluation of i32 casts and arithmetic inside the i32 range\<close>

section \<open>Signed 32-bit integers\<close>

definition wrap_i32 :: "int \<Rightarrow> int" where
  "wrap_i32 x = (x + 2147483648) mod 4294967296 - 2147483648"

definition as_i32 :: "nat \<Rightarrow> int" where
  "as_i32 n = wrap_i32 (int n)"

definition i32_range :: "int \<Rightarrow> bool" where
  "i32_range x \<longleftrightarrow> - 2147483648 \<le> x \<and> x < 2147483648"

lemma wrap_i32_range [simp]: "i32_range (wrap_i32 x)"
  by (simp add: i32_range_def wrap_i32_def)

lemma wrap_i32_id [i32_simps]: "i32_range x \<Longrightarrow> wrap_i32 x = x"
  by (simp add: i32_range_def wrap_i32_def)

lemma as_i32_id [i32_simps]: "n < 2147483648 \<Longrightarrow> as_i32 n = int n"
  by (simp add: as_i32_def wrap_i32_id i32_range_def)

section \<open>Lists\<close>

lemma find_SomeD: "find P xs = Some x \<Longrightarrow> x \<in> set xs \<and> P x"
  by (auto simp: find_Some_iff)

lemma map_filter_mem: "x \<in> set (List.map_filter f xs) \<longleftrightarrow> (\<exists>y \<in> set xs. f y = Some x)"
  by (force simp: List.map_filter_def)

lemma mset_map_filter_split:
  "mset xs = mset (filter P xs) + mset (filter (\<lambda>x. \<not> P x) xs)"
  by (induction xs) auto

lemma map_nth_upt_eq: "xs = map f [0..<n] \<longleftrightarrow> length xs = n \<and> (\<forall>i<n. xs ! i = f i)"
  by (auto intro: nth_equalityI)

lemma sorted_map_int_upt [simp]: "sorted (map int [a..<b])"
  by (simp add: sorted_iff_nth_mono_less)

lemma sort_eq_if_mset_eq:
  "mset xs = mset ys \<Longrightarrow> sorted ys \<Longrightarrow> sort xs = (ys :: 'a :: linorder list)"
  by (simp add: properties_for_sort)

lemma map_sort_key: "map f (sort_key f xs) = sort (map f xs)"
  by (rule sym, rule sort_eq_if_mset_eq) simp_all

section \<open>Text\<close>

text \<open>
  Text is a list of bytes. \<open>to_lowercase\<close> lowers the ASCII letters and leaves every other
  byte alone, which is \<open>str::to_lowercase\<close> on ASCII text and \<open>str::to_ascii_lowercase\<close> on
  all text; the letters of other scripts are outside the model.
\<close>

definition ascii_lower :: "char \<Rightarrow> char" where
  "ascii_lower c =
     (let n = (of_char c :: nat) in if 65 \<le> n \<and> n \<le> 90 then char_of (n + 32) else c)"

definition to_lowercase :: "string \<Rightarrow> string" where
  "to_lowercase = map ascii_lower"

definition is_ascii_digit :: "char \<Rightarrow> bool" where
  "is_ascii_digit c \<longleftrightarrow> (let n = (of_char c :: nat) in 48 \<le> n \<and> n \<le> 57)"

definition is_alphanumeric :: "char \<Rightarrow> bool" where
  "is_alphanumeric c \<longleftrightarrow>
     (let n = (of_char c :: nat) in
      48 \<le> n \<and> n \<le> 57 \<or> 65 \<le> n \<and> n \<le> 90 \<or> 97 \<le> n \<and> n \<le> 122)"

definition eq_ignore_ascii_case :: "string \<Rightarrow> string \<Rightarrow> bool" where
  "eq_ignore_ascii_case a b \<longleftrightarrow> to_lowercase a = to_lowercase b"

fun starts_with :: "string \<Rightarrow> string \<Rightarrow> bool" where
  "starts_with s [] = True"
| "starts_with [] (p # ps) = False"
| "starts_with (c # s) (p # ps) = (c = p \<and> starts_with s ps)"

fun str_contains :: "string \<Rightarrow> string \<Rightarrow> bool" where
  "str_contains [] p = (p = [])"
| "str_contains (c # s) p = (starts_with (c # s) p \<or> str_contains s p)"

lemma starts_with_iff: "starts_with s p \<longleftrightarrow> (\<exists>t. s = p @ t)"
  by (induction s p rule: starts_with.induct) auto

lemma str_contains_iff: "str_contains s p \<longleftrightarrow> (\<exists>a b. s = a @ p @ b)"
proof (induction s)
  case Nil
  then show ?case by auto
next
  case (Cons c s)
  have "(\<exists>a b. c # s = a @ p @ b) \<longleftrightarrow> (\<exists>t. c # s = p @ t) \<or> (\<exists>a b. s = a @ p @ b)"
    by (metis append_Cons append_Nil list.sel(3) tl_append2 neq_Nil_conv)
  then show ?case using Cons by (simp add: starts_with_iff)
qed

lemma length_to_lowercase [simp]: "length (to_lowercase s) = length s"
  by (simp add: to_lowercase_def)

lemma ascii_lower_idem [simp]: "ascii_lower (ascii_lower c) = ascii_lower c"
  by (simp add: ascii_lower_def Let_def of_char_of)

lemma to_lowercase_idem [simp]: "to_lowercase (to_lowercase s) = to_lowercase s"
  by (simp add: to_lowercase_def comp_def)

definition is_ascii_space :: "char \<Rightarrow> bool" where
  "is_ascii_space c \<longleftrightarrow> c \<in> {CHR 0x09, CHR 0x0A, CHR 0x0B, CHR 0x0C, CHR 0x0D, CHR '' ''}"

definition trim_start :: "string \<Rightarrow> string" where
  "trim_start s = dropWhile is_ascii_space s"

definition trim :: "string \<Rightarrow> string" where
  "trim s = rev (trim_start (rev (trim_start s)))"

text \<open>Decimal digits, which is how integers are displayed.\<close>

fun decimal :: "nat \<Rightarrow> string" where
  "decimal n = (if n < 10 then [char_of (48 + n)] else decimal (n div 10) @ [char_of (48 + n mod 10)])"

declare decimal.simps [simp del]

section \<open>Vectors\<close>

text \<open>
  \<open>Vec::dedup\<close>: of a run of consecutive equal elements, with the element type's own
  equality, the first stays.
\<close>

fun dedup_by :: "('a \<Rightarrow> 'a \<Rightarrow> bool) \<Rightarrow> 'a list \<Rightarrow> 'a list" where
  "dedup_by eq (x # y # ys) = (if eq x y then dedup_by eq (x # ys) else x # dedup_by eq (y # ys))"
| "dedup_by eq xs = xs"

lemma set_dedup_by: "set (dedup_by eq xs) \<subseteq> set xs"
  by (induction eq xs rule: dedup_by.induct) auto

lemma hd_dedup_by: "xs \<noteq> [] \<Longrightarrow> dedup_by eq xs \<noteq> [] \<and> hd (dedup_by eq xs) = hd xs"
  by (induction eq xs rule: dedup_by.induct) auto

lemma dedup_by_key:
  assumes "\<And>a b. eq a b \<longleftrightarrow> f a = f b"
  shows "map f (dedup_by eq xs) = remdups_adj (map f xs)"
  using assms
proof (induction eq xs rule: dedup_by.induct)
  case (1 eq x y ys)
  then show ?case by (cases "f x = f y") simp_all
qed simp_all

lemma dedup_by_covers:
  assumes "\<And>a b. eq a b \<longleftrightarrow> f a = f b"
  shows "f ` set (dedup_by eq xs) = f ` set xs"
  using arg_cong [where f = set, OF dedup_by_key [of eq f xs, OF assms]] by simp

text \<open>\<open>entry(k).or_default().push(v)\<close> on a map from keys to vectors.\<close>

fun push_entry :: "'k \<Rightarrow> 'v \<Rightarrow> ('k \<times> 'v list) list \<Rightarrow> ('k \<times> 'v list) list" where
  "push_entry k v [] = [(k, [v])]"
| "push_entry k v ((k', vs) # m) = (if k = k' then (k', vs @ [v]) # m else (k', vs) # push_entry k v m)"

end
