(* ===== verification/Bindings.thy ===== *)
theory Bindings
  imports Prelude
begin

text \<open>
  Bindings of services to ports and IP addresses
  (\<^verbatim>\<open>backend/src/server/bindings/impl/base.rs\<close>), their validation and
  deduplication (\<^verbatim>\<open>backend/src/server/services/service/binding_validation.rs\<close>) and
  the claims of one service against another
  (\<^verbatim>\<open>backend/src/server/services/service/binding_mutation.rs\<close>). The specification
  is a symmetric conflict relation between binding types and the set of (port, address)
  pairs a list of bindings covers.
\<close>

section \<open>Types\<close>

datatype BindingType =
    IPAddress (bt_ip: uuid)
  | Port (bt_port: uuid) (bt_ip_opt: "uuid option")

record BindingBase =
  bind_service_id :: uuid
  bind_network_id :: uuid
  binding_type :: BindingType

record Binding =
  bind_id :: uuid
  bind_created_at :: datetime
  bind_updated_at :: datetime
  bind_valid_from :: datetime
  bind_valid_to :: "datetime option"
  bind_lineage_id :: "uuid option"
  bind_last_seen_at :: datetime
  bind_last_discovery_id :: "uuid option"
  bind_first_discovery_id :: "uuid option"
  bind_base :: BindingBase

abbreviation btype :: "Binding \<Rightarrow> BindingType" where
  "btype b \<equiv> binding_type (bind_base b)"

definition new_base :: "uuid \<Rightarrow> uuid \<Rightarrow> BindingType \<Rightarrow> BindingBase" where
  "new_base service_id network_id t =
     \<lparr>bind_service_id = service_id, bind_network_id = network_id, binding_type = t\<rparr>"

definition new_serviceless_base :: "BindingType \<Rightarrow> BindingBase" where
  "new_serviceless_base t = new_base nil_uuid nil_uuid t"

text \<open>\<open>Binding::new\<close>, with the fresh id and the current instant as arguments.\<close>

definition new_binding :: "uuid \<Rightarrow> datetime \<Rightarrow> BindingBase \<Rightarrow> Binding" where
  "new_binding fresh now b =
     \<lparr>bind_id = fresh, bind_created_at = now, bind_updated_at = now, bind_valid_from = now,
      bind_valid_to = None, bind_lineage_id = None, bind_last_seen_at = now,
      bind_last_discovery_id = None, bind_first_discovery_id = None, bind_base = b\<rparr>"

definition new_serviceless :: "uuid \<Rightarrow> datetime \<Rightarrow> BindingType \<Rightarrow> Binding" where
  "new_serviceless fresh now t = new_binding fresh now (new_serviceless_base t)"

definition binding_eq :: "Binding \<Rightarrow> Binding \<Rightarrow> bool" where
  "binding_eq a b \<longleftrightarrow> btype a = btype b"

definition ip_address_id :: "Binding \<Rightarrow> uuid option" where
  "ip_address_id b = (case btype b of IPAddress i \<Rightarrow> Some i | Port _ i \<Rightarrow> i)"

definition binding_port_id :: "Binding \<Rightarrow> uuid option" where
  "binding_port_id b = (case btype b of IPAddress _ \<Rightarrow> None | Port p _ \<Rightarrow> Some p)"

definition rebound_to_ip_address :: "uuid \<Rightarrow> datetime \<Rightarrow> Binding \<Rightarrow> uuid \<Rightarrow> Binding" where
  "rebound_to_ip_address fresh now b ip =
     (let t = (case btype b of IPAddress _ \<Rightarrow> IPAddress ip | Port p _ \<Rightarrow> Port p (Some ip)) in
      new_binding fresh now ((bind_base b)\<lparr>binding_type := t\<rparr>))"

definition with_service :: "Binding \<Rightarrow> uuid \<Rightarrow> uuid \<Rightarrow> Binding" where
  "with_service b s n =
     b\<lparr>bind_base := (bind_base b)\<lparr>bind_service_id := s, bind_network_id := n\<rparr>\<rparr>"

definition binding_triggers_staleness :: "Binding \<Rightarrow> Binding option \<Rightarrow> bool" where
  "binding_triggers_staleness b other =
     (case other of
        Some o' \<Rightarrow> btype b \<noteq> btype o' \<or>
          bind_service_id (bind_base b) \<noteq> bind_service_id (bind_base o')
      | None \<Rightarrow> True)"

section \<open>Validation\<close>

datatype binding_error =
    ForeignIpAddress uuid
  | ForeignPort uuid
  | ForeignPortIpAddress uuid
  | IpVersusPort
  | PortVersusIp
  | AllIpsVersusIp

fun validate_bindings_belong_to_host ::
    "uuid set \<Rightarrow> uuid set \<Rightarrow> Binding list \<Rightarrow> (binding_error, unit) result" where
  "validate_bindings_belong_to_host ports ips [] = Ok ()"
| "validate_bindings_belong_to_host ports ips (b # bs) =
     (case btype b of
        IPAddress i \<Rightarrow>
          if i \<notin> ips then Err (ForeignIpAddress i)
          else validate_bindings_belong_to_host ports ips bs
      | Port p io \<Rightarrow>
          if p \<notin> ports then Err (ForeignPort p)
          else (case io of
              Some i \<Rightarrow> if i \<notin> ips then Err (ForeignPortIpAddress i)
                         else validate_bindings_belong_to_host ports ips bs
            | None \<Rightarrow> validate_bindings_belong_to_host ports ips bs))"

definition is_binding_covered_by_existing :: "Binding \<Rightarrow> Binding list \<Rightarrow> bool" where
  "is_binding_covered_by_existing new_b existing =
     (case btype new_b of
        Port p (Some _) \<Rightarrow> \<exists>e \<in> set existing. btype e = Port p None
      | _ \<Rightarrow> False)"

definition validate_binding_no_conflict :: "BindingType \<Rightarrow> Binding list \<Rightarrow> binding_error option" where
  "validate_binding_no_conflict new_b existing =
     (case new_b of
        IPAddress ip \<Rightarrow>
          if \<exists>e \<in> set existing. case btype e of
               Port _ ei \<Rightarrow> ei = Some ip \<or> ei = None | IPAddress _ \<Rightarrow> False
          then Some IpVersusPort else None
      | Port _ (Some ip) \<Rightarrow>
          if \<exists>e \<in> set existing. btype e = IPAddress ip then Some PortVersusIp else None
      | Port _ None \<Rightarrow>
          if \<exists>e \<in> set existing. case btype e of IPAddress _ \<Rightarrow> True | Port _ _ \<Rightarrow> False
          then Some AllIpsVersusIp else None)"

fun validate_preceding :: "Binding list \<Rightarrow> Binding list \<Rightarrow> (binding_error, unit) result" where
  "validate_preceding before [] = Ok ()"
| "validate_preceding before (b # bs) =
     (case validate_binding_no_conflict (btype b) before of
        Some e \<Rightarrow> Err e
      | None \<Rightarrow> validate_preceding (before @ [b]) bs)"

definition validate_bindings_no_conflicts :: "Binding list \<Rightarrow> (binding_error, unit) result" where
  "validate_bindings_no_conflicts bindings = validate_preceding [] bindings"

section \<open>Deduplication\<close>

definition all_interface_port_ids :: "Binding list \<Rightarrow> uuid list" where
  "all_interface_port_ids bindings =
     List.map_filter (\<lambda>b. case btype b of Port p None \<Rightarrow> Some p | _ \<Rightarrow> None) bindings"

text \<open>The deduplication key is the debug text of the binding type, which determines it.\<close>

fun dedup_loop :: "uuid list \<Rightarrow> BindingType list \<Rightarrow> Binding list \<Rightarrow> Binding list" where
  "dedup_loop all_ports seen [] = []"
| "dedup_loop all_ports seen (b # bs) =
     (if (case btype b of Port p (Some _) \<Rightarrow> p \<in> set all_ports | _ \<Rightarrow> False)
      then dedup_loop all_ports seen bs
      else if btype b \<in> set seen then dedup_loop all_ports seen bs
      else b # dedup_loop all_ports (btype b # seen) bs)"

definition deduplicate_bindings :: "Binding list \<Rightarrow> Binding list" where
  "deduplicate_bindings bindings = dedup_loop (all_interface_port_ids bindings) [] bindings"

section \<open>Claims on ports\<close>

type_synonym claim = "uuid \<times> uuid option"

text \<open>Two claims on one port overlap unless both name an address and the addresses differ.\<close>

fun iface_overlap :: "uuid option \<Rightarrow> uuid option \<Rightarrow> bool" where
  "iface_overlap None _ = True"
| "iface_overlap _ None = True"
| "iface_overlap (Some a) (Some b) = (a = b)"

definition port_claims :: "Binding list \<Rightarrow> claim list" where
  "port_claims bindings =
     List.map_filter (\<lambda>b. case btype b of Port p i \<Rightarrow> Some (p, i) | IPAddress _ \<Rightarrow> None) bindings"

definition claim_conflicts :: "claim list \<Rightarrow> Binding \<Rightarrow> bool" where
  "claim_conflicts claims b =
     (case btype b of
        Port p i \<Rightarrow> \<exists>(cp, ci) \<in> set claims. cp = p \<and> iface_overlap i ci
      | IPAddress _ \<Rightarrow> False)"

definition remove_port_bindings :: "Binding list \<Rightarrow> claim list \<Rightarrow> Binding list" where
  "remove_port_bindings bindings claims_to_remove =
     filter (\<lambda>b. case binding_port_id b of
         None \<Rightarrow> True
       | Some p \<Rightarrow> \<not> (\<exists>(cp, ci) \<in> set claims_to_remove.
           cp = p \<and> iface_overlap ci (ip_address_id b))) bindings"

text \<open>
  \<open>db_claimed\<close> is what the other live services of the host claim; \<open>batch_claimed\<close> what the
  services stored earlier in the same discovery batch claim.
\<close>

definition partition_conflicting_bindings ::
    "claim list \<Rightarrow> Binding list \<Rightarrow> claim list \<Rightarrow> Binding list \<times> Binding list" where
  "partition_conflicting_bindings db_claimed bindings batch_claimed =
     (if bindings = [] then ([], [])
      else let all_claimed = db_claimed @ batch_claimed in
        if all_claimed = [] then (bindings, [])
        else (filter (\<lambda>b. \<not> claim_conflicts all_claimed b) bindings,
              filter (claim_conflicts all_claimed) bindings))"

section \<open>Merging discovered bindings into a stored service\<close>

text \<open>
  The loop of \<open>upsert_service\<close> (\<^verbatim>\<open>backend/src/server/services/service/upsert.rs\<close>)
  over the bindings of the new data: the stored bindings and the number of changes.
\<close>

definition merge_binding :: "Binding list \<Rightarrow> Binding \<Rightarrow> Binding list \<times> nat" where
  "merge_binding existing new_b =
     (if is_binding_covered_by_existing new_b existing then (existing, 0)
      else if validate_binding_no_conflict (btype new_b) existing \<noteq> None then (existing, 0)
      else let
          retained = (case btype new_b of
              Port p None \<Rightarrow> filter (\<lambda>e. \<not> (case btype e of
                  Port ep ei \<Rightarrow> ei \<noteq> None \<and> ep = p | IPAddress _ \<Rightarrow> False)) existing
            | _ \<Rightarrow> existing);
          removed = length existing - length retained
        in if \<exists>e \<in> set retained. binding_eq e new_b then (retained, removed)
           else (retained @ [new_b], removed + 1))"

fun merge_bindings :: "Binding list \<Rightarrow> nat \<Rightarrow> Binding list \<Rightarrow> Binding list \<times> nat" where
  "merge_bindings existing updates [] = (existing, updates)"
| "merge_bindings existing updates (b # bs) =
     (let (existing', n) = merge_binding existing b in merge_bindings existing' (updates + n) bs)"

section \<open>Specification\<close>

text \<open>
  A service is bound to an address as a whole (\<open>IPAddress\<close>) or to ports of it, never both.
\<close>

fun conflicts :: "BindingType \<Rightarrow> BindingType \<Rightarrow> bool" where
  "conflicts (IPAddress i) (Port _ j) = (j = Some i \<or> j = None)"
| "conflicts (Port _ j) (IPAddress i) = (j = Some i \<or> j = None)"
| "conflicts _ _ = False"

definition conflict_free :: "Binding list \<Rightarrow> bool" where
  "conflict_free bs \<longleftrightarrow> (\<forall>a \<in> set bs. \<forall>b \<in> set bs. \<not> conflicts (btype a) (btype b))"

text \<open>The (port, address) pairs a list of bindings answers for.\<close>

fun covers_type :: "BindingType \<Rightarrow> uuid \<times> uuid \<Rightarrow> bool" where
  "covers_type (IPAddress _) (p, i) = False"
| "covers_type (Port q None) (p, i) = (p = q)"
| "covers_type (Port q (Some j)) (p, i) = (p = q \<and> i = j)"

definition covers :: "Binding list \<Rightarrow> (uuid \<times> uuid) set" where
  "covers bs = {pi. \<exists>b \<in> set bs. covers_type (btype b) pi}"

text \<open>No binding is repeated and none is subsumed by an all-addresses binding.\<close>

definition normalised :: "Binding list \<Rightarrow> bool" where
  "normalised bs \<longleftrightarrow> distinct (map btype bs) \<and>
     (\<forall>a \<in> set bs. \<not> is_binding_covered_by_existing a bs)"

section \<open>Correctness\<close>

lemma conflicts_sym: "conflicts a b \<longleftrightarrow> conflicts b a"
  by (cases a; cases b) auto

lemma conflicts_irrefl [simp]: "\<not> conflicts a a"
  by (cases a) auto

lemma validate_binding_no_conflict_None:
  "validate_binding_no_conflict t existing = None \<longleftrightarrow>
   (\<forall>e \<in> set existing. \<not> conflicts t (btype e))"
proof (cases t)
  case (IPAddress i)
  have "(case btype e of Port _ ei \<Rightarrow> ei = Some i \<or> ei = None | IPAddress _ \<Rightarrow> False)
      \<longleftrightarrow> conflicts t (btype e)" for e
    using IPAddress by (cases "btype e") auto
  with IPAddress show ?thesis by (auto simp: validate_binding_no_conflict_def)
next
  case (Port p io)
  then show ?thesis
  proof (cases io)
    case None
    have "(case btype e of IPAddress _ \<Rightarrow> True | Port _ _ \<Rightarrow> False) \<longleftrightarrow> conflicts t (btype e)" for e
      using Port None by (cases "btype e") auto
    with Port None show ?thesis by (auto simp: validate_binding_no_conflict_def)
  next
    case (Some i)
    have "btype e = IPAddress i \<longleftrightarrow> conflicts t (btype e)" for e
      using Port Some by (cases "btype e") auto
    with Port Some show ?thesis by (auto simp: validate_binding_no_conflict_def)
  qed
qed

lemma conflict_free_append:
  "conflict_free (xs @ ys) \<longleftrightarrow> conflict_free xs \<and> conflict_free ys \<and>
     (\<forall>x \<in> set xs. \<forall>y \<in> set ys. \<not> conflicts (btype x) (btype y))"
  unfolding conflict_free_def set_append using conflicts_sym by blast

lemma conflict_free_Nil [simp]: "conflict_free []"
  by (simp add: conflict_free_def)

lemma conflict_free_single [simp]: "conflict_free [b]"
  by (simp add: conflict_free_def)

lemma validate_preceding_Ok:
  "conflict_free before \<Longrightarrow>
   validate_preceding before bs = Ok () \<longleftrightarrow> conflict_free (before @ bs)"
proof (induction bs arbitrary: before)
  case Nil
  then show ?case by simp
next
  case (Cons b bs)
  show ?case
  proof (cases "validate_binding_no_conflict (btype b) before")
    case None
    then have "conflict_free (before @ [b])"
      using Cons.prems conflicts_sym
      by (auto simp: validate_binding_no_conflict_None conflict_free_append)
    then show ?thesis using None Cons.IH [of "before @ [b]"] by simp
  next
    case (Some e)
    then have "\<exists>x \<in> set before. conflicts (btype b) (btype x)"
      using validate_binding_no_conflict_None [of "btype b" before] by auto
    then have "\<not> conflict_free (before @ b # bs)"
      by (auto simp: conflict_free_def)
    then show ?thesis using Some by simp
  qed
qed

lemma validate_bindings_no_conflicts_iff:
  "validate_bindings_no_conflicts bs = Ok () \<longleftrightarrow> conflict_free bs"
  by (simp add: validate_bindings_no_conflicts_def validate_preceding_Ok)

lemma validate_belong_iff:
  "validate_bindings_belong_to_host ports ips bs = Ok () \<longleftrightarrow>
   (\<forall>b \<in> set bs. (\<forall>p. binding_port_id b = Some p \<longrightarrow> p \<in> ports) \<and>
                 (\<forall>i. ip_address_id b = Some i \<longrightarrow> i \<in> ips))"
  by (induction bs)
    (auto simp: binding_port_id_def ip_address_id_def split: BindingType.splits option.splits)

subsection \<open>Deduplication\<close>

definition superseded :: "uuid list \<Rightarrow> BindingType \<Rightarrow> bool" where
  "superseded all_ports t = (case t of Port p (Some _) \<Rightarrow> p \<in> set all_ports | _ \<Rightarrow> False)"

lemma set_all_interface_port_ids:
  "set (all_interface_port_ids bs) = {p. \<exists>b \<in> set bs. btype b = Port p None}"
  by (induction bs)
    (auto simp: all_interface_port_ids_def List.map_filter_simps
      split: BindingType.splits option.splits)

lemma dedup_loop_Cons:
  "dedup_loop ps seen (b # bs) =
     (if superseded ps (btype b) \<or> btype b \<in> set seen then dedup_loop ps seen bs
      else b # dedup_loop ps (btype b # seen) bs)"
  by (simp add: superseded_def)

lemma btype_dedup_loop:
  "btype ` set (dedup_loop ps seen bs) = {t \<in> btype ` set bs. \<not> superseded ps t} - set seen"
  by (induction bs arbitrary: seen) (auto simp: dedup_loop_Cons simp del: dedup_loop.simps(2))

lemma distinct_dedup_loop: "distinct (map btype (dedup_loop ps seen bs))"
proof (induction bs arbitrary: seen)
  case Nil
  then show ?case by simp
next
  case (Cons b bs)
  then show ?case
    using btype_dedup_loop [of ps "btype b # seen" bs]
    by (simp add: dedup_loop_Cons del: dedup_loop.simps(2))
qed

lemma set_dedup_loop: "set (dedup_loop ps seen bs) \<subseteq> set bs"
  by (induction bs arbitrary: seen) (auto simp: dedup_loop_Cons simp del: dedup_loop.simps(2))

lemma dedup_loop_id:
  assumes "distinct (map btype bs)" "\<forall>b \<in> set bs. \<not> superseded ps (btype b)"
    "btype ` set bs \<inter> set seen = {}"
  shows "dedup_loop ps seen bs = bs"
  using assms
  by (induction bs arbitrary: seen) (auto simp: dedup_loop_Cons simp del: dedup_loop.simps(2))

lemma covered_iff_superseded:
  "is_binding_covered_by_existing b bs \<longleftrightarrow> superseded (all_interface_port_ids bs) (btype b)"
  by (auto simp: is_binding_covered_by_existing_def superseded_def set_all_interface_port_ids
      split: BindingType.splits option.splits)

lemma normalised_deduplicate: "normalised (deduplicate_bindings bs)"
proof -
  let ?d = "deduplicate_bindings bs"
  have "\<not> is_binding_covered_by_existing a ?d" if "a \<in> set ?d" for a
  proof -
    have "\<not> superseded (all_interface_port_ids bs) (btype a)"
      using that btype_dedup_loop [of "all_interface_port_ids bs" "[]" bs]
      by (auto simp: deduplicate_bindings_def)
    moreover have "set (all_interface_port_ids ?d) \<subseteq> set (all_interface_port_ids bs)"
      using set_dedup_loop by (fastforce simp: set_all_interface_port_ids deduplicate_bindings_def)
    ultimately show ?thesis
      by (auto simp: covered_iff_superseded superseded_def split: BindingType.splits option.splits)
  qed
  then show ?thesis
    by (auto simp: normalised_def deduplicate_bindings_def distinct_dedup_loop)
qed

lemma deduplicate_normalised: "normalised bs \<Longrightarrow> deduplicate_bindings bs = bs"
  unfolding deduplicate_bindings_def
  by (rule dedup_loop_id) (auto simp: normalised_def covered_iff_superseded)

lemma covers_deduplicate: "covers (deduplicate_bindings bs) = covers bs"
proof
  show "covers (deduplicate_bindings bs) \<subseteq> covers bs"
    using set_dedup_loop by (fastforce simp: covers_def deduplicate_bindings_def)
  show "covers bs \<subseteq> covers (deduplicate_bindings bs)"
  proof
    fix pi assume "pi \<in> covers bs"
    then obtain b where b: "b \<in> set bs" "covers_type (btype b) pi" by (auto simp: covers_def)
    let ?P = "all_interface_port_ids bs"
    have "\<exists>t \<in> btype ` set bs. \<not> superseded ?P t \<and> covers_type t pi"
    proof (cases "superseded ?P (btype b)")
      case False
      with b show ?thesis by blast
    next
      case True
      then obtain p i e where "btype b = Port p (Some i)" and "e \<in> set bs" "btype e = Port p None"
        by (auto simp: superseded_def set_all_interface_port_ids
            split: BindingType.splits option.splits)
      with b(2) have "covers_type (btype e) pi" "\<not> superseded ?P (btype e)"
        by (cases pi, auto simp: superseded_def)+
      with \<open>e \<in> set bs\<close> show ?thesis by blast
    qed
    then have "\<exists>t \<in> btype ` set (deduplicate_bindings bs). covers_type t pi"
      by (auto simp: deduplicate_bindings_def btype_dedup_loop)
    then show "pi \<in> covers (deduplicate_bindings bs)" by (auto simp: covers_def)
  qed
qed

subsection \<open>Merging\<close>

lemma conflict_free_subset: "conflict_free bs \<Longrightarrow> set cs \<subseteq> set bs \<Longrightarrow> conflict_free cs"
  by (auto simp: conflict_free_def)

lemma covers_append [simp]: "covers (xs @ ys) = covers xs \<union> covers ys"
  by (auto simp: covers_def)

text \<open>The bindings kept when a new binding is merged in.\<close>

definition retained_for :: "Binding \<Rightarrow> Binding list \<Rightarrow> Binding list" where
  "retained_for new_b existing =
     filter (\<lambda>e. \<not> superseded (case btype new_b of Port p None \<Rightarrow> [p] | _ \<Rightarrow> []) (btype e)) existing"

lemma superseded_Nil [simp]: "\<not> superseded [] t"
  by (simp add: superseded_def split: BindingType.splits option.splits)

lemma merge_binding_eq:
  "merge_binding existing b =
     (if is_binding_covered_by_existing b existing \<or>
         (\<exists>e \<in> set existing. conflicts (btype b) (btype e)) then (existing, 0)
      else let retained = retained_for b existing; removed = length existing - length retained in
        if btype b \<in> btype ` set retained then (retained, removed)
        else (retained @ [b], removed + 1))"
proof -
  have "(case btype b of
              Port p None \<Rightarrow> filter (\<lambda>e. \<not> (case btype e of
                  Port ep ei \<Rightarrow> ei \<noteq> None \<and> ep = p | IPAddress _ \<Rightarrow> False)) existing
            | _ \<Rightarrow> existing) = retained_for b existing"
    by (auto simp: retained_for_def superseded_def intro!: filter_cong
        split: BindingType.splits option.splits)
  moreover have "validate_binding_no_conflict (btype b) existing \<noteq> None
      \<longleftrightarrow> (\<exists>e \<in> set existing. conflicts (btype b) (btype e))"
    by (simp add: validate_binding_no_conflict_None)
  moreover have "(\<exists>e \<in> set xs. binding_eq e b) \<longleftrightarrow> btype b \<in> btype ` set xs" for xs
    unfolding binding_eq_def image_iff by (metis (no_types))
  ultimately show ?thesis
    unfolding merge_binding_def by (simp add: Let_def)
qed

lemma merge_binding_conflict_free:
  "conflict_free existing \<Longrightarrow> conflict_free (fst (merge_binding existing b))"
  using conflicts_sym [of _ "btype b"]
  by (auto simp: merge_binding_eq Let_def retained_for_def conflict_free_append
      intro: conflict_free_subset)

lemma covers_retained:
  "covers existing \<subseteq> covers (retained_for b existing @ [b])"
proof
  fix pi assume "pi \<in> covers existing"
  then obtain e where e: "e \<in> set existing" "covers_type (btype e) pi" by (auto simp: covers_def)
  show "pi \<in> covers (retained_for b existing @ [b])"
  proof (cases "e \<in> set (retained_for b existing)")
    case True
    with e show ?thesis by (auto simp: covers_def)
  next
    case False
    then obtain p i where "btype b = Port p None" "btype e = Port p (Some i)"
      using e(1) by (auto simp: retained_for_def superseded_def
          split: BindingType.splits option.splits)
    with e(2) show ?thesis by (cases pi) (auto simp: covers_def)
  qed
qed

lemma covers_same_btype: "btype b \<in> btype ` set xs \<Longrightarrow> covers (xs @ [b]) = covers xs"
  by (force simp: covers_def)

lemma merge_binding_covers: "covers existing \<subseteq> covers (fst (merge_binding existing b))"
  using covers_retained [of existing b] covers_same_btype
  by (auto simp: merge_binding_eq Let_def)

lemma merge_binding_covers_new:
  "\<forall>e \<in> set existing. \<not> conflicts (btype b) (btype e) \<Longrightarrow>
   covers [b] \<subseteq> covers (fst (merge_binding existing b))"
proof (cases "is_binding_covered_by_existing b existing")
  case True
  then have "covers [b] \<subseteq> covers existing"
    by (force simp: covers_def is_binding_covered_by_existing_def
        split: BindingType.splits option.splits)
  with True show ?thesis by (simp add: merge_binding_eq)
next
  case False
  moreover assume "\<forall>e \<in> set existing. \<not> conflicts (btype b) (btype e)"
  ultimately show ?thesis
    using covers_same_btype [of b "retained_for b existing"]
    by (auto simp: merge_binding_eq Let_def)
qed

lemma merge_binding_normalised:
  "normalised existing \<Longrightarrow> normalised (fst (merge_binding existing b))"
proof -
  assume n: "normalised existing"
  let ?r = "retained_for b existing"
  have r: "distinct (map btype ?r)" "set ?r \<subseteq> set existing"
    using n by (auto simp: normalised_def retained_for_def distinct_map_filter)
  have cov: "\<not> is_binding_covered_by_existing a (?r @ [b])" if "a \<in> set ?r" for a
    using that n r(2)
    by (auto simp: normalised_def is_binding_covered_by_existing_def retained_for_def superseded_def
        split: BindingType.splits option.splits)
  show ?thesis
  proof (cases "is_binding_covered_by_existing b existing \<or>
      (\<exists>e \<in> set existing. conflicts (btype b) (btype e))")
    case True
    with n show ?thesis by (simp add: merge_binding_eq)
  next
    case False
    then have "\<not> is_binding_covered_by_existing b (?r @ [b])"
      using r(2) by (auto simp: is_binding_covered_by_existing_def
          split: BindingType.splits option.splits)
    moreover have "\<not> is_binding_covered_by_existing a ?r" if "a \<in> set ?r" for a
      using cov [OF that]
      by (auto simp: is_binding_covered_by_existing_def split: BindingType.splits option.splits)
    ultimately show ?thesis
      using False r cov by (auto simp: merge_binding_eq Let_def normalised_def)
  qed
qed

lemma fst_merge_bindings:
  "fst (merge_bindings existing n bs) = fold (\<lambda>b e. fst (merge_binding e b)) bs existing"
  by (induction bs arbitrary: existing n) (simp_all add: case_prod_beta Let_def)

lemma merge_bindings_conflict_free:
  "conflict_free existing \<Longrightarrow> conflict_free (fst (merge_bindings existing n bs))"
  unfolding fst_merge_bindings
  by (induction bs arbitrary: existing) (simp_all add: merge_binding_conflict_free)

lemma merge_bindings_normalised:
  "normalised existing \<Longrightarrow> normalised (fst (merge_bindings existing n bs))"
  unfolding fst_merge_bindings
  by (induction bs arbitrary: existing) (simp_all add: merge_binding_normalised)

lemma merge_bindings_covers: "covers existing \<subseteq> covers (fst (merge_bindings existing n bs))"
  unfolding fst_merge_bindings
proof (induction bs arbitrary: existing)
  case Nil
  then show ?case by simp
next
  case (Cons b bs)
  then show ?case
    using merge_binding_covers [of existing b] Cons.IH [of "fst (merge_binding existing b)"]
    by auto
qed

subsection \<open>Claims\<close>

lemma iface_overlap_sym: "iface_overlap a b \<longleftrightarrow> iface_overlap b a"
  by (cases a; cases b) auto

lemma partition_conflicting_bindings_mset:
  "mset (fst (partition_conflicting_bindings db bs batch)) +
   mset (snd (partition_conflicting_bindings db bs batch)) = mset bs"
  by (simp add: partition_conflicting_bindings_def Let_def add.commute
      flip: mset_map_filter_split)

lemma claim_conflicts_Nil [simp]: "\<not> claim_conflicts [] b"
  by (simp add: claim_conflicts_def split: BindingType.splits)

lemma partition_conflicting_bindings_sound:
  assumes "partition_conflicting_bindings db bs batch = (valid, conflicting)"
  shows "b \<in> set valid \<Longrightarrow> \<not> claim_conflicts (db @ batch) b"
    and "b \<in> set conflicting \<Longrightarrow> claim_conflicts (db @ batch) b"
  using assms by (auto simp: partition_conflicting_bindings_def Let_def split: if_splits)

lemma set_port_claims: "set (port_claims bs) = {(p, i). \<exists>b \<in> set bs. btype b = Port p i}"
  by (induction bs)
    (auto simp: port_claims_def List.map_filter_simps split: BindingType.splits)

text \<open>After the removal no remaining binding overlaps one of the claims it was asked to clear.\<close>

lemma remove_port_bindings_clear:
  "b \<in> set (remove_port_bindings bs claims) \<Longrightarrow> \<not> claim_conflicts claims b"
  using iface_overlap_sym
  by (fastforce simp: remove_port_bindings_def claim_conflicts_def binding_port_id_def
      ip_address_id_def split: BindingType.splits)

subsection \<open>Only the binding types matter\<close>

lemma btype_set_cong: "map btype xs = map btype ys \<Longrightarrow> btype ` set xs = btype ` set ys"
  by (metis list.set_map)

lemma conflict_free_btypes:
  "conflict_free bs \<longleftrightarrow> (\<forall>s \<in> btype ` set bs. \<forall>t \<in> btype ` set bs. \<not> conflicts s t)"
  by (simp add: conflict_free_def)

lemma normalised_btypes:
  "normalised bs \<longleftrightarrow> distinct (map btype bs) \<and>
     (\<forall>t \<in> btype ` set bs. \<not> superseded (all_interface_port_ids bs) t)"
  by (simp add: normalised_def covered_iff_superseded)

lemma all_interface_port_ids_btypes:
  "set (all_interface_port_ids bs) = {p. Port p None \<in> btype ` set bs}"
  unfolding set_all_interface_port_ids image_iff by metis

lemma superseded_cong: "set ps = set qs \<Longrightarrow> superseded ps t = superseded qs t"
  by (simp add: superseded_def split: BindingType.splits option.splits)

lemma bindings_cong:
  assumes "map btype xs = map btype ys"
  shows "conflict_free xs \<longleftrightarrow> conflict_free ys" and "normalised xs \<longleftrightarrow> normalised ys"
    and "covers xs = covers ys"
proof -
  note eq = btype_set_cong [OF assms]
  show "conflict_free xs \<longleftrightarrow> conflict_free ys" by (simp only: conflict_free_btypes eq)
  have "set (all_interface_port_ids xs) = set (all_interface_port_ids ys)"
    by (simp only: all_interface_port_ids_btypes eq)
  then have "superseded (all_interface_port_ids xs) = superseded (all_interface_port_ids ys)"
    by (intro ext superseded_cong)
  then show "normalised xs \<longleftrightarrow> normalised ys" by (simp only: normalised_btypes eq assms)
  have "covers bs = {pi. \<exists>t \<in> btype ` set bs. covers_type t pi}" for bs
    by (simp add: covers_def)
  then show "covers xs = covers ys" by (simp only: eq)
qed

end
