(* ===== verification/Ports.thy ===== *)
theory Ports
  imports Prelude
begin

text \<open>
  Ports (\<^verbatim>\<open>backend/src/server/ports/impl/base.rs\<close>): the well-known port types with
  their number and transport protocol, the entity built from them, the equality the source
  gives a port type (two port types are equal when number and protocol agree) and the
  serialisation of a port type with its name. A port number is a 16-bit word.
\<close>

section \<open>Port types\<close>

datatype TransportProtocol = Udp | Tcp

instantiation TransportProtocol :: linorder
begin

fun less_eq_TransportProtocol :: "TransportProtocol \<Rightarrow> TransportProtocol \<Rightarrow> bool" where
  "less_eq_TransportProtocol Tcp Udp = False"
| "less_eq_TransportProtocol _ _ = True"

definition less_TransportProtocol :: "TransportProtocol \<Rightarrow> TransportProtocol \<Rightarrow> bool" where
  "less_TransportProtocol a b \<longleftrightarrow> a \<le> b \<and> \<not> b \<le> (a :: TransportProtocol)"

instance
proof
  fix a b c :: TransportProtocol
  show "a < b \<longleftrightarrow> a \<le> b \<and> \<not> b \<le> a" by (simp add: less_TransportProtocol_def)
  show "a \<le> a" by (cases a) simp_all
  show "a \<le> b \<Longrightarrow> b \<le> c \<Longrightarrow> a \<le> c" by (cases a; cases b; cases c) simp_all
  show "a \<le> b \<Longrightarrow> b \<le> a \<Longrightarrow> a = b" by (cases a; cases b) simp_all
  show "a \<le> b \<or> b \<le> a" by (cases a; cases b) simp_all
qed

end

record PortConfig =
  number :: "16 word"
  protocol :: TransportProtocol

datatype PortType =
    Ssh | Telnet | DnsUdp | DnsTcp | Samba | Nfs
  | Ftp | Ipp | LdpTcp | LdpUdp | Ldap | Ldaps
  | Kerberos | Snmp | SnmpAlt | Rdp | Ntp | Sip
  | SipTls | Rtsp | Dhcp | Http | MySql | PostgreSQL
  | MongoDB | Redis | MsSql | Docker | DockerTls | Kubernetes
  | RabbitMqMgmt | Cassandra | Elasticsearch | InfluxDb | CouchDb | Kafka
  | Http3000 | Http5000 | Http8080 | Http8081 | Http8082 | Http8888
  | Http9000 | Https | Https8443 | Https9443 | Https10443 | Mqtt
  | MqttTls | AMQP | AMQPTls | Wireguard | OpenVPN | BACnet
  | JetDirect
  | Custom PortConfig

fun config :: "PortType \<Rightarrow> PortConfig" where
  "config Ssh = \<lparr>number = 22, protocol = Tcp\<rparr>"
| "config Telnet = \<lparr>number = 23, protocol = Tcp\<rparr>"
| "config DnsTcp = \<lparr>number = 53, protocol = Tcp\<rparr>"
| "config DnsUdp = \<lparr>number = 53, protocol = Udp\<rparr>"
| "config Samba = \<lparr>number = 445, protocol = Tcp\<rparr>"
| "config Sip = \<lparr>number = 5060, protocol = Tcp\<rparr>"
| "config SipTls = \<lparr>number = 5061, protocol = Tcp\<rparr>"
| "config Ldap = \<lparr>number = 389, protocol = Tcp\<rparr>"
| "config Ldaps = \<lparr>number = 636, protocol = Tcp\<rparr>"
| "config Kerberos = \<lparr>number = 88, protocol = Tcp\<rparr>"
| "config Nfs = \<lparr>number = 2049, protocol = Tcp\<rparr>"
| "config Ftp = \<lparr>number = 21, protocol = Tcp\<rparr>"
| "config Ipp = \<lparr>number = 631, protocol = Tcp\<rparr>"
| "config LdpTcp = \<lparr>number = 515, protocol = Tcp\<rparr>"
| "config LdpUdp = \<lparr>number = 515, protocol = Udp\<rparr>"
| "config Snmp = \<lparr>number = 161, protocol = Udp\<rparr>"
| "config SnmpAlt = \<lparr>number = 1161, protocol = Udp\<rparr>"
| "config Rdp = \<lparr>number = 3389, protocol = Tcp\<rparr>"
| "config Ntp = \<lparr>number = 123, protocol = Udp\<rparr>"
| "config Rtsp = \<lparr>number = 554, protocol = Tcp\<rparr>"
| "config Dhcp = \<lparr>number = 67, protocol = Udp\<rparr>"
| "config Http = \<lparr>number = 80, protocol = Tcp\<rparr>"
| "config Http8080 = \<lparr>number = 8080, protocol = Tcp\<rparr>"
| "config Https = \<lparr>number = 443, protocol = Tcp\<rparr>"
| "config Https8443 = \<lparr>number = 8443, protocol = Tcp\<rparr>"
| "config MySql = \<lparr>number = 3306, protocol = Tcp\<rparr>"
| "config PostgreSQL = \<lparr>number = 5432, protocol = Tcp\<rparr>"
| "config MongoDB = \<lparr>number = 27017, protocol = Tcp\<rparr>"
| "config Redis = \<lparr>number = 6379, protocol = Tcp\<rparr>"
| "config MsSql = \<lparr>number = 1433, protocol = Tcp\<rparr>"
| "config Docker = \<lparr>number = 2375, protocol = Tcp\<rparr>"
| "config DockerTls = \<lparr>number = 2376, protocol = Tcp\<rparr>"
| "config Kubernetes = \<lparr>number = 6443, protocol = Tcp\<rparr>"
| "config RabbitMqMgmt = \<lparr>number = 15672, protocol = Tcp\<rparr>"
| "config Kafka = \<lparr>number = 9092, protocol = Tcp\<rparr>"
| "config Http3000 = \<lparr>number = 3000, protocol = Tcp\<rparr>"
| "config Http5000 = \<lparr>number = 5000, protocol = Tcp\<rparr>"
| "config Http8081 = \<lparr>number = 8081, protocol = Tcp\<rparr>"
| "config Http8082 = \<lparr>number = 8082, protocol = Tcp\<rparr>"
| "config Http8888 = \<lparr>number = 8888, protocol = Tcp\<rparr>"
| "config Http9000 = \<lparr>number = 9000, protocol = Tcp\<rparr>"
| "config Https9443 = \<lparr>number = 9443, protocol = Tcp\<rparr>"
| "config Https10443 = \<lparr>number = 10443, protocol = Tcp\<rparr>"
| "config Cassandra = \<lparr>number = 9042, protocol = Tcp\<rparr>"
| "config Elasticsearch = \<lparr>number = 9200, protocol = Tcp\<rparr>"
| "config InfluxDb = \<lparr>number = 8086, protocol = Tcp\<rparr>"
| "config CouchDb = \<lparr>number = 5984, protocol = Tcp\<rparr>"
| "config (Custom c) = c"
| "config Mqtt = \<lparr>number = 1883, protocol = Tcp\<rparr>"
| "config MqttTls = \<lparr>number = 8883, protocol = Tcp\<rparr>"
| "config AMQP = \<lparr>number = 5672, protocol = Tcp\<rparr>"
| "config AMQPTls = \<lparr>number = 5671, protocol = Tcp\<rparr>"
| "config Wireguard = \<lparr>number = 51820, protocol = Udp\<rparr>"
| "config OpenVPN = \<lparr>number = 1194, protocol = Udp\<rparr>"
| "config BACnet = \<lparr>number = 47808, protocol = Udp\<rparr>"
| "config JetDirect = \<lparr>number = 9100, protocol = Tcp\<rparr>"

definition port_type_iter :: "PortType list" where
  "port_type_iter =
    [Ssh, Telnet, DnsUdp, DnsTcp, Samba, Nfs,
     Ftp, Ipp, LdpTcp, LdpUdp, Ldap, Ldaps,
     Kerberos, Snmp, SnmpAlt, Rdp, Ntp, Sip,
     SipTls, Rtsp, Dhcp, Http, MySql, PostgreSQL,
     MongoDB, Redis, MsSql, Docker, DockerTls, Kubernetes,
     RabbitMqMgmt, Cassandra, Elasticsearch, InfluxDb, CouchDb, Kafka,
     Http3000, Http5000, Http8080, Http8081, Http8082, Http8888,
     Http9000, Https, Https8443, Https9443, Https10443, Mqtt,
     MqttTls, AMQP, AMQPTls, Wireguard, OpenVPN, BACnet,
     JetDirect,
     Custom \<lparr>number = 0, protocol = Udp\<rparr>]"

text \<open>
  \<open>PortType::iter()\<close> yields the variants in declaration order, \<open>Custom\<close> with the default
  configuration last.
\<close>

definition port_number :: "PortType \<Rightarrow> 16 word" where
  "port_number p = number (config p)"

definition port_protocol :: "PortType \<Rightarrow> TransportProtocol" where
  "port_protocol p = protocol (config p)"

definition port_eq :: "PortType \<Rightarrow> PortType \<Rightarrow> bool" where
  "port_eq a b \<longleftrightarrow> number (config a) = number (config b) \<and> protocol (config a) = protocol (config b)"

definition new_port_type :: "16 word \<Rightarrow> TransportProtocol \<Rightarrow> PortType" where
  "new_port_type n p = Custom \<lparr>number = n, protocol = p\<rparr>"

definition new_tcp :: "16 word \<Rightarrow> PortType" where
  "new_tcp n = Custom \<lparr>number = n, protocol = Tcp\<rparr>"

definition new_udp :: "16 word \<Rightarrow> PortType" where
  "new_udp n = Custom \<lparr>number = n, protocol = Udp\<rparr>"

definition is_tcp :: "PortType \<Rightarrow> bool" where
  "is_tcp p \<longleftrightarrow> port_protocol p = Tcp"

definition is_udp :: "PortType \<Rightarrow> bool" where
  "is_udp p \<longleftrightarrow> port_protocol p = Udp"

fun is_custom :: "PortType \<Rightarrow> bool" where
  "is_custom (Custom _) = True"
| "is_custom _ = False"

definition is_https :: "PortType \<Rightarrow> bool" where
  "is_https p \<longleftrightarrow> p \<in> {Https, Https10443, Https8443, Https9443}"

definition is_raw_socket :: "PortType \<Rightarrow> bool" where
  "is_raw_socket p \<longleftrightarrow> 9100 \<le> port_number p \<and> port_number p \<le> 9107"

section \<open>Serialisation\<close>

text \<open>
  The serialised form has the number, the protocol and the variant's name; deserialisation
  ignores the name and takes the first named variant with that number and protocol.
\<close>

record port_type_json =
  json_number :: "16 word"
  json_protocol :: TransportProtocol

definition serialize_port_type :: "PortType \<Rightarrow> port_type_json" where
  "serialize_port_type p =
     (let c = config p in \<lparr>json_number = number c, json_protocol = protocol c\<rparr>)"

definition deserialize_port_type :: "port_type_json \<Rightarrow> PortType" where
  "deserialize_port_type temp =
     (case find (\<lambda>v. \<not> is_custom v \<and> number (config v) = json_number temp
                      \<and> protocol (config v) = json_protocol temp) port_type_iter of
        Some v \<Rightarrow> v
      | None \<Rightarrow> Custom \<lparr>number = json_number temp, protocol = json_protocol temp\<rparr>)"

section \<open>The port entity\<close>

record PortBase =
  port_host_id :: uuid
  port_network_id :: uuid
  port_type :: PortType

record Port =
  port_id :: uuid
  port_created_at :: datetime
  port_updated_at :: datetime
  port_valid_from :: datetime
  port_valid_to :: "datetime option"
  port_lineage_id :: "uuid option"
  port_last_seen_at :: datetime
  port_last_discovery_id :: "uuid option"
  port_first_discovery_id :: "uuid option"
  port_base :: PortBase

definition port_base_eq :: "PortBase \<Rightarrow> PortBase \<Rightarrow> bool" where
  "port_base_eq a b \<longleftrightarrow> port_eq (port_type a) (port_type b)"

definition port_entity_eq :: "Port \<Rightarrow> Port \<Rightarrow> bool" where
  "port_entity_eq a b \<longleftrightarrow> port_base_eq (port_base a) (port_base b)"

definition new_hostless_base :: "PortType \<Rightarrow> PortBase" where
  "new_hostless_base p = \<lparr>port_host_id = nil_uuid, port_network_id = nil_uuid, port_type = p\<rparr>"

text \<open>\<open>Port::new\<close>, with the fresh id and the current instant as arguments.\<close>

definition new_port :: "uuid \<Rightarrow> datetime \<Rightarrow> PortBase \<Rightarrow> Port" where
  "new_port fresh now b =
     \<lparr>port_id = fresh, port_created_at = now, port_updated_at = now, port_valid_from = now,
      port_valid_to = None, port_lineage_id = None, port_last_seen_at = now,
      port_last_discovery_id = None, port_first_discovery_id = None, port_base = b\<rparr>"

definition new_hostless :: "uuid \<Rightarrow> datetime \<Rightarrow> PortType \<Rightarrow> Port" where
  "new_hostless fresh now p = new_port fresh now (new_hostless_base p)"

definition with_host :: "Port \<Rightarrow> uuid \<Rightarrow> uuid \<Rightarrow> Port" where
  "with_host p h n = p\<lparr>port_base := (port_base p)\<lparr>port_host_id := h, port_network_id := n\<rparr>\<rparr>"

definition port_triggers_staleness :: "Port \<Rightarrow> Port option \<Rightarrow> bool" where
  "port_triggers_staleness p other =
     (case other of
        Some q \<Rightarrow> \<not> port_eq (port_type (port_base p)) (port_type (port_base q))
          \<or> port_host_id (port_base p) \<noteq> port_host_id (port_base q)
          \<or> config (port_type (port_base p)) \<noteq> config (port_type (port_base q))
      | None \<Rightarrow> True)"

section \<open>Facts\<close>

lemma port_eq_config: "port_eq a b \<longleftrightarrow> config a = config b"
  by (cases "config a"; cases "config b") (simp add: port_eq_def)

lemma port_eq_refl [simp]: "port_eq a a"
  by (simp add: port_eq_def)

lemma port_eq_sym: "port_eq a b \<longleftrightarrow> port_eq b a"
  by (auto simp: port_eq_def)

lemma port_eq_trans: "port_eq a b \<Longrightarrow> port_eq b c \<Longrightarrow> port_eq a c"
  by (simp add: port_eq_def)

lemma named_in_iter: "\<not> is_custom p \<Longrightarrow> p \<in> set port_type_iter"
  by (cases p) (simp_all add: port_type_iter_def)

lemma named_configs_distinct:
  "distinct (map (\<lambda>p. (number (config p), protocol (config p))) (butlast port_type_iter))"
  by (simp add: port_type_iter_def)

lemma deserialize_config:
  "config (deserialize_port_type j) = \<lparr>number = json_number j, protocol = json_protocol j\<rparr>"
proof (cases "find (\<lambda>v. \<not> is_custom v \<and> number (config v) = json_number j
                      \<and> protocol (config v) = json_protocol j) port_type_iter")
  case None
  then show ?thesis by (simp add: deserialize_port_type_def)
next
  case (Some v)
  then have "number (config v) = json_number j" "protocol (config v) = json_protocol j"
    by (auto simp: find_Some_iff)
  with Some show ?thesis by (simp add: deserialize_port_type_def)
qed

lemma deserialize_serialize_eq: "port_eq (deserialize_port_type (serialize_port_type p)) p"
  by (simp add: port_eq_def deserialize_config serialize_port_type_def Let_def)

lemma deserialize_serialize_named:
  "\<not> is_custom p \<Longrightarrow> deserialize_port_type (serialize_port_type p) = p"
  by (cases p) (simp_all add: deserialize_port_type_def serialize_port_type_def port_type_iter_def)

end
