(* ===== verification/Positions.thy ===== *)
theory Positions
  imports Prelude
begin

text \<open>
  Positions of ordered entities (\<^verbatim>\<open>backend/src/server/shared/position.rs\<close>).
  The traits \<open>Positioned\<close> and \<open>PositionedInput\<close> are dictionaries of their methods; the
  generic functions of the source take the dictionary as their first argument, and the laws
  an implementation keeps (a setter sets the position and nothing else that is observed)
  are the locales \<open>positioned_entity\<close> and \<open>positioned_request\<close>.
\<close>

section \<open>Traits and errors\<close>

record 'e Positioned =
  position :: "'e \<Rightarrow> int"
  set_position :: "'e \<Rightarrow> int \<Rightarrow> 'e"
  ident :: "'e \<Rightarrow> uuid"
  entity_name :: string

record 'i PositionedInput =
  input_position :: "'i \<Rightarrow> int option"
  input_set_position :: "'i \<Rightarrow> int \<Rightarrow> 'i"
  input_ident :: "'i \<Rightarrow> uuid"

text \<open>Every \<open>ApiError::bad_request\<close> of the module, with the values its message shows.\<close>

datatype position_error =
    DuplicatePosition string int
  | NotSequential string nat int nat
  | MixedPositions string nat nat
  | NoEntities string
  | PositionOutOfRange string int int
  | PositionInUse string int

section \<open>Validation\<close>

fun first_duplicate :: "int list \<Rightarrow> int option" where
  "first_duplicate (x # y # ys) = (if x = y then Some x else first_duplicate (y # ys))"
| "first_duplicate _ = None"

fun first_gap :: "nat \<Rightarrow> int list \<Rightarrow> (nat \<times> int) option" where
  "first_gap i [] = None"
| "first_gap i (x # xs) = (if x \<noteq> as_i32 i then Some (i, x) else first_gap (Suc i) xs)"

definition validate_sequential_positions :: "int list \<Rightarrow> string \<Rightarrow> (position_error, unit) result" where
  "validate_sequential_positions positions name =
     (if positions = [] then Ok ()
      else let sorted = sort positions in
        case first_duplicate sorted of
          Some d \<Rightarrow> Err (DuplicatePosition name d)
        | None \<Rightarrow> (case first_gap 0 sorted of
            Some (e, a) \<Rightarrow> Err (NotSequential name e a (length positions - 1))
          | None \<Rightarrow> Ok ()))"

definition validate_input_positions ::
    "'i PositionedInput \<Rightarrow> 'i list \<Rightarrow> string \<Rightarrow> (position_error, unit) result" where
  "validate_input_positions D inputs name =
     validate_sequential_positions (List.map_filter (input_position D) inputs) name"

definition validate_entity_positions :: "'e Positioned \<Rightarrow> 'e list \<Rightarrow> (position_error, unit) result" where
  "validate_entity_positions D entities =
     validate_sequential_positions (map (position D) entities) (entity_name D)"

definition validate_position_range :: "int \<Rightarrow> nat \<Rightarrow> string \<Rightarrow> (position_error, unit) result" where
  "validate_position_range new_position cnt name =
     (if cnt = 0 then Err (NoEntities name)
      else let max_position = wrap_i32 (as_i32 cnt - 1) in
        if new_position < 0 \<or> new_position > max_position
        then Err (PositionOutOfRange name new_position max_position)
        else Ok ())"

definition validate_no_position_conflict ::
    "'e Positioned \<Rightarrow> int \<Rightarrow> uuid option \<Rightarrow> 'e list \<Rightarrow> (position_error, unit) result" where
  "validate_no_position_conflict D new_position exclude_id existing =
     (if \<exists>e \<in> set existing. position D e = new_position \<and> Some (ident D e) \<noteq> exclude_id
      then Err (PositionInUse (entity_name D) new_position)
      else Ok ())"

section \<open>Resolution of optional positions\<close>

text \<open>
  \<open>existing_by_id\<close> is the \<open>HashMap\<close> collected from the existing entities: a later entity
  with the same id overwrites an earlier one.
\<close>

definition existing_by_id :: "'e Positioned \<Rightarrow> 'e list \<Rightarrow> uuid \<Rightarrow> int option" where
  "existing_by_id D existing = map_of (rev (map (\<lambda>e. (ident D e, position D e)) existing))"

fun assign_positions ::
    "'i PositionedInput \<Rightarrow> (uuid \<Rightarrow> int option) \<Rightarrow> int \<Rightarrow> 'i list \<Rightarrow> 'i list" where
  "assign_positions D look next_pos [] = []"
| "assign_positions D look next_pos (x # xs) =
     (case look (input_ident D x) of
        Some pos \<Rightarrow> input_set_position D x pos # assign_positions D look next_pos xs
      | None \<Rightarrow> input_set_position D x next_pos
          # assign_positions D look (wrap_i32 (next_pos + 1)) xs)"

definition resolve_and_validate_input_positions ::
    "'i PositionedInput \<Rightarrow> 'e Positioned \<Rightarrow> 'i list \<Rightarrow> 'e list \<Rightarrow> string
      \<Rightarrow> (position_error, 'i list) result" where
  "resolve_and_validate_input_positions DI DE inputs existing name =
     (if inputs = [] then Ok inputs
      else let specified_count = length (filter (\<lambda>i. input_position DI i \<noteq> None) inputs) in
        if specified_count > 0 \<and> specified_count < length inputs
        then Err (MixedPositions name specified_count (length inputs - specified_count))
        else if specified_count = length inputs
        then (case validate_sequential_positions
                     (List.map_filter (input_position DI) inputs) name of
                Inl e \<Rightarrow> Err e
              | Inr _ \<Rightarrow> Ok inputs)
        else Ok (assign_positions DI (existing_by_id DE existing)
                   (as_i32 (length existing)) inputs))"

section \<open>Position operations\<close>

text \<open>
  The slice is mutated in place: the operations return the new slice and the returned flag.
  \<open>sort_by_key\<close> is stable, as \<open>sort_key\<close> is.
\<close>

fun renumber_from :: "'e Positioned \<Rightarrow> nat \<Rightarrow> 'e list \<Rightarrow> 'e list \<times> bool" where
  "renumber_from D i [] = ([], False)"
| "renumber_from D i (e # es) =
     (let (es', changed) = renumber_from D (Suc i) es in
      if position D e \<noteq> as_i32 i then (set_position D e (as_i32 i) # es', True)
      else (e # es', changed))"

definition renumber_positions :: "'e Positioned \<Rightarrow> 'e list \<Rightarrow> 'e list \<times> bool" where
  "renumber_positions D entities =
     (if entities = [] then (entities, False)
      else renumber_from D 0 (sort_key (position D) entities))"

definition next_position :: "'e list \<Rightarrow> int" where
  "next_position existing = as_i32 (length existing)"

definition shift_down :: "'e Positioned \<Rightarrow> int \<Rightarrow> int \<Rightarrow> 'e \<Rightarrow> 'e" where
  "shift_down D from to e =
     (let pos = position D e in
      if pos = from then set_position D e to
      else if pos > from \<and> pos \<le> to then set_position D e (wrap_i32 (pos - 1))
      else e)"

definition shift_up :: "'e Positioned \<Rightarrow> int \<Rightarrow> int \<Rightarrow> 'e \<Rightarrow> 'e" where
  "shift_up D from to e =
     (let pos = position D e in
      if pos = from then set_position D e to
      else if pos \<ge> to \<and> pos < from then set_position D e (wrap_i32 (pos + 1))
      else e)"

definition reorder_positions :: "'e Positioned \<Rightarrow> 'e list \<Rightarrow> int \<Rightarrow> int \<Rightarrow> 'e list \<times> bool" where
  "reorder_positions D entities from to =
     (if from = to then (entities, False)
      else let cnt = as_i32 (length entities) in
        if from < 0 \<or> from \<ge> cnt \<or> to < 0 \<or> to \<ge> cnt then (entities, False)
        else let sorted = sort_key (position D) entities in
          (if from < to then map (shift_down D from to) sorted
           else map (shift_up D from to) sorted, True))"

section \<open>The specification: a valid ordering\<close>

text \<open>A collection is well ordered when its positions are \<open>0, 1, \<dots>, n - 1\<close> in some order.\<close>

definition valid_positions :: "int list \<Rightarrow> bool" where
  "valid_positions ps \<longleftrightarrow> distinct ps \<and> set ps = {0..<int (length ps)}"

lemma distinct_map_int_upt [simp]: "distinct (map int [a..<b])"
  by (simp add: distinct_map)

lemma set_map_int_upt: "set (map int [0..<n]) = {0..<int n}"
  by (simp add: image_int_atLeastLessThan)

lemma valid_positions_sort: "valid_positions ps \<longleftrightarrow> sort ps = map int [0..<length ps]"
proof
  assume "valid_positions ps"
  then have "distinct (sort ps)" "set (sort ps) = set (map int [0..<length ps])"
    unfolding valid_positions_def set_map_int_upt by simp_all
  then show "sort ps = map int [0..<length ps]"
    using sorted_distinct_set_unique sorted_sort sorted_map_int_upt distinct_map_int_upt by blast
next
  assume eq: "sort ps = map int [0..<length ps]"
  have "distinct (sort ps)" "set (sort ps) = {0..<int (length ps)}"
    unfolding eq set_map_int_upt by simp_all
  then show "valid_positions ps" by (simp add: valid_positions_def)
qed

lemma valid_positions_mset:
  "valid_positions ps \<longleftrightarrow> mset ps = mset (map int [0..<length ps])"
  unfolding valid_positions_sort
  by (metis mset_sort sort_eq_if_mset_eq sorted_map_int_upt)

section \<open>Correctness of validation\<close>

lemma first_duplicate_None: "sorted xs \<Longrightarrow> first_duplicate xs = None \<longleftrightarrow> distinct xs"
  by (induction xs rule: first_duplicate.induct) force+

lemma first_duplicate_Some: "sorted xs \<Longrightarrow> first_duplicate xs = Some d \<Longrightarrow> count_list xs d > 1"
  by (induction xs rule: first_duplicate.induct) (auto split: if_splits)

lemma first_gap_None:
  "i + length xs \<le> 2147483648 \<Longrightarrow>
   first_gap i xs = None \<longleftrightarrow> xs = map int [i..<i + length xs]"
proof (induction xs arbitrary: i)
  case Nil
  then show ?case by simp
next
  case (Cons x xs)
  have "as_i32 i = int i" using Cons.prems by (simp add: as_i32_id)
  moreover have "[i..<i + length (x # xs)] = i # [Suc i..<Suc i + length xs]"
    by (simp add: upt_conv_Cons del: upt_Suc)
  ultimately show ?case using Cons.IH [of "Suc i"] Cons.prems by (auto simp del: upt_Suc)
qed

lemma validate_sequential_Ok_iff:
  assumes "length ps \<le> 2147483648"
  shows "validate_sequential_positions ps name = Ok () \<longleftrightarrow> valid_positions ps"
proof (cases "ps = []")
  case True
  then show ?thesis by (simp add: validate_sequential_positions_def valid_positions_def)
next
  case False
  have "validate_sequential_positions ps name = Ok ()
      \<longleftrightarrow> distinct (sort ps) \<and> first_gap 0 (sort ps) = None"
    using False first_duplicate_None [of "sort ps"]
    by (auto simp: validate_sequential_positions_def Let_def split: option.splits)
  also have "\<dots> \<longleftrightarrow> sort ps = map int [0..<length ps]"
    using first_gap_None [of 0 "sort ps"] assms distinct_map_int_upt [of 0 "length ps"]
    by (metis add_0 length_sort)
  finally show ?thesis by (simp add: valid_positions_sort)
qed

lemma validate_sequential_Err:
  assumes "validate_sequential_positions ps name = Err e" and "length ps \<le> 2147483648"
  shows "(\<exists>d. e = DuplicatePosition name d \<and> count_list (sort ps) d > 1) \<or>
         (\<exists>x a. e = NotSequential name x a (length ps - 1) \<and> distinct ps)"
  using assms first_duplicate_Some [of "sort ps"] first_duplicate_None [of "sort ps"]
  by (auto simp: validate_sequential_positions_def Let_def split: if_splits option.splits)

section \<open>The traits' laws\<close>

locale positioned_entity =
  fixes D :: "'e Positioned"
  assumes position_set: "position D (set_position D e p) = p"
    and ident_set: "ident D (set_position D e p) = ident D e"
begin

lemma renumber_from_positions:
  "map (position D) (fst (renumber_from D i es)) = map as_i32 [i..<i + length es]"
  by (induction es arbitrary: i)
    (auto simp: position_set upt_conv_Cons Let_def case_prod_beta simp del: upt_Suc)

lemma renumber_from_ident: "map (ident D) (fst (renumber_from D i es)) = map (ident D) es"
  by (induction es arbitrary: i) (auto simp: ident_set Let_def case_prod_beta)

lemma renumber_from_changed:
  "snd (renumber_from D i es) \<longleftrightarrow> map (position D) es \<noteq> map as_i32 [i..<i + length es]"
  by (induction es arbitrary: i)
    (auto simp: upt_conv_Cons Let_def case_prod_beta simp del: upt_Suc)

lemma renumber_from_length: "length (fst (renumber_from D i es)) = length es"
  using renumber_from_ident map_eq_imp_length_eq by blast

lemma map_as_i32_upt: "b \<le> 2147483648 \<Longrightarrow> map as_i32 [a..<b] = map int [a..<b]"
  by (simp add: as_i32_id)

lemma renumber_positions_eq:
  assumes "length es \<le> 2147483648"
  shows "map (position D) (fst (renumber_positions D es)) = map int [0..<length es]"
    and "map (ident D) (fst (renumber_positions D es)) = map (ident D) (sort_key (position D) es)"
  using assms renumber_from_positions [of 0 "sort_key (position D) es"]
  by (simp_all add: renumber_positions_def renumber_from_ident map_as_i32_upt)

lemma renumber_positions_changed:
  assumes "length es \<le> 2147483648"
  shows "snd (renumber_positions D es) \<longleftrightarrow> \<not> valid_positions (map (position D) es)"
  using assms renumber_from_changed [of 0 "sort_key (position D) es"]
  by (auto simp: renumber_positions_def valid_positions_sort map_as_i32_upt map_sort_key)

end

subsection \<open>Moving one element\<close>

text \<open>
  What a reorder does to the sequence of entities: take the element at \<open>from\<close> out and put it
  back at \<open>to\<close>. \<open>move_pos\<close> is the same move on positions.
\<close>

definition list_move :: "nat \<Rightarrow> nat \<Rightarrow> 'a list \<Rightarrow> 'a list" where
  "list_move from to xs =
     (let ys = take from xs @ drop (Suc from) xs in take to ys @ xs ! from # drop to ys)"

definition move_pos :: "int \<Rightarrow> int \<Rightarrow> int \<Rightarrow> int" where
  "move_pos from to pos =
     (if pos = from then to
      else if from < pos \<and> pos \<le> to then pos - 1
      else if to \<le> pos \<and> pos < from then pos + 1 else pos)"

lemma length_list_move [simp]: "from < length xs \<Longrightarrow> length (list_move from to xs) = length xs"
  by (auto simp: list_move_def Let_def)

lemma mset_insert_at: "mset (take k ys @ x # drop k ys) = add_mset x (mset ys)"
  using mset_append [of "take k ys" "drop k ys"] by simp

lemma mset_list_move:
  assumes "from < length xs"
  shows "mset (list_move from to xs) = mset xs"
proof -
  have "mset (list_move from to xs) =
      mset (take from xs @ xs ! from # drop (Suc from) xs)"
    unfolding list_move_def Let_def mset_insert_at by simp
  then show ?thesis using id_take_nth_drop [OF assms] by simp
qed

lemma map_list_move: "from < length xs \<Longrightarrow> map f (list_move from to xs) = list_move from to (map f xs)"
  by (simp add: list_move_def Let_def take_map drop_map)

lemma nth_list_move:
  assumes "from < length xs" "to < length xs" "i < length xs"
  shows "list_move from to xs ! i =
    xs ! (if i = to then from
          else if from \<le> i \<and> i < to then Suc i
          else if to < i \<and> i \<le> from then i - 1 else i)"
  using assms by (auto simp: list_move_def Let_def nth_append min_def nth_Cons' not_less)

lemma list_move_positions:
  assumes "from < n" "to < n"
  shows "list_move from to (map (\<lambda>i. move_pos (int from) (int to) (int i)) [0..<n]) = map int [0..<n]"
  by (rule nth_equalityI) (use assms in \<open>auto simp: nth_list_move move_pos_def\<close>)

lemma move_pos_undo: "move_pos to from (move_pos from to p) = p"
  by (auto simp: move_pos_def)

context positioned_entity
begin

lemma shift_eq_move:
  assumes "0 \<le> from" "from < 2147483648" "0 \<le> to" "to < 2147483648"
  shows "from < to \<Longrightarrow> position D (shift_down D from to e) = move_pos from to (position D e)"
    and "to < from \<Longrightarrow> position D (shift_up D from to e) = move_pos from to (position D e)"
    and "ident D (shift_down D from to e) = ident D e"
    and "ident D (shift_up D from to e) = ident D e"
  using assms
  by (auto simp: shift_down_def shift_up_def move_pos_def Let_def position_set ident_set
      wrap_i32_id i32_range_def)

lemma reorder_positions_refines:
  assumes valid: "valid_positions (map (position D) es)"
    and len: "length es < 2147483648"
    and "from < length es" "to < length es" "from \<noteq> to"
    and res: "reorder_positions D es (int from) (int to) = (es', b)"
  shows "b" and "valid_positions (map (position D) es')"
    and "map (ident D) (sort_key (position D) es') =
         list_move from to (map (ident D) (sort_key (position D) es))"
proof -
  let ?s = "sort_key (position D) es"
  have pos_s: "map (position D) ?s = map int [0..<length es]"
    using valid by (simp add: map_sort_key valid_positions_sort)
  have es': "b" "map (ident D) es' = map (ident D) ?s"
    "map (position D) es' = map (\<lambda>e. move_pos (int from) (int to) (position D e)) ?s"
    using res assms(3-5) len
    by (auto simp: reorder_positions_def Let_def as_i32_id shift_eq_move split: if_splits)
  have len': "length es' = length es" using es'(2) by (metis length_map length_sort)
  have pos': "map (position D) es' = map (\<lambda>i. move_pos (int from) (int to) (int i)) [0..<length es]"
    using es'(3) arg_cong [OF pos_s, of "map (move_pos (int from) (int to))"]
    by (simp add: comp_def)
  have moved: "map (position D) (list_move from to es') = map int [0..<length es]"
    using pos' list_move_positions [OF assms(3,4)] assms(3) len' by (simp add: map_list_move)
  have ms: "mset (list_move from to es') = mset es'"
    using assms(3) len' by (simp add: mset_list_move)
  have "mset (map (position D) es') = mset (map int [0..<length es])"
    using moved ms by (metis mset_map)
  then show v: "valid_positions (map (position D) es')"
    by (simp add: valid_positions_mset len')
  have "sort_key (position D) es' = list_move from to es'"
    using v moved ms
    by (intro sort_key_inj_key_eq) (auto simp: valid_positions_def distinct_map)
  then show "map (ident D) (sort_key (position D) es') = list_move from to (map (ident D) ?s)"
    using es'(2) assms(3) len' by (simp add: map_list_move)
  show "b" by (fact es'(1))
qed

end

section \<open>Correctness of resolution\<close>

lemma existing_by_id_eq:
  assumes "distinct (map (ident D) existing)"
  shows "existing_by_id D existing k = Some p \<longleftrightarrow>
    (\<exists>e \<in> set existing. ident D e = k \<and> position D e = p)"
proof -
  have "distinct (map fst (rev (map (\<lambda>e. (ident D e, position D e)) existing)))"
    using assms by (simp add: rev_map comp_def) (metis distinct_rev rev_map)
  then show ?thesis
    unfolding existing_by_id_def by (subst map_of_eq_Some_iff) auto
qed

lemma existing_by_id_None:
  "existing_by_id D existing k = None \<longleftrightarrow> k \<notin> ident D ` set existing"
  unfolding existing_by_id_def by (auto simp: map_of_eq_None_iff image_image)

text \<open>
  Looking up, in the existing positions, any list of ids that is a rearrangement of the
  existing ids yields a rearrangement of the existing positions.
\<close>

lemma mset_lookup_existing:
  assumes "distinct (map (ident D) existing)" "distinct ks" "set ks = ident D ` set existing"
  shows "mset (map (existing_by_id D existing) ks) = mset (map (Some \<circ> position D) existing)"
proof -
  let ?look = "existing_by_id D existing"
  have "mset ks = mset (map (ident D) existing)"
    using assms by (metis list.set_map set_eq_iff_mset_eq_distinct)
  then have "mset (map ?look ks) = mset (map ?look (map (ident D) existing))"
    by (metis mset_map)
  also have "map ?look (map (ident D) existing) = map (Some \<circ> position D) existing"
    using existing_by_id_eq [OF assms(1)] by fastforce
  finally show ?thesis .
qed

locale positioned_request =
  fixes D :: "'i PositionedInput"
  assumes input_position_set: "input_position D (input_set_position D x p) = Some p"
    and input_ident_set: "input_ident D (input_set_position D x p) = input_ident D x"
begin

lemma assign_positions_ident:
  "map (input_ident D) (assign_positions D look k xs) = map (input_ident D) xs"
  by (induction xs arbitrary: k) (auto simp: input_ident_set split: option.splits)

lemma assign_positions_specified:
  "x \<in> set (assign_positions D look k xs) \<Longrightarrow> input_position D x \<noteq> None"
  by (induction xs arbitrary: k) (auto simp: input_position_set split: option.splits)

lemma mset_assign_positions:
  "k + length (filter (\<lambda>x. look (input_ident D x) = None) xs) \<le> 2147483647 \<Longrightarrow>
   mset (map (input_position D) (assign_positions D look (int k) xs)) =
   mset (map (\<lambda>x. look (input_ident D x)) (filter (\<lambda>x. look (input_ident D x) \<noteq> None) xs)) +
   mset (map (\<lambda>i. Some (int i)) [k..<k + length (filter (\<lambda>x. look (input_ident D x) = None) xs)])"
proof (induction xs arbitrary: k)
  case Nil
  then show ?case by simp
next
  case (Cons x xs)
  show ?case
  proof (cases "look (input_ident D x)")
    case None
    have "wrap_i32 (int k + 1) = int (Suc k)"
      using Cons.prems None by (simp add: wrap_i32_id i32_range_def)
    then show ?thesis
      using Cons.IH [of "Suc k"] Cons.prems None
      by (simp add: input_position_set upt_conv_Cons del: upt_Suc)
  next
    case (Some p)
    then show ?thesis using Cons by (simp add: input_position_set)
  qed
qed

lemma resolve_all_omitted_valid:
  fixes DE :: "'e Positioned"
  assumes omitted: "\<forall>x \<in> set inputs. input_position D x = None"
    and valid: "valid_positions (map (position DE) existing)"
    and ids: "distinct (map (ident DE) existing)" "distinct (map (input_ident D) inputs)"
    and kept: "ident DE ` set existing \<subseteq> input_ident D ` set inputs"
    and len: "length existing + length inputs < 2147483647"
  shows "\<exists>out. resolve_and_validate_input_positions D DE inputs existing name = Ok out \<and>
    map (input_ident D) out = map (input_ident D) inputs \<and>
    (\<exists>ps. map (input_position D) out = map Some ps \<and> valid_positions ps)"
proof -
  let ?look = "existing_by_id DE existing"
  let ?hit = "filter (\<lambda>x. ?look (input_ident D x) \<noteq> None) inputs"
  let ?miss = "filter (\<lambda>x. ?look (input_ident D x) = None) inputs"
  let ?n = "length existing" and ?m = "length ?miss"
  let ?out = "assign_positions D ?look (int ?n) inputs"
  let ?ps = "map (\<lambda>x. the (input_position D x)) ?out"
  have m_le: "?n + ?m \<le> 2147483647"
    using len length_filter_le [of "\<lambda>x. ?look (input_ident D x) = None" inputs] by linarith
  have ok: "resolve_and_validate_input_positions D DE inputs existing name = Ok ?out"
    using omitted len by (simp add: resolve_and_validate_input_positions_def as_i32_id)
  have "set (map (input_ident D) ?hit) =
      input_ident D ` set inputs \<inter> ident DE ` set existing"
    by (auto simp: existing_by_id_None)
  then have "set (map (input_ident D) ?hit) = ident DE ` set existing"
    using kept by (simp add: Int_absorb1)
  then have hits: "mset (map ?look (map (input_ident D) ?hit)) = mset (map (Some \<circ> position DE) existing)"
    using ids by (intro mset_lookup_existing) (simp_all add: distinct_map_filter)
  have ps: "map (input_position D) ?out = map Some ?ps"
    using assign_positions_specified by simp
  have "mset (map Some ?ps) =
      mset (map (Some \<circ> position DE) existing) + mset (map (\<lambda>i. Some (int i)) [?n..<?n + ?m])"
    using mset_assign_positions [OF m_le] hits unfolding ps by (simp add: comp_def)
  then have "image_mset Some (mset ?ps) =
      image_mset Some (mset (map (position DE) existing) + mset (map int [?n..<?n + ?m]))"
    by (simp add: multiset.map_comp comp_def)
  then have "mset ?ps = mset (map (position DE) existing) + mset (map int [?n..<?n + ?m])"
    by (rule injD [OF multiset.inj_map [OF inj_Some]])
  also have "\<dots> = mset (map int ([0..<?n] @ [?n..<?n + ?m]))"
    using valid by (simp add: valid_positions_mset)
  also have "[0..<?n] @ [?n..<?n + ?m] = [0..<?n + ?m]" by (rule upt_add_eq_append [symmetric]) simp
  finally have ms: "mset ?ps = mset (map int [0..<?n + ?m])" .
  then have "length ?ps = ?n + ?m" using mset_eq_length [OF ms] by simp
  with ms have "valid_positions ?ps" by (simp only: valid_positions_mset)
  then show ?thesis using ok ps assign_positions_ident by blast
qed

end

end
