(* ===== verification/Net_Types.thy ===== *)
theory Net_Types
  imports Ports
begin

text \<open>
  Address and classification types shared by the entities: IP and MAC addresses and CIDR
  blocks as data, the subnet categories with their classification by interface name
  (\<^verbatim>\<open>backend/src/server/subnets/impl/types.rs\<close>), how a match is recorded
  (\<open>MatchReason\<close>, \<open>MatchConfidence\<close>, \<open>MatchDetails\<close> of
  \<^verbatim>\<open>backend/src/server/services/impl/patterns.rs\<close>) and where an entity comes from
  (\<open>EntitySource\<close> of \<^verbatim>\<open>backend/src/server/shared/types/entities.rs\<close>).
\<close>

unbundle bit_operations_syntax

section \<open>Addresses\<close>

datatype IpAddr = V4 "32 word" | V6 "128 word"

text \<open>The last octet of an IPv4 address and the last segment of an IPv6 address.\<close>

fun last_unit :: "IpAddr \<Rightarrow> nat" where
  "last_unit (V4 a) = unat (a AND 255)"
| "last_unit (V6 a) = unat (a AND 65535)"

text \<open>A CIDR block as its network address and prefix length.\<close>

type_synonym IpCidr = "IpAddr \<times> nat"
type_synonym MacAddress = "48 word"

section \<open>Subnet types\<close>

datatype SubnetType =
    Internet | Remote
  | Gateway | VpnTunnel | Dmz
  | Lan | WiFi | IoT | Guest
  | DockerBridge | PodmanBridge | MacVlan | IpVlan | Management | Storage | Loopback
  | Unknown

definition subnet_type_from_str :: "string \<Rightarrow> SubnetType" where
  "subnet_type_from_str s =
     (if s = ''Internet'' then Internet
      else if s = ''Remote'' then Remote
      else if s = ''Gateway'' then Gateway
      else if s = ''VpnTunnel'' then VpnTunnel
      else if s = ''Dmz'' then Dmz
      else if s = ''Lan'' then Lan
      else if s = ''WiFi'' then WiFi
      else if s = ''IoT'' then IoT
      else if s = ''Guest'' then Guest
      else if s = ''DockerBridge'' then DockerBridge
      else if s = ''PodmanBridge'' then PodmanBridge
      else if s = ''MacVlan'' then MacVlan
      else if s = ''IpVlan'' then IpVlan
      else if s = ''Management'' then Management
      else if s = ''Storage'' then Storage
      else if s = ''Loopback'' then Loopback
      else Unknown)"

text \<open>The variant name (\<open>IntoStaticStr\<close>), which is what the database column holds.\<close>

fun subnet_type_str :: "SubnetType \<Rightarrow> string" where
  "subnet_type_str Internet = ''Internet''"
| "subnet_type_str Remote = ''Remote''"
| "subnet_type_str Gateway = ''Gateway''"
| "subnet_type_str VpnTunnel = ''VpnTunnel''"
| "subnet_type_str Dmz = ''Dmz''"
| "subnet_type_str Lan = ''Lan''"
| "subnet_type_str WiFi = ''WiFi''"
| "subnet_type_str IoT = ''IoT''"
| "subnet_type_str Guest = ''Guest''"
| "subnet_type_str DockerBridge = ''DockerBridge''"
| "subnet_type_str PodmanBridge = ''PodmanBridge''"
| "subnet_type_str MacVlan = ''MacVlan''"
| "subnet_type_str IpVlan = ''IpVlan''"
| "subnet_type_str Management = ''Management''"
| "subnet_type_str Storage = ''Storage''"
| "subnet_type_str Loopback = ''Loopback''"
| "subnet_type_str Unknown = ''Unknown''"

definition is_container_network :: "SubnetType \<Rightarrow> bool" where
  "is_container_network t \<longleftrightarrow> t \<in> {DockerBridge, PodmanBridge, MacVlan, IpVlan}"

definition is_container_bridge :: "SubnetType \<Rightarrow> bool" where
  "is_container_bridge t \<longleftrightarrow> t \<in> {DockerBridge, PodmanBridge}"

fun container_runtime_label :: "SubnetType \<Rightarrow> string option" where
  "container_runtime_label DockerBridge = Some ''Docker''"
| "container_runtime_label PodmanBridge = Some ''Podman''"
| "container_runtime_label _ = None"

definition is_loopback_type :: "SubnetType \<Rightarrow> bool" where
  "is_loopback_type t \<longleftrightarrow> t = Loopback"

definition is_vlan_network :: "SubnetType \<Rightarrow> bool" where
  "is_vlan_network t \<longleftrightarrow> t \<in> {MacVlan, IpVlan}"

definition exclude_from_topology :: "SubnetType \<Rightarrow> bool" where
  "exclude_from_topology t \<longleftrightarrow> t = Loopback"

definition synthetic_categories :: "SubnetType list" where
  "synthetic_categories = [Internet, Remote, Loopback]"

definition is_synthetic_category :: "SubnetType \<Rightarrow> bool" where
  "is_synthetic_category t \<longleftrightarrow> t \<in> set synthetic_categories"

definition show_label :: "SubnetType \<Rightarrow> bool" where
  "show_label t \<longleftrightarrow> t \<notin> {Unknown, Loopback}"

subsection \<open>Classification by interface name\<close>

definition match_interface_names :: "string list \<Rightarrow> string \<Rightarrow> bool" where
  "match_interface_names patterns interface_name =
     (let name_lower = to_lowercase interface_name in
      \<exists>p \<in> set patterns.
        starts_with name_lower p \<and>
        (case drop (length p) name_lower of [] \<Rightarrow> True | c # _ \<Rightarrow> is_ascii_digit c))"

function from_interface_name :: "string \<Rightarrow> SubnetType" where
  "from_interface_name n =
     (if match_interface_names [''lo''] n then Loopback
      else if match_interface_names [''tun'', ''utun'', ''wg'', ''tap'', ''ppp'', ''vpn''] n
        then VpnTunnel
      else if match_interface_names [''wlan'', ''wifi'', ''wl''] n then WiFi
      else if match_interface_names [''guest''] n then Guest
      else if match_interface_names [''iot''] n then IoT
      else if match_interface_names [''dmz''] n then Dmz
      else if match_interface_names [''mgmt'', ''ipmi'', ''bmc''] n then Management
      else if match_interface_names [''iscsi'', ''san'', ''storage''] n then Storage
      else if match_interface_names [''eth'', ''en'', ''eno'', ''enp'', ''ens'', ''br'', ''lan''] n
        then Lan
      else if starts_with (to_lowercase n) ''br-'' \<and> drop 3 (to_lowercase n) \<noteq> []
        then from_interface_name (drop 3 (to_lowercase n))
      else Unknown)"
  by pat_completeness auto
termination
  by (relation "measure length") (auto simp: starts_with_iff)

declare from_interface_name.simps [simp del]

section \<open>Matches and sources\<close>

text \<open>
  The texts of the matcher: one constructor per message the sources format, with the values
  the message shows; \<open>Variant\<close> is the variant name that the derived \<open>Display\<close> of
  \<open>MatchReason\<close> prints, \<open>Joined\<close> the comma-separated list of errors.
\<close>

datatype match_text =
    Text string
  | PortOpenUnique "16 word" TransportProtocol
  | PortOpen "16 word" TransportProtocol
  | PortNotOpen "16 word" TransportProtocol
  | HeaderMatch "16 word option" string string "(16 word \<times> (16 word \<times> 16 word)) option"
  | NoHeaderResponse "16 word"
  | EndpointMatch IpAddr "16 word" string string "(16 word \<times> (16 word \<times> 16 word)) option"
  | NoEndpointResponse string
  | NoVendorEntry
  | VendorMatch string
  | VendorMismatch string
  | NoMacAddress IpAddr
  | GatewayInRoutingTable uuid
  | OnlyGatewayInSubnet IpCidr
  | NotAGateway
  | SubnetTypeMatch IpCidr SubnetType
  | SubnetTypeMismatch IpCidr SubnetType
  | ProbeSucceeded string
  | ProbeFailed string
  | ControllerMatch string
  | ControllerMismatch string string
  | Variant string
  | Joined "match_text list"

datatype MatchReason = Reason match_text | Container string "MatchReason list"

datatype MatchConfidence = NotApplicable | Low | Medium | High | Certain

fun confidence_rank :: "MatchConfidence \<Rightarrow> nat" where
  "confidence_rank NotApplicable = 0"
| "confidence_rank Low = 1"
| "confidence_rank Medium = 2"
| "confidence_rank High = 3"
| "confidence_rank Certain = 4"

instantiation MatchConfidence :: linorder
begin

definition less_eq_MatchConfidence :: "MatchConfidence \<Rightarrow> MatchConfidence \<Rightarrow> bool" where
  "less_eq_MatchConfidence a b \<longleftrightarrow> confidence_rank a \<le> confidence_rank b"

definition less_MatchConfidence :: "MatchConfidence \<Rightarrow> MatchConfidence \<Rightarrow> bool" where
  "less_MatchConfidence a b \<longleftrightarrow> confidence_rank a < confidence_rank b"

instance
proof
  fix a b c :: MatchConfidence
  show "a \<le> b \<Longrightarrow> b \<le> a \<Longrightarrow> a = b"
    by (cases a; cases b) (simp_all add: less_eq_MatchConfidence_def)
qed (auto simp: less_eq_MatchConfidence_def less_MatchConfidence_def)

end

record MatchDetails =
  reason :: MatchReason
  confidence :: MatchConfidence

definition new_certain :: "string \<Rightarrow> MatchDetails" where
  "new_certain s = \<lparr>reason = Reason (Text s), confidence = Certain\<rparr>"

datatype EntitySource =
    Manual | System | Discovery | DiscoveryWithMatch MatchDetails | UnknownSource

fun is_from_discovery :: "EntitySource \<Rightarrow> bool" where
  "is_from_discovery Discovery = True"
| "is_from_discovery (DiscoveryWithMatch _) = True"
| "is_from_discovery _ = False"

section \<open>Facts\<close>

lemma subnet_type_round_trip: "subnet_type_from_str (subnet_type_str t) = t"
  by (cases t) (simp_all add: subnet_type_from_str_def)

lemma from_interface_name_range:
  "from_interface_name n \<in>
     {Loopback, VpnTunnel, WiFi, Guest, IoT, Dmz, Management, Storage, Lan, Unknown}"
proof (induction n rule: from_interface_name.induct)
  case (1 n)
  then show ?case by (subst from_interface_name.simps) simp
qed

text \<open>
  An interface name alone never classifies a subnet as a container-runtime network: those
  types need evidence from the runtime's own interface.
\<close>

lemma from_interface_name_not_container: "\<not> is_container_network (from_interface_name n)"
  using from_interface_name_range [of n] by (auto simp: is_container_network_def)

lemma match_interface_names_lower:
  "match_interface_names ps (to_lowercase n) = match_interface_names ps n"
  by (simp add: match_interface_names_def)

lemma from_interface_name_lower:
  "from_interface_name (to_lowercase n) = from_interface_name n"
  by (subst (1 2) from_interface_name.simps) (simp only: match_interface_names_lower to_lowercase_idem)

end
