(* ===== verification/IP_Addresses.thy ===== *)
theory IP_Addresses
  imports Positions Net_Types
begin

text \<open>
  The IP address entity (\<^verbatim>\<open>backend/src/server/ip_addresses/impl/base.rs\<close>) and the
  request type it is built from (\<^verbatim>\<open>backend/src/server/hosts/impl/api.rs\<close>), with
  their instances of the position traits.
\<close>

section \<open>The entity\<close>

record IPAddressBase =
  ip_network_id :: uuid
  ip_host_id :: uuid
  ip_subnet_id :: uuid
  ip_address :: IpAddr
  ip_mac_address :: "MacAddress option"
  ip_name :: "string option"
  ip_position :: int

record IPAddress =
  ip_id :: uuid
  ip_created_at :: datetime
  ip_updated_at :: datetime
  ip_valid_from :: datetime
  ip_valid_to :: "datetime option"
  ip_lineage_id :: "uuid option"
  ip_last_seen_at :: datetime
  ip_last_discovery_id :: "uuid option"
  ip_first_discovery_id :: "uuid option"
  ip_base :: IPAddressBase

definition new_ip_address :: "uuid \<Rightarrow> datetime \<Rightarrow> IPAddressBase \<Rightarrow> IPAddress" where
  "new_ip_address fresh now b =
     \<lparr>ip_id = fresh, ip_created_at = now, ip_updated_at = now, ip_valid_from = now,
      ip_valid_to = None, ip_lineage_id = None, ip_last_seen_at = now,
      ip_last_discovery_id = None, ip_first_discovery_id = None, ip_base = b\<rparr>"

definition ip_default_base :: IPAddressBase where
  "ip_default_base =
     \<lparr>ip_network_id = nil_uuid, ip_host_id = nil_uuid, ip_subnet_id = nil_uuid,
      ip_address = V4 0, ip_mac_address = None, ip_name = None, ip_position = 0\<rparr>"

text \<open>\<open>PartialEq\<close> of the entity: the same address on the same subnet, or the same stored row.\<close>

definition ip_eq :: "IPAddress \<Rightarrow> IPAddress \<Rightarrow> bool" where
  "ip_eq a b \<longleftrightarrow>
     (ip_address (ip_base a) = ip_address (ip_base b)
        \<and> ip_subnet_id (ip_base a) = ip_subnet_id (ip_base b))
     \<or> (ip_id a = ip_id b \<and> ip_id a \<noteq> nil_uuid \<and> ip_id b \<noteq> nil_uuid)"

text \<open>The values the entity's \<open>Hash\<close> feeds to the hasher.\<close>

definition ip_hash_input :: "IPAddress \<Rightarrow> IpAddr \<times> uuid" where
  "ip_hash_input a = (ip_address (ip_base a), ip_subnet_id (ip_base a))"

definition ip_triggers_staleness :: "IPAddress \<Rightarrow> IPAddress option \<Rightarrow> bool" where
  "ip_triggers_staleness a other =
     (case other of
        Some b \<Rightarrow> ip_address (ip_base a) \<noteq> ip_address (ip_base b)
          \<or> ip_subnet_id (ip_base a) \<noteq> ip_subnet_id (ip_base b)
          \<or> ip_host_id (ip_base a) \<noteq> ip_host_id (ip_base b)
      | None \<Rightarrow> True)"

definition ip_positioned :: "IPAddress Positioned" where
  "ip_positioned =
     \<lparr>position = (\<lambda>a. ip_position (ip_base a)),
      set_position = (\<lambda>a p. a\<lparr>ip_base := (ip_base a)\<lparr>ip_position := p\<rparr>\<rparr>),
      ident = ip_id,
      entity_name = ''ip_address''\<rparr>"

section \<open>The request type\<close>

record IPAddressInput =
  ipin_id :: uuid
  ipin_subnet_id :: uuid
  ipin_ip_address :: IpAddr
  ipin_mac_address :: "MacAddress option"
  ipin_name :: "string option"
  ipin_position :: "int option"

definition into_ip_address :: "datetime \<Rightarrow> IPAddressInput \<Rightarrow> uuid \<Rightarrow> uuid \<Rightarrow> IPAddress" where
  "into_ip_address now i host network =
     \<lparr>ip_id = ipin_id i, ip_created_at = now, ip_updated_at = now, ip_valid_from = now,
      ip_valid_to = None, ip_lineage_id = None, ip_last_seen_at = now,
      ip_last_discovery_id = None, ip_first_discovery_id = None,
      ip_base = \<lparr>ip_network_id = network, ip_host_id = host, ip_subnet_id = ipin_subnet_id i,
        ip_address = ipin_ip_address i, ip_mac_address = ipin_mac_address i,
        ip_name = ipin_name i,
        ip_position = (case ipin_position i of None \<Rightarrow> 0 | Some p \<Rightarrow> p)\<rparr>\<rparr>"

definition ip_input_positioned :: "IPAddressInput PositionedInput" where
  "ip_input_positioned =
     \<lparr>input_position = ipin_position,
      input_set_position = (\<lambda>i p. i\<lparr>ipin_position := Some p\<rparr>),
      input_ident = ipin_id\<rparr>"

section \<open>The position traits\<close>

interpretation ip: positioned_entity ip_positioned
  by unfold_locales (simp_all add: ip_positioned_def)

interpretation ip_input: positioned_request ip_input_positioned
  by unfold_locales (simp_all add: ip_input_positioned_def)

section \<open>Facts\<close>

lemma ip_eq_refl [simp]: "ip_eq a a"
  by (simp add: ip_eq_def)

lemma ip_eq_sym: "ip_eq a b \<longleftrightarrow> ip_eq b a"
  by (auto simp: ip_eq_def)

text \<open>Resolved positions reach the stored entity unchanged.\<close>

lemma into_ip_address_position:
  "input_position ip_input_positioned i = Some p \<Longrightarrow>
   position ip_positioned (into_ip_address now i host network) = p"
  by (simp add: ip_input_positioned_def ip_positioned_def into_ip_address_def)

end
