(* ===== verification/Subnets.thy ===== *)
theory Subnets
  imports Net_Types
begin

text \<open>
  The subnet entity (\<^verbatim>\<open>backend/src/server/subnets/impl/base.rs\<close>). The CIDR and
  network types come from the crates \<open>cidr\<close> and \<open>pnet\<close>; their operations are the
  parameters collected in \<open>net_env\<close>.
\<close>

section \<open>The entity\<close>

record SubnetBase =
  cidr :: IpCidr
  subnet_network_id :: uuid
  subnet_name :: string
  subnet_description :: "string option"
  subnet_type :: SubnetType
  subnet_virtualization_service_id :: "uuid option"
  subnet_source :: EntitySource
  subnet_tags :: "uuid list"

record Subnet =
  subnet_id :: uuid
  subnet_created_at :: datetime
  subnet_updated_at :: datetime
  subnet_valid_from :: datetime
  subnet_valid_to :: "datetime option"
  subnet_lineage_id :: "uuid option"
  subnet_last_seen_at :: datetime
  subnet_last_discovery_id :: "uuid option"
  subnet_first_discovery_id :: "uuid option"
  subnet_base :: SubnetBase

definition new_subnet :: "uuid \<Rightarrow> datetime \<Rightarrow> SubnetBase \<Rightarrow> Subnet" where
  "new_subnet fresh now b =
     \<lparr>subnet_id = fresh, subnet_created_at = now, subnet_updated_at = now,
      subnet_valid_from = now, subnet_valid_to = None, subnet_lineage_id = None,
      subnet_last_seen_at = now, subnet_last_discovery_id = None,
      subnet_first_discovery_id = None, subnet_base = b\<rparr>"

section \<open>Operations\<close>

text \<open>
  \<open>IpNetwork\<close> of \<open>pnet\<close>: an address with a prefix length. The environment gives the
  network address of such a network, the checked constructor of a CIDR block (it fails when
  the address has host bits or the prefix is too long) and its text.
\<close>

datatype IpNetwork = Net4 (net_ip: "32 word") (net_prefix: nat) | Net6 "128 word" nat

record net_env =
  network_address :: "32 word \<Rightarrow> nat \<Rightarrow> 32 word"
  ipv4_cidr_new :: "32 word \<Rightarrow> nat \<Rightarrow> IpCidr option"
  cidr_text :: "IpCidr \<Rightarrow> string"

definition first_octet :: "32 word \<Rightarrow> nat" where
  "first_octet a = unat (drop_bit 24 a)"

definition clear_last_octet :: "32 word \<Rightarrow> 32 word" where
  "clear_last_octet a = a AND 4294967040"

definition is_container_bridge_subnet :: "Subnet \<Rightarrow> bool" where
  "is_container_bridge_subnet s \<longleftrightarrow> is_container_bridge (subnet_type (subnet_base s))"

definition is_vpn_subnet :: "Subnet \<Rightarrow> bool" where
  "is_vpn_subnet s \<longleftrightarrow> subnet_type (subnet_base s) = VpnTunnel"

definition corrects_container_bridge_guess :: "Subnet \<Rightarrow> Subnet \<Rightarrow> bool" where
  "corrects_container_bridge_guess s existing \<longleftrightarrow>
     subnet_source (subnet_base existing) = Discovery
     \<and> subnet_source (subnet_base s) = Discovery
     \<and> is_container_bridge (subnet_type (subnet_base existing))
     \<and> subnet_virtualization_service_id (subnet_base existing) = None
     \<and> \<not> is_container_bridge (subnet_type (subnet_base s))"

definition subnet_from_discovery ::
    "net_env \<Rightarrow> uuid \<Rightarrow> datetime \<Rightarrow> string \<Rightarrow> IpNetwork \<Rightarrow> uuid \<Rightarrow> Subnet option" where
  "subnet_from_discovery E fresh now interface_name ip_network network =
     (let guess = from_interface_name interface_name in
      case ip_network of
        Net6 _ _ \<Rightarrow> None
      | Net4 ip prefix \<Rightarrow>
          (let t = (if is_loopback_type guess \<and> first_octet ip \<noteq> 127 then Unknown else guess) in
           if prefix = 32 \<and> t \<noteq> VpnTunnel then None
           else let (addr, len) =
               (if prefix = 32 then (clear_last_octet ip, 24)
                else (network_address E ip prefix, prefix)) in
             case ipv4_cidr_new E addr len of
               None \<Rightarrow> None
             | Some c \<Rightarrow> Some (new_subnet fresh now
                 \<lparr>cidr = c, subnet_network_id = network, subnet_name = cidr_text E c,
                  subnet_description = None, subnet_type = t,
                  subnet_virtualization_service_id = None, subnet_source = Discovery,
                  subnet_tags = []\<rparr>)))"

definition is_organizational_subnet :: "Subnet \<Rightarrow> bool" where
  "is_organizational_subnet s \<longleftrightarrow> cidr (subnet_base s) = (V4 0, 0)"

definition is_user_managed :: "Subnet \<Rightarrow> bool" where
  "is_user_managed s \<longleftrightarrow>
     subnet_source (subnet_base s) = Manual \<or> \<not> is_synthetic_category (subnet_type (subnet_base s))"

definition subnet_eq :: "Subnet \<Rightarrow> Subnet \<Rightarrow> bool" where
  "subnet_eq a b \<longleftrightarrow>
     (let network_match = cidr (subnet_base a) = cidr (subnet_base b)
        \<and> subnet_network_id (subnet_base a) = subnet_network_id (subnet_base b) in
      network_match \<or> subnet_id a = subnet_id b)"

section \<open>Facts\<close>

lemma subnet_from_discovery_facts:
  assumes "subnet_from_discovery E fresh now name net network = Some s"
  shows "\<exists>ip prefix. net = Net4 ip prefix"
    and "subnet_source (subnet_base s) = Discovery"
    and "subnet_type (subnet_base s) \<in>
      {Loopback, VpnTunnel, WiFi, Guest, IoT, Dmz, Management, Storage, Lan, Unknown}"
  using assms from_interface_name_range [of name]
  by (cases net; auto simp: subnet_from_discovery_def Let_def new_subnet_def
      split: if_splits option.splits)+

lemma subnet_from_discovery_user_managed:
  assumes "subnet_from_discovery E fresh now name net network = Some s"
  shows "is_user_managed s \<longleftrightarrow> subnet_type (subnet_base s) \<noteq> Loopback"
  using subnet_from_discovery_facts(2,3) [OF assms]
  by (auto simp: is_user_managed_def is_synthetic_category_def synthetic_categories_def)

lemma subnet_from_discovery_loopback:
  assumes "subnet_from_discovery E fresh now name (Net4 ip prefix) network = Some s"
    and "subnet_type (subnet_base s) = Loopback"
  shows "first_octet ip = 127"
  using assms
  by (auto simp: subnet_from_discovery_def Let_def new_subnet_def is_loopback_type_def
      split: if_splits option.splits)

lemma subnet_eq_refl [simp]: "subnet_eq s s"
  by (simp add: subnet_eq_def)

lemma subnet_eq_sym: "subnet_eq a b \<longleftrightarrow> subnet_eq b a"
  by (auto simp: subnet_eq_def Let_def)

end
