(* ===== verification/Services.thy ===== *)
theory Services
  imports Bindings Ports IP_Addresses Subnets
begin

text \<open>
  The service entity (\<^verbatim>\<open>backend/src/server/services/impl/base.rs\<close>), its container
  metadata (\<^verbatim>\<open>backend/src/server/services/impl/virtualization.rs\<close>), the request
  types it is built from (\<^verbatim>\<open>backend/src/server/hosts/impl/api.rs\<close>), the equality
  that decides whether two discovered services are one, and the reassignment of bindings when
  a service moves to another host
  (\<^verbatim>\<open>backend/src/server/services/service/transfer.rs\<close>).

  A service definition is named by its id; what equality asks of a definition (generic,
  gateway, open-ports) is the argument \<open>def_attrs\<close>.
\<close>

section \<open>Container metadata\<close>

record container_info =
  info_container_name :: "string option"
  info_container_id :: "string option"
  info_compose_project :: "string option"

datatype ServiceVirtualization = Docker container_info | Podman container_info

fun container_id :: "ServiceVirtualization \<Rightarrow> string option" where
  "container_id (Docker d) = info_container_id d"
| "container_id (Podman p) = info_container_id p"

fun container_name :: "ServiceVirtualization \<Rightarrow> string option" where
  "container_name (Docker d) = info_container_name d"
| "container_name (Podman p) = info_container_name p"

fun compose_project :: "ServiceVirtualization \<Rightarrow> string option" where
  "compose_project (Docker d) = info_compose_project d"
| "compose_project (Podman p) = info_compose_project p"

fun runtime_service_definition_id :: "ServiceVirtualization \<Rightarrow> string" where
  "runtime_service_definition_id (Docker _) = ''Docker''"
| "runtime_service_definition_id (Podman _) = ''Podman''"

section \<open>The entity\<close>

record ServiceBase =
  svc_host_id :: uuid
  svc_network_id :: uuid
  svc_definition :: string
  svc_name :: string
  svc_bindings :: "Binding list"
  svc_virtualization_metadata :: "ServiceVirtualization option"
  svc_virtualization_service_id :: "uuid option"
  svc_source :: EntitySource
  svc_tags :: "uuid list"
  svc_position :: int

record Service =
  svc_id :: uuid
  svc_created_at :: datetime
  svc_updated_at :: datetime
  svc_valid_from :: datetime
  svc_valid_to :: "datetime option"
  svc_lineage_id :: "uuid option"
  svc_last_seen_at :: datetime
  svc_last_discovery_id :: "uuid option"
  svc_first_discovery_id :: "uuid option"
  svc_base :: ServiceBase

definition new_service :: "uuid \<Rightarrow> datetime \<Rightarrow> ServiceBase \<Rightarrow> Service" where
  "new_service fresh now b =
     \<lparr>svc_id = fresh, svc_created_at = now, svc_updated_at = now, svc_valid_from = now,
      svc_valid_to = None, svc_lineage_id = None, svc_last_seen_at = now,
      svc_last_discovery_id = None, svc_first_discovery_id = None, svc_base = b\<rparr>"

definition svc_default_base :: ServiceBase where
  "svc_default_base =
     \<lparr>svc_host_id = nil_uuid, svc_network_id = nil_uuid, svc_definition = ''Missing Service'',
      svc_name = [], svc_bindings = [], svc_virtualization_metadata = None,
      svc_virtualization_service_id = None, svc_source = UnknownSource, svc_tags = [],
      svc_position = 0\<rparr>"

abbreviation bindings_of :: "Service \<Rightarrow> Binding list" where
  "bindings_of s \<equiv> svc_bindings (svc_base s)"

section \<open>Equality of services\<close>

record def_attrs =
  def_is_generic :: "string \<Rightarrow> bool"
  def_is_gateway :: "string \<Rightarrow> bool"
  def_is_open_ports :: "string \<Rightarrow> bool"

definition port_ids :: "Service \<Rightarrow> uuid set" where
  "port_ids s = set (List.map_filter binding_port_id (bindings_of s))"

definition has_shared_ports :: "Service \<Rightarrow> Service \<Rightarrow> bool" where
  "has_shared_ports a b \<longleftrightarrow>
     port_ids a \<noteq> {} \<and> port_ids b \<noteq> {} \<and> port_ids a \<inter> port_ids b \<noteq> {}"

definition virt_container_id :: "Service \<Rightarrow> string option" where
  "virt_container_id s = Option.bind (svc_virtualization_metadata (svc_base s)) container_id"

definition containers_eq :: "Service \<Rightarrow> Service \<Rightarrow> ServiceVirtualization \<Rightarrow> ServiceVirtualization \<Rightarrow> bool" where
  "containers_eq a b va vb =
     (case (container_id va, container_id vb) of
        (Some ca, Some cb) \<Rightarrow> ca = cb
      | (Some _, None) \<Rightarrow> False
      | (None, Some _) \<Rightarrow> False
      | (None, None) \<Rightarrow>
          (case (container_name va, container_name vb) of
             (Some na, Some nb) \<Rightarrow> na = nb
           | _ \<Rightarrow> has_shared_ports a b))"

definition service_eq :: "def_attrs \<Rightarrow> Service \<Rightarrow> Service \<Rightarrow> bool" where
  "service_eq A a b =
     (if svc_id a = svc_id b then True
      else if svc_host_id (svc_base a) \<noteq> svc_host_id (svc_base b)
           \<or> svc_network_id (svc_base a) \<noteq> svc_network_id (svc_base b) then False
      else if svc_definition (svc_base a) \<noteq> svc_definition (svc_base b) then False
      else if \<not> def_is_generic A (svc_definition (svc_base a)) then
        (case (virt_container_id a, virt_container_id b) of
           (Some ca, Some cb) \<Rightarrow> ca = cb
         | _ \<Rightarrow> True)
      else if def_is_gateway A (svc_definition (svc_base a))
           \<or> def_is_open_ports A (svc_definition (svc_base a)) then True
      else (case (svc_virtualization_metadata (svc_base a), svc_virtualization_metadata (svc_base b)) of
          (Some va, Some vb) \<Rightarrow> containers_eq a b va vb
        | _ \<Rightarrow> has_shared_ports a b))"

definition service_triggers_staleness :: "Service \<Rightarrow> Service option \<Rightarrow> bool" where
  "service_triggers_staleness s other =
     (case other of
        Some o' \<Rightarrow> map btype (bindings_of s) \<noteq> map btype (bindings_of o')
          \<or> svc_host_id (svc_base s) \<noteq> svc_host_id (svc_base o')
          \<or> svc_virtualization_metadata (svc_base s) \<noteq> svc_virtualization_metadata (svc_base o')
          \<or> svc_virtualization_service_id (svc_base s) \<noteq> svc_virtualization_service_id (svc_base o')
      | None \<Rightarrow> True)"

section \<open>Queries\<close>

definition get_binding :: "Service \<Rightarrow> uuid \<Rightarrow> Binding option" where
  "get_binding s i = find (\<lambda>b. bind_id b = i) (bindings_of s)"

definition to_bound_ip_address_ids :: "Service \<Rightarrow> uuid option list" where
  "to_bound_ip_address_ids s = map ip_address_id (bindings_of s)"

definition to_bound_port_ids :: "Service \<Rightarrow> uuid list" where
  "to_bound_port_ids s = List.map_filter binding_port_id (bindings_of s)"

definition has_interface_with_service :: "Subnet \<Rightarrow> IPAddress list \<Rightarrow> Service \<Rightarrow> bool" where
  "has_interface_with_service subnet host_interfaces s \<longleftrightarrow>
     (\<exists>b \<in> set (bindings_of s). \<exists>i \<in> set host_interfaces.
        (case ip_address_id b of Some x \<Rightarrow> ip_id i = x | None \<Rightarrow> True)
        \<and> ip_subnet_id (ip_base i) = subnet_id subnet)"

definition service_positioned :: "Service Positioned" where
  "service_positioned =
     \<lparr>position = (\<lambda>s. svc_position (svc_base s)),
      set_position = (\<lambda>s p. s\<lparr>svc_base := (svc_base s)\<lparr>svc_position := p\<rparr>\<rparr>),
      ident = svc_id,
      entity_name = ''service''\<rparr>"

section \<open>Request types\<close>

datatype BindingInput =
    IPAddressIn (binput_id: uuid) uuid
  | PortIn (binput_id: uuid) uuid "uuid option"

fun into_binding :: "datetime \<Rightarrow> BindingInput \<Rightarrow> uuid \<Rightarrow> uuid \<Rightarrow> Binding" where
  "into_binding now (IPAddressIn i ip) s n = new_binding i now (new_base s n (BindingType.IPAddress ip))"
| "into_binding now (PortIn i p io) s n = new_binding i now (new_base s n (BindingType.Port p io))"

record ServiceInput =
  sin_id :: uuid
  sin_definition :: string
  sin_name :: string
  sin_bindings :: "BindingInput list"
  sin_virtualization_metadata :: "ServiceVirtualization option"
  sin_virtualization_service_id :: "uuid option"
  sin_tags :: "uuid list"
  sin_position :: "int option"

definition into_service :: "datetime \<Rightarrow> ServiceInput \<Rightarrow> uuid \<Rightarrow> uuid \<Rightarrow> EntitySource \<Rightarrow> Service" where
  "into_service now i host network source =
     \<lparr>svc_id = sin_id i, svc_created_at = now, svc_updated_at = now, svc_valid_from = now,
      svc_valid_to = None, svc_lineage_id = None, svc_last_seen_at = now,
      svc_last_discovery_id = None, svc_first_discovery_id = None,
      svc_base = \<lparr>svc_host_id = host, svc_network_id = network,
        svc_definition = sin_definition i, svc_name = sin_name i,
        svc_bindings = map (\<lambda>b. into_binding now b (sin_id i) network) (sin_bindings i),
        svc_virtualization_metadata = sin_virtualization_metadata i,
        svc_virtualization_service_id = sin_virtualization_service_id i,
        svc_source = source, svc_tags = sin_tags i,
        svc_position = (case sin_position i of None \<Rightarrow> 0 | Some p \<Rightarrow> p)\<rparr>\<rparr>"

definition service_input_positioned :: "ServiceInput PositionedInput" where
  "service_input_positioned =
     \<lparr>input_position = sin_position,
      input_set_position = (\<lambda>i p. i\<lparr>sin_position := Some p\<rparr>),
      input_ident = sin_id\<rparr>"

section \<open>Moving a service to another host\<close>

text \<open>
  One binding: looked up on the original host, matched on the new host by the entities' own
  equality, with the id remap as a fallback; \<open>None\<close> drops the binding.
\<close>

definition reassign_binding ::
    "IPAddress list \<Rightarrow> Port list \<Rightarrow> IPAddress list \<Rightarrow> Port list \<Rightarrow> (uuid \<Rightarrow> uuid option)
      \<Rightarrow> Binding \<Rightarrow> Binding option" where
  "reassign_binding orig_ips orig_ports new_ips new_ports remap b =
     (let original_interface =
        Option.bind (ip_address_id b) (\<lambda>i. find (\<lambda>a. ip_id a = i) orig_ips);
        retype = (\<lambda>t. b\<lparr>bind_base := (bind_base b)\<lparr>binding_type := t\<rparr>\<rparr>)
      in case btype b of
        BindingType.IPAddress ip \<Rightarrow>
          (case Option.bind original_interface (\<lambda>orig. find (\<lambda>a. ip_eq a orig) new_ips) of
             Some a \<Rightarrow> Some (retype (BindingType.IPAddress (ip_id a)))
           | None \<Rightarrow>
               (case remap ip of
                  Some i \<Rightarrow> Some (retype (BindingType.IPAddress i))
                | None \<Rightarrow> None))
      | BindingType.Port p io \<Rightarrow>
          (case Option.bind (find (\<lambda>q. port_id q = p) orig_ports)
                  (\<lambda>op. find (\<lambda>q. port_entity_eq q op) new_ports) of
             None \<Rightarrow> None
           | Some np \<Rightarrow>
               (let new_ip = (case original_interface of
                    None \<Rightarrow> None
                  | Some orig \<Rightarrow>
                      (case find (\<lambda>a. ip_eq a orig) new_ips of
                         Some a \<Rightarrow> Some (ip_id a)
                       | None \<Rightarrow>
                           Option.bind (remap (ip_id orig))
                             (\<lambda>i. map_option ip_id (find (\<lambda>a. ip_id a = i) new_ips))))
                in Some (retype (BindingType.Port (port_id np) new_ip)))))"

definition reassign_service_interface_bindings ::
    "Service \<Rightarrow> IPAddress list \<Rightarrow> Port list \<Rightarrow> uuid \<Rightarrow> uuid \<Rightarrow> IPAddress list \<Rightarrow> Port list
      \<Rightarrow> (uuid \<Rightarrow> uuid option) \<Rightarrow> Service" where
  "reassign_service_interface_bindings s orig_ips orig_ports new_host new_network new_ips new_ports remap =
     s\<lparr>svc_base := (svc_base s)\<lparr>
         svc_bindings := List.map_filter (reassign_binding orig_ips orig_ports new_ips new_ports remap)
                           (bindings_of s),
         svc_host_id := new_host,
         svc_network_id := new_network\<rparr>\<rparr>"

section \<open>The position traits\<close>

interpretation service: positioned_entity service_positioned
  by unfold_locales (simp_all add: service_positioned_def)

interpretation service_input: positioned_request service_input_positioned
  by unfold_locales (simp_all add: service_input_positioned_def)

section \<open>Facts\<close>

lemma has_shared_ports_sym: "has_shared_ports a b \<longleftrightarrow> has_shared_ports b a"
  by (auto simp: has_shared_ports_def)

lemma containers_eq_sym: "containers_eq a b va vb \<longleftrightarrow> containers_eq b a vb va"
  using has_shared_ports_sym [of a b] by (auto simp: containers_eq_def split: option.splits)

lemma service_eq_refl [simp]: "service_eq A s s"
  by (simp add: service_eq_def)

lemma service_eq_sym: "service_eq A a b \<longleftrightarrow> service_eq A b a"
  using has_shared_ports_sym [of a b] containers_eq_sym [of a b]
  by (auto simp: service_eq_def split: option.splits)

text \<open>A reassigned binding refers to the new host: its port is one of the new ports.\<close>

lemma reassign_binding_port:
  assumes "reassign_binding orig_ips orig_ports new_ips new_ports remap b = Some c"
    and "binding_port_id c = Some p"
  shows "p \<in> port_id ` set new_ports"
  using assms
  by (auto simp: reassign_binding_def binding_port_id_def Let_def find_Some_iff Option.bind_eq_Some_conv
      split: BindingType.splits option.splits)

lemma reassign_binding_ip:
  assumes "reassign_binding orig_ips orig_ports new_ips new_ports remap b = Some c"
    and "ip_address_id c = Some i"
  shows "i \<in> ip_id ` set new_ips \<or> (\<exists>ip. btype b = BindingType.IPAddress ip \<and> remap ip = Some i)"
  using assms
  by (auto simp: reassign_binding_def ip_address_id_def Let_def find_Some_iff Option.bind_eq_Some_conv
      split: BindingType.splits option.splits)

end
