(* ===== verification/Storage.thy ===== *)
theory Storage
  imports Prelude
begin

text \<open>
  Tables of rows with a primary key, as the generic storage layer uses them
  (\<^verbatim>\<open>backend/src/server/shared/storage/generic.rs\<close>): the rows of one table in
  insertion order, and the create, read, update and delete statements. The contract a
  service relies on is the locale \<open>keyed_table\<close>; \<open>save_children\<close> is the synchronisation of a
  parent's child rows of \<^verbatim>\<open>backend/src/server/shared/services/traits.rs\<close>.
\<close>

section \<open>Statements\<close>

datatype storage_error = DuplicateKey uuid | NotFound uuid

definition get_by_id :: "('r \<Rightarrow> uuid) \<Rightarrow> 'r list \<Rightarrow> uuid \<Rightarrow> 'r option" where
  "get_by_id key rows i = find (\<lambda>r. key r = i) rows"

definition create_row :: "('r \<Rightarrow> uuid) \<Rightarrow> 'r list \<Rightarrow> 'r \<Rightarrow> (storage_error, 'r list) result" where
  "create_row key rows r =
     (if \<exists>x \<in> set rows. key x = key r then Err (DuplicateKey (key r)) else Ok (rows @ [r]))"

definition update_row :: "('r \<Rightarrow> uuid) \<Rightarrow> 'r list \<Rightarrow> 'r \<Rightarrow> 'r list" where
  "update_row key rows r = map (\<lambda>x. if key x = key r then r else x) rows"

definition delete_row :: "('r \<Rightarrow> uuid) \<Rightarrow> 'r list \<Rightarrow> uuid \<Rightarrow> 'r list" where
  "delete_row key rows i = filter (\<lambda>x. key x \<noteq> i) rows"

definition delete_many :: "('r \<Rightarrow> uuid) \<Rightarrow> 'r list \<Rightarrow> uuid list \<Rightarrow> 'r list" where
  "delete_many key rows ids = filter (\<lambda>x. key x \<notin> set ids) rows"

definition wf_table :: "('r \<Rightarrow> uuid) \<Rightarrow> 'r list \<Rightarrow> bool" where
  "wf_table key rows \<longleftrightarrow> distinct (map key rows)"

section \<open>The contract\<close>

locale keyed_table =
  fixes key :: "'r \<Rightarrow> uuid"
    and lookup :: "'t \<Rightarrow> uuid \<Rightarrow> 'r option"
    and insert_row :: "'t \<Rightarrow> 'r \<Rightarrow> (storage_error, 't) result"
    and modify_row :: "'t \<Rightarrow> 'r \<Rightarrow> 't"
    and remove_row :: "'t \<Rightarrow> uuid \<Rightarrow> 't"
    and inv :: "'t \<Rightarrow> bool"
  assumes lookup_key: "lookup t i = Some r \<Longrightarrow> key r = i"
    and insert_fresh: "inv t \<Longrightarrow> lookup t (key r) = None \<Longrightarrow>
      \<exists>t'. insert_row t r = Ok t' \<and> inv t' \<and> lookup t' = (lookup t)(key r \<mapsto> r)"
    and insert_taken: "inv t \<Longrightarrow> lookup t (key r) \<noteq> None \<Longrightarrow>
      insert_row t r = Err (DuplicateKey (key r))"
    and modify_lookup: "inv t \<Longrightarrow> lookup t (key r) \<noteq> None \<Longrightarrow>
      lookup (modify_row t r) = (lookup t)(key r \<mapsto> r)"
    and modify_inv: "inv t \<Longrightarrow> inv (modify_row t r)"
    and remove_lookup: "inv t \<Longrightarrow> lookup (remove_row t i) = (lookup t)(i := None)"
    and remove_inv: "inv t \<Longrightarrow> inv (remove_row t i)"
begin

lemma insert_then_remove:
  assumes "inv t" and "lookup t (key r) = None" and "insert_row t r = Ok t'"
  shows "lookup (remove_row t' (key r)) = lookup t"
proof -
  obtain u where u: "insert_row t r = Ok u" "inv u" "lookup u = (lookup t)(key r \<mapsto> r)"
    using insert_fresh [OF assms(1,2)] by blast
  then show ?thesis using assms(2,3) remove_lookup [of u "key r"]
    by (simp add: fun_upd_idem)
qed

lemma insert_ok_iff: "inv t \<Longrightarrow> (\<exists>t'. insert_row t r = Ok t') \<longleftrightarrow> lookup t (key r) = None"
  using insert_fresh [of t r] insert_taken [of t r] by force

lemma insert_inv: "inv t \<Longrightarrow> insert_row t r = Ok t' \<Longrightarrow> inv t'"
  using insert_fresh [of t r] insert_taken [of t r] by (cases "lookup t (key r)") auto

lemma insert_lookup:
  "inv t \<Longrightarrow> insert_row t r = Ok t' \<Longrightarrow> lookup t' = (lookup t)(key r \<mapsto> r)"
  using insert_fresh [of t r] insert_taken [of t r] by (cases "lookup t (key r)") auto

end

section \<open>Tables as lists of rows\<close>

lemma get_by_id_None: "get_by_id key rows i = None \<longleftrightarrow> i \<notin> key ` set rows"
  by (auto simp: get_by_id_def find_None_iff)

lemma get_by_id_Some:
  "wf_table key rows \<Longrightarrow> get_by_id key rows i = Some r \<longleftrightarrow> r \<in> set rows \<and> key r = i"
  by (induction rows) (auto simp: get_by_id_def wf_table_def)

lemma get_by_id_mem: "get_by_id key rows i = Some r \<Longrightarrow> r \<in> set rows \<and> key r = i"
  by (auto simp: get_by_id_def find_Some_iff)

lemma get_by_id_append:
  "get_by_id key (xs @ ys) i =
     (case get_by_id key xs i of Some r \<Rightarrow> Some r | None \<Rightarrow> get_by_id key ys i)"
  by (induction xs) (auto simp: get_by_id_def)

lemma get_by_id_single [simp]: "get_by_id key [r] i = (if key r = i then Some r else None)"
  by (simp add: get_by_id_def)

lemma get_by_id_update_row:
  "get_by_id key (update_row key rows r) i =
     (if i = key r \<and> get_by_id key rows i \<noteq> None then Some r else get_by_id key rows i)"
  by (induction rows) (auto simp: get_by_id_def update_row_def)

lemma get_by_id_delete_row:
  "get_by_id key (delete_row key rows i) j = (if j = i then None else get_by_id key rows j)"
  by (induction rows) (auto simp: get_by_id_def delete_row_def)

lemma map_key_update_row: "map key (update_row key rows r) = map key rows"
  by (simp add: update_row_def)

lemma keyed_table_list:
  "keyed_table key (get_by_id key) (create_row key) (update_row key) (delete_row key) (wf_table key)"
proof
  fix t :: "'a list" and r :: 'a and i
  show "get_by_id key t i = Some r \<Longrightarrow> key r = i" by (simp add: get_by_id_mem)
  show "\<exists>t'. create_row key t r = Ok t' \<and> wf_table key t' \<and>
      get_by_id key t' = (get_by_id key t)(key r \<mapsto> r)"
    if "wf_table key t" "get_by_id key t (key r) = None"
  proof -
    have "\<forall>x \<in> set t. key x \<noteq> key r"
      using that(2) by (auto simp: get_by_id_def find_None_iff)
    then have "create_row key t r = Ok (t @ [r])" "wf_table key (t @ [r])"
      using that(1) by (auto simp: create_row_def wf_table_def)
    moreover have "get_by_id key (t @ [r]) = (get_by_id key t)(key r \<mapsto> r)"
      using that(2) by (auto simp: fun_eq_iff get_by_id_append split: option.splits)
    ultimately show ?thesis by blast
  qed
  show "create_row key t r = Err (DuplicateKey (key r))"
    if "wf_table key t" "get_by_id key t (key r) \<noteq> None"
    using that by (auto simp: create_row_def get_by_id_None)
  show "get_by_id key (update_row key t r) = (get_by_id key t)(key r \<mapsto> r)"
    if "wf_table key t" "get_by_id key t (key r) \<noteq> None"
    using that by (auto simp: fun_eq_iff get_by_id_update_row)
  show "wf_table key (update_row key t r)" if "wf_table key t"
    using that by (simp add: wf_table_def map_key_update_row)
  show "get_by_id key (delete_row key t i) = (get_by_id key t)(i := None)" if "wf_table key t"
    by (auto simp: fun_eq_iff get_by_id_delete_row)
  show "wf_table key (delete_row key t i)" if "wf_table key t"
    using that by (simp add: wf_table_def delete_row_def distinct_map_filter)
qed

text \<open>Replacing a row by one that agrees with it on what is observed is not observable.\<close>

lemma update_row_observe:
  assumes "wf_table key rows" "e \<in> set rows" "key r = key e" "P r = P e" "f r = f e"
  shows "map f (filter P (update_row key rows r)) = map f (filter P rows)"
proof -
  have "x = e" if "x \<in> set rows" "key x = key e" for x
    using assms(1,2) that by (auto simp: wf_table_def distinct_map inj_on_def)
  then have "\<forall>x \<in> set rows. key x = key r \<longrightarrow> P x = P r \<and> f x = f r"
    using assms(3-5) by auto
  then show ?thesis by (induction rows) (auto simp: update_row_def)
qed

section \<open>Child rows of a parent\<close>

text \<open>
  The children of one parent are replaced: a child with the nil id gets a fresh id, a child
  whose id is already stored keeps its stored creation time, any other child is inserted as it
  is; stored children that are not in the new list are deleted. \<open>fresh\<close> gives the id for the
  n-th child. The result is that of a synchronisation that runs through: a statement that fails
  in the middle (which leaves the children deleted and saved so far) is not modelled.
\<close>

fun save_children ::
    "('c \<Rightarrow> uuid) \<Rightarrow> ('c \<Rightarrow> uuid \<Rightarrow> 'c) \<Rightarrow> ('c \<Rightarrow> datetime) \<Rightarrow> ('c \<Rightarrow> datetime \<Rightarrow> 'c)
      \<Rightarrow> (nat \<Rightarrow> uuid) \<Rightarrow> 'c list \<Rightarrow> nat \<Rightarrow> 'c list \<Rightarrow> 'c list" where
  "save_children key set_key created set_created fresh stored n [] = []"
| "save_children key set_key created set_created fresh stored n (c # cs) =
     (if key c = nil_uuid then set_key c (fresh n)
      else case get_by_id key stored (key c) of
          Some old \<Rightarrow> set_created c (created old)
        | None \<Rightarrow> c)
     # save_children key set_key created set_created fresh stored (Suc n) cs"

lemma map_save_children:
  assumes "\<And>c i. f (set_key c i) = f c" and "\<And>c t. f (set_created c t) = f c"
  shows "map f (save_children key set_key created set_created fresh stored n cs) = map f cs"
  using assms by (induction cs arbitrary: n) (auto split: option.splits)

end
