(* ===== verification/Service_Store.thy ===== *)
theory Service_Store
  imports Services Storage
begin

text \<open>
  The service store: the create, update and delete handlers of
  \<^verbatim>\<open>backend/src/server/services/service/mod.rs\<close> and the upsert they fall back to
  (\<^verbatim>\<open>backend/src/server/services/service/upsert.rs\<close>), over the tables of live
  services, ports and IP addresses. A service row carries its bindings.

  Handlers overlap: \<open>create\<close> holds the lock of the host's natural keys, \<open>update\<close> and \<open>delete\<close>
  the lock of the one service, and ports and addresses have no lock here at all. So a handler
  does not read the table it writes: its \<open>k\<close>-th read sees \<open>seen k\<close>, any earlier state of the
  run, and only its write applies to the current store. \<open>create_service\<close>, \<open>update_service\<close> and
  \<open>delete_service\<close> are the runs of a handler with no other in between.

  What stays one step is the writing itself: the row of a service together with its bindings
  (the statements of \<open>save_for_parent\<close> on one service are not interleaved with those of another
  handler on the same service, and none of them fails half-way). Events, the tag table and
  the dependency members are not part of the state.
\<close>

section \<open>State\<close>

record store =
  st_services :: "Service list"
  st_ports :: "Port list"
  st_ips :: "IPAddress list"

datatype store_error =
    BindingError binding_error
  | PortAlreadyBound uuid string
  | StorageError storage_error
  | ServiceNotFound uuid

definition services_on_host :: "store \<Rightarrow> uuid \<Rightarrow> Service list" where
  "services_on_host st h = filter (\<lambda>s. svc_host_id (svc_base s) = h) (st_services st)"

definition host_port_ids :: "store \<Rightarrow> uuid \<Rightarrow> uuid set" where
  "host_port_ids st h = set (map port_id (filter (\<lambda>p. port_host_id (port_base p) = h) (st_ports st)))"

definition host_ip_ids :: "store \<Rightarrow> uuid \<Rightarrow> uuid set" where
  "host_ip_ids st h = set (map ip_id (filter (\<lambda>i. ip_host_id (ip_base i) = h) (st_ips st)))"

section \<open>Availability of ports\<close>

definition conflicting_service :: "Service list \<Rightarrow> uuid \<Rightarrow> uuid option \<Rightarrow> Service option" where
  "conflicting_service others p io =
     find (\<lambda>s. \<exists>b \<in> set (bindings_of s). case btype b of
         BindingType.Port ep ei \<Rightarrow> ep = p \<and> iface_overlap io ei
       | BindingType.IPAddress _ \<Rightarrow> False) others"

fun bindings_available :: "Service list \<Rightarrow> Binding list \<Rightarrow> (store_error, unit) result" where
  "bindings_available others [] = Ok ()"
| "bindings_available others (b # bs) =
     (case btype b of
        BindingType.Port p io \<Rightarrow>
          (case conflicting_service others p io of
             Some owner \<Rightarrow> Err (PortAlreadyBound p (svc_name (svc_base owner)))
           | None \<Rightarrow> bindings_available others bs)
      | BindingType.IPAddress _ \<Rightarrow> bindings_available others bs)"

definition validate_bindings_available ::
    "store \<Rightarrow> uuid \<Rightarrow> uuid \<Rightarrow> Binding list \<Rightarrow> (store_error, unit) result" where
  "validate_bindings_available st host service bindings =
     (if bindings = [] then Ok ()
      else bindings_available (filter (\<lambda>s. svc_id s \<noteq> service) (services_on_host st host)) bindings)"

text \<open>The claims \<open>partition_conflicting_bindings\<close> reads from the database for one service.\<close>

definition db_claimed :: "store \<Rightarrow> uuid \<Rightarrow> uuid \<Rightarrow> claim list" where
  "db_claimed st host service =
     concat (map (\<lambda>s. port_claims (bindings_of s))
       (filter (\<lambda>s. svc_id s \<noteq> service) (services_on_host st host)))"

definition partition_for_service ::
    "store \<Rightarrow> uuid \<Rightarrow> uuid \<Rightarrow> Binding list \<Rightarrow> claim list \<Rightarrow> Binding list \<times> Binding list" where
  "partition_for_service st host service bindings batch =
     partition_conflicting_bindings (db_claimed st host service) bindings batch"

section \<open>Storing bindings\<close>

definition save_bindings :: "(nat \<Rightarrow> uuid) \<Rightarrow> Binding list \<Rightarrow> Binding list \<Rightarrow> Binding list" where
  "save_bindings fresh stored bs =
     save_children bind_id (\<lambda>b i. b\<lparr>bind_id := i\<rparr>) bind_created_at (\<lambda>b t. b\<lparr>bind_created_at := t\<rparr>)
       fresh stored 0 bs"

definition bindings_with_ids :: "Service \<Rightarrow> Binding list" where
  "bindings_with_ids s =
     map (\<lambda>b. with_service b (svc_id s) (svc_network_id (svc_base s))) (bindings_of s)"

definition set_bindings :: "Service \<Rightarrow> Binding list \<Rightarrow> Service" where
  "set_bindings s bs = s\<lparr>svc_base := (svc_base s)\<lparr>svc_bindings := bs\<rparr>\<rparr>"

section \<open>Upsert\<close>

fun merge_source :: "EntitySource \<Rightarrow> EntitySource \<Rightarrow> EntitySource" where
  "merge_source (DiscoveryWithMatch e) (DiscoveryWithMatch n) =
     DiscoveryWithMatch
       \<lparr>reason = (if confidence n > confidence e then reason n else reason e),
        confidence = max (confidence e) (confidence n)\<rparr>"
| "merge_source _ (DiscoveryWithMatch n) = DiscoveryWithMatch n"
| "merge_source e _ = e"

text \<open>
  Writing back a service that was read before: the row is updated, then the bindings are
  synchronised with the ones stored by now. A row deleted in the meantime is updated nowhere,
  and a binding cannot be inserted for it (the foreign key of the bindings).
\<close>

definition save_service :: "(nat \<Rightarrow> uuid) \<Rightarrow> store \<Rightarrow> Service \<Rightarrow> (store_error, store \<times> Service) result" where
  "save_service fresh st s =
     (case get_by_id svc_id (st_services st) (svc_id s) of
        None \<Rightarrow> if bindings_of s = [] then Ok (st, s) else Err (StorageError (NotFound (svc_id s)))
      | Some row \<Rightarrow>
          (let saved = set_bindings s (save_bindings fresh (bindings_of row) (bindings_with_ids s))
           in Ok (st\<lparr>st_services := update_row svc_id (st_services st) saved\<rparr>, saved)))"

definition upsert_service ::
    "(nat \<Rightarrow> uuid) \<Rightarrow> store \<Rightarrow> Service \<Rightarrow> Service \<Rightarrow> (store_error, store \<times> Service) result" where
  "upsert_service fresh st existing new_data =
     (let eb = svc_base existing; nb = svc_base new_data;
          merged = fst (merge_bindings (svc_bindings eb) 0 (svc_bindings nb));
          s = existing\<lparr>
                svc_base := eb\<lparr>
                  svc_bindings := merged,
                  svc_virtualization_metadata :=
                    (case svc_virtualization_metadata nb of
                       Some v \<Rightarrow> Some v | None \<Rightarrow> svc_virtualization_metadata eb),
                  svc_virtualization_service_id :=
                    (case svc_virtualization_service_id nb of
                       Some v \<Rightarrow> Some v | None \<Rightarrow> svc_virtualization_service_id eb),
                  svc_source := merge_source (svc_source eb) (svc_source nb)\<rparr>,
                svc_last_seen_at := svc_last_seen_at new_data\<rparr>
      in save_service fresh st s)"

section \<open>Create\<close>

definition create_new ::
    "(nat \<Rightarrow> uuid) \<Rightarrow> (nat \<Rightarrow> store) \<Rightarrow> store \<Rightarrow> Service \<Rightarrow> (store_error, store \<times> Service) result" where
  "create_new fresh seen st s =
     (let host = svc_host_id (svc_base s); bs = bindings_of s in
      case validate_bindings_no_conflicts bs of
        Inl e \<Rightarrow> Err (BindingError e)
      | Inr _ \<Rightarrow>
      case validate_bindings_belong_to_host (host_port_ids (seen 1) host) (host_ip_ids (seen 2) host) bs of
        Inl e \<Rightarrow> Err (BindingError e)
      | Inr _ \<Rightarrow>
      case (if is_from_discovery (svc_source (svc_base s)) then Ok ()
            else validate_bindings_available (seen 3) host (svc_id s) bs) of
        Inl e \<Rightarrow> Err e
      | Inr _ \<Rightarrow>
        (let row = s\<lparr>svc_created_at := svc_last_seen_at s, svc_valid_from := svc_last_seen_at s\<rparr>;
             saved = set_bindings row (save_bindings fresh [] (bindings_with_ids row))
         in case create_row svc_id (st_services st) saved of
              Inl e \<Rightarrow> Err (StorageError e)
            | Inr rows \<Rightarrow> Ok (st\<lparr>st_services := rows\<rparr>, saved)))"

definition create_service_at ::
    "def_attrs \<Rightarrow> uuid \<Rightarrow> datetime \<Rightarrow> (nat \<Rightarrow> uuid) \<Rightarrow> (nat \<Rightarrow> store) \<Rightarrow> store \<Rightarrow> Service
      \<Rightarrow> (store_error, store \<times> Service) result" where
  "create_service_at A new_id now fresh seen st svc =
     (let s0 = (if svc_id svc = nil_uuid then new_service new_id now (svc_base svc) else svc);
          s = set_bindings s0 (deduplicate_bindings (bindings_of s0));
          existing = services_on_host (seen 0) (svc_host_id (svc_base s));
          next_pos = next_position existing;
          fallback = create_new fresh seen st (s\<lparr>svc_base := (svc_base s)\<lparr>svc_position := next_pos\<rparr>\<rparr>)
      in case find (\<lambda>e. service_eq A e s) existing of
           Some e \<Rightarrow>
             if (is_from_discovery (svc_source (svc_base s))
                 \<and> is_from_discovery (svc_source (svc_base e))) \<or> svc_id s = svc_id e
             then upsert_service fresh st e s
             else fallback
         | None \<Rightarrow> fallback)"

definition create_service ::
    "def_attrs \<Rightarrow> uuid \<Rightarrow> datetime \<Rightarrow> (nat \<Rightarrow> uuid) \<Rightarrow> store \<Rightarrow> Service
      \<Rightarrow> (store_error, store \<times> Service) result" where
  "create_service A new_id now fresh st svc = create_service_at A new_id now fresh (\<lambda>_. st) st svc"

section \<open>Update and delete\<close>

definition update_service_at ::
    "(nat \<Rightarrow> uuid) \<Rightarrow> (nat \<Rightarrow> store) \<Rightarrow> store \<Rightarrow> Service \<Rightarrow> (store_error, store \<times> Service) result" where
  "update_service_at fresh seen st svc =
     (case get_by_id svc_id (st_services (seen 0)) (svc_id svc) of
        None \<Rightarrow> Err (ServiceNotFound (svc_id svc))
      | Some current \<Rightarrow>
        (let s = set_bindings svc (deduplicate_bindings (bindings_of svc));
             host = svc_host_id (svc_base s); bs = bindings_of s in
         case validate_bindings_no_conflicts bs of
           Inl e \<Rightarrow> Err (BindingError e)
         | Inr _ \<Rightarrow>
         case validate_bindings_belong_to_host (host_port_ids (seen 1) host) (host_ip_ids (seen 2) host) bs of
           Inl e \<Rightarrow> Err (BindingError e)
         | Inr _ \<Rightarrow>
         case validate_bindings_available (seen 3) host (svc_id s) bs of
           Inl e \<Rightarrow> Err e
         | Inr _ \<Rightarrow> save_service fresh st s))"

definition update_service :: "(nat \<Rightarrow> uuid) \<Rightarrow> store \<Rightarrow> Service \<Rightarrow> (store_error, store \<times> Service) result" where
  "update_service fresh st svc = update_service_at fresh (\<lambda>_. st) st svc"

definition delete_service_at :: "(nat \<Rightarrow> store) \<Rightarrow> store \<Rightarrow> uuid \<Rightarrow> (store_error, store) result" where
  "delete_service_at seen st i =
     (case get_by_id svc_id (st_services (seen 0)) i of
        None \<Rightarrow> Err (ServiceNotFound i)
      | Some _ \<Rightarrow> Ok (st\<lparr>st_services := delete_row svc_id (st_services st) i\<rparr>))"

definition delete_service :: "store \<Rightarrow> uuid \<Rightarrow> (store_error, store) result" where
  "delete_service st i = delete_service_at (\<lambda>_. st) st i"

interpretation svc_table: keyed_table svc_id "get_by_id svc_id" "create_row svc_id"
  "update_row svc_id" "delete_row svc_id" "wf_table svc_id"
  by (rule keyed_table_list)

section \<open>The invariant\<close>

text \<open>
  Ids are unique and every stored service has bindings that do not conflict with each other,
  are deduplicated and name the service as their owner.
\<close>

definition service_ok :: "Service \<Rightarrow> bool" where
  "service_ok s \<longleftrightarrow> conflict_free (bindings_of s) \<and> normalised (bindings_of s) \<and>
     (\<forall>b \<in> set (bindings_of s). bind_service_id (bind_base b) = svc_id s)"

definition store_inv :: "store \<Rightarrow> bool" where
  "store_inv st \<longleftrightarrow> wf_table svc_id (st_services st) \<and> (\<forall>s \<in> set (st_services st). service_ok s)"

lemma base_save_bindings:
  "map bind_base (save_bindings fresh stored bs) = map bind_base bs"
  unfolding save_bindings_def by (rule map_save_children) simp_all

lemma btype_save_bindings: "map btype (save_bindings fresh stored bs) = map btype bs"
  using arg_cong [OF base_save_bindings, of "map binding_type"] by (simp add: comp_def)

lemma btype_bindings_with_ids: "map btype (bindings_with_ids s) = map btype (bindings_of s)"
  by (simp add: bindings_with_ids_def with_service_def)

lemma owner_save_bindings:
  assumes "b \<in> set (save_bindings fresh stored (bindings_with_ids s))"
  shows "bind_service_id (bind_base b) = svc_id s"
proof -
  have "bind_base b \<in> set (map bind_base (bindings_with_ids s))"
    using assms base_save_bindings by (metis image_eqI list.set_map)
  then show ?thesis by (auto simp: bindings_with_ids_def with_service_def)
qed

lemma service_ok_saved:
  assumes "conflict_free (bindings_of s)" "normalised (bindings_of s)"
  shows "service_ok (set_bindings s (save_bindings fresh stored (bindings_with_ids s)))"
proof -
  have eq: "map btype (save_bindings fresh stored (bindings_with_ids s)) = map btype (bindings_of s)"
    by (simp only: btype_save_bindings btype_bindings_with_ids)
  show ?thesis
    unfolding service_ok_def set_bindings_def
    using bindings_cong(1,2) [OF eq] assms owner_save_bindings by simp
qed

lemma store_inv_update_row:
  "store_inv st \<Longrightarrow> service_ok s \<Longrightarrow>
   store_inv (st\<lparr>st_services := update_row svc_id (st_services st) s\<rparr>)"
  by (auto simp: store_inv_def wf_table_def map_key_update_row) (auto simp: update_row_def)

lemma svc_id_set_bindings [simp]: "svc_id (set_bindings s bs) = svc_id s"
  by (simp add: set_bindings_def)

lemma bindings_of_set_bindings [simp]: "bindings_of (set_bindings s bs) = bs"
  by (simp add: set_bindings_def)

lemma save_service_inv:
  assumes "store_inv st" "conflict_free (bindings_of s)" "normalised (bindings_of s)"
    "save_service fresh st s = Ok (st', out)"
  shows "store_inv st'"
proof (cases "get_by_id svc_id (st_services st) (svc_id s)")
  case None
  then show ?thesis using assms(1,4) by (simp add: save_service_def split: if_splits)
next
  case (Some row)
  then show ?thesis
    using assms(4) store_inv_update_row [OF assms(1) service_ok_saved [OF assms(2,3)]]
    by (auto simp: save_service_def Let_def)
qed

lemma upsert_service_inv:
  assumes "store_inv st" "service_ok existing"
    "upsert_service fresh st existing new_data = Ok (st', out)"
  shows "store_inv st'"
  using assms(3) unfolding upsert_service_def Let_def
  by (rule save_service_inv [OF assms(1), rotated 2])
    (use assms(2) in \<open>simp_all add: service_ok_def merge_bindings_conflict_free merge_bindings_normalised\<close>)

definition stored_row :: "(nat \<Rightarrow> uuid) \<Rightarrow> Service \<Rightarrow> Service" where
  "stored_row fresh s =
     (let row = s\<lparr>svc_created_at := svc_last_seen_at s, svc_valid_from := svc_last_seen_at s\<rparr> in
      set_bindings row (save_bindings fresh [] (bindings_with_ids row)))"

lemma create_new_Ok_iff:
  "create_new fresh seen st s = Ok (st', out) \<longleftrightarrow>
     validate_bindings_no_conflicts (bindings_of s) = Ok () \<and>
     validate_bindings_belong_to_host (host_port_ids (seen 1) (svc_host_id (svc_base s)))
       (host_ip_ids (seen 2) (svc_host_id (svc_base s))) (bindings_of s) = Ok () \<and>
     (is_from_discovery (svc_source (svc_base s)) \<or>
      validate_bindings_available (seen 3) (svc_host_id (svc_base s)) (svc_id s) (bindings_of s) = Ok ()) \<and>
     out = stored_row fresh s \<and>
     create_row svc_id (st_services st) out = Ok (st_services st @ [out]) \<and>
     st' = st\<lparr>st_services := st_services st @ [out]\<rparr>"
  unfolding create_new_def Let_def stored_row_def [unfolded Let_def, symmetric]
  by (cases "validate_bindings_no_conflicts (bindings_of s)";
      cases "validate_bindings_belong_to_host (host_port_ids (seen 1) (svc_host_id (svc_base s)))
        (host_ip_ids (seen 2) (svc_host_id (svc_base s))) (bindings_of s)";
      cases "validate_bindings_available (seen 3) (svc_host_id (svc_base s)) (svc_id s) (bindings_of s)";
      simp add: create_row_def; blast)

lemma create_new_inv:
  assumes "store_inv st" "normalised (bindings_of s)" "create_new fresh seen st s = Ok (st', out)"
  shows "store_inv st'"
proof -
  note ok = assms(3) [unfolded create_new_Ok_iff validate_bindings_no_conflicts_iff]
  have "service_ok out"
    using ok assms(2) service_ok_saved
      [of "s\<lparr>svc_created_at := svc_last_seen_at s, svc_valid_from := svc_last_seen_at s\<rparr>"]
    by (simp add: stored_row_def Let_def)
  moreover have row: "create_row svc_id (st_services st) out = Ok (st_services st @ [out])"
    and st': "st' = st\<lparr>st_services := st_services st @ [out]\<rparr>"
    using ok by blast+
  moreover have "wf_table svc_id (st_services st @ [out])"
    using svc_table.insert_inv [OF _ row] assms(1) by (simp add: store_inv_def)
  ultimately show ?thesis using assms(1) by (auto simp: store_inv_def)
qed

text \<open>The service the handler looks up and stores: identified and deduplicated.\<close>

definition prepared :: "uuid \<Rightarrow> datetime \<Rightarrow> Service \<Rightarrow> Service" where
  "prepared new_id now svc =
     (let s0 = (if svc_id svc = nil_uuid then new_service new_id now (svc_base svc) else svc) in
      set_bindings s0 (deduplicate_bindings (bindings_of s0)))"

definition positioned_next :: "store \<Rightarrow> Service \<Rightarrow> Service" where
  "positioned_next st s =
     s\<lparr>svc_base := (svc_base s)\<lparr>svc_position :=
         next_position (services_on_host st (svc_host_id (svc_base s)))\<rparr>\<rparr>"

lemma create_service_cases:
  fixes seen svc new_id now
  defines "s \<equiv> prepared new_id now svc"
  assumes "create_service_at A new_id now fresh seen st svc = Ok (st', out)"
  obtains (Upsert) e where "e \<in> set (st_services (seen 0))"
      "svc_host_id (svc_base e) = svc_host_id (svc_base s)"
      "service_eq A e s" "upsert_service fresh st e s = Ok (st', out)"
  | (New) "create_new fresh seen st (positioned_next (seen 0) s) = Ok (st', out)"
proof -
  let ?f = "find (\<lambda>e. service_eq A e s) (services_on_host (seen 0) (svc_host_id (svc_base s)))"
  have ok: "(case ?f of
      Some e \<Rightarrow> if (is_from_discovery (svc_source (svc_base s))
                 \<and> is_from_discovery (svc_source (svc_base e))) \<or> svc_id s = svc_id e
             then upsert_service fresh st e s
             else create_new fresh seen st (positioned_next (seen 0) s)
    | None \<Rightarrow> create_new fresh seen st (positioned_next (seen 0) s)) = Ok (st', out)"
    using assms(2) by (simp only: create_service_at_def s_def prepared_def positioned_next_def Let_def)
  show ?thesis
  proof (cases ?f)
    case None
    with ok New show ?thesis by simp
  next
    case (Some e)
    then have "e \<in> set (services_on_host (seen 0) (svc_host_id (svc_base s)))" "service_eq A e s"
      by (auto simp: find_Some_iff)
    with ok Some Upsert New show ?thesis by (simp add: services_on_host_def split: if_splits)
  qed
qed

lemma normalised_prepared: "normalised (bindings_of (positioned_next st (prepared new_id now svc)))"
  by (simp add: positioned_next_def prepared_def Let_def normalised_deduplicate)

lemma create_service_inv:
  assumes "store_inv (seen 0)" "store_inv st"
    "create_service_at A new_id now fresh seen st svc = Ok (st', out)"
  shows "store_inv st'"
  using assms(3)
proof (cases rule: create_service_cases)
  case (Upsert e)
  then show ?thesis using upsert_service_inv [OF assms(2)] assms(1) by (auto simp: store_inv_def)
next
  case New
  then show ?thesis using create_new_inv [OF assms(2) normalised_prepared] by blast
qed

lemma update_service_inv:
  assumes "store_inv st" "update_service_at fresh seen st svc = Ok (st', out)"
  shows "store_inv st'"
proof -
  let ?s = "set_bindings svc (deduplicate_bindings (bindings_of svc))"
  have "save_service fresh st ?s = Ok (st', out)" "conflict_free (bindings_of ?s)"
    using assms(2)
    by (auto simp: update_service_at_def Let_def validate_bindings_no_conflicts_iff
        split: option.splits sum.splits)
  moreover have "normalised (bindings_of ?s)" by (simp add: normalised_deduplicate)
  ultimately show ?thesis using save_service_inv [OF assms(1)] by blast
qed

lemma delete_service_inv:
  assumes "store_inv st" "delete_service_at seen st i = Ok st'"
  shows "store_inv st'"
  using assms svc_table.remove_inv [of "st_services st" i]
  by (auto simp: delete_service_at_def store_inv_def split: option.splits) (auto simp: delete_row_def)

section \<open>Runs of the store\<close>

text \<open>
  The states of a run, the newest first. Each of the three handlers may have read any earlier
  state, a different one at each read; the changes other services make to the ports and
  addresses come in between.
\<close>

inductive store_run :: "def_attrs \<Rightarrow> store list \<Rightarrow> bool" for A where
  empty: "store_run A [\<lparr>st_services = [], st_ports = ports, st_ips = ips\<rparr>]"
| create: "store_run A (st # past) \<Longrightarrow> range seen \<subseteq> set (st # past) \<Longrightarrow>
    create_service_at A new_id now fresh seen st svc = Ok (st', out) \<Longrightarrow> store_run A (st' # st # past)"
| update: "store_run A (st # past) \<Longrightarrow> range seen \<subseteq> set (st # past) \<Longrightarrow>
    update_service_at fresh seen st svc = Ok (st', out) \<Longrightarrow> store_run A (st' # st # past)"
| delete: "store_run A (st # past) \<Longrightarrow> range seen \<subseteq> set (st # past) \<Longrightarrow>
    delete_service_at seen st i = Ok st' \<Longrightarrow> store_run A (st' # st # past)"
| environment: "store_run A (st # past) \<Longrightarrow>
    store_run A (st\<lparr>st_ports := ports, st_ips := ips\<rparr> # st # past)"

lemma store_run_inv: "store_run A sts \<Longrightarrow> st \<in> set sts \<Longrightarrow> store_inv st"
proof (induction arbitrary: st rule: store_run.induct)
  case (create cur past seen new_id now fresh svc st' out)
  have "store_inv (seen 0)" using create.hyps(2) by (intro create.IH) blast
  then have "store_inv st'" using create_service_inv [OF _ _ create.hyps(3)] create.IH by simp
  then show ?case using create.IH create.prems by auto
next
  case (update cur past seen fresh svc st' out)
  then show ?case using update_service_inv [OF _ update.hyps(3)] by auto
next
  case (delete cur past seen i st')
  then show ?case using delete_service_inv [OF _ delete.hyps(3)] by auto
next
  case (environment cur past ips ports)
  have "store_inv (cur\<lparr>st_ports := ports, st_ips := ips\<rparr>)"
    using environment.IH [of cur] by (simp add: store_inv_def)
  then show ?case using environment.IH environment.prems by auto
qed (simp add: store_inv_def wf_table_def)

section \<open>Exclusive ports\<close>

lemma conflicting_service_None:
  "conflicting_service others p io = None \<longleftrightarrow>
   (\<forall>s \<in> set others. \<forall>(q, i) \<in> set (port_claims (bindings_of s)). \<not> (q = p \<and> iface_overlap io i))"
  unfolding conflicting_service_def find_None_iff set_port_claims
  by (fastforce split: BindingType.splits)

lemma bindings_available_iff:
  "bindings_available others bs = Ok () \<longleftrightarrow>
   (\<forall>s \<in> set others. \<forall>b \<in> set bs. \<not> claim_conflicts (port_claims (bindings_of s)) b)"
proof (induction bs)
  case Nil
  then show ?case by simp
next
  case (Cons b bs)
  show ?case
  proof (cases "btype b")
    case (IPAddress i)
    then show ?thesis using Cons by (simp add: claim_conflicts_def)
  next
    case (Port p io)
    have "conflicting_service others p io = None \<longleftrightarrow>
        (\<forall>s \<in> set others. \<not> claim_conflicts (port_claims (bindings_of s)) b)"
      using Port by (auto simp: conflicting_service_None claim_conflicts_def)
    then show ?thesis using Port Cons by (auto split: option.splits)
  qed
qed

lemma validate_bindings_available_iff:
  "validate_bindings_available st host i bs = Ok () \<longleftrightarrow>
   (\<forall>s \<in> set (services_on_host st host). svc_id s \<noteq> i \<longrightarrow>
      (\<forall>b \<in> set bs. \<not> claim_conflicts (port_claims (bindings_of s)) b))"
  by (auto simp: validate_bindings_available_def bindings_available_iff)

section \<open>Positions\<close>

abbreviation host_positions :: "store \<Rightarrow> uuid \<Rightarrow> int list" where
  "host_positions st h \<equiv> map (position service_positioned) (services_on_host st h)"

lemma valid_positions_snoc: "valid_positions ps \<Longrightarrow> valid_positions (ps @ [int (length ps)])"
  by (auto simp: valid_positions_def)

lemma stored_row_observe:
  "svc_position (svc_base (stored_row fresh s)) = svc_position (svc_base s)"
  "svc_host_id (svc_base (stored_row fresh s)) = svc_host_id (svc_base s)"
  by (simp_all add: stored_row_def set_bindings_def Let_def)

lemma save_service_positions:
  assumes "store_inv st" "e \<in> set (st_services st)" "save_service fresh st s = Ok (st', out)"
    and "svc_id s = svc_id e" "svc_host_id (svc_base s) = svc_host_id (svc_base e)"
      "svc_position (svc_base s) = svc_position (svc_base e)"
  shows "host_positions st' h = host_positions st h"
proof -
  have e: "get_by_id svc_id (st_services st) (svc_id s) = Some e"
    using assms(1,2,4) by (simp add: store_inv_def get_by_id_Some)
  have st': "st' = st\<lparr>st_services := update_row svc_id (st_services st) out\<rparr>"
    and out: "svc_id out = svc_id e" "svc_host_id (svc_base out) = svc_host_id (svc_base e)"
      "svc_position (svc_base out) = svc_position (svc_base e)"
    using assms(3-6) e by (auto simp: save_service_def Let_def set_bindings_def)
  have "map (\<lambda>s. svc_position (svc_base s))
      (filter (\<lambda>s. svc_host_id (svc_base s) = h) (update_row svc_id (st_services st) out)) =
    map (\<lambda>s. svc_position (svc_base s)) (filter (\<lambda>s. svc_host_id (svc_base s) = h) (st_services st))"
    using assms(1,2) out by (intro update_row_observe [of svc_id _ e]) (auto simp: store_inv_def)
  then show ?thesis by (simp add: st' services_on_host_def service_positioned_def)
qed

lemma upsert_positions:
  assumes "store_inv st" "e \<in> set (st_services st)" "upsert_service fresh st e s = Ok (st', out)"
  shows "host_positions st' h = host_positions st h"
  using assms(3) unfolding upsert_service_def Let_def
  by (rule save_service_positions [OF assms(1,2)]) simp_all

lemma create_service_positions:
  assumes inv: "store_inv st"
    and ok: "create_service A new_id now fresh st svc = Ok (st', out)"
    and valid: "valid_positions (host_positions st h)"
    and len: "length (services_on_host st h) < 2147483648"
  shows "valid_positions (host_positions st' h)"
  using ok [unfolded create_service_def]
proof (cases rule: create_service_cases)
  case (Upsert e)
  then show ?thesis using upsert_positions [OF inv _ Upsert(4)] valid by simp
next
  case New
  let ?s = "positioned_next st (prepared new_id now svc)"
  note ok = New [unfolded create_new_Ok_iff]
  have out: "svc_host_id (svc_base out) = svc_host_id (svc_base ?s)"
    "svc_position (svc_base out) = next_position (services_on_host st (svc_host_id (svc_base ?s)))"
    using ok stored_row_observe [of fresh ?s] by (auto simp: positioned_next_def)
  have st': "services_on_host st' h =
      services_on_host st h @ (if svc_host_id (svc_base out) = h then [out] else [])"
    using ok by (simp add: services_on_host_def)
  show ?thesis
    using valid_positions_snoc [OF valid] valid len out
    by (auto simp: st' service_positioned_def next_position_def as_i32_id)
qed

end
