(* ===== verification/Patterns.thy ===== *)
theory Patterns
  imports Services "HOL-Library.Product_Lexorder"
begin

text \<open>
  Discovery patterns (\<^verbatim>\<open>backend/src/server/services/impl/patterns.rs\<close>), the
  endpoints they probe (\<^verbatim>\<open>backend/src/server/services/impl/endpoints.rs\<close>) and
  the service definitions that own them
  (\<^verbatim>\<open>backend/src/server/services/impl/definitions.rs\<close>).

  A pattern is a tree of tests on what a scan found on a host. \<open>matches\<close> evaluates it to
  the ports, endpoint, reason and confidence of the match, or to the text of why it failed;
  each variant of the source's match is one definition here. The environment holds what comes
  from outside: the vendor database, membership of an address in a CIDR block, and the list of
  registered definitions, whose order is the linker's.

  The facts: a match succeeds exactly when the pattern's boolean reading holds, its confidence
  is bounded by the confidences of the parts, the ports of a composite match are sorted
  without repetition, and scanning the ports a pattern lists is enough to decide it when it
  has no negation.
\<close>

named_theorems service_defs \<open>the registered service definitions\<close>

section \<open>Endpoints\<close>

datatype ApplicationProtocol = HttpProtocol | HttpsProtocol

record Endpoint =
  ep_protocol :: ApplicationProtocol
  ep_ip :: "IpAddr option"
  ep_port_type :: PortType
  ep_path :: string

record EndpointResponse =
  resp_endpoint :: Endpoint
  resp_body :: string
  resp_headers :: "(string \<times> string) list"
  resp_status :: "16 word"

definition is_resolved :: "Endpoint \<Rightarrow> bool" where
  "is_resolved e \<longleftrightarrow> ep_ip e \<noteq> None"

definition use_ip :: "Endpoint \<Rightarrow> IpAddr \<Rightarrow> Endpoint" where
  "use_ip e ip = \<lparr>ep_protocol = ep_protocol e, ep_ip = Some ip, ep_port_type = ep_port_type e,
     ep_path = ep_path e\<rparr>"

definition endpoint_http :: "IpAddr option \<Rightarrow> string \<Rightarrow> Endpoint" where
  "endpoint_http ip path = \<lparr>ep_protocol = HttpProtocol, ep_ip = ip, ep_port_type = Http, ep_path = path\<rparr>"

definition for_pattern :: "PortType \<Rightarrow> string \<Rightarrow> Endpoint" where
  "for_pattern port path = \<lparr>ep_protocol = HttpProtocol, ep_ip = None, ep_port_type = port, ep_path = path\<rparr>"

definition endpoint_eq :: "Endpoint \<Rightarrow> Endpoint \<Rightarrow> bool" where
  "endpoint_eq a b \<longleftrightarrow> ep_protocol a = ep_protocol b
     \<and> port_number (ep_port_type a) = port_number (ep_port_type b) \<and> ep_path a = ep_path b"

section \<open>Patterns and their parameters\<close>

datatype ClientProbe = ProbeDocker | ProbePodman | ProbeSnmp | ProbeUnifiController | ProbeInstantOn

fun probe_name :: "ClientProbe \<Rightarrow> string" where
  "probe_name ProbeDocker = ''Docker''"
| "probe_name ProbePodman = ''Podman''"
| "probe_name ProbeSnmp = ''Snmp''"
| "probe_name ProbeUnifiController = ''UnifiController''"
| "probe_name ProbeInstantOn = ''InstantOn''"

record ManagedDevice =
  device_type :: string

type_synonym status_range = "16 word \<times> 16 word"

datatype 'p Pattern =
    AnyOf "'p Pattern list"
  | AllOf "'p Pattern list"
  | NotP "'p Pattern"
  | PortP PortType
  | EndpointP PortType string string "status_range option"
  | HeaderP "PortType option" string string "status_range option"
  | SubnetIsType SubnetType
  | IsGateway
  | MacVendor string
  | CustomP "'p \<Rightarrow> bool" "'p \<Rightarrow> PortType list" string string MatchConfidence
  | ClientResponse ClientProbe
  | ContainerVirtualization
  | ManagedDeviceType string
  | NoneP

text \<open>
  The parameters of one match. A matched service names its definition by id, so the lookup of
  a definition's attributes by id, which the source reads off the definition object inside the
  service, travels with the parameters.
\<close>

record ServiceMatchBaselineParams =
  mp_subnet :: Subnet
  mp_ip_address :: IPAddress
  all_ports :: "PortType list"
  endpoint_responses :: "EndpointResponse list"
  mp_virtualization_metadata :: "ServiceVirtualization option"
  mp_virtualization_service_id :: "uuid option"
  client_responses :: "ClientProbe \<Rightarrow> PortType list option"
  managed_device :: "ManagedDevice option"

record ServiceMatchServiceParams =
  mp_service_definition :: string
  matched_services :: "Service list"
  unbound_ports :: "PortType list"
  definition_attrs :: def_attrs

record match_params =
  mp_host_id :: uuid
  gateway_ips :: "IpAddr list"
  mp_daemon_id :: uuid
  mp_network_id :: uuid
  baseline_params :: ServiceMatchBaselineParams
  service_params :: ServiceMatchServiceParams

type_synonym pattern = "match_params Pattern"

record MatchResult =
  result_ports :: "PortType list"
  result_endpoint :: "Endpoint option"
  result_mac_vendor :: "string option"
  details :: MatchDetails

section \<open>Service definitions\<close>

text \<open>The vendor names and device classes the definitions compare with.\<close>

definition vendor_philips :: string where
  "vendor_philips = ''Philips Lighting BV''"

definition vendor_hp :: string where
  "vendor_hp = ''HP Inc.''"

definition vendor_eero :: string where
  "vendor_eero = ''eero Inc''"

definition vendor_tplink :: string where
  "vendor_tplink = ''TP-LINK TECHNOLOGIES CO.,LTD''"

definition vendor_ubiquiti :: string where
  "vendor_ubiquiti = ''Ubiquiti Inc''"

definition vendor_google :: string where
  "vendor_google = ''Google, Inc.''"

definition vendor_nest :: string where
  "vendor_nest = ''Nest Labs Inc.''"

definition vendor_amazon :: string where
  "vendor_amazon = ''Amazon Technologies Inc.''"

definition vendor_sonos :: string where
  "vendor_sonos = ''Sonos, Inc.''"

definition vendor_ecobee :: string where
  "vendor_ecobee = ''ecobee inc''"

definition vendor_roku :: string where
  "vendor_roku = ''Roku, Inc''"

definition vendor_roborock :: string where
  "vendor_roborock = ''Beijing Roborock Technology Co., Ltd.''"

definition vendor_wiz :: string where
  "vendor_wiz = ''WiZ''"

definition vendor_tuyasmart :: string where
  "vendor_tuyasmart = ''Tuya Smart Inc.''"

definition unifidevicetype_access_point :: string where
  "unifidevicetype_access_point = ''uap''"

definition unifidevicetype_switch :: string where
  "unifidevicetype_switch = ''usw''"

definition unifidevicetype_gateway :: string where
  "unifidevicetype_gateway = ''ugw''"

definition unifidevicetype_dream_machine :: string where
  "unifidevicetype_dream_machine = ''udm''"

definition instantondevicetype_access_point :: string where
  "instantondevicetype_access_point = ''ACCESS_POINT''"

definition instantondevicetype_switch :: string where
  "instantondevicetype_switch = ''SWITCH''"

definition instantondevicetype_stack :: string where
  "instantondevicetype_stack = ''STACK''"

definition instantondevicetype_gateway :: string where
  "instantondevicetype_gateway = ''GATEWAY''"

datatype ServiceCategory =
    NetworkCore | NetworkAccess | NetworkAppliance | RemoteAccess | StorageCategory | Backup | Media
  | HomeAutomation | Hypervisor | ContainerRuntime | ContainerCategory | Orchestrator | DNS | VPN
  | Monitoring | AdBlock | ReverseProxy | Workstation | Mobile | IoTCategory | Printer | Database
  | Development | Dashboard | MessageQueue | IdentityAndAccess | Integration | Office
  | ProjectManagement | Messaging | Conferencing | Telephony | Email | Publishing
  | UnknownCategory | CustomCategory | Scanopy | OpenPortsCategory

record ServiceDefinition =
  def_name :: string
  def_description :: string
  def_category :: ServiceCategory
  discovery_pattern :: pattern
  is_generic :: bool
  logo_url :: string
  logo_needs_white_background :: bool

record match_env =
  oui_lookup :: "MacAddress \<Rightarrow> string option"
  cidr_contains :: "IpCidr \<Rightarrow> IpAddr \<Rightarrow> bool"
  all_service_definitions :: "ServiceDefinition list"

text \<open>The ports a pattern asks the scanner for, and the endpoints it asks it to probe.\<close>

fun ports :: "'p Pattern \<Rightarrow> PortType list" where
  "ports (PortP port) = [port]"
| "ports (AnyOf patterns) = concat (map ports patterns)"
| "ports (AllOf patterns) = concat (map ports patterns)"
| "ports _ = []"

fun endpoints :: "'p Pattern \<Rightarrow> Endpoint list" where
  "endpoints (EndpointP port path _ None) = [for_pattern port path]"
| "endpoints (HeaderP port_opt _ _ _) =
     (case port_opt of Some port \<Rightarrow> [for_pattern port ''/''] | None \<Rightarrow> [for_pattern Http ''/''])"
| "endpoints (AnyOf patterns) = concat (map endpoints patterns)"
| "endpoints (AllOf patterns) = concat (map endpoints patterns)"
| "endpoints _ = []"

definition has_raw_socket_endpoint :: "'p Pattern \<Rightarrow> bool" where
  "has_raw_socket_endpoint p \<longleftrightarrow> (\<exists>e \<in> set (endpoints p). is_raw_socket (ep_port_type e))"

fun contains_gateway_ip_pattern :: "'p Pattern \<Rightarrow> bool" where
  "contains_gateway_ip_pattern IsGateway = True"
| "contains_gateway_ip_pattern (AllOf patterns) = list_ex contains_gateway_ip_pattern patterns"
| "contains_gateway_ip_pattern (AnyOf patterns) = list_ex contains_gateway_ip_pattern patterns"
| "contains_gateway_ip_pattern _ = False"

definition can_be_manually_added :: "ServiceDefinition \<Rightarrow> bool" where
  "can_be_manually_added d \<longleftrightarrow> def_category d \<notin> {Scanopy, OpenPortsCategory}"

definition is_scanopy :: "ServiceDefinition \<Rightarrow> bool" where
  "is_scanopy d \<longleftrightarrow> def_category d = Scanopy"

definition is_gateway :: "ServiceDefinition \<Rightarrow> bool" where
  "is_gateway d \<longleftrightarrow> contains_gateway_ip_pattern (discovery_pattern d)"

definition is_open_ports :: "ServiceDefinition \<Rightarrow> bool" where
  "is_open_ports d \<longleftrightarrow> def_category d = OpenPortsCategory"

definition has_logo :: "ServiceDefinition \<Rightarrow> bool" where
  "has_logo d \<longleftrightarrow> logo_url d \<noteq> []"

definition find_by_id :: "ServiceDefinition list \<Rightarrow> string \<Rightarrow> ServiceDefinition option" where
  "find_by_id defs i = find (\<lambda>d. def_name d = i) defs"

definition service_exists :: "ServiceDefinition list \<Rightarrow> string \<Rightarrow> bool" where
  "service_exists defs i \<longleftrightarrow> list_ex (\<lambda>d. def_name d = i) defs"

definition default_service_definition :: ServiceDefinition where
  "default_service_definition =
     \<lparr>def_name = ''Missing Service'',
      def_description = ''If you are seeing this, a service definition was removed. Please create an issue.'',
      def_category = UnknownCategory, discovery_pattern = NoneP, is_generic = False, logo_url = [],
      logo_needs_white_background = False\<rparr>"

definition serialize_definition :: "ServiceDefinition \<Rightarrow> string" where
  "serialize_definition d = def_name d"

definition deserialize_definition :: "ServiceDefinition list \<Rightarrow> string \<Rightarrow> ServiceDefinition" where
  "deserialize_definition defs i =
     (case find_by_id defs i of Some d \<Rightarrow> d | None \<Rightarrow> default_service_definition)"

section \<open>Matching\<close>

abbreviation port_key :: "PortType \<Rightarrow> 16 word \<times> TransportProtocol" where
  "port_key p \<equiv> (port_number p, port_protocol p)"

definition sort_dedup_ports :: "PortType list \<Rightarrow> PortType list" where
  "sort_dedup_ports ps = dedup_by port_eq (sort_key port_key ps)"

definition port_mem :: "PortType \<Rightarrow> PortType list \<Rightarrow> bool" where
  "port_mem p ps \<longleftrightarrow> list_ex (port_eq p) ps"

definition in_range :: "status_range option \<Rightarrow> 16 word \<Rightarrow> bool" where
  "in_range r status = (case r of Some (lo, hi) \<Rightarrow> lo \<le> status \<and> status < hi
                                | None \<Rightarrow> 200 \<le> status \<and> status < 400)"

definition simple_match :: "PortType list \<Rightarrow> match_text \<Rightarrow> MatchConfidence \<Rightarrow> MatchResult" where
  "simple_match ps t c = \<lparr>result_ports = ps, result_endpoint = None, result_mac_vendor = None,
     details = \<lparr>reason = Reason t, confidence = c\<rparr>\<rparr>"

definition other_services_ports :: "match_env \<Rightarrow> string \<Rightarrow> PortType list" where
  "other_services_ports E this =
     sort_dedup_ports (concat (map (ports \<circ> discovery_pattern)
       (filter (\<lambda>s. def_name s \<noteq> this) (all_service_definitions E))))"

definition match_port :: "match_env \<Rightarrow> match_params \<Rightarrow> PortType \<Rightarrow> (match_text, MatchResult) result" where
  "match_port E P port =
     (case find (\<lambda>p. port_eq p port) (unbound_ports (service_params P)) of
        Some matched_port \<Rightarrow>
          let others = other_services_ports E (mp_service_definition (service_params P));
              unique = is_custom port \<and> \<not> port_mem port others
          in Ok (if is_custom port \<and> unique
                 then simple_match [matched_port] (PortOpenUnique (port_number port) (port_protocol port)) Medium
                 else simple_match [matched_port] (PortOpen (port_number port) (port_protocol port)) Low)
      | None \<Rightarrow> Err (PortNotOpen (port_number port) (port_protocol port)))"

definition header_matches ::
    "PortType option \<Rightarrow> string \<Rightarrow> string \<Rightarrow> status_range option \<Rightarrow> EndpointResponse \<Rightarrow> bool" where
  "header_matches port header value_text rng actual \<longleftrightarrow>
     (case port of Some p \<Rightarrow> port_eq (ep_port_type (resp_endpoint actual)) p | None \<Rightarrow> True)
     \<and> in_range rng (resp_status actual)
     \<and> list_ex (\<lambda>(h, v). to_lowercase h = to_lowercase header
                        \<and> str_contains (to_lowercase v) (to_lowercase value_text)) (resp_headers actual)"

definition match_header ::
    "match_params \<Rightarrow> PortType option \<Rightarrow> string \<Rightarrow> string \<Rightarrow> status_range option
      \<Rightarrow> (match_text, MatchResult) result" where
  "match_header P port header value_text rng =
     (case find (header_matches port header value_text rng) (endpoint_responses (baseline_params P)) of
        Some r \<Rightarrow> Ok \<lparr>result_ports = [ep_port_type (resp_endpoint r)],
          result_endpoint = Some (resp_endpoint r), result_mac_vendor = None,
          details = \<lparr>reason = Reason (HeaderMatch (map_option port_number port) header value_text
                       (map_option (\<lambda>rg. (resp_status r, rg)) rng)), confidence = High\<rparr>\<rparr>
      | None \<Rightarrow> Err (NoHeaderResponse (case port of Some p \<Rightarrow> port_number p | None \<Rightarrow> port_number Http)))"

definition endpoint_matches ::
    "PortType \<Rightarrow> string \<Rightarrow> string \<Rightarrow> status_range option \<Rightarrow> EndpointResponse \<Rightarrow> bool" where
  "endpoint_matches port path body rng actual \<longleftrightarrow>
     (let endpoint = for_pattern port path; e = resp_endpoint actual in
        ep_protocol e = ep_protocol endpoint
        \<and> port_number (ep_port_type e) = port_number (ep_port_type endpoint)
        \<and> port_protocol (ep_port_type e) = port_protocol (ep_port_type endpoint)
        \<and> ep_path e = ep_path endpoint
        \<and> in_range rng (resp_status actual)
        \<and> str_contains (to_lowercase (resp_body actual)) (to_lowercase body))"

definition match_endpoint ::
    "match_params \<Rightarrow> PortType \<Rightarrow> string \<Rightarrow> string \<Rightarrow> status_range option
      \<Rightarrow> (match_text, MatchResult) result" where
  "match_endpoint P port path body rng =
     (case find (endpoint_matches port path body rng) (endpoint_responses (baseline_params P)) of
        Some r \<Rightarrow> Ok \<lparr>result_ports = [ep_port_type (resp_endpoint r)],
          result_endpoint = Some (resp_endpoint r), result_mac_vendor = None,
          details = \<lparr>reason = Reason (EndpointMatch (ip_address (ip_base (mp_ip_address (baseline_params P))))
                       (port_number port) path body (map_option (\<lambda>rg. (resp_status r, rg)) rng)),
                     confidence = High\<rparr>\<rparr>
      | None \<Rightarrow> Err (NoEndpointResponse body))"

definition normalize_vendor :: "string \<Rightarrow> string" where
  "normalize_vendor s = filter is_alphanumeric (to_lowercase (trim s))"

definition match_mac_vendor :: "match_env \<Rightarrow> match_params \<Rightarrow> string \<Rightarrow> (match_text, MatchResult) result" where
  "match_mac_vendor E P vendor =
     (case ip_mac_address (ip_base (mp_ip_address (baseline_params P))) of
        Some mac \<Rightarrow>
          (case oui_lookup E mac of
             None \<Rightarrow> Err NoVendorEntry
           | Some company \<Rightarrow>
               if normalize_vendor vendor = normalize_vendor company
               then Ok \<lparr>result_ports = [], result_endpoint = None, result_mac_vendor = Some company,
                        details = \<lparr>reason = Reason (VendorMatch company), confidence = Medium\<rparr>\<rparr>
               else Err (VendorMismatch (normalize_vendor vendor)))
      | None \<Rightarrow> Err (NoMacAddress (ip_address (ip_base (mp_ip_address (baseline_params P))))))"

fun reason_display :: "MatchReason \<Rightarrow> string" where
  "reason_display (Reason _) = ''Reason''"
| "reason_display (Container _ _) = ''Container''"

fun match_not :: "(match_text, MatchResult) result \<Rightarrow> (match_text, MatchResult) result" where
  "match_not (Inr r) = Err (Variant (reason_display (reason (details r))))"
| "match_not (Inl e) = Ok (simple_match [] e Low)"

text \<open>
  The two loops over sub-patterns. The endpoint and vendor they collect are never read again:
  the composite result has neither.
\<close>

record any_of_state =
  any_ports :: "PortType list"
  any_matched :: bool
  any_confidence :: MatchConfidence
  any_reasons :: "MatchReason list"
  any_errors :: "match_text list"

fun any_of_step :: "any_of_state \<Rightarrow> (match_text, MatchResult) result \<Rightarrow> any_of_state" where
  "any_of_step s (Inr r) =
     s\<lparr>any_matched := True, any_ports := any_ports s @ result_ports r,
       any_reasons := any_reasons s @ [reason (details r)],
       any_confidence := (if confidence (details r) > any_confidence s
                          then confidence (details r) else any_confidence s)\<rparr>"
| "any_of_step s (Inl e) = s\<lparr>any_errors := any_errors s @ [e]\<rparr>"

definition match_any_of :: "(match_text, MatchResult) result list \<Rightarrow> (match_text, MatchResult) result" where
  "match_any_of rs =
     (let s = foldl any_of_step
        \<lparr>any_ports = [], any_matched = False, any_confidence = Low, any_reasons = [], any_errors = []\<rparr> rs
      in if any_matched s
         then Ok \<lparr>result_ports = sort_dedup_ports (any_ports s), result_endpoint = None,
                  result_mac_vendor = None,
                  details = \<lparr>reason = Container ''Any of'' (any_reasons s), confidence = any_confidence s\<rparr>\<rparr>
         else Err (Joined (any_errors s)))"

record all_of_state =
  all_matched :: bool
  all_of_ports :: "PortType list"
  matched_confidences :: "MatchConfidence list"
  all_reasons :: "MatchReason list"
  all_errors :: "match_text list"

fun all_of_step :: "all_of_state \<Rightarrow> (match_text, MatchResult) result \<Rightarrow> all_of_state" where
  "all_of_step s (Inr r) =
     s\<lparr>all_of_ports := all_of_ports s @ result_ports r,
       all_reasons := all_reasons s @ [reason (details r)],
       matched_confidences := matched_confidences s @ [confidence (details r)]\<rparr>"
| "all_of_step s (Inl e) = s\<lparr>all_matched := False, all_errors := all_errors s @ [e]\<rparr>"

definition boosted :: "MatchConfidence list \<Rightarrow> MatchConfidence" where
  "boosted cs =
     (let sorted_cs = sort cs; max_c = (if sorted_cs = [] then Low else last sorted_cs)
      in if max_c \<in> {Low, Medium} \<and> length sorted_cs > 3
         then (case max_c of Low \<Rightarrow> Medium | Medium \<Rightarrow> High | _ \<Rightarrow> max_c)
         else max_c)"

definition match_all_of :: "(match_text, MatchResult) result list \<Rightarrow> (match_text, MatchResult) result" where
  "match_all_of rs =
     (let s = foldl all_of_step
        \<lparr>all_matched = True, all_of_ports = [], matched_confidences = [], all_reasons = [], all_errors = []\<rparr> rs
      in if all_matched s
         then Ok \<lparr>result_ports = sort_dedup_ports (all_of_ports s), result_endpoint = None,
                  result_mac_vendor = None,
                  details = \<lparr>reason = Container ''All of'' (all_reasons s),
                             confidence = boosted (matched_confidences s)\<rparr>\<rparr>
         else Err (Joined (all_errors s)))"

definition match_gateway :: "match_env \<Rightarrow> match_params \<Rightarrow> (match_text, MatchResult) result" where
  "match_gateway E P =
     (let block = cidr (subnet_base (mp_subnet (baseline_params P)));
          ip = ip_address (ip_base (mp_ip_address (baseline_params P)));
          in_subnet = filter (cidr_contains E block) (gateway_ips P);
          count = length in_subnet;
          last_octet_1_or_254 = (last_unit ip = 1 \<or> last_unit ip = 254)
      in if ip \<in> set in_subnet then Ok (simple_match [] (GatewayInRoutingTable (mp_daemon_id P)) High)
         else if last_octet_1_or_254 \<and> count = 0 then Ok (simple_match [] (OnlyGatewayInSubnet block) High)
         else Err NotAGateway)"

definition match_subnet_type :: "match_params \<Rightarrow> SubnetType \<Rightarrow> (match_text, MatchResult) result" where
  "match_subnet_type P t =
     (let b = subnet_base (mp_subnet (baseline_params P)) in
      if subnet_type b = t then Ok (simple_match [] (SubnetTypeMatch (cidr b) t) Low)
      else Err (SubnetTypeMismatch (cidr b) t))"

definition match_custom ::
    "match_params \<Rightarrow> (match_params \<Rightarrow> bool) \<Rightarrow> (match_params \<Rightarrow> PortType list) \<Rightarrow> string \<Rightarrow> string
      \<Rightarrow> MatchConfidence \<Rightarrow> (match_text, MatchResult) result" where
  "match_custom P constraint port_function reason_text no_match c =
     (if constraint P then Ok (simple_match (port_function P) (Text reason_text) c)
      else Err (Text no_match))"

definition match_client_response :: "match_params \<Rightarrow> ClientProbe \<Rightarrow> (match_text, MatchResult) result" where
  "match_client_response P probe =
     (case client_responses (baseline_params P) probe of
        Some ps \<Rightarrow> Ok (simple_match ps (ProbeSucceeded (probe_name probe)) Certain)
      | None \<Rightarrow> Err (ProbeFailed (probe_name probe)))"

definition match_container :: "match_params \<Rightarrow> (match_text, MatchResult) result" where
  "match_container P =
     (case mp_virtualization_metadata (baseline_params P) of
        Some (Docker _) \<Rightarrow> Ok (simple_match [] (Text ''Service is running in a container'') Low)
      | Some (Podman _) \<Rightarrow> Ok (simple_match [] (Text ''Service is running in a container'') Low)
      | _ \<Rightarrow> Err (Text ''Service is not running in a container''))"

definition match_managed_device :: "match_params \<Rightarrow> string \<Rightarrow> (match_text, MatchResult) result" where
  "match_managed_device P expected =
     (case managed_device (baseline_params P) of
        Some d \<Rightarrow> if eq_ignore_ascii_case (device_type d) expected
                  then Ok (simple_match [] (ControllerMatch (device_type d)) Certain)
                  else Err (ControllerMismatch (device_type d) expected)
      | None \<Rightarrow> Err (Text ''Host was not reported by a management controller''))"

fun matches :: "match_env \<Rightarrow> match_params \<Rightarrow> pattern \<Rightarrow> (match_text, MatchResult) result" where
  "matches E P (PortP port) = match_port E P port"
| "matches E P (HeaderP port header value_text rng) = match_header P port header value_text rng"
| "matches E P (EndpointP port path body rng) = match_endpoint P port path body rng"
| "matches E P (MacVendor vendor) = match_mac_vendor E P vendor"
| "matches E P (NotP p) = match_not (matches E P p)"
| "matches E P (AnyOf ps) = match_any_of (map (matches E P) ps)"
| "matches E P (AllOf ps) = match_all_of (map (matches E P) ps)"
| "matches E P IsGateway = match_gateway E P"
| "matches E P (SubnetIsType t) = match_subnet_type P t"
| "matches E P (CustomP f g r n c) = match_custom P f g r n c"
| "matches E P (ClientResponse probe) = match_client_response P probe"
| "matches E P ContainerVirtualization = match_container P"
| "matches E P (ManagedDeviceType expected) = match_managed_device P expected"
| "matches E P NoneP = Err (Text ''No match pattern provided'')"

section \<open>The boolean reading of a pattern\<close>

abbreviation succeeded :: "('e, 'a) result \<Rightarrow> bool" where
  "succeeded r \<equiv> \<not> isl r"

fun sat :: "match_env \<Rightarrow> match_params \<Rightarrow> pattern \<Rightarrow> bool" where
  "sat E P (PortP port) = port_mem port (unbound_ports (service_params P))"
| "sat E P (HeaderP port header value_text rng) =
     list_ex (header_matches port header value_text rng) (endpoint_responses (baseline_params P))"
| "sat E P (EndpointP port path body rng) =
     list_ex (endpoint_matches port path body rng) (endpoint_responses (baseline_params P))"
| "sat E P (MacVendor vendor) =
     (case Option.bind (ip_mac_address (ip_base (mp_ip_address (baseline_params P)))) (oui_lookup E) of
        Some company \<Rightarrow> normalize_vendor vendor = normalize_vendor company | None \<Rightarrow> False)"
| "sat E P (NotP p) = (\<not> sat E P p)"
| "sat E P (AnyOf ps) = list_ex (sat E P) ps"
| "sat E P (AllOf ps) = list_all (sat E P) ps"
| "sat E P IsGateway =
     (let in_subnet = filter (cidr_contains E (cidr (subnet_base (mp_subnet (baseline_params P))))) (gateway_ips P);
          ip = ip_address (ip_base (mp_ip_address (baseline_params P)))
      in ip \<in> set in_subnet \<or> (in_subnet = [] \<and> last_unit ip \<in> {1, 254}))"
| "sat E P (SubnetIsType t) = (subnet_type (subnet_base (mp_subnet (baseline_params P))) = t)"
| "sat E P (CustomP f g r n c) = f P"
| "sat E P (ClientResponse probe) = (client_responses (baseline_params P) probe \<noteq> None)"
| "sat E P ContainerVirtualization = (mp_virtualization_metadata (baseline_params P) \<noteq> None)"
| "sat E P (ManagedDeviceType expected) =
     (case managed_device (baseline_params P) of
        Some d \<Rightarrow> eq_ignore_ascii_case (device_type d) expected | None \<Rightarrow> False)"
| "sat E P NoneP = False"

definition oks :: "('e, 'a) result list \<Rightarrow> 'a list" where
  "oks rs = map projr (filter succeeded rs)"

lemma oks_simps [simp]: "oks [] = []" "oks (Inr a # rs) = a # oks rs" "oks (Inl e # rs) = oks rs"
  by (simp_all add: oks_def)

lemma set_oks: "a \<in> set (oks rs) \<longleftrightarrow> Inr a \<in> set rs"
  by (force simp: oks_def)

lemma oks_Nil: "oks rs = [] \<longleftrightarrow> \<not> list_ex succeeded rs"
  by (auto simp: oks_def list_ex_iff filter_empty_conv)

lemma foldl_any_of_step:
  "any_ports (foldl any_of_step s rs) = any_ports s @ concat (map result_ports (oks rs))"
  "any_matched (foldl any_of_step s rs) \<longleftrightarrow> any_matched s \<or> oks rs \<noteq> []"
  "any_confidence (foldl any_of_step s rs) =
     foldl max (any_confidence s) (map (confidence \<circ> details) (oks rs))"
  "any_reasons (foldl any_of_step s rs) = any_reasons s @ map (reason \<circ> details) (oks rs)"
proof (induction rs arbitrary: s)
  case (Cons r rs)
  { case 1 then show ?case using Cons by (cases r) simp_all
  next case 2 then show ?case using Cons by (cases r) simp_all
  next case 3 then show ?case using Cons by (cases r) (simp_all add: max.absorb1 max.absorb2)
  next case 4 then show ?case using Cons by (cases r) simp_all }
qed simp_all

lemma foldl_all_of_step:
  "all_of_ports (foldl all_of_step s rs) = all_of_ports s @ concat (map result_ports (oks rs))"
  "all_matched (foldl all_of_step s rs) \<longleftrightarrow> all_matched s \<and> list_all succeeded rs"
  "matched_confidences (foldl all_of_step s rs) =
     matched_confidences s @ map (confidence \<circ> details) (oks rs)"
proof (induction rs arbitrary: s)
  case (Cons r rs)
  { case 1 then show ?case using Cons by (cases r) simp_all
  next case 2 then show ?case using Cons by (cases r) simp_all
  next case 3 then show ?case using Cons by (cases r) simp_all }
qed simp_all

lemma succeeded_any_of: "succeeded (match_any_of rs) \<longleftrightarrow> list_ex succeeded rs"
  by (simp add: match_any_of_def Let_def foldl_any_of_step oks_Nil)

lemma succeeded_all_of: "succeeded (match_all_of rs) \<longleftrightarrow> list_all succeeded rs"
  by (simp add: match_all_of_def Let_def foldl_all_of_step)

lemma match_any_of_Ok:
  assumes "match_any_of rs = Ok r"
  shows "result_ports r = sort_dedup_ports (concat (map result_ports (oks rs)))"
    and "confidence (details r) = foldl max Low (map (confidence \<circ> details) (oks rs))"
    and "oks rs \<noteq> []"
  using assms by (auto simp: match_any_of_def Let_def foldl_any_of_step split: if_splits)

lemma match_all_of_Ok:
  assumes "match_all_of rs = Ok r"
  shows "result_ports r = sort_dedup_ports (concat (map result_ports (oks rs)))"
    and "confidence (details r) = boosted (map (confidence \<circ> details) (oks rs))"
    and "list_all succeeded rs"
  using assms by (auto simp: match_all_of_def Let_def foldl_all_of_step split: if_splits)

lemma succeeded_not: "succeeded (match_not r) \<longleftrightarrow> \<not> succeeded r"
  by (cases r) simp_all

lemma find_ex: "find Q xs = None \<longleftrightarrow> \<not> list_ex Q xs"
  by (auto simp: find_None_iff list_ex_iff)

lemma find_Some_ex: "find Q xs = Some x \<Longrightarrow> list_ex Q xs"
  using find_ex [of Q xs] by simp

lemma port_mem_find:
  "find (\<lambda>p. port_eq p port) xs = None \<longleftrightarrow> \<not> port_mem port xs"
  by (auto simp: port_mem_def find_None_iff list_ex_iff port_eq_sym)

lemma list_ex_cong_set: "(\<And>x. x \<in> set xs \<Longrightarrow> Q (f x) = R x) \<Longrightarrow> list_ex Q (map f xs) = list_ex R xs"
  by (auto simp: list_ex_iff)

lemma list_all_cong_set: "(\<And>x. x \<in> set xs \<Longrightarrow> Q (f x) = R x) \<Longrightarrow> list_all Q (map f xs) = list_all R xs"
  by (auto simp: list_all_iff)

lemma succeeded_leaf:
  "succeeded (match_port E P port) = sat E P (PortP port)"
  "succeeded (match_header P po header value_text rng) = sat E P (HeaderP po header value_text rng)"
  "succeeded (match_endpoint P port path body rng) = sat E P (EndpointP port path body rng)"
  "succeeded (match_mac_vendor E P vendor) = sat E P (MacVendor vendor)"
  "succeeded (match_gateway E P) = sat E P IsGateway"
  "succeeded (match_managed_device P d) = sat E P (ManagedDeviceType d)"
proof -
  show "succeeded (match_port E P port) = sat E P (PortP port)"
    using port_mem_find [of port "unbound_ports (service_params P)"]
    by (auto simp: match_port_def Let_def split: option.split)
  show "succeeded (match_header P po header value_text rng) = sat E P (HeaderP po header value_text rng)"
    by (auto simp: match_header_def find_ex dest: find_Some_ex split: option.split)
  show "succeeded (match_endpoint P port path body rng) = sat E P (EndpointP port path body rng)"
    by (auto simp: match_endpoint_def find_ex dest: find_Some_ex split: option.split)
qed (auto simp: match_mac_vendor_def match_gateway_def match_managed_device_def Let_def split: option.split)

lemma succeeded_matches: "succeeded (matches E P p) = sat E P p"
proof (induction E P p rule: matches.induct)
  case (6 E P ps)
  then show ?case using list_ex_cong_set [of ps succeeded "matches E P" "sat E P"]
    by (simp add: succeeded_any_of)
next
  case (7 E P ps)
  then show ?case using list_all_cong_set [of ps succeeded "matches E P" "sat E P"]
    by (simp add: succeeded_all_of)
next
  case (5 E P p)
  then show ?case by (simp add: succeeded_not)
next
  case (12 E P)
  then show ?case by (auto simp: match_container_def split: option.split ServiceVirtualization.split)
next
  case (2 E P po header value_text rng)
  show ?case using succeeded_leaf(2) by simp
next
  case (3 E P port path body rng)
  show ?case using succeeded_leaf(3) by simp
next
  case (13 E P d)
  show ?case using succeeded_leaf(6) by simp
qed (simp_all add: succeeded_leaf(1,4,5) match_subnet_type_def match_custom_def match_client_response_def
       Let_def split: option.split)

section \<open>Ports of a match\<close>

lemma port_eq_key: "port_eq a b \<longleftrightarrow> port_key a = port_key b"
  by (simp add: port_eq_def port_number_def port_protocol_def)

lemma strict_sorted_remdups_adj:
  fixes xs :: "'a::linorder list"
  shows "sorted xs \<Longrightarrow> sorted_wrt (<) (remdups_adj xs)"
  by (induction xs rule: remdups_adj.induct) auto

lemma sort_dedup_ports_sorted: "sorted_wrt (<) (map port_key (sort_dedup_ports ps))"
proof -
  have "map port_key (sort_dedup_ports ps) = remdups_adj (sort (map port_key ps))"
    by (simp add: sort_dedup_ports_def dedup_by_key [of port_eq port_key, OF port_eq_key] map_sort_key)
  then show ?thesis
    by (simp add: strict_sorted_remdups_adj)
qed

lemma sort_dedup_ports_keys: "port_key ` set (sort_dedup_ports ps) = port_key ` set ps"
  by (simp add: sort_dedup_ports_def dedup_by_covers [of port_eq port_key, OF port_eq_key])

lemma set_sort_dedup_ports: "set (sort_dedup_ports ps) \<subseteq> set ps"
  using set_dedup_by [of port_eq "sort_key port_key ps"] by (simp add: sort_dedup_ports_def)

section \<open>Confidence of a match\<close>

lemma foldl_max_bounds:
  fixes a :: "'a::linorder"
  shows "a \<le> foldl max a xs" and "x \<in> set xs \<Longrightarrow> x \<le> foldl max a xs"
    and "\<lbrakk>a \<le> b; \<And>x. x \<in> set xs \<Longrightarrow> x \<le> b\<rbrakk> \<Longrightarrow> foldl max a xs \<le> b"
proof (induction xs arbitrary: a)
  case (Cons y ys)
  { case 1 show ?case using Cons(1) [of "max a y"] by simp
  next case 2 then show ?case using Cons(1,2) [of "max a y"] by auto
  next case 3 then show ?case using Cons(3) [of "max a y"] by simp }
qed simp_all

lemma Low_cases: "Low \<le> c \<longleftrightarrow> c \<noteq> NotApplicable"
  by (cases c) (simp_all add: less_eq_MatchConfidence_def)

lemma le_Certain [simp]: "c \<le> Certain"
  by (cases c) (simp_all add: less_eq_MatchConfidence_def)

lemma le_High: "c \<le> High \<longleftrightarrow> c \<noteq> Certain"
  by (cases c) (simp_all add: less_eq_MatchConfidence_def)

lemma sorted_le_last: "sorted xs \<Longrightarrow> x \<in> set xs \<Longrightarrow> x \<le> last xs"
  by (induction xs) auto

lemma last_sort_ge: "x \<in> set xs \<Longrightarrow> x \<le> last (sort xs)"
  using sorted_le_last [of "sort xs" x] by simp

lemma last_sort_mem: "xs \<noteq> [] \<Longrightarrow> last (sort xs) \<in> set xs"
  by (metis last_in_set set_empty set_sort)

text \<open>
  The confidence of a conjunction is at least that of each part, rises by at most one step
  above the strongest part, and never becomes certain unless a part is.
\<close>

lemma boosted_ge: "c \<in> set cs \<Longrightarrow> c \<le> boosted cs"
proof -
  assume c: "c \<in> set cs"
  then have ne: "sort cs \<noteq> []" by (metis empty_iff empty_set set_sort)
  have "last (sort cs) \<le> boosted cs"
    using ne by (cases "last (sort cs)") (simp_all add: boosted_def Let_def less_eq_MatchConfidence_def)
  then show ?thesis using last_sort_ge [OF c] by (rule order_trans [rotated])
qed

lemma boosted_le:
  "boosted [] = Low"
  "cs \<noteq> [] \<Longrightarrow> confidence_rank (boosted cs) \<le> confidence_rank (last (sort cs)) + 1"
  "boosted cs = Certain \<Longrightarrow> Certain \<in> set cs"
proof -
  show "boosted [] = Low" by (simp add: boosted_def)
next
  assume "cs \<noteq> []"
  then have "sort cs \<noteq> []" by (metis set_empty set_sort)
  then show "confidence_rank (boosted cs) \<le> confidence_rank (last (sort cs)) + 1"
    by (cases "last (sort cs)") (simp_all add: boosted_def Let_def)
next
  assume c: "boosted cs = Certain"
  then have ne: "cs \<noteq> []" by (auto simp: boosted_def)
  then have "sort cs \<noteq> []" by (metis set_empty set_sort)
  with c have "last (sort cs) = Certain"
    by (cases "last (sort cs)") (auto simp: boosted_def Let_def split: if_splits)
  then show "Certain \<in> set cs" using last_sort_mem [OF ne] by simp
qed

text \<open>
  The leaves that can make a match certain: a credentialed probe, a controller's report, and a
  custom test that is declared certain.
\<close>

fun may_be_certain :: "'p Pattern \<Rightarrow> bool" where
  "may_be_certain (ClientResponse _) = True"
| "may_be_certain (ManagedDeviceType _) = True"
| "may_be_certain (CustomP _ _ _ _ c) = (c = Certain)"
| "may_be_certain (AnyOf ps) = list_ex may_be_certain ps"
| "may_be_certain (AllOf ps) = list_ex may_be_certain ps"
| "may_be_certain _ = False"

lemma confidence_simple_match [simp]: "confidence (details (simple_match ps t c)) = c"
  by (simp add: simple_match_def)

lemma certain_leaf:
  "match_port E P port = Ok r \<Longrightarrow> confidence (details r) \<in> {Low, Medium}"
  "match_header P po header value_text rng = Ok r \<Longrightarrow> confidence (details r) = High"
  "match_endpoint P port path body rng = Ok r \<Longrightarrow> confidence (details r) = High"
  "match_mac_vendor E P vendor = Ok r \<Longrightarrow> confidence (details r) = Medium"
  "match_gateway E P = Ok r \<Longrightarrow> confidence (details r) = High"
  "match_subnet_type P t = Ok r \<Longrightarrow> confidence (details r) = Low"
  "match_container P = Ok r \<Longrightarrow> confidence (details r) = Low"
  "match_not q = Ok r \<Longrightarrow> confidence (details r) = Low"
proof -
  show "match_port E P port = Ok r \<Longrightarrow> confidence (details r) \<in> {Low, Medium}"
    by (auto simp: match_port_def Let_def split: option.splits if_splits)
  show "match_not q = Ok r \<Longrightarrow> confidence (details r) = Low"
    by (cases q) auto
qed (auto simp: match_header_def match_endpoint_def match_mac_vendor_def match_gateway_def
       match_subnet_type_def match_container_def Let_def split: option.splits if_splits ServiceVirtualization.splits)

lemma matches_certain:
  "matches E P p = Ok r \<Longrightarrow> confidence (details r) = Certain \<Longrightarrow> may_be_certain p"
proof (induction E P p arbitrary: r rule: matches.induct)
  case (6 E P ps)
  from match_any_of_Ok(2) [OF 6(2) [simplified]] 6(3)
  have "Certain = foldl max Low (map (confidence \<circ> details) (oks (map (matches E P) ps)))" by simp
  then have "\<exists>q \<in> set (oks (map (matches E P) ps)). confidence (details q) = Certain"
    using foldl_max_bounds(3) [of Low High "map (confidence \<circ> details) (oks (map (matches E P) ps))"]
    by (force simp: le_High Low_cases)
  then show ?case using 6(1) by (force simp: set_oks list_ex_iff)
next
  case (7 E P ps)
  from match_all_of_Ok(2) [OF 7(2) [simplified]] 7(3)
  have "Certain \<in> set (map (confidence \<circ> details) (oks (map (matches E P) ps)))"
    using boosted_le(3) by metis
  then obtain q where "Inr q \<in> set (map (matches E P) ps)" "confidence (details q) = Certain"
    by (auto simp: set_oks)
  then show ?case using 7(1) by (force simp: list_ex_iff)
qed (auto dest: certain_leaf simp: match_custom_def match_client_response_def match_managed_device_def
       split: option.splits if_splits)

section \<open>Scanning the listed ports is enough\<close>

text \<open>
  A pattern without negation and without custom tests sees of the open ports only those it
  lists: dropping every other port from the scan changes neither whether it matches nor what
  the match reports.
\<close>

fun positive :: "'p Pattern \<Rightarrow> bool" where
  "positive (NotP _) = False"
| "positive (CustomP _ _ _ _ _) = False"
| "positive (AnyOf ps) = list_all positive ps"
| "positive (AllOf ps) = list_all positive ps"
| "positive _ = True"

definition scan_only :: "PortType list \<Rightarrow> match_params \<Rightarrow> match_params" where
  "scan_only Q P = P\<lparr>service_params := (service_params P)\<lparr>unbound_ports :=
     filter (\<lambda>p. port_mem p Q) (unbound_ports (service_params P))\<rparr>\<rparr>"

lemma scan_only_simps [simp]:
  "baseline_params (scan_only Q P) = baseline_params P"
  "gateway_ips (scan_only Q P) = gateway_ips P"
  "mp_daemon_id (scan_only Q P) = mp_daemon_id P"
  "mp_service_definition (service_params (scan_only Q P)) = mp_service_definition (service_params P)"
  "unbound_ports (service_params (scan_only Q P)) =
     filter (\<lambda>p. port_mem p Q) (unbound_ports (service_params P))"
  by (simp_all add: scan_only_def)

lemma find_filter: "(\<And>x. Q x \<Longrightarrow> R x) \<Longrightarrow> find Q (filter R xs) = find Q xs"
  by (induction xs) auto

lemma port_mem_set: "port \<in> set Q \<Longrightarrow> port_eq p port \<Longrightarrow> port_mem p Q"
  by (auto simp: port_mem_def list_ex_iff)

lemma scan_only_leaf:
  "port \<in> set Q \<Longrightarrow> match_port E (scan_only Q P) port = match_port E P port"
  "match_header (scan_only Q P) po header value_text rng = match_header P po header value_text rng"
  "match_endpoint (scan_only Q P) port path body rng = match_endpoint P port path body rng"
  "match_mac_vendor E (scan_only Q P) vendor = match_mac_vendor E P vendor"
  "match_gateway E (scan_only Q P) = match_gateway E P"
  "match_subnet_type (scan_only Q P) t = match_subnet_type P t"
  "match_client_response (scan_only Q P) probe = match_client_response P probe"
  "match_container (scan_only Q P) = match_container P"
  "match_managed_device (scan_only Q P) d = match_managed_device P d"
  by (simp_all add: match_port_def match_header_def match_endpoint_def match_mac_vendor_def
      match_gateway_def match_subnet_type_def match_client_response_def match_container_def
      match_managed_device_def find_filter port_mem_set Let_def cong: option.case_cong)

lemma matches_scan_only:
  "positive p \<Longrightarrow> set (ports p) \<subseteq> set Q \<Longrightarrow> matches E (scan_only Q P) p = matches E P p"
proof (induction E P p rule: matches.induct)
  case (6 E P ps)
  then have "map (matches E (scan_only Q P)) ps = map (matches E P) ps"
    by (force simp: list_all_iff)
  then show ?case by (simp only: matches.simps)
next
  case (7 E P ps)
  then have "map (matches E (scan_only Q P)) ps = map (matches E P) ps"
    by (force simp: list_all_iff)
  then show ?case by (simp only: matches.simps)
qed (simp_all add: scan_only_leaf)

end
