(* ===== verification/Definitions_A_D.thy ===== *)
theory Definitions_A_D
  imports Patterns
begin

text \<open>
  The service definitions of the registry with module names from a to d
  (\<^verbatim>\<open>backend/src/server/services/definitions/\<close>): for each, its name, description,
  category, discovery pattern and logo as the module states them.
\<close>

text \<open>
  A container without an id is not claimed by the generic definition; one with an id is, unless
  a service already matched carries the same id in the same runtime.
\<close>

definition docker_container_unclaimed :: "match_params \<Rightarrow> bool" where
  "docker_container_unclaimed p =
     (case mp_virtualization_metadata (baseline_params p) of
        Some (Docker d) \<Rightarrow>
          (case info_container_id d of
             Some c_id \<Rightarrow> list_all (\<lambda>s.
               case svc_virtualization_metadata (svc_base s) of
                 Some (Docker e) \<Rightarrow> if info_container_id e \<noteq> None then info_container_id e \<noteq> Some c_id else True
               | _ \<Rightarrow> True) (matched_services (service_params p))
           | None \<Rightarrow> False)
      | _ \<Rightarrow> False)"

definition access_point_service :: ServiceDefinition where [service_defs]:
  "access_point_service =
     \<lparr>def_name = ''Access Point'',
      def_description = ''A generic wireless access point for WiFi connectivity'',
      def_category = NetworkAccess,
      discovery_pattern = NoneP,
      is_generic = True,
      logo_url = [],
      logo_needs_white_background = False\<rparr>"

definition active_directory_service :: ServiceDefinition where [service_defs]:
  "active_directory_service =
     \<lparr>def_name = ''Active Directory'',
      def_description = ''Microsoft directory service'',
      def_category = IdentityAndAccess,
      discovery_pattern = AllOf [
        PortP Ldap,
        PortP Samba,
        PortP Kerberos],
      is_generic = False,
      logo_url = ''https://cdn.jsdelivr.net/gh/homarr-labs/dashboard-icons/svg/microsoft.svg'',
      logo_needs_white_background = False\<rparr>"

definition activemq_service :: ServiceDefinition where [service_defs]:
  "activemq_service =
     \<lparr>def_name = ''ActiveMQ'',
      def_description = ''Message broker'',
      def_category = MessageQueue,
      discovery_pattern = EndpointP (new_tcp 8161) ''/admin'' ''activemq'' None,
      is_generic = False,
      logo_url = ''https://www.vectorlogo.zone/logos/apache_activemq/apache_activemq-icon.svg'',
      logo_needs_white_background = False\<rparr>"

definition actual_budget_service :: ServiceDefinition where [service_defs]:
  "actual_budget_service =
     \<lparr>def_name = ''Actual Budget'',
      def_description = ''A local-first personal finance app'',
      def_category = Office,
      discovery_pattern = EndpointP (new_tcp 5006) ''/manifest.webmanifest'' ''@actual-app/web'' None,
      is_generic = False,
      logo_url = ''https://cdn.jsdelivr.net/gh/homarr-labs/dashboard-icons/svg/actual-budget.svg'',
      logo_needs_white_background = False\<rparr>"

definition adguard_home_service :: ServiceDefinition where [service_defs]:
  "adguard_home_service =
     \<lparr>def_name = ''Adguard Home'',
      def_description = ''Network-wide ad and tracker blocking'',
      def_category = AdBlock,
      discovery_pattern = AllOf [
        AllOf [
          PortP DnsUdp,
          PortP DnsTcp],
        EndpointP Http ''/'' ''AdGuard Home'' None],
      is_generic = False,
      logo_url = ''https://cdn.jsdelivr.net/gh/homarr-labs/dashboard-icons/svg/adguard-home.svg'',
      logo_needs_white_background = False\<rparr>"

definition amazon_echo_service :: ServiceDefinition where [service_defs]:
  "amazon_echo_service =
     \<lparr>def_name = ''Amazon Echo'',
      def_description = ''Amazon Echo smart speaker'',
      def_category = IoTCategory,
      discovery_pattern = AllOf [
        MacVendor vendor_amazon,
        PortP (new_tcp 40317)],
      is_generic = False,
      logo_url = ''https://cdn.jsdelivr.net/gh/homarr-labs/dashboard-icons/svg/alexa.svg'',
      logo_needs_white_background = False\<rparr>"

definition ampq_service :: ServiceDefinition where [service_defs]:
  "ampq_service =
     \<lparr>def_name = ''AMQP'',
      def_description = ''Advanced Message Queuing Protocol'',
      def_category = MessageQueue,
      discovery_pattern = AnyOf [
        PortP AMQP,
        PortP AMQPTls],
      is_generic = True,
      logo_url = [],
      logo_needs_white_background = False\<rparr>"

definition ansible_awx_service :: ServiceDefinition where [service_defs]:
  "ansible_awx_service =
     \<lparr>def_name = ''AWX'',
      def_description = ''Ansible automation platform'',
      def_category = Development,
      discovery_pattern = EndpointP Http ''/api/v2/'' ''awx'' (Some (200, 300)),
      is_generic = False,
      logo_url = ''https://cdn.jsdelivr.net/gh/homarr-labs/dashboard-icons/svg/ansible.svg'',
      logo_needs_white_background = False\<rparr>"

definition apc_service :: ServiceDefinition where [service_defs]:
  "apc_service =
     \<lparr>def_name = ''APC'',
      def_description = ''APC Network-Connected UPS'',
      def_category = Monitoring,
      discovery_pattern = EndpointP Http ''/'' ''Schneider Electric'' None,
      is_generic = False,
      logo_url = ''https://cdn.jsdelivr.net/gh/homarr-labs/dashboard-icons/svg/apc.svg'',
      logo_needs_white_background = False\<rparr>"

definition appwrite_service :: ServiceDefinition where [service_defs]:
  "appwrite_service =
     \<lparr>def_name = ''Appwrite'',
      def_description = ''Open-source backend-as-a-service platform'',
      def_category = Development,
      discovery_pattern = AnyOf [
        EndpointP Http ''/'' ''appwrite.io'' None,
        EndpointP Https ''/'' ''appwrite.io'' None],
      is_generic = False,
      logo_url = ''https://cdn.jsdelivr.net/gh/homarr-labs/dashboard-icons/svg/appwrite.svg'',
      logo_needs_white_background = False\<rparr>"

definition argocd_service :: ServiceDefinition where [service_defs]:
  "argocd_service =
     \<lparr>def_name = ''ArgoCD'',
      def_description = ''GitOps continuous delivery'',
      def_category = Development,
      discovery_pattern = EndpointP Http8080 ''/api/version'' ''argocd'' None,
      is_generic = False,
      logo_url = ''https://cdn.jsdelivr.net/gh/homarr-labs/dashboard-icons/svg/argo-cd.svg'',
      logo_needs_white_background = False\<rparr>"

definition asterisk_service :: ServiceDefinition where [service_defs]:
  "asterisk_service =
     \<lparr>def_name = ''Asterisk'',
      def_description = ''PBX and VoIP server'',
      def_category = Telephony,
      discovery_pattern = EndpointP (new_tcp 8088) ''/httpstatus'' ''asterisk'' None,
      is_generic = False,
      logo_url = ''https://cdn.jsdelivr.net/gh/homarr-labs/dashboard-icons/png/asterisk.png'',
      logo_needs_white_background = False\<rparr>"

definition audiobookshelf_service :: ServiceDefinition where [service_defs]:
  "audiobookshelf_service =
     \<lparr>def_name = ''AudioBookShelf'',
      def_description = ''Self-hosted audiobook and podcast server.'',
      def_category = Media,
      discovery_pattern = PortP (new_tcp 13378),
      is_generic = False,
      logo_url = ''https://cdn.jsdelivr.net/gh/homarr-labs/dashboard-icons/svg/audiobookshelf.svg'',
      logo_needs_white_background = False\<rparr>"

definition authentik_service :: ServiceDefinition where [service_defs]:
  "authentik_service =
     \<lparr>def_name = ''Authentik'',
      def_description = ''A self-hosted, open source identity provider'',
      def_category = IdentityAndAccess,
      discovery_pattern = AnyOf [
        EndpointP Http9000 ''/'' ''window.authentik'' None,
        EndpointP Https9443 ''/'' ''window.authentik'' None],
      is_generic = False,
      logo_url = ''https://cdn.jsdelivr.net/gh/homarr-labs/dashboard-icons/svg/authentik.svg'',
      logo_needs_white_background = False\<rparr>"

definition autobrr_service :: ServiceDefinition where [service_defs]:
  "autobrr_service =
     \<lparr>def_name = ''Autobrr'',
      def_description = ''The modern autodl-irssi replacement.'',
      def_category = Media,
      discovery_pattern = PortP (new_tcp 7474),
      is_generic = False,
      logo_url = ''https://cdn.jsdelivr.net/gh/homarr-labs/dashboard-icons/svg/autobrr.svg'',
      logo_needs_white_background = False\<rparr>"

definition backrest_service :: ServiceDefinition where [service_defs]:
  "backrest_service =
     \<lparr>def_name = ''BackRest'',
      def_description = ''Web UI and orchestrator for Restic'',
      def_category = Backup,
      discovery_pattern = EndpointP (new_tcp 9898) ''/'' ''BackRest'' None,
      is_generic = False,
      logo_url = ''https://cdn.jsdelivr.net/gh/homarr-labs/dashboard-icons/svg/backrest-light.svg'',
      logo_needs_white_background = False\<rparr>"

definition bacnet_service :: ServiceDefinition where [service_defs]:
  "bacnet_service =
     \<lparr>def_name = ''BACnet'',
      def_description = ''Building automation and control network protocol'',
      def_category = IoTCategory,
      discovery_pattern = PortP BACnet,
      is_generic = True,
      logo_url = [],
      logo_needs_white_background = False\<rparr>"

definition bacula_service :: ServiceDefinition where [service_defs]:
  "bacula_service =
     \<lparr>def_name = ''Bacula'',
      def_description = ''Network backup solution'',
      def_category = Backup,
      discovery_pattern = PortP (new_tcp 9101),
      is_generic = False,
      logo_url = ''https://cdn.jsdelivr.net/gh/homarr-labs/dashboard-icons/png/bacula.png'',
      logo_needs_white_background = False\<rparr>"

definition bamboo_service :: ServiceDefinition where [service_defs]:
  "bamboo_service =
     \<lparr>def_name = ''Bamboo'',
      def_description = ''CI/CD server'',
      def_category = Development,
      discovery_pattern = EndpointP (new_tcp 8085) ''/'' ''bamboo'' None,
      is_generic = False,
      logo_url = ''https://cdn.jsdelivr.net/gh/homarr-labs/dashboard-icons/svg/atlassian-bamboo.svg'',
      logo_needs_white_background = False\<rparr>"

definition bazarr_service :: ServiceDefinition where [service_defs]:
  "bazarr_service =
     \<lparr>def_name = ''Bazarr'',
      def_description = ''A companion application to Sonarr and Radarr that manages and downloads subtitles'',
      def_category = Media,
      discovery_pattern = PortP (new_tcp 6767),
      is_generic = False,
      logo_url = ''https://cdn.jsdelivr.net/gh/homarr-labs/dashboard-icons/svg/bazarr.svg'',
      logo_needs_white_background = False\<rparr>"

definition beszel_agent_service :: ServiceDefinition where [service_defs]:
  "beszel_agent_service =
     \<lparr>def_name = ''Beszel Agent'',
      def_description = ''Lightweight server monitoring agent'',
      def_category = Monitoring,
      discovery_pattern = PortP (new_tcp 45876),
      is_generic = False,
      logo_url = ''https://cdn.jsdelivr.net/gh/homarr-labs/dashboard-icons/svg/beszel.svg'',
      logo_needs_white_background = False\<rparr>"

definition bigbluebutton_service :: ServiceDefinition where [service_defs]:
  "bigbluebutton_service =
     \<lparr>def_name = ''BigBlueButton'',
      def_description = ''Web conferencing system'',
      def_category = Conferencing,
      discovery_pattern = EndpointP Http ''/bigbluebutton/api'' '''' (Some (200, 300)),
      is_generic = False,
      logo_url = ''https://simpleicons.org/icons/bigbluebutton.svg'',
      logo_needs_white_background = False\<rparr>"

definition bind9_service :: ServiceDefinition where [service_defs]:
  "bind9_service =
     \<lparr>def_name = ''Bind9'',
      def_description = ''Berkeley Internet Name Domain DNS server'',
      def_category = DNS,
      discovery_pattern = AllOf [
        PortP DnsUdp,
        PortP (new_tcp 8053)],
      is_generic = False,
      logo_url = [],
      logo_needs_white_background = False\<rparr>"

definition bitbucket_server_service :: ServiceDefinition where [service_defs]:
  "bitbucket_server_service =
     \<lparr>def_name = ''Bitbucket Server'',
      def_description = ''Git repository management'',
      def_category = Development,
      discovery_pattern = EndpointP (new_tcp 7990) ''/'' ''bitbucket'' None,
      is_generic = False,
      logo_url = ''https://cdn.jsdelivr.net/gh/homarr-labs/dashboard-icons/svg/bitbucket.svg'',
      logo_needs_white_background = False\<rparr>"

definition bitwarden_service :: ServiceDefinition where [service_defs]:
  "bitwarden_service =
     \<lparr>def_name = ''Bitwarden'',
      def_description = ''Password manager'',
      def_category = IdentityAndAccess,
      discovery_pattern = EndpointP Http ''/api/config'' ''bitwarden'' None,
      is_generic = False,
      logo_url = ''https://cdn.jsdelivr.net/gh/homarr-labs/dashboard-icons/svg/bitwarden.svg'',
      logo_needs_white_background = False\<rparr>"

definition booklore_service :: ServiceDefinition where [service_defs]:
  "booklore_service =
     \<lparr>def_name = ''BookLore'',
      def_description = ''A self-hosted, multi-user digital library.'',
      def_category = Media,
      discovery_pattern = EndpointP (new_tcp 6060) ''/'' ''booklore-app'' None,
      is_generic = False,
      logo_url = ''https://cdn.jsdelivr.net/gh/homarr-labs/dashboard-icons/svg/book-lore.svg'',
      logo_needs_white_background = False\<rparr>"

definition caddy_service :: ServiceDefinition where [service_defs]:
  "caddy_service =
     \<lparr>def_name = ''Caddy'',
      def_description = ''Lightweight & versatile reverse proxy, web & file server'',
      def_category = ReverseProxy,
      discovery_pattern = EndpointP (new_tcp 2019) ''/reverse_proxy/upstreams'' ''num_requests'' None,
      is_generic = False,
      logo_url = ''https://cdn.jsdelivr.net/gh/homarr-labs/dashboard-icons/svg/caddy.svg'',
      logo_needs_white_background = False\<rparr>"

definition cadvisor_service :: ServiceDefinition where [service_defs]:
  "cadvisor_service =
     \<lparr>def_name = ''cAdvisor'',
      def_description = ''Monitoring for container'',
      def_category = Monitoring,
      discovery_pattern = EndpointP Http8080 ''/api/v1.0/containers/'' ''cAdvisor'' None,
      is_generic = False,
      logo_url = ''https://cdn.jsdelivr.net/gh/homarr-labs/dashboard-icons/png/cadvisor.png'',
      logo_needs_white_background = False\<rparr>"

definition camera_service :: ServiceDefinition where [service_defs]:
  "camera_service =
     \<lparr>def_name = ''RTSP Camera'',
      def_description = ''Camera with RTSP Streaming'',
      def_category = IoTCategory,
      discovery_pattern = PortP Rtsp,
      is_generic = True,
      logo_url = [],
      logo_needs_white_background = False\<rparr>"

definition cassandra_service :: ServiceDefinition where [service_defs]:
  "cassandra_service =
     \<lparr>def_name = ''Cassandra'',
      def_description = ''Distributed NoSQL database'',
      def_category = Database,
      discovery_pattern = PortP Cassandra,
      is_generic = True,
      logo_url = ''https://cdn.jsdelivr.net/gh/homarr-labs/dashboard-icons/svg/apache-cassandra.svg'',
      logo_needs_white_background = False\<rparr>"

definition ceph_service :: ServiceDefinition where [service_defs]:
  "ceph_service =
     \<lparr>def_name = ''Ceph'',
      def_description = ''Distributed storage'',
      def_category = StorageCategory,
      discovery_pattern = EndpointP Http8080 ''/'' ''ceph dashboard'' None,
      is_generic = False,
      logo_url = ''https://cdn.jsdelivr.net/gh/homarr-labs/dashboard-icons/svg/ceph.svg'',
      logo_needs_white_background = False\<rparr>"

definition checkmk_agent_service :: ServiceDefinition where [service_defs]:
  "checkmk_agent_service =
     \<lparr>def_name = ''CheckMK Agent'',
      def_description = ''Monitoring agent for CheckMK server'',
      def_category = Monitoring,
      discovery_pattern = PortP (new_tcp 6556),
      is_generic = False,
      logo_url = ''https://cdn.jsdelivr.net/gh/homarr-labs/dashboard-icons/svg/checkmk.svg'',
      logo_needs_white_background = False\<rparr>"

definition chromecast_service :: ServiceDefinition where [service_defs]:
  "chromecast_service =
     \<lparr>def_name = ''Chromecast'',
      def_description = ''Google Chromecast streaming device'',
      def_category = IoTCategory,
      discovery_pattern = AllOf [
        MacVendor vendor_google,
        PortP (new_tcp 8008),
        PortP (new_tcp 8009)],
      is_generic = False,
      logo_url = ''https://simpleicons.org/icons/googlecast.svg'',
      logo_needs_white_background = True\<rparr>"

definition cleanuparr_service :: ServiceDefinition where [service_defs]:
  "cleanuparr_service =
     \<lparr>def_name = ''Cleanuparr'',
      def_description = ''Torrent cleanup tool for Sonarr and Radarr'',
      def_category = Media,
      discovery_pattern = PortP (new_tcp 11011),
      is_generic = False,
      logo_url = ''https://cdn.jsdelivr.net/gh/homarr-labs/dashboard-icons/svg/cleanuperr.svg'',
      logo_needs_white_background = False\<rparr>"

definition client_service :: ServiceDefinition where [service_defs]:
  "client_service =
     \<lparr>def_name = ''Client'',
      def_description = ''A generic client device that initiates connections to services'',
      def_category = Mobile,
      discovery_pattern = NoneP,
      is_generic = False,
      logo_url = [],
      logo_needs_white_background = False\<rparr>"

definition cloudflared_service :: ServiceDefinition where [service_defs]:
  "cloudflared_service =
     \<lparr>def_name = ''Cloudflared'',
      def_description = ''Cloudflare tunnel daemon'',
      def_category = ReverseProxy,
      discovery_pattern = EndpointP Http ''/metrics'' ''cloudflared'' None,
      is_generic = False,
      logo_url = ''https://cdn.jsdelivr.net/gh/homarr-labs/dashboard-icons/svg/cloudflare.svg'',
      logo_needs_white_background = False\<rparr>"

definition confluence_server_service :: ServiceDefinition where [service_defs]:
  "confluence_server_service =
     \<lparr>def_name = ''Confluence'',
      def_description = ''Team collaboration wiki'',
      def_category = ProjectManagement,
      discovery_pattern = EndpointP (new_tcp 8090) ''/'' ''confluence'' None,
      is_generic = False,
      logo_url = ''https://cdn.jsdelivr.net/gh/homarr-labs/dashboard-icons/svg/confluence.svg'',
      logo_needs_white_background = False\<rparr>"

definition coolercontrol_service :: ServiceDefinition where [service_defs]:
  "coolercontrol_service =
     \<lparr>def_name = ''CoolerControl'',
      def_description = ''Monitor temperatures, fan speeds, and power in real time.'',
      def_category = Monitoring,
      discovery_pattern = EndpointP (new_tcp 11987) ''/'' ''CoolerControl'' None,
      is_generic = False,
      logo_url = ''https://cdn.jsdelivr.net/gh/homarr-labs/dashboard-icons/svg/cooler-control.svg'',
      logo_needs_white_background = False\<rparr>"

definition couchdb_service :: ServiceDefinition where [service_defs]:
  "couchdb_service =
     \<lparr>def_name = ''CouchDB'',
      def_description = ''NoSQL document database'',
      def_category = Database,
      discovery_pattern = EndpointP CouchDb ''/'' ''couchdb'' None,
      is_generic = True,
      logo_url = ''https://cdn.jsdelivr.net/gh/homarr-labs/dashboard-icons/svg/couchdb.svg'',
      logo_needs_white_background = False\<rparr>"

definition crowdsec_service :: ServiceDefinition where [service_defs]:
  "crowdsec_service =
     \<lparr>def_name = ''CrowdSec'',
      def_description = ''Crowdsourced protection against malicious IPs'',
      def_category = Monitoring,
      discovery_pattern = EndpointP Http8080 ''/v1/allowlists'' ''cookie token is empty'' (Some (401, 401)),
      is_generic = False,
      logo_url = ''https://cdn.jsdelivr.net/gh/homarr-labs/dashboard-icons/svg/crowdsec.svg'',
      logo_needs_white_background = False\<rparr>"

definition cups_service :: ServiceDefinition where [service_defs]:
  "cups_service =
     \<lparr>def_name = ''CUPS'',
      def_description = ''Common Unix Printing System'',
      def_category = Printer,
      discovery_pattern = AllOf [
        PortP Ipp,
        EndpointP Http ''/'' ''CUPS'' None],
      is_generic = False,
      logo_url = ''https://cdn.jsdelivr.net/gh/homarr-labs/dashboard-icons/svg/cups.svg'',
      logo_needs_white_background = True\<rparr>"

definition denodo_service :: ServiceDefinition where [service_defs]:
  "denodo_service =
     \<lparr>def_name = ''Denodo'',
      def_description = ''Data virtualization'',
      def_category = Database,
      discovery_pattern = AllOf [
        PortP (new_tcp 9990),
        PortP (new_tcp 9996),
        PortP (new_tcp 9090),
        PortP (new_tcp 9099)],
      is_generic = False,
      logo_url = ''https://cdn.jsdelivr.net/gh/homarr-labs/dashboard-icons/svg/denodo.svg'',
      logo_needs_white_background = False\<rparr>"

definition dhcp_server_service :: ServiceDefinition where [service_defs]:
  "dhcp_server_service =
     \<lparr>def_name = ''DHCP Server'',
      def_description = ''A generic DHCP server'',
      def_category = NetworkCore,
      discovery_pattern = PortP Dhcp,
      is_generic = True,
      logo_url = [],
      logo_needs_white_background = False\<rparr>"

definition discourse_service :: ServiceDefinition where [service_defs]:
  "discourse_service =
     \<lparr>def_name = ''Discourse'',
      def_description = ''Discussion platform'',
      def_category = Publishing,
      discovery_pattern = EndpointP Http ''/srv/status'' ''discourse'' None,
      is_generic = False,
      logo_url = ''https://cdn.jsdelivr.net/gh/homarr-labs/dashboard-icons/svg/discourse.svg'',
      logo_needs_white_background = False\<rparr>"

definition dns_server_service :: ServiceDefinition where [service_defs]:
  "dns_server_service =
     \<lparr>def_name = ''DNS Server'',
      def_description = ''A generic DNS server'',
      def_category = DNS,
      discovery_pattern = AnyOf [
        PortP DnsTcp,
        PortP DnsUdp],
      is_generic = True,
      logo_url = [],
      logo_needs_white_background = False\<rparr>"

definition docker_container_service :: ServiceDefinition where [service_defs]:
  "docker_container_service =
     \<lparr>def_name = ''Docker Container'',
      def_description = ''A generic docker container'',
      def_category = ContainerCategory,
      discovery_pattern = AllOf [
        ContainerVirtualization,
        CustomP docker_container_unclaimed (all_ports \<circ> baseline_params)
        (''No other services with this container'' @ [CHR 0x27] @ ''s ID have been matched'')
        (''A service with this container'' @ [CHR 0x27] @ ''s ID has already been matched'') Low],
      is_generic = True,
      logo_url = [],
      logo_needs_white_background = False\<rparr>"

definition docker_daemon_service :: ServiceDefinition where [service_defs]:
  "docker_daemon_service =
     \<lparr>def_name = ''Docker'',
      def_description = ''Docker'',
      def_category = ContainerRuntime,
      discovery_pattern = ClientResponse ProbeDocker,
      is_generic = False,
      logo_url = ''https://cdn.jsdelivr.net/gh/homarr-labs/dashboard-icons/svg/docker.svg'',
      logo_needs_white_background = False\<rparr>"

definition docker_swarm_service :: ServiceDefinition where [service_defs]:
  "docker_swarm_service =
     \<lparr>def_name = ''Docker Swarm'',
      def_description = ''Docker native clustering and orchestration'',
      def_category = Orchestrator,
      discovery_pattern = AllOf [
        PortP (new_tcp 2377),
        PortP (new_tcp 7946)],
      is_generic = False,
      logo_url = ''https://cdn.jsdelivr.net/gh/homarr-labs/dashboard-icons/svg/docker.svg'',
      logo_needs_white_background = False\<rparr>"

definition dockge_service :: ServiceDefinition where [service_defs]:
  "dockge_service =
     \<lparr>def_name = ''Dockge'',
      def_description = ''Docker compose stack management UI'',
      def_category = Orchestrator,
      discovery_pattern = EndpointP (new_tcp 5001) ''/'' ''Dockge'' None,
      is_generic = False,
      logo_url = ''https://cdn.jsdelivr.net/gh/homarr-labs/dashboard-icons/svg/dockge.svg'',
      logo_needs_white_background = False\<rparr>"

definition docmost_service :: ServiceDefinition where [service_defs]:
  "docmost_service =
     \<lparr>def_name = ''Docmost'',
      def_description = ''Open-source collaborative wiki and documentation platform'',
      def_category = ProjectManagement,
      discovery_pattern = AnyOf [
        EndpointP Http3000 ''/'' ''<title>Docmost</title>'' None,
        EndpointP Http ''/'' ''<title>Docmost</title>'' None,
        EndpointP Https ''/'' ''<title>Docmost</title>'' None],
      is_generic = False,
      logo_url = ''https://cdn.jsdelivr.net/gh/homarr-labs/dashboard-icons/png/docmost.png'',
      logo_needs_white_background = True\<rparr>"

definition domoticz_service :: ServiceDefinition where [service_defs]:
  "domoticz_service =
     \<lparr>def_name = ''Domoticz'',
      def_description = ''Home automation system'',
      def_category = HomeAutomation,
      discovery_pattern = EndpointP Http8080 ''/json.htm'' ''domoticz'' None,
      is_generic = False,
      logo_url = ''https://cdn.jsdelivr.net/gh/homarr-labs/dashboard-icons/png/domoticz.png'',
      logo_needs_white_background = False\<rparr>"

definition drone_ci_service :: ServiceDefinition where [service_defs]:
  "drone_ci_service =
     \<lparr>def_name = ''Drone'',
      def_description = ''Container-native CI platform'',
      def_category = Development,
      discovery_pattern = AllOf [
        EndpointP Http ''/'' ''drone'' None,
        EndpointP Http ''/api/user'' '''' None],
      is_generic = False,
      logo_url = ''https://cdn.jsdelivr.net/gh/homarr-labs/dashboard-icons/png/drone.png'',
      logo_needs_white_background = True\<rparr>"

definition duplicati_service :: ServiceDefinition where [service_defs]:
  "duplicati_service =
     \<lparr>def_name = ''Duplicati'',
      def_description = ''Cross-platform backup client with encryption'',
      def_category = Backup,
      discovery_pattern = EndpointP (new_tcp 8200) ''/ngax/index.html'' ''Duplicati'' None,
      is_generic = False,
      logo_url = ''https://cdn.jsdelivr.net/gh/homarr-labs/dashboard-icons/svg/duplicati.svg'',
      logo_needs_white_background = False\<rparr>"

definition definitions_a_d :: "ServiceDefinition list" where
  "definitions_a_d = [
     access_point_service,
     active_directory_service,
     activemq_service,
     actual_budget_service,
     adguard_home_service,
     amazon_echo_service,
     ampq_service,
     ansible_awx_service,
     apc_service,
     appwrite_service,
     argocd_service,
     asterisk_service,
     audiobookshelf_service,
     authentik_service,
     autobrr_service,
     backrest_service,
     bacnet_service,
     bacula_service,
     bamboo_service,
     bazarr_service,
     beszel_agent_service,
     bigbluebutton_service,
     bind9_service,
     bitbucket_server_service,
     bitwarden_service,
     booklore_service,
     caddy_service,
     cadvisor_service,
     camera_service,
     cassandra_service,
     ceph_service,
     checkmk_agent_service,
     chromecast_service,
     cleanuparr_service,
     client_service,
     cloudflared_service,
     confluence_server_service,
     coolercontrol_service,
     couchdb_service,
     crowdsec_service,
     cups_service,
     denodo_service,
     dhcp_server_service,
     discourse_service,
     dns_server_service,
     docker_container_service,
     docker_daemon_service,
     docker_swarm_service,
     dockge_service,
     docmost_service,
     domoticz_service,
     drone_ci_service,
     duplicati_service]"

end
