(* ===== verification/Definitions_E_K.thy ===== *)
theory Definitions_E_K
  imports Patterns
begin

text \<open>
  The service definitions of the registry with module names from e to k
  (\<^verbatim>\<open>backend/src/server/services/definitions/\<close>): for each, its name, description,
  category, discovery pattern and logo as the module states them.
\<close>

text \<open>
  The constraint of the generic gateway, as the source has it: no matched service fails to be a
  gateway.
\<close>

definition gateway_constraint :: "match_params \<Rightarrow> bool" where
  "gateway_constraint p \<longleftrightarrow>
     \<not> list_ex (\<lambda>s. \<not> def_is_gateway (definition_attrs (service_params p)) (svc_definition (svc_base s)))
         (matched_services (service_params p))"

definition eero_gateway_service :: ServiceDefinition where [service_defs]:
  "eero_gateway_service =
     \<lparr>def_name = ''Eero Gateway'',
      def_description = ''Eero device providing routing and gateway services'',
      def_category = NetworkAccess,
      discovery_pattern = AllOf [
        MacVendor vendor_eero,
        IsGateway],
      is_generic = False,
      logo_url = ''https://www.vectorlogo.zone/logos/eero/eero-icon.svg'',
      logo_needs_white_background = True\<rparr>"

definition eero_repeater_service :: ServiceDefinition where [service_defs]:
  "eero_repeater_service =
     \<lparr>def_name = ''Eero Repeater'',
      def_description = ''Eero device providing mesh network services'',
      def_category = NetworkAccess,
      discovery_pattern = AllOf [
        MacVendor vendor_eero,
        NotP (IsGateway)],
      is_generic = False,
      logo_url = ''https://www.vectorlogo.zone/logos/eero/eero-icon.svg'',
      logo_needs_white_background = True\<rparr>"

definition elastic_apm_service :: ServiceDefinition where [service_defs]:
  "elastic_apm_service =
     \<lparr>def_name = ''Elastic APM'',
      def_description = ''Application performance monitoring'',
      def_category = Monitoring,
      discovery_pattern = EndpointP (new_tcp 8200) ''/'' ''apm'' None,
      is_generic = False,
      logo_url = ''https://cdn.jsdelivr.net/gh/homarr-labs/dashboard-icons/svg/elastic.svg'',
      logo_needs_white_background = False\<rparr>"

definition elasticsearch_service :: ServiceDefinition where [service_defs]:
  "elasticsearch_service =
     \<lparr>def_name = ''Elasticsearch'',
      def_description = ''Distributed search and analytics engine'',
      def_category = Database,
      discovery_pattern = EndpointP Elasticsearch ''/'' ''lucene'' None,
      is_generic = True,
      logo_url = ''https://cdn.jsdelivr.net/gh/homarr-labs/dashboard-icons/svg/elasticsearch.svg'',
      logo_needs_white_background = False\<rparr>"

definition emby_service :: ServiceDefinition where [service_defs]:
  "emby_service =
     \<lparr>def_name = ''Emby'',
      def_description = ''Personal media server with streaming capabilities'',
      def_category = Media,
      discovery_pattern = EndpointP (new_tcp 8096) ''/emby/System/Info/Public'' ''Emby'' None,
      is_generic = False,
      logo_url = ''https://cdn.jsdelivr.net/gh/homarr-labs/dashboard-icons/svg/emby.svg'',
      logo_needs_white_background = False\<rparr>"

definition esphome_service :: ServiceDefinition where [service_defs]:
  "esphome_service =
     \<lparr>def_name = ''ESPHome'',
      def_description = ''ESP device management'',
      def_category = HomeAutomation,
      discovery_pattern = PortP (new_tcp 6052),
      is_generic = False,
      logo_url = ''https://cdn.jsdelivr.net/gh/homarr-labs/dashboard-icons/svg/esphome.svg'',
      logo_needs_white_background = False\<rparr>"

definition esxi_service :: ServiceDefinition where [service_defs]:
  "esxi_service =
     \<lparr>def_name = ''ESXi'',
      def_description = ''VMware ESXi bare-metal hypervisor'',
      def_category = Hypervisor,
      discovery_pattern = EndpointP Https ''/'' ''VMware ESXi'' None,
      is_generic = False,
      logo_url = ''https://cdn.jsdelivr.net/gh/homarr-labs/dashboard-icons/svg/vmware-esxi.svg'',
      logo_needs_white_background = False\<rparr>"

definition file_server_service :: ServiceDefinition where [service_defs]:
  "file_server_service =
     \<lparr>def_name = ''FTP Server'',
      def_description = ''Generic FTP file sharing service'',
      def_category = StorageCategory,
      discovery_pattern = PortP Ftp,
      is_generic = True,
      logo_url = [],
      logo_needs_white_background = False\<rparr>"

definition filezilla_server_service :: ServiceDefinition where [service_defs]:
  "filezilla_server_service =
     \<lparr>def_name = ''FileZilla Server'',
      def_description = ''FTP server'',
      def_category = StorageCategory,
      discovery_pattern = AllOf [
        PortP Ftp,
        PortP (new_tcp 14147)],
      is_generic = False,
      logo_url = ''https://cdn.jsdelivr.net/gh/homarr-labs/dashboard-icons/svg/filezilla.svg'',
      logo_needs_white_background = False\<rparr>"

definition fios_extender_service :: ServiceDefinition where [service_defs]:
  "fios_extender_service =
     \<lparr>def_name = ''Fios Extender'',
      def_description = ''Fios device providing mesh networking services'',
      def_category = NetworkAccess,
      discovery_pattern = AllOf [
        EndpointP Http ''/#/login/'' ''fios'' None,
        NotP (IsGateway)],
      is_generic = False,
      logo_url = ''https://cdn.jsdelivr.net/gh/homarr-labs/dashboard-icons/svg/fios.svg'',
      logo_needs_white_background = True\<rparr>"

definition fios_gateway_service :: ServiceDefinition where [service_defs]:
  "fios_gateway_service =
     \<lparr>def_name = ''Fios Gateway'',
      def_description = ''Fios device providing routing and gateway services'',
      def_category = NetworkAccess,
      discovery_pattern = AllOf [
        EndpointP Http ''/#/login/'' ''fios'' None,
        IsGateway],
      is_generic = False,
      logo_url = ''https://cdn.jsdelivr.net/gh/homarr-labs/dashboard-icons/svg/fios.svg'',
      logo_needs_white_background = True\<rparr>"

definition firefly_iii_service :: ServiceDefinition where [service_defs]:
  "firefly_iii_service =
     \<lparr>def_name = ''Firefly III'',
      def_description = ''Open-source personal finance manager'',
      def_category = Office,
      discovery_pattern = AnyOf [
        HeaderP None ''set-cookie'' ''firefly_iii_session'' None,
        EndpointP Http8080 ''/'' ''Login to Firefly III'' None,
        EndpointP Http ''/'' ''Login to Firefly III'' None,
        EndpointP Https ''/'' ''Login to Firefly III'' None],
      is_generic = False,
      logo_url = ''https://cdn.jsdelivr.net/gh/homarr-labs/dashboard-icons/svg/firefly-iii.svg'',
      logo_needs_white_background = False\<rparr>"

definition firewall_service :: ServiceDefinition where [service_defs]:
  "firewall_service =
     \<lparr>def_name = ''Firewall'',
      def_description = ''Generic network security appliance'',
      def_category = NetworkAppliance,
      discovery_pattern = NoneP,
      is_generic = True,
      logo_url = [],
      logo_needs_white_background = False\<rparr>"

definition forgejo_service :: ServiceDefinition where [service_defs]:
  "forgejo_service =
     \<lparr>def_name = ''Forgejo'',
      def_description = ''DevOps platform'',
      def_category = Development,
      discovery_pattern = EndpointP Http3000 ''/explore/repos'' ''Powered by Forgejo'' None,
      is_generic = False,
      logo_url = ''https://cdn.jsdelivr.net/gh/homarr-labs/dashboard-icons/svg/forgejo.svg'',
      logo_needs_white_background = False\<rparr>"

definition fortigate_service :: ServiceDefinition where [service_defs]:
  "fortigate_service =
     \<lparr>def_name = ''Fortinet'',
      def_description = ''Fortinet security appliance'',
      def_category = NetworkAppliance,
      discovery_pattern = EndpointP Http ''/login'' ''fortinet'' None,
      is_generic = False,
      logo_url = ''https://cdn.jsdelivr.net/gh/homarr-labs/dashboard-icons/svg/fortinet.svg'',
      logo_needs_white_background = False\<rparr>"

definition freeipa_service :: ServiceDefinition where [service_defs]:
  "freeipa_service =
     \<lparr>def_name = ''FreeIPA'',
      def_description = ''Identity management system'',
      def_category = IdentityAndAccess,
      discovery_pattern = EndpointP Http ''/ipa/ui'' '''' (Some (200, 300)),
      is_generic = False,
      logo_url = ''https://cdn.jsdelivr.net/gh/homarr-labs/dashboard-icons/svg/freeipa.svg'',
      logo_needs_white_background = False\<rparr>"

definition freepbx_service :: ServiceDefinition where [service_defs]:
  "freepbx_service =
     \<lparr>def_name = ''FreePBX'',
      def_description = ''PBX web ip_address'',
      def_category = Telephony,
      discovery_pattern = AllOf [
        EndpointP Http ''/'' ''freepbx'' None,
        PortP Sip],
      is_generic = False,
      logo_url = ''https://cdn.jsdelivr.net/gh/homarr-labs/dashboard-icons/svg/freepbx.svg'',
      logo_needs_white_background = False\<rparr>"

definition freshrss_service :: ServiceDefinition where [service_defs]:
  "freshrss_service =
     \<lparr>def_name = ''FreshRSS'',
      def_description = ''A free, self-hostable news aggregator'',
      def_category = Publishing,
      discovery_pattern = EndpointP Http ''/themes/manifest.json'' ''FreshRSS feed aggregator'' None,
      is_generic = False,
      logo_url = ''https://cdn.jsdelivr.net/gh/homarr-labs/dashboard-icons/svg/freshrss.svg'',
      logo_needs_white_background = False\<rparr>"

definition frigate_service :: ServiceDefinition where [service_defs]:
  "frigate_service =
     \<lparr>def_name = ''Frigate'',
      def_description = ''NVR with realtime object detection for IP Cameras'',
      def_category = IoTCategory,
      discovery_pattern = AnyOf [
        EndpointP Https ''/'' ''<title>Frigate</title>'' None,
        EndpointP Http5000 ''/'' ''<title>Frigate</title>'' None],
      is_generic = False,
      logo_url = ''https://cdn.jsdelivr.net/gh/homarr-labs/dashboard-icons/svg/frigate.svg'',
      logo_needs_white_background = False\<rparr>"

definition gateway_service :: ServiceDefinition where [service_defs]:
  "gateway_service =
     \<lparr>def_name = ''Gateway'',
      def_description = ''A generic gateway'',
      def_category = NetworkCore,
      discovery_pattern = AllOf [
        IsGateway,
        CustomP gateway_constraint (\<lambda>_. [])
        ''No other gateway services matched'' ''A gateway service has already been matched'' Low],
      is_generic = True,
      logo_url = [],
      logo_needs_white_background = False\<rparr>"

definition gatus_service :: ServiceDefinition where [service_defs]:
  "gatus_service =
     \<lparr>def_name = ''Gatus'',
      def_description = ''Automated developer-oriented status page'',
      def_category = Monitoring,
      discovery_pattern = EndpointP Http8080 ''/manifest.json'' ''Gatus'' None,
      is_generic = False,
      logo_url = ''https://cdn.jsdelivr.net/gh/homarr-labs/dashboard-icons/svg/gatus.svg'',
      logo_needs_white_background = False\<rparr>"

definition ghost_service :: ServiceDefinition where [service_defs]:
  "ghost_service =
     \<lparr>def_name = ''Ghost'',
      def_description = ''Publishing platform'',
      def_category = Publishing,
      discovery_pattern = EndpointP (new_tcp 2368) ''/'' ''ghost'' None,
      is_generic = False,
      logo_url = ''https://cdn.jsdelivr.net/gh/homarr-labs/dashboard-icons/png/ghost.png'',
      logo_needs_white_background = True\<rparr>"

definition gitea_service :: ServiceDefinition where [service_defs]:
  "gitea_service =
     \<lparr>def_name = ''Gitea'',
      def_description = ''DevOps platform'',
      def_category = Development,
      discovery_pattern = EndpointP Http3000 ''/explore/repos'' ''Powered by Gitea'' None,
      is_generic = False,
      logo_url = ''https://cdn.jsdelivr.net/gh/homarr-labs/dashboard-icons/svg/gitea.svg'',
      logo_needs_white_background = False\<rparr>"

definition github_enterprise_service :: ServiceDefinition where [service_defs]:
  "github_enterprise_service =
     \<lparr>def_name = ''GitHub'',
      def_description = ''Self-hosted GitHub'',
      def_category = Development,
      discovery_pattern = NoneP,
      is_generic = False,
      logo_url = ''https://cdn.jsdelivr.net/gh/homarr-labs/dashboard-icons/svg/github.svg'',
      logo_needs_white_background = True\<rparr>"

definition gitlab_service :: ServiceDefinition where [service_defs]:
  "gitlab_service =
     \<lparr>def_name = ''GitLab'',
      def_description = ''DevOps platform'',
      def_category = Development,
      discovery_pattern = AllOf [
        HeaderP None ''content-security-policy'' ''gitlab'' None,
        EndpointP Http ''/'' ''gitlab'' None],
      is_generic = False,
      logo_url = ''https://cdn.jsdelivr.net/gh/homarr-labs/dashboard-icons/svg/gitlab.svg'',
      logo_needs_white_background = False\<rparr>"

definition glance_app_service :: ServiceDefinition where [service_defs]:
  "glance_app_service =
     \<lparr>def_name = ''Glance'',
      def_description = ''A self-hosted dashboard that puts all your feeds in one place'',
      def_category = Dashboard,
      discovery_pattern = EndpointP Http8080 ''/manifest.json'' ''Glance'' None,
      is_generic = False,
      logo_url = ''https://cdn.jsdelivr.net/gh/homarr-labs/dashboard-icons/svg/glance.svg'',
      logo_needs_white_background = False\<rparr>"

definition glances_service :: ServiceDefinition where [service_defs]:
  "glances_service =
     \<lparr>def_name = ''Glances'',
      def_description = ''An open-source system cross-platform monitoring tool.'',
      def_category = Monitoring,
      discovery_pattern = EndpointP (new_tcp 61208) ''/'' ''Glances'' None,
      is_generic = False,
      logo_url = ''https://cdn.jsdelivr.net/gh/homarr-labs/dashboard-icons/svg/glances.svg'',
      logo_needs_white_background = False\<rparr>"

definition google_home_service :: ServiceDefinition where [service_defs]:
  "google_home_service =
     \<lparr>def_name = ''Google Home'',
      def_description = ''Google Home smart speaker or display'',
      def_category = IoTCategory,
      discovery_pattern = AllOf [
        AnyOf [
          MacVendor vendor_nest,
          MacVendor vendor_google],
        AllOf [
          PortP (new_tcp 8008),
          PortP (new_tcp 8009)]],
      is_generic = False,
      logo_url = ''https://cdn.jsdelivr.net/gh/homarr-labs/dashboard-icons/svg/google-home.svg'',
      logo_needs_white_background = False\<rparr>"

definition google_nest_repeater_service :: ServiceDefinition where [service_defs]:
  "google_nest_repeater_service =
     \<lparr>def_name = ''Google Nest repeater'',
      def_description = ''Google Nest Wifi repeater'',
      def_category = NetworkAccess,
      discovery_pattern = AllOf [
        AnyOf [
          MacVendor vendor_nest,
          MacVendor vendor_google],
        NotP (IsGateway),
        EndpointP Http ''/'' ''Nest Wifi'' None],
      is_generic = False,
      logo_url = ''https://cdn.jsdelivr.net/gh/homarr-labs/dashboard-icons/svg/google-home.svg'',
      logo_needs_white_background = False\<rparr>"

definition google_nest_router_service :: ServiceDefinition where [service_defs]:
  "google_nest_router_service =
     \<lparr>def_name = ''Google Nest router'',
      def_description = ''Google Nest Wifi router'',
      def_category = NetworkAccess,
      discovery_pattern = AllOf [
        AnyOf [
          MacVendor vendor_nest,
          MacVendor vendor_google],
        IsGateway,
        EndpointP Http ''/'' ''Nest Wifi'' None],
      is_generic = False,
      logo_url = ''https://cdn.jsdelivr.net/gh/homarr-labs/dashboard-icons/svg/google-home.svg'',
      logo_needs_white_background = False\<rparr>"

definition grafana_service :: ServiceDefinition where [service_defs]:
  "grafana_service =
     \<lparr>def_name = ''Grafana'',
      def_description = ''Analytics and monitoring visualization platform'',
      def_category = Monitoring,
      discovery_pattern = AnyOf [
        EndpointP Http ''/login'' ''app-grafana'' None,
        EndpointP Http3000 ''/login'' ''app-grafana'' None,
        EndpointP Http ''/'' ''grafana.com'' None,
        EndpointP Http3000 ''/'' ''grafana.com'' None],
      is_generic = False,
      logo_url = ''https://cdn.jsdelivr.net/gh/homarr-labs/dashboard-icons/svg/grafana.svg'',
      logo_needs_white_background = False\<rparr>"

definition graylog_service :: ServiceDefinition where [service_defs]:
  "graylog_service =
     \<lparr>def_name = ''Graylog'',
      def_description = ''Security Information and Event Management (SIEM) solution and log analytics platform'',
      def_category = Monitoring,
      discovery_pattern = AllOf [
        HeaderP None ''content-security-policy'' ''graylog'' None,
        EndpointP Http9000 ''/'' ''Graylog'' None],
      is_generic = False,
      logo_url = ''https://cdn.jsdelivr.net/gh/homarr-labs/dashboard-icons/svg/graylog.svg'',
      logo_needs_white_background = False\<rparr>"

definition grocy_service :: ServiceDefinition where [service_defs]:
  "grocy_service =
     \<lparr>def_name = ''Grocy'',
      def_description = ''Web-based self-hosted groceries & household management solution'',
      def_category = HomeAutomation,
      discovery_pattern = AnyOf [
        EndpointP Http ''/'' ''grocy.css'' None,
        EndpointP Https ''/'' ''grocy.css'' None],
      is_generic = False,
      logo_url = ''https://cdn.jsdelivr.net/gh/homarr-labs/dashboard-icons/svg/grocy.svg'',
      logo_needs_white_background = False\<rparr>"

definition haproxy_service :: ServiceDefinition where [service_defs]:
  "haproxy_service =
     \<lparr>def_name = ''HAProxy'',
      def_description = ''Load balancer and proxy'',
      def_category = ReverseProxy,
      discovery_pattern = EndpointP (new_tcp 8404) ''/stats'' ''haproxy'' None,
      is_generic = False,
      logo_url = ''https://cdn.jsdelivr.net/gh/homarr-labs/dashboard-icons/svg/haproxy.svg'',
      logo_needs_white_background = False\<rparr>"

definition homarr_service :: ServiceDefinition where [service_defs]:
  "homarr_service =
     \<lparr>def_name = ''Homarr'',
      def_description = ''A sleek, modern dashboard'',
      def_category = Dashboard,
      discovery_pattern = PortP (new_tcp 7575),
      is_generic = False,
      logo_url = ''https://cdn.jsdelivr.net/gh/homarr-labs/dashboard-icons/svg/homarr.svg'',
      logo_needs_white_background = False\<rparr>"

definition home_assistant_service :: ServiceDefinition where [service_defs]:
  "home_assistant_service =
     \<lparr>def_name = ''Home Assistant'',
      def_description = ''Open-source home automation platform'',
      def_category = HomeAutomation,
      discovery_pattern = EndpointP (new_tcp 8123) ''/'' ''home assistant'' None,
      is_generic = False,
      logo_url = ''https://cdn.jsdelivr.net/gh/homarr-labs/dashboard-icons/svg/home-assistant.svg'',
      logo_needs_white_background = False\<rparr>"

definition homepage_service :: ServiceDefinition where [service_defs]:
  "homepage_service =
     \<lparr>def_name = ''Homepage'',
      def_description = ''A self-hosted dashboard for your homelab'',
      def_category = Dashboard,
      discovery_pattern = EndpointP Http3000 ''/site.webmanifest'' ''Homepage'' None,
      is_generic = False,
      logo_url = ''https://cdn.jsdelivr.net/gh/homarr-labs/dashboard-icons/webp/homepage.webp'',
      logo_needs_white_background = False\<rparr>"

definition hp_printer_service :: ServiceDefinition where [service_defs]:
  "hp_printer_service =
     \<lparr>def_name = ''HP Printer'',
      def_description = ''An HP Printer'',
      def_category = Printer,
      discovery_pattern = AllOf [
        AnyOf [
          EndpointP Http '''' ''LaserJet'' None,
          EndpointP Http '''' ''DeskJet'' None,
          EndpointP Http '''' ''OfficeJet'' None,
          EndpointP Http8080 '''' ''LaserJet'' None,
          EndpointP Http8080 '''' ''DeskJet'' None,
          EndpointP Http8080 '''' ''OfficeJet'' None],
        AnyOf [
          PortP Ipp,
          PortP LdpTcp,
          PortP LdpUdp]],
      is_generic = False,
      logo_url = ''https://cdn.jsdelivr.net/gh/homarr-labs/dashboard-icons/svg/hp.svg'',
      logo_needs_white_background = True\<rparr>"

definition huntarr_service :: ServiceDefinition where [service_defs]:
  "huntarr_service =
     \<lparr>def_name = ''Huntarr'',
      def_description = ''Finds missing media and upgrades your existing content.'',
      def_category = Media,
      discovery_pattern = PortP (new_tcp 9705),
      is_generic = False,
      logo_url = ''https://cdn.jsdelivr.net/gh/homarr-labs/dashboard-icons/png/huntarr.png'',
      logo_needs_white_background = False\<rparr>"

definition hyperfile_service :: ServiceDefinition where [service_defs]:
  "hyperfile_service =
     \<lparr>def_name = ''HyperFile Server'',
      def_description = ''PC SOFT HFSQL Client-Server database (WinDev/WebDev)'',
      def_category = Database,
      discovery_pattern = PortP (new_tcp 4900),
      is_generic = False,
      logo_url = [],
      logo_needs_white_background = False\<rparr>"

definition icinga_service :: ServiceDefinition where [service_defs]:
  "icinga_service =
     \<lparr>def_name = ''Icinga'',
      def_description = ''Infrastructure monitoring'',
      def_category = Monitoring,
      discovery_pattern = EndpointP (new_tcp 5665) ''/v1'' ''icinga'' None,
      is_generic = False,
      logo_url = ''https://cdn.jsdelivr.net/gh/homarr-labs/dashboard-icons/svg/icinga.svg'',
      logo_needs_white_background = True\<rparr>"

definition iis_service :: ServiceDefinition where [service_defs]:
  "iis_service =
     \<lparr>def_name = ''Microsoft IIS'',
      def_description = ''Microsoft Internet Information Services web server'',
      def_category = ReverseProxy,
      discovery_pattern = HeaderP None ''Server'' ''Microsoft-IIS'' None,
      is_generic = False,
      logo_url = [],
      logo_needs_white_background = False\<rparr>"

definition immich_service :: ServiceDefinition where [service_defs]:
  "immich_service =
     \<lparr>def_name = ''Immich'',
      def_description = ''Self-hosted photo and video management solution'',
      def_category = Media,
      discovery_pattern = EndpointP (new_tcp 2283) ''/photos'' ''Immich'' None,
      is_generic = False,
      logo_url = ''https://cdn.jsdelivr.net/gh/homarr-labs/dashboard-icons/svg/immich.svg'',
      logo_needs_white_background = False\<rparr>"

definition influxdb_service :: ServiceDefinition where [service_defs]:
  "influxdb_service =
     \<lparr>def_name = ''InfluxDB'',
      def_description = ''Time series database'',
      def_category = Database,
      discovery_pattern = PortP InfluxDb,
      is_generic = True,
      logo_url = ''https://cdn.jsdelivr.net/gh/homarr-labs/dashboard-icons/svg/influxdb.svg'',
      logo_needs_white_background = True\<rparr>"

definition instant_on_service :: ServiceDefinition where [service_defs]:
  "instant_on_service =
     \<lparr>def_name = ''Instant On'',
      def_description = ''Managed through the HPE Networking Instant On cloud portal'',
      def_category = NetworkAccess,
      discovery_pattern = AnyOf [
        ClientResponse ProbeInstantOn,
        ManagedDeviceType instantondevicetype_switch,
        ManagedDeviceType instantondevicetype_stack,
        ManagedDeviceType instantondevicetype_access_point,
        ManagedDeviceType instantondevicetype_gateway],
      is_generic = False,
      logo_url = ''https://cdn.jsdelivr.net/gh/homarr-labs/dashboard-icons/svg/hpe.svg'',
      logo_needs_white_background = False\<rparr>"

definition instant_on_access_point_service :: ServiceDefinition where [service_defs]:
  "instant_on_access_point_service =
     \<lparr>def_name = ''Instant On Access Point'',
      def_description = ''HPE Networking Instant On wireless access point'',
      def_category = NetworkAccess,
      discovery_pattern = ManagedDeviceType instantondevicetype_access_point,
      is_generic = False,
      logo_url = ''https://cdn.jsdelivr.net/gh/homarr-labs/dashboard-icons/svg/hpe.svg'',
      logo_needs_white_background = False\<rparr>"

definition instant_on_gateway_service :: ServiceDefinition where [service_defs]:
  "instant_on_gateway_service =
     \<lparr>def_name = ''Instant On Gateway'',
      def_description = ''HPE Networking Instant On gateway'',
      def_category = NetworkAccess,
      discovery_pattern = ManagedDeviceType instantondevicetype_gateway,
      is_generic = False,
      logo_url = ''https://cdn.jsdelivr.net/gh/homarr-labs/dashboard-icons/svg/hpe.svg'',
      logo_needs_white_background = False\<rparr>"

definition instant_on_switch_service :: ServiceDefinition where [service_defs]:
  "instant_on_switch_service =
     \<lparr>def_name = ''Instant On Switch'',
      def_description = ''HPE Networking Instant On switch'',
      def_category = NetworkAccess,
      discovery_pattern = AnyOf [
        ManagedDeviceType instantondevicetype_switch,
        ManagedDeviceType instantondevicetype_stack],
      is_generic = False,
      logo_url = ''https://cdn.jsdelivr.net/gh/homarr-labs/dashboard-icons/svg/hpe.svg'',
      logo_needs_white_background = False\<rparr>"

definition iot_service :: ServiceDefinition where [service_defs]:
  "iot_service =
     \<lparr>def_name = ''IoT'',
      def_description = ''A generic IoT Service'',
      def_category = IoTCategory,
      discovery_pattern = NoneP,
      is_generic = True,
      logo_url = [],
      logo_needs_white_background = False\<rparr>"

definition jaeger_service :: ServiceDefinition where [service_defs]:
  "jaeger_service =
     \<lparr>def_name = ''Jaeger'',
      def_description = ''Distributed tracing system'',
      def_category = Monitoring,
      discovery_pattern = EndpointP (new_tcp 16686) ''/'' ''jaeger'' None,
      is_generic = True,
      logo_url = ''https://cdn.jsdelivr.net/gh/homarr-labs/dashboard-icons/svg/jaeger.svg'',
      logo_needs_white_background = False\<rparr>"

definition jellyfin_service :: ServiceDefinition where [service_defs]:
  "jellyfin_service =
     \<lparr>def_name = ''Jellyfin'',
      def_description = ''Free media server for personal streaming'',
      def_category = Media,
      discovery_pattern = EndpointP Http ''/System/Info/Public'' ''Jellyfin'' None,
      is_generic = False,
      logo_url = ''https://cdn.jsdelivr.net/gh/homarr-labs/dashboard-icons/svg/jellyfin.svg'',
      logo_needs_white_background = False\<rparr>"

definition jellyseerr_service :: ServiceDefinition where [service_defs]:
  "jellyseerr_service =
     \<lparr>def_name = ''Jellyseerr'',
      def_description = ''Open source software application for managing requests for your media library.'',
      def_category = Media,
      discovery_pattern = EndpointP (new_tcp 5055) ''/'' ''Jellyseerr'' None,
      is_generic = False,
      logo_url = ''https://cdn.jsdelivr.net/gh/homarr-labs/dashboard-icons/svg/jellyseerr.svg'',
      logo_needs_white_background = False\<rparr>"

definition jellystat_service :: ServiceDefinition where [service_defs]:
  "jellystat_service =
     \<lparr>def_name = ''Jellystat'',
      def_description = ''Open source software application for managing requests for your media library.'',
      def_category = Media,
      discovery_pattern = AllOf [
        EndpointP Http3000 ''/'' ''Jellystat'' None,
        EndpointP Http3000 ''/'' ''Jellyfin stats for the masses'' None],
      is_generic = False,
      logo_url = ''https://cdn.jsdelivr.net/gh/homarr-labs/dashboard-icons/svg/jellystat.svg'',
      logo_needs_white_background = False\<rparr>"

definition jenkins_service :: ServiceDefinition where [service_defs]:
  "jenkins_service =
     \<lparr>def_name = ''Jenkins'',
      def_description = ''Automation server for CI/CD'',
      def_category = Development,
      discovery_pattern = AnyOf [
        EndpointP Http8080 ''/'' ''jenkins.io'' None,
        HeaderP (Some Https) ''x-jenkins'' '''' (Some (200, 500))],
      is_generic = False,
      logo_url = ''https://cdn.jsdelivr.net/gh/homarr-labs/dashboard-icons/svg/jenkins.svg'',
      logo_needs_white_background = False\<rparr>"

definition jetdirect_service :: ServiceDefinition where [service_defs]:
  "jetdirect_service =
     \<lparr>def_name = ''JetDirect'',
      def_description = ''HP JetDirect RAW printing protocol'',
      def_category = Printer,
      discovery_pattern = PortP JetDirect,
      is_generic = True,
      logo_url = [],
      logo_needs_white_background = False\<rparr>"

definition jira_server_service :: ServiceDefinition where [service_defs]:
  "jira_server_service =
     \<lparr>def_name = ''Jira'',
      def_description = ''Project management platform'',
      def_category = ProjectManagement,
      discovery_pattern = EndpointP Http8080 ''/rest/api/2/serverInfo'' ''jira'' (Some (200, 300)),
      is_generic = False,
      logo_url = ''https://cdn.jsdelivr.net/gh/homarr-labs/dashboard-icons/svg/jira.svg'',
      logo_needs_white_background = False\<rparr>"

definition jitsi_meet_service :: ServiceDefinition where [service_defs]:
  "jitsi_meet_service =
     \<lparr>def_name = ''Jitsi Meet'',
      def_description = ''Video conferencing'',
      def_category = Conferencing,
      discovery_pattern = EndpointP Https8443 ''/'' ''jitsilogo.png'' None,
      is_generic = False,
      logo_url = ''https://cdn.jsdelivr.net/gh/homarr-labs/dashboard-icons/svg/jitsi-meet.svg'',
      logo_needs_white_background = False\<rparr>"

definition jotty_service :: ServiceDefinition where [service_defs]:
  "jotty_service =
     \<lparr>def_name = ''Jotty'',
      def_description = ''A simple, self-hosted app for your checklists and notes'',
      def_category = Office,
      discovery_pattern = EndpointP Http3000 ''/site.webmanifest'' ''jotty'' None,
      is_generic = False,
      logo_url = ''https://cdn.jsdelivr.net/gh/homarr-labs/dashboard-icons/svg/jotty.svg'',
      logo_needs_white_background = False\<rparr>"

definition jump_service :: ServiceDefinition where [service_defs]:
  "jump_service =
     \<lparr>def_name = ''Jump'',
      def_description = ''A self-hosted startpage and real-time status page'',
      def_category = Dashboard,
      discovery_pattern = EndpointP (new_tcp 8123) ''/'' ''Jump'' None,
      is_generic = False,
      logo_url = [],
      logo_needs_white_background = False\<rparr>"

definition kafka_service :: ServiceDefinition where [service_defs]:
  "kafka_service =
     \<lparr>def_name = ''Kafka'',
      def_description = ''Event streaming platform'',
      def_category = MessageQueue,
      discovery_pattern = PortP Kafka,
      is_generic = True,
      logo_url = ''https://simpleicons.org/icons/apachekafka.svg'',
      logo_needs_white_background = True\<rparr>"

definition karakeep_service :: ServiceDefinition where [service_defs]:
  "karakeep_service =
     \<lparr>def_name = ''Karakeep'',
      def_description = ''The Bookmark Everything App'',
      def_category = Media,
      discovery_pattern = EndpointP Http3000 ''/manifest.json'' ''Karakeep'' None,
      is_generic = False,
      logo_url = ''https://cdn.jsdelivr.net/gh/homarr-labs/dashboard-icons/svg/karakeep.svg'',
      logo_needs_white_background = False\<rparr>"

definition kerberos_service :: ServiceDefinition where [service_defs]:
  "kerberos_service =
     \<lparr>def_name = ''Kerberos'',
      def_description = ''Kerberos authentication service'',
      def_category = IdentityAndAccess,
      discovery_pattern = PortP Kerberos,
      is_generic = True,
      logo_url = [],
      logo_needs_white_background = False\<rparr>"

definition keycloak_service :: ServiceDefinition where [service_defs]:
  "keycloak_service =
     \<lparr>def_name = ''Keycloak'',
      def_description = ''Identity and access management'',
      def_category = IdentityAndAccess,
      discovery_pattern = EndpointP Http8080 ''/'' ''/keycloak/'' None,
      is_generic = False,
      logo_url = ''https://cdn.jsdelivr.net/gh/homarr-labs/dashboard-icons/svg/keycloak.svg'',
      logo_needs_white_background = False\<rparr>"

definition komga_service :: ServiceDefinition where [service_defs]:
  "komga_service =
     \<lparr>def_name = ''Komga'',
      def_description = ''A media server for your comics, mangas, BDs, magazines and eBooks.'',
      def_category = Media,
      discovery_pattern = EndpointP (new_tcp 25600) ''/'' ''Komga'' None,
      is_generic = False,
      logo_url = ''https://cdn.jsdelivr.net/gh/homarr-labs/dashboard-icons/svg/komga.svg'',
      logo_needs_white_background = False\<rparr>"

definition kong_service :: ServiceDefinition where [service_defs]:
  "kong_service =
     \<lparr>def_name = ''Kong'',
      def_description = ''API gateway'',
      def_category = ReverseProxy,
      discovery_pattern = EndpointP (new_tcp 8001) ''/'' ''kong'' None,
      is_generic = False,
      logo_url = ''https://simpleicons.org/icons/kong.svg'',
      logo_needs_white_background = True\<rparr>"

definition kubernetes_service :: ServiceDefinition where [service_defs]:
  "kubernetes_service =
     \<lparr>def_name = ''Kubernetes'',
      def_description = ''Container orchestration platform'',
      def_category = Orchestrator,
      discovery_pattern = AllOf [
        PortP Kubernetes,
        AnyOf [
          PortP (new_tcp 10250),
          PortP (new_tcp 10259),
          PortP (new_tcp 10257),
          PortP (new_tcp 10256)]],
      is_generic = False,
      logo_url = ''https://cdn.jsdelivr.net/gh/homarr-labs/dashboard-icons/svg/kubernetes.svg'',
      logo_needs_white_background = False\<rparr>"

definition definitions_e_k :: "ServiceDefinition list" where
  "definitions_e_k = [
     eero_gateway_service,
     eero_repeater_service,
     elastic_apm_service,
     elasticsearch_service,
     emby_service,
     esphome_service,
     esxi_service,
     file_server_service,
     filezilla_server_service,
     fios_extender_service,
     fios_gateway_service,
     firefly_iii_service,
     firewall_service,
     forgejo_service,
     fortigate_service,
     freeipa_service,
     freepbx_service,
     freshrss_service,
     frigate_service,
     gateway_service,
     gatus_service,
     ghost_service,
     gitea_service,
     github_enterprise_service,
     gitlab_service,
     glance_app_service,
     glances_service,
     google_home_service,
     google_nest_repeater_service,
     google_nest_router_service,
     grafana_service,
     graylog_service,
     grocy_service,
     haproxy_service,
     homarr_service,
     home_assistant_service,
     homepage_service,
     hp_printer_service,
     huntarr_service,
     hyperfile_service,
     icinga_service,
     iis_service,
     immich_service,
     influxdb_service,
     instant_on_service,
     instant_on_access_point_service,
     instant_on_gateway_service,
     instant_on_switch_service,
     iot_service,
     jaeger_service,
     jellyfin_service,
     jellyseerr_service,
     jellystat_service,
     jenkins_service,
     jetdirect_service,
     jira_server_service,
     jitsi_meet_service,
     jotty_service,
     jump_service,
     kafka_service,
     karakeep_service,
     kerberos_service,
     keycloak_service,
     komga_service,
     kong_service,
     kubernetes_service]"

end
