(* ===== verification/Definitions_L_P.thy ===== *)
theory Definitions_L_P
  imports Patterns
begin

text \<open>
  The service definitions of the registry with module names from l to p
  (\<^verbatim>\<open>backend/src/server/services/definitions/\<close>): for each, its name, description,
  category, discovery pattern and logo as the module states them.
\<close>

definition podman_container_unclaimed :: "match_params \<Rightarrow> bool" where
  "podman_container_unclaimed p =
     (case mp_virtualization_metadata (baseline_params p) of
        Some (Podman d) \<Rightarrow>
          (case info_container_id d of
             Some c_id \<Rightarrow> list_all (\<lambda>s.
               case svc_virtualization_metadata (svc_base s) of
                 Some (Podman e) \<Rightarrow> if info_container_id e \<noteq> None then info_container_id e \<noteq> Some c_id else True
               | _ \<Rightarrow> True) (matched_services (service_params p))
           | None \<Rightarrow> False)
      | _ \<Rightarrow> False)"

definition ldap_service :: ServiceDefinition where [service_defs]:
  "ldap_service =
     \<lparr>def_name = ''Open LDAP'',
      def_description = ''Generic LDAP directory service'',
      def_category = IdentityAndAccess,
      discovery_pattern = AnyOf [
        PortP Ldap,
        PortP Ldaps],
      is_generic = True,
      logo_url = ''https://cdn.jsdelivr.net/gh/homarr-labs/dashboard-icons/svg/openldap.svg'',
      logo_needs_white_background = False\<rparr>"

definition lidarr_service :: ServiceDefinition where [service_defs]:
  "lidarr_service =
     \<lparr>def_name = ''Lidarr'',
      def_description = ''A music collection manager for Usenet and BitTorrent users.'',
      def_category = Media,
      discovery_pattern = EndpointP (new_tcp 8686) ''/Content/manifest.json'' ''Lidarr'' None,
      is_generic = False,
      logo_url = ''https://cdn.jsdelivr.net/gh/homarr-labs/dashboard-icons/svg/lidarr.svg'',
      logo_needs_white_background = False\<rparr>"

definition linkstack_service :: ServiceDefinition where [service_defs]:
  "linkstack_service =
     \<lparr>def_name = ''LinkStack'',
      def_description = ''A highly customizable link sharing platform'',
      def_category = Dashboard,
      discovery_pattern = AllOf [
        HeaderP None ''set-cookie'' ''linkstack_session'' None,
        EndpointP Http8080 ''/'' ''LinkStack'' None],
      is_generic = False,
      logo_url = ''https://cdn.jsdelivr.net/gh/homarr-labs/dashboard-icons/svg/linkstack.svg'',
      logo_needs_white_background = False\<rparr>"

definition loki_service :: ServiceDefinition where [service_defs]:
  "loki_service =
     \<lparr>def_name = ''Loki'',
      def_description = ''Log aggregation system inspired by Prometheus'',
      def_category = Monitoring,
      discovery_pattern = AnyOf [
        EndpointP (new_tcp 3100) ''/metrics'' ''loki_build_info'' None],
      is_generic = False,
      logo_url = ''https://cdn.jsdelivr.net/gh/homarr-labs/dashboard-icons/svg/loki.svg'',
      logo_needs_white_background = False\<rparr>"

definition lubelogger_service :: ServiceDefinition where [service_defs]:
  "lubelogger_service =
     \<lparr>def_name = ''Lubelogger'',
      def_description = ''Vehicle Maintenance Records and Fuel Mileage Tracker'',
      def_category = HomeAutomation,
      discovery_pattern = EndpointP Http8080 ''/'' ''Garage - LubeLogger'' None,
      is_generic = False,
      logo_url = ''https://cdn.jsdelivr.net/gh/homarr-labs/dashboard-icons/png/lubelogger.png'',
      logo_needs_white_background = False\<rparr>"

definition mailcow_service :: ServiceDefinition where [service_defs]:
  "mailcow_service =
     \<lparr>def_name = ''mailcow'',
      def_description = ''Open-source mail server suite (Dockerized)'',
      def_category = Email,
      discovery_pattern = EndpointP Https ''/api/v1/get/status'' ''mailcow'' None,
      is_generic = False,
      logo_url = ''https://cdn.jsdelivr.net/gh/homarr-labs/dashboard-icons/svg/mailcow.svg'',
      logo_needs_white_background = False\<rparr>"

definition mariadb_service :: ServiceDefinition where [service_defs]:
  "mariadb_service =
     \<lparr>def_name = ''MariaDB'',
      def_description = ''MySQL-compatible relational database'',
      def_category = Database,
      discovery_pattern = NoneP,
      is_generic = True,
      logo_url = ''https://cdn.jsdelivr.net/gh/homarr-labs/dashboard-icons/svg/mariadb.svg'',
      logo_needs_white_background = True\<rparr>"

definition mattermost_service :: ServiceDefinition where [service_defs]:
  "mattermost_service =
     \<lparr>def_name = ''Mattermost'',
      def_description = ''Team messaging platform'',
      def_category = Messaging,
      discovery_pattern = EndpointP (new_tcp 8065) ''/api/v4/system/ping'' '''' None,
      is_generic = False,
      logo_url = ''https://cdn.jsdelivr.net/gh/homarr-labs/dashboard-icons/svg/mattermost.svg'',
      logo_needs_white_background = True\<rparr>"

definition me_tube_service :: ServiceDefinition where [service_defs]:
  "me_tube_service =
     \<lparr>def_name = ''MeTube'',
      def_description = ''Self-hosted YouTube downloader'',
      def_category = Media,
      discovery_pattern = EndpointP Http8081 ''/manifest.webmanifest'' ''MeTube'' None,
      is_generic = False,
      logo_url = ''https://cdn.jsdelivr.net/gh/homarr-labs/dashboard-icons/svg/metube.svg'',
      logo_needs_white_background = False\<rparr>"

definition mealie_service :: ServiceDefinition where [service_defs]:
  "mealie_service =
     \<lparr>def_name = ''Mealie'',
      def_description = ''A self-hosted recipe manager and meal planner'',
      def_category = HomeAutomation,
      discovery_pattern = AllOf [
        EndpointP Http9000 ''/'' ''Mealie'' None,
        EndpointP Http9000 ''/'' ''recipe'' None],
      is_generic = False,
      logo_url = ''https://cdn.jsdelivr.net/gh/homarr-labs/dashboard-icons/svg/mealie.svg'',
      logo_needs_white_background = False\<rparr>"

definition memos_service :: ServiceDefinition where [service_defs]:
  "memos_service =
     \<lparr>def_name = ''Memos'',
      def_description = ''An open-source, self-hosted note-taking service.'',
      def_category = Office,
      discovery_pattern = EndpointP (new_tcp 5230) ''/explore'' ''Memos'' None,
      is_generic = False,
      logo_url = ''https://cdn.jsdelivr.net/gh/homarr-labs/dashboard-icons/png/memos.png'',
      logo_needs_white_background = False\<rparr>"

definition mendelson_as2_service :: ServiceDefinition where [service_defs]:
  "mendelson_as2_service =
     \<lparr>def_name = ''Mendelson AS2'',
      def_description = ''Open-source AS2 server for B2B/EDI file exchange'',
      def_category = Integration,
      discovery_pattern = EndpointP Https8443 ''/as2/HttpReceiver'' ''mendelson opensource'' None,
      is_generic = False,
      logo_url = [],
      logo_needs_white_background = False\<rparr>"

definition mikrotik_service :: ServiceDefinition where [service_defs]:
  "mikrotik_service =
     \<lparr>def_name = ''MikroTik'',
      def_description = ''MikroTik RouterOS network device'',
      def_category = NetworkAppliance,
      discovery_pattern = EndpointP Http ''/'' ''MikroTik RouterOS'' None,
      is_generic = False,
      logo_url = ''https://cdn.jsdelivr.net/gh/homarr-labs/dashboard-icons/svg/mikrotik.svg'',
      logo_needs_white_background = False\<rparr>"

definition minio_service :: ServiceDefinition where [service_defs]:
  "minio_service =
     \<lparr>def_name = ''MinIO'',
      def_description = ''Object storage'',
      def_category = StorageCategory,
      discovery_pattern = EndpointP Http9000 ''/minio/health/live'' '''' (Some (200, 300)),
      is_generic = False,
      logo_url = ''https://cdn.jsdelivr.net/gh/homarr-labs/dashboard-icons/svg/minio.svg'',
      logo_needs_white_background = True\<rparr>"

definition mongodb_service :: ServiceDefinition where [service_defs]:
  "mongodb_service =
     \<lparr>def_name = ''MongoDB'',
      def_description = ''NoSQL document database'',
      def_category = Database,
      discovery_pattern = PortP MongoDB,
      is_generic = True,
      logo_url = ''https://cdn.jsdelivr.net/gh/homarr-labs/dashboard-icons/svg/mongodb.svg'',
      logo_needs_white_background = True\<rparr>"

definition mqtt_service :: ServiceDefinition where [service_defs]:
  "mqtt_service =
     \<lparr>def_name = ''MQTT'',
      def_description = ''Generic MQTT broker'',
      def_category = MessageQueue,
      discovery_pattern = AnyOf [
        PortP Mqtt,
        PortP MqttTls],
      is_generic = True,
      logo_url = ''https://cdn.jsdelivr.net/gh/homarr-labs/dashboard-icons/svg/mqtt.svg'',
      logo_needs_white_background = False\<rparr>"

definition mssql_server_service :: ServiceDefinition where [service_defs]:
  "mssql_server_service =
     \<lparr>def_name = ''Microsoft SQL Server'',
      def_description = ''Microsoft relational database'',
      def_category = Database,
      discovery_pattern = PortP MsSql,
      is_generic = True,
      logo_url = ''https://cdn.jsdelivr.net/gh/homarr-labs/dashboard-icons/svg/microsoft-sql-server-light.svg'',
      logo_needs_white_background = True\<rparr>"

definition mysql_service :: ServiceDefinition where [service_defs]:
  "mysql_service =
     \<lparr>def_name = ''MySQL'',
      def_description = ''Open-source relational database'',
      def_category = Database,
      discovery_pattern = PortP MySql,
      is_generic = True,
      logo_url = ''https://cdn.jsdelivr.net/gh/homarr-labs/dashboard-icons/svg/mysql.svg'',
      logo_needs_white_background = True\<rparr>"

definition n8n_service :: ServiceDefinition where [service_defs]:
  "n8n_service =
     \<lparr>def_name = ''n8n'',
      def_description = ''Open source workflow automation platform'',
      def_category = Development,
      discovery_pattern = EndpointP (new_tcp 5678) ''/'' ''n8n'' None,
      is_generic = False,
      logo_url = ''https://cdn.jsdelivr.net/gh/homarr-labs/dashboard-icons/svg/n8n.svg'',
      logo_needs_white_background = False\<rparr>"

definition nagios_service :: ServiceDefinition where [service_defs]:
  "nagios_service =
     \<lparr>def_name = ''Nagios'',
      def_description = ''Infrastructure monitoring'',
      def_category = Monitoring,
      discovery_pattern = EndpointP Http ''/nagios'' ''nagios'' None,
      is_generic = True,
      logo_url = ''https://cdn.jsdelivr.net/gh/homarr-labs/dashboard-icons/svg/nagios.svg'',
      logo_needs_white_background = False\<rparr>"

definition nats_service :: ServiceDefinition where [service_defs]:
  "nats_service =
     \<lparr>def_name = ''NATS'',
      def_description = ''Cloud-native messaging system'',
      def_category = MessageQueue,
      discovery_pattern = EndpointP (new_tcp 8222) ''/varz'' '''' None,
      is_generic = False,
      logo_url = ''https://simpleicons.org/icons/natsdotio.svg'',
      logo_needs_white_background = True\<rparr>"

definition ncpa_agent_service :: ServiceDefinition where [service_defs]:
  "ncpa_agent_service =
     \<lparr>def_name = ''NCPA Agent'',
      def_description = ''Nagios Cross-Platform Agent for monitoring'',
      def_category = Monitoring,
      discovery_pattern = EndpointP (new_tcp 5693) ''/'' ''NCPA'' None,
      is_generic = False,
      logo_url = ''https://cdn.jsdelivr.net/gh/homarr-labs/dashboard-icons/svg/nagios.svg'',
      logo_needs_white_background = False\<rparr>"

definition neo4j_service :: ServiceDefinition where [service_defs]:
  "neo4j_service =
     \<lparr>def_name = ''Neo4j'',
      def_description = ''Graph database'',
      def_category = Database,
      discovery_pattern = AnyOf [
        PortP (new_tcp 7473),
        PortP (new_tcp 7687)],
      is_generic = False,
      logo_url = ''https://cdn.jsdelivr.net/gh/homarr-labs/dashboard-icons/png/neo4j.png'',
      logo_needs_white_background = False\<rparr>"

definition nest_protect_service :: ServiceDefinition where [service_defs]:
  "nest_protect_service =
     \<lparr>def_name = ''Nest Protect'',
      def_description = ''Google Nest smoke and CO detector'',
      def_category = IoTCategory,
      discovery_pattern = AllOf [
        AnyOf [
          MacVendor vendor_nest,
          MacVendor vendor_google],
        PortP (new_tcp 11095)],
      is_generic = False,
      logo_url = ''https://cdn.jsdelivr.net/gh/homarr-labs/dashboard-icons/svg/google-home.svg'',
      logo_needs_white_background = False\<rparr>"

definition nest_thermostat_service :: ServiceDefinition where [service_defs]:
  "nest_thermostat_service =
     \<lparr>def_name = ''Nest Thermostat'',
      def_description = ''Google Nest smart thermostat'',
      def_category = IoTCategory,
      discovery_pattern = AllOf [
        AnyOf [
          MacVendor vendor_nest,
          MacVendor vendor_google],
        PortP (new_tcp 9543)],
      is_generic = False,
      logo_url = ''https://cdn.jsdelivr.net/gh/homarr-labs/dashboard-icons/svg/google-home.svg'',
      logo_needs_white_background = False\<rparr>"

definition netbootxyz_service :: ServiceDefinition where [service_defs]:
  "netbootxyz_service =
     \<lparr>def_name = ''Netbootxyz'',
      def_description = ''PXE Boot Server'',
      def_category = StorageCategory,
      discovery_pattern = EndpointP (new_tcp 61208) ''/'' ''Netbootxyz'' None,
      is_generic = False,
      logo_url = ''https://cdn.jsdelivr.net/gh/homarr-labs/dashboard-icons/svg/netbootxyz.svg'',
      logo_needs_white_background = False\<rparr>"

definition netdata_service :: ServiceDefinition where [service_defs]:
  "netdata_service =
     \<lparr>def_name = ''Netdata'',
      def_description = ''Real-time performance monitoring'',
      def_category = Monitoring,
      discovery_pattern = EndpointP (new_tcp 19999) ''/api/v1/info'' ''netdata'' None,
      is_generic = True,
      logo_url = ''https://cdn.jsdelivr.net/gh/homarr-labs/dashboard-icons/svg/netdata.svg'',
      logo_needs_white_background = False\<rparr>"

definition next_cloud_service :: ServiceDefinition where [service_defs]:
  "next_cloud_service =
     \<lparr>def_name = ''NextCloud'',
      def_description = ''Self-hosted cloud storage and collaboration platform'',
      def_category = Office,
      discovery_pattern = EndpointP Http ''/core/css/server.css'' ''Nextcloud GmbH'' None,
      is_generic = False,
      logo_url = ''https://cdn.jsdelivr.net/gh/homarr-labs/dashboard-icons/svg/nextcloud.svg'',
      logo_needs_white_background = False\<rparr>"

definition nfs_server_service :: ServiceDefinition where [service_defs]:
  "nfs_server_service =
     \<lparr>def_name = ''NFS'',
      def_description = ''Generic network file system'',
      def_category = StorageCategory,
      discovery_pattern = PortP Nfs,
      is_generic = True,
      logo_url = [],
      logo_needs_white_background = False\<rparr>"

definition nginx_proxy_manager_service :: ServiceDefinition where [service_defs]:
  "nginx_proxy_manager_service =
     \<lparr>def_name = ''Nginx Proxy Manager'',
      def_description = ''Web-based Nginx proxy management ip_address'',
      def_category = ReverseProxy,
      discovery_pattern = EndpointP Http '''' ''nginx proxy manager'' None,
      is_generic = False,
      logo_url = ''https://cdn.jsdelivr.net/gh/homarr-labs/dashboard-icons/svg/nginx-proxy-manager.svg'',
      logo_needs_white_background = False\<rparr>"

definition nomad_service :: ServiceDefinition where [service_defs]:
  "nomad_service =
     \<lparr>def_name = ''Nomad'',
      def_description = ''Workload orchestration'',
      def_category = Orchestrator,
      discovery_pattern = EndpointP (new_tcp 4646) ''/v1/status/leader'' '''' None,
      is_generic = False,
      logo_url = ''https://cdn.jsdelivr.net/gh/homarr-labs/dashboard-icons/svg/nomad.svg'',
      logo_needs_white_background = False\<rparr>"

definition ntfy_service :: ServiceDefinition where [service_defs]:
  "ntfy_service =
     \<lparr>def_name = ''Ntfy'',
      def_description = ''Simple HTTP-based pub-sub notification service'',
      def_category = MessageQueue,
      discovery_pattern = AnyOf [
        EndpointP Http ''/'' ''ntfy web'' None,
        EndpointP (new_tcp 2856) ''/'' ''ntfy web'' None],
      is_generic = False,
      logo_url = ''https://cdn.jsdelivr.net/gh/homarr-labs/dashboard-icons/svg/ntfy.svg'',
      logo_needs_white_background = False\<rparr>"

definition ntp_service :: ServiceDefinition where [service_defs]:
  "ntp_service =
     \<lparr>def_name = ''NTP Server'',
      def_description = ''Network Time Protocol server'',
      def_category = NetworkCore,
      discovery_pattern = PortP Ntp,
      is_generic = True,
      logo_url = [],
      logo_needs_white_background = False\<rparr>"

definition nut_service :: ServiceDefinition where [service_defs]:
  "nut_service =
     \<lparr>def_name = ''NUT'',
      def_description = ''Network UPS Tools'',
      def_category = Monitoring,
      discovery_pattern = PortP (new_tcp 3493),
      is_generic = False,
      logo_url = ''https://cdn.jsdelivr.net/gh/homarr-labs/dashboard-icons/svg/nut.svg'',
      logo_needs_white_background = False\<rparr>"

definition nvidia_gpu_exporter_service :: ServiceDefinition where [service_defs]:
  "nvidia_gpu_exporter_service =
     \<lparr>def_name = ''Nvidia GPU Exporter'',
      def_description = ''Prometheus exporter for Nvidia GPU metrics'',
      def_category = Monitoring,
      discovery_pattern = EndpointP (new_tcp 9835) ''/metrics'' ''nvidia_gpu_exporter'' None,
      is_generic = False,
      logo_url = ''https://cdn.jsdelivr.net/gh/homarr-labs/dashboard-icons/svg/nvidia.svg'',
      logo_needs_white_background = False\<rparr>"

definition ollama_service :: ServiceDefinition where [service_defs]:
  "ollama_service =
     \<lparr>def_name = ''Ollama'',
      def_description = ''An easy way to get up and running with LLMs.'',
      def_category = Development,
      discovery_pattern = EndpointP (new_tcp 11434) ''/'' ''Ollama is running'' None,
      is_generic = False,
      logo_url = ''https://cdn.jsdelivr.net/gh/homarr-labs/dashboard-icons/svg/ollama-dark.svg'',
      logo_needs_white_background = False\<rparr>"

definition open_media_vault_service :: ServiceDefinition where [service_defs]:
  "open_media_vault_service =
     \<lparr>def_name = ''OpenMediaVault'',
      def_description = ''Debian-based NAS solution'',
      def_category = StorageCategory,
      discovery_pattern = AllOf [
        PortP Samba,
        EndpointP Http ''/'' ''openmediavault'' None],
      is_generic = False,
      logo_url = ''https://cdn.jsdelivr.net/gh/homarr-labs/dashboard-icons/svg/openmediavault.svg'',
      logo_needs_white_background = False\<rparr>"

definition open_ports_service :: ServiceDefinition where [service_defs]:
  "open_ports_service =
     \<lparr>def_name = ''Unclaimed Open Ports'',
      def_description = ''Unclaimed open ports. Reassign to the correct service if known.'',
      def_category = OpenPortsCategory,
      discovery_pattern = CustomP (\<lambda>p. unbound_ports (service_params p) \<noteq> []) (unbound_ports \<circ> service_params)
        ''Has unbound open ports'' ''No unbound ports remaining'' NotApplicable,
      is_generic = True,
      logo_url = [],
      logo_needs_white_background = False\<rparr>"

definition open_webui_service :: ServiceDefinition where [service_defs]:
  "open_webui_service =
     \<lparr>def_name = ''Open WebUI'',
      def_description = ''Open, extensible, user-friendly ip_address for AI'',
      def_category = Development,
      discovery_pattern = EndpointP Http8080 ''/manifest.json'' ''Open WebUI'' None,
      is_generic = False,
      logo_url = ''https://cdn.jsdelivr.net/gh/homarr-labs/dashboard-icons/svg/open-webui-light.svg'',
      logo_needs_white_background = False\<rparr>"

definition openhab_service :: ServiceDefinition where [service_defs]:
  "openhab_service =
     \<lparr>def_name = ''openHAB'',
      def_description = ''Home automation platform'',
      def_category = HomeAutomation,
      discovery_pattern = EndpointP Http8080 ''/rest/'' ''openhab'' None,
      is_generic = False,
      logo_url = ''https://cdn.jsdelivr.net/gh/homarr-labs/dashboard-icons/svg/openhab.svg'',
      logo_needs_white_background = False\<rparr>"

definition openshift_service :: ServiceDefinition where [service_defs]:
  "openshift_service =
     \<lparr>def_name = ''OpenShift'',
      def_description = ''Enterprise Kubernetes'',
      def_category = Orchestrator,
      discovery_pattern = EndpointP Kubernetes ''/healthz'' ''openshift'' None,
      is_generic = False,
      logo_url = ''https://cdn.jsdelivr.net/gh/homarr-labs/dashboard-icons/svg/openshift.svg'',
      logo_needs_white_background = False\<rparr>"

definition openspeedtest_service :: ServiceDefinition where [service_defs]:
  "openspeedtest_service =
     \<lparr>def_name = ''OpenSpeedTest'',
      def_description = ''Self-hosted network speed test application'',
      def_category = Monitoring,
      discovery_pattern = AnyOf [
        EndpointP Http3000 ''/'' ''OpenSpeedTest-Server'' None,
        EndpointP (new_tcp 3001) ''/'' ''OpenSpeedTest-Server'' None],
      is_generic = False,
      logo_url = ''https://cdn.jsdelivr.net/gh/homarr-labs/dashboard-icons/svg/openspeedtest.svg'',
      logo_needs_white_background = False\<rparr>"

definition openvpn_service :: ServiceDefinition where [service_defs]:
  "openvpn_service =
     \<lparr>def_name = ''OpenVPN'',
      def_description = ''OpenVPN server'',
      def_category = VPN,
      discovery_pattern = PortP OpenVPN,
      is_generic = True,
      logo_url = ''https://cdn.jsdelivr.net/gh/homarr-labs/dashboard-icons/svg/openvpn.svg'',
      logo_needs_white_background = False\<rparr>"

definition opn_sense_service :: ServiceDefinition where [service_defs]:
  "opn_sense_service =
     \<lparr>def_name = ''OPNsense'',
      def_description = ''Open-source firewall and routing platform'',
      def_category = NetworkAppliance,
      discovery_pattern = AllOf [
        AnyOf [
          EndpointP Http ''/'' ''opnsense'' None,
          EndpointP Https ''/'' ''opnsense'' None],
        AnyOf [
          PortP DnsTcp,
          PortP DnsUdp,
          PortP Ssh,
          PortP Ntp,
          PortP Dhcp]],
      is_generic = False,
      logo_url = ''https://cdn.jsdelivr.net/gh/homarr-labs/dashboard-icons/svg/opnsense.svg'',
      logo_needs_white_background = False\<rparr>"

definition oracle_db_service :: ServiceDefinition where [service_defs]:
  "oracle_db_service =
     \<lparr>def_name = ''Oracle Database'',
      def_description = ''Enterprise relational database'',
      def_category = Database,
      discovery_pattern = PortP (new_tcp 1521),
      is_generic = False,
      logo_url = ''https://cdn.jsdelivr.net/gh/homarr-labs/dashboard-icons/svg/oracle.svg'',
      logo_needs_white_background = True\<rparr>"

definition overseerr_service :: ServiceDefinition where [service_defs]:
  "overseerr_service =
     \<lparr>def_name = ''Overseerr'',
      def_description = ''Open source software application for managing requests for your media library.'',
      def_category = Media,
      discovery_pattern = AllOf [
        EndpointP (new_tcp 5055) ''/site.webmanifest'' ''Overseerr'' None,
        NotP (EndpointP (new_tcp 5055) ''/'' ''Jellyseerr'' None)],
      is_generic = False,
      logo_url = ''https://cdn.jsdelivr.net/gh/homarr-labs/dashboard-icons/svg/overseerr.svg'',
      logo_needs_white_background = False\<rparr>"

definition owncloud_service :: ServiceDefinition where [service_defs]:
  "owncloud_service =
     \<lparr>def_name = ''ownCloud'',
      def_description = ''File sync and share'',
      def_category = Office,
      discovery_pattern = EndpointP Http ''/status.php'' ''owncloud'' None,
      is_generic = False,
      logo_url = ''https://cdn.jsdelivr.net/gh/homarr-labs/dashboard-icons/svg/owncloud.svg'',
      logo_needs_white_background = True\<rparr>"

definition paperless_ngx_service :: ServiceDefinition where [service_defs]:
  "paperless_ngx_service =
     \<lparr>def_name = ''Paperless-NGX'',
      def_description = ''Community-supported document management system'',
      def_category = Office,
      discovery_pattern = EndpointP (new_tcp 8000) ''/static/frontend/en-US/manifest.webmanifest'' ''Paperless-ngx'' None,
      is_generic = False,
      logo_url = ''https://cdn.jsdelivr.net/gh/homarr-labs/dashboard-icons/svg/paperless-ngx.svg'',
      logo_needs_white_background = True\<rparr>"

definition peanut_service :: ServiceDefinition where [service_defs]:
  "peanut_service =
     \<lparr>def_name = ''PeaNUT'',
      def_description = ''A tiny dashboard for Network UPS Tools'',
      def_category = Monitoring,
      discovery_pattern = EndpointP Http8080 ''/api/v1/info'' ''peanut'' None,
      is_generic = False,
      logo_url = ''https://cdn.jsdelivr.net/gh/homarr-labs/dashboard-icons/svg/peanut.svg'',
      logo_needs_white_background = False\<rparr>"

definition pf_blocker_ng_service :: ServiceDefinition where [service_defs]:
  "pf_blocker_ng_service =
     \<lparr>def_name = ''pfBlockerNG'',
      def_description = ''PfSense package for DNS/IP blocking'',
      def_category = AdBlock,
      discovery_pattern = AllOf [
        AllOf [
          PortP DnsTcp,
          PortP DnsUdp],
        EndpointP Http ''/pfblockerng'' ''pfblockerng'' None],
      is_generic = False,
      logo_url = ''https://cdn.jsdelivr.net/gh/homarr-labs/dashboard-icons/svg/pfsense.svg'',
      logo_needs_white_background = False\<rparr>"

definition pf_sense_service :: ServiceDefinition where [service_defs]:
  "pf_sense_service =
     \<lparr>def_name = ''pfSense'',
      def_description = ''Open-source firewall and router platform'',
      def_category = NetworkAppliance,
      discovery_pattern = AllOf [
        PortP Ssh,
        EndpointP Http ''/'' ''pfsense'' None],
      is_generic = False,
      logo_url = ''https://cdn.jsdelivr.net/gh/homarr-labs/dashboard-icons/svg/pfsense.svg'',
      logo_needs_white_background = False\<rparr>"

definition philips_hue_bridge_service :: ServiceDefinition where [service_defs]:
  "philips_hue_bridge_service =
     \<lparr>def_name = ''Philips Hue Bridge'',
      def_description = ''Philips Hue Bridge for lighting control'',
      def_category = IoTCategory,
      discovery_pattern = AllOf [
        MacVendor vendor_philips,
        EndpointP Http ''/'' ''hue'' None],
      is_generic = False,
      logo_url = ''https://simpleicons.org/icons/philipshue.svg'',
      logo_needs_white_background = True\<rparr>"

definition pi_hole_service :: ServiceDefinition where [service_defs]:
  "pi_hole_service =
     \<lparr>def_name = ''Pi-Hole'',
      def_description = ''Network-wide ad blocking DNS service'',
      def_category = AdBlock,
      discovery_pattern = AllOf [
        AnyOf [
          PortP DnsUdp,
          PortP DnsTcp],
        EndpointP Http ''/admin'' ''pi-hole'' None],
      is_generic = False,
      logo_url = ''https://cdn.jsdelivr.net/gh/homarr-labs/dashboard-icons/svg/pi-hole.svg'',
      logo_needs_white_background = False\<rparr>"

definition plex_service :: ServiceDefinition where [service_defs]:
  "plex_service =
     \<lparr>def_name = ''Plex Media Server'',
      def_description = ''Media server for streaming personal content'',
      def_category = Media,
      discovery_pattern = AnyOf [
        EndpointP (new_tcp 32400) ''/web/index.html'' ''Plex'' None,
        HeaderP (Some (new_tcp 32400)) ''X-Plex-Protocol'' ''1.0'' (Some (401, 401))],
      is_generic = False,
      logo_url = ''https://cdn.jsdelivr.net/gh/homarr-labs/dashboard-icons/svg/plex.svg'',
      logo_needs_white_background = False\<rparr>"

definition pocket_id_service :: ServiceDefinition where [service_defs]:
  "pocket_id_service =
     \<lparr>def_name = ''Pocket ID'',
      def_description = ''A Simple OIDC provider that uses passkeys for authentication'',
      def_category = IdentityAndAccess,
      discovery_pattern = EndpointP (new_tcp 1411) ''/app.webmanifest'' ''Pocket ID'' None,
      is_generic = False,
      logo_url = ''https://cdn.jsdelivr.net/gh/homarr-labs/dashboard-icons/svg/pocket-id-light.svg'',
      logo_needs_white_background = False\<rparr>"

definition podman_service :: ServiceDefinition where [service_defs]:
  "podman_service =
     \<lparr>def_name = ''Podman'',
      def_description = ''Daemonless container runtime'',
      def_category = ContainerRuntime,
      discovery_pattern = ClientResponse ProbePodman,
      is_generic = False,
      logo_url = ''https://cdn.jsdelivr.net/gh/homarr-labs/dashboard-icons/svg/podman.svg'',
      logo_needs_white_background = False\<rparr>"

definition podman_container_service :: ServiceDefinition where [service_defs]:
  "podman_container_service =
     \<lparr>def_name = ''Podman Container'',
      def_description = ''A generic podman container'',
      def_category = ContainerCategory,
      discovery_pattern = AllOf [
        ContainerVirtualization,
        CustomP podman_container_unclaimed (all_ports \<circ> baseline_params)
        (''No other services with this container'' @ [CHR 0x27] @ ''s ID have been matched'')
        (''A service with this container'' @ [CHR 0x27] @ ''s ID has already been matched'') Low],
      is_generic = True,
      logo_url = [],
      logo_needs_white_background = False\<rparr>"

definition portainer_service :: ServiceDefinition where [service_defs]:
  "portainer_service =
     \<lparr>def_name = ''Portainer'',
      def_description = ''Orchestration platform for Docker, K8s, and Podman'',
      def_category = Orchestrator,
      discovery_pattern = AnyOf [
        EndpointP Https9443 ''/#!/auth'' ''portainer.io'' None,
        EndpointP Http9000 ''/'' ''portainer.io'' None],
      is_generic = False,
      logo_url = ''https://cdn.jsdelivr.net/gh/homarr-labs/dashboard-icons/svg/portainer.svg'',
      logo_needs_white_background = False\<rparr>"

definition postgresql_service :: ServiceDefinition where [service_defs]:
  "postgresql_service =
     \<lparr>def_name = ''PostgreSQL'',
      def_description = ''Open-source relational database'',
      def_category = Database,
      discovery_pattern = PortP PostgreSQL,
      is_generic = True,
      logo_url = ''https://cdn.jsdelivr.net/gh/homarr-labs/dashboard-icons/svg/postgresql.svg'',
      logo_needs_white_background = True\<rparr>"

definition power_dns_service :: ServiceDefinition where [service_defs]:
  "power_dns_service =
     \<lparr>def_name = ''PowerDNS'',
      def_description = ''Authoritative DNS server with API'',
      def_category = DNS,
      discovery_pattern = AllOf [
        PortP DnsUdp,
        PortP DnsTcp,
        PortP Http8081],
      is_generic = False,
      logo_url = ''https://cdn.jsdelivr.net/gh/homarr-labs/dashboard-icons/svg/powerdns.svg'',
      logo_needs_white_background = False\<rparr>"

definition print_server_service :: ServiceDefinition where [service_defs]:
  "print_server_service =
     \<lparr>def_name = ''Print Server'',
      def_description = ''A generic printing service'',
      def_category = Printer,
      discovery_pattern = AnyOf [
        PortP Ipp,
        PortP LdpTcp,
        PortP LdpUdp],
      is_generic = True,
      logo_url = [],
      logo_needs_white_background = False\<rparr>"

definition prometheus_service :: ServiceDefinition where [service_defs]:
  "prometheus_service =
     \<lparr>def_name = ''Prometheus'',
      def_description = ''Time-series monitoring and alerting system'',
      def_category = Monitoring,
      discovery_pattern = AnyOf [
        EndpointP Http ''/metrics'' ''Prometheus'' None,
        EndpointP Http ''/graph'' ''Prometheus'' None],
      is_generic = False,
      logo_url = ''https://cdn.jsdelivr.net/gh/homarr-labs/dashboard-icons/svg/prometheus.svg'',
      logo_needs_white_background = False\<rparr>"

definition prometheus_node_exporter_service :: ServiceDefinition where [service_defs]:
  "prometheus_node_exporter_service =
     \<lparr>def_name = ''Prometheus Node Exporter'',
      def_description = ''Prometheus exporter for hardware and OS metrics'',
      def_category = Monitoring,
      discovery_pattern = EndpointP JetDirect ''/metrics'' ''node_exporter'' None,
      is_generic = False,
      logo_url = ''https://cdn.jsdelivr.net/gh/homarr-labs/dashboard-icons/svg/prometheus.svg'',
      logo_needs_white_background = False\<rparr>"

definition promtail_service :: ServiceDefinition where [service_defs]:
  "promtail_service =
     \<lparr>def_name = ''Promtail'',
      def_description = ''Agent which ships logs to Grafana Loki'',
      def_category = Monitoring,
      discovery_pattern = AnyOf [
        EndpointP (new_tcp 9080) ''/metrics'' ''promtail_build_info'' None,
        EndpointP (new_tcp 9080) ''/targets'' ''Promtail'' None],
      is_generic = False,
      logo_url = ''https://cdn.jsdelivr.net/gh/homarr-labs/dashboard-icons/svg/loki.svg'',
      logo_needs_white_background = False\<rparr>"

definition prowlarr_service :: ServiceDefinition where [service_defs]:
  "prowlarr_service =
     \<lparr>def_name = ''Prowlarr'',
      def_description = ''The Ultimate Indexer Manager.'',
      def_category = Media,
      discovery_pattern = EndpointP (new_tcp 3232) ''/Content/Images/Icons/manifest.json'' ''Prowlarr'' None,
      is_generic = False,
      logo_url = ''https://cdn.jsdelivr.net/gh/homarr-labs/dashboard-icons/svg/prowlarr.svg'',
      logo_needs_white_background = False\<rparr>"

definition proxmox_service :: ServiceDefinition where [service_defs]:
  "proxmox_service =
     \<lparr>def_name = ''Proxmox VE'',
      def_description = ''Open-source virtualization management platform'',
      def_category = Hypervisor,
      discovery_pattern = AnyOf [
        EndpointP (new_tcp 8006) ''/'' ''proxmox'' None,
        PortP (new_tcp 8006)],
      is_generic = False,
      logo_url = ''https://cdn.jsdelivr.net/gh/homarr-labs/dashboard-icons/svg/proxmox.svg'',
      logo_needs_white_background = False\<rparr>"

definition proxmox_backup_server_service :: ServiceDefinition where [service_defs]:
  "proxmox_backup_server_service =
     \<lparr>def_name = ''Proxmox Backup Server'',
      def_description = ''Encrypted, incremental and deduplicated backups for Proxmox VMs, LXCs, and hosts'',
      def_category = Backup,
      discovery_pattern = AnyOf [
        EndpointP (new_tcp 8007) ''/'' ''proxmox-backup-gui'' None,
        PortP (new_tcp 8007)],
      is_generic = False,
      logo_url = ''https://cdn.jsdelivr.net/gh/homarr-labs/dashboard-icons/svg/proxmox.svg'',
      logo_needs_white_background = False\<rparr>"

definition proxmox_datacenter_manager_service :: ServiceDefinition where [service_defs]:
  "proxmox_datacenter_manager_service =
     \<lparr>def_name = ''Proxmox Datacenter Manager'',
      def_description = ''A single pane of glass for managing clustered & non-clustered Proxmox nodes'',
      def_category = Dashboard,
      discovery_pattern = EndpointP Https8443 ''/'' ''pdm-ui_bundle.js'' None,
      is_generic = False,
      logo_url = ''https://cdn.jsdelivr.net/gh/homarr-labs/dashboard-icons/svg/proxmox.svg'',
      logo_needs_white_background = False\<rparr>"

definition pulse_service :: ServiceDefinition where [service_defs]:
  "pulse_service =
     \<lparr>def_name = ''Pulse'',
      def_description = ''Proxmox node/cluster/VM/LXC monitor'',
      def_category = Monitoring,
      discovery_pattern = EndpointP (new_tcp 7655) ''/'' ''Pulse'' None,
      is_generic = False,
      logo_url = ''https://cdn.jsdelivr.net/gh/homarr-labs/dashboard-icons/svg/pulse.svg'',
      logo_needs_white_background = False\<rparr>"

definition definitions_l_p :: "ServiceDefinition list" where
  "definitions_l_p = [
     ldap_service,
     lidarr_service,
     linkstack_service,
     loki_service,
     lubelogger_service,
     mailcow_service,
     mariadb_service,
     mattermost_service,
     me_tube_service,
     mealie_service,
     memos_service,
     mendelson_as2_service,
     mikrotik_service,
     minio_service,
     mongodb_service,
     mqtt_service,
     mssql_server_service,
     mysql_service,
     n8n_service,
     nagios_service,
     nats_service,
     ncpa_agent_service,
     neo4j_service,
     nest_protect_service,
     nest_thermostat_service,
     netbootxyz_service,
     netdata_service,
     next_cloud_service,
     nfs_server_service,
     nginx_proxy_manager_service,
     nomad_service,
     ntfy_service,
     ntp_service,
     nut_service,
     nvidia_gpu_exporter_service,
     ollama_service,
     open_media_vault_service,
     open_ports_service,
     open_webui_service,
     openhab_service,
     openshift_service,
     openspeedtest_service,
     openvpn_service,
     opn_sense_service,
     oracle_db_service,
     overseerr_service,
     owncloud_service,
     paperless_ngx_service,
     peanut_service,
     pf_blocker_ng_service,
     pf_sense_service,
     philips_hue_bridge_service,
     pi_hole_service,
     plex_service,
     pocket_id_service,
     podman_service,
     podman_container_service,
     portainer_service,
     postgresql_service,
     power_dns_service,
     print_server_service,
     prometheus_service,
     prometheus_node_exporter_service,
     promtail_service,
     prowlarr_service,
     proxmox_service,
     proxmox_backup_server_service,
     proxmox_datacenter_manager_service,
     pulse_service]"

end
