(* ===== verification/Definitions_Q_Z.thy ===== *)
theory Definitions_Q_Z
  imports Patterns
begin

text \<open>
  The service definitions of the registry with module names from q to z
  (\<^verbatim>\<open>backend/src/server/services/definitions/\<close>): for each, its name, description,
  category, discovery pattern and logo as the module states them.
\<close>

definition qbittorrent_service :: ServiceDefinition where [service_defs]:
  "qbittorrent_service =
     \<lparr>def_name = ''qBittorrent'',
      def_description = ''Cross-platform open-source BitTorrent client'',
      def_category = Media,
      discovery_pattern = AnyOf [
        EndpointP Http8080 ''/'' ''qBittorrent logo'' None,
        EndpointP (new_tcp 8090) ''/'' ''qBittorrent logo'' None],
      is_generic = False,
      logo_url = ''https://cdn.jsdelivr.net/gh/homarr-labs/dashboard-icons/svg/qbittorrent.svg'',
      logo_needs_white_background = False\<rparr>"

definition qnap_service :: ServiceDefinition where [service_defs]:
  "qnap_service =
     \<lparr>def_name = ''QNAP NAS'',
      def_description = ''QNAP network attached storage system'',
      def_category = StorageCategory,
      discovery_pattern = AnyOf [
        AllOf [
          PortP Ftp,
          AnyOf [
            EndpointP Http ''/'' ''QNAP'' None,
            EndpointP Http8080 ''/'' ''QNAP'' None]],
        HeaderP (Some Https) ''server'' ''http server'' None],
      is_generic = False,
      logo_url = ''https://cdn.jsdelivr.net/gh/homarr-labs/dashboard-icons/svg/qnap.svg'',
      logo_needs_white_background = False\<rparr>"

definition rabbitmq_service :: ServiceDefinition where [service_defs]:
  "rabbitmq_service =
     \<lparr>def_name = ''RabbitMQ'',
      def_description = ''Message broker'',
      def_category = MessageQueue,
      discovery_pattern = EndpointP RabbitMqMgmt ''/'' ''rabbitmq'' None,
      is_generic = True,
      logo_url = ''https://cdn.jsdelivr.net/gh/homarr-labs/dashboard-icons/svg/rabbitmq.svg'',
      logo_needs_white_background = False\<rparr>"

definition radarr_service :: ServiceDefinition where [service_defs]:
  "radarr_service =
     \<lparr>def_name = ''Radarr'',
      def_description = ''A movie collection manager for Usenet and BitTorrent users.'',
      def_category = Media,
      discovery_pattern = AnyOf [
        EndpointP (new_tcp 7878) ''/Content/manifest.json'' ''Radarr'' None,
        EndpointP (new_tcp 9898) ''/Content/manifest.json'' ''Radarr'' None],
      is_generic = False,
      logo_url = ''https://cdn.jsdelivr.net/gh/homarr-labs/dashboard-icons/svg/radarr.svg'',
      logo_needs_white_background = False\<rparr>"

definition radicale_service :: ServiceDefinition where [service_defs]:
  "radicale_service =
     \<lparr>def_name = ''Radicale'',
      def_description = ''Free and Open-Source CalDAV and CardDAV Server'',
      def_category = Office,
      discovery_pattern = EndpointP (new_tcp 5232) ''/.web/'' ''Radicale Web Interface'' None,
      is_generic = False,
      logo_url = ''https://cdn.jsdelivr.net/gh/homarr-labs/dashboard-icons/svg/radicale.svg'',
      logo_needs_white_background = False\<rparr>"

definition rancher_service :: ServiceDefinition where [service_defs]:
  "rancher_service =
     \<lparr>def_name = ''Rancher'',
      def_description = ''Kubernetes management'',
      def_category = Orchestrator,
      discovery_pattern = EndpointP Http ''/v3'' ''rancher'' None,
      is_generic = False,
      logo_url = ''https://cdn.jsdelivr.net/gh/homarr-labs/dashboard-icons/svg/rancher.svg'',
      logo_needs_white_background = False\<rparr>"

definition rdp_service :: ServiceDefinition where [service_defs]:
  "rdp_service =
     \<lparr>def_name = ''Remote Desktop'',
      def_description = ''Remote Desktop Protocol (RDP)'',
      def_category = RemoteAccess,
      discovery_pattern = PortP Rdp,
      is_generic = True,
      logo_url = [],
      logo_needs_white_background = False\<rparr>"

definition redis_db_service :: ServiceDefinition where [service_defs]:
  "redis_db_service =
     \<lparr>def_name = ''Redis'',
      def_description = ''In-memory data store and cache'',
      def_category = Database,
      discovery_pattern = PortP Redis,
      is_generic = True,
      logo_url = ''https://cdn.jsdelivr.net/gh/homarr-labs/dashboard-icons/svg/redis.svg'',
      logo_needs_white_background = False\<rparr>"

definition restic_service :: ServiceDefinition where [service_defs]:
  "restic_service =
     \<lparr>def_name = ''Restic'',
      def_description = ''Fast and secure backup program'',
      def_category = Backup,
      discovery_pattern = AllOf [
        PortP (new_tcp 8000),
        EndpointP Http ''/'' ''restic'' None],
      is_generic = False,
      logo_url = ''https://cdn.jsdelivr.net/gh/homarr-labs/dashboard-icons/png/restic.png'',
      logo_needs_white_background = False\<rparr>"

definition ring_doorbell_service :: ServiceDefinition where [service_defs]:
  "ring_doorbell_service =
     \<lparr>def_name = ''Ring Doorbell'',
      def_description = ''Ring video doorbell or security camera'',
      def_category = IoTCategory,
      discovery_pattern = AllOf [
        MacVendor vendor_amazon,
        AnyOf [
          PortP (new_tcp 8557),
          PortP (new_tcp 9998),
          PortP (new_tcp 19302),
          PortP (new_tcp 9999)]],
      is_generic = False,
      logo_url = ''https://simpleicons.org/icons/ring.svg'',
      logo_needs_white_background = True\<rparr>"

definition roborock_vacuum_service :: ServiceDefinition where [service_defs]:
  "roborock_vacuum_service =
     \<lparr>def_name = ''Roborock Vacuum'',
      def_description = ''Roborock robot vacuum cleaner'',
      def_category = IoTCategory,
      discovery_pattern = AllOf [
        MacVendor vendor_roborock,
        PortP (new_tcp 58867)],
      is_generic = False,
      logo_url = ''https://cdn.prod.website-files.com/6720fa7290112f642d0a83ac/674de5c03f0d05e27b16b2cf_roborock_logo.webp'',
      logo_needs_white_background = False\<rparr>"

definition rocket_chat_service :: ServiceDefinition where [service_defs]:
  "rocket_chat_service =
     \<lparr>def_name = ''Rocket.Chat'',
      def_description = ''Team communication platform'',
      def_category = Messaging,
      discovery_pattern = EndpointP Http3000 ''/api/info'' ''rocket'' None,
      is_generic = False,
      logo_url = ''https://cdn.jsdelivr.net/gh/homarr-labs/dashboard-icons/svg/rocket-chat.svg'',
      logo_needs_white_background = False\<rparr>"

definition roku_service :: ServiceDefinition where [service_defs]:
  "roku_service =
     \<lparr>def_name = ''Roku Media Player'',
      def_description = ''Roku streaming device or TV'',
      def_category = IoTCategory,
      discovery_pattern = AllOf [
        MacVendor vendor_roku,
        PortP (new_tcp 8060)],
      is_generic = False,
      logo_url = ''https://simpleicons.org/icons/roku.svg'',
      logo_needs_white_background = True\<rparr>"

definition rustdesk_service :: ServiceDefinition where [service_defs]:
  "rustdesk_service =
     \<lparr>def_name = ''RustDesk'',
      def_description = ''Self-hosted remote desktop server'',
      def_category = RemoteAccess,
      discovery_pattern = EndpointP (new_tcp 21114) ''/'' ''RustDesk API Admin'' None,
      is_generic = False,
      logo_url = ''https://cdn.jsdelivr.net/gh/homarr-labs/dashboard-icons/svg/rustdesk.svg'',
      logo_needs_white_background = False\<rparr>"

definition sabnzbd_service :: ServiceDefinition where [service_defs]:
  "sabnzbd_service =
     \<lparr>def_name = ''SABnzbd'',
      def_description = ''A NZB Files Downloader.'',
      def_category = Media,
      discovery_pattern = EndpointP Http8080 ''/Content/manifest.json'' ''SABnzbd'' None,
      is_generic = False,
      logo_url = ''https://cdn.jsdelivr.net/gh/homarr-labs/dashboard-icons/svg/sabnzbd.svg'',
      logo_needs_white_background = False\<rparr>"

definition saltmaster_service :: ServiceDefinition where [service_defs]:
  "saltmaster_service =
     \<lparr>def_name = ''Salt Master'',
      def_description = ''A Salt master server acts as a central control bus for the clients, which are called minions.'',
      def_category = Development,
      discovery_pattern = AllOf [
        PortP (new_tcp 4505),
        PortP (new_tcp 4506),
        NotP (PortP (new_tcp 8022))],
      is_generic = False,
      logo_url = ''https://cdn.jsdelivr.net/gh/homarr-labs/dashboard-icons/svg/salt-project.svg'',
      logo_needs_white_background = False\<rparr>"

definition saltproxy_service :: ServiceDefinition where [service_defs]:
  "saltproxy_service =
     \<lparr>def_name = ''Salt Proxy'',
      def_description = ''A Salt Proxy server acts as a proxy between the Salt Master and the minions.'',
      def_category = Development,
      discovery_pattern = AllOf [
        PortP (new_tcp 4505),
        PortP (new_tcp 4506),
        PortP (new_tcp 8022)],
      is_generic = False,
      logo_url = ''https://cdn.jsdelivr.net/gh/homarr-labs/dashboard-icons/svg/salt-project.svg'',
      logo_needs_white_background = False\<rparr>"

definition samba_service :: ServiceDefinition where [service_defs]:
  "samba_service =
     \<lparr>def_name = ''Samba'',
      def_description = ''Generic SMB file server'',
      def_category = StorageCategory,
      discovery_pattern = PortP Samba,
      is_generic = True,
      logo_url = [],
      logo_needs_white_background = False\<rparr>"

definition scanopy_daemon_service :: ServiceDefinition where [service_defs]:
  "scanopy_daemon_service =
     \<lparr>def_name = ''Scanopy Daemon'',
      def_description = ''Automatically discover and visually document network infrastructure'',
      def_category = Scanopy,
      discovery_pattern = EndpointP (new_tcp 60073) ''/api/health'' ''scanopy'' None,
      is_generic = False,
      logo_url = ''https://cdn.jsdelivr.net/gh/scanopy/scanopy@main/media/logo.png'',
      logo_needs_white_background = False\<rparr>"

definition scanopy_server_service :: ServiceDefinition where [service_defs]:
  "scanopy_server_service =
     \<lparr>def_name = ''Scanopy Server'',
      def_description = ''Automatically discover and visually document network infrastructure'',
      def_category = Scanopy,
      discovery_pattern = EndpointP (new_tcp 60072) ''/api/health'' ''scanopy'' None,
      is_generic = False,
      logo_url = ''https://cdn.jsdelivr.net/gh/scanopy/scanopy@main/media/logo.png'',
      logo_needs_white_background = False\<rparr>"

definition seafile_service :: ServiceDefinition where [service_defs]:
  "seafile_service =
     \<lparr>def_name = ''Seafile'',
      def_description = ''File hosting platform'',
      def_category = Office,
      discovery_pattern = EndpointP (new_tcp 8000) ''/api2/ping'' ''seafile'' None,
      is_generic = False,
      logo_url = ''https://cdn.jsdelivr.net/gh/homarr-labs/dashboard-icons/svg/seafile.svg'',
      logo_needs_white_background = False\<rparr>"

definition sensu_service :: ServiceDefinition where [service_defs]:
  "sensu_service =
     \<lparr>def_name = ''Sensu'',
      def_description = ''Monitoring framework'',
      def_category = Monitoring,
      discovery_pattern = EndpointP (new_tcp 4567) ''/health'' ''sensu'' None,
      is_generic = True,
      logo_url = ''https://cdn.jsdelivr.net/gh/homarr-labs/dashboard-icons/svg/sensu.svg'',
      logo_needs_white_background = False\<rparr>"

definition sentry_service :: ServiceDefinition where [service_defs]:
  "sentry_service =
     \<lparr>def_name = ''Sentry'',
      def_description = ''Error tracking platform'',
      def_category = Monitoring,
      discovery_pattern = EndpointP Http9000 ''/api/0/'' ''sentry'' None,
      is_generic = False,
      logo_url = ''https://cdn.jsdelivr.net/gh/homarr-labs/dashboard-icons/svg/sentry.svg'',
      logo_needs_white_background = True\<rparr>"

definition serviio_service :: ServiceDefinition where [service_defs]:
  "serviio_service =
     \<lparr>def_name = ''Serviio'',
      def_description = ''DLNA media streaming server'',
      def_category = Media,
      discovery_pattern = EndpointP (new_tcp 23423) ''/rest/application'' ''<serviioId>'' None,
      is_generic = False,
      logo_url = ''https://cdn.jsdelivr.net/gh/homarr-labs/dashboard-icons/svg/serviio.svg'',
      logo_needs_white_background = False\<rparr>"

definition sip_server_service :: ServiceDefinition where [service_defs]:
  "sip_server_service =
     \<lparr>def_name = ''SIP Server'',
      def_description = ''Session initiation protocol'',
      def_category = Telephony,
      discovery_pattern = AnyOf [
        PortP Sip,
        PortP SipTls],
      is_generic = True,
      logo_url = [],
      logo_needs_white_background = False\<rparr>"

definition slskd_service :: ServiceDefinition where [service_defs]:
  "slskd_service =
     \<lparr>def_name = ''Slskd'',
      def_description = ''A modern client-server application for the Soulseek file-sharing network'',
      def_category = Media,
      discovery_pattern = AllOf [
        EndpointP (new_tcp 5030) ''/'' ''slskd'' None,
        EndpointP (new_tcp 5030) ''/api/v0/session/enabled'' ''true'' None],
      is_generic = False,
      logo_url = ''https://cdn.jsdelivr.net/gh/homarr-labs/dashboard-icons/svg/slskd.svg'',
      logo_needs_white_background = False\<rparr>"

definition snmp_service :: ServiceDefinition where [service_defs]:
  "snmp_service =
     \<lparr>def_name = ''SNMP'',
      def_description = ''Simple Network Management Protocol'',
      def_category = NetworkCore,
      discovery_pattern = ClientResponse ProbeSnmp,
      is_generic = True,
      logo_url = [],
      logo_needs_white_background = False\<rparr>"

definition sonarr_service :: ServiceDefinition where [service_defs]:
  "sonarr_service =
     \<lparr>def_name = ''Sonarr'',
      def_description = ''A TV collection manager for Usenet and BitTorrent users.'',
      def_category = Media,
      discovery_pattern = EndpointP (new_tcp 8989) ''/Content/manifest.json'' ''Sonarr'' None,
      is_generic = False,
      logo_url = ''https://cdn.jsdelivr.net/gh/homarr-labs/dashboard-icons/svg/sonarr.svg'',
      logo_needs_white_background = False\<rparr>"

definition sonos_speaker_service :: ServiceDefinition where [service_defs]:
  "sonos_speaker_service =
     \<lparr>def_name = ''Sonos Speaker'',
      def_description = ''Sonos wireless speaker system'',
      def_category = IoTCategory,
      discovery_pattern = AllOf [
        MacVendor vendor_sonos,
        AnyOf [
          PortP Samba,
          PortP (new_tcp 3445),
          PortP (new_tcp 1400),
          PortP (new_tcp 1410),
          PortP (new_tcp 1843),
          PortP (new_tcp 3400),
          PortP (new_tcp 3401),
          PortP (new_tcp 3500)]],
      is_generic = False,
      logo_url = ''https://simpleicons.org/icons/sonos.svg'',
      logo_needs_white_background = True\<rparr>"

definition spinnaker_service :: ServiceDefinition where [service_defs]:
  "spinnaker_service =
     \<lparr>def_name = ''Spinnaker'',
      def_description = ''Multi-cloud CD platform'',
      def_category = Development,
      discovery_pattern = NoneP,
      is_generic = False,
      logo_url = ''https://simpleicons.org/icons/spinnaker.svg'',
      logo_needs_white_background = True\<rparr>"

definition splunk_service :: ServiceDefinition where [service_defs]:
  "splunk_service =
     \<lparr>def_name = ''Splunk'',
      def_description = ''Data analytics platform'',
      def_category = Monitoring,
      discovery_pattern = EndpointP (new_tcp 8000) ''/'' ''splunk'' None,
      is_generic = False,
      logo_url = ''https://cdn.jsdelivr.net/gh/homarr-labs/dashboard-icons/svg/splunk.svg'',
      logo_needs_white_background = False\<rparr>"

definition ssh_service :: ServiceDefinition where [service_defs]:
  "ssh_service =
     \<lparr>def_name = ''SSH'',
      def_description = ''Secure Shell remote access'',
      def_category = RemoteAccess,
      discovery_pattern = PortP Ssh,
      is_generic = True,
      logo_url = [],
      logo_needs_white_background = False\<rparr>"

definition strongswan_service :: ServiceDefinition where [service_defs]:
  "strongswan_service =
     \<lparr>def_name = ''StrongSwan'',
      def_description = ''Open-source IPsec VPN daemon (IKE / NAT-T)'',
      def_category = VPN,
      discovery_pattern = AllOf [
        PortP (new_udp 500),
        PortP (new_udp 4500)],
      is_generic = False,
      logo_url = [],
      logo_needs_white_background = False\<rparr>"

definition switch_service :: ServiceDefinition where [service_defs]:
  "switch_service =
     \<lparr>def_name = ''Switch'',
      def_description = ''Generic network switch for local area networking'',
      def_category = NetworkCore,
      discovery_pattern = AllOf [
        NotP (IsGateway),
        AllOf [
          PortP Http,
          PortP Telnet]],
      is_generic = True,
      logo_url = [],
      logo_needs_white_background = False\<rparr>"

definition syncthing_service :: ServiceDefinition where [service_defs]:
  "syncthing_service =
     \<lparr>def_name = ''Syncthing'',
      def_description = ''Continuous file synchronization service'',
      def_category = Backup,
      discovery_pattern = AllOf [
        EndpointP Http ''/'' ''Syncthing'' None,
        PortP (new_tcp 22000)],
      is_generic = False,
      logo_url = ''https://cdn.jsdelivr.net/gh/homarr-labs/dashboard-icons/svg/syncthing.svg'',
      logo_needs_white_background = False\<rparr>"

definition synology_service :: ServiceDefinition where [service_defs]:
  "synology_service =
     \<lparr>def_name = ''Synology DSM'',
      def_description = ''Synology DiskStation Manager NAS system'',
      def_category = StorageCategory,
      discovery_pattern = AnyOf [
        AllOf [
          EndpointP Http ''/'' ''synology'' None,
          PortP Ftp],
        EndpointP Http ''/'' ''Synology Web Station'' None],
      is_generic = False,
      logo_url = ''https://cdn.jsdelivr.net/gh/homarr-labs/dashboard-icons/svg/synology.svg'',
      logo_needs_white_background = False\<rparr>"

definition tasmota_service :: ServiceDefinition where [service_defs]:
  "tasmota_service =
     \<lparr>def_name = ''Tasmota'',
      def_description = ''ESP device firmware'',
      def_category = IoTCategory,
      discovery_pattern = NoneP,
      is_generic = False,
      logo_url = ''https://cdn.jsdelivr.net/gh/homarr-labs/dashboard-icons/svg/tasmota.svg'',
      logo_needs_white_background = True\<rparr>"

definition tautulli_service :: ServiceDefinition where [service_defs]:
  "tautulli_service =
     \<lparr>def_name = ''Tautulli'',
      def_description = ''Monitor, view analytics, and receive notifications about your Plex Media Server.'',
      def_category = Media,
      discovery_pattern = EndpointP (new_tcp 8181) ''/'' ''Tautulli'' None,
      is_generic = False,
      logo_url = ''https://cdn.jsdelivr.net/gh/homarr-labs/dashboard-icons/svg/tautulli.svg'',
      logo_needs_white_background = False\<rparr>"

definition teamcity_service :: ServiceDefinition where [service_defs]:
  "teamcity_service =
     \<lparr>def_name = ''TeamCity'',
      def_description = ''CI/CD server'',
      def_category = Development,
      discovery_pattern = EndpointP (new_tcp 8111) ''/'' ''teamcity'' None,
      is_generic = False,
      logo_url = ''https://cdn.jsdelivr.net/gh/homarr-labs/dashboard-icons/svg/teamcity-light.svg'',
      logo_needs_white_background = False\<rparr>"

definition telnet_service :: ServiceDefinition where [service_defs]:
  "telnet_service =
     \<lparr>def_name = ''Telnet'',
      def_description = ''Telnet remote access'',
      def_category = RemoteAccess,
      discovery_pattern = PortP Telnet,
      is_generic = True,
      logo_url = [],
      logo_needs_white_background = False\<rparr>"

definition termix_service :: ServiceDefinition where [service_defs]:
  "termix_service =
     \<lparr>def_name = ''Termix'',
      def_description = ''Web-based server management with SSH terminal, tunneling, and file editing'',
      def_category = RemoteAccess,
      discovery_pattern = AnyOf [
        EndpointP Http ''/'' ''<title>Termix</title>'' None,
        EndpointP Https ''/'' ''<title>Termix</title>'' None],
      is_generic = False,
      logo_url = ''https://cdn.jsdelivr.net/gh/homarr-labs/dashboard-icons/svg/termix.svg'',
      logo_needs_white_background = False\<rparr>"

definition tomcat_service :: ServiceDefinition where [service_defs]:
  "tomcat_service =
     \<lparr>def_name = ''Tomcat'',
      def_description = ''Java servlet container'',
      def_category = Development,
      discovery_pattern = EndpointP Http8080 ''/'' ''apache tomcat'' None,
      is_generic = False,
      logo_url = ''https://cdn.jsdelivr.net/gh/homarr-labs/dashboard-icons/svg/apache-tomcat.svg'',
      logo_needs_white_background = False\<rparr>"

definition tp_link_eap_service :: ServiceDefinition where [service_defs]:
  "tp_link_eap_service =
     \<lparr>def_name = ''TP-Link EAP'',
      def_description = ''TP-Link EAP wireless access point'',
      def_category = NetworkAccess,
      discovery_pattern = AllOf [
        MacVendor vendor_tplink,
        EndpointP Http ''/'' ''tp-link'' None],
      is_generic = False,
      logo_url = ''https://cdn.jsdelivr.net/gh/homarr-labs/dashboard-icons/svg/tp-link.svg'',
      logo_needs_white_background = False\<rparr>"

definition traefik_service :: ServiceDefinition where [service_defs]:
  "traefik_service =
     \<lparr>def_name = ''Traefik'',
      def_description = ''Modern reverse proxy and load balancer'',
      def_category = ReverseProxy,
      discovery_pattern = EndpointP Http ''/dashboard'' ''traefik'' None,
      is_generic = False,
      logo_url = ''https://cdn.jsdelivr.net/gh/homarr-labs/dashboard-icons/svg/traefik.svg'',
      logo_needs_white_background = False\<rparr>"

definition true_nas_service :: ServiceDefinition where [service_defs]:
  "true_nas_service =
     \<lparr>def_name = ''TrueNAS'',
      def_description = ''Open-source network attached storage system'',
      def_category = StorageCategory,
      discovery_pattern = AllOf [
        PortP Samba,
        EndpointP Http ''/'' ''TrueNAS'' None],
      is_generic = False,
      logo_url = ''https://cdn.jsdelivr.net/gh/homarr-labs/dashboard-icons/svg/truenas.svg'',
      logo_needs_white_background = False\<rparr>"

definition tuyasmart_service :: ServiceDefinition where [service_defs]:
  "tuyasmart_service =
     \<lparr>def_name = ''Tuya Smart'',
      def_description = ''Tuya Smart IoT Devices'',
      def_category = IoTCategory,
      discovery_pattern = AllOf [
        MacVendor vendor_tuyasmart,
        PortP (new_tcp 6668)],
      is_generic = False,
      logo_url = ''https://cdn.jsdelivr.net/gh/homarr-labs/dashboard-icons/svg/tuya-smart-inc.svg'',
      logo_needs_white_background = False\<rparr>"

definition tyk_service :: ServiceDefinition where [service_defs]:
  "tyk_service =
     \<lparr>def_name = ''Tyk'',
      def_description = ''API gateway'',
      def_category = ReverseProxy,
      discovery_pattern = EndpointP Http8080 ''/hello'' ''tyk'' (Some (200, 300)),
      is_generic = False,
      logo_url = ''https://www.vectorlogo.zone/logos/tyk/tyk-icon.svg'',
      logo_needs_white_background = False\<rparr>"

definition ubiquiti_discovery_service :: ServiceDefinition where [service_defs]:
  "ubiquiti_discovery_service =
     \<lparr>def_name = ''Ubiquiti Discovery'',
      def_description = ''Ubiquiti device discovery service'',
      def_category = NetworkAccess,
      discovery_pattern = AllOf [
        MacVendor vendor_ubiquiti,
        PortP (new_udp 10001)],
      is_generic = False,
      logo_url = ''https://cdn.jsdelivr.net/gh/homarr-labs/dashboard-icons/svg/ubiquiti.svg'',
      logo_needs_white_background = False\<rparr>"

definition unbound_service :: ServiceDefinition where [service_defs]:
  "unbound_service =
     \<lparr>def_name = ''Unbound DNS'',
      def_description = ''Recursive DNS resolver with control ip_address'',
      def_category = DNS,
      discovery_pattern = AllOf [
        PortP DnsUdp,
        PortP (new_tcp 8953)],
      is_generic = False,
      logo_url = ''https://cdn.jsdelivr.net/gh/homarr-labs/dashboard-icons/svg/unbound.svg'',
      logo_needs_white_background = False\<rparr>"

definition unifi_access_point_service :: ServiceDefinition where [service_defs]:
  "unifi_access_point_service =
     \<lparr>def_name = ''Unifi Access Point'',
      def_description = ''Ubiquiti UniFi wireless access point'',
      def_category = NetworkAccess,
      discovery_pattern = AllOf [
        MacVendor vendor_ubiquiti,
        AnyOf [
          EndpointP Http ''/'' ''Unifi'' None,
          ManagedDeviceType unifidevicetype_access_point]],
      is_generic = False,
      logo_url = ''https://cdn.jsdelivr.net/gh/homarr-labs/dashboard-icons/svg/unifi.svg'',
      logo_needs_white_background = False\<rparr>"

definition unifi_controller_service :: ServiceDefinition where [service_defs]:
  "unifi_controller_service =
     \<lparr>def_name = ''UniFi Controller'',
      def_description = ''Ubiquiti UniFi network controller'',
      def_category = NetworkAccess,
      discovery_pattern = AnyOf [
        EndpointP Https8443 ''/manage'' ''UniFi'' None,
        ClientResponse ProbeUnifiController],
      is_generic = False,
      logo_url = ''https://cdn.jsdelivr.net/gh/homarr-labs/dashboard-icons/svg/unifi.svg'',
      logo_needs_white_background = False\<rparr>"

definition unifi_gateway_service :: ServiceDefinition where [service_defs]:
  "unifi_gateway_service =
     \<lparr>def_name = ''UniFi Gateway'',
      def_description = ''Ubiquiti UniFi security gateway or Dream Machine'',
      def_category = NetworkCore,
      discovery_pattern = AllOf [
        MacVendor vendor_ubiquiti,
        AnyOf [
          ManagedDeviceType unifidevicetype_gateway,
          ManagedDeviceType unifidevicetype_dream_machine]],
      is_generic = False,
      logo_url = ''https://cdn.jsdelivr.net/gh/homarr-labs/dashboard-icons/svg/unifi.svg'',
      logo_needs_white_background = False\<rparr>"

definition unifi_switch_service :: ServiceDefinition where [service_defs]:
  "unifi_switch_service =
     \<lparr>def_name = ''UniFi Switch'',
      def_description = ''Ubiquiti UniFi managed switch'',
      def_category = NetworkCore,
      discovery_pattern = AllOf [
        MacVendor vendor_ubiquiti,
        ManagedDeviceType unifidevicetype_switch],
      is_generic = False,
      logo_url = ''https://cdn.jsdelivr.net/gh/homarr-labs/dashboard-icons/svg/unifi.svg'',
      logo_needs_white_background = False\<rparr>"

definition unimus_service :: ServiceDefinition where [service_defs]:
  "unimus_service =
     \<lparr>def_name = ''Unimus'',
      def_description = ''Network device configuration backup and change management'',
      def_category = Backup,
      discovery_pattern = EndpointP (new_tcp 8085) ''/'' ''<title>Unimus</title>'' None,
      is_generic = False,
      logo_url = ''https://cdn.jsdelivr.net/gh/homarr-labs/dashboard-icons/svg/unimus.svg'',
      logo_needs_white_background = False\<rparr>"

definition uptime_kuma_service :: ServiceDefinition where [service_defs]:
  "uptime_kuma_service =
     \<lparr>def_name = ''UptimeKuma'',
      def_description = ''Self-hosted uptime monitoring tool'',
      def_category = Monitoring,
      discovery_pattern = EndpointP Http ''/'' ''Uptime Kuma'' None,
      is_generic = False,
      logo_url = ''https://cdn.jsdelivr.net/gh/homarr-labs/dashboard-icons/svg/uptime-kuma.svg'',
      logo_needs_white_background = False\<rparr>"

definition vault_service :: ServiceDefinition where [service_defs]:
  "vault_service =
     \<lparr>def_name = ''Vault'',
      def_description = ''Secrets management'',
      def_category = IdentityAndAccess,
      discovery_pattern = EndpointP (new_tcp 8200) ''/v1/sys/health'' ''vault'' None,
      is_generic = False,
      logo_url = ''https://cdn.jsdelivr.net/gh/homarr-labs/dashboard-icons/svg/hashicorp-vault.svg'',
      logo_needs_white_background = False\<rparr>"

definition vaultwarden_service :: ServiceDefinition where [service_defs]:
  "vaultwarden_service =
     \<lparr>def_name = ''Vaultwarden'',
      def_description = ''Self-hosted Bitwarden-compatible server, written in Rust'',
      def_category = IdentityAndAccess,
      discovery_pattern = EndpointP (new_tcp 8000) ''/manifest.json'' ''Vaultwarden Web'' None,
      is_generic = False,
      logo_url = ''https://cdn.jsdelivr.net/gh/homarr-labs/dashboard-icons/svg/vaultwarden.svg'',
      logo_needs_white_background = True\<rparr>"

definition vcenter_service :: ServiceDefinition where [service_defs]:
  "vcenter_service =
     \<lparr>def_name = ''vCenter'',
      def_description = ''VMware vCenter Server virtualization management platform'',
      def_category = Hypervisor,
      discovery_pattern = EndpointP Https ''/'' ''VMware vCenter'' None,
      is_generic = False,
      logo_url = ''https://cdn.jsdelivr.net/gh/homarr-labs/dashboard-icons/svg/vmware.svg'',
      logo_needs_white_background = False\<rparr>"

definition veeam_service :: ServiceDefinition where [service_defs]:
  "veeam_service =
     \<lparr>def_name = ''Veeam'',
      def_description = ''Backup and replication'',
      def_category = Backup,
      discovery_pattern = PortP (new_tcp 9392),
      is_generic = False,
      logo_url = ''https://cdn.jsdelivr.net/gh/homarr-labs/dashboard-icons/svg/veeam.svg'',
      logo_needs_white_background = False\<rparr>"

definition wazuh_service :: ServiceDefinition where [service_defs]:
  "wazuh_service =
     \<lparr>def_name = ''Wazuh'',
      def_description = ''Security platform'',
      def_category = Monitoring,
      discovery_pattern = EndpointP (new_tcp 55000) ''/'' ''wazuh'' None,
      is_generic = False,
      logo_url = ''https://cdn.jsdelivr.net/gh/homarr-labs/dashboard-icons/svg/wazuh.svg'',
      logo_needs_white_background = False\<rparr>"

definition web_service_service :: ServiceDefinition where [service_defs]:
  "web_service_service =
     \<lparr>def_name = ''Web Service'',
      def_description = ''A generic web service'',
      def_category = UnknownCategory,
      discovery_pattern = NoneP,
      is_generic = False,
      logo_url = [],
      logo_needs_white_background = False\<rparr>"

definition wg_dashboard_service :: ServiceDefinition where [service_defs]:
  "wg_dashboard_service =
     \<lparr>def_name = ''WGDashboard'',
      def_description = ''Wireguard dashboard for visualizing and managing wireguard clients and server'',
      def_category = Dashboard,
      discovery_pattern = AllOf [
        PortP (new_tcp 10086),
        NotP (SubnetIsType VpnTunnel)],
      is_generic = False,
      logo_url = ''https://cdn.jsdelivr.net/gh/homarr-labs/dashboard-icons/svg/wireguard.svg'',
      logo_needs_white_background = False\<rparr>"

definition wireguard_service :: ServiceDefinition where [service_defs]:
  "wireguard_service =
     \<lparr>def_name = ''WireGuard'',
      def_description = ''WireGuard VPN'',
      def_category = VPN,
      discovery_pattern = PortP Wireguard,
      is_generic = True,
      logo_url = ''https://cdn.jsdelivr.net/gh/homarr-labs/dashboard-icons/svg/wireguard.svg'',
      logo_needs_white_background = False\<rparr>"

definition wiz_service :: ServiceDefinition where [service_defs]:
  "wiz_service =
     \<lparr>def_name = ''Wiz'',
      def_description = ''Wiz IoT Devices'',
      def_category = IoTCategory,
      discovery_pattern = MacVendor vendor_wiz,
      is_generic = False,
      logo_url = ''https://cdn.jsdelivr.net/gh/homarr-labs/dashboard-icons/svg/wiz.svg'',
      logo_needs_white_background = False\<rparr>"

definition wizarr_service :: ServiceDefinition where [service_defs]:
  "wizarr_service =
     \<lparr>def_name = ''Wizarr'',
      def_description = ''User invitation and management system for Jellyfin, Plex, Emby etc'',
      def_category = Media,
      discovery_pattern = EndpointP (new_tcp 5690) ''/static/manifest.json'' ''Wizarr'' None,
      is_generic = False,
      logo_url = ''https://cdn.jsdelivr.net/gh/homarr-labs/dashboard-icons/svg/wizarr.svg'',
      logo_needs_white_background = False\<rparr>"

definition wordpress_service :: ServiceDefinition where [service_defs]:
  "wordpress_service =
     \<lparr>def_name = ''WordPress'',
      def_description = ''Content management system'',
      def_category = Publishing,
      discovery_pattern = EndpointP Http ''/'' ''wp-content'' None,
      is_generic = False,
      logo_url = ''https://cdn.jsdelivr.net/gh/homarr-labs/dashboard-icons/svg/wordpress.svg'',
      logo_needs_white_background = False\<rparr>"

definition workstation_service :: ServiceDefinition where [service_defs]:
  "workstation_service =
     \<lparr>def_name = ''Workstation'',
      def_description = ''Desktop computer for productivity work'',
      def_category = Workstation,
      discovery_pattern = AllOf [
        PortP Rdp,
        PortP Samba],
      is_generic = True,
      logo_url = [],
      logo_needs_white_background = False\<rparr>"

definition zabbix_service :: ServiceDefinition where [service_defs]:
  "zabbix_service =
     \<lparr>def_name = ''Zabbix'',
      def_description = ''Enterprise monitoring solution'',
      def_category = Monitoring,
      discovery_pattern = EndpointP Http ''/zabbix'' ''zabbix'' None,
      is_generic = False,
      logo_url = ''https://cdn.jsdelivr.net/gh/homarr-labs/dashboard-icons/svg/zabbix.svg'',
      logo_needs_white_background = False\<rparr>"

definition zabbix_agent_service :: ServiceDefinition where [service_defs]:
  "zabbix_agent_service =
     \<lparr>def_name = ''Zabbix Agent'',
      def_description = ''Monitoring agent for Zabbix server'',
      def_category = Monitoring,
      discovery_pattern = PortP (new_tcp 10050),
      is_generic = False,
      logo_url = ''https://cdn.jsdelivr.net/gh/homarr-labs/dashboard-icons/svg/zabbix.svg'',
      logo_needs_white_background = False\<rparr>"

definition zigbee2mqtt_service :: ServiceDefinition where [service_defs]:
  "zigbee2mqtt_service =
     \<lparr>def_name = ''Zigbee2MQTT'',
      def_description = ''Zigbee to MQTT bridge'',
      def_category = HomeAutomation,
      discovery_pattern = EndpointP Http8080 ''/'' ''Zigbee2MQTT WindFront'' None,
      is_generic = False,
      logo_url = ''https://cdn.jsdelivr.net/gh/homarr-labs/dashboard-icons/svg/zigbee2mqtt.svg'',
      logo_needs_white_background = False\<rparr>"

definition zipkin_service :: ServiceDefinition where [service_defs]:
  "zipkin_service =
     \<lparr>def_name = ''Zipkin'',
      def_description = ''Distributed tracing system'',
      def_category = Monitoring,
      discovery_pattern = EndpointP (new_tcp 9411) ''/api/v2/services'' '''' None,
      is_generic = False,
      logo_url = [],
      logo_needs_white_background = False\<rparr>"

definition zwave_js_service :: ServiceDefinition where [service_defs]:
  "zwave_js_service =
     \<lparr>def_name = ''Z-Wave JS'',
      def_description = ''Z-Wave controller server'',
      def_category = HomeAutomation,
      discovery_pattern = EndpointP (new_tcp 8091) ''/health'' '''' None,
      is_generic = True,
      logo_url = ''https://cdn.jsdelivr.net/gh/homarr-labs/dashboard-icons/svg/z-wave-js-ui.svg'',
      logo_needs_white_background = False\<rparr>"

definition definitions_q_z :: "ServiceDefinition list" where
  "definitions_q_z = [
     qbittorrent_service,
     qnap_service,
     rabbitmq_service,
     radarr_service,
     radicale_service,
     rancher_service,
     rdp_service,
     redis_db_service,
     restic_service,
     ring_doorbell_service,
     roborock_vacuum_service,
     rocket_chat_service,
     roku_service,
     rustdesk_service,
     sabnzbd_service,
     saltmaster_service,
     saltproxy_service,
     samba_service,
     scanopy_daemon_service,
     scanopy_server_service,
     seafile_service,
     sensu_service,
     sentry_service,
     serviio_service,
     sip_server_service,
     slskd_service,
     snmp_service,
     sonarr_service,
     sonos_speaker_service,
     spinnaker_service,
     splunk_service,
     ssh_service,
     strongswan_service,
     switch_service,
     syncthing_service,
     synology_service,
     tasmota_service,
     tautulli_service,
     teamcity_service,
     telnet_service,
     termix_service,
     tomcat_service,
     tp_link_eap_service,
     traefik_service,
     true_nas_service,
     tuyasmart_service,
     tyk_service,
     ubiquiti_discovery_service,
     unbound_service,
     unifi_access_point_service,
     unifi_controller_service,
     unifi_gateway_service,
     unifi_switch_service,
     unimus_service,
     uptime_kuma_service,
     vault_service,
     vaultwarden_service,
     vcenter_service,
     veeam_service,
     wazuh_service,
     web_service_service,
     wg_dashboard_service,
     wireguard_service,
     wiz_service,
     wizarr_service,
     wordpress_service,
     workstation_service,
     zabbix_service,
     zabbix_agent_service,
     zigbee2mqtt_service,
     zipkin_service,
     zwave_js_service]"

end
