(* ===== verification/Service_Registry.thy ===== *)
theory Service_Registry
  imports Definitions_A_D Definitions_E_K Definitions_L_P Definitions_Q_Z
    "HOL-Library.List_Lexorder" "HOL-Library.Char_ord"
begin

text \<open>
  The registry of service definitions
  (\<^verbatim>\<open>backend/src/server/services/definitions/mod.rs\<close>) and the ports and endpoints the
  scanner takes from it (\<^verbatim>\<open>backend/src/server/services/impl/base.rs\<close>).

  The registry holds the 260 definitions in an order the linker chooses, so the facts are
  stated for every list with the same definitions. Names, which serve as ids, are unique;
  hence a definition survives serialisation.
\<close>

section \<open>The registered definitions\<close>

definition registered_definitions :: "ServiceDefinition list" where
  "registered_definitions =
     definitions_a_d @ definitions_e_k @ definitions_l_p @ definitions_q_z"

definition registry_order :: "ServiceDefinition list \<Rightarrow> bool" where
  "registry_order defs \<longleftrightarrow> set defs = set registered_definitions \<and> distinct (map def_name defs)"

definition registry_attrs :: "ServiceDefinition list \<Rightarrow> def_attrs" where
  "registry_attrs defs =
     \<lparr>def_is_generic = (\<lambda>i. is_generic (deserialize_definition defs i)),
      def_is_gateway = (\<lambda>i. is_gateway (deserialize_definition defs i)),
      def_is_open_ports = (\<lambda>i. is_open_ports (deserialize_definition defs i))\<rparr>"

section \<open>What the scanner asks for\<close>

definition all_discovery_ports :: "ServiceDefinition list \<Rightarrow> PortType list" where
  "all_discovery_ports defs = sort_dedup_ports (concat (map (ports \<circ> discovery_pattern) defs))"

fun protocol_text :: "ApplicationProtocol \<Rightarrow> string" where
  "protocol_text HttpProtocol = ''http''"
| "protocol_text HttpsProtocol = ''https''"

definition all_discovery_endpoints :: "ServiceDefinition list \<Rightarrow> Endpoint list" where
  "all_discovery_endpoints defs =
     dedup_by endpoint_eq
       (sort_key (\<lambda>e. (protocol_text (ep_protocol e), port_number (ep_port_type e), ep_path e))
         (concat (map (endpoints \<circ> discovery_pattern) defs)))"

definition endpoint_only_ports :: "ServiceDefinition list \<Rightarrow> PortType list" where
  "endpoint_only_ports defs =
     sort_dedup_ports (filter (\<lambda>p. \<not> port_mem p (all_discovery_ports defs))
       (map ep_port_type (all_discovery_endpoints defs)))"

section \<open>Facts\<close>

lemmas registered_simps =
  registered_definitions_def definitions_a_d_def definitions_e_k_def definitions_l_p_def definitions_q_z_def

text \<open>Distinctness of a long list is checked by a merge sort on the bits of its elements.\<close>

fun merge :: "'a::linorder list \<Rightarrow> 'a list \<Rightarrow> 'a list" where
  "merge (x # xs) (y # ys) = (if x \<le> y then x # merge xs (y # ys) else y # merge (x # xs) ys)"
| "merge [] ys = ys"
| "merge xs [] = xs"

fun merge_pairs :: "'a::linorder list list \<Rightarrow> 'a list list" where
  "merge_pairs (x # y # r) = merge x y # merge_pairs r"
| "merge_pairs r = r"

fun merge_rounds :: "'b list \<Rightarrow> 'a::linorder list list \<Rightarrow> 'a list" where
  "merge_rounds [] r = concat r"
| "merge_rounds (_ # k) r = merge_rounds k (merge_pairs r)"

lemma mset_merge: "mset (merge xs ys) = mset xs + mset ys"
  by (induction xs ys rule: merge.induct) auto

lemma mset_merge_pairs: "mset (concat (merge_pairs r)) = mset (concat r)"
  by (induction r rule: merge_pairs.induct) (auto simp: mset_merge)

lemma mset_merge_rounds: "mset (merge_rounds k r) = mset (concat r)"
  by (induction k arbitrary: r) (auto simp: mset_merge_pairs)

fun ascending :: "'a::linorder list \<Rightarrow> bool" where
  "ascending (x # y # r) \<longleftrightarrow> x < y \<and> ascending (y # r)"
| "ascending _ \<longleftrightarrow> True"

lemma ascending_strict: "ascending xs \<Longrightarrow> sorted_wrt (<) xs"
  by (induction xs rule: ascending.induct) (auto intro: less_trans)

lemma distinct_by_rounds:
  assumes "ascending (merge_rounds k (map (\<lambda>x. [f x]) xs))"
  shows "distinct (map f xs)"
proof -
  have c: "concat (map (\<lambda>x. [f x]) xs) = map f xs"
    by (induction xs) auto
  have "distinct (merge_rounds k (map (\<lambda>x. [f x]) xs))"
    using ascending_strict [OF assms] by (simp add: strict_sorted_iff)
  then show ?thesis
    using mset_merge_rounds [of k "map (\<lambda>x. [f x]) xs"] unfolding c
    by (metis mset_eq_imp_distinct_iff)
qed

definition char_bits :: "char \<Rightarrow> bool list" where
  "char_bits c = [digit7 c, digit6 c, digit5 c, digit4 c, digit3 c, digit2 c, digit1 c, digit0 c]"

definition name_bits :: "ServiceDefinition \<Rightarrow> bool list" where
  "name_bits d = concat (map char_bits (def_name d))"

lemma names_ascending:
  "ascending (merge_rounds ''.........'' (map (\<lambda>d. [name_bits d]) registered_definitions))"
  by code_simp

lemma distinct_names: "distinct (map def_name registered_definitions)"
proof -
  have "distinct (map name_bits registered_definitions)"
    by (rule distinct_by_rounds [OF names_ascending])
  then have "distinct (map (\<lambda>n. concat (map char_bits n)) (map def_name registered_definitions))"
    by (simp add: name_bits_def [abs_def] comp_def)
  then show ?thesis unfolding distinct_map by blast
qed

lemma registry_order_registered: "registry_order registered_definitions"
  by (simp add: registry_order_def distinct_names)

lemma name_limits:
  "list_all (\<lambda>d. length (def_name d) < 40 \<and> length (def_description d) < 100) registered_definitions"
  by (simp add: registered_simps service_defs)

lemma find_by_id_distinct:
  "distinct (map def_name defs) \<Longrightarrow> d \<in> set defs \<Longrightarrow> find_by_id defs (def_name d) = Some d"
  by (induction defs) (auto simp: find_by_id_def)

lemma deserialize_serialize_definition:
  "distinct (map def_name defs) \<Longrightarrow> d \<in> set defs
     \<Longrightarrow> deserialize_definition defs (serialize_definition d) = d"
  by (simp add: deserialize_definition_def serialize_definition_def find_by_id_distinct)

lemma registry_attrs_registered:
  assumes "registry_order defs" "d \<in> set registered_definitions"
  shows "def_is_generic (registry_attrs defs) (def_name d) = is_generic d"
    and "def_is_gateway (registry_attrs defs) (def_name d) = is_gateway d"
    and "def_is_open_ports (registry_attrs defs) (def_name d) = is_open_ports d"
  using assms find_by_id_distinct [of defs d]
  by (simp_all add: registry_attrs_def registry_order_def deserialize_definition_def)

lemma set_all_discovery_endpoints:
  assumes "registry_order defs" "e \<in> set (all_discovery_endpoints defs)"
  obtains d where "d \<in> set registered_definitions" "e \<in> set (endpoints (discovery_pattern d))"
proof -
  have "e \<in> set (concat (map (endpoints \<circ> discovery_pattern) defs))"
    using subsetD [OF set_dedup_by assms(2) [unfolded all_discovery_endpoints_def]] by simp
  then show ?thesis using that assms(1) by (auto simp: registry_order_def)
qed

text \<open>
  No definition asks for the endpoints below: each belongs to an endpoint pattern with a status
  range of its own, and such patterns list no endpoint.
\<close>

definition unlisted_paths :: "string list" where
  "unlisted_paths = [''/api/v2/'', ''/bigbluebutton/api'', ''/v1/allowlists'', ''/ipa/ui'',
     ''/rest/api/2/serverInfo'', ''/minio/health/live'', ''/hello'']"

lemma unlisted_paths_not_listed:
  "list_all (\<lambda>d. list_all (\<lambda>e. ep_path e \<notin> set unlisted_paths) (endpoints (discovery_pattern d)))
     registered_definitions"
  by (simp add: registered_simps service_defs unlisted_paths_def for_pattern_def)

end
