(* ===== verification/Service_Matching.thy ===== *)
theory Service_Matching
  imports Service_Registry
begin

text \<open>
  From scan results to services: building a service from one definition's match
  (\<open>Service::from_discovery\<close> in \<^verbatim>\<open>backend/src/server/services/impl/base.rs\<close>), the loop
  over all definitions that shares out the host's open ports (\<open>match_services\<close> in
  \<^verbatim>\<open>backend/src/daemon/discovery/service/ops.rs\<close>) and the endpoint scan that feeds it
  (\<open>scan_endpoints\<close> in \<^verbatim>\<open>backend/src/daemon/utils/scanner.rs\<close>).

  Fresh ids come from a supply: \<open>fresh i k\<close> is the k-th id drawn in round i of the loop. The
  HTTP client is the parameter \<open>fetch\<close>; the scan's responses arrive in no particular order, so
  facts about them speak of their set.

  The facts: no open port is lost, whatever the definitions claim; port bindings refer to ports
  of the result; once a container has been matched nothing else is; the list of services is
  sorted by confidence; and what the registry's definitions cannot match.
\<close>

section \<open>The endpoint scan\<close>

record http_response =
  http_status :: "16 word"
  http_headers :: "(string \<times> string) list"
  http_body :: string

definition probed_endpoints ::
    "ServiceDefinition list \<Rightarrow> PortType list option \<Rightarrow> bool \<Rightarrow> Endpoint list" where
  "probed_endpoints defs filter_ports probe_raw_socket_ports =
     filter (\<lambda>e. \<not> (\<not> probe_raw_socket_ports \<and> is_raw_socket (ep_port_type e))
                 \<and> (case filter_ports of Some ps \<Rightarrow> port_mem (ep_port_type e) ps | None \<Rightarrow> True))
       (all_discovery_endpoints defs)"

fun first_by_key :: "('a \<Rightarrow> 'k) \<Rightarrow> 'k list \<Rightarrow> 'a list \<Rightarrow> 'a list" where
  "first_by_key key seen [] = []"
| "first_by_key key seen (x # xs) =
     (if key x \<in> set seen then first_by_key key seen xs else x # first_by_key key (key x # seen) xs)"

text \<open>The headers of a response are collected in a map: of two with one name the later stays.\<close>

definition collect_headers :: "(string \<times> string) list \<Rightarrow> (string \<times> string) list" where
  "collect_headers hs =
     fold (\<lambda>(n, v) m. filter (\<lambda>h. fst h \<noteq> to_lowercase n) m @ [(to_lowercase n, v)]) hs []"

definition scan_endpoints ::
    "(Endpoint \<Rightarrow> http_response option) \<Rightarrow> ServiceDefinition list \<Rightarrow> IpAddr \<Rightarrow> PortType list option
      \<Rightarrow> bool \<Rightarrow> EndpointResponse list" where
  "scan_endpoints fetch defs ip filter_ports probe_raw_socket_ports =
     List.map_filter (\<lambda>e.
         let resolved = use_ip e ip in
         map_option (\<lambda>r. \<lparr>resp_endpoint = resolved, resp_body = http_body r,
             resp_headers = collect_headers (http_headers r),
             resp_status = http_status r\<rparr>) (fetch resolved))
       (first_by_key (\<lambda>e. (port_number (ep_port_type e), ep_path e)) []
         (probed_endpoints defs filter_ports probe_raw_socket_ports))"

section \<open>One definition\<close>

definition discovered_ports :: "(nat \<Rightarrow> uuid) \<Rightarrow> datetime \<Rightarrow> PortType list \<Rightarrow> Port list" where
  "discovered_ports fresh now ps = map (\<lambda>(k, p). new_hostless (fresh k) now p) (enumerate 0 ps)"

definition discovered_bindings :: "(nat \<Rightarrow> uuid) \<Rightarrow> datetime \<Rightarrow> uuid \<Rightarrow> Port list \<Rightarrow> Binding list" where
  "discovered_bindings fresh now ip new_ports =
     (let n = length new_ports in
      if new_ports \<noteq> []
      then map (\<lambda>(k, p). new_serviceless (fresh k) now (BindingType.Port (port_id p) (Some ip)))
             (enumerate n new_ports)
      else [new_serviceless (fresh n) now (BindingType.IPAddress ip)])"

definition from_discovery ::
    "match_env \<Rightarrow> (nat \<Rightarrow> uuid) \<Rightarrow> datetime \<Rightarrow> match_params \<Rightarrow> ServiceDefinition
      \<Rightarrow> (Service \<times> Port list \<times> Endpoint option) option" where
  "from_discovery E fresh now P d =
     (case matches E P (discovery_pattern d) of
        Inl _ \<Rightarrow> None
      | Inr result \<Rightarrow>
          let B = baseline_params P;
              service_name = (if is_generic d
                      then (case Option.bind (mp_virtualization_metadata B) container_name of
                              Some c_name \<Rightarrow> c_name | None \<Rightarrow> def_name d)
                      else def_name d);
              match_details = (if is_generic d
                      then \<lparr>reason = Container ''Generic service'' [reason (details result)],
                            confidence = NotApplicable\<rparr>
                      else details result);
              new_ports = discovered_ports fresh now (result_ports result);
              new_bindings = discovered_bindings fresh now (ip_id (mp_ip_address B)) new_ports;
              service = new_service (fresh (2 * length new_ports + 1)) now
                \<lparr>svc_host_id = mp_host_id P, svc_network_id = mp_network_id P,
                 svc_definition = def_name d, svc_name = service_name, svc_bindings = new_bindings,
                 svc_virtualization_metadata = mp_virtualization_metadata B,
                 svc_virtualization_service_id = mp_virtualization_service_id B,
                 svc_source = DiscoveryWithMatch match_details, svc_tags = [], svc_position = 0\<rparr>
          in Some (service, new_ports, result_endpoint result))"

section \<open>All definitions\<close>

definition matching_rank :: "ServiceDefinition \<Rightarrow> nat" where
  "matching_rank s =
     (if \<not> is_generic s then 0
      else if def_name s = def_name open_ports_service then 3
      else if def_name s = def_name docker_container_service
              \<or> def_name s = def_name podman_container_service
              \<or> def_name s = def_name gateway_service then 2
      else 1)"

record matching_state =
  ms_services :: "Service list"
  ms_host_ports :: "Port list"
  ms_unbound :: "PortType list"
  container_matched :: bool

record matching_input =
  in_host_id :: uuid
  in_gateway_ips :: "IpAddr list"
  in_daemon_id :: uuid
  in_network_id :: uuid
  in_baseline :: ServiceMatchBaselineParams

definition params_for :: "match_env \<Rightarrow> matching_input \<Rightarrow> matching_state \<Rightarrow> ServiceDefinition \<Rightarrow> match_params" where
  "params_for E I st d =
     \<lparr>mp_host_id = in_host_id I, gateway_ips = in_gateway_ips I, mp_daemon_id = in_daemon_id I,
      mp_network_id = in_network_id I, baseline_params = in_baseline I,
      service_params = \<lparr>mp_service_definition = def_name d, matched_services = ms_services st,
        unbound_ports = ms_unbound st, definition_attrs = registry_attrs (all_service_definitions E)\<rparr>\<rparr>"

definition match_step ::
    "match_env \<Rightarrow> matching_input \<Rightarrow> (nat \<Rightarrow> uuid) \<Rightarrow> datetime \<Rightarrow> matching_state \<Rightarrow> ServiceDefinition \<Rightarrow> matching_state" where
  "match_step E I fresh now st d =
     (case from_discovery E fresh now (params_for E I st d) d of
        Some (service, new_ports, _) \<Rightarrow>
          if container_matched st then st
          else let bound = map (\<lambda>p. port_type (port_base p)) new_ports in
            \<lparr>ms_services = ms_services st @ [service],
             ms_host_ports = ms_host_ports st @ new_ports,
             ms_unbound = filter (\<lambda>p. \<not> port_mem p bound) (ms_unbound st),
             container_matched = (virt_container_id service \<noteq> None)\<rparr>
      | None \<Rightarrow> st)"

fun match_loop ::
    "match_env \<Rightarrow> matching_input \<Rightarrow> (nat \<Rightarrow> nat \<Rightarrow> uuid) \<Rightarrow> datetime \<Rightarrow> nat \<Rightarrow> matching_state
      \<Rightarrow> ServiceDefinition list \<Rightarrow> matching_state" where
  "match_loop E I fresh now i st [] = st"
| "match_loop E I fresh now i st (d # ds) =
     match_loop E I fresh now (Suc i) (match_step E I (fresh i) now st d) ds"

definition service_rank :: "ServiceDefinition list \<Rightarrow> Service \<Rightarrow> int" where
  "service_rank defs s =
     - (case svc_source (svc_base s) of
          DiscoveryWithMatch m \<Rightarrow> int (confidence_rank (confidence m))
            + (if has_logo (deserialize_definition defs (svc_definition (svc_base s))) then 1 else 0)
        | _ \<Rightarrow> 0)"

definition match_services ::
    "match_env \<Rightarrow> matching_input \<Rightarrow> (nat \<Rightarrow> nat \<Rightarrow> uuid) \<Rightarrow> datetime \<Rightarrow> Service list \<times> Port list" where
  "match_services E I fresh now =
     (let defs = all_service_definitions E;
          start = \<lparr>ms_services = [], ms_host_ports = [], ms_unbound = all_ports (in_baseline I),
                   container_matched = False\<rparr>;
          st = match_loop E I fresh now 0 start (sort_key matching_rank defs)
      in (sort_key (service_rank defs) (ms_services st),
          ms_host_ports st @ discovered_ports (fresh (length defs)) now (ms_unbound st)))"

section \<open>Facts about one step\<close>

lemma discovered_ports_types:
  "map (\<lambda>p. port_type (port_base p)) (discovered_ports fresh now ps) = ps"
proof -
  have "map (\<lambda>p. port_type (port_base p)) (map (\<lambda>(k, p). new_hostless (fresh k) now p) (enumerate i ps)) = ps" for i
    by (induction ps arbitrary: i) (simp_all add: new_hostless_def new_port_def new_hostless_base_def)
  then show ?thesis by (simp add: discovered_ports_def)
qed

lemma discovered_bindings_ports:
  "List.map_filter binding_port_id (discovered_bindings fresh now ip ps) = map port_id ps"
proof -
  have "List.map_filter binding_port_id
      (map (\<lambda>(k, p). new_serviceless (fresh k) now (BindingType.Port (port_id p) a)) (enumerate i qs)) = map port_id qs"
    for i a qs
    by (induction qs arbitrary: i)
      (simp_all add: List.map_filter_simps binding_port_id_def new_serviceless_def new_binding_def
        new_serviceless_base_def new_base_def)
  then show ?thesis
    by (auto simp: discovered_bindings_def Let_def List.map_filter_simps binding_port_id_def
        new_serviceless_def new_binding_def new_serviceless_base_def new_base_def)
qed

lemma from_discovery_SomeD:
  assumes "from_discovery E fresh now P d = Some (s, ps, e)"
  obtains r where "matches E P (discovery_pattern d) = Ok r"
    "map (\<lambda>p. port_type (port_base p)) ps = result_ports r"
    "svc_definition (svc_base s) = def_name d" "svc_host_id (svc_base s) = mp_host_id P"
    "svc_network_id (svc_base s) = mp_network_id P"
    "svc_virtualization_metadata (svc_base s) = mp_virtualization_metadata (baseline_params P)"
    "to_bound_port_ids s = map port_id ps"
proof -
  obtain r where r: "matches E P (discovery_pattern d) = Ok r"
    using assms by (auto simp: from_discovery_def split: sum.splits)
  have "s = new_service (fresh (2 * length ps + 1)) now (svc_base s)"
    "ps = discovered_ports fresh now (result_ports r)"
    "bindings_of s = discovered_bindings fresh now (ip_id (mp_ip_address (baseline_params P))) ps"
    using assms r by (auto simp: from_discovery_def Let_def new_service_def)
  then show thesis
    using assms r
    by (intro that [OF r])
      (auto simp: from_discovery_def Let_def new_service_def discovered_ports_types to_bound_port_ids_def
        discovered_bindings_ports)
qed

lemma from_discovery_None_iff:
  "from_discovery E fresh now P d = None \<longleftrightarrow> \<not> sat E P (discovery_pattern d)"
  using succeeded_matches [of E P "discovery_pattern d"]
  by (auto simp: from_discovery_def Let_def split: sum.splits)

section \<open>Facts about the loop\<close>

text \<open>
  The invariant of the loop over a list of open ports: every open port is still unbound or has
  the type of a port already created; the ports created so far are the ports that matched
  services bind; the services live on the input's host; and while no container has been matched
  no service carries a container id.
\<close>

abbreviation ptype :: "Port \<Rightarrow> PortType" where
  "ptype p \<equiv> port_type (port_base p)"

definition matching_inv :: "match_env \<Rightarrow> matching_input \<Rightarrow> matching_state \<Rightarrow> bool" where
  "matching_inv E I st \<longleftrightarrow>
     (\<forall>p \<in> set (all_ports (in_baseline I)). p \<in> set (ms_unbound st) \<or> port_mem p (map ptype (ms_host_ports st)))
     \<and> port_id ` set (ms_host_ports st) = (\<Union>s \<in> set (ms_services st). set (to_bound_port_ids s))
     \<and> (\<forall>s \<in> set (ms_services st). svc_host_id (svc_base s) = in_host_id I
           \<and> svc_network_id (svc_base s) = in_network_id I
           \<and> svc_virtualization_metadata (svc_base s) = mp_virtualization_metadata (in_baseline I))
     \<and> (Option.bind (mp_virtualization_metadata (in_baseline I)) container_id \<noteq> None \<longrightarrow>
          length (ms_services st) \<le> (if container_matched st then 1 else 0))"

lemma port_mem_append: "port_mem p (xs @ ys) \<longleftrightarrow> port_mem p xs \<or> port_mem p ys"
  by (simp add: port_mem_def)

lemma params_for_simps [simp]:
  "baseline_params (params_for E I st d) = in_baseline I"
  "mp_host_id (params_for E I st d) = in_host_id I"
  "mp_network_id (params_for E I st d) = in_network_id I"
  "gateway_ips (params_for E I st d) = in_gateway_ips I"
  "matched_services (service_params (params_for E I st d)) = ms_services st"
  "unbound_ports (service_params (params_for E I st d)) = ms_unbound st"
  "definition_attrs (service_params (params_for E I st d)) = registry_attrs (all_service_definitions E)"
  by (simp_all add: params_for_def)

lemma match_step_cases:
  obtains (skip) "match_step E I fresh now st d = st"
  | (claim) s ps e where "from_discovery E fresh now (params_for E I st d) d = Some (s, ps, e)"
      "\<not> container_matched st"
      "match_step E I fresh now st d =
         \<lparr>ms_services = ms_services st @ [s], ms_host_ports = ms_host_ports st @ ps,
          ms_unbound = filter (\<lambda>p. \<not> port_mem p (map ptype ps)) (ms_unbound st),
          container_matched = (virt_container_id s \<noteq> None)\<rparr>"
  by (cases "from_discovery E fresh now (params_for E I st d) d"; cases "container_matched st")
     (auto simp: match_step_def Let_def split: prod.splits)

lemma match_step_inv: "matching_inv E I st \<Longrightarrow> matching_inv E I (match_step E I fresh now st d)"
proof (cases rule: match_step_cases [of E I fresh now st d])
  case (claim s ps e)
  assume inv: "matching_inv E I st"
  from claim(1) obtain r where
    "svc_host_id (svc_base s) = in_host_id I" "svc_network_id (svc_base s) = in_network_id I"
    and v: "svc_virtualization_metadata (svc_base s) = mp_virtualization_metadata (in_baseline I)"
    and "to_bound_port_ids s = map port_id ps"
    by (auto elim: from_discovery_SomeD)
  with inv claim(2,3) show ?thesis
    by (auto simp: matching_inv_def port_mem_append virt_container_id_def v image_Un)
qed simp

lemma match_loop_inv: "matching_inv E I st \<Longrightarrow> matching_inv E I (match_loop E I fresh now i st ds)"
  by (induction ds arbitrary: i st) (simp_all add: match_step_inv)

definition matching_start :: "matching_input \<Rightarrow> matching_state" where
  "matching_start I = \<lparr>ms_services = [], ms_host_ports = [], ms_unbound = all_ports (in_baseline I),
     container_matched = False\<rparr>"

definition matching_end :: "match_env \<Rightarrow> matching_input \<Rightarrow> (nat \<Rightarrow> nat \<Rightarrow> uuid) \<Rightarrow> datetime \<Rightarrow> matching_state" where
  "matching_end E I fresh now =
     match_loop E I fresh now 0 (matching_start I) (sort_key matching_rank (all_service_definitions E))"

lemma match_services_end:
  "match_services E I fresh now =
     (sort_key (service_rank (all_service_definitions E)) (ms_services (matching_end E I fresh now)),
      ms_host_ports (matching_end E I fresh now)
        @ discovered_ports (fresh (length (all_service_definitions E))) now
            (ms_unbound (matching_end E I fresh now)))"
  by (simp add: match_services_def matching_end_def matching_start_def Let_def)

lemma matching_end_inv: "matching_inv E I (matching_end E I fresh now)"
  unfolding matching_end_def
  by (rule match_loop_inv) (simp add: matching_inv_def matching_start_def)

lemma port_mem_self: "p \<in> set ps \<Longrightarrow> port_mem p ps"
  using port_eq_refl unfolding port_mem_def list_ex_iff by blast

lemma match_services_keeps_ports:
  assumes "p \<in> set (all_ports (in_baseline I))"
  shows "port_mem p (map ptype (snd (match_services E I fresh now)))"
  using assms matching_end_inv [of E I fresh now]
  by (auto simp: match_services_end matching_inv_def port_mem_append discovered_ports_types intro: port_mem_self)

lemma match_services_references:
  assumes "s \<in> set (fst (match_services E I fresh now))"
  shows "set (to_bound_port_ids s) \<subseteq> port_id ` set (snd (match_services E I fresh now))"
    and "svc_host_id (svc_base s) = in_host_id I \<and> svc_network_id (svc_base s) = in_network_id I"
  using assms matching_end_inv [of E I fresh now]
  by (auto simp: match_services_end matching_inv_def image_Un)

lemma match_services_container:
  "Option.bind (mp_virtualization_metadata (in_baseline I)) container_id \<noteq> None \<Longrightarrow>
     length (fst (match_services E I fresh now)) \<le> 1"
  using matching_end_inv [of E I fresh now]
  by (auto simp: match_services_end matching_inv_def split: if_splits)

lemma match_services_sorted:
  "sorted (map (service_rank (all_service_definitions E)) (fst (match_services E I fresh now)))"
  by (simp add: match_services_end)

section \<open>Unclaimed ports\<close>

lemma not_container_matched:
  assumes "Option.bind (mp_virtualization_metadata (in_baseline I)) container_id = None"
    and "\<not> container_matched st"
  shows "\<not> container_matched (match_step E I fresh now st d)"
  using assms by (cases rule: match_step_cases [of E I fresh now st d])
    (auto elim!: from_discovery_SomeD simp: virt_container_id_def)

lemma match_step_unbound_Nil: "ms_unbound st = [] \<Longrightarrow> ms_unbound (match_step E I fresh now st d) = []"
  by (cases rule: match_step_cases [of E I fresh now st d]) auto

lemma match_loop_unbound_Nil: "ms_unbound st = [] \<Longrightarrow> ms_unbound (match_loop E I fresh now i st ds) = []"
  by (induction ds arbitrary: i st) (simp_all add: match_step_unbound_Nil)

lemma open_ports_matches:
  "matches E P (discovery_pattern open_ports_service) =
     (if unbound_ports (service_params P) \<noteq> []
      then Ok (simple_match (unbound_ports (service_params P)) (Text ''Has unbound open ports'') NotApplicable)
      else Err (Text ''No unbound ports remaining''))"
  by (simp add: open_ports_service_def match_custom_def)

lemma match_step_open_ports:
  assumes "\<not> container_matched st"
  shows "ms_unbound (match_step E I fresh now st open_ports_service) = []"
proof (cases "ms_unbound st = []")
  case False
  have f: "from_discovery E fresh now (params_for E I st open_ports_service) open_ports_service \<noteq> None"
    using False by (simp add: from_discovery_None_iff open_ports_service_def)
  show ?thesis
  proof (cases rule: match_step_cases [of E I fresh now st open_ports_service])
    case skip
    then show ?thesis using f assms by (auto simp: match_step_def Let_def split: prod.splits)
        (metis matching_state.select_convs(1) append_self_conv list.distinct(1))
  next
    case (claim s ps e)
    from claim(1) have "map ptype ps = ms_unbound st"
      using False by (auto elim!: from_discovery_SomeD simp: open_ports_matches simple_match_def)
    then show ?thesis by (simp add: claim(3) filter_empty_conv port_mem_self)
  qed
qed (simp add: match_step_unbound_Nil)

lemma match_loop_open_ports:
  assumes "Option.bind (mp_virtualization_metadata (in_baseline I)) container_id = None"
  shows "\<not> container_matched st \<Longrightarrow> open_ports_service \<in> set ds \<Longrightarrow>
    ms_unbound (match_loop E I fresh now i st ds) = []"
proof (induction ds arbitrary: i st)
  case (Cons d ds)
  show ?case
  proof (cases "d = open_ports_service")
    case True
    then show ?thesis using Cons.prems by (simp add: match_step_open_ports match_loop_unbound_Nil)
  next
    case False
    then show ?thesis
      using Cons not_container_matched [OF assms Cons.prems(1), of E "fresh i" now d] by simp
  qed
qed simp

lemma match_services_all_claimed:
  assumes "open_ports_service \<in> set (all_service_definitions E)"
    and "Option.bind (mp_virtualization_metadata (in_baseline I)) container_id = None"
    and "p \<in> set (all_ports (in_baseline I))"
  shows "\<exists>s \<in> set (fst (match_services E I fresh now)). \<exists>q \<in> set (snd (match_services E I fresh now)).
           port_id q \<in> set (to_bound_port_ids s) \<and> port_eq p (ptype q)"
proof -
  let ?st = "matching_end E I fresh now"
  have Nil: "ms_unbound ?st = []"
    unfolding matching_end_def
    by (rule match_loop_open_ports [OF assms(2)]) (simp_all add: matching_start_def assms(1))
  obtain q where q: "q \<in> set (ms_host_ports ?st)" "port_eq p (ptype q)"
    using assms(3) Nil matching_end_inv [of E I fresh now]
    by (auto simp: matching_inv_def port_mem_def list_ex_iff)
  have "port_id q \<in> (\<Union>s \<in> set (ms_services ?st). set (to_bound_port_ids s))"
    using q(1) matching_end_inv [of E I fresh now] by (auto simp: matching_inv_def)
  then show ?thesis using q by (auto simp: match_services_end)
qed

section \<open>What cannot be matched\<close>

text \<open>
  The generic gateway is refused as soon as any service that is not a gateway has been matched,
  and accepted next to a gateway that has.
\<close>

lemma gateway_matches_iff:
  "sat E P (discovery_pattern gateway_service) \<longleftrightarrow>
     sat E P IsGateway
     \<and> (\<forall>s \<in> set (matched_services (service_params P)).
          def_is_gateway (definition_attrs (service_params P)) (svc_definition (svc_base s)))"
  by (auto simp: gateway_service_def gateway_constraint_def list_ex_iff)

lemma set_first_by_key: "set (first_by_key key seen xs) \<subseteq> set xs"
  by (induction key seen xs rule: first_by_key.induct) auto

lemma scan_endpoints_path:
  assumes "r \<in> set (scan_endpoints fetch defs ip fp raw)"
  shows "ep_path (resp_endpoint r) \<in> ep_path ` set (all_discovery_endpoints defs)"
  using assms set_first_by_key
  by (fastforce simp: scan_endpoints_def List.map_filter_def use_ip_def Let_def probed_endpoints_def
      split: option.splits)

lemma unlisted_not_scanned:
  assumes "registry_order defs" "r \<in> set (scan_endpoints fetch defs ip fp raw)"
  shows "ep_path (resp_endpoint r) \<notin> set unlisted_paths"
proof -
  obtain e where e: "e \<in> set (all_discovery_endpoints defs)" "ep_path (resp_endpoint r) = ep_path e"
    using scan_endpoints_path [OF assms(2)] by auto
  obtain d where "d \<in> set registered_definitions" "e \<in> set (endpoints (discovery_pattern d))"
    using set_all_discovery_endpoints [OF assms(1) e(1)] .
  then show ?thesis using unlisted_paths_not_listed e(2) by (auto simp: list_all_iff)
qed

definition undetectable :: "ServiceDefinition list" where
  "undetectable = [ansible_awx_service, bigbluebutton_service, crowdsec_service, freeipa_service,
     jira_server_service, minio_service, tyk_service]"

lemma undetectable_patterns:
  assumes "d \<in> set undetectable"
  obtains port path body rng where "discovery_pattern d = EndpointP port path body rng" "path \<in> set unlisted_paths"
  using assms unfolding undetectable_def by (auto simp: service_defs unlisted_paths_def)

lemma undetectable_never_match:
  assumes "registry_order defs"
    and "endpoint_responses (baseline_params P) = scan_endpoints fetch defs ip fp raw"
    and "d \<in> set undetectable"
  shows "\<not> sat E P (discovery_pattern d)"
  using undetectable_patterns [OF assms(3)]
proof cases
  case (1 port path body rng)
  then show ?thesis
    using unlisted_not_scanned [OF assms(1), of _ fetch ip fp raw]
    by (auto simp: assms(2) list_ex_iff endpoint_matches_def Let_def for_pattern_def)
qed

lemma crowdsec_never_matches: "\<not> sat E P (discovery_pattern crowdsec_service)"
  by (auto simp: crowdsec_service_def list_ex_iff endpoint_matches_def in_range_def Let_def)

end
