(* ===== verification/Discovery_Types.thy ===== *)
theory Discovery_Types
  imports Net_Types
begin

text \<open>
  The data of discovery runs: the phases of a session
  (\<^verbatim>\<open>backend/src/daemon/discovery/types/base.rs\<close>), discovery and run types
  (\<^verbatim>\<open>backend/src/server/discovery/impl/types.rs\<close>), scan settings
  (\<^verbatim>\<open>backend/src/server/discovery/impl/scan_settings.rs\<close>), the progress payload a daemon sends
  (\<^verbatim>\<open>backend/src/server/daemons/impl/api.rs\<close>), integration targets
  (\<^verbatim>\<open>backend/src/server/credentials/impl/mapping.rs\<close>) and the discovery entity
  (\<^verbatim>\<open>backend/src/server/discovery/impl/base.rs\<close>).

  The credentials inside the legacy network variant, the entity ids a terminal payload
  carries and the tags of a discovery (kept in a table of their own, not in the row) are left
  out: nothing here reads them.
\<close>

section \<open>Phases\<close>

datatype DiscoveryPhase =
    AwaitingSnapshot | Queued | Pending | Starting | Started | Scanning | Complete | Failed | Cancelled

definition is_terminal :: "DiscoveryPhase \<Rightarrow> bool" where
  "is_terminal p \<longleftrightarrow> p \<in> {Complete, Cancelled, Failed}"

definition can_be_cleaned_up :: "DiscoveryPhase \<Rightarrow> bool" where
  "can_be_cleaned_up p \<longleftrightarrow> p \<in> {Pending, Starting, Started, Scanning}"

section \<open>Credential mappings and targets\<close>

record 'c IpOverride =
  override_ip :: IpAddr
  override_credential :: 'c
  override_credential_id :: uuid

record 'c CredentialMapping =
  default_credential :: "'c option"
  ip_overrides :: "'c IpOverride list"

definition is_localhost :: "'c IpOverride \<Rightarrow> bool" where
  "is_localhost o' \<longleftrightarrow> override_ip o' = V4 0x7F000001 \<or> override_ip o' = V6 1"

definition mapping_is_enabled :: "'c CredentialMapping \<Rightarrow> bool" where
  "mapping_is_enabled m \<longleftrightarrow> default_credential m \<noteq> None \<or> ip_overrides m \<noteq> []"

definition get_credential_for_ip :: "'c CredentialMapping \<Rightarrow> IpAddr \<Rightarrow> 'c option" where
  "get_credential_for_ip m ip =
     (case find (\<lambda>o'. override_ip o' = ip) (ip_overrides m) of
        Some o' \<Rightarrow> Some (override_credential o') | None \<Rightarrow> default_credential m)"

definition credential_ids :: "'c CredentialMapping \<Rightarrow> uuid set" where
  "credential_ids m = set (filter (\<lambda>i. i \<noteq> nil_uuid) (map override_credential_id (ip_overrides m)))"

datatype IntegrationTarget =
    DaemonHostTarget (target_credential_id: uuid)
  | NetworkTarget (target_credential_id: uuid)
  | HostsTarget (target_credential_id: uuid) (target_ips: "IpAddr list")

section \<open>Discovery types\<close>

record ScanSettings =
  arp_retries :: "32 word option"
  arp_rate_pps :: "32 word option"
  scan_rate_pps :: "32 word option"
  port_scan_batch_size :: "nat option"
  probe_raw_socket_ports :: bool
  use_npcap_arp :: bool
  full_scan_interval :: "32 word option"
  is_full_scan :: bool
  arp_scan_cutoff :: "8 word option"
  max_discovery_duration :: "32 word option"

definition default_full_scan_interval :: "32 word" where
  "default_full_scan_interval = 3"

datatype HostNamingFallback = NameByIp | NameByBestService

datatype DiscoveryType =
    SelfReport uuid
  | NetworkDiscovery "uuid list option" HostNamingFallback
  | DockerDiscovery uuid HostNamingFallback
  | Rescan uuid uuid "IpAddr list" "PortType list"
  | Unified uuid "uuid list option" HostNamingFallback ScanSettings

fun is_legacy :: "DiscoveryType \<Rightarrow> bool" where
  "is_legacy (SelfReport _) = True"
| "is_legacy (NetworkDiscovery _ _) = True"
| "is_legacy (DockerDiscovery _ _) = True"
| "is_legacy _ = False"

fun rescan_target_host_id :: "DiscoveryType \<Rightarrow> uuid option" where
  "rescan_target_host_id (Rescan _ target _ _) = Some target"
| "rescan_target_host_id _ = None"

fun runs_network_scan :: "DiscoveryType \<Rightarrow> bool" where
  "runs_network_scan (Unified _ _ _ _) = True"
| "runs_network_scan (Rescan _ _ _ _) = True"
| "runs_network_scan _ = False"

fun discovery_type_display :: "DiscoveryType \<Rightarrow> string" where
  "discovery_type_display (SelfReport _) = ''Self Report''"
| "discovery_type_display (NetworkDiscovery _ _) = ''Network Discovery''"
| "discovery_type_display (DockerDiscovery _ _) = ''Docker Discovery''"
| "discovery_type_display (Rescan _ _ _ _) = ''Rescan''"
| "discovery_type_display (Unified _ _ _ _) = ''Unified Discovery''"

fun is_unified :: "DiscoveryType \<Rightarrow> bool" where
  "is_unified (Unified _ _ _ _) = True"
| "is_unified _ = False"

section \<open>The session payload\<close>

record session =
  session_id :: uuid
  ses_daemon_id :: uuid
  ses_network_id :: uuid
  phase :: DiscoveryPhase
  ses_type :: DiscoveryType
  progress :: nat
  ses_error :: "string option"
  ses_warnings :: "string list"
  started_at :: "datetime option"
  finished_at :: "datetime option"
  hosts_discovered :: "nat option"
  estimated_remaining_secs :: "nat option"
  ses_discovery_id :: "uuid option"

definition new_session :: "uuid \<Rightarrow> uuid \<Rightarrow> uuid \<Rightarrow> DiscoveryType \<Rightarrow> uuid option \<Rightarrow> session" where
  "new_session i daemon network t discovery =
     \<lparr>session_id = i, ses_daemon_id = daemon, ses_network_id = network, phase = Queued, ses_type = t,
      progress = 0, ses_error = None, ses_warnings = [], started_at = None, finished_at = None,
      hosts_discovered = None, estimated_remaining_secs = None, ses_discovery_id = discovery\<rparr>"

section \<open>Run types and the entity\<close>

datatype RunType =
    Scheduled string "datetime option" bool "string option"
  | Historical session
  | AdHoc "datetime option"

fun last_run :: "RunType \<Rightarrow> datetime option" where
  "last_run (Scheduled _ r _ _) = r"
| "last_run (AdHoc r) = r"
| "last_run (Historical _) = None"

fun set_last_run :: "RunType \<Rightarrow> datetime \<Rightarrow> RunType" where
  "set_last_run (Scheduled c _ e z) t = Scheduled c (Some t) e z"
| "set_last_run (AdHoc _) t = AdHoc (Some t)"
| "set_last_run (Historical s) t = Historical s"

fun run_schedule :: "RunType \<Rightarrow> (string \<times> bool \<times> string option) option" where
  "run_schedule (Scheduled c _ e z) = Some (c, e, z)"
| "run_schedule _ = None"

definition is_scheduled_enabled :: "RunType \<Rightarrow> bool" where
  "is_scheduled_enabled r = (case run_schedule r of Some (_, e, _) \<Rightarrow> e | None \<Rightarrow> False)"

fun is_server_managed :: "RunType \<Rightarrow> bool" where
  "is_server_managed (Historical _) = True"
| "is_server_managed _ = False"

definition is_live_config :: "RunType \<Rightarrow> bool" where
  "is_live_config r \<longleftrightarrow> \<not> is_server_managed r"

fun historical_results :: "RunType \<Rightarrow> session option" where
  "historical_results (Historical s) = Some s"
| "historical_results _ = None"

fun never_ran :: "RunType \<Rightarrow> bool" where
  "never_ran (Scheduled _ r _ _) = (r = None)"
| "never_ran (AdHoc r) = (r = None)"
| "never_ran (Historical _) = False"

record Discovery =
  disc_id :: uuid
  disc_created_at :: datetime
  disc_updated_at :: datetime
  disc_type :: DiscoveryType
  run_type :: RunType
  disc_name :: string
  disc_daemon_id :: uuid
  disc_network_id :: uuid
  scan_count :: "32 word"
  force_full_scan :: bool
  integration_targets :: "IntegrationTarget list"

definition take_network_scope_credential_ids :: "Discovery \<Rightarrow> Discovery \<times> uuid list" where
  "take_network_scope_credential_ids d =
     (d\<lparr>integration_targets := filter (\<lambda>t. case t of NetworkTarget _ \<Rightarrow> False | _ \<Rightarrow> True) (integration_targets d)\<rparr>,
      List.map_filter (\<lambda>t. case t of NetworkTarget c \<Rightarrow> Some c | _ \<Rightarrow> None) (integration_targets d))"

definition apply_successful_scan :: "Discovery \<Rightarrow> Discovery" where
  "apply_successful_scan d = d\<lparr>scan_count := scan_count d + 1, force_full_scan := False, integration_targets := []\<rparr>"

fun disable_run :: "RunType \<Rightarrow> RunType" where
  "disable_run (Scheduled c r _ z) = Scheduled c r False z"
| "disable_run r = r"

definition disable_discovery :: "Discovery \<Rightarrow> Discovery" where
  "disable_discovery d = d\<lparr>run_type := disable_run (run_type d)\<rparr>"

section \<open>When a scan is full\<close>

definition full_scan_due :: "bool \<Rightarrow> 32 word option \<Rightarrow> 32 word \<Rightarrow> bool" where
  "full_scan_due force interval_opt scans =
     (let interval = (case interval_opt of Some i \<Rightarrow> i | None \<Rightarrow> default_full_scan_interval) in
      force \<or> (interval \<noteq> 0 \<and> (interval = 1 \<or> scans = 1 \<or> (scans > 1 \<and> unat interval dvd unat scans))))"

lemma full_scan_never: "\<not> full_scan_due False (Some 0) c"
  by (simp add: full_scan_due_def)

text \<open>Among any \<open>interval\<close> consecutive scan counts one is due for a full scan.\<close>

lemma full_scan_within_interval:
  assumes "0 < i" "unat c + i < 2 ^ 32" "i < 2 ^ 32"
  shows "\<exists>k < i. full_scan_due False (Some (word_of_nat i)) (word_of_nat (unat c + 1 + k))"
proof -
  let ?n = "unat c + 1"
  define m where "m = (?n + i - 1) div i * i"
  have ge: "?n \<le> m" and lt: "m < ?n + i"
  proof -
    have "(?n + i - 1) mod i < i" using assms(1) by simp
    moreover have "m + (?n + i - 1) mod i = ?n + i - 1" unfolding m_def by (rule div_mult_mod_eq)
    ultimately show "?n \<le> m" "m < ?n + i" using assms(1) by linarith+
  qed
  have small: "unat (word_of_nat m :: 32 word) = m" "unat (word_of_nat i :: 32 word) = i"
    using lt assms by (simp_all add: unat_of_nat)
  have dvd: "i dvd m" unfolding m_def by simp
  have nz: "(word_of_nat i :: 32 word) \<noteq> 0"
    using small(2) assms(1) by (metis unat_0 less_irrefl)
  have "full_scan_due False (Some (word_of_nat i)) (word_of_nat m)"
  proof (cases "m = 1")
    case True
    then show ?thesis using nz by (simp add: full_scan_due_def)
  next
    case False
    then have "(word_of_nat m :: 32 word) > 1"
      using ge small(1) by (simp add: word_less_nat_alt)
    then show ?thesis using nz dvd small by (simp add: full_scan_due_def)
  qed
  moreover have "m - ?n < i" "unat c + 1 + (m - ?n) = m" using ge lt by auto
  ultimately show ?thesis by metis
qed

end
