(* ===== verification/Discovery_Sessions.thy ===== *)
theory Discovery_Sessions
  imports Discovery_Types Storage
begin

text \<open>
  The session manager of the server
  (\<^verbatim>\<open>backend/src/server/discovery/service/\<close>: \<^verbatim>\<open>sessions.rs\<close>, \<^verbatim>\<open>dispatch.rs\<close>, \<^verbatim>\<open>cleanup.rs\<close>)
  and the work pull of a daemon (\<open>get_pending_work\<close> in
  \<^verbatim>\<open>backend/src/server/daemons/service/processing.rs\<close>).

  The state holds the live sessions, each daemon's queue of session ids, the session of each
  discovery, pending cancellations, the networks reserved for a snapshot, the last update of
  each session, and the discovery rows of the database. A hash map of sessions is a list with
  distinct ids: where the code iterates over the map, the order is that of the list. Events and
  broadcasts are not part of the state. The fresh ids, the clock, and what other services answer
  (the name of a network, whether a credential may be assigned to a network, whether the
  migration of credentials succeeds, whether a daemon still exists) are arguments.

  Each handler is one step: where a handler takes its locks one after the other, what other
  handlers do in between is not part of the model. Two handlers are also given in halves, the
  release of a snapshot reservation (\<open>drop_reservation\<close>, \<open>promote_awaiting\<close>) and the reaping of
  stalled sessions (\<open>request_cancellations\<close>, \<open>reap_all\<close>), so that other handlers can run between
  the halves.
\<close>

section \<open>State\<close>

record manager =
  m_sessions :: "session list"
  m_queue :: "uuid \<Rightarrow> uuid list"
  m_by_discovery :: "(uuid \<times> uuid) list"
  m_cancellations :: "uuid \<Rightarrow> (bool \<times> uuid) option"
  m_snapshots :: "uuid list"
  m_last_updated :: "uuid \<Rightarrow> datetime option"
  m_rows :: "Discovery list"

record manager_env =
  network_name :: "uuid \<Rightarrow> string option"
  targets_network :: "uuid \<Rightarrow> bool"
  merge_network_credentials_ok :: "uuid \<Rightarrow> uuid list \<Rightarrow> bool"
  snmp_credentials_ok :: "uuid \<Rightarrow> bool"
  daemon_exists :: "uuid \<Rightarrow> bool"

datatype session_error =
    SessionConflict | SnmpLookupFailed | SessionNotFound uuid | SessionStarting

definition empty_manager :: manager where
  "empty_manager = \<lparr>m_sessions = [], m_queue = (\<lambda>_. []), m_by_discovery = [], m_cancellations = (\<lambda>_. None),
     m_snapshots = [], m_last_updated = (\<lambda>_. None), m_rows = []\<rparr>"

definition put_session :: "session list \<Rightarrow> session \<Rightarrow> session list" where
  "put_session ss s = (if session_id s \<in> set (map session_id ss) then update_row session_id ss s else ss @ [s])"

definition set_phase :: "session list \<Rightarrow> uuid \<Rightarrow> DiscoveryPhase \<Rightarrow> session list" where
  "set_phase ss i p = map (\<lambda>s. if session_id s = i then s\<lparr>phase := p\<rparr> else s) ss"

definition map_put :: "('k \<times> 'v) list \<Rightarrow> 'k \<Rightarrow> 'v \<Rightarrow> ('k \<times> 'v) list" where
  "map_put m k v = (k, v) # filter (\<lambda>(k', _). k' \<noteq> k) m"

section \<open>Lookups\<close>

definition get_session :: "manager \<Rightarrow> uuid \<Rightarrow> session option" where
  "get_session st i = get_by_id session_id (m_sessions st) i"

definition get_all_sessions :: "manager \<Rightarrow> uuid list \<Rightarrow> session list" where
  "get_all_sessions st networks =
     filter (\<lambda>s. ses_network_id s \<in> set networks \<and> \<not> is_terminal (phase s)) (m_sessions st)"

definition get_sessions_for_daemon :: "manager \<Rightarrow> uuid \<Rightarrow> session list" where
  "get_sessions_for_daemon st daemon =
     filter (\<lambda>s. phase s = Pending) (List.map_filter (get_session st) (m_queue st daemon))"

definition has_active_session_for_daemon :: "manager \<Rightarrow> uuid \<Rightarrow> bool" where
  "has_active_session_for_daemon st daemon =
     list_ex (\<lambda>i. case get_session st i of
         Some s \<Rightarrow> \<not> is_terminal (phase s) \<and> phase s \<noteq> Queued \<and> phase s \<noteq> Pending
       | None \<Rightarrow> False) (m_queue st daemon)"

definition has_active_session_for_discovery :: "manager \<Rightarrow> uuid \<Rightarrow> bool" where
  "has_active_session_for_discovery st d \<longleftrightarrow> d \<in> fst ` set (m_by_discovery st)"

definition lookup_discovery_id :: "manager \<Rightarrow> uuid \<Rightarrow> uuid option" where
  "lookup_discovery_id st i = map_option fst (find (\<lambda>(_, sid). sid = i) (m_by_discovery st))"

definition get_integration_targets_for_session :: "manager \<Rightarrow> uuid \<Rightarrow> IntegrationTarget list" where
  "get_integration_targets_for_session st i =
     (case Option.bind (lookup_discovery_id st i) (get_by_id disc_id (m_rows st)) of
        Some d \<Rightarrow> integration_targets d | None \<Rightarrow> [])"

section \<open>Simple transitions\<close>

definition clear_sessions_for_daemon :: "manager \<Rightarrow> uuid \<Rightarrow> manager" where
  "clear_sessions_for_daemon st daemon =
     (let ids = m_queue st daemon in
      st\<lparr>m_sessions := filter (\<lambda>s. session_id s \<notin> set ids) (m_sessions st),
         m_queue := (m_queue st)(daemon := []),
         m_last_updated := (\<lambda>i. if i \<in> set ids then None else m_last_updated st i),
         m_by_discovery := filter (\<lambda>(_, i). i \<notin> set ids) (m_by_discovery st),
         m_cancellations := (m_cancellations st)(daemon := None)\<rparr>)"

definition transition_session_to_starting :: "datetime \<Rightarrow> manager \<Rightarrow> uuid \<Rightarrow> manager" where
  "transition_session_to_starting now st i =
     (case get_session st i of
        Some s \<Rightarrow> if phase s = Pending
                  then st\<lparr>m_sessions := set_phase (m_sessions st) i Starting,
                          m_last_updated := (m_last_updated st)(i := Some now)\<rparr>
                  else st
      | None \<Rightarrow> st)"

definition try_acquire_network_for_snapshot :: "manager \<Rightarrow> uuid \<Rightarrow> manager \<times> bool" where
  "try_acquire_network_for_snapshot st network =
     (if network \<in> set (m_snapshots st) then (st, False)
      else if list_ex (\<lambda>s. ses_network_id s = network \<and> \<not> is_terminal (phase s)) (m_sessions st) then (st, False)
      else (st\<lparr>m_snapshots := network # m_snapshots st\<rparr>, True))"

definition drop_reservation :: "manager \<Rightarrow> uuid \<Rightarrow> manager" where
  "drop_reservation st network = st\<lparr>m_snapshots := filter (\<lambda>n. n \<noteq> network) (m_snapshots st)\<rparr>"

definition daemon_has_other_active :: "manager \<Rightarrow> uuid \<Rightarrow> uuid \<Rightarrow> bool" where
  "daemon_has_other_active st daemon i =
     list_ex (\<lambda>sid. sid \<noteq> i \<and>
        (case get_session st sid of
           Some s \<Rightarrow> \<not> is_terminal (phase s) \<and> phase s \<noteq> Queued \<and> phase s \<noteq> AwaitingSnapshot
         | None \<Rightarrow> False)) (m_queue st daemon)"

definition unblock_session :: "datetime \<Rightarrow> manager \<Rightarrow> uuid \<Rightarrow> manager" where
  "unblock_session now st i =
     (case get_session st i of
        None \<Rightarrow> st
      | Some s \<Rightarrow>
          if daemon_has_other_active st (ses_daemon_id s) i
          then st\<lparr>m_sessions := set_phase (m_sessions st) i Queued\<rparr>
          else st\<lparr>m_sessions := set_phase (m_sessions st) i Pending,
                  m_last_updated := (m_last_updated st)(i := Some now)\<rparr>)"

definition promote_awaiting :: "datetime \<Rightarrow> manager \<Rightarrow> uuid \<Rightarrow> manager" where
  "promote_awaiting now st network =
     foldl (unblock_session now) st
       (map session_id (filter (\<lambda>s. ses_network_id s = network \<and> phase s = AwaitingSnapshot) (m_sessions st)))"

definition release_network_for_snapshot :: "datetime \<Rightarrow> manager \<Rightarrow> uuid \<Rightarrow> manager" where
  "release_network_for_snapshot now st network = promote_awaiting now (drop_reservation st network) network"

definition pull_cancellation_for_daemon :: "manager \<Rightarrow> uuid \<Rightarrow> manager \<times> (bool \<times> uuid)" where
  "pull_cancellation_for_daemon st daemon =
     (st\<lparr>m_cancellations := (m_cancellations st)(daemon := None)\<rparr>,
      case m_cancellations st daemon of Some c \<Rightarrow> c | None \<Rightarrow> (False, nil_uuid))"

definition append_historical_warnings :: "manager \<Rightarrow> uuid \<Rightarrow> string list \<Rightarrow> manager" where
  "append_historical_warnings st i ls =
     (if ls = [] then st
      else case find (\<lambda>d. case run_type d of Historical s \<Rightarrow> session_id s = i | _ \<Rightarrow> False) (m_rows st) of
        None \<Rightarrow> st
      | Some d \<Rightarrow>
          (case run_type d of
             Historical s \<Rightarrow> st\<lparr>m_rows := update_row disc_id (m_rows st)
               (d\<lparr>run_type := Historical (s\<lparr>ses_warnings := ses_warnings s @ ls\<rparr>)\<rparr>)\<rparr>
           | _ \<Rightarrow> st))"

section \<open>Starting a session\<close>

fun with_full_scan :: "Discovery \<Rightarrow> DiscoveryType \<Rightarrow> DiscoveryType" where
  "with_full_scan d (Unified h subnets fallback settings) =
     Unified h subnets fallback
       (settings\<lparr>is_full_scan := full_scan_due (force_full_scan d) (full_scan_interval settings) (scan_count d)\<rparr>)"
| "with_full_scan d t = t"

fun is_network_discovery :: "DiscoveryType \<Rightarrow> bool" where
  "is_network_discovery (NetworkDiscovery _ _) = True"
| "is_network_discovery _ = False"

text \<open>
  The second half of \<open>start_session\<close>: the session is entered in the map of discoveries, the
  session map and the queue of its daemon. \<open>blocked\<close> and \<open>busy\<close> are what the handler has read:
  whether the network is reserved and whether the daemon has sessions. The lock of the queues is
  released between the reading of \<open>busy\<close> and the writes, so another start can come in between.
\<close>

definition admit_session ::
    "datetime \<Rightarrow> uuid \<Rightarrow> bool \<Rightarrow> bool \<Rightarrow> manager \<Rightarrow> Discovery \<Rightarrow> manager \<times> session" where
  "admit_session now new_id blocked busy st d =
     (let payload = new_session new_id (disc_daemon_id d) (disc_network_id d)
                      (with_full_scan d (disc_type d)) (Some (disc_id d));
          s = (if blocked then payload\<lparr>phase := AwaitingSnapshot\<rparr>
               else if \<not> busy then payload\<lparr>phase := Pending\<rparr> else payload)
      in (st\<lparr>m_by_discovery := map_put (m_by_discovery st) (disc_id d) new_id,
             m_last_updated := (if \<not> blocked \<and> \<not> busy then (m_last_updated st)(new_id := Some now)
                                else m_last_updated st),
             m_sessions := put_session (m_sessions st) s,
             m_queue := (m_queue st)(disc_daemon_id d := m_queue st (disc_daemon_id d) @ [new_id])\<rparr>,
          s))"

definition start_session ::
    "manager_env \<Rightarrow> datetime \<Rightarrow> uuid \<Rightarrow> manager \<Rightarrow> Discovery \<Rightarrow> manager \<times> (session_error, session) result" where
  "start_session E now new_id st d0 =
     (if disc_id d0 \<in> fst ` set (m_by_discovery st) then (st, Err SessionConflict)
      else
        let d = d0\<lparr>run_type := set_last_run (run_type d0) now, disc_updated_at := now\<rparr>;
            st1 = st\<lparr>m_rows := update_row disc_id (m_rows st) d\<rparr>
        in if is_network_discovery (disc_type d) \<and> \<not> snmp_credentials_ok E (disc_network_id d)
           then (st1, Err SnmpLookupFailed)
           else
        let blocked = disc_network_id d \<in> set (m_snapshots st1);
            busy = m_queue st1 (disc_daemon_id d) \<noteq> [];
            (st2, s) = admit_session now new_id blocked busy st1 d
        in (st2, Ok s))"

section \<open>Finishing a session\<close>

definition partition_network_promotable :: "manager_env \<Rightarrow> uuid list \<Rightarrow> uuid list \<times> uuid list" where
  "partition_network_promotable E ids = (filter (targets_network E) ids, filter (\<lambda>c. \<not> targets_network E c) ids)"

definition finalize_successful_scan :: "manager_env \<Rightarrow> datetime \<Rightarrow> manager \<Rightarrow> uuid \<Rightarrow> manager" where
  "finalize_successful_scan E now st i =
     (case get_by_id disc_id (m_rows st) i of
        None \<Rightarrow> st
      | Some parent \<Rightarrow>
          let (taken, network_scope) = take_network_scope_credential_ids parent;
              promotable = fst (partition_network_promotable E network_scope);
              failed = (promotable \<noteq> [] \<and> \<not> merge_network_credentials_ok E (disc_network_id parent) promotable);
              applied = apply_successful_scan taken;
              kept = (if failed then applied\<lparr>integration_targets := map NetworkTarget promotable\<rparr> else applied)
          in st\<lparr>m_rows := update_row disc_id (m_rows st) (kept\<lparr>disc_updated_at := now\<rparr>)\<rparr>)"

definition historical_name :: "manager_env \<Rightarrow> session \<Rightarrow> string" where
  "historical_name E s =
     (if is_unified (ses_type s) then ''Discovery''
      else discovery_type_display (ses_type s) @ '' '' @ [CHR 0xE2, CHR 0x80, CHR 0x94] @ '' ''
             @ (case network_name E (ses_network_id s) of Some n \<Rightarrow> n | None \<Rightarrow> ''Unknown Network''))"

definition historical_row :: "manager_env \<Rightarrow> datetime \<Rightarrow> uuid \<Rightarrow> string option \<Rightarrow> session \<Rightarrow> Discovery" where
  "historical_row E now new_id rescan_name s =
     \<lparr>disc_id = new_id, disc_created_at = (case started_at s of Some t \<Rightarrow> t | None \<Rightarrow> now),
      disc_updated_at = now, disc_type = ses_type s, run_type = Historical s,
      disc_name = (case rescan_name of Some n \<Rightarrow> n | None \<Rightarrow> historical_name E s),
      disc_daemon_id = ses_daemon_id s, disc_network_id = ses_network_id s,
      scan_count = 0, force_full_scan = False, integration_targets = []\<rparr>"

definition promote_first :: "datetime \<Rightarrow> manager \<Rightarrow> uuid \<Rightarrow> manager" where
  "promote_first now st daemon =
     (case m_queue st daemon of
        [] \<Rightarrow> st
      | i # _ \<Rightarrow>
          (case get_session st i of
             None \<Rightarrow> st
           | Some _ \<Rightarrow> st\<lparr>m_sessions := set_phase (m_sessions st) i Pending,
                          m_last_updated := (m_last_updated st)(i := Some now)\<rparr>))"

definition dequeue :: "manager \<Rightarrow> uuid \<Rightarrow> uuid \<Rightarrow> manager" where
  "dequeue st daemon i = st\<lparr>m_queue := (m_queue st)(daemon := filter (\<lambda>j. j \<noteq> i) (m_queue st daemon))\<rparr>"

definition forget_session :: "manager \<Rightarrow> uuid \<Rightarrow> manager" where
  "forget_session st i =
     st\<lparr>m_sessions := delete_row session_id (m_sessions st) i,
        m_by_discovery := filter (\<lambda>(_, j). j \<noteq> i) (m_by_discovery st)\<rparr>"

definition record_history :: "manager_env \<Rightarrow> datetime \<Rightarrow> uuid \<Rightarrow> manager \<Rightarrow> session \<Rightarrow> manager" where
  "record_history E now new_id st s =
     (let is_rescan = (rescan_target_host_id (ses_type s) \<noteq> None);
          parent = lookup_discovery_id st (session_id s);
          rescan_name = (if is_rescan
            then map_option disc_name (Option.bind parent (get_by_id disc_id (m_rows st))) else None);
          st1 = (case parent of
                   Some p \<Rightarrow> if phase s = Complete \<and> \<not> is_rescan then finalize_successful_scan E now st p else st
                 | None \<Rightarrow> st);
          st2 = (case create_row disc_id (m_rows st1) (historical_row E now new_id rescan_name s) of
                   Inr rows \<Rightarrow> st1\<lparr>m_rows := rows\<rparr> | Inl _ \<Rightarrow> st1)
      in case parent of
           Some p \<Rightarrow> if is_rescan then st2\<lparr>m_rows := delete_row disc_id (m_rows st2) p\<rparr> else st2
         | None \<Rightarrow> st2)"

definition finish_session :: "manager_env \<Rightarrow> datetime \<Rightarrow> uuid \<Rightarrow> manager \<Rightarrow> session \<Rightarrow> manager" where
  "finish_session E now new_id st s =
     (let st1 = fst (pull_cancellation_for_daemon st (ses_daemon_id s));
          st2 = record_history E now new_id st1 s;
          st3 = promote_first now (dequeue st2 (ses_daemon_id s) (session_id s)) (ses_daemon_id s)
      in forget_session st3 (session_id s))"

definition auto_create :: "manager \<Rightarrow> session \<Rightarrow> manager" where
  "auto_create st u =
     st\<lparr>m_queue := (m_queue st)(ses_daemon_id u := m_queue st (ses_daemon_id u) @ [session_id u]),
        m_by_discovery := (case ses_discovery_id u of
            Some d \<Rightarrow> map_put (m_by_discovery st) d (session_id u) | None \<Rightarrow> m_by_discovery st),
        m_sessions := put_session (m_sessions st) u\<rparr>"

definition update_session :: "manager_env \<Rightarrow> datetime \<Rightarrow> uuid \<Rightarrow> manager \<Rightarrow> session \<Rightarrow> manager" where
  "update_session E now new_id st u0 =
     (let u = (if ses_discovery_id u0 = None
               then u0\<lparr>ses_discovery_id := lookup_discovery_id st (session_id u0)\<rparr> else u0);
          already_seen = (m_last_updated st (session_id u) \<noteq> None);
          st1 = st\<lparr>m_last_updated := (m_last_updated st)(session_id u := Some now)\<rparr>
      in if get_session st1 (session_id u) = None \<and> is_terminal (phase u) \<and> already_seen then st1
         else
           let st2 = (if get_session st1 (session_id u) = None then auto_create st1 u else st1);
               st3 = st2\<lparr>m_sessions := put_session (m_sessions st2) u\<rparr>
           in if is_terminal (phase u) then finish_session E now new_id st3 u else st3)"

section \<open>Cancelling\<close>

definition cancel_session :: "datetime \<Rightarrow> manager \<Rightarrow> uuid \<Rightarrow> manager \<times> (session_error, unit) result" where
  "cancel_session now st i =
     (case get_session st i of
        None \<Rightarrow> (st, Err (SessionNotFound i))
      | Some s \<Rightarrow>
          let daemon = ses_daemon_id s; discovery = lookup_discovery_id st i;
              is_rescan = (rescan_target_host_id (ses_type s) \<noteq> None) in
          if phase s \<in> {Queued, Pending, AwaitingSnapshot} then
            (let st1 = dequeue (st\<lparr>m_sessions := delete_row session_id (m_sessions st) i\<rparr>) daemon i;
                 st2 = (if phase s = Pending then promote_first now st1 daemon else st1);
                 st3 = st2\<lparr>m_by_discovery := filter (\<lambda>(_, j). j \<noteq> i) (m_by_discovery st2)\<rparr>
             in (case discovery of
                   Some d \<Rightarrow> if is_rescan then st3\<lparr>m_rows := delete_row disc_id (m_rows st3) d\<rparr> else st3
                 | None \<Rightarrow> st3, Ok ()))
          else if phase s = Starting then (st, Err SessionStarting)
          else if phase s \<in> {Started, Scanning}
            then (st\<lparr>m_cancellations := (m_cancellations st)(daemon := Some (True, i))\<rparr>, Ok ())
          else (st, Ok ()))"

section \<open>Cleaning up\<close>

definition cleanup_old_session :: "manager \<Rightarrow> session \<Rightarrow> manager" where
  "cleanup_old_session st s =
     (let st1 = st\<lparr>m_cancellations := (m_cancellations st)(ses_daemon_id s := None)\<rparr>
      in forget_session (dequeue st1 (ses_daemon_id s) (session_id s)) (session_id s))"

definition cleanup_old_sessions :: "datetime \<Rightarrow> manager \<Rightarrow> manager" where
  "cleanup_old_sessions cutoff st =
     foldl cleanup_old_session st
       (filter (\<lambda>s. case finished_at s of Some t \<Rightarrow> t < cutoff | None \<Rightarrow> False) (m_sessions st))"

definition stall_threshold :: int where
  "stall_threshold = 300 * 1000000000"

definition is_stalled :: "datetime \<Rightarrow> manager \<Rightarrow> session \<Rightarrow> bool" where
  "is_stalled now st s \<longleftrightarrow> can_be_cleaned_up (phase s) \<and>
     (case m_last_updated st (session_id s) of
        Some t \<Rightarrow> now - t > stall_threshold
      | None \<Rightarrow> (case started_at s of Some t \<Rightarrow> now - t > stall_threshold | None \<Rightarrow> True))"

definition stalled_sessions :: "datetime \<Rightarrow> manager \<Rightarrow> session list" where
  "stalled_sessions now st = filter (is_stalled now st) (m_sessions st)"

definition request_cancellations :: "manager \<Rightarrow> session list \<Rightarrow> manager" where
  "request_cancellations st stalled =
     st\<lparr>m_cancellations := foldl (\<lambda>c s. c(ses_daemon_id s := Some (True, session_id s))) (m_cancellations st) stalled\<rparr>"

definition promote_if_queued :: "datetime \<Rightarrow> manager \<Rightarrow> uuid \<Rightarrow> manager" where
  "promote_if_queued now st daemon =
     (case m_queue st daemon of
        [] \<Rightarrow> st
      | i # _ \<Rightarrow>
          (case get_session st i of
             Some s \<Rightarrow> if phase s = Queued
                       then st\<lparr>m_sessions := set_phase (m_sessions st) i Pending,
                               m_last_updated := (m_last_updated st)(i := Some now)\<rparr>
                       else st
           | None \<Rightarrow> st))"

definition reap_stalled :: "manager_env \<Rightarrow> datetime \<Rightarrow> (uuid \<Rightarrow> uuid) \<Rightarrow> manager \<Rightarrow> uuid \<Rightarrow> manager" where
  "reap_stalled E now new_id st i =
     (case get_session st i of
        None \<Rightarrow> st
      | Some s \<Rightarrow>
          let daemon = ses_daemon_id s;
              failed = s\<lparr>phase := Failed,
                ses_error := Some ''Session stalled - no updates received from daemon for more than 5 minutes'',
                finished_at := Some now\<rparr>;
              st1 = st\<lparr>m_sessions := delete_row session_id (m_sessions st) i\<rparr>;
              st2 = promote_if_queued now (dequeue st1 daemon i) daemon;
              st3 = st2\<lparr>m_by_discovery := filter (\<lambda>(_, j). j \<noteq> i) (m_by_discovery st2),
                        m_last_updated := (m_last_updated st2)(i := None),
                        m_cancellations := (case m_cancellations st2 daemon of
                            Some (_, c) \<Rightarrow> if c = i then (m_cancellations st2)(daemon := None) else m_cancellations st2
                          | None \<Rightarrow> m_cancellations st2)\<rparr>
          in if daemon_exists E daemon
             then (case create_row disc_id (m_rows st3) (historical_row E now (new_id i) None failed) of
                     Inr rows \<Rightarrow> st3\<lparr>m_rows := rows\<rparr> | Inl _ \<Rightarrow> st3)
             else st3)"

definition evict_tombstones :: "datetime \<Rightarrow> manager \<Rightarrow> manager" where
  "evict_tombstones now st =
     st\<lparr>m_last_updated := (\<lambda>i. case m_last_updated st i of
         Some t \<Rightarrow> if i \<in> session_id ` set (m_sessions st) \<or> now - t < stall_threshold then Some t else None
       | None \<Rightarrow> None)\<rparr>"

definition reap_all :: "manager_env \<Rightarrow> datetime \<Rightarrow> (uuid \<Rightarrow> uuid) \<Rightarrow> manager \<Rightarrow> session list \<Rightarrow> manager" where
  "reap_all E now new_id st stalled =
     evict_tombstones now (foldl (reap_stalled E now new_id) st (map session_id stalled))"

definition cleanup_stalled_sessions :: "manager_env \<Rightarrow> datetime \<Rightarrow> (uuid \<Rightarrow> uuid) \<Rightarrow> manager \<Rightarrow> manager" where
  "cleanup_stalled_sessions E now new_id st =
     (let stalled = stalled_sessions now st in
      if stalled = [] then st
      else reap_all E now new_id (request_cancellations st stalled) stalled)"

definition sweep_orphaned_rescans :: "datetime \<Rightarrow> manager \<Rightarrow> manager" where
  "sweep_orphaned_rescans cutoff st =
     (let orphaned = filter (\<lambda>d. rescan_target_host_id (disc_type d) \<noteq> None \<and> disc_updated_at d < cutoff) (m_rows st);
          ids = map disc_id (filter (\<lambda>d. disc_id d \<notin> fst ` set (m_by_discovery st)) orphaned)
      in st\<lparr>m_rows := foldl (delete_row disc_id) (m_rows st) ids\<rparr>)"

section \<open>Handing out work\<close>

definition start_initial_discovery_sessions ::
    "manager_env \<Rightarrow> datetime \<Rightarrow> (uuid \<Rightarrow> uuid) \<Rightarrow> manager \<Rightarrow> uuid \<Rightarrow> manager" where
  "start_initial_discovery_sessions E now new_id st daemon =
     foldl (\<lambda>st' d. if never_ran (run_type d) then fst (start_session E now (new_id (disc_id d)) st' d) else st') st
       (filter (\<lambda>d. disc_daemon_id d = daemon \<and> is_live_config (run_type d)
                    \<and> rescan_target_host_id (disc_type d) = None) (m_rows st))"

definition get_pending_work ::
    "manager_env \<Rightarrow> datetime \<Rightarrow> (uuid \<Rightarrow> uuid) \<Rightarrow> manager \<Rightarrow> uuid \<Rightarrow> manager \<times> session option" where
  "get_pending_work E now new_id st daemon =
     (if has_active_session_for_daemon st daemon then (st, None)
      else let st1 = start_initial_discovery_sessions E now new_id st daemon in
        case get_sessions_for_daemon st1 daemon of
          [] \<Rightarrow> (st1, None)
        | work # _ \<Rightarrow> (transition_session_to_starting now st1 (session_id work), Some work))"

end
