(* ===== verification/Session_Invariants.thy ===== *)
theory Session_Invariants
  imports Discovery_Sessions
begin

text \<open>
  What the handlers of the session manager keep true. \<open>session_inv\<close> is the agreement between the
  session map, the daemons' queues, the session of each discovery and the stall clocks; every
  handler keeps it, whatever a daemon reports, as long as a report about a known session names
  the daemon the session was queued for. Handlers are built from three edits of the state (relabel
  a session, add one, remove one), each with its own preservation lemma.
\<close>

section \<open>Reading the session map\<close>

named_theorems session_simps \<open>lookups after an edit of the session map\<close>

lemma get_set_phase [session_simps]:
  "get_by_id session_id (set_phase ss i p) j =
     (if j = i then map_option (\<lambda>s. s\<lparr>phase := p\<rparr>) (get_by_id session_id ss j) else get_by_id session_id ss j)"
  by (induction ss) (auto simp: get_by_id_def set_phase_def)

lemma ids_set_phase [session_simps]: "map session_id (set_phase ss i p) = map session_id ss"
  by (induction ss) (auto simp: set_phase_def)

lemma wf_set_phase [session_simps]: "wf_table session_id (set_phase ss i p) = wf_table session_id ss"
  by (simp add: wf_table_def ids_set_phase)

lemma get_put_session [session_simps]:
  "get_by_id session_id (put_session ss s) j = (if j = session_id s then Some s else get_by_id session_id ss j)"
proof (cases "session_id s \<in> session_id ` set ss")
  case True
  then have "get_by_id session_id ss (session_id s) \<noteq> None" by (simp add: get_by_id_None)
  then show ?thesis using True by (simp add: put_session_def get_by_id_update_row)
next
  case False
  then have "get_by_id session_id ss (session_id s) = None" by (simp add: get_by_id_None)
  then show ?thesis using False by (auto simp: put_session_def get_by_id_append split: option.splits)
qed

lemma wf_put_session [session_simps]: "wf_table session_id ss \<Longrightarrow> wf_table session_id (put_session ss s)"
  by (auto simp: put_session_def wf_table_def map_key_update_row)

lemma wf_delete_session [session_simps]: "wf_table key ss \<Longrightarrow> wf_table key (delete_row key ss i)"
  by (simp add: wf_table_def delete_row_def distinct_map_filter)

lemma session_mem_iff:
  "wf_table session_id (m_sessions st) \<Longrightarrow>
   s \<in> set (m_sessions st) \<longleftrightarrow> get_session st (session_id s) = Some s"
  by (auto simp: get_session_def get_by_id_Some)

lemma get_session_frame [session_simps]:
  "get_session (st\<lparr>m_rows := r\<rparr>) i = get_session st i"
  "get_session (st\<lparr>m_cancellations := c\<rparr>) i = get_session st i"
  "get_session (st\<lparr>m_snapshots := n\<rparr>) i = get_session st i"
  "get_session (st\<lparr>m_last_updated := f\<rparr>) i = get_session st i"
  by (simp_all add: get_session_def)

lemma get_session_id: "get_session st i = Some s \<Longrightarrow> session_id s = i"
  by (auto simp: get_session_def dest: get_by_id_mem)

lemma set_phase_delete_row:
  "delete_row session_id (set_phase ss j p) i = set_phase (delete_row session_id ss i) j p"
  by (induction ss) (auto simp: set_phase_def delete_row_def)

lemma fst_map_put [simp]: "fst ` set (map_put m k v) = insert k (fst ` set m)"
  by (auto simp: map_put_def image_iff)

lemma map_put_distinct:
  "distinct (map fst m) \<Longrightarrow> distinct (map fst (map_put m k v))"
  by (auto simp: map_put_def distinct_map_filter)

lemma map_put_distinct_values:
  "distinct (map snd m) \<Longrightarrow> v \<notin> snd ` set m \<Longrightarrow> distinct (map snd (map_put m k v))"
  by (auto simp: map_put_def distinct_map_filter image_iff)

lemma set_map_put: "set (map_put m k v) \<subseteq> insert (k, v) (set m)"
  by (auto simp: map_put_def)

section \<open>The invariant\<close>

definition session_inv :: "manager \<Rightarrow> bool" where
  "session_inv st \<longleftrightarrow>
     wf_table session_id (m_sessions st) \<and>
     (\<forall>d. distinct (m_queue st d)) \<and>
     (\<forall>d i. i \<in> set (m_queue st d) \<longleftrightarrow> (\<exists>s. get_session st i = Some s \<and> ses_daemon_id s = d)) \<and>
     (\<forall>i s. get_session st i = Some s \<longrightarrow>
        \<not> is_terminal (phase s) \<and> (can_be_cleaned_up (phase s) \<longrightarrow> m_last_updated st i \<noteq> None)) \<and>
     distinct (map fst (m_by_discovery st)) \<and> distinct (map snd (m_by_discovery st)) \<and>
     (\<forall>e \<in> set (m_by_discovery st). get_session st (snd e) \<noteq> None)"

lemma session_inv_empty: "session_inv empty_manager"
  by (simp add: session_inv_def empty_manager_def wf_table_def get_session_def get_by_id_def)

text \<open>The three edits.\<close>

definition relabel :: "datetime \<Rightarrow> manager \<Rightarrow> uuid \<Rightarrow> DiscoveryPhase \<Rightarrow> manager" where
  "relabel now st i p =
     st\<lparr>m_sessions := set_phase (m_sessions st) i p, m_last_updated := (m_last_updated st)(i := Some now)\<rparr>"

definition remove_session :: "manager \<Rightarrow> uuid \<Rightarrow> uuid \<Rightarrow> manager" where
  "remove_session st d i = forget_session (dequeue st d i) i"

definition add_session :: "manager \<Rightarrow> (uuid \<times> uuid) list \<Rightarrow> session \<Rightarrow> manager" where
  "add_session st by s =
     st\<lparr>m_queue := (m_queue st)(ses_daemon_id s := m_queue st (ses_daemon_id s) @ [session_id s]),
        m_by_discovery := by, m_sessions := put_session (m_sessions st) s\<rparr>"

lemma get_relabel [session_simps]:
  "get_session (relabel now st i p) j =
     (if j = i then map_option (\<lambda>s. s\<lparr>phase := p\<rparr>) (get_session st j) else get_session st j)"
  by (simp add: get_session_def relabel_def get_set_phase)

lemma get_remove [session_simps]:
  "get_session (remove_session st d i) j = (if j = i then None else get_session st j)"
  by (simp add: get_session_def remove_session_def forget_session_def dequeue_def get_by_id_delete_row)

lemma get_add [session_simps]:
  "get_session (add_session st by s) j = (if j = session_id s then Some s else get_session st j)"
  by (simp add: get_session_def add_session_def get_put_session)

lemma relabel_fields [session_simps]:
  "m_queue (relabel now st i p) = m_queue st" "m_by_discovery (relabel now st i p) = m_by_discovery st"
  "m_last_updated (relabel now st i p) = (m_last_updated st)(i := Some now)"
  "m_snapshots (relabel now st i p) = m_snapshots st" "m_rows (relabel now st i p) = m_rows st"
  "m_cancellations (relabel now st i p) = m_cancellations st"
  "wf_table session_id (m_sessions (relabel now st i p)) = wf_table session_id (m_sessions st)"
  by (simp_all add: relabel_def wf_set_phase)

lemma remove_fields [session_simps]:
  "m_queue (remove_session st d i) = (m_queue st)(d := filter (\<lambda>j. j \<noteq> i) (m_queue st d))"
  "m_by_discovery (remove_session st d i) = filter (\<lambda>(_, j). j \<noteq> i) (m_by_discovery st)"
  "m_last_updated (remove_session st d i) = m_last_updated st"
  "m_snapshots (remove_session st d i) = m_snapshots st" "m_rows (remove_session st d i) = m_rows st"
  "wf_table session_id (m_sessions st) \<Longrightarrow> wf_table session_id (m_sessions (remove_session st d i))"
  by (simp_all add: remove_session_def forget_session_def dequeue_def wf_delete_session)

lemma add_fields [session_simps]:
  "m_queue (add_session st by s) = (m_queue st)(ses_daemon_id s := m_queue st (ses_daemon_id s) @ [session_id s])"
  "m_by_discovery (add_session st by s) = by"
  "m_last_updated (add_session st by s) = m_last_updated st"
  "m_snapshots (add_session st by s) = m_snapshots st" "m_rows (add_session st by s) = m_rows st"
  "wf_table session_id (m_sessions st) \<Longrightarrow> wf_table session_id (m_sessions (add_session st by s))"
  by (simp_all add: add_session_def wf_put_session)

lemma session_inv_relabel:
  "session_inv st \<Longrightarrow> \<not> is_terminal p \<Longrightarrow> session_inv (relabel now st i p)"
  unfolding session_inv_def session_simps by (auto split: if_splits)

lemma session_inv_remove:
  assumes inv: "session_inv st" and d: "\<And>s. get_session st i = Some s \<Longrightarrow> ses_daemon_id s = d"
  shows "session_inv (remove_session st d i)"
proof -
  have q: "i \<in> set (m_queue st e) \<Longrightarrow> e = d" for e
    using inv d unfolding session_inv_def by auto
  show ?thesis using inv q remove_fields(6) [of st d i] unfolding session_inv_def session_simps
    by (auto simp: distinct_map_filter split: if_splits)
qed

lemma session_inv_add:
  assumes inv: "session_inv st" and new: "get_session st (session_id s) = None"
    and ph: "\<not> is_terminal (phase s)"
    and clock: "can_be_cleaned_up (phase s) \<longrightarrow> m_last_updated st (session_id s) \<noteq> None"
    and byd: "by = m_by_discovery st \<or> (\<exists>k. by = map_put (m_by_discovery st) k (session_id s))"
  shows "session_inv (add_session st by s)"
proof -
  have notin: "session_id s \<notin> set (m_queue st d)" for d
    using inv new unfolding session_inv_def by auto
  have nov: "session_id s \<notin> snd ` set (m_by_discovery st)"
    using inv new unfolding session_inv_def by force
  have bydist: "distinct (map fst by)" "distinct (map snd by)"
    using byd inv nov map_put_distinct map_put_distinct_values unfolding session_inv_def by auto
  have "e \<in> set by \<Longrightarrow> snd e = session_id s \<or> e \<in> set (m_by_discovery st)" for e
    using byd set_map_put [of "m_by_discovery st"] by fastforce
  then have byset: "\<forall>e \<in> set by. snd e \<noteq> session_id s \<longrightarrow> get_session st (snd e) \<noteq> None"
    using inv unfolding session_inv_def by blast
  show ?thesis
    using inv notin new ph clock bydist byset add_fields(6) [of st "by" s]
    unfolding session_inv_def session_simps by (auto split: if_splits)
qed

text \<open>Fields the invariant does not read.\<close>

lemma session_inv_frame [session_simps]:
  "session_inv (st\<lparr>m_rows := r\<rparr>) = session_inv st"
  "session_inv (st\<lparr>m_cancellations := c\<rparr>) = session_inv st"
  "session_inv (st\<lparr>m_snapshots := n\<rparr>) = session_inv st"
  by (simp_all add: session_inv_def get_session_def)

lemma session_inv_clock:
  assumes "session_inv st" and "\<And>i. get_session st i \<noteq> None \<Longrightarrow> m_last_updated st i \<noteq> None \<Longrightarrow> f i \<noteq> None"
  shows "session_inv (st\<lparr>m_last_updated := f\<rparr>)"
  using assms by (auto simp: session_inv_def get_session_def)

section \<open>The handlers\<close>

lemma promote_first_eq:
  "promote_first now st d =
     (case m_queue st d of [] \<Rightarrow> st
      | i # _ \<Rightarrow> if get_session st i = None then st else relabel now st i Pending)"
  by (auto simp: promote_first_def relabel_def split: list.splits option.splits)

lemma promote_if_queued_eq:
  "promote_if_queued now st d =
     (case m_queue st d of [] \<Rightarrow> st
      | i # _ \<Rightarrow> (case get_session st i of
          Some s \<Rightarrow> if phase s = Queued then relabel now st i Pending else st | None \<Rightarrow> st))"
  by (auto simp: promote_if_queued_def relabel_def split: list.splits option.splits)

lemma session_inv_promote_first: "session_inv st \<Longrightarrow> session_inv (promote_first now st d)"
  by (auto simp: promote_first_eq session_inv_relabel is_terminal_def split: list.splits)

lemma session_inv_promote_if_queued: "session_inv st \<Longrightarrow> session_inv (promote_if_queued now st d)"
  by (auto simp: promote_if_queued_eq session_inv_relabel is_terminal_def split: list.splits option.splits)

lemma session_inv_starting: "session_inv st \<Longrightarrow> session_inv (transition_session_to_starting now st i)"
proof -
  have "transition_session_to_starting now st i = st \<or>
    transition_session_to_starting now st i = relabel now st i Starting"
    by (auto simp: transition_session_to_starting_def relabel_def split: option.splits)
  then show "session_inv st \<Longrightarrow> ?thesis" by (auto simp: session_inv_relabel is_terminal_def)
qed

lemma session_inv_unblock: "session_inv st \<Longrightarrow> session_inv (unblock_session now st i)"
proof -
  assume inv: "session_inv st"
  have q: "session_inv (st\<lparr>m_sessions := set_phase (m_sessions st) i Queued\<rparr>)"
    using inv unfolding session_inv_def get_session_def
    by (auto simp: session_simps is_terminal_def can_be_cleaned_up_def split: if_splits)
  have "unblock_session now st i \<in>
      {st, st\<lparr>m_sessions := set_phase (m_sessions st) i Queued\<rparr>, relabel now st i Pending}"
    by (auto simp: unblock_session_def relabel_def split: option.splits)
  then show ?thesis using inv q by (auto simp: session_inv_relabel is_terminal_def)
qed

lemma session_inv_promote_awaiting: "session_inv st \<Longrightarrow> session_inv (promote_awaiting now st n)"
proof -
  have "session_inv st \<Longrightarrow> session_inv (foldl (unblock_session now) st ids)" for ids
    by (induction ids arbitrary: st) (simp_all add: session_inv_unblock)
  then show "session_inv st \<Longrightarrow> ?thesis" by (simp add: promote_awaiting_def)
qed

lemma session_inv_acquire: "session_inv st \<Longrightarrow> session_inv (fst (try_acquire_network_for_snapshot st n))"
  by (simp add: try_acquire_network_for_snapshot_def session_simps)

lemma session_inv_drop: "session_inv st \<Longrightarrow> session_inv (drop_reservation st n)"
  by (simp add: drop_reservation_def session_simps)

lemma session_inv_release: "session_inv st \<Longrightarrow> session_inv (release_network_for_snapshot now st n)"
  by (simp add: release_network_for_snapshot_def session_inv_promote_awaiting session_inv_drop)

lemma session_inv_pull: "session_inv st \<Longrightarrow> session_inv (fst (pull_cancellation_for_daemon st d))"
  by (simp add: pull_cancellation_for_daemon_def session_simps)

lemma session_inv_warnings: "session_inv st \<Longrightarrow> session_inv (append_historical_warnings st i ls)"
  by (simp add: append_historical_warnings_def session_simps split: option.splits RunType.splits)

text \<open>A started session: the last conditional of \<open>start_session\<close> as an added session.\<close>

definition started :: "manager \<Rightarrow> uuid \<Rightarrow> Discovery \<Rightarrow> session" where
  "started st new_id d =
     (new_session new_id (disc_daemon_id d) (disc_network_id d) (with_full_scan d (disc_type d)) (Some (disc_id d)))
       \<lparr>phase := (if disc_network_id d \<in> set (m_snapshots st) then AwaitingSnapshot
                 else if m_queue st (disc_daemon_id d) = [] then Pending else Queued)\<rparr>"

lemma started_simps [simp]:
  "session_id (started st i d) = i" "ses_daemon_id (started st i d) = disc_daemon_id d"
  "ses_network_id (started st i d) = disc_network_id d" "finished_at (started st i d) = None"
  "phase (started st i d) = (if disc_network_id d \<in> set (m_snapshots st) then AwaitingSnapshot
     else if m_queue st (disc_daemon_id d) = [] then Pending else Queued)"
  by (simp_all add: started_def new_session_def)

lemma start_session_cases:
  obtains "disc_id d \<in> fst ` set (m_by_discovery st)"
      and "start_session E now new_id st d = (st, Err SessionConflict)"
  | r where "disc_id d \<notin> fst ` set (m_by_discovery st)"
      and "start_session E now new_id st d = (st\<lparr>m_rows := r\<rparr>, Err SnmpLookupFailed)"
  | r f where "disc_id d \<notin> fst ` set (m_by_discovery st)"
      and "f = (if phase (started st new_id d) = Pending then (m_last_updated st)(new_id := Some now)
                else m_last_updated st)"
      and "start_session E now new_id st d =
        (add_session (st\<lparr>m_rows := r, m_last_updated := f\<rparr>)
           (map_put (m_by_discovery st) (disc_id d) new_id)
           (started st new_id (d\<lparr>run_type := set_last_run (run_type d) now, disc_updated_at := now\<rparr>)),
         Ok (started st new_id (d\<lparr>run_type := set_last_run (run_type d) now, disc_updated_at := now\<rparr>)))"
proof -
  let ?d = "d\<lparr>run_type := set_last_run (run_type d) now, disc_updated_at := now\<rparr>"
  let ?r = "update_row disc_id (m_rows st) ?d"
  consider "disc_id d \<in> fst ` set (m_by_discovery st)"
    | "disc_id d \<notin> fst ` set (m_by_discovery st)"
        "is_network_discovery (disc_type d) \<and> \<not> snmp_credentials_ok E (disc_network_id d)"
    | "disc_id d \<notin> fst ` set (m_by_discovery st)"
        "\<not> (is_network_discovery (disc_type d) \<and> \<not> snmp_credentials_ok E (disc_network_id d))"
    by blast
  then show ?thesis
  proof cases
    case 1
    then show ?thesis using that(1) by (simp add: start_session_def)
  next
    case 2
    then show ?thesis using that(2) [of ?r] by (simp add: start_session_def Let_def)
  next
    case 3
    show ?thesis
      by (rule that(3) [OF 3(1) refl, of ?r])
        (use 3 in \<open>auto simp: start_session_def admit_session_def Let_def add_session_def started_def
          new_session_def\<close>)
  qed
qed

lemma session_inv_start:
  assumes inv: "session_inv st" and new: "get_session st new_id = None"
  shows "session_inv (fst (start_session E now new_id st d))"
proof (cases rule: start_session_cases [of d st E now new_id])
  case 1
  then show ?thesis using inv by simp
next
  case (2 r)
  then show ?thesis using inv by (simp add: session_simps)
next
  case (3 r f)
  let ?st = "st\<lparr>m_rows := r, m_last_updated := f\<rparr>"
  have "session_inv (st\<lparr>m_rows := r\<rparr>)" using inv by (simp add: session_simps)
  then have "session_inv ?st" by (rule session_inv_clock) (simp add: 3(2))
  then show ?thesis unfolding 3(3) fst_conv
    by (rule session_inv_add)
      (use new 3(2) in \<open>auto simp: get_session_def is_terminal_def can_be_cleaned_up_def\<close>)
qed

text \<open>The same for a start whose checks saw another state.\<close>

lemma session_inv_admit:
  assumes inv: "session_inv st" and new: "get_session st new_id = None"
  shows "session_inv (fst (admit_session now new_id blocked busy st d))"
proof -
  let ?s = "snd (admit_session now new_id blocked busy st d)"
  let ?f = "if \<not> blocked \<and> \<not> busy then (m_last_updated st)(new_id := Some now) else m_last_updated st"
  have eq: "fst (admit_session now new_id blocked busy st d) =
      add_session (st\<lparr>m_last_updated := ?f\<rparr>) (map_put (m_by_discovery st) (disc_id d) new_id) ?s"
    by (simp add: admit_session_def add_session_def Let_def new_session_def)
  have "session_inv (st\<lparr>m_last_updated := ?f\<rparr>)" by (rule session_inv_clock [OF inv]) simp
  then show ?thesis unfolding eq
    by (rule session_inv_add)
      (use new in \<open>auto simp: admit_session_def Let_def new_session_def get_session_def is_terminal_def
        can_be_cleaned_up_def\<close>)
qed

text \<open>A report about a known session.\<close>

lemma put_put: "session_id a = session_id b \<Longrightarrow> put_session (put_session ss a) b = put_session ss b"
proof (cases "session_id b \<in> session_id ` set ss")
  case True
  then show "session_id a = session_id b \<Longrightarrow> ?thesis"
    by (simp add: put_session_def map_key_update_row flip: set_map) (simp add: update_row_def comp_def)
next
  case False
  then have "x \<in> set ss \<Longrightarrow> session_id x \<noteq> session_id b" for x by (metis image_eqI)
  then have "map (\<lambda>x. if session_id x = session_id b then b else x) ss = ss" by (simp add: map_idI)
  then show "session_id a = session_id b \<Longrightarrow> ?thesis"
    using False by (simp add: put_session_def update_row_def)
qed

lemma delete_put: "delete_row session_id (put_session ss u) (session_id u) = delete_row session_id ss (session_id u)"
proof -
  have "filter (\<lambda>x. session_id x \<noteq> session_id u) (map (\<lambda>x. if session_id x = session_id u then u else x) ss) =
    filter (\<lambda>x. session_id x \<noteq> session_id u) ss" by (induction ss) auto
  then show ?thesis by (simp add: put_session_def update_row_def delete_row_def)
qed

lemma session_inv_put:
  assumes "session_inv st" and "get_session st (session_id u) = Some s" and "ses_daemon_id s = ses_daemon_id u"
    and "\<not> is_terminal (phase u)" and "m_last_updated st (session_id u) \<noteq> None"
  shows "session_inv (st\<lparr>m_sessions := put_session (m_sessions st) u\<rparr>)"
proof -
  have "wf_table session_id (put_session (m_sessions st) u)"
    using assms(1) by (simp add: session_inv_def wf_put_session)
  then show ?thesis
    using assms unfolding session_inv_def get_session_def
    by (auto simp: session_simps split: if_splits)
qed

lemma finalize_rows: "\<exists>r. finalize_successful_scan E now st p = st\<lparr>m_rows := r\<rparr>"
proof (cases "get_by_id disc_id (m_rows st) p")
  case None
  then have "finalize_successful_scan E now st p = st\<lparr>m_rows := m_rows st\<rparr>"
    by (simp add: finalize_successful_scan_def)
  then show ?thesis by blast
next
  case (Some d)
  then show ?thesis
    unfolding finalize_successful_scan_def Some option.case Let_def prod.case_eq_if by blast
qed

lemma record_history_rows: "\<exists>r. record_history E now n st s = st\<lparr>m_rows := r\<rparr>"
proof -
  define st1 where "st1 = (case lookup_discovery_id st (session_id s) of
        Some p \<Rightarrow> if phase s = Complete \<and> \<not> rescan_target_host_id (ses_type s) \<noteq> None
          then finalize_successful_scan E now st p else st
      | None \<Rightarrow> st)"
  have "\<exists>r. st1 = st\<lparr>m_rows := r\<rparr>"
  proof (cases "st1 = st")
    case True
    then have "st1 = st\<lparr>m_rows := m_rows st\<rparr>" by simp
    then show ?thesis by blast
  next
    case False
    then obtain p where "st1 = finalize_successful_scan E now st p"
      by (auto simp: st1_def split: option.splits if_splits)
    then show ?thesis using finalize_rows by metis
  qed
  then obtain r where r: "st1 = st\<lparr>m_rows := r\<rparr>" ..
  have ex: "\<exists>q. st\<lparr>m_rows := x\<rparr> = st\<lparr>m_rows := q\<rparr>" for x by blast
  show ?thesis unfolding record_history_def Let_def st1_def [symmetric] r
    by (simp add: ex split: option.split sum.split)
qed

lemma promote_first_frame [session_simps]:
  "promote_first now (st\<lparr>m_rows := r\<rparr>) d = (promote_first now st d)\<lparr>m_rows := r\<rparr>"
  "promote_first now (st\<lparr>m_cancellations := c\<rparr>) d = (promote_first now st d)\<lparr>m_cancellations := c\<rparr>"
  by (simp_all add: promote_first_def get_session_def split: list.splits option.splits)

lemma promote_forget:
  "forget_session (promote_first now (dequeue st d i) d) i = promote_first now (remove_session st d i) d"
proof (cases "filter (\<lambda>j. j \<noteq> i) (m_queue st d)")
  case Nil
  then show ?thesis
    by (simp add: promote_first_def remove_session_def dequeue_def forget_session_def)
next
  case (Cons j js)
  have "j \<noteq> i" using Cons by (metis (mono_tags, lifting) Cons_eq_filterD)
  then have get: "get_by_id session_id (delete_row session_id (m_sessions st) i) j = get_by_id session_id (m_sessions st) j"
    by (simp add: get_by_id_delete_row)
  show ?thesis
    by (simp add: promote_first_def remove_session_def dequeue_def forget_session_def Cons
        get_session_def get set_phase_delete_row split: option.splits)
qed

lemma remove_put:
  "session_id u = i \<Longrightarrow>
   remove_session (st\<lparr>m_sessions := put_session (m_sessions st) u\<rparr>) d i = remove_session st d i"
  using delete_put [of "m_sessions st" u] by (simp add: remove_session_def forget_session_def dequeue_def)

lemma remove_frame [session_simps]:
  "remove_session (st\<lparr>m_rows := r\<rparr>) d i = (remove_session st d i)\<lparr>m_rows := r\<rparr>"
  "remove_session (st\<lparr>m_cancellations := c\<rparr>) d i = (remove_session st d i)\<lparr>m_cancellations := c\<rparr>"
  by (simp_all add: remove_session_def forget_session_def dequeue_def)

lemma finish_session_eq:
  obtains r where "finish_session E now n (st\<lparr>m_sessions := put_session (m_sessions st) u\<rparr>) u =
    (promote_first now (remove_session st (ses_daemon_id u) (session_id u)) (ses_daemon_id u))
      \<lparr>m_rows := r, m_cancellations := (m_cancellations st)(ses_daemon_id u := None)\<rparr>"
proof -
  let ?c = "(m_cancellations st)(ses_daemon_id u := None)"
  let ?st = "st\<lparr>m_sessions := put_session (m_sessions st) u\<rparr>"
  obtain r where r: "record_history E now n (?st\<lparr>m_cancellations := ?c\<rparr>) u = ?st\<lparr>m_cancellations := ?c, m_rows := r\<rparr>"
    using record_history_rows [of E now n "?st\<lparr>m_cancellations := ?c\<rparr>" u] by auto
  have "finish_session E now n ?st u =
    promote_first now (remove_session (?st\<lparr>m_cancellations := ?c, m_rows := r\<rparr>) (ses_daemon_id u) (session_id u))
      (ses_daemon_id u)"
    using r by (simp add: finish_session_def pull_cancellation_for_daemon_def promote_forget)
  also have "\<dots> = (promote_first now (remove_session ?st (ses_daemon_id u) (session_id u)) (ses_daemon_id u))
      \<lparr>m_rows := r, m_cancellations := ?c\<rparr>"
    using remove_frame(1) [where st = "?st\<lparr>m_cancellations := ?c\<rparr>" and r = r]
      remove_frame(2) [where st = ?st and c = ?c]
      promote_first_frame(1) [where r = r] promote_first_frame(2) [where c = ?c] by simp
  finally show ?thesis using that remove_put [OF refl, of st u] by simp
qed

lemma session_inv_finish:
  assumes "session_inv st" and "get_session st (session_id u) = Some s" and "ses_daemon_id s = ses_daemon_id u"
  shows "session_inv (finish_session E now n (st\<lparr>m_sessions := put_session (m_sessions st) u\<rparr>) u)"
proof -
  obtain r where eq: "finish_session E now n (st\<lparr>m_sessions := put_session (m_sessions st) u\<rparr>) u =
    (promote_first now (remove_session st (ses_daemon_id u) (session_id u)) (ses_daemon_id u))
      \<lparr>m_rows := r, m_cancellations := (m_cancellations st)(ses_daemon_id u := None)\<rparr>"
    by (rule finish_session_eq)
  have "session_inv (promote_first now (remove_session st (ses_daemon_id u) (session_id u)) (ses_daemon_id u))"
    using assms by (intro session_inv_promote_first session_inv_remove) auto
  then show ?thesis unfolding eq
    using session_inv_frame(1) session_inv_frame(2) by metis
qed

text \<open>A report: \<open>seen\<close> is the report with the discovery of the session filled in.\<close>

definition seen :: "manager \<Rightarrow> session \<Rightarrow> session" where
  "seen st u = (if ses_discovery_id u = None then u\<lparr>ses_discovery_id := lookup_discovery_id st (session_id u)\<rparr> else u)"

lemma seen_simps [simp]:
  "session_id (seen st u) = session_id u" "ses_daemon_id (seen st u) = ses_daemon_id u"
  "ses_network_id (seen st u) = ses_network_id u" "phase (seen st u) = phase u"
  "finished_at (seen st u) = finished_at u"
  by (simp_all add: seen_def)

definition clocked :: "datetime \<Rightarrow> manager \<Rightarrow> uuid \<Rightarrow> manager" where
  "clocked now st i = st\<lparr>m_last_updated := (m_last_updated st)(i := Some now)\<rparr>"

lemma clocked_fields [session_simps]:
  "get_session (clocked now st i) j = get_session st j" "m_queue (clocked now st i) = m_queue st"
  "m_by_discovery (clocked now st i) = m_by_discovery st" "m_sessions (clocked now st i) = m_sessions st"
  "m_last_updated (clocked now st i) = (m_last_updated st)(i := Some now)"
  "m_snapshots (clocked now st i) = m_snapshots st" "m_cancellations (clocked now st i) = m_cancellations st"
  by (simp_all add: clocked_def get_session_def)

lemma session_inv_clocked: "session_inv st \<Longrightarrow> session_inv (clocked now st i)"
  unfolding clocked_def by (rule session_inv_clock) simp_all

lemma update_session_known:
  assumes "get_session st (session_id u) = Some s"
  shows "update_session E now n st u =
    (let st' = (clocked now st (session_id u))\<lparr>m_sessions := put_session (m_sessions st) (seen st u)\<rparr>
     in if is_terminal (phase u) then finish_session E now n st' (seen st u) else st')"
  using assms
  by (simp add: update_session_def Let_def seen_def clocked_def get_session_def)

lemma update_session_late:
  assumes "get_session st (session_id u) = None" "is_terminal (phase u)" "m_last_updated st (session_id u) \<noteq> None"
  shows "update_session E now n st u = clocked now st (session_id u)"
  using assms by (auto simp: update_session_def Let_def clocked_def get_session_def)

lemma update_session_unknown:
  assumes "get_session st (session_id u) = None" "\<not> (is_terminal (phase u) \<and> m_last_updated st (session_id u) \<noteq> None)"
  obtains b where "b = m_by_discovery st \<or> (\<exists>k. b = map_put (m_by_discovery st) k (session_id u))"
    and "update_session E now n st u =
      (let st' = add_session (clocked now st (session_id u)) b (seen st u)
       in if is_terminal (phase u) then finish_session E now n st' (seen st u) else st')"
proof -
  define b where "b = (case ses_discovery_id (seen st u) of
    Some d \<Rightarrow> map_put (m_by_discovery st) d (session_id u) | None \<Rightarrow> m_by_discovery st)"
  have "b = m_by_discovery st \<or> (\<exists>k. b = map_put (m_by_discovery st) k (session_id u))"
    by (auto simp: b_def split: option.splits)
  moreover have "update_session E now n st u =
      (let st' = add_session (clocked now st (session_id u)) b (seen st u)
       in if is_terminal (phase u) then finish_session E now n st' (seen st u) else st')"
    using assms unfolding update_session_def seen_def [symmetric] Let_def
    by (auto simp: auto_create_def put_put clocked_def get_session_def add_session_def b_def
        split: option.splits)
  ultimately show ?thesis by (rule that)
qed

lemma session_inv_update:
  assumes inv: "session_inv st"
    and own: "\<And>s. get_session st (session_id u) = Some s \<Longrightarrow> ses_daemon_id s = ses_daemon_id u"
  shows "session_inv (update_session E now n st u)"
proof (cases "get_session st (session_id u)")
  case (Some s)
  have "session_inv (clocked now st (session_id u))" by (rule session_inv_clocked [OF inv])
  then have "session_inv (let st' = (clocked now st (session_id u))\<lparr>m_sessions :=
        put_session (m_sessions (clocked now st (session_id u))) (seen st u)\<rparr>
     in if is_terminal (phase u) then finish_session E now n st' (seen st u) else st')"
    using session_inv_finish [of "clocked now st (session_id u)" "seen st u" s]
      session_inv_put [of "clocked now st (session_id u)" "seen st u" s] Some own [OF Some]
    by (simp add: Let_def session_simps)
  then show ?thesis by (simp add: update_session_known [OF Some] session_simps)
next
  case None
  show ?thesis
  proof (cases "is_terminal (phase u) \<and> m_last_updated st (session_id u) \<noteq> None")
    case True
    then show ?thesis using inv None by (simp add: update_session_late session_inv_clocked)
  next
    case False
    obtain b where b: "b = m_by_discovery st \<or> (\<exists>k. b = map_put (m_by_discovery st) k (session_id u))"
      and upd: "update_session E now n st u =
      (let st' = add_session (clocked now st (session_id u)) b (seen st u)
       in if is_terminal (phase u) then finish_session E now n st' (seen st u) else st')"
      by (rule update_session_unknown [OF None False])
    let ?w = "(seen st u)\<lparr>phase := Queued\<rparr>"
    let ?a = "add_session (clocked now st (session_id u)) b"
    have add: "session_inv (?a v)"
      if "session_id v = session_id u" "\<not> is_terminal (phase v)" for v
      by (rule session_inv_add) (use that inv None b in \<open>auto simp: session_simps session_inv_clocked\<close>)
    have same: "?a (seen st u) = (?a ?w)\<lparr>m_sessions := put_session (m_sessions (?a ?w)) (seen st u)\<rparr>"
      by (simp add: add_session_def put_put)
    have "session_inv (finish_session E now n (?a (seen st u)) (seen st u))"
      unfolding same by (rule session_inv_finish [of _ _ ?w])
        (use add [of ?w] in \<open>simp_all add: session_simps is_terminal_def\<close>)
    then show ?thesis using add [of "seen st u"] by (simp add: upd Let_def)
  qed
qed

text \<open>Cancelling and cleaning up.\<close>

lemma cancel_removes:
  assumes "get_session st i = Some s" and "phase s \<in> {Queued, Pending, AwaitingSnapshot}"
  obtains r where "fst (cancel_session now st i) =
    (if phase s = Pending then promote_first now (remove_session st (ses_daemon_id s) i) (ses_daemon_id s)
     else remove_session st (ses_daemon_id s) i)\<lparr>m_rows := r\<rparr>"
proof -
  let ?d = "ses_daemon_id s"
  let ?st1 = "dequeue (st\<lparr>m_sessions := delete_row session_id (m_sessions st) i\<rparr>) ?d i"
  let ?f = "\<lambda>st'. st'\<lparr>m_by_discovery := filter (\<lambda>(_, j). j \<noteq> i) (m_by_discovery st')\<rparr>"
  have "?f (promote_first now ?st1 ?d) = promote_first now (remove_session st ?d i) ?d"
    and "?f ?st1 = remove_session st ?d i"
    by (simp_all add: promote_first_def remove_session_def dequeue_def forget_session_def get_session_def
        split: list.splits option.splits)
  then have eq: "fst (cancel_session now st i) =
     (case lookup_discovery_id st i of
        Some d \<Rightarrow> if rescan_target_host_id (ses_type s) \<noteq> None
          then X\<lparr>m_rows := delete_row disc_id (m_rows X) d\<rparr> else X
      | None \<Rightarrow> X)"
    if "X = (if phase s = Pending then promote_first now (remove_session st ?d i) ?d else remove_session st ?d i)" for X
    using assms that unfolding cancel_session_def Let_def assms(1) option.case
    by (simp only: if_True fst_conv) (simp split: option.split)
  have "\<exists>r. (case P of Some d \<Rightarrow> if b then X\<lparr>m_rows := g d\<rparr> else X | None \<Rightarrow> X) = X\<lparr>m_rows := r\<rparr>"
    for P b g and X :: manager
  proof -
    have self: "\<exists>r. X = X\<lparr>m_rows := r\<rparr>" by (rule exI [of _ "m_rows X"]) simp
    show ?thesis using self by (cases P; cases b) auto
  qed
  then show ?thesis using that eq [OF refl] by metis
qed

lemma session_inv_cancel: "session_inv st \<Longrightarrow> session_inv (fst (cancel_session now st i))"
proof -
  assume inv: "session_inv st"
  show ?thesis
  proof (cases "get_session st i")
    case None
    then show ?thesis using inv by (simp add: cancel_session_def)
  next
    case (Some s)
    show ?thesis
    proof (cases "phase s \<in> {Queued, Pending, AwaitingSnapshot}")
      case True
      obtain r where "fst (cancel_session now st i) =
        (if phase s = Pending then promote_first now (remove_session st (ses_daemon_id s) i) (ses_daemon_id s)
         else remove_session st (ses_daemon_id s) i)\<lparr>m_rows := r\<rparr>"
        by (rule cancel_removes [OF Some True])
      moreover have "session_inv (remove_session st (ses_daemon_id s) i)"
        using inv Some by (intro session_inv_remove) auto
      ultimately show ?thesis by (simp add: session_simps session_inv_promote_first)
    next
      case False
      then show ?thesis using inv Some by (simp add: cancel_session_def Let_def session_simps)
    qed
  qed
qed

lemma session_inv_cleanup_old_session:
  assumes "session_inv st" and "\<And>t. get_session st (session_id s) = Some t \<Longrightarrow> ses_daemon_id t = ses_daemon_id s"
  shows "session_inv (cleanup_old_session st s)"
proof -
  have "session_inv (remove_session st (ses_daemon_id s) (session_id s))"
    using assms by (rule session_inv_remove)
  then show ?thesis
    by (simp add: cleanup_old_session_def session_simps flip: remove_session_def)
qed

lemma session_inv_cleanup_old: "session_inv st \<Longrightarrow> session_inv (cleanup_old_sessions cutoff st)"
proof -
  have get: "get_session (cleanup_old_session st' s) j = Some t \<Longrightarrow> get_session st' j = Some t" for st' s j t
    by (simp add: cleanup_old_session_def session_simps flip: remove_session_def split: if_splits)
  have fold: "session_inv st' \<Longrightarrow>
      \<forall>s \<in> set ss. \<forall>t. get_session st' (session_id s) = Some t \<longrightarrow> ses_daemon_id t = ses_daemon_id s \<Longrightarrow>
      session_inv (foldl cleanup_old_session st' ss)" for ss st'
  proof (induction ss arbitrary: st')
    case (Cons s ss)
    have "session_inv (cleanup_old_session st' s)"
      using Cons.prems by (intro session_inv_cleanup_old_session) auto
    moreover have "\<forall>s' \<in> set ss. \<forall>t. get_session (cleanup_old_session st' s) (session_id s') = Some t \<longrightarrow>
        ses_daemon_id t = ses_daemon_id s'"
    proof (intro ballI allI impI)
      fix s' t assume s': "s' \<in> set ss" and t: "get_session (cleanup_old_session st' s) (session_id s') = Some t"
      show "ses_daemon_id t = ses_daemon_id s'" using Cons.prems(2) s' get [OF t] by simp
    qed
    ultimately show ?case using Cons.IH by simp
  qed simp
  assume inv: "session_inv st"
  then have "\<forall>s \<in> set (m_sessions st). get_session st (session_id s) = Some s"
    by (simp add: session_inv_def session_mem_iff)
  then show ?thesis unfolding cleanup_old_sessions_def using inv by (intro fold) auto
qed

text \<open>Reaping one session: remove it, promote, and drop its clock and its cancellation.\<close>

lemma reap_stalled_eq:
  assumes "get_session st i = Some s"
  obtains r c where "reap_stalled E now n st i =
    (promote_if_queued now (remove_session st (ses_daemon_id s) i) (ses_daemon_id s))
      \<lparr>m_last_updated := (m_last_updated (promote_if_queued now (remove_session st (ses_daemon_id s) i) (ses_daemon_id s)))
         (i := None), m_cancellations := c, m_rows := r\<rparr>"
proof -
  let ?d = "ses_daemon_id s"
  let ?st1 = "dequeue (st\<lparr>m_sessions := delete_row session_id (m_sessions st) i\<rparr>) ?d i"
  let ?p = "promote_if_queued now (remove_session st ?d i) ?d"
  define P where "P = promote_if_queued now ?st1 ?d"
  have P: "P\<lparr>m_by_discovery := filter (\<lambda>(_, j). j \<noteq> i) (m_by_discovery P)\<rparr> = ?p"
    "m_last_updated P = m_last_updated ?p"
    by (simp_all add: P_def promote_if_queued_def remove_session_def dequeue_def forget_session_def get_session_def
        split: list.splits option.splits)
  define c where "c = (case m_cancellations P ?d of
      Some (_, j) \<Rightarrow> if j = i then (m_cancellations P)(?d := None) else m_cancellations P
    | None \<Rightarrow> m_cancellations P)"
  define Q where "Q = P\<lparr>m_by_discovery := filter (\<lambda>(_, j). j \<noteq> i) (m_by_discovery P),
      m_last_updated := (m_last_updated P)(i := None), m_cancellations := c\<rparr>"
  have Q: "Q = ?p\<lparr>m_last_updated := (m_last_updated ?p)(i := None), m_cancellations := c\<rparr>"
    unfolding Q_def P by simp
  have "reap_stalled E now n st i = Q \<or> (\<exists>r. reap_stalled E now n st i = Q\<lparr>m_rows := r\<rparr>)"
    unfolding reap_stalled_def assms option.case Let_def P_def [symmetric] c_def [symmetric] Q_def [symmetric]
    by (auto split: sum.splits)
  moreover have "Q = Q\<lparr>m_rows := m_rows Q\<rparr>" by simp
  ultimately obtain r where "reap_stalled E now n st i = Q\<lparr>m_rows := r\<rparr>" by metis
  then show ?thesis using that Q by simp
qed

lemma session_inv_reap_stalled: "session_inv st \<Longrightarrow> session_inv (reap_stalled E now n st i)"
proof -
  assume inv: "session_inv st"
  show ?thesis
  proof (cases "get_session st i")
    case None
    then show ?thesis using inv by (simp add: reap_stalled_def)
  next
    case (Some s)
    let ?p = "promote_if_queued now (remove_session st (ses_daemon_id s) i) (ses_daemon_id s)"
    obtain r c where eq: "reap_stalled E now n st i =
        ?p\<lparr>m_last_updated := (m_last_updated ?p)(i := None), m_cancellations := c, m_rows := r\<rparr>"
      by (rule reap_stalled_eq [OF Some])
    have "session_inv ?p"
      using inv Some by (intro session_inv_promote_if_queued session_inv_remove) auto
    moreover have "get_session ?p i = None"
      by (auto simp: promote_if_queued_eq session_simps split: list.splits option.splits)
    ultimately have "session_inv (?p\<lparr>m_last_updated := (m_last_updated ?p)(i := None)\<rparr>)"
      by (intro session_inv_clock) auto
    then show ?thesis by (simp add: eq session_simps)
  qed
qed

lemma session_inv_evict: "session_inv st \<Longrightarrow> session_inv (evict_tombstones now st)"
  unfolding evict_tombstones_def
  by (rule session_inv_clock) (auto simp: get_session_def get_by_id_None split: option.splits dest: get_by_id_mem)

lemma session_inv_reap_all: "session_inv st \<Longrightarrow> session_inv (reap_all E now n st ss)"
proof -
  have "session_inv st \<Longrightarrow> session_inv (foldl (reap_stalled E now n) st ids)" for ids
    by (induction ids arbitrary: st) (simp_all add: session_inv_reap_stalled)
  then show "session_inv st \<Longrightarrow> ?thesis" by (simp add: reap_all_def session_inv_evict)
qed

lemma session_inv_request: "session_inv st \<Longrightarrow> session_inv (request_cancellations st ss)"
  by (simp add: request_cancellations_def session_simps)

lemma session_inv_cleanup_stalled: "session_inv st \<Longrightarrow> session_inv (cleanup_stalled_sessions E now n st)"
  by (simp add: cleanup_stalled_sessions_def Let_def session_inv_reap_all session_inv_request)

lemma get_clear:
  "get_session (clear_sessions_for_daemon st d) i =
     (if i \<in> set (m_queue st d) then None else get_session st i)"
proof -
  have "get_by_id key (filter (\<lambda>x. key x \<notin> A) rows) i = (if i \<in> A then None else get_by_id key rows i)"
    for key :: "session \<Rightarrow> uuid" and A rows
    by (induction rows) (auto simp: get_by_id_def)
  then show ?thesis by (simp add: clear_sessions_for_daemon_def Let_def get_session_def)
qed

lemma session_inv_clear: "session_inv st \<Longrightarrow> session_inv (clear_sessions_for_daemon st d)"
proof -
  assume inv: "session_inv st"
  have "wf_table session_id (m_sessions (clear_sessions_for_daemon st d))"
    using inv by (simp add: session_inv_def clear_sessions_for_daemon_def Let_def wf_table_def distinct_map_filter)
  moreover have "i \<in> set (m_queue (clear_sessions_for_daemon st d) e) \<longleftrightarrow>
      (\<exists>s. get_session (clear_sessions_for_daemon st d) i = Some s \<and> ses_daemon_id s = e)" for e i
    using inv unfolding get_clear by (auto simp: clear_sessions_for_daemon_def Let_def session_inv_def)
  moreover have "\<forall>d'. distinct (m_queue (clear_sessions_for_daemon st d) d')"
    using inv by (simp add: clear_sessions_for_daemon_def Let_def session_inv_def)
  ultimately show ?thesis using inv unfolding session_inv_def [of "clear_sessions_for_daemon st d"] get_clear
    by (auto simp: clear_sessions_for_daemon_def Let_def session_inv_def distinct_map_filter)
qed

end
