(* ===== verification/Session_Protocol.thy ===== *)
theory Session_Protocol
  imports Session_Invariants
begin

text \<open>
  Runs of the session manager. \<open>manager_step\<close> is any handler, restarts of the server included (a
  report about an unknown session creates it), the halves of a snapshot release and of a stall
  sweep as steps of their own, and a start as its second half alone, whose checks may have seen
  any other state. One thing is asked of the inputs: a report about a known session names the
  daemon the session belongs to. The handlers do not check this (they compare the daemon of the
  report with the authenticated daemon, or with nothing), and a report by another daemon breaks
  the queues (\<open>foreign_report_strands_queue\<close>). \<open>session_inv\<close> holds in every state reached.

  \<open>protocol_step\<close> is the manager in a deployment that keeps to the protocol: a daemon serves one
  network; it reports only sessions that it was handed and that the manager still knows, apart
  from a last report about a session that is already finished, so that no report creates a session
  (which happens after a restart of the server or a stall sweep); every handler, a start and a
  release among them, is one step that no other handler interleaves. There the manager is
  orderly: a network under snapshot has only waiting sessions, a daemon has at most one session
  in flight, and a daemon with work on a network that is not under snapshot has exactly one. What
  goes wrong otherwise is shown at the end of the theory \<open>Session_Work\<close>.
\<close>

section \<open>All runs\<close>

inductive manager_step :: "manager_env \<Rightarrow> manager \<Rightarrow> manager \<Rightarrow> bool" for E where
  start: "get_session st new_id = None \<Longrightarrow> manager_step E st (fst (start_session E now new_id st d))"
| admit: "get_session st new_id = None \<Longrightarrow>
    manager_step E st (fst (admit_session now new_id blocked busy st d))"
| rows: "manager_step E st (st\<lparr>m_rows := r\<rparr>)"
| dispatch: "manager_step E st (transition_session_to_starting now st i)"
| report: "(\<And>s. get_session st (session_id u) = Some s \<Longrightarrow> ses_daemon_id s = ses_daemon_id u) \<Longrightarrow>
    manager_step E st (update_session E now new_id st u)"
| cancel: "manager_step E st (fst (cancel_session now st i))"
| pull: "manager_step E st (fst (pull_cancellation_for_daemon st d))"
| acquire: "manager_step E st (fst (try_acquire_network_for_snapshot st n))"
| drop: "manager_step E st (drop_reservation st n)"
| promote: "manager_step E st (promote_awaiting now st n)"
| request: "manager_step E st (request_cancellations st ss)"
| reap: "manager_step E st (reap_all E now new_ids st ss)"
| cleanup_old: "manager_step E st (cleanup_old_sessions cutoff st)"
| sweep: "manager_step E st (sweep_orphaned_rescans cutoff st)"
| warn: "manager_step E st (append_historical_warnings st i ls)"
| clear: "manager_step E st (clear_sessions_for_daemon st d)"

inductive manager_reachable :: "manager_env \<Rightarrow> manager \<Rightarrow> bool" for E where
  init: "manager_reachable E (empty_manager\<lparr>m_rows := rows\<rparr>)"
| step: "manager_reachable E st \<Longrightarrow> manager_step E st st' \<Longrightarrow> manager_reachable E st'"

lemma manager_step_inv: "manager_step E st st' \<Longrightarrow> session_inv st \<Longrightarrow> session_inv st'"
  by (induction rule: manager_step.induct)
    (simp_all add: session_inv_start session_inv_admit session_inv_starting session_inv_update session_inv_cancel session_inv_pull
      session_inv_acquire session_inv_drop session_inv_promote_awaiting session_inv_request session_inv_reap_all
      session_inv_cleanup_old session_inv_warnings session_inv_clear sweep_orphaned_rescans_def Let_def session_simps)

lemma manager_reachable_inv: "manager_reachable E st \<Longrightarrow> session_inv st"
  by (induction rule: manager_reachable.induct)
    (simp_all add: session_simps session_inv_empty manager_step_inv)

section \<open>Orderly states\<close>

definition busy :: "manager \<Rightarrow> uuid \<Rightarrow> bool" where
  "busy st d \<longleftrightarrow> (\<exists>i s. get_session st i = Some s \<and> ses_daemon_id s = d \<and> can_be_cleaned_up (phase s))"

text \<open>\<open>R\<close> is the set of sessions a release has still to unblock; outside a release it is empty.\<close>

definition placed :: "(uuid \<Rightarrow> uuid) \<Rightarrow> uuid set \<Rightarrow> manager \<Rightarrow> bool" where
  "placed net R st \<longleftrightarrow> session_inv st \<and>
     (\<forall>i s. get_session st i = Some s \<longrightarrow>
        ses_network_id s = net (ses_daemon_id s) \<and> finished_at s = None \<and>
        (phase s = AwaitingSnapshot \<longleftrightarrow> ses_network_id s \<in> set (m_snapshots st) \<or> i \<in> R)) \<and>
     (\<forall>i j s t. get_session st i = Some s \<longrightarrow> get_session st j = Some t \<longrightarrow> ses_daemon_id s = ses_daemon_id t \<longrightarrow>
        can_be_cleaned_up (phase s) \<longrightarrow> can_be_cleaned_up (phase t) \<longrightarrow> i = j)"

definition served :: "(uuid \<Rightarrow> uuid) \<Rightarrow> uuid set \<Rightarrow> manager \<Rightarrow> uuid \<Rightarrow> bool" where
  "served net R st d \<longleftrightarrow> (\<not> set (m_queue st d) \<subseteq> R \<and> net d \<notin> set (m_snapshots st) \<longrightarrow> busy st d)"

definition orderly :: "(uuid \<Rightarrow> uuid) \<Rightarrow> uuid set \<Rightarrow> manager \<Rightarrow> bool" where
  "orderly net R st \<longleftrightarrow> placed net R st \<and> (\<forall>d. served net R st d)"

lemma placedD:
  assumes "placed net R st" and "get_session st i = Some s"
  shows "ses_network_id s = net (ses_daemon_id s)" "finished_at s = None"
    "phase s = AwaitingSnapshot \<longleftrightarrow> ses_network_id s \<in> set (m_snapshots st) \<or> i \<in> R"
  using assms by (auto simp: placed_def)

lemma placed_unique:
  assumes "placed net R st" "get_session st i = Some s" "get_session st j = Some t"
    "ses_daemon_id s = ses_daemon_id t" "can_be_cleaned_up (phase s)" "can_be_cleaned_up (phase t)"
  shows "i = j"
  using assms unfolding placed_def by blast

lemma placed_inv: "placed net R st \<Longrightarrow> session_inv st"
  by (simp add: placed_def)

lemma inv_queue: "session_inv st \<Longrightarrow> i \<in> set (m_queue st d) \<longleftrightarrow> (\<exists>s. get_session st i = Some s \<and> ses_daemon_id s = d)"
  by (simp add: session_inv_def)

lemma inv_not_terminal: "session_inv st \<Longrightarrow> get_session st i = Some s \<Longrightarrow> \<not> is_terminal (phase s)"
  by (simp add: session_inv_def)

lemma phase_cases:
  assumes "\<not> is_terminal p"
  obtains "p = AwaitingSnapshot" | "p = Queued" | "can_be_cleaned_up p"
  using assms by (cases p) (auto simp: is_terminal_def can_be_cleaned_up_def)

lemma busyI: "get_session st i = Some s \<Longrightarrow> ses_daemon_id s = d \<Longrightarrow> can_be_cleaned_up (phase s) \<Longrightarrow> busy st d"
  by (auto simp: busy_def)

lemma busyE:
  assumes "busy st d"
  obtains i s where "get_session st i = Some s" "ses_daemon_id s = d" "can_be_cleaned_up (phase s)"
  using assms by (auto simp: busy_def)

lemma busy_relabel: "busy st d \<Longrightarrow> can_be_cleaned_up p \<Longrightarrow> busy (relabel now st i p) d"
proof (erule busyE)
  fix j t assume "get_session st j = Some t" "ses_daemon_id t = d" "can_be_cleaned_up (phase t)" "can_be_cleaned_up p"
  then show ?thesis
    by (intro busyI [of _ j "if j = i then t\<lparr>phase := p\<rparr> else t"]) (auto simp: session_simps)
qed

text \<open>States that agree on sessions, queues and reservations are orderly together.\<close>

lemma orderly_agree:
  assumes "orderly net R st" "session_inv st'" "\<And>i. get_session st' i = get_session st i"
    "m_queue st' = m_queue st" "set (m_snapshots st') = set (m_snapshots st)"
  shows "orderly net R st'"
  using assms unfolding orderly_def placed_def served_def busy_def by simp

lemma orderly_frame [session_simps]:
  "orderly net R (st\<lparr>m_rows := r\<rparr>) = orderly net R st"
  "orderly net R (st\<lparr>m_cancellations := c\<rparr>) = orderly net R st"
  unfolding orderly_def placed_def served_def busy_def by (simp_all add: session_simps)

text \<open>Replacing one session: \<open>st'\<close> has \<open>s'\<close> where \<open>st\<close> has \<open>s\<close>.\<close>

definition replaces :: "manager \<Rightarrow> uuid \<Rightarrow> session \<Rightarrow> session \<Rightarrow> manager \<Rightarrow> bool" where
  "replaces st i s s' st' \<longleftrightarrow> get_session st i = Some s \<and> session_inv st' \<and>
     (\<forall>j. get_session st' j = (if j = i then Some s' else get_session st j)) \<and>
     m_snapshots st' = m_snapshots st \<and> m_queue st' = m_queue st \<and>
     ses_daemon_id s' = ses_daemon_id s \<and> ses_network_id s' = ses_network_id s \<and> finished_at s' = None"

lemma placed_replace:
  assumes pl: "placed net R st" and rep: "replaces st i s s' st'"
    and aw: "phase s' = AwaitingSnapshot \<longleftrightarrow> ses_network_id s \<in> set (m_snapshots st) \<or> i \<in> R'"
    and R: "R' - {i} = R - {i}" and fl: "can_be_cleaned_up (phase s') \<Longrightarrow> can_be_cleaned_up (phase s) \<or> \<not> busy st (ses_daemon_id s)"
  shows "placed net R' st'"
proof -
  have get: "get_session st' j = (if j = i then Some s' else get_session st j)" for j
    using rep by (simp add: replaces_def)
  have s: "get_session st i = Some s" and inv: "session_inv st'" and sn: "m_snapshots st' = m_snapshots st"
    and same: "ses_daemon_id s' = ses_daemon_id s" "ses_network_id s' = ses_network_id s" "finished_at s' = None"
    using rep by (auto simp: replaces_def)
  have "ses_network_id t = net (ses_daemon_id t) \<and> finished_at t = None \<and>
        (phase t = AwaitingSnapshot \<longleftrightarrow> ses_network_id t \<in> set (m_snapshots st) \<or> j \<in> R')"
    if "get_session st' j = Some t" for j t
  proof (cases "j = i")
    case True
    then show ?thesis using that placedD(1) [OF pl s] same aw by (auto simp: get)
  next
    case False
    then show ?thesis using that placedD [OF pl, of j t] R by (auto simp: get)
  qed
  moreover have one: "k = i" if "get_session st k = Some t" "ses_daemon_id t = ses_daemon_id s"
      "can_be_cleaned_up (phase t)" "can_be_cleaned_up (phase s')" for k t
    using fl [OF that(4)] placed_unique [OF pl that(1) s] that by (auto simp: busy_def)
  moreover have "j = k" if "get_session st' j = Some t" "get_session st' k = Some t'"
      "ses_daemon_id t = ses_daemon_id t'" "can_be_cleaned_up (phase t)" "can_be_cleaned_up (phase t')" for j k t t'
  proof -
    consider "j = i" | "k = i" | "j \<noteq> i" "k \<noteq> i" by blast
    then show ?thesis
    proof cases
      case 1
      then show ?thesis using that same one [of k t'] by (auto simp: get split: if_splits)
    next
      case 2
      then show ?thesis using that same one [of j t] by (auto simp: get split: if_splits)
    next
      case 3
      then show ?thesis using that placed_unique [OF pl, of j t k t'] by (simp add: get)
    qed
  qed
  ultimately show ?thesis using inv unfolding placed_def sn by blast
qed

lemma busy_replace:
  assumes "replaces st i s s' st'" and "can_be_cleaned_up (phase s) \<Longrightarrow> can_be_cleaned_up (phase s')" and "busy st d"
  shows "busy st' d"
  using assms(3)
proof (rule busyE)
  fix j t assume "get_session st j = Some t" "ses_daemon_id t = d" "can_be_cleaned_up (phase t)"
  then show ?thesis using assms(1,2)
    by (intro busyI [of _ j "if j = i then s' else t"]) (auto simp: replaces_def)
qed

lemma relabel_replaces:
  assumes "session_inv st" "get_session st i = Some s" "\<not> is_terminal p" "finished_at s = None"
  shows "replaces st i s (s\<lparr>phase := p\<rparr>) (relabel now st i p)"
  using assms by (auto simp: replaces_def session_simps session_inv_relabel)

lemma orderly_replace:
  assumes ord: "orderly net R st" and rep: "replaces st i s s' st'"
    and c: "can_be_cleaned_up (phase s)" "can_be_cleaned_up (phase s')"
  shows "orderly net R st'"
proof -
  have pl: "placed net R st" and s: "get_session st i = Some s" using ord rep by (auto simp: orderly_def replaces_def)
  have "placed net R st'"
    by (rule placed_replace [OF pl rep]) (use placedD(3) [OF pl s] c in \<open>auto simp: can_be_cleaned_up_def\<close>)
  then show ?thesis using ord busy_replace [OF rep c(2)] rep by (auto simp: orderly_def served_def replaces_def)
qed

lemma not_terminalI: "can_be_cleaned_up p \<Longrightarrow> \<not> is_terminal p"
  by (auto simp: can_be_cleaned_up_def is_terminal_def)

lemma orderly_relabel:
  assumes ord: "orderly net R st" and s: "get_session st i = Some s" and c: "can_be_cleaned_up (phase s)" "can_be_cleaned_up p"
  shows "orderly net R (relabel now st i p)"
proof -
  have pl: "placed net R st" using ord by (simp add: orderly_def)
  show ?thesis
    by (rule orderly_replace [OF ord relabel_replaces [OF placed_inv [OF pl] s not_terminalI [OF c(2)]]])
      (use c placedD(2) [OF pl s] in simp_all)
qed

lemma orderly_starting: "orderly net R st \<Longrightarrow> orderly net R (transition_session_to_starting now st i)"
proof -
  assume ord: "orderly net R st"
  show ?thesis
  proof (cases "\<exists>s. get_session st i = Some s \<and> phase s = Pending")
    case True
    then obtain s where s: "get_session st i = Some s" "phase s = Pending" by blast
    then have "transition_session_to_starting now st i = relabel now st i Starting"
      by (simp add: transition_session_to_starting_def relabel_def)
    then show ?thesis using orderly_relabel [OF ord s(1)] s(2) by (simp add: can_be_cleaned_up_def)
  next
    case False
    then show ?thesis using ord by (auto simp: transition_session_to_starting_def split: option.splits)
  qed
qed

text \<open>Taking the session in flight away and promoting the next in the queue.\<close>

lemma placed_remove:
  assumes pl: "placed net R st" and s: "get_session st i = Some s"
  shows "placed net R (remove_session st (ses_daemon_id s) i)"
proof -
  have "session_inv (remove_session st (ses_daemon_id s) i)"
    using placed_inv [OF pl] s by (intro session_inv_remove) auto
  then show ?thesis using pl unfolding placed_def session_simps by (auto split: if_splits)
qed

lemma busy_remove: "e \<noteq> d \<Longrightarrow> (\<And>s. get_session st i = Some s \<Longrightarrow> ses_daemon_id s = d) \<Longrightarrow>
  busy st e \<Longrightarrow> busy (remove_session st d i) e"
  by (erule busyE, rule busyI) (auto simp: session_simps)

lemma idle_after_remove:
  assumes "placed net R st" "get_session st i = Some s" "can_be_cleaned_up (phase s)"
  shows "\<not> busy (remove_session st (ses_daemon_id s) i) (ses_daemon_id s)"
  using placed_unique [OF assms(1,2)] assms(3) by (auto simp: busy_def session_simps split: if_splits)

lemma orderly_promote:
  assumes pl: "placed net {} st" and others: "\<And>e. e \<noteq> d \<Longrightarrow> served net {} st e"
    and idle: "\<not> busy st d" and free: "net d \<notin> set (m_snapshots st)"
  shows "orderly net {} (promote_first now st d)"
proof (cases "m_queue st d")
  case Nil
  then have "served net {} st e" for e using others [of e] by (cases "e = d") (simp_all add: served_def)
  then show ?thesis using pl Nil by (simp add: promote_first_eq orderly_def)
next
  case (Cons i js)
  have inv: "session_inv st" using pl by (rule placed_inv)
  obtain s where s: "get_session st i = Some s" "ses_daemon_id s = d"
    using inv_queue [OF inv, of i d] Cons by auto
  have eq: "promote_first now st d = relabel now st i Pending" using Cons s by (simp add: promote_first_eq)
  have can: "can_be_cleaned_up Pending" by (simp add: can_be_cleaned_up_def)
  have rep: "replaces st i s (s\<lparr>phase := Pending\<rparr>) (relabel now st i Pending)"
    by (rule relabel_replaces [OF inv s(1)]) (use placedD(2) [OF pl s(1)] in \<open>simp_all add: is_terminal_def\<close>)
  have "placed net {} (relabel now st i Pending)"
    by (rule placed_replace [OF pl rep]) (use placedD(1) [OF pl s(1)] s free idle in simp_all)
  moreover have "busy (relabel now st i Pending) d"
    by (rule busyI [of _ i "s\<lparr>phase := Pending\<rparr>"]) (use s can in \<open>simp_all add: session_simps\<close>)
  moreover have "busy st e \<Longrightarrow> busy (relabel now st i Pending) e" for e using can by (simp add: busy_relabel)
  ultimately have "served net {} (relabel now st i Pending) e" for e
    using others [of e] by (cases "e = d") (simp_all add: served_def session_simps)
  then show ?thesis using \<open>placed net {} (relabel now st i Pending)\<close> by (simp add: eq orderly_def)
qed

lemma in_flight_free:
  assumes "placed net R st" "get_session st i = Some s" "can_be_cleaned_up (phase s)"
  shows "net (ses_daemon_id s) \<notin> set (m_snapshots st)"
  using placedD [OF assms(1,2)] assms(3) by (auto simp: can_be_cleaned_up_def)

lemma orderly_take_over:
  assumes ord: "orderly net {} st" and s: "get_session st i = Some s" and c: "can_be_cleaned_up (phase s)"
  shows "orderly net {} (promote_first now (remove_session st (ses_daemon_id s) i) (ses_daemon_id s))"
proof (rule orderly_promote)
  have pl: "placed net {} st" using ord by (simp add: orderly_def)
  show "placed net {} (remove_session st (ses_daemon_id s) i)" using pl s by (rule placed_remove)
  show "\<not> busy (remove_session st (ses_daemon_id s) i) (ses_daemon_id s)" using pl s c by (rule idle_after_remove)
  show "net (ses_daemon_id s) \<notin> set (m_snapshots (remove_session st (ses_daemon_id s) i))"
    using in_flight_free [OF pl s c] by (simp add: session_simps)
  show "served net {} (remove_session st (ses_daemon_id s) i) e" if "e \<noteq> ses_daemon_id s" for e
    using ord that busy_remove [OF that, of st i] s by (auto simp: orderly_def served_def session_simps)
qed

text \<open>Taking away a session that is not in flight.\<close>

lemma orderly_remove_waiting:
  assumes ord: "orderly net {} st" and s: "get_session st i = Some s" and c: "\<not> can_be_cleaned_up (phase s)"
  shows "orderly net {} (remove_session st (ses_daemon_id s) i)"
proof -
  have pl: "placed net {} st" using ord by (simp add: orderly_def)
  have "busy st e \<Longrightarrow> busy (remove_session st (ses_daemon_id s) i) e" for e
    by (erule busyE, rule busyI) (use s c in \<open>auto simp: session_simps\<close>)
  moreover have "\<not> set (m_queue (remove_session st (ses_daemon_id s) i) e) \<subseteq> {} \<Longrightarrow> \<not> set (m_queue st e) \<subseteq> {}" for e
    by (auto simp: session_simps split: if_splits)
  ultimately show ?thesis using ord placed_remove [OF pl s]
    unfolding orderly_def served_def remove_fields by blast
qed

lemma orderly_cancel: "orderly net {} st \<Longrightarrow> orderly net {} (fst (cancel_session now st i))"
proof -
  assume ord: "orderly net {} st"
  show ?thesis
  proof (cases "\<exists>s. get_session st i = Some s \<and> phase s \<in> {Queued, Pending, AwaitingSnapshot}")
    case True
    then obtain s where s: "get_session st i = Some s" "phase s \<in> {Queued, Pending, AwaitingSnapshot}" by blast
    obtain r where "fst (cancel_session now st i) =
        (if phase s = Pending then promote_first now (remove_session st (ses_daemon_id s) i) (ses_daemon_id s)
         else remove_session st (ses_daemon_id s) i)\<lparr>m_rows := r\<rparr>"
      by (rule cancel_removes [OF s])
    then show ?thesis
      using orderly_take_over [OF ord s(1)] orderly_remove_waiting [OF ord s(1)] s(2)
      by (auto simp: session_simps can_be_cleaned_up_def)
  next
    case False
    then show ?thesis using ord
      by (auto simp: cancel_session_def Let_def session_simps split: option.splits)
  qed
qed

text \<open>New sessions.\<close>

lemma orderly_add:
  assumes ord: "orderly net {} st" and inv: "session_inv (add_session st b s)"
    and new: "get_session st (session_id s) = None" and n: "ses_network_id s = net (ses_daemon_id s)"
    and fin: "finished_at s = None"
    and ph: "phase s = (if ses_network_id s \<in> set (m_snapshots st) then AwaitingSnapshot
       else if m_queue st (ses_daemon_id s) = [] then Pending else Queued)"
  shows "orderly net {} (add_session st b s)"
proof -
  have pl: "placed net {} st" using ord by (simp add: orderly_def)
  note q = inv_queue [OF placed_inv [OF pl]]
  have empty: "m_queue st (ses_daemon_id s) = [] \<Longrightarrow> get_session st j = Some t \<Longrightarrow> ses_daemon_id t \<noteq> ses_daemon_id s" for j t
    using q [of j "ses_daemon_id s"] by auto
  have flight: "can_be_cleaned_up (phase s) \<Longrightarrow> m_queue st (ses_daemon_id s) = []"
    using ph by (auto simp: can_be_cleaned_up_def split: if_splits)
  have "ses_network_id t = net (ses_daemon_id t) \<and> finished_at t = None \<and>
        (phase t = AwaitingSnapshot \<longleftrightarrow> ses_network_id t \<in> set (m_snapshots st) \<or> j \<in> {})"
    if "get_session (add_session st b s) j = Some t" for j t
    using that placedD [OF pl, of j t] n fin ph by (auto simp: session_simps split: if_splits)
  moreover have "j = k" if "get_session (add_session st b s) j = Some t" "get_session (add_session st b s) k = Some t'"
      "ses_daemon_id t = ses_daemon_id t'" "can_be_cleaned_up (phase t)" "can_be_cleaned_up (phase t')" for j k t t'
    using that placed_unique [OF pl, of j t k t'] empty [OF flight] by (auto simp: session_simps split: if_splits)
  ultimately have "placed net {} (add_session st b s)" using inv unfolding placed_def session_simps by blast
  moreover have "busy st e \<Longrightarrow> busy (add_session st b s) e" for e
    by (erule busyE, rule busyI) (use new in \<open>auto simp: session_simps\<close>)
  moreover have "busy (add_session st b s) (ses_daemon_id s)"
    if "m_queue st (ses_daemon_id s) = []" "net (ses_daemon_id s) \<notin> set (m_snapshots st)"
    by (rule busyI [of _ "session_id s" s]) (use that n ph in \<open>simp_all add: session_simps can_be_cleaned_up_def\<close>)
  ultimately show ?thesis
    using ord unfolding orderly_def served_def session_simps by (auto split: if_splits)
qed

lemma orderly_start:
  assumes ord: "orderly net {} st" and new: "get_session st new_id = None" and n: "disc_network_id d = net (disc_daemon_id d)"
  shows "orderly net {} (fst (start_session E now new_id st d))"
proof (cases rule: start_session_cases [of d st E now new_id])
  case 1
  then show ?thesis using ord by simp
next
  case (2 r)
  then show ?thesis using ord by (simp add: session_simps)
next
  case (3 r f)
  let ?st = "st\<lparr>m_rows := r, m_last_updated := f\<rparr>"
  have pl: "placed net {} st" using ord by (simp add: orderly_def)
  have "session_inv (st\<lparr>m_rows := r\<rparr>)" using placed_inv [OF pl] by (simp add: session_simps)
  then have "session_inv ?st" by (rule session_inv_clock) (simp add: 3(2))
  then have "orderly net {} ?st" by (intro orderly_agree [OF ord]) (simp_all add: session_simps)
  then show ?thesis
    unfolding 3(3) fst_conv
    by (rule orderly_add) (use n new session_inv_start [OF placed_inv [OF pl] new, of E now d] 3(3) in
      \<open>auto simp: session_simps\<close>)
qed

text \<open>Reports.\<close>

lemma orderly_clocked: "orderly net R st \<Longrightarrow> orderly net R (clocked now st i)"
  by (rule orderly_agree) (auto simp: session_simps orderly_def intro: session_inv_clocked placed_inv)

lemma orderly_report:
  assumes ord: "orderly net {} st" and s: "get_session st (session_id u) = Some s"
    and c: "can_be_cleaned_up (phase s)" and d: "ses_daemon_id u = ses_daemon_id s"
    and n: "ses_network_id u = ses_network_id s"
    and ph: "is_terminal (phase u) \<or> can_be_cleaned_up (phase u) \<and> finished_at u = None"
  shows "orderly net {} (update_session E now new_id st u)"
proof (cases "is_terminal (phase u)")
  case True
  let ?c = "clocked now st (session_id u)"
  obtain r where eq: "finish_session E now new_id (?c\<lparr>m_sessions := put_session (m_sessions ?c) (seen st u)\<rparr>) (seen st u) =
    (promote_first now (remove_session ?c (ses_daemon_id (seen st u)) (session_id (seen st u))) (ses_daemon_id (seen st u)))
      \<lparr>m_rows := r, m_cancellations := (m_cancellations ?c)(ses_daemon_id (seen st u) := None)\<rparr>"
    by (rule finish_session_eq)
  have "orderly net {} (promote_first now (remove_session ?c (ses_daemon_id s) (session_id u)) (ses_daemon_id s))"
    by (rule orderly_take_over [OF orderly_clocked [OF ord]]) (use s c in \<open>simp_all add: session_simps\<close>)
  then show ?thesis
    using True eq d by (simp add: update_session_known [OF s] session_simps)
next
  case False
  then have p: "can_be_cleaned_up (phase u)" "finished_at u = None" using ph by auto
  have pl: "placed net {} st" using ord by (simp add: orderly_def)
  let ?st = "(clocked now st (session_id u))\<lparr>m_sessions := put_session (m_sessions st) (seen st u)\<rparr>"
  have eq: "update_session E now new_id st u = ?st"
    using False by (simp add: update_session_known [OF s])
  have get: "get_session ?st j = (if j = session_id u then Some (seen st u) else get_session st j)" for j
    by (simp add: get_session_def session_simps)
  have fields: "m_queue ?st = m_queue st" "m_snapshots ?st = m_snapshots st" by (simp_all add: session_simps)
  have inv: "session_inv ?st"
    using session_inv_update [OF placed_inv [OF pl], of u E now new_id] s d eq by simp
  have "replaces st (session_id u) s (seen st u) ?st"
    unfolding replaces_def using s inv get fields d n p(2) by simp
  then show ?thesis using orderly_replace [OF ord _ c] p(1) by (simp add: eq)
qed

lemma ids_filter_iff:
  "wf_table session_id (m_sessions st) \<Longrightarrow>
   i \<in> set (map session_id (filter P (m_sessions st))) \<longleftrightarrow> (\<exists>s. get_session st i = Some s \<and> P s)"
  by (auto simp: get_session_def get_by_id_Some)

text \<open>Snapshots.\<close>

lemma orderly_acquire: "orderly net {} st \<Longrightarrow> orderly net {} (fst (try_acquire_network_for_snapshot st n))"
proof -
  assume ord: "orderly net {} st"
  have pl: "placed net {} st" using ord by (simp add: orderly_def)
  have wf: "wf_table session_id (m_sessions st)" using placed_inv [OF pl] by (simp add: session_inv_def)
  show ?thesis
  proof (cases "n \<in> set (m_snapshots st) \<or>
      list_ex (\<lambda>s. ses_network_id s = n \<and> \<not> is_terminal (phase s)) (m_sessions st)")
    case True
    then show ?thesis using ord by (auto simp: try_acquire_network_for_snapshot_def)
  next
    case False
    have none: "ses_network_id s \<noteq> n" if "get_session st i = Some s" for i s
      using that False inv_not_terminal [OF placed_inv [OF pl] that] session_mem_iff [OF wf, of s] get_session_id [OF that]
      by (auto simp: list_ex_iff)
    let ?st = "st\<lparr>m_snapshots := n # m_snapshots st\<rparr>"
    have "placed net {} ?st" using pl none unfolding placed_def by (auto simp: session_simps)
    moreover have "busy ?st = busy st" by (simp add: busy_def session_simps fun_eq_iff)
    ultimately have "orderly net {} ?st" using ord by (auto simp: orderly_def served_def)
    then show ?thesis using False by (simp add: try_acquire_network_for_snapshot_def)
  qed
qed

lemma other_active_busy:
  assumes pl: "placed net R st" and s: "get_session st i = Some s" and w: "phase s = AwaitingSnapshot"
  shows "daemon_has_other_active st (ses_daemon_id s) i \<longleftrightarrow> busy st (ses_daemon_id s)"
proof
  note q = inv_queue [OF placed_inv [OF pl]] and nt = inv_not_terminal [OF placed_inv [OF pl]]
  show "busy st (ses_daemon_id s)" if act: "daemon_has_other_active st (ses_daemon_id s) i"
  proof -
    obtain j t where t: "j \<in> set (m_queue st (ses_daemon_id s))" "get_session st j = Some t"
      "phase t \<noteq> Queued" "phase t \<noteq> AwaitingSnapshot"
      using act by (auto simp: daemon_has_other_active_def list_ex_iff split: option.splits)
    then have "can_be_cleaned_up (phase t)" using nt [OF t(2)] by (auto elim: phase_cases)
    then show ?thesis using t q [of j "ses_daemon_id s"] by (auto intro: busyI)
  qed
  show "daemon_has_other_active st (ses_daemon_id s) i" if bz: "busy st (ses_daemon_id s)"
  proof -
    obtain j t where t: "get_session st j = Some t" "ses_daemon_id t = ses_daemon_id s" "can_be_cleaned_up (phase t)"
      using bz by (rule busyE)
    then have "j \<noteq> i" "phase t \<notin> {Queued, AwaitingSnapshot}" "\<not> is_terminal (phase t)"
      using s w by (auto simp: can_be_cleaned_up_def is_terminal_def)
    then show ?thesis using t q [of j "ses_daemon_id s"] unfolding daemon_has_other_active_def list_ex_iff
      by (intro bexI [of _ j]) auto
  qed
qed

lemma orderly_unblock:
  assumes ord: "orderly net (insert i R) st" and i: "i \<notin> R" and s: "get_session st i = Some s"
    and free: "ses_network_id s \<notin> set (m_snapshots st)"
  shows "orderly net R (unblock_session now st i)"
proof -
  have pl: "placed net (insert i R) st" using ord by (simp add: orderly_def)
  have w: "phase s = AwaitingSnapshot" using placedD(3) [OF pl s] by simp
  have R: "R - {i} = insert i R - {i}" by auto
  note act = other_active_busy [OF pl s w] and inv = placed_inv [OF pl]
  let ?d = "ses_daemon_id s"
  let ?st = "unblock_session now st i"
  let ?p = "if busy st ?d then Queued else Pending"
  have get: "get_session ?st j = (if j = i then Some (s\<lparr>phase := ?p\<rparr>) else get_session st j)" for j
    using s [unfolded get_session_def] unfolding unblock_session_def s option.case act
    by (simp add: get_session_def session_simps)
  have fields: "m_queue ?st = m_queue st" "m_snapshots ?st = m_snapshots st"
    unfolding unblock_session_def s option.case by simp_all
  have rep: "replaces st i s (s\<lparr>phase := ?p\<rparr>) ?st"
    unfolding replaces_def using s get fields session_inv_unblock [OF inv] placedD(2) [OF pl s] by simp
  have "placed net R ?st"
    by (rule placed_replace [OF pl rep _ R]) (use i free in \<open>auto simp: can_be_cleaned_up_def\<close>)
  moreover have old: "busy st e \<Longrightarrow> busy ?st e" for e
    by (rule busy_replace [OF rep]) (use w in \<open>simp_all add: can_be_cleaned_up_def\<close>)
  moreover have "busy ?st ?d"
  proof (cases "busy st ?d")
    case True
    then show ?thesis by (rule old)
  next
    case False
    then show ?thesis
      by (intro busyI [of _ i "s\<lparr>phase := Pending\<rparr>"]) (simp_all add: get can_be_cleaned_up_def)
  qed
  moreover have "served net R ?st e" if "e \<noteq> ?d" for e
  proof -
    have "i \<notin> set (m_queue st e)" using that s inv_queue [OF inv, of i e] by auto
    then have "set (m_queue st e) \<subseteq> insert i R \<longleftrightarrow> set (m_queue st e) \<subseteq> R" by auto
    then show ?thesis using ord old [of e] by (auto simp: orderly_def served_def fields)
  qed
  ultimately have "served net R ?st e" for e by (cases "e = ?d") (simp_all add: served_def)
  then show ?thesis using \<open>placed net R ?st\<close> by (simp add: orderly_def)
qed

lemma unblock_other:
  assumes "j \<noteq> i"
  shows "get_session (unblock_session now st i) j = get_session st j"
    and "m_snapshots (unblock_session now st i) = m_snapshots st"
  using assms by (simp_all add: unblock_session_def get_session_def session_simps split: option.splits)

lemma orderly_unblock_all:
  assumes "orderly net (set ids) st" "distinct ids"
    and "\<forall>i \<in> set ids. \<exists>s. get_session st i = Some s \<and> ses_network_id s \<notin> set (m_snapshots st)"
  shows "orderly net {} (foldl (unblock_session now) st ids)"
  using assms
proof (induction ids arbitrary: st)
  case Nil
  then show ?case by simp
next
  case (Cons i ids)
  obtain s where s: "get_session st i = Some s" "ses_network_id s \<notin> set (m_snapshots st)" using Cons.prems(3) by auto
  have "orderly net (set ids) (unblock_session now st i)"
    by (rule orderly_unblock [OF _ _ s]) (use Cons.prems in simp_all)
  moreover have "\<forall>j \<in> set ids. \<exists>t. get_session (unblock_session now st i) j = Some t \<and>
      ses_network_id t \<notin> set (m_snapshots (unblock_session now st i))"
  proof
    fix j assume j: "j \<in> set ids"
    then have "j \<noteq> i" using Cons.prems(2) by auto
    then show "\<exists>t. get_session (unblock_session now st i) j = Some t \<and>
        ses_network_id t \<notin> set (m_snapshots (unblock_session now st i))"
      using Cons.prems(3) j unblock_other [of j i now st] by simp
  qed
  ultimately show ?case using Cons.IH Cons.prems(2) by simp
qed

lemma orderly_release:
  assumes ord: "orderly net {} st"
  shows "orderly net {} (release_network_for_snapshot now st n)"
proof -
  have pl: "placed net {} st" using ord by (simp add: orderly_def)
  have wf: "wf_table session_id (m_sessions st)" using placed_inv [OF pl] by (simp add: session_inv_def)
  define ids where "ids = map session_id (filter (\<lambda>s. ses_network_id s = n \<and> phase s = AwaitingSnapshot) (m_sessions st))"
  let ?st = "drop_reservation st n"
  have get: "get_session ?st i = get_session st i" for i by (simp add: drop_reservation_def session_simps)
  have sn: "set (m_snapshots ?st) = set (m_snapshots st) - {n}" and q: "m_queue ?st = m_queue st"
    by (auto simp: drop_reservation_def)
  have ids: "i \<in> set ids \<longleftrightarrow> (\<exists>s. get_session st i = Some s \<and> ses_network_id s = n \<and> phase s = AwaitingSnapshot)" for i
    unfolding ids_def by (rule ids_filter_iff [OF wf])
  have "phase s = AwaitingSnapshot \<longleftrightarrow> ses_network_id s \<in> set (m_snapshots st) - {n} \<or> i \<in> set ids"
    if "get_session st i = Some s" for i s
    using placedD(3) [OF pl that] that unfolding ids by auto
  then have "placed net (set ids) ?st"
    using pl session_inv_drop [OF placed_inv [OF pl]] unfolding placed_def get sn by blast
  moreover have "served net (set ids) ?st d" for d
  proof (cases "net d = n \<and> n \<in> set (m_snapshots st)")
    case True
    have "set (m_queue st d) \<subseteq> set ids"
    proof
      fix i assume "i \<in> set (m_queue st d)"
      then obtain s where s: "get_session st i = Some s" "ses_daemon_id s = d"
        using inv_queue [OF placed_inv [OF pl]] by blast
      then show "i \<in> set ids" unfolding ids using True placedD(1,3) [OF pl s(1)] by auto
    qed
    then show ?thesis by (simp add: served_def q)
  next
    case False
    have "served net {} st d" using ord by (simp add: orderly_def)
    then show ?thesis using False unfolding served_def busy_def get sn q by (cases "m_queue st d") auto
  qed
  ultimately have "orderly net (set ids) ?st" by (simp add: orderly_def)
  moreover have "distinct ids" using wf unfolding ids_def wf_table_def by (rule distinct_map_filter)
  moreover have "\<forall>i \<in> set ids. \<exists>s. get_session ?st i = Some s \<and> ses_network_id s \<notin> set (m_snapshots ?st)"
    using ids by (auto simp: get sn)
  ultimately have "orderly net {} (foldl (unblock_session now) ?st ids)" by (rule orderly_unblock_all)
  then show ?thesis
    by (simp add: release_network_for_snapshot_def promote_awaiting_def ids_def drop_reservation_def)
qed

text \<open>Cleaning up.\<close>

lemma promote_if_queued_first:
  assumes pl: "placed net {} st" and idle: "\<not> busy st d" and free: "net d \<notin> set (m_snapshots st)"
  shows "promote_if_queued now st d = promote_first now st d"
proof (cases "m_queue st d")
  case (Cons i js)
  obtain s where s: "get_session st i = Some s" "ses_daemon_id s = d"
    using inv_queue [OF placed_inv [OF pl], of i d] Cons by auto
  have "phase s \<noteq> AwaitingSnapshot" "\<not> can_be_cleaned_up (phase s)"
    using placedD [OF pl s(1)] s free idle by (auto intro: busyI)
  then have "phase s = Queued"
    using inv_not_terminal [OF placed_inv [OF pl] s(1)] by (auto elim: phase_cases)
  then show ?thesis using Cons s by (simp add: promote_if_queued_eq promote_first_eq)
qed (simp add: promote_if_queued_eq promote_first_eq)

lemma orderly_reap:
  assumes ord: "orderly net {} st" and s: "get_session st i = Some s" and c: "can_be_cleaned_up (phase s)"
  shows "orderly net {} (reap_stalled E now n st i)"
proof -
  have pl: "placed net {} st" using ord by (simp add: orderly_def)
  let ?rm = "remove_session st (ses_daemon_id s) i"
  have eq: "promote_if_queued now ?rm (ses_daemon_id s) = promote_first now ?rm (ses_daemon_id s)"
    by (rule promote_if_queued_first [OF placed_remove [OF pl s] idle_after_remove [OF pl s c]])
      (use in_flight_free [OF pl s c] in \<open>simp add: session_simps\<close>)
  obtain r k where k: "reap_stalled E now n st i =
      (promote_first now ?rm (ses_daemon_id s))
        \<lparr>m_last_updated := (m_last_updated (promote_first now ?rm (ses_daemon_id s)))(i := None),
         m_cancellations := k, m_rows := r\<rparr>"
    using reap_stalled_eq [OF s, of E now n] unfolding eq by metis
  have "session_inv (reap_stalled E now n st i)" using placed_inv [OF pl] by (rule session_inv_reap_stalled)
  then show ?thesis by (rule orderly_agree [OF orderly_take_over [OF ord s c, of now]]) (simp_all add: k session_simps)
qed

lemma reap_other:
  assumes "j \<noteq> i" "get_session st j = Some t" "can_be_cleaned_up (phase t)"
  shows "\<exists>t'. get_session (reap_stalled E now n st i) j = Some t' \<and> can_be_cleaned_up (phase t')"
proof (cases "get_session st i")
  case None
  then show ?thesis using assms by (simp add: reap_stalled_def)
next
  case (Some s)
  obtain r k where k: "reap_stalled E now n st i =
    (promote_if_queued now (remove_session st (ses_daemon_id s) i) (ses_daemon_id s))
      \<lparr>m_last_updated := (m_last_updated (promote_if_queued now (remove_session st (ses_daemon_id s) i) (ses_daemon_id s)))
         (i := None), m_cancellations := k, m_rows := r\<rparr>"
    by (rule reap_stalled_eq [OF Some])
  show ?thesis unfolding k using assms
    by (auto simp: session_simps promote_if_queued_eq can_be_cleaned_up_def split: list.splits option.splits)
qed

lemma orderly_reap_fold:
  assumes "orderly net {} st" "distinct ids"
    and "\<forall>i \<in> set ids. \<exists>s. get_session st i = Some s \<and> can_be_cleaned_up (phase s)"
  shows "orderly net {} (foldl (reap_stalled E now n) st ids)"
  using assms
proof (induction ids arbitrary: st)
  case (Cons i ids)
  obtain s where s: "get_session st i = Some s" "can_be_cleaned_up (phase s)" using Cons.prems(3) by auto
  have "orderly net {} (reap_stalled E now n st i)" by (rule orderly_reap [OF Cons.prems(1) s])
  moreover have "\<forall>j \<in> set ids. \<exists>t. get_session (reap_stalled E now n st i) j = Some t \<and> can_be_cleaned_up (phase t)"
  proof
    fix j assume j: "j \<in> set ids"
    then obtain t where "get_session st j = Some t" "can_be_cleaned_up (phase t)" using Cons.prems(3) by auto
    then show "\<exists>t. get_session (reap_stalled E now n st i) j = Some t \<and> can_be_cleaned_up (phase t)"
      using reap_other [of j i st t] Cons.prems(2) j by auto
  qed
  ultimately show ?case using Cons.IH Cons.prems(2) by simp
qed simp

lemma orderly_cleanup_stalled: "orderly net {} st \<Longrightarrow> orderly net {} (cleanup_stalled_sessions E now n st)"
proof -
  assume ord: "orderly net {} st"
  have wf: "wf_table session_id (m_sessions st)" using ord by (simp add: orderly_def placed_def session_inv_def)
  let ?req = "request_cancellations st (stalled_sessions now st)"
  let ?ids = "map session_id (stalled_sessions now st)"
  have req: "orderly net {} ?req" using ord by (simp add: request_cancellations_def session_simps)
  have "\<exists>s. get_session ?req i = Some s \<and> can_be_cleaned_up (phase s)" if "i \<in> set ?ids" for i
    using that [unfolded stalled_sessions_def ids_filter_iff [OF wf]]
    by (auto simp: request_cancellations_def session_simps is_stalled_def)
  moreover have "distinct ?ids" using wf unfolding stalled_sessions_def wf_table_def by (rule distinct_map_filter)
  ultimately have fold: "orderly net {} (foldl (reap_stalled E now n) ?req ?ids)"
    using req by (intro orderly_reap_fold) auto
  then have "orderly net {} (reap_all E now n ?req (stalled_sessions now st))"
    unfolding reap_all_def
    by (rule orderly_agree)
      (use fold in \<open>auto simp: evict_tombstones_def orderly_def placed_def session_simps
        intro!: session_inv_evict [unfolded evict_tombstones_def]\<close>)
  then show ?thesis using ord by (simp add: cleanup_stalled_sessions_def Let_def)
qed

lemma orderly_cleanup_old: "orderly net {} st \<Longrightarrow> cleanup_old_sessions cutoff st = st"
proof -
  assume ord: "orderly net {} st"
  then have wf: "wf_table session_id (m_sessions st)" by (simp add: orderly_def placed_def session_inv_def)
  have "finished_at s = None" if "s \<in> set (m_sessions st)" for s
    using that session_mem_iff [OF wf] ord placedD(2) by (auto simp: orderly_def)
  then have "filter (\<lambda>s. case finished_at s of Some t \<Rightarrow> t < cutoff | None \<Rightarrow> False) (m_sessions st) = []"
    by (simp add: filter_empty_conv)
  then show ?thesis by (simp add: cleanup_old_sessions_def)
qed

lemma orderly_clear: "orderly net {} st \<Longrightarrow> orderly net {} (clear_sessions_for_daemon st d)"
proof -
  assume ord: "orderly net {} st"
  have pl: "placed net {} st" using ord by (simp add: orderly_def)
  let ?st = "clear_sessions_for_daemon st d"
  have fields: "m_queue ?st = (m_queue st)(d := [])" "m_snapshots ?st = m_snapshots st"
    by (simp_all add: clear_sessions_for_daemon_def Let_def)
  have "placed net {} ?st"
    using pl session_inv_clear [OF placed_inv [OF pl], of d] unfolding placed_def get_clear fields
    by (auto split: if_splits)
  moreover have "busy ?st e" if "busy st e" "e \<noteq> d" for e
    using that(1)
  proof (rule busyE)
    fix i s assume s: "get_session st i = Some s" "ses_daemon_id s = e" "can_be_cleaned_up (phase s)"
    then have "i \<notin> set (m_queue st d)" using inv_queue [OF placed_inv [OF pl], of i d] that(2) by auto
    then show ?thesis using s by (intro busyI [of _ i s]) (simp_all add: get_clear)
  qed
  ultimately show ?thesis using ord by (auto simp: orderly_def served_def fields)
qed

section \<open>Runs that keep to the protocol\<close>

inductive protocol_step :: "manager_env \<Rightarrow> (uuid \<Rightarrow> uuid) \<Rightarrow> manager \<Rightarrow> manager \<Rightarrow> bool" for E net where
  start: "get_session st new_id = None \<Longrightarrow> disc_network_id d = net (disc_daemon_id d) \<Longrightarrow>
    protocol_step E net st (fst (start_session E now new_id st d))"
| rows: "protocol_step E net st (st\<lparr>m_rows := r\<rparr>)"
| dispatch: "protocol_step E net st (transition_session_to_starting now st i)"
| report: "get_session st (session_id u) = Some s \<Longrightarrow> can_be_cleaned_up (phase s) \<Longrightarrow>
    ses_daemon_id u = ses_daemon_id s \<Longrightarrow> ses_network_id u = ses_network_id s \<Longrightarrow>
    is_terminal (phase u) \<or> can_be_cleaned_up (phase u) \<and> finished_at u = None \<Longrightarrow>
    protocol_step E net st (update_session E now new_id st u)"
| late_report: "get_session st (session_id u) = None \<Longrightarrow> is_terminal (phase u) \<Longrightarrow>
    m_last_updated st (session_id u) \<noteq> None \<Longrightarrow> protocol_step E net st (update_session E now new_id st u)"
| cancel: "protocol_step E net st (fst (cancel_session now st i))"
| pull: "protocol_step E net st (fst (pull_cancellation_for_daemon st d))"
| acquire: "protocol_step E net st (fst (try_acquire_network_for_snapshot st n))"
| release: "protocol_step E net st (release_network_for_snapshot now st n)"
| stalled: "protocol_step E net st (cleanup_stalled_sessions E now new_ids st)"
| cleanup_old: "protocol_step E net st (cleanup_old_sessions cutoff st)"
| sweep: "protocol_step E net st (sweep_orphaned_rescans cutoff st)"
| warn: "protocol_step E net st (append_historical_warnings st i ls)"
| clear: "protocol_step E net st (clear_sessions_for_daemon st d)"

inductive protocol_reachable :: "manager_env \<Rightarrow> (uuid \<Rightarrow> uuid) \<Rightarrow> manager \<Rightarrow> bool" for E net where
  init: "protocol_reachable E net (empty_manager\<lparr>m_rows := rows\<rparr>)"
| step: "protocol_reachable E net st \<Longrightarrow> protocol_step E net st st' \<Longrightarrow> protocol_reachable E net st'"

lemma protocol_step_orderly: "protocol_step E net st st' \<Longrightarrow> orderly net {} st \<Longrightarrow> orderly net {} st'"
proof (induction rule: protocol_step.induct)
  case (report st u s now new_id)
  then show ?case by (intro orderly_report) auto
qed (simp_all add: orderly_start orderly_starting update_session_late orderly_clocked orderly_cancel
    orderly_acquire orderly_release orderly_cleanup_stalled orderly_cleanup_old orderly_clear
    sweep_orphaned_rescans_def append_historical_warnings_def pull_cancellation_for_daemon_def Let_def session_simps
    split: option.splits RunType.splits)

lemma orderly_empty: "orderly net {} (empty_manager\<lparr>m_rows := rows\<rparr>)"
  unfolding session_simps orderly_def placed_def served_def
  by (simp add: session_inv_empty) (simp add: empty_manager_def get_session_def get_by_id_def)

lemma protocol_reachable_orderly: "protocol_reachable E net st \<Longrightarrow> orderly net {} st"
  by (induction rule: protocol_reachable.induct) (simp_all add: orderly_empty protocol_step_orderly)

lemma protocol_reachable_placed: "protocol_reachable E net st \<Longrightarrow> placed net {} st"
  using protocol_reachable_orderly by (auto simp: orderly_def)

end
