(* ===== verification/Session_Work.thy ===== *)
theory Session_Work
  imports Session_Protocol
begin

text \<open>
  What the session manager does for a daemon: the work pull hands out a session whenever one is
  due and never two at a time, and a stall sweep leaves no stalled session behind.
\<close>

section \<open>Handing out work\<close>

lemma start_session_get:
  assumes "get_session (fst (start_session E now new_id st d)) i = Some s"
  shows "get_session st i = Some s \<or> i = new_id \<and> phase s \<in> {AwaitingSnapshot, Queued, Pending}"
  using assms
  by (cases rule: start_session_cases [of d st E now new_id]) (auto simp: session_simps split: if_splits)

lemma start_session_queue:
  "set (m_queue st e) \<subseteq> set (m_queue (fst (start_session E now new_id st d)) e)"
  "m_snapshots (fst (start_session E now new_id st d)) = m_snapshots st"
  by (cases rule: start_session_cases [of d st E now new_id]; auto simp: session_simps)+

text \<open>
  The sessions started for the discoveries of a list, each under an id of its own. The ids are
  fresh: different for different discoveries, and not those of a live session.
\<close>

definition start_all ::
    "manager_env \<Rightarrow> datetime \<Rightarrow> (uuid \<Rightarrow> uuid) \<Rightarrow> manager \<Rightarrow> Discovery list \<Rightarrow> manager" where
  "start_all E now new_id =
     foldl (\<lambda>st' d. if never_ran (run_type d) then fst (start_session E now (new_id (disc_id d)) st' d) else st')"

lemma start_all_keeps:
  assumes "orderly net {} st" "distinct (map disc_id ds)" "inj_on new_id (disc_id ` set ds)"
    and "\<forall>d \<in> set ds. get_session st (new_id (disc_id d)) = None \<and> disc_network_id d = net (disc_daemon_id d)"
  shows "orderly net {} (start_all E now new_id st ds) \<and>
    set (m_queue st e) \<subseteq> set (m_queue (start_all E now new_id st ds) e) \<and>
    m_snapshots (start_all E now new_id st ds) = m_snapshots st \<and>
    (\<forall>i s. get_session (start_all E now new_id st ds) i = Some s \<longrightarrow>
       get_session st i = Some s \<or> phase s \<in> {AwaitingSnapshot, Queued, Pending})"
  using assms
proof (induction ds arbitrary: st)
  case Nil
  then show ?case by (simp add: start_all_def)
next
  case (Cons d ds)
  let ?st = "if never_ran (run_type d) then fst (start_session E now (new_id (disc_id d)) st d) else st"
  have step: "start_all E now new_id st (d # ds) = start_all E now new_id ?st ds" by (simp add: start_all_def)
  have "orderly net {} ?st" using Cons.prems by (simp add: orderly_start)
  moreover have "\<forall>d' \<in> set ds. get_session ?st (new_id (disc_id d')) = None \<and> disc_network_id d' = net (disc_daemon_id d')"
  proof
    fix d' assume d': "d' \<in> set ds"
    then have "new_id (disc_id d') \<noteq> new_id (disc_id d)"
      using Cons.prems(2,3) by (simp add: image_iff inj_on_def) metis
    then have "get_session ?st (new_id (disc_id d')) = None"
      using start_session_get [of E now "new_id (disc_id d)" st d "new_id (disc_id d')"] Cons.prems(4) d'
      by (cases "get_session ?st (new_id (disc_id d'))") (auto split: if_splits)
    then show "get_session ?st (new_id (disc_id d')) = None \<and> disc_network_id d' = net (disc_daemon_id d')"
      using Cons.prems(4) d' by simp
  qed
  ultimately have IH: "orderly net {} (start_all E now new_id ?st ds)"
    "set (m_queue ?st e) \<subseteq> set (m_queue (start_all E now new_id ?st ds) e)"
    "m_snapshots (start_all E now new_id ?st ds) = m_snapshots ?st"
    "\<And>i s. get_session (start_all E now new_id ?st ds) i = Some s \<Longrightarrow>
       get_session ?st i = Some s \<or> phase s \<in> {AwaitingSnapshot, Queued, Pending}"
    using Cons.IH [of ?st] Cons.prems(2,3) by auto
  have q: "set (m_queue st e) \<subseteq> set (m_queue ?st e)" "m_snapshots ?st = m_snapshots st"
    using start_session_queue [where new_id = "new_id (disc_id d)" and st = st and d = d] by simp_all
  have g: "get_session ?st i = Some s \<Longrightarrow>
      get_session st i = Some s \<or> phase s \<in> {AwaitingSnapshot, Queued, Pending}" for i s
    using start_session_get [of E now "new_id (disc_id d)" st d i s] by (auto split: if_splits)
  show ?case unfolding step
    by (intro conjI allI impI IH(1) subset_trans [OF q(1) IH(2)] trans [OF IH(3) q(2)]) (use IH(4) g in blast)
qed

definition initial_discoveries :: "manager \<Rightarrow> uuid \<Rightarrow> Discovery list" where
  "initial_discoveries st daemon = filter (\<lambda>d. disc_daemon_id d = daemon \<and> is_live_config (run_type d)
                    \<and> rescan_target_host_id (disc_type d) = None) (m_rows st)"

lemma start_initial_eq:
  "start_initial_discovery_sessions E now new_id st daemon = start_all E now new_id st (initial_discoveries st daemon)"
  by (simp add: start_initial_discovery_sessions_def start_all_def initial_discoveries_def)

definition fresh_ids :: "(uuid \<Rightarrow> uuid) \<Rightarrow> manager \<Rightarrow> bool" where
  "fresh_ids new_id st \<longleftrightarrow> inj_on new_id (disc_id ` set (m_rows st)) \<and>
     (\<forall>d \<in> set (m_rows st). get_session st (new_id (disc_id d)) = None)"

definition home_rows :: "(uuid \<Rightarrow> uuid) \<Rightarrow> manager \<Rightarrow> bool" where
  "home_rows net st \<longleftrightarrow> wf_table disc_id (m_rows st) \<and>
     (\<forall>d \<in> set (m_rows st). disc_network_id d = net (disc_daemon_id d))"

lemma start_initial_keeps:
  assumes "orderly net {} st" "fresh_ids new_id st" "home_rows net st"
  shows "orderly net {} (start_initial_discovery_sessions E now new_id st daemon)"
    and "set (m_queue st e) \<subseteq> set (m_queue (start_initial_discovery_sessions E now new_id st daemon) e)"
    and "m_snapshots (start_initial_discovery_sessions E now new_id st daemon) = m_snapshots st"
    and "get_session (start_initial_discovery_sessions E now new_id st daemon) i = Some s \<Longrightarrow>
       get_session st i = Some s \<or> phase s \<in> {AwaitingSnapshot, Queued, Pending}"
proof -
  have "distinct (map disc_id (initial_discoveries st daemon))"
    using assms(3) unfolding home_rows_def wf_table_def initial_discoveries_def by (auto intro: distinct_map_filter)
  moreover have "\<forall>d \<in> set (initial_discoveries st daemon).
      get_session st (new_id (disc_id d)) = None \<and> disc_network_id d = net (disc_daemon_id d)"
    using assms(2,3) by (auto simp: fresh_ids_def home_rows_def initial_discoveries_def)
  ultimately have "orderly net {} (start_all E now new_id st (initial_discoveries st daemon)) \<and>
    set (m_queue st e) \<subseteq> set (m_queue (start_all E now new_id st (initial_discoveries st daemon)) e) \<and>
    m_snapshots (start_all E now new_id st (initial_discoveries st daemon)) = m_snapshots st \<and>
    (\<forall>i s. get_session (start_all E now new_id st (initial_discoveries st daemon)) i = Some s \<longrightarrow>
       get_session st i = Some s \<or> phase s \<in> {AwaitingSnapshot, Queued, Pending})"
    using assms(1,2)
    by (intro start_all_keeps) (auto simp: fresh_ids_def initial_discoveries_def intro: inj_on_subset)
  then show "orderly net {} (start_initial_discovery_sessions E now new_id st daemon)"
    "set (m_queue st e) \<subseteq> set (m_queue (start_initial_discovery_sessions E now new_id st daemon) e)"
    "m_snapshots (start_initial_discovery_sessions E now new_id st daemon) = m_snapshots st"
    "get_session (start_initial_discovery_sessions E now new_id st daemon) i = Some s \<Longrightarrow>
       get_session st i = Some s \<or> phase s \<in> {AwaitingSnapshot, Queued, Pending}"
    unfolding start_initial_eq by blast+
qed

lemma not_active:
  assumes "session_inv st" "\<not> has_active_session_for_daemon st d" "get_session st i = Some s" "ses_daemon_id s = d"
  shows "phase s \<in> {Queued, Pending}"
proof -
  have "i \<in> set (m_queue st d)" using assms inv_queue by blast
  then have "is_terminal (phase s) \<or> phase s \<in> {Queued, Pending}"
    using assms(2,3) by (fastforce simp: has_active_session_for_daemon_def list_ex_iff)
  then show ?thesis using inv_not_terminal [OF assms(1,3)] by blast
qed

lemma sessions_for_daemon_mem:
  assumes "session_inv st"
  shows "s \<in> set (get_sessions_for_daemon st d) \<longleftrightarrow>
    get_session st (session_id s) = Some s \<and> ses_daemon_id s = d \<and> phase s = Pending"
proof -
  have "(\<exists>i \<in> set (m_queue st d). get_session st i = Some s) \<longleftrightarrow>
      get_session st (session_id s) = Some s \<and> ses_daemon_id s = d"
    using inv_queue [OF assms, of _ d] get_session_id [of st _ s] by auto
  then show ?thesis by (auto simp: get_sessions_for_daemon_def map_filter_mem)
qed

lemma pending_work_due:
  assumes ord: "orderly net {} st" and ids: "fresh_ids new_id st" and home: "home_rows net st"
    and idle: "\<not> has_active_session_for_daemon st d" and work: "m_queue st d \<noteq> []" and free: "net d \<notin> set (m_snapshots st)"
  shows "\<exists>w. snd (get_pending_work E now new_id st d) = Some w \<and> phase w = Pending \<and> ses_daemon_id w = d"
proof -
  let ?st = "start_initial_discovery_sessions E now new_id st d"
  note keeps = start_initial_keeps [OF ord ids home, where E = E and now = now and daemon = d]
  have inv: "session_inv st" "session_inv ?st" using ord keeps(1) by (auto simp: orderly_def placed_def)
  have "m_queue ?st d \<noteq> []" using keeps(2) [where e = d] work by auto
  then have "busy ?st d" using keeps(1,3) free by (auto simp: orderly_def served_def)
  then obtain i s where s: "get_session ?st i = Some s" "ses_daemon_id s = d" "can_be_cleaned_up (phase s)"
    by (rule busyE)
  then have "phase s = Pending"
    using keeps(4) [OF s(1)] not_active [OF inv(1) idle _ s(2)] by (auto simp: can_be_cleaned_up_def)
  then have "s \<in> set (get_sessions_for_daemon ?st d)"
    using s get_session_id [OF s(1)] by (simp add: sessions_for_daemon_mem [OF inv(2)])
  then obtain w ws where w: "get_sessions_for_daemon ?st d = w # ws" by (cases "get_sessions_for_daemon ?st d") auto
  then have "w \<in> set (get_sessions_for_daemon ?st d)" by simp
  then have "phase w = Pending \<and> ses_daemon_id w = d" by (simp add: sessions_for_daemon_mem [OF inv(2)])
  then show ?thesis using idle w by (simp add: get_pending_work_def Let_def)
qed

text \<open>After a hand-out the daemon's only session in flight is the one handed out.\<close>

lemma pending_work_exclusive:
  assumes ord: "orderly net {} st" and ids: "fresh_ids new_id st" and home: "home_rows net st"
    and some: "get_pending_work E now new_id st d = (st', Some w)"
  shows "orderly net {} st'" and "\<not> has_active_session_for_daemon st d"
    and "get_session st' (session_id w) = Some (w\<lparr>phase := Starting\<rparr>)"
    and "get_session st' i = Some s \<Longrightarrow> ses_daemon_id s = d \<Longrightarrow> can_be_cleaned_up (phase s) \<Longrightarrow> i = session_id w"
proof -
  let ?st = "start_initial_discovery_sessions E now new_id st d"
  note keeps = start_initial_keeps [OF ord ids home, where E = E and now = now and daemon = d]
  have inv: "session_inv ?st" using keeps(1) by (auto simp: orderly_def placed_def)
  show idle: "\<not> has_active_session_for_daemon st d"
    using some by (auto simp: get_pending_work_def split: if_splits)
  then obtain ws where w: "get_sessions_for_daemon ?st d = w # ws"
    and st': "st' = transition_session_to_starting now ?st (session_id w)"
    using some by (auto simp: get_pending_work_def Let_def split: list.splits)
  have "w \<in> set (get_sessions_for_daemon ?st d)" using w by simp
  then have wd: "get_session ?st (session_id w) = Some w" "ses_daemon_id w = d" "phase w = Pending"
    by (simp_all add: sessions_for_daemon_mem [OF inv])
  show ord': "orderly net {} st'" unfolding st' using keeps(1) by (rule orderly_starting)
  show get: "get_session st' (session_id w) = Some (w\<lparr>phase := Starting\<rparr>)"
    using wd [unfolded get_session_def] by (simp add: st' transition_session_to_starting_def get_session_def session_simps)
  show "i = session_id w" if "get_session st' i = Some s" "ses_daemon_id s = d" "can_be_cleaned_up (phase s)"
    using ord' that get wd(2) placed_unique [of net "{}" st' i s "session_id w" "w\<lparr>phase := Starting\<rparr>"]
    by (simp add: orderly_def can_be_cleaned_up_def)
qed

section \<open>Stalled sessions\<close>

definition overdue :: "datetime \<Rightarrow> manager \<Rightarrow> uuid \<Rightarrow> bool" where
  "overdue now st i \<longleftrightarrow> (\<exists>s. get_session st i = Some s \<and> is_stalled now st s)"

lemma overdue_reap:
  assumes "overdue now (reap_stalled E now n st i) j"
  shows "overdue now st j \<and> j \<noteq> i"
proof (cases "get_session st i")
  case None
  then show ?thesis using assms by (auto simp: reap_stalled_def overdue_def)
next
  case (Some s)
  let ?rm = "remove_session st (ses_daemon_id s) i"
  let ?p = "promote_if_queued now ?rm (ses_daemon_id s)"
  obtain r k where k: "reap_stalled E now n st i =
      ?p\<lparr>m_last_updated := (m_last_updated ?p)(i := None), m_cancellations := k, m_rows := r\<rparr>"
    by (rule reap_stalled_eq [OF Some])
  obtain t where t: "get_session ?p j = Some t" "is_stalled now (reap_stalled E now n st i) t"
    using assms by (auto simp: overdue_def k session_simps)
  have p: "?p = ?rm \<or> (\<exists>h. ?p = relabel now ?rm h Pending)"
    by (auto simp: promote_if_queued_eq split: list.splits option.splits)
  have "get_session ?p i = None"
    using p by (elim disjE exE) (simp_all add: session_simps)
  then have ji: "j \<noteq> i" using t(1) by auto
  have id: "session_id t = j" using t(1) by (rule get_session_id)
  have st: "is_stalled now ?p t" using t(2) ji id by (simp add: k is_stalled_def)
  from p show ?thesis
  proof
    assume "?p = ?rm"
    then show ?thesis using t(1) st ji by (auto simp: overdue_def is_stalled_def session_simps)
  next
    assume "\<exists>h. ?p = relabel now ?rm h Pending"
    then obtain h where h: "?p = relabel now ?rm h Pending" ..
    then have "h \<noteq> j" using st id by (auto simp: is_stalled_def session_simps stall_threshold_def)
    then show ?thesis using t(1) st ji id by (auto simp: overdue_def is_stalled_def session_simps h)
  qed
qed

lemma overdue_reap_fold:
  "overdue now (foldl (reap_stalled E now n) st ids) j \<Longrightarrow> overdue now st j \<and> j \<notin> set ids"
proof (induction ids arbitrary: st)
  case (Cons i ids)
  then have "overdue now (reap_stalled E now n st i) j \<and> j \<notin> set ids" by simp
  then show ?case using overdue_reap by fastforce
qed simp

lemma overdue_evict: "overdue now (evict_tombstones now st) j \<Longrightarrow> overdue now st j"
proof -
  have "m_last_updated (evict_tombstones now st) (session_id s) = m_last_updated st (session_id s)"
    if "get_session st j = Some s" for s
    using get_by_id_mem [of session_id "m_sessions st" j s] that
    by (auto simp: evict_tombstones_def get_session_def split: option.splits)
  then show "overdue now (evict_tombstones now st) j \<Longrightarrow> ?thesis"
    by (auto simp: overdue_def is_stalled_def evict_tombstones_def session_simps)
qed

lemma overdue_stalled:
  "session_inv st \<Longrightarrow> overdue now st i \<longleftrightarrow> i \<in> set (map session_id (stalled_sessions now st))"
  unfolding stalled_sessions_def
  by (subst ids_filter_iff) (simp_all add: session_inv_def overdue_def)

lemma cleanup_leaves_none_stalled:
  assumes "session_inv st"
  shows "stalled_sessions now (cleanup_stalled_sessions E now n st) = []"
proof (cases "stalled_sessions now st = []")
  case True
  then show ?thesis by (simp add: cleanup_stalled_sessions_def Let_def)
next
  case False
  let ?req = "request_cancellations st (stalled_sessions now st)"
  have "\<not> overdue now (cleanup_stalled_sessions E now n st) i" for i
  proof
    assume "overdue now (cleanup_stalled_sessions E now n st) i"
    then have "overdue now (foldl (reap_stalled E now n) ?req (map session_id (stalled_sessions now st))) i"
      using False overdue_evict by (simp add: cleanup_stalled_sessions_def Let_def reap_all_def)
    then have "overdue now ?req i \<and> i \<notin> set (map session_id (stalled_sessions now st))"
      by (rule overdue_reap_fold)
    moreover have "overdue now ?req i = overdue now st i"
      by (simp add: overdue_def request_cancellations_def session_simps is_stalled_def)
    ultimately show False using overdue_stalled [OF assms, of now i] by simp
  qed
  then show ?thesis
    using overdue_stalled [OF session_inv_cleanup_stalled [OF assms, of E now n], of now]
    by (metis last_in_set map_is_Nil_conv)
qed

section \<open>Finished sessions\<close>

lemma finished_report:
  assumes inv: "session_inv st" and s: "get_session st (session_id u) = Some s"
    and d: "ses_daemon_id s = ses_daemon_id u" and t: "is_terminal (phase u)"
  shows "get_session (update_session E now n st u) (session_id u) = None"
    and "m_last_updated (update_session E now n st u) (session_id u) \<noteq> None"
proof -
  let ?c = "clocked now st (session_id u)"
  let ?p = "promote_first now (remove_session ?c (ses_daemon_id u) (session_id u)) (ses_daemon_id u)"
  obtain r where "finish_session E now n (?c\<lparr>m_sessions := put_session (m_sessions ?c) (seen st u)\<rparr>) (seen st u) =
    (promote_first now (remove_session ?c (ses_daemon_id (seen st u)) (session_id (seen st u))) (ses_daemon_id (seen st u)))
      \<lparr>m_rows := r, m_cancellations := (m_cancellations ?c)(ses_daemon_id (seen st u) := None)\<rparr>"
    by (rule finish_session_eq)
  then have eq: "update_session E now n st u =
      ?p\<lparr>m_rows := r, m_cancellations := (m_cancellations ?c)(ses_daemon_id u := None)\<rparr>"
    using t by (simp add: update_session_known [OF s] session_simps)
  have p: "?p = remove_session ?c (ses_daemon_id u) (session_id u) \<or>
      (\<exists>h. ?p = relabel now (remove_session ?c (ses_daemon_id u) (session_id u)) h Pending)"
    by (auto simp: promote_first_eq split: list.splits)
  then show "get_session (update_session E now n st u) (session_id u) = None"
    unfolding eq by (elim disjE exE) (simp_all add: session_simps)
  from p show "m_last_updated (update_session E now n st u) (session_id u) \<noteq> None"
    unfolding eq by (elim disjE exE) (simp_all add: session_simps)
qed

lemma repeated_report_ignored:
  assumes "session_inv st" "get_session st (session_id u) = Some s" "ses_daemon_id s = ses_daemon_id u"
    "is_terminal (phase u)"
  shows "update_session E now' n' (update_session E now n st u) u =
    clocked now' (update_session E now n st u) (session_id u)"
  by (rule update_session_late) (use finished_report [OF assms] assms(4) in auto)

lemma lookup_live:
  assumes "session_inv st" "lookup_discovery_id st i = Some d"
  shows "has_active_session_for_discovery st d" "get_session st i \<noteq> None"
  using assms
proof -
  obtain e where e: "find (\<lambda>(_, sid). sid = i) (m_by_discovery st) = Some e" "fst e = d"
    using assms(2) by (auto simp: lookup_discovery_id_def)
  then have mem: "e \<in> set (m_by_discovery st)" and i: "snd e = i"
    by (auto simp: find_Some_iff case_prod_beta)
  show "has_active_session_for_discovery st d"
    unfolding has_active_session_for_discovery_def using mem e(2) by (metis image_eqI)
  show "get_session st i \<noteq> None" using assms(1) mem i by (auto simp: session_inv_def)
qed

section \<open>Where the protocol is not kept\<close>

text \<open>
  Five runs outside the protocol. The discovery is on network 8 and daemon 9.

  A snapshot is released while another one starts: between the two halves of the release the
  network is reserved again and a session starts to wait, and the second half of the release
  promotes it although the network is reserved.
\<close>

definition race_env :: manager_env where
  "race_env = \<lparr>network_name = (\<lambda>_. None), targets_network = (\<lambda>_. True), merge_network_credentials_ok = (\<lambda>_ _. True),
     snmp_credentials_ok = (\<lambda>_. True), daemon_exists = (\<lambda>_. True)\<rparr>"

definition race_discovery :: "uuid \<Rightarrow> Discovery" where
  "race_discovery i = \<lparr>disc_id = i, disc_created_at = 0, disc_updated_at = 0, disc_type = SelfReport 7,
     run_type = AdHoc None, disc_name = ''lan'', disc_daemon_id = 9, disc_network_id = 8, scan_count = 0,
     force_full_scan = False, integration_targets = []\<rparr>"

lemma release_races_with_acquire:
  "let st1 = fst (try_acquire_network_for_snapshot empty_manager 8);
       st2 = drop_reservation st1 8;
       (st3, second) = try_acquire_network_for_snapshot st2 8;
       st4 = fst (start_session race_env 0 70 st3 (race_discovery 60));
       st5 = promote_awaiting 0 st4 8
   in second \<and> 8 \<in> set (m_snapshots st5) \<and> map_option phase (get_session st4 70) = Some AwaitingSnapshot \<and>
      map_option phase (get_session st5 70) = Some Pending"
  by code_simp

text \<open>
  A session the server has forgotten (it restarted) is reported during a snapshot and finishes:
  the session that waits for the snapshot is promoted although the network is reserved.
\<close>

definition forgotten :: "DiscoveryPhase \<Rightarrow> session" where
  "forgotten p = (new_session 71 9 8 (SelfReport 7) None)\<lparr>phase := p\<rparr>"

lemma restart_breaks_snapshot:
  "let st1 = fst (try_acquire_network_for_snapshot empty_manager 8);
       st2 = update_session race_env 0 90 st1 (forgotten Scanning);
       st3 = fst (start_session race_env 0 70 st2 (race_discovery 60));
       st4 = update_session race_env 0 91 st3 (forgotten Complete)
   in 8 \<in> set (m_snapshots st4) \<and> map_option phase (get_session st3 70) = Some AwaitingSnapshot \<and>
      map_option phase (get_session st4 70) = Some Pending"
  by code_simp

text \<open>
  A session that waits for a snapshot counts as active although it was never handed out, and its
  cancellation promotes nothing: the session queued behind it (here started between the halves of
  the release) waits with an idle daemon, and no poll hands it out.
\<close>

lemma cancelled_waiting_head_strands_queue:
  "let st1 = fst (try_acquire_network_for_snapshot empty_manager 8);
       st2 = fst (start_session race_env 0 70 st1 (race_discovery 60));
       st3 = drop_reservation st2 8;
       st4 = fst (start_session race_env 0 72 st3 (race_discovery 61));
       st5 = fst (cancel_session 0 st4 70);
       st6 = promote_awaiting 0 st5 8
   in has_active_session_for_daemon st2 9 \<and> m_snapshots st6 = [] \<and> m_queue st6 9 = [72] \<and>
      map_option phase (get_session st6 72) = Some Queued \<and>
      snd (get_pending_work race_env 0 (\<lambda>i. i) st6 9) = None"
  by code_simp

text \<open>
  Two starts overlap: both have read that the discovery has no session and the daemon no queue
  before either writes. One daemon has two pending sessions, of the same discovery, and the map of
  discoveries knows only the second.
\<close>

lemma overlapping_starts_both_pending:
  "let st1 = fst (admit_session 0 70 False False empty_manager (race_discovery 60));
       st2 = fst (admit_session 0 71 False False st1 (race_discovery 60))
   in m_queue st2 9 = [70, 71] \<and> map_option phase (get_session st2 70) = Some Pending \<and>
      map_option phase (get_session st2 71) = Some Pending \<and> m_by_discovery st2 = [(60, 71)]"
  by code_simp

text \<open>
  Daemon 10 reports the end of a session of daemon 9: the session is forgotten, its id stays at
  the head of the queue of daemon 9, and the session behind it is never promoted.
\<close>

lemma foreign_report_strands_queue:
  "let st1 = fst (start_session race_env 0 70 empty_manager (race_discovery 60));
       st2 = fst (start_session race_env 0 72 st1 (race_discovery 61));
       st3 = update_session race_env 0 90 st2 ((new_session 70 10 8 (SelfReport 7) None)\<lparr>phase := Complete\<rparr>)
   in get_session st3 70 = None \<and> m_queue st3 9 = [70, 72] \<and>
      map_option phase (get_session st3 72) = Some Queued \<and> \<not> has_active_session_for_daemon st3 9 \<and>
      snd (get_pending_work race_env 0 (\<lambda>i. i) st3 9) = None"
  by code_simp

end
