(* ===== verification/Discovery_Scheduling.thy ===== *)
theory Discovery_Scheduling
  imports Session_Work
begin

text \<open>
  Discovery configurations and their cron jobs
  (\<^verbatim>\<open>backend/src/server/discovery/service/\<close>: \<^verbatim>\<open>scheduling.rs\<close>, \<^verbatim>\<open>discovery_crud.rs\<close>, the
  \<open>update\<close> of \<^verbatim>\<open>mod.rs\<close> and \<open>remove_scheduled_job\<close> of \<^verbatim>\<open>cleanup.rs\<close>). The scheduler keeps the
  job of each discovery; a job holds the discovery row as it was when the job was registered.
  The cron library is a parameter: whether it accepts a cron expression and whether adding or
  removing a job succeeds; so are the time zone database, the plan of an organization and the
  state of a daemon. Tags live in a table of their own and are not part of the state.
\<close>

section \<open>State\<close>

record scheduler =
  job_ids :: "(uuid \<times> uuid) list"
  jobs :: "(uuid \<times> Discovery) list"

datatype daemon_lookup = DaemonFound bool bool | DaemonMissing | DaemonLookupFailed

record schedule_env =
  valid_timezone :: "string \<Rightarrow> bool"
  valid_cron :: "string \<Rightarrow> bool"
  job_added :: "uuid \<Rightarrow> bool"
  job_removed :: "uuid \<Rightarrow> bool"
  on_free_plan :: "uuid \<Rightarrow> bool"
  daemon_state :: "uuid \<Rightarrow> daemon_lookup"

datatype schedule_error =
    NotScheduled | NotEnabled | InvalidSchedule string | SchedulerFailed uuid
  | InvalidTimezone string | DiscoveryNotFound uuid | DiscoveryStorage storage_error

section \<open>Jobs\<close>

definition validate_timezone :: "schedule_env \<Rightarrow> RunType \<Rightarrow> (schedule_error, unit) result" where
  "validate_timezone S r =
     (case run_schedule r of
        Some (_, _, Some tz) \<Rightarrow> if valid_timezone S tz then Ok () else Err (InvalidTimezone tz)
      | _ \<Rightarrow> Ok ())"

definition schedule_discovery ::
    "schedule_env \<Rightarrow> uuid \<Rightarrow> scheduler \<Rightarrow> Discovery \<Rightarrow> (schedule_error, scheduler) result" where
  "schedule_discovery S job sc d =
     (case run_schedule (run_type d) of
        None \<Rightarrow> Err NotScheduled
      | Some (cron, enabled, tz) \<Rightarrow>
          if \<not> enabled then Err NotEnabled
          else if \<not> valid_cron S cron then Err (InvalidSchedule cron)
          else if \<not> job_added S job then Err (SchedulerFailed (disc_id d))
          else Ok \<lparr>job_ids = map_put (job_ids sc) (disc_id d) job, jobs = map_put (jobs sc) job d\<rparr>)"

definition remove_scheduled_job :: "schedule_env \<Rightarrow> scheduler \<Rightarrow> uuid \<Rightarrow> scheduler" where
  "remove_scheduled_job S sc d =
     (case map_of (job_ids sc) d of
        None \<Rightarrow> sc
      | Some job \<Rightarrow>
          \<lparr>job_ids = filter (\<lambda>(k, _). k \<noteq> d) (job_ids sc),
           jobs = (if job_removed S job then filter (\<lambda>(k, _). k \<noteq> job) (jobs sc) else jobs sc)\<rparr>)"

fun daemon_ready :: "daemon_lookup \<Rightarrow> bool" where
  "daemon_ready (DaemonFound is_unreachable standby) = (\<not> (is_unreachable \<or> standby))"
| "daemon_ready DaemonMissing = False"
| "daemon_ready DaemonLookupFailed = True"

text \<open>One run of a job: \<open>captured\<close> is the row the job holds.\<close>

definition run_job ::
    "schedule_env \<Rightarrow> manager_env \<Rightarrow> datetime \<Rightarrow> uuid \<Rightarrow> manager \<Rightarrow> Discovery \<Rightarrow> manager" where
  "run_job S E now new_id st captured =
     (case get_by_id disc_id (m_rows st) (disc_id captured) of
        None \<Rightarrow> st
      | Some fresh \<Rightarrow>
          if \<not> is_scheduled_enabled (run_type fresh) then st
          else if on_free_plan S (disc_network_id fresh) then st
          else if \<not> daemon_ready (daemon_state S (disc_daemon_id fresh)) then st
          else
            let (st1, res) = start_session E now new_id st captured in
            case res of
              Inl _ \<Rightarrow> st1
            | Inr _ \<Rightarrow>
                (case get_by_id disc_id (m_rows st1) (disc_id captured) of
                   Some row \<Rightarrow> st1\<lparr>m_rows := update_row disc_id (m_rows st1)
                     (row\<lparr>run_type := set_last_run (run_type row) now\<rparr>)\<rparr>
                 | None \<Rightarrow> st1))"

text \<open>Loading the jobs at start-up: a discovery that cannot be scheduled is disabled.\<close>

definition start_scheduler :: "schedule_env \<Rightarrow> (uuid \<Rightarrow> uuid) \<Rightarrow> scheduler \<Rightarrow> Discovery list \<Rightarrow> scheduler \<times> Discovery list" where
  "start_scheduler S job sc rows =
     foldl (\<lambda>(sc', rows') d. case schedule_discovery S (job (disc_id d)) sc' d of
         Inr sc'' \<Rightarrow> (sc'', rows')
       | Inl _ \<Rightarrow> (sc', update_row disc_id rows' (disable_discovery d)))
       (sc\<lparr>job_ids := []\<rparr>, rows) (filter (\<lambda>d. is_scheduled_enabled (run_type d)) rows)"

section \<open>Create, update, delete\<close>

definition create_discovery ::
    "schedule_env \<Rightarrow> datetime \<Rightarrow> uuid \<Rightarrow> uuid \<Rightarrow> scheduler \<Rightarrow> Discovery list \<Rightarrow> Discovery
      \<Rightarrow> (schedule_error, scheduler \<times> Discovery list \<times> Discovery) result" where
  "create_discovery S now new_id job sc rows d =
     (case validate_timezone S (run_type d) of
        Inl e \<Rightarrow> Err e
      | Inr _ \<Rightarrow>
          let created = (if disc_id d = nil_uuid
                then d\<lparr>disc_id := new_id, disc_created_at := now, disc_updated_at := now,
                       scan_count := 0, force_full_scan := False, integration_targets := []\<rparr>
                else d)
          in case create_row disc_id rows created of
               Inl e \<Rightarrow> Err (DiscoveryStorage e)
             | Inr rows' \<Rightarrow>
                 if run_schedule (run_type created) = None then Ok (sc, rows', created)
                 else (case schedule_discovery S job sc created of
                         Inr sc' \<Rightarrow> Ok (sc', rows', created)
                       | Inl _ \<Rightarrow>
                           let disabled = disable_discovery created
                           in Ok (sc, update_row disc_id rows' disabled, disabled)))"

definition delete_discovery ::
    "schedule_env \<Rightarrow> scheduler \<Rightarrow> Discovery list \<Rightarrow> uuid \<Rightarrow> (schedule_error, scheduler \<times> Discovery list) result" where
  "delete_discovery S sc rows i =
     (case get_by_id disc_id rows i of
        None \<Rightarrow> Err (DiscoveryNotFound i)
      | Some d \<Rightarrow>
          let sc' = (if run_schedule (run_type d) \<noteq> None then remove_scheduled_job S sc i else sc)
          in Ok (sc', delete_row disc_id rows i))"

fun schedule_changed :: "(string \<times> bool \<times> string option) option \<Rightarrow> (string \<times> bool \<times> string option) option \<Rightarrow> bool" where
  "schedule_changed (Some (cron, _, tz)) (Some (cron', _, tz')) = (cron' \<noteq> cron \<or> tz' \<noteq> tz)"
| "schedule_changed _ _ = False"

fun enabled_changed :: "(string \<times> bool \<times> string option) option \<Rightarrow> (string \<times> bool \<times> string option) option \<Rightarrow> bool" where
  "enabled_changed (Some (_, e, _)) (Some (_, e', _)) = (e' \<noteq> e)"
| "enabled_changed _ _ = False"

definition update_discovery ::
    "schedule_env \<Rightarrow> uuid \<Rightarrow> scheduler \<Rightarrow> Discovery list \<Rightarrow> Discovery
      \<Rightarrow> (schedule_error, scheduler \<times> Discovery list \<times> Discovery) result" where
  "update_discovery S job sc rows entity0 =
     (case validate_timezone S (run_type entity0) of
        Inl e \<Rightarrow> Err e
      | Inr _ \<Rightarrow>
        (case get_by_id disc_id rows (disc_id entity0) of
           None \<Rightarrow> Err (DiscoveryNotFound (disc_id entity0))
         | Some current \<Rightarrow>
             let entity = entity0\<lparr>scan_count := scan_count current\<rparr>;
                 new_schedule = run_schedule (run_type entity);
                 current_schedule = run_schedule (run_type current)
             in if (schedule_changed new_schedule current_schedule \<or> enabled_changed new_schedule current_schedule)
                   \<and> new_schedule \<noteq> None then
                  let sc1 = remove_scheduled_job S sc (disc_id entity);
                      rows1 = update_row disc_id rows entity
                  in (case schedule_discovery S job sc1 entity of
                        Inr sc2 \<Rightarrow> Ok (sc2, rows1, entity)
                      | Inl _ \<Rightarrow>
                          if is_scheduled_enabled (run_type entity)
                          then let disabled = disable_discovery entity
                               in Ok (sc1, update_row disc_id rows1 disabled, disabled)
                          else Ok (sc1, rows1, entity))
                else Ok (sc, update_row disc_id rows entity, entity)))"

section \<open>What a job writes\<close>

lemma set_last_run_idem [simp]: "set_last_run (set_last_run r t) u = set_last_run r u"
  by (cases r) simp_all

lemma start_session_row:
  assumes "start_session E now new_id st d = (st', Ok s)" "get_by_id disc_id (m_rows st) (disc_id d) \<noteq> None"
  shows "get_by_id disc_id (m_rows st') (disc_id d) =
      Some (d\<lparr>run_type := set_last_run (run_type d) now, disc_updated_at := now\<rparr>)"
    and "ses_type s = with_full_scan d (disc_type d)"
proof -
  show "get_by_id disc_id (m_rows st') (disc_id d) =
      Some (d\<lparr>run_type := set_last_run (run_type d) now, disc_updated_at := now\<rparr>)"
    using assms by (auto simp: start_session_def admit_session_def Let_def get_by_id_update_row split: if_splits)
  have "with_full_scan (d\<lparr>run_type := r, disc_updated_at := t\<rparr>) u = with_full_scan d u" for r t u
    by (cases u) simp_all
  then show "ses_type s = with_full_scan d (disc_type d)"
    using assms(1) by (auto simp: start_session_def admit_session_def Let_def new_session_def split: if_splits)
qed

text \<open>A started run leaves the captured row in the table, whatever the row was before.\<close>

lemma run_job_writes_captured:
  assumes fresh: "get_by_id disc_id (m_rows st) (disc_id c) = Some fresh"
    and gates: "is_scheduled_enabled (run_type fresh)" "\<not> on_free_plan S (disc_network_id fresh)"
      "daemon_ready (daemon_state S (disc_daemon_id fresh))"
    and start: "start_session E now new_id st c = (st1, Ok s)"
  shows "get_by_id disc_id (m_rows (run_job S E now new_id st c)) (disc_id c) =
    Some (c\<lparr>run_type := set_last_run (run_type c) now, disc_updated_at := now\<rparr>)"
proof -
  let ?row = "c\<lparr>run_type := set_last_run (run_type c) now, disc_updated_at := now\<rparr>"
  have row: "get_by_id disc_id (m_rows st1) (disc_id c) = Some ?row"
    using start_session_row(1) [OF start] fresh by simp
  have same: "?row\<lparr>run_type := set_last_run (run_type ?row) now\<rparr> = ?row" by simp
  have "run_job S E now new_id st c = st1\<lparr>m_rows := update_row disc_id (m_rows st1)
      (?row\<lparr>run_type := set_last_run (run_type ?row) now\<rparr>)\<rparr>"
    using fresh gates start row by (simp add: run_job_def)
  then have "run_job S E now new_id st c = st1\<lparr>m_rows := update_row disc_id (m_rows st1) ?row\<rparr>"
    unfolding same .
  then show ?thesis using row by (simp add: get_by_id_update_row)
qed

text \<open>A discovery whose schedule, time zone and enabled flag stay as they are keeps its job.\<close>

lemma update_discovery_keeps_job:
  assumes "validate_timezone S (run_type d) = Ok ()" "get_by_id disc_id rows (disc_id d) = Some current"
    "run_schedule (run_type d) = run_schedule (run_type current)"
  shows "update_discovery S job sc rows d =
    Ok (sc, update_row disc_id rows (d\<lparr>scan_count := scan_count current\<rparr>), d\<lparr>scan_count := scan_count current\<rparr>)"
proof -
  have "\<not> schedule_changed x x" "\<not> enabled_changed x x" for x
    by (cases x; auto)+
  then show ?thesis using assms by (simp add: update_discovery_def Let_def)
qed

text \<open>Every job in the map of job ids belongs to an enabled row at the time it is registered.\<close>

lemma schedule_discovery_ok:
  assumes "schedule_discovery S job sc d = Ok sc'"
  shows "is_scheduled_enabled (run_type d)" "map_of (job_ids sc') (disc_id d) = Some job" "map_of (jobs sc') job = Some d"
  using assms
  by (auto simp: schedule_discovery_def is_scheduled_enabled_def map_put_def split: option.splits if_splits)

lemma remove_scheduled_job_forgets: "map_of (job_ids (remove_scheduled_job S sc d)) d = None"
  by (auto simp: remove_scheduled_job_def map_of_eq_None_iff split: option.splits)

lemma is_scheduled_enabled_disabled [simp]: "\<not> is_scheduled_enabled (disable_run r)"
  by (cases r) (simp_all add: is_scheduled_enabled_def)

text \<open>
  After a create or an update, a row that is enabled has a job that holds it, or its schedule was
  not touched; a row the scheduler refuses is disabled.
\<close>

lemma unscheduled_not_enabled: "run_schedule r = None \<Longrightarrow> \<not> is_scheduled_enabled r"
  by (simp add: is_scheduled_enabled_def)

lemma create_discovery_scheduled:
  assumes "create_discovery S now new_id job sc rows d = Ok (sc', rows', created)"
  shows "is_scheduled_enabled (run_type created) \<Longrightarrow>
      map_of (job_ids sc') (disc_id created) = Some job \<and> map_of (jobs sc') job = Some created"
    and "get_by_id disc_id rows' (disc_id created) = Some created"
proof -
  define c where "c = (if disc_id d = nil_uuid
      then d\<lparr>disc_id := new_id, disc_created_at := now, disc_updated_at := now,
             scan_count := 0, force_full_scan := False, integration_targets := []\<rparr> else d)"
  obtain rs where rs: "create_row disc_id rows c = Ok rs"
    and out: "(if run_schedule (run_type c) = None then Ok (sc, rs, c)
       else (case schedule_discovery S job sc c of
               Inr sc'' \<Rightarrow> Ok (sc'', rs, c)
             | Inl _ \<Rightarrow> Ok (sc, update_row disc_id rs (disable_discovery c), disable_discovery c)))
       = (Ok (sc', rows', created) :: (schedule_error, _) result)"
    using assms unfolding create_discovery_def Let_def c_def [symmetric] by (auto split: sum.splits)
  have new: "get_by_id disc_id rs (disc_id c) = Some c"
    using rs get_by_id_None [of disc_id rows "disc_id c"]
    by (auto simp: create_row_def get_by_id_append image_iff split: if_splits option.splits)
  show "get_by_id disc_id rows' (disc_id created) = Some created"
    using out new by (auto simp: disable_discovery_def get_by_id_update_row split: sum.splits if_splits)
  show "map_of (job_ids sc') (disc_id created) = Some job \<and> map_of (jobs sc') job = Some created"
    if "is_scheduled_enabled (run_type created)"
    using out that unscheduled_not_enabled [of "run_type c"] schedule_discovery_ok(2,3) [of S job sc c]
    by (auto simp: disable_discovery_def split: sum.splits if_splits)
qed

text \<open>The sweep for orphaned rescans.\<close>

lemma foldl_delete_row: "foldl (delete_row key) rows ids = filter (\<lambda>r. key r \<notin> set ids) rows"
  by (induction ids arbitrary: rows) (auto simp: delete_row_def conj_commute)

lemma sweep_rows:
  "m_rows (sweep_orphaned_rescans cutoff st) =
     filter (\<lambda>d. disc_id d \<notin> disc_id ` {d' \<in> set (m_rows st). rescan_target_host_id (disc_type d') \<noteq> None \<and>
        disc_updated_at d' < cutoff \<and> disc_id d' \<notin> fst ` set (m_by_discovery st)}) (m_rows st)"
  unfolding sweep_orphaned_rescans_def Let_def by (simp add: foldl_delete_row conj_ac)

text \<open>It takes the history of finished rescans with it: a historical row keeps the type of its session.\<close>

lemma sweep_deletes_rescan_history:
  assumes "d \<in> set (m_rows st)" and "run_type d = Historical s" and "rescan_target_host_id (disc_type d) \<noteq> None"
    and "disc_updated_at d < cutoff" and "disc_id d \<notin> fst ` set (m_by_discovery st)"
  shows "d \<notin> set (m_rows (sweep_orphaned_rescans cutoff st))"
  unfolding sweep_rows using assms by auto

end
