(* ===== verification/Lldp.thy ===== *)
theory Lldp
  imports Net_Types
begin

text \<open>
  LLDP identifiers (\<^verbatim>\<open>backend/src/server/snmp/resolution/lldp.rs\<close>): chassis and port ids, their
  parsing from SNMP octets and from controller text, and the canonical text of a MAC address.
  The parser of the \<open>mac_address\<close> crate is an argument, \<open>parse_mac\<close>; what the facts below rely on
  is that it reads back the canonical text (\<open>reads_canonical\<close>).

  \<open>utf8_lossy\<close> is \<open>String::from_utf8_lossy\<close>: a well-formed sequence is kept, and each maximal
  prefix of an ill-formed one becomes the replacement character.
\<close>

section \<open>Octets and text\<close>

type_synonym octet = "8 word"

definition octet_char :: "octet \<Rightarrow> char" where
  "octet_char b = char_of (unat b)"

definition octets_text :: "octet list \<Rightarrow> string" where
  "octets_text = map octet_char"

lemma unat_octet: "unat (b :: octet) < 256"
  using unsigned_less [of b, where 'a = nat] by simp

text \<open>The allowed range of the second octet of a sequence, and the number of octets after the first.\<close>

definition utf8_lead :: "octet \<Rightarrow> (octet \<times> octet \<times> nat) option" where
  "utf8_lead b =
     (if 0xC2 \<le> b \<and> b \<le> 0xDF then Some (0x80, 0xBF, 1)
      else if b = 0xE0 then Some (0xA0, 0xBF, 2)
      else if 0xE1 \<le> b \<and> b \<le> 0xEC \<or> b = 0xEE \<or> b = 0xEF then Some (0x80, 0xBF, 2)
      else if b = 0xED then Some (0x80, 0x9F, 2)
      else if b = 0xF0 then Some (0x90, 0xBF, 3)
      else if 0xF1 \<le> b \<and> b \<le> 0xF3 then Some (0x80, 0xBF, 3)
      else if b = 0xF4 then Some (0x80, 0x8F, 3)
      else None)"

fun continuation :: "octet \<Rightarrow> octet \<Rightarrow> nat \<Rightarrow> octet list \<Rightarrow> nat" where
  "continuation lo hi (Suc n) (b # bs) =
     (if lo \<le> b \<and> b \<le> hi then Suc (continuation 0x80 0xBF n bs) else 0)"
| "continuation lo hi _ _ = 0"

text \<open>The length of the sequence at the head of a text and whether it is well formed.\<close>

definition utf8_head :: "octet \<Rightarrow> octet list \<Rightarrow> nat \<times> bool" where
  "utf8_head b bs =
     (if b < 0x80 then (1, True)
      else case utf8_lead b of
        None \<Rightarrow> (1, False)
      | Some (lo, hi, n) \<Rightarrow> let k = continuation lo hi n bs in (Suc k, k = n))"

lemma utf8_head_pos: "0 < fst (utf8_head b bs)"
  by (auto simp: utf8_head_def Let_def split: option.splits prod.splits)

function utf8_lossy :: "octet list \<Rightarrow> octet list" where
  "utf8_lossy [] = []"
| "utf8_lossy (b # bs) =
     (let (k, ok) = utf8_head b bs in
      (if ok then take k (b # bs) else [0xEF, 0xBF, 0xBD]) @ utf8_lossy (drop k (b # bs)))"
  by pat_completeness auto
termination
proof (relation "measure length")
  fix b :: octet and bs :: "octet list" and x k ok
  assume "x = utf8_head b bs" "(k, ok) = x"
  then have "0 < k" using utf8_head_pos [of b bs] by (metis fst_conv)
  then show "(drop k (b # bs), b # bs) \<in> measure length" by simp
qed simp

function from_utf8 :: "octet list \<Rightarrow> octet list option" where
  "from_utf8 [] = Some []"
| "from_utf8 (b # bs) =
     (let (k, ok) = utf8_head b bs in
      if ok then map_option (\<lambda>r. take k (b # bs) @ r) (from_utf8 (drop k (b # bs))) else None)"
  by pat_completeness auto
termination
proof (relation "measure length")
  fix b :: octet and bs :: "octet list" and x k ok
  assume "x = utf8_head b bs" "(k, ok) = x"
  then have "0 < k" using utf8_head_pos [of b bs] by (metis fst_conv)
  then show "(drop k (b # bs), b # bs) \<in> measure length" by simp
qed simp

lemma from_utf8_lossy: "from_utf8 bs = Some cs \<Longrightarrow> cs = bs \<and> utf8_lossy bs = bs"
proof (induction bs arbitrary: cs rule: from_utf8.induct)
  case 1
  then show ?case by simp
next
  case (2 b bs)
  obtain k ok where h: "utf8_head b bs = (k, ok)" by fastforce
  then obtain r where r: "ok" "from_utf8 (drop k (b # bs)) = Some r" "cs = take k (b # bs) @ r"
    using 2(2) by (auto split: if_splits)
  then have "r = drop k (b # bs)" "utf8_lossy (drop k (b # bs)) = drop k (b # bs)"
    using 2(1) [OF refl h [symmetric] r(1,2)] by auto
  then show ?case using r(1,3) by (simp add: h)
qed

definition strip_nuls :: "string \<Rightarrow> string" where
  "strip_nuls = filter (\<lambda>c. c \<noteq> CHR 0x00)"

definition decode_tlv_text :: "octet list \<Rightarrow> string" where
  "decode_tlv_text value = strip_nuls (octets_text (utf8_lossy value))"

section \<open>MAC addresses as text\<close>

definition mac_bytes :: "MacAddress \<Rightarrow> octet list" where
  "mac_bytes m = map (\<lambda>k. ucast (drop_bit (8 * k) m)) [5, 4, 3, 2, 1, 0]"

definition hex_digit :: "nat \<Rightarrow> char" where
  "hex_digit n = (if n < 10 then char_of (48 + n) else char_of (87 + n))"

definition hex2 :: "octet \<Rightarrow> string" where
  "hex2 b = [hex_digit (unat b div 16), hex_digit (unat b mod 16)]"

fun join_colon :: "string list \<Rightarrow> string" where
  "join_colon [] = []"
| "join_colon [g] = g"
| "join_colon (g # gs) = g @ CHR '':'' # join_colon gs"

definition format_mac :: "octet list \<Rightarrow> string" where
  "format_mac bytes = join_colon (map hex2 bytes)"

fun split_colon :: "string \<Rightarrow> string list" where
  "split_colon [] = [[]]"
| "split_colon (c # cs) =
     (if c = CHR '':'' then [] # split_colon cs
      else case split_colon cs of [] \<Rightarrow> [[c]] | g # gs \<Rightarrow> (c # g) # gs)"

definition digit_value :: "char \<Rightarrow> nat option" where
  "digit_value c =
     (let n = of_char c :: nat in
      if 48 \<le> n \<and> n \<le> 57 then Some (n - 48)
      else if 97 \<le> n \<and> n \<le> 102 then Some (n - 87)
      else if 65 \<le> n \<and> n \<le> 70 then Some (n - 55)
      else None)"

text \<open>\<open>u8::from_str_radix(_, 16)\<close> on one or two characters; a leading plus sign is allowed.\<close>

fun from_str_radix_16 :: "string \<Rightarrow> octet option" where
  "from_str_radix_16 [c] = map_option word_of_nat (digit_value c)"
| "from_str_radix_16 [c, d] =
     (if c = CHR ''+'' then map_option word_of_nat (digit_value d)
      else case (digit_value c, digit_value d) of
        (Some x, Some y) \<Rightarrow> Some (word_of_nat (16 * x + y)) | _ \<Rightarrow> None)"
| "from_str_radix_16 _ = None"

fun collect_options :: "'a option list \<Rightarrow> 'a list option" where
  "collect_options [] = Some []"
| "collect_options (None # xs) = None"
| "collect_options (Some x # xs) = map_option ((#) x) (collect_options xs)"

definition mac_groups :: "string \<Rightarrow> octet list option" where
  "mac_groups s = collect_options (map (\<lambda>g. if length g \<in> {1, 2} then from_str_radix_16 g else None) (split_colon s))"

definition canonical_mac :: "(string \<Rightarrow> MacAddress option) \<Rightarrow> string \<Rightarrow> string option" where
  "canonical_mac parse_mac value =
     (let s = trim value in
      case parse_mac s of
        Some mac \<Rightarrow> Some (format_mac (mac_bytes mac))
      | None \<Rightarrow>
          (case mac_groups s of
             Some octets \<Rightarrow> if length octets = 6 then Some (format_mac octets) else None
           | None \<Rightarrow> None))"

definition parse_mac_id :: "(string \<Rightarrow> MacAddress option) \<Rightarrow> octet list \<Rightarrow> string option" where
  "parse_mac_id parse_mac value =
     (if length value = 6 then Some (format_mac value)
      else Option.bind (from_utf8 value) (\<lambda>t. canonical_mac parse_mac (octets_text t)))"

fun parse_network_address :: "octet list \<Rightarrow> IpAddr option" where
  "parse_network_address [] = None"
| "parse_network_address (family # addr) =
     (if family = 1 \<and> length addr = 4 then Some (V4 (word_rcat addr))
      else if family = 2 \<and> length addr = 16 then Some (V6 (word_rcat addr))
      else None)"

section \<open>Identifiers\<close>

datatype LldpChassisId =
    ChassisComponent string | ChassisInterfaceAlias string | ChassisPortComponent string
  | ChassisMacAddress string | ChassisNetworkAddress IpAddr | ChassisInterfaceName string
  | ChassisLocallyAssigned string

datatype LldpPortId =
    PortInterfaceAlias string | PortComponent string | PortMacAddress string
  | PortNetworkAddress IpAddr | PortInterfaceName string | AgentCircuitId string
  | PortLocallyAssigned string

definition chassis_from_snmp :: "(string \<Rightarrow> MacAddress option) \<Rightarrow> octet \<Rightarrow> octet list \<Rightarrow> LldpChassisId option" where
  "chassis_from_snmp parse_mac subtype value =
     (if subtype = 1 then Some (ChassisComponent (decode_tlv_text value))
      else if subtype = 2 then Some (ChassisInterfaceAlias (decode_tlv_text value))
      else if subtype = 3 then Some (ChassisPortComponent (decode_tlv_text value))
      else if subtype = 4 then map_option ChassisMacAddress (parse_mac_id parse_mac value)
      else if subtype = 5 then map_option ChassisNetworkAddress (parse_network_address value)
      else if subtype = 6 then Some (ChassisInterfaceName (decode_tlv_text value))
      else if subtype = 7 then Some (ChassisLocallyAssigned (decode_tlv_text value))
      else None)"

definition port_from_snmp :: "(string \<Rightarrow> MacAddress option) \<Rightarrow> octet \<Rightarrow> octet list \<Rightarrow> LldpPortId option" where
  "port_from_snmp parse_mac subtype value =
     (if subtype = 1 then Some (PortInterfaceAlias (decode_tlv_text value))
      else if subtype = 2 then Some (PortComponent (decode_tlv_text value))
      else if subtype = 3 then map_option PortMacAddress (parse_mac_id parse_mac value)
      else if subtype = 4 then map_option PortNetworkAddress (parse_network_address value)
      else if subtype = 5 then Some (PortInterfaceName (decode_tlv_text value))
      else if subtype = 6 then Some (AgentCircuitId (decode_tlv_text value))
      else if subtype = 7 then Some (PortLocallyAssigned (decode_tlv_text value))
      else None)"

definition chassis_from_identifier_str :: "(string \<Rightarrow> MacAddress option) \<Rightarrow> string \<Rightarrow> LldpChassisId" where
  "chassis_from_identifier_str parse_mac value =
     (case canonical_mac parse_mac value of
        Some mac \<Rightarrow> ChassisMacAddress mac | None \<Rightarrow> ChassisLocallyAssigned value)"

definition port_from_identifier_str :: "(string \<Rightarrow> MacAddress option) \<Rightarrow> string \<Rightarrow> LldpPortId" where
  "port_from_identifier_str parse_mac value =
     (case canonical_mac parse_mac value of
        Some mac \<Rightarrow> PortMacAddress mac | None \<Rightarrow> PortLocallyAssigned value)"

text \<open>\<open>ip_text\<close> is the display of an IP address by the standard library.\<close>

fun chassis_identifier :: "(IpAddr \<Rightarrow> string) \<Rightarrow> LldpChassisId \<Rightarrow> string" where
  "chassis_identifier ip_text (ChassisNetworkAddress addr) = ip_text addr"
| "chassis_identifier ip_text (ChassisComponent s) = s"
| "chassis_identifier ip_text (ChassisInterfaceAlias s) = s"
| "chassis_identifier ip_text (ChassisPortComponent s) = s"
| "chassis_identifier ip_text (ChassisMacAddress s) = s"
| "chassis_identifier ip_text (ChassisInterfaceName s) = s"
| "chassis_identifier ip_text (ChassisLocallyAssigned s) = s"

section \<open>The canonical text\<close>

lemma digit_value_hex_digit: "n < 16 \<Longrightarrow> digit_value (hex_digit n) = Some n"
  by (cases "n < 10") (simp_all add: hex_digit_def digit_value_def Let_def of_char_of)

lemma hex_digit_code: "n < 16 \<Longrightarrow> (of_char (hex_digit n) :: nat) = (if n < 10 then 48 + n else 87 + n)"
  by (simp add: hex_digit_def of_char_of)

lemma hex_digit_plain:
  assumes "n < 16"
  shows "hex_digit n \<noteq> CHR '':''" "hex_digit n \<noteq> CHR ''+''" "\<not> is_ascii_space (hex_digit n)"
proof -
  have "(of_char (hex_digit n) :: nat) \<notin> {9, 10, 11, 12, 13, 32, 43, 58}"
    using assms by (auto simp: hex_digit_code)
  then show "hex_digit n \<noteq> CHR '':''" "hex_digit n \<noteq> CHR ''+''" "\<not> is_ascii_space (hex_digit n)"
    by (auto simp: is_ascii_space_def)
qed

lemma hex2_reads: "from_str_radix_16 (hex2 b) = Some b"
proof -
  have lt: "unat b div 16 < 16" "unat b mod 16 < 16"
    using unat_octet [of b] by auto
  then show ?thesis
    by (simp add: hex2_def digit_value_hex_digit hex_digit_plain mult.commute [of 16])
qed

lemma hex2_plain: "c \<in> set (hex2 b) \<Longrightarrow> c \<noteq> CHR '':'' \<and> \<not> is_ascii_space c"
proof -
  have lt: "unat b div 16 < 16" "unat b mod 16 < 16" using unat_octet [of b] by auto
  show "c \<in> set (hex2 b) \<Longrightarrow> ?thesis" using hex_digit_plain lt by (auto simp: hex2_def)
qed

lemma split_plain: "CHR '':'' \<notin> set g \<Longrightarrow> split_colon g = [g]"
  by (induction g) auto

lemma split_append: "CHR '':'' \<notin> set g \<Longrightarrow> split_colon (g @ CHR '':'' # s) = g # split_colon s"
  by (induction g) auto

lemma split_join: "gs \<noteq> [] \<Longrightarrow> \<forall>g \<in> set gs. CHR '':'' \<notin> set g \<Longrightarrow> split_colon (join_colon gs) = gs"
  by (induction gs rule: join_colon.induct) (auto simp: split_plain split_append)

lemma collect_options_Some: "collect_options (map (\<lambda>x. Some (f x)) xs) = Some (map f xs)"
  by (induction xs) auto

lemma mac_groups_format: "bs \<noteq> [] \<Longrightarrow> mac_groups (format_mac bs) = Some bs"
proof -
  assume "bs \<noteq> []"
  then have "split_colon (format_mac bs) = map hex2 bs"
    unfolding format_mac_def by (intro split_join) (auto dest: hex2_plain)
  moreover have "length (hex2 b) \<in> {1, 2}" for b by (simp add: hex2_def)
  ultimately have "mac_groups (format_mac bs) = collect_options (map (\<lambda>b. Some b) bs)"
    by (simp add: mac_groups_def comp_def hex2_reads)
  then show ?thesis using collect_options_Some [of id bs] by simp
qed

lemma format_mac_inj: "format_mac bs = format_mac cs \<Longrightarrow> bs \<noteq> [] \<Longrightarrow> cs \<noteq> [] \<Longrightarrow> bs = cs"
  by (metis mac_groups_format option.inject)

lemma join_colon_set: "set (join_colon gs) \<subseteq> insert (CHR '':'') (\<Union>g \<in> set gs. set g)"
  by (induction gs rule: join_colon.induct) auto

lemma trim_plain: "(\<And>c. c \<in> set s \<Longrightarrow> \<not> is_ascii_space c) \<Longrightarrow> trim s = s"
proof -
  assume plain: "\<And>c. c \<in> set s \<Longrightarrow> \<not> is_ascii_space c"
  have "dropWhile is_ascii_space t = t" if "set t \<subseteq> set s" for t
    using that plain by (cases t) auto
  then show ?thesis by (simp add: trim_def trim_start_def)
qed

lemma trim_format_mac [simp]: "trim (format_mac bs) = format_mac bs"
proof (rule trim_plain)
  fix c assume "c \<in> set (format_mac bs)"
  then show "\<not> is_ascii_space c"
    using join_colon_set [of "map hex2 bs"] hex2_plain unfolding format_mac_def
    by (auto simp: is_ascii_space_def) 
qed

definition reads_canonical :: "(string \<Rightarrow> MacAddress option) \<Rightarrow> bool" where
  "reads_canonical parse_mac \<longleftrightarrow>
     (\<forall>bs m. length bs = 6 \<longrightarrow> parse_mac (format_mac bs) = Some m \<longrightarrow> mac_bytes m = bs)"

lemma length_mac_bytes [simp]: "length (mac_bytes m) = 6"
  by (simp add: mac_bytes_def)

lemma canonical_mac_form:
  "canonical_mac parse_mac v = Some m \<Longrightarrow> \<exists>bs. length bs = 6 \<and> m = format_mac bs"
  by (auto simp: canonical_mac_def Let_def split: option.splits if_splits intro: length_mac_bytes)

lemma canonical_mac_fixed:
  assumes "reads_canonical parse_mac" "length bs = 6"
  shows "canonical_mac parse_mac (format_mac bs) = Some (format_mac bs)"
proof -
  have "bs \<noteq> []" using assms(2) by auto
  then show ?thesis
    using assms mac_groups_format [of bs]
    by (auto simp: canonical_mac_def Let_def reads_canonical_def split: option.splits)
qed

lemma canonical_mac_idem:
  assumes "reads_canonical parse_mac" "canonical_mac parse_mac v = Some m"
  shows "canonical_mac parse_mac m = Some m"
  using canonical_mac_form [OF assms(2)] canonical_mac_fixed [OF assms(1)] by auto

lemma no_colon_not_mac:
  assumes "CHR '':'' \<notin> set v" "parse_mac (trim v) = None"
  shows "chassis_from_identifier_str parse_mac v = ChassisLocallyAssigned v"
    "port_from_identifier_str parse_mac v = PortLocallyAssigned v"
proof -
  have "set (trim v) \<subseteq> set v"
    by (auto simp: trim_def trim_start_def dest!: set_dropWhileD)
  then have "split_colon (trim v) = [trim v]" using assms(1) by (intro split_plain) auto
  moreover have "collect_options [x] = Some octets \<Longrightarrow> length octets \<noteq> 6" for x octets
    by (cases x) auto
  ultimately have "canonical_mac parse_mac v = None"
    using assms(2)
    by (auto simp: canonical_mac_def Let_def mac_groups_def split: option.splits if_splits)
  then show "chassis_from_identifier_str parse_mac v = ChassisLocallyAssigned v"
    "port_from_identifier_str parse_mac v = PortLocallyAssigned v"
    by (simp_all add: chassis_from_identifier_str_def port_from_identifier_str_def)
qed

text \<open>Raw octets and canonical text of an address give the same identifier.\<close>

lemma encodings_agree:
  assumes "reads_canonical parse_mac" "length bs = 6"
  shows "chassis_from_snmp parse_mac 4 bs = Some (chassis_from_identifier_str parse_mac (format_mac bs))"
    "port_from_snmp parse_mac 3 bs = Some (port_from_identifier_str parse_mac (format_mac bs))"
  using assms canonical_mac_fixed [OF assms]
  by (simp_all add: chassis_from_snmp_def port_from_snmp_def chassis_from_identifier_str_def
      port_from_identifier_str_def parse_mac_id_def)

lemma strip_nuls_clean [simp]: "CHR 0x00 \<notin> set s \<Longrightarrow> strip_nuls s = s"
  by (simp add: strip_nuls_def filter_id_conv) metis

lemma no_nul_strip_nuls [simp]: "CHR 0x00 \<notin> set (strip_nuls s)"
  by (simp add: strip_nuls_def)

end
