(* ===== verification/Interfaces.thy ===== *)
theory Interfaces
  imports Lldp Storage
begin

text \<open>
  Interfaces of a host (\<^verbatim>\<open>backend/src/server/interfaces/impl\<close>): the rows of a device's
  \<open>ifTable\<close>, their state classification, what a rescan keeps of a stored row, and how a
  closed copy of a row refers to closed rows.
\<close>

section \<open>Data\<close>

record InterfaceDataComplete =
  dc_lldp :: bool
  dc_cdp :: bool
  dc_fdb :: bool
  dc_vlan_membership :: bool

definition data_complete_default :: InterfaceDataComplete where
  "data_complete_default = \<lparr>dc_lldp = True, dc_cdp = True, dc_fdb = True, dc_vlan_membership = True\<rparr>"

definition data_complete_all :: "InterfaceDataComplete \<Rightarrow> bool" where
  "data_complete_all c \<longleftrightarrow> dc_lldp c \<and> dc_cdp c \<and> dc_fdb c \<and> dc_vlan_membership c"

definition data_complete_none :: InterfaceDataComplete where
  "data_complete_none = \<lparr>dc_lldp = False, dc_cdp = False, dc_fdb = False, dc_vlan_membership = False\<rparr>"

datatype Neighbor = NeighborInterface uuid | NeighborHost uuid

fun neighbor_interface_id :: "Neighbor \<Rightarrow> uuid option" where
  "neighbor_interface_id (NeighborInterface i) = Some i"
| "neighbor_interface_id (NeighborHost _) = None"

fun is_full_resolution :: "Neighbor \<Rightarrow> bool" where
  "is_full_resolution (NeighborInterface _) = True"
| "is_full_resolution (NeighborHost _) = False"

fun is_partial_resolution :: "Neighbor \<Rightarrow> bool" where
  "is_partial_resolution (NeighborInterface _) = False"
| "is_partial_resolution (NeighborHost _) = True"

datatype InterfaceLinkState = Linked | Unlinked

definition classify_link :: "Neighbor option \<Rightarrow> bool \<Rightarrow> InterfaceLinkState" where
  "classify_link neighbor referenced_as_neighbour =
     (if neighbor \<noteq> None \<or> referenced_as_neighbour then Linked else Unlinked)"

datatype IfAdminStatus = AdminUp | AdminDown | AdminTesting

definition admin_status_from_i32 :: "int \<Rightarrow> IfAdminStatus" where
  "admin_status_from_i32 v =
     (if v = 1 then AdminUp else if v = 2 then AdminDown else if v = 3 then AdminTesting else AdminUp)"

fun admin_status_i32 :: "IfAdminStatus \<Rightarrow> int" where
  "admin_status_i32 AdminUp = 1"
| "admin_status_i32 AdminDown = 2"
| "admin_status_i32 AdminTesting = 3"

datatype IfOperStatus =
    OperUp | OperDown | OperTesting | OperUnknown | OperDormant | OperNotPresent | OperLowerLayerDown

definition oper_status_from_i32 :: "int \<Rightarrow> IfOperStatus" where
  "oper_status_from_i32 v =
     (if v = 1 then OperUp else if v = 2 then OperDown else if v = 3 then OperTesting
      else if v = 4 then OperUnknown else if v = 5 then OperDormant
      else if v = 6 then OperNotPresent else if v = 7 then OperLowerLayerDown else OperUnknown)"

fun oper_status_i32 :: "IfOperStatus \<Rightarrow> int" where
  "oper_status_i32 OperUp = 1"
| "oper_status_i32 OperDown = 2"
| "oper_status_i32 OperTesting = 3"
| "oper_status_i32 OperUnknown = 4"
| "oper_status_i32 OperDormant = 5"
| "oper_status_i32 OperNotPresent = 6"
| "oper_status_i32 OperLowerLayerDown = 7"

record InterfaceBase =
  if_host_id :: uuid
  if_network_id :: uuid
  if_index :: int
  if_descr :: string
  if_name :: "string option"
  if_alias :: "string option"
  if_type :: int
  speed_bps :: "int option"
  admin_status :: IfAdminStatus
  oper_status :: IfOperStatus
  if_mac_address :: "MacAddress option"
  if_ip_address_id :: "uuid option"
  neighbor :: "Neighbor option"
  lldp_chassis_id :: "LldpChassisId option"
  lldp_port_id :: "LldpPortId option"
  lldp_sys_name :: "string option"
  lldp_port_desc :: "string option"
  lldp_mgmt_addr :: "IpAddr option"
  lldp_sys_desc :: "string option"
  cdp_device_id :: "string option"
  cdp_port_id :: "string option"
  cdp_platform :: "string option"
  cdp_address :: "IpAddr option"
  fdb_macs :: "string list option"
  native_vlan_id :: "uuid option"
  vlan_ids :: "uuid list option"

definition interface_base_default :: InterfaceBase where
  "interface_base_default =
     \<lparr>if_host_id = nil_uuid, if_network_id = nil_uuid, if_index = 0, if_descr = [],
      if_name = None, if_alias = None, if_type = 1, speed_bps = None,
      admin_status = AdminUp, oper_status = OperUp, if_mac_address = None,
      if_ip_address_id = None, neighbor = None, lldp_chassis_id = None, lldp_port_id = None,
      lldp_sys_name = None, lldp_port_desc = None, lldp_mgmt_addr = None, lldp_sys_desc = None,
      cdp_device_id = None, cdp_port_id = None, cdp_platform = None, cdp_address = None,
      fdb_macs = None, native_vlan_id = None, vlan_ids = None\<rparr>"

record Interface =
  if_id :: uuid
  if_created_at :: datetime
  if_updated_at :: datetime
  if_valid_from :: datetime
  if_valid_to :: "datetime option"
  if_lineage_id :: "uuid option"
  if_last_seen_at :: datetime
  if_last_discovery_id :: "uuid option"
  if_first_discovery_id :: "uuid option"
  if_base :: InterfaceBase

definition new_interface :: "uuid \<Rightarrow> datetime \<Rightarrow> InterfaceBase \<Rightarrow> Interface" where
  "new_interface fresh now base =
     \<lparr>if_id = fresh, if_created_at = now, if_updated_at = now, if_valid_from = now,
      if_valid_to = None, if_lineage_id = None, if_last_seen_at = now,
      if_last_discovery_id = None, if_first_discovery_id = None, if_base = base\<rparr>"

abbreviation map_base :: "(InterfaceBase \<Rightarrow> InterfaceBase) \<Rightarrow> Interface \<Rightarrow> Interface" where
  "map_base f i \<equiv> i\<lparr>if_base := f (if_base i)\<rparr>"

section \<open>Interface types\<close>

definition SOFTWARE_LOOPBACK :: int where "SOFTWARE_LOOPBACK = 24"

definition EXCLUDED_IF_TYPES :: "int list" where
  "EXCLUDED_IF_TYPES = [SOFTWARE_LOOPBACK, 53, 71, 131, 135, 136, 209]"

section \<open>Predicates\<close>

definition interface_triggers_staleness :: "Interface \<Rightarrow> Interface option \<Rightarrow> bool" where
  "interface_triggers_staleness i other =
     (case other of
        Some o' \<Rightarrow> neighbor (if_base i) \<noteq> neighbor (if_base o')
          \<or> if_ip_address_id (if_base i) \<noteq> if_ip_address_id (if_base o')
          \<or> if_host_id (if_base i) \<noteq> if_host_id (if_base o')
      | None \<Rightarrow> True)"

definition is_up :: "Interface \<Rightarrow> bool" where
  "is_up i \<longleftrightarrow> oper_status (if_base i) = OperUp"

definition is_admin_up :: "Interface \<Rightarrow> bool" where
  "is_admin_up i \<longleftrightarrow> admin_status (if_base i) = AdminUp"

definition display_name :: "Interface \<Rightarrow> string" where
  "display_name i = (case if_alias (if_base i) of Some a \<Rightarrow> a | None \<Rightarrow> if_descr (if_base i))"

definition has_neighbor :: "Interface \<Rightarrow> bool" where
  "has_neighbor i \<longleftrightarrow> neighbor (if_base i) \<noteq> None"

definition has_full_neighbor_resolution :: "Interface \<Rightarrow> bool" where
  "has_full_neighbor_resolution i =
     (case neighbor (if_base i) of Some n \<Rightarrow> is_full_resolution n | None \<Rightarrow> False)"

definition has_lldp_data :: "Interface \<Rightarrow> bool" where
  "has_lldp_data i \<longleftrightarrow> lldp_chassis_id (if_base i) \<noteq> None \<or> lldp_port_id (if_base i) \<noteq> None"

definition has_cdp_data :: "Interface \<Rightarrow> bool" where
  "has_cdp_data i \<longleftrightarrow> cdp_device_id (if_base i) \<noteq> None \<or> cdp_port_id (if_base i) \<noteq> None"

definition has_neighbor_discovery_data :: "Interface \<Rightarrow> bool" where
  "has_neighbor_discovery_data i \<longleftrightarrow> has_lldp_data i \<or> has_cdp_data i"

definition port_bound_by_mac :: "Interface \<Rightarrow> bool" where
  "port_bound_by_mac i =
     (case lldp_port_id (if_base i) of
        Some (PortMacAddress _) \<Rightarrow> True
      | _ \<Rightarrow> lldp_chassis_id (if_base i) = None \<and> cdp_device_id (if_base i) = None
          \<and> (case fdb_macs (if_base i) of Some macs \<Rightarrow> length macs = 1 | None \<Rightarrow> False))"

section \<open>What a rescan keeps\<close>

definition preserve_uncollected_data :: "Interface \<Rightarrow> InterfaceDataComplete \<Rightarrow> Interface \<Rightarrow> Interface" where
  "preserve_uncollected_data existing collected i =
     (let e = if_base existing;
          i = (if dc_lldp collected then i
               else map_base (\<lambda>b. b\<lparr>lldp_chassis_id := lldp_chassis_id e, lldp_port_id := lldp_port_id e,
                 lldp_sys_name := lldp_sys_name e, lldp_port_desc := lldp_port_desc e,
                 lldp_mgmt_addr := lldp_mgmt_addr e, lldp_sys_desc := lldp_sys_desc e\<rparr>) i);
          i = (if dc_cdp collected then i
               else map_base (\<lambda>b. b\<lparr>cdp_device_id := cdp_device_id e, cdp_port_id := cdp_port_id e,
                 cdp_platform := cdp_platform e, cdp_address := cdp_address e\<rparr>) i);
          i = (if dc_fdb collected then i
               else map_base (\<lambda>b. b\<lparr>fdb_macs := fdb_macs e\<rparr>) i)
      in if dc_vlan_membership collected then i
         else map_base (\<lambda>b. b\<lparr>native_vlan_id := native_vlan_id e, vlan_ids := vlan_ids e\<rparr>) i)"

definition blank :: "string option \<Rightarrow> bool" where
  "blank t = (case t of Some s \<Rightarrow> trim s = [] | None \<Rightarrow> False)"

definition normalize_blank_identity :: "Interface \<Rightarrow> Interface" where
  "normalize_blank_identity i =
     (let i = (if blank (if_name (if_base i)) then map_base (\<lambda>b. b\<lparr>if_name := None\<rparr>) i else i)
      in if blank (if_alias (if_base i)) then map_base (\<lambda>b. b\<lparr>if_alias := None\<rparr>) i else i)"

definition preserve_immutable_fields :: "Interface \<Rightarrow> Interface \<Rightarrow> Interface" where
  "preserve_immutable_fields existing i =
     (let e = if_base existing;
          i = i\<lparr>if_created_at := if_created_at existing\<rparr>;
          i = (if if_mac_address e \<noteq> None
               then map_base (\<lambda>b. b\<lparr>if_mac_address := if_mac_address e\<rparr>) i else i);
          i = (if if_name e \<noteq> None \<and> if_name (if_base i) = None
               then map_base (\<lambda>b. b\<lparr>if_name := if_name e\<rparr>) i else i)
      in if neighbor e \<noteq> None \<and> neighbor (if_base i) = None
         then map_base (\<lambda>b. b\<lparr>neighbor := neighbor e\<rparr>) i else i)"

section \<open>Snapshots\<close>

text \<open>
  Closed copies refer to closed rows: \<open>hosts\<close>, \<open>ip_addresses\<close>, \<open>vlans\<close> and \<open>own\<close> map the ids of
  live rows to those of their closed copies.
\<close>

definition remap :: "(uuid \<rightharpoonup> uuid) \<Rightarrow> uuid \<Rightarrow> uuid" where
  "remap m i = (case m i of Some j \<Rightarrow> j | None \<Rightarrow> i)"

definition make_closed_copy :: "datetime \<Rightarrow> Interface \<Rightarrow> Interface" where
  "make_closed_copy close_at i = i\<lparr>if_lineage_id := Some (if_id i), if_valid_to := Some close_at\<rparr>"

definition remap_fks_for_clone ::
    "(uuid \<rightharpoonup> uuid) \<Rightarrow> (uuid \<rightharpoonup> uuid) \<Rightarrow> (uuid \<rightharpoonup> uuid) \<Rightarrow> Interface \<Rightarrow> Interface" where
  "remap_fks_for_clone hosts ip_addresses vlans i =
     map_base (\<lambda>b. b\<lparr>if_host_id := remap hosts (if_host_id b),
       if_ip_address_id := map_option (remap ip_addresses) (if_ip_address_id b),
       native_vlan_id := map_option (remap vlans) (native_vlan_id b),
       neighbor := (case neighbor b of
          Some (NeighborHost h) \<Rightarrow> Some (NeighborHost (remap hosts h)) | n \<Rightarrow> n)\<rparr>) i"

definition remap_own_clone_refs :: "(uuid \<rightharpoonup> uuid) \<Rightarrow> Interface \<Rightarrow> Interface" where
  "remap_own_clone_refs own i =
     map_base (\<lambda>b. b\<lparr>neighbor := (case neighbor b of
       Some (NeighborInterface live) \<Rightarrow> Some (NeighborInterface (remap own live)) | n \<Rightarrow> n)\<rparr>) i"

end
