(* ===== verification/Hosts.thy ===== *)
theory Hosts
  imports IP_Addresses Lldp "HOL-Library.Product_Lexorder"
begin

text \<open>
  Hosts (\<^verbatim>\<open>backend/src/server/hosts\<close>): the naming ladder that decides which name a host keeps
  (\<^verbatim>\<open>impl/name.rs\<close>, \<^verbatim>\<open>impl/base.rs\<close>), the match of a discovery payload with a stored host by its
  addresses (\<^verbatim>\<open>service/mod.rs\<close>, \<^verbatim>\<open>service/consolidate.rs\<close>), the merge of the payload into the
  stored row, and the repairs of references a daemon cannot know (\<^verbatim>\<open>service/create.rs\<close>).
\<close>

section \<open>The naming ladder\<close>

datatype HostNameSource =
    NameUnspecified | NameIp | NameDetectedService | NameHostname | NameIntegration | NameManual

text \<open>The derived order is the order of declaration.\<close>

fun name_rank :: "HostNameSource \<Rightarrow> nat" where
  "name_rank NameUnspecified = 0"
| "name_rank NameIp = 1"
| "name_rank NameDetectedService = 2"
| "name_rank NameHostname = 3"
| "name_rank NameIntegration = 4"
| "name_rank NameManual = 5"

lemma name_rank_inj: "name_rank a = name_rank b \<longleftrightarrow> a = b"
  by (cases a; cases b) simp_all

instantiation HostNameSource :: linorder
begin

definition less_eq_HostNameSource :: "HostNameSource \<Rightarrow> HostNameSource \<Rightarrow> bool" where
  "a \<le> b \<longleftrightarrow> name_rank a \<le> name_rank b"

definition less_HostNameSource :: "HostNameSource \<Rightarrow> HostNameSource \<Rightarrow> bool" where
  "a < b \<longleftrightarrow> name_rank a < name_rank b"

instance
  by standard (auto simp: less_eq_HostNameSource_def less_HostNameSource_def name_rank_inj)

end

lemma name_manual_top: "s \<le> NameManual"
  by (cases s) (simp_all add: less_eq_HostNameSource_def)

record HostName =
  hn_value :: string
  hn_source :: HostNameSource

definition non_blank :: "string \<Rightarrow> HostNameSource \<Rightarrow> HostName option" where
  "non_blank value source = (if trim value \<noteq> [] then Some \<lparr>hn_value = value, hn_source = source\<rparr> else None)"

definition from_integration :: "string \<Rightarrow> HostName option" where
  "from_integration value = non_blank value NameIntegration"

definition from_hostname :: "string \<Rightarrow> HostName option" where
  "from_hostname value = non_blank value NameHostname"

definition from_service :: "string \<Rightarrow> HostName option" where
  "from_service value = non_blank value NameDetectedService"

definition from_ip :: "(IpAddr \<Rightarrow> string) \<Rightarrow> IpAddr \<Rightarrow> HostName" where
  "from_ip ip_text a = \<lparr>hn_value = ip_text a, hn_source = NameIp\<rparr>"

definition manual :: "string \<Rightarrow> HostName option" where
  "manual value = non_blank value NameManual"

section \<open>Hosts\<close>

datatype HostVirtualization =
    Proxmox "string option" "string option" | VCenter "string option" "string option"
  | ESXi "string option" "string option"

record CredentialAssignment =
  ca_credential_id :: uuid
  ca_ip_address_ids :: "uuid list option"

record HostBase =
  host_name :: string
  host_name_source :: HostNameSource
  host_network_id :: uuid
  hostname :: "string option"
  host_description :: "string option"
  host_source :: EntitySource
  host_virtualization_metadata :: "HostVirtualization option"
  host_virtualization_service_id :: "uuid option"
  host_hidden :: bool
  host_tags :: "uuid list"
  sys_descr :: "string option"
  sys_object_id :: "string option"
  sys_location :: "string option"
  sys_contact :: "string option"
  management_url :: "string option"
  chassis_id :: "string option"
  sys_name :: "string option"
  manufacturer :: "string option"
  model :: "string option"
  serial_number :: "string option"
  credential_assignments :: "CredentialAssignment list"

definition host_base_default :: HostBase where
  "host_base_default =
     \<lparr>host_name = [], host_name_source = NameUnspecified, host_network_id = nil_uuid, hostname = None,
      host_description = None, host_source = UnknownSource, host_virtualization_metadata = None,
      host_virtualization_service_id = None, host_hidden = False, host_tags = [], sys_descr = None,
      sys_object_id = None, sys_location = None, sys_contact = None, management_url = None,
      chassis_id = None, sys_name = None, manufacturer = None, model = None, serial_number = None,
      credential_assignments = []\<rparr>"

record Host =
  host_id :: uuid
  host_created_at :: datetime
  host_updated_at :: datetime
  host_valid_from :: datetime
  host_valid_to :: "datetime option"
  host_lineage_id :: "uuid option"
  host_last_seen_at :: datetime
  host_last_discovery_id :: "uuid option"
  host_first_discovery_id :: "uuid option"
  host_base :: HostBase

definition new_host :: "uuid \<Rightarrow> datetime \<Rightarrow> HostBase \<Rightarrow> Host" where
  "new_host fresh now base =
     \<lparr>host_id = fresh, host_created_at = now, host_updated_at = now, host_valid_from = now,
      host_valid_to = None, host_lineage_id = None, host_last_seen_at = now,
      host_last_discovery_id = None, host_first_discovery_id = None, host_base = base\<rparr>"

definition host_triggers_staleness :: "Host \<Rightarrow> Host option \<Rightarrow> bool" where
  "host_triggers_staleness h other =
     (case other of
        Some o' \<Rightarrow> hostname (host_base h) \<noteq> hostname (host_base o')
          \<or> host_virtualization_metadata (host_base h) \<noteq> host_virtualization_metadata (host_base o')
          \<or> host_virtualization_service_id (host_base h) \<noteq> host_virtualization_service_id (host_base o')
          \<or> host_hidden (host_base h) \<noteq> host_hidden (host_base o')
      | None \<Rightarrow> True)"

text \<open>The pair returned says whether anything changed.\<close>

definition apply_name :: "HostBase \<Rightarrow> HostName \<Rightarrow> HostBase \<times> bool" where
  "apply_name b candidate =
     (if hn_source candidate < host_name_source b then (b, False)
      else if host_name b = hn_value candidate \<and> host_name_source b = hn_source candidate then (b, False)
      else (b\<lparr>host_name := hn_value candidate, host_name_source := hn_source candidate\<rparr>, True))"

definition clamp_name_source :: "HostBase \<Rightarrow> HostNameSource \<Rightarrow> HostBase \<times> bool" where
  "clamp_name_source b ceiling =
     (if host_name_source b \<le> ceiling then (b, False)
      else (b\<lparr>host_name_source := ceiling\<rparr>, True))"

definition name_candidate :: "HostBase \<Rightarrow> HostName option" where
  "name_candidate b = non_blank (host_name b) (host_name_source b)"

section \<open>Identity by address\<close>

definition is_loopback :: "IpAddr \<Rightarrow> bool" where
  "is_loopback a = (case a of V4 w \<Rightarrow> drop_bit 24 w = 127 | V6 w \<Rightarrow> w = 1)"

abbreviation ip_loopback :: "IPAddress \<Rightarrow> bool" where
  "ip_loopback a \<equiv> is_loopback (ip_address (ip_base a))"

definition is_virtual_router_mac :: "MacAddress \<Rightarrow> bool" where
  "is_virtual_router_mac mac =
     (let bytes = mac_bytes mac in
      take 5 bytes = [0x00, 0x00, 0x5e, 0x00, 0x01]
      \<or> take 5 bytes = [0x00, 0x00, 0x5e, 0x00, 0x02]
      \<or> take 5 bytes = [0x00, 0x00, 0x0c, 0x07, 0xac]
      \<or> take 4 bytes = [0x00, 0x00, 0x0c, 0x9f] \<and> and (bytes ! 4) 0xf0 = 0xf0)"

definition has_virtual_router_mac :: "IPAddress \<Rightarrow> bool" where
  "has_virtual_router_mac a =
     (case ip_mac_address (ip_base a) of Some m \<Rightarrow> is_virtual_router_mac m | None \<Rightarrow> False)"

definition has_real_mac :: "IPAddress \<Rightarrow> bool" where
  "has_real_mac a =
     (case ip_mac_address (ip_base a) of Some m \<Rightarrow> \<not> is_virtual_router_mac m | None \<Rightarrow> False)"

definition should_skip_for_matching :: "IPAddress \<Rightarrow> bool" where
  "should_skip_for_matching a \<longleftrightarrow> ip_loopback a \<or> has_virtual_router_mac a"

definition mac_counts_for_payload :: "IPAddress list \<Rightarrow> MacAddress \<Rightarrow> nat" where
  "mac_counts_for_payload payload mac =
     length (filter (\<lambda>a. ip_mac_address (ip_base a) = Some mac) payload)"

definition ip_addresses_share_address :: "IPAddress \<Rightarrow> IPAddress \<Rightarrow> bool" where
  "ip_addresses_share_address a b \<longleftrightarrow>
     ip_address (ip_base a) = ip_address (ip_base b) \<and> ip_subnet_id (ip_base a) = ip_subnet_id (ip_base b)"

definition ip_addresses_match :: "(MacAddress \<Rightarrow> nat) \<Rightarrow> IPAddress \<Rightarrow> IPAddress \<Rightarrow> bool" where
  "ip_addresses_match counts incoming existing \<longleftrightarrow>
     ip_addresses_share_address incoming existing
     \<or> ip_id incoming = ip_id existing \<and> ip_id incoming \<noteq> nil_uuid \<and> ip_id existing \<noteq> nil_uuid
     \<or> (case ip_mac_address (ip_base incoming) of
          Some mac \<Rightarrow> ip_mac_address (ip_base existing) = Some mac \<and> counts mac = 1
        | None \<Rightarrow> False)"

definition matches_physically :: "IPAddress list \<Rightarrow> IPAddress list \<Rightarrow> bool" where
  "matches_physically physical rows \<longleftrightarrow>
     (\<exists>i \<in> set physical. \<exists>e \<in> set rows.
        \<not> should_skip_for_matching e \<and> ip_addresses_match (mac_counts_for_payload physical) i e)"

definition host_is_physical :: "IPAddress list \<Rightarrow> bool" where
  "host_is_physical rows \<longleftrightarrow> (\<exists>e \<in> set rows. \<not> ip_loopback e \<and> has_real_mac e)"

definition matches_virtually :: "IPAddress list \<Rightarrow> IPAddress list \<Rightarrow> bool" where
  "matches_virtually virtual_rows rows \<longleftrightarrow>
     \<not> host_is_physical rows
     \<and> (\<exists>i \<in> set virtual_rows. \<exists>e \<in> set rows. \<not> ip_loopback e \<and> ip_addresses_share_address i e)"

definition select_matching_host :: "IPAddress list \<Rightarrow> (uuid \<times> IPAddress list) list \<Rightarrow> uuid option" where
  "select_matching_host incoming candidates =
     (let physical = filter (\<lambda>a. \<not> should_skip_for_matching a) incoming;
          virtual_rows = filter (\<lambda>a. \<not> ip_loopback a \<and> has_virtual_router_mac a) incoming
      in if physical \<noteq> []
         then map_option fst (find (\<lambda>c. matches_physically physical (snd c)) candidates)
         else map_option fst (find (\<lambda>c. matches_virtually virtual_rows (snd c)) (rev candidates)))"

definition find_matching_host_by_ip_addresses ::
    "Host list \<Rightarrow> IPAddress list \<Rightarrow> uuid \<Rightarrow> IPAddress list \<Rightarrow> (Host \<times> IPAddress list) option" where
  "find_matching_host_by_ip_addresses hosts ips network incoming =
     (let all_hosts = sort_key (\<lambda>h. (host_created_at h, host_id h))
            (filter (\<lambda>h. host_network_id (host_base h) = network \<and> host_valid_to h = None) hosts);
          rows = (\<lambda>h. sort_key (\<lambda>a. ip_position (ip_base a))
            (filter (\<lambda>a. ip_host_id (ip_base a) = h \<and> ip_valid_to a = None) ips));
          candidates = map (\<lambda>h. (host_id h, rows (host_id h))) all_hosts
      in if incoming = [] then None
         else Option.bind (select_matching_host incoming candidates) (\<lambda>m.
           map_option (\<lambda>h. (h, rows m)) (find (\<lambda>h. host_id h = m) all_hosts)))"

section \<open>Merging a payload into the stored host\<close>

definition fill :: "'a option \<Rightarrow> 'a option \<Rightarrow> 'a option" where
  "fill stored new = (if stored = None then new else stored)"

definition fills :: "'a option \<Rightarrow> 'a option \<Rightarrow> bool" where
  "fills stored new \<longleftrightarrow> stored = None \<and> new \<noteq> None"

definition adopt_hostname :: "HostBase \<Rightarrow> HostBase \<Rightarrow> HostBase \<times> bool" where
  "adopt_hostname new b =
     (if hostname b = None \<and> (case hostname new of Some h \<Rightarrow> h \<noteq> [] | None \<Rightarrow> False)
      then (b\<lparr>hostname := hostname new\<rparr>, True) else (b, False))"

definition offer_name :: "HostName option \<Rightarrow> HostBase \<Rightarrow> HostBase \<times> bool" where
  "offer_name candidate b = (case candidate of Some c \<Rightarrow> apply_name b c | None \<Rightarrow> (b, False))"

definition fill_snmp :: "HostBase \<Rightarrow> HostBase \<Rightarrow> HostBase \<times> bool" where
  "fill_snmp new b =
     (b\<lparr>sys_descr := fill (sys_descr b) (sys_descr new),
        sys_object_id := fill (sys_object_id b) (sys_object_id new),
        sys_location := fill (sys_location b) (sys_location new),
        sys_contact := fill (sys_contact b) (sys_contact new),
        management_url := fill (management_url b) (management_url new),
        chassis_id := fill (chassis_id b) (chassis_id new),
        sys_name := fill (sys_name b) (sys_name new),
        manufacturer := fill (manufacturer b) (manufacturer new),
        model := fill (model b) (model new),
        serial_number := fill (serial_number b) (serial_number new)\<rparr>,
      fills (sys_descr b) (sys_descr new)
      \<or> fills (sys_object_id b) (sys_object_id new)
      \<or> fills (sys_location b) (sys_location new)
      \<or> fills (sys_contact b) (sys_contact new)
      \<or> fills (management_url b) (management_url new)
      \<or> fills (chassis_id b) (chassis_id new)
      \<or> fills (sys_name b) (sys_name new)
      \<or> fills (manufacturer b) (manufacturer new)
      \<or> fills (model b) (model new)
      \<or> fills (serial_number b) (serial_number new))"

definition merge_host_source :: "EntitySource \<Rightarrow> EntitySource \<Rightarrow> EntitySource \<times> bool" where
  "merge_host_source stored new =
     (if new = Discovery then (Discovery, stored \<noteq> Discovery) else (stored, False))"

text \<open>The second component is \<open>has_updates\<close>, on which the update event depends.\<close>

definition upsert_host :: "Host \<Rightarrow> Host \<Rightarrow> Host \<times> bool" where
  "upsert_host existing new =
     (let n = host_base new;
          (b, u1) = adopt_hostname n (host_base existing);
          (b, u2) = offer_name (name_candidate n) b;
          (b, u3) = offer_name (Option.bind (hostname b) from_hostname) b;
          (b, u4) = fill_snmp n b;
          (src, u5) = merge_host_source (host_source b) (host_source n)
      in (existing\<lparr>host_last_seen_at := host_last_seen_at new, host_base := b\<lparr>host_source := src\<rparr>\<rparr>,
          u1 \<or> u2 \<or> u3 \<or> u4 \<or> u5))"

text \<open>What discovery does to a payload before it is merged.\<close>

definition strip_payload :: "HostBase \<Rightarrow> HostBase" where
  "strip_payload b = fst (clamp_name_source (b\<lparr>host_virtualization_service_id := None\<rparr>) NameIntegration)"

text \<open>An edit names the host only when it changes the name.\<close>

definition rename_host :: "HostBase \<Rightarrow> string \<Rightarrow> HostBase" where
  "rename_host b name =
     (if name \<noteq> host_name b
      then (case manual name of Some c \<Rightarrow> fst (apply_name b c) | None \<Rightarrow> b) else b)"

section \<open>Repairing references\<close>

definition resolve_owner_service_id :: "uuid option \<Rightarrow> (uuid \<rightharpoonup> uuid) \<Rightarrow> uuid list \<Rightarrow> uuid option" where
  "resolve_owner_service_id incoming remapped live_service_ids =
     Option.bind incoming (\<lambda>i. case remapped i of
        Some r \<Rightarrow> Some r | None \<Rightarrow> if i \<in> set live_service_ids then Some i else None)"

definition remap_assignment_ip_ids ::
    "(uuid \<times> IpAddr) list \<Rightarrow> IPAddress list \<Rightarrow> CredentialAssignment \<Rightarrow> CredentialAssignment" where
  "remap_assignment_ip_ids daemon_ips created a =
     (case ca_ip_address_ids a of
        None \<Rightarrow> a
      | Some ids \<Rightarrow>
          (let remapped = List.map_filter (\<lambda>d.
                 Option.bind (map_of daemon_ips d) (\<lambda>ip.
                   map_option ip_id (find (\<lambda>i. ip_address (ip_base i) = ip) created))) ids
           in if remapped = [] \<and> ids \<noteq> [] then a\<lparr>ca_ip_address_ids := None\<rparr>
              else a\<lparr>ca_ip_address_ids := Some remapped\<rparr>))"

section \<open>The ladder\<close>

lemma apply_name_source: "host_name_source (fst (apply_name b c)) = max (host_name_source b) (hn_source c)"
  by (auto simp: apply_name_def max_def)

lemma apply_name_rest:
  "fst (apply_name b c) = b\<lparr>host_name := host_name (fst (apply_name b c)),
     host_name_source := host_name_source (fst (apply_name b c))\<rparr>"
  by (simp add: apply_name_def)

text \<open>A sequence of candidates, each offered in turn.\<close>

definition apply_names :: "HostName list \<Rightarrow> HostBase \<Rightarrow> HostBase" where
  "apply_names cs b = fold (\<lambda>c b. fst (apply_name b c)) cs b"

lemma apply_names_source:
  "host_name_source (apply_names cs b) = Max (insert (host_name_source b) (hn_source ` set cs))"
proof (induction cs rule: rev_induct)
  case (snoc c cs)
  have "apply_names (cs @ [c]) b = fst (apply_name (apply_names cs b) c)" by (simp add: apply_names_def)
  then have "host_name_source (apply_names (cs @ [c]) b) =
      max (hn_source c) (Max (insert (host_name_source b) (hn_source ` set cs)))"
    by (simp add: apply_name_source snoc.IH max.commute)
  also have "\<dots> = Max (insert (hn_source c) (insert (host_name_source b) (hn_source ` set cs)))"
    by (rule Max_insert [symmetric]) auto
  finally show ?case by (simp add: insert_commute)
qed (simp add: apply_names_def)

text \<open>The name is the one of the last candidate that is as authoritative as any before it.\<close>

lemma apply_names_value:
  "host_name (apply_names cs b) =
     (let ds = filter (\<lambda>c. host_name_source (apply_names cs b) = hn_source c) cs
      in if ds = [] then host_name b else hn_value (last ds))"
proof (induction cs rule: rev_induct)
  case (snoc c cs)
  let ?b = "apply_names cs b"
  have step: "apply_names (cs @ [c]) b = fst (apply_name ?b c)" by (simp add: apply_names_def)
  have le: "hn_source d \<le> host_name_source ?b" if "d \<in> set cs" for d
    unfolding apply_names_source using that by (intro Max_ge) auto
  show ?case
  proof (cases "hn_source c < host_name_source ?b")
    case True
    then have "apply_names (cs @ [c]) b = ?b" by (simp add: step apply_name_def)
    then show ?thesis using True snoc.IH by (auto simp: Let_def)
  next
    case False
    then have src: "host_name_source (apply_names (cs @ [c]) b) = hn_source c"
      and val: "host_name (apply_names (cs @ [c]) b) = hn_value c"
      by (auto simp: step apply_name_def)
    show ?thesis unfolding src val by simp
  qed
qed (simp add: apply_names_def)

section \<open>Rescans of a host\<close>

lemma fill_idem [simp]: "fill (fill a b) b = fill a b" "\<not> fills (fill a b) b"
  by (auto simp: fill_def fills_def)

lemma merge_host_source_idem [simp]:
  "merge_host_source (fst (merge_host_source a b)) b = (fst (merge_host_source a b), False)"
  by (simp add: merge_host_source_def)

definition offer_names :: "HostName option \<Rightarrow> HostName option \<Rightarrow> HostBase \<Rightarrow> HostBase" where
  "offer_names c d b = fst (offer_name d (fst (offer_name c b)))"

lemma offer_names_idem: "offer_names c d (offer_names c d b) = offer_names c d b"
  by (cases c; cases d) (auto simp: offer_names_def offer_name_def apply_name_def)

text \<open>The two offers of a repeated scan change the name and change it back, or do nothing.\<close>

lemma offer_names_again:
  "snd (offer_name c (offer_names c d b)) \<or> snd (offer_name d (fst (offer_name c (offer_names c d b)))) \<longleftrightarrow>
   (\<exists>x y. c = Some x \<and> d = Some y \<and> hn_source x = hn_source y \<and> hn_value x \<noteq> hn_value y
      \<and> host_name_source (offer_names c d b) = hn_source y)"
  by (cases c; cases d) (auto simp: offer_names_def offer_name_def apply_name_def)

definition hostname_candidate :: "HostBase \<Rightarrow> HostName option" where
  "hostname_candidate b = Option.bind (hostname b) from_hostname"

lemma offer_name_other [simp]:
  "hostname (fst (offer_name c b)) = hostname b" "host_source (fst (offer_name c b)) = host_source b"
  by (auto simp: offer_name_def apply_name_def split: option.splits)

lemma fst_upsert_host:
  "host_base (fst (upsert_host e n)) =
     (let b = offer_names (name_candidate (host_base n))
                (hostname_candidate (fst (adopt_hostname (host_base n) (host_base e))))
                (fst (adopt_hostname (host_base n) (host_base e)))
      in (fst (fill_snmp (host_base n) b))\<lparr>host_source :=
           fst (merge_host_source (host_source (host_base e)) (host_source (host_base n)))\<rparr>)"
  by (simp add: upsert_host_def offer_names_def hostname_candidate_def Let_def split_beta)
     (simp add: fill_snmp_def adopt_hostname_def)

lemma snd_upsert_host:
  "snd (upsert_host e n) =
     (let n = host_base n; a = adopt_hostname n (host_base e); b = fst a;
          c = name_candidate n; d = hostname_candidate b
      in snd a \<or> snd (offer_name c b) \<or> snd (offer_name d (fst (offer_name c b)))
         \<or> snd (fill_snmp n (offer_names c d b))
         \<or> snd (merge_host_source (host_source (host_base e)) (host_source n)))"
  by (simp add: upsert_host_def offer_names_def hostname_candidate_def Let_def split_beta)
     (simp add: fill_snmp_def adopt_hostname_def)

lemma offer_name_frame:
  "offer_name c ((fst (fill_snmp n b))\<lparr>host_source := src\<rparr>) =
     ((fst (fill_snmp n (fst (offer_name c b))))\<lparr>host_source := src\<rparr>, snd (offer_name c b))"
  by (auto simp: offer_name_def apply_name_def fill_snmp_def split: option.splits)

lemma offer_names_frame:
  "offer_names c d ((fst (fill_snmp n b))\<lparr>host_source := src\<rparr>) =
     (fst (fill_snmp n (offer_names c d b)))\<lparr>host_source := src\<rparr>"
  by (simp add: offer_names_def offer_name_frame)

lemma fill_snmp_again:
  "fill_snmp n ((fst (fill_snmp n b))\<lparr>host_source := src\<rparr>) = ((fst (fill_snmp n b))\<lparr>host_source := src\<rparr>, False)"
  by (simp add: fill_snmp_def)

lemma adopt_hostname_again:
  assumes "hostname b' = hostname (fst (adopt_hostname n b))"
  shows "adopt_hostname n b' = (b', False)"
  using assms by (auto simp: adopt_hostname_def split: if_splits option.splits)

lemma offer_names_other [simp]:
  "hostname (offer_names c d b) = hostname b"
  by (simp add: offer_names_def)

lemma upsert_parts:
  fixes e n :: Host
  defines "a \<equiv> fst (adopt_hostname (host_base n) (host_base e))"
    and "c \<equiv> name_candidate (host_base n)"
  obtains src where
    "host_base (fst (upsert_host e n)) = (fst (fill_snmp (host_base n) (offer_names c (hostname_candidate a) a)))\<lparr>host_source := src\<rparr>"
    "merge_host_source src (host_source (host_base n)) = (src, False)"
  by (rule that [of "fst (merge_host_source (host_source (host_base e)) (host_source (host_base n)))"])
     (simp_all add: fst_upsert_host Let_def a_def c_def)

lemma upsert_again:
  fixes e n :: Host
  defines "e' \<equiv> fst (upsert_host e n)"
  shows "fst (upsert_host e' n) = e'"
    "snd (upsert_host e' n) \<longleftrightarrow>
       (\<exists>x y. name_candidate (host_base n) = Some x \<and> hostname_candidate (host_base e') = Some y
          \<and> hn_source x = hn_source y \<and> hn_value x \<noteq> hn_value y
          \<and> host_name_source (host_base e') = hn_source y)"
proof -
  let ?a = "fst (adopt_hostname (host_base n) (host_base e))"
  let ?c = "name_candidate (host_base n)" and ?d = "hostname_candidate ?a"
  let ?o = "offer_names ?c ?d ?a"
  obtain src where b: "host_base e' = (fst (fill_snmp (host_base n) ?o))\<lparr>host_source := src\<rparr>"
      "merge_host_source src (host_source (host_base n)) = (src, False)"
    unfolding e'_def by (rule upsert_parts)
  have host: "hostname (host_base e') = hostname ?a" by (simp add: b(1) fill_snmp_def)
  then have cand: "hostname_candidate (host_base e') = ?d" by (simp add: hostname_candidate_def)
  note adopt = adopt_hostname_again [OF host]
  have src: "host_source (host_base e') = src" by (simp add: b(1))
  have again: "offer_names ?c ?d (host_base e') = host_base e'"
    by (simp add: b(1) offer_names_frame offer_names_idem)
  have "host_base (fst (upsert_host e' n)) = host_base e'"
    unfolding fst_upsert_host Let_def adopt fst_conv cand again src b(2)
    by (simp add: b(1) fill_snmp_again)
  moreover have "host_last_seen_at e' = host_last_seen_at n"
    by (simp add: e'_def upsert_host_def Let_def split_beta)
  ultimately show "fst (upsert_host e' n) = e'"
    by (simp add: upsert_host_def Let_def split_beta)
  have "snd (offer_name ?c (host_base e')) \<or> snd (offer_name ?d (fst (offer_name ?c (host_base e')))) \<longleftrightarrow>
      snd (offer_name ?c ?o) \<or> snd (offer_name ?d (fst (offer_name ?c ?o)))"
    by (simp add: b(1) offer_name_frame)
  moreover have "snd (upsert_host e' n) \<longleftrightarrow>
      snd (offer_name ?c (host_base e')) \<or> snd (offer_name ?d (fst (offer_name ?c (host_base e'))))"
    unfolding snd_upsert_host Let_def adopt fst_conv snd_conv cand again src b(2)
    by (simp add: b(1) fill_snmp_again)
  moreover have "host_name_source (host_base e') = host_name_source ?o"
    by (simp add: b(1) fill_snmp_def)
  ultimately show "snd (upsert_host e' n) \<longleftrightarrow>
       (\<exists>x y. name_candidate (host_base n) = Some x \<and> hostname_candidate (host_base e') = Some y
          \<and> hn_source x = hn_source y \<and> hn_value x \<noteq> hn_value y
          \<and> host_name_source (host_base e') = hn_source y)"
    by (simp add: offer_names_again cand)
qed

lemma offer_name_climbs: "host_name_source b \<le> host_name_source (fst (offer_name c b))"
  by (auto simp: offer_name_def apply_name_source split: option.splits)

lemma offer_name_lower: "(\<And>x. c = Some x \<Longrightarrow> hn_source x < host_name_source b) \<Longrightarrow> fst (offer_name c b) = b"
  by (auto simp: offer_name_def apply_name_def split: option.splits)

lemma candidate_sources:
  "name_candidate b = Some x \<Longrightarrow> hn_source x = host_name_source b"
  "hostname_candidate b = Some x \<Longrightarrow> hn_source x = NameHostname"
  by (auto simp: name_candidate_def hostname_candidate_def from_hostname_def non_blank_def
      bind_eq_Some_conv split: if_splits)

lemma adopt_hostname_name:
  "host_name (fst (adopt_hostname n b)) = host_name b"
  "host_name_source (fst (adopt_hostname n b)) = host_name_source b"
  by (simp_all add: adopt_hostname_def)

lemma upsert_name:
  "host_name (host_base (fst (upsert_host e n))) = host_name (offer_names (name_candidate (host_base n))
     (hostname_candidate (fst (adopt_hostname (host_base n) (host_base e))))
     (fst (adopt_hostname (host_base n) (host_base e))))"
  "host_name_source (host_base (fst (upsert_host e n))) = host_name_source (offer_names (name_candidate (host_base n))
     (hostname_candidate (fst (adopt_hostname (host_base n) (host_base e))))
     (fst (adopt_hostname (host_base n) (host_base e))))"
  by (simp_all add: fst_upsert_host Let_def fill_snmp_def)

lemma upsert_name_climbs:
  "host_name_source (host_base e) \<le> host_name_source (host_base (fst (upsert_host e n)))"
  unfolding upsert_name offer_names_def
  using offer_name_climbs order_trans adopt_hostname_name(2) by metis

lemma upsert_name_kept:
  assumes "host_name_source (host_base n) < host_name_source (host_base e)"
    "NameHostname < host_name_source (host_base e)"
  shows "host_name (host_base (fst (upsert_host e n))) = host_name (host_base e)"
proof -
  let ?a = "fst (adopt_hostname (host_base n) (host_base e))"
  have "fst (offer_name (name_candidate (host_base n)) ?a) = ?a"
    "fst (offer_name (hostname_candidate ?a) ?a) = ?a"
    by (rule offer_name_lower, use assms candidate_sources in \<open>auto simp: adopt_hostname_name\<close>)+
  then show ?thesis by (simp add: upsert_name offer_names_def adopt_hostname_name)
qed

lemma strip_payload_source: "host_name_source (strip_payload b) \<le> NameIntegration"
  by (simp add: strip_payload_def clamp_name_source_def)

lemma manual_not_less: "\<not> NameManual < s"
  by (simp add: not_less name_manual_top)

text \<open>A user's name outranks whatever a stripped payload offers.\<close>

lemma manual_name_kept:
  assumes "host_name_source (host_base e) = NameManual"
  shows "let e' = fold (\<lambda>n e. fst (upsert_host e (n\<lparr>host_base := strip_payload (host_base n)\<rparr>))) payloads e
         in host_name (host_base e') = host_name (host_base e) \<and> host_name_source (host_base e') = NameManual"
  using assms
proof (induction payloads arbitrary: e)
  case (Cons n ns)
  let ?n = "n\<lparr>host_base := strip_payload (host_base n)\<rparr>"
  have below: "NameIntegration < NameManual" "NameHostname < NameManual" by (simp_all add: less_HostNameSource_def less_eq_HostNameSource_def)
  have "host_name_source (host_base ?n) < host_name_source (host_base e)"
    using strip_payload_source [of "host_base n"] below(1) Cons.prems by simp
  then have "host_name (host_base (fst (upsert_host e ?n))) = host_name (host_base e)"
    using below(2) Cons.prems by (intro upsert_name_kept) simp_all
  moreover have "host_name_source (host_base (fst (upsert_host e ?n))) = NameManual"
    using upsert_name_climbs [of e ?n] Cons.prems name_manual_top by (metis order_antisym)
  ultimately show ?case using Cons.IH [of "fst (upsert_host e ?n)"] by (simp add: Let_def)
qed simp

section \<open>Identity\<close>

lemma select_physical:
  assumes "select_matching_host incoming candidates = Some h" "\<exists>i \<in> set incoming. \<not> should_skip_for_matching i"
  obtains rows where "(h, rows) \<in> set candidates"
    "matches_physically (filter (\<lambda>a. \<not> should_skip_for_matching a) incoming) rows"
  using assms by (auto simp: select_matching_host_def Let_def filter_empty_conv dest!: find_SomeD)

lemma select_virtual:
  assumes "select_matching_host incoming candidates = Some h" "\<forall>i \<in> set incoming. should_skip_for_matching i"
  obtains rows where "(h, rows) \<in> set candidates"
    "matches_virtually (filter (\<lambda>a. \<not> ip_loopback a \<and> has_virtual_router_mac a) incoming) rows"
  using assms by (auto simp: select_matching_host_def Let_def filter_empty_conv dest!: find_SomeD)

lemma select_none:
  assumes "select_matching_host incoming candidates = None" "(h, rows) \<in> set candidates"
  shows "\<exists>i \<in> set incoming. \<not> should_skip_for_matching i \<Longrightarrow>
      \<not> matches_physically (filter (\<lambda>a. \<not> should_skip_for_matching a) incoming) rows"
    "\<forall>i \<in> set incoming. should_skip_for_matching i \<Longrightarrow>
      \<not> matches_virtually (filter (\<lambda>a. \<not> ip_loopback a \<and> has_virtual_router_mac a) incoming) rows"
  using assms by (auto simp: select_matching_host_def Let_def filter_empty_conv find_None_iff)

text \<open>The MAC of a matched pair of rows, when it is the MAC that matches, is not a shared one.\<close>

lemma physical_match_not_virtual:
  assumes "matches_physically (filter (\<lambda>a. \<not> should_skip_for_matching a) incoming) rows"
  obtains i e where "i \<in> set incoming" "e \<in> set rows" "\<not> has_virtual_router_mac i" "\<not> has_virtual_router_mac e"
    "\<not> ip_loopback i" "\<not> ip_loopback e"
    "ip_addresses_match (mac_counts_for_payload (filter (\<lambda>a. \<not> should_skip_for_matching a) incoming)) i e"
  using assms by (auto simp: matches_physically_def should_skip_for_matching_def)

end
