(* ===== verification/Interface_Ingest.thy ===== *)
theory Interface_Ingest
  imports Interfaces Hosts
begin

text \<open>
  The interface service (\<^verbatim>\<open>backend/src/server/interfaces/service.rs\<close>), its request validation
  (\<^verbatim>\<open>interfaces/handlers.rs\<close>) and the part of host discovery that stores a device's \<open>ifTable\<close>
  (\<^verbatim>\<open>hosts/service/create.rs\<close>, \<^verbatim>\<open>hosts/service/discovery.rs\<close>): the tiered match of a reported
  interface with a stored row, the batch loop with its set of claimed rows, the prune of rows a
  complete sweep no longer reports, and the link of an interface to an address of its host.

  The table is the list of its rows, live and closed. Its constraints are those of the migrations:
  the primary key, the unique index on the host and name of live rows, and the foreign key
  \<open>neighbor_interface_id\<close> that is set to null when its target is deleted. A unique violation is a
  validation failure when it comes from an insert and a database error when it comes from an update.
\<close>

section \<open>The table\<close>

datatype ingest_error = ValidationFailure | DatabaseFailure | MissingRow uuid

abbreviation if_live :: "Interface \<Rightarrow> bool" where
  "if_live i \<equiv> if_valid_to i = None"

definition same_name :: "Interface \<Rightarrow> Interface \<Rightarrow> bool" where
  "same_name x i \<longleftrightarrow>
     if_id x \<noteq> if_id i \<and> if_live x \<and> if_live i \<and> if_host_id (if_base x) = if_host_id (if_base i)
     \<and> if_name (if_base i) \<noteq> None \<and> if_name (if_base x) = if_name (if_base i)"

definition name_taken :: "Interface list \<Rightarrow> Interface \<Rightarrow> bool" where
  "name_taken rows i \<longleftrightarrow> (\<exists>x \<in> set rows. same_name x i)"

definition if_get_for_host :: "Interface list \<Rightarrow> uuid \<Rightarrow> Interface list" where
  "if_get_for_host rows host =
     sort_key (\<lambda>i. if_index (if_base i)) (filter (\<lambda>i. if_host_id (if_base i) = host \<and> if_live i) rows)"

definition if_get_by_ip_address_ids :: "Interface list \<Rightarrow> uuid list \<Rightarrow> Interface list" where
  "if_get_by_ip_address_ids rows ids =
     (if ids = [] then []
      else filter (\<lambda>i. if_live i \<and> (case if_ip_address_id (if_base i) of
        Some a \<Rightarrow> a \<in> set ids | None \<Rightarrow> False)) rows)"

definition if_create ::
    "uuid \<Rightarrow> datetime \<Rightarrow> Interface list \<Rightarrow> Interface \<Rightarrow> (ingest_error, Interface list \<times> Interface) result" where
  "if_create fresh now rows i =
     (let e = (if if_id i = nil_uuid then new_interface fresh now (if_base i) else i) in
      if name_taken rows e then Err ValidationFailure
      else case create_row if_id rows e of Err _ \<Rightarrow> Err ValidationFailure | Ok rows' \<Rightarrow> Ok (rows', e))"

definition if_update ::
    "Interface list \<Rightarrow> Interface \<Rightarrow> (ingest_error, Interface list \<times> Interface) result" where
  "if_update rows i =
     (if get_by_id if_id rows (if_id i) = None then Err (MissingRow (if_id i))
      else if name_taken rows i then Err DatabaseFailure
      else Ok (update_row if_id rows i, i))"

definition clear_neighbor :: "uuid \<Rightarrow> Interface \<Rightarrow> Interface" where
  "clear_neighbor gone i =
     (if neighbor (if_base i) = Some (NeighborInterface gone)
      then map_base (\<lambda>b. b\<lparr>neighbor := None\<rparr>) i else i)"

definition if_delete :: "Interface list \<Rightarrow> uuid \<Rightarrow> Interface list" where
  "if_delete rows i = map (clear_neighbor i) (delete_row if_id rows i)"

section \<open>Matching a reported interface\<close>

definition match_existing_interface :: "Interface \<Rightarrow> Interface list \<Rightarrow> uuid list \<Rightarrow> uuid option" where
  "match_existing_interface entry existing claimed =
     (let e = if_base entry;
          available = filter (\<lambda>x. if_id x \<notin> set claimed) existing;
          by_name = (case if_name e of
              None \<Rightarrow> None
            | Some n \<Rightarrow> find (\<lambda>x. if_name (if_base x) = Some n) available)
      in case by_name of
           Some x \<Rightarrow> Some (if_id x)
         | None \<Rightarrow>
             (case find (\<lambda>x. if_index (if_base x) = if_index e) available of
                Some x \<Rightarrow> Some (if_id x)
              | None \<Rightarrow>
                  (case if_mac_address e of
                     None \<Rightarrow> None
                   | Some mac \<Rightarrow>
                       (case filter (\<lambda>x. if_mac_address (if_base x) = Some mac) available of
                          [x] \<Rightarrow> Some (if_id x) | _ \<Rightarrow> None))))"

definition find_matching_existing :: "Interface list \<Rightarrow> Interface \<Rightarrow> uuid list \<Rightarrow> Interface option" where
  "find_matching_existing rows entry claimed =
     (let existing = if_get_for_host rows (if_host_id (if_base entry)) in
      Option.bind (match_existing_interface entry existing claimed)
        (\<lambda>i. find (\<lambda>x. if_id x = i) existing))"

definition originate_scan_timestamps :: "datetime \<Rightarrow> Interface \<Rightarrow> Interface" where
  "originate_scan_timestamps t i = i\<lparr>if_created_at := t, if_valid_from := t\<rparr>"

definition refresh_scan_timestamps :: "datetime \<Rightarrow> Interface \<Rightarrow> Interface" where
  "refresh_scan_timestamps t i = i\<lparr>if_last_seen_at := t, if_updated_at := t\<rparr>"

definition rescanned :: "Interface \<Rightarrow> InterfaceDataComplete \<Rightarrow> Interface \<Rightarrow> Interface" where
  "rescanned existing collected entry =
     preserve_uncollected_data existing collected
       (preserve_immutable_fields existing (entry\<lparr>if_id := if_id existing\<rparr>))"

definition create_or_update_from_discovery ::
    "uuid \<Rightarrow> datetime \<Rightarrow> Interface list \<Rightarrow> Interface \<Rightarrow> uuid list \<Rightarrow> InterfaceDataComplete
      \<Rightarrow> (ingest_error, Interface list \<times> Interface) result" where
  "create_or_update_from_discovery fresh now rows entry claimed collected =
     (let entry = normalize_blank_identity entry in
      case find_matching_existing rows entry claimed of
        Some existing \<Rightarrow> if_update rows (rescanned existing collected entry)
      | None \<Rightarrow> if_create fresh now rows (originate_scan_timestamps (if_last_seen_at entry) entry))"

section \<open>The batch\<close>

record ingest_state =
  ing_rows :: "Interface list"
  ing_created :: "Interface list"
  ing_skipped :: nat

abbreviation ing_claimed :: "ingest_state \<Rightarrow> uuid list" where
  "ing_claimed s \<equiv> map if_id (ing_created s)"

definition for_host :: "uuid \<Rightarrow> uuid \<Rightarrow> Interface \<Rightarrow> Interface" where
  "for_host host network = map_base (\<lambda>b. b\<lparr>if_host_id := host, if_network_id := network\<rparr>)"

text \<open>A failure other than validation ends the loop; the rows written so far stay written.\<close>

fun ingest_loop ::
    "(nat \<Rightarrow> uuid) \<Rightarrow> datetime \<Rightarrow> uuid \<Rightarrow> uuid \<Rightarrow> InterfaceDataComplete \<Rightarrow> nat \<Rightarrow> Interface list
      \<Rightarrow> ingest_state \<Rightarrow> ingest_state \<times> ingest_error option" where
  "ingest_loop fresh now host network collected n [] s = (s, None)"
| "ingest_loop fresh now host network collected n (e # es) s =
     (case create_or_update_from_discovery (fresh n) now (ing_rows s) (for_host host network e)
             (ing_claimed s) collected of
        Ok (rows, created) \<Rightarrow>
          ingest_loop fresh now host network collected (Suc n) es
            (s\<lparr>ing_rows := rows, ing_created := ing_created s @ [created]\<rparr>)
      | Err ValidationFailure \<Rightarrow>
          ingest_loop fresh now host network collected (Suc n) es (s\<lparr>ing_skipped := Suc (ing_skipped s)\<rparr>)
      | Err e' \<Rightarrow> (s, Some e'))"

definition should_prune_interfaces :: "bool \<Rightarrow> nat \<Rightarrow> nat \<Rightarrow> bool" where
  "should_prune_interfaces interfaces_complete persisted_count skipped_count \<longleftrightarrow>
     interfaces_complete \<and> 0 < persisted_count \<and> skipped_count = 0"

definition prune_interfaces :: "Interface list \<Rightarrow> uuid \<Rightarrow> uuid list \<Rightarrow> Interface list" where
  "prune_interfaces rows host kept =
     fold (\<lambda>i rows. if_delete rows (if_id i))
       (filter (\<lambda>i. if_id i \<notin> set kept) (if_get_for_host rows host)) rows"

definition store_interfaces ::
    "(nat \<Rightarrow> uuid) \<Rightarrow> datetime \<Rightarrow> uuid \<Rightarrow> uuid \<Rightarrow> bool \<Rightarrow> InterfaceDataComplete \<Rightarrow> Interface list
      \<Rightarrow> Interface list \<Rightarrow> ingest_state \<times> ingest_error option" where
  "store_interfaces fresh now host network interfaces_complete collected interfaces rows =
     (case ingest_loop fresh now host network collected 0 interfaces
             \<lparr>ing_rows = rows, ing_created = [], ing_skipped = 0\<rparr> of
        (s, Some e) \<Rightarrow> (s, Some e)
      | (s, None) \<Rightarrow>
          (if should_prune_interfaces interfaces_complete (length (ing_created s)) (ing_skipped s)
           then s\<lparr>ing_rows := prune_interfaces (ing_rows s) host (ing_claimed s)\<rparr> else s, None))"

section \<open>After the scan\<close>

text \<open>The discovery that saw the rows is recorded on them once its history row exists.\<close>

definition update_discovery_fks :: "uuid list \<Rightarrow> uuid \<Rightarrow> Interface list \<Rightarrow> Interface list" where
  "update_discovery_fks scanned discovery rows =
     map (\<lambda>i. if if_id i \<in> set scanned
              then i\<lparr>if_last_discovery_id := Some discovery,
                     if_first_discovery_id := (case if_first_discovery_id i of
                       None \<Rightarrow> Some discovery | d \<Rightarrow> d)\<rparr>
              else i) rows"

definition ip_get_for_host :: "IPAddress list \<Rightarrow> uuid \<Rightarrow> IPAddress list" where
  "ip_get_for_host ips host =
     sort_key (\<lambda>a. ip_position (ip_base a))
       (filter (\<lambda>a. ip_host_id (ip_base a) = host \<and> ip_valid_to a = None) ips)"

definition interfaces_per_mac :: "Interface list \<Rightarrow> MacAddress \<Rightarrow> nat" where
  "interfaces_per_mac interfaces mac =
     length (filter (\<lambda>i. if_mac_address (if_base i) = Some mac) interfaces)"

definition link_target :: "Interface list \<Rightarrow> IPAddress list \<Rightarrow> Interface \<Rightarrow> uuid option" where
  "link_target interfaces ip_addresses i =
     (if if_type (if_base i) = SOFTWARE_LOOPBACK
      then map_option ip_id (find (\<lambda>a. is_loopback (ip_address (ip_base a))) ip_addresses)
      else Option.bind (if_mac_address (if_base i)) (\<lambda>mac.
        if interfaces_per_mac interfaces mac = 1
        then map_option ip_id (find (\<lambda>a. ip_mac_address (ip_base a) = Some mac) (rev ip_addresses))
        else None))"

definition plan_interface_ip_links :: "Interface list \<Rightarrow> IPAddress list \<Rightarrow> (uuid \<times> uuid) list" where
  "plan_interface_ip_links interfaces ip_addresses =
     List.map_filter (\<lambda>i. map_option (Pair (if_id i)) (link_target interfaces ip_addresses i))
       (filter (\<lambda>i. if_ip_address_id (if_base i) = None) interfaces)"

text \<open>A link that cannot be written is logged and the others go on.\<close>

definition link_interfaces_to_ip_addresses :: "IPAddress list \<Rightarrow> uuid \<Rightarrow> Interface list \<Rightarrow> Interface list" where
  "link_interfaces_to_ip_addresses ips host rows =
     (let ip_addresses = ip_get_for_host ips host;
          interfaces = if_get_for_host rows host;
          planned = map_of (rev (plan_interface_ip_links interfaces ip_addresses))
      in fold (\<lambda>i rows. case planned (if_id i) of
             None \<Rightarrow> rows
           | Some a \<Rightarrow> (case if_update rows (map_base (\<lambda>b. b\<lparr>if_ip_address_id := Some a\<rparr>) i) of
                Ok (rows', _) \<Rightarrow> rows' | Err _ \<Rightarrow> rows)) interfaces rows)"

section \<open>Validation of requests\<close>

datatype relationship_error =
    AddressMissing | AddressOnOtherHost | AddressMacDiffers | NeighborIsSelf | NeighborMissing
  | NeighborOnSameHost | NeighborInOtherNetwork | HostInOtherNetwork | NeighborIsOwnHost
  | NeighborHostMissing | NeighborHostInOtherNetwork

definition validate_address_link ::
    "(uuid \<rightharpoonup> IPAddress) \<Rightarrow> Interface \<Rightarrow> (relationship_error, unit) result" where
  "validate_address_link addresses i =
     (case if_ip_address_id (if_base i) of
        None \<Rightarrow> Ok ()
      | Some a \<Rightarrow>
          (case addresses a of
             None \<Rightarrow> Err AddressMissing
           | Some ip \<Rightarrow>
               if ip_host_id (ip_base ip) \<noteq> if_host_id (if_base i) then Err AddressOnOtherHost
               else case (if_mac_address (if_base i), ip_mac_address (ip_base ip)) of
                 (Some m, Some m') \<Rightarrow> if m \<noteq> m' then Err AddressMacDiffers else Ok ()
               | _ \<Rightarrow> Ok ()))"

definition validate_neighbor_port :: "Interface list \<Rightarrow> Interface \<Rightarrow> (relationship_error, unit) result" where
  "validate_neighbor_port rows i =
     (case neighbor (if_base i) of
        Some (NeighborInterface n) \<Rightarrow>
          if n = if_id i then Err NeighborIsSelf
          else (case get_by_id if_id rows n of
             None \<Rightarrow> Err NeighborMissing
           | Some r \<Rightarrow>
               if if_host_id (if_base r) = if_host_id (if_base i) then Err NeighborOnSameHost
               else if if_network_id (if_base r) \<noteq> if_network_id (if_base i) then Err NeighborInOtherNetwork
               else Ok ())
      | _ \<Rightarrow> Ok ())"

definition validate_relationships ::
    "(uuid \<rightharpoonup> IPAddress) \<Rightarrow> Interface list \<Rightarrow> Interface \<Rightarrow> (relationship_error, unit) result" where
  "validate_relationships addresses rows i =
     (case validate_address_link addresses i of Err e \<Rightarrow> Err e | Ok _ \<Rightarrow> validate_neighbor_port rows i)"

text \<open>\<open>host_network\<close> is the network of a stored host.\<close>

definition validate_if_entry_network_consistency ::
    "(uuid \<rightharpoonup> uuid) \<Rightarrow> Interface \<Rightarrow> (relationship_error, unit) result" where
  "validate_if_entry_network_consistency host_network i =
     (case host_network (if_host_id (if_base i)) of
        Some n \<Rightarrow> if n \<noteq> if_network_id (if_base i) then Err HostInOtherNetwork else Ok ()
      | None \<Rightarrow> Ok ())"

definition validate_neighbor_host ::
    "(uuid \<rightharpoonup> uuid) \<Rightarrow> Interface \<Rightarrow> (relationship_error, unit) result" where
  "validate_neighbor_host host_network i =
     (case neighbor (if_base i) of
        Some (NeighborHost h) \<Rightarrow>
          if h = if_host_id (if_base i) then Err NeighborIsOwnHost
          else (case host_network h of
             None \<Rightarrow> Err NeighborHostMissing
           | Some n \<Rightarrow> if n \<noteq> if_network_id (if_base i) then Err NeighborHostInOtherNetwork else Ok ())
      | _ \<Rightarrow> Ok ())"

definition validate_if_entry ::
    "(uuid \<rightharpoonup> uuid) \<Rightarrow> (uuid \<rightharpoonup> IPAddress) \<Rightarrow> Interface list \<Rightarrow> Interface \<Rightarrow> (relationship_error, unit) result" where
  "validate_if_entry host_network addresses rows i =
     (case validate_if_entry_network_consistency host_network i of
        Err e \<Rightarrow> Err e
      | Ok _ \<Rightarrow>
          (case validate_relationships addresses rows i of
             Err e \<Rightarrow> Err e | Ok _ \<Rightarrow> validate_neighbor_host host_network i))"

end
