(* ===== verification/Neighbor_Resolution.thy ===== *)
theory Neighbor_Resolution
  imports Interface_Ingest
begin

text \<open>
  Resolving the neighbours a device advertises to stored hosts and ports
  (\<^verbatim>\<open>backend/src/server/snmp/resolution\<close>): the lookups of the resolver, its production
  implementation over the tables of hosts, interfaces and addresses, and the ladders that take a
  chassis id to a host and a port id to an interface of that host.

  The text forms of MAC and IP addresses are those of their crates and are arguments, collected in
  \<open>addr_codec\<close>. A lookup that fails in the database finds nothing; the tables here never fail.
\<close>

section \<open>Verdicts\<close>

datatype IdentityResolution = Resolved uuid | NoStrategy | NotFoundHere | Ambiguous

definition found :: "uuid option \<Rightarrow> IdentityResolution" where
  "found r = (case r of Some i \<Rightarrow> Resolved i | None \<Rightarrow> NotFoundHere)"

record LldpResolver =
  find_host_by_mac :: "string \<Rightarrow> uuid \<Rightarrow> uuid option"
  find_host_by_ip :: "IpAddr \<Rightarrow> uuid \<Rightarrow> uuid option"
  find_host_by_if_name :: "string \<Rightarrow> uuid \<Rightarrow> uuid option"
  find_host_by_chassis_id :: "string \<Rightarrow> uuid \<Rightarrow> uuid option"
  find_host_by_sys_name :: "string \<Rightarrow> uuid \<Rightarrow> uuid option"
  find_if_entry_by_mac :: "string \<Rightarrow> uuid \<Rightarrow> IdentityResolution"
  find_if_entry_by_name :: "string \<Rightarrow> uuid \<Rightarrow> uuid option"
  find_if_entry_by_if_index :: "int \<Rightarrow> uuid \<Rightarrow> uuid option"
  find_if_entry_by_ip :: "IpAddr \<Rightarrow> uuid \<Rightarrow> uuid option"

record addr_codec =
  read_mac :: "string \<Rightarrow> MacAddress option"
  show_mac :: "MacAddress \<Rightarrow> string"
  show_ip :: "IpAddr \<Rightarrow> string"

section \<open>The ladders\<close>

text \<open>\<open>str::parse::<i32>\<close>: an optional sign and decimal digits, inside the range.\<close>

fun decimal_value :: "int \<Rightarrow> string \<Rightarrow> int option" where
  "decimal_value acc [] = Some acc"
| "decimal_value acc (c # cs) =
     (if is_ascii_digit c then decimal_value (10 * acc + (of_char c - 48)) cs else None)"

definition parse_i32 :: "string \<Rightarrow> int option" where
  "parse_i32 s =
     (let (neg, ds) = (case s of
          [] \<Rightarrow> (False, [])
        | c # cs \<Rightarrow> if c = CHR ''-'' then (True, cs) else if c = CHR ''+'' then (False, cs) else (False, s))
      in if ds = [] then None
         else Option.bind (decimal_value 0 ds) (\<lambda>n.
           let v = (if neg then - n else n) in if i32_range v then Some v else None))"

definition by_subtype :: "LldpResolver \<Rightarrow> uuid \<Rightarrow> LldpChassisId \<Rightarrow> uuid option" where
  "by_subtype R network c =
     (case c of
        ChassisMacAddress mac \<Rightarrow> find_host_by_mac R mac network
      | ChassisNetworkAddress ip \<Rightarrow> find_host_by_ip R ip network
      | ChassisInterfaceName name \<Rightarrow> find_host_by_if_name R name network
      | ChassisComponent i \<Rightarrow> find_host_by_chassis_id R i network
      | ChassisLocallyAssigned i \<Rightarrow> find_host_by_chassis_id R i network
      | ChassisInterfaceAlias _ \<Rightarrow> None
      | ChassisPortComponent _ \<Rightarrow> None)"

fun has_subtype_strategy :: "LldpChassisId \<Rightarrow> bool" where
  "has_subtype_strategy (ChassisInterfaceAlias _) = False"
| "has_subtype_strategy (ChassisPortComponent _) = False"
| "has_subtype_strategy _ = True"

definition resolve_host_id ::
    "addr_codec \<Rightarrow> LldpResolver \<Rightarrow> uuid \<Rightarrow> string option \<Rightarrow> LldpChassisId \<Rightarrow> IdentityResolution" where
  "resolve_host_id C R network sysname c =
     (case by_subtype R network c of
        Some h \<Rightarrow> Resolved h
      | None \<Rightarrow>
          (let identifier' = chassis_identifier (show_ip C) c;
               by_chassis = (if identifier' \<noteq> [] then find_host_by_chassis_id R identifier' network else None);
               name = (case map_option trim sysname of Some s \<Rightarrow> if s \<noteq> [] then Some s else None | None \<Rightarrow> None);
               strategy_ran = (has_subtype_strategy c \<or> identifier' \<noteq> [] \<or> name \<noteq> None)
           in case by_chassis of
                Some h \<Rightarrow> Resolved h
              | None \<Rightarrow>
                  (case Option.bind name (\<lambda>n. find_host_by_sys_name R n network) of
                     Some h \<Rightarrow> Resolved h
                   | None \<Rightarrow> if strategy_ran then NotFoundHere else NoStrategy)))"

definition resolve_device_local_port :: "LldpResolver \<Rightarrow> string \<Rightarrow> uuid \<Rightarrow> IdentityResolution" where
  "resolve_device_local_port R t host =
     (let s = trim t in
      if s = [] then NoStrategy
      else case find_if_entry_by_name R s host of
        Some i \<Rightarrow> Resolved i
      | None \<Rightarrow>
          (case parse_i32 s of
             Some n \<Rightarrow> found (find_if_entry_by_if_index R n host)
           | None \<Rightarrow> NotFoundHere))"

definition resolve_if_entry_id :: "LldpResolver \<Rightarrow> uuid \<Rightarrow> LldpPortId \<Rightarrow> IdentityResolution" where
  "resolve_if_entry_id R host p =
     (case p of
        PortMacAddress mac \<Rightarrow> find_if_entry_by_mac R mac host
      | PortNetworkAddress ip \<Rightarrow> found (find_if_entry_by_ip R ip host)
      | PortInterfaceAlias i \<Rightarrow> resolve_device_local_port R i host
      | PortInterfaceName i \<Rightarrow> resolve_device_local_port R i host
      | PortComponent i \<Rightarrow> resolve_device_local_port R i host
      | AgentCircuitId i \<Rightarrow> resolve_device_local_port R i host
      | PortLocallyAssigned i \<Rightarrow> resolve_device_local_port R i host)"

section \<open>The contract\<close>

text \<open>
  A resolver over a store: what a lookup names is in the network, or on the host, it was asked
  about. The ladders inherit it.
\<close>

locale resolver_contract =
  fixes resolver :: "'st \<Rightarrow> LldpResolver"
    and wf :: "'st \<Rightarrow> bool"
    and in_network :: "'st \<Rightarrow> uuid \<Rightarrow> uuid \<Rightarrow> bool"
    and on_host :: "'st \<Rightarrow> uuid \<Rightarrow> uuid \<Rightarrow> bool"
  assumes host_by_mac: "wf s \<Longrightarrow> find_host_by_mac (resolver s) m n = Some h \<Longrightarrow> in_network s n h"
    and host_by_ip: "wf s \<Longrightarrow> find_host_by_ip (resolver s) a n = Some h \<Longrightarrow> in_network s n h"
    and host_by_if_name: "wf s \<Longrightarrow> find_host_by_if_name (resolver s) t n = Some h \<Longrightarrow> in_network s n h"
    and host_by_chassis_id: "wf s \<Longrightarrow> find_host_by_chassis_id (resolver s) t n = Some h \<Longrightarrow> in_network s n h"
    and host_by_sys_name: "wf s \<Longrightarrow> find_host_by_sys_name (resolver s) t n = Some h \<Longrightarrow> in_network s n h"
    and port_by_mac: "wf s \<Longrightarrow> find_if_entry_by_mac (resolver s) m h = Resolved i \<Longrightarrow> on_host s h i"
    and port_by_name: "wf s \<Longrightarrow> find_if_entry_by_name (resolver s) t h = Some i \<Longrightarrow> on_host s h i"
    and port_by_if_index: "wf s \<Longrightarrow> find_if_entry_by_if_index (resolver s) k h = Some i \<Longrightarrow> on_host s h i"
    and port_by_ip: "wf s \<Longrightarrow> find_if_entry_by_ip (resolver s) a h = Some i \<Longrightarrow> on_host s h i"
begin

lemma resolved_host_in_network:
  assumes "wf s" "resolve_host_id C (resolver s) n sysname c = Resolved h"
  shows "in_network s n h"
proof -
  have "by_subtype (resolver s) n c = Some h \<Longrightarrow> ?thesis"
    using assms(1) host_by_mac host_by_ip host_by_if_name host_by_chassis_id
    by (cases c) (auto simp: by_subtype_def)
  then show ?thesis
    using assms host_by_chassis_id host_by_sys_name
    by (auto simp: resolve_host_id_def Let_def bind_eq_Some_conv split: option.splits if_splits)
qed

lemma local_port_on_host:
  "wf s \<Longrightarrow> resolve_device_local_port (resolver s) t h = Resolved i \<Longrightarrow> on_host s h i"
  using port_by_name port_by_if_index
  by (auto simp: resolve_device_local_port_def found_def Let_def split: option.splits if_splits)

lemma resolved_port_on_host:
  assumes "wf s" "resolve_if_entry_id (resolver s) h p = Resolved i"
  shows "on_host s h i"
  using assms port_by_mac port_by_ip local_port_on_host
  by (cases p) (auto simp: resolve_if_entry_id_def found_def split: option.splits)

end

section \<open>The production resolver\<close>

record inventory =
  inv_hosts :: "Host list"
  inv_interfaces :: "Interface list"
  inv_ips :: "IPAddress list"

definition only_match :: "'a list \<Rightarrow> 'a option" where
  "only_match xs = (case xs of [x] \<Rightarrow> Some x | _ \<Rightarrow> None)"

text \<open>\<open>get_one\<close>: some row that satisfies the filter; the query has no order.\<close>

definition live_interface :: "inventory \<Rightarrow> (InterfaceBase \<Rightarrow> bool) \<Rightarrow> Interface option" where
  "live_interface db P = find (\<lambda>i. if_live i \<and> P (if_base i)) (inv_interfaces db)"

definition live_ip :: "inventory \<Rightarrow> (IPAddressBase \<Rightarrow> bool) \<Rightarrow> IPAddress option" where
  "live_ip db P = find (\<lambda>a. ip_valid_to a = None \<and> P (ip_base a)) (inv_ips db)"

definition live_hosts :: "inventory \<Rightarrow> (HostBase \<Rightarrow> bool) \<Rightarrow> Host list" where
  "live_hosts db P = filter (\<lambda>h. host_valid_to h = None \<and> P (host_base h)) (inv_hosts db)"

definition impl_host_by_mac :: "addr_codec \<Rightarrow> inventory \<Rightarrow> string \<Rightarrow> uuid \<Rightarrow> uuid option" where
  "impl_host_by_mac C db mac network =
     Option.bind (read_mac C mac) (\<lambda>m.
       case live_ip db (\<lambda>b. ip_network_id b = network \<and> ip_mac_address b = Some m) of
         Some a \<Rightarrow> Some (ip_host_id (ip_base a))
       | None \<Rightarrow> only_match (remdups (map (\<lambda>i. if_host_id (if_base i))
           (filter (\<lambda>i. if_live i \<and> if_network_id (if_base i) = network
              \<and> if_mac_address (if_base i) = Some m) (inv_interfaces db)))))"

definition impl_host_by_ip :: "inventory \<Rightarrow> IpAddr \<Rightarrow> uuid \<Rightarrow> uuid option" where
  "impl_host_by_ip db ip network =
     map_option (\<lambda>a. ip_host_id (ip_base a))
       (live_ip db (\<lambda>b. ip_network_id b = network \<and> ip_address b = ip))"

definition impl_host_by_if_name :: "inventory \<Rightarrow> string \<Rightarrow> uuid \<Rightarrow> uuid option" where
  "impl_host_by_if_name db name network =
     map_option (\<lambda>i. if_host_id (if_base i))
       (live_interface db (\<lambda>b. if_network_id b = network \<and> if_descr b = name))"

definition impl_host_by_chassis_id :: "inventory \<Rightarrow> string \<Rightarrow> uuid \<Rightarrow> uuid option" where
  "impl_host_by_chassis_id db i network =
     map_option host_id (only_match (live_hosts db (\<lambda>b. host_network_id b = network \<and> chassis_id b = Some i)))"

definition impl_host_by_sys_name :: "inventory \<Rightarrow> string \<Rightarrow> uuid \<Rightarrow> uuid option" where
  "impl_host_by_sys_name db name network =
     map_option host_id (only_match (live_hosts db (\<lambda>b. host_network_id b = network \<and> sys_name b = Some name)))"

definition impl_port_by_mac :: "addr_codec \<Rightarrow> inventory \<Rightarrow> string \<Rightarrow> uuid \<Rightarrow> IdentityResolution" where
  "impl_port_by_mac C db mac host =
     (case read_mac C mac of
        None \<Rightarrow> NotFoundHere
      | Some m \<Rightarrow>
          (case filter (\<lambda>i. if_live i \<and> if_host_id (if_base i) = host \<and> if_mac_address (if_base i) = Some m
                  \<and> if_type (if_base i) \<notin> set EXCLUDED_IF_TYPES) (inv_interfaces db) of
             [] \<Rightarrow> NotFoundHere | [i] \<Rightarrow> Resolved (if_id i) | _ \<Rightarrow> Ambiguous))"

text \<open>\<open>rsplit_once('/')\<close>, the part after the last slash.\<close>

definition after_last_slash :: "string \<Rightarrow> string option" where
  "after_last_slash s =
     (if CHR ''/'' \<in> set s then Some (rev (takeWhile (\<lambda>c. c \<noteq> CHR ''/'') (rev s))) else None)"

definition port_named :: "inventory \<Rightarrow> uuid \<Rightarrow> string \<Rightarrow> uuid option" where
  "port_named db host name =
     (case live_interface db (\<lambda>b. if_host_id b = host \<and> if_descr b = name) of
        Some i \<Rightarrow> Some (if_id i)
      | None \<Rightarrow>
          (case live_interface db (\<lambda>b. if_host_id b = host \<and> if_name b = Some name) of
             Some i \<Rightarrow> Some (if_id i)
           | None \<Rightarrow> map_option if_id
               (live_interface db (\<lambda>b. if_host_id b = host \<and> if_alias b = Some name))))"

definition impl_port_by_name :: "inventory \<Rightarrow> string \<Rightarrow> uuid \<Rightarrow> uuid option" where
  "impl_port_by_name db name host =
     (case port_named db host name of
        Some i \<Rightarrow> Some i
      | None \<Rightarrow> Option.bind (after_last_slash name)
          (\<lambda>suffix. if suffix = [] then None else port_named db host suffix))"

definition impl_port_by_if_index :: "inventory \<Rightarrow> int \<Rightarrow> uuid \<Rightarrow> uuid option" where
  "impl_port_by_if_index db k host =
     map_option if_id (live_interface db (\<lambda>b. if_host_id b = host \<and> if_index b = k))"

definition impl_port_by_ip :: "inventory \<Rightarrow> IpAddr \<Rightarrow> uuid \<Rightarrow> uuid option" where
  "impl_port_by_ip db ip host =
     Option.bind (live_ip db (\<lambda>b. ip_host_id b = host \<and> ip_address b = ip)) (\<lambda>a.
       map_option if_id (live_interface db (\<lambda>b. if_ip_address_id b = Some (ip_id a))))"

definition lldp_resolver :: "addr_codec \<Rightarrow> inventory \<Rightarrow> LldpResolver" where
  "lldp_resolver C db =
     \<lparr>find_host_by_mac = impl_host_by_mac C db, find_host_by_ip = impl_host_by_ip db,
      find_host_by_if_name = impl_host_by_if_name db,
      find_host_by_chassis_id = impl_host_by_chassis_id db,
      find_host_by_sys_name = impl_host_by_sys_name db,
      find_if_entry_by_mac = impl_port_by_mac C db, find_if_entry_by_name = impl_port_by_name db,
      find_if_entry_by_if_index = impl_port_by_if_index db, find_if_entry_by_ip = impl_port_by_ip db\<rparr>"

section \<open>The production resolver meets the contract\<close>

definition host_in_network :: "inventory \<Rightarrow> uuid \<Rightarrow> uuid \<Rightarrow> bool" where
  "host_in_network db network h \<longleftrightarrow>
     (\<exists>x \<in> set (inv_hosts db). host_id x = h \<and> host_valid_to x = None \<and> host_network_id (host_base x) = network)"

definition port_on_host :: "inventory \<Rightarrow> uuid \<Rightarrow> uuid \<Rightarrow> bool" where
  "port_on_host db h i \<longleftrightarrow>
     (\<exists>x \<in> set (inv_interfaces db). if_id x = i \<and> if_live x \<and> if_host_id (if_base x) = h)"

text \<open>
  The references of live rows: interfaces and addresses belong to a live host of their network, and
  an interface is linked to an address of its own host.
\<close>

definition wf_inventory :: "inventory \<Rightarrow> bool" where
  "wf_inventory db \<longleftrightarrow>
     (\<forall>i \<in> set (inv_interfaces db). if_live i \<longrightarrow>
        host_in_network db (if_network_id (if_base i)) (if_host_id (if_base i)))
   \<and> (\<forall>a \<in> set (inv_ips db). ip_valid_to a = None \<longrightarrow>
        host_in_network db (ip_network_id (ip_base a)) (ip_host_id (ip_base a)))
   \<and> (\<forall>i \<in> set (inv_interfaces db). \<forall>a \<in> set (inv_ips db).
        if_live i \<and> ip_valid_to a = None \<and> if_ip_address_id (if_base i) = Some (ip_id a) \<longrightarrow>
        ip_host_id (ip_base a) = if_host_id (if_base i))"

lemma only_match_Some: "only_match xs = Some x \<longleftrightarrow> xs = [x]"
  by (auto simp: only_match_def split: list.splits)

lemma live_interface_SomeD:
  "live_interface db P = Some i \<Longrightarrow> i \<in> set (inv_interfaces db) \<and> if_live i \<and> P (if_base i)"
  by (auto simp: live_interface_def dest!: find_SomeD)

lemma live_ip_SomeD:
  "live_ip db P = Some a \<Longrightarrow> a \<in> set (inv_ips db) \<and> ip_valid_to a = None \<and> P (ip_base a)"
  by (auto simp: live_ip_def dest!: find_SomeD)

lemma only_live_host:
  assumes "map_option host_id (only_match (live_hosts db (\<lambda>b. host_network_id b = n \<and> P b))) = Some h"
  shows "host_in_network db n h"
proof -
  obtain x where x: "live_hosts db (\<lambda>b. host_network_id b = n \<and> P b) = [x]" "host_id x = h"
    using assms by (auto simp: only_match_Some)
  have "x \<in> set (live_hosts db (\<lambda>b. host_network_id b = n \<and> P b))" unfolding x(1) by simp
  then show ?thesis using x(2) by (auto simp: live_hosts_def host_in_network_def)
qed

lemma port_named_on_host: "port_named db h t = Some i \<Longrightarrow> port_on_host db h i"
  by (auto simp: port_named_def port_on_host_def split: option.splits dest!: live_interface_SomeD)

lemma only_match_remdups: "only_match (remdups xs) = Some x \<Longrightarrow> x \<in> set xs"
  using set_remdups [of xs] by (auto simp: only_match_Some)

lemma impl_host_by_mac_in_network:
  assumes wf: "wf_inventory db" and found: "impl_host_by_mac C db mac n = Some h"
  shows "host_in_network db n h"
proof -
  obtain m where m: "read_mac C mac = Some m" using found by (auto simp: impl_host_by_mac_def bind_eq_Some_conv)
  show ?thesis
  proof (cases "live_ip db (\<lambda>b. ip_network_id b = n \<and> ip_mac_address b = Some m)")
    case None
    then have "h \<in> set (map (\<lambda>i. if_host_id (if_base i)) (filter (\<lambda>i. if_live i
        \<and> if_network_id (if_base i) = n \<and> if_mac_address (if_base i) = Some m) (inv_interfaces db)))"
      using found m by (intro only_match_remdups) (simp add: impl_host_by_mac_def)
    then show ?thesis using wf by (auto simp: wf_inventory_def)
  next
    case (Some a)
    then show ?thesis using found m wf live_ip_SomeD [OF Some] by (auto simp: impl_host_by_mac_def wf_inventory_def)
  qed
qed

interpretation stored: resolver_contract "lldp_resolver C" wf_inventory host_in_network port_on_host for C
proof
  fix db :: inventory and m t :: string and n h i :: uuid and a :: IpAddr and k :: int
  assume wf: "wf_inventory db"
  show "find_host_by_mac (lldp_resolver C db) m n = Some h \<Longrightarrow> host_in_network db n h"
    using impl_host_by_mac_in_network [OF wf] by (simp add: lldp_resolver_def)
  show "find_host_by_ip (lldp_resolver C db) a n = Some h \<Longrightarrow> host_in_network db n h"
    using wf by (auto simp: lldp_resolver_def impl_host_by_ip_def wf_inventory_def dest!: live_ip_SomeD)
  show "find_host_by_if_name (lldp_resolver C db) t n = Some h \<Longrightarrow> host_in_network db n h"
    using wf by (auto simp: lldp_resolver_def impl_host_by_if_name_def wf_inventory_def dest!: live_interface_SomeD)
  show "find_host_by_chassis_id (lldp_resolver C db) t n = Some h \<Longrightarrow> host_in_network db n h"
    by (auto simp: lldp_resolver_def impl_host_by_chassis_id_def intro: only_live_host)
  show "find_host_by_sys_name (lldp_resolver C db) t n = Some h \<Longrightarrow> host_in_network db n h"
    by (auto simp: lldp_resolver_def impl_host_by_sys_name_def intro: only_live_host)
  show "find_if_entry_by_name (lldp_resolver C db) t h = Some i \<Longrightarrow> port_on_host db h i"
    by (auto simp: lldp_resolver_def impl_port_by_name_def bind_eq_Some_conv
        split: option.splits if_splits intro: port_named_on_host)
  show "find_if_entry_by_if_index (lldp_resolver C db) k h = Some i \<Longrightarrow> port_on_host db h i"
    by (auto simp: lldp_resolver_def impl_port_by_if_index_def port_on_host_def dest!: live_interface_SomeD)
  show "find_if_entry_by_ip (lldp_resolver C db) a h = Some i \<Longrightarrow> port_on_host db h i"
    using wf by (fastforce simp: lldp_resolver_def impl_port_by_ip_def port_on_host_def bind_eq_Some_conv
        wf_inventory_def dest!: live_interface_SomeD live_ip_SomeD)
  show "port_on_host db h i" if r: "find_if_entry_by_mac (lldp_resolver C db) m h = Resolved i"
  proof -
    obtain mac x where "filter (\<lambda>i. if_live i \<and> if_host_id (if_base i) = h \<and> if_mac_address (if_base i) = Some mac
        \<and> if_type (if_base i) \<notin> set EXCLUDED_IF_TYPES) (inv_interfaces db) = [x]" "if_id x = i"
      using r by (auto simp: lldp_resolver_def impl_port_by_mac_def split: option.splits list.splits)
    then show ?thesis unfolding port_on_host_def by (metis (mono_tags, lifting) filter_eq_ConsD in_set_conv_decomp)
  qed
qed

end
