(* ===== verification/Interface_Batch.thy ===== *)
theory Interface_Batch
  imports Interface_Ingest
begin

text \<open>
  What the batch that stores a device's interfaces guarantees: reported interfaces never collapse
  onto one row, the constraints of the table hold, rows of other hosts are untouched, and a prune
  leaves exactly the rows of the batch.
\<close>

section \<open>The constraints of the table\<close>

definition table_inv :: "Interface list \<Rightarrow> bool" where
  "table_inv rows \<longleftrightarrow> wf_table if_id rows \<and> (\<forall>x \<in> set rows. \<not> name_taken rows x)"

lemma table_inv_unique: "table_inv rows \<Longrightarrow> x \<in> set rows \<Longrightarrow> y \<in> set rows \<Longrightarrow> if_id x = if_id y \<Longrightarrow> x = y"
  by (auto simp: table_inv_def wf_table_def distinct_map inj_on_def)

lemma same_name_sym: "same_name x y \<longleftrightarrow> same_name y x"
  unfolding same_name_def by metis

lemma same_name_irrefl [simp]: "\<not> same_name x x"
  by (simp add: same_name_def)

lemma table_inv_name:
  assumes "table_inv rows" "x \<in> set rows" "y \<in> set rows" "if_live x" "if_live y"
    "if_host_id (if_base x) = if_host_id (if_base y)" "if_name (if_base x) = Some n" "if_name (if_base y) = Some n"
  shows "x = y"
proof -
  have "\<not> same_name x y" using assms(1-3) by (auto simp: table_inv_def name_taken_def)
  then have "if_id x = if_id y" using assms(4-8) by (simp add: same_name_def)
  then show ?thesis by (rule table_inv_unique [OF assms(1-3)])
qed

text \<open>
  One row of the table is written: it is new or takes the place of the row with its id, and every
  other row stays.
\<close>

definition row_written :: "Interface list \<Rightarrow> Interface \<Rightarrow> Interface list \<Rightarrow> bool" where
  "row_written rows c rows' \<longleftrightarrow>
     table_inv rows' \<and> c \<in> set rows'
     \<and> (\<forall>x. if_id x \<noteq> if_id c \<longrightarrow> (x \<in> set rows' \<longleftrightarrow> x \<in> set rows))"

lemma row_written_ids: "row_written rows c rows' \<Longrightarrow> if_id ` set rows \<subseteq> if_id ` set rows'"
  unfolding row_written_def by (fastforce simp: image_iff)

lemma table_inv_add:
  assumes "table_inv rows" "\<not> name_taken rows c" "wf_table if_id rows'"
    "\<And>y. y \<in> set rows' \<Longrightarrow> y = c \<or> y \<in> set rows"
  shows "table_inv rows'"
proof -
  have "\<not> same_name x y" if "x \<in> set rows'" "y \<in> set rows'" for x y
  proof -
    have "x = c \<or> x \<in> set rows" "y = c \<or> y \<in> set rows" using assms(4) that by auto
    then show ?thesis
      using assms(1,2) same_name_sym [of x y] by (auto simp: table_inv_def name_taken_def)
  qed
  then show ?thesis using assms(3) by (auto simp: table_inv_def name_taken_def)
qed

lemma if_update_writes:
  assumes inv: "table_inv rows" and upd: "if_update rows i = Ok (rows', c)"
  shows "c = i" "row_written rows i rows'"
proof -
  have ok: "\<not> name_taken rows i" "rows' = update_row if_id rows i" "c = i"
      "get_by_id if_id rows (if_id i) \<noteq> None"
    using upd by (auto simp: if_update_def split: if_splits)
  then show "c = i" by simp
  have mem: "y \<in> set rows' \<longleftrightarrow> y = i \<or> y \<in> set rows \<and> if_id y \<noteq> if_id i" for y
    using ok(2,4) by (auto simp: update_row_def get_by_id_None)
  have "wf_table if_id rows'"
    using inv ok(2) by (simp add: table_inv_def wf_table_def map_key_update_row)
  then have "table_inv rows'" using table_inv_add [OF inv ok(1)] mem by blast
  then show "row_written rows i rows'" using mem by (auto simp: row_written_def)
qed

lemma if_create_writes:
  assumes inv: "table_inv rows" and cre: "if_create fresh now rows i = Ok (rows', c)"
  shows "row_written rows c rows'" "if_id c \<notin> if_id ` set rows" "if_base c = if_base i"
    "if_live i \<Longrightarrow> if_live c"
proof -
  have ok: "\<not> name_taken rows c" "create_row if_id rows c = Ok rows'"
      "c = (if if_id i = nil_uuid then new_interface fresh now (if_base i) else i)"
    using cre by (auto simp: if_create_def Let_def split: if_splits sum.splits)
  then show "if_base c = if_base i" "if_live i \<Longrightarrow> if_live c" by (auto simp: new_interface_def)
  have new: "rows' = rows @ [c]" "if_id c \<notin> if_id ` set rows"
    using ok(2) by (auto simp: create_row_def split: if_splits)
  then show "if_id c \<notin> if_id ` set rows" by simp
  then have "table_inv rows'"
    using inv new(1) by (intro table_inv_add [OF inv ok(1)]) (auto simp: table_inv_def wf_table_def)
  then show "row_written rows c rows'" using new by (auto simp: row_written_def)
qed

section \<open>One interface\<close>

lemma set_if_get_for_host [simp]:
  "set (if_get_for_host rows host) = {x \<in> set rows. if_host_id (if_base x) = host \<and> if_live x}"
  by (simp add: if_get_for_host_def)

lemma match_available:
  assumes "match_existing_interface entry existing claimed = Some i"
  shows "i \<notin> set claimed" "i \<in> if_id ` set existing"
proof -
  have filter_one: "filter P xs = [x] \<Longrightarrow> x \<in> set xs \<and> P x" for P and xs :: "Interface list" and x
    by (metis filter_eq_ConsD in_set_conv_decomp)
  show "i \<notin> set claimed" "i \<in> if_id ` set existing"
    using assms
    by (auto simp: match_existing_interface_def Let_def find_Some_iff
        split: option.splits list.splits dest!: filter_one nth_mem)
qed

lemma find_matching_existing_Some:
  assumes "find_matching_existing rows entry claimed = Some existing"
  shows "existing \<in> set rows" "if_live existing" "if_host_id (if_base existing) = if_host_id (if_base entry)"
    "if_id existing \<notin> set claimed"
proof -
  let ?rows = "if_get_for_host rows (if_host_id (if_base entry))"
  obtain i where i: "match_existing_interface entry ?rows claimed = Some i"
      and "find (\<lambda>x. if_id x = i) ?rows = Some existing"
    using assms by (auto simp: find_matching_existing_def Let_def bind_eq_Some_conv)
  then have e: "existing \<in> set ?rows" "if_id existing = i" by (auto dest: find_SomeD simp del: set_if_get_for_host)
  then show "existing \<in> set rows" "if_live existing" "if_host_id (if_base existing) = if_host_id (if_base entry)"
    by auto
  show "if_id existing \<notin> set claimed" using match_available(1) [OF i] e(2) by simp
qed

lemma rescanned_simps [simp]:
  "if_id (rescanned existing collected entry) = if_id existing"
  "if_valid_to (rescanned existing collected entry) = if_valid_to entry"
  "if_host_id (if_base (rescanned existing collected entry)) = if_host_id (if_base entry)"
  "if_name (if_base (rescanned existing collected entry)) =
     (if if_name (if_base entry) = None then if_name (if_base existing) else if_name (if_base entry))"
  by (auto simp: rescanned_def preserve_uncollected_data_def preserve_immutable_fields_def Let_def)

lemma normalize_simps [simp]:
  "if_id (normalize_blank_identity i) = if_id i"
  "if_valid_to (normalize_blank_identity i) = if_valid_to i"
  "if_host_id (if_base (normalize_blank_identity i)) = if_host_id (if_base i)"
  by (simp_all add: normalize_blank_identity_def Let_def)

lemma normalize_other:
  "if_valid_from (normalize_blank_identity i) = if_valid_from i"
  "if_first_discovery_id (normalize_blank_identity i) = if_first_discovery_id i"
  "neighbor (if_base (normalize_blank_identity i)) = neighbor (if_base i)"
  by (simp_all add: normalize_blank_identity_def Let_def)

lemma originate_simps [simp]:
  "if_base (originate_scan_timestamps t i) = if_base i"
  "if_valid_to (originate_scan_timestamps t i) = if_valid_to i"
  by (simp_all add: originate_scan_timestamps_def)

text \<open>The row of one reported interface: it belongs to the host, and no earlier interface claimed it.\<close>

lemma create_or_update_writes:
  assumes inv: "table_inv rows" and sub: "set claimed \<subseteq> if_id ` set rows"
    and ok: "create_or_update_from_discovery fresh now rows entry claimed collected = Ok (rows', c)"
  shows "row_written rows c rows'" "if_id c \<notin> set claimed"
    "if_host_id (if_base c) = if_host_id (if_base entry)" "if_live entry \<Longrightarrow> if_live c"
    "\<And>x. x \<in> set rows \<Longrightarrow> if_id x = if_id c \<Longrightarrow> if_host_id (if_base x) = if_host_id (if_base entry)"
proof -
  let ?e = "normalize_blank_identity entry"
  have "row_written rows c rows' \<and> if_id c \<notin> set claimed
    \<and> if_host_id (if_base c) = if_host_id (if_base entry) \<and> (if_live entry \<longrightarrow> if_live c)
    \<and> (\<forall>x \<in> set rows. if_id x = if_id c \<longrightarrow> if_host_id (if_base x) = if_host_id (if_base entry))"
  proof (cases "find_matching_existing rows ?e claimed")
    case None
    then have cre: "if_create fresh now rows (originate_scan_timestamps (if_last_seen_at ?e) ?e) = Ok (rows', c)"
      using ok by (simp add: create_or_update_from_discovery_def Let_def)
    show ?thesis using if_create_writes [OF inv cre] sub by (auto intro: image_eqI dest: sym)
  next
    case (Some existing)
    then have upd: "if_update rows (rescanned existing collected ?e) = Ok (rows', c)"
      using ok by (simp add: create_or_update_from_discovery_def Let_def)
    show ?thesis
      using if_update_writes [OF inv upd] find_matching_existing_Some [OF Some] table_inv_unique [OF inv]
      by auto
  qed
  then show "row_written rows c rows'" "if_id c \<notin> set claimed"
    "if_host_id (if_base c) = if_host_id (if_base entry)" "if_live entry \<Longrightarrow> if_live c"
    "\<And>x. x \<in> set rows \<Longrightarrow> if_id x = if_id c \<Longrightarrow> if_host_id (if_base x) = if_host_id (if_base entry)"
    by auto
qed

section \<open>The batch\<close>

text \<open>
  Relative to the table \<open>rows\<close> the batch started from: every row of the batch is stored as it was
  returned, no two are the same row, and a row that is not one of them is as it was.
\<close>

definition batch_inv :: "uuid \<Rightarrow> Interface list \<Rightarrow> ingest_state \<Rightarrow> bool" where
  "batch_inv host rows s \<longleftrightarrow>
     table_inv (ing_rows s) \<and> distinct (ing_claimed s) \<and> set (ing_created s) \<subseteq> set (ing_rows s)
     \<and> (\<forall>c \<in> set (ing_created s). if_host_id (if_base c) = host)
     \<and> (\<forall>x. if_id x \<notin> set (ing_claimed s) \<longrightarrow> (x \<in> set (ing_rows s) \<longleftrightarrow> x \<in> set rows))
     \<and> (\<forall>x \<in> set rows. if_id x \<in> set (ing_claimed s) \<longrightarrow> if_host_id (if_base x) = host)"

lemma batch_inv_step:
  assumes inv: "batch_inv host rows s" and host: "if_host_id (if_base entry) = host"
    and ok: "create_or_update_from_discovery fresh now (ing_rows s) entry (ing_claimed s) collected = Ok (rows', c)"
  shows "batch_inv host rows (s\<lparr>ing_rows := rows', ing_created := ing_created s @ [c]\<rparr>)"
proof -
  have sub: "set (ing_claimed s) \<subseteq> if_id ` set (ing_rows s)" and t: "table_inv (ing_rows s)"
    using inv by (auto simp: batch_inv_def)
  note w = create_or_update_writes [OF t sub ok]
  have other: "x \<in> set rows' \<longleftrightarrow> x \<in> set (ing_rows s)" if "if_id x \<noteq> if_id c" for x
    using w(1) that by (simp add: row_written_def)
  have "set (ing_created s @ [c]) \<subseteq> set rows'"
  proof
    fix x assume "x \<in> set (ing_created s @ [c])"
    then consider "x = c" | "x \<in> set (ing_created s)" by auto
    then show "x \<in> set rows'"
    proof cases
      case 1
      then show ?thesis using w(1) by (simp add: row_written_def)
    next
      case 2
      then have "if_id x \<noteq> if_id c" using w(2) by (metis image_eqI image_set)
      then show ?thesis using other 2 inv by (auto simp: batch_inv_def)
    qed
  qed
  moreover have "if_host_id (if_base x) = host" if "x \<in> set rows" "if_id x \<in> set (ing_claimed s @ [if_id c])" for x
  proof (cases "if_id x \<in> set (ing_claimed s)")
    case True
    then show ?thesis using inv that(1) by (auto simp: batch_inv_def)
  next
    case False
    then have "x \<in> set (ing_rows s)" "if_id x = if_id c" using inv that by (auto simp: batch_inv_def)
    then show ?thesis using w(5) host by simp
  qed
  ultimately show ?thesis
    using inv w(1-3) other host by (auto simp: batch_inv_def row_written_def)
qed

text \<open>The loop keeps what every successful step and every skipped interface keeps.\<close>

lemma ingest_loop_induct [consumes 1, case_names stored skipped]:
  assumes "P s"
    and "\<And>e n rows' c s. e \<in> set es \<Longrightarrow> P s \<Longrightarrow>
      create_or_update_from_discovery (fresh n) now (ing_rows s) (for_host host network e)
        (ing_claimed s) collected = Ok (rows', c) \<Longrightarrow>
      P (s\<lparr>ing_rows := rows', ing_created := ing_created s @ [c]\<rparr>)"
    and "\<And>s. P s \<Longrightarrow> P (s\<lparr>ing_skipped := Suc (ing_skipped s)\<rparr>)"
  shows "P (fst (ingest_loop fresh now host network collected n es s))"
  using assms
proof (induction es arbitrary: n s)
  case (Cons e es)
  have stored: "\<And>e' n rows' c s. e' \<in> set es \<Longrightarrow> P s \<Longrightarrow>
      create_or_update_from_discovery (fresh n) now (ing_rows s) (for_host host network e')
        (ing_claimed s) collected = Ok (rows', c) \<Longrightarrow>
      P (s\<lparr>ing_rows := rows', ing_created := ing_created s @ [c]\<rparr>)"
    by (rule Cons.prems(2)) simp_all
  note step = Cons.IH [OF _ stored Cons.prems(3)]
  show ?case
  proof (cases "create_or_update_from_discovery (fresh n) now (ing_rows s) (for_host host network e)
      (ing_claimed s) collected")
    case (Inr r)
    obtain rows' c where r: "r = (rows', c)" by fastforce
    show ?thesis using step [OF Cons.prems(2) [OF _ Cons.prems(1) Inr [unfolded r]]] Inr r by simp
  next
    case (Inl err)
    then show ?thesis using step [OF Cons.prems(3) [OF Cons.prems(1)]] Cons.prems(1) by (cases err) simp_all
  qed
qed simp

lemma for_host_simps [simp]:
  "if_host_id (if_base (for_host host network e)) = host" "if_valid_to (for_host host network e) = if_valid_to e"
  by (simp_all add: for_host_def)

lemma batch_inv_loop:
  "batch_inv host rows s \<Longrightarrow> batch_inv host rows (fst (ingest_loop fresh now host network collected n es s))"
proof (induction rule: ingest_loop_induct)
  case (stored e n rows' c s)
  then show ?case by (intro batch_inv_step [of host rows s]) simp_all
qed (simp add: batch_inv_def)

lemma batch_inv_start: "table_inv rows \<Longrightarrow> batch_inv host rows \<lparr>ing_rows = rows, ing_created = [], ing_skipped = 0\<rparr>"
  by (simp add: batch_inv_def)

lemma batch_live:
  assumes "\<forall>e \<in> set es. if_live e" "batch_inv host rows s" "\<forall>c \<in> set (ing_created s). if_live c"
  shows "\<forall>c \<in> set (ing_created (fst (ingest_loop fresh now host network collected n es s))). if_live c"
proof -
  let ?P = "\<lambda>s. batch_inv host rows s \<and> (\<forall>c \<in> set (ing_created s). if_live c)"
  have "?P (fst (ingest_loop fresh now host network collected n es s))"
  proof (rule ingest_loop_induct [of ?P])
    fix e n rows' c s
    assume e: "e \<in> set es" and p: "?P s"
      and ok: "create_or_update_from_discovery (fresh n) now (ing_rows s) (for_host host network e)
        (ing_claimed s) collected = Ok (rows', c)"
    have "if_live c" using create_or_update_writes(4) [OF _ _ ok] p e assms(1) by (auto simp: batch_inv_def)
    then show "?P (s\<lparr>ing_rows := rows', ing_created := ing_created s @ [c]\<rparr>)"
      using p batch_inv_step [OF _ _ ok] by simp
  qed (use assms in \<open>auto simp: batch_inv_def\<close>)
  then show ?thesis by simp
qed

text \<open>Every interface is stored or skipped, unless a failure ends the loop before the last one.\<close>

lemma ingest_loop_count:
  "ingest_loop fresh now host network collected n es s = (s', err) \<Longrightarrow>
   if err = None
   then length (ing_created s') + ing_skipped s' = length (ing_created s) + ing_skipped s + length es
   else length (ing_created s') + ing_skipped s' < length (ing_created s) + ing_skipped s + length es"
proof (induction es arbitrary: n s)
  case (Cons e es)
  then show ?case
    by (fastforce split: sum.splits ingest_error.splits prod.splits if_splits dest!: Cons.IH)
qed simp

section \<open>The prune\<close>

lemma set_if_delete: "set (if_delete rows i) = clear_neighbor i ` {x \<in> set rows. if_id x \<noteq> i}"
  by (simp add: if_delete_def delete_row_def)

lemma clear_neighbor_simps [simp]:
  "if_id (clear_neighbor i x) = if_id x" "if_valid_to (clear_neighbor i x) = if_valid_to x"
  "if_host_id (if_base (clear_neighbor i x)) = if_host_id (if_base x)"
  "if_name (if_base (clear_neighbor i x)) = if_name (if_base x)"
  by (simp_all add: clear_neighbor_def)

text \<open>What the deletion of the rows \<open>gone\<close> leaves of a row.\<close>

definition cleared :: "uuid list \<Rightarrow> Interface \<Rightarrow> Interface" where
  "cleared gone x = fold clear_neighbor gone x"

lemma cleared_simps [simp]:
  "if_id (cleared gone x) = if_id x" "if_valid_to (cleared gone x) = if_valid_to x"
  "if_host_id (if_base (cleared gone x)) = if_host_id (if_base x)"
  unfolding cleared_def by (induction gone arbitrary: x) simp_all

lemma cleared_neighbor:
  "if_base (cleared gone x) = (if_base x)\<lparr>neighbor :=
     (case neighbor (if_base x) of
        Some (NeighborInterface i) \<Rightarrow> if i \<in> set gone then None else Some (NeighborInterface i)
      | n \<Rightarrow> n)\<rparr>"
  unfolding cleared_def
  by (induction gone arbitrary: x) (auto simp: clear_neighbor_def split: option.splits Neighbor.splits)

lemma cleared_form: "cleared gone x = x\<lparr>if_base := if_base (cleared gone x)\<rparr>"
  unfolding cleared_def by (induction gone arbitrary: x) (simp, metis (no_types) fold_simps(2)
      Interface.surjective Interface.update_convs(10) clear_neighbor_def)

lemma fold_if_delete:
  "set (fold (\<lambda>i rows. if_delete rows (if_id i)) gone rows) =
   cleared (map if_id gone) ` {x \<in> set rows. if_id x \<notin> if_id ` set gone}"
proof (induction gone arbitrary: rows)
  case (Cons g gone)
  show ?case by (simp add: Cons.IH set_if_delete) (auto simp: cleared_def image_iff)
qed (simp add: cleared_def)

text \<open>The rows a prune deletes.\<close>

definition pruned :: "uuid \<Rightarrow> uuid list \<Rightarrow> Interface \<Rightarrow> bool" where
  "pruned host kept x \<longleftrightarrow> if_host_id (if_base x) = host \<and> if_live x \<and> if_id x \<notin> set kept"

lemma prune_rows:
  assumes "table_inv rows"
  obtains gone where "set (prune_interfaces rows host kept) = cleared gone ` {x \<in> set rows. \<not> pruned host kept x}"
    "set gone = if_id ` {x \<in> set rows. pruned host kept x}"
proof
  let ?gone = "filter (\<lambda>i. if_id i \<notin> set kept) (if_get_for_host rows host)"
  have eq: "{x \<in> set rows. if_id x \<notin> if_id ` set ?gone} = {x \<in> set rows. \<not> pruned host kept x}"
    using table_inv_unique [OF assms] by (auto simp: pruned_def image_iff)
  show "set (prune_interfaces rows host kept) =
      cleared (map if_id ?gone) ` {x \<in> set rows. \<not> pruned host kept x}"
    by (simp only: prune_interfaces_def fold_if_delete eq)
  show "set (map if_id ?gone) = if_id ` {x \<in> set rows. pruned host kept x}"
    by (auto simp: pruned_def)
qed

lemma if_delete_table_inv: "table_inv rows \<Longrightarrow> table_inv (if_delete rows i)"
proof -
  assume inv: "table_inv rows"
  have "wf_table if_id (if_delete rows i)"
    using inv by (auto simp: table_inv_def wf_table_def if_delete_def delete_row_def comp_def distinct_map_filter)
  moreover have "same_name (clear_neighbor i x) (clear_neighbor i y) \<longleftrightarrow> same_name x y" for x y
    by (simp add: same_name_def)
  ultimately show ?thesis
    using inv by (auto simp: table_inv_def name_taken_def set_if_delete)
qed

lemma prune_table_inv: "table_inv rows \<Longrightarrow> table_inv (prune_interfaces rows host kept)"
proof -
  have "table_inv rows \<Longrightarrow> table_inv (fold (\<lambda>i rows. if_delete rows (if_id i)) gone rows)" for gone
    by (induction gone arbitrary: rows) (simp_all add: if_delete_table_inv)
  then show "table_inv rows \<Longrightarrow> ?thesis" by (simp add: prune_interfaces_def)
qed

text \<open>What is stored for the host after the batch and its prune.\<close>

lemma store_interfaces_loop:
  assumes "store_interfaces fresh now host network complete collected interfaces rows = (s, err)"
  obtains t where
    "ingest_loop fresh now host network collected 0 interfaces
       \<lparr>ing_rows = rows, ing_created = [], ing_skipped = 0\<rparr> = (t, err)"
    "ing_created s = ing_created t" "ing_skipped s = ing_skipped t"
    "ing_rows s = (if err = None \<and> complete \<and> ing_created t \<noteq> [] \<and> ing_skipped t = 0
       then prune_interfaces (ing_rows t) host (ing_claimed t) else ing_rows t)"
  using assms
  by (auto simp: store_interfaces_def should_prune_interfaces_def split: prod.splits option.splits if_splits)

lemma batch_of_loop:
  assumes "table_inv rows"
    "ingest_loop fresh now host network collected 0 interfaces
       \<lparr>ing_rows = rows, ing_created = [], ing_skipped = 0\<rparr> = (t, r)"
  shows "batch_inv host rows t"
  using batch_inv_loop [OF batch_inv_start [OF assms(1), of host], where fresh = fresh and now = now
      and network = network and collected = collected and n = 0 and es = interfaces] assms(2) by simp

lemma batch_claims:
  assumes "batch_inv host rows t" "\<forall>c \<in> set (ing_created t). if_live c" "x \<in> set (ing_rows t)"
    "if_id x \<in> set (ing_claimed t)"
  shows "if_host_id (if_base x) = host" "if_live x"
proof -
  obtain c where c: "c \<in> set (ing_created t)" "if_id c = if_id x" using assms(4) by auto
  then have "c \<in> set (ing_rows t)" using assms(1) by (auto simp: batch_inv_def)
  then have "c = x" using table_inv_unique [OF _ _ assms(3) c(2)] assms(1) by (auto simp: batch_inv_def)
  then show "if_host_id (if_base x) = host" "if_live x" using c(1) assms(1,2) by (auto simp: batch_inv_def)
qed

lemma batch_other_hosts:
  assumes "batch_inv host rows t" "if_host_id (if_base x) \<noteq> host"
  shows "x \<in> set (ing_rows t) \<longleftrightarrow> x \<in> set rows"
proof (cases "if_id x \<in> set (ing_claimed t)")
  case False
  then show ?thesis using assms(1) unfolding batch_inv_def by blast
next
  case True
  then obtain c where c: "c \<in> set (ing_created t)" "if_id c = if_id x" by auto
  have "x \<notin> set rows" using assms True unfolding batch_inv_def by blast
  moreover have "x \<notin> set (ing_rows t)"
  proof
    assume x: "x \<in> set (ing_rows t)"
    have inv: "table_inv (ing_rows t)" and cr: "c \<in> set (ing_rows t)" and h: "if_host_id (if_base c) = host"
      using assms(1) c(1) unfolding batch_inv_def by blast+
    then have "c = x" using table_inv_unique [OF inv cr x c(2)] by simp
    then show False using assms(2) h by simp
  qed
  ultimately show ?thesis by simp
qed

lemma pruned_host_rows:
  assumes "batch_inv host rows t" "\<forall>c \<in> set (ing_created t). if_live c"
  shows "if_id ` {x \<in> set (prune_interfaces (ing_rows t) host (ing_claimed t)).
      if_host_id (if_base x) = host \<and> if_live x} = set (ing_claimed t)"
proof -
  have inv: "table_inv (ing_rows t)" using assms(1) by (simp add: batch_inv_def)
  obtain gone where g: "set (prune_interfaces (ing_rows t) host (ing_claimed t)) =
      cleared gone ` {x \<in> set (ing_rows t). \<not> pruned host (ing_claimed t) x}"
    by (rule prune_rows [OF inv])
  have "if_id ` {x \<in> set (prune_interfaces (ing_rows t) host (ing_claimed t)).
      if_host_id (if_base x) = host \<and> if_live x} =
    if_id ` {x \<in> set (ing_rows t). if_id x \<in> set (ing_claimed t) \<and> if_host_id (if_base x) = host \<and> if_live x}"
    (is "_ ` ?L = _ ` ?R")
  proof -
    have "?L = cleared gone ` ?R" unfolding g by (auto simp: pruned_def)
    then show ?thesis by (simp add: image_image)
  qed
  also have "\<dots> = if_id ` {x \<in> set (ing_rows t). if_id x \<in> set (ing_claimed t)}"
    using batch_claims [OF assms] by auto
  also have "\<dots> = set (ing_claimed t)" using assms(1) by (auto simp: batch_inv_def)
  finally show ?thesis .
qed

text \<open>
  The rows of other hosts: a row that names a deleted interface as its neighbour loses the
  neighbour, every other row stays as it is.
\<close>

definition detached :: "Interface list \<Rightarrow> Interface list \<Rightarrow> Interface \<Rightarrow> Interface" where
  "detached before after x =
     (case neighbor (if_base x) of
        Some (NeighborInterface g) \<Rightarrow>
          if g \<in> if_id ` set before \<and> g \<notin> if_id ` set after
          then map_base (\<lambda>b. b\<lparr>neighbor := None\<rparr>) x else x
      | _ \<Rightarrow> x)"

lemma batch_ids:
  assumes "batch_inv host rows t"
  shows "if_id ` set rows \<subseteq> if_id ` set (ing_rows t)"
proof
  fix i assume "i \<in> if_id ` set rows"
  then show "i \<in> if_id ` set (ing_rows t)"
    using assms unfolding batch_inv_def by (cases "i \<in> if_id ` set (ing_created t)") (blast, force)
qed

lemma cleared_detached:
  assumes "\<And>g. g \<in> set gone \<longleftrightarrow> g \<in> if_id ` set before \<and> g \<notin> if_id ` set after"
  shows "cleared gone x = detached before after x"
proof -
  have eq: "cleared gone x = x\<lparr>if_base := (if_base x)\<lparr>neighbor :=
      (case neighbor (if_base x) of
         Some (NeighborInterface i) \<Rightarrow> if i \<in> set gone then None else Some (NeighborInterface i)
       | n \<Rightarrow> n)\<rparr>\<rparr>"
    using cleared_form [of gone x] by (simp only: cleared_neighbor)
  have keep: "x\<lparr>if_base := (if_base x)\<lparr>neighbor := n\<rparr>\<rparr> = x" if "neighbor (if_base x) = n" for n
    using that by (cases x; cases "if_base x") simp
  show ?thesis
  proof (cases "neighbor (if_base x)")
    case None
    then show ?thesis unfolding eq detached_def by (simp add: keep)
  next
    case (Some n)
    then show ?thesis unfolding eq detached_def using assms by (cases n) (simp_all add: keep)
  qed
qed

lemma foreign_rows_detached:
  assumes b: "batch_inv host rows t" and live: "\<forall>c \<in> set (ing_created t). if_live c"
    and after: "after = prune_interfaces (ing_rows t) host (ing_claimed t) \<or> after = ing_rows t"
  shows "{y \<in> set after. if_host_id (if_base y) \<noteq> host} =
    detached rows after ` {x \<in> set rows. if_host_id (if_base x) \<noteq> host}"
proof -
  have inv: "table_inv (ing_rows t)" using b by (simp add: batch_inv_def)
  have foreign: "{x \<in> set (ing_rows t). if_host_id (if_base x) \<noteq> host} = {x \<in> set rows. if_host_id (if_base x) \<noteq> host}"
    using batch_other_hosts [OF b] by blast
  from after show ?thesis
  proof
    assume eq: "after = ing_rows t"
    then have none: "(g \<in> if_id ` set rows \<and> g \<notin> if_id ` set after) = False" for g
      using batch_ids [OF b] by blast
    have "detached rows after x = x" for x
      by (simp only: detached_def none if_False split: option.split Neighbor.split) simp
    then show ?thesis using foreign eq by simp
  next
    assume eq: "after = prune_interfaces (ing_rows t) host (ing_claimed t)"
    obtain gone where g: "set after = cleared gone ` {x \<in> set (ing_rows t). \<not> pruned host (ing_claimed t) x}"
        "set gone = if_id ` {x \<in> set (ing_rows t). pruned host (ing_claimed t) x}"
      unfolding eq by (rule prune_rows [OF inv])
    have ids: "if_id ` set after = if_id ` {x \<in> set (ing_rows t). \<not> pruned host (ing_claimed t) x}"
      unfolding g(1) by (simp add: image_image)
    have "i \<in> set gone \<longleftrightarrow> i \<in> if_id ` set rows \<and> i \<notin> if_id ` set after" for i
    proof
      assume "i \<in> set gone"
      then obtain x where x: "x \<in> set (ing_rows t)" "pruned host (ing_claimed t) x" "i = if_id x"
        unfolding g(2) by auto
      then have "x \<in> set rows" using b by (auto simp: batch_inv_def pruned_def)
      moreover have "i \<notin> if_id ` set after"
        unfolding ids using x table_inv_unique [OF inv x(1)] by auto
      ultimately show "i \<in> if_id ` set rows \<and> i \<notin> if_id ` set after" using x(3) by blast
    next
      assume i: "i \<in> if_id ` set rows \<and> i \<notin> if_id ` set after"
      then obtain x where "x \<in> set (ing_rows t)" "i = if_id x" using batch_ids [OF b] by auto
      then show "i \<in> set gone" using i unfolding ids g(2) by auto
    qed
    then have "cleared gone x = detached rows after x" for x by (rule cleared_detached)
    then have after': "set after = detached rows after ` {x \<in> set (ing_rows t). \<not> pruned host (ing_claimed t) x}"
      using g(1) by simp
    have host: "if_host_id (if_base (detached rows after x)) = if_host_id (if_base x)" for x
      by (auto simp: detached_def split: option.splits Neighbor.splits)
    have "{x \<in> set (ing_rows t). \<not> pruned host (ing_claimed t) x \<and> if_host_id (if_base x) \<noteq> host} =
        {x \<in> set rows. if_host_id (if_base x) \<noteq> host}"
      using foreign by (auto simp: pruned_def)
    moreover have "{y \<in> set after. if_host_id (if_base y) \<noteq> host} = detached rows after `
        {x \<in> set (ing_rows t). \<not> pruned host (ing_claimed t) x \<and> if_host_id (if_base x) \<noteq> host}"
      by (subst after') (auto simp: host)
    ultimately show ?thesis by simp
  qed
qed

section \<open>Batches that never abort\<close>

abbreviation reported_name :: "Interface \<Rightarrow> string option" where
  "reported_name e \<equiv> if_name (if_base (normalize_blank_identity e))"

lemma match_by_name:
  assumes "if_name (if_base entry) = Some n" "x \<in> set existing" "if_id x \<notin> set claimed"
    "if_name (if_base x) = Some n"
  obtains y where "y \<in> set existing" "if_name (if_base y) = Some n"
    "match_existing_interface entry existing claimed = Some (if_id y)"
proof -
  have "find (\<lambda>x. if_name (if_base x) = Some n) (filter (\<lambda>x. if_id x \<notin> set claimed) existing) \<noteq> None"
    using assms(2-4) by (auto simp: find_None_iff)
  then obtain y where y: "find (\<lambda>x. if_name (if_base x) = Some n)
      (filter (\<lambda>x. if_id x \<notin> set claimed) existing) = Some y"
    by auto
  show thesis
    using that [of y] find_SomeD [OF y] y assms(1) by (simp add: match_existing_interface_def Let_def)
qed

lemma matched_by_name:
  assumes inv: "table_inv rows" and name: "if_name (if_base entry) = Some n"
    and x: "x \<in> set rows" "if_live x" "if_host_id (if_base x) = if_host_id (if_base entry)"
      "if_name (if_base x) = Some n" "if_id x \<notin> set claimed"
  shows "find_matching_existing rows entry claimed = Some x"
proof -
  let ?rows = "if_get_for_host rows (if_host_id (if_base entry))"
  have mem: "x \<in> set ?rows" using x by simp
  obtain y where y: "y \<in> set ?rows" "if_name (if_base y) = Some n"
      "match_existing_interface entry ?rows claimed = Some (if_id y)"
    by (rule match_by_name [OF name mem x(5,4)])
  have "y = x" using table_inv_name [OF inv, of y x n] y x by simp
  moreover have "find (\<lambda>z. if_id z = if_id x) ?rows = Some x"
  proof -
    obtain z where z: "find (\<lambda>z. if_id z = if_id x) ?rows = Some z"
      using mem by (cases "find (\<lambda>z. if_id z = if_id x) ?rows") (auto simp: find_None_iff)
    then have "z = x" using find_SomeD [OF z] table_inv_unique [OF inv, of z x] x(1) by simp
    then show ?thesis using z by simp
  qed
  ultimately show ?thesis using y(3) by (simp add: find_matching_existing_def Let_def)
qed

lemma named_interface_stored:
  assumes inv: "table_inv rows" and name: "reported_name entry = Some n"
    and fresh_name: "\<And>x. x \<in> set rows \<Longrightarrow> if_id x \<in> set claimed \<Longrightarrow> if_name (if_base x) \<noteq> Some n"
    and err: "create_or_update_from_discovery fresh now rows entry claimed collected = Err e"
  shows "e = ValidationFailure"
proof (cases "find_matching_existing rows (normalize_blank_identity entry) claimed")
  case None
  then show ?thesis using err
    by (auto simp: create_or_update_from_discovery_def if_create_def Let_def split: if_splits sum.splits)
next
  case (Some existing)
  let ?r = "rescanned existing collected (normalize_blank_identity entry)"
  note ex = find_matching_existing_Some [OF Some]
  have err': "if_update rows ?r = Err e"
    using err Some by (simp add: create_or_update_from_discovery_def Let_def)
  have "\<not> name_taken rows ?r"
  proof
    assume "name_taken rows ?r"
    then obtain x where x: "x \<in> set rows" "if_id x \<noteq> if_id existing" "if_live x"
        "if_host_id (if_base x) = if_host_id (if_base entry)" "if_name (if_base x) = Some n"
      using name by (auto simp: name_taken_def same_name_def)
    then have "find_matching_existing rows (normalize_blank_identity entry) claimed = Some x"
      using matched_by_name [OF inv name x(1,3) _ x(5)] fresh_name by auto
    then show False using Some x(2) by simp
  qed
  then show ?thesis
    using err' ex(1) by (auto simp: if_update_def get_by_id_None split: if_splits)
qed

lemma stored_name:
  assumes "create_or_update_from_discovery fresh now rows entry claimed collected = Ok (rows', c)"
    "reported_name entry = Some n"
  shows "if_name (if_base c) = Some n"
  using assms
  by (auto simp: create_or_update_from_discovery_def if_update_def if_create_def Let_def new_interface_def
      split: option.splits if_splits sum.splits)

lemma named_batch_completes:
  assumes "batch_inv host rows s" "distinct (map reported_name es)" "None \<notin> set (map reported_name es)"
    "\<forall>c \<in> set (ing_created s). if_name (if_base c) \<notin> set (map reported_name es)"
  shows "snd (ingest_loop fresh now host network collected n es s) = None"
  using assms
proof (induction es arbitrary: n s)
  case (Cons e es)
  let ?e = "for_host host network e"
  have rep: "reported_name ?e = reported_name e"
    by (simp add: for_host_def normalize_blank_identity_def Let_def)
  obtain m where m: "reported_name e = Some m" using Cons.prems(3) by (cases "reported_name e") auto
  have t: "table_inv (ing_rows s)" using Cons.prems(1) by (simp add: batch_inv_def)
  have claimed: "if_name (if_base x) \<noteq> Some m" if x: "x \<in> set (ing_rows s)" "if_id x \<in> set (ing_claimed s)" for x
  proof -
    obtain c where c: "c \<in> set (ing_created s)" "if_id c = if_id x" using x(2) by auto
    then have "c \<in> set (ing_rows s)" using Cons.prems(1) by (auto simp: batch_inv_def)
    then have "c = x" using table_inv_unique [OF t _ x(1) c(2)] by simp
    then show ?thesis using c(1) Cons.prems(4) m by auto
  qed
  show ?case
  proof (cases "create_or_update_from_discovery (fresh n) now (ing_rows s) ?e (ing_claimed s) collected")
    case (Inr r)
    obtain rows' c where r: "r = (rows', c)" by fastforce
    have "if_name (if_base c) = Some m" using stored_name [OF Inr [unfolded r]] rep m by simp
    then have "\<forall>c \<in> set (ing_created s @ [c]). if_name (if_base c) \<notin> set (map reported_name es)"
      using Cons.prems(2,4) m by auto
    then show ?thesis
      using Cons.IH [OF batch_inv_step [OF Cons.prems(1) _ Inr [unfolded r]]] Cons.prems(2,3) Inr r by simp
  next
    case (Inl err)
    then have "err = ValidationFailure"
      using named_interface_stored [OF t rep [unfolded m] claimed Inl] by simp
    then show ?thesis
      using Inl Cons.IH [of "s\<lparr>ing_skipped := Suc (ing_skipped s)\<rparr>"] Cons.prems by (simp add: batch_inv_def)
  qed
qed simp

text \<open>
  Two reported interfaces that share a name: the second is matched by its index, the update runs
  into the name index, and the whole batch ends there.
\<close>

definition named_port :: "uuid \<Rightarrow> int \<Rightarrow> string \<Rightarrow> Interface" where
  "named_port i index name = new_interface i 0
     (interface_base_default\<lparr>if_host_id := 9, if_index := index, if_name := Some name\<rparr>)"

lemma duplicate_name_aborts_batch:
  "snd (ingest_loop (\<lambda>_. 7) 0 9 0 data_complete_default 0 [named_port 3 1 ''a'', named_port 4 2 ''a'']
     \<lparr>ing_rows = [named_port 1 1 ''a'', named_port 2 2 ''b''], ing_created = [], ing_skipped = 0\<rparr>)
   = Some DatabaseFailure"
  by code_simp

section \<open>Rescans\<close>

text \<open>The groups of data that are read by one walk each.\<close>

definition lldp_group where
  "lldp_group b = (lldp_chassis_id b, lldp_port_id b, lldp_sys_name b, lldp_port_desc b, lldp_mgmt_addr b, lldp_sys_desc b)"

definition cdp_group where
  "cdp_group b = (cdp_device_id b, cdp_port_id b, cdp_platform b, cdp_address b)"

definition vlan_group where
  "vlan_group b = (native_vlan_id b, vlan_ids b)"

lemma normalize_groups:
  "if_mac_address (if_base (normalize_blank_identity i)) = if_mac_address (if_base i)"
  "lldp_group (if_base (normalize_blank_identity i)) = lldp_group (if_base i)"
  "cdp_group (if_base (normalize_blank_identity i)) = cdp_group (if_base i)"
  "fdb_macs (if_base (normalize_blank_identity i)) = fdb_macs (if_base i)"
  "vlan_group (if_base (normalize_blank_identity i)) = vlan_group (if_base i)"
  by (simp_all add: normalize_blank_identity_def Let_def lldp_group_def cdp_group_def vlan_group_def)

lemma rescanned_keeps:
  fixes existing entry :: Interface and collected :: InterfaceDataComplete
  defines "r \<equiv> if_base (rescanned existing collected entry)" and "e \<equiv> if_base existing" and "b \<equiv> if_base entry"
  shows "if_created_at (rescanned existing collected entry) = if_created_at existing"
    "if_mac_address r = (if if_mac_address e = None then if_mac_address b else if_mac_address e)"
    "neighbor r = (if neighbor b = None then neighbor e else neighbor b)"
    "lldp_group r = lldp_group (if dc_lldp collected then b else e)"
    "cdp_group r = cdp_group (if dc_cdp collected then b else e)"
    "fdb_macs r = fdb_macs (if dc_fdb collected then b else e)"
    "vlan_group r = vlan_group (if dc_vlan_membership collected then b else e)"
  unfolding r_def e_def b_def lldp_group_def cdp_group_def vlan_group_def
  by (auto simp: rescanned_def preserve_uncollected_data_def preserve_immutable_fields_def Let_def)

lemma rescanned_history:
  "if_valid_from (rescanned existing collected entry) = if_valid_from entry"
  "if_first_discovery_id (rescanned existing collected entry) = if_first_discovery_id entry"
  by (simp_all add: rescanned_def preserve_uncollected_data_def preserve_immutable_fields_def Let_def)

lemma create_or_update_matched:
  assumes "find_matching_existing rows (normalize_blank_identity entry) claimed = Some existing"
    "create_or_update_from_discovery fresh now rows entry claimed collected = Ok (rows', c)"
  shows "c = rescanned existing collected (normalize_blank_identity entry)"
  using assms by (auto simp: create_or_update_from_discovery_def Let_def if_update_def split: if_splits)

section \<open>Links to addresses\<close>

lemma link_target_sound:
  assumes "link_target interfaces ips x = Some a"
  obtains ip where "ip \<in> set ips" "ip_id ip = a" "if_type (if_base x) = SOFTWARE_LOOPBACK"
      "is_loopback (ip_address (ip_base ip))"
  | ip mac where "ip \<in> set ips" "ip_id ip = a" "if_type (if_base x) \<noteq> SOFTWARE_LOOPBACK"
      "if_mac_address (if_base x) = Some mac" "ip_mac_address (ip_base ip) = Some mac"
      "interfaces_per_mac interfaces mac = 1"
proof (cases "if_type (if_base x) = SOFTWARE_LOOPBACK")
  case True
  then show thesis using assms that(1) by (auto simp: link_target_def dest!: find_SomeD)
next
  case False
  then obtain mac ip where "if_mac_address (if_base x) = Some mac" "interfaces_per_mac interfaces mac = 1"
      "find (\<lambda>a. ip_mac_address (ip_base a) = Some mac) (rev ips) = Some ip" "ip_id ip = a"
    using assms by (auto simp: link_target_def bind_eq_Some_conv split: if_splits)
  then show thesis using that(2) [of ip mac] False by (auto dest!: find_SomeD)
qed

lemma plan_links_mem:
  "(i, a) \<in> set (plan_interface_ip_links interfaces ips) \<longleftrightarrow>
   (\<exists>x \<in> set interfaces. if_id x = i \<and> if_ip_address_id (if_base x) = None
      \<and> link_target interfaces ips x = Some a)"
  by (auto simp: plan_interface_ip_links_def map_filter_mem)

lemma interfaces_per_mac_one:
  assumes "interfaces_per_mac interfaces mac = 1" "x \<in> set interfaces" "y \<in> set interfaces"
    "if_mac_address (if_base x) = Some mac" "if_mac_address (if_base y) = Some mac"
  shows "x = y"
proof -
  obtain z where "filter (\<lambda>i. if_mac_address (if_base i) = Some mac) interfaces = [z]"
    using assms(1) by (auto simp: interfaces_per_mac_def length_Suc_conv)
  then have "{w \<in> set interfaces. if_mac_address (if_base w) = Some mac} = {z}"
    by (metis empty_set list.simps(15) set_filter)
  then have "x \<in> {z}" "y \<in> {z}" using assms(2-5) by blast+
  then show ?thesis by simp
qed

text \<open>No two ports are linked by their MACs to the same address.\<close>

lemma link_target_exclusive:
  assumes "link_target interfaces ips x = Some a" "link_target interfaces ips y = Some a"
    "x \<in> set interfaces" "y \<in> set interfaces" "distinct (map ip_id ips)"
    "if_type (if_base x) \<noteq> SOFTWARE_LOOPBACK" "if_type (if_base y) \<noteq> SOFTWARE_LOOPBACK"
  shows "x = y"
proof -
  obtain ip mac where x: "ip \<in> set ips" "ip_id ip = a" "if_mac_address (if_base x) = Some mac"
      "ip_mac_address (ip_base ip) = Some mac" "interfaces_per_mac interfaces mac = 1"
    by (rule link_target_sound [OF assms(1)]) (use assms(6) in auto)
  obtain ip' mac' where y: "ip' \<in> set ips" "ip_id ip' = a" "if_mac_address (if_base y) = Some mac'"
      "ip_mac_address (ip_base ip') = Some mac'"
    by (rule link_target_sound [OF assms(2)]) (use assms(7) in auto)
  have "ip = ip'" using x(1,2) y(1,2) assms(5) by (auto simp: distinct_map inj_on_def)
  then have "mac = mac'" using x(4) y(4) by simp
  then show ?thesis using interfaces_per_mac_one [OF x(5) assms(3,4) x(3)] y(3) by simp
qed

end
