(* ===== verification/Neighbor_Links.thy ===== *)
theory Neighbor_Links
  imports Neighbor_Resolution Interface_Batch
begin

text \<open>
  The pass that turns advertised neighbours into links
  (\<^verbatim>\<open>backend/src/server/hosts/service/topology\<close>): who names whom, the pairs of ports that name each
  other and nothing else, the re-examination of bindings that rest on a MAC, the tiers that place a
  far-end port, and the statistics of the pass. The rows the pass reads are those of the filters of
  \<^verbatim>\<open>shared/storage/filter/lldp.rs\<close>. The sentences of the operator's report are not modelled: the pass
  returns the neighbours and ports they are made from.
\<close>

section \<open>Statistics and findings of a pass\<close>

record LldpResolutionStats =
  st_total :: nat
  st_hosts_resolved :: nat
  st_ports_resolved :: nat
  st_ports_resolved_reciprocal :: nat
  st_host_no_strategy :: nat
  st_host_not_found :: nat
  st_port_no_strategy :: nat
  st_port_not_found :: nat
  st_port_ambiguous :: nat

definition stats_default :: LldpResolutionStats where
  "stats_default =
     \<lparr>st_total = 0, st_hosts_resolved = 0, st_ports_resolved = 0, st_ports_resolved_reciprocal = 0,
      st_host_no_strategy = 0, st_host_not_found = 0, st_port_no_strategy = 0, st_port_not_found = 0,
      st_port_ambiguous = 0\<rparr>"

fun record_host :: "IdentityResolution \<Rightarrow> LldpResolutionStats \<Rightarrow> LldpResolutionStats \<times> uuid option" where
  "record_host (Resolved h) s = (s\<lparr>st_hosts_resolved := Suc (st_hosts_resolved s)\<rparr>, Some h)"
| "record_host NoStrategy s = (s\<lparr>st_host_no_strategy := Suc (st_host_no_strategy s)\<rparr>, None)"
| "record_host NotFoundHere s = (s\<lparr>st_host_not_found := Suc (st_host_not_found s)\<rparr>, None)"
| "record_host Ambiguous s = (s\<lparr>st_host_not_found := Suc (st_host_not_found s)\<rparr>, None)"

fun record_port :: "IdentityResolution \<Rightarrow> uuid \<Rightarrow> LldpResolutionStats \<Rightarrow> LldpResolutionStats \<times> Neighbor" where
  "record_port (Resolved i) h s = (s\<lparr>st_ports_resolved := Suc (st_ports_resolved s)\<rparr>, NeighborInterface i)"
| "record_port NoStrategy h s = (s\<lparr>st_port_no_strategy := Suc (st_port_no_strategy s)\<rparr>, NeighborHost h)"
| "record_port NotFoundHere h s = (s\<lparr>st_port_not_found := Suc (st_port_not_found s)\<rparr>, NeighborHost h)"
| "record_port Ambiguous h s = (s\<lparr>st_port_ambiguous := Suc (st_port_ambiguous s)\<rparr>, NeighborHost h)"

datatype UnresolvedReason = ReasonNoStrategy | ReasonNotFound | ReasonAmbiguous

fun reason_from_resolution :: "IdentityResolution \<Rightarrow> UnresolvedReason option" where
  "reason_from_resolution (Resolved _) = None"
| "reason_from_resolution NoStrategy = Some ReasonNoStrategy"
| "reason_from_resolution NotFoundHere = Some ReasonNotFound"
| "reason_from_resolution Ambiguous = Some ReasonAmbiguous"

record UnmatchedNeighbour =
  un_host_id :: uuid
  un_if_descr :: string
  un_identifier :: string
  un_sys_name :: "string option"

datatype port_evidence = LldpEvidence LldpPortId | CdpEvidence string

record UnresolvedPort =
  up_host_id :: uuid
  up_if_descr :: string
  up_remote_host_id :: uuid
  up_port_id :: "port_evidence option"
  up_port_desc :: "string option"
  up_reason :: UnresolvedReason

definition new_unresolved_port ::
    "Interface \<Rightarrow> uuid \<Rightarrow> port_evidence option \<Rightarrow> UnresolvedReason \<Rightarrow> UnresolvedPort" where
  "new_unresolved_port i remote evidence why =
     \<lparr>up_host_id = if_host_id (if_base i), up_if_descr = if_descr (if_base i), up_remote_host_id = remote,
      up_port_id = evidence, up_port_desc = lldp_port_desc (if_base i), up_reason = why\<rparr>"

definition new_unmatched :: "Interface \<Rightarrow> string \<Rightarrow> string option \<Rightarrow> UnmatchedNeighbour" where
  "new_unmatched i text sysname =
     \<lparr>un_host_id = if_host_id (if_base i), un_if_descr = if_descr (if_base i), un_identifier = text,
      un_sys_name = sysname\<rparr>"

section \<open>Who names whom\<close>

definition names_neighbour :: "uuid \<Rightarrow> Interface \<Rightarrow> bool" where
  "names_neighbour network i \<longleftrightarrow>
     if_network_id (if_base i) = network \<and> if_live i
     \<and> (lldp_chassis_id (if_base i) \<noteq> None \<or> cdp_device_id (if_base i) \<noteq> None
        \<or> cdp_address (if_base i) \<noteq> None \<or> neighbor (if_base i) \<noteq> None)"

definition unresolved_fdb :: "uuid \<Rightarrow> Interface \<Rightarrow> bool" where
  "unresolved_fdb network i \<longleftrightarrow>
     if_network_id (if_base i) = network \<and> if_live i
     \<and> (case fdb_macs (if_base i) of Some macs \<Rightarrow> length macs = 1 | None \<Rightarrow> False)
     \<and> neighbor (if_base i) = None \<and> lldp_chassis_id (if_base i) = None \<and> cdp_device_id (if_base i) = None"

definition live_row :: "Interface list \<Rightarrow> uuid \<Rightarrow> Interface option" where
  "live_row rows i = find (\<lambda>x. if_live x \<and> if_id x = i) rows"

definition host_of_interface :: "Interface list \<Rightarrow> uuid \<Rightarrow> uuid option" where
  "host_of_interface rows i = map_option (\<lambda>x. if_host_id (if_base x)) (live_row rows i)"

definition far_device :: "addr_codec \<Rightarrow> inventory \<Rightarrow> uuid \<Rightarrow> Interface \<Rightarrow> IdentityResolution" where
  "far_device C db network i =
     (case neighbor (if_base i) of
        Some (NeighborInterface b) \<Rightarrow> found (host_of_interface (inv_interfaces db) b)
      | Some (NeighborHost h) \<Rightarrow> Resolved h
      | None \<Rightarrow>
          (case lldp_chassis_id (if_base i) of
             Some c \<Rightarrow> resolve_host_id C (lldp_resolver C db) network (lldp_sys_name (if_base i)) c
           | None \<Rightarrow>
               (case cdp_device_id (if_base i) of
                  Some d \<Rightarrow> found (find_host_by_sys_name (lldp_resolver C db) d network)
                | None \<Rightarrow> NoStrategy)))"

type_synonym adjacency = "((uuid \<times> uuid) \<times> uuid list) list"

fun push_port :: "uuid \<times> uuid \<Rightarrow> uuid \<Rightarrow> adjacency \<Rightarrow> adjacency" where
  "push_port k p [] = [(k, [p])]"
| "push_port k p ((k', ps) # es) = (if k = k' then (k', ps @ [p]) # es else (k', ps) # push_port k p es)"

definition add_adjacency :: "(Interface \<Rightarrow> IdentityResolution) \<Rightarrow> Interface \<Rightarrow> adjacency \<Rightarrow> adjacency" where
  "add_adjacency verdict i adj =
     (case verdict i of
        Resolved r \<Rightarrow> if r \<noteq> if_host_id (if_base i) then push_port (if_host_id (if_base i), r) (if_id i) adj else adj
      | _ \<Rightarrow> adj)"

definition ports_between :: "(Interface \<Rightarrow> IdentityResolution) \<Rightarrow> Interface list \<Rightarrow> adjacency" where
  "ports_between verdict interfaces = fold (add_adjacency verdict) interfaces []"

definition pair_entry ::
    "adjacency \<Rightarrow> (uuid \<times> uuid) \<times> uuid list \<Rightarrow> (uuid \<rightharpoonup> uuid \<times> uuid) \<Rightarrow> (uuid \<rightharpoonup> uuid \<times> uuid)" where
  "pair_entry adj e m =
     (case e of ((l, r), local_ports) \<Rightarrow>
        (case local_ports of
           [p] \<Rightarrow> (case map_of adj (r, l) of Some [q] \<Rightarrow> m(p \<mapsto> (q, r)) | _ \<Rightarrow> m)
         | _ \<Rightarrow> m))"

definition reciprocal_pairs :: "adjacency \<Rightarrow> uuid \<rightharpoonup> uuid \<times> uuid" where
  "reciprocal_pairs adj = fold (pair_entry adj) adj Map.empty"

record NeighborAdjacency =
  adj_interfaces :: "Interface list"
  adj_host_of :: "uuid \<rightharpoonup> IdentityResolution"
  adj_reciprocal :: "uuid \<rightharpoonup> uuid \<times> uuid"

definition build_neighbor_adjacency :: "addr_codec \<Rightarrow> inventory \<Rightarrow> uuid \<Rightarrow> NeighborAdjacency" where
  "build_neighbor_adjacency C db network =
     (let interfaces = filter (names_neighbour network) (inv_interfaces db);
          verdict = far_device C db network
      in \<lparr>adj_interfaces = interfaces,
          adj_host_of = map_of (rev (map (\<lambda>i. (if_id i, verdict i)) interfaces)),
          adj_reciprocal = reciprocal_pairs (ports_between verdict interfaces)\<rparr>)"

definition pair_reciprocally ::
    "IdentityResolution \<Rightarrow> uuid \<Rightarrow> uuid \<Rightarrow> (uuid \<rightharpoonup> uuid \<times> uuid) \<Rightarrow> IdentityResolution option" where
  "pair_reciprocally port i host reciprocal =
     (case port of
        Resolved _ \<Rightarrow> None
      | _ \<Rightarrow> (case reciprocal i of
          Some (paired, paired_host) \<Rightarrow> if paired_host = host then Some (Resolved paired) else None
        | None \<Rightarrow> None))"

datatype PortBinding = Stands | Rebind uuid | Reopen uuid

definition re_examine_port_binding ::
    "addr_codec \<Rightarrow> inventory \<Rightarrow> (uuid \<rightharpoonup> uuid \<times> uuid) \<Rightarrow> Interface \<Rightarrow> uuid \<Rightarrow> PortBinding" where
  "re_examine_port_binding C db reciprocal i bound =
     (case reciprocal (if_id i) of
        Some (paired, _) \<Rightarrow> if paired = bound then Stands else Rebind paired
      | None \<Rightarrow>
          if \<not> port_bound_by_mac i then Stands
          else case live_row (inv_interfaces db) bound of
            None \<Rightarrow> Stands
          | Some b \<Rightarrow>
              (case if_mac_address (if_base b) of
                 None \<Rightarrow> Stands
               | Some mac \<Rightarrow>
                   if find_if_entry_by_mac (lldp_resolver C db) (show_mac C mac) (if_host_id (if_base b)) = Ambiguous
                   then Reopen (if_host_id (if_base b)) else Stands))"

section \<open>The pass\<close>

record pass_state =
  ps_rows :: "Interface list"
  ps_stats :: LldpResolutionStats
  ps_unmatched :: "UnmatchedNeighbour list"
  ps_unresolved :: "UnresolvedPort list"
  ps_reopened :: nat
  ps_rebound :: nat

abbreviation with_neighbor :: "Neighbor option \<Rightarrow> Interface \<Rightarrow> Interface" where
  "with_neighbor n \<equiv> map_base (\<lambda>b. b\<lparr>neighbor := n\<rparr>)"

text \<open>The port an LLDP neighbour names: by its id, then by its description.\<close>

definition lldp_far_port :: "LldpResolver \<Rightarrow> Interface \<Rightarrow> uuid \<Rightarrow> IdentityResolution" where
  "lldp_far_port R i host =
     (let port = (case lldp_port_id (if_base i) of Some p \<Rightarrow> resolve_if_entry_id R host p | None \<Rightarrow> NoStrategy)
      in case port of
           Resolved p \<Rightarrow> Resolved p
         | _ \<Rightarrow>
             (case lldp_port_desc (if_base i) of
                Some d \<Rightarrow>
                  if trim d \<noteq> []
                  then (case find_if_entry_by_name R d host of Some p \<Rightarrow> Resolved p | None \<Rightarrow> port)
                  else port
              | None \<Rightarrow> port))"

definition cdp_far_port :: "LldpResolver \<Rightarrow> Interface \<Rightarrow> uuid \<Rightarrow> IdentityResolution" where
  "cdp_far_port R i host =
     (case cdp_port_id (if_base i) of
        Some p \<Rightarrow> found (find_if_entry_by_name R p host) | None \<Rightarrow> NoStrategy)"

text \<open>What both protocols do with the verdict on the far-end port.\<close>

definition place_port ::
    "(uuid \<rightharpoonup> uuid \<times> uuid) \<Rightarrow> Interface \<Rightarrow> uuid \<Rightarrow> IdentityResolution \<Rightarrow> port_evidence option
      \<Rightarrow> pass_state \<Rightarrow> pass_state \<times> Neighbor" where
  "place_port reciprocal i host port evidence s =
     (let (port, st) = (case pair_reciprocally port (if_id i) host reciprocal of
            Some paired \<Rightarrow> (paired, (ps_stats s)\<lparr>st_ports_resolved_reciprocal :=
              Suc (st_ports_resolved_reciprocal (ps_stats s))\<rparr>)
          | None \<Rightarrow> (port, ps_stats s));
          unresolved = (case reason_from_resolution port of
            Some r \<Rightarrow> ps_unresolved s @ [new_unresolved_port i host evidence r] | None \<Rightarrow> ps_unresolved s);
          (st, n) = record_port port host st
      in (s\<lparr>ps_stats := st, ps_unresolved := unresolved\<rparr>, n))"

text \<open>What both protocols do with the verdict on the far-end device.\<close>

definition place_neighbour ::
    "(uuid \<rightharpoonup> uuid \<times> uuid) \<Rightarrow> Interface \<Rightarrow> IdentityResolution \<Rightarrow> UnmatchedNeighbour
      \<Rightarrow> (uuid \<Rightarrow> IdentityResolution) \<Rightarrow> port_evidence option \<Rightarrow> pass_state \<Rightarrow> pass_state \<times> Neighbor option" where
  "place_neighbour reciprocal i host missing port evidence s =
     (let s = (if host = NotFoundHere then s\<lparr>ps_unmatched := ps_unmatched s @ [missing]\<rparr> else s);
          (st, r) = record_host host (ps_stats s);
          s = s\<lparr>ps_stats := st\<rparr>
      in case r of
           None \<Rightarrow> (s, None)
         | Some h \<Rightarrow> (let (s, n) = place_port reciprocal i h (port h) evidence s in (s, Some n)))"

definition known_device :: "(uuid \<rightharpoonup> IdentityResolution) \<Rightarrow> Interface \<Rightarrow> IdentityResolution" where
  "known_device host_of i =
     (case neighbor (if_base i) of
        Some (NeighborHost h) \<Rightarrow> Resolved h
      | _ \<Rightarrow> (case host_of (if_id i) of Some v \<Rightarrow> v | None \<Rightarrow> NoStrategy))"

definition resolve_tiers ::
    "addr_codec \<Rightarrow> LldpResolver \<Rightarrow> (uuid \<rightharpoonup> IdentityResolution) \<Rightarrow> (uuid \<rightharpoonup> uuid \<times> uuid) \<Rightarrow> Interface
      \<Rightarrow> pass_state \<Rightarrow> pass_state \<times> Neighbor option" where
  "resolve_tiers C R host_of reciprocal i s =
     (let s = s\<lparr>ps_stats := (ps_stats s)\<lparr>st_total := Suc (st_total (ps_stats s))\<rparr>\<rparr> in
      case lldp_chassis_id (if_base i) of
        Some c \<Rightarrow>
          place_neighbour reciprocal i (known_device host_of i)
            (new_unmatched i (chassis_identifier (show_ip C) c) (lldp_sys_name (if_base i)))
            (lldp_far_port R i) (map_option LldpEvidence (lldp_port_id (if_base i))) s
      | None \<Rightarrow>
          (case cdp_device_id (if_base i) of
             Some d \<Rightarrow>
               place_neighbour reciprocal i (known_device host_of i) (new_unmatched i d None)
                 (cdp_far_port R i) (map_option CdpEvidence (cdp_port_id (if_base i))) s
           | None \<Rightarrow> (s\<lparr>ps_stats := (ps_stats s)\<lparr>st_host_no_strategy := Suc (st_host_no_strategy (ps_stats s))\<rparr>\<rparr>, None)))"

definition persist_neighbor ::
    "Interface \<Rightarrow> Neighbor option \<Rightarrow> pass_state \<Rightarrow> (ingest_error, pass_state) result" where
  "persist_neighbor i original s =
     (if neighbor (if_base i) = original then Ok s
      else case if_update (ps_rows s) i of Err e \<Rightarrow> Err e | Ok (rows, _) \<Rightarrow> Ok (s\<lparr>ps_rows := rows\<rparr>))"

text \<open>A row whose port is not bound, or no longer: the tiers, then the write.\<close>

definition finish_row ::
    "addr_codec \<Rightarrow> LldpResolver \<Rightarrow> (uuid \<rightharpoonup> IdentityResolution) \<Rightarrow> (uuid \<rightharpoonup> uuid \<times> uuid) \<Rightarrow> Neighbor option
      \<Rightarrow> Interface \<Rightarrow> pass_state \<Rightarrow> (ingest_error, pass_state) result" where
  "finish_row C R host_of reciprocal original i s =
     (if lldp_chassis_id (if_base i) = None \<and> cdp_device_id (if_base i) = None \<and> cdp_address (if_base i) = None
      then persist_neighbor i original s
      else (let (s, n) = resolve_tiers C R host_of reciprocal i s in
        persist_neighbor (case n of Some m \<Rightarrow> with_neighbor (Some m) i | None \<Rightarrow> i) original s))"

definition resolve_row ::
    "addr_codec \<Rightarrow> inventory \<Rightarrow> (uuid \<rightharpoonup> IdentityResolution) \<Rightarrow> (uuid \<rightharpoonup> uuid \<times> uuid) \<Rightarrow> Interface
      \<Rightarrow> pass_state \<Rightarrow> (ingest_error, pass_state) result" where
  "resolve_row C db host_of reciprocal i s =
     (let db = db\<lparr>inv_interfaces := ps_rows s\<rparr>;
          R = lldp_resolver C db;
          original = neighbor (if_base i)
      in case original of
           Some (NeighborInterface bound) \<Rightarrow>
             (case re_examine_port_binding C db reciprocal i bound of
                Stands \<Rightarrow> Ok s
              | Rebind paired \<Rightarrow>
                  (case if_update (ps_rows s) (with_neighbor (Some (NeighborInterface paired)) i) of
                     Err e \<Rightarrow> Err e
                   | Ok (rows, _) \<Rightarrow> Ok (s\<lparr>ps_rows := rows, ps_rebound := Suc (ps_rebound s)\<rparr>))
              | Reopen h \<Rightarrow>
                  finish_row C R host_of reciprocal original (with_neighbor (Some (NeighborHost h)) i)
                    (s\<lparr>ps_reopened := Suc (ps_reopened s)\<rparr>))
         | _ \<Rightarrow> finish_row C R host_of reciprocal original i s)"

fun resolve_rows ::
    "addr_codec \<Rightarrow> inventory \<Rightarrow> (uuid \<rightharpoonup> IdentityResolution) \<Rightarrow> (uuid \<rightharpoonup> uuid \<times> uuid) \<Rightarrow> Interface list
      \<Rightarrow> pass_state \<Rightarrow> (ingest_error, pass_state) result" where
  "resolve_rows C db host_of reciprocal [] s = Ok s"
| "resolve_rows C db host_of reciprocal (i # is) s =
     (case resolve_row C db host_of reciprocal i s of
        Err e \<Rightarrow> Err e | Ok s' \<Rightarrow> resolve_rows C db host_of reciprocal is s')"

definition resolve_lldp_links :: "addr_codec \<Rightarrow> inventory \<Rightarrow> uuid \<Rightarrow> (ingest_error, pass_state) result" where
  "resolve_lldp_links C db network =
     (let adj = build_neighbor_adjacency C db network in
      resolve_rows C db (adj_host_of adj) (adj_reciprocal adj) (adj_interfaces adj)
        \<lparr>ps_rows = inv_interfaces db, ps_stats = stats_default, ps_unmatched = [], ps_unresolved = [],
         ps_reopened = 0, ps_rebound = 0\<rparr>)"

definition fdb_neighbor :: "LldpResolver \<Rightarrow> uuid \<Rightarrow> Interface \<Rightarrow> Neighbor option" where
  "fdb_neighbor R network i =
     (case fdb_macs (if_base i) of
        Some [mac] \<Rightarrow>
          map_option (\<lambda>h. case find_if_entry_by_mac R mac h of Resolved p \<Rightarrow> NeighborInterface p | _ \<Rightarrow> NeighborHost h)
            (find_host_by_mac R mac network)
      | _ \<Rightarrow> None)"

fun resolve_fdb_rows ::
    "addr_codec \<Rightarrow> inventory \<Rightarrow> uuid \<Rightarrow> Interface list \<Rightarrow> Interface list \<times> nat
      \<Rightarrow> (ingest_error, Interface list \<times> nat) result" where
  "resolve_fdb_rows C db network [] s = Ok s"
| "resolve_fdb_rows C db network (i # is) s =
     (case fdb_neighbor (lldp_resolver C (db\<lparr>inv_interfaces := fst s\<rparr>)) network i of
        None \<Rightarrow> resolve_fdb_rows C db network is s
      | Some n \<Rightarrow>
          (case if_update (fst s) (with_neighbor (Some n) i) of
             Err e \<Rightarrow> Err e
           | Ok (rows, _) \<Rightarrow> resolve_fdb_rows C db network is (rows, Suc (snd s))))"

definition resolve_fdb_links :: "addr_codec \<Rightarrow> inventory \<Rightarrow> uuid \<Rightarrow> (ingest_error, Interface list \<times> nat) result" where
  "resolve_fdb_links C db network =
     resolve_fdb_rows C db network (filter (unresolved_fdb network) (inv_interfaces db)) (inv_interfaces db, 0)"

end
