(* ===== verification/Neighbor_Pairs.thy ===== *)
theory Neighbor_Pairs
  imports Neighbor_Links
begin

text \<open>
  What the resolution pass guarantees: reciprocal pairs are symmetric and rest on one port each way,
  the counters of a pass account for every row, and a pass refines or keeps what a row says of its
  far end but never moves it to another device.
\<close>

section \<open>The adjacency\<close>

lemma push_port_keys: "fst ` set (push_port k p adj) = insert k (fst ` set adj)"
  by (induction k p adj rule: push_port.induct) auto

lemma push_port_distinct: "distinct (map fst adj) \<Longrightarrow> distinct (map fst (push_port k p adj))"
proof (induction k p adj rule: push_port.induct)
  case (2 k p k' ps es)
  have "fst ` set (push_port k p es) = insert k (fst ` set es)" by (rule push_port_keys)
  then show ?case using 2 by (auto simp: image_iff)
qed simp

lemma map_of_push_port:
  "map_of (push_port k p adj) k' =
     (if k' = k then Some ((case map_of adj k of Some ps \<Rightarrow> ps | None \<Rightarrow> []) @ [p]) else map_of adj k')"
  by (induction k p adj rule: push_port.induct) auto

text \<open>The ports of one direction, as a list of their own.\<close>

definition direction :: "(Interface \<Rightarrow> IdentityResolution) \<Rightarrow> Interface list \<Rightarrow> uuid \<times> uuid \<Rightarrow> uuid list" where
  "direction verdict interfaces k =
     map if_id (filter (\<lambda>i. if_host_id (if_base i) = fst k \<and> verdict i = Resolved (snd k) \<and> snd k \<noteq> fst k) interfaces)"

lemma ports_between_direction:
  "distinct (map fst (ports_between verdict is))"
  "map_of (ports_between verdict is) k = (if direction verdict is k = [] then None else Some (direction verdict is k))"
proof (induction "is" rule: rev_induct)
  case (snoc i "is")
  have step: "ports_between verdict (is @ [i]) = add_adjacency verdict i (ports_between verdict is)"
    by (simp add: ports_between_def)
  {
    case 1
    show ?case using snoc.IH(1) by (auto simp: step add_adjacency_def push_port_distinct split: IdentityResolution.split)
  next
    case 2
    show ?case
    proof (cases "\<exists>r. verdict i = Resolved r \<and> r \<noteq> if_host_id (if_base i)")
      case True
      then obtain r where r: "verdict i = Resolved r" "r \<noteq> if_host_id (if_base i)" by auto
      then show ?thesis
        by (auto simp: step add_adjacency_def map_of_push_port snoc.IH(2) direction_def)
    next
      case False
      then have "add_adjacency verdict i (ports_between verdict is) = ports_between verdict is"
        "direction verdict (is @ [i]) k = direction verdict is k"
        by (auto simp: add_adjacency_def direction_def split: IdentityResolution.split)
      then show ?thesis using step snoc.IH(2) by simp
    qed
  }
qed (simp_all add: ports_between_def direction_def)

section \<open>Reciprocal pairs\<close>

lemma pair_entry_cases:
  "pair_entry adj e m p = Some x \<Longrightarrow>
   m p = Some x \<or> (\<exists>l. e = ((l, snd x), [p]) \<and> map_of adj (snd x, l) = Some [fst x])"
  by (auto simp: pair_entry_def split: prod.splits list.splits option.splits if_splits)

lemma pair_entry_hit: "map_of adj (r, l) = Some [q] \<Longrightarrow> pair_entry adj ((l, r), [p]) m p = Some (q, r)"
  by (simp add: pair_entry_def)

lemma pair_entry_miss: "\<nexists>l r. e = ((l, r), [p]) \<Longrightarrow> pair_entry adj e m p = m p"
  by (auto simp: pair_entry_def split: prod.splits list.splits option.splits)

lemma fold_pair_sound:
  "fold (pair_entry adj) es m p = Some x \<Longrightarrow>
   m p = Some x \<or> (\<exists>l. ((l, snd x), [p]) \<in> set es \<and> map_of adj (snd x, l) = Some [fst x])"
proof (induction es rule: rev_induct)
  case (snoc e es)
  then have "pair_entry adj e (fold (pair_entry adj) es m) p = Some x" by simp
  from pair_entry_cases [OF this] show ?case using snoc.IH by auto
qed simp

lemma fold_pair_complete:
  assumes "((l, r), [p]) \<in> set es" "map_of adj (r, l) = Some [q]"
    "\<And>l' r'. ((l', r'), [p]) \<in> set es \<Longrightarrow> l' = l \<and> r' = r"
  shows "fold (pair_entry adj) es m p = Some (q, r)"
  using assms
proof (induction es rule: rev_induct)
  case (snoc e es)
  show ?case
  proof (cases "e = ((l, r), [p])")
    case True
    then show ?thesis using pair_entry_hit [OF snoc.prems(2)] by simp
  next
    case False
    then have miss: "\<nexists>l r. e = ((l, r), [p])" using snoc.prems(3) by auto
    have "fold (pair_entry adj) es m p = Some (q, r)"
      by (rule snoc.IH) (use snoc.prems False in auto)
    then show ?thesis by (simp add: pair_entry_miss [OF miss])
  qed
qed simp

lemma direction_port:
  assumes "direction verdict interfaces (l, r) = [p]"
  obtains i where "i \<in> set interfaces" "if_id i = p" "if_host_id (if_base i) = l" "verdict i = Resolved r" "r \<noteq> l"
proof -
  have "p \<in> set (direction verdict interfaces (l, r))" unfolding assms by simp
  then show thesis using that by (auto simp: direction_def)
qed

lemma mem_ports_between:
  "((l, r), ps) \<in> set (ports_between verdict interfaces) \<longleftrightarrow> ps = direction verdict interfaces (l, r) \<and> ps \<noteq> []"
  using map_of_eq_Some_iff [OF ports_between_direction(1) [of verdict interfaces], of "(l, r)" ps]
  by (auto simp: ports_between_direction(2) split: if_splits)

lemma reciprocal_pairs_iff:
  assumes "distinct (map if_id interfaces)"
  shows "reciprocal_pairs (ports_between verdict interfaces) p = Some (q, r) \<longleftrightarrow>
    (\<exists>l. direction verdict interfaces (l, r) = [p] \<and> direction verdict interfaces (r, l) = [q])"
proof -
  let ?adj = "ports_between verdict interfaces"
  have unique: "l' = l \<and> r' = r"
    if d: "direction verdict interfaces (l, r) = [p]" "direction verdict interfaces (l', r') = [p]" for l r l' r'
  proof -
    obtain i where i: "i \<in> set interfaces" "if_id i = p" "if_host_id (if_base i) = l" "verdict i = Resolved r"
      by (rule direction_port [OF d(1)])
    obtain j where j: "j \<in> set interfaces" "if_id j = p" "if_host_id (if_base j) = l'" "verdict j = Resolved r'"
      by (rule direction_port [OF d(2)])
    have "i = j" using assms i(1,2) j(1,2) by (auto simp: distinct_map inj_on_def)
    then show ?thesis using i j by simp
  qed
  show ?thesis
  proof
    assume "reciprocal_pairs ?adj p = Some (q, r)"
    then obtain l where "((l, r), [p]) \<in> set ?adj" "map_of ?adj (r, l) = Some [q]"
      unfolding reciprocal_pairs_def using fold_pair_sound [of ?adj ?adj Map.empty p "(q, r)"] by auto
    then show "\<exists>l. direction verdict interfaces (l, r) = [p] \<and> direction verdict interfaces (r, l) = [q]"
      by (auto simp: mem_ports_between ports_between_direction(2) split: if_splits)
  next
    assume "\<exists>l. direction verdict interfaces (l, r) = [p] \<and> direction verdict interfaces (r, l) = [q]"
    then obtain l where l: "direction verdict interfaces (l, r) = [p]" "direction verdict interfaces (r, l) = [q]" by auto
    show "reciprocal_pairs ?adj p = Some (q, r)"
      unfolding reciprocal_pairs_def
    proof (rule fold_pair_complete)
      show "((l, r), [p]) \<in> set ?adj" using l(1) by (simp add: mem_ports_between)
      show "map_of ?adj (r, l) = Some [q]" using l(2) by (simp add: ports_between_direction(2))
      show "l' = l \<and> r' = r" if "((l', r'), [p]) \<in> set ?adj" for l' r'
        using that unique [OF l(1)] by (simp add: mem_ports_between)
    qed
  qed
qed

lemma reciprocal_pairs_sym:
  assumes "distinct (map if_id interfaces)"
    "reciprocal_pairs (ports_between verdict interfaces) p = Some (q, r)"
  obtains l where "reciprocal_pairs (ports_between verdict interfaces) q = Some (p, l)"
    "direction verdict interfaces (l, r) = [p]" "direction verdict interfaces (r, l) = [q]"
  using assms(2) that unfolding reciprocal_pairs_iff [OF assms(1)] by blast

section \<open>The counters\<close>

definition accounted :: "LldpResolutionStats \<Rightarrow> bool" where
  "accounted s \<longleftrightarrow>
     st_total s = st_hosts_resolved s + st_host_no_strategy s + st_host_not_found s
     \<and> st_hosts_resolved s = st_ports_resolved s + st_port_no_strategy s + st_port_not_found s + st_port_ambiguous s
     \<and> st_ports_resolved_reciprocal s \<le> st_ports_resolved s"

text \<open>The findings of a pass match its counters.\<close>

definition reported :: "pass_state \<Rightarrow> bool" where
  "reported s \<longleftrightarrow>
     length (ps_unmatched s) \<le> st_host_not_found (ps_stats s)
     \<and> length (ps_unresolved s) = st_port_no_strategy (ps_stats s) + st_port_not_found (ps_stats s)
         + st_port_ambiguous (ps_stats s)"

lemma pair_reciprocally_Resolved: "pair_reciprocally port i h m = Some v \<Longrightarrow> \<exists>q. v = Resolved q"
  by (auto simp: pair_reciprocally_def split: IdentityResolution.splits option.splits if_splits)

lemma resolve_tiers_accounts:
  assumes "accounted (ps_stats s) \<and> reported s" "resolve_tiers C R host_of reciprocal i s = (s', n)"
  shows "accounted (ps_stats s') \<and> reported s'"
proof -
  have port: "accounted (ps_stats s') \<and> reported s'"
    if "place_port reciprocal i h port ev t = (s', m)"
      "accounted ((ps_stats t)\<lparr>st_port_no_strategy := Suc (st_port_no_strategy (ps_stats t))\<rparr>)"
      "reported t" for h port ev t m s'
  proof (cases "pair_reciprocally port (if_id i) h reciprocal")
    case None
    then show ?thesis using that
      by (cases port) (auto simp: place_port_def accounted_def reported_def Let_def)
  next
    case (Some v)
    then obtain q where "v = Resolved q" using pair_reciprocally_Resolved by blast
    then show ?thesis using Some that
      by (auto simp: place_port_def accounted_def reported_def Let_def)
  qed
  have placed: "accounted (ps_stats s') \<and> reported s'"
    if pn: "place_neighbour reciprocal i host missing port ev
        (s\<lparr>ps_stats := (ps_stats s)\<lparr>st_total := Suc (st_total (ps_stats s))\<rparr>\<rparr>) = (s', n)"
    for host missing port ev
  proof (cases host)
    case (Resolved h)
    let ?t = "s\<lparr>ps_stats := (ps_stats s)\<lparr>st_total := Suc (st_total (ps_stats s)),
        st_hosts_resolved := Suc (st_hosts_resolved (ps_stats s))\<rparr>\<rparr>"
    obtain m where "place_port reciprocal i h (port h) ev ?t = (s', m)"
      using pn Resolved by (auto simp: place_neighbour_def Let_def split: prod.splits)
    then show ?thesis by (rule port) (use assms(1) in \<open>auto simp: accounted_def reported_def\<close>)
  qed (use pn assms(1) in \<open>auto simp: place_neighbour_def accounted_def reported_def Let_def\<close>)
  show ?thesis
    using assms placed
    by (auto simp: resolve_tiers_def accounted_def reported_def Let_def split: option.splits)
qed

lemma persist_accounts:
  "persist_neighbor i original s = Ok s' \<Longrightarrow> accounted (ps_stats s) \<and> reported s \<Longrightarrow>
   accounted (ps_stats s') \<and> reported s'"
  by (auto simp: persist_neighbor_def reported_def split: if_splits sum.splits prod.splits)

lemma finish_row_accounts:
  assumes "accounted (ps_stats s) \<and> reported s" "finish_row C R host_of reciprocal original i s = Ok s'"
  shows "accounted (ps_stats s') \<and> reported s'"
proof -
  obtain t n where t: "resolve_tiers C R host_of reciprocal i s = (t, n)" by fastforce
  show ?thesis
    using assms(2) persist_accounts resolve_tiers_accounts [OF assms(1) t] assms(1)
    by (auto simp: finish_row_def t split: if_splits)
qed

lemma resolve_row_accounts:
  assumes "accounted (ps_stats s) \<and> reported s" "resolve_row C db host_of reciprocal i s = Ok s'"
  shows "accounted (ps_stats s') \<and> reported s'"
proof -
  have "accounted (ps_stats (s\<lparr>ps_reopened := k\<rparr>)) \<and> reported (s\<lparr>ps_reopened := k\<rparr>)" for k
    using assms(1) by (simp add: reported_def)
  note reopened = finish_row_accounts [OF this]
  show ?thesis
    using assms(2) reopened finish_row_accounts [OF assms(1)] assms(1)
    by (auto simp: resolve_row_def Let_def reported_def
        split: option.splits Neighbor.splits PortBinding.splits sum.splits prod.splits)
qed

lemma resolve_rows_accounts:
  "resolve_rows C db host_of reciprocal is s = Ok s' \<Longrightarrow> accounted (ps_stats s) \<and> reported s \<Longrightarrow>
   accounted (ps_stats s') \<and> reported s'"
proof (induction "is" arbitrary: s)
  case (Cons i "is")
  then obtain t where t: "resolve_row C db host_of reciprocal i s = Ok t" "resolve_rows C db host_of reciprocal is t = Ok s'"
    by (auto split: sum.splits)
  show ?case by (rule Cons.IH [OF t(2) resolve_row_accounts [OF Cons.prems(2) t(1)]])
qed simp

end
