(* ===== verification/Neighbor_Stability.thy ===== *)
theory Neighbor_Stability
  imports Neighbor_Pairs
begin

text \<open>
  A resolution pass only writes neighbours, it always ends, and a row that named a device still
  names that device afterwards, at the same or at a better precision.
\<close>

section \<open>The far end of a row\<close>

definition far_host :: "Interface list \<Rightarrow> Neighbor option \<Rightarrow> uuid option" where
  "far_host rows n =
     (case n of
        None \<Rightarrow> None
      | Some (NeighborHost h) \<Rightarrow> Some h
      | Some (NeighborInterface p) \<Rightarrow> host_of_interface rows p)"

abbreviation erase :: "Interface \<Rightarrow> Interface" where
  "erase \<equiv> with_neighbor None"

definition kept :: "Interface list \<Rightarrow> Interface \<Rightarrow> Interface \<Rightarrow> bool" where
  "kept rows x y \<longleftrightarrow>
     erase y = erase x \<and> (\<forall>h. far_host rows (neighbor (if_base x)) = Some h \<longrightarrow> far_host rows (neighbor (if_base y)) = Some h)"

definition table_kept :: "Interface list \<Rightarrow> Interface list \<Rightarrow> bool" where
  "table_kept rows rows' \<longleftrightarrow> list_all2 (kept rows) rows rows'"

lemma kept_refl [simp]: "kept rows x x"
  by (simp add: kept_def)

lemma table_kept_refl: "table_kept rows rows"
  by (simp add: table_kept_def list_all2_refl)

lemma table_kept_erase: "table_kept rows rows' \<Longrightarrow> map erase rows' = map erase rows"
  unfolding table_kept_def by (induction rule: list_all2_induct) (auto simp: kept_def)

lemma erase_fields:
  assumes "erase y = erase x"
  shows "if_id y = if_id x" "if_valid_to y = if_valid_to x"
    "if_host_id (if_base y) = if_host_id (if_base x)" "if_network_id (if_base y) = if_network_id (if_base x)"
    "if_name (if_base y) = if_name (if_base x)" "if_ip_address_id (if_base y) = if_ip_address_id (if_base x)"
proof -
  have "if_id (erase y) = if_id (erase x)" "if_valid_to (erase y) = if_valid_to (erase x)"
    "if_host_id (if_base (erase y)) = if_host_id (if_base (erase x))"
    "if_network_id (if_base (erase y)) = if_network_id (if_base (erase x))"
    "if_name (if_base (erase y)) = if_name (if_base (erase x))"
    "if_ip_address_id (if_base (erase y)) = if_ip_address_id (if_base (erase x))"
    using assms by simp_all
  then show "if_id y = if_id x" "if_valid_to y = if_valid_to x"
    "if_host_id (if_base y) = if_host_id (if_base x)" "if_network_id (if_base y) = if_network_id (if_base x)"
    "if_name (if_base y) = if_name (if_base x)" "if_ip_address_id (if_base y) = if_ip_address_id (if_base x)"
    by simp_all
qed

section \<open>What does not depend on neighbours\<close>

lemma host_of_interface_erase: "host_of_interface (map erase rows) p = host_of_interface rows p"
  by (induction rows) (auto simp: host_of_interface_def live_row_def)

lemma port_on_host_erase:
  "port_on_host (db\<lparr>inv_interfaces := map erase rows\<rparr>) h p \<longleftrightarrow> port_on_host (db\<lparr>inv_interfaces := rows\<rparr>) h p"
  by (simp add: port_on_host_def)

lemma wf_inventory_erase:
  "wf_inventory (db\<lparr>inv_interfaces := map erase rows\<rparr>) \<longleftrightarrow> wf_inventory (db\<lparr>inv_interfaces := rows\<rparr>)"
  by (simp add: wf_inventory_def host_in_network_def)

lemma table_inv_erase: "table_inv (map erase rows) \<longleftrightarrow> table_inv rows"
  by (simp add: table_inv_def wf_table_def name_taken_def same_name_def comp_def)

lemma table_kept_facts:
  assumes "table_kept rows rows'"
  shows "host_of_interface rows' p = host_of_interface rows p"
    "port_on_host (db\<lparr>inv_interfaces := rows'\<rparr>) h p \<longleftrightarrow> port_on_host (db\<lparr>inv_interfaces := rows\<rparr>) h p"
    "wf_inventory (db\<lparr>inv_interfaces := rows'\<rparr>) \<longleftrightarrow> wf_inventory (db\<lparr>inv_interfaces := rows\<rparr>)"
    "table_inv rows' \<longleftrightarrow> table_inv rows"
proof -
  note e = table_kept_erase [OF assms]
  show "host_of_interface rows' p = host_of_interface rows p"
    by (subst (1 2) host_of_interface_erase [symmetric]) (simp only: e)
  show "port_on_host (db\<lparr>inv_interfaces := rows'\<rparr>) h p \<longleftrightarrow> port_on_host (db\<lparr>inv_interfaces := rows\<rparr>) h p"
    by (subst (1 2) port_on_host_erase [symmetric]) (simp only: e)
  show "wf_inventory (db\<lparr>inv_interfaces := rows'\<rparr>) \<longleftrightarrow> wf_inventory (db\<lparr>inv_interfaces := rows\<rparr>)"
    by (subst (1 2) wf_inventory_erase [symmetric]) (simp only: e)
  show "table_inv rows' \<longleftrightarrow> table_inv rows"
    by (subst (1 2) table_inv_erase [symmetric]) (simp only: e)
qed

lemma host_of_interface_port:
  assumes "table_inv rows" "port_on_host (db\<lparr>inv_interfaces := rows\<rparr>) h p"
  shows "host_of_interface rows p = Some h"
proof -
  obtain x where x: "x \<in> set rows" "if_id x = p" "if_live x" "if_host_id (if_base x) = h"
    using assms(2) by (auto simp: port_on_host_def)
  obtain y where y: "find (\<lambda>x. if_live x \<and> if_id x = p) rows = Some y"
    using x by (cases "find (\<lambda>x. if_live x \<and> if_id x = p) rows") (auto simp: find_None_iff)
  then have "y = x" using find_SomeD [OF y] table_inv_unique [OF assms(1), of y x] x by simp
  then show ?thesis using y x(4) by (simp add: host_of_interface_def live_row_def)
qed

lemma host_of_interface_SomeD:
  "host_of_interface rows p = Some h \<Longrightarrow> port_on_host (db\<lparr>inv_interfaces := rows\<rparr>) h p"
  by (auto simp: host_of_interface_def live_row_def port_on_host_def dest!: find_SomeD)

section \<open>Writing a neighbour\<close>

lemma write_kept:
  assumes inv: "table_inv rows" and t: "table_kept rows rows'" and i: "i \<in> set rows" and k: "kept rows i r"
  obtains rows'' where "if_update rows' r = Ok (rows'', r)" "table_kept rows rows''"
proof -
  have e: "erase r = erase i" using k unfolding kept_def by (rule conjunct1)
  note r = erase_fields(1) [OF e]
  have inv': "table_inv rows'" using table_kept_facts(4) [OF t] inv by simp
  have "map if_id rows' = map if_id rows"
    using arg_cong [OF table_kept_erase [OF t], of "map if_id"] by (simp add: comp_def)
  then have "if_id i \<in> set (map if_id rows')" using i by simp
  then obtain j where j: "j \<in> set rows'" "if_id j = if_id i" by auto
  have "\<not> name_taken rows' r"
  proof
    assume "name_taken rows' r"
    then obtain x where x: "x \<in> set rows'" "same_name x r" by (auto simp: name_taken_def)
    have "erase j = erase i"
    proof -
      have "erase j \<in> set (map erase rows')" "erase i \<in> set (map erase rows)"
        unfolding set_map by (intro imageI j(1) i)+
      then have "erase j \<in> set (map erase rows)" "erase i \<in> set (map erase rows)"
        unfolding table_kept_erase [OF t] by this+
      moreover have "table_inv (map erase rows)" using inv by (simp only: table_inv_erase)
      ultimately show ?thesis using table_inv_unique [of "map erase rows" "erase j" "erase i"] j(2) by simp
    qed
    then have "erase j = erase r" using e by (rule trans [OF _ sym])
    then have "same_name x j" using x(2) erase_fields [of j r] by (simp add: same_name_def)
    then show False using inv' x(1) j(1) by (auto simp: table_inv_def name_taken_def)
  qed
  moreover have "get_by_id if_id rows' (if_id r) \<noteq> None"
    using imageI [OF j(1), of if_id] j(2) r by (simp add: get_by_id_None)
  ultimately have "if_update rows' r = Ok (update_row if_id rows' r, r)" by (simp add: if_update_def)
  moreover have "table_kept rows (update_row if_id rows' r)"
    unfolding table_kept_def list_all2_conv_all_nth
  proof (intro conjI allI impI)
    show "length rows = length (update_row if_id rows' r)"
      using t by (simp add: table_kept_def update_row_def list_all2_lengthD)
  next
    fix n assume n: "n < length rows"
    then have n': "n < length rows'" and kn: "kept rows (rows ! n) (rows' ! n)"
      using t by (auto simp: table_kept_def list_all2_conv_all_nth)
    show "kept rows (rows ! n) (update_row if_id rows' r ! n)"
    proof (cases "if_id (rows' ! n) = if_id r")
      case True
      have "erase (rows' ! n) = erase (rows ! n)" using kn unfolding kept_def by (rule conjunct1)
      then have "if_id (rows ! n) = if_id i" using True r erase_fields(1) [of "rows' ! n" "rows ! n"] by simp
      then have "rows ! n = i" using table_inv_unique [OF inv nth_mem [OF n] i] by simp
      then show ?thesis using True n' k by (simp add: update_row_def)
    next
      case False
      then show ?thesis using n' kn by (simp add: update_row_def)
    qed
  qed
  ultimately show thesis by (rule that)
qed

section \<open>The tiers\<close>

lemma far_ports:
  assumes "wf_inventory db"
  shows "lldp_far_port (lldp_resolver C db) i h = Resolved p \<Longrightarrow> port_on_host db h p"
    "cdp_far_port (lldp_resolver C db) i h = Resolved p \<Longrightarrow> port_on_host db h p"
  using stored.resolved_port_on_host [OF assms] stored.port_by_name [OF assms]
  by (auto simp: lldp_far_port_def cdp_far_port_def found_def Let_def split: option.splits IdentityResolution.splits if_splits)

lemma place_port_result:
  assumes "place_port reciprocal i h port ev s = (s', n)"
  shows "ps_rows s' = ps_rows s"
    "n = NeighborHost h \<or> (\<exists>p. n = NeighborInterface p \<and> (port = Resolved p \<or> reciprocal (if_id i) = Some (p, h)))"
proof -
  have "snd (record_port v h st) = NeighborHost h \<or> (\<exists>p. snd (record_port v h st) = NeighborInterface p \<and> v = Resolved p)"
    for v st by (cases v) simp_all
  then show "ps_rows s' = ps_rows s"
    "n = NeighborHost h \<or> (\<exists>p. n = NeighborInterface p \<and> (port = Resolved p \<or> reciprocal (if_id i) = Some (p, h)))"
    using assms
    by (auto simp: place_port_def Let_def pair_reciprocally_def
        split: option.splits prod.splits IdentityResolution.splits if_splits)
qed

lemma place_neighbour_result:
  assumes "place_neighbour reciprocal i host missing port ev s = (s', n)"
  shows "ps_rows s' = ps_rows s \<and> (\<forall>m. n = Some m \<longrightarrow> (\<exists>h. host = Resolved h \<and> (m = NeighborHost h \<or>
       (\<exists>p. m = NeighborInterface p \<and> (port h = Resolved p \<or> reciprocal (if_id i) = Some (p, h))))))"
proof (cases host)
  case (Resolved h)
  let ?t = "s\<lparr>ps_stats := (ps_stats s)\<lparr>st_hosts_resolved := Suc (st_hosts_resolved (ps_stats s))\<rparr>\<rparr>"
  obtain m' where m': "place_port reciprocal i h (port h) ev ?t = (s', m')" "n = Some m'"
    using assms Resolved by (auto simp: place_neighbour_def Let_def split: prod.splits)
  show ?thesis using place_port_result [OF m'(1)] m'(2) Resolved by auto
qed (use assms in \<open>auto simp: place_neighbour_def Let_def\<close>)

lemma resolve_tiers_result:
  assumes "resolve_tiers C (lldp_resolver C db) host_of reciprocal i s = (s', n)" "wf_inventory db"
  shows "ps_rows s' = ps_rows s \<and> (\<forall>m. n = Some m \<longrightarrow> (\<exists>h. known_device host_of i = Resolved h \<and> (m = NeighborHost h \<or>
       (\<exists>p. m = NeighborInterface p \<and> (port_on_host db h p \<or> reciprocal (if_id i) = Some (p, h))))))"
proof (cases "lldp_chassis_id (if_base i)")
  case (Some c)
  let ?t = "s\<lparr>ps_stats := (ps_stats s)\<lparr>st_total := Suc (st_total (ps_stats s))\<rparr>\<rparr>"
  have "place_neighbour reciprocal i (known_device host_of i)
      (new_unmatched i (chassis_identifier (show_ip C) c) (lldp_sys_name (if_base i)))
      (lldp_far_port (lldp_resolver C db) i) (map_option LldpEvidence (lldp_port_id (if_base i))) ?t = (s', n)"
    using assms(1) Some by (simp add: resolve_tiers_def)
  from place_neighbour_result [OF this] show ?thesis using far_ports(1) [OF assms(2)] by fastforce
next
  case None
  then show ?thesis
  proof (cases "cdp_device_id (if_base i)")
    case (Some d)
    let ?t = "s\<lparr>ps_stats := (ps_stats s)\<lparr>st_total := Suc (st_total (ps_stats s))\<rparr>\<rparr>"
    have "place_neighbour reciprocal i (known_device host_of i) (new_unmatched i d None)
        (cdp_far_port (lldp_resolver C db) i) (map_option CdpEvidence (cdp_port_id (if_base i))) ?t = (s', n)"
      using assms(1) None Some by (simp add: resolve_tiers_def)
    from place_neighbour_result [OF this] show ?thesis using far_ports(2) [OF assms(2)] by fastforce
  qed (use assms(1) None in \<open>auto simp: resolve_tiers_def Let_def\<close>)
qed

section \<open>One row\<close>

text \<open>
  The facts about the pairs of a pass that its rows rely on: a pair of a row agrees with what the row
  says of its far end, and the paired port is a port of that device.
\<close>

definition pairs_sound :: "Interface list \<Rightarrow> (uuid \<rightharpoonup> uuid \<times> uuid) \<Rightarrow> bool" where
  "pairs_sound rows reciprocal \<longleftrightarrow>
     (\<forall>p q r. reciprocal p = Some (q, r) \<longrightarrow> host_of_interface rows q = Some r)
     \<and> (\<forall>i \<in> set rows. \<forall>q r h. reciprocal (if_id i) = Some (q, r) \<longrightarrow>
          far_host rows (neighbor (if_base i)) = Some h \<longrightarrow> r = h)"

lemma persist_kept:
  assumes "table_inv rows" "table_kept rows (ps_rows s)" "i \<in> set rows" "kept rows i r"
  obtains s' where "persist_neighbor r original s = Ok s'" "table_kept rows (ps_rows s')"
proof (cases "neighbor (if_base r) = original")
  case True
  then show thesis using that [of s] assms(2) by (simp add: persist_neighbor_def)
next
  case False
  obtain rows'' where "if_update (ps_rows s) r = Ok (rows'', r)" "table_kept rows rows''"
    by (rule write_kept [OF assms])
  then show thesis using that [of "s\<lparr>ps_rows := rows''\<rparr>"] False by (simp add: persist_neighbor_def)
qed

lemma finish_row_kept:
  assumes inv: "table_inv rows" and wf: "wf_inventory (db\<lparr>inv_interfaces := rows\<rparr>)"
    and t: "table_kept rows (ps_rows s)" and i: "i \<in> set rows" and pairs: "pairs_sound rows reciprocal"
    and n': "\<And>h. far_host rows (neighbor (if_base i)) = Some h \<Longrightarrow> n' = Some (NeighborHost h)"
  obtains s' where "finish_row C (lldp_resolver C (db\<lparr>inv_interfaces := ps_rows s\<rparr>)) host_of reciprocal original
      (with_neighbor n' i) s = Ok s'" "table_kept rows (ps_rows s')"
proof -
  let ?db = "db\<lparr>inv_interfaces := ps_rows s\<rparr>" and ?i = "with_neighbor n' i"
  have wf': "wf_inventory ?db" using table_kept_facts(3) [OF t] wf by simp
  have k: "kept rows i ?i" using n' by (auto simp: kept_def far_host_def)
  show thesis
  proof (cases "lldp_chassis_id (if_base i) = None \<and> cdp_device_id (if_base i) = None \<and> cdp_address (if_base i) = None")
    case True
    obtain s' where "persist_neighbor ?i original s = Ok s'" "table_kept rows (ps_rows s')"
      by (rule persist_kept [OF inv t i k])
    then show thesis using that True by (simp add: finish_row_def)
  next
    case False
    obtain u n where u: "resolve_tiers C (lldp_resolver C ?db) host_of reciprocal ?i s = (u, n)" by fastforce
    note tier = resolve_tiers_result [OF u wf']
    let ?r = "case n of Some m \<Rightarrow> with_neighbor (Some m) ?i | None \<Rightarrow> ?i"
    have "kept rows i ?r"
    proof (cases n)
      case (Some m)
      obtain d where d: "known_device host_of ?i = Resolved d"
          "m = NeighborHost d \<or> (\<exists>p. m = NeighborInterface p \<and> (port_on_host ?db d p \<or> reciprocal (if_id i) = Some (p, d)))"
        using tier Some by auto
      then have "far_host rows (Some m) = Some d"
        using host_of_interface_port [OF inv] table_kept_facts(2) [OF t] pairs
        by (auto simp: far_host_def pairs_sound_def)
      moreover have "d = h" if "far_host rows (neighbor (if_base i)) = Some h" for h
        using d(1) n' [OF that] by (simp add: known_device_def)
      ultimately show ?thesis using Some by (auto simp: kept_def)
    qed (simp add: k)
    then obtain s' where "persist_neighbor ?r original u = Ok s'" "table_kept rows (ps_rows s')"
      using persist_kept [OF inv _ i, of u ?r] tier t by metis
    then show thesis using that False u by (simp add: finish_row_def)
  qed
qed

lemma reopen_far_host:
  assumes "re_examine_port_binding C (db\<lparr>inv_interfaces := rows'\<rparr>) reciprocal i b = Reopen h" "table_kept rows rows'"
  shows "host_of_interface rows b = Some h"
proof -
  have "host_of_interface rows' b = Some h"
    using assms(1) by (auto simp: re_examine_port_binding_def host_of_interface_def split: option.splits if_splits prod.splits)
  then show ?thesis using table_kept_facts(1) [OF assms(2)] by simp
qed

lemma rebind_pair:
  "re_examine_port_binding C db reciprocal i b = Rebind p \<Longrightarrow> \<exists>r. reciprocal (if_id i) = Some (p, r)"
  by (auto simp: re_examine_port_binding_def split: option.splits if_splits prod.splits)

lemma resolve_row_kept:
  assumes inv: "table_inv rows" and wf: "wf_inventory (db\<lparr>inv_interfaces := rows\<rparr>)"
    and t: "table_kept rows (ps_rows s)" and i: "i \<in> set rows" and pairs: "pairs_sound rows reciprocal"
  obtains s' where "resolve_row C db host_of reciprocal i s = Ok s'" "table_kept rows (ps_rows s')"
proof (cases "\<exists>b. neighbor (if_base i) = Some (NeighborInterface b)")
  case False
  have same: "with_neighbor (neighbor (if_base i)) i = i" by simp
  obtain s' where "finish_row C (lldp_resolver C (db\<lparr>inv_interfaces := ps_rows s\<rparr>)) host_of reciprocal
      (neighbor (if_base i)) i s = Ok s'" "table_kept rows (ps_rows s')"
    by (rule finish_row_kept [OF inv wf t i pairs, of "neighbor (if_base i)", unfolded same])
       (use False in \<open>auto simp: far_host_def split: option.splits Neighbor.splits\<close>)
  moreover have "resolve_row C db host_of reciprocal i s =
      finish_row C (lldp_resolver C (db\<lparr>inv_interfaces := ps_rows s\<rparr>)) host_of reciprocal (neighbor (if_base i)) i s"
    using False by (auto simp: resolve_row_def Let_def split: option.split Neighbor.split)
  ultimately show thesis using that by simp
next
  case True
  then obtain b where b: "neighbor (if_base i) = Some (NeighborInterface b)" by auto
  let ?db = "db\<lparr>inv_interfaces := ps_rows s\<rparr>"
  show thesis
  proof (cases "re_examine_port_binding C ?db reciprocal i b")
    case Stands
    then show thesis using that [of s] t b by (simp add: resolve_row_def)
  next
    case (Rebind p)
    then obtain r where r: "reciprocal (if_id i) = Some (p, r)" using rebind_pair by blast
    have far: "far_host rows (Some (NeighborInterface p)) = Some r"
      using pairs r unfolding pairs_sound_def far_host_def by simp
    have agree: "r = h" if "far_host rows (neighbor (if_base i)) = Some h" for h
      using pairs i r that unfolding pairs_sound_def by blast
    have "kept rows i (with_neighbor (Some (NeighborInterface p)) i)"
      unfolding kept_def using far agree by simp
    then obtain rows'' where "if_update (ps_rows s) (with_neighbor (Some (NeighborInterface p)) i) =
        Ok (rows'', with_neighbor (Some (NeighborInterface p)) i)" "table_kept rows rows''"
      by (rule write_kept [OF inv t i])
    then show thesis
      using that [of "s\<lparr>ps_rows := rows'', ps_rebound := Suc (ps_rebound s)\<rparr>"] Rebind b by (simp add: resolve_row_def)
  next
    case (Reopen h)
    then have h: "far_host rows (neighbor (if_base i)) = Some h"
      using reopen_far_host [OF _ t] b by (simp add: far_host_def)
    let ?s = "s\<lparr>ps_reopened := Suc (ps_reopened s)\<rparr>"
    have t': "table_kept rows (ps_rows ?s)" using t by simp
    obtain s' where "finish_row C (lldp_resolver C (db\<lparr>inv_interfaces := ps_rows ?s\<rparr>)) host_of reciprocal
        (neighbor (if_base i)) (with_neighbor (Some (NeighborHost h)) i) ?s = Ok s'" "table_kept rows (ps_rows s')"
      by (rule finish_row_kept [OF inv wf t' i pairs, of "Some (NeighborHost h)"]) (use h in auto)
    then show thesis using that [of s'] Reopen b by (simp add: resolve_row_def)
  qed
qed

lemma resolve_rows_kept:
  assumes "table_inv rows" "wf_inventory (db\<lparr>inv_interfaces := rows\<rparr>)" "pairs_sound rows reciprocal"
    "table_kept rows (ps_rows s)" "set is \<subseteq> set rows"
  shows "\<exists>s'. resolve_rows C db host_of reciprocal is s = Ok s' \<and> table_kept rows (ps_rows s')"
  using assms(4,5)
proof (induction "is" arbitrary: s)
  case (Cons i "is")
  have i: "i \<in> set rows" using Cons.prems(2) by simp
  obtain t where t: "resolve_row C db host_of reciprocal i s = Ok t" "table_kept rows (ps_rows t)"
    by (rule resolve_row_kept [OF assms(1,2) Cons.prems(1) i assms(3)])
  show ?case using Cons.IH [OF t(2)] Cons.prems(2) t(1) by simp
qed simp

section \<open>The pass\<close>

lemma far_device_far_host:
  assumes "far_host (inv_interfaces db) (neighbor (if_base i)) = Some h"
  shows "far_device C db network i = Resolved h"
  using assms by (auto simp: far_device_def far_host_def found_def split: option.splits Neighbor.splits)

lemma build_pairs_sound:
  assumes inv: "table_inv (inv_interfaces db)"
  shows "pairs_sound (inv_interfaces db) (adj_reciprocal (build_neighbor_adjacency C db network))"
proof -
  let ?is = "filter (names_neighbour network) (inv_interfaces db)" and ?v = "far_device C db network"
  have d: "distinct (map if_id ?is)" using inv by (simp add: table_inv_def wf_table_def distinct_map_filter)
  have rec: "adj_reciprocal (build_neighbor_adjacency C db network) = reciprocal_pairs (ports_between ?v ?is)"
    by (simp add: build_neighbor_adjacency_def Let_def)
  have port: "host_of_interface (inv_interfaces db) q = Some r" if dir: "direction ?v ?is (r, l) = [q]" for q r l
  proof -
    obtain j where "j \<in> set ?is" "if_id j = q" "if_host_id (if_base j) = r" by (rule direction_port [OF dir])
    then have "port_on_host (db\<lparr>inv_interfaces := inv_interfaces db\<rparr>) r q"
      by (auto simp: port_on_host_def names_neighbour_def)
    then show ?thesis by (rule host_of_interface_port [OF inv])
  qed
  have agree: "r = h" if dir: "direction ?v ?is (l, r) = [if_id i]" and i: "i \<in> set (inv_interfaces db)"
      and far: "far_host (inv_interfaces db) (neighbor (if_base i)) = Some h" for i l r h
  proof -
    obtain j where j: "j \<in> set ?is" "if_id j = if_id i" "?v j = Resolved r" by (rule direction_port [OF dir])
    then have "j = i" using table_inv_unique [OF inv _ i, of j] by simp
    then show ?thesis using far_device_far_host [OF far] j(3) by simp
  qed
  show ?thesis unfolding pairs_sound_def rec
  proof (intro conjI allI ballI impI)
    fix p q r assume "reciprocal_pairs (ports_between ?v ?is) p = Some (q, r)"
    then show "host_of_interface (inv_interfaces db) q = Some r"
      unfolding reciprocal_pairs_iff [OF d] using port by blast
  next
    fix i q r h
    assume "i \<in> set (inv_interfaces db)" "reciprocal_pairs (ports_between ?v ?is) (if_id i) = Some (q, r)"
      "far_host (inv_interfaces db) (neighbor (if_base i)) = Some h"
    then show "r = h" unfolding reciprocal_pairs_iff [OF d] using agree by blast
  qed
qed

lemma pass_kept:
  assumes "table_inv (inv_interfaces db)" "wf_inventory db"
  shows "\<exists>s. resolve_lldp_links C db network = Ok s \<and> table_kept (inv_interfaces db) (ps_rows s)"
proof -
  have wf: "wf_inventory (db\<lparr>inv_interfaces := inv_interfaces db\<rparr>)" using assms(2) by simp
  show ?thesis
    unfolding resolve_lldp_links_def Let_def
    by (rule resolve_rows_kept [OF assms(1) wf build_pairs_sound [OF assms(1)]])
       (simp_all add: table_kept_refl build_neighbor_adjacency_def Let_def)
qed

section \<open>A port id and the pairs disagree\<close>

text \<open>
  Two switches that name each other on one port each. Port 11 advertises a port id that names port 22
  of the other switch, which answers on port 21. The first pass binds port 11 to port 22; the second
  moves it to port 21.
\<close>

definition demo_codec :: addr_codec where
  "demo_codec = \<lparr>read_mac = (\<lambda>_. None), show_mac = (\<lambda>_. []), show_ip = (\<lambda>_. [])\<rparr>"

definition demo_switch :: "uuid \<Rightarrow> string \<Rightarrow> Host" where
  "demo_switch i chassis = new_host i 0 (host_base_default\<lparr>host_network_id := 9, chassis_id := Some chassis\<rparr>)"

definition demo_port :: "uuid \<Rightarrow> uuid \<Rightarrow> string \<Rightarrow> LldpChassisId option \<Rightarrow> LldpPortId option \<Rightarrow> Interface" where
  "demo_port host i name chassis port = new_interface i 0
     (interface_base_default\<lparr>if_host_id := host, if_network_id := 9, if_descr := name,
        lldp_chassis_id := chassis, lldp_port_id := port\<rparr>)"

definition demo_network :: inventory where
  "demo_network =
     \<lparr>inv_hosts = [demo_switch 1 ''A'', demo_switch 2 ''B''],
      inv_interfaces =
        [demo_port 1 11 ''a1'' (Some (ChassisComponent ''B'')) (Some (PortInterfaceName ''b2'')),
         demo_port 2 21 ''b1'' (Some (ChassisComponent ''A'')) None,
         demo_port 2 22 ''b2'' None None],
      inv_ips = []\<rparr>"

definition neighbours_after :: "(ingest_error, pass_state) result \<Rightarrow> Neighbor option list" where
  "neighbours_after r = (case r of Ok s \<Rightarrow> map (\<lambda>i. neighbor (if_base i)) (ps_rows s) | Err _ \<Rightarrow> [])"

definition second_pass :: "addr_codec \<Rightarrow> inventory \<Rightarrow> uuid \<Rightarrow> (ingest_error, pass_state) result" where
  "second_pass C db network =
     (case resolve_lldp_links C db network of
        Ok s \<Rightarrow> resolve_lldp_links C (db\<lparr>inv_interfaces := ps_rows s\<rparr>) network | Err e \<Rightarrow> Err e)"

lemma pairs_displace_port_id:
  "neighbours_after (resolve_lldp_links demo_codec demo_network 9) =
     [Some (NeighborInterface 22), Some (NeighborInterface 11), None]"
  "neighbours_after (second_pass demo_codec demo_network 9) =
     [Some (NeighborInterface 21), Some (NeighborInterface 11), None]"
  by code_simp+

end
