(* ===== verification/Interface_Rows.thy ===== *)
theory Interface_Rows
  imports Interfaces "HOL-Library.Monad_Syntax"
begin

text \<open>
  How an interface reaches its table row and comes back
  (\<^verbatim>\<open>backend/src/server/shared/storage/pg_value.rs\<close> and \<open>to_params\<close>, \<open>from_row\<close> of
  \<^verbatim>\<open>backend/src/server/interfaces/impl/storage.rs\<close>). Text and \<open>jsonb\<close> values are stripped of NULs
  on the way in, because the database cannot hold them. The text forms of addresses and UUIDs are
  those of their crates, and the precision of a timestamp is that of the database, which keeps whole
  microseconds (\<^verbatim>\<open>hosts/service/update.rs\<close> compares timestamps accordingly): \<open>text_codec\<close> carries
  them, and \<open>codec_ok\<close> is what the round trip relies on (an address or UUID is read back from its
  text, which holds no NUL; a timestamp is stored as a whole number of microseconds, less than a
  microsecond away, and exactly if it is one).
\<close>

section \<open>JSON\<close>

datatype json =
    JNull | JBool bool | JNumber int | JString string | JArray "json list"
  | JObject "(string \<times> json) list"

fun clean_json :: "json \<Rightarrow> json" where
  "clean_json (JString s) = JString (strip_nuls s)"
| "clean_json (JArray items) = JArray (map clean_json items)"
| "clean_json (JObject kvs) = JObject (map (\<lambda>(k, v). (strip_nuls k, clean_json v)) kvs)"
| "clean_json JNull = JNull"
| "clean_json (JBool b) = JBool b"
| "clean_json (JNumber n) = JNumber n"

fun nul_free :: "json \<Rightarrow> bool" where
  "nul_free (JString s) \<longleftrightarrow> CHR 0x00 \<notin> set s"
| "nul_free (JArray items) \<longleftrightarrow> (\<forall>j \<in> set items. nul_free j)"
| "nul_free (JObject kvs) \<longleftrightarrow> (\<forall>(k, v) \<in> set kvs. CHR 0x00 \<notin> set k \<and> nul_free v)"
| "nul_free _ \<longleftrightarrow> True"

lemma clean_json_nul_free: "nul_free (clean_json j)"
  by (induction j rule: clean_json.induct) auto

lemma clean_json_clean: "nul_free j \<Longrightarrow> clean_json j = j"
  by (induction j rule: clean_json.induct) (auto intro!: map_idI)

record text_codec =
  ip_text :: "IpAddr \<Rightarrow> string"
  parse_ip :: "string \<Rightarrow> IpAddr option"
  uuid_text :: "uuid \<Rightarrow> string"
  parse_uuid :: "string \<Rightarrow> uuid option"
  stored_time :: "datetime \<Rightarrow> datetime"

definition codec_ok :: "text_codec \<Rightarrow> bool" where
  "codec_ok c \<longleftrightarrow>
     (\<forall>a. parse_ip c (ip_text c a) = Some a \<and> CHR 0x00 \<notin> set (ip_text c a))
   \<and> (\<forall>u. parse_uuid c (uuid_text c u) = Some u \<and> CHR 0x00 \<notin> set (uuid_text c u))
   \<and> (\<forall>t. stored_time c t mod 1000 = 0 \<and> \<bar>stored_time c t - t\<bar> < 1000)"

text \<open>Serde's adjacently tagged form: the variant under \<open>subtype\<close>, its payload under \<open>value\<close>.\<close>

definition tagged :: "string \<Rightarrow> string \<Rightarrow> json" where
  "tagged variant payload = JObject [(''subtype'', JString variant), (''value'', JString payload)]"

definition untag :: "json \<Rightarrow> (string \<times> string) option" where
  "untag j =
     (case j of
        JObject kvs \<Rightarrow>
          (case (map_of kvs ''subtype'', map_of kvs ''value'') of
             (Some (JString variant), Some (JString payload)) \<Rightarrow> Some (variant, payload) | _ \<Rightarrow> None)
      | _ \<Rightarrow> None)"

fun chassis_json :: "text_codec \<Rightarrow> LldpChassisId \<Rightarrow> json" where
  "chassis_json c (ChassisComponent s) = tagged ''ChassisComponent'' s"
| "chassis_json c (ChassisInterfaceAlias s) = tagged ''InterfaceAlias'' s"
| "chassis_json c (ChassisPortComponent s) = tagged ''PortComponent'' s"
| "chassis_json c (ChassisMacAddress s) = tagged ''MacAddress'' s"
| "chassis_json c (ChassisNetworkAddress a) = tagged ''NetworkAddress'' (ip_text c a)"
| "chassis_json c (ChassisInterfaceName s) = tagged ''InterfaceName'' s"
| "chassis_json c (ChassisLocallyAssigned s) = tagged ''LocallyAssigned'' s"

definition chassis_of_json :: "text_codec \<Rightarrow> json \<Rightarrow> LldpChassisId option" where
  "chassis_of_json c j =
     Option.bind (untag j) (\<lambda>(v, s).
       if v = ''ChassisComponent'' then Some (ChassisComponent s)
       else if v = ''InterfaceAlias'' then Some (ChassisInterfaceAlias s)
       else if v = ''PortComponent'' then Some (ChassisPortComponent s)
       else if v = ''MacAddress'' then Some (ChassisMacAddress s)
       else if v = ''NetworkAddress'' then map_option ChassisNetworkAddress (parse_ip c s)
       else if v = ''InterfaceName'' then Some (ChassisInterfaceName s)
       else if v = ''LocallyAssigned'' then Some (ChassisLocallyAssigned s)
       else None)"

fun port_json :: "text_codec \<Rightarrow> LldpPortId \<Rightarrow> json" where
  "port_json c (PortInterfaceAlias s) = tagged ''InterfaceAlias'' s"
| "port_json c (PortComponent s) = tagged ''PortComponent'' s"
| "port_json c (PortMacAddress s) = tagged ''MacAddress'' s"
| "port_json c (PortNetworkAddress a) = tagged ''NetworkAddress'' (ip_text c a)"
| "port_json c (PortInterfaceName s) = tagged ''InterfaceName'' s"
| "port_json c (AgentCircuitId s) = tagged ''AgentCircuitId'' s"
| "port_json c (PortLocallyAssigned s) = tagged ''LocallyAssigned'' s"

definition port_of_json :: "text_codec \<Rightarrow> json \<Rightarrow> LldpPortId option" where
  "port_of_json c j =
     Option.bind (untag j) (\<lambda>(v, s).
       if v = ''InterfaceAlias'' then Some (PortInterfaceAlias s)
       else if v = ''PortComponent'' then Some (PortComponent s)
       else if v = ''MacAddress'' then Some (PortMacAddress s)
       else if v = ''NetworkAddress'' then map_option PortNetworkAddress (parse_ip c s)
       else if v = ''InterfaceName'' then Some (PortInterfaceName s)
       else if v = ''AgentCircuitId'' then Some (AgentCircuitId s)
       else if v = ''LocallyAssigned'' then Some (PortLocallyAssigned s)
       else None)"

fun string_of_json :: "json \<Rightarrow> string option" where
  "string_of_json (JString s) = Some s"
| "string_of_json _ = None"

definition vec_of_json :: "(json \<Rightarrow> 'a option) \<Rightarrow> json \<Rightarrow> 'a list option" where
  "vec_of_json f j = (case j of JArray items \<Rightarrow> collect_options (map f items) | _ \<Rightarrow> None)"

definition strings_json :: "string list \<Rightarrow> json" where
  "strings_json ss = JArray (map JString ss)"

definition uuids_json :: "text_codec \<Rightarrow> uuid list \<Rightarrow> json" where
  "uuids_json c us = JArray (map (\<lambda>u. JString (uuid_text c u)) us)"

definition uuids_of_json :: "text_codec \<Rightarrow> json \<Rightarrow> uuid list option" where
  "uuids_of_json c = vec_of_json (\<lambda>j. Option.bind (string_of_json j) (parse_uuid c))"

section \<open>Column values\<close>

datatype SqlValue =
    SqlUuid uuid | SqlOptionalUuid "uuid option" | SqlString string
  | SqlOptionalString "string option" | SqlI32 int | SqlOptionalI64 "int option"
  | SqlTimestamp datetime | SqlOptionTimestamp "datetime option"
  | SqlOptionalIpAddr "IpAddr option" | SqlOptionalMacAddress "MacAddress option"
  | SqlOptionalLldpChassisId "LldpChassisId option" | SqlOptionalLldpPortId "LldpPortId option"
  | SqlOptionalFdbMacs "string list option" | SqlOptionVecUuid "uuid list option"

text \<open>What the database receives.\<close>

datatype Bound =
    BText string | BOptText "string option" | BOptJson "json option" | BUuid uuid
  | BOptUuid "uuid option" | BI32 int | BOptI64 "int option" | BTimestamp datetime
  | BOptTimestamp "datetime option" | BOptIpNet "IpAddr option" | BOptMac "MacAddress option"

fun to_bound :: "text_codec \<Rightarrow> SqlValue \<Rightarrow> Bound" where
  "to_bound c (SqlString v) = BText (strip_nuls v)"
| "to_bound c (SqlOptionalString v) = BOptText (map_option strip_nuls v)"
| "to_bound c (SqlOptionalLldpChassisId v) = BOptJson (map_option (\<lambda>x. clean_json (chassis_json c x)) v)"
| "to_bound c (SqlOptionalLldpPortId v) = BOptJson (map_option (\<lambda>x. clean_json (port_json c x)) v)"
| "to_bound c (SqlOptionalFdbMacs v) = BOptJson (map_option (\<lambda>x. clean_json (strings_json x)) v)"
| "to_bound c (SqlOptionVecUuid v) = BOptJson (map_option (\<lambda>x. clean_json (uuids_json c x)) v)"
| "to_bound c (SqlUuid v) = BUuid v"
| "to_bound c (SqlOptionalUuid v) = BOptUuid v"
| "to_bound c (SqlI32 v) = BI32 v"
| "to_bound c (SqlOptionalI64 v) = BOptI64 v"
| "to_bound c (SqlTimestamp v) = BTimestamp (stored_time c v)"
| "to_bound c (SqlOptionTimestamp v) = BOptTimestamp (map_option (stored_time c) v)"
| "to_bound c (SqlOptionalIpAddr v) = BOptIpNet v"
| "to_bound c (SqlOptionalMacAddress v) = BOptMac v"

fun storable :: "Bound \<Rightarrow> bool" where
  "storable (BText s) \<longleftrightarrow> CHR 0x00 \<notin> set s"
| "storable (BOptText (Some s)) \<longleftrightarrow> CHR 0x00 \<notin> set s"
| "storable (BOptJson (Some j)) \<longleftrightarrow> nul_free j"
| "storable _ \<longleftrightarrow> True"

lemma to_bound_storable: "storable (to_bound c v)"
proof (cases v)
  case (SqlOptionalString t) then show ?thesis by (cases t) auto
next
  case (SqlOptionalLldpChassisId t) then show ?thesis by (cases t) (auto simp: clean_json_nul_free)
next
  case (SqlOptionalLldpPortId t) then show ?thesis by (cases t) (auto simp: clean_json_nul_free)
next
  case (SqlOptionalFdbMacs t) then show ?thesis by (cases t) (auto simp: clean_json_nul_free)
next
  case (SqlOptionVecUuid t) then show ?thesis by (cases t) (auto simp: clean_json_nul_free)
qed simp_all

section \<open>Writing a row\<close>

fun neighbor_columns :: "Neighbor option \<Rightarrow> uuid option \<times> uuid option" where
  "neighbor_columns (Some (NeighborInterface i)) = (Some i, None)"
| "neighbor_columns (Some (NeighborHost h)) = (None, Some h)"
| "neighbor_columns None = (None, None)"

definition interface_columns :: "string list" where
  "interface_columns =
    [''id'', ''host_id'', ''network_id'', ''if_index'', ''if_descr'', ''if_name'', ''if_alias'',
     ''if_type'', ''speed_bps'', ''admin_status'', ''oper_status'', ''mac_address'',
     ''ip_address_id'', ''neighbor_interface_id'', ''neighbor_host_id'', ''lldp_chassis_id'',
     ''lldp_port_id'', ''lldp_sys_name'', ''lldp_port_desc'', ''lldp_mgmt_addr'',
     ''lldp_sys_desc'', ''cdp_device_id'', ''cdp_port_id'', ''cdp_platform'', ''cdp_address'',
     ''fdb_macs'', ''native_vlan_id'', ''vlan_ids'', ''created_at'', ''updated_at'',
     ''valid_from'', ''valid_to'', ''lineage_id'', ''last_seen_at'', ''last_discovery_id'',
     ''first_discovery_id'']"

definition interface_values :: "Interface \<Rightarrow> SqlValue list" where
  "interface_values i =
     (let b = if_base i in
      [SqlUuid (if_id i), SqlUuid (if_host_id b), SqlUuid (if_network_id b), SqlI32 (if_index b),
       SqlString (if_descr b), SqlOptionalString (if_name b), SqlOptionalString (if_alias b),
       SqlI32 (if_type b), SqlOptionalI64 (speed_bps b),
       SqlI32 (admin_status_i32 (admin_status b)), SqlI32 (oper_status_i32 (oper_status b)),
       SqlOptionalMacAddress (if_mac_address b), SqlOptionalUuid (if_ip_address_id b),
       SqlOptionalUuid (fst (neighbor_columns (neighbor b))),
       SqlOptionalUuid (snd (neighbor_columns (neighbor b))),
       SqlOptionalLldpChassisId (lldp_chassis_id b), SqlOptionalLldpPortId (lldp_port_id b),
       SqlOptionalString (lldp_sys_name b), SqlOptionalString (lldp_port_desc b),
       SqlOptionalIpAddr (lldp_mgmt_addr b), SqlOptionalString (lldp_sys_desc b),
       SqlOptionalString (cdp_device_id b), SqlOptionalString (cdp_port_id b),
       SqlOptionalString (cdp_platform b), SqlOptionalIpAddr (cdp_address b),
       SqlOptionalFdbMacs (fdb_macs b), SqlOptionalUuid (native_vlan_id b),
       SqlOptionVecUuid (vlan_ids b), SqlTimestamp (if_created_at i),
       SqlTimestamp (if_updated_at i), SqlTimestamp (if_valid_from i),
       SqlOptionTimestamp (if_valid_to i), SqlOptionalUuid (if_lineage_id i),
       SqlTimestamp (if_last_seen_at i), SqlOptionalUuid (if_last_discovery_id i),
       SqlOptionalUuid (if_first_discovery_id i)])"

definition to_params :: "Interface \<Rightarrow> string list \<times> SqlValue list" where
  "to_params i = (interface_columns, interface_values i)"

text \<open>The stored row: each column with the value bound to it.\<close>

definition write_row :: "text_codec \<Rightarrow> Interface \<Rightarrow> (string \<times> Bound) list" where
  "write_row c i = (let (columns, vals) = to_params i in zip columns (map (to_bound c) vals))"

section \<open>Reading a row\<close>

text \<open>
  A column read at the wrong type is an error (\<open>None\<close>); \<open>row.get\<close> panics there and
  \<open>try_get(...).ok()\<close> gives no value.
\<close>

type_synonym pg_row = "string \<rightharpoonup> Bound"

definition read_uuid :: "pg_row \<Rightarrow> string \<Rightarrow> uuid option" where
  "read_uuid row k = (case row k of Some (BUuid v) \<Rightarrow> Some v | _ \<Rightarrow> None)"

definition read_opt_uuid :: "pg_row \<Rightarrow> string \<Rightarrow> uuid option option" where
  "read_opt_uuid row k = (case row k of Some (BOptUuid v) \<Rightarrow> Some v | _ \<Rightarrow> None)"

definition read_text :: "pg_row \<Rightarrow> string \<Rightarrow> string option" where
  "read_text row k = (case row k of Some (BText v) \<Rightarrow> Some v | _ \<Rightarrow> None)"

definition read_opt_text :: "pg_row \<Rightarrow> string \<Rightarrow> string option option" where
  "read_opt_text row k = (case row k of Some (BOptText v) \<Rightarrow> Some v | _ \<Rightarrow> None)"

definition read_i32 :: "pg_row \<Rightarrow> string \<Rightarrow> int option" where
  "read_i32 row k = (case row k of Some (BI32 v) \<Rightarrow> Some v | _ \<Rightarrow> None)"

definition read_opt_i64 :: "pg_row \<Rightarrow> string \<Rightarrow> int option option" where
  "read_opt_i64 row k = (case row k of Some (BOptI64 v) \<Rightarrow> Some v | _ \<Rightarrow> None)"

definition read_time :: "pg_row \<Rightarrow> string \<Rightarrow> datetime option" where
  "read_time row k = (case row k of Some (BTimestamp v) \<Rightarrow> Some v | _ \<Rightarrow> None)"

definition read_opt_time :: "pg_row \<Rightarrow> string \<Rightarrow> datetime option option" where
  "read_opt_time row k = (case row k of Some (BOptTimestamp v) \<Rightarrow> Some v | _ \<Rightarrow> None)"

definition read_opt_mac :: "pg_row \<Rightarrow> string \<Rightarrow> MacAddress option option" where
  "read_opt_mac row k = (case row k of Some (BOptMac v) \<Rightarrow> Some v | _ \<Rightarrow> None)"

definition read_opt_json :: "pg_row \<Rightarrow> string \<Rightarrow> json option option" where
  "read_opt_json row k = (case row k of Some (BOptJson v) \<Rightarrow> Some v | _ \<Rightarrow> None)"

definition try_ip :: "pg_row \<Rightarrow> string \<Rightarrow> IpAddr option" where
  "try_ip row k = (case row k of Some (BOptIpNet v) \<Rightarrow> v | _ \<Rightarrow> None)"

definition try_json :: "pg_row \<Rightarrow> string \<Rightarrow> json option" where
  "try_json row k = (case row k of Some (BOptJson v) \<Rightarrow> v | _ \<Rightarrow> None)"

fun neighbor_of_columns :: "uuid option \<Rightarrow> uuid option \<Rightarrow> Neighbor option" where
  "neighbor_of_columns (Some i) _ = Some (NeighborInterface i)"
| "neighbor_of_columns None (Some h) = Some (NeighborHost h)"
| "neighbor_of_columns None None = None"

definition read_json :: "(json \<Rightarrow> 'a option) \<Rightarrow> json option \<Rightarrow> 'a option" where
  "read_json f v = Option.bind v (\<lambda>j. if j = JNull then None else f j)"

definition from_row :: "text_codec \<Rightarrow> pg_row \<Rightarrow> Interface option" where
  "from_row c row = do {
     admin \<leftarrow> read_i32 row ''admin_status'';
     oper \<leftarrow> read_i32 row ''oper_status'';
     speed \<leftarrow> read_opt_i64 row ''speed_bps'';
     mac \<leftarrow> read_opt_mac row ''mac_address'';
     n_if \<leftarrow> read_opt_uuid row ''neighbor_interface_id'';
     n_host \<leftarrow> read_opt_uuid row ''neighbor_host_id'';
     chassis \<leftarrow> read_opt_json row ''lldp_chassis_id'';
     port \<leftarrow> read_opt_json row ''lldp_port_id'';
     i \<leftarrow> read_uuid row ''id'';
     created \<leftarrow> read_time row ''created_at'';
     updated \<leftarrow> read_time row ''updated_at'';
     v_from \<leftarrow> read_time row ''valid_from'';
     v_to \<leftarrow> read_opt_time row ''valid_to'';
     lineage \<leftarrow> read_opt_uuid row ''lineage_id'';
     seen \<leftarrow> read_time row ''last_seen_at'';
     last_d \<leftarrow> read_opt_uuid row ''last_discovery_id'';
     first_d \<leftarrow> read_opt_uuid row ''first_discovery_id'';
     host \<leftarrow> read_uuid row ''host_id'';
     net \<leftarrow> read_uuid row ''network_id'';
     idx \<leftarrow> read_i32 row ''if_index'';
     descr \<leftarrow> read_text row ''if_descr'';
     nm \<leftarrow> read_opt_text row ''if_name'';
     alias \<leftarrow> read_opt_text row ''if_alias'';
     ty \<leftarrow> read_i32 row ''if_type'';
     ip \<leftarrow> read_opt_uuid row ''ip_address_id'';
     sysn \<leftarrow> read_opt_text row ''lldp_sys_name'';
     pdesc \<leftarrow> read_opt_text row ''lldp_port_desc'';
     sysd \<leftarrow> read_opt_text row ''lldp_sys_desc'';
     cdev \<leftarrow> read_opt_text row ''cdp_device_id'';
     cport \<leftarrow> read_opt_text row ''cdp_port_id'';
     cplat \<leftarrow> read_opt_text row ''cdp_platform'';
     nvlan \<leftarrow> read_opt_uuid row ''native_vlan_id'';
     Some \<lparr>if_id = i, if_created_at = created, if_updated_at = updated, if_valid_from = v_from,
       if_valid_to = v_to, if_lineage_id = lineage, if_last_seen_at = seen,
       if_last_discovery_id = last_d, if_first_discovery_id = first_d,
       if_base = \<lparr>if_host_id = host, if_network_id = net, if_index = idx, if_descr = descr,
         if_name = nm, if_alias = alias, if_type = ty, speed_bps = speed,
         admin_status = admin_status_from_i32 admin, oper_status = oper_status_from_i32 oper,
         if_mac_address = mac, if_ip_address_id = ip,
         neighbor = neighbor_of_columns n_if n_host,
         lldp_chassis_id = read_json (chassis_of_json c) chassis,
         lldp_port_id = read_json (port_of_json c) port,
         lldp_sys_name = sysn, lldp_port_desc = pdesc,
         lldp_mgmt_addr = try_ip row ''lldp_mgmt_addr'', lldp_sys_desc = sysd,
         cdp_device_id = cdev, cdp_port_id = cport, cdp_platform = cplat,
         cdp_address = try_ip row ''cdp_address'',
         fdb_macs = read_json (vec_of_json string_of_json) (try_json row ''fdb_macs''),
         native_vlan_id = nvlan,
         vlan_ids = read_json (uuids_of_json c) (try_json row ''vlan_ids'')\<rparr>\<rparr>
   }"

section \<open>The round trip\<close>

text \<open>What is left of an interface once every text in it is stripped of NULs.\<close>

fun strip_chassis :: "LldpChassisId \<Rightarrow> LldpChassisId" where
  "strip_chassis (ChassisComponent s) = ChassisComponent (strip_nuls s)"
| "strip_chassis (ChassisInterfaceAlias s) = ChassisInterfaceAlias (strip_nuls s)"
| "strip_chassis (ChassisPortComponent s) = ChassisPortComponent (strip_nuls s)"
| "strip_chassis (ChassisMacAddress s) = ChassisMacAddress (strip_nuls s)"
| "strip_chassis (ChassisNetworkAddress a) = ChassisNetworkAddress a"
| "strip_chassis (ChassisInterfaceName s) = ChassisInterfaceName (strip_nuls s)"
| "strip_chassis (ChassisLocallyAssigned s) = ChassisLocallyAssigned (strip_nuls s)"

fun strip_port :: "LldpPortId \<Rightarrow> LldpPortId" where
  "strip_port (PortInterfaceAlias s) = PortInterfaceAlias (strip_nuls s)"
| "strip_port (PortComponent s) = PortComponent (strip_nuls s)"
| "strip_port (PortMacAddress s) = PortMacAddress (strip_nuls s)"
| "strip_port (PortNetworkAddress a) = PortNetworkAddress a"
| "strip_port (PortInterfaceName s) = PortInterfaceName (strip_nuls s)"
| "strip_port (AgentCircuitId s) = AgentCircuitId (strip_nuls s)"
| "strip_port (PortLocallyAssigned s) = PortLocallyAssigned (strip_nuls s)"

definition strip_base :: "InterfaceBase \<Rightarrow> InterfaceBase" where
  "strip_base b = b\<lparr>if_descr := strip_nuls (if_descr b), if_name := map_option strip_nuls (if_name b),
     if_alias := map_option strip_nuls (if_alias b),
     lldp_chassis_id := map_option strip_chassis (lldp_chassis_id b),
     lldp_port_id := map_option strip_port (lldp_port_id b),
     lldp_sys_name := map_option strip_nuls (lldp_sys_name b),
     lldp_port_desc := map_option strip_nuls (lldp_port_desc b),
     lldp_sys_desc := map_option strip_nuls (lldp_sys_desc b),
     cdp_device_id := map_option strip_nuls (cdp_device_id b),
     cdp_port_id := map_option strip_nuls (cdp_port_id b),
     cdp_platform := map_option strip_nuls (cdp_platform b),
     fdb_macs := map_option (map strip_nuls) (fdb_macs b)\<rparr>"

text \<open>What is left of an interface in its row: texts without NULs, timestamps in microseconds.\<close>

definition stored_form :: "text_codec \<Rightarrow> Interface \<Rightarrow> Interface" where
  "stored_form c i = i\<lparr>if_created_at := stored_time c (if_created_at i), if_updated_at := stored_time c (if_updated_at i),
     if_valid_from := stored_time c (if_valid_from i), if_valid_to := map_option (stored_time c) (if_valid_to i),
     if_last_seen_at := stored_time c (if_last_seen_at i), if_base := strip_base (if_base i)\<rparr>"

definition whole_microseconds :: "Interface \<Rightarrow> bool" where
  "whole_microseconds i \<longleftrightarrow>
     (\<forall>t \<in> {if_created_at i, if_updated_at i, if_valid_from i, if_last_seen_at i} \<union> set_option (if_valid_to i).
        t mod 1000 = 0)"

lemma codec_ok_time:
  assumes "codec_ok c"
  shows "t mod 1000 = 0 \<Longrightarrow> stored_time c t = t" and "stored_time c t mod 1000 = 0"
proof -
  have t: "stored_time c t mod 1000 = 0" "\<bar>stored_time c t - t\<bar> < 1000"
    using assms by (simp_all add: codec_ok_def)
  then show "stored_time c t mod 1000 = 0" by simp
  show "stored_time c t = t" if whole: "t mod 1000 = 0"
  proof -
    obtain k l where kl: "stored_time c t = 1000 * k" "t = 1000 * l" using t(1) whole by fastforce
    then have "k < l + 1" "l < k + 1" using t(2) by linarith+
    then show ?thesis using kl by simp
  qed
qed

lemma stored_form_whole:
  assumes "codec_ok c"
  shows "whole_microseconds i \<Longrightarrow> stored_form c i = map_base strip_base i" and "whole_microseconds (stored_form c i)"
proof -
  show "whole_microseconds (stored_form c i)"
    using codec_ok_time(2) [OF assms] by (auto simp: whole_microseconds_def stored_form_def)
  assume w: "whole_microseconds i"
  have "map_option (stored_time c) (if_valid_to i) = if_valid_to i"
    using w codec_ok_time(1) [OF assms] by (cases "if_valid_to i") (auto simp: whole_microseconds_def)
  then show "stored_form c i = map_base strip_base i"
    using w codec_ok_time(1) [OF assms] by (simp add: stored_form_def whole_microseconds_def)
qed

lemma strip_idem:
  "strip_chassis (strip_chassis x) = strip_chassis x" "strip_port (strip_port y) = strip_port y"
  "strip_base (strip_base b) = strip_base b"
proof -
  show 1: "strip_chassis (strip_chassis x) = strip_chassis x" for x by (cases x) simp_all
  show 2: "strip_port (strip_port y) = strip_port y" for y by (cases y) simp_all
  show "strip_base (strip_base b) = strip_base b"
    by (simp add: strip_base_def option.map_comp comp_def 1 2)
qed

lemma stored_form_idem: "codec_ok c \<Longrightarrow> stored_form c (stored_form c i) = stored_form c i"
  using stored_form_whole(1) [OF _ stored_form_whole(2)] by (simp add: stored_form_def strip_idem)

lemma collect_map_Some: "(\<And>x. x \<in> set xs \<Longrightarrow> f x = Some (g x)) \<Longrightarrow> collect_options (map f xs) = Some (map g xs)"
  by (induction xs) auto

lemma untag_clean_tagged:
  "CHR 0x00 \<notin> set v \<Longrightarrow> untag (clean_json (tagged v s)) = Some (v, strip_nuls s)"
  "clean_json (tagged v s) \<noteq> JNull"
  by (simp_all add: tagged_def untag_def)

lemma codec_ok_ip:
  "codec_ok c \<Longrightarrow> parse_ip c (ip_text c a) = Some a" "codec_ok c \<Longrightarrow> strip_nuls (ip_text c a) = ip_text c a"
  by (simp_all add: codec_ok_def)

lemma codec_ok_uuid:
  "codec_ok c \<Longrightarrow> parse_uuid c (uuid_text c u) = Some u"
  "codec_ok c \<Longrightarrow> strip_nuls (uuid_text c u) = uuid_text c u"
  by (simp_all add: codec_ok_def)

lemma chassis_json_back:
  "codec_ok c \<Longrightarrow>
   read_json (chassis_of_json c) (map_option (\<lambda>x. clean_json (chassis_json c x)) v) = map_option strip_chassis v"
proof (cases v)
  case (Some x)
  assume "codec_ok c"
  then show ?thesis unfolding Some
    by (cases x) (simp_all add: read_json_def chassis_of_json_def untag_clean_tagged codec_ok_ip)
qed (simp add: read_json_def)

lemma port_json_back:
  "codec_ok c \<Longrightarrow>
   read_json (port_of_json c) (map_option (\<lambda>x. clean_json (port_json c x)) v) = map_option strip_port v"
proof (cases v)
  case (Some x)
  assume "codec_ok c"
  then show ?thesis unfolding Some
    by (cases x) (simp_all add: read_json_def port_of_json_def untag_clean_tagged codec_ok_ip)
qed (simp add: read_json_def)

lemma strings_json_back:
  "read_json (vec_of_json string_of_json) (map_option (\<lambda>x. clean_json (strings_json x)) v) =
   map_option (map strip_nuls) v"
  by (cases v) (simp_all add: read_json_def vec_of_json_def strings_json_def collect_map_Some comp_def)

lemma uuids_json_back:
  "codec_ok c \<Longrightarrow>
   read_json (uuids_of_json c) (map_option (\<lambda>x. clean_json (uuids_json c x)) v) = v"
  by (cases v) (simp_all add: read_json_def uuids_of_json_def vec_of_json_def uuids_json_def
      collect_map_Some [of _ _ id] comp_def codec_ok_uuid)

lemma neighbor_columns_back: "neighbor_of_columns (fst (neighbor_columns n)) (snd (neighbor_columns n)) = n"
  by (cases n rule: neighbor_columns.cases) simp_all

lemma status_back:
  "admin_status_from_i32 (admin_status_i32 a) = a" "oper_status_from_i32 (oper_status_i32 p) = p"
  by (cases a; simp add: admin_status_from_i32_def) (cases p; simp add: oper_status_from_i32_def)

lemmas read_column_defs = read_uuid_def read_opt_uuid_def read_text_def read_opt_text_def read_i32_def
  read_opt_i64_def read_time_def read_opt_time_def read_opt_mac_def read_opt_json_def try_ip_def try_json_def

lemma row_back:
  assumes "codec_ok c"
  shows "from_row c (map_of (write_row c i)) = Some (stored_form c i)"
  using assms
  by (simp add: from_row_def write_row_def to_params_def interface_columns_def interface_values_def
      read_column_defs Let_def neighbor_columns_back status_back chassis_json_back port_json_back
      strings_json_back uuids_json_back strip_base_def stored_form_def)

lemma row_storable: "\<forall>(k, v) \<in> set (write_row c i). storable v"
  by (auto simp: write_row_def to_params_def dest!: set_zip_rightD intro: to_bound_storable)

end
