(* ===== verification/Topology_Types.thy ===== *)
theory Topology_Types
  imports Services Hosts Interfaces Patterns "HOL-Library.AList"
begin

text \<open>
  The data of the topology: nodes and edges of a drawn graph
  (\<^verbatim>\<open>backend/src/server/topology/types/nodes.rs\<close>,
  \<^verbatim>\<open>backend/src/server/topology/types/edges.rs\<close>), the grouping rules
  (\<^verbatim>\<open>backend/src/server/topology/types/grouping.rs\<close>), the views with what each draws
  (\<^verbatim>\<open>backend/src/server/topology/types/views.rs\<close>), and the entities only the topology
  reads: dependencies, tags and VLANs.

  The random id of an edge (\<open>Uuid::new_v4\<close>) is not part of the model: nothing reads it.
  \<open>topo_env\<close> holds what comes from other crates: the name-based UUIDs of \<open>uuid\<close>, the text of
  UUIDs, addresses and CIDR blocks, the names of the icons, and the category of the service
  definition with a given id. Hash maps are association lists in insertion order, sets that
  are only asked for membership are sets.
\<close>

section \<open>Environment\<close>

datatype Color =
    Pink | Rose | Red | Amber | Orange | Green | Emerald | Teal | Cyan | Blue | Indigo | Purple
  | Fuchsia | Violet | Sky | Gray | Lime | Yellow

datatype Icon =
    GlobeIcon | CloudIcon | RouterIcon | VenetianMaskIcon | CircuitBoardIcon | UserIcon | WifiIcon
  | ServerCogIcon | BoxIcon | NetworkIcon | HardDriveIcon | WorkflowIcon

record topo_env =
  new_v5 :: "uuid \<Rightarrow> string \<Rightarrow> uuid"
  namespace_oid :: uuid
  uuid_text :: "uuid \<Rightarrow> string"
  uuid_bytes :: "uuid \<Rightarrow> string"
  topo_ip_text :: "IpAddr \<Rightarrow> string"
  topo_cidr_text :: "IpCidr \<Rightarrow> string"
  icon_text :: "Icon \<Rightarrow> string"
  definition_category :: "string \<Rightarrow> ServiceCategory"

definition group_by :: "('a \<Rightarrow> 'k option) \<Rightarrow> 'a list \<Rightarrow> ('k \<times> 'a list) list" where
  "group_by key xs =
     fold (\<lambda>x m. case key x of Some k \<Rightarrow> push_entry k x m | None \<Rightarrow> m) xs []"

section \<open>Kinds of entities\<close>

datatype EntityDiscriminants =
    EntOrganization | EntInvite | EntShare | EntNetwork | EntDaemonApiKey | EntUserApiKey | EntUser
  | EntTag | EntDiscovery | EntDaemon | EntHost | EntService | EntPort | EntBinding | EntIPAddress
  | EntInterface | EntCredential | EntSubnet | EntVlan | EntDependency | EntTopology | EntSnapshot
  | EntUnknown

definition is_taggable :: "EntityDiscriminants \<Rightarrow> bool" where
  "is_taggable e \<longleftrightarrow>
     e \<in> {EntHost, EntService, EntSubnet, EntDependency, EntNetwork, EntDiscovery, EntDaemon,
          EntDaemonApiKey, EntUserApiKey, EntCredential}"

definition parent_taggable_entity :: "EntityDiscriminants \<Rightarrow> EntityDiscriminants option" where
  "parent_taggable_entity e = (if e \<in> {EntInterface, EntIPAddress, EntPort} then Some EntHost else None)"

section \<open>Dependencies, tags and VLANs\<close>

datatype DependencyType = RequestPathDep | HubAndSpokeDep

datatype DependencyMembers = ServiceMembers "uuid list" | BindingMembers "uuid list"

datatype EdgeStyle = Straight | SmoothStep | Bezier

record DependencyBase =
  dep_name :: string
  dep_network_id :: uuid
  dep_description :: "string option"
  dependency_type :: DependencyType
  dep_members :: DependencyMembers
  dep_source :: EntitySource
  dep_color :: Color
  dep_edge_style :: EdgeStyle
  dep_tags :: "uuid list"

record Dependency =
  dep_id :: uuid
  dep_created_at :: datetime
  dep_updated_at :: datetime
  dep_valid_from :: datetime
  dep_valid_to :: "datetime option"
  dep_lineage_id :: "uuid option"
  dep_base :: DependencyBase

fun members_is_empty :: "DependencyMembers \<Rightarrow> bool" where
  "members_is_empty (ServiceMembers ids) = (ids = [])"
| "members_is_empty (BindingMembers ids) = (ids = [])"

fun is_bindings :: "DependencyMembers \<Rightarrow> bool" where
  "is_bindings (ServiceMembers _) = False"
| "is_bindings (BindingMembers _) = True"

definition dep_binding_ids :: "Dependency \<Rightarrow> uuid list" where
  "dep_binding_ids d =
     (case dep_members (dep_base d) of BindingMembers ids \<Rightarrow> ids | ServiceMembers _ \<Rightarrow> [])"

definition dependency_triggers_staleness :: "Dependency \<Rightarrow> Dependency option \<Rightarrow> bool" where
  "dependency_triggers_staleness d other =
     (case other of Some o' \<Rightarrow> dep_members (dep_base d) \<noteq> dep_members (dep_base o') | None \<Rightarrow> True)"

record TagBase =
  tag_name :: string
  tag_description :: "string option"
  tag_color :: Color
  tag_organization_id :: uuid
  is_application :: bool

record Tag =
  tag_id :: uuid
  tag_created_at :: datetime
  tag_updated_at :: datetime
  tag_valid_from :: datetime
  tag_valid_to :: "datetime option"
  tag_lineage_id :: "uuid option"
  tag_base :: TagBase

record VlanBase =
  vlan_number :: "16 word"
  vlan_name :: string
  vlan_description :: "string option"
  vlan_network_id :: uuid
  vlan_organization_id :: uuid
  vlan_source :: EntitySource
  vlan_subnet_ids :: "uuid list"

record Vlan =
  vlan_id :: uuid
  vlan_created_at :: datetime
  vlan_updated_at :: datetime
  vlan_valid_from :: datetime
  vlan_valid_to :: "datetime option"
  vlan_lineage_id :: "uuid option"
  vlan_last_seen_at :: datetime
  vlan_last_discovery_id :: "uuid option"
  vlan_first_discovery_id :: "uuid option"
  vlan_base :: VlanBase

section \<open>Nodes\<close>

datatype ContainerType =
    SubnetCont | ServiceCategoryCont | ApplicationCont | ApplicationUngrouped | RootCont | HostCont
  | NestedTag | NestedServiceCategory | HypervisorCont | ContainerRuntimeCont | StackCont
  | TrunkPortCont | VLANCont | PortOpStatusCont

datatype ElementEntityType =
    IPAddressElement uuid "uuid option" | ServiceElement | HostElement | InterfaceElement uuid

fun element_discriminant :: "ElementEntityType \<Rightarrow> EntityDiscriminants" where
  "element_discriminant (IPAddressElement _ _) = EntIPAddress"
| "element_discriminant ServiceElement = EntService"
| "element_discriminant HostElement = EntHost"
| "element_discriminant (InterfaceElement _) = EntInterface"

datatype InlineGroupRole = Header | Member

record InlineGroup =
  ig_entity_id :: uuid
  ig_group_id :: uuid
  ig_role :: InlineGroupRole

record container_node =
  cn_type :: ContainerType
  cn_parent :: "uuid option"
  cn_entity_id :: "uuid option"
  cn_icon :: "string option"
  cn_color :: "Color option"
  cn_service_definition :: "string option"
  cn_rule_id :: "uuid option"
  cn_accepts_edges :: bool

record element_node =
  en_container_id :: uuid
  en_host_id :: uuid
  en_element :: ElementEntityType
  en_inline_groups :: "InlineGroup list"

datatype NodeType = ContainerNode container_node | ElementNode element_node

record Node =
  node_type :: NodeType
  node_id :: uuid
  node_position :: "int \<times> int"
  node_size :: "nat \<times> nat"
  node_header :: "string option"

definition node_element :: "uuid \<Rightarrow> uuid \<Rightarrow> uuid \<Rightarrow> ElementEntityType \<Rightarrow> Node" where
  "node_element i parent owner element =
     \<lparr>node_type = ElementNode \<lparr>en_container_id = parent, en_host_id = owner,
        en_element = element, en_inline_groups = []\<rparr>,
      node_id = i, node_position = (0, 0), node_size = (0, 0), node_header = None\<rparr>"

text \<open>The literal \<open>Node { node_type: Container { .. }, position: default, size: default, .. }\<close>.\<close>

abbreviation container :: "uuid \<Rightarrow> container_node \<Rightarrow> string option \<Rightarrow> Node" where
  "container i c header \<equiv>
     \<lparr>node_type = ContainerNode c, node_id = i, node_position = (0, 0), node_size = (0, 0),
      node_header = header\<rparr>"

fun is_element :: "NodeType \<Rightarrow> bool" where
  "is_element (ElementNode _) = True"
| "is_element (ContainerNode _) = False"

definition vertical_order :: "SubnetType \<Rightarrow> nat" where
  "vertical_order t =
     (case t of
        Internet \<Rightarrow> 0 | Remote \<Rightarrow> 0
      | Gateway \<Rightarrow> 1 | Dmz \<Rightarrow> 1 | VpnTunnel \<Rightarrow> 1
      | Lan \<Rightarrow> 2 | WiFi \<Rightarrow> 2 | Guest \<Rightarrow> 2 | IoT \<Rightarrow> 2
      | DockerBridge \<Rightarrow> 3 | PodmanBridge \<Rightarrow> 3 | MacVlan \<Rightarrow> 3 | IpVlan \<Rightarrow> 3 | Management \<Rightarrow> 3 | Storage \<Rightarrow> 3
      | Loopback \<Rightarrow> 999 | Unknown \<Rightarrow> 999)"

definition horizontal_order :: "SubnetType \<Rightarrow> nat" where
  "horizontal_order t =
     (case t of
        Internet \<Rightarrow> 0 | Remote \<Rightarrow> 1
      | Gateway \<Rightarrow> 0 | Dmz \<Rightarrow> 1 | VpnTunnel \<Rightarrow> 2
      | Lan \<Rightarrow> 0 | WiFi \<Rightarrow> 1 | IoT \<Rightarrow> 2 | Guest \<Rightarrow> 3
      | Storage \<Rightarrow> 0 | Management \<Rightarrow> 1 | DockerBridge \<Rightarrow> 2 | PodmanBridge \<Rightarrow> 2 | MacVlan \<Rightarrow> 3 | IpVlan \<Rightarrow> 4
      | Loopback \<Rightarrow> 999 | Unknown \<Rightarrow> 999)"

text \<open>The icon, colour and name a subnet type is drawn with.\<close>

fun subnet_type_icon :: "SubnetType \<Rightarrow> Icon" where
  "subnet_type_icon Internet = GlobeIcon"
| "subnet_type_icon Gateway = RouterIcon"
| "subnet_type_icon VpnTunnel = VenetianMaskIcon"
| "subnet_type_icon IoT = CircuitBoardIcon"
| "subnet_type_icon Guest = UserIcon"
| "subnet_type_icon WiFi = WifiIcon"
| "subnet_type_icon Management = ServerCogIcon"
| "subnet_type_icon DockerBridge = BoxIcon"
| "subnet_type_icon PodmanBridge = BoxIcon"
| "subnet_type_icon MacVlan = NetworkIcon"
| "subnet_type_icon IpVlan = NetworkIcon"
| "subnet_type_icon Storage = HardDriveIcon"
| "subnet_type_icon Loopback = NetworkIcon"
| "subnet_type_icon _ = CloudIcon"

fun subnet_type_color :: "SubnetType \<Rightarrow> Color" where
  "subnet_type_color Internet = Blue"
| "subnet_type_color Remote = Indigo"
| "subnet_type_color Gateway = Teal"
| "subnet_type_color VpnTunnel = Green"
| "subnet_type_color Dmz = Rose"
| "subnet_type_color Lan = Indigo"
| "subnet_type_color IoT = Yellow"
| "subnet_type_color Guest = Green"
| "subnet_type_color WiFi = Teal"
| "subnet_type_color Storage = Green"
| "subnet_type_color DockerBridge = Blue"
| "subnet_type_color PodmanBridge = Blue"
| "subnet_type_color MacVlan = Blue"
| "subnet_type_color IpVlan = Blue"
| "subnet_type_color _ = Gray"

fun subnet_type_name :: "SubnetType \<Rightarrow> string" where
  "subnet_type_name VpnTunnel = ''VPN''"
| "subnet_type_name Dmz = ''DMZ''"
| "subnet_type_name Lan = ''LAN''"
| "subnet_type_name DockerBridge = ''Docker Bridge''"
| "subnet_type_name PodmanBridge = ''Podman Bridge''"
| "subnet_type_name MacVlan = ''MacVLAN''"
| "subnet_type_name IpVlan = ''IpVLAN''"
| "subnet_type_name t = subnet_type_str t"

section \<open>Edges\<close>

datatype DiscoveryProtocol = LLDP | CDP

datatype EdgeDefaultVisibility = Visible | Hidden

datatype EdgeStroke = Solid | Dashed | Dotted

datatype EdgeHighlightBehavior = WhenVisible | Always | Never

datatype EdgeSelectionScope = ConnectedNodes | Segment

record active_config =
  affects_layout :: bool
  default_visibility :: EdgeDefaultVisibility
  stroke :: EdgeStroke
  highlight_behavior :: EdgeHighlightBehavior
  will_target_container :: bool
  show_directionality :: bool

datatype EdgeViewConfig = Disabled | Active active_config

datatype EdgeHandle = Top | Bottom | LeftSide | RightSide

datatype EdgeType =
    SameHost uuid
  | HypervisorEdge uuid
  | ContainerRuntimeEdge (cr_host_id: uuid) (cr_service_id: uuid) (cr_subnet_ids: "uuid list")
      (cr_containerized_service_ids: "uuid list")
  | SameContainer uuid
  | RequestPath uuid uuid uuid
  | HubAndSpoke uuid uuid uuid
  | PhysicalLink uuid uuid DiscoveryProtocol
  | NeighborLink uuid uuid DiscoveryProtocol

datatype EdgeTypeDiscriminants =
    DSameHost | DHypervisor | DContainerRuntime | DSameContainer | DRequestPath | DHubAndSpoke
  | DPhysicalLink | DNeighborLink

fun edge_discriminant :: "EdgeType \<Rightarrow> EdgeTypeDiscriminants" where
  "edge_discriminant (SameHost _) = DSameHost"
| "edge_discriminant (HypervisorEdge _) = DHypervisor"
| "edge_discriminant (ContainerRuntimeEdge _ _ _ _) = DContainerRuntime"
| "edge_discriminant (SameContainer _) = DSameContainer"
| "edge_discriminant (RequestPath _ _ _) = DRequestPath"
| "edge_discriminant (HubAndSpoke _ _ _) = DHubAndSpoke"
| "edge_discriminant (PhysicalLink _ _ _) = DPhysicalLink"
| "edge_discriminant (NeighborLink _ _ _) = DNeighborLink"

record Edge =
  edge_source :: uuid
  edge_target :: uuid
  edge_type :: EdgeType
  edge_label :: "string option"
  source_handle :: EdgeHandle
  target_handle :: EdgeHandle
  is_multi_hop :: bool
  view_config :: EdgeViewConfig
  edge_relation_key :: "string option"

text \<open>
  The literal every construction site writes: the handles \<open>Bottom\<close> and \<open>Top\<close>, the default
  configuration and no relation key.
\<close>

abbreviation edge :: "uuid \<Rightarrow> uuid \<Rightarrow> EdgeType \<Rightarrow> string option \<Rightarrow> bool \<Rightarrow> Edge" where
  "edge source target t label multi_hop \<equiv>
     \<lparr>edge_source = source, edge_target = target, edge_type = t, edge_label = label,
      source_handle = Bottom, target_handle = Top, is_multi_hop = multi_hop,
      view_config = Disabled, edge_relation_key = None\<rparr>"

fun selection_scope :: "EdgeType \<Rightarrow> EdgeSelectionScope" where
  "selection_scope (RequestPath _ _ _) = ConnectedNodes"
| "selection_scope (HubAndSpoke _ _ _) = ConnectedNodes"
| "selection_scope (SameHost _) = ConnectedNodes"
| "selection_scope (SameContainer _) = ConnectedNodes"
| "selection_scope (ContainerRuntimeEdge _ _ _ _) = Segment"
| "selection_scope (HypervisorEdge _) = Segment"
| "selection_scope (PhysicalLink _ _ _) = Segment"
| "selection_scope (NeighborLink _ _ _) = Segment"

definition pair_key :: "topo_env \<Rightarrow> uuid \<Rightarrow> uuid \<Rightarrow> string" where
  "pair_key env a b =
     (if a < b then uuid_text env a @ '':'' @ uuid_text env b
      else uuid_text env b @ '':'' @ uuid_text env a)"

fun relation_key :: "topo_env \<Rightarrow> EdgeType \<Rightarrow> string option" where
  "relation_key env (RequestPath dependency_id _ _) = Some (uuid_text env dependency_id)"
| "relation_key env (HubAndSpoke dependency_id _ _) = Some (uuid_text env dependency_id)"
| "relation_key env (SameHost h) = Some (uuid_text env h)"
| "relation_key env (SameContainer s) = Some (uuid_text env s)"
| "relation_key env (PhysicalLink source target _) = Some (pair_key env source target)"
| "relation_key env (NeighborLink source target _) = Some (pair_key env source target)"
| "relation_key env (HypervisorEdge _) = None"
| "relation_key env (ContainerRuntimeEdge _ _ _ _) = None"

section \<open>Views\<close>

datatype TopologyView = L2Physical | L3Logical | Workloads | ApplicationView

definition all_views :: "TopologyView list" where
  "all_views = [L2Physical, L3Logical, Workloads, ApplicationView]"

record TopologyViewSupport =
  l2_physical :: bool
  application :: bool

fun is_supported :: "TopologyView \<Rightarrow> TopologyViewSupport \<Rightarrow> bool" where
  "is_supported L3Logical support = True"
| "is_supported L2Physical support = l2_physical support"
| "is_supported Workloads support = True"
| "is_supported ApplicationView support = application support"

definition active ::
    "bool \<Rightarrow> EdgeDefaultVisibility \<Rightarrow> EdgeStroke \<Rightarrow> EdgeHighlightBehavior \<Rightarrow> bool \<Rightarrow> bool \<Rightarrow> EdgeViewConfig" where
  "active layout visibility strk highlight target_container directionality =
     Active \<lparr>affects_layout = layout, default_visibility = visibility, stroke = strk,
       highlight_behavior = highlight, will_target_container = target_container,
       show_directionality = directionality\<rparr>"

fun edge_view_config :: "TopologyView \<Rightarrow> EdgeTypeDiscriminants \<Rightarrow> EdgeViewConfig" where
  "edge_view_config L3Logical t =
     (case t of
        DSameHost \<Rightarrow> active True Visible Solid WhenVisible False False
      | DContainerRuntime \<Rightarrow> active True Visible Solid WhenVisible True False
      | DRequestPath \<Rightarrow> active False Visible Dashed WhenVisible False True
      | DHubAndSpoke \<Rightarrow> active False Visible Dashed WhenVisible False True
      | DHypervisor \<Rightarrow> active False Hidden Dashed WhenVisible True False
      | DPhysicalLink \<Rightarrow> Disabled
      | DNeighborLink \<Rightarrow> Disabled
      | DSameContainer \<Rightarrow> active False Hidden Dotted WhenVisible False False)"
| "edge_view_config L2Physical t =
     (case t of
        DPhysicalLink \<Rightarrow> active True Visible Solid WhenVisible False False
      | DNeighborLink \<Rightarrow> active True Visible Dashed WhenVisible False False
      | DSameHost \<Rightarrow> active False Hidden Dashed WhenVisible False False
      | _ \<Rightarrow> Disabled)"
| "edge_view_config Workloads t =
     (case t of
        DPhysicalLink \<Rightarrow> active False Hidden Dashed WhenVisible False False
      | DNeighborLink \<Rightarrow> active False Hidden Dashed WhenVisible False False
      | DRequestPath \<Rightarrow> active False Hidden Dashed WhenVisible False True
      | DHubAndSpoke \<Rightarrow> active False Hidden Dashed WhenVisible False True
      | _ \<Rightarrow> Disabled)"
| "edge_view_config ApplicationView t =
     (case t of
        DRequestPath \<Rightarrow> active True Visible Solid WhenVisible False True
      | DHubAndSpoke \<Rightarrow> active True Visible Solid WhenVisible False True
      | DContainerRuntime \<Rightarrow> active True Hidden Dashed Always True False
      | _ \<Rightarrow> Disabled)"

text \<open>The views a share offers.\<close>

definition resolve_available_views ::
    "TopologyView list option \<Rightarrow> TopologyViewSupport \<Rightarrow> TopologyView list" where
  "resolve_available_views configured support =
     (let data_supported = filter (\<lambda>v. is_supported v support) all_views in
      case configured of
        None \<Rightarrow> data_supported
      | Some l \<Rightarrow> if l = [] then data_supported else filter (\<lambda>v. v \<in> set data_supported) l)"

section \<open>Grouping rules\<close>

record 'r IdentifiedRule =
  rule_id :: uuid
  rule :: 'r

datatype ContainerRule = BySubnet | MergeContainerBridges | ByApplication "uuid list" | ByHost

fun container_rule_views :: "ContainerRule \<Rightarrow> TopologyView list" where
  "container_rule_views BySubnet = [L3Logical]"
| "container_rule_views MergeContainerBridges = [L3Logical]"
| "container_rule_views (ByApplication _) = [ApplicationView]"
| "container_rule_views ByHost = [L2Physical, Workloads]"

fun container_rule_accepts_edges :: "ContainerRule \<Rightarrow> bool" where
  "container_rule_accepts_edges MergeContainerBridges = True"
| "container_rule_accepts_edges _ = False"

datatype ElementRule =
    ByServiceCategory "ServiceCategory list" "string option" bool
  | ByTag "uuid list" "string option"
  | ByHypervisor | ByContainerRuntime | ByStack | ByTrunkPort | ByVLAN | ByPortOpStatus

fun will_accept_edges :: "ElementRule \<Rightarrow> bool" where
  "will_accept_edges ByHypervisor = True"
| "will_accept_edges ByContainerRuntime = True"
| "will_accept_edges ByStack = True"
| "will_accept_edges _ = False"

fun applicable_views :: "ElementRule \<Rightarrow> TopologyView list" where
  "applicable_views (ByServiceCategory _ _ _) = [ApplicationView, Workloads]"
| "applicable_views (ByTag _ _) = [L3Logical, L2Physical, Workloads, ApplicationView]"
| "applicable_views ByHypervisor = [Workloads]"
| "applicable_views ByContainerRuntime = [Workloads]"
| "applicable_views ByStack = [L3Logical, ApplicationView]"
| "applicable_views ByTrunkPort = [L2Physical]"
| "applicable_views ByVLAN = [L2Physical]"
| "applicable_views ByPortOpStatus = [L2Physical]"

record GroupingConfig =
  container_rules :: "ContainerRule IdentifiedRule list"
  element_rules :: "ElementRule IdentifiedRule list"

datatype MetadataFilterType = CategoryFilter | VirtualizationFilter | LinkStateFilter | StalenessFilter

type_synonym hide_set =
  "(TopologyView \<times> (EntityDiscriminants \<times> (MetadataFilterType \<times> string list) list) list) list"

record TopologyRequestOptions =
  hide_entities :: "(TopologyView \<times> EntityDiscriminants list) list"
  hide_metadata_values :: hide_set
  req_container_rules :: "(TopologyView \<times> ContainerRule IdentifiedRule list) list"
  req_element_rules :: "ElementRule IdentifiedRule list"

definition from_request_options :: "TopologyRequestOptions \<Rightarrow> TopologyView \<Rightarrow> GroupingConfig" where
  "from_request_options options view =
     \<lparr>container_rules = (case map_of (req_container_rules options) view of Some rs \<Rightarrow> rs | None \<Rightarrow> []),
      element_rules = filter (\<lambda>gr. view \<in> set (applicable_views (rule gr))) (req_element_rules options)\<rparr>"

definition should_group_container_bridges :: "GroupingConfig \<Rightarrow> bool" where
  "should_group_container_bridges g \<longleftrightarrow> (\<exists>r \<in> set (container_rules g). rule r = MergeContainerBridges)"

definition subnets_are_containers :: "GroupingConfig \<Rightarrow> bool" where
  "subnets_are_containers g \<longleftrightarrow> (\<exists>r \<in> set (container_rules g). rule r = BySubnet)"

fun is_by_application :: "ContainerRule \<Rightarrow> bool" where
  "is_by_application (ByApplication _) = True"
| "is_by_application _ = False"

definition has_application_rule :: "GroupingConfig \<Rightarrow> bool" where
  "has_application_rule g \<longleftrightarrow> (\<exists>r \<in> set (container_rules g). is_by_application (rule r))"

text \<open>What a rule decides about an entity, and the outcome of one rule.\<close>

datatype PlacementDecision =
    ElementDecision
  | BecomeSubcontainer uuid
  | PlaceInContainer uuid
  | InlineOn uuid "InlineGroup option"

record RulePlacement =
  rp_containers :: "Node list"
  rp_placements :: "(uuid \<times> PlacementDecision) list"
  rp_claimed :: "uuid set"

abbreviation empty_placement :: RulePlacement where
  "empty_placement \<equiv> \<lparr>rp_containers = [], rp_placements = [], rp_claimed = {}\<rparr>"

section \<open>Facts\<close>

lemma map_of_push_entry:
  "map_of (push_entry k v m) j =
     (if j = k then Some (case map_of m k of Some vs \<Rightarrow> vs @ [v] | None \<Rightarrow> [v]) else map_of m j)"
  by (induction m) (auto split: option.splits)

lemma keys_push_entry: "map fst (push_entry k v m) = map fst m @ (if k \<in> fst ` set m then [] else [k])"
  by (induction m) (force simp: image_iff)+

lemma distinct_push_entry: "distinct (map fst m) \<Longrightarrow> distinct (map fst (push_entry k v m))"
  by (auto simp: keys_push_entry)

text \<open>A grouped list: the members of each group are the elements with its key, in order.\<close>

lemma group_by_snoc:
  "group_by key (xs @ [x]) = (case key x of Some k \<Rightarrow> push_entry k x (group_by key xs) | None \<Rightarrow> group_by key xs)"
  by (simp add: group_by_def split: option.split)

lemma group_by_Nil [simp]: "group_by key [] = []"
  by (simp add: group_by_def)

lemma distinct_group_by: "distinct (map fst (group_by key xs))"
  by (induction xs rule: rev_induct) (auto simp: group_by_snoc distinct_push_entry split: option.split)

lemma map_of_group_by:
  "map_of (group_by key xs) k =
     (let ms = filter (\<lambda>x. key x = Some k) xs in if ms = [] then None else Some ms)"
proof (induction xs rule: rev_induct)
  case (snoc x xs)
  then show ?case by (cases "key x") (auto simp: group_by_snoc map_of_push_entry Let_def)
qed simp

lemma group_by_members: "(k, ms) \<in> set (group_by key xs) \<Longrightarrow> ms = filter (\<lambda>x. key x = Some k) xs \<and> ms \<noteq> []"
  using map_of_group_by [of key xs k] distinct_group_by [of key xs]
  by (auto simp: Let_def dest!: map_of_is_SomeI split: if_splits)

lemma group_by_complete:
  assumes "x \<in> set xs" "key x = Some k"
  shows "(k, filter (\<lambda>x. key x = Some k) xs) \<in> set (group_by key xs)"
proof -
  have "filter (\<lambda>x. key x = Some k) xs \<noteq> []" using assms by (auto simp: filter_empty_conv)
  then show ?thesis using map_of_group_by [of key xs k] by (auto simp: Let_def dest: map_of_SomeD)
qed

lemma mset_push_entry: "mset (concat (map snd (push_entry k v m))) = add_mset v (mset (concat (map snd m)))"
  by (induction m) auto

lemma mset_group_by: "mset (concat (map snd (group_by key xs))) = mset (filter (\<lambda>x. key x \<noteq> None) xs)"
  by (induction xs rule: rev_induct) (auto simp: group_by_snoc mset_push_entry split: option.split)

lemma group_by_pairs: "(\<exists>ms. (k, ms) \<in> set (group_by key xs) \<and> x \<in> set ms) \<longleftrightarrow> x \<in> set xs \<and> key x = Some k"
  using group_by_members [of k _ key xs] group_by_complete [of x xs key k] by fastforce

text \<open>The pair key names the unordered pair, when the texts of the ids tell them apart.\<close>

lemma pair_key_commute: "pair_key env a b = pair_key env b a"
  by (cases "a = b") (auto simp: pair_key_def)

end
