(* ===== verification/Element_Rules.thy ===== *)
theory Element_Rules
  imports Topology_Types
begin

text \<open>
  The grouping rules on the elements of a graph
  (\<^verbatim>\<open>backend/src/server/topology/service/element_rules.rs\<close>): each rule groups the elements
  of a container that no earlier rule has claimed into subcontainers of it, and
  \<open>apply_element_rules\<close> runs the rules in order and moves the elements.

  The eight rules share one loop, \<open>place_groups\<close>: for every container, the unclaimed elements
  with a group key are collected by key, every group becomes a subcontainer, and its members
  are placed in it and claimed. A rule is given by the key of an element and the container of
  a group. The virtualizer rules also record that the virtualizer has become the
  subcontainer, and, when the caller gives host and service data, which services are drawn on
  another node.
\<close>

section \<open>Match data\<close>

record TaggableLookups =
  tl_hosts :: "(uuid \<rightharpoonup> Host) option"
  tl_services :: "(uuid \<rightharpoonup> Service) option"
  tl_subnets :: "(uuid \<rightharpoonup> Subnet) option"

definition tags_of :: "('a \<Rightarrow> uuid list) \<Rightarrow> (uuid \<rightharpoonup> 'a) option \<Rightarrow> uuid \<Rightarrow> uuid set" where
  "tags_of tags lookup i = (case Option.bind lookup (\<lambda>m. m i) of Some x \<Rightarrow> set (tags x) | None \<Rightarrow> {})"

definition resolve_element_tag_ids :: "EntityDiscriminants \<Rightarrow> uuid \<Rightarrow> TaggableLookups \<Rightarrow> uuid set" where
  "resolve_element_tag_ids element ancestor_id lookups =
     (case (if is_taggable element then Some element else parent_taggable_entity element) of
        Some EntHost \<Rightarrow> tags_of (\<lambda>h. host_tags (host_base h)) (tl_hosts lookups) ancestor_id
      | Some EntService \<Rightarrow> tags_of (\<lambda>s. svc_tags (svc_base s)) (tl_services lookups) ancestor_id
      | Some EntSubnet \<Rightarrow> tags_of (\<lambda>s. subnet_tags (subnet_base s)) (tl_subnets lookups) ancestor_id
      | _ \<Rightarrow> {})"

record ElementMatchData =
  md_categories :: "ServiceCategory set"
  md_tag_ids :: "uuid set"
  md_entity :: EntityDiscriminants
  md_virtualizer :: "uuid option"
  md_deployment_group :: "string option"
  md_native_vlan_id :: "uuid option"
  md_vlan_number :: "16 word option"
  md_vlan_name :: "string option"
  md_is_trunk_port :: bool
  md_oper_status :: "IfOperStatus option"

record InlineContext =
  ic_hosts :: "(uuid \<times> Host) list"
  ic_services :: "(uuid \<times> Service) list"
  ic_virt_to_container_svcs :: "(uuid \<times> uuid list) list"

record PlacementContext =
  pc_rule_id :: uuid
  pc_elements_by_container :: "(uuid \<times> uuid list) list"
  pc_match_data :: "uuid \<rightharpoonup> ElementMatchData"
  pc_claimed :: "uuid set"
  pc_virtualizer_titles :: "(uuid \<rightharpoonup> string) option"
  pc_inline_ctx :: "InlineContext option"

section \<open>Placements of one rule\<close>

definition put_group :: "uuid option \<Rightarrow> Node \<Rightarrow> uuid list \<Rightarrow> RulePlacement \<Rightarrow> RulePlacement" where
  "put_group become c ms r =
     (let placed = (case become of
            Some v \<Rightarrow> AList.update v (BecomeSubcontainer (node_id c)) (rp_placements r)
          | None \<Rightarrow> rp_placements r)
      in r\<lparr>rp_containers := rp_containers r @ [c],
           rp_placements := fold (\<lambda>i. AList.update i (PlaceInContainer (node_id c))) ms placed,
           rp_claimed := rp_claimed r \<union> set ms\<rparr>)"

definition place_container ::
    "('k \<Rightarrow> uuid option) \<Rightarrow> (uuid \<Rightarrow> 'k \<Rightarrow> uuid list \<Rightarrow> Node) \<Rightarrow> uuid \<times> ('k \<times> uuid list) list \<Rightarrow> RulePlacement \<Rightarrow> RulePlacement" where
  "place_container become mk =
     (\<lambda>(parent, groups) r. fold (\<lambda>(k, ms). put_group (become k) (mk parent k ms) ms) groups r)"

definition groups_by_container :: "PlacementContext \<Rightarrow> (uuid \<Rightarrow> 'k option) \<Rightarrow> (uuid \<times> ('k \<times> uuid list) list) list" where
  "groups_by_container ctx key =
     map (\<lambda>(parent, ids). (parent, group_by key (filter (\<lambda>i. i \<notin> pc_claimed ctx) ids)))
       (pc_elements_by_container ctx)"

definition place_groups ::
    "PlacementContext \<Rightarrow> (uuid \<Rightarrow> 'k option) \<Rightarrow> ('k \<Rightarrow> uuid option) \<Rightarrow> (uuid \<Rightarrow> 'k \<Rightarrow> uuid list \<Rightarrow> Node) \<Rightarrow> RulePlacement" where
  "place_groups ctx key become mk = fold (place_container become mk) (groups_by_container ctx key) empty_placement"

definition sub_container ::
    "PlacementContext \<Rightarrow> uuid \<Rightarrow> ContainerType \<Rightarrow> uuid \<Rightarrow> Color option \<Rightarrow> string option \<Rightarrow> bool \<Rightarrow> string option \<Rightarrow> Node" where
  "sub_container ctx i t parent col definition_id accepts header =
     container i \<lparr>cn_type = t, cn_parent = Some parent, cn_entity_id = None, cn_icon = None,
       cn_color = col, cn_service_definition = definition_id, cn_rule_id = Some (pc_rule_id ctx),
       cn_accepts_edges = accepts\<rparr> header"

text \<open>The text a group's id is derived from: the container, the rule and what the rule adds.\<close>

definition group_text :: "topo_env \<Rightarrow> uuid \<Rightarrow> uuid \<Rightarrow> string \<Rightarrow> string" where
  "group_text env parent rid suffix = uuid_text env parent @ '':'' @ uuid_text env rid @ suffix"

definition oid_id :: "topo_env \<Rightarrow> string \<Rightarrow> uuid" where
  "oid_id env t = new_v5 env (namespace_oid env) t"

subsection \<open>Virtualizers\<close>

text \<open>Whether the virtualizer runs on a host that is itself a virtual machine.\<close>

definition virtualizer_on_vm :: "InlineContext \<Rightarrow> uuid \<Rightarrow> bool" where
  "virtualizer_on_vm ic v =
     (case map_of (ic_services ic) v of
        None \<Rightarrow> False
      | Some s \<Rightarrow> (case map_of (ic_hosts ic) (svc_host_id (svc_base s)) of
            Some h \<Rightarrow> host_virtualization_service_id (host_base h) \<noteq> None
          | None \<Rightarrow> False))"

definition inline_vm_services :: "InlineContext \<Rightarrow> (uuid \<times> PlacementDecision) list \<Rightarrow> (uuid \<times> PlacementDecision) list" where
  "inline_vm_services ic placements =
     fold (\<lambda>(hid, h) ps.
         if host_virtualization_service_id (host_base h) = None then ps
         else fold (\<lambda>s ps.
             if svc_host_id (svc_base s) = hid \<and> svc_virtualization_service_id (svc_base s) = None
                \<and> map_of ps (svc_id s) = None
             then AList.update (svc_id s) (InlineOn hid None) ps else ps)
           (map snd (ic_services ic)) ps)
       (ic_hosts ic) placements"

definition inline_runtimes :: "InlineContext \<Rightarrow> (uuid \<times> PlacementDecision) list \<Rightarrow> (uuid \<times> PlacementDecision) list" where
  "inline_runtimes ic placements =
     fold (\<lambda>(v, svcs) ps.
         case map_of (ic_services ic) v of
           None \<Rightarrow> ps
         | Some s \<Rightarrow> (let vm = svc_host_id (svc_base s) in
             case map_of (ic_hosts ic) vm of
               None \<Rightarrow> ps
             | Some h \<Rightarrow>
                 if host_virtualization_service_id (host_base h) = None then ps
                 else fold (\<lambda>i. AList.update i (InlineOn vm (Some \<lparr>ig_entity_id = i, ig_group_id = v, ig_role = Member\<rparr>)))
                        svcs
                        (AList.update v (InlineOn vm (Some \<lparr>ig_entity_id = v, ig_group_id = v, ig_role = Header\<rparr>)) ps)))
       (ic_virt_to_container_svcs ic) placements"

definition virtualizer_target :: "ElementRule \<Rightarrow> EntityDiscriminants" where
  "virtualizer_target r = (if r = ByHypervisor then EntHost else EntService)"

definition virtualizer_key :: "ElementRule \<Rightarrow> InlineContext option \<Rightarrow> ElementMatchData \<Rightarrow> uuid option" where
  "virtualizer_key r ictx d =
     (if md_entity d = virtualizer_target r
      then Option.bind (md_virtualizer d) (\<lambda>v.
        if (case ictx of Some ic \<Rightarrow> virtualizer_on_vm ic v | None \<Rightarrow> False) then None else Some v)
      else None)"

definition compute_virtualizer_placements :: "topo_env \<Rightarrow> ElementRule \<Rightarrow> PlacementContext \<Rightarrow> RulePlacement" where
  "compute_virtualizer_placements env r ctx =
     (let title = (\<lambda>v. Option.bind (pc_virtualizer_titles ctx) (\<lambda>t. t v));
          result = place_groups ctx
            (\<lambda>i. Option.bind (pc_match_data ctx i) (virtualizer_key r (pc_inline_ctx ctx))) Some
            (\<lambda>parent v _. sub_container ctx (oid_id env (group_text env parent (pc_rule_id ctx) ('':'' @ uuid_text env v)))
               (if r = ByHypervisor then HypervisorCont else ContainerRuntimeCont) parent None (title v)
               (will_accept_edges r) (title v))
      in case pc_inline_ctx ctx of
           None \<Rightarrow> result
         | Some ic \<Rightarrow>
             if r = ByHypervisor then result\<lparr>rp_placements := inline_vm_services ic (rp_placements result)\<rparr>
             else result\<lparr>rp_placements := inline_runtimes ic (rp_placements result)\<rparr>)"

subsection \<open>The other rules\<close>

definition compute_stack_placements :: "topo_env \<Rightarrow> PlacementContext \<Rightarrow> RulePlacement" where
  "compute_stack_placements env ctx =
     place_groups ctx (\<lambda>i. Option.bind (pc_match_data ctx i) md_deployment_group) (\<lambda>_. None)
       (\<lambda>parent project _. sub_container ctx (oid_id env (''stack:'' @ project @ '':'' @ uuid_text env parent))
          StackCont parent None None True (Some project))"

definition flag_key :: "('a \<Rightarrow> bool) \<Rightarrow> 'a \<Rightarrow> unit option" where
  "flag_key p d = (if p d then Some () else None)"

definition compute_service_category_placements ::
    "topo_env \<Rightarrow> ServiceCategory list \<Rightarrow> string option \<Rightarrow> PlacementContext \<Rightarrow> RulePlacement" where
  "compute_service_category_placements env categories title ctx =
     place_groups ctx
       (\<lambda>i. Option.bind (pc_match_data ctx i) (flag_key (\<lambda>d. \<exists>c \<in> set categories. c \<in> md_categories d)))
       (\<lambda>_. None)
       (\<lambda>parent _ _. sub_container ctx (oid_id env (group_text env parent (pc_rule_id ctx) []))
          NestedServiceCategory parent None None False title)"

definition compute_tag_placements :: "topo_env \<Rightarrow> uuid list \<Rightarrow> string option \<Rightarrow> PlacementContext \<Rightarrow> RulePlacement" where
  "compute_tag_placements env tags title ctx =
     place_groups ctx
       (\<lambda>i. Option.bind (pc_match_data ctx i) (flag_key (\<lambda>d. \<exists>t \<in> set tags. t \<in> md_tag_ids d)))
       (\<lambda>_. None)
       (\<lambda>parent _ _. sub_container ctx (oid_id env (group_text env parent (pc_rule_id ctx) []))
          NestedTag parent None None False title)"

definition compute_trunk_port_placements :: "topo_env \<Rightarrow> PlacementContext \<Rightarrow> RulePlacement" where
  "compute_trunk_port_placements env ctx =
     place_groups ctx (\<lambda>i. Option.bind (pc_match_data ctx i) (flag_key md_is_trunk_port)) (\<lambda>_. None)
       (\<lambda>parent _ _. sub_container ctx (oid_id env (group_text env parent (pc_rule_id ctx) '':trunk''))
          TrunkPortCont parent None None False (Some ''Trunk Ports''))"

definition vlan_header :: "16 word \<Rightarrow> string option \<Rightarrow> string" where
  "vlan_header num name =
     (case name of
        Some n \<Rightarrow> ''VLAN '' @ decimal (unat num) @ '' ('' @ n @ '')''
      | None \<Rightarrow> ''VLAN '' @ decimal (unat num))"

definition compute_vlan_placements :: "topo_env \<Rightarrow> PlacementContext \<Rightarrow> RulePlacement" where
  "compute_vlan_placements env ctx =
     place_groups ctx (\<lambda>i. Option.bind (pc_match_data ctx i) md_vlan_number) (\<lambda>_. None)
       (\<lambda>parent num ms. sub_container ctx
          (oid_id env (group_text env parent (pc_rule_id ctx) ('':vlan:'' @ decimal (unat num))))
          VLANCont parent None None False
          (Some (vlan_header num
             (case ms of [] \<Rightarrow> None | i # _ \<Rightarrow> Option.bind (pc_match_data ctx i) md_vlan_name))))"

fun oper_status_name :: "IfOperStatus \<Rightarrow> string" where
  "oper_status_name OperUp = ''Up''"
| "oper_status_name OperDown = ''Down''"
| "oper_status_name OperTesting = ''Testing''"
| "oper_status_name OperUnknown = ''Unknown''"
| "oper_status_name OperDormant = ''Dormant''"
| "oper_status_name OperNotPresent = ''NotPresent''"
| "oper_status_name OperLowerLayerDown = ''LowerLayerDown''"

fun oper_status_color :: "IfOperStatus \<Rightarrow> Color" where
  "oper_status_color OperUp = Green"
| "oper_status_color OperDown = Red"
| "oper_status_color OperLowerLayerDown = Red"
| "oper_status_color OperTesting = Amber"
| "oper_status_color OperDormant = Blue"
| "oper_status_color OperUnknown = Gray"
| "oper_status_color OperNotPresent = Gray"

definition compute_port_op_status_placements :: "topo_env \<Rightarrow> PlacementContext \<Rightarrow> RulePlacement" where
  "compute_port_op_status_placements env ctx =
     place_groups ctx (\<lambda>i. Option.bind (pc_match_data ctx i) md_oper_status) (\<lambda>_. None)
       (\<lambda>parent status _. sub_container ctx
          (oid_id env (group_text env parent (pc_rule_id ctx) ('':status:'' @ decimal (nat (oper_status_i32 status)))))
          PortOpStatusCont parent (Some (oper_status_color status)) None False (Some (oper_status_name status)))"

definition compute_placements :: "topo_env \<Rightarrow> ElementRule \<Rightarrow> PlacementContext \<Rightarrow> RulePlacement" where
  "compute_placements env r ctx =
     (case r of
        ByHypervisor \<Rightarrow> compute_virtualizer_placements env r ctx
      | ByContainerRuntime \<Rightarrow> compute_virtualizer_placements env r ctx
      | ByStack \<Rightarrow> compute_stack_placements env ctx
      | ByServiceCategory categories title _ \<Rightarrow> compute_service_category_placements env categories title ctx
      | ByTag tags title \<Rightarrow> compute_tag_placements env tags title ctx
      | ByTrunkPort \<Rightarrow> compute_trunk_port_placements env ctx
      | ByVLAN \<Rightarrow> compute_vlan_placements env ctx
      | ByPortOpStatus \<Rightarrow> compute_port_op_status_placements env ctx)"

section \<open>Applying the rules\<close>

definition container_of :: "Node \<Rightarrow> uuid option" where
  "container_of n = (case node_type n of ElementNode e \<Rightarrow> Some (en_container_id e) | ContainerNode _ \<Rightarrow> None)"

definition elements_by_container :: "Node list \<Rightarrow> (uuid \<times> uuid list) list" where
  "elements_by_container nodes = map (\<lambda>(c, ns). (c, map node_id ns)) (group_by container_of nodes)"

definition match_data_of :: "(Node \<Rightarrow> ElementMatchData option) \<Rightarrow> Node list \<Rightarrow> uuid \<rightharpoonup> ElementMatchData" where
  "match_data_of resolve nodes =
     map_of (rev (List.map_filter
       (\<lambda>n. if is_element (node_type n) then map_option (Pair (node_id n)) (resolve n) else None) nodes))"

record rules_state =
  rs_claimed :: "uuid set"
  rs_placements :: "(uuid \<times> PlacementDecision) list"
  rs_containers :: "Node list"
  rs_reassignments :: "uuid \<rightharpoonup> uuid"

definition merge_decision :: "uuid \<times> PlacementDecision \<Rightarrow> rules_state \<Rightarrow> rules_state" where
  "merge_decision = (\<lambda>(i, d) s.
     (let s = (case d of PlaceInContainer c \<Rightarrow> s\<lparr>rs_reassignments := (rs_reassignments s)(i \<mapsto> c)\<rparr> | _ \<Rightarrow> s)
      in s\<lparr>rs_placements := AList.update i d (rs_placements s)\<rparr>))"

definition apply_rule ::
    "topo_env \<Rightarrow> (uuid \<times> uuid list) list \<Rightarrow> (uuid \<rightharpoonup> ElementMatchData) \<Rightarrow> (uuid \<rightharpoonup> string) option \<Rightarrow> InlineContext option
      \<Rightarrow> ElementRule IdentifiedRule \<Rightarrow> rules_state \<Rightarrow> rules_state" where
  "apply_rule env ebc md titles ictx gr s =
     (let p = compute_placements env (rule gr)
            \<lparr>pc_rule_id = rule_id gr, pc_elements_by_container = ebc, pc_match_data = md,
             pc_claimed = rs_claimed s, pc_virtualizer_titles = titles, pc_inline_ctx = ictx\<rparr>
      in fold merge_decision (rp_placements p)
           (s\<lparr>rs_containers := rs_containers s @ rp_containers p, rs_claimed := rs_claimed s \<union> rp_claimed p\<rparr>))"

definition reassign :: "(uuid \<rightharpoonup> uuid) \<Rightarrow> Node \<Rightarrow> Node" where
  "reassign m n =
     (case node_type n of
        ElementNode e \<Rightarrow> (case m (node_id n) of
            Some c \<Rightarrow> n\<lparr>node_type := ElementNode (e\<lparr>en_container_id := c\<rparr>)\<rparr>
          | None \<Rightarrow> n)
      | ContainerNode _ \<Rightarrow> n)"

definition no_rules_yet :: rules_state where
  "no_rules_yet = \<lparr>rs_claimed = {}, rs_placements = [], rs_containers = [], rs_reassignments = Map.empty\<rparr>"

definition run_rules ::
    "topo_env \<Rightarrow> Node list \<Rightarrow> ElementRule IdentifiedRule list \<Rightarrow> (Node \<Rightarrow> ElementMatchData option)
      \<Rightarrow> (uuid \<rightharpoonup> string) option \<Rightarrow> InlineContext option \<Rightarrow> rules_state" where
  "run_rules env nodes rules resolve titles ictx =
     fold (apply_rule env (elements_by_container nodes) (match_data_of resolve nodes) titles ictx) rules no_rules_yet"

definition apply_element_rules ::
    "topo_env \<Rightarrow> Node list \<Rightarrow> ElementRule IdentifiedRule list \<Rightarrow> (Node \<Rightarrow> ElementMatchData option)
      \<Rightarrow> (uuid \<rightharpoonup> string) option \<Rightarrow> InlineContext option \<Rightarrow> Node list \<times> (uuid \<times> PlacementDecision) list" where
  "apply_element_rules env nodes rules resolve titles ictx =
     (if rules = [] then (nodes, [])
      else let s = run_rules env nodes rules resolve titles ictx in
        (map (reassign (rs_reassignments s)) nodes @ rs_containers s, rs_placements s))"

section \<open>Logos of stacks\<close>

definition logo_step :: "Service \<Rightarrow> (string \<times> string option) list \<Rightarrow> (string \<times> string option) list" where
  "logo_step s logos =
     (case svc_virtualization_metadata (svc_base s) of
        None \<Rightarrow> logos
      | Some virt \<Rightarrow>
          (case compose_project virt of
             None \<Rightarrow> logos
           | Some project \<Rightarrow>
               (let runtime = runtime_service_definition_id virt in
                case map_of logos project of
                  None \<Rightarrow> AList.update project (Some runtime) logos
                | Some existing \<Rightarrow>
                    if existing \<noteq> Some runtime then AList.update project None logos else logos)))"

definition stack_runtime_logos :: "Service list \<Rightarrow> (string \<times> string option) list" where
  "stack_runtime_logos services = fold logo_step services []"

definition apply_stack_runtime_logos :: "Node list \<Rightarrow> Service list \<Rightarrow> Node list" where
  "apply_stack_runtime_logos nodes services =
     (let logos = stack_runtime_logos services in
      map (\<lambda>n. case node_type n of
           ContainerNode c \<Rightarrow>
             if cn_type c = StackCont
             then n\<lparr>node_type := ContainerNode (c\<lparr>cn_service_definition :=
                    Option.bind (node_header n) (\<lambda>h. Option.bind (map_of logos h) (\<lambda>l. l))\<rparr>)\<rparr>
             else n
         | ElementNode _ \<Rightarrow> n) nodes)"

end
