(* ===== verification/Topology_Context.thy ===== *)
theory Topology_Context
  imports Element_Rules "HOL-Library.Product_Lexorder"
begin

text \<open>
  The data a view is built from (\<^verbatim>\<open>backend/src/server/topology/service/context.rs\<close>): the
  entities of one network and the lookups on them. Of the topology's options only the request
  part reaches the builders.
\<close>

section \<open>Order of addresses\<close>

text \<open>The derived order of \<open>IpAddr\<close>: every IPv4 address before every IPv6 address.\<close>

fun ip_rank :: "IpAddr \<Rightarrow> nat \<times> nat" where
  "ip_rank (V4 a) = (0, unat a)"
| "ip_rank (V6 a) = (1, unat a)"

lemma ip_rank_inj: "ip_rank a = ip_rank b \<Longrightarrow> a = b"
  by (cases a; cases b) (auto simp: word_unat_eq_iff)

instantiation IpAddr :: linorder
begin

definition less_eq_IpAddr :: "IpAddr \<Rightarrow> IpAddr \<Rightarrow> bool" where
  "less_eq_IpAddr a b \<longleftrightarrow> ip_rank a \<le> ip_rank b"

definition less_IpAddr :: "IpAddr \<Rightarrow> IpAddr \<Rightarrow> bool" where
  "less_IpAddr a b \<longleftrightarrow> ip_rank a < ip_rank b"

instance
  by standard (auto simp: less_eq_IpAddr_def less_IpAddr_def dest: ip_rank_inj order.antisym)

end

section \<open>The context\<close>

record TopologyContext =
  tc_hosts :: "Host list"
  tc_ip_addresses :: "IPAddress list"
  tc_subnets :: "Subnet list"
  tc_services :: "Service list"
  tc_dependencies :: "Dependency list"
  tc_ports :: "Port list"
  tc_bindings :: "Binding list"
  tc_interfaces :: "Interface list"
  tc_entity_tags :: "Tag list"
  tc_vlans :: "Vlan list"
  tc_options :: TopologyRequestOptions
  tc_view :: TopologyView

definition get_subnet_by_id :: "TopologyContext \<Rightarrow> uuid \<Rightarrow> Subnet option" where
  "get_subnet_by_id ctx i = find (\<lambda>s. subnet_id s = i) (tc_subnets ctx)"

definition get_host_by_id :: "TopologyContext \<Rightarrow> uuid \<Rightarrow> Host option" where
  "get_host_by_id ctx i = find (\<lambda>h. host_id h = i) (tc_hosts ctx)"

definition get_service_by_id :: "TopologyContext \<Rightarrow> uuid \<Rightarrow> Service option" where
  "get_service_by_id ctx i = find (\<lambda>s. svc_id s = i) (tc_services ctx)"

definition get_ip_address_by_id :: "TopologyContext \<Rightarrow> uuid option \<Rightarrow> IPAddress option" where
  "get_ip_address_by_id ctx io = Option.bind io (\<lambda>i. find (\<lambda>a. ip_id a = i) (tc_ip_addresses ctx))"

definition get_ip_addresses_for_host :: "TopologyContext \<Rightarrow> uuid \<Rightarrow> IPAddress list" where
  "get_ip_addresses_for_host ctx h = filter (\<lambda>a. ip_host_id (ip_base a) = h) (tc_ip_addresses ctx)"

definition get_services_for_host :: "TopologyContext \<Rightarrow> uuid \<Rightarrow> Service list" where
  "get_services_for_host ctx h = filter (\<lambda>s. svc_host_id (svc_base s) = h) (tc_services ctx)"

definition get_first_non_container_bridge_ip_address_for_host :: "TopologyContext \<Rightarrow> uuid \<Rightarrow> IPAddress option" where
  "get_first_non_container_bridge_ip_address_for_host ctx h =
     find (\<lambda>a. if ip_host_id (ip_base a) \<noteq> h then False
              else case get_subnet_by_id ctx (ip_subnet_id (ip_base a)) of
                 Some s \<Rightarrow> \<not> is_container_bridge (subnet_type (subnet_base s)) \<and> \<not> is_loopback_type (subnet_type (subnet_base s))
               | None \<Rightarrow> False)
       (tc_ip_addresses ctx)"

definition get_services_bound_to_ip_address :: "TopologyContext \<Rightarrow> uuid \<Rightarrow> Service list" where
  "get_services_bound_to_ip_address ctx a =
     filter (\<lambda>s. \<exists>io \<in> set (to_bound_ip_address_ids s). io = Some a) (tc_services ctx)"

definition get_subnet_from_ip_address_id :: "TopologyContext \<Rightarrow> uuid \<Rightarrow> Subnet option" where
  "get_subnet_from_ip_address_id ctx i =
     Option.bind (find (\<lambda>a. ip_id a = i) (tc_ip_addresses ctx)) (\<lambda>a. get_subnet_by_id ctx (ip_subnet_id (ip_base a)))"

definition get_host_from_ip_address_id :: "TopologyContext \<Rightarrow> uuid \<Rightarrow> Host option" where
  "get_host_from_ip_address_id ctx i =
     Option.bind (find (\<lambda>a. ip_id a = i) (tc_ip_addresses ctx))
       (\<lambda>a. find (\<lambda>h. host_id h = ip_host_id (ip_base a)) (tc_hosts ctx))"

definition get_interface_by_id :: "TopologyContext \<Rightarrow> uuid \<Rightarrow> Interface option" where
  "get_interface_by_id ctx i = find (\<lambda>e. if_id e = i) (tc_interfaces ctx)"

definition resolve_ip_address_for_interface :: "TopologyContext \<Rightarrow> Interface \<Rightarrow> uuid option" where
  "resolve_ip_address_for_interface ctx i =
     (case if_ip_address_id (if_base i) of
        Some a \<Rightarrow> Some a
      | None \<Rightarrow> (case get_ip_addresses_for_host ctx (if_host_id (if_base i)) of [a] \<Rightarrow> Some (ip_id a) | _ \<Rightarrow> None))"

definition get_interfaces_for_host :: "TopologyContext \<Rightarrow> uuid \<Rightarrow> Interface list" where
  "get_interfaces_for_host ctx h = filter (\<lambda>e. if_host_id (if_base e) = h) (tc_interfaces ctx)"

definition get_interfaces_with_neighbor :: "TopologyContext \<Rightarrow> Interface list" where
  "get_interfaces_with_neighbor ctx =
     filter (\<lambda>e. case neighbor (if_base e) of Some (NeighborInterface _) \<Rightarrow> True | _ \<Rightarrow> False) (tc_interfaces ctx)"

definition get_interfaces_with_host_neighbor :: "TopologyContext \<Rightarrow> Interface list" where
  "get_interfaces_with_host_neighbor ctx =
     filter (\<lambda>e. case neighbor (if_base e) of Some (NeighborHost _) \<Rightarrow> True | _ \<Rightarrow> False) (tc_interfaces ctx)"

definition get_host_is_virtualized_by :: "TopologyContext \<Rightarrow> uuid \<Rightarrow> Service option" where
  "get_host_is_virtualized_by ctx i =
     Option.bind (get_host_by_id ctx i) (\<lambda>h.
       Option.bind (host_virtualization_service_id (host_base h)) (\<lambda>v.
         find (\<lambda>s. svc_id s = v) (tc_services ctx)))"

definition get_service_is_containerized_by :: "TopologyContext \<Rightarrow> uuid \<Rightarrow> Service option" where
  "get_service_is_containerized_by ctx i =
     Option.bind (get_service_by_id ctx i) (\<lambda>s.
       Option.bind (svc_virtualization_service_id (svc_base s)) (\<lambda>v.
         find (\<lambda>s. svc_id s = v) (tc_services ctx)))"

definition get_node_subnet :: "uuid \<Rightarrow> Node list \<Rightarrow> uuid option" where
  "get_node_subnet i nodes =
     Option.bind (find (\<lambda>n. node_id n = i) nodes) (\<lambda>n.
       case node_type n of
         ElementNode e \<Rightarrow> (case en_element e of IPAddressElement s _ \<Rightarrow> Some s | _ \<Rightarrow> None)
       | ContainerNode _ \<Rightarrow> Some (node_id n))"

definition get_vlan_by_id :: "TopologyContext \<Rightarrow> uuid \<Rightarrow> Vlan option" where
  "get_vlan_by_id ctx i = find (\<lambda>v. vlan_id v = i) (tc_vlans ctx)"

definition get_host_ids_with_tags :: "TopologyContext \<Rightarrow> uuid list \<Rightarrow> uuid set" where
  "get_host_ids_with_tags ctx tags =
     host_id ` {h \<in> set (tc_hosts ctx). \<exists>t \<in> set (host_tags (host_base h)). t \<in> set tags}"

definition edge_is_intra_subnet :: "TopologyContext \<Rightarrow> Edge \<Rightarrow> bool" where
  "edge_is_intra_subnet ctx e =
     (case (get_subnet_from_ip_address_id ctx (edge_source e), get_subnet_from_ip_address_id ctx (edge_target e)) of
        (Some a, Some b) \<Rightarrow> subnet_id a = subnet_id b
      | _ \<Rightarrow> False)"

definition edge_is_multi_hop :: "TopologyContext \<Rightarrow> uuid \<Rightarrow> uuid \<Rightarrow> bool" where
  "edge_is_multi_hop ctx source target =
     (case (get_subnet_from_ip_address_id ctx source, get_subnet_from_ip_address_id ctx target) of
        (Some a, Some b) \<Rightarrow>
          abs (int (vertical_order (subnet_type (subnet_base a))) - int (vertical_order (subnet_type (subnet_base b)))) > 1
      | _ \<Rightarrow> False)"

definition service_will_have_node :: "TopologyContext \<Rightarrow> uuid \<Rightarrow> bool" where
  "service_will_have_node ctx i =
     (case get_service_by_id ctx i of Some s \<Rightarrow> bindings_of s \<noteq> [] | None \<Rightarrow> True)"

text \<open>Pairs are collected into a hash map: the last one with a key stays.\<close>

definition build_binding_to_service_map :: "TopologyContext \<Rightarrow> uuid \<rightharpoonup> uuid" where
  "build_binding_to_service_map ctx =
     map_of (rev (concat (map (\<lambda>s. map (\<lambda>b. (bind_id b, svc_id s)) (bindings_of s)) (tc_services ctx))))"

definition collect_by :: "('a \<Rightarrow> uuid) \<Rightarrow> 'a list \<Rightarrow> (uuid \<times> 'a) list" where
  "collect_by key xs = fold (\<lambda>x m. AList.update (key x) x m) xs []"

lemma map_of_fold_collect:
  "map_of (fold (\<lambda>x m. AList.update (key x) x m) xs m) i =
     (case find (\<lambda>x. key x = i) (rev xs) of Some x \<Rightarrow> Some x | None \<Rightarrow> map_of m i)"
proof (induction xs rule: rev_induct)
  case (snoc x xs)
  then show ?case by (simp add: update_conv')
qed simp

lemma map_of_collect_by: "map_of (collect_by key xs) i = find (\<lambda>x. key x = i) (rev xs)"
  by (auto simp: collect_by_def map_of_fold_collect split: option.split)

lemma find_None_conv: "find P xs = None \<longleftrightarrow> (\<forall>x \<in> set xs. \<not> P x)"
  by (auto simp: find_None_iff)

lemma map_of_collect_by_Some: "map_of (collect_by key xs) i = Some x \<Longrightarrow> x \<in> set xs \<and> key x = i"
  by (auto simp: map_of_collect_by dest: find_SomeD)

lemma map_of_collect_by_None: "map_of (collect_by key xs) i = None \<longleftrightarrow> i \<notin> key ` set xs"
  by (auto simp: map_of_collect_by find_None_conv)

lemma distinct_collect_by: "distinct (map fst (collect_by key xs))"
proof -
  have "distinct (map fst m) \<Longrightarrow> distinct (map fst (fold (\<lambda>x m. AList.update (key x) x m) xs m))" for m
    by (induction xs arbitrary: m) (simp_all add: distinct_update)
  then show ?thesis by (simp add: collect_by_def)
qed

end
