(* ===== verification/Edge_Builder.thy ===== *)
theory Edge_Builder
  imports Topology_Context
begin

text \<open>
  The edges of the views (\<^verbatim>\<open>backend/src/server/topology/service/edge_builder.rs\<close>). A closure
  that captures a mutable set is a fold that threads it; a \<open>BTreeMap\<close> is an association list
  read in key order (\<open>in_key_order\<close>).
\<close>

section \<open>Collections\<close>

text \<open>The first occurrences, in order (\<open>Itertools::unique\<close>).\<close>

definition unique :: "'a list \<Rightarrow> 'a list" where
  "unique xs = rev (remdups (rev xs))"

definition in_key_order :: "('k :: linorder \<times> 'v) list \<Rightarrow> ('k \<times> 'v) list" where
  "in_key_order m = sort_key fst m"

text \<open>\<open>entry(k).or_default()\<close>, then a push unless the value is already there.\<close>

definition push_unique :: "'k \<Rightarrow> 'v \<Rightarrow> ('k \<times> 'v list) list \<Rightarrow> ('k \<times> 'v list) list" where
  "push_unique k v m =
     (case map_of m k of
        Some vs \<Rightarrow> if v \<in> set vs then m else push_entry k v m
      | None \<Rightarrow> push_entry k v m)"

fun windows2 :: "'a list \<Rightarrow> ('a \<times> 'a) list" where
  "windows2 (x # y # ys) = (x, y) # windows2 (y # ys)"
| "windows2 _ = []"

text \<open>The two-way arrow between the names of the ends of a link, in UTF-8.\<close>

definition link_label :: "string \<Rightarrow> string \<Rightarrow> string" where
  "link_label a b = a @ '' '' @ [CHR 0xE2, CHR 0x86, CHR 0x94] @ '' '' @ b"

section \<open>Dependencies\<close>

definition bound_address :: "TopologyContext \<Rightarrow> uuid \<Rightarrow> uuid option option" where
  "bound_address ctx b =
     (case List.map_filter (\<lambda>s. map_option ip_address_id (get_binding s b)) (tc_services ctx) of
        [] \<Rightarrow> None | a # _ \<Rightarrow> Some a)"

definition edge_from_service_bindings :: "TopologyContext \<Rightarrow> uuid \<Rightarrow> uuid \<Rightarrow> Dependency \<Rightarrow> Edge option" where
  "edge_from_service_bindings ctx source target d =
     (case (bound_address ctx source, bound_address ctx target) of
        (Some (Some a), Some (Some b)) \<Rightarrow>
          Some (edge a b
            (case dependency_type (dep_base d) of
               HubAndSpokeDep \<Rightarrow> HubAndSpoke (dep_id d) source target
             | RequestPathDep \<Rightarrow> RequestPath (dep_id d) source target)
            (if map_option subnet_id (get_subnet_from_ip_address_id ctx a)
                = map_option subnet_id (get_subnet_from_ip_address_id ctx b)
             then None else Some (dep_name (dep_base d)))
            (edge_is_multi_hop ctx a b))
      | _ \<Rightarrow> None)"

definition create_dependency_edges :: "TopologyContext \<Rightarrow> Edge list" where
  "create_dependency_edges ctx =
     concat (map (\<lambda>d.
       (let ids = dep_binding_ids d in
        case dependency_type (dep_base d) of
          RequestPathDep \<Rightarrow> List.map_filter (\<lambda>(a, b). edge_from_service_bindings ctx a b d) (windows2 ids)
        | HubAndSpokeDep \<Rightarrow>
            (case ids of
               hub # spokes \<Rightarrow> List.map_filter (\<lambda>spoke. edge_from_service_bindings ctx hub spoke d) (rev spokes)
             | [] \<Rightarrow> [])))
       (tc_dependencies ctx))"

section \<open>Container runtimes\<close>

definition runtime_services :: "TopologyContext \<Rightarrow> (uuid \<times> uuid list) list" where
  "runtime_services ctx =
     fold (\<lambda>s m. case svc_virtualization_service_id (svc_base s) of
         Some r \<Rightarrow> push_unique r (svc_id s) m | None \<Rightarrow> m) (tc_services ctx) []"

text \<open>The bridge addresses of a host, with the subnet each sits in.\<close>

definition bridge_ips :: "TopologyContext \<Rightarrow> uuid \<Rightarrow> uuid \<rightharpoonup> uuid \<times> IpAddr" where
  "bridge_ips ctx h =
     map_of (rev (List.map_filter (\<lambda>a.
         Option.bind (get_subnet_by_id ctx (ip_subnet_id (ip_base a))) (\<lambda>s.
           if is_container_bridge (subnet_type (subnet_base s))
           then Some (ip_id a, (subnet_id s, ip_address (ip_base a))) else None))
       (get_ip_addresses_for_host ctx h)))"

record runtime_reach =
  target_by_subnet :: "(uuid \<times> IpAddr \<times> uuid) list"
  containers_by_subnet :: "(uuid \<times> uuid list) list"
  containers_by_attachment :: "((uuid \<times> uuid) \<times> uuid list) list"

definition reach_attachment :: "(uuid \<rightharpoonup> uuid \<times> IpAddr) \<Rightarrow> uuid \<Rightarrow> uuid \<Rightarrow> runtime_reach \<Rightarrow> runtime_reach" where
  "reach_attachment bridges cid a r =
     (case bridges a of
        None \<Rightarrow> r
      | Some (sid, addr) \<Rightarrow>
          (let candidate = (addr, a) in
           r\<lparr>target_by_subnet := (case map_of (target_by_subnet r) sid of
                Some current \<Rightarrow> if candidate < current then AList.update sid candidate (target_by_subnet r) else target_by_subnet r
              | None \<Rightarrow> AList.update sid candidate (target_by_subnet r)),
             containers_by_subnet := push_unique sid cid (containers_by_subnet r),
             containers_by_attachment := push_unique (sid, a) cid (containers_by_attachment r)\<rparr>))"

definition runtime_reach_of :: "TopologyContext \<Rightarrow> (uuid \<rightharpoonup> uuid \<times> IpAddr) \<Rightarrow> uuid list \<Rightarrow> runtime_reach" where
  "runtime_reach_of ctx bridges containerized =
     fold (\<lambda>cid r. case get_service_by_id ctx cid of
         None \<Rightarrow> r
       | Some s \<Rightarrow> fold (reach_attachment bridges cid) (List.map_filter ip_address_id (bindings_of s)) r)
       containerized \<lparr>target_by_subnet = [], containers_by_subnet = [], containers_by_attachment = []\<rparr>"

text \<open>One triple per edge: the target address, the subnets it reaches and the services on them.\<close>

definition runtime_targets :: "GroupingConfig \<Rightarrow> runtime_reach \<Rightarrow> (uuid \<times> uuid list \<times> uuid list) list" where
  "runtime_targets grouping r =
     (if should_group_container_bridges grouping then
        (if target_by_subnet r = [] then []
         else [(snd (Min (set (map snd (target_by_subnet r)))),
                map fst (in_key_order (target_by_subnet r)),
                unique (concat (map snd (in_key_order (containers_by_subnet r)))))])
      else if subnets_are_containers grouping then
        map (\<lambda>(sid, _, target). (target, [sid],
            (case map_of (containers_by_subnet r) sid of Some cs \<Rightarrow> cs | None \<Rightarrow> [])))
          (in_key_order (target_by_subnet r))
      else map (\<lambda>((sid, a), cs). (a, [sid], cs)) (in_key_order (containers_by_attachment r)))"

definition create_containerized_service_edges :: "TopologyContext \<Rightarrow> GroupingConfig \<Rightarrow> Edge list" where
  "create_containerized_service_edges ctx grouping =
     (let runtimes = runtime_services ctx in
      concat (map (\<lambda>s.
        case map_of runtimes (svc_id s) of
          None \<Rightarrow> []
        | Some containerized \<Rightarrow>
            (case get_host_by_id ctx (svc_host_id (svc_base s)) of
               None \<Rightarrow> []
             | Some h \<Rightarrow>
                 (case get_first_non_container_bridge_ip_address_for_host ctx (host_id h) of
                    None \<Rightarrow> []
                  | Some origin \<Rightarrow>
                      map (\<lambda>(target, subnet_ids, services).
                          edge (ip_id origin) target
                            (ContainerRuntimeEdge (host_id h) (svc_id s) subnet_ids services)
                            (Some (svc_name (svc_base s) @ '' on '' @ host_name (host_base h)))
                            (edge_is_multi_hop ctx (ip_id origin) target))
                        (runtime_targets grouping
                           (runtime_reach_of ctx (bridge_ips ctx (host_id h)) containerized)))))
        (tc_services ctx)))"

definition create_same_container_edges :: "TopologyContext \<Rightarrow> Edge list" where
  "create_same_container_edges ctx =
     concat (map (\<lambda>s.
       if svc_virtualization_metadata (svc_base s) = None then []
       else (let addresses = List.map_filter (\<lambda>i.
                 Option.bind (get_ip_address_by_id ctx (Some i)) (\<lambda>a.
                   Option.bind (get_subnet_by_id ctx (ip_subnet_id (ip_base a))) (\<lambda>n.
                     if is_container_bridge (subnet_type (subnet_base n)) then Some (ip_address (ip_base a), i) else None)))
               (unique (List.map_filter ip_address_id (bindings_of s)))
             in case sort addresses of
                  (_, anchor) # rest \<Rightarrow>
                    map (\<lambda>(_, target). edge anchor target (SameContainer (svc_id s)) (Some (svc_name (svc_base s)))
                        (edge_is_multi_hop ctx anchor target)) rest
                | [] \<Rightarrow> []))
       (tc_services ctx))"

section \<open>Virtual machines\<close>

definition hypervisor_addresses :: "TopologyContext \<Rightarrow> ((uuid \<times> uuid) \<times> uuid) list" where
  "hypervisor_addresses ctx =
     fold (\<lambda>h m.
       case Option.bind (host_virtualization_service_id (host_base h)) (get_service_by_id ctx) of
         None \<Rightarrow> m
       | Some s \<Rightarrow>
           fold (\<lambda>i m.
             case get_subnet_from_ip_address_id ctx i of
               None \<Rightarrow> m
             | Some n \<Rightarrow> if map_of m (subnet_id n, svc_id s) = None then AList.update (subnet_id n, svc_id s) i m else m)
             (List.map_filter ip_address_id (bindings_of s)) m)
       (tc_hosts ctx) []"

definition vm_managers :: "TopologyContext \<Rightarrow> (uuid \<times> uuid) list" where
  "vm_managers ctx =
     fold (\<lambda>h m. case host_virtualization_service_id (host_base h) of
         Some v \<Rightarrow> AList.update (host_id h) v m | None \<Rightarrow> m) (tc_hosts ctx) []"

definition create_vm_host_edges :: "TopologyContext \<Rightarrow> Edge list" where
  "create_vm_host_edges ctx =
     (let addresses = hypervisor_addresses ctx; managers = vm_managers ctx in
      concat (map (\<lambda>h.
        case map_of managers (host_id h) of
          None \<Rightarrow> []
        | Some v \<Rightarrow>
            List.map_filter (\<lambda>a.
                map_option (\<lambda>source. edge source (ip_id a) (HypervisorEdge v) None (edge_is_multi_hop ctx source (ip_id a)))
                  (map_of addresses (ip_subnet_id (ip_base a), v)))
              (get_ip_addresses_for_host ctx (host_id h)))
        (tc_hosts ctx)))"

definition create_vm_host_edges_by_host :: "TopologyContext \<Rightarrow> Edge list" where
  "create_vm_host_edges_by_host ctx =
     List.map_filter (\<lambda>h.
       Option.bind (host_virtualization_service_id (host_base h)) (\<lambda>v.
         map_option (\<lambda>s. edge (svc_host_id (svc_base s)) (host_id h) (HypervisorEdge v) None False)
           (get_service_by_id ctx v)))
       (tc_hosts ctx)"

section \<open>Addresses of one host\<close>

definition is_bridge_subnet :: "Subnet option \<Rightarrow> bool" where
  "is_bridge_subnet n = (case n of Some s \<Rightarrow> is_container_bridge (subnet_type (subnet_base s)) | None \<Rightarrow> False)"

definition create_interface_edges :: "TopologyContext \<Rightarrow> Edge list" where
  "create_interface_edges ctx =
     concat (map (\<lambda>h.
       case get_first_non_container_bridge_ip_address_for_host ctx (host_id h) of
         None \<Rightarrow> []
       | Some origin \<Rightarrow>
           List.map_filter (\<lambda>a.
             if is_bridge_subnet (get_subnet_by_id ctx (ip_subnet_id (ip_base origin)))
                \<or> is_bridge_subnet (get_subnet_by_id ctx (ip_subnet_id (ip_base a)))
             then None
             else Some (edge (ip_id origin) (ip_id a) (SameHost (host_id h))
                    (if ip_subnet_id (ip_base origin) = ip_subnet_id (ip_base a) then None else Some (host_name (host_base h)))
                    (edge_is_multi_hop ctx (ip_id origin) (ip_id a))))
             (filter (\<lambda>a. ip_id a \<noteq> ip_id origin) (get_ip_addresses_for_host ctx (host_id h))))
       (tc_hosts ctx))"

section \<open>Links between ports and between devices\<close>

text \<open>The ordered pair of two ids, which names the unordered one.\<close>

definition host_pair_key :: "uuid \<Rightarrow> uuid \<Rightarrow> uuid \<times> uuid" where
  "host_pair_key a b = (if a < b then (a, b) else (b, a))"

definition physical_link_step :: "TopologyContext \<Rightarrow> Interface \<Rightarrow> (uuid \<times> uuid) set \<times> Edge list \<Rightarrow> (uuid \<times> uuid) set \<times> Edge list" where
  "physical_link_step ctx source = (\<lambda>(processed, edges).
     case neighbor (if_base source) of
       Some (NeighborInterface target_id) \<Rightarrow>
         (let key = host_pair_key (if_id source) target_id in
          if key \<in> processed then (processed, edges)
          else (insert key processed,
            case resolve_ip_address_for_interface ctx source of
              None \<Rightarrow> edges
            | Some a \<Rightarrow>
                (case get_interface_by_id ctx target_id of
                   None \<Rightarrow> edges
                 | Some target \<Rightarrow>
                     (case resolve_ip_address_for_interface ctx target of
                        None \<Rightarrow> edges
                      | Some b \<Rightarrow> edges @ [edge a b (PhysicalLink (if_id source) (if_id target) LLDP)
                            (Some (link_label (display_name source) (display_name target)))
                            (edge_is_multi_hop ctx a b)]))))
     | _ \<Rightarrow> (processed, edges))"

definition create_physical_link_edges :: "TopologyContext \<Rightarrow> Edge list" where
  "create_physical_link_edges ctx =
     snd (fold (physical_link_step ctx) (get_interfaces_with_neighbor ctx) ({}, []))"

definition physical_link_host_pairs :: "TopologyContext \<Rightarrow> Edge list \<Rightarrow> (uuid \<times> uuid) set" where
  "physical_link_host_pairs ctx edges =
     set (List.map_filter (\<lambda>e. case edge_type e of
         PhysicalLink a b _ \<Rightarrow>
           Option.bind (get_interface_by_id ctx a) (\<lambda>source.
             Option.bind (get_interface_by_id ctx b) (\<lambda>target.
               Some (host_pair_key (if_host_id (if_base source)) (if_host_id (if_base target)))))
       | _ \<Rightarrow> None) edges)"

definition neighbor_link_step ::
    "TopologyContext \<Rightarrow> (uuid \<Rightarrow> uuid) \<Rightarrow> (uuid \<times> uuid) set \<Rightarrow> Interface
      \<Rightarrow> (uuid \<times> uuid) set \<times> Edge list \<Rightarrow> (uuid \<times> uuid) set \<times> Edge list" where
  "neighbor_link_step ctx node_for_host linked source = (\<lambda>(processed, edges).
     case neighbor (if_base source) of
       Some (NeighborHost target_id) \<Rightarrow>
         (let source_id = if_host_id (if_base source) in
          if source_id = target_id then (processed, edges)
          else case get_host_by_id ctx source_id of
            None \<Rightarrow> (processed, edges)
          | Some source_host \<Rightarrow>
              (case get_host_by_id ctx target_id of
                 None \<Rightarrow> (processed, edges)
               | Some target_host \<Rightarrow>
                   (let key = host_pair_key source_id target_id in
                    if key \<in> linked \<or> key \<in> processed then (processed, edges)
                    else (insert key processed,
                      edges @ [edge (node_for_host source_id) (node_for_host target_id)
                        (NeighborLink source_id target_id (if has_lldp_data source then LLDP else CDP))
                        (Some (link_label (host_name (host_base source_host)) (host_name (host_base target_host)))) False]))))
     | _ \<Rightarrow> (processed, edges))"

definition create_neighbor_link_edges :: "TopologyContext \<Rightarrow> (uuid \<Rightarrow> uuid) \<Rightarrow> (uuid \<times> uuid) set \<Rightarrow> Edge list" where
  "create_neighbor_link_edges ctx node_for_host linked =
     snd (fold (neighbor_link_step ctx node_for_host linked) (get_interfaces_with_host_neighbor ctx) ({}, []))"

section \<open>The graph\<close>

text \<open>An edge whose ends are not both nodes is dropped.\<close>

definition add_edges_to_graph :: "uuid set \<Rightarrow> Edge list \<Rightarrow> Edge list" where
  "add_edges_to_graph nodes edges = filter (\<lambda>e. edge_source e \<in> nodes \<and> edge_target e \<in> nodes) edges"

section \<open>Facts\<close>

lemma set_unique [simp]: "set (unique xs) = set xs" and distinct_unique [simp]: "distinct (unique xs)"
  by (simp_all add: unique_def)

lemma host_pair_key_commute: "host_pair_key a b = host_pair_key b a"
  by (cases "a = b") (auto simp: host_pair_key_def)

lemma host_pair_key_eq_iff: "host_pair_key a b = host_pair_key c d \<longleftrightarrow> {a, b} = {c, d}"
  by (auto simp: host_pair_key_def doubleton_eq_iff)

text \<open>
  A loop that skips keys it has seen makes one edge attempt for the first element with each
  key.
\<close>

fun first_by :: "('a \<Rightarrow> 'k option) \<Rightarrow> 'k set \<Rightarrow> 'a list \<Rightarrow> 'a list" where
  "first_by key P [] = []"
| "first_by key P (x # xs) =
     (case key x of
        None \<Rightarrow> first_by key P xs
      | Some k \<Rightarrow> if k \<in> P then first_by key P xs else x # first_by key (insert k P) xs)"

lemma fold_first_by:
  assumes "\<And>x P es. x \<in> set xs \<Longrightarrow> step x (P, es) =
     (case key x of
        None \<Rightarrow> (P, es)
      | Some k \<Rightarrow> if k \<in> P then (P, es) else (insert k P, es @ (case mk x of Some e \<Rightarrow> [e] | None \<Rightarrow> [])))"
  shows "snd (fold step xs (P, es)) = es @ List.map_filter mk (first_by key P xs)"
  using assms
  by (induction xs arbitrary: P es) (auto simp: map_filter_simps split: option.split)

lemma first_by_sound: "x \<in> set (first_by key P xs) \<Longrightarrow> x \<in> set xs \<and> (\<exists>k. key x = Some k \<and> k \<notin> P)"
  by (induction key P xs rule: first_by.induct) (auto split: option.splits if_splits)

lemma first_by_distinct: "distinct (List.map_filter key (first_by key P xs))"
proof (induction key P xs rule: first_by.induct)
  case (2 key P x xs)
  show ?case
  proof (cases "key x")
    case None
    with 2 show ?thesis by simp
  next
    case (Some k)
    have "k \<notin> set (List.map_filter key (first_by key (insert k P) xs))"
      using first_by_sound [of _ key "insert k P" xs] by (force simp: map_filter_mem)
    with 2 Some show ?thesis by (auto simp: map_filter_simps)
  qed
qed (simp add: map_filter_simps)

lemma first_by_complete:
  "x \<in> set xs \<Longrightarrow> key x = Some k \<Longrightarrow> k \<notin> P \<Longrightarrow> \<exists>y \<in> set (first_by key P xs). key y = Some k"
  by (induction key P xs rule: first_by.induct) (auto split: option.splits)

text \<open>Edges with the key of the element they were made for: one per key.\<close>

lemma distinct_keys_of_edges:
  assumes "\<And>x e. mk x = Some e \<Longrightarrow> key x \<noteq> None \<Longrightarrow> key_of e = key x"
  shows "distinct (map key_of (List.map_filter mk (first_by key P xs)))"
proof -
  have "distinct (map key_of (List.map_filter mk ys))" if "distinct (List.map_filter key ys)" "\<forall>y \<in> set ys. key y \<noteq> None" for ys
    using that
  proof (induction ys)
    case (Cons y ys)
    then obtain k where k: "key y = Some k" by auto
    with Cons.prems have fresh: "k \<notin> set (List.map_filter key ys)" and d: "distinct (List.map_filter key ys)"
      by (simp_all add: map_filter_simps)
    have "key y \<notin> key_of ` set (List.map_filter mk ys)"
    proof
      assume "key y \<in> key_of ` set (List.map_filter mk ys)"
      then obtain e z where "z \<in> set ys" "mk z = Some e" "key_of e = key y" by (auto simp: map_filter_mem)
      with assms [of z e] k fresh Cons.prems(2) show False by (force simp: map_filter_mem)
    qed
    with Cons d assms [of y] show ?case by (auto simp: map_filter_simps split: option.split)
  qed (simp add: map_filter_simps)
  moreover have "\<forall>y \<in> set (first_by key P xs). key y \<noteq> None" using first_by_sound by fastforce
  ultimately show ?thesis using first_by_distinct by blast
qed

subsection \<open>Device-level links\<close>

definition neighbor_link_key :: "TopologyContext \<Rightarrow> (uuid \<times> uuid) set \<Rightarrow> Interface \<Rightarrow> (uuid \<times> uuid) option" where
  "neighbor_link_key ctx linked i =
     (case neighbor (if_base i) of
        Some (NeighborHost t) \<Rightarrow>
          (let s = if_host_id (if_base i) in
           if s \<noteq> t \<and> get_host_by_id ctx s \<noteq> None \<and> get_host_by_id ctx t \<noteq> None \<and> host_pair_key s t \<notin> linked
           then Some (host_pair_key s t) else None)
      | _ \<Rightarrow> None)"

definition neighbor_link_edge :: "TopologyContext \<Rightarrow> (uuid \<Rightarrow> uuid) \<Rightarrow> Interface \<Rightarrow> Edge option" where
  "neighbor_link_edge ctx node_for_host i =
     (case neighbor (if_base i) of
        Some (NeighborHost t) \<Rightarrow>
          (let s = if_host_id (if_base i) in
           Option.bind (get_host_by_id ctx s) (\<lambda>source.
             Option.bind (get_host_by_id ctx t) (\<lambda>target.
               Some (edge (node_for_host s) (node_for_host t) (NeighborLink s t (if has_lldp_data i then LLDP else CDP))
                 (Some (link_label (host_name (host_base source)) (host_name (host_base target)))) False))))
      | _ \<Rightarrow> None)"

lemma create_neighbor_link_edges_alt:
  "create_neighbor_link_edges ctx f linked =
     List.map_filter (neighbor_link_edge ctx f) (first_by (neighbor_link_key ctx linked) {} (get_interfaces_with_host_neighbor ctx))"
  unfolding create_neighbor_link_edges_def
  by (subst fold_first_by [where key = "neighbor_link_key ctx linked" and mk = "neighbor_link_edge ctx f"])
     (auto simp: neighbor_link_step_def neighbor_link_key_def neighbor_link_edge_def Let_def
        split: option.splits Neighbor.splits)

fun link_hosts :: "EdgeType \<Rightarrow> (uuid \<times> uuid) option" where
  "link_hosts (NeighborLink a b _) = Some (host_pair_key a b)"
| "link_hosts _ = None"

fun link_ports :: "EdgeType \<Rightarrow> (uuid \<times> uuid) option" where
  "link_ports (PhysicalLink a b _) = Some (host_pair_key a b)"
| "link_ports _ = None"

lemma neighbor_link_key_Some:
  "neighbor_link_key ctx linked i = Some k \<longleftrightarrow>
     (\<exists>t. neighbor (if_base i) = Some (NeighborHost t) \<and> if_host_id (if_base i) \<noteq> t
        \<and> get_host_by_id ctx (if_host_id (if_base i)) \<noteq> None \<and> get_host_by_id ctx t \<noteq> None
        \<and> k = host_pair_key (if_host_id (if_base i)) t \<and> k \<notin> linked)"
  by (auto simp: neighbor_link_key_def Let_def split: option.splits Neighbor.splits)

lemma neighbor_link_edge_Some:
  "neighbor_link_edge ctx f i = Some e \<Longrightarrow>
     \<exists>t. neighbor (if_base i) = Some (NeighborHost t) \<and> link_hosts (edge_type e) = Some (host_pair_key (if_host_id (if_base i)) t)
       \<and> edge_source e = f (if_host_id (if_base i)) \<and> edge_target e = f t
       \<and> link_ports (edge_type e) = None"
  by (auto simp: neighbor_link_edge_def Let_def bind_eq_Some_conv split: option.splits Neighbor.splits)

lemma neighbor_link_edge_exists:
  "neighbor_link_key ctx linked i \<noteq> None \<Longrightarrow> neighbor_link_edge ctx f i \<noteq> None"
  by (auto simp: neighbor_link_key_def neighbor_link_edge_def Let_def split: option.splits Neighbor.splits if_splits)

text \<open>The device pairs that get a link: adjacent, both drawn, and not already joined port to port.\<close>

lemma neighbor_links:
  shows neighbor_links_distinct: "distinct (map (\<lambda>e. link_hosts (edge_type e)) (create_neighbor_link_edges ctx f linked))"
    and neighbor_links_keys: "(\<lambda>e. link_hosts (edge_type e)) ` set (create_neighbor_link_edges ctx f linked)
      = Some ` {k. \<exists>i \<in> set (tc_interfaces ctx). neighbor_link_key ctx linked i = Some k}"
proof -
  let ?key = "neighbor_link_key ctx linked" and ?mk = "neighbor_link_edge ctx f"
  let ?xs = "get_interfaces_with_host_neighbor ctx"
  have key_of: "link_hosts (edge_type e) = ?key i" if "?mk i = Some e" "?key i \<noteq> None" for i e
    using neighbor_link_edge_Some [OF that(1)] that(2) by (auto simp: neighbor_link_key_def Let_def split: if_splits)
  show "distinct (map (\<lambda>e. link_hosts (edge_type e)) (create_neighbor_link_edges ctx f linked))"
    unfolding create_neighbor_link_edges_alt by (rule distinct_keys_of_edges) (rule key_of)
  have in_xs: "i \<in> set ?xs" if "i \<in> set (tc_interfaces ctx)" "?key i \<noteq> None" for i
    using that by (auto simp: get_interfaces_with_host_neighbor_def neighbor_link_key_def split: option.splits Neighbor.splits)
  show "(\<lambda>e. link_hosts (edge_type e)) ` set (create_neighbor_link_edges ctx f linked)
      = Some ` {k. \<exists>i \<in> set (tc_interfaces ctx). ?key i = Some k}" (is "?l = ?r")
  proof
    show "?l \<subseteq> ?r"
    proof
      fix x assume "x \<in> ?l"
      then obtain e i where e: "x = link_hosts (edge_type e)" "i \<in> set (first_by ?key {} ?xs)" "?mk i = Some e"
        unfolding create_neighbor_link_edges_alt by (auto simp: map_filter_mem)
      then have "?key i \<noteq> None" using first_by_sound by fastforce
      moreover from this e(1) key_of [OF e(3)] have "x = ?key i" by simp
      moreover have "i \<in> set (tc_interfaces ctx)"
        using first_by_sound [OF e(2)] by (auto simp: get_interfaces_with_host_neighbor_def)
      ultimately show "x \<in> ?r" by auto
    qed
    show "?r \<subseteq> ?l"
    proof
      fix x assume "x \<in> ?r"
      then obtain k i where k: "x = Some k" "i \<in> set (tc_interfaces ctx)" "?key i = Some k" by blast
      then obtain j where j: "j \<in> set (first_by ?key {} ?xs)" "?key j = Some k"
        using first_by_complete [of i ?xs ?key k "{}"] in_xs by auto
      then obtain e where "?mk j = Some e" using neighbor_link_edge_exists [of ctx linked j f] by auto
      with j k(1) key_of [of j e] show "x \<in> ?l" unfolding create_neighbor_link_edges_alt by (force simp: map_filter_mem)
    qed
  qed
qed

end
