(* ===== verification/Element_Placement.thy ===== *)
theory Element_Placement
  imports Element_Rules
begin

text \<open>
  What the element rules of \<open>Element_Rules\<close> do. \<open>element_rule\<close> is the contract of one rule: it
  places elements only in containers it creates, and nests each of these in a container that
  held elements. Every rule satisfies it, and running any list of rules then keeps a graph
  well nested. The second part gives the outcome: an element ends in the group of the first
  rule that has one for it.
\<close>

section \<open>Groups of one rule\<close>

lemma fold_concat_map: "fold f (concat (map g xs)) s = fold (\<lambda>x. fold f (g x)) xs s"
  by (induction xs arbitrary: s) simp_all

lemma map_of_fold_update:
  "map_of (fold (\<lambda>i. AList.update i (f i)) ms al) j = (if j \<in> set ms then Some (f j) else map_of al j)"
  by (induction ms arbitrary: al) (auto simp: update_conv')

lemma map_of_put_group:
  "map_of (rp_placements (put_group b c ms r)) i =
     (if i \<in> set ms then Some (PlaceInContainer (node_id c))
      else if b = Some i then Some (BecomeSubcontainer (node_id c)) else map_of (rp_placements r) i)"
  by (auto simp: put_group_def Let_def map_of_fold_update update_conv' split: option.split)

lemma put_group_sel [simp]:
  "rp_containers (put_group b c ms r) = rp_containers r @ [c]"
  "rp_claimed (put_group b c ms r) = rp_claimed r \<union> set ms"
  by (simp_all add: put_group_def Let_def)

definition group_triples ::
    "PlacementContext \<Rightarrow> (uuid \<Rightarrow> 'k option) \<Rightarrow> ('k \<Rightarrow> uuid option) \<Rightarrow> (uuid \<Rightarrow> 'k \<Rightarrow> uuid list \<Rightarrow> Node)
      \<Rightarrow> (uuid option \<times> Node \<times> uuid list) list" where
  "group_triples ctx key become mk =
     concat (map (\<lambda>(parent, groups). map (\<lambda>(k, ms). (become k, mk parent k ms, ms)) groups)
       (groups_by_container ctx key))"

abbreviation put_triples :: "(uuid option \<times> Node \<times> uuid list) list \<Rightarrow> RulePlacement \<Rightarrow> RulePlacement" where
  "put_triples \<equiv> fold (\<lambda>(b, c, ms). put_group b c ms)"

lemma place_groups_triples: "place_groups ctx key become mk = put_triples (group_triples ctx key become mk) empty_placement"
  unfolding place_groups_def group_triples_def fold_concat_map
  by (intro arg_cong2 [where f = "\<lambda>f s. fold f _ s"] ext refl)
     (auto simp: place_container_def fold_map comp_def split_def)

lemma put_triples_containers: "rp_containers (put_triples ts r) = rp_containers r @ map (\<lambda>(b, c, ms). c) ts"
  by (induction ts arbitrary: r) auto

lemma put_triples_claimed: "rp_claimed (put_triples ts r) = rp_claimed r \<union> (\<Union>(b, c, ms) \<in> set ts. set ms)"
  by (induction ts arbitrary: r) auto

lemma put_triples_placed:
  assumes "map_of (rp_placements (put_triples ts r)) i = Some (PlaceInContainer g)"
  shows "map_of (rp_placements r) i = Some (PlaceInContainer g)
    \<or> (\<exists>b c ms. (b, c, ms) \<in> set ts \<and> i \<in> set ms \<and> g = node_id c)"
  using assms
proof (induction ts arbitrary: r)
  case (Cons t ts)
  obtain b c ms where t: "t = (b, c, ms)" by (cases t)
  from Cons.IH [of "put_group b c ms r"] Cons.prems show ?case
    by (auto simp: t map_of_put_group split: if_splits)
qed simp

lemma put_triples_places:
  assumes "(b, c, ms) \<in> set ts" "i \<in> set ms"
    and same: "\<And>b' c' ms'. (b', c', ms') \<in> set ts \<Longrightarrow> i \<in> set ms' \<Longrightarrow> node_id c' = node_id c"
    and not_become: "\<And>b' c' ms'. (b', c', ms') \<in> set ts \<Longrightarrow> b' \<noteq> Some i"
  shows "map_of (rp_placements (put_triples ts r)) i = Some (PlaceInContainer (node_id c))"
proof -
  have keep: "map_of (rp_placements (put_triples us q)) i = Some (PlaceInContainer (node_id c))"
    if "set us \<subseteq> set ts" "map_of (rp_placements q) i = Some (PlaceInContainer (node_id c))" for us q
    using that
  proof (induction us arbitrary: q)
    case (Cons u us)
    obtain b' c' ms' where u: "u = (b', c', ms')" by (cases u)
    have "(b', c', ms') \<in> set ts" using Cons.prems(1) by (simp add: u)
    then have "b' \<noteq> Some i" "i \<in> set ms' \<Longrightarrow> node_id c' = node_id c"
      by (rule not_become, rule same)
    then have "map_of (rp_placements (put_group b' c' ms' q)) i = Some (PlaceInContainer (node_id c))"
      using Cons.prems(2) by (simp add: map_of_put_group)
    with Cons.IH [of "put_group b' c' ms' q"] Cons.prems(1) show ?case by (simp add: u)
  qed simp
  obtain us vs where ts: "ts = us @ (b, c, ms) # vs" using assms(1) by (meson split_list)
  have "map_of (rp_placements (put_triples vs (put_group b c ms (put_triples us r)))) i
      = Some (PlaceInContainer (node_id c))"
    by (rule keep) (use assms(2) in \<open>auto simp: ts map_of_put_group\<close>)
  then show ?thesis by (simp add: ts)
qed

lemma in_group_triples:
  "(b, c, ms) \<in> set (group_triples ctx key become mk) \<longleftrightarrow>
     (\<exists>parent ids k. (parent, ids) \<in> set (pc_elements_by_container ctx)
        \<and> ms = filter (\<lambda>i. key i = Some k) (filter (\<lambda>i. i \<notin> pc_claimed ctx) ids) \<and> ms \<noteq> []
        \<and> b = become k \<and> c = mk parent k ms)" (is "?l \<longleftrightarrow> ?r")
proof
  show "?l \<Longrightarrow> ?r"
    by (fastforce simp: group_triples_def groups_by_container_def dest: group_by_members)
next
  assume ?r
  then obtain parent ids k where p: "(parent, ids) \<in> set (pc_elements_by_container ctx)"
    and ms: "ms = filter (\<lambda>i. key i = Some k) (filter (\<lambda>i. i \<notin> pc_claimed ctx) ids)" "ms \<noteq> []"
    and bc: "b = become k" "c = mk parent k ms" by blast
  obtain i where "i \<in> set ms" using ms(2) by (meson ex_in_conv set_empty)
  then have "(k, ms) \<in> set (group_by key (filter (\<lambda>i. i \<notin> pc_claimed ctx) ids))"
    unfolding ms(1) by (intro group_by_complete) auto
  with p bc show ?l by (force simp: group_triples_def groups_by_container_def)
qed

section \<open>The contract of a rule\<close>

definition nests_in :: "uuid \<Rightarrow> Node \<Rightarrow> bool" where
  "nests_in parent c \<longleftrightarrow> (\<exists>cd. node_type c = ContainerNode cd \<and> cn_parent cd = Some parent)"

text \<open>The container types of the subcontainers.\<close>

definition sub_box :: "uuid \<Rightarrow> Node \<Rightarrow> bool" where
  "sub_box parent c \<longleftrightarrow>
     (\<exists>cd. node_type c = ContainerNode cd \<and> cn_parent cd = Some parent
        \<and> cn_type cd \<in> {NestedTag, NestedServiceCategory, HypervisorCont, ContainerRuntimeCont, StackCont,
             TrunkPortCont, VLANCont, PortOpStatusCont})"

lemma sub_box_nests: "sub_box parent c \<Longrightarrow> nests_in parent c"
  by (auto simp: sub_box_def nests_in_def)

locale element_rule =
  fixes compute :: "PlacementContext \<Rightarrow> RulePlacement"
  assumes placed_in_own_container:
      "map_of (rp_placements (compute ctx)) i = Some (PlaceInContainer g)
        \<Longrightarrow> g \<in> node_id ` set (rp_containers (compute ctx))"
    and container_nests:
      "c \<in> set (rp_containers (compute ctx))
        \<Longrightarrow> \<exists>parent ids. (parent, ids) \<in> set (pc_elements_by_container ctx) \<and> sub_box parent c"
    and one_decision_each: "distinct (map fst (rp_placements (compute ctx)))"

lemma distinct_fold_update:
  "distinct (map fst ps) \<Longrightarrow> distinct (map fst (fold (\<lambda>i. AList.update i (f i)) ms ps))"
  by (induction ms arbitrary: ps) (simp_all add: distinct_update)

lemma distinct_put_group: "distinct (map fst (rp_placements r)) \<Longrightarrow> distinct (map fst (rp_placements (put_group b c ms r)))"
  by (auto simp: put_group_def Let_def intro!: distinct_fold_update distinct_update split: option.split)

lemma distinct_put_triples: "distinct (map fst (rp_placements r)) \<Longrightarrow> distinct (map fst (rp_placements (put_triples ts r)))"
  by (induction ts arbitrary: r) (auto simp: distinct_put_group)

lemma distinct_place_groups [simp]: "distinct (map fst (rp_placements (place_groups ctx key become mk)))"
  by (simp add: place_groups_triples distinct_put_triples)

lemma place_groups_element_rule:
  assumes "\<And>ctx parent k ms. sub_box parent (mk ctx parent k ms)"
  shows "element_rule (\<lambda>ctx. place_groups ctx (key ctx) become (mk ctx))"
proof
  fix ctx i g
  assume "map_of (rp_placements (place_groups ctx (key ctx) become (mk ctx))) i = Some (PlaceInContainer g)"
  from put_triples_placed [OF this [unfolded place_groups_triples]]
  show "g \<in> node_id ` set (rp_containers (place_groups ctx (key ctx) become (mk ctx)))"
    by (force simp: place_groups_triples put_triples_containers)
next
  fix ctx c
  assume "c \<in> set (rp_containers (place_groups ctx (key ctx) become (mk ctx)))"
  then obtain b ms where "(b, c, ms) \<in> set (group_triples ctx (key ctx) become (mk ctx))"
    by (auto simp: place_groups_triples put_triples_containers)
  then show "\<exists>parent ids. (parent, ids) \<in> set (pc_elements_by_container ctx) \<and> sub_box parent c"
    unfolding in_group_triples using assms by blast
next
  show "distinct (map fst (rp_placements (place_groups ctx (key ctx) become (mk ctx))))" for ctx
    by simp
qed

text \<open>Drawing services on another node takes decisions away from the subcontainers, and adds none.\<close>

lemma fold_keeps:
  assumes "\<And>s. R s s" "\<And>s t u. R s t \<Longrightarrow> R t u \<Longrightarrow> R s u" "\<And>x s. x \<in> set xs \<Longrightarrow> R s (f x s)"
  shows "R s (fold f xs s)"
  using assms(3) by (induction xs arbitrary: s) (auto intro: assms(1,2))

definition placed_kept :: "uuid \<Rightarrow> (uuid \<times> PlacementDecision) list \<Rightarrow> (uuid \<times> PlacementDecision) list \<Rightarrow> bool" where
  "placed_kept i ps qs \<longleftrightarrow>
     (\<forall>g. map_of qs i = Some (PlaceInContainer g) \<longrightarrow> map_of ps i = Some (PlaceInContainer g))"

definition decided_kept :: "uuid \<Rightarrow> (uuid \<times> PlacementDecision) list \<Rightarrow> (uuid \<times> PlacementDecision) list \<Rightarrow> bool" where
  "decided_kept i ps qs \<longleftrightarrow> (map_of ps i \<noteq> None \<longrightarrow> map_of qs i = map_of ps i)"

lemma placed_kept_refl: "placed_kept i ps ps" and
  placed_kept_trans: "placed_kept i ps qs \<Longrightarrow> placed_kept i qs rs \<Longrightarrow> placed_kept i ps rs" and
  decided_kept_refl: "decided_kept i ps ps" and
  decided_kept_trans: "decided_kept i ps qs \<Longrightarrow> decided_kept i qs rs \<Longrightarrow> decided_kept i ps rs"
  by (auto simp: placed_kept_def decided_kept_def)

lemmas placed_kept_fold = fold_keeps [of "placed_kept i" for i, OF placed_kept_refl placed_kept_trans]
lemmas decided_kept_fold = fold_keeps [of "decided_kept i" for i, OF decided_kept_refl decided_kept_trans]

lemma update_inline_kept:
  "placed_kept i ps (AList.update j (InlineOn n g) ps)"
  "map_of ps j = None \<Longrightarrow> decided_kept i ps (AList.update j d ps)"
  by (auto simp: placed_kept_def decided_kept_def update_conv')

lemma inline_vm_services_placed: "placed_kept i ps (inline_vm_services ic ps)"
  unfolding inline_vm_services_def
  by (auto intro!: placed_kept_fold update_inline_kept placed_kept_refl)

lemma inline_vm_services_decided: "decided_kept i ps (inline_vm_services ic ps)"
  unfolding inline_vm_services_def
  by (auto intro!: decided_kept_fold update_inline_kept decided_kept_refl)

lemma inline_runtimes_kept: "placed_kept i ps (inline_runtimes ic ps)"
  unfolding inline_runtimes_def
  by (intro placed_kept_fold)
     (auto simp: placed_kept_def map_of_fold_update update_conv' Let_def split: option.splits if_splits)

lemma distinct_fold_keys:
  assumes "\<And>x ps. distinct (map fst ps) \<Longrightarrow> distinct (map fst (f x ps))"
  shows "distinct (map fst ps) \<Longrightarrow> distinct (map fst (fold f xs ps))"
  by (induction xs arbitrary: ps) (simp_all add: assms)

lemma distinct_inline:
  "distinct (map fst ps) \<Longrightarrow> distinct (map fst (inline_vm_services ic ps))"
  "distinct (map fst ps) \<Longrightarrow> distinct (map fst (inline_runtimes ic ps))"
  unfolding inline_vm_services_def inline_runtimes_def
  by (rule distinct_fold_keys;
      auto simp: Let_def intro!: distinct_fold_keys distinct_update split: option.split)+

section \<open>Every rule satisfies the contract\<close>

lemma sub_container_sel [simp]:
  "node_id (sub_container ctx i t parent col d acc header) = i"
  "sub_box parent (sub_container ctx i t parent col d acc header) \<longleftrightarrow>
     t \<in> {NestedTag, NestedServiceCategory, HypervisorCont, ContainerRuntimeCont, StackCont, TrunkPortCont, VLANCont, PortOpStatusCont}"
  by (simp_all add: sub_container_def sub_box_def)

lemma element_rule_inline:
  assumes "element_rule f" "\<And>ctx. rp_containers (g ctx) = rp_containers (f ctx)"
    "\<And>ctx i. placed_kept i (rp_placements (f ctx)) (rp_placements (g ctx))"
    "\<And>ctx. distinct (map fst (rp_placements (g ctx)))"
  shows "element_rule g"
  using assms unfolding element_rule_def placed_kept_def by metis

lemma virtualizer_element_rule: "element_rule (compute_virtualizer_placements env r)"
proof -
  let ?title = "\<lambda>ctx v. Option.bind (pc_virtualizer_titles ctx) (\<lambda>t. t v)"
  let ?mk = "\<lambda>ctx parent v (_ :: uuid list). sub_container ctx (oid_id env (group_text env parent (pc_rule_id ctx) ('':'' @ uuid_text env v)))
     (if r = ByHypervisor then HypervisorCont else ContainerRuntimeCont) parent None (?title ctx v) (will_accept_edges r) (?title ctx v)"
  let ?phase1 = "\<lambda>ctx. place_groups ctx (\<lambda>i. Option.bind (pc_match_data ctx i) (virtualizer_key r (pc_inline_ctx ctx))) Some (?mk ctx)"
  have "element_rule ?phase1" by (rule place_groups_element_rule) simp
  then show ?thesis
    by (rule element_rule_inline)
       (auto simp: compute_virtualizer_placements_def Let_def inline_vm_services_placed inline_runtimes_kept placed_kept_refl
          distinct_inline split: option.split)
qed

interpretation stack_rule: element_rule "compute_stack_placements env" for env
  by (simp add: compute_stack_placements_def [abs_def] place_groups_element_rule)

interpretation category_rule: element_rule "compute_service_category_placements env categories title"
  for env categories title
  by (simp add: compute_service_category_placements_def [abs_def] place_groups_element_rule)

interpretation tag_rule: element_rule "compute_tag_placements env tags title" for env tags title
  by (simp add: compute_tag_placements_def [abs_def] place_groups_element_rule)

interpretation trunk_rule: element_rule "compute_trunk_port_placements env" for env
  by (simp add: compute_trunk_port_placements_def [abs_def] place_groups_element_rule)

interpretation vlan_rule: element_rule "compute_vlan_placements env" for env
  by (simp add: compute_vlan_placements_def [abs_def] place_groups_element_rule)

interpretation status_rule: element_rule "compute_port_op_status_placements env" for env
  by (simp add: compute_port_op_status_placements_def [abs_def] place_groups_element_rule)

interpretation virtualizer_rule: element_rule "compute_virtualizer_placements env r" for env r
  by (rule virtualizer_element_rule)

text \<open>The dispatch of \<open>compute_placements\<close>, and what merging its outcome keeps.\<close>

interpretation any_rule: element_rule "compute_placements env r" for env r
  by (cases r)
     (simp_all add: compute_placements_def [abs_def] virtualizer_rule.element_rule_axioms stack_rule.element_rule_axioms
        category_rule.element_rule_axioms tag_rule.element_rule_axioms trunk_rule.element_rule_axioms
        vlan_rule.element_rule_axioms status_rule.element_rule_axioms)

section \<open>Merging\<close>

lemma merge_decisions_sel [simp]:
  "rs_containers (fold merge_decision ps s) = rs_containers s"
  "rs_claimed (fold merge_decision ps s) = rs_claimed s"
  by (induction ps arbitrary: s)
     (auto simp: merge_decision_def Let_def split: PlacementDecision.splits)

lemma merge_decisions_reassign:
  "distinct (map fst ps) \<Longrightarrow> rs_reassignments (fold merge_decision ps s) i =
     (case map_of ps i of Some (PlaceInContainer g) \<Rightarrow> Some g | _ \<Rightarrow> rs_reassignments s i)"
proof (induction ps arbitrary: s)
  case (Cons p ps)
  obtain j d where p: "p = (j, d)" by (cases p)
  have "i = j \<Longrightarrow> map_of ps i = None" using Cons.prems by (auto simp: p map_of_eq_None_iff)
  with Cons show ?case
    by (auto simp: p merge_decision_def Let_def split: PlacementDecision.splits option.splits)
qed simp

lemma merge_decisions_placements:
  "distinct (map fst ps) \<Longrightarrow> map_of (rs_placements (fold merge_decision ps s)) = map_of (rs_placements s) ++ map_of ps"
proof (induction ps arbitrary: s)
  case (Cons p ps)
  obtain j d where p: "p = (j, d)" by (cases p)
  have "map_of ps j = None" using Cons.prems by (auto simp: p map_of_eq_None_iff)
  with Cons show ?case
    by (auto simp: p merge_decision_def Let_def update_conv' map_add_def fun_eq_iff split: PlacementDecision.splits option.splits)
qed simp

definition rules_inv :: "uuid set \<Rightarrow> rules_state \<Rightarrow> bool" where
  "rules_inv homes s \<longleftrightarrow>
     (\<forall>i g. rs_reassignments s i = Some g \<longrightarrow> g \<in> node_id ` set (rs_containers s))
     \<and> (\<forall>c \<in> set (rs_containers s). \<exists>parent \<in> homes. sub_box parent c)"

context element_rule
begin

lemma merge_keeps_rules_inv:
  assumes "rules_inv homes s" "fst ` set (pc_elements_by_container ctx) \<subseteq> homes"
  shows "rules_inv homes (fold merge_decision (rp_placements (compute ctx))
    (s\<lparr>rs_containers := rs_containers s @ rp_containers (compute ctx), rs_claimed := claimed\<rparr>))"
  using assms placed_in_own_container container_nests one_decision_each
  by (fastforce simp: rules_inv_def merge_decisions_reassign split: option.splits PlacementDecision.splits)

end

lemma run_rules_inv: "rules_inv (fst ` set (elements_by_container nodes)) (run_rules env nodes rules resolve titles ictx)"
proof -
  let ?ebc = "elements_by_container nodes" and ?md = "match_data_of resolve nodes"
  have step: "rules_inv (fst ` set ?ebc) (apply_rule env ?ebc ?md titles ictx gr s)"
    if "rules_inv (fst ` set ?ebc) s" for gr s
    unfolding apply_rule_def Let_def by (rule any_rule.merge_keeps_rules_inv [OF that]) simp
  have "rules_inv (fst ` set ?ebc) (fold (apply_rule env ?ebc ?md titles ictx) rules s)"
    if "rules_inv (fst ` set ?ebc) s" for s
    using that by (induction rules arbitrary: s) (simp_all add: step)
  moreover have "rules_inv (fst ` set ?ebc) no_rules_yet" by (simp add: rules_inv_def no_rules_yet_def)
  ultimately show ?thesis unfolding run_rules_def by blast
qed

section \<open>Nesting\<close>

definition container_ids :: "Node list \<Rightarrow> uuid set" where
  "container_ids nodes = node_id ` {n \<in> set nodes. \<not> is_element (node_type n)}"

text \<open>
  Every element sits in a container of the graph, and every subcontainer nests in one;
  \<open>outer\<close> are containers drawn elsewhere.
\<close>

definition node_nested :: "uuid set \<Rightarrow> Node \<Rightarrow> bool" where
  "node_nested cs n \<longleftrightarrow>
     (case node_type n of
        ElementNode e \<Rightarrow> en_container_id e \<in> cs
      | ContainerNode c \<Rightarrow> (case cn_parent c of Some p \<Rightarrow> p \<in> cs | None \<Rightarrow> True))"

definition well_nested_in :: "uuid set \<Rightarrow> Node list \<Rightarrow> bool" where
  "well_nested_in outer nodes \<longleftrightarrow> (\<forall>n \<in> set nodes. node_nested (container_ids nodes \<union> outer) n)"

abbreviation well_nested :: "Node list \<Rightarrow> bool" where
  "well_nested \<equiv> well_nested_in {}"

lemma container_ids_simps [simp]:
  "container_ids [] = {}"
  "container_ids (n # ns) = (if is_element (node_type n) then {} else {node_id n}) \<union> container_ids ns"
  by (auto simp: container_ids_def)

lemma container_ids_append [simp]: "container_ids (xs @ ys) = container_ids xs \<union> container_ids ys"
  by (auto simp: container_ids_def)

lemma reassign_sel [simp]: "node_id (reassign m n) = node_id n" "is_element (node_type (reassign m n)) = is_element (node_type n)"
  by (auto simp: reassign_def split: NodeType.split option.split)

lemma container_ids_reassign [simp]: "container_ids (map (reassign m) nodes) = container_ids nodes"
  by (induction nodes) simp_all

lemma nests_in_container: "nests_in parent c \<Longrightarrow> \<not> is_element (node_type c)"
  by (auto simp: nests_in_def)

lemma homes_of_elements:
  "parent \<in> fst ` set (elements_by_container nodes) \<longleftrightarrow> (\<exists>n \<in> set nodes. container_of n = Some parent)"
proof
  assume "parent \<in> fst ` set (elements_by_container nodes)"
  then obtain ns where "(parent, ns) \<in> set (group_by container_of nodes)"
    by (auto simp: elements_by_container_def)
  from group_by_members [OF this] have "filter (\<lambda>n. container_of n = Some parent) nodes \<noteq> []" by metis
  then show "\<exists>n \<in> set nodes. container_of n = Some parent" by (auto simp: filter_empty_conv)
next
  assume "\<exists>n \<in> set nodes. container_of n = Some parent"
  then obtain n where "n \<in> set nodes" "container_of n = Some parent" by blast
  from group_by_complete [of n nodes container_of, OF this] show "parent \<in> fst ` set (elements_by_container nodes)"
    by (force simp: elements_by_container_def)
qed

lemma node_nested_mono: "node_nested cs n \<Longrightarrow> cs \<subseteq> ds \<Longrightarrow> node_nested ds n"
  by (auto simp: node_nested_def split: NodeType.splits option.splits)

lemma apply_element_rules_nested:
  assumes "well_nested_in outer nodes"
  shows "well_nested_in outer (fst (apply_element_rules env nodes rules resolve titles ictx))"
proof (cases "rules = []")
  case False
  define s where "s = run_rules env nodes rules resolve titles ictx"
  note inv = run_rules_inv [of nodes env rules resolve titles ictx, folded s_def, unfolded rules_inv_def]
  have new: "\<exists>parent \<in> container_ids nodes \<union> outer. nests_in parent c" if "c \<in> set (rs_containers s)" for c
  proof -
    obtain parent where p: "parent \<in> fst ` set (elements_by_container nodes)" "nests_in parent c"
      using inv \<open>c \<in> set (rs_containers s)\<close> sub_box_nests by blast
    then obtain n where "n \<in> set nodes" "container_of n = Some parent" by (auto simp: homes_of_elements)
    then have "parent \<in> container_ids nodes \<union> outer"
      using assms by (auto simp: well_nested_in_def node_nested_def container_of_def split: NodeType.splits)
    with p show ?thesis by blast
  qed
  then have ids: "container_ids (rs_containers s) = node_id ` set (rs_containers s)"
    using nests_in_container by (fastforce simp: container_ids_def)
  let ?cs = "container_ids nodes \<union> container_ids (rs_containers s) \<union> outer"
  have "node_nested ?cs (reassign (rs_reassignments s) n)" if "n \<in> set nodes" for n
  proof -
    have "node_nested (container_ids nodes \<union> outer) n" using assms that by (simp add: well_nested_in_def)
    then have "node_nested ?cs n" by (rule node_nested_mono) blast
    moreover have "rs_reassignments s (node_id n) = Some g \<Longrightarrow> g \<in> ?cs" for g
      using inv by (auto simp: ids)
    ultimately show ?thesis
      by (auto simp: node_nested_def reassign_def split: NodeType.splits option.splits)
  qed
  moreover have "node_nested ?cs c" if "c \<in> set (rs_containers s)" for c
    using new [OF that] by (auto simp: node_nested_def nests_in_def)
  ultimately have "well_nested_in outer (map (reassign (rs_reassignments s)) nodes @ rs_containers s)"
    by (auto simp: well_nested_in_def)
  with False show ?thesis by (simp add: apply_element_rules_def Let_def s_def)
qed (simp add: apply_element_rules_def assms)

section \<open>The first rule that has a group\<close>

definition rule_group :: "topo_env \<Rightarrow> InlineContext option \<Rightarrow> ElementRule IdentifiedRule \<Rightarrow> uuid \<Rightarrow> ElementMatchData \<Rightarrow> uuid option" where
  "rule_group env ictx gr parent d =
     (let group_id = (\<lambda>suffix. oid_id env (group_text env parent (rule_id gr) suffix)) in
      case rule gr of
        ByServiceCategory categories _ _ \<Rightarrow>
          if \<exists>c \<in> set categories. c \<in> md_categories d then Some (group_id []) else None
      | ByTag tags _ \<Rightarrow> if \<exists>t \<in> set tags. t \<in> md_tag_ids d then Some (group_id []) else None
      | ByHypervisor \<Rightarrow> map_option (\<lambda>v. group_id ('':'' @ uuid_text env v)) (virtualizer_key ByHypervisor ictx d)
      | ByContainerRuntime \<Rightarrow> map_option (\<lambda>v. group_id ('':'' @ uuid_text env v)) (virtualizer_key ByContainerRuntime ictx d)
      | ByStack \<Rightarrow> map_option (\<lambda>project. oid_id env (''stack:'' @ project @ '':'' @ uuid_text env parent)) (md_deployment_group d)
      | ByTrunkPort \<Rightarrow> if md_is_trunk_port d then Some (group_id '':trunk'') else None
      | ByVLAN \<Rightarrow> map_option (\<lambda>num. group_id ('':vlan:'' @ decimal (unat num))) (md_vlan_number d)
      | ByPortOpStatus \<Rightarrow> map_option (\<lambda>st. group_id ('':status:'' @ decimal (nat (oper_status_i32 st)))) (md_oper_status d))"

fun first_group :: "topo_env \<Rightarrow> InlineContext option \<Rightarrow> ElementRule IdentifiedRule list \<Rightarrow> uuid \<Rightarrow> ElementMatchData \<Rightarrow> uuid option" where
  "first_group env ictx [] parent d = None"
| "first_group env ictx (gr # grs) parent d =
     (case rule_group env ictx gr parent d of Some g \<Rightarrow> Some g | None \<Rightarrow> first_group env ictx grs parent d)"

text \<open>
  What the placements of a rule are, for the elements of \<open>ebc\<close>: those the rule has a group
  for, unless an earlier rule has claimed them.
\<close>

definition places_by ::
    "(uuid \<times> uuid list) list \<Rightarrow> (uuid \<rightharpoonup> ElementMatchData) \<Rightarrow> uuid set \<Rightarrow> (uuid \<Rightarrow> ElementMatchData \<Rightarrow> uuid option) \<Rightarrow> RulePlacement \<Rightarrow> bool" where
  "places_by ebc md claimed grp p \<longleftrightarrow>
     (\<forall>(parent, ids) \<in> set ebc. \<forall>i \<in> set ids.
        (\<forall>g. map_of (rp_placements p) i = Some (PlaceInContainer g)
           \<longleftrightarrow> i \<notin> claimed \<and> Option.bind (md i) (grp parent) = Some g)
        \<and> (i \<in> rp_claimed p \<longleftrightarrow> i \<notin> claimed \<and> Option.bind (md i) (grp parent) \<noteq> None))"

definition one_home :: "(uuid \<times> uuid list) list \<Rightarrow> bool" where
  "one_home ebc \<longleftrightarrow> (\<forall>(p, ids) \<in> set ebc. \<forall>(q, jds) \<in> set ebc. \<forall>i \<in> set ids \<inter> set jds. p = q)"

lemma one_homeD: "one_home ebc \<Longrightarrow> (p, ids) \<in> set ebc \<Longrightarrow> (q, jds) \<in> set ebc \<Longrightarrow> i \<in> set ids \<Longrightarrow> i \<in> set jds \<Longrightarrow> p = q"
  by (fastforce simp: one_home_def)

lemma place_groups_places_by:
  assumes homes: "one_home (pc_elements_by_container ctx)"
    and gid: "\<And>parent k ms. node_id (mk parent k ms) = gid parent k"
    and apart: "\<And>i k v p ids. Option.bind (pc_match_data ctx i) key = Some k \<Longrightarrow> become k = Some v
      \<Longrightarrow> (p, ids) \<in> set (pc_elements_by_container ctx) \<Longrightarrow> v \<notin> set ids"
  shows "places_by (pc_elements_by_container ctx) (pc_match_data ctx) (pc_claimed ctx)
    (\<lambda>parent d. map_option (gid parent) (key d)) (place_groups ctx (\<lambda>i. Option.bind (pc_match_data ctx i) key) become mk)"
    (is "places_by ?ebc ?md ?claimed ?grp ?p")
proof -
  let ?key = "\<lambda>i. Option.bind (?md i) key"
  let ?ts = "group_triples ctx ?key become mk"
  have triple: "(\<exists>b c ms. (b, c, ms) \<in> set ?ts \<and> i \<in> set ms \<and> g = node_id c)
      \<longleftrightarrow> i \<notin> ?claimed \<and> Option.bind (?md i) (?grp parent) = Some g"
    if home: "(parent, ids) \<in> set ?ebc" "i \<in> set ids" for parent ids i g
  proof
    assume "\<exists>b c ms. (b, c, ms) \<in> set ?ts \<and> i \<in> set ms \<and> g = node_id c"
    then obtain q jds k where "(q, jds) \<in> set ?ebc" "i \<in> set jds" "i \<notin> ?claimed" "?key i = Some k" "g = gid q k"
      by (auto simp: in_group_triples gid)
    moreover from this have "q = parent" using one_homeD [OF homes] home by blast
    ultimately show "i \<notin> ?claimed \<and> Option.bind (?md i) (?grp parent) = Some g"
      by (auto simp: bind_eq_Some_conv)
  next
    assume r: "i \<notin> ?claimed \<and> Option.bind (?md i) (?grp parent) = Some g"
    then obtain k where k: "?key i = Some k" "g = gid parent k" by (auto simp: bind_eq_Some_conv)
    let ?ms = "filter (\<lambda>i. ?key i = Some k) (filter (\<lambda>i. i \<notin> ?claimed) ids)"
    have "i \<in> set ?ms" using r k home by simp
    moreover from this have "?ms \<noteq> []" by (metis empty_iff list.set(1))
    then have "(become k, mk parent k ?ms, ?ms) \<in> set ?ts"
      unfolding in_group_triples using home(1) by (intro exI conjI) simp_all
    ultimately show "\<exists>b c ms. (b, c, ms) \<in> set ?ts \<and> i \<in> set ms \<and> g = node_id c" using gid k(2) by metis
  qed
  have not_become: "b \<noteq> Some i" if t: "(b, c, ms) \<in> set ?ts" "(parent, ids) \<in> set ?ebc" "i \<in> set ids" for b c ms i parent ids
  proof
    assume b: "b = Some i"
    obtain k ms' where k: "b = become k" "ms = filter (\<lambda>i. ?key i = Some k) ms'" "ms \<noteq> []"
      using t(1) unfolding in_group_triples by blast
    then obtain j where "?key j = Some k" by (auto simp: filter_empty_conv)
    with apart [of j k i] k b t(2,3) show False by auto
  qed
  have "map_of (rp_placements ?p) i = Some (PlaceInContainer g) \<longleftrightarrow> i \<notin> ?claimed \<and> Option.bind (?md i) (?grp parent) = Some g"
    if home: "(parent, ids) \<in> set ?ebc" "i \<in> set ids" for parent ids i g
  proof
    show "map_of (rp_placements ?p) i = Some (PlaceInContainer g) \<Longrightarrow> i \<notin> ?claimed \<and> Option.bind (?md i) (?grp parent) = Some g"
      using put_triples_placed [of ?ts empty_placement i g] triple [OF home] by (auto simp: place_groups_triples)
  next
    assume r: "i \<notin> ?claimed \<and> Option.bind (?md i) (?grp parent) = Some g"
    then obtain b c ms where "(b, c, ms) \<in> set ?ts" "i \<in> set ms" "g = node_id c" using triple [OF home] by blast
    moreover have "node_id c' = g" if "(b', c', ms') \<in> set ?ts" "i \<in> set ms'" for b' c' ms'
      using triple [OF home, of "node_id c'"] that r by auto
    ultimately show "map_of (rp_placements ?p) i = Some (PlaceInContainer g)"
      using put_triples_places [of b c ms ?ts i empty_placement] not_become [OF _ home]
      by (simp add: place_groups_triples)
  qed
  moreover have "i \<in> rp_claimed ?p \<longleftrightarrow> i \<notin> ?claimed \<and> Option.bind (?md i) (?grp parent) \<noteq> None"
    if home: "(parent, ids) \<in> set ?ebc" "i \<in> set ids" for parent ids i
  proof -
    have "i \<in> rp_claimed ?p \<longleftrightarrow> (\<exists>b c ms. (b, c, ms) \<in> set ?ts \<and> i \<in> set ms)"
      by (auto simp: place_groups_triples put_triples_claimed)
    also have "\<dots> \<longleftrightarrow> (\<exists>g. i \<notin> ?claimed \<and> Option.bind (?md i) (?grp parent) = Some g)"
      using triple [OF home] by metis
    finally show ?thesis by auto
  qed
  ultimately show ?thesis unfolding places_by_def by blast
qed

text \<open>
  No element is a virtualizer of another one; the services drawn on a virtual machine are those
  its runtimes manage.
\<close>

definition virtualizers_apart ::
    "(uuid \<times> uuid list) list \<Rightarrow> (uuid \<rightharpoonup> ElementMatchData) \<Rightarrow> InlineContext option \<Rightarrow> bool" where
  "virtualizers_apart ebc md ictx \<longleftrightarrow>
     (\<forall>(p, ids) \<in> set ebc.
        (\<forall>i d v. md i = Some d \<and> md_virtualizer d = Some v \<longrightarrow> v \<notin> set ids)
        \<and> (\<forall>ic v svcs. ictx = Some ic \<and> (v, svcs) \<in> set (ic_virt_to_container_svcs ic) \<and> virtualizer_on_vm ic v
             \<longrightarrow> v \<notin> set ids \<and> (\<forall>i d. i \<in> set svcs \<and> md i = Some d \<longrightarrow> md_virtualizer d = Some v)))"

lemma inline_runtimes_untouched:
  assumes "\<And>v svcs. (v, svcs) \<in> set (ic_virt_to_container_svcs ic) \<Longrightarrow> virtualizer_on_vm ic v \<Longrightarrow> i \<noteq> v \<and> i \<notin> set svcs"
  shows "map_of (inline_runtimes ic ps) i = map_of ps i"
  unfolding inline_runtimes_def
  by (rule fold_keeps [where R = "\<lambda>ps qs. map_of qs i = map_of ps i"])
     (use assms in \<open>auto simp: virtualizer_on_vm_def Let_def map_of_fold_update update_conv' split: option.split\<close>)

lemma virtualizer_placements_places_by:
  assumes homes: "one_home (pc_elements_by_container ctx)"
    and apart: "virtualizers_apart (pc_elements_by_container ctx) (pc_match_data ctx) (pc_inline_ctx ctx)"
    and gr: "rule gr = r" "rule_id gr = pc_rule_id ctx" "r = ByHypervisor \<or> r = ByContainerRuntime"
  shows "places_by (pc_elements_by_container ctx) (pc_match_data ctx) (pc_claimed ctx)
    (rule_group env (pc_inline_ctx ctx) gr) (compute_virtualizer_placements env r ctx)"
proof -
  let ?gid = "\<lambda>parent v. oid_id env (group_text env parent (pc_rule_id ctx) ('':'' @ uuid_text env v))"
  let ?title = "\<lambda>v. Option.bind (pc_virtualizer_titles ctx) (\<lambda>t. t v)"
  let ?key = "virtualizer_key r (pc_inline_ctx ctx)"
  define p where "p = place_groups ctx (\<lambda>i. Option.bind (pc_match_data ctx i) ?key) Some
     (\<lambda>parent v _. sub_container ctx (?gid parent v) (if r = ByHypervisor then HypervisorCont else ContainerRuntimeCont)
        parent None (?title v) (will_accept_edges r) (?title v))"
  have grp: "rule_group env (pc_inline_ctx ctx) gr = (\<lambda>parent d. map_option (?gid parent) (?key d))"
    using gr by (auto simp: rule_group_def Let_def fun_eq_iff)
  have p_places: "places_by (pc_elements_by_container ctx) (pc_match_data ctx) (pc_claimed ctx)
      (rule_group env (pc_inline_ctx ctx) gr) p"
    unfolding grp p_def using apart
    by (intro place_groups_places_by [OF homes])
       (auto simp: virtualizers_apart_def virtualizer_key_def bind_eq_Some_conv split: if_splits)
  have key: "\<exists>w. md_virtualizer d = Some w \<and> \<not> virtualizer_on_vm ic w"
    if "rule_group env (pc_inline_ctx ctx) gr parent d \<noteq> None" "pc_inline_ctx ctx = Some ic" for parent d ic
    using that unfolding grp by (auto simp: virtualizer_key_def bind_eq_Some_conv split: if_splits)
  let ?q = "compute_virtualizer_placements env r ctx"
  have q: "rp_placements ?q = (case pc_inline_ctx ctx of None \<Rightarrow> rp_placements p
      | Some ic \<Rightarrow> if r = ByHypervisor then inline_vm_services ic (rp_placements p) else inline_runtimes ic (rp_placements p))"
    "rp_claimed ?q = rp_claimed p"
    by (simp_all add: compute_virtualizer_placements_def p_def Let_def split: option.split)
  have "map_of (rp_placements ?q) i = Some (PlaceInContainer g) \<longleftrightarrow> map_of (rp_placements p) i = Some (PlaceInContainer g)"
    if home: "(parent, ids) \<in> set (pc_elements_by_container ctx)" "i \<in> set ids" for parent ids i g
  proof
    show "map_of (rp_placements ?q) i = Some (PlaceInContainer g) \<Longrightarrow> map_of (rp_placements p) i = Some (PlaceInContainer g)"
      unfolding q using inline_vm_services_placed [of i "rp_placements p"] inline_runtimes_kept [of i "rp_placements p"]
      by (cases "pc_inline_ctx ctx") (auto simp: placed_kept_def split: if_splits)
  next
    assume placed: "map_of (rp_placements p) i = Some (PlaceInContainer g)"
    then obtain d where d: "pc_match_data ctx i = Some d" "rule_group env (pc_inline_ctx ctx) gr parent d \<noteq> None"
      using p_places home unfolding places_by_def by (fastforce simp: bind_eq_Some_conv)
    have "map_of (inline_runtimes ic (rp_placements p)) i = map_of (rp_placements p) i" if "pc_inline_ctx ctx = Some ic" for ic
      using apart home key [OF d(2) that] d(1) that
      by (intro inline_runtimes_untouched) (fastforce simp: virtualizers_apart_def)
    then show "map_of (rp_placements ?q) i = Some (PlaceInContainer g)"
      unfolding q using placed inline_vm_services_decided [of i "rp_placements p"]
      by (cases "pc_inline_ctx ctx") (auto simp: decided_kept_def)
  qed
  with p_places q(2) show ?thesis unfolding places_by_def by fastforce
qed

lemma compute_placements_places_by:
  assumes "one_home (pc_elements_by_container ctx)"
    "virtualizers_apart (pc_elements_by_container ctx) (pc_match_data ctx) (pc_inline_ctx ctx)" "rule_id gr = pc_rule_id ctx"
  shows "places_by (pc_elements_by_container ctx) (pc_match_data ctx) (pc_claimed ctx)
    (rule_group env (pc_inline_ctx ctx) gr) (compute_placements env (rule gr) ctx)"
proof -
  have simple: "places_by (pc_elements_by_container ctx) (pc_match_data ctx) (pc_claimed ctx) grp
      (place_groups ctx (\<lambda>i. Option.bind (pc_match_data ctx i) key) (\<lambda>_. None) mk)"
    if "grp = (\<lambda>parent d. map_option (gid parent) (key d))" "\<And>parent k ms. node_id (mk parent k ms) = gid parent k"
    for grp gid key mk
    unfolding that(1) by (rule place_groups_places_by [OF assms(1) that(2)]) simp
  show ?thesis
  proof (cases "rule gr")
    case (ByServiceCategory categories title infra)
    then show ?thesis unfolding compute_placements_def compute_service_category_placements_def
      by (simp, intro simple) (auto simp: rule_group_def flag_key_def assms(3) fun_eq_iff)
  next
    case (ByTag tags title)
    then show ?thesis unfolding compute_placements_def compute_tag_placements_def
      by (simp, intro simple) (auto simp: rule_group_def flag_key_def assms(3) fun_eq_iff)
  next
    case ByStack
    then show ?thesis unfolding compute_placements_def compute_stack_placements_def
      by (simp, intro simple) (auto simp: rule_group_def fun_eq_iff)
  next
    case ByTrunkPort
    then show ?thesis unfolding compute_placements_def compute_trunk_port_placements_def
      by (simp, intro simple) (auto simp: rule_group_def flag_key_def assms(3) fun_eq_iff)
  next
    case ByVLAN
    then show ?thesis unfolding compute_placements_def compute_vlan_placements_def
      by (simp, intro simple) (auto simp: rule_group_def assms(3) fun_eq_iff)
  next
    case ByPortOpStatus
    then show ?thesis unfolding compute_placements_def compute_port_op_status_placements_def
      by (simp, intro simple) (auto simp: rule_group_def assms(3) fun_eq_iff)
  next
    case ByHypervisor
    then show ?thesis using virtualizer_placements_places_by [OF assms(1,2) _ assms(3)] by (simp add: compute_placements_def)
  next
    case ByContainerRuntime
    then show ?thesis using virtualizer_placements_places_by [OF assms(1,2) _ assms(3)] by (simp add: compute_placements_def)
  qed
qed

lemma bind_first_group_Nil [simp]: "Option.bind md (first_group env ictx [] parent) = None"
  by (cases md) simp_all

lemma first_group_append:
  "first_group env ictx (xs @ ys) parent d =
     (case first_group env ictx xs parent d of Some g \<Rightarrow> Some g | None \<Rightarrow> first_group env ictx ys parent d)"
  by (induction xs) (auto split: option.split)

lemma rules_first_group:
  assumes "one_home ebc" "virtualizers_apart ebc md ictx" "(parent, ids) \<in> set ebc" "i \<in> set ids"
  shows "rs_reassignments (fold (apply_rule env ebc md titles ictx) rules no_rules_yet) i
      = Option.bind (md i) (first_group env ictx rules parent)
    \<and> (i \<in> rs_claimed (fold (apply_rule env ebc md titles ictx) rules no_rules_yet)
      \<longleftrightarrow> Option.bind (md i) (first_group env ictx rules parent) \<noteq> None)"
proof (induction rules rule: rev_induct)
  case Nil
  then show ?case by (cases "md i") (simp_all add: no_rules_yet_def)
next
  case (snoc gr rules)
  define s where "s = fold (apply_rule env ebc md titles ictx) rules no_rules_yet"
  define ctx where "ctx = \<lparr>pc_rule_id = rule_id gr, pc_elements_by_container = ebc, pc_match_data = md,
     pc_claimed = rs_claimed s, pc_virtualizer_titles = titles, pc_inline_ctx = ictx\<rparr>"
  define p where "p = compute_placements env (rule gr) ctx"
  have "places_by ebc md (rs_claimed s) (rule_group env ictx gr) p"
  proof -
    have sel: "pc_elements_by_container ctx = ebc" "pc_match_data ctx = md" "pc_inline_ctx ctx = ictx"
      "pc_claimed ctx = rs_claimed s" "rule_id gr = pc_rule_id ctx"
      unfolding ctx_def by simp_all
    from compute_placements_places_by [of ctx gr env, unfolded sel(1-4), OF assms(1,2) sel(5)]
    show ?thesis unfolding p_def .
  qed
  then have here: "\<And>g. map_of (rp_placements p) i = Some (PlaceInContainer g)
        \<longleftrightarrow> i \<notin> rs_claimed s \<and> Option.bind (md i) (rule_group env ictx gr parent) = Some g"
      "i \<in> rp_claimed p \<longleftrightarrow> i \<notin> rs_claimed s \<and> Option.bind (md i) (rule_group env ictx gr parent) \<noteq> None"
    using assms(3,4) unfolding places_by_def by blast+
  have dist: "distinct (map fst (rp_placements p))" unfolding p_def by (rule any_rule.one_decision_each)
  have step: "fold (apply_rule env ebc md titles ictx) (rules @ [gr]) no_rules_yet
      = fold merge_decision (rp_placements p)
          (s\<lparr>rs_containers := rs_containers s @ rp_containers p, rs_claimed := rs_claimed s \<union> rp_claimed p\<rparr>)"
    by (simp add: apply_rule_def Let_def s_def p_def ctx_def)
  have moved: "(case map_of (rp_placements p) i of Some (PlaceInContainer g) \<Rightarrow> Some g | _ \<Rightarrow> rs_reassignments s i)
      = (if i \<in> rs_claimed s then rs_reassignments s i
         else case Option.bind (md i) (rule_group env ictx gr parent) of Some g \<Rightarrow> Some g | None \<Rightarrow> rs_reassignments s i)"
  proof (cases "\<exists>g. map_of (rp_placements p) i = Some (PlaceInContainer g)")
    case True
    then obtain g where g: "map_of (rp_placements p) i = Some (PlaceInContainer g)" by blast
    then have "i \<notin> rs_claimed s" "Option.bind (md i) (rule_group env ictx gr parent) = Some g"
      using here(1) by blast+
    with g show ?thesis by simp
  next
    case False
    then have "i \<in> rs_claimed s \<or> Option.bind (md i) (rule_group env ictx gr parent) = None"
      using here(1) by (metis not_None_eq)
    with False show ?thesis
      by (cases "map_of (rp_placements p) i") (auto split: PlacementDecision.split)
  qed
  have same: "rs_reassignments (s\<lparr>rs_containers := cs, rs_claimed := ms\<rparr>) = rs_reassignments s" for cs ms by simp
  show ?case
    using snoc.IH unfolding step merge_decisions_reassign [OF dist] merge_decisions_sel same moved s_def [symmetric]
    by (cases "md i") (auto simp: here(2) first_group_append split: option.splits)
qed

section \<open>The elements of a graph\<close>

definition element_ids :: "Node list \<Rightarrow> uuid list" where
  "element_ids nodes = map node_id (filter (\<lambda>n. is_element (node_type n)) nodes)"

lemma element_ids_simps [simp]:
  "element_ids [] = []"
  "element_ids (n # ns) = (if is_element (node_type n) then node_id n # element_ids ns else element_ids ns)"
  "element_ids (xs @ ys) = element_ids xs @ element_ids ys"
  by (simp_all add: element_ids_def)

lemma container_of_element: "container_of n = Some c \<Longrightarrow> is_element (node_type n)"
  by (auto simp: container_of_def split: NodeType.splits)

lemma element_node_unique:
  assumes "distinct (element_ids nodes)" "n \<in> set nodes" "m \<in> set nodes" "is_element (node_type n)"
    "is_element (node_type m)" "node_id n = node_id m"
  shows "n = m"
  using assms unfolding element_ids_def by (auto simp: distinct_map inj_on_def)

lemma elements_by_container_mem:
  assumes "(parent, ids) \<in> set (elements_by_container nodes)"
  shows "ids = map node_id (filter (\<lambda>n. container_of n = Some parent) nodes)"
  using assms group_by_members [of parent _ container_of nodes] by (auto simp: elements_by_container_def)

lemma one_home_elements:
  assumes "distinct (element_ids nodes)"
  shows "one_home (elements_by_container nodes)"
proof -
  have "p = q" if "(p, ids) \<in> set (elements_by_container nodes)" "(q, jds) \<in> set (elements_by_container nodes)"
    "i \<in> set ids" "i \<in> set jds" for p q ids jds i
  proof -
    from that obtain n m where "n \<in> set nodes" "m \<in> set nodes" "container_of n = Some p" "container_of m = Some q"
      "node_id n = node_id m" by (auto dest!: elements_by_container_mem)
    with element_node_unique [OF assms, of n m] container_of_element show ?thesis by auto
  qed
  then show ?thesis unfolding one_home_def by blast
qed

lemma match_data_of_element:
  assumes "distinct (element_ids nodes)" "n \<in> set nodes" "is_element (node_type n)"
  shows "match_data_of resolve nodes (node_id n) = resolve n"
proof -
  let ?f = "\<lambda>n. if is_element (node_type n) then map_option (Pair (node_id n)) (resolve n) else None"
  let ?l = "rev (List.map_filter ?f nodes)"
  have mem: "(i, d) \<in> set ?l \<longleftrightarrow> (\<exists>m \<in> set nodes. is_element (node_type m) \<and> node_id m = i \<and> resolve m = Some d)" for i d
    by (auto simp: map_filter_mem split: if_splits)
  have only: "(node_id n, d) \<in> set ?l \<longleftrightarrow> resolve n = Some d" for d
    using element_node_unique [OF assms(1)] assms(2,3) unfolding mem by metis
  show ?thesis
  proof (cases "map_of ?l (node_id n)")
    case None
    have "resolve n \<noteq> Some d" for d
      using only [of d] None weak_map_of_SomeI [of "node_id n" d ?l] by fastforce
    then have "resolve n = None" by blast
    with None show ?thesis by (simp add: match_data_of_def)
  next
    case (Some d)
    with only have "resolve n = Some d" by (meson map_of_SomeD)
    with Some show ?thesis by (simp add: match_data_of_def)
  qed
qed

text \<open>The container an element ends in.\<close>

definition final_container ::
    "topo_env \<Rightarrow> InlineContext option \<Rightarrow> ElementRule IdentifiedRule list \<Rightarrow> uuid \<Rightarrow> ElementMatchData option \<Rightarrow> uuid" where
  "final_container env ictx rules parent md =
     (case Option.bind md (first_group env ictx rules parent) of Some g \<Rightarrow> g | None \<Rightarrow> parent)"

lemma run_rules_element:
  assumes "distinct (element_ids nodes)"
    "virtualizers_apart (elements_by_container nodes) (match_data_of resolve nodes) ictx"
    "n \<in> set nodes" "node_type n = ElementNode e"
  shows "reassign (rs_reassignments (run_rules env nodes rules resolve titles ictx)) n =
    n\<lparr>node_type := ElementNode (e\<lparr>en_container_id := final_container env ictx rules (en_container_id e) (resolve n)\<rparr>)\<rparr>"
proof -
  have home: "container_of n = Some (en_container_id e)" by (simp add: container_of_def assms(4))
  let ?ids = "map node_id (filter (\<lambda>m. container_of m = Some (en_container_id e)) nodes)"
  have "(en_container_id e, ?ids) \<in> set (elements_by_container nodes)"
    using group_by_complete [of n nodes container_of, OF assms(3) home] by (force simp: elements_by_container_def)
  moreover have "node_id n \<in> set ?ids" using home assms(3) by auto
  ultimately have "rs_reassignments (run_rules env nodes rules resolve titles ictx) (node_id n)
      = Option.bind (resolve n) (first_group env ictx rules (en_container_id e))"
    using rules_first_group [OF one_home_elements [OF assms(1)] assms(2)] match_data_of_element [OF assms(1,3)] assms(4)
    by (simp add: run_rules_def)
  then show ?thesis using assms(4) by (cases n) (simp add: reassign_def final_container_def split: option.split)
qed

lemma apply_element_rules_elements:
  assumes "distinct (element_ids nodes)"
    "virtualizers_apart (elements_by_container nodes) (match_data_of resolve nodes) ictx"
  shows "filter (\<lambda>n. is_element (node_type n)) (fst (apply_element_rules env nodes rules resolve titles ictx)) =
    map (\<lambda>n. case node_type n of
        ElementNode e \<Rightarrow> n\<lparr>node_type := ElementNode (e\<lparr>en_container_id := final_container env ictx rules (en_container_id e) (resolve n)\<rparr>)\<rparr>
      | ContainerNode _ \<Rightarrow> n)
      (filter (\<lambda>n. is_element (node_type n)) nodes)" (is "?l = map ?g _")
proof -
  let ?s = "run_rules env nodes rules resolve titles ictx"
  have "filter (\<lambda>n. is_element (node_type n)) (rs_containers ?s) = []"
    using run_rules_inv [of nodes env rules resolve titles ictx] nests_in_container sub_box_nests
    by (fastforce simp: rules_inv_def filter_empty_conv)
  moreover have "filter (\<lambda>n. is_element (node_type n)) (map (reassign (rs_reassignments ?s)) nodes)
      = map (reassign (rs_reassignments ?s)) (filter (\<lambda>n. is_element (node_type n)) nodes)"
    by (simp add: filter_map comp_def)
  moreover have "map (reassign (rs_reassignments ?s)) (filter (\<lambda>n. is_element (node_type n)) nodes)
      = map ?g (filter (\<lambda>n. is_element (node_type n)) nodes)"
    using run_rules_element [OF assms] by (auto split: NodeType.split)
  moreover have "map ?g (filter (\<lambda>n. is_element (node_type n)) nodes) = filter (\<lambda>n. is_element (node_type n)) nodes" if "rules = []"
    using that by (auto simp: final_container_def intro!: map_idI split: NodeType.split option.split)
  ultimately show ?thesis by (simp add: apply_element_rules_def Let_def)
qed

text \<open>Relabelling containers moves nothing.\<close>

lemma well_nested_map:
  assumes "\<And>n. node_id (f n) = node_id n" "\<And>n. is_element (node_type (f n)) = is_element (node_type n)"
    "\<And>cs n. node_nested cs (f n) = node_nested cs n"
  shows "container_ids (map f nodes) = container_ids nodes" "well_nested_in outer (map f nodes) = well_nested_in outer nodes"
proof -
  show ids: "container_ids (map f nodes) = container_ids nodes" by (induction nodes) (simp_all add: assms)
  then show "well_nested_in outer (map f nodes) = well_nested_in outer nodes"
    by (simp add: well_nested_in_def assms(3))
qed

lemma logos_nested [simp]: "well_nested_in outer (apply_stack_runtime_logos nodes services) = well_nested_in outer nodes"
  unfolding apply_stack_runtime_logos_def Let_def
  by (rule well_nested_map(2)) (auto simp: node_nested_def split: NodeType.split option.split)

lemma logos_elements [simp]:
  "filter (\<lambda>n. is_element (node_type n)) (apply_stack_runtime_logos nodes services) = filter (\<lambda>n. is_element (node_type n)) nodes"
  unfolding apply_stack_runtime_logos_def Let_def by (induction nodes) (auto split: NodeType.split)

text \<open>Where nothing is virtualized the conditions on virtualizers hold.\<close>

lemma virtualizers_apart_none:
  assumes "\<And>n d. resolve n = Some d \<Longrightarrow> md_virtualizer d = None"
  shows "virtualizers_apart ebc (match_data_of resolve nodes) None"
proof -
  have "md_virtualizer d = None" if "match_data_of resolve nodes i = Some d" for i d
    using map_of_SomeD [OF that [unfolded match_data_of_def]] assms by (auto simp: map_filter_mem split: if_splits)
  then show ?thesis by (auto simp: virtualizers_apart_def)
qed

abbreviation elements_of :: "Node list \<Rightarrow> Node list" where
  "elements_of nodes \<equiv> filter (\<lambda>n. is_element (node_type n)) nodes"

definition settle :: "topo_env \<Rightarrow> InlineContext option \<Rightarrow> ElementRule IdentifiedRule list \<Rightarrow> (Node \<Rightarrow> ElementMatchData option) \<Rightarrow> Node \<Rightarrow> Node" where
  "settle env ictx rules resolve n =
     (case node_type n of
        ElementNode e \<Rightarrow> n\<lparr>node_type := ElementNode (e\<lparr>en_container_id := final_container env ictx rules (en_container_id e) (resolve n)\<rparr>)\<rparr>
      | ContainerNode _ \<Rightarrow> n)"

lemmas apply_element_rules_settle = apply_element_rules_elements [folded settle_def]

lemma settle_unresolved: "resolve n = None \<Longrightarrow> settle env ictx rules resolve n = n"
  by (cases n) (auto simp: settle_def final_container_def split: NodeType.split)

lemma settle_cong: "resolve n = resolve' n \<Longrightarrow> settle env ictx rules resolve n = settle env ictx rules resolve' n"
  by (auto simp: settle_def split: NodeType.split)

lemma settle_sel [simp]:
  "node_id (settle env ictx rules resolve n) = node_id n"
  "is_element (node_type (settle env ictx rules resolve n)) = is_element (node_type n)"
  by (auto simp: settle_def split: NodeType.split)

end
