(* ===== verification/L2_View.thy ===== *)
theory L2_View
  imports Edge_Builder Element_Placement
begin

text \<open>
  The physical view (\<^verbatim>\<open>backend/src/server/topology/service/l2_builder.rs\<close>): ports as
  elements of their device, links between ports, and links between devices where only the
  device of a neighbour is known. The set of qualifying hosts is a list in insertion order.
\<close>

section \<open>The builder\<close>

definition l2_container_id_for_host :: "topo_env \<Rightarrow> uuid \<Rightarrow> uuid" where
  "l2_container_id_for_host env h = oid_id env (''l2:'' @ uuid_text env h)"

definition l2_link_step :: "TopologyContext \<Rightarrow> Interface \<Rightarrow> (uuid \<times> uuid) set \<times> Edge list \<Rightarrow> (uuid \<times> uuid) set \<times> Edge list" where
  "l2_link_step ctx source = (\<lambda>(processed, edges).
     case neighbor (if_base source) of
       Some (NeighborInterface target_id) \<Rightarrow>
         (let key = host_pair_key (if_id source) target_id in
          if key \<in> processed then (processed, edges)
          else (insert key processed,
            case get_interface_by_id ctx target_id of
              None \<Rightarrow> edges
            | Some target \<Rightarrow>
                if if_host_id (if_base source) = if_host_id (if_base target) then edges
                else edges @ [edge (if_id source) (if_id target) (PhysicalLink (if_id source) (if_id target) LLDP)
                  (Some (link_label (display_name source) (display_name target))) False]))
     | _ \<Rightarrow> (processed, edges))"

definition l2_physical_edges :: "TopologyContext \<Rightarrow> Edge list" where
  "l2_physical_edges ctx = snd (fold (l2_link_step ctx) (get_interfaces_with_neighbor ctx) ({}, []))"

definition l2_neighbor_edges :: "topo_env \<Rightarrow> TopologyContext \<Rightarrow> Edge list" where
  "l2_neighbor_edges env ctx =
     create_neighbor_link_edges ctx (l2_container_id_for_host env) (physical_link_host_pairs ctx (l2_physical_edges ctx))"

definition l2_edges :: "topo_env \<Rightarrow> TopologyContext \<Rightarrow> Edge list" where
  "l2_edges env ctx = l2_physical_edges ctx @ l2_neighbor_edges env ctx"

definition qualifying_host_ids :: "topo_env \<Rightarrow> TopologyContext \<Rightarrow> uuid list" where
  "qualifying_host_ids env ctx =
     unique (map (\<lambda>i. if_host_id (if_base i)) (get_interfaces_with_neighbor ctx)
       @ concat (map (\<lambda>e. case edge_type e of NeighborLink a b _ \<Rightarrow> [a, b] | _ \<Rightarrow> []) (l2_neighbor_edges env ctx))
       @ concat (map (\<lambda>e. case edge_type e of
             PhysicalLink _ b _ \<Rightarrow> (case get_interface_by_id ctx b of Some i \<Rightarrow> [if_host_id (if_base i)] | None \<Rightarrow> [])
           | _ \<Rightarrow> []) (l2_edges env ctx)))"

definition l2_host_containers :: "topo_env \<Rightarrow> TopologyContext \<Rightarrow> Node list" where
  "l2_host_containers env ctx =
     List.map_filter (\<lambda>h.
       map_option (\<lambda>host. container (l2_container_id_for_host env h)
           \<lparr>cn_type = HostCont, cn_parent = None, cn_entity_id = Some h, cn_icon = None, cn_color = None,
            cn_service_definition = None, cn_rule_id = None, cn_accepts_edges = False\<rparr>
           (Some (host_name (host_base host))))
         (map_of (collect_by host_id (tc_hosts ctx)) h))
       (qualifying_host_ids env ctx)"

definition l2_port_elements :: "topo_env \<Rightarrow> TopologyContext \<Rightarrow> Node list" where
  "l2_port_elements env ctx =
     concat (map (\<lambda>h.
       map (\<lambda>i. (node_element (if_id i) (l2_container_id_for_host env h) h (InterfaceElement (if_id i)))
               \<lparr>node_header := Some (display_name i)\<rparr>)
         (filter (\<lambda>i. if_type (if_base i) \<notin> set EXCLUDED_IF_TYPES) (get_interfaces_for_host ctx h)))
       (qualifying_host_ids env ctx))"

definition l2_match_data :: "TopologyContext \<Rightarrow> Node \<Rightarrow> ElementMatchData option" where
  "l2_match_data ctx n =
     (case node_type n of
        ContainerNode _ \<Rightarrow> None
      | ElementNode e \<Rightarrow>
          (let i = map_of (collect_by if_id (tc_interfaces ctx)) (node_id n);
               native = Option.bind i (\<lambda>i. native_vlan_id (if_base i));
               vlan = Option.bind native (get_vlan_by_id ctx)
           in Some \<lparr>md_categories = {},
               md_tag_ids = resolve_element_tag_ids EntInterface (en_host_id e)
                 \<lparr>tl_hosts = Some (map_of (collect_by host_id (tc_hosts ctx))), tl_services = None, tl_subnets = None\<rparr>,
               md_entity = EntInterface, md_virtualizer = None, md_deployment_group = None,
               md_native_vlan_id = native, md_vlan_number = map_option (\<lambda>v. vlan_number (vlan_base v)) vlan,
               md_vlan_name = map_option (\<lambda>v. vlan_name (vlan_base v)) vlan,
               md_is_trunk_port = (case Option.bind i (\<lambda>i. vlan_ids (if_base i)) of Some vs \<Rightarrow> vs \<noteq> [] | None \<Rightarrow> False),
               md_oper_status = map_option (\<lambda>i. oper_status (if_base i)) i\<rparr>))"

definition l2_build :: "topo_env \<Rightarrow> TopologyContext \<Rightarrow> GroupingConfig \<Rightarrow> Node list \<times> Edge list" where
  "l2_build env ctx grouping =
     (fst (apply_element_rules env (l2_host_containers env ctx @ l2_port_elements env ctx) (element_rules grouping)
        (l2_match_data ctx) None None),
      l2_edges env ctx)"

section \<open>Links\<close>

definition port_link_key :: "Interface \<Rightarrow> (uuid \<times> uuid) option" where
  "port_link_key i =
     (case neighbor (if_base i) of Some (NeighborInterface t) \<Rightarrow> Some (host_pair_key (if_id i) t) | _ \<Rightarrow> None)"

definition l2_port_link :: "TopologyContext \<Rightarrow> Interface \<Rightarrow> Edge option" where
  "l2_port_link ctx i =
     (case neighbor (if_base i) of
        Some (NeighborInterface t) \<Rightarrow>
          Option.bind (get_interface_by_id ctx t) (\<lambda>target.
            if if_host_id (if_base i) = if_host_id (if_base target) then None
            else Some (edge (if_id i) (if_id target) (PhysicalLink (if_id i) (if_id target) LLDP)
              (Some (link_label (display_name i) (display_name target))) False))
      | _ \<Rightarrow> None)"

lemma l2_physical_edges_alt:
  "l2_physical_edges ctx = List.map_filter (l2_port_link ctx) (first_by port_link_key {} (get_interfaces_with_neighbor ctx))"
  unfolding l2_physical_edges_def
  by (subst fold_first_by [where key = port_link_key and mk = "l2_port_link ctx"])
     (auto simp: l2_link_step_def port_link_key_def l2_port_link_def Let_def split: option.splits Neighbor.splits)

lemma get_interface_by_id_Some: "get_interface_by_id ctx t = Some i \<Longrightarrow> i \<in> set (tc_interfaces ctx) \<and> if_id i = t"
  unfolding get_interface_by_id_def by (drule find_SomeD) simp

lemma get_interface_by_id_unique:
  assumes "distinct (map if_id (tc_interfaces ctx))" "i \<in> set (tc_interfaces ctx)"
  shows "get_interface_by_id ctx (if_id i) = Some i"
proof (cases "get_interface_by_id ctx (if_id i)")
  case None
  with assms(2) show ?thesis by (auto simp: get_interface_by_id_def find_None_conv)
next
  case (Some j)
  with get_interface_by_id_Some [OF Some] assms show ?thesis by (auto simp: distinct_map inj_on_def)
qed

lemma l2_port_link_Some:
  assumes "l2_port_link ctx i = Some e"
  shows "link_ports (edge_type e) = port_link_key i \<and> link_hosts (edge_type e) = None
    \<and> (\<exists>t p. neighbor (if_base i) = Some (NeighborInterface (if_id t)) \<and> t \<in> set (tc_interfaces ctx)
      \<and> edge_type e = PhysicalLink (if_id i) (if_id t) p \<and> edge_source e = if_id i \<and> edge_target e = if_id t
      \<and> get_interface_by_id ctx (if_id t) = Some t \<and> if_host_id (if_base i) \<noteq> if_host_id (if_base t))"
proof -
  obtain t target where t: "neighbor (if_base i) = Some (NeighborInterface t)" "get_interface_by_id ctx t = Some target"
    "if_host_id (if_base i) \<noteq> if_host_id (if_base target)"
    and e: "e = edge (if_id i) (if_id target) (PhysicalLink (if_id i) (if_id target) LLDP)
      (Some (link_label (display_name i) (display_name target))) False"
    using assms by (auto simp: l2_port_link_def bind_eq_Some_conv split: option.splits Neighbor.splits if_splits)
  with get_interface_by_id_Some [OF t(2)] show ?thesis by (auto simp: port_link_key_def)
qed

text \<open>Two ports are linked when they sit on different devices and one of them reports the other.\<close>

definition ports_linked :: "TopologyContext \<Rightarrow> uuid \<Rightarrow> uuid \<Rightarrow> bool" where
  "ports_linked ctx a b \<longleftrightarrow>
     (\<exists>i \<in> set (tc_interfaces ctx). \<exists>j \<in> set (tc_interfaces ctx). {if_id i, if_id j} = {a, b}
        \<and> if_host_id (if_base i) \<noteq> if_host_id (if_base j) \<and> neighbor (if_base i) = Some (NeighborInterface (if_id j)))"

lemma l2_physical_links:
  assumes ids: "distinct (map if_id (tc_interfaces ctx))"
  shows "distinct (map (\<lambda>e. link_ports (edge_type e)) (l2_physical_edges ctx))"
    and "(\<exists>e \<in> set (l2_physical_edges ctx). link_ports (edge_type e) = Some (host_pair_key a b)) \<longleftrightarrow> ports_linked ctx a b"
proof -
  show "distinct (map (\<lambda>e. link_ports (edge_type e)) (l2_physical_edges ctx))"
    unfolding l2_physical_edges_alt by (rule distinct_keys_of_edges) (simp add: l2_port_link_Some)
  let ?xs = "get_interfaces_with_neighbor ctx"
  have sub: "set ?xs \<subseteq> set (tc_interfaces ctx)" by (auto simp: get_interfaces_with_neighbor_def)
  show "(\<exists>e \<in> set (l2_physical_edges ctx). link_ports (edge_type e) = Some (host_pair_key a b)) \<longleftrightarrow> ports_linked ctx a b"
  proof
    assume "\<exists>e \<in> set (l2_physical_edges ctx). link_ports (edge_type e) = Some (host_pair_key a b)"
    then obtain e i where e: "link_ports (edge_type e) = Some (host_pair_key a b)"
      "i \<in> set (first_by port_link_key {} ?xs)" "l2_port_link ctx i = Some e"
      unfolding l2_physical_edges_alt by (auto simp: map_filter_mem)
    from l2_port_link_Some [OF e(3)] obtain t p where t: "neighbor (if_base i) = Some (NeighborInterface (if_id t))"
      "t \<in> set (tc_interfaces ctx)" "edge_type e = PhysicalLink (if_id i) (if_id t) p"
      "if_host_id (if_base i) \<noteq> if_host_id (if_base t)" by blast
    moreover from t e(1) have "{if_id i, if_id t} = {a, b}" by (simp add: host_pair_key_eq_iff)
    moreover have "i \<in> set (tc_interfaces ctx)" using first_by_sound [OF e(2)] sub by blast
    ultimately show "ports_linked ctx a b" unfolding ports_linked_def by blast
  next
    assume "ports_linked ctx a b"
    then obtain i j where ij: "i \<in> set (tc_interfaces ctx)" "j \<in> set (tc_interfaces ctx)" "{if_id i, if_id j} = {a, b}"
      "if_host_id (if_base i) \<noteq> if_host_id (if_base j)" "neighbor (if_base i) = Some (NeighborInterface (if_id j))"
      unfolding ports_linked_def by blast
    have key: "port_link_key i = Some (host_pair_key a b)"
      using ij(3,5) by (simp add: port_link_key_def host_pair_key_eq_iff)
    have "i \<in> set ?xs" using ij(1,5) by (simp add: get_interfaces_with_neighbor_def)
    from first_by_complete [of i ?xs port_link_key "host_pair_key a b" "{}", OF this key] obtain k
      where k: "k \<in> set (first_by port_link_key {} ?xs)" "port_link_key k = Some (host_pair_key a b)" by auto
    then obtain t where t: "neighbor (if_base k) = Some (NeighborInterface t)" "{if_id k, t} = {a, b}"
      by (auto simp: port_link_key_def host_pair_key_eq_iff split: option.splits Neighbor.splits)
    have k_in: "k \<in> set (tc_interfaces ctx)" using first_by_sound [OF k(1)] sub by blast
    have same: "x = y" if "x \<in> set (tc_interfaces ctx)" "y \<in> set (tc_interfaces ctx)" "if_id x = if_id y" for x y
      using ids that by (auto simp: distinct_map inj_on_def)
    have "{if_id k, t} = {if_id i, if_id j}" using t(2) ij(3) by simp
    then consider "if_id k = if_id i" "t = if_id j" | "if_id k = if_id j" "t = if_id i"
      by (auto simp: doubleton_eq_iff)
    then obtain x where x: "get_interface_by_id ctx t = Some x" "if_host_id (if_base k) \<noteq> if_host_id (if_base x)"
      by cases (use same [OF k_in] ij(1,2,4) get_interface_by_id_unique [OF ids] in metis)+
    then have "l2_port_link ctx k \<noteq> None" using t(1) by (simp add: l2_port_link_def)
    then obtain e where e: "l2_port_link ctx k = Some e" by blast
    with l2_port_link_Some [OF e] k show "\<exists>e \<in> set (l2_physical_edges ctx). link_ports (edge_type e) = Some (host_pair_key a b)"
      unfolding l2_physical_edges_alt by (force simp: map_filter_mem)
  qed
qed

end
