(* ===== verification/L3_View.thy ===== *)
theory L3_View
  imports Edge_Builder Element_Placement
begin

text \<open>
  The logical view (\<^verbatim>\<open>backend/src/server/topology/service/l3_builder.rs\<close>,
  \<^verbatim>\<open>backend/src/server/topology/service/subnet_graph_builder.rs\<close>): addresses as elements
  of their subnet, with the container bridges of one host and runtime drawn as one box when the
  rule \<open>MergeContainerBridges\<close> is on. The subnets are visited in the order their first address
  comes. The anchor planner returns edges that nothing uses, and has no counterpart.
\<close>

section \<open>The builder\<close>

record SubnetChildData =
  ch_id :: uuid
  ch_header :: "string option"
  ch_host_id :: uuid
  ch_ip_address_id :: "uuid option"

definition compute_container_bridge_grouping :: "TopologyContext \<Rightarrow> ((uuid \<times> SubnetType) \<times> uuid) list" where
  "compute_container_bridge_grouping ctx =
     fold (\<lambda>a m.
       case get_subnet_by_id ctx (ip_subnet_id (ip_base a)) of
         None \<Rightarrow> m
       | Some n \<Rightarrow>
           (let t = subnet_type (subnet_base n); k = (ip_host_id (ip_base a), t) in
            if is_container_bridge t \<and> map_of m k = None then AList.update k (subnet_id n) m else m))
       (tc_ip_addresses ctx) []"

definition determine_subnet_child_header_text ::
    "topo_env \<Rightarrow> TopologyContext \<Rightarrow> IPAddress \<Rightarrow> Host \<Rightarrow> SubnetType \<Rightarrow> string option" where
  "determine_subnet_child_header_text env ctx a h t =
     (let addresses = get_ip_addresses_for_host ctx (host_id h);
          name = host_name (host_base h);
          has_name = (name \<noteq> ''Unknown Device'' \<and> name \<noteq> [])
      in case container_runtime_label t of
           Some runtime \<Rightarrow>
             if has_name then Some (runtime @ '' @ '' @ name)
             else map_option (\<lambda>i. runtime @ '' @ '' @ topo_ip_text env (ip_address (ip_base i)))
               (find (\<lambda>i. case get_subnet_from_ip_address_id ctx (ip_id i) of
                    Some s \<Rightarrow> \<not> is_container_bridge (subnet_type (subnet_base s)) | None \<Rightarrow> False) addresses)
         | None \<Rightarrow>
             if get_host_is_virtualized_by ctx (host_id h) \<noteq> None \<and> has_name then Some name
             else (let first_service_matches = (case get_services_for_host ctx (host_id h) of
                         s # _ \<Rightarrow> svc_name (svc_base s) = name | [] \<Rightarrow> False);
                       name_is_ip = (topo_ip_text env (ip_address (ip_base a)) = name);
                       with_node = filter (\<lambda>i. get_services_bound_to_ip_address ctx (ip_id i) \<noteq> []) addresses
                   in if \<not> name_is_ip \<and> \<not> first_service_matches \<and> has_name \<and> length with_node < 2
                      then Some name else None))"

definition address_subnet_type :: "TopologyContext \<Rightarrow> IPAddress \<Rightarrow> SubnetType" where
  "address_subnet_type ctx a =
     (case get_subnet_by_id ctx (ip_subnet_id (ip_base a)) of
        Some s \<Rightarrow> subnet_type (subnet_base s) | None \<Rightarrow> Unknown)"

record grouped_children =
  gc_children :: "(uuid \<times> SubnetChildData list) list"
  gc_bridges :: "((uuid \<times> uuid) \<times> uuid list) list"

definition group_address ::
    "topo_env \<Rightarrow> TopologyContext \<Rightarrow> GroupingConfig \<Rightarrow> ((uuid \<times> SubnetType) \<times> uuid) list \<Rightarrow> IPAddress
      \<Rightarrow> grouped_children \<Rightarrow> grouped_children" where
  "group_address env ctx grouping bridges a g =
     (case get_host_by_id ctx (ip_host_id (ip_base a)) of
        None \<Rightarrow> g
      | Some h \<Rightarrow>
          if (case get_subnet_by_id ctx (ip_subnet_id (ip_base a)) of
                Some s \<Rightarrow> exclude_from_topology (subnet_type (subnet_base s)) | None \<Rightarrow> False)
          then g
          else (let t = address_subnet_type ctx a;
                    child = \<lparr>ch_id = ip_id a, ch_header = determine_subnet_child_header_text env ctx a h t,
                      ch_host_id = host_id h, ch_ip_address_id = Some (ip_id a)\<rparr>
                in if should_group_container_bridges grouping \<and> is_container_bridge t
                   then (case map_of bridges (host_id h, t) of
                           Some p \<Rightarrow> g\<lparr>gc_bridges := push_entry (host_id h, p) (ip_subnet_id (ip_base a)) (gc_bridges g),
                             gc_children := push_entry p child (gc_children g)\<rparr>
                         | None \<Rightarrow> g)
                   else g\<lparr>gc_children := push_entry (ip_subnet_id (ip_base a)) child (gc_children g)\<rparr>))"

definition group_children_by_subnet :: "topo_env \<Rightarrow> TopologyContext \<Rightarrow> GroupingConfig \<Rightarrow> grouped_children" where
  "group_children_by_subnet env ctx grouping =
     (let bridges = (if should_group_container_bridges grouping then compute_container_bridge_grouping ctx else [])
      in fold (group_address env ctx grouping bridges) (tc_ip_addresses ctx) \<lparr>gc_children = [], gc_bridges = []\<rparr>)"

definition consolidated_bridges :: "GroupingConfig \<Rightarrow> grouped_children \<Rightarrow> (uuid \<times> uuid list) list" where
  "consolidated_bridges grouping g =
     (if should_group_container_bridges grouping
      then fold (\<lambda>((_, p), subnets) m. AList.update p (remdups_adj (sort subnets)) m) (gc_bridges g) []
      else [])"

definition child_element :: "uuid \<Rightarrow> SubnetChildData \<Rightarrow> Node" where
  "child_element sid c =
     (node_element (ch_id c) sid (ch_host_id c) (IPAddressElement sid (ch_ip_address_id c)))\<lparr>node_header := ch_header c\<rparr>"

text \<open>The compose project of an address on a container network, when there is exactly one.\<close>

definition child_deployment_group :: "TopologyContext \<Rightarrow> uuid \<Rightarrow> SubnetChildData \<Rightarrow> string option" where
  "child_deployment_group ctx sid c =
     (if \<not> (case find (\<lambda>s. subnet_id s = sid) (tc_subnets ctx) of
             Some s \<Rightarrow> is_container_network (subnet_type (subnet_base s)) | None \<Rightarrow> False) then None
      else (let services = filter (\<lambda>s. svc_host_id (svc_base s) = ch_host_id c
                  \<and> (case ch_ip_address_id c of
                       Some a \<Rightarrow> (\<exists>b \<in> set (bindings_of s). ip_address_id b = Some a)
                     | None \<Rightarrow> True)) (tc_services ctx);
                projects = unique (List.map_filter (\<lambda>s. Option.bind (svc_virtualization_metadata (svc_base s)) compose_project) services)
            in case projects of [p] \<Rightarrow> Some p | _ \<Rightarrow> None))"

definition child_match_data :: "topo_env \<Rightarrow> TopologyContext \<Rightarrow> uuid \<Rightarrow> SubnetChildData \<Rightarrow> ElementMatchData" where
  "child_match_data env ctx sid c =
     \<lparr>md_categories = (\<lambda>s. definition_category env (svc_definition (svc_base s))) `
         {s \<in> set (tc_services ctx). svc_host_id (svc_base s) = ch_host_id c},
      md_tag_ids = resolve_element_tag_ids EntIPAddress (ch_host_id c)
        \<lparr>tl_hosts = Some (map_of (collect_by host_id (tc_hosts ctx))), tl_services = None, tl_subnets = None\<rparr>,
      md_entity = EntIPAddress, md_virtualizer = None, md_deployment_group = child_deployment_group ctx sid c,
      md_native_vlan_id = None, md_vlan_number = None, md_vlan_name = None, md_is_trunk_port = False,
      md_oper_status = None\<rparr>"

definition resolve_child :: "topo_env \<Rightarrow> TopologyContext \<Rightarrow> uuid \<Rightarrow> SubnetChildData list \<Rightarrow> Node \<Rightarrow> ElementMatchData option" where
  "resolve_child env ctx sid children n =
     map_option (child_match_data env ctx sid) (map_of (collect_by ch_id children) (node_id n))"

definition create_nested_group_containers ::
    "topo_env \<Rightarrow> TopologyContext \<Rightarrow> uuid \<Rightarrow> SubnetChildData list \<Rightarrow> Node list \<Rightarrow> Node list" where
  "create_nested_group_containers env ctx sid children nodes =
     (let grouping = from_request_options (tc_options ctx) (tc_view ctx) in
      apply_stack_runtime_logos
        (fst (apply_element_rules env nodes (element_rules grouping) (resolve_child env ctx sid children) None None))
        (tc_services ctx))"

definition create_child_nodes :: "topo_env \<Rightarrow> TopologyContext \<Rightarrow> uuid \<times> SubnetChildData list \<Rightarrow> Node list \<Rightarrow> Node list" where
  "create_child_nodes env ctx = (\<lambda>(sid, children) nodes.
     create_nested_group_containers env ctx sid children (nodes @ map (child_element sid) children))"

definition create_subnet_child_nodes :: "topo_env \<Rightarrow> TopologyContext \<Rightarrow> grouped_children \<Rightarrow> uuid list \<times> Node list" where
  "create_subnet_child_nodes env ctx g =
     (map fst (gc_children g), fold (create_child_nodes env ctx) (gc_children g) [])"

fun join :: "string \<Rightarrow> string list \<Rightarrow> string" where
  "join sep [] = []"
| "join sep [x] = x"
| "join sep (x # y # ys) = x @ sep @ join sep (y # ys)"

definition subnet_header :: "topo_env \<Rightarrow> TopologyContext \<Rightarrow> (uuid \<times> uuid list) list \<Rightarrow> uuid \<Rightarrow> string option" where
  "subnet_header env ctx consolidated sid =
     (case map_of consolidated sid of
        Some cids \<Rightarrow>
          (let merged = filter (\<lambda>s. subnet_id s \<in> set cids) (tc_subnets ctx);
               runtime = (case Option.bind (case merged of s # _ \<Rightarrow> Some s | [] \<Rightarrow> None)
                              (\<lambda>s. container_runtime_label (subnet_type (subnet_base s))) of
                            Some r \<Rightarrow> r | None \<Rightarrow> ''Container'')
           in Some (runtime @ '' Bridge: ('' @ join '', '' (map (\<lambda>s. topo_cidr_text env (cidr (subnet_base s))) merged) @ '')''))
      | None \<Rightarrow>
          map_option (\<lambda>s.
              (let text = topo_cidr_text env (cidr (subnet_base s));
                   name_or_type = (if subnet_name (subnet_base s) \<noteq> text then subnet_name (subnet_base s)
                     else if show_label (subnet_type (subnet_base s)) then subnet_type_name (subnet_type (subnet_base s))
                     else [])
               in if name_or_type = [] then text else name_or_type @ '': '' @ text))
            (find (\<lambda>s. subnet_id s = sid) (tc_subnets ctx)))"

definition create_subnet_nodes :: "topo_env \<Rightarrow> TopologyContext \<Rightarrow> (uuid \<times> uuid list) list \<Rightarrow> uuid list \<Rightarrow> Node list" where
  "create_subnet_nodes env ctx consolidated subnet_ids =
     map (\<lambda>sid. container sid
         \<lparr>cn_type = SubnetCont, cn_parent = None, cn_entity_id = Some sid, cn_icon = None, cn_color = None,
          cn_service_definition = None, cn_rule_id = None,
          cn_accepts_edges = (map_of consolidated sid \<noteq> None \<or> is_bridge_subnet (get_subnet_by_id ctx sid))\<rparr>
         (subnet_header env ctx consolidated sid))
       subnet_ids"

definition decorate_subnet :: "topo_env \<Rightarrow> TopologyContext \<Rightarrow> Node \<Rightarrow> Node" where
  "decorate_subnet env ctx n =
     (case (node_type n, map_of (collect_by subnet_id (tc_subnets ctx)) (node_id n)) of
        (ContainerNode c, Some s) \<Rightarrow>
          n\<lparr>node_type := ContainerNode (c\<lparr>cn_icon := Some (icon_text env (subnet_type_icon (subnet_type (subnet_base s)))),
              cn_color := Some (subnet_type_color (subnet_type (subnet_base s)))\<rparr>)\<rparr>
      | _ \<Rightarrow> n)"

definition l3_edges :: "TopologyContext \<Rightarrow> GroupingConfig \<Rightarrow> Edge list" where
  "l3_edges ctx grouping =
     create_interface_edges ctx @ create_dependency_edges ctx @ create_vm_host_edges ctx
       @ create_containerized_service_edges ctx grouping @ create_same_container_edges ctx
       @ create_physical_link_edges ctx"

definition l3_build :: "topo_env \<Rightarrow> TopologyContext \<Rightarrow> GroupingConfig \<Rightarrow> Node list \<times> Edge list" where
  "l3_build env ctx grouping =
     (let g = group_children_by_subnet env ctx grouping;
          (subnet_ids, child_nodes) = create_subnet_child_nodes env ctx g
      in (map (decorate_subnet env ctx) (create_subnet_nodes env ctx (consolidated_bridges grouping g) subnet_ids) @ child_nodes,
          l3_edges ctx grouping))"

section \<open>The children of the subnets\<close>

text \<open>The box an address is drawn in: its subnet's, or that of its host's merged bridges.\<close>

definition l3_home :: "TopologyContext \<Rightarrow> GroupingConfig \<Rightarrow> IPAddress \<Rightarrow> uuid option" where
  "l3_home ctx grouping a =
     (if get_host_by_id ctx (ip_host_id (ip_base a)) = None \<or> exclude_from_topology (address_subnet_type ctx a) then None
      else if should_group_container_bridges grouping \<and> is_container_bridge (address_subnet_type ctx a)
      then map_of (compute_container_bridge_grouping ctx) (ip_host_id (ip_base a), address_subnet_type ctx a)
      else Some (ip_subnet_id (ip_base a)))"

definition l3_child :: "topo_env \<Rightarrow> TopologyContext \<Rightarrow> IPAddress \<Rightarrow> SubnetChildData" where
  "l3_child env ctx a =
     \<lparr>ch_id = ip_id a,
      ch_header = Option.bind (get_host_by_id ctx (ip_host_id (ip_base a)))
        (\<lambda>h. determine_subnet_child_header_text env ctx a h (address_subnet_type ctx a)),
      ch_host_id = ip_host_id (ip_base a), ch_ip_address_id = Some (ip_id a)\<rparr>"

lemma get_host_by_id_Some: "get_host_by_id ctx i = Some h \<Longrightarrow> h \<in> set (tc_hosts ctx) \<and> host_id h = i"
  unfolding get_host_by_id_def by (drule find_SomeD) simp

lemma map_push_entry: "map (\<lambda>(k, ys). (k, map f ys)) (push_entry k x m) = push_entry k (f x) (map (\<lambda>(k, ys). (k, map f ys)) m)"
  by (induction m) auto

lemma map_group_by:
  "map (\<lambda>(k, ys). (k, map f ys)) (group_by key xs) =
     fold (\<lambda>x m. case key x of Some k \<Rightarrow> push_entry k (f x) m | None \<Rightarrow> m) xs []"
  by (induction xs rule: rev_induct) (auto simp: group_by_snoc map_push_entry split: option.split)

lemma group_address_children:
  assumes "bridges = (if should_group_container_bridges grouping then compute_container_bridge_grouping ctx else [])"
  shows "gc_children (group_address env ctx grouping bridges a g) =
    (case l3_home ctx grouping a of Some k \<Rightarrow> push_entry k (l3_child env ctx a) (gc_children g) | None \<Rightarrow> gc_children g)"
  using assms
  by (auto simp: group_address_def l3_home_def l3_child_def Let_def address_subnet_type_def exclude_from_topology_def
      split: option.splits dest!: get_host_by_id_Some)

lemma gc_children_alt:
  "gc_children (group_children_by_subnet env ctx grouping) =
     map (\<lambda>(k, as). (k, map (l3_child env ctx) as)) (group_by (l3_home ctx grouping) (tc_ip_addresses ctx))"
proof -
  let ?bridges = "if should_group_container_bridges grouping then compute_container_bridge_grouping ctx else []"
  have "gc_children (fold (group_address env ctx grouping ?bridges) xs g) =
      fold (\<lambda>x m. case l3_home ctx grouping x of Some k \<Rightarrow> push_entry k (l3_child env ctx x) m | None \<Rightarrow> m) xs (gc_children g)"
    for xs g
    by (induction xs arbitrary: g) (simp_all add: group_address_children [OF refl])
  then show ?thesis by (simp add: group_children_by_subnet_def Let_def map_group_by)
qed

section \<open>The elements drawn\<close>

definition l3_rules :: "TopologyContext \<Rightarrow> ElementRule IdentifiedRule list" where
  "l3_rules ctx = element_rules (from_request_options (tc_options ctx) (tc_view ctx))"

definition drawn_child :: "topo_env \<Rightarrow> TopologyContext \<Rightarrow> uuid \<Rightarrow> SubnetChildData \<Rightarrow> Node" where
  "drawn_child env ctx sid c =
     settle env None (l3_rules ctx) (\<lambda>_. Some (child_match_data env ctx sid c)) (child_element sid c)"

lemma child_element_sel [simp]:
  "node_id (child_element sid c) = ch_id c" "is_element (node_type (child_element sid c))"
  by (simp_all add: child_element_def node_element_def)

lemma create_child_nodes_elements:
  assumes "distinct (element_ids nodes @ map ch_id children)"
  shows "elements_of (create_child_nodes env ctx (sid, children) nodes) =
    elements_of nodes @ map (drawn_child env ctx sid) children"
proof -
  let ?resolve = "resolve_child env ctx sid children"
  let ?all = "nodes @ map (child_element sid) children"
  have ids: "element_ids ?all = element_ids nodes @ map ch_id children"
    by (simp add: element_ids_def comp_def filter_map)
  have distinct_ids: "distinct (element_ids ?all)" using assms by (simp only: ids)
  have "virtualizers_apart (elements_by_container ?all) (match_data_of ?resolve ?all) None"
    by (rule virtualizers_apart_none) (auto simp: resolve_child_def child_match_data_def)
  from apply_element_rules_settle [OF distinct_ids this, of env "l3_rules ctx" None]
  have "elements_of (create_child_nodes env ctx (sid, children) nodes) =
      map (settle env None (l3_rules ctx) ?resolve) (elements_of ?all)"
    by (simp add: create_child_nodes_def create_nested_group_containers_def l3_rules_def)
  also have "\<dots> = map (settle env None (l3_rules ctx) ?resolve) (elements_of nodes)
      @ map (settle env None (l3_rules ctx) ?resolve \<circ> child_element sid) children"
    by (simp add: filter_map comp_def)
  also have "map (settle env None (l3_rules ctx) ?resolve) (elements_of nodes) = elements_of nodes"
  proof (rule map_idI)
    fix n assume "n \<in> set (elements_of nodes)"
    then have "node_id n \<notin> ch_id ` set children" using assms by (auto simp: element_ids_def)
    then show "settle env None (l3_rules ctx) ?resolve n = n"
      by (intro settle_unresolved) (simp add: resolve_child_def map_of_collect_by_None)
  qed
  also have "map (settle env None (l3_rules ctx) ?resolve \<circ> child_element sid) children = map (drawn_child env ctx sid) children"
  proof (rule map_cong [OF refl])
    fix c assume c: "c \<in> set children"
    have "map_of (collect_by ch_id children) (ch_id c) = Some c"
    proof (cases "map_of (collect_by ch_id children) (ch_id c)")
      case None
      with c show ?thesis by (auto simp: map_of_collect_by_None)
    next
      case (Some d)
      with map_of_collect_by_Some [OF Some] c assms show ?thesis by (auto simp: distinct_map inj_on_def)
    qed
    then show "(settle env None (l3_rules ctx) ?resolve \<circ> child_element sid) c = drawn_child env ctx sid c"
      by (auto simp: drawn_child_def resolve_child_def intro: settle_cong)
  qed
  finally show ?thesis .
qed

lemma create_children_elements:
  assumes "distinct (element_ids nodes @ concat (map (\<lambda>(sid, cs). map ch_id cs) groups))"
  shows "elements_of (fold (create_child_nodes env ctx) groups nodes) =
    elements_of nodes @ concat (map (\<lambda>(sid, cs). map (drawn_child env ctx sid) cs) groups)"
  using assms
proof (induction groups arbitrary: nodes)
  case (Cons g groups)
  obtain sid cs where g: "g = (sid, cs)" by (cases g)
  have step: "elements_of (create_child_nodes env ctx (sid, cs) nodes) = elements_of nodes @ map (drawn_child env ctx sid) cs"
    using Cons.prems by (intro create_child_nodes_elements) (auto simp: g)
  then have "element_ids (create_child_nodes env ctx (sid, cs) nodes) = element_ids nodes @ map ch_id cs"
    by (simp add: element_ids_def drawn_child_def comp_def)
  with Cons.IH [of "create_child_nodes env ctx (sid, cs) nodes"] Cons.prems step show ?case by (simp add: g)
qed simp

lemma create_children_nested:
  "well_nested_in outer nodes \<Longrightarrow> fst ` set groups \<subseteq> outer
    \<Longrightarrow> well_nested_in outer (fold (create_child_nodes env ctx) groups nodes)"
proof (induction groups arbitrary: nodes)
  case (Cons g groups)
  obtain sid cs where g: "g = (sid, cs)" by (cases g)
  have no_ids: "container_ids (map (child_element sid) cs) = {}" by (induction cs) simp_all
  have "well_nested_in outer (nodes @ map (child_element sid) cs)"
    using Cons.prems no_ids by (auto simp: g well_nested_in_def node_nested_def child_element_def node_element_def)
  then have "well_nested_in outer (create_child_nodes env ctx g nodes)"
    by (simp add: g create_child_nodes_def create_nested_group_containers_def Let_def apply_element_rules_nested)
  with Cons show ?case by simp
qed simp

lemma concat_groups: "concat (map (\<lambda>(k, ys). map f ys) gs) = map f (concat (map snd gs))"
  by (induction gs) auto

lemma bridge_grouping_total:
  assumes "a \<in> set (tc_ip_addresses ctx)" "is_container_bridge (address_subnet_type ctx a)"
  shows "map_of (compute_container_bridge_grouping ctx) (ip_host_id (ip_base a), address_subnet_type ctx a) \<noteq> None"
proof -
  define k where "k = (ip_host_id (ip_base a), address_subnet_type ctx a)"
  define f where "f a m = (case get_subnet_by_id ctx (ip_subnet_id (ip_base a)) of
         None \<Rightarrow> m
       | Some n \<Rightarrow>
           (let t = subnet_type (subnet_base n); k = (ip_host_id (ip_base a), t) in
            if is_container_bridge t \<and> map_of m k = None then AList.update k (subnet_id n) m else m))" for a :: IPAddress and m
  have keep: "map_of m k \<noteq> None \<Longrightarrow> map_of (f b m) k \<noteq> None" for b m
    by (auto simp: f_def Let_def update_conv' split: option.split)
  have keeps: "map_of m k \<noteq> None \<Longrightarrow> map_of (fold f xs m) k \<noteq> None" for xs m
    by (induction xs arbitrary: m) (simp_all add: keep del: not_None_eq)
  have add: "map_of (f a m) k \<noteq> None" for m
    using assms(2)
    by (cases "get_subnet_by_id ctx (ip_subnet_id (ip_base a))")
       (auto simp: f_def k_def Let_def update_conv' address_subnet_type_def is_container_bridge_def)
  obtain us vs where "tc_ip_addresses ctx = us @ a # vs" using assms(1) by (meson split_list)
  then have "map_of (fold f (tc_ip_addresses ctx) []) k \<noteq> None" by (simp add: keeps add del: not_None_eq)
  then show ?thesis by (simp add: compute_container_bridge_grouping_def f_def [abs_def] k_def)
qed

lemma l3_home_drawn:
  assumes "a \<in> set (tc_ip_addresses ctx)"
  shows "l3_home ctx grouping a \<noteq> None
    \<longleftrightarrow> get_host_by_id ctx (ip_host_id (ip_base a)) \<noteq> None \<and> \<not> exclude_from_topology (address_subnet_type ctx a)"
  using bridge_grouping_total [OF assms] by (auto simp: l3_home_def)

lemma l3_nodes:
  "fst (l3_build env ctx grouping) =
     (let g = group_children_by_subnet env ctx grouping in
      map (decorate_subnet env ctx) (create_subnet_nodes env ctx (consolidated_bridges grouping g) (map fst (gc_children g)))
        @ fold (create_child_nodes env ctx) (gc_children g) [])"
  by (simp add: l3_build_def create_subnet_child_nodes_def Let_def)

lemma decorate_subnet_sel [simp]:
  "node_id (decorate_subnet env ctx n) = node_id n" "is_element (node_type (decorate_subnet env ctx n)) = is_element (node_type n)"
  "node_nested cs (decorate_subnet env ctx n) = node_nested cs n"
  by (auto simp: decorate_subnet_def node_nested_def split: NodeType.split option.split)

lemma subnet_boxes:
  "elements_of (map (decorate_subnet env ctx) (create_subnet_nodes env ctx c ids)) = []"
  "container_ids (map (decorate_subnet env ctx) (create_subnet_nodes env ctx c ids)) = set ids"
  by (induction ids) (simp_all add: create_subnet_nodes_def)

lemma l3_elements:
  assumes "distinct (map ip_id (tc_ip_addresses ctx))"
  shows "elements_of (fst (l3_build env ctx grouping)) =
      concat (map (\<lambda>(sid, as). map (\<lambda>a. drawn_child env ctx sid (l3_child env ctx a)) as)
        (group_by (l3_home ctx grouping) (tc_ip_addresses ctx)))"
    and "element_ids (fst (l3_build env ctx grouping)) =
      map ip_id (concat (map snd (group_by (l3_home ctx grouping) (tc_ip_addresses ctx))))"
proof -
  let ?gs = "group_by (l3_home ctx grouping) (tc_ip_addresses ctx)"
  let ?children = "gc_children (group_children_by_subnet env ctx grouping)"
  have "map (\<lambda>(sid, cs). map ch_id cs) ?children = map (\<lambda>(k, as). map ip_id as) ?gs"
    by (simp add: gc_children_alt comp_def split_def l3_child_def)
  then have ids: "concat (map (\<lambda>(sid, cs). map ch_id cs) ?children) = map ip_id (concat (map snd ?gs))"
    by (simp add: concat_groups)
  have "distinct (map ip_id (filter (\<lambda>a. l3_home ctx grouping a \<noteq> None) (tc_ip_addresses ctx)))"
    using assms by (rule distinct_map_filter)
  then have "distinct (map ip_id (concat (map snd ?gs)))"
    by (metis mset_group_by mset_map mset_eq_imp_distinct_iff)
  then have "elements_of (fold (create_child_nodes env ctx) ?children []) =
      concat (map (\<lambda>(sid, cs). map (drawn_child env ctx sid) cs) ?children)"
    using create_children_elements [of "[]" ?children env ctx] ids by simp
  then show els: "elements_of (fst (l3_build env ctx grouping)) =
      concat (map (\<lambda>(sid, as). map (\<lambda>a. drawn_child env ctx sid (l3_child env ctx a)) as) ?gs)"
    by (simp add: l3_nodes Let_def subnet_boxes gc_children_alt comp_def split_def)
  show "element_ids (fst (l3_build env ctx grouping)) = map ip_id (concat (map snd ?gs))"
    unfolding element_ids_def els
    by (simp add: map_concat comp_def split_def drawn_child_def l3_child_def)
qed

lemma l3_well_nested: "well_nested (fst (l3_build env ctx grouping))"
proof -
  let ?g = "group_children_by_subnet env ctx grouping"
  let ?boxes = "map (decorate_subnet env ctx) (create_subnet_nodes env ctx (consolidated_bridges grouping ?g) (map fst (gc_children ?g)))"
  let ?nodes = "fold (create_child_nodes env ctx) (gc_children ?g) []"
  have "well_nested_in (container_ids ?boxes) ?nodes"
    by (rule create_children_nested) (simp_all add: well_nested_in_def subnet_boxes)
  then have "well_nested (?boxes @ ?nodes)"
    by (auto simp: well_nested_in_def Un_commute create_subnet_nodes_def) (auto simp: node_nested_def)
  then show ?thesis by (simp add: l3_nodes Let_def)
qed

end
