(* ===== verification/Application_View.thy ===== *)
theory Application_View
  imports Edge_Builder Element_Placement
begin

text \<open>
  The application view (\<^verbatim>\<open>backend/src/server/topology/service/application_builder.rs\<close>):
  services as elements of their application, which is the first application tag of the service
  or, failing that, of its host. Log messages have no counterpart.
\<close>

section \<open>The builder\<close>

definition UNGROUPED_CONTAINER_ID :: uuid where
  "UNGROUPED_CONTAINER_ID = 0x00000000000040008000000000000001"

definition TOPOLOGY_CONTAINER_NAMESPACE :: uuid where
  "TOPOLOGY_CONTAINER_NAMESPACE = 0xa1b2c3d4e5f647899abcdef012345678"

definition container_id_for_tag :: "topo_env \<Rightarrow> uuid \<Rightarrow> uuid" where
  "container_id_for_tag env t = new_v5 env TOPOLOGY_CONTAINER_NAMESPACE (uuid_bytes env t)"

definition first_tag_in :: "(uuid \<rightharpoonup> Tag) \<Rightarrow> uuid list \<Rightarrow> Tag option" where
  "first_tag_in tags ids = (case List.map_filter tags ids of t # _ \<Rightarrow> Some t | [] \<Rightarrow> None)"

definition find_app_tag :: "Service \<Rightarrow> Host list \<Rightarrow> (uuid \<rightharpoonup> Tag) \<Rightarrow> Tag option" where
  "find_app_tag s hosts tags =
     (case first_tag_in tags (svc_tags (svc_base s)) of
        Some t \<Rightarrow> Some t
      | None \<Rightarrow> Option.bind (find (\<lambda>h. host_id h = svc_host_id (svc_base s)) hosts)
          (\<lambda>h. first_tag_in tags (host_tags (host_base h))))"

definition app_tags :: "TopologyContext \<Rightarrow> uuid \<rightharpoonup> Tag" where
  "app_tags ctx = map_of (collect_by tag_id (filter (\<lambda>t. is_application (tag_base t)) (tc_entity_tags ctx)))"

definition eligible_services :: "topo_env \<Rightarrow> TopologyContext \<Rightarrow> Service list" where
  "eligible_services env ctx =
     filter (\<lambda>s. bindings_of s \<noteq> [] \<and> definition_category env (svc_definition (svc_base s)) \<noteq> OpenPortsCategory)
       (tc_services ctx)"

definition app_tag_of :: "TopologyContext \<Rightarrow> Service \<Rightarrow> uuid option" where
  "app_tag_of ctx s = map_option tag_id (find_app_tag s (tc_hosts ctx) (app_tags ctx))"

definition service_element :: "uuid \<Rightarrow> Service \<Rightarrow> Node" where
  "service_element parent s =
     (node_element (svc_id s) parent (svc_host_id (svc_base s)) ServiceElement)\<lparr>node_header := Some (svc_name (svc_base s))\<rparr>"

text \<open>The indexing \<open>app_tags[tag_id]\<close> cannot fail: the tags that group services are entries of the map.\<close>

definition application_container :: "topo_env \<Rightarrow> TopologyContext \<Rightarrow> uuid \<Rightarrow> Node" where
  "application_container env ctx t =
     container (container_id_for_tag env t)
       \<lparr>cn_type = ApplicationCont, cn_parent = None, cn_entity_id = Some t, cn_icon = Some (icon_text env WorkflowIcon),
        cn_color = map_option (\<lambda>tag. tag_color (tag_base tag)) (app_tags ctx t), cn_service_definition = None,
        cn_rule_id = None, cn_accepts_edges = False\<rparr>
       (map_option (\<lambda>tag. tag_name (tag_base tag)) (app_tags ctx t))"

definition ungrouped_container :: "topo_env \<Rightarrow> Node" where
  "ungrouped_container env =
     container UNGROUPED_CONTAINER_ID
       \<lparr>cn_type = ApplicationUngrouped, cn_parent = None, cn_entity_id = None, cn_icon = Some (icon_text env WorkflowIcon),
        cn_color = Some Purple, cn_service_definition = None, cn_rule_id = None, cn_accepts_edges = False\<rparr>
       (Some ''Ungrouped'')"

definition app_base_nodes :: "topo_env \<Rightarrow> TopologyContext \<Rightarrow> Node list" where
  "app_base_nodes env ctx =
     (let eligible = eligible_services env ctx;
          ungrouped = filter (\<lambda>s. app_tag_of ctx s = None) eligible
      in concat (map (\<lambda>(t, ss). application_container env ctx t # map (service_element (container_id_for_tag env t)) ss)
             (group_by (app_tag_of ctx) eligible))
         @ (if ungrouped = [] then []
            else ungrouped_container env # map (service_element UNGROUPED_CONTAINER_ID) ungrouped))"

definition service_match_data :: "topo_env \<Rightarrow> TopologyContext \<Rightarrow> Service \<Rightarrow> ElementMatchData" where
  "service_match_data env ctx s =
     \<lparr>md_categories = {definition_category env (svc_definition (svc_base s))},
      md_tag_ids = resolve_element_tag_ids EntService (svc_id s)
        \<lparr>tl_hosts = None, tl_services = Some (map_of (collect_by svc_id (eligible_services env ctx))), tl_subnets = None\<rparr>,
      md_entity = EntService, md_virtualizer = None,
      md_deployment_group = Option.bind (svc_virtualization_metadata (svc_base s)) compose_project,
      md_native_vlan_id = None, md_vlan_number = None, md_vlan_name = None, md_is_trunk_port = False,
      md_oper_status = None\<rparr>"

definition app_resolve :: "topo_env \<Rightarrow> TopologyContext \<Rightarrow> Node \<Rightarrow> ElementMatchData option" where
  "app_resolve env ctx n =
     map_option (service_match_data env ctx) (map_of (collect_by svc_id (eligible_services env ctx)) (node_id n))"

definition app_nodes :: "topo_env \<Rightarrow> TopologyContext \<Rightarrow> GroupingConfig \<Rightarrow> Node list" where
  "app_nodes env ctx grouping =
     apply_stack_runtime_logos
       (fst (apply_element_rules env (app_base_nodes env ctx) (element_rules grouping) (app_resolve env ctx) None None))
       (tc_services ctx)"

text \<open>The services of a dependency in order; of a run of bindings of one service, one.\<close>

definition push_new :: "'a \<Rightarrow> 'a list \<Rightarrow> 'a list" where
  "push_new x xs = (if xs \<noteq> [] \<and> last xs = x then xs else xs @ [x])"

definition dependency_service_ids :: "(uuid \<rightharpoonup> uuid) \<Rightarrow> DependencyMembers \<Rightarrow> uuid list" where
  "dependency_service_ids binding_to_service members =
     (case members of
        ServiceMembers ids \<Rightarrow> ids
      | BindingMembers bs \<Rightarrow>
          fold (\<lambda>b ids. case binding_to_service b of Some s \<Rightarrow> push_new s ids | None \<Rightarrow> ids) bs [])"

definition app_dependency_edges :: "uuid set \<Rightarrow> (uuid \<rightharpoonup> uuid) \<Rightarrow> Dependency \<Rightarrow> Edge list" where
  "app_dependency_edges drawn binding_to_service d =
     (let ids = dependency_service_ids binding_to_service (dep_members (dep_base d)) in
      case dependency_type (dep_base d) of
        RequestPathDep \<Rightarrow>
          map (\<lambda>(a, b). edge a b (RequestPath (dep_id d) nil_uuid nil_uuid) (Some (dep_name (dep_base d))) False)
            (filter (\<lambda>(a, b). a \<in> drawn \<and> b \<in> drawn) (windows2 ids))
      | HubAndSpokeDep \<Rightarrow>
          (case ids of
             hub # spokes \<Rightarrow>
               if hub \<in> drawn
               then map (\<lambda>spoke. edge hub spoke (HubAndSpoke (dep_id d) nil_uuid nil_uuid) (Some (dep_name (dep_base d))) False)
                 (filter (\<lambda>spoke. spoke \<in> drawn) spokes)
               else []
           | [] \<Rightarrow> []))"

definition app_runtime_edges :: "uuid set \<Rightarrow> Service list \<Rightarrow> Edge list" where
  "app_runtime_edges drawn services =
     List.map_filter (\<lambda>s.
       case svc_virtualization_service_id (svc_base s) of
         Some r \<Rightarrow>
           if svc_id s \<in> drawn \<and> r \<in> drawn
           then Some (edge r (svc_id s) (ContainerRuntimeEdge (svc_host_id (svc_base s)) r [] [svc_id s]) None False)
           else None
       | None \<Rightarrow> None) services"

definition app_edges :: "topo_env \<Rightarrow> TopologyContext \<Rightarrow> Edge list" where
  "app_edges env ctx =
     (let drawn = svc_id ` set (eligible_services env ctx) in
      concat (map (app_dependency_edges drawn (build_binding_to_service_map ctx)) (tc_dependencies ctx))
        @ app_runtime_edges drawn (tc_services ctx))"

definition app_build :: "topo_env \<Rightarrow> TopologyContext \<Rightarrow> GroupingConfig \<Rightarrow> Node list \<times> Edge list" where
  "app_build env ctx grouping = (app_nodes env ctx grouping, app_edges env ctx)"

section \<open>What is drawn\<close>

definition app_home :: "topo_env \<Rightarrow> TopologyContext \<Rightarrow> Service \<Rightarrow> uuid" where
  "app_home env ctx s =
     (case app_tag_of ctx s of Some t \<Rightarrow> container_id_for_tag env t | None \<Rightarrow> UNGROUPED_CONTAINER_ID)"

definition drawn_service :: "topo_env \<Rightarrow> TopologyContext \<Rightarrow> GroupingConfig \<Rightarrow> Service \<Rightarrow> Node" where
  "drawn_service env ctx grouping s =
     settle env None (element_rules grouping) (\<lambda>_. Some (service_match_data env ctx s)) (service_element (app_home env ctx s) s)"

lemma service_element_sel [simp]:
  "node_id (service_element p s) = svc_id s" "is_element (node_type (service_element p s))"
  "node_nested cs (service_element p s) \<longleftrightarrow> p \<in> cs"
  by (simp_all add: service_element_def node_element_def node_nested_def)

lemma app_containers_sel [simp]:
  "\<not> is_element (node_type (application_container env ctx t))" "node_id (application_container env ctx t) = container_id_for_tag env t"
  "\<not> is_element (node_type (ungrouped_container env))" "node_id (ungrouped_container env) = UNGROUPED_CONTAINER_ID"
  "node_nested cs (application_container env ctx t)" "node_nested cs (ungrouped_container env)"
  by (simp_all add: application_container_def ungrouped_container_def node_nested_def)

lemma elements_of_services: "elements_of (map (service_element p) ss) = map (service_element p) ss"
  by (induction ss) simp_all

definition app_order :: "topo_env \<Rightarrow> TopologyContext \<Rightarrow> Service list" where
  "app_order env ctx =
     concat (map snd (group_by (app_tag_of ctx) (eligible_services env ctx)))
       @ filter (\<lambda>s. app_tag_of ctx s = None) (eligible_services env ctx)"

lemma mset_app_order: "mset (app_order env ctx) = mset (eligible_services env ctx)"
proof -
  have "mset (filter (\<lambda>s. app_tag_of ctx s \<noteq> None) xs) + mset (filter (\<lambda>s. app_tag_of ctx s = None) xs) = mset xs" for xs
    by (induction xs) auto
  then show ?thesis by (simp only: app_order_def mset_append mset_group_by)
qed

lemma app_base_elements: "elements_of (app_base_nodes env ctx) = map (\<lambda>s. service_element (app_home env ctx s) s) (app_order env ctx)"
proof -
  have "elements_of (concat (map (\<lambda>(t, ss). application_container env ctx t # map (service_element (container_id_for_tag env t)) ss) gs))
      = map (\<lambda>s. service_element (app_home env ctx s) s) (concat (map snd gs))"
    if "\<forall>(t, ss) \<in> set gs. \<forall>s \<in> set ss. app_tag_of ctx s = Some t" for gs
    using that by (induction gs) (auto simp: elements_of_services app_home_def)
  moreover have "\<forall>(t, ss) \<in> set (group_by (app_tag_of ctx) (eligible_services env ctx)). \<forall>s \<in> set ss. app_tag_of ctx s = Some t"
    by (auto dest: group_by_members)
  moreover have "service_element UNGROUPED_CONTAINER_ID s = service_element (app_home env ctx s) s"
    if "app_tag_of ctx s = None" for s
    using that by (simp add: app_home_def)
  ultimately show ?thesis by (simp add: app_base_nodes_def app_order_def Let_def elements_of_services)
qed

lemma app_base_ids: "element_ids (app_base_nodes env ctx) = map svc_id (app_order env ctx)"
  by (simp add: element_ids_def app_base_elements comp_def)

lemma eligible_lookup:
  assumes "distinct (map svc_id (tc_services ctx))" "s \<in> set (eligible_services env ctx)"
  shows "map_of (collect_by svc_id (eligible_services env ctx)) (svc_id s) = Some s"
proof (cases "map_of (collect_by svc_id (eligible_services env ctx)) (svc_id s)")
  case None
  with assms(2) show ?thesis by (simp add: map_of_collect_by_None)
next
  case (Some d)
  with map_of_collect_by_Some [OF Some] assms show ?thesis
    by (auto simp: distinct_map inj_on_def eligible_services_def)
qed

lemma app_elements:
  assumes ids: "distinct (map svc_id (tc_services ctx))"
  shows "elements_of (app_nodes env ctx grouping) = map (drawn_service env ctx grouping) (app_order env ctx)"
proof -
  let ?base = "app_base_nodes env ctx"
  have "distinct (map svc_id (eligible_services env ctx))"
    unfolding eligible_services_def by (rule distinct_map_filter [OF ids])
  then have distinct_ids: "distinct (element_ids ?base)"
    unfolding app_base_ids by (metis mset_app_order mset_map mset_eq_imp_distinct_iff)
  have "virtualizers_apart (elements_by_container ?base) (match_data_of (app_resolve env ctx) ?base) None"
    by (rule virtualizers_apart_none) (auto simp: app_resolve_def service_match_data_def)
  from apply_element_rules_settle [OF distinct_ids this, of env "element_rules grouping" None]
  have "elements_of (app_nodes env ctx grouping) =
      map (settle env None (element_rules grouping) (app_resolve env ctx) \<circ> (\<lambda>s. service_element (app_home env ctx s) s)) (app_order env ctx)"
    by (simp add: app_nodes_def app_base_elements)
  also have "\<dots> = map (drawn_service env ctx grouping) (app_order env ctx)"
  proof (rule map_cong [OF refl])
    fix s assume "s \<in> set (app_order env ctx)"
    then have "s \<in> set (eligible_services env ctx)" by (metis mset_app_order set_mset_mset)
    from eligible_lookup [OF ids this]
    show "(settle env None (element_rules grouping) (app_resolve env ctx) \<circ> (\<lambda>s. service_element (app_home env ctx s) s)) s
        = drawn_service env ctx grouping s"
      by (auto simp: drawn_service_def app_resolve_def intro: settle_cong)
  qed
  finally show ?thesis .
qed

lemma app_base_nested: "well_nested (app_base_nodes env ctx)"
proof -
  let ?gs = "group_by (app_tag_of ctx) (eligible_services env ctx)"
  let ?grouped = "concat (map (\<lambda>(t, ss). application_container env ctx t # map (service_element (container_id_for_tag env t)) ss) ?gs)"
  let ?un = "filter (\<lambda>s. app_tag_of ctx s = None) (eligible_services env ctx)"
  let ?rest = "if ?un = [] then [] else ungrouped_container env # map (service_element UNGROUPED_CONTAINER_ID) ?un"
  have "container_ids (concat (map (\<lambda>(t, ss). application_container env ctx t # map (service_element (container_id_for_tag env t)) ss) gs))
      = container_id_for_tag env ` fst ` set gs" for gs
  proof (induction gs)
    case (Cons g gs)
    have "container_ids (map (service_element p) ss) = {}" for p ss by (induction ss) simp_all
    with Cons show ?case by (cases g) simp
  qed simp
  moreover have "UNGROUPED_CONTAINER_ID \<in> container_ids ?rest" if "?un \<noteq> []" using that by simp
  ultimately have "well_nested (?grouped @ ?rest)"
    by (force simp: well_nested_in_def split: if_splits)
  then show ?thesis by (simp add: app_base_nodes_def Let_def)
qed

lemma app_well_nested: "well_nested (app_nodes env ctx grouping)"
  by (simp add: app_nodes_def apply_element_rules_nested app_base_nested)

text \<open>The edges join services that are drawn.\<close>

lemma app_edges_joined:
  assumes "e \<in> set (app_edges env ctx)"
  shows "edge_source e \<in> svc_id ` set (eligible_services env ctx) \<and> edge_target e \<in> svc_id ` set (eligible_services env ctx)"
proof -
  let ?drawn = "svc_id ` set (eligible_services env ctx)"
  have "edge_source e \<in> drawn \<and> edge_target e \<in> drawn" if "e \<in> set (app_dependency_edges drawn m d)" for drawn m d
    using that by (auto simp: app_dependency_edges_def Let_def split: DependencyType.splits list.splits if_splits)
  moreover have "edge_source e \<in> drawn \<and> edge_target e \<in> drawn" if "e \<in> set (app_runtime_edges drawn ss)" for drawn ss
    using that by (auto simp: app_runtime_edges_def map_filter_mem split: option.splits if_splits)
  ultimately show ?thesis using assms by (auto simp: app_edges_def Let_def)
qed

end
