(* ===== verification/Workloads_View.thy ===== *)
theory Workloads_View
  imports Edge_Builder Element_Placement
begin

text \<open>
  The workloads view (\<^verbatim>\<open>backend/src/server/topology/service/workloads_builder.rs\<close>): virtual
  machines, containers and services as elements of the physical host they run on. Elements the
  rules draw on another node are removed, and so are the boxes left without an element; the two
  loops that walk up the containers are partial functions, so that a walk that never ends is
  \<open>None\<close>.
\<close>

section \<open>Lookups\<close>

datatype VirtualizationRole = Vms string | Containers string

definition virtualization_role :: "string \<Rightarrow> VirtualizationRole option" where
  "virtualization_role d =
     (if d = ''Proxmox VE'' then Some (Vms ''Proxmox'')
      else if d = ''vCenter'' then Some (Vms ''VCenter'')
      else if d = ''ESXi'' then Some (Vms ''ESXi'')
      else if d = ''Docker'' then Some (Containers ''Docker'')
      else if d = ''Podman'' then Some (Containers ''Podman'')
      else None)"

definition wl_container_id_for_host :: "topo_env \<Rightarrow> uuid \<Rightarrow> uuid" where
  "wl_container_id_for_host env h = oid_id env (''workloads:host:'' @ uuid_text env h)"

definition build_virtualizer_titles :: "TopologyContext \<Rightarrow> uuid \<rightharpoonup> string" where
  "build_virtualizer_titles ctx =
     map_option (\<lambda>s. svc_definition (svc_base s))
       \<circ> map_of (collect_by svc_id (filter (\<lambda>s. virtualization_role (svc_definition (svc_base s)) \<noteq> None) (tc_services ctx)))"

definition virt_to_vm_hosts :: "TopologyContext \<Rightarrow> (uuid \<times> uuid list) list" where
  "virt_to_vm_hosts ctx =
     map (\<lambda>(v, hs). (v, map host_id hs)) (group_by (\<lambda>h. host_virtualization_service_id (host_base h)) (tc_hosts ctx))"

definition virt_to_container_svcs :: "TopologyContext \<Rightarrow> (uuid \<times> uuid list) list" where
  "virt_to_container_svcs ctx =
     map (\<lambda>(v, ss). (v, map svc_id ss)) (group_by (\<lambda>s. svc_virtualization_service_id (svc_base s)) (tc_services ctx))"

definition host_lookup :: "TopologyContext \<Rightarrow> (uuid \<times> Host) list" where
  "host_lookup ctx = collect_by host_id (tc_hosts ctx)"

definition service_lookup :: "TopologyContext \<Rightarrow> (uuid \<times> Service) list" where
  "service_lookup ctx = collect_by svc_id (tc_services ctx)"

definition wl_inline_context :: "TopologyContext \<Rightarrow> InlineContext" where
  "wl_inline_context ctx =
     \<lparr>ic_hosts = host_lookup ctx, ic_services = service_lookup ctx, ic_virt_to_container_svcs = virt_to_container_svcs ctx\<rparr>"

section \<open>Boxes and elements\<close>

definition wl_host_containers :: "topo_env \<Rightarrow> TopologyContext \<Rightarrow> Node list" where
  "wl_host_containers env ctx =
     map (\<lambda>h. container (wl_container_id_for_host env (host_id h))
         \<lparr>cn_type = HostCont, cn_parent = None, cn_entity_id = Some (host_id h), cn_icon = None, cn_color = None,
          cn_service_definition = None, cn_rule_id = None, cn_accepts_edges = False\<rparr> (Some (host_name (host_base h))))
       (filter (\<lambda>h. host_virtualization_service_id (host_base h) = None) (tc_hosts ctx))"

definition wl_vm_elements :: "topo_env \<Rightarrow> TopologyContext \<Rightarrow> Node list" where
  "wl_vm_elements env ctx =
     concat (map (\<lambda>(v, vms).
       case map_of (service_lookup ctx) v of
         None \<Rightarrow> []
       | Some s \<Rightarrow>
           List.map_filter (\<lambda>vm.
               map_option (\<lambda>h. (node_element vm (wl_container_id_for_host env (svc_host_id (svc_base s))) vm HostElement)
                   \<lparr>node_header := Some (host_name (host_base h))\<rparr>)
                 (map_of (host_lookup ctx) vm)) vms)
       (virt_to_vm_hosts ctx))"

definition is_vm_host :: "TopologyContext \<Rightarrow> uuid \<Rightarrow> bool" where
  "is_vm_host ctx h =
     (case map_of (host_lookup ctx) h of Some x \<Rightarrow> host_virtualization_service_id (host_base x) \<noteq> None | None \<Rightarrow> False)"

definition hypervisor_host_of :: "TopologyContext \<Rightarrow> uuid \<Rightarrow> uuid option" where
  "hypervisor_host_of ctx h =
     Option.bind (find (\<lambda>(_, vms). h \<in> set vms) (virt_to_vm_hosts ctx))
       (\<lambda>(v, _). map_option (\<lambda>s. svc_host_id (svc_base s)) (map_of (service_lookup ctx) v))"

text \<open>The box of a host: its own, or that of the host that runs it when it is a virtual machine.\<close>

definition wl_box :: "topo_env \<Rightarrow> TopologyContext \<Rightarrow> uuid \<Rightarrow> uuid option" where
  "wl_box env ctx h =
     (if is_vm_host ctx h then map_option (wl_container_id_for_host env) (hypervisor_host_of ctx h)
      else Some (wl_container_id_for_host env h))"

definition wl_service_element :: "uuid \<Rightarrow> Service \<Rightarrow> Node" where
  "wl_service_element parent s =
     (node_element (svc_id s) parent (svc_host_id (svc_base s)) ServiceElement)\<lparr>node_header := Some (svc_name (svc_base s))\<rparr>"

definition wl_container_elements :: "topo_env \<Rightarrow> TopologyContext \<Rightarrow> Node list" where
  "wl_container_elements env ctx =
     concat (map (\<lambda>(v, svcs).
       case Option.bind (map_of (service_lookup ctx) v) (\<lambda>s. wl_box env ctx (svc_host_id (svc_base s))) of
         None \<Rightarrow> []
       | Some box \<Rightarrow>
           List.map_filter (\<lambda>i. map_option (wl_service_element box) (map_of (service_lookup ctx) i)) svcs)
       (virt_to_container_svcs ctx))"

definition managed_service_ids :: "TopologyContext \<Rightarrow> uuid set" where
  "managed_service_ids ctx = (\<Union>(v, svcs) \<in> set (virt_to_container_svcs ctx). set svcs)"

definition wl_remaining_elements :: "topo_env \<Rightarrow> TopologyContext \<Rightarrow> Node list" where
  "wl_remaining_elements env ctx =
     List.map_filter (\<lambda>s.
       if virtualization_role (svc_definition (svc_base s)) \<noteq> None \<or> svc_id s \<in> managed_service_ids ctx
          \<or> definition_category env (svc_definition (svc_base s)) = OpenPortsCategory
          \<or> map_of (host_lookup ctx) (svc_host_id (svc_base s)) = None
       then None
       else map_option (\<lambda>box. wl_service_element box s) (wl_box env ctx (svc_host_id (svc_base s))))
       (tc_services ctx)"

definition wl_base_nodes :: "topo_env \<Rightarrow> TopologyContext \<Rightarrow> Node list" where
  "wl_base_nodes env ctx =
     wl_host_containers env ctx @ wl_vm_elements env ctx @ wl_container_elements env ctx @ wl_remaining_elements env ctx"

definition wl_match_data :: "topo_env \<Rightarrow> TopologyContext \<Rightarrow> Node \<Rightarrow> ElementMatchData option" where
  "wl_match_data env ctx n =
     (let lookups = \<lparr>tl_hosts = Some (map_of (host_lookup ctx)), tl_services = Some (map_of (service_lookup ctx)), tl_subnets = None\<rparr>;
          data = (\<lambda>categories entity virtualizer.
            \<lparr>md_categories = categories, md_tag_ids = resolve_element_tag_ids entity (node_id n) lookups,
             md_entity = entity, md_virtualizer = virtualizer, md_deployment_group = None, md_native_vlan_id = None,
             md_vlan_number = None, md_vlan_name = None, md_is_trunk_port = False, md_oper_status = None\<rparr>)
      in case node_type n of
           ElementNode e \<Rightarrow>
             (case en_element e of
                HostElement \<Rightarrow>
                  map_option (\<lambda>h. data {} EntHost (host_virtualization_service_id (host_base h))) (map_of (host_lookup ctx) (node_id n))
              | ServiceElement \<Rightarrow>
                  map_option (\<lambda>s. data {definition_category env (svc_definition (svc_base s))} EntService
                      (svc_virtualization_service_id (svc_base s))) (map_of (service_lookup ctx) (node_id n))
              | _ \<Rightarrow> None)
         | ContainerNode _ \<Rightarrow> None)"

definition wl_rules :: "topo_env \<Rightarrow> TopologyContext \<Rightarrow> GroupingConfig \<Rightarrow> Node list \<times> (uuid \<times> PlacementDecision) list" where
  "wl_rules env ctx grouping =
     apply_element_rules env (wl_base_nodes env ctx) (element_rules grouping) (wl_match_data env ctx)
       (Some (build_virtualizer_titles ctx)) (Some (wl_inline_context ctx))"

section \<open>Inlined elements\<close>

fun is_inline :: "PlacementDecision \<Rightarrow> bool" where
  "is_inline (InlineOn _ _) = True"
| "is_inline _ = False"

fun attach_group :: "uuid \<Rightarrow> InlineGroup \<Rightarrow> Node list \<Rightarrow> Node list" where
  "attach_group i g [] = []"
| "attach_group i g (n # ns) =
     (if node_id n = i
      then (case node_type n of
              ElementNode e \<Rightarrow> n\<lparr>node_type := ElementNode (e\<lparr>en_inline_groups := en_inline_groups e @ [g]\<rparr>)\<rparr>
            | ContainerNode _ \<Rightarrow> n) # ns
      else n # attach_group i g ns)"

definition attach_decision :: "uuid \<times> PlacementDecision \<Rightarrow> Node list \<Rightarrow> Node list" where
  "attach_decision = (\<lambda>(_, d) nodes. case d of InlineOn i (Some g) \<Rightarrow> attach_group i g nodes | _ \<Rightarrow> nodes)"

definition inline_elements :: "(uuid \<times> PlacementDecision) list \<Rightarrow> Node list \<Rightarrow> Node list" where
  "inline_elements placements nodes =
     (let inlined = fst ` {p \<in> set placements. is_inline (snd p)} in
      fold attach_decision placements (filter (\<lambda>n. node_id n \<notin> inlined) nodes))"

section \<open>Empty boxes\<close>

definition container_parents :: "Node list \<Rightarrow> uuid \<rightharpoonup> uuid" where
  "container_parents nodes i =
     Option.bind (map_of (rev (List.map_filter (\<lambda>n. case node_type n of
         ContainerNode c \<Rightarrow> Some (node_id n, cn_parent c) | ElementNode _ \<Rightarrow> None) nodes)) i) (\<lambda>p. p)"

definition host_container_ids :: "Node list \<Rightarrow> uuid set" where
  "host_container_ids nodes =
     node_id ` {n \<in> set nodes. case node_type n of ContainerNode c \<Rightarrow> cn_type c = HostCont | ElementNode _ \<Rightarrow> False}"

partial_function (option) walk_to_host :: "(uuid \<rightharpoonup> uuid) \<Rightarrow> uuid set \<Rightarrow> uuid \<Rightarrow> uuid option" where
  "walk_to_host parents hosts current =
     (if current \<in> hosts then Some current
      else case parents current of Some p \<Rightarrow> walk_to_host parents hosts p | None \<Rightarrow> Some current)"

partial_function (option) walk_to_root :: "(uuid \<rightharpoonup> uuid) \<Rightarrow> uuid \<Rightarrow> uuid option" where
  "walk_to_root parents current =
     (case parents current of Some p \<Rightarrow> walk_to_root parents p | None \<Rightarrow> Some current)"

definition occupy :: "(uuid \<rightharpoonup> uuid) \<Rightarrow> uuid set \<Rightarrow> Node \<Rightarrow> uuid set option \<Rightarrow> uuid set option" where
  "occupy parents hosts n acc =
     Option.bind acc (\<lambda>occupied.
       case node_type n of
         ElementNode e \<Rightarrow>
           map_option (\<lambda>c. if c \<in> hosts then insert c occupied else occupied) (walk_to_host parents hosts (en_container_id e))
       | ContainerNode _ \<Rightarrow> Some occupied)"

definition occupied_hosts :: "Node list \<Rightarrow> uuid set option" where
  "occupied_hosts nodes = fold (occupy (container_parents nodes) (host_container_ids nodes)) nodes (Some {})"

definition mark_removed :: "(uuid \<rightharpoonup> uuid) \<Rightarrow> uuid set \<Rightarrow> uuid set \<Rightarrow> Node \<Rightarrow> uuid set option \<Rightarrow> uuid set option" where
  "mark_removed parents hosts occupied n acc =
     Option.bind acc (\<lambda>removed.
       case node_type n of
         ElementNode _ \<Rightarrow> Some removed
       | ContainerNode c \<Rightarrow>
           if cn_type c = HostCont \<and> node_id n \<notin> occupied then Some (insert (node_id n) removed)
           else if cn_parent c = None then Some removed
           else map_option (\<lambda>root. if root \<in> hosts \<and> root \<notin> occupied then insert (node_id n) removed else removed)
             (walk_to_root parents (node_id n)))"

definition ids_to_remove :: "Node list \<Rightarrow> uuid set option" where
  "ids_to_remove nodes =
     Option.bind (occupied_hosts nodes) (\<lambda>occupied.
       fold (mark_removed (container_parents nodes) (host_container_ids nodes) occupied) nodes (Some {}))"

section \<open>Edges\<close>

definition wl_link_step ::
    "topo_env \<Rightarrow> TopologyContext \<Rightarrow> uuid set \<Rightarrow> Interface \<Rightarrow> (uuid \<times> uuid) set \<times> Edge list \<Rightarrow> (uuid \<times> uuid) set \<times> Edge list" where
  "wl_link_step env ctx removed source = (\<lambda>(processed, edges).
     case neighbor (if_base source) of
       Some (NeighborInterface target_id) \<Rightarrow>
         (case get_interface_by_id ctx target_id of
            None \<Rightarrow> (processed, edges)
          | Some target \<Rightarrow>
              (let a = wl_container_id_for_host env (if_host_id (if_base source));
                   b = wl_container_id_for_host env (if_host_id (if_base target));
                   key = host_pair_key (if_id source) target_id
               in if if_host_id (if_base source) = if_host_id (if_base target) \<or> a \<in> removed \<or> b \<in> removed \<or> key \<in> processed
                  then (processed, edges)
                  else (insert key processed,
                    edges @ [edge a b (PhysicalLink (if_id source) (if_id target) LLDP)
                      (Some (link_label (display_name source) (display_name target))) False])))
     | _ \<Rightarrow> (processed, edges))"

definition wl_physical_edges :: "topo_env \<Rightarrow> TopologyContext \<Rightarrow> uuid set \<Rightarrow> Edge list" where
  "wl_physical_edges env ctx removed = snd (fold (wl_link_step env ctx removed) (get_interfaces_with_neighbor ctx) ({}, []))"

definition wl_neighbor_edges :: "topo_env \<Rightarrow> TopologyContext \<Rightarrow> uuid set \<Rightarrow> Edge list" where
  "wl_neighbor_edges env ctx removed =
     filter (\<lambda>e. edge_source e \<notin> removed \<and> edge_target e \<notin> removed)
       (create_neighbor_link_edges ctx (wl_container_id_for_host env)
          (physical_link_host_pairs ctx (wl_physical_edges env ctx removed)))"

definition service_node :: "(uuid \<times> PlacementDecision) list \<Rightarrow> uuid set \<Rightarrow> uuid \<Rightarrow> uuid option" where
  "service_node placements elements i =
     (case map_of placements i of
        Some ElementDecision \<Rightarrow> if i \<in> elements then Some i else None
      | Some (PlaceInContainer _) \<Rightarrow> if i \<in> elements then Some i else None
      | Some (BecomeSubcontainer c) \<Rightarrow> Some c
      | Some (InlineOn n _) \<Rightarrow> if n \<in> elements then Some n else None
      | None \<Rightarrow> if i \<in> elements then Some i else None)"

definition service_to_node :: "TopologyContext \<Rightarrow> (uuid \<times> PlacementDecision) list \<Rightarrow> uuid set \<Rightarrow> uuid \<rightharpoonup> uuid" where
  "service_to_node ctx placements elements i =
     (if i \<in> svc_id ` set (tc_services ctx) then service_node placements elements i else None)"

definition wl_member_nodes :: "(uuid \<rightharpoonup> uuid) \<Rightarrow> (uuid \<rightharpoonup> uuid) \<Rightarrow> DependencyMembers \<Rightarrow> uuid list" where
  "wl_member_nodes binding_to_service to_node members =
     (case members of
        ServiceMembers ids \<Rightarrow> List.map_filter to_node ids
      | BindingMembers bs \<Rightarrow>
          fold (\<lambda>b ids. case Option.bind (binding_to_service b) to_node of
              Some n \<Rightarrow> if ids \<noteq> [] \<and> last ids = n then ids else ids @ [n] | None \<Rightarrow> ids) bs [])"

definition wl_dependency_edges :: "(uuid \<rightharpoonup> uuid) \<Rightarrow> (uuid \<rightharpoonup> uuid) \<Rightarrow> Dependency \<Rightarrow> Edge list" where
  "wl_dependency_edges binding_to_service to_node d =
     (let ids = wl_member_nodes binding_to_service to_node (dep_members (dep_base d)) in
      if length ids < 2 then []
      else case dependency_type (dep_base d) of
        RequestPathDep \<Rightarrow>
          map (\<lambda>(a, b). edge a b (RequestPath (dep_id d) nil_uuid nil_uuid) (Some (dep_name (dep_base d))) False) (windows2 ids)
      | HubAndSpokeDep \<Rightarrow>
          map (\<lambda>spoke. edge (hd ids) spoke (HubAndSpoke (dep_id d) nil_uuid nil_uuid) (Some (dep_name (dep_base d))) False) (tl ids))"

section \<open>The view\<close>

definition wl_build :: "topo_env \<Rightarrow> TopologyContext \<Rightarrow> GroupingConfig \<Rightarrow> (Node list \<times> Edge list) option" where
  "wl_build env ctx grouping =
     (let (placed, placements) = wl_rules env ctx grouping;
          nodes = inline_elements placements placed
      in map_option (\<lambda>removed.
           (let nodes = filter (\<lambda>n. node_id n \<notin> removed) nodes;
                elements = node_id ` {n \<in> set nodes. is_element (node_type n)};
                to_node = service_to_node ctx placements elements
            in (nodes, wl_physical_edges env ctx removed @ wl_neighbor_edges env ctx removed
                  @ concat (map (wl_dependency_edges (build_binding_to_service_map ctx) to_node) (tc_dependencies ctx)))))
         (ids_to_remove nodes))"

end
