(* ===== verification/Workloads_Boxes.thy ===== *)
theory Workloads_Boxes
  imports Workloads_View
begin

text \<open>
  The removal of empty boxes in the workloads view: the walks up the containers end, and of
  the boxes of hosts exactly those stay that an element sits in.
\<close>

section \<open>The walks end\<close>

lemma walks_end:
  fixes rank :: "uuid \<Rightarrow> nat"
  assumes "\<And>i p. parents i = Some p \<Longrightarrow> rank p < rank i"
  shows walk_to_host_ends: "\<exists>c. walk_to_host parents hosts i = Some c"
    and walk_to_root_ends: "\<exists>c. walk_to_root parents i = Some c"
proof -
  show "\<exists>c. walk_to_host parents hosts i = Some c"
  proof (induction i rule: measure_induct_rule [of rank])
    case (less i)
    then show ?case using assms [of i] by (subst walk_to_host.simps) (auto split: option.split)
  qed
  show "\<exists>c. walk_to_root parents i = Some c"
  proof (induction i rule: measure_induct_rule [of rank])
    case (less i)
    then show ?case using assms [of i] by (subst walk_to_root.simps) (auto split: option.split)
  qed
qed

lemma occupied_hosts_ends:
  assumes "\<And>i. \<exists>c. walk_to_host (container_parents nodes) (host_container_ids nodes) i = Some c"
  shows "\<exists>occ. occupied_hosts nodes = Some occ"
proof -
  have "\<exists>occ. fold (occupy (container_parents nodes) (host_container_ids nodes)) ns (Some s) = Some occ" for ns s
  proof (induction ns arbitrary: s)
    case (Cons n ns)
    obtain t where "occupy (container_parents nodes) (host_container_ids nodes) n (Some s) = Some t"
      using assms by (cases "node_type n") (auto simp: occupy_def, metis option.simps(9))
    with Cons show ?case by simp
  qed simp
  then show ?thesis by (simp add: occupied_hosts_def)
qed

lemma ids_to_remove_ends:
  assumes "\<And>i. \<exists>c. walk_to_host (container_parents nodes) (host_container_ids nodes) i = Some c"
    "\<And>i. \<exists>c. walk_to_root (container_parents nodes) i = Some c"
  shows "\<exists>removed. ids_to_remove nodes = Some removed"
proof -
  obtain occ where occ: "occupied_hosts nodes = Some occ" using occupied_hosts_ends [OF assms(1)] by blast
  let ?f = "mark_removed (container_parents nodes) (host_container_ids nodes) occ"
  have "\<exists>r. fold ?f ns (Some s) = Some r" for ns s
  proof (induction ns arbitrary: s)
    case (Cons n ns)
    have "\<exists>t. ?f n (Some s) = Some t"
      using assms(2) [of "node_id n"] by (auto simp: mark_removed_def split: NodeType.split)
    with Cons show ?case by auto
  qed simp
  with occ show ?thesis by (simp add: ids_to_remove_def)
qed

text \<open>A parent comes from a container of the graph.\<close>

lemma container_parents_Some:
  assumes "container_parents nodes i = Some p"
  shows "\<exists>n \<in> set nodes. node_id n = i \<and> nests_in p n"
proof -
  from assms have "map_of (rev (List.map_filter (\<lambda>n. case node_type n of
         ContainerNode c \<Rightarrow> Some (node_id n, cn_parent c) | ElementNode _ \<Rightarrow> None) nodes)) i = Some (Some p)"
    by (auto simp: container_parents_def bind_eq_Some_conv)
  from map_of_SomeD [OF this] obtain n where "n \<in> set nodes"
    "(case node_type n of ContainerNode c \<Rightarrow> Some (node_id n, cn_parent c) | ElementNode _ \<Rightarrow> None) = Some (i, Some p)"
    by (auto simp: map_filter_mem)
  then show ?thesis by (cases "node_type n") (auto simp: nests_in_def)
qed

lemma attach_group_containers:
  "\<not> is_element (node_type n) \<Longrightarrow> n \<in> set (attach_group i g ns) \<longleftrightarrow> n \<in> set ns"
proof (induction ns)
  case (Cons m ns)
  then show ?case by (cases "node_type m") auto
qed simp

lemma attach_decisions_containers:
  "\<not> is_element (node_type n) \<Longrightarrow> n \<in> set (fold attach_decision ps ns) \<longleftrightarrow> n \<in> set ns"
proof (induction ps arbitrary: ns)
  case (Cons p ps)
  have "n \<in> set (attach_decision p ns) \<longleftrightarrow> n \<in> set ns"
    using Cons.prems by (cases p) (simp add: attach_decision_def attach_group_containers split: PlacementDecision.split option.split)
  with Cons show ?case by simp
qed simp

lemma inline_elements_containers:
  "\<not> is_element (node_type n) \<Longrightarrow> n \<in> set (inline_elements placements nodes) \<Longrightarrow> n \<in> set nodes"
  by (auto simp: inline_elements_def Let_def attach_decisions_containers)

lemma attach_group_ids [simp]: "map node_id (attach_group i g ns) = map node_id ns"
  by (induction ns) (auto split: NodeType.split)

lemma attach_decisions_ids [simp]: "map node_id (fold attach_decision ps ns) = map node_id ns"
  by (induction ps arbitrary: ns) (auto simp: attach_decision_def split: PlacementDecision.split option.split)

lemma inline_elements_distinct: "distinct (map node_id nodes) \<Longrightarrow> distinct (map node_id (inline_elements placements nodes))"
  by (simp add: inline_elements_def Let_def distinct_map_filter)

section \<open>The graph after the rules\<close>

text \<open>The name-based ids of the groups differ from those of the boxes elements start in.\<close>

definition wl_groups :: "topo_env \<Rightarrow> TopologyContext \<Rightarrow> GroupingConfig \<Rightarrow> Node list" where
  "wl_groups env ctx grouping =
     rs_containers (run_rules env (wl_base_nodes env ctx) (element_rules grouping) (wl_match_data env ctx)
       (Some (build_virtualizer_titles ctx)) (Some (wl_inline_context ctx)))"

definition groups_apart :: "topo_env \<Rightarrow> TopologyContext \<Rightarrow> GroupingConfig \<Rightarrow> bool" where
  "groups_apart env ctx grouping \<longleftrightarrow>
     (\<forall>g \<in> set (wl_groups env ctx grouping). \<forall>n \<in> set (wl_base_nodes env ctx). container_of n \<noteq> Some (node_id g))"

definition wl_nodes :: "topo_env \<Rightarrow> TopologyContext \<Rightarrow> GroupingConfig \<Rightarrow> Node list" where
  "wl_nodes env ctx grouping = inline_elements (snd (wl_rules env ctx grouping)) (fst (wl_rules env ctx grouping))"

lemma wl_base_parents: "n \<in> set (wl_base_nodes env ctx) \<Longrightarrow> \<not> nests_in p n"
  by (auto simp: wl_base_nodes_def wl_host_containers_def wl_vm_elements_def wl_container_elements_def wl_remaining_elements_def
      wl_service_element_def node_element_def nests_in_def map_filter_mem split: option.splits if_splits)

lemma wl_nested_from_groups:
  assumes "n \<in> set (wl_nodes env ctx grouping)" "nests_in p n"
  shows "n \<in> set (wl_groups env ctx grouping) \<and> (\<exists>m \<in> set (wl_base_nodes env ctx). container_of m = Some p)"
proof -
  have cont: "\<not> is_element (node_type n)" using assms(2) by (rule nests_in_container)
  have "n \<in> set (fst (wl_rules env ctx grouping))"
    using assms(1) unfolding wl_nodes_def by (rule inline_elements_containers [OF cont])
  then consider m where "m \<in> set (wl_base_nodes env ctx)" "n = m \<or> (\<exists>r. n = reassign r m)" | "n \<in> set (wl_groups env ctx grouping)"
    by (auto simp: wl_rules_def apply_element_rules_def wl_groups_def Let_def split: if_splits)
  then have grp: "n \<in> set (wl_groups env ctx grouping)"
  proof cases
    case 1
    then have "n = m" using cont by (cases "node_type m") (auto simp: reassign_def split: option.splits)
    with 1 wl_base_parents [of m env ctx p] assms(2) show ?thesis by simp
  qed simp
  from run_rules_inv [of "wl_base_nodes env ctx" env "element_rules grouping" "wl_match_data env ctx"
      "Some (build_virtualizer_titles ctx)" "Some (wl_inline_context ctx)", unfolded rules_inv_def, folded wl_groups_def] grp
  obtain q where "q \<in> fst ` set (elements_by_container (wl_base_nodes env ctx))" "nests_in q n" using sub_box_nests by blast
  with assms(2) grp show ?thesis by (auto simp: homes_of_elements nests_in_def)
qed

lemma wl_groups_not_hosts: "g \<in> set (wl_groups env ctx grouping) \<Longrightarrow> node_type g = ContainerNode c \<Longrightarrow> cn_type c \<noteq> HostCont"
  using run_rules_inv [of "wl_base_nodes env ctx" env "element_rules grouping" "wl_match_data env ctx"
      "Some (build_virtualizer_titles ctx)" "Some (wl_inline_context ctx)", unfolded rules_inv_def, folded wl_groups_def]
  by (force simp: sub_box_def)

lemma wl_walks_end:
  assumes "groups_apart env ctx grouping"
  shows "\<exists>c. walk_to_host (container_parents (wl_nodes env ctx grouping)) hosts i = Some c"
    and "\<exists>c. walk_to_root (container_parents (wl_nodes env ctx grouping)) i = Some c"
proof -
  let ?ids = "node_id ` set (wl_groups env ctx grouping)"
  define rank where "rank i = (if i \<in> ?ids then 1 else (0 :: nat))" for i
  have "rank p < rank i" if parent: "container_parents (wl_nodes env ctx grouping) i = Some p" for i p
  proof -
    obtain n where n: "n \<in> set (wl_nodes env ctx grouping)" "node_id n = i" "nests_in p n"
      using container_parents_Some [OF parent] by blast
    from wl_nested_from_groups [OF n(1,3)] obtain m where
      "n \<in> set (wl_groups env ctx grouping)" "m \<in> set (wl_base_nodes env ctx)" "container_of m = Some p" by blast
    with assms n(2) show ?thesis by (auto simp: rank_def groups_apart_def)
  qed
  from walks_end [of "container_parents (wl_nodes env ctx grouping)" rank, OF this]
  show "\<exists>c. walk_to_host (container_parents (wl_nodes env ctx grouping)) hosts i = Some c"
    and "\<exists>c. walk_to_root (container_parents (wl_nodes env ctx grouping)) i = Some c" by blast+
qed

lemma wl_build_alt:
  "wl_build env ctx grouping =
     map_option (\<lambda>removed.
       (let nodes = filter (\<lambda>n. node_id n \<notin> removed) (wl_nodes env ctx grouping);
            elements = node_id ` {n \<in> set nodes. is_element (node_type n)};
            to_node = service_to_node ctx (snd (wl_rules env ctx grouping)) elements
        in (nodes, wl_physical_edges env ctx removed @ wl_neighbor_edges env ctx removed
              @ concat (map (wl_dependency_edges (build_binding_to_service_map ctx) to_node) (tc_dependencies ctx)))))
     (ids_to_remove (wl_nodes env ctx grouping))"
  by (simp add: wl_build_def wl_nodes_def split_def Let_def)

lemma wl_build_ends: "groups_apart env ctx grouping \<Longrightarrow> \<exists>graph. wl_build env ctx grouping = Some graph"
  using ids_to_remove_ends [of "wl_nodes env ctx grouping"] wl_walks_end [of env ctx grouping]
  by (auto simp: wl_build_alt Let_def)

section \<open>Occupied boxes\<close>

definition sits_in :: "Node list \<Rightarrow> Node \<Rightarrow> uuid \<Rightarrow> bool" where
  "sits_in nodes n box \<longleftrightarrow>
     (\<exists>e. node_type n = ElementNode e
        \<and> walk_to_host (container_parents nodes) (host_container_ids nodes) (en_container_id e) = Some box)"

lemma occupied_hosts_iff:
  assumes "occupied_hosts nodes = Some occ"
  shows "box \<in> occ \<longleftrightarrow> box \<in> host_container_ids nodes \<and> (\<exists>n \<in> set nodes. sits_in nodes n box)"
proof -
  let ?f = "occupy (container_parents nodes) (host_container_ids nodes)"
  have none: "fold ?f ns None = None" for ns by (induction ns) (simp_all add: occupy_def)
  have "box \<in> t \<longleftrightarrow> box \<in> s \<or> box \<in> host_container_ids nodes \<and> (\<exists>n \<in> set ns. sits_in nodes n box)"
    if "fold ?f ns (Some s) = Some t" for ns s t
    using that
  proof (induction ns arbitrary: s)
    case (Cons n ns)
    obtain u where u: "?f n (Some s) = Some u" using Cons.prems none by (cases "?f n (Some s)") auto
    have "box \<in> u \<longleftrightarrow> box \<in> s \<or> box \<in> host_container_ids nodes \<and> sits_in nodes n box"
    proof (cases "node_type n")
      case (ElementNode e)
      then obtain c where "walk_to_host (container_parents nodes) (host_container_ids nodes) (en_container_id e) = Some c"
        "u = (if c \<in> host_container_ids nodes then insert c s else s)"
        using u by (auto simp: occupy_def)
      then show ?thesis by (auto simp: sits_in_def ElementNode)
    next
      case (ContainerNode c)
      with u show ?thesis by (simp add: occupy_def sits_in_def)
    qed
    with Cons u show ?case by auto
  qed simp
  from this [of nodes "{}" occ] assms show ?thesis by (simp add: occupied_hosts_def)
qed

lemma ids_to_remove_iff:
  assumes "ids_to_remove nodes = Some removed" "occupied_hosts nodes = Some occ" "distinct (map node_id nodes)" "n \<in> set nodes"
  shows "node_id n \<in> removed \<longleftrightarrow>
    (\<exists>c. node_type n = ContainerNode c \<and>
      (cn_type c = HostCont \<and> node_id n \<notin> occ
       \<or> cn_parent c \<noteq> None \<and> (\<exists>root. walk_to_root (container_parents nodes) (node_id n) = Some root
            \<and> root \<in> host_container_ids nodes \<and> root \<notin> occ)))" (is "_ \<longleftrightarrow> ?gone n")
proof -
  let ?f = "mark_removed (container_parents nodes) (host_container_ids nodes) occ"
  have none: "fold ?f ns None = None" for ns by (induction ns) (simp_all add: mark_removed_def)
  have "i \<in> t \<longleftrightarrow> i \<in> s \<or> (\<exists>m \<in> set ns. node_id m = i \<and> ?gone m)" if "fold ?f ns (Some s) = Some t" for ns s t i
    using that
  proof (induction ns arbitrary: s)
    case (Cons m ns)
    obtain u where u: "?f m (Some s) = Some u" using Cons.prems none by (cases "?f m (Some s)") auto
    have "i \<in> u \<longleftrightarrow> i \<in> s \<or> node_id m = i \<and> ?gone m"
      using u by (cases "node_type m") (auto simp: mark_removed_def split: if_splits)
    with Cons u show ?case by auto
  qed simp
  from this [of nodes "{}" removed] assms(1,2)
  have "node_id n \<in> removed \<longleftrightarrow> (\<exists>m \<in> set nodes. node_id m = node_id n \<and> ?gone m)" by (simp add: ids_to_remove_def)
  moreover have "m = n" if "m \<in> set nodes" "node_id m = node_id n" for m
    using that assms(3,4) by (auto simp: distinct_map inj_on_def)
  ultimately show ?thesis using assms(4) by blast
qed

lemma wl_boxes:
  assumes build: "wl_build env ctx grouping = Some (nodes, edges)"
    and ids: "distinct (map node_id (fst (wl_rules env ctx grouping)))"
    and box: "b \<in> set (wl_nodes env ctx grouping)" "node_type b = ContainerNode c" "cn_type c = HostCont"
  shows "b \<in> set nodes \<longleftrightarrow> (\<exists>n \<in> set nodes. sits_in (wl_nodes env ctx grouping) n (node_id b))"
proof -
  let ?all = "wl_nodes env ctx grouping"
  have d: "distinct (map node_id ?all)" unfolding wl_nodes_def by (rule inline_elements_distinct [OF ids])
  obtain removed where removed: "ids_to_remove ?all = Some removed" and nodes: "nodes = filter (\<lambda>n. node_id n \<notin> removed) ?all"
    using build by (auto simp: wl_build_alt Let_def)
  obtain occ where occ: "occupied_hosts ?all = Some occ"
    using removed by (auto simp: ids_to_remove_def bind_eq_Some_conv)
  note gone = ids_to_remove_iff [OF removed occ d]
  have kept: "n \<in> set nodes" if "n \<in> set ?all" "is_element (node_type n)" for n
    using gone [OF that(1)] that by (auto simp: nodes)
  have host: "node_id b \<in> host_container_ids ?all" using box by (force simp: host_container_ids_def)
  have root: "cn_parent c = None"
  proof (rule ccontr)
    assume "cn_parent c \<noteq> None"
    then obtain p where "nests_in p b" using box(2) by (auto simp: nests_in_def)
    from wl_nested_from_groups [OF box(1) this] have "b \<in> set (wl_groups env ctx grouping)" by blast
    then show False using box(2,3) wl_groups_not_hosts by blast
  qed
  have "b \<in> set nodes \<longleftrightarrow> node_id b \<in> occ" using gone [OF box(1)] box root by (auto simp: nodes)
  also have "\<dots> \<longleftrightarrow> (\<exists>n \<in> set ?all. sits_in ?all n (node_id b))" using occupied_hosts_iff [OF occ] host by blast
  also have "\<dots> \<longleftrightarrow> (\<exists>n \<in> set nodes. sits_in ?all n (node_id b))"
    using kept by (auto simp: nodes sits_in_def)
  finally show ?thesis .
qed

end
