(* ===== verification/Topology_Build.thy ===== *)
theory Topology_Build
  imports L2_View L3_View Application_View Workloads_Boxes
begin

text \<open>
  From the entities of a network to the graphs of its four views
  (\<^verbatim>\<open>backend/src/server/topology/service/main.rs\<close>,
  \<^verbatim>\<open>backend/src/server/topology/service/view.rs\<close>), with the server-side metadata filters that
  run before (\<^verbatim>\<open>backend/src/server/topology/service/metadata_filter.rs\<close>) and the defaults of the
  options (\<^verbatim>\<open>backend/src/server/topology/types/base.rs\<close>). A graph is \<open>None\<close> when the builder of
  the workloads view does not return.
\<close>

section \<open>Metadata filters\<close>

datatype FilterApplication = Client | Server

fun base_metadata_filters :: "TopologyView \<Rightarrow> (EntityDiscriminants \<times> (MetadataFilterType \<times> FilterApplication) list) list" where
  "base_metadata_filters L3Logical = [(EntService, [(CategoryFilter, Client)])]"
| "base_metadata_filters L2Physical = [(EntInterface, [(LinkStateFilter, Server)])]"
| "base_metadata_filters Workloads = [(EntService, [(CategoryFilter, Client)]), (EntHost, [(VirtualizationFilter, Client)])]"
| "base_metadata_filters ApplicationView = [(EntService, [(CategoryFilter, Client)])]"

fun element_entities :: "TopologyView \<Rightarrow> (EntityDiscriminants \<times> EntityDiscriminants list) list" where
  "element_entities L3Logical = [(EntIPAddress, [EntPort, EntService])]"
| "element_entities L2Physical = [(EntInterface, [])]"
| "element_entities Workloads = [(EntService, []), (EntHost, [EntService])]"
| "element_entities ApplicationView = [(EntService, [])]"

definition metadata_filters :: "TopologyView \<Rightarrow> (EntityDiscriminants \<times> (MetadataFilterType \<times> FilterApplication) list) list" where
  "metadata_filters view =
     fold (\<lambda>e m.
       if (\<exists>x \<in> set (element_entities view). fst x = e) \<or> (\<exists>x \<in> set (element_entities view). e \<in> set (snd x))
       then push_entry e (StalenessFilter, Client) m else m)
       [EntHost, EntService] (base_metadata_filters view)"

definition default_hidden_values :: "TopologyView \<Rightarrow> (EntityDiscriminants \<times> (MetadataFilterType \<times> string list) list) list" where
  "default_hidden_values view =
     (EntService, [(CategoryFilter, [''OpenPorts''])])
       # (if view = L2Physical then [(EntInterface, [(LinkStateFilter, [''Unlinked''])])] else [])"

record ServerHideSet =
  by_filter :: "(MetadataFilterType \<times> (string \<times> nat) list) list"
  rendering_views :: nat

definition hide_set_default :: ServerHideSet where
  "hide_set_default = \<lparr>by_filter = [], rendering_views = 0\<rparr>"

definition hides :: "ServerHideSet \<Rightarrow> (MetadataFilterType \<times> string) list \<Rightarrow> bool" where
  "hides hs values \<longleftrightarrow>
     rendering_views hs \<noteq> 0 \<and>
     (\<exists>(f, v) \<in> set values.
        case Option.bind (map_of (by_filter hs) f) (\<lambda>vals. map_of vals v) of
          Some hiding \<Rightarrow> hiding \<ge> rendering_views hs | None \<Rightarrow> False)"

definition count_value :: "string \<Rightarrow> (string \<times> nat) list \<Rightarrow> (string \<times> nat) list" where
  "count_value v counts = AList.update v (Suc (case map_of counts v of Some n \<Rightarrow> n | None \<Rightarrow> 0)) counts"

definition count_filter :: "(MetadataFilterType \<times> string list) list option \<Rightarrow> MetadataFilterType \<Rightarrow> ServerHideSet \<Rightarrow> ServerHideSet" where
  "count_filter hidden_here f hs =
     (case Option.bind hidden_here (\<lambda>by_f. map_of by_f f) of
        None \<Rightarrow> hs
      | Some values \<Rightarrow>
          hs\<lparr>by_filter := AList.update f
            (fold count_value values (case map_of (by_filter hs) f of Some c \<Rightarrow> c | None \<Rightarrow> [])) (by_filter hs)\<rparr>)"

definition server_hide_sets :: "TopologyRequestOptions \<Rightarrow> (EntityDiscriminants \<times> ServerHideSet) list" where
  "server_hide_sets options =
     filter (\<lambda>(_, hs). by_filter hs \<noteq> [])
       (fold (\<lambda>view out.
          fold (\<lambda>(entity, filters) out.
            (let server_filters = filter (\<lambda>(_, applies). applies = Server) filters in
             if server_filters = [] then out
             else (let hs = (case map_of out entity of Some hs \<Rightarrow> hs | None \<Rightarrow> hide_set_default);
                       hs = hs\<lparr>rendering_views := Suc (rendering_views hs)\<rparr>;
                       hidden_here = Option.bind (map_of (hide_metadata_values options) view) (\<lambda>by_e. map_of by_e entity)
                   in AList.update entity (fold (\<lambda>(f, _). count_filter hidden_here f) server_filters hs) out)))
            (metadata_filters view) out)
          all_views [])"

definition link_state_id :: "InterfaceLinkState \<Rightarrow> string" where
  "link_state_id s = (case s of Linked \<Rightarrow> ''Linked'' | Unlinked \<Rightarrow> ''Unlinked'')"

definition interface_filter_values :: "uuid set \<Rightarrow> Interface \<Rightarrow> (MetadataFilterType \<times> string) list" where
  "interface_filter_values referenced i =
     [(LinkStateFilter, link_state_id (classify_link (neighbor (if_base i)) (if_id i \<in> referenced)))]"

definition host_filter_values :: "Host \<Rightarrow> (MetadataFilterType \<times> string) list" where
  "host_filter_values h =
     [(VirtualizationFilter, if host_virtualization_metadata (host_base h) = None then ''BareMetal'' else ''Virtualized'')]"

text \<open>The id of a category, the name of its variant, is an argument.\<close>

definition service_filter_values :: "topo_env \<Rightarrow> (ServiceCategory \<Rightarrow> string) \<Rightarrow> Service \<Rightarrow> (MetadataFilterType \<times> string) list" where
  "service_filter_values env category_id s = [(CategoryFilter, category_id (definition_category env (svc_definition (svc_base s))))]"

definition referenced_neighbour_interfaces :: "Interface list \<Rightarrow> uuid set" where
  "referenced_neighbour_interfaces is = set (List.map_filter (\<lambda>i. Option.bind (neighbor (if_base i)) neighbor_interface_id) is)"

definition retain_visible :: "('a \<Rightarrow> (MetadataFilterType \<times> string) list) \<Rightarrow> ServerHideSet option \<Rightarrow> 'a list \<Rightarrow> 'a list" where
  "retain_visible values hs xs = (case hs of None \<Rightarrow> xs | Some hs \<Rightarrow> filter (\<lambda>x. \<not> hides hs (values x)) xs)"

section \<open>The data of a topology\<close>

record TopologyData =
  td_hosts :: "Host list"
  td_ip_addresses :: "IPAddress list"
  td_subnets :: "Subnet list"
  td_dependencies :: "Dependency list"
  td_ports :: "Port list"
  td_bindings :: "Binding list"
  td_interfaces :: "Interface list"
  td_services :: "Service list"
  td_vlans :: "Vlan list"
  td_tags :: "Tag list"
  td_available_views :: "TopologyView list"

definition apply_server_metadata_filters ::
    "topo_env \<Rightarrow> (ServiceCategory \<Rightarrow> string) \<Rightarrow> TopologyRequestOptions \<Rightarrow> TopologyData \<Rightarrow> TopologyData" where
  "apply_server_metadata_filters env category_id options data =
     (let hide = server_hide_sets options in
      if hide = [] then data
      else (let referenced = referenced_neighbour_interfaces (td_interfaces data) in
        data\<lparr>td_interfaces := retain_visible (interface_filter_values referenced) (map_of hide EntInterface) (td_interfaces data),
             td_hosts := retain_visible host_filter_values (map_of hide EntHost) (td_hosts data),
             td_services := retain_visible (service_filter_values env category_id) (map_of hide EntService) (td_services data)\<rparr>))"

text \<open>The live definitions of the tags with the given ids, from the table of tags.\<close>

definition live_tags :: "Tag list \<Rightarrow> uuid list \<Rightarrow> Tag list" where
  "live_tags table ids = filter (\<lambda>t. tag_id t \<in> set ids \<and> tag_valid_to t = None) table"

definition get_entity_tags :: "Tag list \<Rightarrow> Host list \<Rightarrow> Service list \<Rightarrow> Subnet list \<Rightarrow> Tag list" where
  "get_entity_tags table hosts services subnets =
     (let ids = remdups_adj (sort (concat (map (\<lambda>h. host_tags (host_base h)) hosts)
            @ concat (map (\<lambda>s. svc_tags (svc_base s)) services) @ concat (map (\<lambda>s. subnet_tags (subnet_base s)) subnets)))
      in if ids = [] then [] else live_tags table ids)"

definition view_support_of :: "Interface list \<Rightarrow> Tag list \<Rightarrow> TopologyViewSupport" where
  "view_support_of interfaces tags =
     \<lparr>l2_physical = (\<exists>i \<in> set interfaces. neighbor (if_base i) \<noteq> None),
      application = (\<exists>t \<in> set tags. is_application (tag_base t))\<rparr>"

text \<open>For shares: the interfaces of the network, and the tags of its organization if the network exists.\<close>

definition get_view_support :: "Interface list \<Rightarrow> Tag list option \<Rightarrow> TopologyViewSupport" where
  "get_view_support interfaces org_tags =
     view_support_of interfaces (case org_tags of Some ts \<Rightarrow> ts | None \<Rightarrow> [])"

text \<open>The entities loaded for a network, with the tags they use and the views they support.\<close>

definition get_topology_data :: "Tag list \<Rightarrow> TopologyData \<Rightarrow> TopologyData" where
  "get_topology_data tag_table loaded =
     (let tags = get_entity_tags tag_table (td_hosts loaded) (td_services loaded) (td_subnets loaded);
          support = view_support_of (td_interfaces loaded) tags
      in loaded\<lparr>td_tags := tags, td_available_views := filter (\<lambda>v. is_supported v support) all_views\<rparr>)"

definition rule_tag_ids :: "TopologyRequestOptions \<Rightarrow> uuid list" where
  "rule_tag_ids options =
     concat (map (\<lambda>r. case rule r of ByTag ids _ \<Rightarrow> ids | _ \<Rightarrow> []) (req_element_rules options))
       @ concat (map (\<lambda>r. case rule r of ByApplication ids \<Rightarrow> ids | _ \<Rightarrow> []) (concat (map snd (req_container_rules options))))"

definition augment_grouping_rule_tags :: "Tag list \<Rightarrow> TopologyRequestOptions \<Rightarrow> TopologyData \<Rightarrow> TopologyData" where
  "augment_grouping_rule_tags tag_table options data =
     (let missing = remdups_adj (sort (filter (\<lambda>i. i \<notin> tag_id ` set (td_tags data)) (rule_tag_ids options)))
      in if missing = [] then data else data\<lparr>td_tags := td_tags data @ live_tags tag_table missing\<rparr>)"

section \<open>The graphs\<close>

definition topology_context :: "TopologyData \<Rightarrow> TopologyRequestOptions \<Rightarrow> TopologyView \<Rightarrow> TopologyContext" where
  "topology_context data options view =
     \<lparr>tc_hosts = td_hosts data, tc_ip_addresses = td_ip_addresses data, tc_subnets = td_subnets data,
      tc_services = td_services data, tc_dependencies = td_dependencies data, tc_ports = td_ports data,
      tc_bindings = td_bindings data, tc_interfaces = td_interfaces data, tc_entity_tags = td_tags data,
      tc_vlans = td_vlans data, tc_options = options, tc_view = view\<rparr>"

fun build_view :: "topo_env \<Rightarrow> TopologyView \<Rightarrow> TopologyContext \<Rightarrow> GroupingConfig \<Rightarrow> (Node list \<times> Edge list) option" where
  "build_view env L3Logical ctx grouping = Some (l3_build env ctx grouping)"
| "build_view env ApplicationView ctx grouping = Some (app_build env ctx grouping)"
| "build_view env Workloads ctx grouping = wl_build env ctx grouping"
| "build_view env L2Physical ctx grouping = Some (l2_build env ctx grouping)"

definition stamp_edge :: "topo_env \<Rightarrow> TopologyView \<Rightarrow> Edge \<Rightarrow> Edge" where
  "stamp_edge env view e =
     e\<lparr>view_config := edge_view_config view (edge_discriminant (edge_type e)),
       edge_relation_key := relation_key env (edge_type e)\<rparr>"

definition build_graph :: "topo_env \<Rightarrow> TopologyData \<Rightarrow> TopologyRequestOptions \<Rightarrow> TopologyView \<Rightarrow> (Node list \<times> Edge list) option" where
  "build_graph env data options view =
     map_option (\<lambda>(nodes, edges).
         (nodes, add_edges_to_graph (node_id ` set nodes) (map (stamp_edge env view) edges)))
       (build_view env view (topology_context data options view) (from_request_options options view))"

definition build_all_view_graphs ::
    "topo_env \<Rightarrow> TopologyData \<Rightarrow> TopologyRequestOptions \<Rightarrow> (TopologyView \<times> (Node list \<times> Edge list) option) list" where
  "build_all_view_graphs env data options = map (\<lambda>view. (view, build_graph env data options view)) all_views"

definition get_topology_render_data ::
    "topo_env \<Rightarrow> (ServiceCategory \<Rightarrow> string) \<Rightarrow> Tag list \<Rightarrow> TopologyRequestOptions \<Rightarrow> TopologyData
      \<Rightarrow> TopologyData \<times> (TopologyView \<times> (Node list \<times> Edge list) option) list" where
  "get_topology_render_data env category_id tag_table options loaded =
     (let data = get_topology_data tag_table loaded;
          data = augment_grouping_rule_tags tag_table options data;
          data = apply_server_metadata_filters env category_id options data
      in (data, build_all_view_graphs env data options))"

section \<open>Default options\<close>

definition default_hide_metadata_values :: hide_set where
  "default_hide_metadata_values = map (\<lambda>view. (view, default_hidden_values view)) all_views"

text \<open>\<open>entry(k).or_default()\<close> followed by an update of the entry in place.\<close>

definition with_entry :: "'k \<Rightarrow> ('v list \<Rightarrow> 'v list) \<Rightarrow> ('k \<times> 'v list) list \<Rightarrow> ('k \<times> 'v list) list" where
  "with_entry k f m = AList.update k (f (case map_of m k of Some v \<Rightarrow> v | None \<Rightarrow> [])) m"

definition or_insert :: "'k \<Rightarrow> 'v \<Rightarrow> ('k \<times> 'v) list \<Rightarrow> ('k \<times> 'v) list" where
  "or_insert k v m = (case map_of m k of Some _ \<Rightarrow> m | None \<Rightarrow> AList.update k v m)"

definition merge_filters :: "(MetadataFilterType \<times> string list) list \<Rightarrow> (MetadataFilterType \<times> string list) list \<Rightarrow> (MetadataFilterType \<times> string list) list" where
  "merge_filters defaults stored = fold (\<lambda>(f, values). or_insert f values) defaults stored"

definition merge_entities ::
    "(EntityDiscriminants \<times> (MetadataFilterType \<times> string list) list) list
      \<Rightarrow> (EntityDiscriminants \<times> (MetadataFilterType \<times> string list) list) list
      \<Rightarrow> (EntityDiscriminants \<times> (MetadataFilterType \<times> string list) list) list" where
  "merge_entities defaults stored = fold (\<lambda>(e, by_f). with_entry e (merge_filters by_f)) defaults stored"

definition merge_missing_hide_defaults :: "TopologyRequestOptions \<Rightarrow> TopologyRequestOptions" where
  "merge_missing_hide_defaults options =
     options\<lparr>hide_metadata_values :=
       fold (\<lambda>(view, by_e). with_entry view (merge_entities by_e)) default_hide_metadata_values (hide_metadata_values options)\<rparr>"

text \<open>The default rules; their ids are fresh.\<close>

definition default_container_rules :: "(nat \<Rightarrow> uuid) \<Rightarrow> (TopologyView \<times> ContainerRule IdentifiedRule list) list" where
  "default_container_rules fresh =
     fold (\<lambda>gr m. fold (\<lambda>view. push_entry view gr) (container_rule_views (rule gr)) m)
       [\<lparr>rule_id = fresh 0, rule = BySubnet\<rparr>, \<lparr>rule_id = fresh 1, rule = MergeContainerBridges\<rparr>,
        \<lparr>rule_id = fresh 2, rule = ByApplication []\<rparr>, \<lparr>rule_id = fresh 3, rule = ByHost\<rparr>]
       (map (\<lambda>v. (v, [])) all_views)"

datatype UseCase = Homelab | InternalIt | Msp | OtherUseCase

definition application_relevant_use_cases :: "ServiceCategory \<Rightarrow> UseCase list" where
  "application_relevant_use_cases c =
     (if c \<in> {NetworkCore, NetworkAccess, RemoteAccess, Workstation, Mobile, Printer, OpenPortsCategory} then []
      else if c = NetworkAppliance then [Msp]
      else if c = IoTCategory then [Homelab]
      else [Homelab, InternalIt, Msp, OtherUseCase])"

text \<open>The categories in the order of their declaration.\<close>

definition all_service_categories :: "ServiceCategory list" where
  "all_service_categories =
     [NetworkCore, NetworkAccess, NetworkAppliance, RemoteAccess, StorageCategory, Backup, Media, HomeAutomation,
      ServiceCategory.Hypervisor, ServiceCategory.ContainerRuntime, ContainerCategory, Orchestrator, DNS, VPN, Monitoring, AdBlock, ReverseProxy,
      Workstation, Mobile, IoTCategory, Printer, Database, Development, Dashboard, MessageQueue, IdentityAndAccess,
      Integration, Office, ProjectManagement, Messaging, Conferencing, Telephony, Email, Publishing, UnknownCategory,
      CustomCategory, Scanopy, OpenPortsCategory]"

definition default_element_rules :: "(nat \<Rightarrow> uuid) \<Rightarrow> ElementRule IdentifiedRule list" where
  "default_element_rules fresh =
     [\<lparr>rule_id = fresh 0, rule = ByTrunkPort\<rparr>, \<lparr>rule_id = fresh 1, rule = ByVLAN\<rparr>,
      \<lparr>rule_id = fresh 2, rule = ByPortOpStatus\<rparr>,
      \<lparr>rule_id = fresh 3, rule = ByServiceCategory
         (filter (\<lambda>c. application_relevant_use_cases c = []) all_service_categories) (Some ''Infrastructure'') True\<rparr>,
      \<lparr>rule_id = fresh 4, rule = ByTag [] None\<rparr>, \<lparr>rule_id = fresh 5, rule = ByHypervisor\<rparr>,
      \<lparr>rule_id = fresh 6, rule = ByContainerRuntime\<rparr>, \<lparr>rule_id = fresh 7, rule = ByStack\<rparr>]"

definition default_request_options :: "(nat \<Rightarrow> uuid) \<Rightarrow> TopologyRequestOptions" where
  "default_request_options fresh =
     \<lparr>hide_entities = [], hide_metadata_values = default_hide_metadata_values,
      req_container_rules = default_container_rules fresh, req_element_rules = default_element_rules (\<lambda>k. fresh (4 + k))\<rparr>"

end
