(* ===== verification/Topology_Facts.thy ===== *)
theory Topology_Facts
  imports Topology_Build
begin

text \<open>
  What the graphs of the views promise: their nesting, the ends of their edges, and what the
  server-side filters leave of them.
\<close>

section \<open>The server-side filters\<close>

lemma metadata_filters_views [simp]:
  "metadata_filters L3Logical = [(EntService, [(CategoryFilter, Client), (StalenessFilter, Client)])]"
  "metadata_filters L2Physical = [(EntInterface, [(LinkStateFilter, Server)])]"
  "metadata_filters Workloads = [(EntService, [(CategoryFilter, Client), (StalenessFilter, Client)]),
     (EntHost, [(VirtualizationFilter, Client), (StalenessFilter, Client)])]"
  "metadata_filters ApplicationView = [(EntService, [(CategoryFilter, Client), (StalenessFilter, Client)])]"
  by (simp_all add: metadata_filters_def)

text \<open>The values the physical view hides of the link state, if it has an opinion.\<close>

definition hidden_link_states :: "TopologyRequestOptions \<Rightarrow> string list option" where
  "hidden_link_states options =
     Option.bind (map_of (hide_metadata_values options) L2Physical) (\<lambda>by_e.
       Option.bind (map_of by_e EntInterface) (\<lambda>by_f. map_of by_f LinkStateFilter))"

lemma server_hide_sets_eq:
  "server_hide_sets options =
     (case hidden_link_states options of
        None \<Rightarrow> []
      | Some vs \<Rightarrow> [(EntInterface, \<lparr>by_filter = [(LinkStateFilter, fold count_value vs [])], rendering_views = Suc 0\<rparr>)])"
  by (cases "map_of (hide_metadata_values options) L2Physical")
     (auto simp: server_hide_sets_def all_views_def hide_set_default_def count_filter_def hidden_link_states_def
       bind_eq_Some_conv split: option.split)

lemma count_value_counted: "map_of (fold count_value vs m) v \<noteq> None \<longleftrightarrow> map_of m v \<noteq> None \<or> v \<in> set vs"
  by (induction vs arbitrary: m) (auto simp: count_value_def update_conv')

lemma count_value_pos: "(\<forall>v n. map_of m v = Some n \<longrightarrow> n \<ge> 1) \<Longrightarrow> map_of (fold count_value vs m) v = Some n \<Longrightarrow> n \<ge> 1"
proof (induction vs arbitrary: m)
  case (Cons w vs)
  have "\<forall>v n. map_of (count_value w m) v = Some n \<longrightarrow> n \<ge> 1"
    using Cons.prems(1) by (auto simp: count_value_def update_conv')
  from Cons.IH [OF this] Cons.prems(2) show ?case by simp
qed simp

lemma hides_link_state:
  "hides \<lparr>by_filter = [(LinkStateFilter, fold count_value vs [])], rendering_views = Suc 0\<rparr> [(LinkStateFilter, v)] \<longleftrightarrow> v \<in> set vs"
  using count_value_counted [of vs "[]" v] count_value_pos [of "[]" vs v]
  by (cases "map_of (fold count_value vs []) v") (auto simp: hides_def)

definition link_state_of :: "Interface list \<Rightarrow> Interface \<Rightarrow> InterfaceLinkState" where
  "link_state_of interfaces i =
     classify_link (neighbor (if_base i)) (if_id i \<in> referenced_neighbour_interfaces interfaces)"

lemma filtered_data:
  "apply_server_metadata_filters env category_id options data =
     data\<lparr>td_interfaces := filter (\<lambda>i.
       case hidden_link_states options of
         None \<Rightarrow> True
       | Some vs \<Rightarrow> link_state_id (link_state_of (td_interfaces data) i) \<notin> set vs) (td_interfaces data)\<rparr>"
  by (cases data)
     (auto simp: apply_server_metadata_filters_def server_hide_sets_eq retain_visible_def interface_filter_values_def
        hides_link_state link_state_of_def Let_def split: option.split)

text \<open>An unlinked interface reports no neighbour and is nobody's.\<close>

lemma unlinked_iff:
  "link_state_of interfaces i = Unlinked \<longleftrightarrow>
     neighbor (if_base i) = None \<and> (\<forall>j \<in> set interfaces. neighbor (if_base j) \<noteq> Some (NeighborInterface (if_id i)))"
proof -
  have "if_id i \<in> referenced_neighbour_interfaces interfaces
      \<longleftrightarrow> (\<exists>j \<in> set interfaces. neighbor (if_base j) = Some (NeighborInterface (if_id i)))"
    by (force simp: referenced_neighbour_interfaces_def map_filter_mem bind_eq_Some_conv
        elim: neighbor_interface_id.elims)
  then show ?thesis by (auto simp: link_state_of_def classify_link_def)
qed

section \<open>Links of the filtered view\<close>

lemma find_filter_on:
  assumes "\<And>x. x \<in> set xs \<Longrightarrow> P x \<Longrightarrow> Q x"
  shows "find P (filter Q xs) = find P xs"
  using assms by (induction xs) auto

lemma map_filter_eqI: "(\<And>x. x \<in> set xs \<Longrightarrow> f x = g x) \<Longrightarrow> List.map_filter f xs = List.map_filter g xs"
  by (induction xs) (auto simp: map_filter_simps split: option.split)

lemma filtered_l2_edges:
  assumes ids: "distinct (map if_id (tc_interfaces ctx))"
    and kept: "\<And>i. i \<in> set (tc_interfaces ctx) \<Longrightarrow> \<not> keep i \<Longrightarrow> link_state_of (tc_interfaces ctx) i = Unlinked"
    and ctx': "ctx' = ctx\<lparr>tc_interfaces := filter keep (tc_interfaces ctx)\<rparr>"
  shows "l2_edges env ctx' = l2_edges env ctx"
proof -
  let ?is = "tc_interfaces ctx"
  have with_neighbor: "keep i" if "i \<in> set ?is" "neighbor (if_base i) \<noteq> None" for i
    using kept [OF that(1)] that(2) by (auto simp: unlinked_iff)
  have named: "keep j" if "i \<in> set ?is" "neighbor (if_base i) = Some (NeighborInterface (if_id j))" "j \<in> set ?is" for i j
    using kept [OF that(3)] that(1,2) by (auto simp: unlinked_iff)
  have lookup: "get_interface_by_id ctx' t = get_interface_by_id ctx t"
    if "\<And>j. j \<in> set ?is \<Longrightarrow> if_id j = t \<Longrightarrow> keep j" for t
    unfolding get_interface_by_id_def ctx' using find_filter_on [of ?is "\<lambda>e. if_id e = t" keep] that by simp
  have same_list: "get_interfaces_with_neighbor ctx' = get_interfaces_with_neighbor ctx"
    "get_interfaces_with_host_neighbor ctx' = get_interfaces_with_host_neighbor ctx"
    unfolding get_interfaces_with_neighbor_def get_interfaces_with_host_neighbor_def ctx'
    by (auto simp: with_neighbor intro!: filter_cong split: option.splits)
  have hosts: "get_host_by_id ctx' = get_host_by_id ctx" by (auto simp: get_host_by_id_def ctx')
  have target: "get_interface_by_id ctx' t = get_interface_by_id ctx t"
    if "i \<in> set ?is" "neighbor (if_base i) = Some (NeighborInterface t)" for i t
    using named [OF that(1)] that(2) by (intro lookup) auto
  have own: "get_interface_by_id ctx' (if_id i) = get_interface_by_id ctx (if_id i)"
    if "i \<in> set ?is" "neighbor (if_base i) \<noteq> None" for i
    by (rule lookup) (use with_neighbor [OF that] ids that(1) in \<open>auto simp: distinct_map inj_on_def\<close>)
  have link: "l2_port_link ctx' i = l2_port_link ctx i" if "i \<in> set ?is" for i
    using target [OF that] by (auto simp: l2_port_link_def split: option.split Neighbor.split)
  have in_is: "i \<in> set ?is \<and> neighbor (if_base i) \<noteq> None" if "i \<in> set (first_by port_link_key {} (get_interfaces_with_neighbor ctx))" for i
    using first_by_sound [OF that] by (auto simp: get_interfaces_with_neighbor_def split: option.splits)
  have phys: "l2_physical_edges ctx' = l2_physical_edges ctx"
    unfolding l2_physical_edges_alt same_list(1) by (rule map_filter_eqI) (use in_is link in blast)
  have "physical_link_host_pairs ctx' (l2_physical_edges ctx) = physical_link_host_pairs ctx (l2_physical_edges ctx)"
    unfolding physical_link_host_pairs_def
  proof (rule arg_cong [where f = set], rule map_filter_eqI)
    fix e assume "e \<in> set (l2_physical_edges ctx)"
    then obtain i where i: "i \<in> set (first_by port_link_key {} (get_interfaces_with_neighbor ctx))" "l2_port_link ctx i = Some e"
      by (auto simp: l2_physical_edges_alt map_filter_mem)
    from l2_port_link_Some [OF i(2)] obtain t :: Interface and p where "neighbor (if_base i) = Some (NeighborInterface (if_id t))"
      "edge_type e = PhysicalLink (if_id i) (if_id t) p" by blast
    with in_is [OF i(1)] own target
    show "(case edge_type e of
         PhysicalLink a b _ \<Rightarrow>
           Option.bind (get_interface_by_id ctx' a) (\<lambda>source.
             Option.bind (get_interface_by_id ctx' b) (\<lambda>target.
               Some (host_pair_key (if_host_id (if_base source)) (if_host_id (if_base target)))))
       | _ \<Rightarrow> None) =
       (case edge_type e of
         PhysicalLink a b _ \<Rightarrow>
           Option.bind (get_interface_by_id ctx a) (\<lambda>source.
             Option.bind (get_interface_by_id ctx b) (\<lambda>target.
               Some (host_pair_key (if_host_id (if_base source)) (if_host_id (if_base target)))))
       | _ \<Rightarrow> None)" by simp
  qed
  moreover have "neighbor_link_step ctx' f linked = neighbor_link_step ctx f linked" for f linked
    unfolding neighbor_link_step_def hosts ..
  ultimately show ?thesis
    by (simp add: l2_edges_def l2_neighbor_edges_def create_neighbor_link_edges_def phys same_list)
qed

section \<open>Nesting of the physical view\<close>

definition hosts_known :: "TopologyContext \<Rightarrow> bool" where
  "hosts_known ctx \<longleftrightarrow> (\<forall>i \<in> set (tc_interfaces ctx). if_host_id (if_base i) \<in> host_id ` set (tc_hosts ctx))"

lemma l2_container_drawn:
  assumes "h \<in> set (qualifying_host_ids env ctx)" "h \<in> host_id ` set (tc_hosts ctx)"
  shows "l2_container_id_for_host env h \<in> container_ids (l2_host_containers env ctx)"
proof -
  obtain host where "map_of (collect_by host_id (tc_hosts ctx)) h = Some host"
    using assms(2) map_of_collect_by_None [of host_id "tc_hosts ctx" h]
    by (cases "map_of (collect_by host_id (tc_hosts ctx)) h") auto
  with assms(1) show ?thesis
    by (force simp: container_ids_def l2_host_containers_def map_filter_mem)
qed

lemma l2_well_nested:
  assumes "hosts_known ctx"
  shows "well_nested (fst (l2_build env ctx grouping))"
proof -
  have "node_nested (container_ids (l2_host_containers env ctx)) n"
    if "n \<in> set (l2_host_containers env ctx @ l2_port_elements env ctx)" for n
  proof (cases "n \<in> set (l2_host_containers env ctx)")
    case True
    then show ?thesis by (auto simp: l2_host_containers_def map_filter_mem node_nested_def)
  next
    case False
    with that obtain h i where hi: "h \<in> set (qualifying_host_ids env ctx)" "i \<in> set (get_interfaces_for_host ctx h)"
      and n: "n = (node_element (if_id i) (l2_container_id_for_host env h) h (InterfaceElement (if_id i)))\<lparr>node_header := Some (display_name i)\<rparr>"
      by (auto simp: l2_port_elements_def)
    then have "h \<in> host_id ` set (tc_hosts ctx)"
      using assms by (auto simp: hosts_known_def get_interfaces_for_host_def)
    from l2_container_drawn [OF hi(1) this] show ?thesis by (simp add: n node_nested_def node_element_def)
  qed
  then have "well_nested (l2_host_containers env ctx @ l2_port_elements env ctx)"
    by (auto simp: well_nested_in_def intro: node_nested_mono)
  then show ?thesis by (simp add: l2_build_def apply_element_rules_nested)
qed

section \<open>Graphs\<close>

definition graph_ok :: "Node list \<times> Edge list \<Rightarrow> bool" where
  "graph_ok g \<longleftrightarrow> well_nested (fst g)
     \<and> (\<forall>e \<in> set (snd g). edge_source e \<in> node_id ` set (fst g) \<and> edge_target e \<in> node_id ` set (fst g))"

lemma stamp_edge_sel [simp]:
  "edge_source (stamp_edge env view e) = edge_source e" "edge_target (stamp_edge env view e) = edge_target e"
  "edge_type (stamp_edge env view e) = edge_type e"
  by (simp_all add: stamp_edge_def)

lemma build_graph_Some:
  "build_graph env data options view = Some g \<longleftrightarrow>
     (\<exists>edges. build_view env view (topology_context data options view) (from_request_options options view) = Some (fst g, edges)
        \<and> snd g = add_edges_to_graph (node_id ` set (fst g)) (map (stamp_edge env view) edges))"
  by (cases g) (auto simp: build_graph_def)

lemma built_graph_ok:
  assumes "build_graph env data options view = Some g" "view \<noteq> Workloads"
    "view = L2Physical \<Longrightarrow> hosts_known (topology_context data options view)"
  shows "graph_ok g"
proof -
  let ?ctx = "topology_context data options view" and ?grouping = "from_request_options options view"
  obtain edges where built: "build_view env view ?ctx ?grouping = Some (fst g, edges)"
    and edges: "snd g = add_edges_to_graph (node_id ` set (fst g)) (map (stamp_edge env view) edges)"
    using assms(1) by (auto simp: build_graph_Some)
  have "well_nested (fst g)"
    using built assms(2,3) l3_well_nested [of env ?ctx ?grouping] app_well_nested [of env ?ctx ?grouping]
      l2_well_nested [of ?ctx env ?grouping]
    by (cases view) (auto simp: app_build_def)
  then show ?thesis by (auto simp: graph_ok_def edges add_edges_to_graph_def)
qed

section \<open>Links of the rendered graph\<close>

lemma element_rules_keep_ids: "node_id ` set nodes \<subseteq> node_id ` set (fst (apply_element_rules env nodes rules resolve titles ictx))"
proof (cases "rules = []")
  case False
  then have "\<exists>m cs. fst (apply_element_rules env nodes rules resolve titles ictx) = map (reassign m) nodes @ cs"
    by (auto simp: apply_element_rules_def Let_def)
  then show ?thesis by (auto simp: image_iff) (metis (no_types, lifting) imageI list.set_map reassign_sel(1) UnI1)
qed (simp add: apply_element_rules_def)

lemma l2_port_drawn:
  assumes "i \<in> set (tc_interfaces ctx)" "if_host_id (if_base i) \<in> set (qualifying_host_ids env ctx)"
    "if_type (if_base i) \<notin> set EXCLUDED_IF_TYPES"
  shows "if_id i \<in> node_id ` set (fst (l2_build env ctx grouping))"
proof -
  have "if_id i \<in> node_id ` set (l2_host_containers env ctx @ l2_port_elements env ctx)"
    using assms by (force simp: l2_port_elements_def get_interfaces_for_host_def node_element_def image_iff)
  then show ?thesis using element_rules_keep_ids by (fastforce simp: l2_build_def)
qed

text \<open>Both ends of a link of ports are drawn, unless the type of a port is left out of the view.\<close>

lemma l2_link_drawn:
  assumes e: "e \<in> set (l2_physical_edges ctx)"
    and types: "\<And>i. i \<in> set (tc_interfaces ctx) \<Longrightarrow> if_id i \<in> {edge_source e, edge_target e} \<Longrightarrow> if_type (if_base i) \<notin> set EXCLUDED_IF_TYPES"
  shows "{edge_source e, edge_target e} \<subseteq> node_id ` set (fst (l2_build env ctx grouping))"
proof -
  obtain i where i: "i \<in> set (get_interfaces_with_neighbor ctx)" "l2_port_link ctx i = Some e"
    using e first_by_sound by (fastforce simp: l2_physical_edges_alt map_filter_mem)
  from l2_port_link_Some [OF i(2)] obtain t :: Interface and p where t: "t \<in> set (tc_interfaces ctx)"
    "edge_type e = PhysicalLink (if_id i) (if_id t) p" "edge_source e = if_id i" "edge_target e = if_id t"
    "get_interface_by_id ctx (if_id t) = Some t" by blast
  have i_in: "i \<in> set (tc_interfaces ctx)" using i(1) by (simp add: get_interfaces_with_neighbor_def)
  have "if_host_id (if_base i) \<in> set (qualifying_host_ids env ctx)"
    using i(1) by (simp add: qualifying_host_ids_def)
  moreover have "if_host_id (if_base t) \<in> set (qualifying_host_ids env ctx)"
    unfolding qualifying_host_ids_def set_unique set_append l2_edges_def
    using e t by (force intro!: UnI2)
  ultimately show ?thesis using l2_port_drawn [OF i_in] l2_port_drawn [OF t(1)] types i_in t by auto
qed

lemma l2_neighbor_no_ports: "e \<in> set (l2_neighbor_edges env ctx) \<Longrightarrow> link_ports (edge_type e) = None"
  unfolding l2_neighbor_edges_def create_neighbor_link_edges_alt
  by (auto simp: map_filter_mem dest: neighbor_link_edge_Some)

lemma count_distinct_key:
  "distinct (map f xs) \<Longrightarrow> length (filter (\<lambda>x. f x = k) xs) = (if \<exists>x \<in> set xs. f x = k then 1 else 0)"
  by (induction xs) (auto simp: image_iff filter_empty_conv)

lemma l2_links_counted:
  assumes "distinct (map if_id (tc_interfaces ctx))"
  shows "length (filter (\<lambda>e. link_ports (edge_type e) = Some (host_pair_key a b)) (l2_edges env ctx))
    = (if ports_linked ctx a b then 1 else 0)"
proof -
  have "filter (\<lambda>e. link_ports (edge_type e) = Some (host_pair_key a b)) (l2_neighbor_edges env ctx) = []"
    using l2_neighbor_no_ports by (fastforce simp: filter_empty_conv)
  then show ?thesis
    using count_distinct_key [OF l2_physical_links(1) [OF assms], of "Some (host_pair_key a b)"] l2_physical_links(2) [OF assms, of a b]
    by (simp add: l2_edges_def)
qed

definition hides_no_link :: "TopologyRequestOptions \<Rightarrow> bool" where
  "hides_no_link options \<longleftrightarrow> (case hidden_link_states options of Some vs \<Rightarrow> ''Linked'' \<notin> set vs | None \<Rightarrow> True)"

abbreviation link_visible :: "TopologyRequestOptions \<Rightarrow> Interface list \<Rightarrow> Interface \<Rightarrow> bool" where
  "link_visible options is i \<equiv>
     (case hidden_link_states options of None \<Rightarrow> True | Some vs \<Rightarrow> link_state_id (link_state_of is i) \<notin> set vs)"

lemma hidden_unlinked: "hides_no_link options \<Longrightarrow> \<not> link_visible options is i \<Longrightarrow> link_state_of is i = Unlinked"
  by (cases "link_state_of is i") (auto simp: hides_no_link_def link_state_id_def split: option.splits)

lemma filtered_l2_edges_eq:
  assumes "hides_no_link options" "distinct (map if_id (td_interfaces data))"
  shows "l2_edges env (topology_context (apply_server_metadata_filters env category_id options data) options view)
    = l2_edges env (topology_context data options view)"
  by (rule filtered_l2_edges [where keep = "link_visible options (td_interfaces data)"])
     (use assms hidden_unlinked in \<open>auto simp: filtered_data topology_context_def\<close>)

lemma filtered_graph_links:
  assumes visible: "hides_no_link options" and ids: "distinct (map if_id (td_interfaces data))"
    and types: "\<And>i. i \<in> set (td_interfaces data) \<Longrightarrow> if_id i \<in> {a, b} \<Longrightarrow> if_type (if_base i) \<notin> set EXCLUDED_IF_TYPES"
    and g: "build_graph env (apply_server_metadata_filters env category_id options data) options L2Physical = Some g"
  shows "length (filter (\<lambda>e. link_ports (edge_type e) = Some (host_pair_key a b)) (snd g))
    = (if ports_linked (topology_context data options L2Physical) a b then 1 else 0)"
proof -
  let ?ctx = "topology_context data options L2Physical"
  let ?ctx' = "topology_context (apply_server_metadata_filters env category_id options data) options L2Physical"
  let ?P = "\<lambda>e. link_ports (edge_type e) = Some (host_pair_key a b)"
  have g_eq: "fst g = fst (l2_build env ?ctx' (from_request_options options L2Physical))"
    "snd g = add_edges_to_graph (node_id ` set (fst g)) (map (stamp_edge env L2Physical) (l2_edges env ?ctx'))"
    using g by (auto simp: build_graph_Some l2_build_def)
  have "{edge_source e, edge_target e} \<subseteq> node_id ` set (fst g)" if "e \<in> set (l2_edges env ?ctx')" "?P e" for e
  proof -
    have e: "e \<in> set (l2_physical_edges ?ctx')" using that l2_neighbor_no_ports by (fastforce simp: l2_edges_def)
    then obtain i where "l2_port_link ?ctx' i = Some e" by (auto simp: l2_physical_edges_alt map_filter_mem)
    from l2_port_link_Some [OF this] obtain t :: Interface and p where
      "edge_type e = PhysicalLink (if_id i) (if_id t) p" "edge_source e = if_id i" "edge_target e = if_id t" by blast
    with that(2) have "{edge_source e, edge_target e} = {a, b}" by (simp add: host_pair_key_eq_iff)
    with types have "i \<in> set (tc_interfaces ?ctx') \<Longrightarrow> if_id i \<in> {edge_source e, edge_target e}
        \<Longrightarrow> if_type (if_base i) \<notin> set EXCLUDED_IF_TYPES" for i
      by (auto simp: filtered_data topology_context_def)
    from l2_link_drawn [OF e this] show ?thesis by (simp add: g_eq(1))
  qed
  then have "filter ?P (snd g) = map (stamp_edge env L2Physical) (filter ?P (l2_edges env ?ctx'))"
    unfolding g_eq(2) add_edges_to_graph_def filter_filter filter_map by (auto simp: comp_def intro!: arg_cong [where f = "map (stamp_edge env L2Physical)"] filter_cong)
  then show ?thesis
    using l2_links_counted [of ?ctx a b env] filtered_l2_edges_eq [OF visible ids, of env category_id L2Physical] ids
    by (simp add: topology_context_def)
qed

lemma render_data_alt:
  "get_topology_render_data env category_id tag_table options loaded =
     (let data = apply_server_metadata_filters env category_id options
        (augment_grouping_rule_tags tag_table options (get_topology_data tag_table loaded))
      in (data, build_all_view_graphs env data options))"
  by (simp add: get_topology_render_data_def Let_def)

lemma tags_keep_interfaces [simp]:
  "td_interfaces (augment_grouping_rule_tags tag_table options data) = td_interfaces data"
  "td_interfaces (get_topology_data tag_table data) = td_interfaces data"
  by (simp_all add: augment_grouping_rule_tags_def get_topology_data_def Let_def)

lemma map_of_all_views: "map_of (build_all_view_graphs env data options) view = Some (build_graph env data options view)"
  by (cases view) (simp_all add: build_all_view_graphs_def all_views_def)

section \<open>Default opinions\<close>

text \<open>The hidden values of a filter of an entity of a view, if there is an opinion.\<close>

definition opinion :: "hide_set \<Rightarrow> TopologyView \<Rightarrow> EntityDiscriminants \<Rightarrow> MetadataFilterType \<Rightarrow> string list option" where
  "opinion hs view e f = Option.bind (map_of hs view) (\<lambda>by_e. Option.bind (map_of by_e e) (\<lambda>by_f. map_of by_f f))"

lemma hidden_link_states_opinion: "hidden_link_states options = opinion (hide_metadata_values options) L2Physical EntInterface LinkStateFilter"
  by (simp add: hidden_link_states_def opinion_def)

lemma map_of_or_insert: "map_of (or_insert k v m) j = (if j = k \<and> map_of m k = None then Some v else map_of m j)"
  by (auto simp: or_insert_def update_conv' split: option.split)

lemma map_of_merge_filters:
  "map_of (merge_filters defaults stored) f = (case map_of stored f of Some vs \<Rightarrow> Some vs | None \<Rightarrow> map_of defaults f)"
  unfolding merge_filters_def
  by (induction defaults arbitrary: stored) (auto simp: map_of_or_insert split: option.splits)

lemma map_of_with_entry:
  "map_of (with_entry k f m) j = (if j = k then Some (f (case map_of m k of Some v \<Rightarrow> v | None \<Rightarrow> [])) else map_of m j)"
  by (simp add: with_entry_def update_conv')

lemma map_of_fold_with_entry:
  assumes "distinct (map fst ds)"
  shows "map_of (fold (\<lambda>(k, d). with_entry k (f d)) ds m) j =
    (case map_of ds j of Some d \<Rightarrow> Some (f d (case map_of m j of Some v \<Rightarrow> v | None \<Rightarrow> [])) | None \<Rightarrow> map_of m j)"
  using assms
proof (induction ds arbitrary: m)
  case (Cons kd ds)
  obtain k d where kd: "kd = (k, d)" by force
  have "map_of ds k = None" using Cons.prems by (simp add: kd map_of_eq_None_iff)
  with Cons.IH [of "with_entry k (f d) m"] Cons.prems show ?case
    by (cases "j = k"; cases "map_of ds j") (simp_all add: kd map_of_with_entry)
qed simp

lemma defaults_distinct:
  "distinct (map fst default_hide_metadata_values)" "distinct (map fst (default_hidden_values view))"
  by (simp_all add: default_hide_metadata_values_def default_hidden_values_def all_views_def)

lemma map_of_default_views: "map_of default_hide_metadata_values view = Some (default_hidden_values view)"
  by (cases view) (simp_all add: default_hide_metadata_values_def all_views_def)

lemma merged_opinion:
  "opinion (hide_metadata_values (merge_missing_hide_defaults options)) view e f =
     (case opinion (hide_metadata_values options) view e f of
        Some vs \<Rightarrow> Some vs | None \<Rightarrow> opinion default_hide_metadata_values view e f)"
proof -
  have "map_of (merge_entities ds stored) e = (case map_of ds e of
      Some by_f \<Rightarrow> Some (merge_filters by_f (case map_of stored e of Some v \<Rightarrow> v | None \<Rightarrow> []))
    | None \<Rightarrow> map_of stored e)" if "distinct (map fst ds)" for ds stored
    unfolding merge_entities_def by (rule map_of_fold_with_entry [OF that])
  note entities = this [OF defaults_distinct(2)]
  show ?thesis
    unfolding opinion_def merge_missing_hide_defaults_def
    by (simp add: map_of_fold_with_entry [OF defaults_distinct(1)] map_of_default_views entities map_of_merge_filters
        split: option.split)
qed

section \<open>From the loaded entities to the graphs\<close>

lemma rendered_graph:
  "map_of (snd (get_topology_render_data env category_id tag_table options loaded)) view =
     Some (build_graph env (fst (get_topology_render_data env category_id tag_table options loaded)) options view)"
  by (simp add: get_topology_render_data_def Let_def map_of_all_views)

lemma rendered_data:
  "fst (get_topology_render_data env category_id tag_table options loaded) =
     apply_server_metadata_filters env category_id options
       (augment_grouping_rule_tags tag_table options (get_topology_data tag_table loaded))"
  by (simp add: get_topology_render_data_def Let_def)

lemma tags_keep_hosts [simp]:
  "td_hosts (augment_grouping_rule_tags tag_table options data) = td_hosts data"
  "td_hosts (get_topology_data tag_table data) = td_hosts data"
  by (simp_all add: augment_grouping_rule_tags_def get_topology_data_def Let_def)

lemma rendered_hosts_known:
  "hosts_known (topology_context loaded options view)
    \<Longrightarrow> hosts_known (topology_context (fst (get_topology_render_data env category_id tag_table options loaded)) options view)"
  by (auto simp: hosts_known_def topology_context_def rendered_data filtered_data)

lemma rendered_links:
  assumes "hides_no_link options" "distinct (map if_id (td_interfaces loaded))"
    "\<And>i. i \<in> set (td_interfaces loaded) \<Longrightarrow> if_id i \<in> {a, b} \<Longrightarrow> if_type (if_base i) \<notin> set EXCLUDED_IF_TYPES"
    "build_graph env (fst (get_topology_render_data env category_id tag_table options loaded)) options L2Physical = Some g"
  shows "length (filter (\<lambda>e. link_ports (edge_type e) = Some (host_pair_key a b)) (snd g))
    = (if ports_linked (topology_context loaded options L2Physical) a b then 1 else 0)"
proof -
  have "length (filter (\<lambda>e. link_ports (edge_type e) = Some (host_pair_key a b)) (snd g))
    = (if ports_linked (topology_context (augment_grouping_rule_tags tag_table options (get_topology_data tag_table loaded)) options L2Physical) a b
       then 1 else 0)"
    by (rule filtered_graph_links [OF assms(1) _ _ assms(4) [unfolded rendered_data]]) (use assms(2,3) in simp_all)
  then show ?thesis by (simp add: ports_linked_def topology_context_def)
qed

lemma graphs_end:
  assumes "groups_apart env (topology_context data options Workloads) (from_request_options options Workloads)"
  shows "build_graph env data options view \<noteq> None"
  using wl_build_ends [OF assms] by (cases view) (auto simp: build_graph_def)

section \<open>Every address and every service is drawn once\<close>

definition drawn_address :: "topo_env \<Rightarrow> TopologyContext \<Rightarrow> GroupingConfig \<Rightarrow> IPAddress \<Rightarrow> Node option" where
  "drawn_address env ctx grouping a =
     map_option (\<lambda>sid. drawn_child env ctx sid (l3_child env ctx a)) (l3_home ctx grouping a)"

lemma concat_group_by:
  "mset (concat (map (\<lambda>(k, ys). map (f k) ys) (group_by key xs))) =
     mset (List.map_filter (\<lambda>x. map_option (\<lambda>k. f k x) (key x)) xs)"
proof (induction xs rule: rev_induct)
  case (snoc x xs)
  have "mset (concat (map (\<lambda>(k, ys). map (f k) ys) (push_entry k x m))) =
      mset (concat (map (\<lambda>(k, ys). map (f k) ys) m)) + {#f k x#}" for k m
    by (induction m) auto
  with snoc show ?case by (auto simp: group_by_snoc List.map_filter_def split: option.split)
qed (simp add: group_by_def map_filter_simps)

lemma l3_drawn_once:
  assumes "distinct (map ip_id (tc_ip_addresses ctx))"
  shows "mset (elements_of (fst (l3_build env ctx grouping))) =
    mset (List.map_filter (drawn_address env ctx grouping) (tc_ip_addresses ctx))"
  unfolding l3_elements(1) [OF assms] drawn_address_def
  using concat_group_by [of "\<lambda>sid a. drawn_child env ctx sid (l3_child env ctx a)" "l3_home ctx grouping" "tc_ip_addresses ctx"]
  by simp

lemma app_drawn_once:
  assumes "distinct (map svc_id (tc_services ctx))"
  shows "mset (elements_of (fst (app_build env ctx grouping))) =
    mset (map (drawn_service env ctx grouping) (eligible_services env ctx))"
  by (simp add: app_build_def app_elements [OF assms] mset_app_order mset_map)

end
