(* ===== verification/Snmp_Values.thy ===== *)
theory Snmp_Values
  imports Neighbor_Resolution
begin

text \<open>
  Values and results of the SNMP collection of the daemon
  (\<^verbatim>\<open>backend/src/daemon/discovery/integration/snmp\<close>: \<open>values.rs\<close>, \<open>types.rs\<close>, \<open>oids.rs\<close>): the varbind
  values of the protocol library, their typed readings, the object identifiers of the tables the
  daemon walks, and the records a query returns.

  A sub-identifier is a \<open>u64\<close>; the casts \<open>as i32\<close>, \<open>as u16\<close> and \<open>as u8\<close> keep its low bits.
\<close>

section \<open>Object identifiers\<close>

type_synonym oid = "64 word list"

text \<open>\<open>str::parse::<u64>\<close>: an optional plus sign and decimal digits, inside the range.\<close>

definition parse_u64 :: "string \<Rightarrow> 64 word option" where
  "parse_u64 s =
     (let ds = (case s of c # cs \<Rightarrow> if c = CHR ''+'' then cs else s | [] \<Rightarrow> [])
      in if ds = [] then None
         else Option.bind (decimal_value 0 ds)
           (\<lambda>n. if n < 18446744073709551616 then Some (word_of_int n) else None))"

fun split_dots :: "string \<Rightarrow> string list" where
  "split_dots [] = [[]]"
| "split_dots (c # cs) =
     (if c = CHR ''.'' then [] # split_dots cs
      else case split_dots cs of [] \<Rightarrow> [[c]] | g # gs \<Rightarrow> (c # g) # gs)"

definition oid_pieces :: "string \<Rightarrow> string list" where
  "oid_pieces s = filter (\<lambda>p. p \<noteq> []) (split_dots s)"

text \<open>The pieces of a walk's base that are numbers; \<open>parse_oid\<close> refuses a piece that is not.\<close>

definition base_parts :: "string \<Rightarrow> oid" where
  "base_parts s = List.map_filter parse_u64 (oid_pieces s)"

definition parse_oid :: "(oid \<Rightarrow> bool) \<Rightarrow> string \<Rightarrow> oid option" where
  "parse_oid valid_oid s =
     (case collect_options (map parse_u64 (oid_pieces s)) of
        Some parts \<Rightarrow> if valid_oid parts then Some parts else None
      | None \<Rightarrow> None)"

fun join_dots :: "string list \<Rightarrow> string" where
  "join_dots [] = []"
| "join_dots [g] = g"
| "join_dots (g # gs) = g @ CHR ''.'' # join_dots gs"

text \<open>The order of vectors of sub-identifiers.\<close>

fun oid_less :: "oid \<Rightarrow> oid \<Rightarrow> bool" where
  "oid_less _ [] = False"
| "oid_less [] (y # ys) = True"
| "oid_less (x # xs) (y # ys) = (x < y \<or> x = y \<and> oid_less xs ys)"

definition in_subtree :: "oid \<Rightarrow> oid \<Rightarrow> bool" where
  "in_subtree base p \<longleftrightarrow> length base < length p \<and> take (length base) p = base"

lemma oid_less_irrefl [simp]: "\<not> oid_less p p"
  by (induction p) auto

lemma oid_less_linear: "\<not> oid_less p q \<Longrightarrow> p \<noteq> q \<Longrightarrow> oid_less q p"
  by (induction p q rule: oid_less.induct) (auto, metis list.exhaust oid_less.simps(2))

lemma oid_less_trans: "oid_less p q \<Longrightarrow> oid_less q r \<Longrightarrow> oid_less p r"
proof (induction p q arbitrary: r rule: oid_less.induct)
  case (2 y ys)
  then show ?case by (cases r) auto
next
  case (3 x xs y ys)
  then show ?case by (cases r) auto
qed simp

lemma oid_less_asym: "oid_less p q \<Longrightarrow> \<not> oid_less q p"
  using oid_less_trans oid_less_irrefl by blast

lemma in_subtree_iff: "in_subtree base p \<longleftrightarrow> (\<exists>t. t \<noteq> [] \<and> p = base @ t)"
proof
  assume "in_subtree base p"
  then have "p = base @ drop (length base) p \<and> drop (length base) p \<noteq> []"
    unfolding in_subtree_def by (metis append_take_drop_id drop_eq_Nil2 linorder_not_less)
  then show "\<exists>t. t \<noteq> [] \<and> p = base @ t" by blast
qed (auto simp: in_subtree_def)

lemma oid_less_append [simp]: "t \<noteq> [] \<Longrightarrow> oid_less p (p @ t)"
  by (induction p) (auto simp: neq_Nil_conv)

text \<open>What lies outside a subtree and above its root lies above every row of it.\<close>

lemma above_subtree: "oid_less base p \<Longrightarrow> \<not> in_subtree base p \<Longrightarrow> oid_less (base @ t) p"
proof (induction base p rule: oid_less.induct)
  case (2 y ys)
  then show ?case by (simp add: in_subtree_def)
next
  case (3 x xs y ys)
  then show ?case by (auto simp: in_subtree_def)
qed simp

section \<open>The columns the daemon reads\<close>

definition SYS_DESCR :: string where "SYS_DESCR = ''1.3.6.1.2.1.1.1.0''"
definition SYS_OBJECT_ID :: string where "SYS_OBJECT_ID = ''1.3.6.1.2.1.1.2.0''"
definition SYS_UPTIME :: string where "SYS_UPTIME = ''1.3.6.1.2.1.1.3.0''"
definition SYS_CONTACT :: string where "SYS_CONTACT = ''1.3.6.1.2.1.1.4.0''"
definition SYS_NAME :: string where "SYS_NAME = ''1.3.6.1.2.1.1.5.0''"
definition SYS_LOCATION :: string where "SYS_LOCATION = ''1.3.6.1.2.1.1.6.0''"
definition IF_INDEX :: string where "IF_INDEX = ''1.3.6.1.2.1.2.2.1.1''"
definition IF_DESCR :: string where "IF_DESCR = ''1.3.6.1.2.1.2.2.1.2''"
definition IF_TYPE :: string where "IF_TYPE = ''1.3.6.1.2.1.2.2.1.3''"
definition IF_MTU :: string where "IF_MTU = ''1.3.6.1.2.1.2.2.1.4''"
definition IF_SPEED :: string where "IF_SPEED = ''1.3.6.1.2.1.2.2.1.5''"
definition IF_PHYS_ADDRESS :: string where "IF_PHYS_ADDRESS = ''1.3.6.1.2.1.2.2.1.6''"
definition IF_ADMIN_STATUS :: string where "IF_ADMIN_STATUS = ''1.3.6.1.2.1.2.2.1.7''"
definition IF_OPER_STATUS :: string where "IF_OPER_STATUS = ''1.3.6.1.2.1.2.2.1.8''"
definition IF_NAME :: string where "IF_NAME = ''1.3.6.1.2.1.31.1.1.1.1''"
definition IF_HIGH_SPEED :: string where "IF_HIGH_SPEED = ''1.3.6.1.2.1.31.1.1.1.15''"
definition IF_ALIAS :: string where "IF_ALIAS = ''1.3.6.1.2.1.31.1.1.1.18''"
definition IP_AD_ENT_IF_INDEX :: string where "IP_AD_ENT_IF_INDEX = ''1.3.6.1.2.1.4.20.1.2''"
definition IP_AD_ENT_NET_MASK :: string where "IP_AD_ENT_NET_MASK = ''1.3.6.1.2.1.4.20.1.3''"
definition LLDP_LOC_CHASSIS_ID :: string where "LLDP_LOC_CHASSIS_ID = ''1.0.8802.1.1.2.1.3.2.0''"
definition LLDP_LOC_CHASSIS_ID_SUBTYPE :: string where "LLDP_LOC_CHASSIS_ID_SUBTYPE = ''1.0.8802.1.1.2.1.3.1.0''"
definition LLDP_LOC_PORT_ID_SUBTYPE :: string where "LLDP_LOC_PORT_ID_SUBTYPE = ''1.0.8802.1.1.2.1.3.7.1.2''"
definition LLDP_LOC_PORT_ID :: string where "LLDP_LOC_PORT_ID = ''1.0.8802.1.1.2.1.3.7.1.3''"
definition LLDP_LOC_PORT_DESC :: string where "LLDP_LOC_PORT_DESC = ''1.0.8802.1.1.2.1.3.7.1.4''"
definition LLDP_REM_CHASSIS_ID :: string where "LLDP_REM_CHASSIS_ID = ''1.0.8802.1.1.2.1.4.1.1.5''"
definition LLDP_REM_CHASSIS_ID_SUBTYPE :: string where "LLDP_REM_CHASSIS_ID_SUBTYPE = ''1.0.8802.1.1.2.1.4.1.1.4''"
definition LLDP_REM_PORT_ID :: string where "LLDP_REM_PORT_ID = ''1.0.8802.1.1.2.1.4.1.1.7''"
definition LLDP_REM_PORT_ID_SUBTYPE :: string where "LLDP_REM_PORT_ID_SUBTYPE = ''1.0.8802.1.1.2.1.4.1.1.6''"
definition LLDP_REM_PORT_DESC :: string where "LLDP_REM_PORT_DESC = ''1.0.8802.1.1.2.1.4.1.1.8''"
definition LLDP_REM_SYS_NAME :: string where "LLDP_REM_SYS_NAME = ''1.0.8802.1.1.2.1.4.1.1.9''"
definition LLDP_REM_SYS_DESC :: string where "LLDP_REM_SYS_DESC = ''1.0.8802.1.1.2.1.4.1.1.10''"
definition LLDP_REM_MAN_ADDR_IF_SUBTYPE :: string where "LLDP_REM_MAN_ADDR_IF_SUBTYPE = ''1.0.8802.1.1.2.1.4.2.1.3''"
definition CDP_CACHE_DEVICE_ID :: string where "CDP_CACHE_DEVICE_ID = ''1.3.6.1.4.1.9.9.23.1.2.1.1.6''"
definition CDP_CACHE_DEVICE_PORT :: string where "CDP_CACHE_DEVICE_PORT = ''1.3.6.1.4.1.9.9.23.1.2.1.1.7''"
definition CDP_CACHE_PLATFORM :: string where "CDP_CACHE_PLATFORM = ''1.3.6.1.4.1.9.9.23.1.2.1.1.8''"
definition CDP_CACHE_ADDRESS :: string where "CDP_CACHE_ADDRESS = ''1.3.6.1.4.1.9.9.23.1.2.1.1.4''"
definition ENT_PHYSICAL_DESCR :: string where "ENT_PHYSICAL_DESCR = ''1.3.6.1.2.1.47.1.1.1.1.2''"
definition ENT_PHYSICAL_CLASS :: string where "ENT_PHYSICAL_CLASS = ''1.3.6.1.2.1.47.1.1.1.1.5''"
definition ENT_PHYSICAL_NAME :: string where "ENT_PHYSICAL_NAME = ''1.3.6.1.2.1.47.1.1.1.1.7''"
definition ENT_PHYSICAL_SERIAL_NUM :: string where "ENT_PHYSICAL_SERIAL_NUM = ''1.3.6.1.2.1.47.1.1.1.1.11''"
definition ENT_PHYSICAL_MFG_NAME :: string where "ENT_PHYSICAL_MFG_NAME = ''1.3.6.1.2.1.47.1.1.1.1.12''"
definition ENT_PHYSICAL_MODEL_NAME :: string where "ENT_PHYSICAL_MODEL_NAME = ''1.3.6.1.2.1.47.1.1.1.1.13''"
definition IP_NET_TO_MEDIA_IF_INDEX :: string where "IP_NET_TO_MEDIA_IF_INDEX = ''1.3.6.1.2.1.4.22.1.1''"
definition IP_NET_TO_MEDIA_PHYS_ADDRESS :: string where "IP_NET_TO_MEDIA_PHYS_ADDRESS = ''1.3.6.1.2.1.4.22.1.2''"
definition IP_NET_TO_MEDIA_NET_ADDRESS :: string where "IP_NET_TO_MEDIA_NET_ADDRESS = ''1.3.6.1.2.1.4.22.1.3''"
definition IP_NET_TO_MEDIA_TYPE :: string where "IP_NET_TO_MEDIA_TYPE = ''1.3.6.1.2.1.4.22.1.4''"
definition DOT1D_BASE_PORT_IF_INDEX :: string where "DOT1D_BASE_PORT_IF_INDEX = ''1.3.6.1.2.1.17.1.4.1.2''"
definition DOT1D_TP_FDB_ADDRESS :: string where "DOT1D_TP_FDB_ADDRESS = ''1.3.6.1.2.1.17.4.3.1.1''"
definition DOT1D_TP_FDB_PORT :: string where "DOT1D_TP_FDB_PORT = ''1.3.6.1.2.1.17.4.3.1.2''"
definition DOT1D_TP_FDB_STATUS :: string where "DOT1D_TP_FDB_STATUS = ''1.3.6.1.2.1.17.4.3.1.3''"
definition DOT1Q_TP_FDB_PORT :: string where "DOT1Q_TP_FDB_PORT = ''1.3.6.1.2.1.17.7.1.2.2.1.2''"
definition DOT1Q_TP_FDB_STATUS :: string where "DOT1Q_TP_FDB_STATUS = ''1.3.6.1.2.1.17.7.1.2.2.1.3''"
definition DOT1Q_VLAN_STATIC_NAME :: string where "DOT1Q_VLAN_STATIC_NAME = ''1.3.6.1.2.1.17.7.1.4.3.1.1''"
definition DOT1Q_PVID :: string where "DOT1Q_PVID = ''1.3.6.1.2.1.17.7.1.4.5.1.1''"
definition DOT1Q_VLAN_CURRENT_EGRESS_PORTS :: string where "DOT1Q_VLAN_CURRENT_EGRESS_PORTS = ''1.3.6.1.2.1.17.7.1.4.2.1.4''"
definition DOT1Q_VLAN_CURRENT_UNTAGGED_PORTS :: string where "DOT1Q_VLAN_CURRENT_UNTAGGED_PORTS = ''1.3.6.1.2.1.17.7.1.4.2.1.5''"
definition VTP_VLAN_NAME :: string where "VTP_VLAN_NAME = ''1.3.6.1.4.1.9.9.46.1.3.1.1.4''"

section \<open>Values\<close>

datatype Value =
    Boolean bool
  | Null
  | Integer int
  | OctetString "octet list"
  | ObjectIdentifier "oid option"
  | Sequence
  | SetValue
  | Constructed
  | IpAddressValue "32 word"
  | Counter32 "32 word"
  | Unsigned32 "32 word"
  | Timeticks "32 word"
  | Opaque "octet list"
  | Counter64 "64 word"
  | EndOfMibView
  | NoSuchObject
  | NoSuchInstance
  | PduValue

type_synonym varbinds = "(oid \<times> Value) list"

fun value_to_string :: "Value \<Rightarrow> string option" where
  "value_to_string (OctetString bytes) = map_option (\<lambda>s. strip_nuls (octets_text s)) (from_utf8 bytes)"
| "value_to_string (ObjectIdentifier oid) =
     map_option (\<lambda>parts. join_dots (map (\<lambda>n. decimal (unat n)) parts)) oid"
| "value_to_string _ = None"

fun value_type_name :: "Value \<Rightarrow> string" where
  "value_type_name (Boolean _) = ''Boolean''"
| "value_type_name Null = ''Null''"
| "value_type_name (Integer _) = ''Integer''"
| "value_type_name (OctetString _) = ''OctetString''"
| "value_type_name (ObjectIdentifier _) = ''ObjectIdentifier''"
| "value_type_name Sequence = ''Sequence''"
| "value_type_name SetValue = ''Set''"
| "value_type_name Constructed = ''Constructed''"
| "value_type_name (IpAddressValue _) = ''IpAddress''"
| "value_type_name (Counter32 _) = ''Counter32''"
| "value_type_name (Unsigned32 _) = ''Unsigned32''"
| "value_type_name (Timeticks _) = ''Timeticks''"
| "value_type_name (Opaque _) = ''Opaque''"
| "value_type_name (Counter64 _) = ''Counter64''"
| "value_type_name EndOfMibView = ''EndOfMibView''"
| "value_type_name NoSuchObject = ''NoSuchObject''"
| "value_type_name NoSuchInstance = ''NoSuchInstance''"
| "value_type_name PduValue = ''Pdu''"

definition i32_try_from :: "int \<Rightarrow> int option" where
  "i32_try_from n = (if i32_range n then Some n else None)"

fun value_to_i32 :: "Value \<Rightarrow> int option" where
  "value_to_i32 (Integer n) = i32_try_from n"
| "value_to_i32 (Unsigned32 n) = i32_try_from (uint n)"
| "value_to_i32 (Counter32 n) = i32_try_from (uint n)"
| "value_to_i32 (Counter64 n) = i32_try_from (uint n)"
| "value_to_i32 (Timeticks n) = i32_try_from (uint n)"
| "value_to_i32 _ = None"

fun value_to_u64 :: "Value \<Rightarrow> 64 word option" where
  "value_to_u64 (Integer n) = (if 0 \<le> n then Some (word_of_int n) else None)"
| "value_to_u64 (Unsigned32 n) = Some (ucast n)"
| "value_to_u64 (Counter32 n) = Some (ucast n)"
| "value_to_u64 (Counter64 n) = Some n"
| "value_to_u64 (Timeticks n) = Some (ucast n)"
| "value_to_u64 _ = None"

fun value_to_mac :: "Value \<Rightarrow> MacAddress option" where
  "value_to_mac (OctetString bytes) = (if length bytes = 6 then Some (word_rcat bytes) else None)"
| "value_to_mac _ = None"

fun value_to_ip :: "Value \<Rightarrow> IpAddr option" where
  "value_to_ip (IpAddressValue a) = Some (V4 a)"
| "value_to_ip (OctetString bytes) = (if length bytes = 4 then Some (V4 (word_rcat bytes)) else None)"
| "value_to_ip _ = None"

definition u16_try_from :: "int \<Rightarrow> 16 word option" where
  "u16_try_from n = (if 0 \<le> n \<and> n < 65536 then Some (word_of_int n) else None)"

fun value_to_u16 :: "Value \<Rightarrow> 16 word option" where
  "value_to_u16 (Integer n) = u16_try_from n"
| "value_to_u16 (Unsigned32 n) = u16_try_from (uint n)"
| "value_to_u16 (Counter32 n) = u16_try_from (uint n)"
| "value_to_u16 _ = None"

definition sub_id_i32 :: "64 word \<Rightarrow> int" where
  "sub_id_i32 n = wrap_i32 (uint n)"

text \<open>The ports of one octet of a port list, most significant bit first.\<close>

definition octet_ports :: "nat \<Rightarrow> octet \<Rightarrow> int list" where
  "octet_ports octet_idx byte =
     map (\<lambda>k. wrap_i32 (wrap_i32 (as_i32 octet_idx * 8) + int k + 1))
       (filter (\<lambda>k. byte AND drop_bit k 0x80 \<noteq> 0) [0, 1, 2, 3, 4, 5, 6, 7])"

fun portlist_from :: "nat \<Rightarrow> octet list \<Rightarrow> int list" where
  "portlist_from i [] = []"
| "portlist_from i (b # bs) = octet_ports i b @ portlist_from (Suc i) bs"

definition parse_portlist_bitmap :: "octet list \<Rightarrow> int list" where
  "parse_portlist_bitmap bytes = portlist_from 0 bytes"

definition qbridge_fdb_index_to_mac :: "oid \<Rightarrow> MacAddress option" where
  "qbridge_fdb_index_to_mac suffix =
     (if length suffix \<noteq> 7 then None
      else let mac = drop 1 suffix in
        if list_ex (\<lambda>o'. o' > 255) mac then None
        else Some (word_rcat (map (\<lambda>o'. ucast o' :: octet) mac)))"

definition parse_lldp_mgmt_addr :: "octet list \<Rightarrow> IpAddr option" where
  "parse_lldp_mgmt_addr bytes =
     (if length bytes = 4 then Some (V4 (word_rcat bytes))
      else if length bytes = 16 then Some (V6 (word_rcat bytes))
      else if length bytes = 5 \<and> hd bytes = 1 then Some (V4 (word_rcat (tl bytes)))
      else if length bytes = 17 \<and> hd bytes = 2 then Some (V6 (word_rcat (tl bytes)))
      else None)"

section \<open>Results of the queries\<close>

record SystemInfo =
  si_descr :: "string option"
  si_object_id :: "string option"
  si_name :: "string option"
  si_location :: "string option"
  si_contact :: "string option"
  si_uptime :: "64 word option"

record IfTableEntry =
  ite_if_index :: int
  ite_if_descr :: "string option"
  ite_if_type :: "int option"
  ite_if_mtu :: "int option"
  ite_if_speed :: "64 word option"
  ite_if_phys_address :: "MacAddress option"
  ite_if_admin_status :: "int option"
  ite_if_oper_status :: "int option"
  ite_if_name :: "string option"
  ite_if_alias :: "string option"

record LldpNeighbor =
  lldp_local_port_index :: int
  remote_chassis_id_subtype :: "octet option"
  remote_chassis_id_bytes :: "octet list option"
  remote_port_id_subtype :: "octet option"
  remote_port_id_bytes :: "octet list option"
  remote_port_desc :: "string option"
  remote_sys_name :: "string option"
  remote_sys_desc :: "string option"
  remote_mgmt_addr :: "IpAddr option"

record LldpLocalPort =
  llp_port_id_subtype :: "octet option"
  llp_port_id :: "string option"
  llp_port_id_mac :: "MacAddress option"
  llp_port_desc :: "string option"

record IpAddrEntry =
  iae_if_index :: int
  net_mask :: "IpAddr option"

record ArpEntry =
  arp_if_index :: int
  arp_mac_address :: MacAddress
  arp_ip_address :: IpAddr

record DeviceInventory =
  inv_description :: "string option"
  inv_manufacturer :: "string option"
  inv_model :: "string option"
  inv_serial_number :: "string option"

record BridgeFdbEntry =
  fdb_mac_address :: MacAddress
  fdb_bridge_port :: int
  fdb_if_index :: "int option"
  fdb_status :: int

record LldpLocalInfo =
  loc_chassis_id_subtype :: octet
  loc_chassis_id_bytes :: "octet list"

record CdpNeighbor =
  cdp_local_port_index :: int
  remote_device_id :: "string option"
  remote_port_id :: "string option"
  remote_platform :: "string option"
  remote_address :: "IpAddr option"

record VlanInfo =
  vi_vlan_id :: "16 word"
  vi_name :: string

record PortVlanMembership =
  pvm_if_index :: int
  pvm_native_vlan :: "16 word option"
  pvm_tagged_vlans :: "16 word list"

section \<open>Facts\<close>

lemma i32_try_from_Some: "i32_try_from n = Some m \<longleftrightarrow> m = n \<and> i32_range n"
  by (auto simp: i32_try_from_def)

lemma value_to_i32_range: "value_to_i32 v = Some n \<Longrightarrow> i32_range n"
  by (cases v) (auto simp: i32_try_from_Some)

lemma value_to_string_no_nul:
  "value_to_string (OctetString bytes) = Some s \<Longrightarrow> CHR 0x00 \<notin> set s"
  by auto

lemma octet_test: "(byte :: octet) AND drop_bit k 0x80 \<noteq> 0 \<longleftrightarrow> k < 8 \<and> bit byte (7 - k)"
proof (cases "k < 8")
  case True
  then have "k \<in> {0, 1, 2, 3, 4, 5, 6, 7}" by auto
  then have "drop_bit k (0x80 :: octet) = push_bit (7 - k) 1" by auto
  then show ?thesis using True
    by (simp add: bit_iff_and_push_bit_not_eq_0)
next
  case False
  have "drop_bit k (0x80 :: octet) = 0"
  proof (rule bit_word_eqI)
    fix n assume "n < LENGTH(8)"
    have "\<not> bit (0x80 :: octet) (k + n)" using False bit_imp_le_length [of "0x80 :: octet" "k + n"] by auto
    then show "bit (drop_bit k (0x80 :: octet)) n = bit (0 :: octet) n" by (simp add: bit_simps ac_simps)
  qed
  then show ?thesis using False by simp
qed

text \<open>A port of a port list is the number of a set bit, counted from one.\<close>

lemma octet_ports_mem:
  assumes "i < 268435455"
  shows "p \<in> set (octet_ports i byte) \<longleftrightarrow> (\<exists>k < 8. bit byte (7 - k) \<and> p = int (8 * i + k + 1))"
proof -
  have "wrap_i32 (wrap_i32 (as_i32 i * 8) + int k + 1) = int (8 * i + k + 1)" if "k < 8" for k
    using assms that by (simp add: as_i32_id wrap_i32_id i32_range_def)
  moreover have "k \<in> set [0, 1, 2, 3, 4, 5, 6, 7] \<longleftrightarrow> k < 8" for k :: nat by auto
  ultimately show ?thesis
    unfolding octet_ports_def set_map set_filter octet_test by (auto simp: image_iff)
qed

lemma portlist_from_mem:
  assumes "i + length bs \<le> 268435455"
  shows "p \<in> set (portlist_from i bs) \<longleftrightarrow>
     (\<exists>j < length bs. \<exists>k < 8. bit (bs ! j) (7 - k) \<and> p = int (8 * (i + j) + k + 1))"
  using assms
proof (induction bs arbitrary: i)
  case (Cons b bs)
  have "p \<in> set (portlist_from i (b # bs)) \<longleftrightarrow>
      (\<exists>k < 8. bit b (7 - k) \<and> p = int (8 * i + k + 1))
      \<or> (\<exists>j < length bs. \<exists>k < 8. bit (bs ! j) (7 - k) \<and> p = int (8 * (Suc i + j) + k + 1))"
    using Cons by (simp add: octet_ports_mem)
  also have "\<dots> \<longleftrightarrow> (\<exists>j < length (b # bs). \<exists>k < 8. bit ((b # bs) ! j) (7 - k) \<and> p = int (8 * (i + j) + k + 1))"
    by (simp add: Ex_less_Suc2)
  finally show ?case .
qed simp

lemma portlist_mem:
  assumes "length bs \<le> 65535"
  shows "p \<in> set (parse_portlist_bitmap bs) \<longleftrightarrow>
     (\<exists>j < length bs. \<exists>k < 8. bit (bs ! j) (7 - k) \<and> p = int (8 * j + k + 1))"
  using portlist_from_mem [of 0 bs p] assms by (simp add: parse_portlist_bitmap_def)

end
