(* ===== verification/Snmp_Walk.thy ===== *)
theory Snmp_Walk
  imports Snmp_Values
begin

text \<open>
  Walking one column of an SNMP table (\<^verbatim>\<open>daemon/discovery/integration/snmp/queries.rs\<close>:
  \<open>SnmpWalkTransport\<close>, \<open>walk_subtree\<close>, \<open>walk_column\<close>, \<open>WalkStop\<close>, \<open>Shortfall\<close>).

  The transport is a record of the two operations of the trait over a session state \<open>'s\<close>. The
  calls of \<open>on_entry\<close> are the list of rows the walk delivers, in the order of the calls. Detail
  texts and log lines are not part of the state.
\<close>

section \<open>Transport\<close>

datatype snmp_error = RequestIdMismatch | CommunityMismatch | OtherSnmpError string

datatype walk_error = InvalidOid | SessionError snmp_error | TimedOut

definition is_desync :: "walk_error \<Rightarrow> bool" where
  "is_desync e \<longleftrightarrow> e = SessionError RequestIdMismatch \<or> e = SessionError CommunityMismatch"

datatype WalkPage = Varbinds varbinds | BulkUnsupported

record 's transport =
  walk_getbulk :: "oid \<Rightarrow> nat \<Rightarrow> 's \<Rightarrow> (walk_error, WalkPage) result \<times> 's"
  walk_getnext :: "oid \<Rightarrow> 's \<Rightarrow> (walk_error, varbinds) result \<times> 's"

text \<open>
  The session of the protocol library: which vectors are object identifiers, and what a request
  gives within the time limit.
\<close>

datatype call = Answered varbinds | CallFailed snmp_error | Elapsed

record 's snmp_session =
  valid_oid :: "oid \<Rightarrow> bool"
  session_getbulk :: "oid \<Rightarrow> nat \<Rightarrow> 's \<Rightarrow> call \<times> 's"
  session_getnext :: "oid \<Rightarrow> 's \<Rightarrow> call \<times> 's"
  session_get :: "oid \<Rightarrow> 's \<Rightarrow> call \<times> 's"

definition session_walk_getbulk ::
    "'s snmp_session \<Rightarrow> oid \<Rightarrow> nat \<Rightarrow> 's \<Rightarrow> (walk_error, WalkPage) result \<times> 's" where
  "session_walk_getbulk S from max_repetitions s =
     (if \<not> valid_oid S from then (Err InvalidOid, s)
      else case session_getbulk S from max_repetitions s of
        (Answered v, s') \<Rightarrow> (Ok (Varbinds v), s')
      | (CallFailed e, s') \<Rightarrow>
          (if e = RequestIdMismatch \<or> e = CommunityMismatch then Err (SessionError e)
           else Ok BulkUnsupported, s')
      | (Elapsed, s') \<Rightarrow> (Err TimedOut, s'))"

definition session_walk_getnext ::
    "'s snmp_session \<Rightarrow> oid \<Rightarrow> 's \<Rightarrow> (walk_error, varbinds) result \<times> 's" where
  "session_walk_getnext S from s =
     (if \<not> valid_oid S from then (Err InvalidOid, s)
      else case session_getnext S from s of
        (Answered v, s') \<Rightarrow> (Ok v, s')
      | (CallFailed e, s') \<Rightarrow> (Err (SessionError e), s')
      | (Elapsed, s') \<Rightarrow> (Err TimedOut, s'))"

definition session_transport :: "'s snmp_session \<Rightarrow> 's transport" where
  "session_transport S =
     \<lparr>walk_getbulk = session_walk_getbulk S, walk_getnext = session_walk_getnext S\<rparr>"

definition BULK_MAX_REPETITIONS :: nat where "BULK_MAX_REPETITIONS = 20"
definition MAX_DESYNC_RETRIES :: nat where "MAX_DESYNC_RETRIES = 2"
definition MAX_WALK_ENTRIES :: nat where "MAX_WALK_ENTRIES = 10000"

section \<open>Why a walk stops\<close>

datatype WalkStop =
    EndOfSubtree | EndOfMib | EntryCap | Transport | EmptyResponse | NonAdvancingOid | StaleResponse

datatype ShortfallReason = ReasonEntryCap nat | NoAnswer | Desynchronised | Unsupported

fun shortfall_reason :: "WalkStop \<Rightarrow> ShortfallReason option" where
  "shortfall_reason EndOfSubtree = None"
| "shortfall_reason EndOfMib = Some Unsupported"
| "shortfall_reason EntryCap = Some (ReasonEntryCap MAX_WALK_ENTRIES)"
| "shortfall_reason NonAdvancingOid = Some Desynchronised"
| "shortfall_reason StaleResponse = Some Desynchronised"
| "shortfall_reason Transport = Some NoAnswer"
| "shortfall_reason EmptyResponse = Some NoAnswer"

definition is_truncation :: "WalkStop \<Rightarrow> bool" where
  "is_truncation stop \<longleftrightarrow> \<not> (stop = EndOfSubtree \<or> stop = EndOfMib)"

definition is_complete :: "WalkStop \<Rightarrow> bool" where
  "is_complete stop \<longleftrightarrow> \<not> is_truncation stop"

definition is_unsupported :: "WalkStop \<Rightarrow> bool" where
  "is_unsupported stop \<longleftrightarrow> stop = EndOfMib"

record Shortfall =
  sf_complete :: bool
  sf_reason :: "ShortfallReason option"

definition shortfall_default :: Shortfall where
  "shortfall_default = \<lparr>sf_complete = True, sf_reason = None\<rparr>"

definition record_stop :: "WalkStop \<Rightarrow> Shortfall \<Rightarrow> Shortfall" where
  "record_stop stop sf =
     (if is_complete stop then sf
      else \<lparr>sf_complete = False,
            sf_reason = (if sf_reason sf = None then shortfall_reason stop else sf_reason sf)\<rparr>)"

section \<open>The walk\<close>

text \<open>
  What a walk has collected: the identifiers already delivered (\<open>seen_oids\<close>), the highest of them
  (\<open>high_water\<close>) and the calls of \<open>on_entry\<close>, with their number.
\<close>

record collected =
  seen_oids :: "oid list"
  high_water :: oid
  delivered :: "(oid \<times> Value) list"
  row_count :: nat

record page =
  pg_coll :: collected
  page_new :: nat
  next_parts :: "oid option"
  pg_stop :: WalkStop
  pg_done :: bool
  retry_page :: bool

definition is_end_value :: "Value \<Rightarrow> bool" where
  "is_end_value v \<longleftrightarrow> v = EndOfMibView \<or> v = NoSuchObject \<or> v = NoSuchInstance"

definition take_row :: "oid \<Rightarrow> oid \<Rightarrow> Value \<Rightarrow> page \<Rightarrow> page" where
  "take_row base resp v pg =
     (let c = pg_coll pg in
      if resp \<in> set (seen_oids c) then pg\<lparr>next_parts := Some resp\<rparr>
      else pg\<lparr>pg_coll :=
             \<lparr>seen_oids = resp # seen_oids c,
              high_water = (if oid_less (high_water c) resp then resp else high_water c),
              delivered = delivered c @ [(drop (length base) resp, v)],
              row_count = Suc (row_count c)\<rparr>,
             page_new := Suc (page_new pg),
             next_parts := Some resp\<rparr>)"

fun scan_page :: "oid \<Rightarrow> varbinds \<Rightarrow> page \<Rightarrow> page" where
  "scan_page base [] pg = pg"
| "scan_page base ((resp, v) # vbs) pg =
     (if is_end_value v then pg\<lparr>pg_stop := EndOfMib, pg_done := True\<rparr>
      else if \<not> in_subtree base resp then
        (if \<not> oid_less (high_water (pg_coll pg)) resp
         then pg\<lparr>pg_stop := StaleResponse, retry_page := True, pg_done := True\<rparr>
         else pg\<lparr>pg_stop := EndOfSubtree, pg_done := True\<rparr>)
      else let pg' = take_row base resp v pg in
        if row_count (pg_coll pg') \<ge> MAX_WALK_ENTRIES
        then pg'\<lparr>pg_stop := EntryCap, pg_done := True\<rparr>
        else scan_page base vbs pg')"

definition start_page :: "collected \<Rightarrow> page" where
  "start_page c =
     \<lparr>pg_coll = c, page_new = 0, next_parts = None, pg_stop = EndOfSubtree,
      pg_done = False, retry_page = False\<rparr>"

text \<open>A page that ran to its end: the walk goes on from its last row if it brought a new one.\<close>

definition close_page :: "page \<Rightarrow> page" where
  "close_page pg =
     (if pg_done pg then pg
      else case next_parts pg of
        None \<Rightarrow> pg\<lparr>pg_stop := EmptyResponse, pg_done := True\<rparr>
      | Some parts \<Rightarrow>
          (if page_new pg = 0
           then pg\<lparr>pg_stop := NonAdvancingOid, retry_page := True, pg_done := True\<rparr> else pg))"

record 's walk =
  wk_session :: 's
  current_parts :: oid
  use_bulk :: bool
  desync_retries :: nat
  wk_coll :: collected

datatype 's outcome = Continue "'s walk" | Halt "'s walk" WalkStop

definition after_error :: "walk_error \<Rightarrow> 's walk \<Rightarrow> 's outcome" where
  "after_error e w =
     (if is_desync e \<and> desync_retries w < MAX_DESYNC_RETRIES
      then Continue (w\<lparr>desync_retries := Suc (desync_retries w)\<rparr>)
      else Halt w Transport)"

definition after_page :: "oid \<Rightarrow> varbinds \<Rightarrow> 's walk \<Rightarrow> 's outcome" where
  "after_page base v w =
     (if v = [] then Halt w EmptyResponse
      else let pg = close_page (scan_page base v (start_page (wk_coll w)));
               w = w\<lparr>wk_coll := pg_coll pg\<rparr> in
        if retry_page pg \<and> desync_retries w < MAX_DESYNC_RETRIES
        then Continue (w\<lparr>desync_retries := Suc (desync_retries w)\<rparr>)
        else if pg_done pg then Halt w (pg_stop pg)
        else Continue (case next_parts pg of Some p \<Rightarrow> w\<lparr>current_parts := p\<rparr> | None \<Rightarrow> w))"

definition walk_step :: "'s transport \<Rightarrow> oid \<Rightarrow> 's walk \<Rightarrow> 's outcome" where
  "walk_step tr base w =
     (if row_count (wk_coll w) \<ge> MAX_WALK_ENTRIES then Halt w EntryCap
      else if use_bulk w then
        (case walk_getbulk tr (current_parts w) BULK_MAX_REPETITIONS (wk_session w) of
           (Ok (Varbinds v), s) \<Rightarrow> after_page base v (w\<lparr>wk_session := s\<rparr>)
         | (Ok BulkUnsupported, s) \<Rightarrow> Continue (w\<lparr>wk_session := s, use_bulk := False\<rparr>)
         | (Err e, s) \<Rightarrow> after_error e (w\<lparr>wk_session := s\<rparr>))
      else
        (case walk_getnext tr (current_parts w) (wk_session w) of
           (Ok v, s) \<Rightarrow> after_page base v (w\<lparr>wk_session := s\<rparr>)
         | (Err e, s) \<Rightarrow> after_error e (w\<lparr>wk_session := s\<rparr>)))"

section \<open>Every walk ends\<close>

text \<open>New rows, retries and the change to \<open>getnext\<close> are all there is to spend.\<close>

definition budget :: "'s walk \<Rightarrow> nat" where
  "budget w = (MAX_WALK_ENTRIES - row_count (wk_coll w)) + (MAX_DESYNC_RETRIES - desync_retries w)
     + (if use_bulk w then 1 else 0)"

lemma take_row_count:
  "row_count (pg_coll (take_row base resp v pg)) = row_count (pg_coll pg) + (if resp \<in> set (seen_oids (pg_coll pg)) then 0 else 1)"
  "page_new (take_row base resp v pg) = page_new pg + (if resp \<in> set (seen_oids (pg_coll pg)) then 0 else 1)"
  by (simp_all add: take_row_def Let_def)

lemma take_row_flags [simp]:
  "next_parts (take_row base resp v pg) = Some resp"
  "pg_done (take_row base resp v pg) = pg_done pg"
  "retry_page (take_row base resp v pg) = retry_page pg"
  "pg_stop (take_row base resp v pg) = pg_stop pg"
  by (simp_all add: take_row_def Let_def)

lemma scan_page_count:
  "row_count (pg_coll (scan_page base v pg)) + page_new pg
     = row_count (pg_coll pg) + page_new (scan_page base v pg)
   \<and> row_count (pg_coll pg) \<le> row_count (pg_coll (scan_page base v pg))"
  by (induction base v pg rule: scan_page.induct) (auto simp: Let_def take_row_count)

lemma close_page_coll [simp]:
  "pg_coll (close_page pg) = pg_coll pg" "page_new (close_page pg) = page_new pg"
  by (simp_all add: close_page_def split: option.splits)

lemma close_page_open:
  assumes "\<not> pg_done (close_page pg)"
  shows "page_new pg > 0 \<and> (\<exists>p. next_parts pg = Some p) \<and> close_page pg = pg"
  using assms by (auto simp: close_page_def split: option.splits if_splits)

lemma after_page_budget:
  assumes "after_page base v w = Continue w'" "row_count (wk_coll w) < MAX_WALK_ENTRIES"
  shows "budget w' < budget w"
proof -
  define pg where "pg = scan_page base v (start_page (wk_coll w))"
  have count: "row_count (pg_coll pg) = row_count (wk_coll w) + page_new pg"
    using scan_page_count [of base v "start_page (wk_coll w)"] by (simp add: pg_def start_page_def)
  consider (retry) "desync_retries w < MAX_DESYNC_RETRIES"
      "w' = w\<lparr>wk_coll := pg_coll pg, desync_retries := Suc (desync_retries w)\<rparr>"
    | (more) p where "w' = w\<lparr>wk_coll := pg_coll pg, current_parts := p\<rparr>" "page_new pg > 0"
    using assms(1) close_page_open [of pg]
    by (auto simp: after_page_def Let_def pg_def [symmetric] split: if_splits option.splits)
  then show ?thesis
    by cases (use count assms(2) in \<open>auto simp: budget_def\<close>)
qed

lemma after_error_budget: "after_error e w = Continue w' \<Longrightarrow> budget w' < budget w"
  by (auto simp: after_error_def budget_def split: if_splits)

lemma budget_session [simp]: "budget (w\<lparr>wk_session := s\<rparr>) = budget w"
  by (simp add: budget_def)

lemma budget_no_bulk: "use_bulk w \<Longrightarrow> budget (w\<lparr>wk_session := s, use_bulk := False\<rparr>) < budget w"
  by (simp add: budget_def)

lemma walk_step_budget: "walk_step tr base w = Continue w' \<Longrightarrow> budget w' < budget w"
  by (auto simp: walk_step_def budget_no_bulk split: if_splits prod.splits sum.splits WalkPage.splits
      dest: after_error_budget after_page_budget)

function walk_loop :: "'s transport \<Rightarrow> oid \<Rightarrow> 's walk \<Rightarrow> 's walk \<times> WalkStop" where
  "walk_loop tr base w =
     (case walk_step tr base w of Continue w' \<Rightarrow> walk_loop tr base w' | Halt w' stop \<Rightarrow> (w', stop))"
  by pat_completeness auto
termination
  by (relation "measure (\<lambda>(tr, base, w). budget w)") (auto dest: walk_step_budget)

declare walk_loop.simps [simp del]

definition start_walk :: "oid \<Rightarrow> 's \<Rightarrow> 's walk" where
  "start_walk base s =
     \<lparr>wk_session = s, current_parts = base, use_bulk = True, desync_retries = 0,
      wk_coll = \<lparr>seen_oids = [], high_water = base, delivered = [], row_count = 0\<rparr>\<rparr>"

definition walk_subtree :: "'s transport \<Rightarrow> string \<Rightarrow> 's \<Rightarrow> (oid \<times> Value) list \<times> WalkStop \<times> 's" where
  "walk_subtree tr base_oid_str s =
     (let base = base_parts base_oid_str; (w, stop) = walk_loop tr base (start_walk base s)
      in (delivered (wk_coll w), stop, wk_session w))"

lemma walk_subtree_loop:
  "walk_subtree tr b s = (let r = walk_loop tr (base_parts b) (start_walk (base_parts b) s)
     in (delivered (wk_coll (fst r)), snd r, wk_session (fst r)))"
  by (simp add: walk_subtree_def Let_def split: prod.splits)

definition walk_column ::
    "'s transport \<Rightarrow> string \<Rightarrow> Shortfall \<Rightarrow> 's \<Rightarrow> (oid \<times> Value) list \<times> WalkStop \<times> Shortfall \<times> 's" where
  "walk_column tr base_oid_str shortfall s =
     (let (entries, stop, s') = walk_subtree tr base_oid_str s
      in (entries, stop, record_stop stop shortfall, s'))"

section \<open>What a walk delivers\<close>

definition collected_ok :: "oid \<Rightarrow> collected \<Rightarrow> bool" where
  "collected_ok base c \<longleftrightarrow>
     set (seen_oids c) = (\<lambda>r. base @ fst r) ` set (delivered c) \<and> distinct (map fst (delivered c))
     \<and> [] \<notin> fst ` set (delivered c) \<and> row_count c = length (delivered c) \<and> row_count c \<le> MAX_WALK_ENTRIES"

lemma collected_ok_take_row:
  assumes "collected_ok base (pg_coll pg)" "in_subtree base resp" "row_count (pg_coll pg) < MAX_WALK_ENTRIES"
  shows "collected_ok base (pg_coll (take_row base resp v pg))"
proof -
  obtain t where t: "t \<noteq> []" "resp = base @ t" using assms(2) by (auto simp: in_subtree_iff)
  show ?thesis
  proof (cases "resp \<in> set (seen_oids (pg_coll pg))")
    case False
    then have "t \<notin> fst ` set (delivered (pg_coll pg))"
      using assms(1) t by (force simp: collected_ok_def)
    then show ?thesis using assms False t by (auto simp: collected_ok_def take_row_def Let_def)
  qed (use assms in \<open>simp add: take_row_def Let_def\<close>)
qed

lemma collected_ok_scan_page:
  assumes "collected_ok base (pg_coll pg)" "row_count (pg_coll pg) < MAX_WALK_ENTRIES"
  shows "collected_ok base (pg_coll (scan_page base v pg))"
  using assms
proof (induction base v pg rule: scan_page.induct)
  case (2 base resp v vbs pg)
  then show ?case by (auto simp: Let_def collected_ok_take_row)
qed simp

text \<open>The walk an iteration leaves, whether it goes on or not.\<close>

fun outcome_walk :: "'s outcome \<Rightarrow> 's walk" where
  "outcome_walk (Continue w) = w"
| "outcome_walk (Halt w _) = w"

lemma start_page_coll [simp]: "pg_coll (start_page c) = c"
  by (simp add: start_page_def)

lemma after_error_walk [simp]:
  "wk_coll (outcome_walk (after_error e w)) = wk_coll w"
  "wk_session (outcome_walk (after_error e w)) = wk_session w"
  by (simp_all add: after_error_def)

lemma after_page_walk [simp]:
  "wk_coll (outcome_walk (after_page base v w)) = pg_coll (scan_page base v (start_page (wk_coll w)))"
  "wk_session (outcome_walk (after_page base v w)) = wk_session w"
  by (simp_all add: after_page_def Let_def split: option.splits)

lemma walk_loop_rule:
  assumes "I w"
    and "\<And>w w'. I w \<Longrightarrow> walk_step tr base w = Continue w' \<Longrightarrow> I w'"
    and "\<And>w w' stop. I w \<Longrightarrow> walk_step tr base w = Halt w' stop \<Longrightarrow> Q w' stop"
  shows "Q (fst (walk_loop tr base w)) (snd (walk_loop tr base w))"
  using assms
proof (induction tr base w rule: walk_loop.induct)
  case (1 tr base w)
  show ?case
  proof (cases "walk_step tr base w")
    case (Continue w')
    then have "I w'" using 1 by blast
    with 1 Continue show ?thesis by (subst (1 2) walk_loop.simps) simp
  next
    case (Halt w' stop)
    then have "Q w' stop" using 1 by blast
    with Halt show ?thesis by (subst (1 2) walk_loop.simps) simp
  qed
qed

lemma walk_loop_inv:
  assumes "I w" "\<And>w. I w \<Longrightarrow> I (outcome_walk (walk_step tr base w))"
  shows "I (fst (walk_loop tr base w))"
  using walk_loop_rule [of I w tr base "\<lambda>w' _. I w'"] assms by (metis outcome_walk.simps)

lemma walk_step_coll:
  assumes "P (wk_coll w)"
    "\<And>v. row_count (wk_coll w) < MAX_WALK_ENTRIES \<Longrightarrow> P (pg_coll (scan_page base v (start_page (wk_coll w))))"
  shows "P (wk_coll (outcome_walk (walk_step tr base w)))"
  using assms by (auto simp: walk_step_def split: prod.splits sum.splits WalkPage.splits)

lemma walk_collected_ok:
  "collected_ok base (wk_coll (fst (walk_loop tr base (start_walk base s))))"
proof (rule walk_loop_inv)
  show "collected_ok base (wk_coll (start_walk base s))" by (simp add: collected_ok_def start_walk_def)
qed (rule walk_step_coll, simp_all add: collected_ok_scan_page)

lemma walk_subtree_rows:
  assumes "walk_subtree tr base_oid_str s = (entries, stop, s')"
  shows "distinct (map fst entries)" "[] \<notin> fst ` set entries" "length entries \<le> MAX_WALK_ENTRIES"
  using assms walk_collected_ok [of "base_parts base_oid_str" tr s]
  by (auto simp: walk_subtree_def Let_def collected_ok_def split: prod.splits)

section \<open>Requests\<close>

text \<open>
  A transport that keeps a log of its answers: the length of the log is the number of requests,
  and its varbinds are all the agent has said.
\<close>

definition answered_bulk :: "(walk_error, WalkPage) result \<Rightarrow> varbinds" where
  "answered_bulk r = (case r of Ok (Varbinds v) \<Rightarrow> v | _ \<Rightarrow> [])"

definition answered_next :: "(walk_error, varbinds) result \<Rightarrow> varbinds" where
  "answered_next r = (case r of Ok v \<Rightarrow> v | Err _ \<Rightarrow> [])"

definition logged :: "'s transport \<Rightarrow> ('s \<times> varbinds list) transport" where
  "logged tr =
     \<lparr>walk_getbulk = (\<lambda>p n (s, log). let (r, s') = walk_getbulk tr p n s in (r, s', answered_bulk r # log)),
      walk_getnext = (\<lambda>p (s, log). let (r, s') = walk_getnext tr p s in (r, s', answered_next r # log))\<rparr>"

definition log_of :: "('s \<times> varbinds list) walk \<Rightarrow> varbinds list" where
  "log_of w = snd (wk_session w)"

text \<open>The requests made and the budget left stay within the budget the walk starts with.\<close>

lemma logged_get [simp]:
  "walk_getbulk (logged tr) p n s =
     (let (r, s') = walk_getbulk tr p n (fst s) in (r, s', answered_bulk r # snd s))"
  "walk_getnext (logged tr) p s =
     (let (r, s') = walk_getnext tr p (fst s) in (r, s', answered_next r # snd s))"
  by (simp_all add: logged_def split: prod.splits)

lemma logged_step:
  "length (log_of (outcome_walk (walk_step (logged tr) base w))) \<le>
     length (log_of w) + (if row_count (wk_coll w) \<ge> MAX_WALK_ENTRIES then 0 else 1)"
  by (simp add: walk_step_def log_of_def split: prod.splits sum.splits WalkPage.splits)

lemma walk_requests:
  "length (log_of (fst (walk_loop (logged tr) base w))) \<le> length (log_of w) + budget w"
proof -
  let ?B = "length (log_of w) + budget w"
  have "length (log_of w'') \<le> ?B" if "length (log_of w') + budget w' \<le> ?B" "walk_step (logged tr) base w' = Halt w'' stop"
    for w' w'' stop
    using logged_step [of tr base w'] that by (auto simp: budget_def split: if_splits)
  moreover have "length (log_of w'') + budget w'' \<le> ?B"
    if "length (log_of w') + budget w' \<le> ?B" "walk_step (logged tr) base w' = Continue w''" for w' w''
    using logged_step [of tr base w'] walk_step_budget [OF that(2)] that by (simp split: if_splits)
  ultimately show ?thesis
    using walk_loop_rule [of "\<lambda>w'. length (log_of w') + budget w' \<le> ?B" w "logged tr" base
        "\<lambda>w' _. length (log_of w') \<le> ?B"] by blast
qed

text \<open>Every row delivered is a varbind the agent answered, under its own identifier.\<close>

definition rows_answered :: "oid \<Rightarrow> varbinds \<Rightarrow> collected \<Rightarrow> bool" where
  "rows_answered base said c \<longleftrightarrow> (\<forall>(t, v) \<in> set (delivered c). (base @ t, v) \<in> set said)"

lemma scan_page_answered:
  assumes "rows_answered base said (pg_coll pg)" "set v \<subseteq> set said"
  shows "rows_answered base said (pg_coll (scan_page base v pg))"
  using assms
proof (induction base v pg rule: scan_page.induct)
  case (2 base resp v vbs pg)
  have "rows_answered base said (pg_coll (take_row base resp v pg))" if "in_subtree base resp"
  proof -
    have "base @ drop (length base) resp = resp" using that by (auto simp: in_subtree_iff)
    then show ?thesis using 2(2,3) by (auto simp: rows_answered_def take_row_def Let_def)
  qed
  then show ?case using 2 by (auto simp: Let_def)
qed simp

lemma rows_answered_more: "rows_answered base said c \<Longrightarrow> set said \<subseteq> set said' \<Longrightarrow> rows_answered base said' c"
  by (auto simp: rows_answered_def)

abbreviation walk_answered :: "oid \<Rightarrow> ('s \<times> varbinds list) walk \<Rightarrow> bool" where
  "walk_answered base w \<equiv> rows_answered base (concat (log_of w)) (wk_coll w)"

lemma walk_answered_step:
  assumes "walk_answered base w"
  shows "walk_answered base (outcome_walk (walk_step (logged tr) base w))"
proof -
  have more: "rows_answered base (v @ concat (log_of w)) (wk_coll w)" for v
    using rows_answered_more [OF assms] by auto
  then have "rows_answered base (v @ concat (log_of w)) (pg_coll (scan_page base v (start_page (wk_coll w))))" for v
    by (intro scan_page_answered) auto
  then show ?thesis using more more [of "[]"]
    by (simp add: walk_step_def log_of_def answered_bulk_def answered_next_def
        split: prod.splits sum.splits WalkPage.splits)
qed

lemma walk_answered_loop: "walk_answered base (fst (walk_loop (logged tr) base (start_walk base (s, []))))"
  by (rule walk_loop_inv [where I = "walk_answered base"], simp add: rows_answered_def start_walk_def)
     (rule walk_answered_step)

end
