(* ===== verification/Snmp_Agent.thy ===== *)
theory Snmp_Agent
  imports Snmp_Walk
begin

text \<open>
  What a walk obtains from an agent that serves a table. The contract of such an agent is the
  locale \<open>table_agent\<close>: from the root of the column or from a row it has served, it answers with
  the rows that come next in its own order, whatever that order is, and after the last row with
  something that ends the column. Answers to abandoned requests may still be on their way: each
  costs one request that fails validation. An agent may refuse \<open>getbulk\<close>.

  A walk then delivers the rows of the table, in the agent's order, and ends as complete. The
  contract is discharged for the transport of the code over the agent of \<open>mib_session\<close>, which holds
  a list of varbinds.
\<close>

section \<open>The contract\<close>

text \<open>Where a walk that has taken the first \<open>i\<close> rows of a table asks from.\<close>

definition row_cursor :: "oid \<Rightarrow> varbinds \<Rightarrow> nat \<Rightarrow> oid" where
  "row_cursor base table i = (if i = 0 then base else fst (table ! (i - 1)))"

locale table_agent =
  fixes tr :: "'s transport" and base :: oid and table :: varbinds and rest :: "oid \<Rightarrow> varbinds"
    and bulk :: bool and view_ends :: bool and pending :: "'s \<Rightarrow> nat"
  assumes stale_bulk: "pending s > 0 \<Longrightarrow> \<exists>e s'. walk_getbulk tr p n s = (Err e, s') \<and> is_desync e \<and> pending s' = pending s - 1"
    and stale_next: "pending s > 0 \<Longrightarrow> \<exists>e s'. walk_getnext tr p s = (Err e, s') \<and> is_desync e \<and> pending s' = pending s - 1"
    and no_bulk: "pending s = 0 \<Longrightarrow> \<not> bulk \<Longrightarrow> \<exists>s'. walk_getbulk tr p n s = (Ok BulkUnsupported, s') \<and> pending s' = 0"
    and serves_bulk: "pending s = 0 \<Longrightarrow> bulk \<Longrightarrow> i \<le> length table \<Longrightarrow>
      \<exists>s'. walk_getbulk tr (row_cursor base table i) n s = (Ok (Varbinds (take n (drop i table @ rest (row_cursor base table i)))), s') \<and> pending s' = 0"
    and serves_next: "pending s = 0 \<Longrightarrow> i \<le> length table \<Longrightarrow>
      \<exists>s'. walk_getnext tr (row_cursor base table i) s = (Ok (take 1 (drop i table @ rest (row_cursor base table i))), s') \<and> pending s' = 0"
    and rows_below: "r \<in> set table \<Longrightarrow> in_subtree base (fst r) \<and> \<not> is_end_value (snd r)"
    and rows_distinct: "distinct (map fst table)"
    and rest_ends: "rest p \<noteq> [] \<and> (if view_ends then is_end_value (snd (hd (rest p)))
      else \<not> is_end_value (snd (hd (rest p))) \<and> oid_less base (fst (hd (rest p)))
        \<and> \<not> in_subtree base (fst (hd (rest p))))"
begin

definition reached :: "nat \<Rightarrow> collected \<Rightarrow> bool" where
  "reached i c \<longleftrightarrow> i \<le> length table \<and> set (seen_oids c) = fst ` set (take i table)
     \<and> delivered c = map (\<lambda>r. (drop (length base) (fst r), snd r)) (take i table) \<and> row_count c = i
     \<and> (high_water c = base \<or> in_subtree base (high_water c))"

lemma fresh_row: "i < length table \<Longrightarrow> fst (table ! i) \<notin> fst ` set (take i table)"
proof -
  assume "i < length table"
  moreover have "distinct (map fst (take (Suc i) table))"
    using rows_distinct by (simp add: take_map [symmetric])
  ultimately show ?thesis by (simp add: take_Suc_conv_app_nth)
qed

lemma take_next_row:
  assumes "reached i (pg_coll pg)" "i < length table"
  shows "reached (Suc i) (pg_coll (take_row base (fst (table ! i)) (snd (table ! i)) pg))"
    "page_new (take_row base (fst (table ! i)) (snd (table ! i)) pg) = Suc (page_new pg)"
proof -
  have "fst (table ! i) \<notin> set (seen_oids (pg_coll pg))" using assms fresh_row by (simp add: reached_def)
  then show "reached (Suc i) (pg_coll (take_row base (fst (table ! i)) (snd (table ! i)) pg))"
    "page_new (take_row base (fst (table ! i)) (snd (table ! i)) pg) = Suc (page_new pg)"
    using assms rows_below [of "table ! i"]
    by (auto simp: reached_def take_row_def Let_def take_Suc_conv_app_nth)
qed

text \<open>Scanning rows of the table: all are new, and the page goes on behind them.\<close>

lemma scan_rows:
  assumes "reached i (pg_coll pg)" "i + k \<le> length table" "length table < MAX_WALK_ENTRIES" "\<not> pg_done pg" "\<not> retry_page pg"
  shows "\<exists>pg'. scan_page base (take k (drop i table) @ v) pg = scan_page base v pg'
     \<and> reached (i + k) (pg_coll pg') \<and> \<not> pg_done pg' \<and> \<not> retry_page pg' \<and> page_new pg' = page_new pg + k
     \<and> next_parts pg' = (if k = 0 then next_parts pg else Some (row_cursor base table (i + k)))"
  using assms
proof (induction k arbitrary: i pg)
  case (Suc k)
  let ?r = "table ! i" and ?pg = "take_row base (fst (table ! i)) (snd (table ! i)) pg"
  have i: "i < length table" using Suc.prems by simp
  have cons: "take (Suc k) (drop i table) = (fst ?r, snd ?r) # take k (drop (Suc i) table)"
    using i by (simp add: Cons_nth_drop_Suc [symmetric])
  have next_row: "reached (Suc i) (pg_coll ?pg)" using take_next_row(1) Suc.prems(1) i by blast
  then have "scan_page base (take (Suc k) (drop i table) @ v) pg = scan_page base (take k (drop (Suc i) table) @ v) ?pg"
    using rows_below [of ?r] i Suc.prems(3) unfolding cons append_Cons scan_page.simps
    by (simp add: Let_def reached_def)
  moreover obtain pg' where "scan_page base (take k (drop (Suc i) table) @ v) ?pg = scan_page base v pg'"
    "reached (Suc i + k) (pg_coll pg')" "\<not> pg_done pg'" "\<not> retry_page pg'" "page_new pg' = page_new ?pg + k"
    "next_parts pg' = (if k = 0 then next_parts ?pg else Some (row_cursor base table (Suc i + k)))"
    using Suc.IH [OF next_row] Suc.prems by auto
  ultimately show ?case
    using take_next_row(2) [OF Suc.prems(1) i] by (auto simp: row_cursor_def)
qed auto

definition table_stop :: WalkStop where
  "table_stop = (if view_ends then EndOfMib else EndOfSubtree)"

lemma scan_rest:
  assumes "reached i (pg_coll pg)" "\<not> retry_page pg"
  obtains pg' where "scan_page base (hd (rest p) # v) pg = pg'" "pg_coll pg' = pg_coll pg" "pg_done pg'"
    "\<not> retry_page pg'" "pg_stop pg' = table_stop"
proof -
  obtain resp val where r: "hd (rest p) = (resp, val)" by fastforce
  have "oid_less (high_water (pg_coll pg)) resp" if "\<not> view_ends"
  proof -
    have "oid_less base resp" "\<not> in_subtree base resp" using rest_ends [of p] that r by auto
    then show ?thesis
      using assms(1) above_subtree [of base resp] by (auto simp: reached_def in_subtree_iff)
  qed
  then show ?thesis
    using that rest_ends [of p] assms(2) by (auto simp: r table_stop_def split: if_splits)
qed

definition walk_at :: "nat \<Rightarrow> 's walk \<Rightarrow> bool" where
  "walk_at i w \<longleftrightarrow> reached i (wk_coll w) \<and> current_parts w = row_cursor base table i
     \<and> pending (wk_session w) + desync_retries w \<le> MAX_DESYNC_RETRIES"

definition walk_finished :: "'s walk \<Rightarrow> WalkStop \<Rightarrow> bool" where
  "walk_finished w stop \<longleftrightarrow> reached (length table) (wk_coll w) \<and> stop = table_stop \<and> pending (wk_session w) = 0"

definition outcome_ok :: "'s outcome \<Rightarrow> bool" where
  "outcome_ok r \<longleftrightarrow> (case r of Continue w \<Rightarrow> \<exists>i. walk_at i w | Halt w stop \<Rightarrow> walk_finished w stop)"

lemma page_served:
  assumes "walk_at i w" "length table < MAX_WALK_ENTRIES" "n > 0" "pending (wk_session w) = 0"
  shows "outcome_ok (after_page base (take n (drop i table @ rest p)) w)"
proof -
  have i: "i \<le> length table" "reached i (wk_coll w)" using assms(1) by (auto simp: walk_at_def reached_def)
  let ?pg = "start_page (wk_coll w)"
  have open_pg: "reached i (pg_coll ?pg)" "\<not> pg_done ?pg" "\<not> retry_page ?pg" "page_new ?pg = 0"
    using i by (simp_all add: start_page_def)
  have ne: "take n (drop i table @ rest p) \<noteq> []" using rest_ends [of p] assms(3) by simp
  show ?thesis
  proof (cases "i + n \<le> length table")
    case True
    then have "take n (drop i table @ rest p) = take n (drop i table) @ []" by simp
    then obtain pg' where "scan_page base (take n (drop i table @ rest p)) ?pg = pg'"
      "reached (i + n) (pg_coll pg')" "\<not> pg_done pg'" "\<not> retry_page pg'" "page_new pg' = n"
      "next_parts pg' = Some (row_cursor base table (i + n))"
      using scan_rows [OF open_pg(1) True assms(2) open_pg(2,3), of "[]"] assms(3) open_pg(4) by auto
    then show ?thesis using ne assms(1,3)
      by (auto simp: after_page_def close_page_def outcome_ok_def walk_at_def Let_def)
  next
    case False
    define k where "k = length table - i"
    obtain v where v: "take n (drop i table @ rest p) = take k (drop i table) @ hd (rest p) # v"
    proof -
      have "take n (drop i table @ rest p) = drop i table @ take (n - k) (rest p)"
        using False by (simp add: k_def)
      moreover have "take (n - k) (rest p) = hd (rest p) # take (n - k - 1) (tl (rest p))"
        using rest_ends [of p] False i by (cases "rest p"; cases "n - k") (auto simp: k_def)
      ultimately show ?thesis using that by (simp add: k_def)
    qed
    obtain pg1 where pg1: "scan_page base (take n (drop i table @ rest p)) ?pg = scan_page base (hd (rest p) # v) pg1"
      "reached (length table) (pg_coll pg1)" "\<not> retry_page pg1"
      using scan_rows [OF open_pg(1) _ assms(2) open_pg(2,3), of k "hd (rest p) # v"] i v by (auto simp: k_def)
    obtain pg2 where "scan_page base (hd (rest p) # v) pg1 = pg2" "pg_coll pg2 = pg_coll pg1" "pg_done pg2"
      "\<not> retry_page pg2" "pg_stop pg2 = table_stop"
      using scan_rest [OF pg1(2,3)] by metis
    then show ?thesis using ne pg1 assms(4)
      by (auto simp: after_page_def close_page_def outcome_ok_def walk_finished_def Let_def)
  qed
qed

lemma error_served:
  assumes "walk_at i w" "pending (wk_session w) > 0" "is_desync e" "pending s = pending (wk_session w) - 1"
  shows "outcome_ok (after_error e (w\<lparr>wk_session := s\<rparr>))"
  using assms by (auto simp: after_error_def outcome_ok_def walk_at_def)

lemma walk_at_session: "walk_at i w \<Longrightarrow> pending s = 0 \<Longrightarrow> walk_at i (w\<lparr>wk_session := s\<rparr>)"
  by (simp add: walk_at_def)

lemma step_served:
  assumes at: "walk_at i w" and small: "length table < MAX_WALK_ENTRIES"
  shows "outcome_ok (walk_step tr base w)"
proof -
  have i: "i \<le> length table" and cur: "current_parts w = row_cursor base table i"
    and more: "\<not> MAX_WALK_ENTRIES \<le> row_count (wk_coll w)"
    using at small by (auto simp: walk_at_def reached_def)
  have rep: "BULK_MAX_REPETITIONS > 0" by (simp add: BULK_MAX_REPETITIONS_def)
  consider (stale) "pending (wk_session w) > 0" | (bulk) "pending (wk_session w) = 0" "use_bulk w" bulk
    | (refused) "pending (wk_session w) = 0" "use_bulk w" "\<not> bulk"
    | (single) "pending (wk_session w) = 0" "\<not> use_bulk w" by auto
  then show ?thesis
  proof cases
    case stale
    then show ?thesis
      using stale_bulk [OF stale, of "current_parts w" BULK_MAX_REPETITIONS] stale_next [OF stale, of "current_parts w"]
        error_served [OF at stale] more by (cases "use_bulk w") (auto simp: walk_step_def)
  next
    case bulk
    then show ?thesis
      using serves_bulk [OF bulk(1,3) i, of BULK_MAX_REPETITIONS] page_served [OF walk_at_session [OF at] small rep] more cur
      by (auto simp: walk_step_def)
  next
    case refused
    then show ?thesis
      using no_bulk [OF refused(1,3), of "current_parts w" BULK_MAX_REPETITIONS] at more
      by (auto simp: walk_step_def outcome_ok_def walk_at_def)
  next
    case single
    then show ?thesis
      using serves_next [OF single(1) i] page_served [OF walk_at_session [OF at] small, of _ 1] more cur
      by (auto simp: walk_step_def)
  qed
qed

theorem walk_serves_table:
  assumes "length table < MAX_WALK_ENTRIES" "pending s \<le> MAX_DESYNC_RETRIES"
  shows "delivered (wk_coll (fst (walk_loop tr base (start_walk base s))))
       = map (\<lambda>r. (drop (length base) (fst r), snd r)) table"
    "snd (walk_loop tr base (start_walk base s)) = table_stop"
    "pending (wk_session (fst (walk_loop tr base (start_walk base s)))) = 0"
proof -
  let ?r = "walk_loop tr base (start_walk base s)"
  have start: "walk_at 0 (start_walk base s)"
    using assms(2) by (simp add: walk_at_def reached_def start_walk_def row_cursor_def)
  have "\<exists>i. walk_at i w'" if "\<exists>i. walk_at i w" "walk_step tr base w = Continue w'" for w w'
    using that step_served [OF _ assms(1)] by (fastforce simp: outcome_ok_def)
  moreover have "walk_finished w' stop" if "\<exists>i. walk_at i w" "walk_step tr base w = Halt w' stop" for w w' stop
    using that step_served [OF _ assms(1)] by (fastforce simp: outcome_ok_def)
  ultimately have "walk_finished (fst ?r) (snd ?r)"
    using walk_loop_rule [of "\<lambda>w. \<exists>i. walk_at i w" "start_walk base s" tr base walk_finished] start by blast
  then show "delivered (wk_coll (fst ?r)) = map (\<lambda>r. (drop (length base) (fst r), snd r)) table" "snd ?r = table_stop"
    "pending (wk_session (fst ?r)) = 0"
    by (auto simp: walk_finished_def reached_def)
qed

end

section \<open>An agent with a list of varbinds\<close>

text \<open>
  What comes after an identifier: the rows behind it in the agent's list, or, where the list has
  no such row, the rows from the first one above it. A page that runs past the list says so. The
  state of the session is the number of answers still on their way.
\<close>

definition mib_after :: "varbinds \<Rightarrow> oid \<Rightarrow> varbinds" where
  "mib_after view p =
     (if p \<in> fst ` set view then tl (dropWhile (\<lambda>r. fst r \<noteq> p) view)
      else dropWhile (\<lambda>r. \<not> oid_less p (fst r)) view)"

definition mib_page :: "varbinds \<Rightarrow> nat \<Rightarrow> oid \<Rightarrow> varbinds" where
  "mib_page view n p = take n (mib_after view p @ [(p, EndOfMibView)])"

definition mib_session :: "varbinds \<Rightarrow> bool \<Rightarrow> nat snmp_session" where
  "mib_session view bulk =
     \<lparr>valid_oid = (\<lambda>_. True),
      session_getbulk = (\<lambda>p n k. if k > 0 then (CallFailed RequestIdMismatch, k - 1)
        else (if bulk then Answered (mib_page view n p) else CallFailed (OtherSnmpError ''genErr''), 0)),
      session_getnext = (\<lambda>p k. if k > 0 then (CallFailed RequestIdMismatch, k - 1)
        else (Answered (mib_page view 1 p), 0)),
      session_get = (\<lambda>p k. if k > 0 then (CallFailed RequestIdMismatch, k - 1)
        else (Answered [(p, case map_of view p of Some v \<Rightarrow> v | None \<Rightarrow> NoSuchInstance)], 0))\<rparr>"

text \<open>A list of varbinds that holds the column \<open>table\<close> of \<open>base\<close> between other rows.\<close>

definition holds_column :: "oid \<Rightarrow> varbinds \<Rightarrow> varbinds \<Rightarrow> varbinds \<Rightarrow> bool" where
  "holds_column base front table rest \<longleftrightarrow>
     distinct (map fst (front @ table @ rest)) \<and> base \<notin> fst ` set (butlast front @ table @ rest)
     \<and> list_all (\<lambda>r. \<not> oid_less base (fst r)) front
     \<and> list_all (\<lambda>r. in_subtree base (fst r) \<and> \<not> is_end_value (snd r)) table
     \<and> (rest = [] \<or> \<not> is_end_value (snd (hd rest)) \<and> oid_less base (fst (hd rest)) \<and> \<not> in_subtree base (fst (hd rest)))"

lemma after_row:
  assumes "distinct (map fst view)" "view = xs @ r # ys"
  shows "mib_after view (fst r) = ys"
proof -
  have "fst q \<noteq> fst r" if "q \<in> set xs" for q using assms that by (auto simp: image_iff)
  then have "dropWhile (\<lambda>q. fst q \<noteq> fst r) (xs @ r # ys) = r # ys"
    by (subst dropWhile_append2) auto
  then show ?thesis using assms(2) by (simp add: mib_after_def)
qed

lemma column_distinct: "holds_column base front table rest \<Longrightarrow> distinct (map fst (front @ table @ rest))"
  by (simp add: holds_column_def)

lemma after_column_root:
  assumes "holds_column base front table rest"
  shows "mib_after (front @ table @ rest) base = table @ rest"
proof (cases "base \<in> fst ` set front")
  case True
  then have "front \<noteq> []" "base \<in> insert (fst (last front)) (fst ` set (butlast front))"
    by auto (metis (no_types, lifting) append_butlast_last_id empty_iff empty_set fst_conv image_insert
        imageI insertE list.simps(15) rotate1.simps(2) set_rotate1)
  then have last: "front = butlast front @ last front # []" "fst (last front) = base"
    using assms by (auto simp: holds_column_def)
  then have "front @ table @ rest = butlast front @ last front # (table @ rest)"
    by (metis append.assoc append_Cons append_Nil)
  then show ?thesis using after_row [OF column_distinct [OF assms]] last(2) by metis
next
  case False
  have "oid_less base (fst (hd (table @ rest)))" if "table @ rest \<noteq> []"
    using assms that by (cases table) (auto simp: holds_column_def in_subtree_iff)
  then have "dropWhile (\<lambda>r. \<not> oid_less base (fst r)) (table @ rest) = table @ rest"
    by (cases "table @ rest") auto
  moreover have "dropWhile (\<lambda>r. \<not> oid_less base (fst r)) front = []"
    using assms by (simp add: holds_column_def list_all_iff)
  moreover have "base \<notin> fst ` set (front @ table @ rest)"
    using False assms by (auto simp: holds_column_def)
  ultimately show ?thesis by (simp add: mib_after_def dropWhile_append)
qed

lemma after_cursor:
  assumes "holds_column base front table rest" "i \<le> length table"
  shows "mib_after (front @ table @ rest) (row_cursor base table i) = drop i table @ rest"
proof (cases i)
  case 0
  then show ?thesis using after_column_root [OF assms(1)] by (simp add: row_cursor_def)
next
  case (Suc j)
  then have "front @ table @ rest = (front @ take j table) @ table ! j # (drop i table @ rest)"
    using assms(2) id_take_nth_drop [of j table] by (metis append.assoc append_Cons less_eq_Suc_le)
  from after_row [OF column_distinct [OF assms(1)] this] show ?thesis
    using Suc by (simp add: row_cursor_def)
qed

lemma mib_agent:
  assumes "holds_column base front table rest"
  shows "table_agent (session_transport (mib_session (front @ table @ rest) bulk)) base table
     (\<lambda>p. rest @ [(p, EndOfMibView)]) bulk (rest = []) id"
proof
  show "rest @ [(p, EndOfMibView)] \<noteq> [] \<and>
      (if rest = [] then is_end_value (snd (hd (rest @ [(p, EndOfMibView)])))
       else \<not> is_end_value (snd (hd (rest @ [(p, EndOfMibView)]))) \<and> oid_less base (fst (hd (rest @ [(p, EndOfMibView)])))
         \<and> \<not> in_subtree base (fst (hd (rest @ [(p, EndOfMibView)]))))" for p
    using assms by (auto simp: holds_column_def is_end_value_def)
qed (use assms in \<open>auto simp: session_transport_def session_walk_getbulk_def session_walk_getnext_def
    mib_session_def mib_page_def is_desync_def after_cursor holds_column_def list_all_iff\<close>)

text \<open>A walk of a column the agent holds.\<close>

lemma mib_walk:
  assumes "holds_column (base_parts b) front table rest" "length table < MAX_WALK_ENTRIES" "k \<le> MAX_DESYNC_RETRIES"
  shows "walk_subtree (session_transport (mib_session (front @ table @ rest) bulk)) b k
    = (map (\<lambda>r. (drop (length (base_parts b)) (fst r), snd r)) table,
       if rest = [] then EndOfMib else EndOfSubtree, 0)"
proof -
  note agent = mib_agent [OF assms(1), of bulk]
  show ?thesis
    unfolding walk_subtree_loop
    using table_agent.walk_serves_table [OF agent assms(2), of k] assms(3) table_agent.table_stop_def [OF agent]
    by (simp only: id_apply Let_def)
qed

section \<open>A conformant agent\<close>

text \<open>
  An agent that serves its instances in ascending order, as the protocol asks: any list of varbinds,
  ordered, the first of two with one identifier winning, and without the markers that are no values.
\<close>

fun insert_instance :: "oid \<times> Value \<Rightarrow> varbinds \<Rightarrow> varbinds" where
  "insert_instance r [] = [r]"
| "insert_instance r (x # xs) =
     (if oid_less (fst r) (fst x) then r # x # xs
      else if fst r = fst x then r # xs else x # insert_instance r xs)"

definition agent_view :: "varbinds \<Rightarrow> varbinds" where
  "agent_view instances = foldr insert_instance (filter (\<lambda>r. \<not> is_end_value (snd r)) instances) []"

definition column_rows :: "oid \<Rightarrow> varbinds \<Rightarrow> varbinds" where
  "column_rows base instances = filter (\<lambda>r. in_subtree base (fst r)) (agent_view instances)"

definition rows_before :: "oid \<Rightarrow> varbinds \<Rightarrow> varbinds" where
  "rows_before base instances = filter (\<lambda>r. \<not> oid_less base (fst r)) (agent_view instances)"

definition rows_behind :: "oid \<Rightarrow> varbinds \<Rightarrow> varbinds" where
  "rows_behind base instances =
     filter (\<lambda>r. oid_less base (fst r) \<and> \<not> in_subtree base (fst r)) (agent_view instances)"

abbreviation ascending_oids :: "varbinds \<Rightarrow> bool" where
  "ascending_oids \<equiv> sorted_wrt (\<lambda>a b. oid_less (fst a) (fst b))"

lemma set_insert_instance: "set (insert_instance r xs) \<subseteq> insert r (set xs)"
  by (induction xs) auto

lemma ascending_insert: "ascending_oids xs \<Longrightarrow> ascending_oids (insert_instance r xs)"
proof (induction xs)
  case (Cons x xs)
  then show ?case
    using set_insert_instance [of r xs] oid_less_linear [of "fst r" "fst x"]
    by (auto intro: oid_less_trans)
qed simp

lemma agent_view_facts:
  "ascending_oids (agent_view instances)" "r \<in> set (agent_view instances) \<Longrightarrow> \<not> is_end_value (snd r)"
proof -
  have "ascending_oids (foldr insert_instance xs [])" "set (foldr insert_instance xs []) \<subseteq> set xs" for xs
    by (induction xs) (use ascending_insert set_insert_instance in fastforce)+
  then show "ascending_oids (agent_view instances)" "r \<in> set (agent_view instances) \<Longrightarrow> \<not> is_end_value (snd r)"
    by (auto simp: agent_view_def) fastforce
qed

lemma ascending_distinct: "ascending_oids xs \<Longrightarrow> distinct (map fst xs)"
  by (induction xs) fastforce+

text \<open>An ascending list is what lies at or before the root, the column, and what lies behind it.\<close>

lemma ascending_split:
  assumes "ascending_oids xs"
  shows "xs = filter (\<lambda>r. \<not> oid_less base (fst r)) xs @ filter (\<lambda>r. in_subtree base (fst r)) xs
     @ filter (\<lambda>r. oid_less base (fst r) \<and> \<not> in_subtree base (fst r)) xs"
  using assms
proof (induction xs)
  case (Cons x xs)
  let ?P = "\<lambda>r. \<not> oid_less base (fst r)" and ?Q = "\<lambda>r. in_subtree base (fst r)"
  have below: "?Q r \<Longrightarrow> oid_less base (fst r)" for r :: "oid \<times> Value" by (auto simp: in_subtree_iff)
  have up: "\<forall>r \<in> set xs. oid_less (fst x) (fst r)" using Cons.prems by simp
  consider "?P x" | "?Q x" | "oid_less base (fst x)" "\<not> ?Q x" using below by blast
  then show ?case
  proof cases
    case 1
    then show ?thesis using Cons below by auto
  next
    case 2
    then have "filter ?P xs = []" using up below [OF 2] by (auto simp: filter_empty_conv intro: oid_less_trans)
    then show ?thesis using Cons 2 below [OF 2] by auto
  next
    case 3
    then have "filter ?P xs = []" using up by (auto simp: filter_empty_conv intro: oid_less_trans)
    moreover have "filter ?Q xs = []"
      using up above_subtree [OF 3] oid_less_asym by (fastforce simp: filter_empty_conv in_subtree_iff)
    ultimately show ?thesis using Cons 3 by auto
  qed
qed simp

lemma agent_view_split:
  "agent_view instances = rows_before base instances @ column_rows base instances @ rows_behind base instances"
  unfolding rows_before_def column_rows_def rows_behind_def
  by (rule ascending_split [OF agent_view_facts(1)])

lemma butlast_below: "ascending_oids xs \<Longrightarrow> r \<in> set (butlast xs) \<Longrightarrow> oid_less (fst r) (fst (last xs))"
  by (induction xs) (auto split: if_splits)

lemma agent_holds_column:
  "holds_column base (rows_before base instances) (column_rows base instances) (rows_behind base instances)"
proof -
  have asc: "ascending_oids (rows_before base instances)"
    unfolding rows_before_def by (rule sorted_wrt_filter [OF agent_view_facts(1)])
  have "base \<notin> fst ` set (butlast (rows_before base instances))"
  proof
    assume "base \<in> fst ` set (butlast (rows_before base instances))"
    then obtain r where r: "r \<in> set (butlast (rows_before base instances))" "fst r = base" by auto
    then have "rows_before base instances \<noteq> []" by auto
    then have "last (rows_before base instances) \<in> set (rows_before base instances)" by simp
    then show False using butlast_below [OF asc r(1)] r(2) by (auto simp: rows_before_def)
  qed
  moreover have "base \<notin> fst ` set (column_rows base instances @ rows_behind base instances)"
    by (auto simp: column_rows_def rows_behind_def in_subtree_def)
  moreover have "distinct (map fst (rows_before base instances @ column_rows base instances @ rows_behind base instances))"
    using ascending_distinct [OF agent_view_facts(1)] agent_view_split by metis
  moreover have "list_all (\<lambda>r. \<not> oid_less base (fst r)) (rows_before base instances)"
    by (simp add: list_all_iff rows_before_def)
  moreover have "list_all (\<lambda>r. in_subtree base (fst r) \<and> \<not> is_end_value (snd r)) (column_rows base instances)"
    using agent_view_facts(2) by (force simp: list_all_iff column_rows_def)
  moreover have "\<not> is_end_value (snd r) \<and> oid_less base (fst r) \<and> \<not> in_subtree base (fst r)"
    if "r \<in> set (rows_behind base instances)" for r
    using that agent_view_facts(2) [of r instances] by (simp add: rows_behind_def)
  ultimately show ?thesis
    unfolding holds_column_def set_append image_Un Un_iff by (meson hd_in_set)
qed

interpretation conformant: table_agent "session_transport (mib_session (agent_view instances) bulk)" base
    "column_rows base instances" "\<lambda>p. rows_behind base instances @ [(p, EndOfMibView)]" bulk
    "rows_behind base instances = []" id
  for instances bulk base
  using mib_agent [OF agent_holds_column, of base instances bulk] by (simp add: agent_view_split [symmetric])

end
