(* ===== verification/Snmp_Tables.thy ===== *)
theory Snmp_Tables
  imports Snmp_Walk Interfaces
begin

text \<open>
  The table queries of the daemon (\<^verbatim>\<open>daemon/discovery/integration/snmp/queries.rs\<close>): each walks
  the columns of a table, one after the other, and assembles the records from the rows.

  A \<open>HashMap\<close> is an association list in the order of first insertion. Where the code returns the
  values of a map in the order of its iteration, the order is an argument \<open>iter\<close> of the query, a
  rearrangement of the entries; a vector sorted by its keys does not depend on it. Keys that the code
  renders as text are the sub-identifiers themselves. The casts of the code keep the low bits, and
  \<open>mbps * 1_000_000\<close> wraps, as it does in a release build.
\<close>

section \<open>Hash maps\<close>

fun upsert_entry :: "'k \<Rightarrow> 'v \<Rightarrow> ('v \<Rightarrow> 'v) \<Rightarrow> ('k \<times> 'v) list \<Rightarrow> ('k \<times> 'v) list" where
  "upsert_entry k d f [] = [(k, f d)]"
| "upsert_entry k d f ((k', v) # m) = (if k = k' then (k', f v) # m else (k', v) # upsert_entry k d f m)"

abbreviation insert_entry :: "'k \<Rightarrow> 'v \<Rightarrow> ('k \<times> 'v) list \<Rightarrow> ('k \<times> 'v) list" where
  "insert_entry k v \<equiv> upsert_entry k v (\<lambda>_. v)"

abbreviation or_insert_entry :: "'k \<Rightarrow> 'v \<Rightarrow> ('k \<times> 'v) list \<Rightarrow> ('k \<times> 'v) list" where
  "or_insert_entry k v \<equiv> upsert_entry k v (\<lambda>x. x)"

fun modify_entry :: "'k \<Rightarrow> ('v \<Rightarrow> 'v) \<Rightarrow> ('k \<times> 'v) list \<Rightarrow> ('k \<times> 'v) list" where
  "modify_entry k f [] = []"
| "modify_entry k f ((k', v) # m) = (if k = k' then (k', f v) # m else (k', v) # modify_entry k f m)"

abbreviation keys :: "('k \<times> 'v) list \<Rightarrow> 'k set" where
  "keys m \<equiv> fst ` set m"

lemma keys_upsert [simp]: "keys (upsert_entry k d f m) = insert k (keys m)"
  by (induction k d f m rule: upsert_entry.induct) auto

lemma distinct_upsert [simp]: "distinct (map fst m) \<Longrightarrow> distinct (map fst (upsert_entry k d f m))"
  by (induction k d f m rule: upsert_entry.induct) simp_all

lemma map_of_upsert: "map_of (upsert_entry k d f m) j =
   (if j = k then Some (f (case map_of m k of Some v \<Rightarrow> v | None \<Rightarrow> d)) else map_of m j)"
  by (induction m) auto

lemma map_fst_modify [simp]: "map fst (modify_entry k f m) = map fst m"
  by (induction m) auto

lemma map_of_modify: "map_of (modify_entry k f m) j =
   (if j = k then map_option f (map_of m k) else map_of m j)"
  by (induction m) auto

section \<open>Results\<close>

datatype MalformedNeighbourReason =
  WalkCutShort | GhostRows | IncompleteRecords | UnexpectedType | UnreadableIndex

record 'a SnmpCollection =
  sc_records :: 'a
  sc_complete :: bool
  sc_unsupported :: bool
  sc_reason :: "ShortfallReason option"
  sc_discarded :: nat
  sc_discard_reason :: "MalformedNeighbourReason option"

definition collection_skipped :: "'a \<Rightarrow> 'a SnmpCollection" where
  "collection_skipped d =
     \<lparr>sc_records = d, sc_complete = True, sc_unsupported = False, sc_reason = None, sc_discarded = 0,
      sc_discard_reason = None\<rparr>"

definition from_walk :: "'a \<Rightarrow> Shortfall \<Rightarrow> 'a SnmpCollection" where
  "from_walk r sf =
     \<lparr>sc_records = r, sc_complete = sf_complete sf, sc_unsupported = False, sc_reason = sf_reason sf,
      sc_discarded = 0, sc_discard_reason = None\<rparr>"

definition collection_default :: "'a \<Rightarrow> 'a SnmpCollection" where
  "collection_default d =
     \<lparr>sc_records = d, sc_complete = False, sc_unsupported = False, sc_reason = Some NoAnswer,
      sc_discarded = 0, sc_discard_reason = None\<rparr>"

text \<open>The loop over the columns of a table: \<open>f\<close> takes the rows of a column and why its walk stopped.\<close>

fun walk_columns ::
    "'s transport \<Rightarrow> (string \<Rightarrow> (oid \<times> Value) list \<Rightarrow> WalkStop \<Rightarrow> 'a \<Rightarrow> 'a) \<Rightarrow> (string \<times> string) list
     \<Rightarrow> 'a \<Rightarrow> Shortfall \<Rightarrow> 's \<Rightarrow> 'a \<times> Shortfall \<times> 's" where
  "walk_columns tr f [] a sf s = (a, sf, s)"
| "walk_columns tr f ((base_oid_str, column_name) # cs) a sf s =
     (let (entries, stop, sf, s) = walk_column tr base_oid_str sf s
      in walk_columns tr f cs (f column_name entries stop a) sf s)"

section \<open>The interface table\<close>

record IfTableWalk =
  itw_entries :: "IfTableEntry list"
  set_complete :: bool
  attributes_complete :: bool

definition if_table_walk_default :: IfTableWalk where
  "if_table_walk_default = \<lparr>itw_entries = [], set_complete = False, attributes_complete = False\<rparr>"

definition empty_if_entry :: "int \<Rightarrow> IfTableEntry" where
  "empty_if_entry i =
     \<lparr>ite_if_index = i, ite_if_descr = None, ite_if_type = None, ite_if_mtu = None, ite_if_speed = None,
      ite_if_phys_address = None, ite_if_admin_status = None, ite_if_oper_status = None,
      ite_if_name = None, ite_if_alias = None\<rparr>"

definition set_if_column :: "string \<Rightarrow> Value \<Rightarrow> IfTableEntry \<Rightarrow> IfTableEntry" where
  "set_if_column column v e =
     (if column = ''ifIndex'' then e
      else if column = ''ifDescr'' then e\<lparr>ite_if_descr := value_to_string v\<rparr>
      else if column = ''ifType'' then e\<lparr>ite_if_type := value_to_i32 v\<rparr>
      else if column = ''ifMtu'' then e\<lparr>ite_if_mtu := value_to_i32 v\<rparr>
      else if column = ''ifSpeed'' then
        (if ite_if_speed e = None then e\<lparr>ite_if_speed := value_to_u64 v\<rparr> else e)
      else if column = ''ifPhysAddress'' then e\<lparr>ite_if_phys_address := value_to_mac v\<rparr>
      else if column = ''ifAdminStatus'' then e\<lparr>ite_if_admin_status := value_to_i32 v\<rparr>
      else if column = ''ifOperStatus'' then e\<lparr>ite_if_oper_status := value_to_i32 v\<rparr>
      else if column = ''ifName'' then e\<lparr>ite_if_name := value_to_string v\<rparr>
      else if column = ''ifHighSpeed'' then
        (case value_to_u64 v of Some mbps \<Rightarrow> e\<lparr>ite_if_speed := Some (mbps * 1000000)\<rparr> | None \<Rightarrow> e)
      else if column = ''ifAlias'' then e\<lparr>ite_if_alias := value_to_string v\<rparr>
      else e)"

definition if_columns :: "(string \<times> string) list" where
  "if_columns =
     [(IF_INDEX, ''ifIndex''), (IF_DESCR, ''ifDescr''), (IF_TYPE, ''ifType''), (IF_MTU, ''ifMtu''),
      (IF_SPEED, ''ifSpeed''), (IF_PHYS_ADDRESS, ''ifPhysAddress''), (IF_ADMIN_STATUS, ''ifAdminStatus''),
      (IF_OPER_STATUS, ''ifOperStatus''), (IF_NAME, ''ifName''), (IF_HIGH_SPEED, ''ifHighSpeed''),
      (IF_ALIAS, ''ifAlias'')]"

record if_column_state =
  ic_entries :: "(int \<times> IfTableEntry) list"
  column_indexes :: "int list"
  column_foreign :: nat

definition if_row :: "string \<Rightarrow> int list option \<Rightarrow> oid \<times> Value \<Rightarrow> if_column_state \<Rightarrow> if_column_state" where
  "if_row column known row st =
     (case row of (suffix, v) \<Rightarrow>
      if suffix = [] then st
      else let ifx = sub_id_i32 (last suffix);
               st = st\<lparr>column_indexes := List.insert ifx (column_indexes st)\<rparr> in
        (case known of
           Some ks \<Rightarrow> if ifx \<notin> set ks then st\<lparr>column_foreign := Suc (column_foreign st)\<rparr>
             else st\<lparr>ic_entries := upsert_entry ifx (empty_if_entry ifx) (set_if_column column v) (ic_entries st)\<rparr>
         | None \<Rightarrow> st\<lparr>ic_entries := upsert_entry ifx (empty_if_entry ifx) (set_if_column column v) (ic_entries st)\<rparr>))"

record if_walk_state =
  iw_entries :: "(int \<times> IfTableEntry) list"
  iw_complete :: bool
  index_column_complete :: "bool option"
  known_if_indexes :: "int list option"
  foreign_rows :: nat

definition if_column_done :: "string \<Rightarrow> (oid \<times> Value) list \<Rightarrow> WalkStop \<Rightarrow> if_walk_state \<Rightarrow> if_walk_state" where
  "if_column_done column entries stop st =
     (let c = fold (if_row column (known_if_indexes st)) entries
            \<lparr>ic_entries = iw_entries st, column_indexes = [], column_foreign = 0\<rparr>;
          walked = is_complete stop;
          st = st\<lparr>iw_entries := ic_entries c\<rparr>;
          st = (if walked then st else st\<lparr>iw_complete := False\<rparr>);
          st = (if column = ''ifIndex''
                then st\<lparr>index_column_complete := Some walked,
                  known_if_indexes := (if column_indexes c = [] then known_if_indexes st else Some (column_indexes c))\<rparr>
                else st)
      in if column_foreign c > 0
         then st\<lparr>foreign_rows := foreign_rows st + column_foreign c, iw_complete := False\<rparr> else st)"

fun walk_if_columns :: "'s transport \<Rightarrow> (string \<times> string) list \<Rightarrow> if_walk_state \<Rightarrow> 's \<Rightarrow> if_walk_state \<times> 's" where
  "walk_if_columns tr [] st s = (st, s)"
| "walk_if_columns tr ((base_oid_str, column) # cs) st s =
     (let (entries, stop, s) = walk_subtree tr base_oid_str s
      in walk_if_columns tr cs (if_column_done column entries stop st) s)"

definition if_walk_start :: if_walk_state where
  "if_walk_start = \<lparr>iw_entries = [], iw_complete = True, index_column_complete = None,
     known_if_indexes = None, foreign_rows = 0\<rparr>"

definition walk_if_table :: "'s transport \<Rightarrow> 's \<Rightarrow> IfTableWalk \<times> 's" where
  "walk_if_table tr s =
     (let (st, s) = walk_if_columns tr if_columns if_walk_start s;
          complete = iw_complete st
      in (\<lparr>itw_entries = sort_key ite_if_index (map snd (iw_entries st)),
           set_complete = (case index_column_complete st of
              Some True \<Rightarrow> foreign_rows st = 0 | Some False \<Rightarrow> False | None \<Rightarrow> complete),
           attributes_complete = complete\<rparr>, s))"

section \<open>LLDP neighbours\<close>

definition empty_lldp_neighbor :: "int \<Rightarrow> LldpNeighbor" where
  "empty_lldp_neighbor p =
     \<lparr>lldp_local_port_index = p, remote_chassis_id_subtype = None, remote_chassis_id_bytes = None,
      remote_port_id_subtype = None, remote_port_id_bytes = None, remote_port_desc = None,
      remote_sys_name = None, remote_sys_desc = None, remote_mgmt_addr = None\<rparr>"

definition i32_as_u8 :: "int \<Rightarrow> octet" where
  "i32_as_u8 v = word_of_int v"

record lldp_state =
  lldp_neighbors :: "((int \<times> int) \<times> LldpNeighbor) list"
  chassis_keys :: "(int \<times> int) list"
  unexpected_subtype_type :: "string option"
  unexpected_value_type :: "string option"
  short_index :: nat
  chassis_subtype_shortfall :: Shortfall
  chassis_value_shortfall :: Shortfall
  all_columns_unsupported :: bool

definition get_or_insert :: "'a \<Rightarrow> 'a option \<Rightarrow> 'a option" where
  "get_or_insert x m = (case m of None \<Rightarrow> Some x | Some y \<Rightarrow> Some y)"

definition set_lldp_column :: "string \<Rightarrow> Value \<Rightarrow> LldpNeighbor \<Rightarrow> LldpNeighbor" where
  "set_lldp_column column v n =
     (if column = ''remChassisIdSubtype'' then
        (case value_to_i32 v of Some x \<Rightarrow> n\<lparr>remote_chassis_id_subtype := Some (i32_as_u8 x)\<rparr> | None \<Rightarrow> n)
      else if column = ''remChassisId'' then
        (case v of OctetString bytes \<Rightarrow> n\<lparr>remote_chassis_id_bytes := Some bytes\<rparr> | _ \<Rightarrow> n)
      else if column = ''remPortIdSubtype'' then n\<lparr>remote_port_id_subtype := map_option i32_as_u8 (value_to_i32 v)\<rparr>
      else if column = ''remPortId'' then
        (case v of OctetString bytes \<Rightarrow> n\<lparr>remote_port_id_bytes := Some bytes\<rparr> | _ \<Rightarrow> n)
      else if column = ''remPortDesc'' then n\<lparr>remote_port_desc := value_to_string v\<rparr>
      else if column = ''remSysName'' then n\<lparr>remote_sys_name := value_to_string v\<rparr>
      else if column = ''remSysDesc'' then n\<lparr>remote_sys_desc := value_to_string v\<rparr>
      else n)"

definition is_octets :: "Value \<Rightarrow> bool" where
  "is_octets v = (case v of OctetString _ \<Rightarrow> True | _ \<Rightarrow> False)"

definition lldp_row :: "string \<Rightarrow> oid \<times> Value \<Rightarrow> lldp_state \<Rightarrow> lldp_state" where
  "lldp_row column row st =
     (case row of (suffix, v) \<Rightarrow>
      if length suffix < 2 then st\<lparr>short_index := Suc (short_index st)\<rparr>
      else let rem_index = sub_id_i32 (last suffix); local_port = sub_id_i32 (last (butlast suffix));
               key = (local_port, rem_index);
               st = st\<lparr>lldp_neighbors :=
                 upsert_entry key (empty_lldp_neighbor local_port) (set_lldp_column column v) (lldp_neighbors st)\<rparr> in
        if column = ''remChassisIdSubtype'' then
          st\<lparr>chassis_keys := List.insert key (chassis_keys st),
             unexpected_subtype_type := (if value_to_i32 v = None
               then get_or_insert (value_type_name v) (unexpected_subtype_type st) else unexpected_subtype_type st)\<rparr>
        else if column = ''remChassisId'' then
          st\<lparr>chassis_keys := List.insert key (chassis_keys st),
             unexpected_value_type := (if \<not> is_octets v
               then get_or_insert (value_type_name v) (unexpected_value_type st) else unexpected_value_type st)\<rparr>
        else st)"

definition lldp_column :: "string \<Rightarrow> (oid \<times> Value) list \<Rightarrow> WalkStop \<Rightarrow> lldp_state \<Rightarrow> lldp_state" where
  "lldp_column column entries stop st =
     (let st = fold (lldp_row column) entries st;
          st = (if column = ''remChassisIdSubtype''
                then st\<lparr>chassis_subtype_shortfall := record_stop stop (chassis_subtype_shortfall st)\<rparr>
                else if column = ''remChassisId''
                then st\<lparr>chassis_value_shortfall := record_stop stop (chassis_value_shortfall st)\<rparr>
                else st)
      in if is_unsupported stop then st else st\<lparr>all_columns_unsupported := False\<rparr>)"

definition lldp_columns :: "(string \<times> string) list" where
  "lldp_columns =
     [(LLDP_REM_CHASSIS_ID_SUBTYPE, ''remChassisIdSubtype''), (LLDP_REM_CHASSIS_ID, ''remChassisId''),
      (LLDP_REM_PORT_ID_SUBTYPE, ''remPortIdSubtype''), (LLDP_REM_PORT_ID, ''remPortId''),
      (LLDP_REM_PORT_DESC, ''remPortDesc''), (LLDP_REM_SYS_NAME, ''remSysName''),
      (LLDP_REM_SYS_DESC, ''remSysDesc'')]"

definition lldp_start :: lldp_state where
  "lldp_start =
     \<lparr>lldp_neighbors = [], chassis_keys = [], unexpected_subtype_type = None, unexpected_value_type = None,
      short_index = 0, chassis_subtype_shortfall = shortfall_default,
      chassis_value_shortfall = shortfall_default, all_columns_unsupported = True\<rparr>"

text \<open>One layout of an index of the management address table: \<open>prefix\<close> sub-identifiers, then the address.\<close>

definition split_man_addr_at :: "nat \<Rightarrow> oid \<Rightarrow> (int \<times> int \<times> octet list) option" where
  "split_man_addr_at prefix suffix =
     (if length suffix < prefix + 2 then None
      else let addr_len = suffix ! (prefix + 1) in
        if addr_len = 0 \<or> uint addr_len \<noteq> int (length suffix) - int prefix - 2 then None
        else Some (sub_id_i32 (suffix ! (prefix - 2)), sub_id_i32 (suffix ! (prefix - 1)),
          ucast (suffix ! prefix) # map ucast (drop (prefix + 2) suffix)))"

definition split_lldp_man_addr_index :: "oid \<Rightarrow> (int \<times> int \<times> octet list) option" where
  "split_lldp_man_addr_index suffix =
     (case split_man_addr_at 3 suffix of Some r \<Rightarrow> Some r | None \<Rightarrow> split_man_addr_at 2 suffix)"

definition man_addr_row ::
    "oid \<times> Value \<Rightarrow> ((int \<times> int) \<times> LldpNeighbor) list \<Rightarrow> ((int \<times> int) \<times> LldpNeighbor) list" where
  "man_addr_row row m =
     (case split_lldp_man_addr_index (fst row) of
        Some (local_port, rem_index, buf) \<Rightarrow>
          (case parse_lldp_mgmt_addr buf of
             Some addr \<Rightarrow> modify_entry (local_port, rem_index) (\<lambda>n. n\<lparr>remote_mgmt_addr := Some addr\<rparr>) m
           | None \<Rightarrow> m)
      | None \<Rightarrow> m)"

text \<open>\<open>Iterator::reduce\<close> with the larger count winning and the first of a tie.\<close>

fun best_reason :: "nat \<times> MalformedNeighbourReason \<Rightarrow> (nat \<times> MalformedNeighbourReason) list \<Rightarrow> nat \<times> MalformedNeighbourReason" where
  "best_reason best [] = best"
| "best_reason best (x # xs) = best_reason (if fst x > fst best then x else best) xs"

definition dominant_discard_reason ::
    "nat \<Rightarrow> nat \<Rightarrow> nat \<Rightarrow> bool \<Rightarrow> bool \<Rightarrow> MalformedNeighbourReason option" where
  "dominant_discard_reason ghost_rows missing_chassis short wrong_type chassis_walk_cut_short =
     (if ghost_rows + missing_chassis + short = 0 then None
      else if chassis_walk_cut_short then Some WalkCutShort
      else let missing_reason = (if wrong_type then UnexpectedType else IncompleteRecords) in
        (case filter (\<lambda>x. fst x > 0)
            [(missing_chassis, missing_reason), (ghost_rows, GhostRows), (short, UnreadableIndex)] of
           [] \<Rightarrow> None
         | x # xs \<Rightarrow> Some (snd (best_reason x xs))))"

definition has_chassis :: "LldpNeighbor \<Rightarrow> bool" where
  "has_chassis n \<longleftrightarrow> remote_chassis_id_subtype n \<noteq> None \<and> remote_chassis_id_bytes n \<noteq> None"

definition lldp_result :: "((int \<times> int) \<times> LldpNeighbor) list \<Rightarrow> lldp_state \<Rightarrow> Shortfall \<Rightarrow> LldpNeighbor list SnmpCollection" where
  "lldp_result neighbors st sf =
     (let kept = filter (\<lambda>e. has_chassis (snd e)) neighbors;
          lost = filter (\<lambda>e. \<not> has_chassis (snd e)) neighbors;
          ghost_rows = length (filter (\<lambda>e. fst e \<notin> set (chassis_keys st)) lost);
          missing_chassis = length (filter (\<lambda>e. fst e \<in> set (chassis_keys st)) lost);
          result = map snd kept;
          discarded = (length neighbors - length result) + short_index st
      in \<lparr>sc_records = result,
          sc_complete = (if discarded > 0 then False else sf_complete sf),
          sc_unsupported = all_columns_unsupported st \<and> result = [],
          sc_reason = sf_reason sf,
          sc_discarded = discarded,
          sc_discard_reason = dominant_discard_reason ghost_rows missing_chassis (short_index st)
            (unexpected_subtype_type st \<noteq> None \<or> unexpected_value_type st \<noteq> None)
            (\<not> sf_complete (chassis_subtype_shortfall st) \<or> \<not> sf_complete (chassis_value_shortfall st))\<rparr>)"

definition query_lldp_neighbors ::
    "(((int \<times> int) \<times> LldpNeighbor) list \<Rightarrow> ((int \<times> int) \<times> LldpNeighbor) list)
     \<Rightarrow> 's transport \<Rightarrow> 's \<Rightarrow> LldpNeighbor list SnmpCollection \<times> 's" where
  "query_lldp_neighbors iter tr s =
     (let (st, sf, s) = walk_columns tr lldp_column lldp_columns lldp_start shortfall_default s;
          (man, _, _, s) = walk_column tr LLDP_REM_MAN_ADDR_IF_SUBTYPE shortfall_default s
      in (lldp_result (iter (fold man_addr_row man (lldp_neighbors st))) st sf, s))"

section \<open>Local LLDP ports\<close>

definition local_port_default :: LldpLocalPort where
  "local_port_default = \<lparr>llp_port_id_subtype = None, llp_port_id = None, llp_port_id_mac = None, llp_port_desc = None\<rparr>"

definition set_local_port_column :: "(string \<Rightarrow> MacAddress option) \<Rightarrow> string \<Rightarrow> Value \<Rightarrow> LldpLocalPort \<Rightarrow> LldpLocalPort" where
  "set_local_port_column parse_mac column v e =
     (if column = ''subtype'' then e\<lparr>llp_port_id_subtype := map_option i32_as_u8 (value_to_i32 v)\<rparr>
      else if column = ''id'' then
        e\<lparr>llp_port_id := value_to_string v,
          llp_port_id_mac := (case value_to_mac v of
             Some m \<Rightarrow> Some m
           | None \<Rightarrow> Option.bind (Option.bind (value_to_string v) (canonical_mac parse_mac)) parse_mac)\<rparr>
      else if column = ''desc'' then e\<lparr>llp_port_desc := value_to_string v\<rparr>
      else e)"

definition local_port_row ::
    "(string \<Rightarrow> MacAddress option) \<Rightarrow> string \<Rightarrow> oid \<times> Value \<Rightarrow> (int \<times> LldpLocalPort) list \<Rightarrow> (int \<times> LldpLocalPort) list" where
  "local_port_row parse_mac column row m =
     (case row of (suffix, v) \<Rightarrow>
      if suffix = [] then m
      else upsert_entry (sub_id_i32 (hd suffix)) local_port_default (set_local_port_column parse_mac column v) m)"

definition local_port_columns :: "(string \<times> string) list" where
  "local_port_columns =
     [(LLDP_LOC_PORT_ID_SUBTYPE, ''subtype''), (LLDP_LOC_PORT_ID, ''id''), (LLDP_LOC_PORT_DESC, ''desc'')]"

definition query_lldp_local_ports ::
    "(string \<Rightarrow> MacAddress option) \<Rightarrow> 's transport \<Rightarrow> 's \<Rightarrow> (int \<times> LldpLocalPort) list SnmpCollection \<times> 's" where
  "query_lldp_local_ports parse_mac tr s =
     (let (ports, sf, s) = walk_columns tr (\<lambda>column entries _. fold (local_port_row parse_mac column) entries)
            local_port_columns [] shortfall_default s
      in (from_walk ports sf, s))"

section \<open>Addresses\<close>

definition suffix_ip :: "oid \<Rightarrow> IpAddr" where
  "suffix_ip suffix = V4 (word_rcat (map (\<lambda>o'. ucast o' :: octet) suffix))"

definition if_index_row :: "oid \<times> Value \<Rightarrow> (IpAddr \<times> int) list \<Rightarrow> (IpAddr \<times> int) list" where
  "if_index_row row m =
     (case row of (suffix, v) \<Rightarrow>
      if length suffix = 4
      then (case value_to_i32 v of Some i \<Rightarrow> insert_entry (suffix_ip suffix) i m | None \<Rightarrow> m) else m)"

definition net_mask_row :: "oid \<times> Value \<Rightarrow> (IpAddr \<times> IpAddr) list \<Rightarrow> (IpAddr \<times> IpAddr) list" where
  "net_mask_row row m =
     (case row of (suffix, v) \<Rightarrow>
      if length suffix = 4
      then (case value_to_ip v of Some i \<Rightarrow> insert_entry (suffix_ip suffix) i m | None \<Rightarrow> m) else m)"

definition query_ip_addr_table :: "'s transport \<Rightarrow> 's \<Rightarrow> (IpAddr \<times> IpAddrEntry) list SnmpCollection \<times> 's" where
  "query_ip_addr_table tr s =
     (let (indexes, _, sf, s) = walk_column tr IP_AD_ENT_IF_INDEX shortfall_default s;
          (masks, _, sf, s) = walk_column tr IP_AD_ENT_NET_MASK sf s;
          if_index_map = fold if_index_row indexes [];
          net_mask_map = fold net_mask_row masks []
      in (from_walk (map (\<lambda>(addr, i). (addr, \<lparr>iae_if_index = i, net_mask = map_of net_mask_map addr\<rparr>)) if_index_map) sf, s))"

section \<open>CDP neighbours\<close>

definition empty_cdp_neighbor :: "int \<Rightarrow> CdpNeighbor" where
  "empty_cdp_neighbor i =
     \<lparr>cdp_local_port_index = i, remote_device_id = None, remote_port_id = None, remote_platform = None,
      remote_address = None\<rparr>"

definition set_cdp_column :: "string \<Rightarrow> Value \<Rightarrow> CdpNeighbor \<Rightarrow> CdpNeighbor" where
  "set_cdp_column column v n =
     (if column = ''deviceId'' then n\<lparr>remote_device_id := value_to_string v\<rparr>
      else if column = ''devicePort'' then n\<lparr>remote_port_id := value_to_string v\<rparr>
      else if column = ''platform'' then n\<lparr>remote_platform := value_to_string v\<rparr>
      else if column = ''address'' then
        (case v of
           OctetString bytes \<Rightarrow> if length bytes = 4 then n\<lparr>remote_address := Some (V4 (word_rcat bytes))\<rparr> else n
         | _ \<Rightarrow> n)
      else n)"

record cdp_state =
  cdp_neighbors :: "((int \<times> int) \<times> CdpNeighbor) list"
  cdp_all_unsupported :: bool

definition cdp_row ::
    "string \<Rightarrow> oid \<times> Value \<Rightarrow> ((int \<times> int) \<times> CdpNeighbor) list \<Rightarrow> ((int \<times> int) \<times> CdpNeighbor) list" where
  "cdp_row column row m =
     (case row of (suffix, v) \<Rightarrow>
      if length suffix < 2 then m
      else let ifx = sub_id_i32 (suffix ! 0); device_index = sub_id_i32 (suffix ! 1)
           in upsert_entry (ifx, device_index) (empty_cdp_neighbor ifx) (set_cdp_column column v) m)"

definition cdp_column :: "string \<Rightarrow> (oid \<times> Value) list \<Rightarrow> WalkStop \<Rightarrow> cdp_state \<Rightarrow> cdp_state" where
  "cdp_column column entries stop st =
     (let st = st\<lparr>cdp_neighbors := fold (cdp_row column) entries (cdp_neighbors st)\<rparr>
      in if is_unsupported stop then st else st\<lparr>cdp_all_unsupported := False\<rparr>)"

definition cdp_columns :: "(string \<times> string) list" where
  "cdp_columns =
     [(CDP_CACHE_DEVICE_ID, ''deviceId''), (CDP_CACHE_DEVICE_PORT, ''devicePort''),
      (CDP_CACHE_PLATFORM, ''platform''), (CDP_CACHE_ADDRESS, ''address'')]"

definition cdp_result :: "CdpNeighbor list \<Rightarrow> bool \<Rightarrow> Shortfall \<Rightarrow> CdpNeighbor list SnmpCollection" where
  "cdp_result neighbors all_unsupported sf =
     (let result = filter (\<lambda>n. remote_device_id n \<noteq> None) neighbors;
          fell = length result \<noteq> length neighbors
      in \<lparr>sc_records = result,
          sc_complete = (if fell then False else sf_complete sf),
          sc_unsupported = all_unsupported \<and> result = [],
          sc_reason = sf_reason sf,
          sc_discarded = length neighbors - length result,
          sc_discard_reason = (if fell then Some (if sf_reason sf \<noteq> None then WalkCutShort else GhostRows) else None)\<rparr>)"

definition query_cdp_neighbors ::
    "(((int \<times> int) \<times> CdpNeighbor) list \<Rightarrow> ((int \<times> int) \<times> CdpNeighbor) list)
     \<Rightarrow> 's transport \<Rightarrow> 's \<Rightarrow> CdpNeighbor list SnmpCollection \<times> 's" where
  "query_cdp_neighbors iter tr s =
     (let (st, sf, s) = walk_columns tr cdp_column cdp_columns
            \<lparr>cdp_neighbors = [], cdp_all_unsupported = True\<rparr> shortfall_default s
      in (cdp_result (map snd (iter (cdp_neighbors st))) (cdp_all_unsupported st) sf, s))"

section \<open>ARP table\<close>

record ArpEntryBuilder =
  ab_if_index :: "int option"
  ab_mac_address :: "MacAddress option"
  ab_ip_address :: "IpAddr option"
  ab_entry_type :: "int option"

definition arp_builder_empty :: ArpEntryBuilder where
  "arp_builder_empty =
     \<lparr>ab_if_index = None, ab_mac_address = None, ab_ip_address = None, ab_entry_type = None\<rparr>"

definition set_arp_column :: "string \<Rightarrow> Value \<Rightarrow> ArpEntryBuilder \<Rightarrow> ArpEntryBuilder" where
  "set_arp_column column v e =
     (if column = ''ifIndex'' then e\<lparr>ab_if_index := value_to_i32 v\<rparr>
      else if column = ''physAddress'' then e\<lparr>ab_mac_address := value_to_mac v\<rparr>
      else if column = ''netAddress'' then e\<lparr>ab_ip_address := value_to_ip v\<rparr>
      else if column = ''type'' then e\<lparr>ab_entry_type := value_to_i32 v\<rparr>
      else e)"

definition arp_row :: "string \<Rightarrow> oid \<times> Value \<Rightarrow> (oid \<times> ArpEntryBuilder) list \<Rightarrow> (oid \<times> ArpEntryBuilder) list" where
  "arp_row column row m =
     (case row of (suffix, v) \<Rightarrow>
      if length suffix < 5 then m else upsert_entry suffix arp_builder_empty (set_arp_column column v) m)"

definition arp_columns :: "(string \<times> string) list" where
  "arp_columns =
     [(IP_NET_TO_MEDIA_IF_INDEX, ''ifIndex''), (IP_NET_TO_MEDIA_PHYS_ADDRESS, ''physAddress''),
      (IP_NET_TO_MEDIA_NET_ADDRESS, ''netAddress''), (IP_NET_TO_MEDIA_TYPE, ''type'')]"

definition build_arp_entry :: "ArpEntryBuilder \<Rightarrow> ArpEntry option" where
  "build_arp_entry e =
     (if (case ab_entry_type e of Some t \<Rightarrow> t | None \<Rightarrow> 0) = 2 then None
      else case (ab_if_index e, ab_mac_address e, ab_ip_address e) of
        (Some i, Some m, Some a) \<Rightarrow> Some \<lparr>arp_if_index = i, arp_mac_address = m, arp_ip_address = a\<rparr>
      | _ \<Rightarrow> None)"

definition query_arp_table ::
    "((oid \<times> ArpEntryBuilder) list \<Rightarrow> (oid \<times> ArpEntryBuilder) list)
     \<Rightarrow> 's transport \<Rightarrow> 's \<Rightarrow> ArpEntry list SnmpCollection \<times> 's" where
  "query_arp_table iter tr s =
     (let (entries, sf, s) = walk_columns tr (\<lambda>column rows _. fold (arp_row column) rows) arp_columns []
            shortfall_default s
      in (from_walk (List.map_filter (\<lambda>e. build_arp_entry (snd e)) (iter entries)) sf, s))"

section \<open>Hardware inventory\<close>

record PhysicalEntry =
  pe_description :: "string option"
  pe_class :: "int option"
  pe_name :: "string option"
  pe_serial_number :: "string option"
  pe_manufacturer :: "string option"
  pe_model :: "string option"

definition physical_entry_empty :: PhysicalEntry where
  "physical_entry_empty =
     \<lparr>pe_description = None, pe_class = None, pe_name = None, pe_serial_number = None,
      pe_manufacturer = None, pe_model = None\<rparr>"

definition non_empty :: "string option \<Rightarrow> string option" where
  "non_empty t = (case t of Some s \<Rightarrow> if s = [] then None else Some s | None \<Rightarrow> None)"

definition set_physical_column :: "string \<Rightarrow> Value \<Rightarrow> PhysicalEntry \<Rightarrow> PhysicalEntry" where
  "set_physical_column column v e =
     (if column = ''descr'' then e\<lparr>pe_description := value_to_string v\<rparr>
      else if column = ''class'' then e\<lparr>pe_class := value_to_i32 v\<rparr>
      else if column = ''name'' then e\<lparr>pe_name := value_to_string v\<rparr>
      else if column = ''serialNum'' then e\<lparr>pe_serial_number := non_empty (value_to_string v)\<rparr>
      else if column = ''mfgName'' then e\<lparr>pe_manufacturer := non_empty (value_to_string v)\<rparr>
      else if column = ''modelName'' then e\<lparr>pe_model := non_empty (value_to_string v)\<rparr>
      else e)"

definition physical_row :: "string \<Rightarrow> oid \<times> Value \<Rightarrow> (int \<times> PhysicalEntry) list \<Rightarrow> (int \<times> PhysicalEntry) list" where
  "physical_row column row m =
     (case row of (suffix, v) \<Rightarrow>
      if suffix = [] then m
      else upsert_entry (sub_id_i32 (last suffix)) physical_entry_empty (set_physical_column column v) m)"

definition physical_columns :: "(string \<times> string) list" where
  "physical_columns =
     [(ENT_PHYSICAL_DESCR, ''descr''), (ENT_PHYSICAL_CLASS, ''class''), (ENT_PHYSICAL_NAME, ''name''),
      (ENT_PHYSICAL_SERIAL_NUM, ''serialNum''), (ENT_PHYSICAL_MFG_NAME, ''mfgName''),
      (ENT_PHYSICAL_MODEL_NAME, ''modelName'')]"

definition or_else :: "'a option \<Rightarrow> 'a option \<Rightarrow> 'a option" where
  "or_else a b = (case a of Some x \<Rightarrow> Some x | None \<Rightarrow> b)"

definition best_physical :: "PhysicalEntry list \<Rightarrow> PhysicalEntry option" where
  "best_physical es =
     or_else (find (\<lambda>e. pe_class e = Some 3) es)
       (or_else (find (\<lambda>e. pe_class e = Some 11) es) (find (\<lambda>e. pe_class e = Some 9) es))"

definition query_entity_physical ::
    "((int \<times> PhysicalEntry) list \<Rightarrow> (int \<times> PhysicalEntry) list)
     \<Rightarrow> 's transport \<Rightarrow> 's \<Rightarrow> DeviceInventory option SnmpCollection \<times> 's" where
  "query_entity_physical iter tr s =
     (let (entries, sf, s) = walk_columns tr (\<lambda>column rows _. fold (physical_row column) rows) physical_columns []
            shortfall_default s;
          result = map_option (\<lambda>e. \<lparr>inv_description = or_else (pe_description e) (pe_name e),
            inv_manufacturer = pe_manufacturer e, inv_model = pe_model e, inv_serial_number = pe_serial_number e\<rparr>)
            (best_physical (map snd (iter entries)))
      in (from_walk result sf, s))"

section \<open>Bridge tables\<close>

definition bridge_port_row :: "oid \<times> Value \<Rightarrow> (int \<times> int) list \<Rightarrow> (int \<times> int) list" where
  "bridge_port_row row m =
     (case row of (suffix, v) \<Rightarrow>
      if suffix = [] then m
      else case value_to_i32 v of Some i \<Rightarrow> insert_entry (sub_id_i32 (last suffix)) i m | None \<Rightarrow> m)"

definition query_bridge_port_mapping :: "'s transport \<Rightarrow> 's \<Rightarrow> (int \<times> int) list SnmpCollection \<times> 's" where
  "query_bridge_port_mapping tr s =
     (let (entries, _, sf, s) = walk_column tr DOT1D_BASE_PORT_IF_INDEX shortfall_default s
      in (from_walk (fold bridge_port_row entries []) sf, s))"

record FdbBuilder =
  fb_mac_address :: "MacAddress option"
  fb_port :: "int option"
  fb_status :: "int option"

definition fdb_builder_default :: FdbBuilder where
  "fdb_builder_default = \<lparr>fb_mac_address = None, fb_port = None, fb_status = None\<rparr>"

definition set_fdb_column :: "string \<Rightarrow> Value \<Rightarrow> FdbBuilder \<Rightarrow> FdbBuilder" where
  "set_fdb_column column v e =
     (if column = ''address'' then e\<lparr>fb_mac_address := value_to_mac v\<rparr>
      else if column = ''port'' then e\<lparr>fb_port := value_to_i32 v\<rparr>
      else if column = ''status'' then e\<lparr>fb_status := value_to_i32 v\<rparr>
      else e)"

definition fdb_row :: "string \<Rightarrow> oid \<times> Value \<Rightarrow> (oid \<times> FdbBuilder) list \<Rightarrow> (oid \<times> FdbBuilder) list" where
  "fdb_row column row m =
     (case row of (suffix, v) \<Rightarrow>
      if length suffix \<noteq> 6 then m else upsert_entry suffix fdb_builder_default (set_fdb_column column v) m)"

definition fdb_columns :: "(string \<times> string) list" where
  "fdb_columns =
     [(DOT1D_TP_FDB_ADDRESS, ''address''), (DOT1D_TP_FDB_PORT, ''port''), (DOT1D_TP_FDB_STATUS, ''status'')]"

definition qbridge_row :: "string \<Rightarrow> oid \<times> Value \<Rightarrow> (oid \<times> FdbBuilder) list \<Rightarrow> (oid \<times> FdbBuilder) list" where
  "qbridge_row column row m =
     (case row of (suffix, v) \<Rightarrow>
      (case qbridge_fdb_index_to_mac suffix of
         None \<Rightarrow> m
       | Some mac \<Rightarrow> upsert_entry (drop 1 suffix) fdb_builder_default
           (\<lambda>e. let e = e\<lparr>fb_mac_address := Some mac\<rparr> in
             if column = ''port'' then e\<lparr>fb_port := value_to_i32 v\<rparr>
             else if column = ''status'' then e\<lparr>fb_status := value_to_i32 v\<rparr> else e) m))"

definition qbridge_columns :: "(string \<times> string) list" where
  "qbridge_columns = [(DOT1Q_TP_FDB_PORT, ''port''), (DOT1Q_TP_FDB_STATUS, ''status'')]"

definition walk_qbridge_fdb :: "'s transport \<Rightarrow> 's \<Rightarrow> (oid \<times> FdbBuilder) list SnmpCollection \<times> 's" where
  "walk_qbridge_fdb tr s =
     (let (entries, sf, s) = walk_columns tr (\<lambda>column rows _. fold (qbridge_row column) rows) qbridge_columns []
            shortfall_default s
      in (from_walk entries sf, s))"

definition build_fdb_entry :: "(int \<times> int) list \<Rightarrow> FdbBuilder \<Rightarrow> BridgeFdbEntry option" where
  "build_fdb_entry port_to_if_index e =
     (let status = (case fb_status e of Some t \<Rightarrow> t | None \<Rightarrow> 0) in
      if status \<noteq> 3 \<and> status \<noteq> 5 then None
      else case (fb_port e, fb_mac_address e) of
        (Some bridge_port, Some mac) \<Rightarrow>
          Some \<lparr>fdb_mac_address = mac, fdb_bridge_port = bridge_port,
            fdb_if_index = map_of port_to_if_index bridge_port, fdb_status = status\<rparr>
      | _ \<Rightarrow> None)"

definition query_bridge_fdb ::
    "((oid \<times> FdbBuilder) list \<Rightarrow> (oid \<times> FdbBuilder) list) \<Rightarrow> (int \<times> int) list SnmpCollection
     \<Rightarrow> 's transport \<Rightarrow> 's \<Rightarrow> BridgeFdbEntry list SnmpCollection \<times> 's" where
  "query_bridge_fdb iter bridge_ports tr s =
     (let (legacy, sf, s) = walk_columns tr (\<lambda>column rows _. fold (fdb_row column) rows) fdb_columns []
            \<lparr>sf_complete = sc_complete bridge_ports, sf_reason = sc_reason bridge_ports\<rparr> s;
          (qbridge, s) = walk_qbridge_fdb tr s;
          sf = (if sc_complete qbridge then sf else sf\<lparr>sf_complete := False\<rparr>);
          merged = fold (\<lambda>(k, b). or_insert_entry k b) (sc_records qbridge) legacy
      in (from_walk (List.map_filter (\<lambda>e. build_fdb_entry (sc_records bridge_ports) (snd e)) (iter merged)) sf, s))"

section \<open>VLANs\<close>

definition vlan_row :: "oid \<times> Value \<Rightarrow> VlanInfo list \<Rightarrow> VlanInfo list" where
  "vlan_row row vlans =
     (case row of (suffix, v) \<Rightarrow>
      if suffix = [] then vlans
      else case value_to_string v of
        Some name \<Rightarrow> vlans @ [\<lparr>vi_vlan_id = ucast (last suffix), vi_name = name\<rparr>] | None \<Rightarrow> vlans)"

definition query_vlan_table :: "'s transport \<Rightarrow> 's \<Rightarrow> VlanInfo list SnmpCollection \<times> 's" where
  "query_vlan_table tr s =
     (let (entries, _, sf, s) = walk_column tr DOT1Q_VLAN_STATIC_NAME shortfall_default s;
          vlans = fold vlan_row entries []
      in if vlans \<noteq> [] then (from_walk vlans sf, s)
         else let (entries, _, sf, s) = walk_column tr VTP_VLAN_NAME shortfall_default s
           in (from_walk (fold vlan_row entries vlans) sf, s))"

definition native_vlan_row :: "oid \<times> Value \<Rightarrow> (int \<times> 16 word) list \<Rightarrow> (int \<times> 16 word) list" where
  "native_vlan_row row m =
     (case row of (suffix, v) \<Rightarrow>
      if suffix = [] then m
      else case value_to_u16 v of Some vid \<Rightarrow> insert_entry (sub_id_i32 (last suffix)) vid m | None \<Rightarrow> m)"

definition portlist_row :: "oid \<times> Value \<Rightarrow> (int \<times> 16 word list) list \<Rightarrow> (int \<times> 16 word list) list" where
  "portlist_row row m =
     (case row of (suffix, v) \<Rightarrow>
      if suffix = [] then m
      else case v of
        OctetString bytes \<Rightarrow> fold (\<lambda>bp. push_entry bp (ucast (last suffix))) (parse_portlist_bitmap bytes) m
      | _ \<Rightarrow> m)"

definition port_membership ::
    "(int \<times> 16 word) list \<Rightarrow> (int \<times> 16 word list) list \<Rightarrow> (int \<times> 16 word list) list \<Rightarrow> int \<times> int \<Rightarrow> PortVlanMembership option" where
  "port_membership native_vlans egress_by_port untagged_by_port port =
     (case port of (bridge_port, ifx) \<Rightarrow>
      let native_vlan = map_of native_vlans bridge_port;
          untagged = (case map_of untagged_by_port bridge_port of Some vs \<Rightarrow> vs | None \<Rightarrow> []);
          tagged = (case map_of egress_by_port bridge_port of
             Some egress \<Rightarrow> filter (\<lambda>v. v \<notin> set untagged) egress | None \<Rightarrow> [])
      in if native_vlan \<noteq> None \<or> tagged \<noteq> []
         then Some \<lparr>pvm_if_index = ifx, pvm_native_vlan = native_vlan, pvm_tagged_vlans = tagged\<rparr> else None)"

definition query_port_vlan_membership ::
    "((int \<times> int) list \<Rightarrow> (int \<times> int) list) \<Rightarrow> (int \<times> int) list SnmpCollection
     \<Rightarrow> 's transport \<Rightarrow> 's \<Rightarrow> PortVlanMembership list SnmpCollection \<times> 's" where
  "query_port_vlan_membership iter bridge_ports tr s =
     (let sf = \<lparr>sf_complete = sc_complete bridge_ports, sf_reason = sc_reason bridge_ports\<rparr> in
      if sc_records bridge_ports = [] then (from_walk [] sf, s)
      else let (pvid, _, sf, s) = walk_column tr DOT1Q_PVID sf s;
               (egress, _, sf, s) = walk_column tr DOT1Q_VLAN_CURRENT_EGRESS_PORTS sf s;
               (untagged, _, sf, s) = walk_column tr DOT1Q_VLAN_CURRENT_UNTAGGED_PORTS sf s
        in (from_walk (List.map_filter
             (port_membership (fold native_vlan_row pvid []) (fold portlist_row egress []) (fold portlist_row untagged []))
             (iter (sc_records bridge_ports))) sf, s))"

section \<open>Scalars\<close>

definition set_system_field :: "string \<Rightarrow> Value \<Rightarrow> SystemInfo \<Rightarrow> SystemInfo" where
  "set_system_field name v info =
     (if name = ''sysDescr'' then info\<lparr>si_descr := value_to_string v\<rparr>
      else if name = ''sysObjectID'' then info\<lparr>si_object_id := value_to_string v\<rparr>
      else if name = ''sysName'' then info\<lparr>si_name := value_to_string v\<rparr>
      else if name = ''sysLocation'' then info\<lparr>si_location := value_to_string v\<rparr>
      else if name = ''sysContact'' then info\<lparr>si_contact := value_to_string v\<rparr>
      else if name = ''sysUpTime'' then info\<lparr>si_uptime := value_to_u64 v\<rparr>
      else info)"

definition system_info_default :: SystemInfo where
  "system_info_default = \<lparr>si_descr = None, si_object_id = None, si_name = None, si_location = None,
     si_contact = None, si_uptime = None\<rparr>"

definition system_oids :: "(string \<times> string) list" where
  "system_oids =
     [(SYS_DESCR, ''sysDescr''), (SYS_OBJECT_ID, ''sysObjectID''), (SYS_NAME, ''sysName''),
      (SYS_LOCATION, ''sysLocation''), (SYS_CONTACT, ''sysContact''), (SYS_UPTIME, ''sysUpTime'')]"

fun query_system_oids :: "'s snmp_session \<Rightarrow> (string \<times> string) list \<Rightarrow> SystemInfo \<Rightarrow> 's \<Rightarrow> SystemInfo \<times> 's" where
  "query_system_oids S [] info s = (info, s)"
| "query_system_oids S ((oid_str, name) # os) info s =
     (case parse_oid (valid_oid S) oid_str of
        None \<Rightarrow> query_system_oids S os info s
      | Some oid \<Rightarrow>
          (case session_get S oid s of
             (Answered ((_, v) # _), s') \<Rightarrow> query_system_oids S os (set_system_field name v info) s'
           | (_, s') \<Rightarrow> query_system_oids S os info s'))"

definition query_system_info :: "'s snmp_session \<Rightarrow> 's \<Rightarrow> SystemInfo \<times> 's" where
  "query_system_info S s =
     query_system_oids S system_oids system_info_default s"

definition first_value :: "call \<Rightarrow> Value option" where
  "first_value c = (case c of Answered ((_, v) # _) \<Rightarrow> Some v | _ \<Rightarrow> None)"

text \<open>The identifiers are checked before each request: \<open>parse_oid\<close> fails the query.\<close>

definition query_lldp_local :: "'s snmp_session \<Rightarrow> 's \<Rightarrow> (unit, LldpLocalInfo option) result \<times> 's" where
  "query_lldp_local S s =
     (case parse_oid (valid_oid S) LLDP_LOC_CHASSIS_ID_SUBTYPE of
        None \<Rightarrow> (Err (), s)
      | Some subtype_oid \<Rightarrow>
          let (r1, s) = session_get S subtype_oid s;
              subtype = map_option i32_as_u8 (Option.bind (first_value r1) value_to_i32) in
          (case parse_oid (valid_oid S) LLDP_LOC_CHASSIS_ID of
             None \<Rightarrow> (Err (), s)
           | Some chassis_oid \<Rightarrow>
               let (r2, s) = session_get S chassis_oid s;
                   chassis_bytes = (case first_value r2 of Some (OctetString bytes) \<Rightarrow> Some bytes | _ \<Rightarrow> None) in
               (Ok (case (subtype, chassis_bytes) of
                  (Some t, Some bytes) \<Rightarrow> Some \<lparr>loc_chassis_id_subtype = t, loc_chassis_id_bytes = bytes\<rparr>
                | _ \<Rightarrow> None), s)))"

end
