(* ===== verification/Snmp_Collect.thy ===== *)
theory Snmp_Collect
  imports Snmp_Tables
begin

text \<open>
  The SNMP collection of one host (\<^verbatim>\<open>daemon/discovery/integration/snmp/mod.rs\<close> and the outcome types
  of \<^verbatim>\<open>daemon/discovery/service/warnings.rs\<close>): placing LLDP neighbours on interfaces, building the
  interfaces that are sent to the server, and the sequence of queries with the two interface reports
  of a collection, the one committed before the neighbour queries and the final one.

  A query that runs into its deadline is abandoned: \<open>env_deadline\<close> says whether that happens and in
  which state it leaves the session. Fresh ids, the clock and the server's answer to the VLANs are
  arguments, as are the orders in which hash maps are iterated.
\<close>

section \<open>Local ports\<close>

record LocalPortOutcome =
  unmatched :: nat
  dropped :: nat

datatype LocalPortEvidence =
  InterfaceIndex | UniqueMac | PortIdName | PortIdSuffix | PortDescName | PortDescWord

text \<open>\<open>entry(mac).and_modify(|slot| *slot = None).or_insert(Some(if_index))\<close>\<close>

definition note_mac :: "IfTableEntry \<Rightarrow> (MacAddress \<times> int option) list \<Rightarrow> (MacAddress \<times> int option) list" where
  "note_mac e by_mac =
     (case ite_if_phys_address e of
        Some mac \<Rightarrow>
          (if mac = 0 then by_mac
           else if map_of by_mac mac = None then insert_entry mac (Some (ite_if_index e)) by_mac
           else modify_entry mac (\<lambda>_. None) by_mac)
      | None \<Rightarrow> by_mac)"

definition unique_interface_macs :: "IfTableEntry list \<Rightarrow> (MacAddress \<times> int) list" where
  "unique_interface_macs if_entries =
     List.map_filter (\<lambda>(mac, slot). map_option (Pair mac) slot) (fold note_mac if_entries [])"

definition ends_with :: "string \<Rightarrow> string \<Rightarrow> bool" where
  "ends_with s p = starts_with (rev s) (rev p)"

fun split_whitespace_from :: "string \<Rightarrow> string \<Rightarrow> string list" where
  "split_whitespace_from w [] = (if w = [] then [] else [rev w])"
| "split_whitespace_from w (c # cs) =
     (if is_ascii_space c then (if w = [] then [] else [rev w]) @ split_whitespace_from [] cs
      else split_whitespace_from (c # w) cs)"

definition split_whitespace :: "string \<Rightarrow> string list" where
  "split_whitespace s = split_whitespace_from [] s"

definition entry_named :: "string \<Rightarrow> IfTableEntry \<Rightarrow> bool" where
  "entry_named text e \<longleftrightarrow> ite_if_name e = Some text \<or> ite_if_descr e = Some text"

definition named_entry :: "IfTableEntry list \<Rightarrow> string \<Rightarrow> LocalPortEvidence \<Rightarrow> (int \<times> LocalPortEvidence) option" where
  "named_entry if_entries text evidence =
     (let text = trim text in
      if text = [] then None
      else map_option (\<lambda>e. (ite_if_index e, evidence)) (find (entry_named text) if_entries))"

definition ends_at_boundary :: "string \<Rightarrow> string option \<Rightarrow> bool" where
  "ends_at_boundary text name =
     (case name of
        Some n \<Rightarrow> ends_with n (CHR '':'' # text) \<or> ends_with n (CHR ''/'' # text) | None \<Rightarrow> False)"

definition suffixed_entry :: "IfTableEntry list \<Rightarrow> string \<Rightarrow> (int \<times> LocalPortEvidence) option" where
  "suffixed_entry if_entries text =
     (let text = trim text in
      if text = [] then None
      else map_option (\<lambda>e. (ite_if_index e, PortIdSuffix))
        (find (\<lambda>e. ends_at_boundary text (ite_if_name e) \<or> ends_at_boundary text (ite_if_descr e)) if_entries))"

definition word_matches :: "IfTableEntry list \<Rightarrow> string \<Rightarrow> int list" where
  "word_matches if_entries desc =
     fold (\<lambda>word. fold (\<lambda>e matched.
         if entry_named word e \<and> ite_if_index e \<notin> set matched then matched @ [ite_if_index e] else matched) if_entries)
       (split_whitespace desc) []"

definition resolve_lldp_local_port ::
    "int \<Rightarrow> (int \<times> LldpLocalPort) list \<Rightarrow> IfTableEntry list \<Rightarrow> (MacAddress \<times> int) list \<Rightarrow> (int \<times> LocalPortEvidence) option" where
  "resolve_lldp_local_port local_port_num loc_ports if_entries unique_macs =
     Option.bind (map_of loc_ports local_port_num) (\<lambda>entry.
       let by_index = (if llp_port_id_subtype entry = Some 2
             then Option.bind (llp_port_id entry) (\<lambda>t. map_option (\<lambda>i. (i, InterfaceIndex)) (parse_i32 (trim t))) else None);
           by_mac = (if llp_port_id_subtype entry = Some 3
             then Option.bind (llp_port_id_mac entry) (\<lambda>m. map_option (\<lambda>i. (i, UniqueMac)) (map_of unique_macs m)) else None);
           by_name = Option.bind (llp_port_id entry) (\<lambda>t. named_entry if_entries t PortIdName);
           by_suffix = Option.bind (llp_port_id entry) (suffixed_entry if_entries);
           by_desc = Option.bind (llp_port_desc entry) (\<lambda>t. named_entry if_entries t PortDescName);
           by_word = Option.bind (llp_port_desc entry) (\<lambda>t.
             case word_matches if_entries t of [only] \<Rightarrow> Some (only, PortDescWord) | _ \<Rightarrow> None)
       in or_else by_index (or_else by_mac (or_else by_name (or_else by_suffix (or_else by_desc by_word)))))"

text \<open>The loop over the neighbours: who is placed, and how many are not.\<close>

fun place_neighbors ::
    "(int \<times> LldpLocalPort) list \<Rightarrow> IfTableEntry list \<Rightarrow> (MacAddress \<times> int) list \<Rightarrow> LldpNeighbor list \<Rightarrow> LldpNeighbor list \<times> nat" where
  "place_neighbors loc_ports if_entries macs [] = ([], 0)"
| "place_neighbors loc_ports if_entries macs (n # ns) =
     (let (ns', k) = place_neighbors loc_ports if_entries macs ns in
      case resolve_lldp_local_port (lldp_local_port_index n) loc_ports if_entries macs of
        Some (ifx, _) \<Rightarrow> (n\<lparr>lldp_local_port_index := ifx\<rparr> # ns', k)
      | None \<Rightarrow> (n # ns', Suc k))"

fun count_dropped_from :: "int set \<Rightarrow> int set \<Rightarrow> LldpNeighbor list \<Rightarrow> nat" where
  "count_dropped_from if_indexes claimed [] = 0"
| "count_dropped_from if_indexes claimed (n # ns) =
     (let port = lldp_local_port_index n in
      if port \<notin> if_indexes then Suc (count_dropped_from if_indexes claimed ns)
      else if port \<in> claimed then Suc (count_dropped_from if_indexes claimed ns)
      else count_dropped_from if_indexes (insert port claimed) ns)"

definition count_dropped_neighbours :: "LldpNeighbor list \<Rightarrow> IfTableEntry list \<Rightarrow> nat" where
  "count_dropped_neighbours neighbors if_entries =
     count_dropped_from (set (map ite_if_index if_entries)) {} neighbors"

definition remap_lldp_local_ports ::
    "LldpNeighbor list \<Rightarrow> (int \<times> LldpLocalPort) list \<Rightarrow> IfTableEntry list \<Rightarrow> LldpNeighbor list \<times> LocalPortOutcome" where
  "remap_lldp_local_ports neighbors loc_ports if_entries =
     (let (neighbors, k) = (if loc_ports = [] then (neighbors, 0)
            else place_neighbors loc_ports if_entries (unique_interface_macs if_entries) neighbors)
      in (neighbors, \<lparr>unmatched = k, dropped = count_dropped_neighbours neighbors if_entries\<rparr>))"

section \<open>Interfaces\<close>

definition lldp_neighbor_of :: "LldpNeighbor list \<Rightarrow> IfTableEntry \<Rightarrow> LldpNeighbor option" where
  "lldp_neighbor_of neighbors e = find (\<lambda>n. lldp_local_port_index n = ite_if_index e) neighbors"

definition cdp_neighbor_of :: "CdpNeighbor list \<Rightarrow> IfTableEntry \<Rightarrow> CdpNeighbor option" where
  "cdp_neighbor_of neighbors e = find (\<lambda>n. cdp_local_port_index n = ite_if_index e) neighbors"

definition convert_snmp_if_entry ::
    "addr_codec \<Rightarrow> uuid \<Rightarrow> datetime \<Rightarrow> IfTableEntry \<Rightarrow> uuid \<Rightarrow> LldpNeighbor list \<Rightarrow> CdpNeighbor list
     \<Rightarrow> BridgeFdbEntry list \<Rightarrow> PortVlanMembership list \<Rightarrow> (16 word \<rightharpoonup> uuid) \<Rightarrow> Interface" where
  "convert_snmp_if_entry C fresh now entry network_id lldps cdps bridge_fdb membership vlan_number_to_uuid =
     (let lldp = lldp_neighbor_of lldps entry;
          cdp = cdp_neighbor_of cdps entry;
          chassis = Option.bind lldp (\<lambda>n. Option.bind (remote_chassis_id_subtype n) (\<lambda>t.
            Option.bind (remote_chassis_id_bytes n) (chassis_from_snmp (read_mac C) t)));
          port = Option.bind lldp (\<lambda>n. Option.bind (remote_port_id_subtype n) (\<lambda>t.
            Option.bind (remote_port_id_bytes n) (port_from_snmp (read_mac C) t)));
          vlans = find (\<lambda>m. pvm_if_index m = ite_if_index entry) membership;
          macs = map (\<lambda>f. show_mac C (fdb_mac_address f))
            (filter (\<lambda>f. fdb_if_index f = Some (ite_if_index entry) \<and> fdb_status f = 3) bridge_fdb);
          vlan_uuids = Option.bind vlans (\<lambda>m.
            let vs = List.map_filter vlan_number_to_uuid (pvm_tagged_vlans m) in if vs = [] then None else Some vs)
      in new_interface fresh now
        \<lparr>if_host_id = nil_uuid, if_network_id = network_id, if_index = ite_if_index entry,
         if_descr = (case ite_if_descr entry of Some d \<Rightarrow> d | None \<Rightarrow> []),
         if_name = ite_if_name entry, if_alias = ite_if_alias entry,
         if_type = (case ite_if_type entry of Some t \<Rightarrow> t | None \<Rightarrow> 1),
         speed_bps = map_option sint (ite_if_speed entry),
         admin_status = admin_status_from_i32 (case ite_if_admin_status entry of Some x \<Rightarrow> x | None \<Rightarrow> 1),
         oper_status = oper_status_from_i32 (case ite_if_oper_status entry of Some x \<Rightarrow> x | None \<Rightarrow> 1),
         if_mac_address = ite_if_phys_address entry, if_ip_address_id = None, neighbor = None,
         lldp_chassis_id = chassis, lldp_port_id = port,
         lldp_sys_name = Option.bind lldp remote_sys_name,
         lldp_port_desc = Option.bind lldp remote_port_desc,
         lldp_mgmt_addr = Option.bind lldp remote_mgmt_addr,
         lldp_sys_desc = Option.bind lldp remote_sys_desc,
         cdp_device_id = Option.bind cdp remote_device_id,
         cdp_port_id = Option.bind cdp remote_port_id,
         cdp_platform = Option.bind cdp remote_platform,
         cdp_address = Option.bind cdp remote_address,
         fdb_macs = (if macs = [] then None else Some macs),
         native_vlan_id = Option.bind (Option.bind vlans pvm_native_vlan) vlan_number_to_uuid,
         vlan_ids = vlan_uuids\<rparr>)"

section \<open>Outcomes\<close>

datatype SnmpWalkGroup =
    GroupLldp | GroupCdp | BridgePortNumbering | BridgeForwarding | VlanMembership | ArpTable
  | GroupDeviceInventory | GroupIpAddresses | LldpLocalPorts | VlanNames

definition discards_malformed_records :: "SnmpWalkGroup \<Rightarrow> bool" where
  "discards_malformed_records g \<longleftrightarrow> g = GroupLldp \<or> g = GroupCdp"

record SnmpGroupOutcome =
  go_complete :: bool
  go_returned_any :: bool
  go_reason :: "ShortfallReason option"

definition walk_fell_short :: "SnmpGroupOutcome \<Rightarrow> SnmpWalkGroup \<Rightarrow> bool" where
  "walk_fell_short out g \<longleftrightarrow> \<not> (go_complete out \<or> discards_malformed_records g \<and> go_reason out = None)"

record SnmpCollectionOutcome =
  co_lldp :: SnmpGroupOutcome
  co_cdp :: SnmpGroupOutcome
  co_bridge_port_numbering :: SnmpGroupOutcome
  co_bridge_forwarding :: SnmpGroupOutcome
  co_vlan_membership :: SnmpGroupOutcome
  co_arp_table :: SnmpGroupOutcome
  co_device_inventory :: SnmpGroupOutcome
  co_ip_addresses :: SnmpGroupOutcome
  co_lldp_local_ports :: SnmpGroupOutcome
  co_vlan_names :: SnmpGroupOutcome

record IncompleteSnmpWalk =
  is_ip :: IpAddr
  is_group :: SnmpWalkGroup
  is_returned_any :: bool
  is_reason :: "ShortfallReason option"

definition snmp_walk_shortfalls :: "IpAddr \<Rightarrow> SnmpCollectionOutcome \<Rightarrow> IncompleteSnmpWalk list" where
  "snmp_walk_shortfalls ip out =
     (let root_failed = \<not> go_complete (co_bridge_port_numbering out) in
      map (\<lambda>(g, out, _). \<lparr>is_ip = ip, is_group = g, is_returned_any = go_returned_any out, is_reason = go_reason out\<rparr>)
        (filter (\<lambda>(g, out, report). report \<and> walk_fell_short out g)
          [(GroupLldp, co_lldp out, True), (GroupCdp, co_cdp out, True),
           (BridgePortNumbering, co_bridge_port_numbering out, True),
           (BridgeForwarding, co_bridge_forwarding out, \<not> root_failed),
           (VlanMembership, co_vlan_membership out, \<not> root_failed),
           (ArpTable, co_arp_table out, True), (GroupDeviceInventory, co_device_inventory out, True),
           (GroupIpAddresses, co_ip_addresses out, True), (LldpLocalPorts, co_lldp_local_ports out, True),
           (VlanNames, co_vlan_names out, True)]))"

record MalformedNeighbours =
  mn_ip :: IpAddr
  mn_group :: SnmpWalkGroup
  mn_discarded :: nat
  mn_kept :: nat
  mn_reason :: MalformedNeighbourReason

record UnresolvedLldpPorts =
  ul_ip :: IpAddr
  ul_unresolved :: nat
  ul_dropped :: nat
  ul_total :: nat

record IncompleteInterfaceWalk =
  iiw_ip :: IpAddr
  iiw_collected :: nat
  iiw_set_complete :: bool

section \<open>The collection\<close>

record 's snmp_env =
  env_codec :: addr_codec
  env_deadline :: "string \<Rightarrow> 's \<Rightarrow> 's option"
  env_cancelled :: bool
  env_fresh :: "int \<Rightarrow> uuid"
  env_now :: datetime
  env_upsert_vlans :: "VlanInfo list \<Rightarrow> uuid \<Rightarrow> (16 word \<rightharpoonup> uuid) option"
  env_iter_lldp :: "((int \<times> int) \<times> LldpNeighbor) list \<Rightarrow> ((int \<times> int) \<times> LldpNeighbor) list"
  env_iter_cdp :: "((int \<times> int) \<times> CdpNeighbor) list \<Rightarrow> ((int \<times> int) \<times> CdpNeighbor) list"
  env_iter_arp :: "(oid \<times> ArpEntryBuilder) list \<Rightarrow> (oid \<times> ArpEntryBuilder) list"
  env_iter_entity :: "(int \<times> PhysicalEntry) list \<Rightarrow> (int \<times> PhysicalEntry) list"
  env_iter_fdb :: "(oid \<times> FdbBuilder) list \<Rightarrow> (oid \<times> FdbBuilder) list"
  env_iter_ports :: "(int \<times> int) list \<Rightarrow> (int \<times> int) list"

definition query_or_default :: "'s snmp_env \<Rightarrow> string \<Rightarrow> 'a \<Rightarrow> ('s \<Rightarrow> 'a \<times> 's) \<Rightarrow> 's \<Rightarrow> 'a \<times> 's" where
  "query_or_default env name d q s =
     (case env_deadline env name s of Some s' \<Rightarrow> (d, s') | None \<Rightarrow> q s)"

definition ok_or_default :: "'a \<Rightarrow> (unit, 'a) result \<times> 's \<Rightarrow> 'a \<times> 's" where
  "ok_or_default d r = (case r of (Ok v, s) \<Rightarrow> (v, s) | (Err _, s) \<Rightarrow> (d, s))"

definition informative :: "SystemInfo \<Rightarrow> SystemInfo option" where
  "informative info =
     (if si_descr info \<noteq> None \<or> si_name info \<noteq> None \<or> si_object_id info \<noteq> None then Some info else None)"

text \<open>What the arguments of one \<open>replace_interfaces\<close> are.\<close>

record interface_report =
  rep_interfaces :: "Interface list"
  rep_complete :: bool
  rep_data_complete :: InterfaceDataComplete

definition group_outcome :: "'a SnmpCollection \<Rightarrow> bool \<Rightarrow> SnmpGroupOutcome" where
  "group_outcome c any = \<lparr>go_complete = sc_complete c, go_returned_any = any, go_reason = sc_reason c\<rparr>"

definition malformed :: "IpAddr \<Rightarrow> SnmpWalkGroup \<Rightarrow> 'a list SnmpCollection \<Rightarrow> MalformedNeighbours list" where
  "malformed ip g c =
     (case sc_discard_reason c of
        Some r \<Rightarrow> [\<lparr>mn_ip = ip, mn_group = g, mn_discarded = sc_discarded c,
          mn_kept = length (sc_records c), mn_reason = r\<rparr>]
      | None \<Rightarrow> [])"

record neighbor_reads =
  nr_lldp :: "LldpNeighbor list SnmpCollection"
  nr_cdp :: "CdpNeighbor list SnmpCollection"
  nr_local_ports :: "(int \<times> LldpLocalPort) list SnmpCollection"

text \<open>The neighbour queries; the local port table is read only where there is a neighbour to place.\<close>

definition read_neighbors :: "'s snmp_env \<Rightarrow> 's transport \<Rightarrow> 's \<Rightarrow> neighbor_reads \<times> 's" where
  "read_neighbors env tr s =
     (let (lldp, s) = query_or_default env ''lldp'' (collection_default []) (query_lldp_neighbors (env_iter_lldp env) tr) s;
          (cdp, s) = query_or_default env ''cdp'' (collection_default []) (query_cdp_neighbors (env_iter_cdp env) tr) s;
          (local, s) = (if sc_records lldp \<noteq> []
             then query_or_default env ''lldp_local_ports'' (collection_default [])
               (query_lldp_local_ports (read_mac (env_codec env)) tr) s
             else (collection_skipped [], s))
      in (\<lparr>nr_lldp = lldp, nr_cdp = cdp, nr_local_ports = local\<rparr>, s))"

record table_reads =
  tb_ip_addresses :: "(IpAddr \<times> IpAddrEntry) list SnmpCollection"
  tb_arp :: "ArpEntry list SnmpCollection"
  tb_inventory :: "DeviceInventory option SnmpCollection"
  tb_bridge_ports :: "(int \<times> int) list SnmpCollection"
  tb_fdb :: "BridgeFdbEntry list SnmpCollection"
  tb_vlans :: "VlanInfo list SnmpCollection"
  tb_membership :: "PortVlanMembership list SnmpCollection"
  tb_lldp_local :: "LldpLocalInfo option"

definition read_tables :: "'s snmp_env \<Rightarrow> 's snmp_session \<Rightarrow> 's \<Rightarrow> table_reads \<times> 's" where
  "read_tables env S s =
     (let tr = session_transport S;
          (ips, s) = query_or_default env ''ip_addr_table'' (collection_default []) (query_ip_addr_table tr) s;
          (arp, s) = query_or_default env ''arp'' (collection_default []) (query_arp_table (env_iter_arp env) tr) s;
          (inv, s) = query_or_default env ''entity_mib'' (collection_default None) (query_entity_physical (env_iter_entity env) tr) s;
          (ports, s) = query_or_default env ''bridge_port_mapping'' (collection_default []) (query_bridge_port_mapping tr) s;
          (fdb, s) = query_or_default env ''bridge_fdb'' (collection_default []) (query_bridge_fdb (env_iter_fdb env) ports tr) s;
          (vlans, s) = query_or_default env ''vlan_table'' (collection_default []) (query_vlan_table tr) s;
          (membership, s) = query_or_default env ''port_vlan_membership'' (collection_default [])
             (query_port_vlan_membership (env_iter_ports env) ports tr) s;
          (local, s) = query_or_default env ''lldp_local'' None (\<lambda>s. ok_or_default None (query_lldp_local S s)) s
      in (\<lparr>tb_ip_addresses = ips, tb_arp = arp, tb_inventory = inv, tb_bridge_ports = ports, tb_fdb = fdb,
           tb_vlans = vlans, tb_membership = membership, tb_lldp_local = local\<rparr>, s))"

definition vlan_uuids :: "'s snmp_env \<Rightarrow> uuid \<Rightarrow> VlanInfo list \<Rightarrow> 16 word \<rightharpoonup> uuid" where
  "vlan_uuids env network vlans =
     (if vlans = [] then Map.empty
      else case env_upsert_vlans env vlans network of Some m \<Rightarrow> m | None \<Rightarrow> Map.empty)"

definition checkpoint_report :: "'s snmp_env \<Rightarrow> uuid \<Rightarrow> IfTableWalk \<Rightarrow> interface_report" where
  "checkpoint_report env network w =
     \<lparr>rep_interfaces = map (\<lambda>e. convert_snmp_if_entry (env_codec env) (env_fresh env (ite_if_index e)) (env_now env)
        e network [] [] [] [] Map.empty) (itw_entries w),
      rep_complete = set_complete w, rep_data_complete = data_complete_none\<rparr>"

definition final_report ::
    "'s snmp_env \<Rightarrow> uuid \<Rightarrow> IfTableWalk \<Rightarrow> neighbor_reads \<Rightarrow> LldpNeighbor list \<Rightarrow> table_reads \<Rightarrow> interface_report" where
  "final_report env network w n lldps t =
     \<lparr>rep_interfaces = map (\<lambda>e. convert_snmp_if_entry (env_codec env) (env_fresh env (ite_if_index e)) (env_now env)
        e network lldps (sc_records (nr_cdp n)) (sc_records (tb_fdb t)) (sc_records (tb_membership t))
        (vlan_uuids env network (sc_records (tb_vlans t)))) (itw_entries w),
      rep_complete = set_complete w,
      rep_data_complete =
        \<lparr>dc_lldp = sc_complete (nr_lldp n) \<and> \<not> sc_unsupported (nr_lldp n), dc_cdp = sc_complete (nr_cdp n),
         dc_fdb = sc_complete (tb_fdb t), dc_vlan_membership = sc_complete (tb_membership t)\<rparr>\<rparr>"

definition collection_outcome :: "neighbor_reads \<Rightarrow> table_reads \<Rightarrow> SnmpCollectionOutcome" where
  "collection_outcome n t =
     \<lparr>co_lldp = group_outcome (nr_lldp n) (sc_records (nr_lldp n) \<noteq> []),
      co_cdp = group_outcome (nr_cdp n) (sc_records (nr_cdp n) \<noteq> []),
      co_bridge_port_numbering = group_outcome (tb_bridge_ports t) (sc_records (tb_bridge_ports t) \<noteq> []),
      co_bridge_forwarding = group_outcome (tb_fdb t) (sc_records (tb_fdb t) \<noteq> []),
      co_vlan_membership = group_outcome (tb_membership t) (sc_records (tb_membership t) \<noteq> []),
      co_arp_table = group_outcome (tb_arp t) (sc_records (tb_arp t) \<noteq> []),
      co_device_inventory = group_outcome (tb_inventory t) (sc_records (tb_inventory t) \<noteq> None),
      co_ip_addresses = group_outcome (tb_ip_addresses t) (sc_records (tb_ip_addresses t) \<noteq> []),
      co_lldp_local_ports = group_outcome (nr_local_ports n) (sc_records (nr_local_ports n) \<noteq> []),
      co_vlan_names = group_outcome (tb_vlans t) (sc_records (tb_vlans t) \<noteq> [])\<rparr>"

definition collected_nothing :: "IfTableWalk \<Rightarrow> neighbor_reads \<Rightarrow> table_reads \<Rightarrow> bool" where
  "collected_nothing w n t \<longleftrightarrow>
     itw_entries w = [] \<and> sc_records (nr_lldp n) = [] \<and> sc_records (nr_cdp n) = [] \<and> sc_records (tb_arp t) = []
     \<and> sc_records (tb_fdb t) = [] \<and> sc_records (tb_membership t) = [] \<and> sc_records (tb_vlans t) = []
     \<and> sc_records (tb_ip_addresses t) = [] \<and> sc_records (tb_inventory t) = None"

text \<open>What a collection hands on: the two interface reports and what it records for the run.\<close>

record snmp_collected =
  cl_system :: "SystemInfo option"
  cl_checkpoint :: interface_report
  cl_final :: interface_report
  cl_interface_shortfall :: "IncompleteInterfaceWalk option"
  cl_malformed :: "MalformedNeighbours list"
  cl_unresolved :: "UnresolvedLldpPorts option"
  cl_shortfalls :: "IncompleteSnmpWalk list"
  cl_nothing :: bool
  cl_tables :: table_reads

definition interface_shortfall :: "IpAddr \<Rightarrow> IfTableWalk \<Rightarrow> IncompleteInterfaceWalk option" where
  "interface_shortfall ip w =
     (if itw_entries w \<noteq> [] \<and> (\<not> set_complete w \<or> \<not> attributes_complete w)
      then Some \<lparr>iiw_ip = ip, iiw_collected = length (itw_entries w), iiw_set_complete = set_complete w\<rparr> else None)"

definition unresolved_ports :: "IpAddr \<Rightarrow> LocalPortOutcome \<Rightarrow> nat \<Rightarrow> UnresolvedLldpPorts option" where
  "unresolved_ports ip out lldp_count =
     (if unmatched out > 0 \<or> dropped out > 0
      then Some \<lparr>ul_ip = ip, ul_unresolved = unmatched out, ul_dropped = dropped out, ul_total = lldp_count\<rparr> else None)"

datatype integration_failure = IntegrationCancelled

definition snmp_collect ::
    "'s snmp_env \<Rightarrow> 's snmp_session \<Rightarrow> IpAddr \<Rightarrow> uuid \<Rightarrow> 's \<Rightarrow> (integration_failure, snmp_collected) result \<times> 's" where
  "snmp_collect env S ip network s =
     (let tr = session_transport S;
          (info, s) = query_or_default env ''system_info'' system_info_default (query_system_info S) s in
      if env_cancelled env then (Err IntegrationCancelled, s)
      else let (w, s) = query_or_default env ''if_table'' if_table_walk_default (walk_if_table tr) s;
               (n, s) = read_neighbors env tr s;
               (lldps, ports) = remap_lldp_local_ports (sc_records (nr_lldp n)) (sc_records (nr_local_ports n)) (itw_entries w);
               (t, s) = read_tables env S s
        in (Ok \<lparr>cl_system = informative info,
             cl_checkpoint = checkpoint_report env network w,
             cl_final = final_report env network w n lldps t,
             cl_interface_shortfall = interface_shortfall ip w,
             cl_malformed = malformed ip GroupLldp (nr_lldp n) @ malformed ip GroupCdp (nr_cdp n),
             cl_unresolved = unresolved_ports ip ports (length (sc_records (nr_lldp n))),
             cl_shortfalls = snmp_walk_shortfalls ip (collection_outcome n t),
             cl_nothing = collected_nothing w n t,
             cl_tables = t\<rparr>, s))"

end
