(* ===== verification/Snmp_Facts.thy ===== *)
theory Snmp_Facts
  imports Snmp_Agent Snmp_Collect
begin

text \<open>
  Facts about the table queries and the collection: which interfaces a walk of the interface table
  returns, what the completeness flags of the neighbour queries mean, the VLANs of a port as sets,
  and where LLDP neighbours end up.
\<close>

section \<open>The interface table\<close>

text \<open>The interface numbers that the rows of a column name.\<close>

definition listed :: "(oid \<times> Value) list \<Rightarrow> int set" where
  "listed entries = set (map (\<lambda>r. sub_id_i32 (last (fst r))) (filter (\<lambda>r. fst r \<noteq> []) entries))"

lemma set_if_column_index [simp]: "ite_if_index (set_if_column column v e) = ite_if_index e"
  by (simp add: set_if_column_def split: option.splits)

text \<open>Every entry of the map is the interface of its key.\<close>

definition entries_ok :: "(int \<times> IfTableEntry) list \<Rightarrow> bool" where
  "entries_ok m \<longleftrightarrow> distinct (map fst m) \<and> (\<forall>(k, e) \<in> set m. ite_if_index e = k)"

lemma upsert_cases:
  "(j, x) \<in> set (upsert_entry k d f m) \<Longrightarrow> (j, x) \<in> set m \<or> j = k \<and> (x = f d \<or> (\<exists>y. (k, y) \<in> set m \<and> x = f y))"
  by (induction k d f m rule: upsert_entry.induct) (auto split: if_splits)

lemma entries_ok_upsert:
  "entries_ok m \<Longrightarrow> entries_ok (upsert_entry i (empty_if_entry i) (set_if_column column v) m)"
  by (auto simp: entries_ok_def empty_if_entry_def dest!: upsert_cases)

lemma if_row_entries_ok: "entries_ok (ic_entries st) \<Longrightarrow> entries_ok (ic_entries (if_row column known row st))"
  by (auto simp: if_row_def Let_def entries_ok_upsert split: prod.splits option.splits)

lemma if_rows_entries_ok: "entries_ok (ic_entries st) \<Longrightarrow> entries_ok (ic_entries (fold (if_row column known) rows st))"
  by (induction rows arbitrary: st) (simp_all add: if_row_entries_ok)

lemma if_row_free:
  "keys (ic_entries (if_row column None row st)) = keys (ic_entries st) \<union> listed [row]"
  "set (column_indexes (if_row column None row st)) = set (column_indexes st) \<union> listed [row]"
  "column_foreign (if_row column None row st) = column_foreign st"
proof -
  have "listed [row] = (if fst row = [] then {} else {sub_id_i32 (last (fst row))})"
    by (auto simp: listed_def)
  then show "keys (ic_entries (if_row column None row st)) = keys (ic_entries st) \<union> listed [row]"
    "set (column_indexes (if_row column None row st)) = set (column_indexes st) \<union> listed [row]"
    "column_foreign (if_row column None row st) = column_foreign st"
    by (simp_all add: if_row_def Let_def split: prod.splits)
qed

lemma listed_Cons: "listed (r # rs) = listed [r] \<union> listed rs"
  by (auto simp: listed_def)

lemma if_rows_free:
  "keys (ic_entries (fold (if_row column None) rows st)) = keys (ic_entries st) \<union> listed rows
   \<and> set (column_indexes (fold (if_row column None) rows st)) = set (column_indexes st) \<union> listed rows
   \<and> column_foreign (fold (if_row column None) rows st) = column_foreign st"
proof (induction rows arbitrary: st)
  case Nil
  then show ?case by (simp add: listed_def)
next
  case (Cons r rs)
  then show ?case using if_row_free [of column r st] by (simp add: listed_Cons [of r rs] Un_assoc)
qed

lemma if_row_known:
  "keys (ic_entries (if_row column (Some ks) row st)) \<subseteq> keys (ic_entries st) \<union> set ks
   \<and> keys (ic_entries st) \<subseteq> keys (ic_entries (if_row column (Some ks) row st))"
  by (auto simp: if_row_def Let_def split: prod.splits)

lemma between_trans: "A \<subseteq> B \<union> S \<and> B \<subseteq> A \<Longrightarrow> B \<subseteq> C \<union> S \<and> C \<subseteq> B \<Longrightarrow> A \<subseteq> C \<union> S \<and> C \<subseteq> A"
  by blast

lemma if_rows_known:
  "keys (ic_entries (fold (if_row column (Some ks)) rows st)) \<subseteq> keys (ic_entries st) \<union> set ks
   \<and> keys (ic_entries st) \<subseteq> keys (ic_entries (fold (if_row column (Some ks)) rows st))"
proof (induction rows arbitrary: st)
  case (Cons r rs)
  show ?case unfolding fold_simps by (rule between_trans [OF Cons if_row_known])
qed simp

text \<open>The state after the index column and after any column behind it.\<close>

definition set_fixed :: "int list \<Rightarrow> if_walk_state \<Rightarrow> bool" where
  "set_fixed ks st \<longleftrightarrow> entries_ok (iw_entries st) \<and> known_if_indexes st = Some ks \<and> keys (iw_entries st) = set ks"

lemma column_done_entries_ok:
  "entries_ok (iw_entries st) \<Longrightarrow> entries_ok (iw_entries (if_column_done column rows stop st))"
  using if_rows_entries_ok [of "\<lparr>ic_entries = iw_entries st, column_indexes = [], column_foreign = 0\<rparr>"]
  by (simp add: if_column_done_def Let_def)

lemma column_done_other:
  assumes "column \<noteq> ''ifIndex''"
  shows "index_column_complete (if_column_done column rows stop st) = index_column_complete st"
    "known_if_indexes (if_column_done column rows stop st) = known_if_indexes st"
  using assms by (simp_all add: if_column_done_def Let_def)

lemma column_done_fixed:
  assumes "set_fixed ks st" "column \<noteq> ''ifIndex''"
  shows "set_fixed ks (if_column_done column rows stop st)"
proof -
  let ?c = "\<lparr>ic_entries = iw_entries st, column_indexes = [], column_foreign = 0\<rparr>"
  have "keys (ic_entries (fold (if_row column (Some ks)) rows ?c)) = set ks"
    using if_rows_known [of column ks rows ?c] assms(1) by (auto simp: set_fixed_def)
  then have "keys (iw_entries (if_column_done column rows stop st)) = set ks"
    using assms by (simp add: if_column_done_def Let_def set_fixed_def)
  then show ?thesis
    using assms column_done_entries_ok column_done_other [OF assms(2)] by (simp add: set_fixed_def)
qed

lemma index_column_done:
  fixes rows :: "(oid \<times> Value) list" and stop :: WalkStop
  defines "st \<equiv> if_column_done ''ifIndex'' rows stop if_walk_start"
  shows "index_column_complete st = Some (is_complete stop)" "foreign_rows st = 0"
    "entries_ok (iw_entries st)" "keys (iw_entries st) = listed rows"
    "listed rows \<noteq> {} \<Longrightarrow> \<exists>ks. set_fixed ks st \<and> set ks = listed rows"
    "listed rows = {} \<Longrightarrow> known_if_indexes st = None"
proof -
  let ?c = "\<lparr>ic_entries = [], column_indexes = [], column_foreign = 0\<rparr> :: if_column_state"
  have f: "keys (ic_entries (fold (if_row ''ifIndex'' None) rows ?c)) = listed rows"
    "set (column_indexes (fold (if_row ''ifIndex'' None) rows ?c)) = listed rows"
    "column_foreign (fold (if_row ''ifIndex'' None) rows ?c) = 0"
    using if_rows_free [of "''ifIndex''" rows ?c] by simp_all
  show "index_column_complete st = Some (is_complete stop)" "foreign_rows st = 0"
    using f(3) by (simp_all add: st_def if_column_done_def if_walk_start_def Let_def)
  show ok: "entries_ok (iw_entries st)"
    unfolding st_def by (rule column_done_entries_ok) (simp add: if_walk_start_def entries_ok_def)
  show k: "keys (iw_entries st) = listed rows"
    using f by (simp add: st_def if_column_done_def if_walk_start_def Let_def)
  have "known_if_indexes st =
      (if listed rows = {} then None else Some (column_indexes (fold (if_row ''ifIndex'' None) rows ?c)))"
    using f(2,3) by (auto simp: st_def if_column_done_def if_walk_start_def Let_def)
  then show "listed rows \<noteq> {} \<Longrightarrow> \<exists>ks. set_fixed ks st \<and> set ks = listed rows"
    "listed rows = {} \<Longrightarrow> known_if_indexes st = None"
    using f(2) k ok by (simp_all add: set_fixed_def)
qed

lemma walk_if_columns_keep:
  assumes "''ifIndex'' \<notin> snd ` set cs" "walk_if_columns tr cs st s = (st', s')"
  shows "index_column_complete st' = index_column_complete st"
    "entries_ok (iw_entries st) \<Longrightarrow> entries_ok (iw_entries st')"
    "set_fixed ks st \<Longrightarrow> set_fixed ks st'"
  using assms
  by (induction cs arbitrary: st s)
     (auto simp: Let_def column_done_other split: prod.splits,
       (metis column_done_entries_ok column_done_fixed)+)

definition attribute_columns :: "(string \<times> string) list" where
  "attribute_columns = tl if_columns"

lemma if_columns_split: "if_columns = (IF_INDEX, ''ifIndex'') # attribute_columns" "''ifIndex'' \<notin> snd ` set attribute_columns"
  by (simp_all add: if_columns_def attribute_columns_def)

text \<open>The interfaces of a walk are those of the index column, where it lists any.\<close>

lemma walk_if_table_set:
  assumes "walk_subtree tr IF_INDEX s = (index_rows, stop, s1)" "walk_if_table tr s = (W, s2)"
  shows "sorted (map ite_if_index (itw_entries W))" "distinct (map ite_if_index (itw_entries W))"
    "listed index_rows \<noteq> {} \<Longrightarrow> set (map ite_if_index (itw_entries W)) = listed index_rows"
    "set_complete W \<Longrightarrow> is_complete stop"
proof -
  let ?st = "if_column_done ''ifIndex'' index_rows stop if_walk_start"
  obtain st s' where st: "walk_if_columns tr attribute_columns ?st s1 = (st, s')" by fastforce
  have W: "itw_entries W = sort_key ite_if_index (map snd (iw_entries st))"
    "set_complete W = (case index_column_complete st of Some True \<Rightarrow> foreign_rows st = 0 | Some False \<Rightarrow> False | None \<Rightarrow> iw_complete st)"
    using assms st by (auto simp: walk_if_table_def if_columns_split(1) Let_def)
  note keep = walk_if_columns_keep [OF if_columns_split(2) st] and idx = index_column_done [of index_rows stop]
  have ok: "entries_ok (iw_entries st)" using keep(2) idx(3) by blast
  then have "map (ite_if_index \<circ> snd) (iw_entries st) = map fst (iw_entries st)"
    by (auto simp: entries_ok_def)
  then have numbers: "map ite_if_index (itw_entries W) = sort (map fst (iw_entries st))"
    by (simp only: W map_sort_key map_map)
  show "sorted (map ite_if_index (itw_entries W))" "distinct (map ite_if_index (itw_entries W))"
    using ok by (simp_all add: numbers entries_ok_def)
  show "set (map ite_if_index (itw_entries W)) = listed index_rows" if "listed index_rows \<noteq> {}"
    using idx(5) [OF that] keep(3) unfolding numbers by (auto simp: set_fixed_def)
  show "is_complete stop" if "set_complete W"
    using that keep(1) idx(1) by (simp add: W split: bool.splits)
qed

text \<open>
  An index column that lists nothing but ends as it should leaves the set complete, whatever
  happened to the attribute columns that the interfaces then come from.
\<close>

lemma column_done_unguarded:
  assumes "known_if_indexes st = None" "foreign_rows st = 0" "column \<noteq> ''ifIndex''"
  shows "known_if_indexes (if_column_done column rows stop st) = None"
    "foreign_rows (if_column_done column rows stop st) = 0"
  using assms if_rows_free [of column rows "\<lparr>ic_entries = iw_entries st, column_indexes = [], column_foreign = 0\<rparr>"]
  by (simp_all add: if_column_done_def Let_def)

lemma walk_if_columns_unguarded:
  assumes "''ifIndex'' \<notin> snd ` set cs" "walk_if_columns tr cs st s = (st', s')"
    "known_if_indexes st = None" "foreign_rows st = 0"
  shows "foreign_rows st' = 0"
  using assms
proof (induction cs arbitrary: st s)
  case (Cons c cs)
  obtain b n where c: "c = (b, n)" by fastforce
  obtain rows stop s1 where "walk_subtree tr b s = (rows, stop, s1)" by (metis prod_cases3)
  then show ?case
    using Cons.IH [of "if_column_done n rows stop st" s1] Cons.prems column_done_unguarded [of st n rows stop]
    by (auto simp: c)
qed simp

lemma walk_if_table_no_index:
  assumes "walk_subtree tr IF_INDEX s = (index_rows, stop, s1)" "walk_if_table tr s = (W, s2)" "listed index_rows = {}"
  shows "set_complete W \<longleftrightarrow> is_complete stop"
proof -
  let ?st = "if_column_done ''ifIndex'' index_rows stop if_walk_start"
  obtain st s' where st: "walk_if_columns tr attribute_columns ?st s1 = (st, s')" by fastforce
  have "set_complete W = (case index_column_complete st of Some True \<Rightarrow> foreign_rows st = 0 | Some False \<Rightarrow> False | None \<Rightarrow> iw_complete st)"
    using assms st by (auto simp: walk_if_table_def if_columns_split(1) Let_def)
  moreover have "foreign_rows st = 0"
    using walk_if_columns_unguarded [OF if_columns_split(2) st] index_column_done [of index_rows stop] assms(3) by simp
  moreover have "index_column_complete st = Some (is_complete stop)"
    using walk_if_columns_keep(1) [OF if_columns_split(2) st] index_column_done(1) by simp
  ultimately show ?thesis by (simp split: bool.splits)
qed

section \<open>Columns\<close>

text \<open>Why the walks of a query stopped, column by column.\<close>

fun column_stops :: "'s transport \<Rightarrow> (string \<times> string) list \<Rightarrow> 's \<Rightarrow> WalkStop list" where
  "column_stops tr [] s = []"
| "column_stops tr ((base_oid_str, _) # cs) s =
     (case walk_subtree tr base_oid_str s of (_, stop, s') \<Rightarrow> stop # column_stops tr cs s')"

lemma record_stop_complete: "sf_complete (record_stop stop sf) \<longleftrightarrow> sf_complete sf \<and> is_complete stop"
  by (simp add: record_stop_def)

lemma walk_columns_complete:
  assumes "walk_columns tr f cs a sf s = (a', sf', s')"
  shows "sf_complete sf' \<longleftrightarrow> sf_complete sf \<and> list_all is_complete (column_stops tr cs s)"
  using assms
proof (induction cs arbitrary: a sf s)
  case (Cons c cs)
  obtain b n where c: "c = (b, n)" by fastforce
  obtain rows stop s1 where "walk_subtree tr b s = (rows, stop, s1)" by (metis prod_cases3)
  then show ?case
    using Cons.IH [of "f n rows stop a" "record_stop stop sf" s1] Cons.prems
    by (auto simp: c walk_column_def record_stop_complete)
qed simp

text \<open>What each column does to a component of the state that only depends on its stop.\<close>

lemma walk_columns_unsupported:
  assumes "walk_columns tr f cs a sf s = (a', sf', s')"
    and "\<And>n rows stop a. g (f n rows stop a) \<longleftrightarrow> g a \<and> is_unsupported stop"
  shows "g a' \<longleftrightarrow> g a \<and> list_all is_unsupported (column_stops tr cs s)"
  using assms(1)
proof (induction cs arbitrary: a sf s)
  case (Cons c cs)
  obtain b n where c: "c = (b, n)" by fastforce
  obtain rows stop s1 where "walk_subtree tr b s = (rows, stop, s1)" by (metis prod_cases3)
  then show ?case
    using Cons.IH [of "f n rows stop a" "record_stop stop sf" s1] Cons.prems assms(2)
    by (auto simp: c walk_column_def)
qed simp

section \<open>LLDP\<close>

lemma lldp_row_unsupported [simp]: "all_columns_unsupported (lldp_row n r st) = all_columns_unsupported st"
  by (simp add: lldp_row_def Let_def split: prod.splits)

lemma lldp_rows_unsupported [simp]: "all_columns_unsupported (fold (lldp_row n) rs st) = all_columns_unsupported st"
  by (induction rs arbitrary: st) simp_all

lemma lldp_column_unsupported:
  "all_columns_unsupported (lldp_column n rs stop st) \<longleftrightarrow> all_columns_unsupported st \<and> is_unsupported stop"
  by (simp add: lldp_column_def Let_def)

lemma filter_parts: "length (filter P xs) + length (filter (\<lambda>x. \<not> P x) xs) = length xs"
  by (rule sum_length_filter_compl)

lemma best_reason_mem: "best_reason b xs \<in> set (b # xs)"
  by (induction xs arbitrary: b) auto

lemma dominant_None: "dominant_discard_reason g m k wt ct = None \<longleftrightarrow> g + m + k = 0"
  by (auto simp: dominant_discard_reason_def Let_def split: list.splits)

lemma dominant_cut_short:
  "dominant_discard_reason g m k wt ct = Some WalkCutShort \<longleftrightarrow> g + m + k > 0 \<and> ct"
proof -
  have "snd (best_reason x xs) \<noteq> WalkCutShort" if "WalkCutShort \<notin> snd ` set (x # xs)" for x xs
    using best_reason_mem [of x xs] that by (metis image_eqI)
  moreover have "WalkCutShort \<notin> snd ` set (filter (\<lambda>x. fst x > 0)
      [(m, if wt then UnexpectedType else IncompleteRecords), (g, GhostRows), (k, UnreadableIndex)])"
    by auto
  ultimately show ?thesis
    by (auto simp: dominant_discard_reason_def Let_def split: list.splits)
qed

lemma lldp_result_facts:
  "n \<in> set (sc_records (lldp_result m st sf)) \<Longrightarrow> has_chassis n"
  "sc_complete (lldp_result m st sf) \<longleftrightarrow> sf_complete sf \<and> sc_discarded (lldp_result m st sf) = 0"
  "sc_discarded (lldp_result m st sf) = length (filter (\<lambda>e. \<not> has_chassis (snd e)) m) + short_index st"
  "sc_unsupported (lldp_result m st sf) \<longleftrightarrow> all_columns_unsupported st \<and> sc_records (lldp_result m st sf) = []"
proof -
  have "length m - length (filter (\<lambda>e. has_chassis (snd e)) m) = length (filter (\<lambda>e. \<not> has_chassis (snd e)) m)"
    using filter_parts [of "\<lambda>e. has_chassis (snd e)" m] by simp
  then show "n \<in> set (sc_records (lldp_result m st sf)) \<Longrightarrow> has_chassis n"
    "sc_complete (lldp_result m st sf) \<longleftrightarrow> sf_complete sf \<and> sc_discarded (lldp_result m st sf) = 0"
    "sc_discarded (lldp_result m st sf) = length (filter (\<lambda>e. \<not> has_chassis (snd e)) m) + short_index st"
    "sc_unsupported (lldp_result m st sf) \<longleftrightarrow> all_columns_unsupported st \<and> sc_records (lldp_result m st sf) = []"
    by (auto simp: lldp_result_def Let_def)
qed

lemma lldp_result_reason:
  "sc_discard_reason (lldp_result m st sf) = None \<longleftrightarrow> sc_discarded (lldp_result m st sf) = 0"
proof -
  let ?lost = "filter (\<lambda>e. \<not> has_chassis (snd e)) m"
  have "length (filter (\<lambda>e. fst e \<notin> set (chassis_keys st)) ?lost) + length (filter (\<lambda>e. fst e \<in> set (chassis_keys st)) ?lost)
      = length ?lost"
    using filter_parts [of "\<lambda>e. fst e \<in> set (chassis_keys st)" ?lost] by simp
  then show ?thesis
    unfolding lldp_result_facts(3) by (simp add: lldp_result_def Let_def dominant_None)
qed

text \<open>What a query of the LLDP neighbours says about itself.\<close>

lemma query_lldp_facts:
  assumes "query_lldp_neighbors iter tr s = (c, s')"
  shows "n \<in> set (sc_records c) \<Longrightarrow> has_chassis n"
    "sc_complete c \<longleftrightarrow> list_all is_complete (column_stops tr lldp_columns s) \<and> sc_discarded c = 0"
    "sc_unsupported c \<longleftrightarrow> list_all is_unsupported (column_stops tr lldp_columns s) \<and> sc_records c = []"
    "sc_discard_reason c = None \<longleftrightarrow> sc_discarded c = 0"
proof -
  obtain st sf s1 where cols: "walk_columns tr lldp_column lldp_columns lldp_start shortfall_default s = (st, sf, s1)"
    by (metis prod_cases3)
  obtain m where c: "c = lldp_result m st sf"
    using assms cols by (auto simp: query_lldp_neighbors_def Let_def split: prod.splits)
  show "n \<in> set (sc_records c) \<Longrightarrow> has_chassis n"
    "sc_discard_reason c = None \<longleftrightarrow> sc_discarded c = 0"
    unfolding c by (rule lldp_result_facts(1), assumption) (rule lldp_result_reason)
  show "sc_complete c \<longleftrightarrow> list_all is_complete (column_stops tr lldp_columns s) \<and> sc_discarded c = 0"
    using walk_columns_complete [OF cols] unfolding c lldp_result_facts(2) by (simp add: shortfall_default_def)
  show "sc_unsupported c \<longleftrightarrow> list_all is_unsupported (column_stops tr lldp_columns s) \<and> sc_records c = []"
    using walk_columns_unsupported [OF cols, of all_columns_unsupported] lldp_column_unsupported
    unfolding c lldp_result_facts(4) by (simp add: lldp_start_def)
qed

section \<open>Where neighbours end up\<close>

text \<open>
  The neighbours that reach an interface: the first one on each port that is an interface. The
  others are what the collection counts as dropped.
\<close>

definition attached :: "LldpNeighbor list \<Rightarrow> IfTableEntry list \<Rightarrow> nat \<Rightarrow> bool" where
  "attached neighbors if_entries i \<longleftrightarrow>
     (\<exists>e \<in> set if_entries. ite_if_index e = lldp_local_port_index (neighbors ! i))
     \<and> (\<forall>j < i. lldp_local_port_index (neighbors ! j) \<noteq> lldp_local_port_index (neighbors ! i))"

lemma attached_finds:
  assumes "i < length neighbors" "attached neighbors if_entries i"
  shows "\<exists>e \<in> set if_entries. lldp_neighbor_of neighbors e = Some (neighbors ! i)"
  using assms unfolding attached_def lldp_neighbor_of_def find_Some_iff by metis

lemma found_attached:
  assumes "e \<in> set if_entries" "lldp_neighbor_of neighbors e = Some n"
  shows "\<exists>i < length neighbors. n = neighbors ! i \<and> attached neighbors if_entries i"
  using assms unfolding attached_def lldp_neighbor_of_def find_Some_iff by metis

lemma count_dropped_from:
  "count_dropped_from idx claimed ns =
     card {i. i < length ns \<and> \<not> (lldp_local_port_index (ns ! i) \<in> idx - claimed
       \<and> (\<forall>j < i. lldp_local_port_index (ns ! j) \<noteq> lldp_local_port_index (ns ! i)))}"
proof (induction ns arbitrary: claimed)
  case (Cons n ns)
  let ?p = "\<lambda>ns i. lldp_local_port_index (ns ! i)"
  let ?D = "\<lambda>claimed ns. {i. i < length ns \<and> \<not> (?p ns i \<in> idx - claimed \<and> (\<forall>j < i. ?p ns j \<noteq> ?p ns i))}"
  let ?q = "lldp_local_port_index n"
  define free where "free \<longleftrightarrow> ?q \<in> idx - claimed"
  have fin: "finite (?D c ns)" for c by simp
  have "?D claimed (n # ns) = (if free then {} else {0}) \<union> Suc ` ?D (if free then insert ?q claimed else claimed) ns"
  proof (rule set_eqI)
    fix i
    show "i \<in> ?D claimed (n # ns) \<longleftrightarrow>
        i \<in> (if free then {} else {0}) \<union> Suc ` ?D (if free then insert ?q claimed else claimed) ns"
      by (cases i) (simp_all add: free_def All_less_Suc2 Ex_less_Suc2 inj_image_mem_iff, metis)
  qed
  then have "card (?D claimed (n # ns)) = (if free then 0 else 1) + card (?D (if free then insert ?q claimed else claimed) ns)"
    using fin by (simp add: card_insert_if card_image)
  then show ?case using Cons by (auto simp: free_def Let_def)
qed simp

lemma dropped_are_unattached:
  "count_dropped_neighbours neighbors if_entries = card {i. i < length neighbors \<and> \<not> attached neighbors if_entries i}"
  unfolding count_dropped_neighbours_def count_dropped_from attached_def
  by (rule arg_cong [where f = card]) (auto simp: image_iff)

section \<open>VLANs of a port\<close>

definition vlans_at :: "(int \<times> 16 word list) list \<Rightarrow> int \<Rightarrow> 16 word list" where
  "vlans_at m p = (case map_of m p of Some vs \<Rightarrow> vs | None \<Rightarrow> [])"

text \<open>
  The rows of a port list column put a VLAN on a port: the VLAN's row has the port's bit set. Bit
  \<open>k\<close> of octet \<open>j\<close>, counted from the most significant one, stands for the port \<open>8 j + k + 1\<close>. A port
  list is short enough when it has at most the 65535 octets an SNMP string can have.
\<close>

definition on_port :: "(oid \<times> Value) list \<Rightarrow> int \<Rightarrow> 16 word \<Rightarrow> bool" where
  "on_port entries p v \<longleftrightarrow> (\<exists>suffix bytes. (suffix, OctetString bytes) \<in> set entries \<and> suffix \<noteq> []
     \<and> ucast (last suffix) = v
     \<and> (\<exists>j < length bytes. \<exists>k < 8. bit (bytes ! j) (7 - k) \<and> p = int (8 * j + k + 1)))"

definition short_octets :: "(oid \<times> Value) list \<Rightarrow> bool" where
  "short_octets entries \<longleftrightarrow> (\<forall>suffix bytes. (suffix, OctetString bytes) \<in> set entries \<longrightarrow> length bytes \<le> 65535)"

lemma vlans_at_push: "vlans_at (push_entry k v m) p = vlans_at m p @ (if p = k then [v] else [])"
  by (induction k v m rule: push_entry.induct) (auto simp: vlans_at_def)

lemma vlans_at_pushes:
  "set (vlans_at (fold (\<lambda>bp. push_entry bp v) ports m) p) = set (vlans_at m p) \<union> (if p \<in> set ports then {v} else {})"
  by (induction ports arbitrary: m) (auto simp: vlans_at_push)

lemma vlans_at_row:
  assumes "short_octets [r]"
  shows "v \<in> set (vlans_at (portlist_row r m) p) \<longleftrightarrow> v \<in> set (vlans_at m p) \<or> on_port [r] p v"
proof -
  obtain suffix val where r: "r = (suffix, val)" by fastforce
  show ?thesis
  proof (cases val)
    case (OctetString bytes)
    then have "length bytes \<le> 65535" using assms r by (simp add: short_octets_def)
    from portlist_mem [OF this] show ?thesis
      using r OctetString by (auto simp: portlist_row_def on_port_def vlans_at_pushes)
  qed (use r in \<open>auto simp: portlist_row_def on_port_def\<close>)
qed

lemma on_port_Cons: "on_port (r # rs) p v \<longleftrightarrow> on_port [r] p v \<or> on_port rs p v"
  unfolding on_port_def list.set by blast

lemma short_octets_Cons: "short_octets (r # rs) \<longleftrightarrow> short_octets [r] \<and> short_octets rs"
  by (auto simp: short_octets_def)

lemma vlans_at_rows:
  "short_octets rs \<Longrightarrow>
   v \<in> set (vlans_at (fold portlist_row rs m) p) \<longleftrightarrow> v \<in> set (vlans_at m p) \<or> on_port rs p v"
proof (induction rs arbitrary: m)
  case (Cons r rs)
  then have "short_octets [r]" "short_octets rs" using short_octets_Cons [of r rs] by auto
  then show ?case using Cons.IH [of "portlist_row r m"] by (auto simp: vlans_at_row on_port_Cons [of r rs])
qed (simp add: on_port_def)

lemma port_membership_tagged:
  assumes "short_octets egress" "short_octets untagged"
  shows "port_membership native (fold portlist_row egress []) (fold portlist_row untagged []) (bp, ifx) = Some m \<Longrightarrow>
      pvm_if_index m = ifx \<and> set (pvm_tagged_vlans m) = {v. on_port egress bp v \<and> \<not> on_port untagged bp v}"
    and "on_port egress bp v \<Longrightarrow> \<not> on_port untagged bp v \<Longrightarrow>
      port_membership native (fold portlist_row egress []) (fold portlist_row untagged []) (bp, ifx) \<noteq> None"
proof -
  let ?tagged = "case map_of (fold portlist_row egress []) bp of
      Some vs \<Rightarrow> filter (\<lambda>v. v \<notin> set (vlans_at (fold portlist_row untagged []) bp)) vs | None \<Rightarrow> []"
  have tagged: "set ?tagged = {v. on_port egress bp v \<and> \<not> on_port untagged bp v}"
    using vlans_at_rows [OF assms(1), of _ "[]" bp] vlans_at_rows [OF assms(2), of _ "[]" bp]
    by (auto simp: vlans_at_def split: option.splits)
  show "port_membership native (fold portlist_row egress []) (fold portlist_row untagged []) (bp, ifx) = Some m \<Longrightarrow>
      pvm_if_index m = ifx \<and> set (pvm_tagged_vlans m) = {v. on_port egress bp v \<and> \<not> on_port untagged bp v}"
    using tagged by (auto simp: port_membership_def vlans_at_def [symmetric] Let_def split: if_splits)
  assume "on_port egress bp v" "\<not> on_port untagged bp v"
  then have "v \<in> set ?tagged" unfolding tagged by simp
  then have "?tagged \<noteq> []" by (metis empty_iff list.set(1))
  then show "port_membership native (fold portlist_row egress []) (fold portlist_row untagged []) (bp, ifx) \<noteq> None"
    by (auto simp: port_membership_def vlans_at_def [symmetric] Let_def)
qed

lemma memberships_of_walks:
  assumes "sc_records bridge_ports \<noteq> []" "set (iter (sc_records bridge_ports)) = set (sc_records bridge_ports)"
    and "walk_subtree tr DOT1Q_PVID s = (pvid, stop1, s1)"
    and "walk_subtree tr DOT1Q_VLAN_CURRENT_EGRESS_PORTS s1 = (egress, stop2, s2)"
    and "walk_subtree tr DOT1Q_VLAN_CURRENT_UNTAGGED_PORTS s2 = (untagged, stop3, s3)"
  shows "m \<in> set (sc_records (fst (query_port_vlan_membership iter bridge_ports tr s))) \<longleftrightarrow>
    (\<exists>port \<in> set (sc_records bridge_ports). port_membership (fold native_vlan_row pvid []) (fold portlist_row egress [])
      (fold portlist_row untagged []) port = Some m)"
  using assms by (auto simp: query_port_vlan_membership_def walk_column_def from_walk_def Let_def map_filter_mem)

section \<open>What the server keeps\<close>

lemma neighbours_kept:
  assumes "\<not> dc_lldp c"
  shows "lldp_chassis_id (if_base (preserve_uncollected_data existing c i)) = lldp_chassis_id (if_base existing)"
    "lldp_port_id (if_base (preserve_uncollected_data existing c i)) = lldp_port_id (if_base existing)"
  using assms by (simp_all add: preserve_uncollected_data_def Let_def)

lemma read_neighbors_queries:
  fixes env :: "'s snmp_env" and tr :: "'s transport"
  defines "lldp \<equiv> query_or_default env ''lldp'' (collection_default []) (query_lldp_neighbors (env_iter_lldp env) tr)"
    and "cdp \<equiv> query_or_default env ''cdp'' (collection_default []) (query_cdp_neighbors (env_iter_cdp env) tr)"
  shows "nr_lldp (fst (read_neighbors env tr s)) = fst (lldp s)"
    "nr_cdp (fst (read_neighbors env tr s)) = fst (cdp (snd (lldp s)))"
  by (simp_all add: read_neighbors_def lldp_def cdp_def Let_def case_prod_beta)

text \<open>
  The queries of one collection run one after the other on one session: the interface table after
  the system information, the LLDP query in the state that the interface table leaves.
\<close>

definition if_table_of :: "'s snmp_env \<Rightarrow> 's snmp_session \<Rightarrow> 's \<Rightarrow> IfTableWalk \<times> 's" where
  "if_table_of env S s =
     query_or_default env ''if_table'' if_table_walk_default (walk_if_table (session_transport S))
       (snd (query_or_default env ''system_info'' system_info_default (query_system_info S) s))"

text \<open>The parts of a collection that went through.\<close>

lemma collect_parts:
  assumes "snmp_collect env S ip network s = (Ok c, s')"
  obtains n lldps ports t where
    "n = fst (read_neighbors env (session_transport S) (snd (if_table_of env S s)))"
    "remap_lldp_local_ports (sc_records (nr_lldp n)) (sc_records (nr_local_ports n))
       (itw_entries (fst (if_table_of env S s))) = (lldps, ports)"
    "cl_final c = final_report env network (fst (if_table_of env S s)) n lldps t"
    "cl_checkpoint c = checkpoint_report env network (fst (if_table_of env S s))"
proof -
  obtain info s1 where 1: "query_or_default env ''system_info'' system_info_default (query_system_info S) s = (info, s1)"
    by fastforce
  obtain w s2 where 2: "query_or_default env ''if_table'' if_table_walk_default (walk_if_table (session_transport S)) s1 = (w, s2)"
    by fastforce
  obtain n s3 where 3: "read_neighbors env (session_transport S) s2 = (n, s3)" by fastforce
  obtain lldps ports where 4: "remap_lldp_local_ports (sc_records (nr_lldp n)) (sc_records (nr_local_ports n)) (itw_entries w) = (lldps, ports)"
    by fastforce
  obtain t s4 where 5: "read_tables env S s3 = (t, s4)" by fastforce
  have ift: "if_table_of env S s = (w, s2)" by (simp add: if_table_of_def 1 2)
  have "cl_final c = final_report env network w n lldps t" "cl_checkpoint c = checkpoint_report env network w"
    using assms by (auto simp: snmp_collect_def Let_def 1 2 3 4 5 split: if_splits)
  then show ?thesis using that [of n lldps ports t] 3 4 by (simp add: ift)
qed

text \<open>Exactly when an LLDP query that may have been cut short by its deadline gives leave to overwrite.\<close>

lemma lldp_authority:
  assumes "query_or_default env ''lldp'' (collection_default []) (query_lldp_neighbors iter tr) t = (q, t')"
  shows "sc_complete q \<and> \<not> sc_unsupported q \<longleftrightarrow>
    env_deadline env ''lldp'' t = None \<and> list_all is_complete (column_stops tr lldp_columns t) \<and> sc_discarded q = 0
    \<and> (sc_records q \<noteq> [] \<or> \<not> list_all is_unsupported (column_stops tr lldp_columns t))"
proof (cases "env_deadline env ''lldp'' t")
  case None
  then have "query_lldp_neighbors iter tr t = (q, t')" using assms by (simp add: query_or_default_def)
  from query_lldp_facts(2,3) [OF this] show ?thesis using None by auto
next
  case (Some u)
  then have "q = collection_default []" using assms by (simp add: query_or_default_def)
  then show ?thesis using Some by (simp add: collection_default_def)
qed

lemma collect_cdp:
  assumes "snmp_collect env S ip network s = (Ok c, s')"
  shows "\<exists>q t. q = fst (query_or_default env ''cdp'' (collection_default [])
      (query_cdp_neighbors (env_iter_cdp env) (session_transport S)) t)
    \<and> dc_cdp (rep_data_complete (cl_final c)) = sc_complete q"
proof -
  obtain n lldps t where n: "n = fst (read_neighbors env (session_transport S) (snd (if_table_of env S s)))"
    and final: "cl_final c = final_report env network (fst (if_table_of env S s)) n lldps t"
    using collect_parts [OF assms] by metis
  have "dc_cdp (rep_data_complete (cl_final c)) = sc_complete (nr_cdp n)" by (simp add: final final_report_def)
  then show ?thesis
    using n read_neighbors_queries(2) [of env "session_transport S" "snd (if_table_of env S s)"] by blast
qed

end
