(* ===== verification/Permissions.thy ===== *)
theory Permissions
  imports Prelude
begin

text \<open>
  Roles, authenticated callers and permission requirements: the roles of an organization
  (\<^verbatim>\<open>backend/src/server/users/impl/permissions.rs\<close>), the entity a request was authenticated as
  (\<^verbatim>\<open>backend/src/server/auth/middleware/auth.rs\<close>), and the requirements that the handlers place on it
  (\<^verbatim>\<open>backend/src/server/auth/middleware/permissions.rs\<close>). A requirement is a type in the sources; here
  it is a value of \<open>Requirement\<close>, with one constructor per marker type and per combinator, so that the
  implementations of the requirement trait are the equations of one function. An e-mail address is its
  text. The access checks of \<^verbatim>\<open>backend/src/server/shared/validation.rs\<close> close the theory.
\<close>

section \<open>Roles\<close>

datatype UserOrgPermissions = PermOwner | PermAdmin | PermMember | PermViewer

primrec permission_rank :: "UserOrgPermissions \<Rightarrow> nat" where
  "permission_rank PermOwner = 4"
| "permission_rank PermAdmin = 3"
| "permission_rank PermMember = 2"
| "permission_rank PermViewer = 1"

instantiation UserOrgPermissions :: linorder
begin

definition less_eq_UserOrgPermissions :: "UserOrgPermissions \<Rightarrow> UserOrgPermissions \<Rightarrow> bool" where
  "less_eq_UserOrgPermissions a b \<longleftrightarrow> permission_rank a \<le> permission_rank b"

definition less_UserOrgPermissions :: "UserOrgPermissions \<Rightarrow> UserOrgPermissions \<Rightarrow> bool" where
  "less_UserOrgPermissions a b \<longleftrightarrow> permission_rank a < permission_rank b"

instance
proof
  fix x y z :: UserOrgPermissions
  show "x < y \<longleftrightarrow> x \<le> y \<and> \<not> y \<le> x" by (auto simp: less_eq_UserOrgPermissions_def less_UserOrgPermissions_def)
  show "x \<le> x" by (simp add: less_eq_UserOrgPermissions_def)
  show "x \<le> y \<Longrightarrow> y \<le> z \<Longrightarrow> x \<le> z" by (simp add: less_eq_UserOrgPermissions_def)
  show "x \<le> y \<Longrightarrow> y \<le> x \<Longrightarrow> x = y" by (cases x; cases y) (simp_all add: less_eq_UserOrgPermissions_def)
  show "x \<le> y \<or> y \<le> x" by (auto simp: less_eq_UserOrgPermissions_def)
qed

end

lemmas permission_order = less_eq_UserOrgPermissions_def less_UserOrgPermissions_def

lemma permission_top [simp]: "p \<le> PermOwner"
  by (cases p) (simp_all add: permission_order)

lemma permission_bot [simp]: "PermViewer \<le> p"
  by (cases p) (simp_all add: permission_order)

definition iter_permissions :: "UserOrgPermissions list" where
  "iter_permissions = [PermOwner, PermAdmin, PermMember, PermViewer]"

primrec permission_as_str :: "UserOrgPermissions \<Rightarrow> string" where
  "permission_as_str PermOwner = ''Owner''"
| "permission_as_str PermAdmin = ''Admin''"
| "permission_as_str PermMember = ''Member''"
| "permission_as_str PermViewer = ''Viewer''"

definition permission_from_str :: "string \<Rightarrow> UserOrgPermissions option" where
  "permission_from_str s =
     (if s = ''Owner'' then Some PermOwner
      else if s = ''Admin'' then Some PermAdmin
      else if s = ''Member'' then Some PermMember
      else if s = ''Viewer'' \<or> s = ''Visualizer'' \<or> s = ''None'' then Some PermViewer
      else None)"

definition grantable_api_key_permissions :: "UserOrgPermissions \<Rightarrow> UserOrgPermissions list" where
  "grantable_api_key_permissions self = filter (\<lambda>p. p \<le> self) iter_permissions"

definition grantable_user_permissions :: "UserOrgPermissions \<Rightarrow> UserOrgPermissions list" where
  "grantable_user_permissions self =
     (case self of PermOwner \<Rightarrow> iter_permissions
      | PermAdmin \<Rightarrow> filter (\<lambda>p. p < self) iter_permissions
      | _ \<Rightarrow> [])"

definition can_grant_api_key_permission :: "UserOrgPermissions \<Rightarrow> UserOrgPermissions \<Rightarrow> bool" where
  "can_grant_api_key_permission self target \<longleftrightarrow> target \<le> self"

definition can_grant_user_permission :: "UserOrgPermissions \<Rightarrow> UserOrgPermissions \<Rightarrow> bool" where
  "can_grant_user_permission self target \<longleftrightarrow> target \<in> set (grantable_user_permissions self)"

lemma iter_permissions_complete [simp]: "set iter_permissions = UNIV"
  by (auto simp: iter_permissions_def) (metis UserOrgPermissions.exhaust)

lemma permission_text_reads_back: "permission_from_str (permission_as_str p) = Some p"
  by (cases p) (simp_all add: permission_from_str_def)

lemma api_key_grants_listed:
  "can_grant_api_key_permission self target \<longleftrightarrow> target \<in> set (grantable_api_key_permissions self)"
  by (simp add: can_grant_api_key_permission_def grantable_api_key_permissions_def)

lemma user_grants_below:
  "can_grant_user_permission self target \<longleftrightarrow> self = PermOwner \<or> self = PermAdmin \<and> target < self"
  by (cases self) (simp_all add: can_grant_user_permission_def grantable_user_permissions_def)

section \<open>Errors\<close>

text \<open>The error responses of the authentication layer, one per constructor function of
  \<^verbatim>\<open>backend/src/server/shared/types/api.rs\<close> that the layer calls; message texts are left out.\<close>

datatype ApiError =
    PermissionDenied
  | UserRequired
  | ApiKeyRequired
  | DaemonRequired
  | NotAuthenticated
  | EmailVerificationRequired
  | OrganizationRequired
  | DaemonKeyNotYetActive
  | DaemonVersionTooOld
  | DaemonApiKeyExpired
  | DaemonApiKeyDisabled
  | EntityExpired
  | EntityDisabled
  | PaymentRequired
  | Forbidden
  | Unauthorized
  | Conflict
  | BadRequest
  | BulkEmpty
  | EntityNotFound uuid
  | EntityAccessDenied uuid
  | InternalError

section \<open>Authenticated entities\<close>

datatype AuthenticatedEntity =
    UserAuth (ua_user_id: uuid) (ua_organization_id: uuid) (ua_permissions: UserOrgPermissions)
      (ua_network_ids: "uuid list") (ua_email: string) (ua_email_verified: bool)
  | DaemonAuth (da_network_id: uuid) (da_api_key_id: uuid) (da_daemon_id: uuid) (da_version: "string option")
  | ApiKeyAuth (ka_api_key_id: uuid) (ka_user_id: uuid) (ka_organization_id: uuid)
      (ka_permissions: UserOrgPermissions) (ka_network_ids: "uuid list")
  | ExternalServiceAuth (ea_name: string)
  | SystemAuth
  | AnonymousAuth

definition entity_user_id :: "AuthenticatedEntity \<Rightarrow> uuid option" where
  "entity_user_id e =
     (case e of UserAuth u _ _ _ _ _ \<Rightarrow> Some u | ApiKeyAuth _ u _ _ _ \<Rightarrow> Some u | _ \<Rightarrow> None)"

definition entity_organization_id :: "AuthenticatedEntity \<Rightarrow> uuid option" where
  "entity_organization_id e =
     (case e of UserAuth _ org _ _ _ _ \<Rightarrow> Some org | ApiKeyAuth _ _ org _ _ \<Rightarrow> Some org | _ \<Rightarrow> None)"

definition entity_permissions :: "AuthenticatedEntity \<Rightarrow> UserOrgPermissions option" where
  "entity_permissions e =
     (case e of UserAuth _ _ p _ _ _ \<Rightarrow> Some p | ApiKeyAuth _ _ _ p _ \<Rightarrow> Some p | _ \<Rightarrow> None)"

definition auth_entity_name :: "AuthenticatedEntity \<Rightarrow> string" where
  "auth_entity_name e =
     (case e of UserAuth _ _ _ _ _ _ \<Rightarrow> ''user''
      | DaemonAuth _ _ _ _ \<Rightarrow> ''daemon''
      | ApiKeyAuth _ _ _ _ _ \<Rightarrow> ''api_key''
      | ExternalServiceAuth n \<Rightarrow> ''external_service:'' @ n
      | SystemAuth \<Rightarrow> ''system''
      | AnonymousAuth \<Rightarrow> ''anonymous'')"

definition entity_id :: "AuthenticatedEntity \<Rightarrow> uuid option" where
  "entity_id e =
     (case e of UserAuth u _ _ _ _ _ \<Rightarrow> Some u
      | DaemonAuth _ _ d _ \<Rightarrow> Some d
      | ApiKeyAuth k _ _ _ _ \<Rightarrow> Some k
      | _ \<Rightarrow> None)"

definition entity_network_ids :: "AuthenticatedEntity \<Rightarrow> uuid list" where
  "entity_network_ids e =
     (case e of DaemonAuth n _ _ _ \<Rightarrow> [n]
      | UserAuth _ _ _ ns _ _ \<Rightarrow> ns
      | ApiKeyAuth _ _ _ _ ns \<Rightarrow> ns
      | _ \<Rightarrow> [])"

definition has_network_access :: "AuthenticatedEntity \<Rightarrow> uuid \<Rightarrow> bool" where
  "has_network_access e n \<longleftrightarrow> n \<in> set (entity_network_ids e)"

definition entity_email :: "AuthenticatedEntity \<Rightarrow> string option" where
  "entity_email e = (case e of UserAuth _ _ _ _ m _ \<Rightarrow> Some m | _ \<Rightarrow> None)"

definition entity_daemon_id :: "AuthenticatedEntity \<Rightarrow> uuid option" where
  "entity_daemon_id e = (case e of DaemonAuth _ _ d _ \<Rightarrow> Some d | _ \<Rightarrow> None)"

definition entity_daemon_version :: "AuthenticatedEntity \<Rightarrow> string option" where
  "entity_daemon_version e = (case e of DaemonAuth _ _ _ v \<Rightarrow> v | _ \<Rightarrow> None)"

definition entity_email_verified :: "AuthenticatedEntity \<Rightarrow> bool" where
  "entity_email_verified e = (case e of UserAuth _ _ _ _ _ v \<Rightarrow> v | _ \<Rightarrow> True)"

lemmas entity_defs = entity_user_id_def entity_organization_id_def entity_permissions_def
  entity_network_ids_def entity_email_verified_def

section \<open>Requirements\<close>

datatype Requirement =
    RequireViewer
  | RequireMember
  | RequireAdmin
  | RequireOwner
  | IsUser
  | IsApiKey
  | IsDaemon
  | IsSystem
  | IsExternalService "string option"
  | OrRequirement Requirement Requirement
  | AndRequirement Requirement Requirement
  | RequireVerified Requirement

definition require_level :: "UserOrgPermissions \<Rightarrow> AuthenticatedEntity \<Rightarrow> (ApiError, unit) result" where
  "require_level level e =
     (case e of UserAuth _ _ p _ _ _ \<Rightarrow> (if level \<le> p then Ok () else Err PermissionDenied)
      | ApiKeyAuth _ _ _ p _ \<Rightarrow> (if level \<le> p then Ok () else Err PermissionDenied)
      | _ \<Rightarrow> Err PermissionDenied)"

fun check_requirement :: "Requirement \<Rightarrow> AuthenticatedEntity \<Rightarrow> (ApiError, unit) result" where
  "check_requirement RequireViewer e = require_level PermViewer e"
| "check_requirement RequireMember e = require_level PermMember e"
| "check_requirement RequireAdmin e = require_level PermAdmin e"
| "check_requirement RequireOwner e = require_level PermOwner e"
| "check_requirement IsUser e = (case e of UserAuth _ _ _ _ _ _ \<Rightarrow> Ok () | _ \<Rightarrow> Err UserRequired)"
| "check_requirement IsApiKey e = (case e of ApiKeyAuth _ _ _ _ _ \<Rightarrow> Ok () | _ \<Rightarrow> Err ApiKeyRequired)"
| "check_requirement IsDaemon e = (case e of DaemonAuth _ _ _ _ \<Rightarrow> Ok () | _ \<Rightarrow> Err DaemonRequired)"
| "check_requirement IsSystem e = (case e of SystemAuth \<Rightarrow> Ok () | _ \<Rightarrow> Err PermissionDenied)"
| "check_requirement (IsExternalService required_name) e =
     (case e of ExternalServiceAuth name \<Rightarrow>
        (case required_name of
           Some r \<Rightarrow> (if to_lowercase name \<noteq> r then Err PermissionDenied else Ok ())
         | None \<Rightarrow> Ok ())
      | _ \<Rightarrow> Err PermissionDenied)"
| "check_requirement (OrRequirement a b) e =
     (if check_requirement a e = Ok () \<or> check_requirement b e = Ok () then Ok () else Err PermissionDenied)"
| "check_requirement (AndRequirement a b) e =
     (case check_requirement a e of Err x \<Rightarrow> Err x | Ok _ \<Rightarrow> check_requirement b e)"
| "check_requirement (RequireVerified p) e = check_requirement p e"

fun allows_unverified :: "Requirement \<Rightarrow> bool" where
  "allows_unverified (OrRequirement a b) = (allows_unverified a \<or> allows_unverified b)"
| "allows_unverified (AndRequirement a b) = (allows_unverified a \<and> allows_unverified b)"
| "allows_unverified (RequireVerified p) = False"
| "allows_unverified _ = True"

text \<open>The extractor: authenticate, check the requirement, then the e-mail address.\<close>

definition authorize ::
  "Requirement \<Rightarrow> (ApiError, AuthenticatedEntity) result \<Rightarrow> (ApiError, AuthenticatedEntity) result" where
  "authorize p extracted =
     (case extracted of Err x \<Rightarrow> Err x
      | Ok e \<Rightarrow>
        (case check_requirement p e of Err x \<Rightarrow> Err x
         | Ok _ \<Rightarrow>
           (if \<not> allows_unverified p \<and> \<not> entity_email_verified e then Err EmailVerificationRequired
            else Ok e)))"

text \<open>The upgrade guard of \<open>into_permission\<close>: one rule per implementation of the marker trait.\<close>

inductive satisfies :: "Requirement \<Rightarrow> Requirement \<Rightarrow> bool" where
  owner_owner: "satisfies RequireOwner RequireOwner"
| owner_admin: "satisfies RequireOwner RequireAdmin"
| owner_member: "satisfies RequireOwner RequireMember"
| owner_viewer: "satisfies RequireOwner RequireViewer"
| admin_admin: "satisfies RequireAdmin RequireAdmin"
| admin_member: "satisfies RequireAdmin RequireMember"
| admin_viewer: "satisfies RequireAdmin RequireViewer"
| member_member: "satisfies RequireMember RequireMember"
| member_viewer: "satisfies RequireMember RequireViewer"
| viewer_viewer: "satisfies RequireViewer RequireViewer"
| verified: "satisfies p q \<Longrightarrow> satisfies (RequireVerified p) q"
| conjunction: "satisfies b q \<Longrightarrow> satisfies (AndRequirement a b) q"

inductive_simps satisfies_simps:
  "satisfies RequireOwner q" "satisfies RequireAdmin q" "satisfies RequireMember q" "satisfies RequireViewer q"
  "satisfies (RequireVerified p) q" "satisfies (AndRequirement a b) q" "satisfies (OrRequirement a b) q"
  "satisfies IsUser q" "satisfies IsApiKey q" "satisfies IsDaemon q" "satisfies IsSystem q"
  "satisfies (IsExternalService n) q"

section \<open>Access checks\<close>

definition validate_network_access :: "uuid option \<Rightarrow> uuid list \<Rightarrow> (ApiError, unit) result" where
  "validate_network_access network_id user_network_ids =
     (case network_id of Some n \<Rightarrow>
        (if n \<notin> set user_network_ids then Err (EntityAccessDenied n) else Ok ())
      | None \<Rightarrow> Ok ())"

fun validate_network_ids_access :: "uuid list \<Rightarrow> uuid list \<Rightarrow> (ApiError, unit) result" where
  "validate_network_ids_access [] user_network_ids = Ok ()"
| "validate_network_ids_access (n # ns) user_network_ids =
     (if n \<notin> set user_network_ids then Err (EntityAccessDenied n)
      else validate_network_ids_access ns user_network_ids)"

definition validate_organization_access :: "uuid option \<Rightarrow> uuid \<Rightarrow> (ApiError, unit) result" where
  "validate_organization_access entity_organization user_organization_id =
     (case entity_organization of Some org \<Rightarrow>
        (if org \<noteq> user_organization_id then Err (EntityAccessDenied org) else Ok ())
      | None \<Rightarrow> Ok ())"

definition validate_create_access ::
  "uuid option \<Rightarrow> uuid option \<Rightarrow> uuid list \<Rightarrow> uuid \<Rightarrow> (ApiError, unit) result" where
  "validate_create_access network_id org network_ids user_org =
     (case validate_network_access network_id network_ids of Err x \<Rightarrow> Err x
      | Ok _ \<Rightarrow> validate_organization_access org user_org)"

definition validate_read_access ::
  "uuid option \<Rightarrow> uuid option \<Rightarrow> uuid list \<Rightarrow> uuid \<Rightarrow> (ApiError, unit) result" where
  "validate_read_access network_id org network_ids user_org =
     (case validate_network_access network_id network_ids of Err x \<Rightarrow> Err x
      | Ok _ \<Rightarrow> validate_organization_access org user_org)"

definition validate_delete_access ::
  "uuid option \<Rightarrow> uuid option \<Rightarrow> uuid list \<Rightarrow> uuid \<Rightarrow> (ApiError, unit) result" where
  "validate_delete_access network_id org network_ids user_org =
     (case network_id of
        Some n \<Rightarrow> if n \<notin> set network_ids then Err (EntityAccessDenied n)
                  else validate_organization_access org user_org
      | None \<Rightarrow> validate_organization_access org user_org)"

definition validate_bulk_delete_access ::
  "uuid option \<Rightarrow> uuid option \<Rightarrow> uuid list \<Rightarrow> uuid \<Rightarrow> (ApiError, unit) result" where
  "validate_bulk_delete_access = validate_delete_access"

definition validate_update_access ::
  "uuid option \<Rightarrow> uuid option \<Rightarrow> uuid option \<Rightarrow> uuid option \<Rightarrow> uuid list \<Rightarrow> uuid \<Rightarrow> (ApiError, unit) result" where
  "validate_update_access existing_network existing_org new_network new_org network_ids user_org =
     (case validate_delete_access existing_network existing_org network_ids user_org of Err x \<Rightarrow> Err x
      | Ok _ \<Rightarrow> validate_delete_access new_network new_org network_ids user_org)"

lemma network_ids_access_iff: "validate_network_ids_access ns us = Ok () \<longleftrightarrow> set ns \<subseteq> set us"
  by (induction ns us rule: validate_network_ids_access.induct) auto

lemma network_access_iff: "validate_network_access n us = Ok () \<longleftrightarrow> set_option n \<subseteq> set us"
  by (auto simp: validate_network_access_def split: option.splits)

lemma delete_access_iff:
  "validate_delete_access n org us uorg = Ok () \<longleftrightarrow> set_option n \<subseteq> set us \<and> set_option org \<subseteq> {uorg}"
  by (auto simp: validate_delete_access_def validate_organization_access_def split: option.splits)

lemma update_access_iff:
  "validate_update_access n org n' org' us uorg = Ok () \<longleftrightarrow>
     set_option n \<union> set_option n' \<subseteq> set us \<and> set_option org \<union> set_option org' \<subseteq> {uorg}"
proof -
  have "validate_delete_access n org us uorg = Err x \<Longrightarrow> \<not> (set_option n \<subseteq> set us \<and> set_option org \<subseteq> {uorg})" for x
    using delete_access_iff [of n org us uorg] by simp
  then show ?thesis using delete_access_iff [of n org us uorg] delete_access_iff [of n' org' us uorg]
    by (auto simp: validate_update_access_def split: sum.splits)
qed

section \<open>What the requirements admit\<close>

lemma require_level_iff: "require_level l e = Ok () \<longleftrightarrow> (\<exists>p. entity_permissions e = Some p \<and> l \<le> p)"
  by (cases e) (auto simp: require_level_def entity_permissions_def)

lemma require_level_result: "require_level l e = Ok () \<or> require_level l e = Err PermissionDenied"
  by (cases e) (auto simp: require_level_def)

primrec requirement_of_level :: "UserOrgPermissions \<Rightarrow> Requirement" where
  "requirement_of_level PermOwner = RequireOwner"
| "requirement_of_level PermAdmin = RequireAdmin"
| "requirement_of_level PermMember = RequireMember"
| "requirement_of_level PermViewer = RequireViewer"

lemma check_level [simp]: "check_requirement (requirement_of_level l) e = require_level l e"
  by (cases l) simp_all

lemma satisfies_level: "satisfies (requirement_of_level a) (requirement_of_level b) \<longleftrightarrow> b \<le> a"
  by (cases a; cases b) (simp_all add: satisfies_simps permission_order)

lemma satisfies_target_is_level: "satisfies p q \<Longrightarrow> \<exists>l. q = requirement_of_level l"
  by (induction rule: satisfies.induct) (metis requirement_of_level.simps)+

lemma satisfies_check:
  assumes "satisfies p q" and "check_requirement p e = Ok ()"
  shows "check_requirement q e = Ok ()"
  using assms
  by (induction rule: satisfies.induct)
     (auto simp: require_level_iff permission_order split: sum.splits)

lemma authorize_Ok_iff:
  "authorize p r = Ok e \<longleftrightarrow>
     r = Ok e \<and> check_requirement p e = Ok () \<and> (allows_unverified p \<or> entity_email_verified e)"
  by (auto simp: authorize_def split: sum.splits if_splits)

lemma authorize_into_permission:
  assumes "satisfies p q" and "authorize p r = Ok e"
  shows "authorize q r = Ok e"
proof -
  obtain l where "q = requirement_of_level l" using satisfies_target_is_level [OF assms(1)] by blast
  then have "allows_unverified q" by (cases l) simp_all
  then show ?thesis using assms satisfies_check [OF assms(1)] by (simp add: authorize_Ok_iff)
qed

lemma authorize_and:
  "authorize (AndRequirement a b) r = Ok e \<longleftrightarrow> authorize a r = Ok e \<and> authorize b r = Ok e"
  by (auto simp: authorize_Ok_iff split: sum.splits)

lemma authorize_or_of_allowing:
  assumes "allows_unverified a = allows_unverified b"
  shows "authorize (OrRequirement a b) r = Ok e \<longleftrightarrow> authorize a r = Ok e \<or> authorize b r = Ok e"
  using assms by (auto simp: authorize_Ok_iff split: if_splits)

text \<open>With operands of different strictness the disjunction takes the laxer e-mail rule for both.\<close>

lemma or_forgets_verification:
  "authorize (OrRequirement (RequireVerified RequireMember) IsDaemon)
     (Ok (UserAuth 1 2 PermMember [] ''m'' False)) = Ok (UserAuth 1 2 PermMember [] ''m'' False)
   \<and> authorize (RequireVerified RequireMember) (Ok (UserAuth 1 2 PermMember [] ''m'' False)) = Err EmailVerificationRequired
   \<and> authorize IsDaemon (Ok (UserAuth 1 2 PermMember [] ''m'' False)) = Err DaemonRequired"
  by (simp add: authorize_def require_level_def permission_order entity_email_verified_def)

end
