(* ===== verification/Accounts.thy ===== *)
theory Accounts
  imports Permissions Storage
begin

text \<open>
  The state behind authentication, and the accounts of the users: the tables of users, API keys and their
  network grants, with the constraints of \<^verbatim>\<open>backend/migrations\<close> that the code relies on, the
  user handlers of \<^verbatim>\<open>backend/src/server/users/handlers.rs\<close>, and the password and e-mail flows
  of \<^verbatim>\<open>backend/src/server/auth/service.rs\<close>.

  \<^item> A row that is read back from its table has no network grants in it (they live in a table of their
    own) and derives \<open>has_password\<close> from the hash: \<open>user_row\<close> and \<open>user_key_row\<close> are what storing and
    loading does to a value.
  \<^item> Fields that the deserializer skips have their default value in every request body:
    \<open>user_from_body\<close>.
  \<^item> Password hashing, random tokens and the clock are arguments of the operations that use them. Events,
    tags and message texts are left out; a failing statement, or an \<open>unwrap\<close> that panics, is the error
    \<open>InternalError\<close>. The maintainer of a daemon, which a trigger of the database hands to another owner
    when a user is deleted, is left out too.
\<close>

section \<open>Records\<close>

record EmailSettings =
  discovery_digest :: bool
  product_onboarding :: bool
  daemon_alerts :: bool
  trial_and_usage :: bool

record User =
  usr_id :: uuid
  usr_created_at :: datetime
  usr_updated_at :: datetime
  usr_email :: string
  usr_organization_id :: uuid
  usr_permissions :: UserOrgPermissions
  usr_password_hash :: "string option"
  usr_has_password :: bool
  usr_oidc_provider :: "string option"
  usr_oidc_subject :: "string option"
  usr_oidc_linked_at :: "datetime option"
  usr_network_ids :: "uuid list"
  usr_terms_accepted_at :: "datetime option"
  usr_email_verified :: bool
  usr_email_verification_token :: "string option"
  usr_email_verification_expires :: "datetime option"
  usr_password_reset_token :: "string option"
  usr_password_reset_expires :: "datetime option"
  usr_pending_email :: "string option"
  usr_email_settings :: EmailSettings
  usr_session_epoch :: int

record DaemonApiKey =
  dk_id :: uuid
  dk_created_at :: datetime
  dk_updated_at :: datetime
  dk_key :: string
  dk_name :: string
  dk_last_used :: "datetime option"
  dk_expires_at :: "datetime option"
  dk_network_id :: uuid
  dk_is_enabled :: bool
  dk_daemon_id :: "uuid option"
  dk_plaintext :: "string option"

record UserApiKey =
  uk_id :: uuid
  uk_created_at :: datetime
  uk_updated_at :: datetime
  uk_key :: string
  uk_name :: string
  uk_user_id :: uuid
  uk_organization_id :: uuid
  uk_permissions :: UserOrgPermissions
  uk_last_used :: "datetime option"
  uk_expires_at :: "datetime option"
  uk_is_enabled :: bool
  uk_network_ids :: "uuid list"

record ResolvedDaemonKey =
  rk_api_key_id :: uuid
  rk_network_id :: uuid
  rk_daemon_id :: "uuid option"
  rk_is_enabled :: bool
  rk_expires_at :: "datetime option"

datatype BillingPlan =
    PlanCommunity | PlanFree | PlanStarter | PlanPro | PlanTeam | PlanBusiness | PlanEnterprise
  | PlanDemo | PlanCommercialSelfHosted | PlanSelfHostedStandard | PlanSelfHostedPlus

primrec plan_api_access :: "BillingPlan \<Rightarrow> bool" where
  "plan_api_access PlanCommunity = True"
| "plan_api_access PlanFree = False"
| "plan_api_access PlanStarter = False"
| "plan_api_access PlanPro = True"
| "plan_api_access PlanTeam = True"
| "plan_api_access PlanBusiness = True"
| "plan_api_access PlanEnterprise = True"
| "plan_api_access PlanDemo = True"
| "plan_api_access PlanCommercialSelfHosted = True"
| "plan_api_access PlanSelfHostedStandard = True"
| "plan_api_access PlanSelfHostedPlus = True"

text \<open>A write that a request has spawned and not waited for: the row it was given, with its changes.\<close>

datatype key_write = DaemonKeyWrite DaemonApiKey | UserKeyWrite UserApiKey

record auth_state =
  st_networks :: "(uuid \<times> uuid) list"
  st_organizations :: "(uuid \<times> BillingPlan option) list"
  st_daemons :: "(uuid \<times> uuid option) list"
  st_users :: "User list"
  st_user_networks :: "(uuid \<times> uuid) list"
  st_user_keys :: "UserApiKey list"
  st_key_networks :: "(uuid \<times> uuid) list"
  st_daemon_keys :: "DaemonApiKey list"
  st_resolutions :: "string \<rightharpoonup> ResolvedDaemonKey \<times> datetime"
  st_pending :: "key_write list"

type_synonym 'a response = "(ApiError, 'a) result \<times> auth_state"

section \<open>The users table\<close>

definition user_row :: "User \<Rightarrow> User" where
  "user_row u = u\<lparr>usr_network_ids := [], usr_has_password := usr_password_hash u \<noteq> None\<rparr>"

definition user_from_body :: "User \<Rightarrow> User" where
  "user_from_body u =
     u\<lparr>usr_password_hash := None, usr_oidc_subject := None, usr_email_verification_token := None,
       usr_email_verification_expires := None, usr_password_reset_token := None,
       usr_password_reset_expires := None, usr_pending_email := None, usr_session_epoch := 0\<rparr>"

definition emails_clash :: "User \<Rightarrow> User \<Rightarrow> bool" where
  "emails_clash a b \<longleftrightarrow> to_lowercase (usr_email a) = to_lowercase (usr_email b)"

definition oidc_clash :: "User \<Rightarrow> User \<Rightarrow> bool" where
  "oidc_clash a b \<longleftrightarrow>
     usr_oidc_provider a \<noteq> None \<and> usr_oidc_subject a \<noteq> None
     \<and> usr_oidc_provider a = usr_oidc_provider b \<and> usr_oidc_subject a = usr_oidc_subject b"

definition user_row_allowed :: "User list \<Rightarrow> User \<Rightarrow> bool" where
  "user_row_allowed us u \<longleftrightarrow>
     (\<forall>x \<in> set us. usr_id x \<noteq> usr_id u \<longrightarrow> \<not> emails_clash x u \<and> \<not> oidc_clash x u)"

definition get_user :: "auth_state \<Rightarrow> uuid \<Rightarrow> User option" where
  "get_user st i = get_by_id usr_id (st_users st) i"

definition get_user_by_email :: "auth_state \<Rightarrow> string \<Rightarrow> User option" where
  "get_user_by_email st e = find (\<lambda>u. usr_email u = e) (st_users st)"

text \<open>\<open>CrudService::update\<close>: the row must exist, and the statement must keep the unique indexes.\<close>

definition save_user :: "User \<Rightarrow> auth_state \<Rightarrow> User response" where
  "save_user u st =
     (if get_user st (usr_id u) = None then (Err InternalError, st)
      else if \<not> user_row_allowed (st_users st) u then (Err InternalError, st)
      else (Ok u, st\<lparr>st_users := update_row usr_id (st_users st) (user_row u)\<rparr>))"

definition organization_owners :: "auth_state \<Rightarrow> uuid \<Rightarrow> User list" where
  "organization_owners st org =
     filter (\<lambda>u. usr_organization_id u = org \<and> usr_permissions u = PermOwner) (st_users st)"

text \<open>The query has no \<open>ORDER BY\<close>: the networks come in whatever order the database has them, here the
  order in which they were granted.\<close>

definition get_for_user :: "auth_state \<Rightarrow> uuid \<Rightarrow> uuid list" where
  "get_for_user st u = map snd (filter (\<lambda>p. fst p = u) (st_user_networks st))"

text \<open>Replacing the grants of a user is one transaction: a network that does not exist, or one that is
  listed twice, leaves the old grants in place.\<close>

definition save_for_user :: "uuid \<Rightarrow> uuid list \<Rightarrow> auth_state \<Rightarrow> unit response" where
  "save_for_user u ns st =
     (if distinct ns \<and> set ns \<subseteq> fst ` set (st_networks st) \<and> get_user st u \<noteq> None
      then (Ok (), st\<lparr>st_user_networks := filter (\<lambda>p. fst p \<noteq> u) (st_user_networks st) @ map (Pair u) ns\<rparr>)
      else (Err InternalError, st))"

text \<open>Deleting users removes their grants, their keys and the grants of those keys.\<close>

definition remove_users :: "uuid list \<Rightarrow> auth_state \<Rightarrow> auth_state" where
  "remove_users ids st =
     (let gone = map uk_id (filter (\<lambda>k. uk_user_id k \<in> set ids) (st_user_keys st)) in
      st\<lparr>st_users := delete_many usr_id (st_users st) ids,
         st_user_networks := filter (\<lambda>p. fst p \<notin> set ids) (st_user_networks st),
         st_user_keys := filter (\<lambda>k. uk_user_id k \<notin> set ids) (st_user_keys st),
         st_key_networks := filter (\<lambda>p. fst p \<notin> set gone) (st_key_networks st)\<rparr>)"

text \<open>\<open>UserService::create\<close>; \<open>fresh\<close> is the identifier that a record without one is given.\<close>

definition create_user :: "datetime \<Rightarrow> uuid \<Rightarrow> User \<Rightarrow> auth_state \<Rightarrow> User response" where
  "create_user now fresh u st =
     (if get_user_by_email st (usr_email u) \<noteq> None then (Err InternalError, st)
      else
        let v = (if usr_id u = nil_uuid
                 then u\<lparr>usr_id := fresh, usr_created_at := now, usr_updated_at := now\<rparr> else u) in
        if get_user st (usr_id v) \<noteq> None \<or> \<not> user_row_allowed (st_users st) v then (Err InternalError, st)
        else
          let st' = st\<lparr>st_users := st_users st @ [user_row v]\<rparr> in
          if usr_network_ids u = [] then (Ok v, st')
          else (case save_for_user (usr_id v) (usr_network_ids u) st' of
                  (Err x, s) \<Rightarrow> (Err x, s) | (Ok _, s) \<Rightarrow> (Ok v, s)))"

section \<open>User handlers\<close>

definition keep_credentials :: "User \<Rightarrow> User \<Rightarrow> User" where
  "keep_credentials existing request =
     request\<lparr>usr_email := usr_email existing, usr_password_hash := usr_password_hash existing,
       usr_oidc_provider := usr_oidc_provider existing, usr_oidc_subject := usr_oidc_subject existing,
       usr_oidc_linked_at := usr_oidc_linked_at existing\<rparr>"

definition update_user :: "AuthenticatedEntity \<Rightarrow> uuid \<Rightarrow> User \<Rightarrow> auth_state \<Rightarrow> User response" where
  "update_user caller i body st =
     (case authorize IsUser (Ok caller) of Err x \<Rightarrow> (Err x, st)
      | Ok e \<Rightarrow>
     (case entity_user_id e of None \<Rightarrow> (Err InternalError, st)
      | Some auth_user_id \<Rightarrow>
        if auth_user_id \<noteq> i then (Err Unauthorized, st)
        else
     (case get_user st i of None \<Rightarrow> (Err (EntityNotFound i), st)
      | Some existing \<Rightarrow>
        let request = user_from_body body in
        if usr_organization_id request \<noteq> usr_organization_id existing then (Err PermissionDenied, st)
        else if usr_permissions request \<noteq> usr_permissions existing then (Err PermissionDenied, st)
        else save_user (keep_credentials existing request) st)))"

definition admin_update_user :: "AuthenticatedEntity \<Rightarrow> uuid \<Rightarrow> User \<Rightarrow> auth_state \<Rightarrow> User response" where
  "admin_update_user caller i body st =
     (case authorize (RequireVerified RequireAdmin) (Ok caller) of Err x \<Rightarrow> (Err x, st)
      | Ok e \<Rightarrow>
     (case (entity_user_id e, entity_permissions e) of
        (Some admin_user_id, Some admin_permissions) \<Rightarrow>
     (case get_user st i of None \<Rightarrow> (Err (EntityNotFound i), st)
      | Some existing \<Rightarrow>
        let request = user_from_body body in
        if entity_organization_id e = None then (Err InternalError, st)
        else if entity_organization_id e \<noteq> Some (usr_organization_id existing) then (Err PermissionDenied, st)
        else if admin_user_id = i then (Err PermissionDenied, st)
        else if admin_permissions \<le> usr_permissions existing then (Err PermissionDenied, st)
        else if admin_permissions \<noteq> PermOwner \<and> admin_permissions \<le> usr_permissions request
        then (Err PermissionDenied, st)
        else if usr_organization_id request \<noteq> usr_organization_id existing then (Err PermissionDenied, st)
        else
     (case save_user ((keep_credentials existing request)
                         \<lparr>usr_email_settings := usr_email_settings existing\<rparr>) st of
        (Err x, s) \<Rightarrow> (Err InternalError, s)
      | (Ok updated, s) \<Rightarrow>
     (case save_for_user i (usr_network_ids request) s of
        (Err x, s') \<Rightarrow> (Err InternalError, s')
      | (Ok _, s') \<Rightarrow> (Ok updated, s'))))
      | _ \<Rightarrow> (Err UserRequired, st)))"

text \<open>The generic delete handlers on users: users belong to an organization and to no network.\<close>

definition delete_user_handler :: "AuthenticatedEntity \<Rightarrow> uuid \<Rightarrow> auth_state \<Rightarrow> unit response" where
  "delete_user_handler e i st =
     (case entity_organization_id e of None \<Rightarrow> (Err OrganizationRequired, st)
      | Some org \<Rightarrow>
     (case get_user st i of None \<Rightarrow> (Err (EntityNotFound i), st)
      | Some u \<Rightarrow>
     (case validate_delete_access None (Some (usr_organization_id u)) (entity_network_ids e) org of
        Err x \<Rightarrow> (Err x, st)
      | Ok _ \<Rightarrow> (Ok (), remove_users [i] st))))"

definition delete_user :: "AuthenticatedEntity \<Rightarrow> uuid \<Rightarrow> auth_state \<Rightarrow> unit response" where
  "delete_user caller i st =
     (case authorize (RequireVerified RequireAdmin) (Ok caller) of Err x \<Rightarrow> (Err x, st)
      | Ok e \<Rightarrow>
     (case (entity_organization_id e, entity_permissions e) of
        (None, _) \<Rightarrow> (Err OrganizationRequired, st)
      | (Some org, None) \<Rightarrow> (Err UserRequired, st)
      | (Some org, Some permissions) \<Rightarrow>
     (case get_user st i of None \<Rightarrow> (Err InternalError, st)
      | Some target \<Rightarrow>
        if permissions < usr_permissions target then (Err Unauthorized, st)
        else if usr_permissions target = PermOwner \<and> length (organization_owners st org) = 1
        then (Err Conflict, st)
        else delete_user_handler e i st)))"

fun all_deletable :: "('r \<Rightarrow> uuid option) \<Rightarrow> ('r \<Rightarrow> uuid option) \<Rightarrow> uuid list \<Rightarrow> uuid \<Rightarrow> 'r list \<Rightarrow> (ApiError, unit) result" where
  "all_deletable net org_of nets org [] = Ok ()"
| "all_deletable net org_of nets org (r # rs) =
     (case validate_bulk_delete_access (net r) (org_of r) nets org of Err x \<Rightarrow> Err x
      | Ok _ \<Rightarrow> all_deletable net org_of nets org rs)"

definition bulk_delete_users :: "AuthenticatedEntity \<Rightarrow> uuid list \<Rightarrow> auth_state \<Rightarrow> nat response" where
  "bulk_delete_users caller ids st =
     (case authorize (RequireVerified RequireAdmin) (Ok caller) of Err x \<Rightarrow> (Err x, st)
      | Ok e \<Rightarrow>
     (case (entity_organization_id e, entity_permissions e) of
        (None, _) \<Rightarrow> (Err OrganizationRequired, st)
      | (Some org, None) \<Rightarrow> (Err UserRequired, st)
      | (Some org, Some permissions) \<Rightarrow>
        let users = filter (\<lambda>u. usr_id u \<in> set ids) (st_users st) in
        if \<exists>u \<in> set users. permissions < usr_permissions u then (Err Unauthorized, st)
        else if \<forall>u \<in> set (organization_owners st org). u \<in> set users then (Err Unauthorized, st)
        else if ids = [] then (Err BulkEmpty, st)
        else
     (case all_deletable (\<lambda>_. None) (\<lambda>u. Some (usr_organization_id u)) (entity_network_ids e) org users of
        Err x \<Rightarrow> (Err x, st)
      | Ok _ \<Rightarrow> (Ok (length users), remove_users (map usr_id users) st))))"

section \<open>Passwords and e-mail addresses\<close>

text \<open>\<open>verify\<close> checks a password against a hash and \<open>hash\<close> is the new hash; both belong to a package.\<close>

definition set_password :: "datetime \<Rightarrow> string \<Rightarrow> User \<Rightarrow> User" where
  "set_password now hash u = u\<lparr>usr_password_hash := Some hash, usr_has_password := True, usr_updated_at := now\<rparr>"

definition update_password ::
  "(string \<Rightarrow> string \<Rightarrow> bool) \<Rightarrow> string \<Rightarrow> datetime \<Rightarrow> uuid \<Rightarrow> string option \<Rightarrow> auth_state \<Rightarrow> User response" where
  "update_password verify hash now i current st =
     (case get_user st i of None \<Rightarrow> (Err InternalError, st)
      | Some u \<Rightarrow>
        let bumped = (set_password now hash u)\<lparr>usr_session_epoch := usr_session_epoch u + 1\<rparr> in
     (case usr_password_hash u of
        None \<Rightarrow> save_user bumped st
      | Some h \<Rightarrow>
        (case current of None \<Rightarrow> (Err InternalError, st)
         | Some c \<Rightarrow> if verify c h then save_user bumped st else (Err InternalError, st))))"

definition initiate_password_reset :: "string \<Rightarrow> datetime \<Rightarrow> string \<Rightarrow> auth_state \<Rightarrow> unit response" where
  "initiate_password_reset token now email st =
     (case get_user_by_email st email of None \<Rightarrow> (Ok (), st)
      | Some u \<Rightarrow>
     (case save_user (u\<lparr>usr_password_reset_token := Some token,
                        usr_password_reset_expires := Some (now + 3600 * 1000000000)\<rparr>) st of
        (Err x, s) \<Rightarrow> (Err x, s) | (Ok _, s) \<Rightarrow> (Ok (), s)))"

definition complete_password_reset :: "string \<Rightarrow> datetime \<Rightarrow> string \<Rightarrow> auth_state \<Rightarrow> User response" where
  "complete_password_reset hash now token st =
     (case find (\<lambda>u. usr_password_reset_token u = Some token) (st_users st) of
        None \<Rightarrow> (Err InternalError, st)
      | Some u \<Rightarrow>
     (case usr_password_reset_expires u of None \<Rightarrow> (Err InternalError, st)
      | Some expires \<Rightarrow>
        let cleared = u\<lparr>usr_password_reset_token := None, usr_password_reset_expires := None\<rparr> in
        if expires < now then (Err InternalError, snd (save_user cleared st))
        else save_user ((set_password now hash cleared)\<lparr>usr_session_epoch := usr_session_epoch u + 1\<rparr>) st))"

definition set_user_email_verification_params :: "string \<Rightarrow> datetime \<Rightarrow> User \<Rightarrow> auth_state \<Rightarrow> User response" where
  "set_user_email_verification_params token now u st =
     save_user (u\<lparr>usr_email_verification_token := Some token,
                  usr_email_verification_expires := Some (now + 24 * 3600 * 1000000000)\<rparr>) st"

definition request_email_change ::
  "(string \<Rightarrow> string \<Rightarrow> bool) \<Rightarrow> string \<Rightarrow> datetime \<Rightarrow> uuid \<Rightarrow> string option \<Rightarrow> string \<Rightarrow> auth_state \<Rightarrow> unit response" where
  "request_email_change verify token now i current new_email st =
     (case get_user st i of None \<Rightarrow> (Err InternalError, st)
      | Some u \<Rightarrow>
        if usr_oidc_provider u \<noteq> None then (Err InternalError, st)
        else
     (case (current, usr_password_hash u) of
        (Some c, Some h) \<Rightarrow>
          if \<not> verify c h then (Err InternalError, st)
          else if eq_ignore_ascii_case new_email (usr_email u) then (Err InternalError, st)
          else if get_user_by_email st new_email \<noteq> None then (Err InternalError, st)
          else (case set_user_email_verification_params token now (u\<lparr>usr_pending_email := Some new_email\<rparr>) st of
                  (Err x, s) \<Rightarrow> (Err x, s) | (Ok _, s) \<Rightarrow> (Ok (), s))
      | _ \<Rightarrow> (Err InternalError, st)))"

definition verify_email :: "datetime \<Rightarrow> string \<Rightarrow> auth_state \<Rightarrow> User response" where
  "verify_email now token st =
     (case find (\<lambda>u. usr_email_verification_token u = Some token) (st_users st) of
        None \<Rightarrow> (Err InternalError, st)
      | Some u \<Rightarrow>
     (case usr_email_verification_expires u of None \<Rightarrow> (Err InternalError, st)
      | Some expires \<Rightarrow>
        if expires < now then (Err InternalError, st)
        else
          let verified = u\<lparr>usr_email := (case usr_pending_email u of Some e \<Rightarrow> e | None \<Rightarrow> usr_email u),
                           usr_pending_email := None, usr_email_verified := True,
                           usr_email_verification_token := None, usr_email_verification_expires := None\<rparr> in
          save_user verified st))"

end
