(* ===== verification/Api_Keys.thy ===== *)
theory Api_Keys
  imports Accounts
begin

text \<open>
  API keys: key types and validity (\<^verbatim>\<open>backend/src/server/shared/api_key_common.rs\<close>), the resolution
  cache of the daemon keys (\<^verbatim>\<open>backend/src/server/daemon_api_keys/service.rs\<close>), and the handlers that
  create, change, rotate and delete daemon keys and user keys
  (\<^verbatim>\<open>daemon_api_keys/handlers.rs\<close> and \<^verbatim>\<open>user_api_keys/handlers.rs\<close>).

  The hash of a key, its random part and fresh identifiers are arguments. The cache is a package: its
  content is a map from hashes to resolutions with the instant they were inserted, and which entries it
  still serves is decided by an argument of the lookup (\<open>served\<close>), since it drops entries on its own.
\<close>

section \<open>Key types and validity\<close>

datatype ApiKeyType = DaemonKeyType | UserKeyType

primrec key_prefix :: "ApiKeyType \<Rightarrow> string" where
  "key_prefix DaemonKeyType = ''scp_d_''"
| "key_prefix UserKeyType = ''scp_u_''"

definition key_type_from_key :: "string \<Rightarrow> ApiKeyType \<times> bool" where
  "key_type_from_key key =
     (if starts_with key ''scp_u_'' then (UserKeyType, True)
      else if starts_with key ''scp_d_'' then (DaemonKeyType, True)
      else (DaemonKeyType, False))"

definition generate_prefixed_api_key :: "ApiKeyType \<Rightarrow> string \<Rightarrow> string" where
  "generate_prefixed_api_key kt random_part = key_prefix kt @ random_part"

definition generate_api_key_for_storage :: "(string \<Rightarrow> string) \<Rightarrow> ApiKeyType \<Rightarrow> string \<Rightarrow> string \<times> string" where
  "generate_api_key_for_storage hash kt random_part =
     (let plaintext = generate_prefixed_api_key kt random_part in (plaintext, hash plaintext))"

lemma generated_keys_keep_their_type:
  "key_type_from_key (generate_prefixed_api_key kt r) = (kt, True)"
  by (cases kt) (simp_all add: key_type_from_key_def generate_prefixed_api_key_def)

definition key_expired :: "datetime \<Rightarrow> datetime option \<Rightarrow> bool" where
  "key_expired now expires_at = (case expires_at of Some e \<Rightarrow> e < now | None \<Rightarrow> False)"

definition check_key_validity :: "ApiKeyType \<Rightarrow> datetime \<Rightarrow> bool \<Rightarrow> datetime option \<Rightarrow> (ApiError, unit) result" where
  "check_key_validity kt now enabled expires_at =
     (if key_expired now expires_at
      then Err (case kt of DaemonKeyType \<Rightarrow> DaemonApiKeyExpired | UserKeyType \<Rightarrow> EntityExpired)
      else if \<not> enabled
      then Err (case kt of DaemonKeyType \<Rightarrow> DaemonApiKeyDisabled | UserKeyType \<Rightarrow> EntityDisabled)
      else Ok ())"

lemma key_validity_iff [simp]:
  "check_key_validity kt now en ex = Ok () \<longleftrightarrow> en \<and> \<not> key_expired now ex"
  by (simp add: check_key_validity_def)

section \<open>Daemon keys\<close>

definition get_daemon_key :: "auth_state \<Rightarrow> uuid \<Rightarrow> DaemonApiKey option" where
  "get_daemon_key st i = get_by_id dk_id (st_daemon_keys st) i"

definition find_daemon_key :: "auth_state \<Rightarrow> string \<Rightarrow> DaemonApiKey option" where
  "find_daemon_key st h = find (\<lambda>k. dk_key k = h) (st_daemon_keys st)"

text \<open>Constraints of the table: the network and the daemon exist, the hash and the daemon are unique.\<close>

definition daemon_key_allowed :: "auth_state \<Rightarrow> DaemonApiKey \<Rightarrow> bool" where
  "daemon_key_allowed st k \<longleftrightarrow>
     dk_network_id k \<in> fst ` set (st_networks st)
     \<and> set_option (dk_daemon_id k) \<subseteq> fst ` set (st_daemons st)
     \<and> (\<forall>x \<in> set (st_daemon_keys st). dk_id x \<noteq> dk_id k \<longrightarrow>
          dk_key x \<noteq> dk_key k \<and> (dk_daemon_id k = None \<or> dk_daemon_id x \<noteq> dk_daemon_id k))"

definition insert_daemon_key :: "datetime \<Rightarrow> uuid \<Rightarrow> DaemonApiKey \<Rightarrow> auth_state \<Rightarrow> DaemonApiKey response" where
  "insert_daemon_key now fresh k st =
     (let v = (if dk_id k = nil_uuid
               then k\<lparr>dk_id := fresh, dk_created_at := now, dk_updated_at := now\<rparr> else k) in
      if get_daemon_key st (dk_id v) \<noteq> None \<or> \<not> daemon_key_allowed st v then (Err InternalError, st)
      else (Ok v, st\<lparr>st_daemon_keys := st_daemon_keys st @ [v]\<rparr>))"

definition save_daemon_key :: "DaemonApiKey \<Rightarrow> auth_state \<Rightarrow> DaemonApiKey response" where
  "save_daemon_key k st =
     (if get_daemon_key st (dk_id k) = None \<or> \<not> daemon_key_allowed st k then (Err InternalError, st)
      else (Ok k, st\<lparr>st_daemon_keys := update_row dk_id (st_daemon_keys st) k\<rparr>))"

text \<open>Deleting a key clears the reference that a daemon has to it.\<close>

definition remove_daemon_keys :: "uuid list \<Rightarrow> auth_state \<Rightarrow> auth_state" where
  "remove_daemon_keys ids st =
     st\<lparr>st_daemon_keys := delete_many dk_id (st_daemon_keys st) ids,
        st_daemons := map (\<lambda>(d, k). (d, case k of Some i \<Rightarrow> if i \<in> set ids then None else k | None \<Rightarrow> None))
                        (st_daemons st)\<rparr>"

definition cached_resolution ::
  "(string \<Rightarrow> datetime \<Rightarrow> datetime \<Rightarrow> bool) \<Rightarrow> datetime \<Rightarrow> string \<Rightarrow> auth_state \<Rightarrow> ResolvedDaemonKey option" where
  "cached_resolution served now h st =
     (case st_resolutions st h of
        Some (r, inserted) \<Rightarrow> (if served h inserted now then Some r else None)
      | None \<Rightarrow> None)"

definition cache_resolution :: "datetime \<Rightarrow> string \<Rightarrow> ResolvedDaemonKey \<Rightarrow> auth_state \<Rightarrow> auth_state" where
  "cache_resolution now h r st = st\<lparr>st_resolutions := (st_resolutions st)(h \<mapsto> (r, now))\<rparr>"

definition invalidate_resolution :: "string \<Rightarrow> auth_state \<Rightarrow> auth_state" where
  "invalidate_resolution h st = st\<lparr>st_resolutions := (st_resolutions st)(h := None)\<rparr>"

text \<open>Ten seconds, in nanoseconds.\<close>

definition RESOLUTION_CACHE_TTL :: int where
  "RESOLUTION_CACHE_TTL = 10 * 1000000000"

definition daemon_key_from_body :: "DaemonApiKey \<Rightarrow> DaemonApiKey" where
  "daemon_key_from_body k = k\<lparr>dk_plaintext := None\<rparr>"

definition preserve_daemon_key_fields :: "DaemonApiKey \<Rightarrow> DaemonApiKey \<Rightarrow> DaemonApiKey" where
  "preserve_daemon_key_fields request existing =
     request\<lparr>dk_key := dk_key existing, dk_last_used := dk_last_used existing,
       dk_daemon_id := dk_daemon_id existing,
       dk_plaintext := (case dk_plaintext request of None \<Rightarrow> dk_plaintext existing | Some p \<Rightarrow> Some p)\<rparr>"

definition create_daemon_api_key ::
  "(string \<Rightarrow> string) \<Rightarrow> string \<Rightarrow> datetime \<Rightarrow> uuid \<Rightarrow> AuthenticatedEntity \<Rightarrow> DaemonApiKey \<Rightarrow> auth_state
     \<Rightarrow> (string \<times> DaemonApiKey) response" where
  "create_daemon_api_key hash random_part now fresh caller body st =
     (case authorize RequireMember (Ok caller) of Err x \<Rightarrow> (Err x, st)
      | Ok e \<Rightarrow>
     (case entity_organization_id e of None \<Rightarrow> (Err OrganizationRequired, st)
      | Some _ \<Rightarrow>
     (case validate_network_access (Some (dk_network_id body)) (entity_network_ids e) of
        Err x \<Rightarrow> (Err x, st)
      | Ok _ \<Rightarrow>
     (case generate_api_key_for_storage hash DaemonKeyType random_part of (plaintext, hashed) \<Rightarrow>
     (case insert_daemon_key now fresh ((daemon_key_from_body body)\<lparr>dk_key := hashed\<rparr>) st of
        (Err x, s) \<Rightarrow> (Err InternalError, s)
      | (Ok k, s) \<Rightarrow> (Ok (plaintext, k), s))))))"

text \<open>The generic update handler, on daemon keys.\<close>

definition update_daemon_key_handler :: "AuthenticatedEntity \<Rightarrow> uuid \<Rightarrow> DaemonApiKey \<Rightarrow> auth_state \<Rightarrow> DaemonApiKey response" where
  "update_daemon_key_handler e i request st =
     (case entity_organization_id e of None \<Rightarrow> (Err OrganizationRequired, st)
      | Some org \<Rightarrow>
     (case get_daemon_key st i of None \<Rightarrow> (Err (EntityNotFound i), st)
      | Some existing \<Rightarrow>
        let k = preserve_daemon_key_fields
                  (request\<lparr>dk_id := dk_id existing, dk_created_at := dk_created_at existing\<rparr>) existing in
     (case validate_update_access (Some (dk_network_id existing)) None (Some (dk_network_id k)) None
             (entity_network_ids e) org of
        Err x \<Rightarrow> (Err x, st)
      | Ok _ \<Rightarrow> save_daemon_key k st)))"

definition update_daemon_api_key :: "AuthenticatedEntity \<Rightarrow> uuid \<Rightarrow> DaemonApiKey \<Rightarrow> auth_state \<Rightarrow> DaemonApiKey response" where
  "update_daemon_api_key caller i body st =
     (case authorize RequireMember (Ok caller) of Err x \<Rightarrow> (Err x, st)
      | Ok e \<Rightarrow>
     (case get_daemon_key st i of None \<Rightarrow> (Err (EntityNotFound i), st)
      | Some existing \<Rightarrow>
     (case validate_network_access (Some (dk_network_id existing)) (entity_network_ids e) of
        Err x \<Rightarrow> (Err x, st)
      | Ok _ \<Rightarrow>
     (case update_daemon_key_handler e i (preserve_daemon_key_fields (daemon_key_from_body body) existing) st of
        (r, s) \<Rightarrow> (r, invalidate_resolution (dk_key existing) s)))))"

definition refresh_stored_plaintext :: "string \<Rightarrow> DaemonApiKey \<Rightarrow> DaemonApiKey" where
  "refresh_stored_plaintext p k = (if dk_plaintext k \<noteq> None then k\<lparr>dk_plaintext := Some p\<rparr> else k)"

text \<open>\<open>ApiKeyService::rotate_key\<close> for daemon keys, with the access check of \<open>DaemonApiKeyService\<close>.\<close>

definition rotate_daemon_key ::
  "(string \<Rightarrow> string) \<Rightarrow> string \<Rightarrow> AuthenticatedEntity \<Rightarrow> uuid \<Rightarrow> auth_state \<Rightarrow> string response" where
  "rotate_daemon_key hash random_part e i st =
     (case get_daemon_key st i of None \<Rightarrow> (Err InternalError, st)
      | Some k \<Rightarrow>
        if dk_network_id k \<notin> set (entity_network_ids e) then (Err InternalError, st)
        else
     (case generate_api_key_for_storage hash DaemonKeyType random_part of (plaintext, hashed) \<Rightarrow>
     (case save_daemon_key (refresh_stored_plaintext plaintext (k\<lparr>dk_key := hashed\<rparr>)) st of
        (Err x, s) \<Rightarrow> (Err x, s)
      | (Ok _, s) \<Rightarrow> (Ok plaintext, s))))"

definition rotate_daemon_key_handler ::
  "(string \<Rightarrow> string) \<Rightarrow> string \<Rightarrow> AuthenticatedEntity \<Rightarrow> uuid \<Rightarrow> auth_state \<Rightarrow> string response" where
  "rotate_daemon_key_handler hash random_part caller i st =
     (case authorize RequireMember (Ok caller) of Err x \<Rightarrow> (Err x, st)
      | Ok e \<Rightarrow>
     (case rotate_daemon_key hash random_part e i st of
        (Err x, s) \<Rightarrow> (Err InternalError, s)
      | (Ok p, s) \<Rightarrow>
        (Ok p, case map_option dk_key (get_daemon_key st i) of
                 Some old \<Rightarrow> invalidate_resolution old s | None \<Rightarrow> s)))"

definition delete_daemon_key_handler :: "AuthenticatedEntity \<Rightarrow> uuid \<Rightarrow> auth_state \<Rightarrow> unit response" where
  "delete_daemon_key_handler e i st =
     (case entity_organization_id e of None \<Rightarrow> (Err OrganizationRequired, st)
      | Some org \<Rightarrow>
     (case get_daemon_key st i of None \<Rightarrow> (Err (EntityNotFound i), st)
      | Some k \<Rightarrow>
     (case validate_delete_access (Some (dk_network_id k)) None (entity_network_ids e) org of
        Err x \<Rightarrow> (Err x, st)
      | Ok _ \<Rightarrow> (Ok (), remove_daemon_keys [i] st))))"

definition delete_daemon_api_key :: "AuthenticatedEntity \<Rightarrow> uuid \<Rightarrow> auth_state \<Rightarrow> unit response" where
  "delete_daemon_api_key caller i st =
     (case authorize RequireMember (Ok caller) of Err x \<Rightarrow> (Err x, st)
      | Ok e \<Rightarrow>
        if \<exists>d \<in> set (st_daemons st). snd d = Some i then (Err Conflict, st)
        else
     (case delete_daemon_key_handler e i st of (r, s) \<Rightarrow>
        (r, case map_option dk_key (get_daemon_key st i) of
              Some h \<Rightarrow> invalidate_resolution h s | None \<Rightarrow> s)))"

definition bulk_delete_daemon_api_keys :: "AuthenticatedEntity \<Rightarrow> uuid list \<Rightarrow> auth_state \<Rightarrow> nat response" where
  "bulk_delete_daemon_api_keys caller ids st =
     (case authorize RequireMember (Ok caller) of Err x \<Rightarrow> (Err x, st)
      | Ok e \<Rightarrow>
        if \<exists>d \<in> set (st_daemons st). \<exists>i \<in> set ids. snd d = Some i then (Err Conflict, st)
        else if ids = [] then (Err BulkEmpty, st)
        else
     (case entity_organization_id e of None \<Rightarrow> (Err OrganizationRequired, st)
      | Some org \<Rightarrow>
        let ks = filter (\<lambda>k. dk_id k \<in> set ids) (st_daemon_keys st) in
     (case all_deletable (\<lambda>k. Some (dk_network_id k)) (\<lambda>_. None) (entity_network_ids e) org ks of
        Err x \<Rightarrow> (Err x, st)
      | Ok _ \<Rightarrow> (Ok (length ks), remove_daemon_keys (map dk_id ks) st))))"

section \<open>User keys\<close>

definition user_key_row :: "UserApiKey \<Rightarrow> UserApiKey" where
  "user_key_row k = k\<lparr>uk_network_ids := []\<rparr>"

definition get_user_key :: "auth_state \<Rightarrow> uuid \<Rightarrow> UserApiKey option" where
  "get_user_key st i = get_by_id uk_id (st_user_keys st) i"

text \<open>The query has no \<open>ORDER BY\<close>: the networks come in whatever order the database has them, here the
  order in which they were granted.\<close>

definition get_for_key :: "auth_state \<Rightarrow> uuid \<Rightarrow> uuid list" where
  "get_for_key st i = map snd (filter (\<lambda>p. fst p = i) (st_key_networks st))"

definition get_by_key :: "auth_state \<Rightarrow> string \<Rightarrow> UserApiKey option" where
  "get_by_key st h =
     map_option (\<lambda>k. k\<lparr>uk_network_ids := get_for_key st (uk_id k)\<rparr>)
       (find (\<lambda>k. uk_key k = h) (st_user_keys st))"

definition user_key_allowed :: "auth_state \<Rightarrow> UserApiKey \<Rightarrow> bool" where
  "user_key_allowed st k \<longleftrightarrow>
     get_user st (uk_user_id k) \<noteq> None
     \<and> uk_organization_id k \<in> fst ` set (st_organizations st)
     \<and> (\<forall>x \<in> set (st_user_keys st). uk_id x \<noteq> uk_id k \<longrightarrow> uk_key x \<noteq> uk_key k)"

definition save_user_key :: "UserApiKey \<Rightarrow> auth_state \<Rightarrow> UserApiKey response" where
  "save_user_key k st =
     (if get_user_key st (uk_id k) = None \<or> \<not> user_key_allowed st k then (Err InternalError, st)
      else (Ok k, st\<lparr>st_user_keys := update_row uk_id (st_user_keys st) (user_key_row k)\<rparr>))"

definition save_for_key :: "uuid \<Rightarrow> uuid list \<Rightarrow> auth_state \<Rightarrow> unit response" where
  "save_for_key i ns st =
     (if distinct ns \<and> set ns \<subseteq> fst ` set (st_networks st) \<and> get_user_key st i \<noteq> None
      then (Ok (), st\<lparr>st_key_networks := filter (\<lambda>p. fst p \<noteq> i) (st_key_networks st) @ map (Pair i) ns\<rparr>)
      else (Err InternalError, st))"

definition remove_user_keys :: "uuid list \<Rightarrow> auth_state \<Rightarrow> auth_state" where
  "remove_user_keys ids st =
     st\<lparr>st_user_keys := delete_many uk_id (st_user_keys st) ids,
        st_key_networks := filter (\<lambda>p. fst p \<notin> set ids) (st_key_networks st)\<rparr>"

definition validate_permissions :: "UserOrgPermissions \<Rightarrow> UserOrgPermissions \<Rightarrow> bool" where
  "validate_permissions key_permissions user_permissions \<longleftrightarrow> \<not> user_permissions < key_permissions"

definition create_with_networks ::
  "datetime \<Rightarrow> uuid \<Rightarrow> UserApiKey \<Rightarrow> uuid list \<Rightarrow> auth_state \<Rightarrow> UserApiKey response" where
  "create_with_networks now fresh k ns st =
     (let v = (if uk_id k = nil_uuid
               then k\<lparr>uk_id := fresh, uk_created_at := now, uk_updated_at := now\<rparr> else k) in
      if get_user_key st (uk_id v) \<noteq> None \<or> \<not> user_key_allowed st v then (Err InternalError, st)
      else
        let s = st\<lparr>st_user_keys := st_user_keys st @ [user_key_row v]\<rparr> in
        if ns = [] then (Ok (v\<lparr>uk_network_ids := ns\<rparr>), s)
        else (case save_for_key (uk_id v) ns s of
                (Err x, s') \<Rightarrow> (Err x, s')
              | (Ok _, s') \<Rightarrow> (Ok (v\<lparr>uk_network_ids := ns\<rparr>), s')))"

text \<open>\<open>RequireFeature<ApiKeyFeature>\<close>: a viewer of an organization whose plan has API access.\<close>

definition require_api_key_feature :: "AuthenticatedEntity \<Rightarrow> auth_state \<Rightarrow> (ApiError, unit) result" where
  "require_api_key_feature caller st =
     (case authorize RequireViewer (Ok caller) of Err x \<Rightarrow> Err x
      | Ok e \<Rightarrow>
     (case entity_organization_id e of None \<Rightarrow> Err InternalError
      | Some org \<Rightarrow>
     (case map_of (st_organizations st) org of None \<Rightarrow> Err Forbidden
      | Some plan \<Rightarrow>
        if plan_api_access (case plan of Some p \<Rightarrow> p | None \<Rightarrow> PlanFree) then Ok () else Err PaymentRequired)))"

definition key_manager :: Requirement where
  "key_manager = RequireVerified (AndRequirement IsUser RequireMember)"

definition create_user_api_key ::
  "(string \<Rightarrow> string) \<Rightarrow> string \<Rightarrow> datetime \<Rightarrow> uuid \<Rightarrow> AuthenticatedEntity \<Rightarrow> UserApiKey \<Rightarrow> auth_state
     \<Rightarrow> (string \<times> UserApiKey) response" where
  "create_user_api_key hash random_part now fresh caller body st =
     (case authorize key_manager (Ok caller) of Err x \<Rightarrow> (Err x, st)
      | Ok e \<Rightarrow>
     (case require_api_key_feature caller st of Err x \<Rightarrow> (Err x, st)
      | Ok _ \<Rightarrow>
     (case (entity_user_id e, entity_organization_id e, entity_permissions e) of
        (Some user_id, Some org, Some user_permissions) \<Rightarrow>
          if \<not> validate_permissions (uk_permissions body) user_permissions then (Err PermissionDenied, st)
          else
     (case validate_network_ids_access (uk_network_ids body) (entity_network_ids e) of
        Err x \<Rightarrow> (Err x, st)
      | Ok _ \<Rightarrow>
     (case generate_api_key_for_storage hash UserKeyType random_part of (plaintext, hashed) \<Rightarrow>
     (case create_with_networks now fresh
             (body\<lparr>uk_user_id := user_id, uk_organization_id := org, uk_key := hashed\<rparr>)
             (uk_network_ids body) st of
        (Err x, s) \<Rightarrow> (Err InternalError, s)
      | (Ok k, s) \<Rightarrow> (Ok (plaintext, k), s))))
      | _ \<Rightarrow> (Err InternalError, st))))"

definition preserve_user_key_fields :: "UserApiKey \<Rightarrow> UserApiKey \<Rightarrow> UserApiKey" where
  "preserve_user_key_fields request existing =
     request\<lparr>uk_key := uk_key existing, uk_last_used := uk_last_used existing,
       uk_user_id := uk_user_id existing, uk_organization_id := uk_organization_id existing,
       uk_created_at := uk_created_at existing, uk_id := uk_id existing\<rparr>"

definition update_user_api_key :: "AuthenticatedEntity \<Rightarrow> uuid \<Rightarrow> UserApiKey \<Rightarrow> auth_state \<Rightarrow> UserApiKey response" where
  "update_user_api_key caller i body st =
     (case authorize key_manager (Ok caller) of Err x \<Rightarrow> (Err x, st)
      | Ok e \<Rightarrow>
     (case require_api_key_feature caller st of Err x \<Rightarrow> (Err x, st)
      | Ok _ \<Rightarrow>
     (case (entity_user_id e, entity_permissions e) of
        (Some user_id, Some user_permissions) \<Rightarrow>
     (case get_user_key st i of None \<Rightarrow> (Err (EntityNotFound i), st)
      | Some existing \<Rightarrow>
        if uk_user_id existing \<noteq> user_id then (Err (EntityAccessDenied i), st)
        else if \<not> validate_permissions (uk_permissions body) user_permissions then (Err PermissionDenied, st)
        else
     (case validate_network_ids_access (uk_network_ids body) (entity_network_ids e) of
        Err x \<Rightarrow> (Err x, st)
      | Ok _ \<Rightarrow>
        let request = preserve_user_key_fields body existing in
     (case save_for_key i (uk_network_ids request) st of (Err x, s) \<Rightarrow> (Err InternalError, s)
      | (Ok _, s) \<Rightarrow>
     (case save_user_key request s of (Err x, s') \<Rightarrow> (Err InternalError, s')
      | (Ok k, s') \<Rightarrow> (Ok (k\<lparr>uk_network_ids := uk_network_ids request\<rparr>), s')))))
      | _ \<Rightarrow> (Err InternalError, st))))"

definition rotate_user_key_handler ::
  "(string \<Rightarrow> string) \<Rightarrow> string \<Rightarrow> AuthenticatedEntity \<Rightarrow> uuid \<Rightarrow> auth_state \<Rightarrow> string response" where
  "rotate_user_key_handler hash random_part caller i st =
     (case authorize key_manager (Ok caller) of Err x \<Rightarrow> (Err x, st)
      | Ok e \<Rightarrow>
     (case require_api_key_feature caller st of Err x \<Rightarrow> (Err x, st)
      | Ok _ \<Rightarrow>
     (case get_user_key st i of None \<Rightarrow> (Err InternalError, st)
      | Some k \<Rightarrow>
        if entity_user_id e \<noteq> Some (uk_user_id k) then (Err InternalError, st)
        else
     (case generate_api_key_for_storage hash UserKeyType random_part of (plaintext, hashed) \<Rightarrow>
     (case save_user_key (k\<lparr>uk_key := hashed\<rparr>) st of (Err x, s) \<Rightarrow> (Err InternalError, s)
      | (Ok _, s) \<Rightarrow> (Ok plaintext, s))))))"

definition delete_user_api_key :: "AuthenticatedEntity \<Rightarrow> uuid \<Rightarrow> auth_state \<Rightarrow> unit response" where
  "delete_user_api_key caller i st =
     (case authorize key_manager (Ok caller) of Err x \<Rightarrow> (Err x, st)
      | Ok e \<Rightarrow>
     (case require_api_key_feature caller st of Err x \<Rightarrow> (Err x, st)
      | Ok _ \<Rightarrow>
     (case get_user_key st i of None \<Rightarrow> (Err (EntityNotFound i), st)
      | Some k \<Rightarrow>
        if uk_user_id k \<noteq> (case entity_user_id e of Some u \<Rightarrow> u | None \<Rightarrow> nil_uuid)
        then (Err (EntityNotFound i), st)
        else
     (case entity_organization_id e of None \<Rightarrow> (Err OrganizationRequired, st)
      | Some org \<Rightarrow>
     (case validate_delete_access None (Some (uk_organization_id k)) (entity_network_ids e) org of
        Err x \<Rightarrow> (Err x, st)
      | Ok _ \<Rightarrow> (Ok (), remove_user_keys [i] st))))))"

definition bulk_delete_user_api_keys :: "AuthenticatedEntity \<Rightarrow> uuid list \<Rightarrow> auth_state \<Rightarrow> (nat \<times> nat) response" where
  "bulk_delete_user_api_keys caller ids st =
     (case authorize key_manager (Ok caller) of Err x \<Rightarrow> (Err x, st)
      | Ok e \<Rightarrow>
     (case require_api_key_feature caller st of Err x \<Rightarrow> (Err x, st)
      | Ok _ \<Rightarrow>
        let user_id = (case entity_user_id e of Some u \<Rightarrow> u | None \<Rightarrow> nil_uuid);
            owned = filter (\<lambda>i. case get_user_key st i of Some k \<Rightarrow> uk_user_id k = user_id | None \<Rightarrow> False) ids;
            ks = filter (\<lambda>k. uk_id k \<in> set owned) (st_user_keys st) in
        if owned = [] then (Err BulkEmpty, st)
        else
     (case entity_organization_id e of None \<Rightarrow> (Err OrganizationRequired, st)
      | Some org \<Rightarrow>
     (case all_deletable (\<lambda>_. None) (\<lambda>k. Some (uk_organization_id k)) (entity_network_ids e) org ks of
        Err x \<Rightarrow> (Err x, st)
      | Ok _ \<Rightarrow> (Ok (length ks, length ids), remove_user_keys (map uk_id ks) st)))))"

section \<open>Spawned writes\<close>

text \<open>A write that a request has spawned runs at some later point and replaces the whole row.\<close>

definition run_write :: "key_write \<Rightarrow> auth_state \<Rightarrow> auth_state" where
  "run_write w st = (case w of DaemonKeyWrite k \<Rightarrow> snd (save_daemon_key k st) | UserKeyWrite k \<Rightarrow> snd (save_user_key k st))"

definition run_pending :: "nat \<Rightarrow> auth_state \<Rightarrow> auth_state" where
  "run_pending n st =
     (if n < length (st_pending st)
      then run_write (st_pending st ! n)
             (st\<lparr>st_pending := take n (st_pending st) @ drop (Suc n) (st_pending st)\<rparr>)
      else st)"

end
