(* ===== verification/Daemon_Versions.thy ===== *)
theory Daemon_Versions
  imports Permissions
begin

text \<open>
  Which daemon versions are supported, and until when
  (\<^verbatim>\<open>backend/src/server/daemons/impl/version.rs\<close>), and the version gate of the authentication layer
  (\<open>enforce_daemon_version\<close> in \<^verbatim>\<open>backend/src/server/auth/middleware/auth.rs\<close>).

  Versions are values of the \<open>semver\<close> package, which is not part of the sources: they are a type with a
  linear order, and \<open>semver\<close> carries the constructor from three numbers, the parser and the version of the
  running server. Messages are left out of the warnings, and a date is the instant it stands for.
\<close>

record 'v semver =
  new_version :: "nat \<Rightarrow> nat \<Rightarrow> nat \<Rightarrow> 'v"
  parse_version :: "string \<Rightarrow> 'v option"
  own_version :: 'v

record 'v ScheduledFloor =
  sf_floor :: 'v
  effective_on :: datetime

datatype DeprecationSeverity = SevInfo | SevWarning | SevCritical | SevUnknown

record DeprecationWarning =
  dw_sunset_date :: "datetime option"
  dw_severity :: DeprecationSeverity

datatype VersionHealthStatus =
    HealthCurrent | HealthOutdated | HealthDeprecated | HealthUnsupported | HealthUnknown

record 'v DaemonVersionStatus =
  dvs_version :: "'v option"
  dvs_status :: VersionHealthStatus
  dvs_warnings :: "DeprecationWarning list"
  dvs_sunset_date :: "datetime option"
  dvs_supports_unified_discovery :: bool
  dvs_has_correct_docker_volume_mount :: bool
  dvs_supports_targeted_rescan :: bool

section \<open>Announced cutovers\<close>

definition baseline_floor :: "'v semver \<Rightarrow> 'v" where
  "baseline_floor sv = new_version sv 0 12 0"

definition scheduled_sunsets :: "'v ScheduledFloor list" where
  "scheduled_sunsets = []"

definition floor_from :: "'v :: linorder semver \<Rightarrow> 'v ScheduledFloor list \<Rightarrow> datetime \<Rightarrow> 'v" where
  "floor_from sv sunsets now =
     min (foldl max (baseline_floor sv) (map sf_floor (filter (\<lambda>s. effective_on s \<le> now) sunsets)))
         (own_version sv)"

definition enforced_floor :: "'v :: linorder semver \<Rightarrow> datetime \<Rightarrow> 'v" where
  "enforced_floor sv now = floor_from sv scheduled_sunsets now"

text \<open>A version that is not reported is below every floor, as \<open>None < Some(floor)\<close> is in the sources.\<close>

definition below_floor :: "'v :: linorder option \<Rightarrow> 'v \<Rightarrow> bool" where
  "below_floor v f \<longleftrightarrow> (case v of None \<Rightarrow> True | Some x \<Rightarrow> x < f)"

definition sooner :: "'v :: linorder \<times> datetime \<Rightarrow> 'v \<times> datetime \<Rightarrow> bool" where
  "sooner a b \<longleftrightarrow> snd a < snd b \<or> snd a = snd b \<and> fst a < fst b"

fun min_sunset :: "('v :: linorder \<times> datetime) list \<Rightarrow> ('v \<times> datetime) option" where
  "min_sunset [] = None"
| "min_sunset (x # xs) = Some (foldl (\<lambda>m y. if sooner y m then y else m) x xs)"

definition applicable_sunset_in ::
  "'v :: linorder ScheduledFloor list \<Rightarrow> 'v option \<Rightarrow> ('v \<times> datetime) option" where
  "applicable_sunset_in sunsets v =
     min_sunset (filter (\<lambda>p. below_floor v (fst p)) (map (\<lambda>s. (sf_floor s, effective_on s)) sunsets))"

definition applicable_sunset :: "'v :: linorder option \<Rightarrow> ('v \<times> datetime) option" where
  "applicable_sunset v = applicable_sunset_in scheduled_sunsets v"

section \<open>Capability floors\<close>

definition at_least :: "'v :: linorder \<Rightarrow> 'v option \<Rightarrow> bool" where
  "at_least m v \<longleftrightarrow> (case v of Some x \<Rightarrow> m \<le> x | None \<Rightarrow> False)"

definition supports_unified_discovery :: "'v :: linorder semver \<Rightarrow> 'v option \<Rightarrow> bool" where
  "supports_unified_discovery sv v = at_least (new_version sv 0 15 0) v"

definition supports_full_server_poll :: "'v :: linorder semver \<Rightarrow> 'v option \<Rightarrow> bool" where
  "supports_full_server_poll sv v = at_least (new_version sv 0 14 0) v"

definition supports_server_provisioned_identity :: "'v :: linorder semver \<Rightarrow> 'v option \<Rightarrow> bool" where
  "supports_server_provisioned_identity sv v = at_least (new_version sv 0 17 5) v"

definition supports_targeted_rescan :: "'v :: linorder semver \<Rightarrow> 'v option \<Rightarrow> bool" where
  "supports_targeted_rescan sv v = at_least (new_version sv 0 17 7) v"

definition has_correct_docker_volume_mount :: "'v :: linorder semver \<Rightarrow> 'v option \<Rightarrow> bool" where
  "has_correct_docker_volume_mount sv v = at_least (new_version sv 0 16 1) v"

definition pre_interface_to_ip_address_rename :: "'v :: linorder semver \<Rightarrow> string option \<Rightarrow> bool" where
  "pre_interface_to_ip_address_rename sv version =
     (case Option.bind version (parse_version sv) of None \<Rightarrow> True | Some v \<Rightarrow> v < new_version sv 0 16 0)"

section \<open>Lifecycle\<close>

record 'v DaemonVersionPolicy =
  minimum_supported :: 'v
  recommended :: 'v
  latest :: 'v
  policy_now :: datetime
  policy_sunsets :: "'v ScheduledFloor list"

definition policy_with :: "'v :: linorder semver \<Rightarrow> datetime \<Rightarrow> 'v ScheduledFloor list \<Rightarrow> 'v DaemonVersionPolicy" where
  "policy_with sv now sunsets =
     \<lparr>minimum_supported = floor_from sv sunsets now, recommended = own_version sv, latest = own_version sv,
      policy_now = now, policy_sunsets = sunsets\<rparr>"

definition policy_at :: "'v :: linorder semver \<Rightarrow> datetime \<Rightarrow> 'v DaemonVersionPolicy" where
  "policy_at sv now = policy_with sv now scheduled_sunsets"

definition lifecycle ::
  "'v :: linorder DaemonVersionPolicy \<Rightarrow> 'v option
     \<Rightarrow> VersionHealthStatus \<times> DeprecationWarning list \<times> datetime option" where
  "lifecycle p v =
     (case applicable_sunset_in (policy_sunsets p) v of
        Some (_, effective) \<Rightarrow>
          (if effective \<le> policy_now p then HealthUnsupported else HealthDeprecated,
           [\<lparr>dw_sunset_date = Some effective, dw_severity = SevCritical\<rparr>], Some effective)
      | None \<Rightarrow>
        (case v of
           None \<Rightarrow> (HealthUnknown, [\<lparr>dw_sunset_date = None, dw_severity = SevWarning\<rparr>], None)
         | Some x \<Rightarrow>
           (if x < minimum_supported p
            then (HealthUnsupported, [\<lparr>dw_sunset_date = None, dw_severity = SevCritical\<rparr>], None)
            else if x < recommended p
            then (HealthOutdated, [\<lparr>dw_sunset_date = None, dw_severity = SevWarning\<rparr>], None)
            else (HealthCurrent, [], None))))"

definition evaluate :: "'v :: linorder semver \<Rightarrow> 'v DaemonVersionPolicy \<Rightarrow> 'v option \<Rightarrow> 'v DaemonVersionStatus" where
  "evaluate sv p v =
     (case lifecycle p v of (status, warnings, sunset) \<Rightarrow>
        \<lparr>dvs_version = v, dvs_status = status, dvs_warnings = warnings, dvs_sunset_date = sunset,
         dvs_supports_unified_discovery = supports_unified_discovery sv v,
         dvs_has_correct_docker_volume_mount = has_correct_docker_volume_mount sv v,
         dvs_supports_targeted_rescan = supports_targeted_rescan sv v\<rparr>)"

section \<open>The gate\<close>

definition version_gate :: "'v :: linorder semver \<Rightarrow> 'v \<Rightarrow> string option \<Rightarrow> (ApiError, unit) result" where
  "version_gate sv floor version =
     (case Option.bind version (parse_version sv) of
        Some v \<Rightarrow> (if v < floor then Err DaemonVersionTooOld else Ok ())
      | None \<Rightarrow> (if new_version sv 0 14 10 < floor then Err DaemonVersionTooOld else Ok ()))"

definition enforce_daemon_version :: "'v :: linorder semver \<Rightarrow> string option \<Rightarrow> datetime \<Rightarrow> (ApiError, unit) result" where
  "enforce_daemon_version sv version now = version_gate sv (enforced_floor sv now) version"

section \<open>Facts\<close>

lemma foldl_max_le_iff: "foldl max (a :: 'v :: linorder) xs \<le> b \<longleftrightarrow> a \<le> b \<and> (\<forall>x \<in> set xs. x \<le> b)"
  by (induction xs arbitrary: a) auto

lemma less_foldl_max_iff: "(b :: 'v :: linorder) < foldl max a xs \<longleftrightarrow> b < a \<or> (\<exists>x \<in> set xs. b < x)"
  using foldl_max_le_iff [of a xs b] by (meson not_le)

lemma foldl_max_ge: "(a :: 'v :: linorder) \<le> foldl max a xs" "x \<in> set xs \<Longrightarrow> x \<le> foldl max a xs"
  using foldl_max_le_iff [of a xs "foldl max a xs"] by simp_all

lemma floor_from_bounds:
  assumes "baseline_floor sv \<le> own_version sv"
  shows "baseline_floor sv \<le> floor_from sv sunsets now" "floor_from sv sunsets now \<le> own_version sv"
  using assms by (simp_all add: floor_from_def foldl_max_ge(1))

lemma floor_from_mono:
  assumes "t \<le> t'"
  shows "floor_from sv sunsets t \<le> floor_from sv sunsets t'"
proof -
  have "sf_floor ` set (filter (\<lambda>s. effective_on s \<le> t) sunsets)
      \<subseteq> sf_floor ` set (filter (\<lambda>s. effective_on s \<le> t') sunsets)" using assms by auto
  then have "foldl max b (map sf_floor (filter (\<lambda>s. effective_on s \<le> t) sunsets))
      \<le> foldl max b (map sf_floor (filter (\<lambda>s. effective_on s \<le> t') sunsets))" for b
    unfolding foldl_max_le_iff using foldl_max_ge by (metis (no_types, lifting) set_map subsetD)
  then show ?thesis unfolding floor_from_def by (rule min.mono) simp
qed

lemma below_floor_from_iff:
  assumes "\<And>s. s \<in> set sunsets \<Longrightarrow> sf_floor s \<le> own_version sv" "baseline_floor sv \<le> own_version sv"
  shows "v < floor_from sv sunsets now \<longleftrightarrow>
    v < baseline_floor sv \<or> (\<exists>s \<in> set sunsets. effective_on s \<le> now \<and> v < sf_floor s)"
proof -
  have "v < baseline_floor sv \<or> (\<exists>s \<in> set sunsets. effective_on s \<le> now \<and> v < sf_floor s) \<Longrightarrow> v < own_version sv"
    using assms by (meson less_le_trans)
  then show ?thesis by (auto simp: floor_from_def less_foldl_max_iff)
qed

lemma fold_sooner:
  "foldl (\<lambda>m y. if sooner y m then y else m) x xs \<in> set (x # xs)
   \<and> (\<forall>y \<in> set (x # xs). snd (foldl (\<lambda>m y. if sooner y m then y else m) x xs) \<le> snd y)"
proof (induction xs arbitrary: x)
  case (Cons a xs)
  show ?case using Cons.IH [of "if sooner a x then a else x"]
    by (auto simp: sooner_def split: if_splits)
qed simp

lemma min_sunset_spec:
  "min_sunset xs = None \<longleftrightarrow> xs = []"
  "min_sunset xs = Some m \<Longrightarrow> m \<in> set xs \<and> (\<forall>y \<in> set xs. snd m \<le> snd y)"
  using fold_sooner by (cases xs; force)+

lemma applicable_sunset_soonest:
  assumes "applicable_sunset_in sunsets v = Some (f, t)"
  shows "\<exists>s \<in> set sunsets. sf_floor s = f \<and> effective_on s = t \<and> below_floor v f"
    "\<And>s. s \<in> set sunsets \<Longrightarrow> below_floor v (sf_floor s) \<Longrightarrow> t \<le> effective_on s"
  using min_sunset_spec(2) [OF assms [unfolded applicable_sunset_in_def]] by force+

lemma applicable_sunset_None_iff:
  "applicable_sunset_in sunsets v = None \<longleftrightarrow> (\<forall>s \<in> set sunsets. \<not> below_floor v (sf_floor s))"
  by (auto simp: applicable_sunset_in_def min_sunset_spec(1) filter_empty_conv)

text \<open>The gate and the lifecycle agree on every version from the baseline on.\<close>

lemma gate_iff_unsupported:
  assumes "\<And>s. s \<in> set sunsets \<Longrightarrow> sf_floor s \<le> own_version sv" "baseline_floor sv \<le> own_version sv"
    and "baseline_floor sv \<le> v"
  shows "v < floor_from sv sunsets now \<longleftrightarrow> fst (lifecycle (policy_with sv now sunsets) (Some v)) = HealthUnsupported"
proof -
  note b = below_floor_from_iff [where v = v and now = now, OF assms(1,2)]
  show ?thesis
  proof (cases "applicable_sunset_in sunsets (Some v)")
    case None
    then have "\<not> v < floor_from sv sunsets now"
      using b assms(3) by (force simp: applicable_sunset_None_iff below_floor_def)
    then show ?thesis using None by (simp add: lifecycle_def policy_with_def)
  next
    case (Some p)
    obtain f t where p: "p = (f, t)" by fastforce
    have "(\<exists>s \<in> set sunsets. effective_on s \<le> now \<and> v < sf_floor s) \<longleftrightarrow> t \<le> now"
      using applicable_sunset_soonest [OF Some [unfolded p]]
      by (auto simp: below_floor_def) force+
    then show ?thesis using Some b assms(3) by (simp add: lifecycle_def policy_with_def p not_less)
  qed
qed

text \<open>Below the baseline they need not: an announced cutover of the future makes the lifecycle report such
  a daemon as merely deprecated, although it is refused.\<close>

lemma below_baseline_deprecated_but_refused:
  assumes "\<And>s. s \<in> set sunsets \<Longrightarrow> now < effective_on s" "s \<in> set sunsets" "v < sf_floor s"
    and "v < baseline_floor sv" "baseline_floor sv \<le> own_version sv"
  shows "v < floor_from sv sunsets now
    \<and> fst (lifecycle (policy_with sv now sunsets) (Some v)) = HealthDeprecated"
proof -
  have "applicable_sunset_in sunsets (Some v) \<noteq> None"
    using assms(2,3) by (auto simp: applicable_sunset_None_iff below_floor_def)
  then obtain f t where a: "applicable_sunset_in sunsets (Some v) = Some (f, t)" by fast
  have "now < t" using applicable_sunset_soonest(1) [OF a] assms(1) by blast
  moreover have "v < floor_from sv sunsets now"
    using assms(4) floor_from_bounds(1) [OF assms(5)] by (rule less_le_trans)
  ultimately show ?thesis by (simp add: lifecycle_def policy_with_def a)
qed

end
