(* ===== verification/Authentication.thy ===== *)
theory Authentication
  imports Api_Keys Daemon_Versions Net_Types
begin

text \<open>
  Authentication of a request (\<open>AuthenticatedEntity::extract_auth\<close> in
  \<^verbatim>\<open>backend/src/server/auth/middleware/auth.rs\<close>): a bearer token is the metrics token of an external
  service, a user key or a daemon key, and a request without one is authenticated by its session.

  Packages are the fields of \<open>auth_env\<close>: the hash of a key, the parsers of identifiers, addresses and address
  ranges, versions, and which entries the resolution cache serves. The configuration is there too. A
  request may find any of its lookups failing, which \<open>fails\<close> says. Two timestamps that the source takes
  within one request are the same instant here. Events are left out.
\<close>

record ('v, 'c) auth_env =
  hash_api_key :: "string \<Rightarrow> string"
  parse_daemon_id :: "string \<Rightarrow> uuid option"
  parse_cidr :: "string \<Rightarrow> 'c option"
  range_contains :: "'c \<Rightarrow> IpAddr \<Rightarrow> bool"
  parse_address :: "string \<Rightarrow> IpAddr option"
  versions :: "'v semver"
  cache_serves :: "string \<Rightarrow> datetime \<Rightarrow> datetime \<Rightarrow> bool"
  metrics_token :: "string option"
  external_service_allowed_ips :: "string \<rightharpoonup> string list"

record web_session =
  se_user_id :: "uuid option"
  se_session_epoch :: "int option"

record http_request =
  rq_authorization :: "string option"
  rq_service_name :: "string option"
  rq_daemon_id :: "string option"
  rq_daemon_version :: "string option"
  rq_ip :: "IpAddr option"
  rq_session :: "web_session option"

datatype lookup =
    UserKeyLookup | OrganizationLookup | KeyNetworksLookup | DaemonKeyLookup | DaemonLookup
  | UserLookup | NetworksLookup | UserNetworksLookup

definition strip_prefix :: "string \<Rightarrow> string \<Rightarrow> string option" where
  "strip_prefix s p = (if starts_with s p then Some (drop (length p) s) else None)"

definition bearer_token :: "http_request \<Rightarrow> string option" where
  "bearer_token rq = Option.bind (rq_authorization rq) (\<lambda>s. strip_prefix s ''Bearer '')"

section \<open>External services\<close>

fun ip_in_list :: "('v, 'c) auth_env \<Rightarrow> IpAddr \<Rightarrow> string list \<Rightarrow> bool" where
  "ip_in_list env ip [] = False"
| "ip_in_list env ip (entry # rest) =
     (case parse_cidr env entry of
        Some c \<Rightarrow> (if range_contains env c ip then True else ip_in_list env ip rest)
      | None \<Rightarrow>
        (case parse_address env entry of
           Some a \<Rightarrow> (if ip = a then True else ip_in_list env ip rest)
         | None \<Rightarrow> ip_in_list env ip rest))"

definition is_ip_allowed :: "('v, 'c) auth_env \<Rightarrow> IpAddr \<Rightarrow> string list \<Rightarrow> bool" where
  "is_ip_allowed env ip allowed \<longleftrightarrow> allowed = [] \<or> ip_in_list env ip allowed"

definition client_ip :: "http_request \<Rightarrow> IpAddr" where
  "client_ip rq = (case rq_ip rq of Some a \<Rightarrow> a | None \<Rightarrow> V4 0)"

definition is_metrics_token :: "('v, 'c) auth_env \<Rightarrow> string \<Rightarrow> bool" where
  "is_metrics_token env raw \<longleftrightarrow>
     (case metrics_token env of Some t \<Rightarrow> t \<noteq> [] \<and> raw = t | None \<Rightarrow> False)"

definition external_service :: "('v, 'c) auth_env \<Rightarrow> http_request \<Rightarrow> (ApiError, AuthenticatedEntity) result" where
  "external_service env rq =
     (let name = (case rq_service_name rq of Some s \<Rightarrow> to_lowercase s | None \<Rightarrow> ''unknown'') in
      case external_service_allowed_ips env name of
        Some allowed \<Rightarrow>
          (if is_ip_allowed env (client_ip rq) allowed then Ok (ExternalServiceAuth name) else Err Forbidden)
      | None \<Rightarrow> Ok (ExternalServiceAuth name))"

section \<open>User keys\<close>

definition spawn :: "key_write \<Rightarrow> auth_state \<Rightarrow> auth_state" where
  "spawn w st = st\<lparr>st_pending := st_pending st @ [w]\<rparr>"

definition load_plan :: "(lookup \<Rightarrow> bool) \<Rightarrow> uuid \<Rightarrow> auth_state \<Rightarrow> (ApiError, BillingPlan) result" where
  "load_plan fails org st =
     (if fails OrganizationLookup then Err InternalError
      else case map_of (st_organizations st) org of None \<Rightarrow> Err Forbidden
        | Some plan \<Rightarrow> Ok (case plan of Some p \<Rightarrow> p | None \<Rightarrow> PlanFree))"

definition authenticate_user_key ::
  "(lookup \<Rightarrow> bool) \<Rightarrow> datetime \<Rightarrow> string \<Rightarrow> auth_state \<Rightarrow> AuthenticatedEntity response" where
  "authenticate_user_key fails now hashed st =
     (case if fails UserKeyLookup then None else get_by_key st hashed of
        None \<Rightarrow> (Err NotAuthenticated, st)
      | Some k \<Rightarrow>
     (case check_key_validity UserKeyType now (uk_is_enabled k) (uk_expires_at k) of
        Err x \<Rightarrow>
          (Err x, if key_expired now (uk_expires_at k)
                  then spawn (UserKeyWrite (k\<lparr>uk_is_enabled := False\<rparr>)) st else st)
      | Ok _ \<Rightarrow>
     (case load_plan fails (uk_organization_id k) st of Err x \<Rightarrow> (Err x, st)
      | Ok plan \<Rightarrow>
        if \<not> plan_api_access plan then (Err PaymentRequired, st)
        else
          let network_ids = (if fails KeyNetworksLookup then [] else get_for_key st (uk_id k)) in
          (Ok (ApiKeyAuth (uk_id k) (uk_user_id k) (uk_organization_id k) (uk_permissions k) network_ids),
           spawn (UserKeyWrite (k\<lparr>uk_last_used := Some now\<rparr>)) st))))"

section \<open>Daemon keys\<close>

datatype DaemonIdentityDecision = IdentityResolved uuid | IdentityMismatch | IdentityMissingHeader

definition decide_daemon_identity :: "uuid option \<Rightarrow> uuid option \<Rightarrow> DaemonIdentityDecision" where
  "decide_daemon_identity key_daemon_id header_daemon_id =
     (case key_daemon_id of
        Some bound \<Rightarrow>
          (case header_daemon_id of
             Some hdr \<Rightarrow> (if hdr \<noteq> bound then IdentityMismatch else IdentityResolved bound)
           | None \<Rightarrow> IdentityResolved bound)
      | None \<Rightarrow>
          (case header_daemon_id of
             Some hdr \<Rightarrow> IdentityResolved hdr
           | None \<Rightarrow> IdentityMissingHeader))"

definition resolve_daemon_identity :: "uuid option \<Rightarrow> uuid option \<Rightarrow> (ApiError, uuid) result" where
  "resolve_daemon_identity key_daemon_id header_daemon_id =
     (case decide_daemon_identity key_daemon_id header_daemon_id of
        IdentityResolved i \<Rightarrow> Ok i
      | IdentityMismatch \<Rightarrow> Err NotAuthenticated
      | IdentityMissingHeader \<Rightarrow> Err DaemonRequired)"

definition header_daemon_id :: "('v, 'c) auth_env \<Rightarrow> http_request \<Rightarrow> uuid option" where
  "header_daemon_id env rq =
     (case Option.bind (rq_daemon_id rq) (parse_daemon_id env) of
        Some i \<Rightarrow> (if i = nil_uuid then None else Some i)
      | None \<Rightarrow> None)"

definition daemon_entity ::
  "uuid \<Rightarrow> uuid \<Rightarrow> string option \<Rightarrow> (ApiError, uuid) result \<Rightarrow> (ApiError, AuthenticatedEntity) result" where
  "daemon_entity network_id api_key_id version identity =
     (case identity of Err x \<Rightarrow> Err x | Ok d \<Rightarrow> Ok (DaemonAuth network_id api_key_id d version))"

definition resolution_of :: "DaemonApiKey \<Rightarrow> ResolvedDaemonKey" where
  "resolution_of k =
     \<lparr>rk_api_key_id = dk_id k, rk_network_id = dk_network_id k, rk_daemon_id = dk_daemon_id k,
      rk_is_enabled = dk_is_enabled k, rk_expires_at = dk_expires_at k\<rparr>"

definition lookup_daemon_key ::
  "(lookup \<Rightarrow> bool) \<Rightarrow> datetime \<Rightarrow> string \<Rightarrow> uuid option \<Rightarrow> string option \<Rightarrow> auth_state
     \<Rightarrow> AuthenticatedEntity response" where
  "lookup_daemon_key fails now hashed header version st =
     (if fails DaemonKeyLookup then (Err InternalError, st)
      else case find_daemon_key st hashed of
        Some k \<Rightarrow>
          (case check_key_validity DaemonKeyType now (dk_is_enabled k) (dk_expires_at k) of
             Err x \<Rightarrow>
               (Err x, if key_expired now (dk_expires_at k)
                       then spawn (DaemonKeyWrite (k\<lparr>dk_is_enabled := False\<rparr>)) st else st)
           | Ok _ \<Rightarrow>
               (daemon_entity (dk_network_id k) (dk_id k) version (resolve_daemon_identity (dk_daemon_id k) header),
                cache_resolution now hashed (resolution_of k)
                  (spawn (DaemonKeyWrite (k\<lparr>dk_last_used := Some now\<rparr>)) st)))
      | None \<Rightarrow>
          (let daemon_exists =
             (case header of Some d \<Rightarrow> \<not> fails DaemonLookup \<and> d \<in> fst ` set (st_daemons st) | None \<Rightarrow> False) in
           (Err (if daemon_exists then NotAuthenticated else DaemonKeyNotYetActive), st)))"

definition authenticate_daemon ::
  "('v :: linorder, 'c) auth_env \<Rightarrow> (lookup \<Rightarrow> bool) \<Rightarrow> datetime \<Rightarrow> http_request \<Rightarrow> string \<Rightarrow> auth_state
     \<Rightarrow> AuthenticatedEntity response" where
  "authenticate_daemon env fails now rq hashed st =
     (let header = header_daemon_id env rq; version = rq_daemon_version rq in
      case enforce_daemon_version (versions env) version now of Err x \<Rightarrow> (Err x, st)
      | Ok _ \<Rightarrow>
     (case cached_resolution (cache_serves env) now hashed st of
        Some r \<Rightarrow>
          (if rk_is_enabled r \<and> \<not> key_expired now (rk_expires_at r)
           then (daemon_entity (rk_network_id r) (rk_api_key_id r) version
                   (resolve_daemon_identity (rk_daemon_id r) header), st)
           else lookup_daemon_key fails now hashed header version (invalidate_resolution hashed st))
      | None \<Rightarrow> lookup_daemon_key fails now hashed header version st))"

section \<open>Sessions\<close>

definition session_networks :: "(lookup \<Rightarrow> bool) \<Rightarrow> User \<Rightarrow> auth_state \<Rightarrow> (ApiError, uuid list) result" where
  "session_networks fails u st =
     (if usr_permissions u = PermOwner \<or> usr_permissions u = PermAdmin
      then (if fails NetworksLookup then Err InternalError
            else Ok (map fst (filter (\<lambda>n. snd n = usr_organization_id u) (st_networks st))))
      else (if fails UserNetworksLookup then Err InternalError else Ok (get_for_user st (usr_id u))))"

definition authenticate_session ::
  "(lookup \<Rightarrow> bool) \<Rightarrow> http_request \<Rightarrow> auth_state \<Rightarrow> (ApiError, AuthenticatedEntity) result" where
  "authenticate_session fails rq st =
     (case rq_session rq of None \<Rightarrow> Err NotAuthenticated
      | Some session \<Rightarrow>
     (case se_user_id session of None \<Rightarrow> Err NotAuthenticated
      | Some i \<Rightarrow>
     (case if fails UserLookup then None else get_user st i of None \<Rightarrow> Err NotAuthenticated
      | Some u \<Rightarrow>
        if (case se_session_epoch session of Some n \<Rightarrow> n | None \<Rightarrow> 0) < usr_session_epoch u
        then Err NotAuthenticated
        else
     (case session_networks fails u st of Err x \<Rightarrow> Err x
      | Ok ns \<Rightarrow>
        Ok (UserAuth (usr_id u) (usr_organization_id u) (usr_permissions u) ns (usr_email u) (usr_email_verified u))))))"

section \<open>The extractor\<close>

definition extract_auth ::
  "('v :: linorder, 'c) auth_env \<Rightarrow> (lookup \<Rightarrow> bool) \<Rightarrow> datetime \<Rightarrow> http_request \<Rightarrow> auth_state
     \<Rightarrow> AuthenticatedEntity response" where
  "extract_auth env fails now rq st =
     (case bearer_token rq of
        Some raw \<Rightarrow>
          (if is_metrics_token env raw then (external_service env rq, st)
           else
             let hashed = hash_api_key env raw in
             case fst (key_type_from_key raw) of
               UserKeyType \<Rightarrow> authenticate_user_key fails now hashed st
             | DaemonKeyType \<Rightarrow> authenticate_daemon env fails now rq hashed st)
      | None \<Rightarrow> (authenticate_session fails rq st, st))"

text \<open>\<open>AuthenticatedApiKey\<close>: an extractor of its own for handlers that only take user keys.\<close>

definition extract_api_key :: "(ApiError, AuthenticatedEntity) result \<Rightarrow> (ApiError, AuthenticatedEntity) result" where
  "extract_api_key r = (case r of Err x \<Rightarrow> Err x
     | Ok e \<Rightarrow> (case e of ApiKeyAuth _ _ _ _ _ \<Rightarrow> Ok e | _ \<Rightarrow> Err ApiKeyRequired))"

end
