(* ===== verification/Auth_Machine.thy ===== *)
theory Auth_Machine
  imports Authentication
begin

text \<open>
  The authentication state as a state machine: a configuration is a state and a clock, and a step is a
  request, a spawned write, the passing of time, or one of the operations on keys and accounts. The
  invariant \<open>wf_auth\<close> collects what the tables guarantee, and the facts on single operations are those the
  properties rest on.
\<close>

section \<open>Invariants of a machine\<close>

text \<open>What a property of single steps gives for whole runs.\<close>

locale run_invariant =
  fixes step :: "'c \<Rightarrow> 'c \<Rightarrow> bool"
    and inv :: "'c \<Rightarrow> bool"
  assumes preserved: "step c c' \<Longrightarrow> inv c \<Longrightarrow> inv c'"
begin

lemma along_run: "step\<^sup>*\<^sup>* c c' \<Longrightarrow> inv c \<Longrightarrow> inv c'"
  by (induction rule: rtranclp_induct) (auto dest: preserved)

end

section \<open>Steps\<close>

inductive auth_step ::
  "('v :: linorder, 'c) auth_env \<Rightarrow> auth_state \<times> datetime \<Rightarrow> auth_state \<times> datetime \<Rightarrow> bool"
  for env :: "('v :: linorder, 'c) auth_env" where
  tick: "t \<le> t' \<Longrightarrow> auth_step env (st, t) (st, t')"
| request: "auth_step env (st, t) (snd (extract_auth env fails t rq st), t)"
| spawned: "auth_step env (st, t) (run_pending n st, t)"
| daemon_key_created:
    "auth_step env (st, t) (snd (create_daemon_api_key (hash_api_key env) r t i e k st), t)"
| daemon_key_updated: "auth_step env (st, t) (snd (update_daemon_api_key e i k st), t)"
| daemon_key_rotated: "auth_step env (st, t) (snd (rotate_daemon_key_handler (hash_api_key env) r e i st), t)"
| daemon_key_deleted: "auth_step env (st, t) (snd (delete_daemon_api_key e i st), t)"
| daemon_keys_deleted: "auth_step env (st, t) (snd (bulk_delete_daemon_api_keys e ids st), t)"
| user_key_created: "auth_step env (st, t) (snd (create_user_api_key (hash_api_key env) r t i e uk st), t)"
| user_key_updated: "auth_step env (st, t) (snd (update_user_api_key e i uk st), t)"
| user_key_rotated: "auth_step env (st, t) (snd (rotate_user_key_handler (hash_api_key env) r e i st), t)"
| user_key_deleted: "auth_step env (st, t) (snd (delete_user_api_key e i st), t)"
| user_keys_deleted: "auth_step env (st, t) (snd (bulk_delete_user_api_keys e ids st), t)"
| user_created: "auth_step env (st, t) (snd (create_user t i u st), t)"
| user_updated: "auth_step env (st, t) (snd (update_user e i u st), t)"
| user_admin_updated: "auth_step env (st, t) (snd (admin_update_user e i u st), t)"
| user_deleted: "auth_step env (st, t) (snd (delete_user e i st), t)"
| users_deleted: "auth_step env (st, t) (snd (bulk_delete_users e ids st), t)"
| password_updated: "auth_step env (st, t) (snd (update_password verify h t i current st), t)"
| reset_initiated: "auth_step env (st, t) (snd (initiate_password_reset token t email st), t)"
| reset_completed: "auth_step env (st, t) (snd (complete_password_reset h t token st), t)"
| email_change_requested: "auth_step env (st, t) (snd (request_email_change verify token t i current email st), t)"
| email_verified: "auth_step env (st, t) (snd (verify_email t token st), t)"

inductive auth_reachable :: "('v :: linorder, 'c) auth_env \<Rightarrow> auth_state \<times> datetime \<Rightarrow> bool"
  for env :: "('v :: linorder, 'c) auth_env" where
  start: "st_users st = [] \<Longrightarrow> st_user_keys st = [] \<Longrightarrow> st_key_networks st = [] \<Longrightarrow> st_daemon_keys st = []
    \<Longrightarrow> st_resolutions st = (\<lambda>_. None) \<Longrightarrow> st_pending st = [] \<Longrightarrow> auth_reachable env (st, t)"
| step: "auth_reachable env c \<Longrightarrow> auth_step env c c' \<Longrightarrow> auth_reachable env c'"

section \<open>What the operations leave alone\<close>

definition same_daemon_side :: "auth_state \<Rightarrow> auth_state \<Rightarrow> bool" where
  "same_daemon_side st st' \<longleftrightarrow>
     st_daemon_keys st' = st_daemon_keys st \<and> st_resolutions st' = st_resolutions st \<and> st_networks st' = st_networks st"

definition same_users :: "auth_state \<Rightarrow> auth_state \<Rightarrow> bool" where
  "same_users st st' \<longleftrightarrow> st_users st' = st_users st"

lemmas store_defs = save_user_def save_for_user_def save_daemon_key_def insert_daemon_key_def
  remove_daemon_keys_def remove_users_def save_user_key_def save_for_key_def remove_user_keys_def
  create_with_networks_def cache_resolution_def invalidate_resolution_def spawn_def

lemmas daemon_handler_defs = create_daemon_api_key_def update_daemon_key_handler_def update_daemon_api_key_def
  rotate_daemon_key_def rotate_daemon_key_handler_def delete_daemon_key_handler_def delete_daemon_api_key_def
  bulk_delete_daemon_api_keys_def

lemmas user_key_handler_defs = create_user_api_key_def update_user_api_key_def rotate_user_key_handler_def
  delete_user_api_key_def bulk_delete_user_api_keys_def

lemmas user_handler_defs = create_user_def update_user_def admin_update_user_def delete_user_handler_def
  delete_user_def bulk_delete_users_def

lemmas password_defs = update_password_def initiate_password_reset_def complete_password_reset_def
  set_user_email_verification_params_def request_email_change_def verify_email_def

lemma save_user_frame: "save_user u st = (r, s) \<Longrightarrow> same_daemon_side st s \<and> st_user_keys s = st_user_keys st \<and> st_key_networks s = st_key_networks st"
  by (auto simp: save_user_def same_daemon_side_def split: if_splits)

lemma save_for_user_frame:
  "save_for_user u ns st = (r, s) \<Longrightarrow>
     same_daemon_side st s \<and> same_users st s \<and> st_user_keys s = st_user_keys st \<and> st_key_networks s = st_key_networks st"
  by (auto simp: save_for_user_def same_daemon_side_def same_users_def split: if_splits)

lemma save_user_key_frame: "save_user_key k st = (r, s) \<Longrightarrow> same_daemon_side st s \<and> same_users st s"
  by (auto simp: save_user_key_def same_daemon_side_def same_users_def split: if_splits)

lemma save_for_key_frame: "save_for_key k ns st = (r, s) \<Longrightarrow> same_daemon_side st s \<and> same_users st s"
  by (auto simp: save_for_key_def same_daemon_side_def same_users_def split: if_splits)

lemma save_daemon_key_frame:
  "save_daemon_key k st = (r, s) \<Longrightarrow>
     same_users st s \<and> st_user_keys s = st_user_keys st \<and> st_key_networks s = st_key_networks st"
  by (auto simp: save_daemon_key_def same_users_def split: if_splits)

lemma remove_frames:
  "same_daemon_side st (remove_users ids st)" "same_daemon_side st (remove_user_keys ids st)"
  "same_users st (remove_user_keys ids st)" "same_users st (remove_daemon_keys ids st)"
  by (simp_all add: store_defs same_daemon_side_def same_users_def Let_def)

lemma same_refl [simp]: "same_daemon_side st st" "same_users st st"
  by (simp_all add: same_daemon_side_def same_users_def)

lemma same_trans:
  "same_daemon_side a b \<Longrightarrow> same_daemon_side b c \<Longrightarrow> same_daemon_side a c"
  "same_users a b \<Longrightarrow> same_users b c \<Longrightarrow> same_users a c"
  by (simp_all add: same_daemon_side_def same_users_def)

lemmas frames = save_user_frame save_for_user_frame save_user_key_frame save_for_key_frame save_daemon_key_frame

lemma create_with_networks_frame:
  "create_with_networks now i k ns st = (r, s) \<Longrightarrow> same_daemon_side st s \<and> same_users st s"
  by (auto simp: create_with_networks_def same_daemon_side_def same_users_def Let_def
      dest!: save_for_key_frame split: if_splits prod.splits sum.splits)

lemma password_frame:
  "same_daemon_side st (snd (update_password verify h t i cur st))"
  "same_daemon_side st (snd (initiate_password_reset token t email st))"
  "same_daemon_side st (snd (complete_password_reset h t token st))"
  "same_daemon_side st (snd (request_email_change verify token t i cur email st))"
  "same_daemon_side st (snd (verify_email t token st))"
  using save_user_frame
  by (auto simp: password_defs Let_def snd_def split: option.splits prod.splits sum.splits if_splits)

lemma user_handler_frame:
  "same_daemon_side st (snd (create_user t i u st))"
  "same_daemon_side st (snd (update_user e i u st))"
  "same_daemon_side st (snd (admin_update_user e i u st))"
  "same_daemon_side st (snd (delete_user e i st))"
  "same_daemon_side st (snd (bulk_delete_users e ids st))"
proof -
  show "same_daemon_side st (snd (create_user t i u st))"
    by (auto simp: create_user_def Let_def same_daemon_side_def dest!: save_for_user_frame
        split: prod.splits sum.splits)
  show "same_daemon_side st (snd (update_user e i u st))"
    using save_user_frame by (auto simp: update_user_def Let_def snd_def split: option.splits prod.splits sum.splits)
  show "same_daemon_side st (snd (admin_update_user e i u st))"
    by (auto simp: admin_update_user_def Let_def dest!: save_user_frame save_for_user_frame
        intro: same_trans split: option.splits prod.splits sum.splits)
  show "same_daemon_side st (snd (delete_user e i st))"
    by (auto simp: delete_user_def delete_user_handler_def Let_def remove_frames split: option.splits sum.splits)
  show "same_daemon_side st (snd (bulk_delete_users e ids st))"
    by (auto simp: bulk_delete_users_def Let_def remove_frames split: option.splits sum.splits)
qed

lemma user_key_handler_frame:
  "same_daemon_side st (snd (create_user_api_key h r t i e k st)) \<and> same_users st (snd (create_user_api_key h r t i e k st))"
  "same_daemon_side st (snd (update_user_api_key e i k st)) \<and> same_users st (snd (update_user_api_key e i k st))"
  "same_daemon_side st (snd (rotate_user_key_handler h r e i st)) \<and> same_users st (snd (rotate_user_key_handler h r e i st))"
  "same_daemon_side st (snd (delete_user_api_key e i st)) \<and> same_users st (snd (delete_user_api_key e i st))"
  "same_daemon_side st (snd (bulk_delete_user_api_keys e ids st)) \<and> same_users st (snd (bulk_delete_user_api_keys e ids st))"
proof -
  show "same_daemon_side st (snd (create_user_api_key h r t i e k st)) \<and> same_users st (snd (create_user_api_key h r t i e k st))"
    by (auto simp: create_user_api_key_def dest!: create_with_networks_frame split: option.splits prod.splits sum.splits)
  show "same_daemon_side st (snd (update_user_api_key e i k st)) \<and> same_users st (snd (update_user_api_key e i k st))"
    by (auto simp: update_user_api_key_def Let_def dest!: save_user_key_frame save_for_key_frame
        intro: same_trans split: option.splits prod.splits sum.splits)
  show "same_daemon_side st (snd (rotate_user_key_handler h r e i st)) \<and> same_users st (snd (rotate_user_key_handler h r e i st))"
    by (auto simp: rotate_user_key_handler_def dest!: save_user_key_frame split: option.splits prod.splits sum.splits)
  show "same_daemon_side st (snd (delete_user_api_key e i st)) \<and> same_users st (snd (delete_user_api_key e i st))"
    by (auto simp: delete_user_api_key_def remove_frames split: option.splits sum.splits)
  show "same_daemon_side st (snd (bulk_delete_user_api_keys e ids st)) \<and> same_users st (snd (bulk_delete_user_api_keys e ids st))"
    by (auto simp: bulk_delete_user_api_keys_def Let_def remove_frames split: option.splits sum.splits)
qed

definition same_accounts :: "auth_state \<Rightarrow> auth_state \<Rightarrow> bool" where
  "same_accounts st st' \<longleftrightarrow>
     st_users st' = st_users st \<and> st_user_keys st' = st_user_keys st \<and> st_key_networks st' = st_key_networks st"

lemma save_daemon_key_accounts: "save_daemon_key k st = (r, s) \<Longrightarrow> same_accounts st s"
  by (auto simp: save_daemon_key_def same_accounts_def split: if_splits)

lemma same_accounts_simps [simp]: "same_accounts st st" "same_accounts st (invalidate_resolution h st)"
  by (simp_all add: same_accounts_def invalidate_resolution_def)

lemma daemon_handler_frame:
  "same_accounts st (snd (create_daemon_api_key h r t i e k st))"
  "same_accounts st (snd (update_daemon_api_key e i k st))"
  "same_accounts st (snd (rotate_daemon_key_handler h r e i st))"
  "same_accounts st (snd (delete_daemon_api_key e i st))"
  "same_accounts st (snd (bulk_delete_daemon_api_keys e ids st))"
proof -
  show "same_accounts st (snd (create_daemon_api_key h r t i e k st))"
    by (auto simp: create_daemon_api_key_def insert_daemon_key_def same_accounts_def Let_def
        split: option.splits prod.splits sum.splits if_splits)
  show "same_accounts st (snd (update_daemon_api_key e i k st))"
    using save_daemon_key_accounts
    by (fastforce simp: update_daemon_api_key_def update_daemon_key_handler_def invalidate_resolution_def Let_def
        same_accounts_def split: option.splits prod.splits sum.splits)
  show "same_accounts st (snd (rotate_daemon_key_handler h r e i st))"
    by (auto simp: rotate_daemon_key_handler_def rotate_daemon_key_def invalidate_resolution_def same_accounts_def
        dest!: save_daemon_key_accounts split: option.splits prod.splits sum.splits if_splits)
  show "same_accounts st (snd (delete_daemon_api_key e i st))"
    by (auto simp: delete_daemon_api_key_def delete_daemon_key_handler_def store_defs same_accounts_def
        split: option.splits sum.splits prod.splits if_splits)
  show "same_accounts st (snd (bulk_delete_daemon_api_keys e ids st))"
    by (auto simp: bulk_delete_daemon_api_keys_def store_defs same_accounts_def Let_def split: option.splits sum.splits)
qed

lemma request_accounts: "same_accounts st (snd (extract_auth env fails t rq st))"
proof -
  have a: "same_accounts st (snd (lookup_daemon_key fails t h hd v st'))" if "same_accounts st st'" for h hd v st'
    using that by (auto simp: lookup_daemon_key_def same_accounts_def store_defs Let_def split: option.splits sum.splits)
  have "same_accounts st (snd (authenticate_daemon env fails t rq h st))" for h
    by (auto simp: authenticate_daemon_def Let_def intro!: a split: sum.splits option.splits)
  moreover have "same_accounts st (snd (authenticate_user_key fails t h st))" for h
    by (auto simp: authenticate_user_key_def spawn_def same_accounts_def Let_def split: option.splits sum.splits)
  ultimately show ?thesis
    by (simp add: extract_auth_def Let_def split: option.splits ApiKeyType.splits)
qed

section \<open>The invariant of the tables\<close>

definition wf_users :: "User list \<Rightarrow> bool" where
  "wf_users us \<longleftrightarrow> distinct (map usr_id us)
     \<and> (\<forall>a \<in> set us. \<forall>b \<in> set us. emails_clash a b \<longrightarrow> usr_id a = usr_id b) \<and> (\<forall>u \<in> set us. user_row u = u)"

definition wf_daemon_keys :: "DaemonApiKey list \<Rightarrow> bool" where
  "wf_daemon_keys ks \<longleftrightarrow> distinct (map dk_id ks) \<and> distinct (map dk_key ks)"

definition wf_key_networks :: "auth_state \<Rightarrow> bool" where
  "wf_key_networks st \<longleftrightarrow> fst ` set (st_key_networks st) \<subseteq> uk_id ` set (st_user_keys st)"

definition wf_auth :: "auth_state \<Rightarrow> bool" where
  "wf_auth st \<longleftrightarrow> wf_users (st_users st) \<and> wf_daemon_keys (st_daemon_keys st) \<and> wf_key_networks st"

lemma update_row_key_set: "f ` set (update_row f xs r) = f ` set xs"
  by (metis set_map map_key_update_row)

lemma distinct_update_row: "distinct (map f xs) \<Longrightarrow> distinct (map f (update_row f xs r))"
  by (simp add: map_key_update_row)

lemma set_update_row: "x \<in> set (update_row f xs r) \<Longrightarrow> x = r \<or> x \<in> set xs \<and> f x \<noteq> f r"
  by (auto simp: update_row_def)

lemma update_row_other: "x \<in> set xs \<Longrightarrow> f x \<noteq> f r \<Longrightarrow> x \<in> set (update_row f xs r)"
  by (force simp: update_row_def)

lemma user_row_simps [simp]:
  "usr_id (user_row u) = usr_id u" "usr_email (user_row u) = usr_email u"
  "usr_permissions (user_row u) = usr_permissions u" "usr_organization_id (user_row u) = usr_organization_id u"
  "usr_session_epoch (user_row u) = usr_session_epoch u" "user_row (user_row u) = user_row u"
  by (simp_all add: user_row_def)

lemma emails_clash_simps [simp]:
  "emails_clash (user_row a) b = emails_clash a b" "emails_clash a (user_row b) = emails_clash a b"
  by (simp_all add: emails_clash_def)

lemma emails_clash_sym: "emails_clash a b = emails_clash b a"
  by (auto simp: emails_clash_def)

lemma wf_users_save:
  assumes "wf_users us" "user_row_allowed us u"
  shows "wf_users (update_row usr_id us (user_row u))"
  unfolding wf_users_def
proof (intro conjI ballI impI)
  show "distinct (map usr_id (update_row usr_id us (user_row u)))"
    using assms(1) by (simp add: wf_users_def distinct_update_row)
next
  fix a b assume "a \<in> set (update_row usr_id us (user_row u))" "b \<in> set (update_row usr_id us (user_row u))"
    and c: "emails_clash a b"
  then consider "a = user_row u" "b = user_row u" | "a = user_row u" "b \<in> set us" "usr_id b \<noteq> usr_id u"
    | "b = user_row u" "a \<in> set us" "usr_id a \<noteq> usr_id u" | "a \<in> set us" "b \<in> set us"
    by (auto dest!: set_update_row)
  then show "usr_id a = usr_id b"
  proof cases
    case 1 then show ?thesis by simp
  next
    case 2 then show ?thesis using assms(2) c emails_clash_sym [of b u] by (simp add: user_row_allowed_def)
  next
    case 3 then show ?thesis using assms(2) c by (simp add: user_row_allowed_def)
  next
    case 4 then show ?thesis using assms(1) c by (simp add: wf_users_def)
  qed
next
  fix x assume "x \<in> set (update_row usr_id us (user_row u))"
  then show "user_row x = x" using assms(1) by (auto simp: wf_users_def dest!: set_update_row)
qed

lemma wf_users_save_user: "wf_users (st_users st) \<Longrightarrow> save_user u st = (r, s) \<Longrightarrow> wf_users (st_users s)"
  by (auto simp: save_user_def wf_users_save split: if_splits)

lemma wf_users_filter: "wf_users us \<Longrightarrow> wf_users (filter P us)"
  by (auto simp: wf_users_def distinct_map_filter)

lemma get_user_None: "get_user st i = None \<longleftrightarrow> i \<notin> usr_id ` set (st_users st)"
  by (auto simp: get_user_def get_by_id_def find_None_iff)

lemma get_user_Some: "get_user st i = Some u \<Longrightarrow> u \<in> set (st_users st) \<and> usr_id u = i"
  by (auto simp: get_user_def get_by_id_def dest: find_SomeD)

lemma wf_users_append:
  assumes "wf_users us" "usr_id u \<notin> usr_id ` set us" "user_row_allowed us u"
  shows "wf_users (us @ [user_row u])"
proof -
  have "\<not> emails_clash x u \<and> \<not> emails_clash u x" if x: "x \<in> set us" for x
  proof -
    have "usr_id x \<noteq> usr_id u" using assms(2) x by (metis imageI)
    then show ?thesis using assms(3) x emails_clash_sym [of x u] by (simp add: user_row_allowed_def)
  qed
  then show ?thesis using assms(1,2) unfolding wf_users_def by auto
qed

lemma admin_update_users:
  assumes "admin_update_user e i u st = (r, s)"
  shows "st_users s = st_users st \<or> (\<exists>v r'. \<exists>s'. save_user v st = (r', s') \<and> st_users s = st_users s')"
proof -
  have "save_user v st = (r', s1) \<Longrightarrow> save_for_user i ns s1 = (r'', s) \<Longrightarrow> \<exists>v r' s'. save_user v st = (r', s') \<and> st_users s = st_users s'"
    for v r' s1 ns r''
    using save_for_user_frame [of i ns s1 r'' s] by (auto simp: same_users_def)
  then show ?thesis using assms
    by (simp add: admin_update_user_def Let_def split: option.splits prod.splits sum.splits if_splits) blast+
qed

lemma user_ops_wf:
  assumes "wf_users (st_users st)"
  shows "wf_users (st_users (snd (create_user t i u st)))"
    "wf_users (st_users (snd (update_user e i u st)))"
    "wf_users (st_users (snd (admin_update_user e i u st)))"
    "wf_users (st_users (snd (delete_user e i st)))"
    "wf_users (st_users (snd (bulk_delete_users e ids st)))"
proof -
  have "wf_users (st_users s)" if "create_user t i u st = (r, s)" for r s
  proof -
    define v where "v = (if usr_id u = nil_uuid then u\<lparr>usr_id := i, usr_created_at := t, usr_updated_at := t\<rparr> else u)"
    have "st_users s = st_users st
        \<or> st_users s = st_users st @ [user_row v] \<and> usr_id v \<notin> usr_id ` set (st_users st) \<and> user_row_allowed (st_users st) v"
      using that unfolding create_user_def v_def [symmetric] Let_def
      by (auto simp: get_user_None [symmetric] same_users_def dest!: save_for_user_frame
          split: if_splits prod.splits sum.splits)
    then show ?thesis using assms wf_users_append by metis
  qed
  then show "wf_users (st_users (snd (create_user t i u st)))" by (metis prod.collapse)
  show "wf_users (st_users (snd (update_user e i u st)))"
    using assms wf_users_save_user [OF assms]
    by (auto simp: update_user_def Let_def snd_def split: option.splits prod.splits sum.splits)
  show "wf_users (st_users (snd (admin_update_user e i u st)))"
    using assms admin_update_users [of e i u st] wf_users_save_user [OF assms] by (metis prod.collapse)
  show "wf_users (st_users (snd (delete_user e i st)))"
    using assms by (auto simp: delete_user_def delete_user_handler_def remove_users_def delete_many_def Let_def
        wf_users_filter split: option.splits sum.splits)
  show "wf_users (st_users (snd (bulk_delete_users e ids st)))"
    using assms by (auto simp: bulk_delete_users_def remove_users_def delete_many_def Let_def
        wf_users_filter split: option.splits sum.splits)
qed

lemma password_ops_wf:
  assumes "wf_users (st_users st)"
  shows "wf_users (st_users (snd (update_password verify h t i cur st)))"
    "wf_users (st_users (snd (initiate_password_reset token t email st)))"
    "wf_users (st_users (snd (complete_password_reset h t token st)))"
    "wf_users (st_users (snd (request_email_change verify token t i cur email st)))"
    "wf_users (st_users (snd (verify_email t token st)))"
  using assms wf_users_save_user [OF assms]
  by (auto simp: password_defs Let_def snd_def split: option.splits prod.splits sum.splits)

lemma get_daemon_key_None: "get_daemon_key st i = None \<longleftrightarrow> i \<notin> dk_id ` set (st_daemon_keys st)"
  by (auto simp: get_daemon_key_def get_by_id_def find_None_iff)

lemma get_daemon_key_Some: "get_daemon_key st i = Some k \<Longrightarrow> k \<in> set (st_daemon_keys st) \<and> dk_id k = i"
  by (auto simp: get_daemon_key_def get_by_id_def dest: find_SomeD)

lemma daemon_keys_save:
  assumes "save_daemon_key k st = (r, s)"
  shows "st_resolutions s = st_resolutions st" "dk_id ` set (st_daemon_keys s) = dk_id ` set (st_daemon_keys st)"
    "wf_daemon_keys (st_daemon_keys st) \<Longrightarrow> wf_daemon_keys (st_daemon_keys s)"
    "st_daemon_keys s = st_daemon_keys st \<or> st_daemon_keys s = update_row dk_id (st_daemon_keys st) k"
proof -
  have keys: "inj_on dk_key (set (update_row dk_id xs k))"
    if "inj_on dk_key (set xs)" "\<forall>x \<in> set xs. dk_id x \<noteq> dk_id k \<longrightarrow> dk_key x \<noteq> dk_key k" for xs
    using that by (auto simp: inj_on_def dest!: set_update_row)
  have dist: "distinct (map dk_key (update_row dk_id xs k))"
    if "distinct (map dk_id xs)" "distinct (map dk_key xs)" "\<forall>x \<in> set xs. dk_id x \<noteq> dk_id k \<longrightarrow> dk_key x \<noteq> dk_key k" for xs
    using that keys [of xs] map_key_update_row [of dk_id xs k] by (metis distinct_map)
  show "st_resolutions s = st_resolutions st" using assms by (auto simp: save_daemon_key_def split: if_splits)
  show "st_daemon_keys s = st_daemon_keys st \<or> st_daemon_keys s = update_row dk_id (st_daemon_keys st) k"
    using assms by (auto simp: save_daemon_key_def split: if_splits)
  then show "dk_id ` set (st_daemon_keys s) = dk_id ` set (st_daemon_keys st)"
    using update_row_key_set by metis
  have "wf_daemon_keys (update_row dk_id (st_daemon_keys st) k)"
    if "wf_daemon_keys (st_daemon_keys st)" "daemon_key_allowed st k"
    using that dist [of "st_daemon_keys st"] map_key_update_row [of dk_id "st_daemon_keys st" k]
    unfolding wf_daemon_keys_def daemon_key_allowed_def by metis
  then show "wf_daemon_keys (st_daemon_keys st) \<Longrightarrow> wf_daemon_keys (st_daemon_keys s)"
    using assms by (auto simp: save_daemon_key_def split: if_splits)
qed

lemma daemon_keys_insert:
  assumes "insert_daemon_key t i k st = (r, s)" "wf_daemon_keys (st_daemon_keys st)"
  shows "wf_daemon_keys (st_daemon_keys s)"
proof -
  have "wf_daemon_keys (st_daemon_keys st @ [v])"
    if "dk_id v \<notin> dk_id ` set (st_daemon_keys st)" "daemon_key_allowed st v" for v
  proof -
    have "dk_key v \<notin> dk_key ` set (st_daemon_keys st)"
      using that by (metis (no_types, lifting) daemon_key_allowed_def image_iff)
    then show ?thesis using assms(2) that(1) by (simp add: wf_daemon_keys_def)
  qed
  then show ?thesis using assms
    by (simp add: insert_daemon_key_def get_daemon_key_None [symmetric] Let_def split: if_splits) auto
qed

lemma daemon_keys_remove:
  "wf_daemon_keys (st_daemon_keys st) \<Longrightarrow> wf_daemon_keys (st_daemon_keys (remove_daemon_keys ids st))"
  by (simp add: remove_daemon_keys_def wf_daemon_keys_def delete_many_def distinct_map_filter)

lemma invalidate_simps [simp]:
  "st_daemon_keys (invalidate_resolution h st) = st_daemon_keys st"
  "st_resolutions (invalidate_resolution h st) = (st_resolutions st)(h := None)"
  "st_networks (invalidate_resolution h st) = st_networks st"
  "st_daemons (invalidate_resolution h st) = st_daemons st"
  by (simp_all add: invalidate_resolution_def)

lemma daemon_ops_wf:
  assumes "wf_daemon_keys (st_daemon_keys st)"
  shows "wf_daemon_keys (st_daemon_keys (snd (create_daemon_api_key h r t i e k st)))"
    "wf_daemon_keys (st_daemon_keys (snd (update_daemon_api_key e i k st)))"
    "wf_daemon_keys (st_daemon_keys (snd (rotate_daemon_key_handler h r e i st)))"
    "wf_daemon_keys (st_daemon_keys (snd (delete_daemon_api_key e i st)))"
    "wf_daemon_keys (st_daemon_keys (snd (bulk_delete_daemon_api_keys e ids st)))"
    "wf_daemon_keys (st_daemon_keys (run_write w st))"
proof -
  note save = daemon_keys_save(3) [OF _ assms]
  show "wf_daemon_keys (st_daemon_keys (snd (create_daemon_api_key h r t i e k st)))"
    using assms by (auto simp: create_daemon_api_key_def dest: daemon_keys_insert split: option.splits prod.splits sum.splits)
  show "wf_daemon_keys (st_daemon_keys (snd (update_daemon_api_key e i k st)))"
    using assms
    by (auto simp: update_daemon_api_key_def update_daemon_key_handler_def Let_def
        dest: save split: option.splits prod.splits sum.splits)
  show "wf_daemon_keys (st_daemon_keys (snd (rotate_daemon_key_handler h r e i st)))"
    using assms
    by (auto simp: rotate_daemon_key_handler_def rotate_daemon_key_def
        dest: save split: option.splits prod.splits sum.splits if_splits)
  show "wf_daemon_keys (st_daemon_keys (snd (delete_daemon_api_key e i st)))"
    using assms by (auto simp: delete_daemon_api_key_def delete_daemon_key_handler_def daemon_keys_remove
        split: option.splits sum.splits prod.splits)
  show "wf_daemon_keys (st_daemon_keys (snd (bulk_delete_daemon_api_keys e ids st)))"
    using assms by (auto simp: bulk_delete_daemon_api_keys_def Let_def daemon_keys_remove split: option.splits sum.splits)
  show "wf_daemon_keys (st_daemon_keys (run_write w st))"
    using assms save save_user_key_frame
    by (auto simp: run_write_def snd_def same_daemon_side_def split: key_write.splits prod.splits)
qed

lemma request_daemon_keys: "st_daemon_keys (snd (extract_auth env fails t rq st)) = st_daemon_keys st"
proof -
  have "st_daemon_keys (snd (lookup_daemon_key fails t h hd v st')) = st_daemon_keys st'" for h hd v st'
    by (auto simp: lookup_daemon_key_def store_defs Let_def split: option.splits sum.splits)
  then show ?thesis
    by (auto simp: extract_auth_def authenticate_daemon_def authenticate_user_key_def spawn_def Let_def
        split: option.splits ApiKeyType.splits sum.splits)
qed

lemma key_networks_save_user_key:
  "wf_key_networks st \<Longrightarrow> save_user_key k st = (r, s) \<Longrightarrow> wf_key_networks s \<and> uk_id ` set (st_user_keys s) = uk_id ` set (st_user_keys st)"
proof -
  have "uk_id ` set (update_row uk_id xs (user_key_row k)) = uk_id ` set xs" for xs
    by (rule update_row_key_set)
  then show "wf_key_networks st \<Longrightarrow> save_user_key k st = (r, s) \<Longrightarrow> wf_key_networks s \<and> uk_id ` set (st_user_keys s) = uk_id ` set (st_user_keys st)"
    unfolding wf_key_networks_def save_user_key_def by (simp split: if_splits) fastforce
qed

lemma get_user_key_None: "get_user_key st i = None \<longleftrightarrow> i \<notin> uk_id ` set (st_user_keys st)"
  by (auto simp: get_user_key_def get_by_id_def find_None_iff)

lemma get_user_key_Some: "get_user_key st i = Some k \<Longrightarrow> k \<in> set (st_user_keys st) \<and> uk_id k = i"
  by (auto simp: get_user_key_def get_by_id_def dest: find_SomeD)

lemma key_networks_save_for_key: "wf_key_networks st \<Longrightarrow> save_for_key i ns st = (r, s) \<Longrightarrow> wf_key_networks s"
  by (auto simp: save_for_key_def wf_key_networks_def get_user_key_def get_by_id_def
      split: if_splits dest!: find_SomeD) (force dest: find_SomeD)

lemma key_networks_create:
  assumes "wf_key_networks st" "create_with_networks t i k ns st = (r, s)"
  shows "wf_key_networks s"
proof -
  have "wf_key_networks (st\<lparr>st_user_keys := st_user_keys st @ [v]\<rparr>)" for v
    using assms(1) by (auto simp: wf_key_networks_def)
  then show ?thesis using assms
    by (auto simp: create_with_networks_def Let_def dest: key_networks_save_for_key
        split: if_splits prod.splits sum.splits)
qed

lemma key_networks_remove:
  assumes "wf_key_networks st"
  shows "wf_key_networks (remove_user_keys ids st)" "wf_key_networks (remove_users ids st)"
proof -
  show "wf_key_networks (remove_user_keys ids st)"
    using assms by (force simp: wf_key_networks_def remove_user_keys_def delete_many_def)
  have "p \<in> uk_id ` set (filter (\<lambda>k. uk_user_id k \<notin> set ids) (st_user_keys st))"
    if "p \<in> uk_id ` set (st_user_keys st)" "p \<notin> uk_id ` set (filter (\<lambda>k. uk_user_id k \<in> set ids) (st_user_keys st))" for p
    using that by force
  then show "wf_key_networks (remove_users ids st)"
    using assms by (auto simp: wf_key_networks_def remove_users_def Let_def)
qed

lemma user_key_ops_wf:
  assumes "wf_key_networks st"
  shows "wf_key_networks (snd (create_user_api_key h r t i e k st))"
    "wf_key_networks (snd (update_user_api_key e i k st))"
    "wf_key_networks (snd (rotate_user_key_handler h r e i st))"
    "wf_key_networks (snd (delete_user_api_key e i st))"
    "wf_key_networks (snd (bulk_delete_user_api_keys e ids st))"
proof -
  show "wf_key_networks (snd (create_user_api_key h r t i e k st))"
    using assms by (auto simp: create_user_api_key_def dest: key_networks_create split: option.splits prod.splits sum.splits)
  show "wf_key_networks (snd (update_user_api_key e i k st))"
    using assms by (auto simp: update_user_api_key_def Let_def dest: key_networks_save_user_key key_networks_save_for_key
        split: option.splits prod.splits sum.splits)
  show "wf_key_networks (snd (rotate_user_key_handler h r e i st))"
    using assms by (auto simp: rotate_user_key_handler_def dest: key_networks_save_user_key
        split: option.splits prod.splits sum.splits)
  show "wf_key_networks (snd (delete_user_api_key e i st))"
    using assms by (auto simp: delete_user_api_key_def key_networks_remove split: option.splits sum.splits)
  show "wf_key_networks (snd (bulk_delete_user_api_keys e ids st))"
    using assms by (auto simp: bulk_delete_user_api_keys_def Let_def key_networks_remove split: option.splits sum.splits)
qed

definition same_keys :: "auth_state \<Rightarrow> auth_state \<Rightarrow> bool" where
  "same_keys st st' \<longleftrightarrow> st_user_keys st' = st_user_keys st \<and> st_key_networks st' = st_key_networks st"

lemma same_keys_wf: "same_keys st st' \<Longrightarrow> wf_key_networks st \<Longrightarrow> wf_key_networks st'"
  by (simp add: same_keys_def wf_key_networks_def)

lemma account_ops_keys:
  "same_keys st (snd (update_user e i u st))"
  "same_keys st (snd (update_password verify h t i cur st))"
  "same_keys st (snd (initiate_password_reset token t email st))"
  "same_keys st (snd (complete_password_reset h t token st))"
  "same_keys st (snd (request_email_change verify token t i cur email st))"
  "same_keys st (snd (verify_email t token st))"
  using save_user_frame
  by (auto simp: update_user_def password_defs same_keys_def Let_def snd_def
      split: option.splits prod.splits sum.splits)

lemma account_ops_keys':
  assumes "wf_key_networks st"
  shows "wf_key_networks (snd (create_user t i u st))"
    "wf_key_networks (snd (admin_update_user e i u st))"
    "wf_key_networks (snd (delete_user e i st))"
    "wf_key_networks (snd (bulk_delete_users e ids st))"
proof -
  have "same_keys st (snd (create_user t i u st))"
    by (auto simp: create_user_def same_keys_def Let_def dest!: save_for_user_frame split: prod.splits sum.splits)
  then show "wf_key_networks (snd (create_user t i u st))" using assms same_keys_wf by blast
  have "same_keys st (snd (admin_update_user e i u st))"
    by (auto simp: admin_update_user_def same_keys_def Let_def dest!: save_for_user_frame save_user_frame
        split: option.splits prod.splits sum.splits)
  then show "wf_key_networks (snd (admin_update_user e i u st))" using assms same_keys_wf by blast
  show "wf_key_networks (snd (delete_user e i st))"
    using assms by (auto simp: delete_user_def delete_user_handler_def key_networks_remove split: option.splits sum.splits)
  show "wf_key_networks (snd (bulk_delete_users e ids st))"
    using assms by (auto simp: bulk_delete_users_def Let_def key_networks_remove split: option.splits sum.splits)
qed

lemma run_write_frames:
  "same_users st (run_write w st)" "wf_key_networks st \<Longrightarrow> wf_key_networks (run_write w st)"
proof -
  show "same_users st (run_write w st)"
    using save_user_key_frame save_daemon_key_frame
    by (simp add: run_write_def snd_def split: key_write.splits prod.splits)
  have "wf_key_networks st \<Longrightarrow> save_daemon_key k st = (r, s) \<Longrightarrow> wf_key_networks s" for k r s
    using save_daemon_key_frame by (simp add: wf_key_networks_def)
  then show "wf_key_networks (run_write w st)" if "wf_key_networks st"
    using that key_networks_save_user_key [OF that]
    by (cases w) (simp_all add: run_write_def snd_def split: prod.splits)
qed

lemma run_pending_frames:
  "same_users st (run_pending n st)" "wf_key_networks st \<Longrightarrow> wf_key_networks (run_pending n st)"
  "wf_daemon_keys (st_daemon_keys st) \<Longrightarrow> wf_daemon_keys (st_daemon_keys (run_pending n st))"
proof -
  let ?st = "st\<lparr>st_pending := take n (st_pending st) @ drop (Suc n) (st_pending st)\<rparr>"
  show "same_users st (run_pending n st)"
    using run_write_frames(1) [of ?st] by (simp add: run_pending_def same_users_def)
  show "wf_key_networks st \<Longrightarrow> wf_key_networks (run_pending n st)"
    using run_write_frames(2) [of ?st] by (simp add: run_pending_def wf_key_networks_def)
  show "wf_daemon_keys (st_daemon_keys st) \<Longrightarrow> wf_daemon_keys (st_daemon_keys (run_pending n st))"
    using daemon_ops_wf(6) [of ?st] by (simp add: run_pending_def)
qed

lemma wf_auth_transfer:
  "same_daemon_side st st' \<Longrightarrow> wf_users (st_users st') \<Longrightarrow> wf_key_networks st' \<Longrightarrow> wf_auth st \<Longrightarrow> wf_auth st'"
  "same_accounts st st' \<Longrightarrow> wf_daemon_keys (st_daemon_keys st') \<Longrightarrow> wf_auth st \<Longrightarrow> wf_auth st'"
  by (simp_all add: wf_auth_def same_daemon_side_def same_accounts_def wf_key_networks_def)

lemma account_steps_wf:
  assumes wf: "wf_auth st"
  shows "wf_auth (snd (create_user t i u st))" "wf_auth (snd (update_user e i u st))"
    "wf_auth (snd (admin_update_user e i u st))" "wf_auth (snd (delete_user e i st))"
    "wf_auth (snd (bulk_delete_users e ids st))" "wf_auth (snd (update_password verify h t i cur st))"
    "wf_auth (snd (initiate_password_reset token t email st))" "wf_auth (snd (complete_password_reset h t token st))"
    "wf_auth (snd (request_email_change verify token t i cur email st))" "wf_auth (snd (verify_email t token st))"
proof -
  have u: "wf_users (st_users st)" and k: "wf_key_networks st" using wf by (simp_all add: wf_auth_def)
  note move = wf_auth_transfer(1) [OF _ _ _ wf] and keys = same_keys_wf [OF _ k]
  show "wf_auth (snd (create_user t i u st))" for u
    by (rule move) (rule user_handler_frame(1) user_ops_wf(1) [OF \<open>wf_users (st_users st)\<close>] account_ops_keys'(1) [OF k])+
  show "wf_auth (snd (update_user e i u st))" for u
    by (rule move) (rule user_handler_frame(2) user_ops_wf(2) [OF \<open>wf_users (st_users st)\<close>] keys [OF account_ops_keys(1)])+
  show "wf_auth (snd (admin_update_user e i u st))" for u
    by (rule move) (rule user_handler_frame(3) user_ops_wf(3) [OF \<open>wf_users (st_users st)\<close>] account_ops_keys'(2) [OF k])+
  show "wf_auth (snd (delete_user e i st))"
    by (rule move) (rule user_handler_frame(4) user_ops_wf(4) [OF u] account_ops_keys'(3) [OF k])+
  show "wf_auth (snd (bulk_delete_users e ids st))"
    by (rule move) (rule user_handler_frame(5) user_ops_wf(5) [OF u] account_ops_keys'(4) [OF k])+
  show "wf_auth (snd (update_password verify h t i cur st))"
    by (rule move) (rule password_frame(1) password_ops_wf(1) [OF u] keys [OF account_ops_keys(2)])+
  show "wf_auth (snd (initiate_password_reset token t email st))"
    by (rule move) (rule password_frame(2) password_ops_wf(2) [OF u] keys [OF account_ops_keys(3)])+
  show "wf_auth (snd (complete_password_reset h t token st))"
    by (rule move) (rule password_frame(3) password_ops_wf(3) [OF u] keys [OF account_ops_keys(4)])+
  show "wf_auth (snd (request_email_change verify token t i cur email st))"
    by (rule move) (rule password_frame(4) password_ops_wf(4) [OF u] keys [OF account_ops_keys(5)])+
  show "wf_auth (snd (verify_email t token st))"
    by (rule move) (rule password_frame(5) password_ops_wf(5) [OF u] keys [OF account_ops_keys(6)])+
qed

lemma key_steps_wf:
  assumes wf: "wf_auth st"
  shows "wf_auth (snd (create_user_api_key h r t i e uk st))" "wf_auth (snd (update_user_api_key e i uk st))"
    "wf_auth (snd (rotate_user_key_handler h r e i st))" "wf_auth (snd (delete_user_api_key e i st))"
    "wf_auth (snd (bulk_delete_user_api_keys e ids st))"
    "wf_auth (snd (create_daemon_api_key h r t i e k st))" "wf_auth (snd (update_daemon_api_key e i k st))"
    "wf_auth (snd (rotate_daemon_key_handler h r e i st))" "wf_auth (snd (delete_daemon_api_key e i st))"
    "wf_auth (snd (bulk_delete_daemon_api_keys e ids st))" "wf_auth (snd (extract_auth env fails t rq st))"
    "wf_auth (run_pending n st)"
proof -
  have u: "wf_users (st_users st)" and n: "wf_key_networks st" and d: "wf_daemon_keys (st_daemon_keys st)"
    using wf by (simp_all add: wf_auth_def)
  have move: "wf_auth s" if "same_daemon_side st s \<and> same_users st s" "wf_key_networks s" for s
    using that wf u by (auto intro!: wf_auth_transfer(1) [of st] simp: same_users_def)
  note stay = wf_auth_transfer(2) [OF _ _ wf]
  show "wf_auth (snd (create_user_api_key h r t i e uk st))"
    by (rule move [OF user_key_handler_frame(1) user_key_ops_wf(1) [OF n]])
  show "wf_auth (snd (update_user_api_key e i uk st))"
    by (rule move [OF user_key_handler_frame(2) user_key_ops_wf(2) [OF n]])
  show "wf_auth (snd (rotate_user_key_handler h r e i st))"
    by (rule move [OF user_key_handler_frame(3) user_key_ops_wf(3) [OF n]])
  show "wf_auth (snd (delete_user_api_key e i st))"
    by (rule move [OF user_key_handler_frame(4) user_key_ops_wf(4) [OF n]])
  show "wf_auth (snd (bulk_delete_user_api_keys e ids st))"
    by (rule move [OF user_key_handler_frame(5) user_key_ops_wf(5) [OF n]])
  show "wf_auth (snd (create_daemon_api_key h r t i e k st))"
    by (rule stay [OF daemon_handler_frame(1) daemon_ops_wf(1) [OF d]])
  show "wf_auth (snd (update_daemon_api_key e i k st))"
    by (rule stay [OF daemon_handler_frame(2) daemon_ops_wf(2) [OF d]])
  show "wf_auth (snd (rotate_daemon_key_handler h r e i st))"
    by (rule stay [OF daemon_handler_frame(3) daemon_ops_wf(3) [OF d]])
  show "wf_auth (snd (delete_daemon_api_key e i st))"
    by (rule stay [OF daemon_handler_frame(4) daemon_ops_wf(4) [OF d]])
  show "wf_auth (snd (bulk_delete_daemon_api_keys e ids st))"
    by (rule stay [OF daemon_handler_frame(5) daemon_ops_wf(5) [OF d]])
  show "wf_auth (snd (extract_auth env fails t rq st))"
    by (rule stay [OF request_accounts]) (simp add: request_daemon_keys d)
  show "wf_auth (run_pending n st)" for n
    using run_pending_frames [of st n] u d \<open>wf_key_networks st\<close> by (simp add: wf_auth_def same_users_def)
qed

lemma auth_step_wf: "auth_step env c c' \<Longrightarrow> wf_auth (fst c) \<Longrightarrow> wf_auth (fst c')"
  by (induction rule: auth_step.induct) (simp_all add: account_steps_wf key_steps_wf)

interpretation tables: run_invariant "auth_step env" "\<lambda>c. wf_auth (fst c)" for env
  by unfold_locales (rule auth_step_wf)

lemma auth_reachable_wf: "auth_reachable env c \<Longrightarrow> wf_auth (fst c)"
proof (induction rule: auth_reachable.induct)
  case (start st t)
  then show ?case by (simp add: wf_auth_def wf_users_def wf_daemon_keys_def wf_key_networks_def)
qed (rule auth_step_wf)

end
