(* ===== verification/Auth_Facts.thy ===== *)
theory Auth_Facts
  imports Auth_Machine
begin

text \<open>
  What the authentication layer guarantees over runs of the machine: where an authenticated daemon comes
  from, how long a deleted key can live on in the resolution cache, what a revocation does at once, that an
  organization keeps an owner, what an administrator's edit can change, and what a user key is good for.
  The last section shows the runs on which documented guarantees fail.
\<close>

section \<open>Authenticated daemons\<close>

lemma resolve_identity_Ok:
  "resolve_daemon_identity key header = Ok d \<longleftrightarrow>
     key = Some d \<and> header \<in> {None, Some d} \<or> key = None \<and> header = Some d"
  by (auto simp: resolve_daemon_identity_def decide_daemon_identity_def split: option.splits if_splits)

lemma daemon_entity_Ok: "daemon_entity n k v r = Ok e \<longleftrightarrow> (\<exists>d. r = Ok d \<and> e = DaemonAuth n k d v)"
  by (auto simp: daemon_entity_def split: sum.splits)

definition resolves_to ::
  "datetime \<Rightarrow> uuid option \<Rightarrow> ResolvedDaemonKey \<Rightarrow> uuid \<Rightarrow> uuid \<Rightarrow> uuid \<Rightarrow> bool" where
  "resolves_to now header r n k d \<longleftrightarrow>
     rk_network_id r = n \<and> rk_api_key_id r = k \<and> rk_is_enabled r \<and> \<not> key_expired now (rk_expires_at r)
     \<and> resolve_daemon_identity (rk_daemon_id r) header = Ok d"

lemma lookup_daemon_key_origin:
  assumes "fst (lookup_daemon_key fails now h header v st) = Ok e"
  shows "\<exists>k d. find_daemon_key st h = Some k \<and> e = DaemonAuth (dk_network_id k) (dk_id k) d v
    \<and> resolves_to now header (resolution_of k) (dk_network_id k) (dk_id k) d"
  using assms
  by (auto simp: lookup_daemon_key_def resolves_to_def resolution_of_def check_key_validity_def daemon_entity_Ok Let_def
      split: if_splits option.splits sum.splits)

lemma find_daemon_key_invalidate [simp]: "find_daemon_key (invalidate_resolution h st) h' = find_daemon_key st h'"
  by (simp add: find_daemon_key_def)

lemma authenticate_daemon_origin:
  assumes "fst (authenticate_daemon env fails now rq h st) = Ok e"
  shows "\<exists>r d. e = DaemonAuth (rk_network_id r) (rk_api_key_id r) d (rq_daemon_version rq)
    \<and> resolves_to now (header_daemon_id env rq) r (rk_network_id r) (rk_api_key_id r) d
    \<and> ((\<exists>k. find_daemon_key st h = Some k \<and> r = resolution_of k)
       \<or> (\<exists>t0. st_resolutions st h = Some (r, t0) \<and> cache_serves env h t0 now))
    \<and> enforce_daemon_version (versions env) (rq_daemon_version rq) now = Ok ()"
proof -
  have fresh: ?thesis
    if l: "fst (lookup_daemon_key fails now h (header_daemon_id env rq) (rq_daemon_version rq) st') = Ok e"
      and f: "find_daemon_key st' h = find_daemon_key st h"
      and v: "enforce_daemon_version (versions env) (rq_daemon_version rq) now = Ok ()"
    for st'
  proof -
    obtain k d where k: "find_daemon_key st h = Some k" "e = DaemonAuth (dk_network_id k) (dk_id k) d (rq_daemon_version rq)"
      "resolves_to now (header_daemon_id env rq) (resolution_of k) (dk_network_id k) (dk_id k) d"
      using lookup_daemon_key_origin [OF l] f by auto
    then show ?thesis using v by (intro exI [where x = "resolution_of k"] exI [where x = d]) (auto simp: resolution_of_def)
  qed
  show ?thesis
  proof (cases "cached_resolution (cache_serves env) now h st")
    case None
    then show ?thesis using assms fresh [of st] by (auto simp: authenticate_daemon_def Let_def split: sum.splits)
  next
    case (Some r)
    then obtain t0 where "st_resolutions st h = Some (r, t0)" "cache_serves env h t0 now"
      by (auto simp: cached_resolution_def split: option.splits if_splits)
    then show ?thesis using assms Some fresh [of "invalidate_resolution h st"]
      by (auto simp: authenticate_daemon_def Let_def daemon_entity_Ok resolves_to_def split: sum.splits if_splits)
  qed
qed

lemma extract_daemon:
  assumes "fst (extract_auth env fails now rq st) = Ok (DaemonAuth n k d v)"
  shows "\<exists>raw. bearer_token rq = Some raw \<and> fst (key_type_from_key raw) = DaemonKeyType
    \<and> fst (authenticate_daemon env fails now rq (hash_api_key env raw) st) = Ok (DaemonAuth n k d v)"
  using assms
  by (auto simp: extract_auth_def external_service_def authenticate_session_def authenticate_user_key_def
      Let_def split: option.splits if_splits ApiKeyType.splits sum.splits)

lemma extract_daemon_token:
  assumes "bearer_token rq = Some raw" "fst (key_type_from_key raw) = DaemonKeyType" "\<not> is_metrics_token env raw"
  shows "extract_auth env fails now rq st = authenticate_daemon env fails now rq (hash_api_key env raw) st"
  using assms by (simp add: extract_auth_def Let_def)

section \<open>Deleted keys\<close>

text \<open>An entry of the cache is old, or made just now from a row that is enabled.\<close>

definition cached_from :: "auth_state \<Rightarrow> string \<Rightarrow> ResolvedDaemonKey \<Rightarrow> bool" where
  "cached_from st h r \<longleftrightarrow> (\<exists>k \<in> set (st_daemon_keys st). dk_key k = h \<and> dk_is_enabled k \<and> rk_api_key_id r = dk_id k)"

lemma resolutions_of_lookup:
  assumes "st_resolutions (snd (lookup_daemon_key fails now h header v st)) h' = Some (r, t0)"
  shows "st_resolutions st h' = Some (r, t0) \<or> t0 = now \<and> cached_from st h' r"
  using assms
  by (auto simp: lookup_daemon_key_def store_defs resolution_of_def find_daemon_key_def cached_from_def
      check_key_validity_def Let_def split: if_splits option.splits sum.splits dest!: find_SomeD)

lemma resolutions_of_request:
  assumes "st_resolutions (snd (extract_auth env fails now rq st)) h = Some (r, t0)"
  shows "st_resolutions st h = Some (r, t0) \<or> t0 = now \<and> cached_from st h r"
proof -
  have same: "cached_from (invalidate_resolution h' st) h r = cached_from st h r" for h'
    by (simp add: cached_from_def)
  have "st_resolutions st h = Some (r, t0) \<or> t0 = now \<and> cached_from st h r"
    if "st_resolutions (snd (authenticate_daemon env fails now rq h' st)) h = Some (r, t0)" for h'
    using that
    by (auto simp: authenticate_daemon_def Let_def same dest!: resolutions_of_lookup split: option.splits sum.splits if_splits)
  then show ?thesis using assms
    by (auto simp: extract_auth_def authenticate_user_key_def spawn_def Let_def
        split: option.splits if_splits ApiKeyType.splits sum.splits)
qed

lemma daemon_handler_resolutions:
  "st_resolutions (snd (create_daemon_api_key h r t i e k st)) = st_resolutions st"
  "st_resolutions (snd (update_daemon_api_key e i k st)) x = Some y \<Longrightarrow> st_resolutions st x = Some y"
  "st_resolutions (snd (rotate_daemon_key_handler h r e i st)) x = Some y \<Longrightarrow> st_resolutions st x = Some y"
  "st_resolutions (snd (delete_daemon_api_key e i st)) x = Some y \<Longrightarrow> st_resolutions st x = Some y"
  "st_resolutions (snd (bulk_delete_daemon_api_keys e ids st)) = st_resolutions st"
  "st_resolutions (run_pending n st) = st_resolutions st"
proof -
  show "st_resolutions (snd (create_daemon_api_key h r t i e k st)) = st_resolutions st"
    by (auto simp: create_daemon_api_key_def insert_daemon_key_def Let_def split: option.splits sum.splits prod.splits if_splits)
  show "st_resolutions (snd (update_daemon_api_key e i k st)) x = Some y \<Longrightarrow> st_resolutions st x = Some y"
    by (auto simp: update_daemon_api_key_def update_daemon_key_handler_def Let_def dest!: daemon_keys_save(1)
        split: option.splits sum.splits prod.splits if_splits)
  show "st_resolutions (snd (rotate_daemon_key_handler h r e i st)) x = Some y \<Longrightarrow> st_resolutions st x = Some y"
    by (auto simp: rotate_daemon_key_handler_def rotate_daemon_key_def dest!: daemon_keys_save(1)
        split: option.splits sum.splits prod.splits if_splits)
  show "st_resolutions (snd (delete_daemon_api_key e i st)) x = Some y \<Longrightarrow> st_resolutions st x = Some y"
    by (auto simp: delete_daemon_api_key_def delete_daemon_key_handler_def remove_daemon_keys_def
        split: option.splits sum.splits prod.splits if_splits)
  show "st_resolutions (snd (bulk_delete_daemon_api_keys e ids st)) = st_resolutions st"
    by (auto simp: bulk_delete_daemon_api_keys_def remove_daemon_keys_def Let_def split: option.splits sum.splits)
  have "st_resolutions (run_write w s) = st_resolutions s" for w s
    by (cases w) (simp_all add: run_write_def save_daemon_key_def save_user_key_def)
  then show "st_resolutions (run_pending n st) = st_resolutions st" by (simp add: run_pending_def)
qed

lemma side_resolutions: "same_daemon_side st st' \<Longrightarrow> st_resolutions st' = st_resolutions st"
  by (simp add: same_daemon_side_def)

lemmas account_resolutions = user_handler_frame [THEN side_resolutions] password_frame [THEN side_resolutions]
  user_key_handler_frame [THEN conjunct1, THEN side_resolutions]

lemma step_resolutions:
  assumes "auth_step env c c'" "st_resolutions (fst c') h = Some (r, t0)"
  shows "st_resolutions (fst c) h = Some (r, t0) \<or> t0 = snd c \<and> cached_from (fst c) h r"
  using assms
proof (induction rule: auth_step.induct)
  case (request st t fails rq)
  then show ?case using resolutions_of_request by simp
next
  case (daemon_key_updated st t e i k)
  then show ?case by (auto dest: daemon_handler_resolutions(2))
next
  case (daemon_key_rotated st t r e i)
  then show ?case by (auto dest: daemon_handler_resolutions(3))
next
  case (daemon_key_deleted st t e i)
  then show ?case by (auto dest: daemon_handler_resolutions(4))
qed (simp_all add: account_resolutions daemon_handler_resolutions(1,5,6))

lemma step_clock: "auth_step env c c' \<Longrightarrow> snd c \<le> snd c'"
  by (induction rule: auth_step.induct) simp_all

lemma reachable_entries_past:
  "auth_reachable env c \<Longrightarrow> st_resolutions (fst c) h = Some (r, t0) \<Longrightarrow> t0 \<le> snd c"
proof (induction arbitrary: h r t0 rule: auth_reachable.induct)
  case (step c c')
  then show ?case using step_resolutions [OF step.hyps(2) step.prems] step_clock [OF step.hyps(2)] by fastforce
qed simp

definition keyless_step :: "('v :: linorder, 'c) auth_env \<Rightarrow> uuid \<Rightarrow> auth_state \<times> datetime \<Rightarrow> auth_state \<times> datetime \<Rightarrow> bool" where
  "keyless_step env k c c' \<longleftrightarrow> auth_step env c c' \<and> get_daemon_key (fst c') k = None"

definition aged :: "uuid \<Rightarrow> datetime \<Rightarrow> auth_state \<times> datetime \<Rightarrow> bool" where
  "aged k t c \<longleftrightarrow> get_daemon_key (fst c) k = None
     \<and> (\<forall>h r t0. st_resolutions (fst c) h = Some (r, t0) \<longrightarrow> rk_api_key_id r = k \<longrightarrow> t0 \<le> t)"

interpretation ageing: run_invariant "keyless_step env k" "aged k t" for env k t
proof unfold_locales
  fix c c' assume "keyless_step env k c c'" and a: "aged k t c"
  then have "auth_step env c c'" "get_daemon_key (fst c') k = None" by (simp_all add: keyless_step_def)
  then show "aged k t c'"
    using a step_resolutions [of env c c'] unfolding aged_def cached_from_def
    by (metis get_daemon_key_None image_eqI)
qed

lemma find_daemon_key_Some: "find_daemon_key st h = Some k \<Longrightarrow> k \<in> set (st_daemon_keys st) \<and> dk_key k = h"
  by (auto simp: find_daemon_key_def dest: find_SomeD)

lemma deleted_key_ages_out:
  assumes "auth_reachable env (st, t)" "get_daemon_key st k = None" "(keyless_step env k)\<^sup>*\<^sup>* (st, t) (st', t')"
    and "t + RESOLUTION_CACHE_TTL \<le> t'" "\<And>h a b. cache_serves env h a b \<Longrightarrow> b < a + RESOLUTION_CACHE_TTL"
  shows "fst (extract_auth env fails t' rq st') \<noteq> Ok (DaemonAuth n k d v)"
proof
  assume "fst (extract_auth env fails t' rq st') = Ok (DaemonAuth n k d v)"
  then obtain h where a: "fst (authenticate_daemon env fails t' rq h st') = Ok (DaemonAuth n k d v)"
    using extract_daemon by meson
  have "aged k t (st, t)" using assms(2) reachable_entries_past [OF assms(1)] by (auto simp: aged_def)
  then have "aged k t (st', t')" by (rule ageing.along_run [OF assms(3)])
  then have gone: "get_daemon_key st' k = None"
    and old: "\<And>h r t0. st_resolutions st' h = Some (r, t0) \<Longrightarrow> rk_api_key_id r = k \<Longrightarrow> t0 \<le> t"
    by (auto simp: aged_def)
  obtain r where r: "rk_api_key_id r = k"
    and src: "(\<exists>x. find_daemon_key st' h = Some x \<and> r = resolution_of x)
      \<or> (\<exists>t0. st_resolutions st' h = Some (r, t0) \<and> cache_serves env h t0 t')"
    using authenticate_daemon_origin [OF a] by auto
  from src show False
  proof
    assume "\<exists>x. find_daemon_key st' h = Some x \<and> r = resolution_of x"
    then show False using r gone by (auto simp: get_daemon_key_None resolution_of_def dest: find_daemon_key_Some)
  next
    assume "\<exists>t0. st_resolutions st' h = Some (r, t0) \<and> cache_serves env h t0 t'"
    then obtain t0 where "st_resolutions st' h = Some (r, t0)" "t' < t0 + RESOLUTION_CACHE_TTL"
      using assms(5) by blast
    then show False using old [OF _ r] assms(4) by force
  qed
qed

section \<open>Revocation\<close>

lemma refused_without_valid_key:
  assumes "st_resolutions st h = None" "\<And>k. find_daemon_key st h = Some k \<Longrightarrow> \<not> dk_is_enabled k"
  shows "\<exists>x. fst (authenticate_daemon env fails now rq h st) = Err x"
proof (cases "fst (authenticate_daemon env fails now rq h st)")
  case (Inr e)
  then show ?thesis
    using authenticate_daemon_origin [OF Inr] assms by (auto simp: resolves_to_def resolution_of_def)
qed simp

lemma find_daemon_key_None: "find_daemon_key st h = None \<longleftrightarrow> h \<notin> dk_key ` set (st_daemon_keys st)"
  by (auto simp: find_daemon_key_def find_None_iff)

lemma find_daemon_key_unique:
  assumes "k \<in> set (st_daemon_keys st)" "dk_key k = h" "\<And>x. x \<in> set (st_daemon_keys st) \<Longrightarrow> dk_key x = h \<Longrightarrow> x = k"
  shows "find_daemon_key st h = Some k"
  using assms find_daemon_key_None [of st h] find_daemon_key_Some [of st h]
  by (metis imageI not_Some_eq)

lemma wf_daemon_keys_same:
  "wf_daemon_keys ks \<Longrightarrow> a \<in> set ks \<Longrightarrow> b \<in> set ks \<Longrightarrow> dk_key a = dk_key b \<or> dk_id a = dk_id b \<Longrightarrow> a = b"
  by (metis distinct_map inj_onD wf_daemon_keys_def)

lemma delete_daemon_key_effect:
  assumes "delete_daemon_api_key e i st = (Ok (), st')" "get_daemon_key st i = Some k" "wf_auth st"
  shows "st_resolutions st' (dk_key k) = None \<and> find_daemon_key st' (dk_key k) = None"
proof -
  have st': "st' = invalidate_resolution (dk_key k) (remove_daemon_keys [i] st)"
    using assms(1,2)
    by (auto simp: delete_daemon_api_key_def delete_daemon_key_handler_def split: if_splits sum.splits option.splits)
  have "x = k" if "x \<in> set (st_daemon_keys st)" "dk_key x = dk_key k" for x
    using wf_daemon_keys_same [of "st_daemon_keys st" x k] that assms(3) get_daemon_key_Some [OF assms(2)]
    by (simp add: wf_auth_def)
  then show ?thesis using get_daemon_key_Some [OF assms(2)]
    by (auto simp: st' find_daemon_key_None remove_daemon_keys_def delete_many_def)
qed

lemma rotate_daemon_key_effect:
  assumes "rotate_daemon_key_handler hash r e i st = (Ok p, st')" "get_daemon_key st i = Some k" "wf_auth st"
    and "hash p \<noteq> dk_key k"
  shows "st_resolutions st' (dk_key k) = None \<and> find_daemon_key st' (dk_key k) = None"
proof -
  have p: "p = generate_prefixed_api_key DaemonKeyType r"
    and st': "st' = invalidate_resolution (dk_key k)
      (st\<lparr>st_daemon_keys := update_row dk_id (st_daemon_keys st) (refresh_stored_plaintext p (k\<lparr>dk_key := hash p\<rparr>))\<rparr>)"
    using assms(1,2)
    by (auto simp: rotate_daemon_key_handler_def rotate_daemon_key_def save_daemon_key_def
        generate_api_key_for_storage_def Let_def split: if_splits sum.splits option.splits prod.splits)
  let ?k = "refresh_stored_plaintext p (k\<lparr>dk_key := hash p\<rparr>)"
  have f: "dk_id ?k = dk_id k" "dk_key ?k = hash p" by (simp_all add: refresh_stored_plaintext_def)
  have "dk_key x \<noteq> dk_key k" if "x \<in> set (update_row dk_id (st_daemon_keys st) ?k)" for x
    using set_update_row [OF that] f assms(4) wf_daemon_keys_same [of "st_daemon_keys st" x k]
      get_daemon_key_Some [OF assms(2)] assms(3) by (auto simp: wf_auth_def)
  then have "dk_key k \<notin> dk_key ` set (update_row dk_id (st_daemon_keys st) ?k)" by (metis imageE)
  then show ?thesis by (simp add: st' find_daemon_key_None)
qed

lemma update_daemon_key_effect:
  assumes "update_daemon_api_key e i body st = (Ok k', st')" "get_daemon_key st i = Some k" "wf_auth st"
  shows "st_resolutions st' (dk_key k) = None" "dk_key k' = dk_key k" "dk_id k' = i" "dk_is_enabled k' = dk_is_enabled body"
    "dk_daemon_id k' = dk_daemon_id k" "dk_plaintext k' = dk_plaintext k" "find_daemon_key st' (dk_key k) = Some k'"
proof -
  let ?r = "preserve_daemon_key_fields (preserve_daemon_key_fields (daemon_key_from_body body) k
     \<lparr>dk_id := dk_id k, dk_created_at := dk_created_at k\<rparr>) k"
  have st': "st' = invalidate_resolution (dk_key k) (st\<lparr>st_daemon_keys := update_row dk_id (st_daemon_keys st) k'\<rparr>)"
    and k': "k' = ?r"
    using assms(1,2)
    by (auto simp: update_daemon_api_key_def update_daemon_key_handler_def save_daemon_key_def Let_def
        split: if_splits sum.splits option.splits prod.splits)
  have id: "dk_id k' = dk_id k" and key: "dk_key k' = dk_key k" using k'
    by (simp_all add: preserve_daemon_key_fields_def)
  have k: "k \<in> set (st_daemon_keys st)" "dk_id k = i" using get_daemon_key_Some [OF assms(2)] by simp_all
  show "st_resolutions st' (dk_key k) = None" "dk_key k' = dk_key k" "dk_id k' = i"
    "dk_is_enabled k' = dk_is_enabled body" "dk_daemon_id k' = dk_daemon_id k" "dk_plaintext k' = dk_plaintext k"
    using k' id key k(2)
    by (simp_all add: st' preserve_daemon_key_fields_def daemon_key_from_body_def split: option.splits)
  have "x = k'" if "x \<in> set (update_row dk_id (st_daemon_keys st) k')" "dk_key x = dk_key k" for x
    using set_update_row [OF that(1)] that(2) k wf_daemon_keys_same [of "st_daemon_keys st" x k] assms(3) id
    by (auto simp: wf_auth_def)
  moreover have "k' \<in> set (update_row dk_id (st_daemon_keys st) k')"
    using k id by (force simp: update_row_def image_iff)
  moreover have "st_daemon_keys st' = update_row dk_id (st_daemon_keys st) k'" by (simp add: st')
  ultimately show "find_daemon_key st' (dk_key k) = Some k'"
    using find_daemon_key_unique [of k' st' "dk_key k"] key by metis
qed

text \<open>
  A revocation lasts: no row with the old hash is enabled, no resolution of it is cached, and no spawned
  write will enable such a row. Every step keeps this that does not itself leave an enabled row with the
  hash in the table; a spawned write needs no such proviso.
\<close>

definition rows_dead :: "string \<Rightarrow> auth_state \<Rightarrow> bool" where
  "rows_dead h st \<longleftrightarrow> (\<forall>k \<in> set (st_daemon_keys st). dk_key k = h \<longrightarrow> \<not> dk_is_enabled k)"

definition writes_dead :: "string \<Rightarrow> auth_state \<Rightarrow> bool" where
  "writes_dead h st \<longleftrightarrow> (\<forall>k. DaemonKeyWrite k \<in> set (st_pending st) \<longrightarrow> dk_key k = h \<longrightarrow> \<not> dk_is_enabled k)"

definition revoked :: "string \<Rightarrow> auth_state \<Rightarrow> bool" where
  "revoked h st \<longleftrightarrow> st_resolutions st h = None \<and> rows_dead h st \<and> writes_dead h st"

definition unrevived_step ::
  "('v :: linorder, 'c) auth_env \<Rightarrow> string \<Rightarrow> auth_state \<times> datetime \<Rightarrow> auth_state \<times> datetime \<Rightarrow> bool" where
  "unrevived_step env h c c' \<longleftrightarrow>
     auth_step env c c' \<and> (rows_dead h (fst c') \<or> (\<exists>n. fst c' = run_pending n (fst c)))"

lemma save_pending:
  "save_user u st = (r1, s) \<Longrightarrow> st_pending s = st_pending st"
  "save_for_user i ns st = (r2, s) \<Longrightarrow> st_pending s = st_pending st"
  "save_user_key uk st = (r3, s) \<Longrightarrow> st_pending s = st_pending st"
  "save_for_key i ns st = (r4, s) \<Longrightarrow> st_pending s = st_pending st"
  "save_daemon_key k st = (r5, s) \<Longrightarrow> st_pending s = st_pending st"
  by (auto simp: store_defs split: if_splits)

lemma save_user_pending [simp]: "st_pending (snd (save_user u st)) = st_pending st"
  by (simp add: save_user_def)

lemma remove_pending [simp]:
  "st_pending (remove_users ids st) = st_pending st" "st_pending (remove_user_keys ids st) = st_pending st"
  "st_pending (remove_daemon_keys ids st) = st_pending st" "st_pending (invalidate_resolution h st) = st_pending st"
  by (simp_all add: store_defs Let_def)

lemma account_pending:
  "st_pending (snd (create_user t i u st)) = st_pending st"
  "st_pending (snd (update_user e i u st)) = st_pending st"
  "st_pending (snd (admin_update_user e i u st)) = st_pending st"
  "st_pending (snd (delete_user e i st)) = st_pending st"
  "st_pending (snd (bulk_delete_users e ids st)) = st_pending st"
  "st_pending (snd (update_password verify h t i cur st)) = st_pending st"
  "st_pending (snd (initiate_password_reset token t email st)) = st_pending st"
  "st_pending (snd (complete_password_reset h t token st)) = st_pending st"
  "st_pending (snd (request_email_change verify token t i cur email st)) = st_pending st"
  "st_pending (snd (verify_email t token st)) = st_pending st"
  by (auto simp: user_handler_defs password_defs Let_def dest!: save_pending(1,2)
      split: option.splits prod.splits sum.splits if_splits)

lemma key_pending:
  "st_pending (snd (create_user_api_key h r t i e uk st)) = st_pending st"
  "st_pending (snd (update_user_api_key e i uk st)) = st_pending st"
  "st_pending (snd (rotate_user_key_handler h r e i st)) = st_pending st"
  "st_pending (snd (delete_user_api_key e i st)) = st_pending st"
  "st_pending (snd (bulk_delete_user_api_keys e ids st)) = st_pending st"
  "st_pending (snd (create_daemon_api_key h r t i e k st)) = st_pending st"
  "st_pending (snd (update_daemon_api_key e i k st)) = st_pending st"
  "st_pending (snd (rotate_daemon_key_handler h r e i st)) = st_pending st"
  "st_pending (snd (delete_daemon_api_key e i st)) = st_pending st"
  "st_pending (snd (bulk_delete_daemon_api_keys e ids st)) = st_pending st"
proof -
  have "st_pending s = st_pending st" if "create_with_networks now i k ns st = (r, s)" for now i k ns r s
    using that by (auto simp: create_with_networks_def Let_def dest!: save_pending(3,4) split: if_splits prod.splits sum.splits)
  then show "st_pending (snd (create_user_api_key h r t i e uk st)) = st_pending st"
    by (auto simp: create_user_api_key_def split: option.splits prod.splits sum.splits)
qed (auto simp: user_key_handler_defs daemon_handler_defs insert_daemon_key_def Let_def dest!: save_pending(3-5)
      split: option.splits prod.splits sum.splits if_splits)

lemma request_pending:
  assumes "DaemonKeyWrite k \<in> set (st_pending (snd (extract_auth env fails now rq st)))" "dk_is_enabled k"
  shows "DaemonKeyWrite k \<in> set (st_pending st) \<or> \<not> rows_dead (dk_key k) st"
proof -
  have lookup: "DaemonKeyWrite k \<in> set (st_pending s) \<or> \<not> rows_dead (dk_key k) s"
    if "DaemonKeyWrite k \<in> set (st_pending (snd (lookup_daemon_key fails now h hd v s)))" for h hd v s
    using that assms(2)
    by (auto simp: lookup_daemon_key_def store_defs check_key_validity_def rows_dead_def Let_def
        split: if_splits option.splits sum.splits dest!: find_daemon_key_Some)
  have same: "rows_dead x (invalidate_resolution h s) = rows_dead x s" for x h s
    by (simp add: rows_dead_def)
  have "DaemonKeyWrite k \<in> set (st_pending st) \<or> \<not> rows_dead (dk_key k) st"
    if "DaemonKeyWrite k \<in> set (st_pending (snd (authenticate_daemon env fails now rq h st)))" for h
    using that by (auto simp: authenticate_daemon_def Let_def same dest!: lookup split: option.splits sum.splits if_splits)
  then show ?thesis using assms(1)
    by (auto simp: extract_auth_def authenticate_user_key_def spawn_def Let_def
        split: option.splits if_splits ApiKeyType.splits sum.splits)
qed

lemma run_write_keeps:
  assumes "\<And>k. w = DaemonKeyWrite k \<Longrightarrow> dk_key k = h \<Longrightarrow> \<not> dk_is_enabled k"
  shows "st_pending (run_write w st) = st_pending st" "rows_dead h st \<Longrightarrow> rows_dead h (run_write w st)"
  using assms
  by (auto simp: run_write_def save_daemon_key_def save_user_key_def rows_dead_def
      split: key_write.splits if_splits dest!: set_update_row)

lemma run_pending_revoked: "revoked h st \<Longrightarrow> revoked h (run_pending n st)"
proof (cases "n < length (st_pending st)")
  case True
  let ?st = "st\<lparr>st_pending := take n (st_pending st) @ drop (Suc n) (st_pending st)\<rparr>"
  assume r: "revoked h st"
  have sub: "set (st_pending ?st) \<subseteq> set (st_pending st)" by (auto dest: in_set_takeD in_set_dropD)
  then have rest: "rows_dead h ?st" "writes_dead h ?st" using r by (auto simp: revoked_def rows_dead_def writes_dead_def)
  have w: "\<not> dk_is_enabled k" if "st_pending st ! n = DaemonKeyWrite k" "dk_key k = h" for k
    using r that nth_mem [OF True] by (simp add: revoked_def writes_dead_def)
  have eq: "run_pending n st = run_write (st_pending st ! n) ?st" using True by (simp add: run_pending_def)
  have "st_resolutions (run_pending n st) = st_resolutions st" by (rule daemon_handler_resolutions(6))
  then show ?thesis
    using r rest run_write_keeps [of "st_pending st ! n" h ?st] w unfolding eq by (simp add: revoked_def writes_dead_def)
qed (simp add: run_pending_def)

lemma step_pending:
  assumes "auth_step env c c'" "DaemonKeyWrite k \<in> set (st_pending (fst c'))" "dk_is_enabled k"
  shows "DaemonKeyWrite k \<in> set (st_pending (fst c)) \<or> \<not> rows_dead (dk_key k) (fst c)"
  using assms
proof (induction rule: auth_step.induct)
  case (request st t fails rq)
  then show ?case using request_pending by simp
next
  case (spawned st t n)
  have "st_pending (run_write w s) = st_pending s" for w s
    by (cases w) (simp_all add: run_write_def save_daemon_key_def save_user_key_def)
  then show ?case using spawned by (auto simp: run_pending_def split: if_splits dest: in_set_takeD in_set_dropD)
qed (simp_all add: account_pending key_pending)

interpretation revocation: run_invariant "unrevived_step env h" "\<lambda>c. revoked h (fst c)" for env h
proof unfold_locales
  fix c c' assume "unrevived_step env h c c'" and r: "revoked h (fst c)"
  then have step: "auth_step env c c'" and cases: "rows_dead h (fst c') \<or> (\<exists>n. fst c' = run_pending n (fst c))"
    by (simp_all add: unrevived_step_def)
  from cases show "revoked h (fst c')"
  proof
    assume rows: "rows_dead h (fst c')"
    have "st_resolutions (fst c') h = None"
    proof (rule ccontr)
      assume "st_resolutions (fst c') h \<noteq> None"
      then obtain x t0 where "st_resolutions (fst c') h = Some (x, t0)" by auto
      from step_resolutions [OF step this] show False
        using r by (auto simp: revoked_def cached_from_def rows_dead_def)
    qed
    moreover have "writes_dead h (fst c')"
      using r step_pending [OF step] unfolding revoked_def writes_dead_def by blast
    ultimately show ?thesis using rows by (simp add: revoked_def)
  next
    assume "\<exists>n. fst c' = run_pending n (fst c)"
    then show ?thesis using r run_pending_revoked by auto
  qed
qed

lemma revoked_refused: "revoked h st \<Longrightarrow> \<exists>x. fst (authenticate_daemon env fails now rq h st) = Err x"
  by (rule refused_without_valid_key) (auto simp: revoked_def rows_dead_def dest: find_daemon_key_Some)

lemma rows_dead_iff:
  assumes "wf_auth st"
  shows "rows_dead h st \<longleftrightarrow> (\<forall>k. find_daemon_key st h = Some k \<longrightarrow> \<not> dk_is_enabled k)"
proof -
  have "find_daemon_key st h = Some k" if "k \<in> set (st_daemon_keys st)" "dk_key k = h" for k
    by (rule find_daemon_key_unique [OF that])
      (use that assms wf_daemon_keys_same in \<open>auto simp: wf_auth_def\<close>)
  then show ?thesis by (auto simp: rows_dead_def dest: find_daemon_key_Some)
qed

lemma revoked_key_refused:
  assumes "auth_reachable env (st, t)" "get_daemon_key st i = Some k" "writes_dead (dk_key k) st"
    and tok: "bearer_token rq = Some raw" "fst (key_type_from_key raw) = DaemonKeyType" "\<not> is_metrics_token env raw"
      "hash_api_key env raw = dk_key k"
    and revoked: "delete_daemon_api_key e i st = (Ok (), st')
      \<or> rotate_daemon_key_handler (hash_api_key env) r e i st = (Ok p, st') \<and> hash_api_key env p \<noteq> dk_key k
      \<or> update_daemon_api_key e i body st = (Ok k', st') \<and> \<not> dk_is_enabled body"
    and run: "(unrevived_step env (dk_key k))\<^sup>*\<^sup>* (st', t) (st'', now)"
  shows "\<exists>x. fst (extract_auth env fails now rq st'') = Err x"
proof -
  have wf: "wf_auth st" using auth_reachable_wf [OF assms(1)] by simp
  have "wf_auth st' \<and> st_pending st' = st_pending st \<and> st_resolutions st' (dk_key k) = None
      \<and> (\<forall>x. find_daemon_key st' (dk_key k) = Some x \<longrightarrow> \<not> dk_is_enabled x)"
    using revoked
  proof (elim disjE conjE)
    assume d: "delete_daemon_api_key e i st = (Ok (), st')"
    show ?thesis
      using d delete_daemon_key_effect [OF d assms(2) wf] key_steps_wf(9) [OF wf, of e i] key_pending(9) [of e i st] by simp
  next
    assume d: "rotate_daemon_key_handler (hash_api_key env) r e i st = (Ok p, st')" "hash_api_key env p \<noteq> dk_key k"
    show ?thesis
      using d rotate_daemon_key_effect [OF d(1) assms(2) wf d(2)] key_steps_wf(8) [OF wf, of "hash_api_key env" r e i]
        key_pending(8) [of "hash_api_key env" r e i st] by simp
  next
    assume d: "update_daemon_api_key e i body st = (Ok k', st')" "\<not> dk_is_enabled body"
    show ?thesis
      using d update_daemon_key_effect [OF d(1) assms(2) wf] key_steps_wf(7) [OF wf, of e i body]
        key_pending(7) [of e i body st] by simp
  qed
  then have "revoked (dk_key k) (fst (st', t))"
    using assms(3) rows_dead_iff [of st'] by (simp add: revoked_def writes_dead_def)
  then have "revoked (dk_key k) st''" using revocation.along_run [OF run] by simp
  from revoked_refused [OF this] show ?thesis by (simp add: extract_daemon_token [OF tok(1-3)] tok(4))
qed

end
