(* ===== verification/Account_Facts.thy ===== *)
theory Account_Facts
  imports Auth_Facts
begin

text \<open>
  Accounts over runs of the machine: which row a user edit reaches, that an organization keeps an owner,
  what a user key is good for, what a password change does to sessions; and the runs on which the accounts
  lose a documented guarantee.
\<close>

section \<open>The row an edit reaches\<close>

lemma save_user_Ok:
  "save_user u st = (Ok v, s) \<longleftrightarrow>
     v = u \<and> get_user st (usr_id u) \<noteq> None \<and> user_row_allowed (st_users st) u
     \<and> s = st\<lparr>st_users := update_row usr_id (st_users st) (user_row u)\<rparr>"
  by (auto simp: save_user_def)

lemma save_user_Err: "save_user u st = (Err x, s) \<Longrightarrow> s = st"
  by (auto simp: save_user_def split: if_splits)

text \<open>The request names the row it writes; the unique index on the address forces it to be the row that was
  checked.\<close>

lemma same_email_same_row:
  assumes "get_user st i = Some x" "usr_email u = usr_email x" "user_row_allowed (st_users st) u"
  shows "usr_id u = i"
proof (rule ccontr)
  assume "usr_id u \<noteq> i"
  then have "\<not> emails_clash x u" using assms(3) get_user_Some [OF assms(1)] by (auto simp: user_row_allowed_def)
  then show False using assms(2) by (simp add: emails_clash_def)
qed

lemma get_user_update:
  "get_user (st\<lparr>st_users := update_row usr_id (st_users st) (user_row u)\<rparr>) j =
     (if j = usr_id u \<and> get_user st j \<noteq> None then Some (user_row u) else get_user st j)"
  by (auto simp: get_user_def get_by_id_update_row)

lemma authorize_entity: "authorize p (Ok e) = Ok e' \<Longrightarrow> e' = e"
  by (auto simp: authorize_Ok_iff)

lemma user_from_body_simps [simp]:
  "usr_permissions (user_from_body b) = usr_permissions b" "usr_id (user_from_body b) = usr_id b"
  "usr_organization_id (user_from_body b) = usr_organization_id b" "usr_network_ids (user_from_body b) = usr_network_ids b"
  "usr_email_verified (user_from_body b) = usr_email_verified b" "usr_session_epoch (user_from_body b) = 0"
  by (simp_all add: user_from_body_def)

definition admin_written :: "User \<Rightarrow> User \<Rightarrow> User" where
  "admin_written old body = (keep_credentials old (user_from_body body))\<lparr>usr_email_settings := usr_email_settings old\<rparr>"

lemma admin_written_simps [simp]:
  "usr_permissions (admin_written old body) = usr_permissions body"
  "usr_organization_id (admin_written old body) = usr_organization_id body"
  "usr_email (admin_written old body) = usr_email old"
  "usr_password_hash (admin_written old body) = usr_password_hash old"
  "usr_id (admin_written old body) = usr_id body"
  by (simp_all add: admin_written_def keep_credentials_def)

text \<open>Whatever the answer is, a change of the users table has passed every check.\<close>

lemma admin_update_user_write:
  assumes "admin_update_user caller i body st = (r, st')" "st_users st' \<noteq> st_users st \<or> r = Ok u"
  shows "\<exists>p old. entity_permissions caller = Some p \<and> get_user st i = Some old
    \<and> entity_organization_id caller = Some (usr_organization_id old) \<and> entity_user_id caller \<noteq> Some i
    \<and> usr_permissions old < p \<and> (p = PermOwner \<or> usr_permissions body < p)
    \<and> usr_organization_id body = usr_organization_id old
    \<and> user_row_allowed (st_users st) (admin_written old body) \<and> (r = Ok u \<longrightarrow> u = admin_written old body)
    \<and> st_users st' = update_row usr_id (st_users st) (user_row (admin_written old body))"
proof -
  obtain a p old where a: "entity_user_id caller = Some a" "entity_permissions caller = Some p" "get_user st i = Some old"
    and c: "entity_organization_id caller = Some (usr_organization_id old)" "a \<noteq> i" "\<not> p \<le> usr_permissions old"
      "\<not> (p \<noteq> PermOwner \<and> p \<le> usr_permissions body)" "usr_organization_id body = usr_organization_id old"
    and s: "\<exists>v s ns r'. save_user (admin_written old body) st = (Ok v, s) \<and> save_for_user i ns s = (r', st') \<and> (r = Ok u \<longrightarrow> u = v)"
    using assms
    by (auto simp: admin_update_user_def admin_written_def [symmetric] Let_def authorize_Ok_iff
        dest: save_user_Err split: option.splits prod.splits sum.splits if_splits) blast+
  obtain v s ns r' where s': "save_user (admin_written old body) st = (Ok v, s)" "save_for_user i ns s = (r', st')" "r = Ok u \<longrightarrow> u = v"
    using s by blast
  have "user_row_allowed (st_users st) (admin_written old body)" "v = admin_written old body"
    "st_users st' = update_row usr_id (st_users st) (user_row (admin_written old body))"
    using s'(1) save_for_user_frame [OF s'(2)] unfolding save_user_Ok by (auto simp: same_users_def)
  then show ?thesis using a c s'(3) by (auto simp: not_le)
qed

lemma admin_update_user_effect:
  assumes "admin_update_user caller i body st = (Ok u, st')"
  shows "\<exists>p old. entity_permissions caller = Some p \<and> get_user st i = Some old
    \<and> entity_organization_id caller = Some (usr_organization_id old) \<and> entity_user_id caller \<noteq> Some i
    \<and> usr_permissions old < p \<and> (p = PermOwner \<or> usr_permissions u < p)
    \<and> usr_organization_id u = usr_organization_id old \<and> usr_email u = usr_email old
    \<and> usr_password_hash u = usr_password_hash old
    \<and> (\<forall>j. get_user st' j = (if j = i then Some (user_row u) else get_user st j))"
proof -
  obtain p old where o: "entity_permissions caller = Some p" "get_user st i = Some old"
    "entity_organization_id caller = Some (usr_organization_id old)" "entity_user_id caller \<noteq> Some i"
    "usr_permissions old < p" "p = PermOwner \<or> usr_permissions body < p" "usr_organization_id body = usr_organization_id old"
    and u: "u = admin_written old body" "user_row_allowed (st_users st) u"
    and st': "st_users st' = update_row usr_id (st_users st) (user_row u)"
    using admin_update_user_write [OF assms, of u] by auto
  have "usr_id u = i" using same_email_same_row [OF o(2) _ u(2)] u(1) by simp
  then have "get_user st' j = (if j = i then Some (user_row u) else get_user st j)" for j
    using get_user_update [of st u j] o(2) by (simp add: get_user_def st')
  then show ?thesis using o u(1) by auto
qed

section \<open>Owners\<close>

definition has_owner :: "auth_state \<Rightarrow> uuid \<Rightarrow> bool" where
  "has_owner st org \<longleftrightarrow> (\<exists>u \<in> set (st_users st). usr_organization_id u = org \<and> usr_permissions u = PermOwner)"

lemma has_owner_iff: "has_owner st org \<longleftrightarrow> organization_owners st org \<noteq> []"
  by (auto simp: has_owner_def organization_owners_def filter_empty_conv)

lemma same_users_owner: "same_users st st' \<Longrightarrow> has_owner st' org = has_owner st org"
  by (simp add: same_users_def has_owner_def)

text \<open>A row that keeps its identifier, organization and role, or was no owner, takes no owner away.\<close>

lemma update_row_owner:
  assumes "has_owner st org" "x \<in> set (st_users st)" "usr_id u = usr_id x" "wf_users (st_users st)"
    and "usr_permissions x = PermOwner \<Longrightarrow> usr_permissions u = PermOwner \<and> usr_organization_id u = usr_organization_id x"
  shows "has_owner (st\<lparr>st_users := update_row usr_id (st_users st) (user_row u)\<rparr>) org"
proof -
  obtain w where w: "w \<in> set (st_users st)" "usr_organization_id w = org" "usr_permissions w = PermOwner"
    using assms(1) by (auto simp: has_owner_def)
  show ?thesis
  proof (cases "usr_id w = usr_id u")
    case True
    then have "w = x" using w(1) assms(2-4) by (metis distinct_map inj_onD wf_users_def)
    moreover have "user_row u \<in> set (update_row usr_id (st_users st) (user_row u))"
      using assms(2,3) by (force simp: update_row_def image_iff)
    ultimately show ?thesis using assms(5) w by (auto simp: has_owner_def intro!: bexI [where x = "user_row u"])
  next
    case False
    then show ?thesis using w update_row_other [OF w(1), of usr_id "user_row u"] unfolding has_owner_def by fastforce
  qed
qed

lemma save_user_owner:
  assumes "has_owner st org" "wf_users (st_users st)" "save_user u st = (r, s)"
    and "\<And>x. r = Ok x \<Longrightarrow> \<exists>x \<in> set (st_users st). usr_id u = usr_id x
      \<and> (usr_permissions x = PermOwner \<longrightarrow> usr_permissions u = PermOwner \<and> usr_organization_id u = usr_organization_id x)"
  shows "has_owner s org"
proof (cases r)
  case (Inl x)
  then show ?thesis using assms(1,3) save_user_Err by metis
next
  case (Inr x)
  then obtain y where "y \<in> set (st_users st)" "usr_id u = usr_id y"
    "usr_permissions y = PermOwner \<Longrightarrow> usr_permissions u = PermOwner \<and> usr_organization_id u = usr_organization_id y"
    using assms(4) by blast
  then have "has_owner (st\<lparr>st_users := update_row usr_id (st_users st) (user_row u)\<rparr>) org"
    using update_row_owner [OF assms(1)] assms(2) by blast
  then show ?thesis using assms(3) Inr by (simp add: save_user_Ok)
qed

text \<open>The password and e-mail flows write back the row they read, with other columns changed.\<close>

lemma save_changed_row_owner:
  assumes "has_owner st org" "wf_users (st_users st)" "x \<in> set (st_users st)"
    and "usr_id u = usr_id x" "usr_permissions u = usr_permissions x" "usr_organization_id u = usr_organization_id x"
  shows "has_owner (snd (save_user u st)) org"
  using save_user_owner [OF assms(1,2)] assms(3-6) by (metis prod.collapse)

lemma password_ops_owner:
  assumes "has_owner st org" "wf_users (st_users st)"
  shows "has_owner (snd (update_password verify h t i cur st)) org"
    "has_owner (snd (initiate_password_reset token t email st)) org"
    "has_owner (snd (complete_password_reset h t token st)) org"
    "has_owner (snd (request_email_change verify token t i cur email st)) org"
    "has_owner (snd (verify_email t token st)) org"
proof -
  note save = save_changed_row_owner [OF assms]
  have sv: "has_owner s org" if "save_user u st = (r, s)" "x \<in> set (st_users st)" "usr_id u = usr_id x"
    "usr_permissions u = usr_permissions x" "usr_organization_id u = usr_organization_id x" for u r s x
    using save [of x u] that by simp
  show "has_owner (snd (update_password verify h t i cur st)) org"
    using assms(1) save
    by (auto simp: update_password_def set_password_def Let_def dest!: get_user_Some split: option.splits)
  show "has_owner (snd (complete_password_reset h t token st)) org"
    using assms(1) save
    by (auto simp: complete_password_reset_def set_password_def Let_def dest!: find_SomeD split: option.splits)
  show "has_owner (snd (verify_email t token st)) org"
    using assms(1) save
    by (auto simp: verify_email_def Let_def dest!: find_SomeD split: option.splits)
  show "has_owner (snd (initiate_password_reset token t email st)) org"
    using assms(1)
    by (auto simp: initiate_password_reset_def get_user_by_email_def dest!: find_SomeD
        split: option.splits prod.splits sum.splits elim!: sv)
  show "has_owner (snd (request_email_change verify token t i cur email st)) org"
    using assms(1)
    by (auto simp: request_email_change_def set_user_email_verification_params_def dest!: get_user_Some
        split: option.splits prod.splits sum.splits elim!: sv)
qed

lemma remaining_owner:
  assumes "u \<in> set (st_users st)" "usr_organization_id u = org" "usr_permissions u = PermOwner" "usr_id u \<notin> set ids"
  shows "has_owner (remove_users ids st) org"
  using assms by (auto simp: has_owner_def remove_users_def delete_many_def Let_def)

lemma all_deletable_Ok:
  "all_deletable net org_of nets org rs = Ok () \<longleftrightarrow>
     (\<forall>r \<in> set rs. validate_bulk_delete_access (net r) (org_of r) nets org = Ok ())"
  by (induction rs) (auto split: sum.splits)

lemma delete_user_owner:
  assumes "has_owner st org" "wf_users (st_users st)"
  shows "has_owner (snd (delete_user e i st)) org"
proof -
  obtain r s where d: "delete_user e i st = (r, s)" by fastforce
  show ?thesis
  proof (cases "s = st")
    case False
    then obtain o' x p where x: "get_user st i = Some x" and s: "s = remove_users [i] st"
      and o': "entity_organization_id e = Some o'" "usr_organization_id x = o'"
      and c: "\<not> (usr_permissions x = PermOwner \<and> length (organization_owners st o') = 1)"
      using d
      by (auto simp: delete_user_def delete_user_handler_def delete_access_iff dest!: authorize_entity
          split: option.splits sum.splits if_splits)
    obtain w where w: "w \<in> set (st_users st)" "usr_organization_id w = org" "usr_permissions w = PermOwner"
      using assms(1) by (auto simp: has_owner_def)
    have inj: "a = b" if "a \<in> set (st_users st)" "b \<in> set (st_users st)" "usr_id a = usr_id b" for a b
      using assms(2) that by (metis distinct_map inj_onD wf_users_def)
    have "\<exists>v \<in> set (st_users st). usr_organization_id v = org \<and> usr_permissions v = PermOwner \<and> usr_id v \<noteq> i"
    proof (cases "usr_id w = i")
      case True
      then have "w = x" using inj [of w x] w(1) get_user_Some [OF x] by simp
      then have "length (organization_owners st org) \<noteq> 1" "w \<in> set (organization_owners st org)"
        using c w o' by (auto simp: organization_owners_def)
      moreover have "distinct (organization_owners st org)"
        using assms(2) by (simp add: organization_owners_def wf_users_def distinct_map)
      ultimately obtain v where "v \<in> set (organization_owners st org)" "v \<noteq> w"
        by (metis One_nat_def distinct_card card_1_singletonE card.empty card_Suc_eq
            empty_iff insertI1 insert_iff is_singletonI' is_singleton_altdef)
      then show ?thesis using inj [of v w] w(1) True by (auto simp: organization_owners_def)
    qed (use w in blast)
    then show ?thesis using remaining_owner [of _ st org "[i]"] d s by auto
  qed (use assms(1) d in simp)
qed

lemma bulk_delete_users_changed:
  assumes "bulk_delete_users e ids st = (r, s)" "s \<noteq> st"
  shows "\<exists>org. s = remove_users (map usr_id (filter (\<lambda>u. usr_id u \<in> set ids) (st_users st))) st
    \<and> all_deletable (\<lambda>_. None) (\<lambda>u. Some (usr_organization_id u)) (entity_network_ids e) org
        (filter (\<lambda>u. usr_id u \<in> set ids) (st_users st)) = Ok ()
    \<and> \<not> set (organization_owners st org) \<subseteq> set (filter (\<lambda>u. usr_id u \<in> set ids) (st_users st))"
  using assms unfolding bulk_delete_users_def Let_def subset_eq
  by (auto simp: authorize_Ok_iff split: option.splits sum.splits if_splits)

lemma bulk_delete_users_owner:
  assumes "has_owner st org" "wf_users (st_users st)"
  shows "has_owner (snd (bulk_delete_users e ids st)) org"
proof -
  obtain r s where d: "bulk_delete_users e ids st = (r, s)" by fastforce
  let ?us = "filter (\<lambda>u. usr_id u \<in> set ids) (st_users st)"
  show ?thesis
  proof (cases "s = st")
    case False
    then obtain o' where s: "s = remove_users (map usr_id ?us) st"
      and o': "\<forall>u \<in> set ?us. usr_organization_id u = o'"
      and k: "\<exists>u \<in> set (organization_owners st o'). u \<notin> set ?us"
      using bulk_delete_users_changed [OF d]
      by (auto simp: all_deletable_Ok validate_bulk_delete_access_def delete_access_iff)
    obtain w where w: "w \<in> set (st_users st)" "usr_organization_id w = org" "usr_permissions w = PermOwner"
      using assms(1) by (auto simp: has_owner_def)
    have "\<exists>v \<in> set (st_users st). usr_organization_id v = org \<and> usr_permissions v = PermOwner \<and> usr_id v \<notin> set (map usr_id ?us)"
    proof (cases "usr_id w \<in> set ids")
      case True
      then have "org = o'" using o' w by auto
      then show ?thesis using k by (auto simp: organization_owners_def)
    qed (use w in auto)
    then show ?thesis using remaining_owner [of _ st org "map usr_id ?us"] d s by auto
  qed (use assms(1) d in simp)
qed

lemma update_user_owner:
  assumes "has_owner st org" "wf_users (st_users st)"
  shows "has_owner (snd (update_user e i u st)) org"
proof -
  have "has_owner (snd (save_user (keep_credentials x (user_from_body u)) st)) org"
    if x: "get_user st i = Some x" and "usr_organization_id (user_from_body u) = usr_organization_id x"
      "usr_permissions (user_from_body u) = usr_permissions x" for x
  proof -
    let ?v = "keep_credentials x (user_from_body u)"
    obtain r s where s: "save_user ?v st = (r, s)" by fastforce
    have "has_owner s org"
      using assms s
    proof (rule save_user_owner)
      fix y assume "r = Ok y"
      then have "user_row_allowed (st_users st) ?v" using s by (simp add: save_user_Ok)
      then have "usr_id ?v = i" using same_email_same_row [OF x, of ?v] by (simp add: keep_credentials_def)
      then show "\<exists>x \<in> set (st_users st). usr_id ?v = usr_id x
          \<and> (usr_permissions x = PermOwner \<longrightarrow> usr_permissions ?v = PermOwner \<and> usr_organization_id ?v = usr_organization_id x)"
        using get_user_Some [OF x] that(2,3) by (intro bexI [where x = x]) (auto simp: keep_credentials_def)
    qed
    then show ?thesis by (simp add: s)
  qed
  then show ?thesis using assms(1) by (auto simp: update_user_def Let_def split: option.splits sum.splits)
qed

lemma admin_update_user_owner:
  assumes "has_owner st org" "wf_users (st_users st)"
  shows "has_owner (snd (admin_update_user e i u st)) org"
proof -
  obtain r s where a: "admin_update_user e i u st = (r, s)" by fastforce
  have "has_owner s org"
  proof (cases "st_users s = st_users st")
    case True
    then show ?thesis using assms(1) by (simp add: has_owner_def)
  next
    case False
    then obtain p old where o: "get_user st i = Some old" "usr_permissions old < p"
      and v: "user_row_allowed (st_users st) (admin_written old u)"
        "st_users s = update_row usr_id (st_users st) (user_row (admin_written old u))"
      using admin_update_user_write [OF a, of undefined] by auto
    have "usr_id (admin_written old u) = i" using same_email_same_row [OF o(1) _ v(1)] by simp
    moreover have "usr_permissions old \<noteq> PermOwner" using o(2) permission_top [of p] by (metis leD)
    ultimately have "has_owner (st\<lparr>st_users := update_row usr_id (st_users st) (user_row (admin_written old u))\<rparr>) org"
      using update_row_owner [OF assms(1) _ _ assms(2), of old "admin_written old u"] get_user_Some [OF o(1)] by simp
    then show ?thesis by (simp add: has_owner_def v(2))
  qed
  then show ?thesis by (simp add: a)
qed

lemma create_user_owner:
  assumes "has_owner st org"
  shows "has_owner (snd (create_user t i u st)) org"
proof -
  have "set (st_users st) \<subseteq> set (st_users (snd (create_user t i u st)))"
    by (auto simp: create_user_def Let_def same_users_def dest!: save_for_user_frame split: prod.splits sum.splits)
  then show ?thesis using assms by (auto simp: has_owner_def)
qed

lemma accounts_same_users: "same_accounts st st' \<Longrightarrow> same_users st st'"
  by (simp add: same_accounts_def same_users_def)

lemmas key_steps_owner = user_key_handler_frame [THEN conjunct2, THEN same_users_owner]
  daemon_handler_frame [THEN accounts_same_users, THEN same_users_owner]
  request_accounts [THEN accounts_same_users, THEN same_users_owner]
  run_pending_frames(1) [THEN same_users_owner]

lemma step_owner:
  assumes "auth_step env c c'" "has_owner (fst c) org" "wf_auth (fst c)"
  shows "has_owner (fst c') org"
  using assms
  by (induction rule: auth_step.induct)
     (simp_all add: key_steps_owner create_user_owner update_user_owner admin_update_user_owner delete_user_owner
       bulk_delete_users_owner password_ops_owner wf_auth_def)

interpretation owners: run_invariant "auth_step env" "\<lambda>c. wf_auth (fst c) \<and> has_owner (fst c) org" for env org
  by unfold_locales (blast intro: auth_step_wf step_owner)

section \<open>User keys\<close>

lemma find_after: "find P xs = None \<Longrightarrow> find P (xs @ ys) = find P ys"
  by (induction xs) (auto split: if_splits)

lemma create_with_networks_Ok:
  assumes "create_with_networks now fresh k ns st = (Ok k', st')" "wf_auth st"
  shows "uk_key k' = uk_key k \<and> uk_user_id k' = uk_user_id k \<and> uk_organization_id k' = uk_organization_id k
    \<and> uk_permissions k' = uk_permissions k \<and> uk_is_enabled k' = uk_is_enabled k \<and> uk_expires_at k' = uk_expires_at k
    \<and> get_by_key st' (uk_key k) = Some (k'\<lparr>uk_network_ids := ns\<rparr>) \<and> get_for_key st' (uk_id k') = ns
    \<and> st_organizations st' = st_organizations st"
proof -
  define v where "v = (if uk_id k = nil_uuid then k\<lparr>uk_id := fresh, uk_created_at := now, uk_updated_at := now\<rparr> else k)"
  have v: "get_user_key st (uk_id v) = None" "user_key_allowed st v" "k' = v\<lparr>uk_network_ids := ns\<rparr>"
    and keys: "st_user_keys st' = st_user_keys st @ [user_key_row v]"
    and nets: "st_key_networks st' = (if ns = [] then st_key_networks st
      else filter (\<lambda>p. fst p \<noteq> uk_id v) (st_key_networks st) @ map (Pair (uk_id v)) ns)"
    and orgs: "st_organizations st' = st_organizations st"
    using assms(1) unfolding create_with_networks_def v_def [symmetric] Let_def
    by (auto simp: save_for_key_def split: if_splits prod.splits sum.splits)
  have other: "filter (\<lambda>p. fst p = uk_id v) (st_key_networks st) = []"
    using v(1) assms(2) by (auto simp: filter_empty_conv get_user_key_None wf_auth_def wf_key_networks_def)
  have for_key: "get_for_key st' (uk_id v) = ns"
    using other by (simp add: get_for_key_def nets filter_map comp_def)
  have "uk_key x \<noteq> uk_key v" if "x \<in> set (st_user_keys st)" for x
    using v(1,2) that unfolding user_key_allowed_def get_user_key_None by (metis imageI)
  then have "find (\<lambda>x. uk_key x = uk_key v) (st_user_keys st) = None" by (simp add: find_None_iff)
  then have "find (\<lambda>x. uk_key x = uk_key v) (st_user_keys st') = Some (user_key_row v)"
    by (simp add: keys find_after user_key_row_def)
  then have "get_by_key st' (uk_key v) = Some (v\<lparr>uk_network_ids := ns\<rparr>)"
    using for_key by (simp add: get_by_key_def user_key_row_def)
  moreover have "uk_key v = uk_key k" "uk_user_id v = uk_user_id k" "uk_organization_id v = uk_organization_id k"
    "uk_permissions v = uk_permissions k" "uk_is_enabled v = uk_is_enabled k" "uk_expires_at v = uk_expires_at k"
    by (simp_all add: v_def)
  ultimately show ?thesis using for_key orgs by (simp add: v(3))
qed

lemma api_key_feature_Ok:
  assumes "require_api_key_feature caller st = Ok ()" "entity_organization_id caller = Some org"
    "st_organizations st' = st_organizations st" "\<not> fails OrganizationLookup"
  shows "\<exists>plan. load_plan fails org st' = Ok plan \<and> plan_api_access plan"
  using assms
  by (auto simp: require_api_key_feature_def load_plan_def authorize_Ok_iff
      split: sum.splits option.splits if_splits)

lemma create_user_api_key_Ok:
  assumes "create_user_api_key hash r now fresh caller body st = (Ok (p, k), st')" "wf_auth st"
  shows "\<exists>u org q. entity_user_id caller = Some u \<and> entity_organization_id caller = Some org
    \<and> entity_permissions caller = Some q \<and> uk_permissions body \<le> q \<and> set (uk_network_ids body) \<subseteq> set (entity_network_ids caller)
    \<and> p = generate_prefixed_api_key UserKeyType r \<and> require_api_key_feature caller st = Ok ()
    \<and> uk_user_id k = u \<and> uk_organization_id k = org \<and> uk_permissions k = uk_permissions body
    \<and> uk_is_enabled k = uk_is_enabled body \<and> uk_expires_at k = uk_expires_at body
    \<and> get_by_key st' (hash p) = Some (k\<lparr>uk_network_ids := uk_network_ids body\<rparr>)
    \<and> get_for_key st' (uk_id k) = uk_network_ids body \<and> st_organizations st' = st_organizations st"
proof -
  obtain u org q where c: "entity_user_id caller = Some u" "entity_organization_id caller = Some org"
      "entity_permissions caller = Some q" "validate_permissions (uk_permissions body) q"
      "validate_network_ids_access (uk_network_ids body) (entity_network_ids caller) = Ok ()"
      "require_api_key_feature caller st = Ok ()"
    and p: "p = generate_prefixed_api_key UserKeyType r"
    and k: "create_with_networks now fresh (body\<lparr>uk_user_id := u, uk_organization_id := org, uk_key := hash p\<rparr>)
      (uk_network_ids body) st = (Ok k, st')"
    using assms(1)
    by (auto simp: create_user_api_key_def authorize_Ok_iff generate_api_key_for_storage_def Let_def
        split: sum.splits option.splits if_splits prod.splits)
  have "uk_permissions body \<le> q" using c(4) by (simp add: validate_permissions_def not_less)
  then show ?thesis using c p create_with_networks_Ok [OF k assms(2)] by (simp add: network_ids_access_iff)
qed

lemma created_key_authenticates:
  assumes "create_user_api_key (hash_api_key env) r now fresh caller body st = (Ok (p, k), st')" "wf_auth st"
    and "bearer_token rq = Some p" "\<not> is_metrics_token env p" "\<And>l. \<not> fails l"
    and "uk_is_enabled body" "\<not> key_expired now' (uk_expires_at body)"
  shows "\<exists>u org q. entity_user_id caller = Some u \<and> entity_organization_id caller = Some org
    \<and> entity_permissions caller = Some q \<and> uk_permissions body \<le> q \<and> set (uk_network_ids body) \<subseteq> set (entity_network_ids caller)
    \<and> fst (extract_auth env fails now' rq st') = Ok (ApiKeyAuth (uk_id k) u org (uk_permissions body) (uk_network_ids body))"
proof -
  note f = create_user_api_key_Ok [OF assms(1,2)]
  obtain org where o: "entity_organization_id caller = Some org" "uk_organization_id k = org" using f by auto
  obtain plan where plan: "load_plan fails (uk_organization_id k) st' = Ok plan" "plan_api_access plan"
    using api_key_feature_Ok [OF _ o(1), of st st' fails] f assms(5) o(2) by auto
  have kt: "fst (key_type_from_key p) = UserKeyType" using f generated_keys_keep_their_type [of UserKeyType r] by auto
  have "fst (extract_auth env fails now' rq st') =
      Ok (ApiKeyAuth (uk_id k) (uk_user_id k) (uk_organization_id k) (uk_permissions body) (uk_network_ids body))"
    using f assms(3-7) kt plan
    by (auto simp: extract_auth_def authenticate_user_key_def check_key_validity_def Let_def)
  then show ?thesis using f by auto
qed

section \<open>Sessions\<close>

lemma session_epoch_refused:
  assumes "bearer_token rq = None" "rq_session rq = Some s" "se_user_id s = Some i" "get_user st i = Some u"
    and "(case se_session_epoch s of Some n \<Rightarrow> n | None \<Rightarrow> 0) < usr_session_epoch u"
  shows "fst (extract_auth env fails now rq st) = Err NotAuthenticated"
  using assms by (simp add: extract_auth_def authenticate_session_def)

lemma update_password_Ok:
  assumes "update_password verify h now i cur st = (Ok u, st')"
  shows "\<exists>old. get_user st i = Some old \<and> usr_session_epoch u = usr_session_epoch old + 1
    \<and> usr_password_hash u = Some h \<and> get_user st' i = Some (user_row u)"
proof -
  obtain old where old: "get_user st i = Some old"
    and s: "save_user ((set_password now h old)\<lparr>usr_session_epoch := usr_session_epoch old + 1\<rparr>) st = (Ok u, st')"
    using assms by (auto simp: update_password_def Let_def split: option.splits if_splits)
  have u: "u = (set_password now h old)\<lparr>usr_session_epoch := usr_session_epoch old + 1\<rparr>"
    and st': "st' = st\<lparr>st_users := update_row usr_id (st_users st) (user_row u)\<rparr>"
    using s by (auto simp: save_user_Ok)
  have "usr_id u = i" using u get_user_Some [OF old] by (simp add: set_password_def)
  then show ?thesis using old u get_user_update [of st u i] by (simp add: st' set_password_def)
qed

lemma password_change_ends_sessions:
  assumes "update_password verify h now i cur st = (Ok u, st')" "get_user st i = Some old"
    and "bearer_token rq = None" "rq_session rq = Some s" "se_user_id s = Some i"
    and "(case se_session_epoch s of Some n \<Rightarrow> n | None \<Rightarrow> 0) \<le> usr_session_epoch old"
  shows "fst (extract_auth env fails now' rq st') = Err NotAuthenticated"
  using update_password_Ok [OF assms(1)] assms(2,6) session_epoch_refused [OF assms(3-5)] by force

section \<open>Where a guarantee is lost\<close>

text \<open>A user's own update takes the verification flag from the request and resets the session epoch, since
  neither is among the fields that the handler keeps.\<close>

lemma self_update_effect:
  assumes "update_user caller i body st = (Ok u, st')"
  shows "\<exists>x. get_user st' i = Some x \<and> usr_email_verified x = usr_email_verified body \<and> usr_session_epoch x = 0"
proof -
  obtain old where o: "get_user st i = Some old" and s: "save_user (keep_credentials old (user_from_body body)) st = (Ok u, st')"
    using assms by (auto simp: update_user_def Let_def split: option.splits sum.splits if_splits)
  let ?u = "keep_credentials old (user_from_body body)"
  have "user_row_allowed (st_users st) ?u" "st' = st\<lparr>st_users := update_row usr_id (st_users st) (user_row ?u)\<rparr>"
    using s by (simp_all add: save_user_Ok)
  moreover from this(1) have "usr_id ?u = i" using same_email_same_row [OF o, of ?u] by (simp add: keep_credentials_def)
  ultimately show ?thesis using o get_user_update [of st ?u i] by (simp add: keep_credentials_def user_row_def)
qed

lemma self_update_accepted:
  assumes "get_user st i = Some old" "user_row_allowed (st_users st) old" "check_requirement IsUser caller = Ok ()"
    and "entity_user_id caller = Some i"
  shows "\<exists>u st'. update_user caller i (old\<lparr>usr_email_verified := b\<rparr>) st = (Ok u, st')"
proof -
  let ?u = "keep_credentials old (user_from_body (old\<lparr>usr_email_verified := b\<rparr>))"
  have "user_row_allowed (st_users st) ?u"
    using assms(2) by (simp add: user_row_allowed_def emails_clash_def oidc_clash_def keep_credentials_def)
  then show ?thesis using assms get_user_Some [OF assms(1)]
    by (simp add: update_user_def authorize_def Let_def save_user_def keep_credentials_def)
qed

text \<open>A session that a password change has ended is accepted again after the user's next update.\<close>

lemma self_update_revives_session:
  assumes "update_user caller i body st = (Ok u, st')" "\<And>l. \<not> fails l"
    and "bearer_token rq = None" "rq_session rq = Some s" "se_user_id s = Some i" "se_session_epoch s = Some 0"
  shows "\<exists>e. fst (extract_auth env fails now rq st') = Ok e \<and> entity_user_id e = Some i"
proof -
  obtain x where "get_user st' i = Some x" "usr_session_epoch x = 0" using self_update_effect [OF assms(1)] by blast
  then show ?thesis using assms(2-6) get_user_Some [of st' i x]
    by (simp add: extract_auth_def authenticate_session_def session_networks_def entity_user_id_def)
qed

text \<open>A role that is taken from a user stays with the user's keys.\<close>

lemma demotion_keeps_keys:
  assumes "admin_update_user caller i body st = (r, st')"
  shows "get_by_key st' h = get_by_key st h"
proof -
  have "same_keys st (snd (admin_update_user caller i body st))"
    by (auto simp: admin_update_user_def same_keys_def Let_def dest!: save_for_user_frame save_user_frame
        split: option.splits prod.splits sum.splits)
  then show ?thesis using assms by (simp add: same_keys_def get_by_key_def get_for_key_def)
qed

text \<open>The networks of an edited user are the networks of the request; no check compares them with the
  organization or with the networks of the administrator.\<close>

lemma admin_grants_any_network:
  assumes "admin_update_user caller i body st = (Ok u, st')"
  shows "get_for_user st' i = usr_network_ids body"
proof -
  obtain s where "save_for_user i (usr_network_ids body) s = (Ok (), st')"
    using assms by (auto simp: admin_update_user_def Let_def split: option.splits prod.splits sum.splits if_splits)
  then have "st_user_networks st' = filter (\<lambda>p. fst p \<noteq> i) (st_user_networks s) @ map (Pair i) (usr_network_ids body)"
    by (auto simp: save_for_user_def split: if_splits)
  then show ?thesis by (simp add: get_for_user_def filter_map comp_def)
qed

text \<open>A key that was deleted in bulk goes on authenticating while the cache serves it.\<close>

lemma bulk_deleted_key_still_served:
  assumes "bulk_delete_daemon_api_keys caller ids st = (Ok n, st')"
    and "cached_resolution (cache_serves env) now h st = Some r" "resolves_to now (header_daemon_id env rq) r nw k d"
    and "enforce_daemon_version (versions env) (rq_daemon_version rq) now = Ok ()"
  shows "fst (authenticate_daemon env fails now rq h st') = Ok (DaemonAuth nw k d (rq_daemon_version rq))"
proof -
  have "st_resolutions st' = st_resolutions st" using daemon_handler_resolutions(5) [of caller ids st] assms(1) by simp
  then have "cached_resolution (cache_serves env) now h st' = Some r" using assms(2) by (simp add: cached_resolution_def)
  then show ?thesis using assms(3,4) by (simp add: authenticate_daemon_def resolves_to_def daemon_entity_Ok Let_def)
qed

text \<open>A spawned write carries the row of its request: when it runs after a rotation it puts the old key back
  and the new one is lost.\<close>

lemma late_write_undoes_rotation:
  assumes "rotate_daemon_key_handler hash r e i st = (Ok p, st')" "get_daemon_key st i = Some k" "wf_auth st"
    and "st_pending st = [DaemonKeyWrite (k\<lparr>dk_last_used := Some t\<rparr>)]" "daemon_key_allowed st k" "hash p \<noteq> dk_key k"
  shows "find_daemon_key (run_pending 0 st') (dk_key k) = Some (k\<lparr>dk_last_used := Some t\<rparr>)
    \<and> find_daemon_key (run_pending 0 st') (hash p) = None"
proof -
  let ?k = "refresh_stored_plaintext p (k\<lparr>dk_key := hash p\<rparr>)" and ?w = "k\<lparr>dk_last_used := Some t\<rparr>"
  have k: "k \<in> set (st_daemon_keys st)" "dk_id k = i" using get_daemon_key_Some [OF assms(2)] by simp_all
  have st': "st' = invalidate_resolution (dk_key k) (st\<lparr>st_daemon_keys := update_row dk_id (st_daemon_keys st) ?k\<rparr>)"
    and al: "daemon_key_allowed st ?k"
    using assms(1,2)
    by (auto simp: rotate_daemon_key_handler_def rotate_daemon_key_def save_daemon_key_def
        generate_api_key_for_storage_def Let_def split: if_splits sum.splits option.splits prod.splits)
  have id: "dk_id ?k = i" "dk_key ?k = hash p" using k by (simp_all add: refresh_stored_plaintext_def)
  have upd: "update_row dk_id (update_row dk_id xs ?k) ?w = update_row dk_id xs ?w" for xs
    using id k(2) by (simp add: update_row_def)
  have "x \<in> set (st_daemon_keys st)" if "x \<in> set (update_row dk_id (st_daemon_keys st) ?k)" "dk_id x \<noteq> i" for x
    using set_update_row [OF that(1)] that(2) id(1) by blast
  then have "daemon_key_allowed (st'\<lparr>st_pending := []\<rparr>) ?w"
    using assms(5) k(2) by (simp add: daemon_key_allowed_def st')
  moreover have "get_daemon_key (st'\<lparr>st_pending := []\<rparr>) i \<noteq> None"
    using k by (simp add: get_daemon_key_None st' update_row_key_set) blast
  ultimately have keys: "st_daemon_keys (run_pending 0 st') = update_row dk_id (st_daemon_keys st) ?w"
    using assms(4) upd k(2) by (auto simp: run_pending_def run_write_def save_daemon_key_def st' invalidate_resolution_def)
  have "find_daemon_key (run_pending 0 st') (dk_key k) = Some ?w"
  proof (rule find_daemon_key_unique)
    show "?w \<in> set (st_daemon_keys (run_pending 0 st'))" unfolding keys using k by (force simp: update_row_def image_iff)
  next
    fix x assume x: "x \<in> set (st_daemon_keys (run_pending 0 st'))" "dk_key x = dk_key k"
    then show "x = ?w"
      using set_update_row [OF x(1) [unfolded keys]] k wf_daemon_keys_same [of "st_daemon_keys st" x k] assms(3)
      by (auto simp: wf_auth_def)
  qed simp
  moreover have "hash p \<notin> dk_key ` set (update_row dk_id (st_daemon_keys st) ?w)"
    using al id k(2) assms(6) by (auto simp: daemon_key_allowed_def dest!: set_update_row)
  ultimately show ?thesis using keys by (simp add: find_daemon_key_None)
qed

text \<open>A key that is created by hand is bound to the daemon of the request.\<close>

lemma created_daemon_key_binding:
  "create_daemon_api_key hash r now fresh caller body st = (Ok (p, k), st') \<Longrightarrow> dk_daemon_id k = dk_daemon_id body"
  by (auto simp: create_daemon_api_key_def insert_daemon_key_def daemon_key_from_body_def Let_def
      split: if_splits sum.splits option.splits prod.splits)

end
