(* ===== verification/Spec2Isabelle.thy ===== *)
theory Spec2Isabelle
  imports Service_Store Service_Matching Discovery_Scheduling Neighbor_Stability Interface_Rows Topology_Facts Snmp_Facts
    Account_Facts
begin

text \<open>
  \<^bold>\<open>Scanopy backend: a verification development\<close>

  Scanopy documents networks: daemons scan subnets and report hosts, ports and services, and a
  server stores them and serves them to a web client. This development models the Rust backend
  under \<^verbatim>\<open>backend/src\<close>, the daemon's side of discovery and the server's side of the
  entities.

  \<^bold>\<open>Parts and theories.\<close>
  \<^item> \<open>Prelude\<close>: ids (128-bit words), results as sums, 32-bit signed arithmetic with its
    wrap-around, ASCII text operations, \<open>Vec::dedup\<close>, and list lemmas.
  \<^item> \<open>Positions\<close> (\<^verbatim>\<open>server/shared/position.rs\<close>): the ordering of child entities. The
    traits \<open>Positioned\<close> and \<open>PositionedInput\<close> are records of operations; their laws are the
    locales \<open>positioned_entity\<close> and \<open>positioned_request\<close>, interpreted for services and addresses.
  \<^item> \<open>Ports\<close>, \<open>Net_Types\<close>, \<open>IP_Addresses\<close>, \<open>Subnets\<close>, \<open>Services\<close>, \<open>Bindings\<close>: the entities of
    \<^verbatim>\<open>server/ports\<close>, \<^verbatim>\<open>server/subnets\<close>, \<^verbatim>\<open>server/ip_addresses\<close>, \<^verbatim>\<open>server/services\<close>,
    \<^verbatim>\<open>server/bindings\<close> with their constructors, equalities and classification, and the
    validation, deduplication and merging of bindings.
  \<^item> \<open>Storage\<close>, \<open>Service_Store\<close> (\<^verbatim>\<open>server/shared/storage/generic.rs\<close>,
    \<^verbatim>\<open>server/services/service\<close>): a table of rows keyed by id behind the locale \<open>keyed_table\<close>, and
    the create, upsert, update and delete handlers of services as functions on the store. The
    handlers do not share a lock and overlap: in a run of the store (\<open>store_run\<close>) each read of a
    handler sees any earlier state, and what it writes, a service with its bindings, is one step.
  \<^item> \<open>Patterns\<close> (\<^verbatim>\<open>server/services/impl/patterns.rs\<close>): the pattern language in which a service
    definition says what it looks like on the wire, and its evaluation.
  \<^item> \<open>Definitions_A_D\<close> to \<open>Definitions_Q_Z\<close> (\<^verbatim>\<open>server/services/definitions\<close>): the 260
    registered definitions. \<open>Service_Registry\<close>: the registry, in any linking order, and what the
    scanner takes from it.
  \<^item> \<open>Service_Matching\<close> (\<open>from_discovery\<close>, \<open>match_services\<close>, \<open>scan_endpoints\<close>): the step from a
    scan to services and ports.
  \<^item> \<open>Discovery_Types\<close>, \<open>Discovery_Sessions\<close> (\<^verbatim>\<open>server/discovery/impl\<close>,
    \<^verbatim>\<open>server/discovery/service\<close>): discovery configurations and the session manager, its state a
    record of the maps the service holds behind locks, every handler a function on it.
    \<open>Session_Invariants\<close>: what each handler keeps true. \<open>Session_Protocol\<close>: two step relations,
    the runs in which reports name the daemon of their session, with starts, releases and sweeps in
    halves, and the runs that keep to the protocol, with every handler one step; and their
    invariants. \<open>Session_Work\<close>: handing out work, stall sweeps, and what goes wrong when a report
    comes from another daemon, two starts overlap, or the protocol is not kept.
  \<^item> \<open>Discovery_Scheduling\<close>: the cron jobs of discoveries and the create, update and delete
    handlers that register them.
  \<^item> \<open>Hosts\<close> (\<^verbatim>\<open>server/hosts/impl\<close>, \<^verbatim>\<open>server/hosts/service\<close>): a host, the ranks of its names,
    the match of a payload to a stored host by address, and the merge of the payload into it.
  \<^item> \<open>Lldp\<close> (\<^verbatim>\<open>server/snmp/resolution/lldp.rs\<close>): chassis and port identifiers and their decoding
    from SNMP and from text. \<open>Interfaces\<close>, \<open>Interface_Rows\<close> (\<^verbatim>\<open>server/interfaces/impl\<close>): an
    interface and its row, column by column. \<open>Interface_Ingest\<close> (\<^verbatim>\<open>server/interfaces/service.rs\<close>,
    \<^verbatim>\<open>server/hosts/service/discovery.rs\<close>): the handlers that match, store and prune the interfaces
    a scan reports, on a table with the unique indexes of the migrations; \<open>Interface_Batch\<close>: what a
    batch leaves behind.
  \<^item> \<open>Neighbor_Resolution\<close>, \<open>Neighbor_Links\<close> (\<^verbatim>\<open>server/snmp/resolution/resolver.rs\<close>,
    \<^verbatim>\<open>server/hosts/service/topology\<close>): the lookups of a neighbour in the inventory, behind a locale
    that the stored inventory interprets, and the passes that turn LLDP, CDP and forwarding tables
    into links. \<open>Neighbor_Pairs\<close>: reciprocal evidence. \<open>Neighbor_Stability\<close>: what a pass keeps.
  \<^item> SNMP collection (\<^verbatim>\<open>daemon/discovery/integration/snmp\<close>). \<open>Snmp_Values\<close>: object identifiers,
    varbind values and the records of the queries. \<open>Snmp_Walk\<close> (\<^verbatim>\<open>queries.rs\<close>): the walk of a column,
    over a transport that is a record of the two requests; \<open>Snmp_Agent\<close>: the contract of an agent that
    serves a table as the locale \<open>table_agent\<close>, interpreted for the code's transport over an agent that
    holds a list of varbinds. \<open>Snmp_Tables\<close>: the queries of the tables. \<open>Snmp_Collect\<close> (\<^verbatim>\<open>mod.rs\<close>,
    \<^verbatim>\<open>warnings.rs\<close>): placing neighbours, the interfaces built from the tables and the sequence of
    queries with the flags that say what the server may overwrite. \<open>Snmp_Facts\<close>: what these give.
  \<^item> Topology (\<^verbatim>\<open>server/topology\<close>), the graphs drawn from the inventory. \<open>Topology_Types\<close>: nodes,
    edges, views, rules and options. \<open>Element_Rules\<close> (\<^verbatim>\<open>element_rules.rs\<close>): how grouping rules place
    elements; \<open>Element_Placement\<close>: the contract of a rule as the locale \<open>element_rule\<close>, interpreted for
    every rule, and what follows for a list of rules. \<open>Topology_Context\<close>, \<open>Edge_Builder\<close>
    (\<^verbatim>\<open>context.rs\<close>, \<^verbatim>\<open>edge_builder.rs\<close>): lookups and edges. \<open>L2_View\<close>, \<open>L3_View\<close>, \<open>Application_View\<close>,
    \<open>Workloads_View\<close> (\<^verbatim>\<open>l2_builder.rs\<close>, \<^verbatim>\<open>l3_builder.rs\<close> with \<^verbatim>\<open>subnet_graph_builder.rs\<close>,
    \<^verbatim>\<open>application_builder.rs\<close>, \<^verbatim>\<open>workloads_builder.rs\<close>): the builders of the four views;
    \<open>Workloads_Boxes\<close>: that the walks of the last one end, and which boxes stay. \<open>Topology_Build\<close>
    (\<^verbatim>\<open>main.rs\<close>, \<^verbatim>\<open>metadata_filter.rs\<close>, \<^verbatim>\<open>types/base.rs\<close>): filters, default options and the path
    from loaded entities to graphs. \<open>Topology_Facts\<close>: nesting, ends of edges, filters and links.

  \<^item> Authentication (\<^verbatim>\<open>server/auth\<close>, \<^verbatim>\<open>server/users\<close>, \<^verbatim>\<open>server/daemon_api_keys\<close>,
    \<^verbatim>\<open>server/user_api_keys\<close>). \<open>Permissions\<close> (\<^verbatim>\<open>users/impl/permissions.rs\<close>,
    \<^verbatim>\<open>auth/middleware/permissions.rs\<close>, \<^verbatim>\<open>shared/validation.rs\<close>): roles, authenticated callers, the
    requirements of handlers with the guard for handing an authorization on, and access checks.
    \<open>Daemon_Versions\<close> (\<^verbatim>\<open>daemons/impl/version.rs\<close>): supported versions and the gate. \<open>Accounts\<close>
    (\<^verbatim>\<open>users/handlers.rs\<close>, \<^verbatim>\<open>auth/service.rs\<close>): the tables behind authentication as the record
    \<open>auth_state\<close>, the user handlers and the password and e-mail flows. \<open>Api_Keys\<close>: the handlers of
    daemon and user keys, the cache of resolved keys and the writes that requests spawn.
    \<open>Authentication\<close> (\<^verbatim>\<open>auth/middleware/auth.rs\<close>): the extractor. \<open>Auth_Machine\<close>: all of these as the
    steps of a machine, and the invariant of its tables; invariants of runs are the locale
    \<open>run_invariant\<close>, interpreted for the tables, for the ageing of deleted keys, for revoked keys and
    for owners.
    \<open>Auth_Facts\<close>, \<open>Account_Facts\<close>: where authenticated callers come from, and what the handlers of keys
    and users guarantee and what they do not.

  \<^bold>\<open>What the properties show.\<close> Matching shares out the open ports of a host without losing
  one, binds services only to ports it returns, and yields one service per container; a pattern
  matches exactly when its boolean reading holds, and is certain only on the word of an
  authority. Stores reached through overlapping handlers keep unique ids and conflict-free, normal
  bindings, as long as the bindings of one service are written by one handler at a time. Session
  managers whose daemons report their own sessions agree between sessions, queues and clocks, and a
  stall sweep is complete; under the protocol a daemon has one session in flight, a network under
  snapshot has none, and a polling daemon with work gets it. Reordering is a list move, renumbering restores 0 to n-1, validators accept exactly
  the valid lists. Serialised forms read back. Some properties state behaviour at odds with the
  code's own comments: definitions that can never match, the inverted gateway test, positions
  that repeat after a deletion, an equality that is not transitive, scheduled runs that undo later
  edits of their discovery.

  Reported interfaces are stored without merging two of them, a complete sweep leaves exactly the
  reported ones, a rescan keeps what it did not read, and a row reads back as it was written, up to
  NUL characters and fractions of a microsecond.
  Resolving neighbours accounts for every one, never moves a row to another device, and pairs
  ports symmetrically. A name given by a user survives scans, and a host is not matched on an
  address that routers share. A walk of an SNMP column ends for every agent within 10003 requests,
  delivers only what was answered and nothing twice, and reads the whole of a table that an agent
  serves in any order of its own; the interfaces of a device are those its index column lists, a
  query says truthfully whether it is complete, neighbours that reach no interface are counted, and
  stored LLDP data is overwritten only by a read that was complete. The graphs of a topology are well nested and have no dangling edge,
  rendering ends, every link, address and eligible service is drawn once, the first rule that has
  a group for an element places it, and options keep what the user chose.

  An authorization that is handed on never admits a caller whom the other check would refuse. A
  daemon key that was deleted, rotated or disabled is refused from the next request on, unless a write
  that was spawned before the revocation, or a later edit, brings it back; and one that left its table in
  any way authenticates nobody ten seconds later. Organizations keep an owner,
  administrators edit only users below their rank in their organization, the token of a new key
  authenticates as the key that was asked for, and the version gate agrees with the lifecycle that
  is shown to users.

  \<^bold>\<open>Choices.\<close> There is no fuel: every function is total, but for the two walks up the containers
  of the workloads view, partial functions that are proved to return; an SNMP walk terminates because
  rows, retries and the change to \<open>getnext\<close> are bounded. Fresh ids, the clock, the HTTP client,
  the vendor database and the CIDR crate are arguments. Text is ASCII. Positions are integers
  with the \<open>i32\<close> wrap-around written out, and the theorems bound list lengths by \<open>2 ^ 31\<close>
  where the code casts a length to \<open>i32\<close>. The order of a hash map's values and of concurrent
  responses is not modelled, but for the SNMP queries, where the order of iteration is an argument: such maps are lists in insertion order, and a lookup that may take any
  of several rows takes the first. Readers and writers of MAC and address text are arguments, with
  what the code relies on as named hypotheses (\<open>reads_canonical\<close>, \<open>codec_ok\<close>), and so is the precision of
  stored timestamps; only interface rows model it, elsewhere an instant is stored as it is. Name-based UUIDs are an
  argument as well; where ids must differ, the theorem asks it of the ids of the graph at hand.
  SQL values are modelled as far as interface rows use them, and of the queries without an order the
  rows come in the order of insertion. A statement that fails in the middle of a handler is modelled
  for the interfaces of a scan, not for the bindings of a service. The random ids of edges, their anchors
  and the text of reports are left out.

  Key and password hashing, random tokens and the expiry of cache entries are arguments; a request or
  handler of the authentication machine is one step, and the writes it spawns are later steps.

  \<^bold>\<open>Not modelled.\<close> SQL text, HTTP routing, registration, login lockout, OIDC, billing and mail clients, and
  operating-system scanning with its protocol clients, which are I/O around external crates (of SNMP,
  the protocol library, session set-up and probing); the subnets and hosts created from a device's
  address and ARP tables;
  consolidation of hosts and creation of their children, credentials, snapshots, the storage and export of topologies, which are within reach of the same techniques;
  and the web client, which is in another language.
\<close>

section \<open>Concrete inputs\<close>

text \<open>Small entities on one host, for the concrete instances of the properties below.\<close>

definition demo_service :: "uuid \<Rightarrow> Binding list \<Rightarrow> Service" where
  "demo_service i bs = new_service i 0
     (svc_default_base\<lparr>svc_host_id := 7, svc_network_id := 8, svc_definition := ''Jenkins'',
        svc_name := ''ci'', svc_bindings := bs, svc_source := Manual\<rparr>)"

definition demo_service_input :: "uuid \<Rightarrow> ServiceInput" where
  "demo_service_input i = \<lparr>sin_id = i, sin_definition = ''Jenkins'', sin_name = ''ci'', sin_bindings = [],
     sin_virtualization_metadata = None, sin_virtualization_service_id = None, sin_tags = [], sin_position = None\<rparr>"

definition demo_attrs :: def_attrs where
  "demo_attrs = \<lparr>def_is_generic = (\<lambda>d. d = ''Jenkins''), def_is_gateway = (\<lambda>_. False),
     def_is_open_ports = (\<lambda>_. False)\<rparr>"

definition demo_port_binding :: "uuid \<Rightarrow> uuid \<Rightarrow> uuid option \<Rightarrow> Binding" where
  "demo_port_binding i p ip = new_serviceless i 0 (BindingType.Port p ip)"

definition demo_store :: store where
  "demo_store = \<lparr>st_services = [],
     st_ports = map (\<lambda>i. with_host (new_hostless i 0 Http8080) 7 8) [100, 101, 102], st_ips = []\<rparr>"

definition demo_fresh :: "nat \<Rightarrow> uuid" where
  "demo_fresh k = 5000 + of_nat k"

definition demo_create :: "store \<Rightarrow> uuid \<Rightarrow> uuid \<Rightarrow> store" where
  "demo_create st i p =
     fst (projr (create_service demo_attrs 0 0 demo_fresh st (demo_service i [demo_port_binding 0 p None])))"

definition demo_named :: "uuid \<Rightarrow> uuid \<Rightarrow> string \<Rightarrow> Service" where
  "demo_named i p n =
     (let s = demo_service i [demo_port_binding 0 p None] in s\<lparr>svc_base := (svc_base s)\<lparr>svc_name := n\<rparr>\<rparr>)"

definition demo_update :: "store \<Rightarrow> uuid \<Rightarrow> uuid \<Rightarrow> string \<Rightarrow> store" where
  "demo_update st i p n = fst (projr (update_service demo_fresh st (demo_named i p n)))"

text \<open>A creation whose reads all saw the store \<open>old\<close>.\<close>

definition demo_overlap :: "store \<Rightarrow> store \<Rightarrow> uuid \<Rightarrow> uuid \<Rightarrow> store" where
  "demo_overlap old st i p =
     fst (projr (create_service_at demo_attrs 0 0 demo_fresh (\<lambda>_. old) st
       (demo_service i [demo_port_binding 0 p None])))"

definition demo_subnet :: Subnet where
  "demo_subnet = new_subnet 50 0
     \<lparr>cidr = (V4 0xC0A80100, 24), subnet_network_id = 8, subnet_name = ''lan'', subnet_description = None,
      subnet_type = Lan, subnet_virtualization_service_id = None, subnet_source = Discovery, subnet_tags = []\<rparr>"

definition demo_ip :: "uuid \<Rightarrow> IpAddr \<Rightarrow> IPAddress" where
  "demo_ip i a = new_ip_address i 0
     \<lparr>ip_network_id = 8, ip_host_id = 7, ip_subnet_id = 50, ip_address = a, ip_mac_address = None,
      ip_name = None, ip_position = 0\<rparr>"

definition demo_env :: match_env where
  "demo_env = \<lparr>oui_lookup = (\<lambda>_. None), cidr_contains = (\<lambda>_ _. True),
     all_service_definitions = registered_definitions\<rparr>"

definition demo_container :: ServiceVirtualization where
  "demo_container = Docker \<lparr>info_container_name = None, info_container_id = Some ''c1'',
     info_compose_project = None\<rparr>"

definition demo_bare_env :: match_env where
  "demo_bare_env = \<lparr>oui_lookup = (\<lambda>_. None), cidr_contains = (\<lambda>_ _. True), all_service_definitions = []\<rparr>"

definition demo_input :: "PortType list \<Rightarrow> ServiceVirtualization option \<Rightarrow> matching_input" where
  "demo_input ps v = \<lparr>in_host_id = 7, in_gateway_ips = [], in_daemon_id = 9, in_network_id = 8,
     in_baseline = \<lparr>mp_subnet = demo_subnet, mp_ip_address = demo_ip 60 (V4 0xC0A80105), all_ports = ps,
       endpoint_responses = [], mp_virtualization_metadata = v, mp_virtualization_service_id = None,
       client_responses = (\<lambda>_. None), managed_device = None\<rparr>\<rparr>"

definition demo_params :: "PortType list \<Rightarrow> Service list \<Rightarrow> match_params" where
  "demo_params ps matched =
     (let I = demo_input ps None in
      \<lparr>mp_host_id = 7, gateway_ips = [V4 0xC0A80105], mp_daemon_id = 9, mp_network_id = 8,
       baseline_params = in_baseline I,
       service_params = \<lparr>mp_service_definition = ''Gateway'', matched_services = matched,
         unbound_ports = ps, definition_attrs = demo_attrs\<rparr>\<rparr>)"

section \<open>Discovery: from scan results to services\<close>

text \<open>
  C1: On a host that is not a container, service matching leaves no open port unclaimed: with
  the open-ports definition registered, every scanned port has the number and protocol of a
  returned port to which one of the returned services is bound.
\<close>

theorem match_services_claims_every_port:
  assumes "open_ports_service \<in> set (all_service_definitions E)"
    and "Option.bind (mp_virtualization_metadata (in_baseline I)) container_id = None"
    and "p \<in> set (all_ports (in_baseline I))"
  shows "\<exists>s \<in> set (fst (match_services E I fresh now)). \<exists>q \<in> set (snd (match_services E I fresh now)).
           port_id q \<in> set (to_bound_port_ids s) \<and> port_eq p (ptype q)"
  using assms by (rule match_services_all_claimed)

theorem match_services_claims_every_port_witness:
  "\<exists>s \<in> set (fst (match_services demo_env (demo_input [Http8080] None) (\<lambda>i k. of_nat (1000 * i + k)) 0)).
     \<exists>q \<in> set (snd (match_services demo_env (demo_input [Http8080] None) (\<lambda>i k. of_nat (1000 * i + k)) 0)).
       port_id q \<in> set (to_bound_port_ids s) \<and> port_eq Http8080 (ptype q)"
  by (rule match_services_claims_every_port)
    (simp_all add: demo_env_def demo_input_def registered_definitions_def definitions_l_p_def)

text \<open>
  Whatever the definitions claim, no open port is lost: every scanned port has the number
  and protocol of one of the ports returned for the host.
\<close>

theorem match_services_keeps_every_port:
  "list_all (\<lambda>p. port_mem p (map ptype (snd (match_services E I fresh now)))) (all_ports (in_baseline I))"
  by (simp add: list_all_iff match_services_keeps_ports)

text \<open>
  C2: Every service that matching returns lives on the scanned host and network, and every port
  it is bound to is among the ports returned with it.
\<close>

theorem match_services_bindings_resolve:
  "list_all (\<lambda>s. set (to_bound_port_ids s) \<subseteq> port_id ` set (snd (match_services E I fresh now))
      \<and> svc_host_id (svc_base s) = in_host_id I \<and> svc_network_id (svc_base s) = in_network_id I)
     (fst (match_services E I fresh now))"
  using match_services_references by (simp add: list_all_iff)

text \<open>
  A scan target that is a container with a container id yields at most one service.
\<close>

theorem match_services_one_per_container:
  assumes "mp_virtualization_metadata (in_baseline I) = Some v" and "container_id v = Some c"
  shows "length (fst (match_services E I fresh now)) \<le> 1"
  using match_services_container [of I E fresh now] assms by simp

theorem match_services_one_per_container_witness:
  "length (fst (match_services demo_env (demo_input [Http8080] (Some demo_container))
     (\<lambda>i k. of_nat (1000 * i + k)) 0)) \<le> 1"
  by (rule match_services_one_per_container [where v = demo_container and c = "''c1''"])
    (simp_all add: demo_input_def demo_container_def)

text \<open>
  The services come out by descending confidence, a logo counting as one step.
\<close>

theorem match_services_by_confidence:
  "sorted (map (service_rank (all_service_definitions E)) (fst (match_services E I fresh now)))"
  by (rule match_services_sorted)

text \<open>
  C3: Evaluating a discovery pattern succeeds exactly when the pattern's boolean reading holds of
  the scan: a disjunction needs one part, a conjunction all, a negation a failing part, and a
  leaf its test.
\<close>

theorem matches_iff_sat: "(\<exists>r. matches E P p = Ok r) \<longleftrightarrow> sat E P p"
  using succeeded_matches [of E P p] by (cases "matches E P p") auto

text \<open>
  C4: A match is certain only on the word of an authority: if the confidence of a match is
  Certain, the pattern has a credentialed probe, a controller report or a custom test declared
  certain outside every negation. In particular the boost that a long conjunction gets never
  reaches Certain.
\<close>

theorem certain_needs_authority:
  assumes "matches E P p = Ok r" and "confidence (details r) = Certain"
  shows "may_be_certain p"
  using assms by (rule matches_certain)

theorem certain_needs_authority_witness:
  "may_be_certain (AnyOf [PortP Http8080, ManagedDeviceType unifidevicetype_switch] :: pattern)"
proof -
  let ?P = "(demo_params [] [])\<lparr>baseline_params :=
     (in_baseline (demo_input [] None))\<lparr>managed_device := Some \<lparr>device_type = ''USW''\<rparr>\<rparr>\<rparr>"
  let ?p = "AnyOf [PortP Http8080, ManagedDeviceType unifidevicetype_switch]"
  have "matches demo_bare_env ?P ?p = Ok (projr (matches demo_bare_env ?P ?p))"
    "confidence (details (projr (matches demo_bare_env ?P ?p))) = Certain"
    by code_simp+
  then show ?thesis by (rule certain_needs_authority)
qed

text \<open>
  For a pattern without negation and custom tests, scanning the ports it lists is enough:
  dropping all other open ports changes neither the outcome of the match nor what it reports.
\<close>

theorem scanning_listed_ports_suffices:
  assumes "positive p" and "set (ports p) \<subseteq> set Q"
  shows "matches E (scan_only Q P) p = matches E P p"
  using assms by (rule matches_scan_only)

theorem scanning_listed_ports_suffices_witness:
  "matches demo_env (scan_only [Samba] (demo_params [Http8080, Samba] []))
       (AnyOf [PortP Samba, IsGateway]) =
   matches demo_env (demo_params [Http8080, Samba] []) (AnyOf [PortP Samba, IsGateway])"
  by (rule scanning_listed_ports_suffices) simp_all

text \<open>
  C5: Seven registered definitions (AWX, BigBlueButton, CrowdSec, FreeIPA, Jira, MinIO, Tyk) can
  never match what the endpoint scan returns, whatever the host answers and in whatever order
  the registry is linked: they give their endpoint pattern a status range, such patterns list
  no endpoint, and no other definition lists these paths, so the endpoints are never probed.
\<close>

theorem status_range_definitions_undetectable:
  assumes "registry_order defs"
    and "endpoint_responses (baseline_params P) = scan_endpoints fetch defs ip fp raw"
  shows "\<forall>d \<in> set undetectable. \<not> sat E P (discovery_pattern d)"
  using undetectable_never_match [OF assms] by blast

theorem status_range_definitions_undetectable_witness:
  "\<not> sat demo_env (demo_params [Http9000] []\<lparr>baseline_params := (in_baseline (demo_input [Http9000] None))
         \<lparr>endpoint_responses := scan_endpoints (\<lambda>_. Some \<lparr>http_status = 200, http_headers = [], http_body = []\<rparr>)
            registered_definitions (V4 0xC0A80105) None True\<rparr>\<rparr>) (discovery_pattern minio_service)"
  by (rule status_range_definitions_undetectable [OF registry_order_registered, THEN bspec])
    (simp_all add: undetectable_def)

text \<open>
  The status range of the CrowdSec definition, 401 to 401 exclusive, is empty, so the
  definition matches no scan at all, not even one that did probe its endpoint.
\<close>

theorem crowdsec_status_range_empty: "\<not> sat E P (discovery_pattern crowdsec_service)"
  by (rule crowdsec_never_matches)

text \<open>
  The generic gateway definition matches exactly when the address is a gateway and every
  service matched so far is a gateway: any ordinary service on the router suppresses it, and a
  gateway service already matched does not.
\<close>

theorem generic_gateway_refused_after_any_other:
  "sat E P (discovery_pattern gateway_service) \<longleftrightarrow>
     sat E P IsGateway
     \<and> list_all (\<lambda>s. def_is_gateway (definition_attrs (service_params P)) (svc_definition (svc_base s)))
         (matched_services (service_params P))"
  using gateway_matches_iff [of E P] by (simp add: list_all_iff)

text \<open>
  In any linking order of the registered definitions, deserialising the id of a definition
  gives that definition back, and ids and descriptions keep to their documented lengths.
\<close>

theorem definition_names_identify:
  assumes "registry_order defs" and "d \<in> set registered_definitions"
  shows "deserialize_definition defs (serialize_definition d) = d
     \<and> length (def_name d) < 40 \<and> length (def_description d) < 100"
  using assms name_limits deserialize_serialize_definition [of defs d]
  by (simp add: registry_order_def list_all_iff)

theorem definition_names_identify_witness:
  "deserialize_definition registered_definitions (serialize_definition jenkins_service) = jenkins_service"
  using definition_names_identify [OF registry_order_registered, of jenkins_service]
  by (simp add: registered_definitions_def definitions_e_k_def)

section \<open>The service store\<close>

text \<open>
  C6: In every store of a run of the create, update and delete handlers, with ports and
  addresses changing in between, service ids are unique, and the bindings of each service are
  free of conflicts, free of duplicates and superseded entries, and owned by it. The handlers
  may overlap: each read of a handler may have seen any earlier store of the run, and only the
  write sees the current one. Assumed: the row of a service and its bindings are written in one
  step, that is, two handlers do not interleave the binding statements of the same service and
  none of these statements fails half-way.
\<close>

theorem reachable_stores_well_formed:
  assumes "store_run A sts" and "st \<in> set sts"
  shows "distinct (map svc_id (st_services st)) \<and>
    (\<forall>s \<in> set (st_services st). conflict_free (bindings_of s) \<and> normalised (bindings_of s) \<and>
       (\<forall>b \<in> set (bindings_of s). bind_service_id (bind_base b) = svc_id s))"
  using store_run_inv [OF assms] by (auto simp: store_inv_def service_ok_def wf_table_def)

theorem reachable_stores_well_formed_witness:
  "let st1 = demo_create demo_store 1 100;
       st2 = demo_update st1 1 101 ''ci''; st3 = demo_overlap st1 st2 2 101
   in distinct (map svc_id (st_services st3)) \<and> length (st_services st3) = 2"
proof -
  let ?st1 = "demo_create demo_store 1 100"
  let ?st2 = "demo_update ?st1 1 101 ''ci''"
  let ?st3 = "demo_overlap ?st1 ?st2 2 101"
  have run0: "store_run demo_attrs [demo_store]"
    unfolding demo_store_def by (rule store_run.empty)
  have "create_service_at demo_attrs 0 0 demo_fresh (\<lambda>_. demo_store) demo_store
      (demo_service 1 [demo_port_binding 0 100 None]) = Ok (?st1,
        snd (projr (create_service demo_attrs 0 0 demo_fresh demo_store
          (demo_service 1 [demo_port_binding 0 100 None]))))"
    unfolding demo_create_def create_service_def by code_simp
  then have run1: "store_run demo_attrs [?st1, demo_store]"
    by (rule store_run.create [OF run0, rotated]) simp
  have "update_service_at demo_fresh (\<lambda>_. ?st1) ?st1 (demo_named 1 101 ''ci'') = Ok (?st2,
      snd (projr (update_service demo_fresh ?st1 (demo_named 1 101 ''ci''))))"
    unfolding demo_update_def demo_create_def create_service_def update_service_def by code_simp
  then have run2: "store_run demo_attrs [?st2, ?st1, demo_store]"
    by (rule store_run.update [OF run1, rotated]) simp
  have "create_service_at demo_attrs 0 0 demo_fresh (\<lambda>_. ?st1) ?st2
      (demo_service 2 [demo_port_binding 0 101 None]) = Ok (?st3,
        snd (projr (create_service_at demo_attrs 0 0 demo_fresh (\<lambda>_. ?st1) ?st2
          (demo_service 2 [demo_port_binding 0 101 None]))))"
    unfolding demo_overlap_def demo_update_def demo_create_def create_service_def update_service_def
    by code_simp
  then have run3: "store_run demo_attrs [?st3, ?st2, ?st1, demo_store]"
    by (rule store_run.create [OF run2, rotated]) simp
  have "length (st_services ?st3) = 2"
    unfolding demo_overlap_def demo_update_def demo_create_def create_service_def update_service_def
    by code_simp
  with reachable_stores_well_formed [OF run3, of ?st3] show ?thesis by (simp add: Let_def)
qed

text \<open>
  What the invariant does not give, because a creation and an update do not hold the same
  lock. A creation that overlaps an update on the host does not see the port the update binds
  and binds it too; and a creation that read a service before it was renamed writes the old
  name back.
\<close>

theorem overlapping_writes_are_lost:
  "let st1 = demo_create demo_store 1 100;
       moved = demo_update st1 1 101 ''ci'';
       shared = demo_overlap st1 moved 2 101;
       renamed = demo_update st1 1 100 ''build'';
       undone = demo_overlap st1 renamed 1 100
   in map (\<lambda>s. (svc_id s, map btype (bindings_of s))) (st_services shared) =
        [(1, [BindingType.Port 101 None]), (2, [BindingType.Port 101 None])] \<and>
      map (\<lambda>s. svc_name (svc_base s)) (st_services renamed) = [''build''] \<and>
      map (\<lambda>s. svc_name (svc_base s)) (st_services undone) = [''ci'']"
  unfolding Let_def by code_simp

text \<open>
  Creating a service on a host whose services are numbered 0 to n-1 leaves that host, and
  every other, numbered without gap or duplicate.
\<close>

theorem create_keeps_host_positions:
  assumes "store_inv st" and "create_service A new_id now fresh st svc = Ok (st', out)"
    and "valid_positions (host_positions st h)" and "length (services_on_host st h) < 2147483648"
  shows "valid_positions (host_positions st' h)"
  using assms by (rule create_service_positions)

theorem create_keeps_host_positions_witness:
  "valid_positions (host_positions (demo_create demo_store 1 100) 7)"
  by (rule create_keeps_host_positions
        [of demo_store demo_attrs 0 0 demo_fresh "demo_service 1 [demo_port_binding 0 100 None]" _
          "snd (projr (create_service demo_attrs 0 0 demo_fresh demo_store (demo_service 1 [demo_port_binding 0 100 None])))"])
    (unfold demo_create_def, simp add: demo_store_def store_inv_def wf_table_def, code_simp,
      simp_all add: demo_store_def services_on_host_def valid_positions_def)

text \<open>
  Deleting a service other than the last leaves a gap, and the next service created on the
  host is numbered by the count of services, so it repeats an existing position.
\<close>

theorem delete_then_create_duplicates_position:
  "let st2 = demo_create (demo_create demo_store 1 100) 2 101;
       st1 = projr (delete_service st2 1);
       st = demo_create st1 3 102
   in valid_positions (host_positions st2 7) \<and> host_positions st1 7 = [1] \<and> host_positions st 7 = [1, 1]"
  unfolding Let_def valid_positions_def by code_simp

text \<open>
  The availability check of a manual change accepts a list of bindings exactly when no port
  binding in it overlaps a port claim of another service on the host: same port, and the same
  address or all addresses on either side.
\<close>

theorem bindings_available_exclusive:
  "validate_bindings_available st host i bs = Ok () \<longleftrightarrow>
     list_all (\<lambda>s. list_all (\<lambda>b. \<not> claim_conflicts (port_claims (bindings_of s)) b) bs)
       (filter (\<lambda>s. svc_id s \<noteq> i) (services_on_host st host))"
  using validate_bindings_available_iff [of st host i bs] by (auto simp: list_all_iff)

section \<open>Bindings\<close>

text \<open>
  Deduplication keeps the port-and-address pairs that the bindings cover, leaves no
  repeated binding and no binding that an all-addresses binding of the same port supersedes,
  and is idempotent.
\<close>

theorem deduplicate_bindings_normal_form:
  "covers (deduplicate_bindings bs) = covers bs \<and> normalised (deduplicate_bindings bs)
   \<and> deduplicate_bindings (deduplicate_bindings bs) = deduplicate_bindings bs"
  by (simp add: covers_deduplicate normalised_deduplicate deduplicate_normalised)

text \<open>
  The validation of a list of bindings, which compares each binding only with those before
  it, accepts exactly the lists in which no two bindings conflict.
\<close>

theorem conflict_check_complete: "validate_bindings_no_conflicts bs = Ok () \<longleftrightarrow> conflict_free bs"
  by (rule validate_bindings_no_conflicts_iff)

text \<open>
  Merging discovered bindings into a service keeps its bindings conflict-free and normal and
  never gives up a port or address the service already had.
\<close>

theorem upsert_bindings_monotone:
  assumes "conflict_free existing" and "normalised existing"
  shows "conflict_free (fst (merge_bindings existing n bs)) \<and> normalised (fst (merge_bindings existing n bs))
     \<and> covers existing \<subseteq> covers (fst (merge_bindings existing n bs))"
  using assms by (simp add: merge_bindings_conflict_free merge_bindings_normalised merge_bindings_covers)

theorem upsert_bindings_monotone_witness:
  "conflict_free (fst (merge_bindings [demo_port_binding 1 100 (Some 60)] 0 [demo_port_binding 2 100 None]))"
proof -
  have "normalised [demo_port_binding 1 100 (Some 60)]" by code_simp
  from upsert_bindings_monotone [OF conflict_free_single this] show ?thesis by blast
qed

text \<open>
  Discovery's split of a service's bindings loses and invents nothing: every binding ends up
  on exactly one side, the free side has no binding whose port another service or an earlier
  service of the batch claims, and the other side has only such bindings.
\<close>

theorem partition_splits_by_claim:
  "mset (fst (partition_conflicting_bindings db bs batch)) +
     mset (snd (partition_conflicting_bindings db bs batch)) = mset bs
   \<and> list_all (\<lambda>b. \<not> claim_conflicts (db @ batch) b) (fst (partition_conflicting_bindings db bs batch))
   \<and> list_all (claim_conflicts (db @ batch)) (snd (partition_conflicting_bindings db bs batch))"
  using partition_conflicting_bindings_sound [of db bs batch]
  by (cases "partition_conflicting_bindings db bs batch")
    (auto simp: list_all_iff partition_conflicting_bindings_mset [of db bs batch, symmetric])

section \<open>Positions\<close>

text \<open>
  C7: Moving the service at one position to another renumbers the services of a host so that
  they are again 0 to n-1 and their order is the old order with that one service moved.
\<close>

theorem reorder_services_moves:
  assumes "valid_positions (map (position service_positioned) es)" and "length es < 2147483648"
    and "from < length es" and "to < length es" and "from \<noteq> to"
  shows "snd (reorder_positions service_positioned es (int from) (int to))
     \<and> valid_positions (map (position service_positioned)
         (fst (reorder_positions service_positioned es (int from) (int to))))
     \<and> map svc_id (sort_key (position service_positioned)
         (fst (reorder_positions service_positioned es (int from) (int to)))) =
       list_move from to (map svc_id (sort_key (position service_positioned) es))"
proof -
  have i: "ident service_positioned = svc_id" by (simp add: service_positioned_def)
  show ?thesis
    using service.reorder_positions_refines [OF assms surjective_pairing] unfolding i by blast
qed

theorem reorder_services_moves_witness:
  "let s = (\<lambda>i p. (demo_service i [])\<lparr>svc_base := (svc_base (demo_service i []))\<lparr>svc_position := p\<rparr>\<rparr>);
       es = [s 1 0, s 2 1, s 3 2]
   in map svc_id (sort_key (position service_positioned) (fst (reorder_positions service_positioned es 0 2)))
      = [2, 3, 1]"
proof -
  let ?s = "\<lambda>i p. (demo_service i [])\<lparr>svc_base := (svc_base (demo_service i []))\<lparr>svc_position := p\<rparr>\<rparr>"
  let ?es = "[?s 1 0, ?s 2 1, ?s 3 2]"
  have "map svc_id (sort_key (position service_positioned)
      (fst (reorder_positions service_positioned ?es (int 0) (int 2)))) =
    list_move 0 2 (map svc_id (sort_key (position service_positioned) ?es))"
    using reorder_services_moves [of ?es 0 2] valid_positions_snoc [OF valid_positions_snoc [OF valid_positions_snoc [of "[]"]]]
    by (simp add: service_positioned_def demo_service_def new_service_def valid_positions_def)
  then show ?thesis
    by (simp add: Let_def list_move_def service_positioned_def demo_service_def new_service_def)
qed

text \<open>
  Renumbering makes any list of services 0 to n-1 in the order of their old positions, and
  reports a change exactly when they were not a permutation of 0 to n-1 already.
\<close>

theorem renumber_services_restores:
  assumes "length es \<le> 2147483648"
  shows "map (position service_positioned) (fst (renumber_positions service_positioned es)) = map int [0..<length es]
     \<and> map svc_id (fst (renumber_positions service_positioned es)) =
         map svc_id (sort_key (position service_positioned) es)
     \<and> (snd (renumber_positions service_positioned es)
          \<longleftrightarrow> \<not> valid_positions (map (position service_positioned) es))"
proof -
  have i: "ident service_positioned = svc_id" by (simp add: service_positioned_def)
  show ?thesis
    using service.renumber_positions_eq [OF assms] service.renumber_positions_changed [OF assms]
    unfolding i by blast
qed

theorem renumber_services_restores_witness:
  "map (position service_positioned) (fst (renumber_positions service_positioned [demo_service 1 [], demo_service 2 []])) = [0, 1]"
  using renumber_services_restores [of "[demo_service 1 [], demo_service 2 []]"] by simp

text \<open>
  The validator of explicit positions accepts a list exactly when it is a permutation of 0
  to n-1.
\<close>

theorem position_validator_exact:
  assumes "length ps \<le> 2147483648"
  shows "validate_sequential_positions ps name = Ok () \<longleftrightarrow> distinct ps \<and> set ps = {0..<int (length ps)}"
  using validate_sequential_Ok_iff [OF assms] by (simp add: valid_positions_def)

theorem position_validator_exact_witness:
  "validate_sequential_positions [1, 0, 2] ''service'' = Ok ()"
proof -
  have "{0..<int (length [1, 0, 2 :: int])} = {0, 1, 2}" by auto
  then show ?thesis using position_validator_exact [of "[1, 0, 2]" "''service''"] by auto
qed

text \<open>
  When a request omits all positions and names every existing service of the host, possibly
  with new ones, each input gets a position, in the order of the request, and together they are
  a permutation of 0 to n-1.
\<close>

theorem omitted_positions_resolved:
  fixes existing :: "Service list"
  assumes "\<forall>x \<in> set inputs. input_position service_input_positioned x = None"
    and "valid_positions (map (position service_positioned) existing)"
    and "distinct (map svc_id existing)" and "distinct (map sin_id inputs)"
    and "svc_id ` set existing \<subseteq> sin_id ` set inputs"
    and "length existing + length inputs < 2147483647"
  shows "\<exists>out. resolve_and_validate_input_positions service_input_positioned service_positioned inputs existing name = Ok out
     \<and> map sin_id out = map sin_id inputs
     \<and> (\<exists>ps. map (input_position service_input_positioned) out = map Some ps \<and> valid_positions ps)"
proof -
  have i: "ident service_positioned = svc_id" "input_ident service_input_positioned = sin_id"
    by (simp_all add: service_positioned_def service_input_positioned_def)
  show ?thesis
    using service_input.resolve_all_omitted_valid [of inputs service_positioned existing name] assms
    unfolding i by blast
qed

theorem omitted_positions_resolved_witness:
  "\<exists>out. resolve_and_validate_input_positions service_input_positioned service_positioned
     [demo_service_input 1, demo_service_input 2] [demo_service 1 []] ''service'' = Ok out"
proof -
  have "valid_positions (map (position service_positioned) [demo_service 1 []])"
    using valid_positions_snoc [of "[]"]
    by (simp add: valid_positions_def service_positioned_def demo_service_def new_service_def svc_default_base_def)
  with omitted_positions_resolved [of "[demo_service_input 1, demo_service_input 2]" "[demo_service 1 []]"]
  show ?thesis
    by (force simp: service_input_positioned_def demo_service_input_def demo_service_def new_service_def)
qed

text \<open>
  When the request omits an existing service along with the positions, the resolved positions
  are accepted although they have a gap: the branch that fills positions in does not validate
  them.
\<close>

theorem omitted_positions_of_a_subset_leave_gaps:
  "resolve_and_validate_input_positions service_input_positioned service_positioned [demo_service_input 2]
     [demo_service 1 [], (demo_service 2 [])\<lparr>svc_base := (svc_base (demo_service 2 []))\<lparr>svc_position := 1\<rparr>\<rparr>] ''service''
   = Ok [(demo_service_input 2)\<lparr>sin_position := Some 1\<rparr>]"
  by (simp add: resolve_and_validate_input_positions_def service_input_positioned_def service_positioned_def
      existing_by_id_def demo_service_def demo_service_input_def new_service_def svc_default_base_def Let_def)

section \<open>Network entities\<close>

text \<open>
  A port type read back from its serialised form has the same number and protocol, and a
  named port type comes back as itself.
\<close>

theorem port_type_survives_json:
  "port_eq (deserialize_port_type (serialize_port_type p)) p
   \<and> (is_custom p \<or> deserialize_port_type (serialize_port_type p) = p)"
  using deserialize_serialize_eq deserialize_serialize_named by blast

text \<open>
  Parsing the text of a subnet type gives that type back.
\<close>

theorem subnet_type_survives_text: "subnet_type_from_str (subnet_type_str t) = t"
  by (rule subnet_type_round_trip)

text \<open>
  No interface name, in any capitalisation, classifies a subnet as a container network, and
  the case of the name does not matter.
\<close>

theorem interface_names_never_mean_containers:
  "\<not> is_container_network (from_interface_name n) \<and> from_interface_name (to_lowercase n) = from_interface_name n"
  by (simp add: from_interface_name_not_container from_interface_name_lower)

text \<open>
  A subnet built from a scanned interface comes from an IPv4 network, is marked as
  discovered, never has a container type, and is user-managed exactly when it is not the
  loopback subnet.
\<close>

theorem discovered_subnets:
  assumes "subnet_from_discovery E fresh now name net network = Some s"
  shows "(\<exists>ip prefix. net = Net4 ip prefix) \<and> subnet_source (subnet_base s) = Discovery
     \<and> \<not> is_container_network (subnet_type (subnet_base s))
     \<and> (is_user_managed s \<longleftrightarrow> subnet_type (subnet_base s) \<noteq> Loopback)"
  using subnet_from_discovery_facts [OF assms] subnet_from_discovery_user_managed [OF assms]
  by (auto simp: is_container_network_def)

theorem discovered_subnets_witness:
  "\<exists>s. subnet_from_discovery \<lparr>network_address = (\<lambda>a _. a), ipv4_cidr_new = (\<lambda>a n. Some (V4 a, n)), cidr_text = (\<lambda>_. [])\<rparr>
       1 0 ''eth0'' (Net4 0xC0A80100 24) 8 = Some s
     \<and> \<not> is_container_network (subnet_type (subnet_base s))"
proof -
  let ?E = "\<lparr>network_address = (\<lambda>a _. a), ipv4_cidr_new = (\<lambda>a n. Some (V4 a, n)), cidr_text = (\<lambda>_. [])\<rparr>"
  have "subnet_from_discovery ?E 1 0 ''eth0'' (Net4 0xC0A80100 24) 8 =
      Some (the (subnet_from_discovery ?E 1 0 ''eth0'' (Net4 0xC0A80100 24) 8))"
    by code_simp
  with discovered_subnets [OF this] show ?thesis by blast
qed

text \<open>
  Equality of addresses, which the code declares an equivalence, is not transitive, and two
  equal addresses can hash differently: sharing an id makes two addresses equal whatever they
  say, sharing address and subnet makes them equal whatever their ids.
\<close>

theorem ip_equality_not_transitive:
  "let a = demo_ip 1 (V4 1); b = demo_ip 2 (V4 1); c = demo_ip 2 (V4 2)
   in ip_eq a b \<and> ip_eq b c \<and> \<not> ip_eq a c \<and> ip_hash_input b \<noteq> ip_hash_input c"
  by (simp add: Let_def ip_eq_def ip_hash_input_def demo_ip_def new_ip_address_def)

text \<open>
  When a service moves to another host, every port binding that survives refers to a port of
  the destination.
\<close>

theorem transfer_resolves_ports:
  assumes "reassign_binding orig_ips orig_ports new_ips new_ports id_map b = Some c"
    and "binding_port_id c = Some p"
  shows "p \<in> port_id ` set new_ports"
  using assms by (rule reassign_binding_port)

theorem transfer_resolves_ports_witness:
  "101 \<in> port_id ` set [new_hostless 101 0 Http8080]"
proof -
  let ?o = "[new_hostless 100 0 Http8080]"
  let ?n = "[new_hostless 101 0 Http8080]"
  let ?c = "reassign_binding [] ?o [] ?n (\<lambda>_. None) (demo_port_binding 1 100 None)"
  have "?c = Some (the ?c)" "binding_port_id (the ?c) = Some 101"
    by code_simp+
  then show ?thesis by (rule transfer_resolves_ports)
qed

section \<open>Discovery sessions\<close>

definition demo_settings :: ScanSettings where
  "demo_settings = \<lparr>arp_retries = None, arp_rate_pps = None, scan_rate_pps = None, port_scan_batch_size = None,
     probe_raw_socket_ports = False, use_npcap_arp = False, full_scan_interval = None, is_full_scan = False,
     arp_scan_cutoff = None, max_discovery_duration = None\<rparr>"

definition demo_discovery :: "uuid \<Rightarrow> 32 word \<Rightarrow> Discovery" where
  "demo_discovery i n = \<lparr>disc_id = i, disc_created_at = 0, disc_updated_at = 0,
     disc_type = Unified 7 None NameByIp demo_settings, run_type = Scheduled ''0 0 3 * * *'' None True None,
     disc_name = ''nightly'', disc_daemon_id = 9, disc_network_id = 8, scan_count = n,
     force_full_scan = False, integration_targets = []\<rparr>"

definition demo_manager :: manager where
  "demo_manager = fst (start_session race_env 0 70 (empty_manager\<lparr>m_rows := [demo_discovery 60 0]\<rparr>) (demo_discovery 60 0))"

definition demo_report :: "DiscoveryPhase \<Rightarrow> session" where
  "demo_report p = (new_session 70 9 8 (Unified 7 None NameByIp demo_settings) None)\<lparr>phase := p\<rparr>"

lemma demo_manager_reachable: "manager_reachable race_env demo_manager"
  unfolding demo_manager_def
  by (rule manager_reachable.step [OF manager_reachable.init manager_step.start])
    (simp add: empty_manager_def get_session_def get_by_id_def)

lemma demo_manager_protocol: "protocol_reachable race_env (\<lambda>_. 8) demo_manager"
  unfolding demo_manager_def
  by (rule protocol_reachable.step [OF protocol_reachable.init protocol_step.start])
    (simp_all add: empty_manager_def get_session_def get_by_id_def demo_discovery_def)

definition demo_waiting :: session where
  "demo_waiting = (new_session 70 9 8 (Unified 7 None NameByIp demo_settings) (Some 60))\<lparr>phase := Pending\<rparr>"

lemma demo_manager_session: "get_session demo_manager 70 = Some demo_waiting"
  by code_simp

text \<open>
  C8: In every state the session manager reaches while each report about a known session names the
  daemon the session belongs to (the handlers do not check this), server restarts, interleaved
  releases and stall sweeps and starts whose checks saw another state included, the session map,
  the daemons' queues, the session recorded for each discovery and the stall clocks agree: session
  ids are distinct, a queue holds exactly the sessions of its daemon, once each, no session is
  terminal, every session that can stall has a clock, and the session recorded for a discovery is
  live and recorded for no other. The writes of one handler (of the second half of a start, of
  each half of a release or a sweep) are one step.
\<close>

theorem reachable_sessions_agree:
  assumes "manager_reachable E st"
  shows "session_inv st"
  using assms by (rule manager_reachable_inv)

theorem reachable_sessions_agree_witness: "session_inv demo_manager"
  by (rule reachable_sessions_agree [OF demo_manager_reachable])

text \<open>
  C9: A session waits for a snapshot exactly while its network is reserved for one: no session is
  in flight, or about to be, on a network under snapshot, and none waits once it is released. This
  is for runs that keep to the protocol: a daemon serves one network and reports only sessions
  that it was handed and that the manager still knows (or, for the last time, one the manager has
  seen finished), so that no report re-creates a session, as happens after a restart of the server
  or a stall sweep; and every handler, a start and a release among them, is one step.
\<close>

theorem snapshot_excludes_sessions:
  assumes "protocol_reachable E net st" and "get_session st i = Some s"
  shows "phase s = AwaitingSnapshot \<longleftrightarrow> ses_network_id s \<in> set (m_snapshots st)"
  using placedD(3) [OF protocol_reachable_placed [OF assms(1)] assms(2)] by simp

theorem snapshot_excludes_sessions_witness:
  "phase demo_waiting = AwaitingSnapshot \<longleftrightarrow> ses_network_id demo_waiting \<in> set (m_snapshots demo_manager)"
  by (rule snapshot_excludes_sessions [OF demo_manager_protocol demo_manager_session])

text \<open>
  C10: A daemon never has two sessions in flight: of the sessions of one daemon at most one is
  pending, starting, started or scanning. This is for runs that keep to the protocol: a daemon
  serves one network and reports only sessions that it was handed and that the manager still knows
  (or, for the last time, one the manager has seen finished), so that no report re-creates a
  session after a restart or a stall sweep; and every handler is one step, so that no two starts
  overlap between the check of the daemon's queue and the entry into it.
\<close>

theorem one_session_in_flight:
  assumes "protocol_reachable E net st" and "get_session st i = Some s" and "get_session st j = Some t"
    and "ses_daemon_id s = ses_daemon_id t" and "can_be_cleaned_up (phase s)" and "can_be_cleaned_up (phase t)"
  shows "i = j"
  using protocol_reachable_placed [OF assms(1)] assms(2-6) by (rule placed_unique)

theorem one_session_in_flight_witness: "\<exists>i. get_session demo_manager i = Some demo_waiting \<and> i = (70 :: uuid)"
  using one_session_in_flight [OF demo_manager_protocol demo_manager_session demo_manager_session]
    demo_manager_session by auto

text \<open>
  C11: When a daemon with queued sessions polls while none of them has been handed out and its
  network is not under snapshot, the poll hands one out, and it is a pending session of that
  daemon. This is for states of runs that keep to the protocol (a daemon serves one network and
  reports only sessions that it was handed and that the manager still knows, or has seen finished,
  so that no report re-creates a session after a restart or a stall sweep; every handler, a start,
  a release and a poll among them, is one step), for polls whose new session ids are fresh, and
  when the stored discoveries have distinct ids and each lies in the network of its daemon.
\<close>

theorem idle_daemon_gets_work:
  assumes "protocol_reachable E net st" and "fresh_ids new_id st" and "home_rows net st"
    and "\<not> has_active_session_for_daemon st d" and "m_queue st d \<noteq> []" and "net d \<notin> set (m_snapshots st)"
  shows "\<exists>w. snd (get_pending_work E now new_id st d) = Some w \<and> phase w = Pending \<and> ses_daemon_id w = d"
  using protocol_reachable_orderly [OF assms(1)] assms(2-6) by (rule pending_work_due)

theorem idle_daemon_gets_work_witness:
  "\<exists>w. snd (get_pending_work race_env 5 (\<lambda>i. i + 1000) demo_manager 9) = Some w \<and> phase w = Pending \<and> ses_daemon_id w = 9"
proof (rule idle_daemon_gets_work [OF demo_manager_protocol])
  have rows: "map disc_id (m_rows demo_manager) = [60]" "map disc_network_id (m_rows demo_manager) = [8]"
    by code_simp+
  then obtain d where d: "m_rows demo_manager = [d]" "disc_id d = 60" "disc_network_id d = 8" by auto
  have "get_session demo_manager (60 + 1000) = None" by code_simp
  then show "fresh_ids (\<lambda>i. i + 1000) demo_manager" by (simp add: fresh_ids_def d)
  show "home_rows (\<lambda>_. 8) demo_manager" by (simp add: home_rows_def wf_table_def d)
  show "\<not> has_active_session_for_daemon demo_manager 9" "m_queue demo_manager 9 \<noteq> []"
    "(8 :: uuid) \<notin> set (m_snapshots demo_manager)" by code_simp+
qed

text \<open>
  C12: A stall sweep leaves no stalled session behind, also none that it promoted itself.
\<close>

theorem stall_sweep_complete:
  assumes "manager_reachable E st"
  shows "stalled_sessions now (cleanup_stalled_sessions E now new_id st) = []"
  using manager_reachable_inv [OF assms] by (rule cleanup_leaves_none_stalled)

theorem stall_sweep_complete_witness:
  "stalled_sessions (stall_threshold + 1) demo_manager \<noteq> [] \<and>
   stalled_sessions (stall_threshold + 1) (cleanup_stalled_sessions race_env (stall_threshold + 1) (\<lambda>i. i) demo_manager) = []"
proof
  show "stalled_sessions (stall_threshold + 1) demo_manager \<noteq> []" by code_simp
qed (rule stall_sweep_complete [OF demo_manager_reachable])



text \<open>
  The report that ends a session is processed once: the session is gone afterwards, and
  receiving the same report again only touches its time stamp, so it writes no second history row
  and promotes no second session.
\<close>

theorem finished_report_processed_once:
  assumes "manager_reachable E st" and "get_session st (session_id u) = Some s"
    and "ses_daemon_id s = ses_daemon_id u" and "is_terminal (phase u)"
  shows "get_session (update_session E now n st u) (session_id u) = None \<and>
    update_session E now' n' (update_session E now n st u) u =
      (update_session E now n st u)\<lparr>m_last_updated :=
         (m_last_updated (update_session E now n st u))(session_id u := Some now')\<rparr>"
  using finished_report(1) [OF manager_reachable_inv [OF assms(1)] assms(2-4)]
    repeated_report_ignored [OF manager_reachable_inv [OF assms(1)] assms(2-4)]
  by (simp add: clocked_def)

theorem finished_report_processed_once_witness:
  "get_session (update_session race_env 5 80 demo_manager (demo_report Complete)) 70 = None"
proof -
  have s: "get_session demo_manager (session_id (demo_report Complete)) = Some demo_waiting"
    using demo_manager_session by (simp add: demo_report_def new_session_def)
  have "ses_daemon_id demo_waiting = ses_daemon_id (demo_report Complete)" "is_terminal (phase (demo_report Complete))"
    "session_id (demo_report Complete) = 70" by code_simp+
  then show ?thesis
    using finished_report_processed_once [OF demo_manager_reachable s, where now = 5 and n = 80] by simp
qed

text \<open>
  A scheduled run that starts writes back the row its job captured when it was registered,
  whatever the row in the table had become: a changed name, an increased scan count, consumed
  targets and a cleared force flag are all undone, and only the time of the last run is new.
\<close>

theorem scheduled_run_restores_captured_row:
  assumes "get_by_id disc_id (m_rows st) (disc_id c) = Some fresh"
    and "is_scheduled_enabled (run_type fresh)" and "\<not> on_free_plan S (disc_network_id fresh)"
    and "daemon_ready (daemon_state S (disc_daemon_id fresh))"
    and "start_session E now new_id st c = (st1, Ok s)"
  shows "get_by_id disc_id (m_rows (run_job S E now new_id st c)) (disc_id c) =
    Some (c\<lparr>run_type := set_last_run (run_type c) now, disc_updated_at := now\<rparr>)"
  using assms by (rule run_job_writes_captured)

definition demo_schedule_env :: schedule_env where
  "demo_schedule_env = \<lparr>valid_timezone = (\<lambda>_. True), valid_cron = (\<lambda>_. True), job_added = (\<lambda>_. True),
     job_removed = (\<lambda>_. True), on_free_plan = (\<lambda>_. False), daemon_state = (\<lambda>_. DaemonFound False False)\<rparr>"

definition demo_scanned :: manager where
  "demo_scanned = empty_manager\<lparr>m_rows := [demo_discovery 60 5]\<rparr>"

theorem scheduled_run_restores_captured_row_witness:
  "map_option scan_count (get_by_id disc_id (m_rows demo_scanned) 60) = Some 5 \<and>
   map_option scan_count (get_by_id disc_id (m_rows (run_job demo_schedule_env race_env 9 70 demo_scanned (demo_discovery 60 0))) 60)
     = Some 0"
proof -
  have row: "get_by_id disc_id (m_rows demo_scanned) (disc_id (demo_discovery 60 0)) = Some (demo_discovery 60 5)"
    by code_simp
  have gates: "is_scheduled_enabled (run_type (demo_discovery 60 5))"
    "\<not> on_free_plan demo_schedule_env (disc_network_id (demo_discovery 60 5))"
    "daemon_ready (daemon_state demo_schedule_env (disc_daemon_id (demo_discovery 60 5)))" by code_simp+
  have "\<not> isl (snd (start_session race_env 9 70 demo_scanned (demo_discovery 60 0)))" by code_simp
  then obtain st1 s where st: "start_session race_env 9 70 demo_scanned (demo_discovery 60 0) = (st1, Ok s)"
    by (metis prod.collapse sum.collapse(2))
  show ?thesis
    using scheduled_run_restores_captured_row [OF row gates st] row
    by (simp add: demo_discovery_def)
qed

text \<open>
  With a full-scan interval \<open>i\<close> above zero, one of any \<open>i\<close> consecutive scan counts is due for
  a full scan, as long as the count does not wrap.
\<close>

theorem full_scan_recurs:
  assumes "0 < i" and "unat c + i < 2 ^ 32" and "i < 2 ^ 32"
  shows "\<exists>k < i. full_scan_due False (Some (word_of_nat i)) (word_of_nat (unat c + 1 + k))"
  using assms by (rule full_scan_within_interval)

theorem full_scan_recurs_witness:
  "\<exists>k < 3. full_scan_due False (Some (word_of_nat 3)) (word_of_nat (unat (6 :: 32 word) + 1 + k))"
  by (rule full_scan_recurs) simp_all

section \<open>Interfaces of a host\<close>

text \<open>
  C14: Storing the interfaces a device reported never merges two of them, whether the batch runs to its
  end or a database failure stops it: no two of the stored ones are the same row, each row is in
  the table as it was returned, the constraints of the table hold, and the rows of other hosts are
  untouched. A batch that runs to its end has stored or skipped every reported interface; one that
  is stopped has not.
\<close>

theorem interface_batch_keeps_interfaces_apart:
  assumes "table_inv rows"
    and "ingest_loop fresh now host network collected 0 interfaces
           \<lparr>ing_rows = rows, ing_created = [], ing_skipped = 0\<rparr> = (s, err)"
  shows "(if err = None then length (ing_created s) + ing_skipped s = length interfaces
          else length (ing_created s) + ing_skipped s < length interfaces)
    \<and> distinct (map if_id (ing_created s)) \<and> set (ing_created s) \<subseteq> set (ing_rows s) \<and> table_inv (ing_rows s)
    \<and> (\<forall>x. if_host_id (if_base x) \<noteq> host \<longrightarrow> (x \<in> set (ing_rows s) \<longleftrightarrow> x \<in> set rows))"
proof -
  note b = batch_of_loop [OF assms]
  show ?thesis
    using b batch_other_hosts [OF b] ingest_loop_count [OF assms(2)]
    by (cases err) (simp_all add: batch_inv_def)
qed

definition demo_ports :: "Interface list" where
  "demo_ports = [named_port 1 1 ''a'', named_port 2 2 ''b'']"

definition demo_rescan :: "Interface list" where
  "demo_rescan = [named_port 3 1 ''a'', named_port 4 3 ''c'']"

definition demo_batch :: "ingest_state \<times> ingest_error option" where
  "demo_batch = ingest_loop (\<lambda>_. 7) 0 9 0 data_complete_default 0 demo_rescan
     \<lparr>ing_rows = demo_ports, ing_created = [], ing_skipped = 0\<rparr>"

definition demo_clash :: "Interface list" where
  "demo_clash = [named_port 3 1 ''a'', named_port 4 2 ''a'']"

definition demo_stopped :: "ingest_state \<times> ingest_error option" where
  "demo_stopped = ingest_loop (\<lambda>_. 7) 0 9 0 data_complete_default 0 demo_clash
     \<lparr>ing_rows = demo_ports, ing_created = [], ing_skipped = 0\<rparr>"

theorem interface_batch_keeps_interfaces_apart_witness:
  "length (ing_created (fst demo_batch)) + ing_skipped (fst demo_batch) = 2
   \<and> distinct (map if_id (ing_created (fst demo_batch)))
   \<and> length (ing_created (fst demo_stopped)) + ing_skipped (fst demo_stopped) < 2
   \<and> table_inv (ing_rows (fst demo_stopped))"
proof -
  have inv: "table_inv demo_ports" by code_simp
  have "snd demo_batch = None" by code_simp
  then have run: "ingest_loop (\<lambda>_. 7) 0 9 0 data_complete_default 0 demo_rescan
     \<lparr>ing_rows = demo_ports, ing_created = [], ing_skipped = 0\<rparr> = (fst demo_batch, None)"
    by (metis demo_batch_def prod.collapse)
  have "snd demo_stopped = Some DatabaseFailure" by code_simp
  then have stopped: "ingest_loop (\<lambda>_. 7) 0 9 0 data_complete_default 0 demo_clash
     \<lparr>ing_rows = demo_ports, ing_created = [], ing_skipped = 0\<rparr> = (fst demo_stopped, Some DatabaseFailure)"
    by (metis demo_stopped_def prod.collapse)
  show ?thesis
    using interface_batch_keeps_interfaces_apart [OF inv run]
      interface_batch_keeps_interfaces_apart [OF inv stopped] by (simp add: demo_rescan_def demo_clash_def)
qed

text \<open>
  C15: After a complete walk of a device whose interfaces were all stored, the live interfaces of the
  host are exactly the stored ones. After any other walk, one that a failure stopped included, no
  row has been deleted. In every case the rows of the other hosts are the same as before, except
  that exactly those whose neighbour was a deleted interface have lost it.
\<close>

theorem complete_sweep_leaves_reported_interfaces:
  assumes "table_inv rows" and "\<forall>e \<in> set interfaces. if_live e"
    and "store_interfaces fresh now host network complete collected interfaces rows = (s, err)"
  shows "(if err = None \<and> complete \<and> ing_created s \<noteq> [] \<and> ing_skipped s = 0
     then if_id ` {x \<in> set (ing_rows s). if_host_id (if_base x) = host \<and> if_live x} = if_id ` set (ing_created s)
     else if_id ` set rows \<subseteq> if_id ` set (ing_rows s))
    \<and> {y \<in> set (ing_rows s). if_host_id (if_base y) \<noteq> host} =
        (\<lambda>x. if \<exists>g. neighbor (if_base x) = Some (NeighborInterface g)
                   \<and> g \<in> if_id ` set rows \<and> g \<notin> if_id ` set (ing_rows s)
              then with_neighbor None x else x) ` {x \<in> set rows. if_host_id (if_base x) \<noteq> host}"
proof -
  obtain t where t: "ingest_loop fresh now host network collected 0 interfaces
      \<lparr>ing_rows = rows, ing_created = [], ing_skipped = 0\<rparr> = (t, err)"
    "ing_created s = ing_created t" "ing_skipped s = ing_skipped t"
    "ing_rows s = (if err = None \<and> complete \<and> ing_created t \<noteq> [] \<and> ing_skipped t = 0
       then prune_interfaces (ing_rows t) host (ing_claimed t) else ing_rows t)"
    by (rule store_interfaces_loop [OF assms(3)])
  note b = batch_of_loop [OF assms(1) t(1)]
  have live: "\<forall>c \<in> set (ing_created t). if_live c"
    using batch_live [OF assms(2) batch_inv_start [OF assms(1)], where fresh = fresh and now = now and host = host
        and network = network and collected = collected and n = 0] t(1) by simp
  have detached: "detached rows (ing_rows s) =
      (\<lambda>x. if \<exists>g. neighbor (if_base x) = Some (NeighborInterface g)
                 \<and> g \<in> if_id ` set rows \<and> g \<notin> if_id ` set (ing_rows s)
            then with_neighbor None x else x)"
    by (rule ext) (auto simp: detached_def split: option.split Neighbor.split)
  have "{y \<in> set (ing_rows s). if_host_id (if_base y) \<noteq> host} =
      detached rows (ing_rows s) ` {x \<in> set rows. if_host_id (if_base x) \<noteq> host}"
    by (rule foreign_rows_detached [OF b live]) (simp add: t(4))
  moreover have "if err = None \<and> complete \<and> ing_created s \<noteq> [] \<and> ing_skipped s = 0
     then if_id ` {x \<in> set (ing_rows s). if_host_id (if_base x) = host \<and> if_live x} = if_id ` set (ing_created s)
     else if_id ` set rows \<subseteq> if_id ` set (ing_rows s)"
    using pruned_host_rows [OF b live] batch_ids [OF b] by (simp add: t(2-4))
  ultimately show ?thesis by (simp only: detached)
qed

definition demo_facing :: "Interface list" where
  "demo_facing = demo_ports @ [map_base (\<lambda>b. b\<lparr>if_host_id := 8, neighbor := Some (NeighborInterface 2)\<rparr>) (named_port 5 1 ''x''),
     map_base (\<lambda>b. b\<lparr>if_host_id := 8, neighbor := Some (NeighborInterface 1)\<rparr>) (named_port 6 2 ''y'')]"

theorem complete_sweep_leaves_reported_interfaces_witness:
  "let s = fst (store_interfaces (\<lambda>_. 7) 0 9 0 True data_complete_default demo_rescan demo_facing)
   in if_id ` {x \<in> set (ing_rows s). if_host_id (if_base x) = 9 \<and> if_live x} = if_id ` set (ing_created s)
      \<and> map (\<lambda>x. (if_id x, neighbor (if_base x))) (filter (\<lambda>x. if_host_id (if_base x) = 8) (ing_rows s)) =
          [(5, None), (6, Some (NeighborInterface 1))]"
proof -
  let ?r = "store_interfaces (\<lambda>_. 7) 0 9 0 True data_complete_default demo_rescan demo_facing"
  have inv: "table_inv demo_facing" by code_simp
  have live: "\<forall>e \<in> set demo_rescan. if_live e" by code_simp
  have "snd ?r = None" by code_simp
  then have run: "?r = (fst ?r, None)" by (metis prod.collapse)
  have "length (ing_created (fst ?r)) = 2" "ing_skipped (fst ?r) = 0"
    "map (\<lambda>x. (if_id x, neighbor (if_base x))) (filter (\<lambda>x. if_host_id (if_base x) = 8) (ing_rows (fst ?r))) =
       [(5, None), (6, Some (NeighborInterface 1))]" by code_simp+
  then show ?thesis
    using complete_sweep_leaves_reported_interfaces [OF inv live run] by (auto simp: Let_def split: if_splits)
qed

text \<open>
  When every reported interface has a name and no two share one, the batch always runs to its
  end: an interface can be skipped, but none stops the ones behind it.
\<close>

theorem named_batches_complete:
  assumes "table_inv rows" and "distinct (map reported_name interfaces)"
    and "None \<notin> set (map reported_name interfaces)"
  shows "snd (store_interfaces fresh now host network complete collected interfaces rows) = None"
proof -
  have "snd (ingest_loop fresh now host network collected 0 interfaces
      \<lparr>ing_rows = rows, ing_created = [], ing_skipped = 0\<rparr>) = None"
    by (rule named_batch_completes [OF batch_inv_start [OF assms(1)] assms(2,3)]) simp
  then show ?thesis by (auto simp: store_interfaces_def split: prod.splits)
qed

theorem named_batches_complete_witness:
  "snd (store_interfaces (\<lambda>_. 7) 0 9 0 True data_complete_default demo_rescan demo_ports) = None"
  by (rule named_batches_complete; code_simp)

text \<open>
  C16: A rescan that matches a stored interface keeps its id and creation time, the stored MAC if
  there is one, and the stored neighbour unless the rescan brings its own. Of each group of data,
  all LLDP fields, all CDP fields, the forwarding table and the VLAN membership, the whole group is
  the incoming one when the walk read it in full and the stored one otherwise. The start of the
  row's validity and the discovery that first saw it are not kept: they are the incoming ones.
\<close>

theorem rescan_keeps_what_it_did_not_read:
  assumes "find_matching_existing rows (normalize_blank_identity entry) claimed = Some existing"
    and "create_or_update_from_discovery fresh now rows entry claimed collected = Ok (rows', c)"
  shows "if_id c = if_id existing \<and> if_created_at c = if_created_at existing
    \<and> if_mac_address (if_base c) =
        (case if_mac_address (if_base existing) of None \<Rightarrow> if_mac_address (if_base entry) | mac \<Rightarrow> mac)
    \<and> neighbor (if_base c) = (case neighbor (if_base entry) of None \<Rightarrow> neighbor (if_base existing) | n \<Rightarrow> n)
    \<and> lldp_group (if_base c) = lldp_group (if_base (if dc_lldp collected then entry else existing))
    \<and> cdp_group (if_base c) = cdp_group (if_base (if dc_cdp collected then entry else existing))
    \<and> fdb_macs (if_base c) = fdb_macs (if_base (if dc_fdb collected then entry else existing))
    \<and> vlan_group (if_base c) = vlan_group (if_base (if dc_vlan_membership collected then entry else existing))
    \<and> if_valid_from c = if_valid_from entry \<and> if_first_discovery_id c = if_first_discovery_id entry"
  unfolding create_or_update_matched [OF assms]
  by (simp add: rescanned_keeps rescanned_history normalize_other normalize_groups split: option.split)

definition demo_linked_port :: Interface where
  "demo_linked_port = (map_base (\<lambda>b. b\<lparr>if_mac_address := Some 5, neighbor := Some (NeighborHost 44),
       lldp_sys_name := Some ''core'', cdp_platform := Some ''ios'', fdb_macs := Some [''m''],
       vlan_ids := Some [3]\<rparr>)
     (named_port 1 1 ''a''))\<lparr>if_first_discovery_id := Some 60\<rparr>"

definition demo_partial :: InterfaceDataComplete where
  "demo_partial = data_complete_default\<lparr>dc_lldp := False, dc_cdp := True, dc_fdb := False, dc_vlan_membership := False\<rparr>"

theorem rescan_keeps_what_it_did_not_read_witness:
  "\<exists>rows c. create_or_update_from_discovery 7 0 [demo_linked_port] (named_port 3 1 ''a'') [] demo_partial = Ok (rows, c)
     \<and> neighbor (if_base c) = Some (NeighborHost 44) \<and> lldp_sys_name (if_base c) = Some ''core''
     \<and> cdp_platform (if_base c) = None \<and> fdb_macs (if_base c) = Some [''m''] \<and> vlan_ids (if_base c) = Some [3]
     \<and> if_first_discovery_id demo_linked_port = Some 60 \<and> if_first_discovery_id c = None"
proof -
  have found: "find_matching_existing [demo_linked_port] (normalize_blank_identity (named_port 3 1 ''a'')) [] = Some demo_linked_port"
    by code_simp
  have "\<not> isl (create_or_update_from_discovery 7 0 [demo_linked_port] (named_port 3 1 ''a'') [] demo_partial)"
    by code_simp
  then obtain rows c where ok: "create_or_update_from_discovery 7 0 [demo_linked_port] (named_port 3 1 ''a'') []
      demo_partial = Ok (rows, c)" by (metis prod.collapse sum.collapse(2))
  show ?thesis
    using rescan_keeps_what_it_did_not_read [OF found ok] ok
    by (auto simp: demo_linked_port_def demo_partial_def named_port_def new_interface_def interface_base_default_def
        lldp_group_def cdp_group_def vlan_group_def data_complete_default_def)
qed

text \<open>Once the scan is recorded, a rescanned interface names the rescan as the one that first saw it.\<close>

lemma rescan_becomes_first_discovery:
  assumes "find_matching_existing rows (normalize_blank_identity entry) claimed = Some existing"
    and "create_or_update_from_discovery fresh now rows entry claimed collected = Ok (rows', c)"
    and "if_first_discovery_id entry = None" and "c \<in> set rows'" and "if_id c \<in> set scanned"
  shows "\<exists>x \<in> set (update_discovery_fks scanned discovery rows'). if_id x = if_id c \<and> if_first_discovery_id x = Some discovery"
proof -
  have "if_first_discovery_id c = None"
    using create_or_update_matched [OF assms(1,2)] assms(3) by (simp add: rescanned_history normalize_other)
  moreover have "(\<lambda>i. if if_id i \<in> set scanned
              then i\<lparr>if_last_discovery_id := Some discovery,
                     if_first_discovery_id := (case if_first_discovery_id i of None \<Rightarrow> Some discovery | d \<Rightarrow> d)\<rparr>
              else i) c \<in> set (update_discovery_fks scanned discovery rows')"
    using assms(4) unfolding update_discovery_fks_def set_map by (rule imageI)
  ultimately show ?thesis using assms(5) by (intro bexI) auto
qed

text \<open>
  C17: An interface written to its row and read back is the interface with the NUL characters
  removed from its texts and its timestamps at the precision of the database; with timestamps of
  whole microseconds only the NULs are lost, and what has been read back is stored and read back
  unchanged. No value bound to a column holds a NUL. The text forms of addresses and UUIDs are
  assumed to read back and to hold no NUL, and the database to keep a timestamp as a whole number
  of microseconds less than one microsecond away.
\<close>

theorem interface_rows_read_back:
  assumes "codec_ok c"
  shows "from_row c (map_of (write_row c i)) = Some (stored_form c i)
    \<and> (whole_microseconds i \<longrightarrow> from_row c (map_of (write_row c i)) = Some (map_base strip_base i))
    \<and> from_row c (map_of (write_row c (stored_form c i))) = Some (stored_form c i)
    \<and> (\<forall>(k, v) \<in> set (write_row c i). storable v)"
  using row_back [OF assms] row_storable [of c i] stored_form_whole(1) [OF assms] stored_form_idem [OF assms] by simp

definition word_text :: "'a::len word \<Rightarrow> string" where
  "word_text w = map (\<lambda>n. if bit w n then CHR ''1'' else CHR ''0'') [0..<LENGTH('a)]"

definition text_word :: "string \<Rightarrow> 'a::len word" where
  "text_word s = horner_sum of_bool 2 (map (\<lambda>c. c = CHR ''1'') s)"

definition demo_text_codec :: text_codec where
  "demo_text_codec =
     \<lparr>ip_text = (\<lambda>a. case a of V4 w \<Rightarrow> CHR ''4'' # word_text w | V6 w \<Rightarrow> CHR ''6'' # word_text w),
      parse_ip = (\<lambda>s. case s of [] \<Rightarrow> None | c # cs \<Rightarrow>
        Some (if c = CHR ''4'' then V4 (text_word cs) else V6 (text_word cs))),
      uuid_text = word_text, parse_uuid = (\<lambda>s. Some (text_word s)), stored_time = (\<lambda>t. t div 1000 * 1000)\<rparr>"

lemma text_word_back: "text_word (word_text w) = w"
  by (simp add: text_word_def word_text_def comp_def if_distrib cong: if_cong)
     (simp add: horner_sum_bit_eq_take_bit take_bit_word_eq_self)

lemma word_text_no_nul: "CHR 0x00 \<notin> set (word_text w)"
  by (auto simp: word_text_def)

lemma demo_text_codec_ok: "codec_ok demo_text_codec"
proof -
  have "\<bar>t div 1000 * 1000 - t\<bar> < 1000" for t :: int by presburger
  then show ?thesis
    by (auto simp: codec_ok_def demo_text_codec_def text_word_back word_text_no_nul split: IpAddr.splits)
qed

theorem interface_rows_read_back_witness:
  "from_row demo_text_codec (map_of (write_row demo_text_codec (demo_linked_port\<lparr>if_updated_at := 1234567\<rparr>))) =
     Some (map_base strip_base (demo_linked_port\<lparr>if_updated_at := 1234000\<rparr>))
   \<and> from_row demo_text_codec (map_of (write_row demo_text_codec demo_linked_port)) =
     Some (map_base strip_base demo_linked_port)"
proof -
  have "stored_form demo_text_codec (demo_linked_port\<lparr>if_updated_at := 1234567\<rparr>) =
      map_base strip_base (demo_linked_port\<lparr>if_updated_at := 1234000\<rparr>)"
    by (simp add: stored_form_def demo_text_codec_def demo_linked_port_def named_port_def new_interface_def)
  moreover have "whole_microseconds demo_linked_port"
    by (simp add: whole_microseconds_def demo_linked_port_def named_port_def new_interface_def)
  ultimately show ?thesis
    using interface_rows_read_back [OF demo_text_codec_ok, of "demo_linked_port\<lparr>if_updated_at := 1234567\<rparr>"]
      interface_rows_read_back [OF demo_text_codec_ok, of demo_linked_port] by metis
qed

section \<open>Neighbours\<close>

text \<open>
  C18: Reciprocal evidence is mutual and rests on one port each way. A port is paired with a port of
  a device exactly when there is another device (its own) such that each of the two ports is the
  only one of its device that names the other device; and then that port is paired back.
\<close>

theorem reciprocal_pairs_symmetric:
  assumes "table_inv (inv_interfaces db)"
  shows "(adj_reciprocal (build_neighbor_adjacency C db network) p = Some (q, r) \<longleftrightarrow>
    (\<exists>l. l \<noteq> r
      \<and> direction (far_device C db network) (filter (names_neighbour network) (inv_interfaces db)) (l, r) = [p]
      \<and> direction (far_device C db network) (filter (names_neighbour network) (inv_interfaces db)) (r, l) = [q]))
   \<and> (adj_reciprocal (build_neighbor_adjacency C db network) p = Some (q, r) \<longrightarrow>
    (\<exists>l. l \<noteq> r \<and> adj_reciprocal (build_neighbor_adjacency C db network) q = Some (p, l)))"
proof -
  let ?is = "filter (names_neighbour network) (inv_interfaces db)" and ?v = "far_device C db network"
  have d: "distinct (map if_id ?is)"
    using assms by (simp add: table_inv_def wf_table_def distinct_map inj_on_def)
  have "l \<noteq> r" if "direction ?v ?is (l, r) = [p]" for l
    using that by (rule direction_port) simp
  then show ?thesis
    by (auto simp: build_neighbor_adjacency_def Let_def reciprocal_pairs_iff [OF d])
qed

theorem reciprocal_pairs_symmetric_witness:
  "\<exists>l. l \<noteq> 2 \<and> adj_reciprocal (build_neighbor_adjacency demo_codec demo_network 9) 21 = Some (11, l)"
proof -
  have inv: "table_inv (inv_interfaces demo_network)" by code_simp
  have "adj_reciprocal (build_neighbor_adjacency demo_codec demo_network 9) 11 = Some (21, 2)" by code_simp
  with conjunct2 [OF reciprocal_pairs_symmetric [OF inv]] show ?thesis by blast
qed

text \<open>
  C19: The counters of a pass account for every neighbour it looked at: each ended as a known or an
  unknown device, and each known device as a resolved or an unresolved port. The pass lists one
  finding for every unresolved port, and at most one for every unknown device.
\<close>

theorem neighbour_pass_accounts:
  assumes "resolve_lldp_links C db network = Ok s"
  shows "st_total (ps_stats s) =
      st_hosts_resolved (ps_stats s) + st_host_no_strategy (ps_stats s) + st_host_not_found (ps_stats s)
    \<and> st_hosts_resolved (ps_stats s) =
      st_ports_resolved (ps_stats s) + st_port_no_strategy (ps_stats s) + st_port_not_found (ps_stats s)
        + st_port_ambiguous (ps_stats s)
    \<and> st_ports_resolved_reciprocal (ps_stats s) \<le> st_ports_resolved (ps_stats s)
    \<and> length (ps_unresolved s) =
      st_port_no_strategy (ps_stats s) + st_port_not_found (ps_stats s) + st_port_ambiguous (ps_stats s)
    \<and> length (ps_unmatched s) \<le> st_host_not_found (ps_stats s)"
proof -
  have "accounted (ps_stats s) \<and> reported s"
    using assms unfolding resolve_lldp_links_def Let_def
    by (rule resolve_rows_accounts) (simp add: accounted_def reported_def stats_default_def)
  then show ?thesis by (simp add: accounted_def reported_def)
qed

theorem neighbour_pass_accounts_witness:
  "\<exists>s. resolve_lldp_links demo_codec demo_network 9 = Ok s \<and> st_total (ps_stats s) = 2
     \<and> st_hosts_resolved (ps_stats s) + st_host_no_strategy (ps_stats s) + st_host_not_found (ps_stats s) = 2"
proof -
  have "case resolve_lldp_links demo_codec demo_network 9 of Ok s \<Rightarrow> st_total (ps_stats s) = 2 | Err _ \<Rightarrow> False"
    by code_simp
  then obtain s where s: "resolve_lldp_links demo_codec demo_network 9 = Ok s" "st_total (ps_stats s) = 2"
    by (auto split: sum.splits)
  then show ?thesis using neighbour_pass_accounts [OF s(1)] by auto
qed

text \<open>
  C20: On a consistent inventory a pass always ends with a result. It writes nothing but neighbours,
  and a row that named a device still names it afterwards: a port binding may appear, move to
  another port of that device or be withdrawn to the device, and never leads to another one.
\<close>

theorem neighbour_pass_keeps_far_device:
  assumes "table_inv (inv_interfaces db)" and "wf_inventory db"
  shows "\<exists>s. resolve_lldp_links C db network = Ok s
    \<and> map (with_neighbor None) (ps_rows s) = map (with_neighbor None) (inv_interfaces db)
    \<and> (\<forall>k h. k < length (inv_interfaces db)
         \<and> far_host (inv_interfaces db) (neighbor (if_base (inv_interfaces db ! k))) = Some h \<longrightarrow>
         far_host (inv_interfaces db) (neighbor (if_base (ps_rows s ! k))) = Some h)"
proof -
  obtain s where s: "resolve_lldp_links C db network = Ok s" "table_kept (inv_interfaces db) (ps_rows s)"
    using pass_kept [OF assms] by blast
  then show ?thesis
    using table_kept_erase [OF s(2)] by (auto simp: table_kept_def kept_def list_all2_conv_all_nth)
qed

theorem neighbour_pass_keeps_far_device_witness:
  "\<exists>s. resolve_lldp_links demo_codec demo_network 9 = Ok s
     \<and> map (with_neighbor None) (ps_rows s) = map (with_neighbor None) (inv_interfaces demo_network)"
proof -
  have "table_inv (inv_interfaces demo_network)" "wf_inventory demo_network" by code_simp+
  then show ?thesis using neighbour_pass_keeps_far_device by blast
qed

text \<open>
  A MAC identifier has one form whichever way it was advertised. The six octets of an SNMP walk
  and any text the MAC readers accept give the same identifier exactly when they are the same
  address, for chassis and for ports. The MAC reader of the library is assumed to read the
  canonical text back.
\<close>

theorem mac_identifiers_agree:
  assumes "reads_canonical parse_mac" and "length bs = 6" and "canonical_mac parse_mac v = Some m"
  shows "(chassis_from_snmp parse_mac 4 bs = Some (chassis_from_identifier_str parse_mac v) \<longleftrightarrow> m = format_mac bs)
    \<and> (port_from_snmp parse_mac 3 bs = Some (port_from_identifier_str parse_mac v) \<longleftrightarrow> m = format_mac bs)
    \<and> chassis_from_identifier_str parse_mac m = chassis_from_identifier_str parse_mac v
    \<and> (\<forall>cs. length cs = 6 \<longrightarrow> (format_mac cs = format_mac bs \<longleftrightarrow> cs = bs))"
proof -
  have "format_mac cs = format_mac bs \<longleftrightarrow> cs = bs" if "length cs = 6" for cs
    using format_mac_inj [of cs bs] assms(2) that by force
  then show ?thesis
    using encodings_agree [OF assms(1,2)] canonical_mac_fixed [OF assms(1,2)] canonical_mac_idem [OF assms(1,3)] assms(3)
    by (auto simp: chassis_from_identifier_str_def port_from_identifier_str_def)
qed

definition mac_of :: "octet list \<Rightarrow> MacAddress" where
  "mac_of bs = foldl (\<lambda>m b. or (push_bit 8 m) (ucast b)) 0 bs"

lemma mac_bytes_of:
  assumes "length bs = 6"
  shows "mac_bytes (mac_of bs) = bs"
proof -
  obtain a b c d e f where bs: "bs = [a, b, c, d, e, f]"
    using assms by (auto simp: numeral_eq_Suc length_Suc_conv)
  show ?thesis
    by (simp add: bs mac_bytes_def mac_of_def) (auto simp: bit_eq_iff bit_simps dest: bit_imp_le_length)
qed

text \<open>A reader of six groups of hexadecimal digits.\<close>

definition demo_parse_mac :: "string \<Rightarrow> MacAddress option" where
  "demo_parse_mac s = (case mac_groups s of
     Some bs \<Rightarrow> if length bs = 6 then Some (mac_of bs) else None | None \<Rightarrow> None)"

lemma demo_parse_mac_reads: "reads_canonical demo_parse_mac"
  unfolding reads_canonical_def
proof (intro allI impI)
  fix bs m assume "length (bs :: octet list) = 6" and m: "demo_parse_mac (format_mac bs) = Some m"
  then have "mac_groups (format_mac bs) = Some bs" by (intro mac_groups_format) auto
  then show "mac_bytes m = bs"
    using m mac_bytes_of [of bs] by (auto simp: demo_parse_mac_def split: if_splits)
qed

theorem mac_identifiers_agree_witness:
  "chassis_from_snmp demo_parse_mac 4 [0, 0x1B, 0x2C, 0x3D, 0x4E, 0x5F] =
     Some (chassis_from_identifier_str demo_parse_mac '' 0:1b:2C:3d:4E:5f'')"
proof -
  have canon: "canonical_mac demo_parse_mac '' 0:1b:2C:3d:4E:5f'' = Some (format_mac [0, 0x1B, 0x2C, 0x3D, 0x4E, 0x5F])"
    by code_simp
  show ?thesis
    using mac_identifiers_agree [OF demo_parse_mac_reads _ canon, of "[0, 0x1B, 0x2C, 0x3D, 0x4E, 0x5F]"] by simp
qed

section \<open>Hosts\<close>


text \<open>
  C21: The name a user gives a host is not overwritten by scans: after an edit to a non-blank name,
  any number of discovery payloads, each stripped the way discovery strips it, leave that name and
  its standing.
\<close>

theorem user_name_survives_scans:
  assumes "trim name \<noteq> []" and "name \<noteq> host_name (host_base h)"
  shows "let h' = fold (\<lambda>n e. fst (upsert_host e (n\<lparr>host_base := strip_payload (host_base n)\<rparr>))) payloads
           (h\<lparr>host_base := rename_host (host_base h) name\<rparr>)
         in host_name (host_base h') = name \<and> host_name_source (host_base h') = NameManual"
  using manual_name_kept [of "h\<lparr>host_base := rename_host (host_base h) name\<rparr>" payloads] assms
  by (simp add: rename_host_def manual_def non_blank_def apply_name_def Let_def not_less name_manual_top
      manual_not_less)

definition demo_scanned_host :: Host where
  "demo_scanned_host = new_host 5 0 (host_base_default\<lparr>host_name := ''srv'', host_name_source := NameManual,
     hostname := Some ''srv.lan''\<rparr>)"

theorem user_name_survives_scans_witness:
  "host_name (host_base (fst (upsert_host
     ((new_host 4 0 host_base_default)\<lparr>host_base := rename_host host_base_default ''rack 2''\<rparr>)
     (demo_scanned_host\<lparr>host_base := strip_payload (host_base demo_scanned_host)\<rparr>)))) = ''rack 2''"
proof -
  have name: "trim ''rack 2'' \<noteq> []" "''rack 2'' \<noteq> host_name (host_base (new_host 4 0 host_base_default))"
    by code_simp+
  show ?thesis
    using user_name_survives_scans [OF name, of "[demo_scanned_host]"] by (simp add: Let_def new_host_def)
qed

text \<open>
  A second scan with the same payload leaves the host as the first one left it. It still
  reports an update when the payload's name ranks as a hostname and differs from the hostname
  the host has: the name is then changed and changed back.
\<close>

theorem host_rescan_settles:
  fixes h n :: Host
  shows "fst (upsert_host (fst (upsert_host h n)) n) = fst (upsert_host h n)
    \<and> (snd (upsert_host (fst (upsert_host h n)) n) \<longleftrightarrow>
        (\<exists>x y. name_candidate (host_base n) = Some x
          \<and> hostname_candidate (host_base (fst (upsert_host h n))) = Some y
          \<and> hn_source x = hn_source y \<and> hn_value x \<noteq> hn_value y
          \<and> host_name_source (host_base (fst (upsert_host h n))) = hn_source y))"
  by (intro conjI upsert_again)

definition flapping_host :: Host where
  "flapping_host = new_host 5 0 (host_base_default\<lparr>host_name := ''a'', host_name_source := NameHostname,
     hostname := Some ''a''\<rparr>)"

definition flapping_payload :: Host where
  "flapping_payload = new_host 6 0 (host_base_default\<lparr>host_name := ''b'', host_name_source := NameHostname\<rparr>)"

lemma flapping_host_updates_every_scan:
  "fst (upsert_host flapping_host flapping_payload) = flapping_host
   \<and> snd (upsert_host flapping_host flapping_payload)"
  by code_simp

text \<open>
  A payload is matched to a stored host on an address of its own when it has one, never on a
  loopback address or on an address that routers share. A payload with nothing else but shared
  addresses is matched on one of them, and only to a host with no address of its own.
\<close>

theorem shared_addresses_match_no_router:
  assumes "select_matching_host incoming candidates = Some h"
  shows "\<exists>rows. (h, rows) \<in> set candidates \<and>
    (if \<exists>i \<in> set incoming. \<not> should_skip_for_matching i
     then \<exists>i \<in> set incoming. \<exists>e \<in> set rows. \<not> has_virtual_router_mac i \<and> \<not> has_virtual_router_mac e
       \<and> \<not> ip_loopback i \<and> \<not> ip_loopback e
       \<and> ip_addresses_match (mac_counts_for_payload (filter (\<lambda>a. \<not> should_skip_for_matching a) incoming)) i e
     else \<not> host_is_physical rows
       \<and> (\<exists>i \<in> set incoming. \<exists>e \<in> set rows. has_virtual_router_mac i \<and> ip_addresses_share_address i e))"
proof (cases "\<exists>i \<in> set incoming. \<not> should_skip_for_matching i")
  case True
  obtain rows where "(h, rows) \<in> set candidates"
      "matches_physically (filter (\<lambda>a. \<not> should_skip_for_matching a) incoming) rows"
    by (rule select_physical [OF assms True])
  then show ?thesis using True physical_match_not_virtual [of incoming rows] by (metis (no_types, lifting))
next
  case False
  then have "\<forall>i \<in> set incoming. should_skip_for_matching i" by blast
  then obtain rows where "(h, rows) \<in> set candidates"
      "matches_virtually (filter (\<lambda>a. \<not> ip_loopback a \<and> has_virtual_router_mac a) incoming) rows"
    by (rule select_virtual [OF assms])
  then show ?thesis using False by (auto simp: matches_virtually_def)
qed

definition demo_router_ip :: "uuid \<Rightarrow> MacAddress option \<Rightarrow> IPAddress" where
  "demo_router_ip i mac = new_ip_address i 0 \<lparr>ip_network_id = 9, ip_host_id = 1, ip_subnet_id = 3,
     ip_address = V4 0x0A000001, ip_mac_address = mac, ip_name = None, ip_position = 0\<rparr>"

theorem shared_addresses_match_no_router_witness:
  "select_matching_host [demo_router_ip 1 (Some 0x00005e000101)]
     [(70, [demo_router_ip 2 (Some 0x001122334455)]), (71, [demo_router_ip 3 None])] = Some 71
   \<and> \<not> host_is_physical [demo_router_ip 3 None]"
proof -
  have sel: "select_matching_host [demo_router_ip 1 (Some 0x00005e000101)]
     [(70, [demo_router_ip 2 (Some 0x001122334455)]), (71, [demo_router_ip 3 None])] = Some 71" by code_simp
  have "should_skip_for_matching (demo_router_ip 1 (Some 0x00005e000101))" by code_simp
  then show ?thesis using shared_addresses_match_no_router [OF sel] sel by auto
qed

section \<open>Topology: from the inventory to the graphs of the views\<close>

text \<open>
  A small network for the concrete instances: two switches joined by ports 11 and 21, with a
  third port that leads nowhere, a hypervisor on the first switch that runs the second, one
  service and one address. The name-based ids of the instances are readable stand-ins.
\<close>

definition demo_topo_env :: topo_env where
  "demo_topo_env =
     \<lparr>new_v5 = (\<lambda>_ s. foldl (\<lambda>n c. 2 * n + of_char c) 1000 s), namespace_oid = 0,
      uuid_text = (\<lambda>u. [char_of (uint u)]), uuid_bytes = (\<lambda>u. [char_of (uint u)]), topo_ip_text = (\<lambda>_. ''ip''),
      topo_cidr_text = (\<lambda>_. ''cidr''), icon_text = (\<lambda>_. ''icon''), definition_category = (\<lambda>_. Development)\<rparr>"

definition demo_neighbor_port :: "uuid \<Rightarrow> uuid \<Rightarrow> Neighbor option \<Rightarrow> Interface" where
  "demo_neighbor_port host i n = map_base (\<lambda>b. b\<lparr>neighbor := n\<rparr>) (demo_port host i ''eth'' None None)"

definition demo_options :: TopologyRequestOptions where
  "demo_options = (default_request_options (\<lambda>k. 500 + of_nat k))\<lparr>req_element_rules :=
     [\<lparr>rule_id = 600, rule = ByHypervisor\<rparr>, \<lparr>rule_id = 601, rule = ByPortOpStatus\<rparr>]\<rparr>"

definition demo_guest :: Host where
  "demo_guest = (demo_switch 2 ''B'')\<lparr>host_base := (host_base (demo_switch 2 ''B''))\<lparr>host_virtualization_service_id := Some 31\<rparr>\<rparr>"

definition demo_workload :: "uuid \<Rightarrow> string \<Rightarrow> Service" where
  "demo_workload i d = new_service i 0
     (svc_default_base\<lparr>svc_host_id := 1, svc_network_id := 9, svc_definition := d, svc_name := ''ci'',
        svc_bindings := [demo_port_binding 90 91 None]\<rparr>)"

definition demo_loaded :: TopologyData where
  "demo_loaded =
     \<lparr>td_hosts = [demo_switch 1 ''A'', demo_guest],
      td_ip_addresses = [demo_ip 60 (V4 0xC0A80105)\<lparr>ip_base := (ip_base (demo_ip 60 (V4 0xC0A80105)))\<lparr>ip_host_id := 1\<rparr>\<rparr>],
      td_subnets = [demo_subnet], td_dependencies = [], td_ports = [], td_bindings = [],
      td_interfaces = [demo_neighbor_port 1 11 (Some (NeighborInterface 21)), demo_neighbor_port 2 21 None,
        demo_neighbor_port 2 22 None],
      td_services = [demo_workload 31 ''Proxmox VE'', demo_workload 32 ''Jenkins''],
      td_vlans = [], td_tags = [], td_available_views = []\<rparr>"

abbreviation demo_render :: "TopologyData \<times> (TopologyView \<times> (Node list \<times> Edge list) option) list" where
  "demo_render \<equiv> get_topology_render_data demo_topo_env (\<lambda>_. ''Development'') [] demo_options demo_loaded"

text \<open>
  C22: The physical view of a rendered topology shows each link between two ports once, and shows
  no other. Ports that the server-side filter hides as unlinked take no link with them: unless the
  options hide linked ports, the pair of two ports of drawn types has one edge exactly when one of
  them reports the other and they sit on different devices.
\<close>

theorem rendered_links_complete:
  assumes "hides_no_link options" and "distinct (map if_id (td_interfaces loaded))"
    and "\<forall>i \<in> set (td_interfaces loaded). if_id i \<in> {a, b} \<longrightarrow> if_type (if_base i) \<notin> set EXCLUDED_IF_TYPES"
  shows "\<exists>g. map_of (snd (get_topology_render_data env category_id tag_table options loaded)) L2Physical = Some (Some g)
    \<and> length (filter (\<lambda>e. link_ports (edge_type e) = Some (host_pair_key a b)) (snd g))
      = (if ports_linked (topology_context loaded options L2Physical) a b then 1 else 0)"
proof -
  obtain g where "build_graph env (fst (get_topology_render_data env category_id tag_table options loaded)) options L2Physical = Some g"
    by (auto simp: build_graph_def split: prod.split)
  with rendered_links [OF assms(1,2) _ this, of a b] assms(3) show ?thesis by (simp add: rendered_graph)
qed

theorem rendered_links_complete_witness:
  "\<exists>g. map_of (snd demo_render) L2Physical = Some (Some g)
    \<and> length (filter (\<lambda>e. link_ports (edge_type e) = Some (host_pair_key 11 21)) (snd g)) = 1"
proof -
  have "hides_no_link demo_options" "distinct (map if_id (td_interfaces demo_loaded))" by code_simp+
  moreover have "\<forall>i \<in> set (td_interfaces demo_loaded). if_id i \<in> {11, 21} \<longrightarrow> if_type (if_base i) \<notin> set EXCLUDED_IF_TYPES"
    by code_simp
  moreover have "ports_linked (topology_context demo_loaded demo_options L2Physical) 11 21" by code_simp
  ultimately show ?thesis
    using rendered_links_complete [of demo_options demo_loaded 11 21 demo_topo_env "\<lambda>_. ''Development''" "[]"] by simp
qed

text \<open>
  C23: The graphs of the logical, application and physical views are well formed. Every element sits
  in a container of its graph, every nested container nests in one, and both ends of every edge are
  nodes of the graph, whatever grouping rules apply. The physical view needs the device of every
  interface among the hosts.
\<close>

theorem rendered_graphs_well_formed:
  assumes "map_of (snd (get_topology_render_data env category_id tag_table options loaded)) view = Some (Some g)"
    and "view \<noteq> Workloads"
    and "view = L2Physical \<longrightarrow> hosts_known (topology_context loaded options L2Physical)"
  shows "graph_ok g"
proof -
  have "build_graph env (fst (get_topology_render_data env category_id tag_table options loaded)) options view = Some g"
    using assms(1) by (simp add: rendered_graph)
  then show ?thesis by (rule built_graph_ok [OF _ assms(2)]) (use assms(3) rendered_hosts_known in blast)
qed

theorem rendered_graphs_well_formed_witness:
  "\<exists>g. map_of (snd demo_render) L2Physical = Some (Some g) \<and> graph_ok g"
proof -
  obtain g where g: "map_of (snd demo_render) L2Physical = Some (Some g)"
    by (auto simp: rendered_graph build_graph_def split: prod.split)
  moreover have "hosts_known (topology_context demo_loaded demo_options L2Physical)" by code_simp
  ultimately have "graph_ok g" by (intro rendered_graphs_well_formed [OF g]) simp_all
  with g show ?thesis by blast
qed

text \<open>
  C24: Rendering returns a graph for every view. The walks of the workloads view up the nesting of
  containers end, because a container made by a grouping rule nests directly in one that no rule
  made; the name-based id of a group is assumed not to be the container of an element before the
  rules ran.
\<close>

theorem rendering_ends:
  assumes "groups_apart env
    (topology_context (fst (get_topology_render_data env category_id tag_table options loaded)) options Workloads)
    (from_request_options options Workloads)"
  shows "\<exists>g. map_of (snd (get_topology_render_data env category_id tag_table options loaded)) view = Some (Some g)"
  using graphs_end [OF assms, of view] by (auto simp: rendered_graph)

lemma demo_groups_apart:
  "groups_apart demo_topo_env (topology_context (fst demo_render) demo_options Workloads) (from_request_options demo_options Workloads)"
  by code_simp

theorem rendering_ends_witness: "\<exists>g. map_of (snd demo_render) Workloads = Some (Some g)"
  by (rule rendering_ends [OF demo_groups_apart])

text \<open>
  The workloads view keeps the box of a host exactly when an element it draws sits in the box,
  directly or in a group inside it; the ids of the nodes are assumed to differ.
\<close>

theorem workload_boxes_occupied:
  assumes "wl_build env ctx grouping = Some (nodes, edges)"
    and "distinct (map node_id (fst (wl_rules env ctx grouping)))"
    and "b \<in> set (wl_nodes env ctx grouping)" and "node_type b = ContainerNode c" and "cn_type c = HostCont"
  shows "b \<in> set nodes \<longleftrightarrow> (\<exists>n \<in> set nodes. sits_in (wl_nodes env ctx grouping) n (node_id b))"
  using assms by (rule wl_boxes)

definition demo_workloads :: "TopologyContext" where
  "demo_workloads = topology_context demo_loaded demo_options Workloads"

definition demo_grouping :: GroupingConfig where
  "demo_grouping = from_request_options demo_options Workloads"

theorem workload_boxes_occupied_witness:
  "\<exists>nodes edges. wl_build demo_topo_env demo_workloads demo_grouping = Some (nodes, edges)
    \<and> (\<forall>b \<in> set (wl_host_containers demo_topo_env demo_workloads).
         b \<in> set nodes \<longleftrightarrow> (\<exists>n \<in> set nodes. sits_in (wl_nodes demo_topo_env demo_workloads demo_grouping) n (node_id b)))"
proof -
  have "groups_apart demo_topo_env demo_workloads demo_grouping" by code_simp
  then obtain nodes edges where g: "wl_build demo_topo_env demo_workloads demo_grouping = Some (nodes, edges)"
    using wl_build_ends by fastforce
  have ids: "distinct (map node_id (fst (wl_rules demo_topo_env demo_workloads demo_grouping)))" by code_simp
  have "\<forall>b \<in> set (wl_host_containers demo_topo_env demo_workloads). b \<in> set (wl_nodes demo_topo_env demo_workloads demo_grouping)
      \<and> (case node_type b of ContainerNode c \<Rightarrow> cn_type c = HostCont | _ \<Rightarrow> False)" by code_simp
  then show ?thesis
    using workload_boxes_occupied [OF g ids] g by (intro exI conjI ballI) (fastforce split: NodeType.splits)+
qed

text \<open>
  C25: The element rules place every element by the first rule of the list that has a group for it,
  and leave the others where they were, adding and dropping no element. Ids of elements are assumed
  distinct, and no element to be the virtualizer of another.
\<close>

theorem first_matching_rule_places:
  assumes "distinct (element_ids nodes)"
    and "virtualizers_apart (elements_by_container nodes) (match_data_of resolve nodes) ictx"
  shows "elements_of (fst (apply_element_rules env nodes rules resolve titles ictx)) =
    map (\<lambda>n. case node_type n of
        ElementNode e \<Rightarrow> n\<lparr>node_type := ElementNode (e\<lparr>en_container_id :=
          (case Option.bind (resolve n) (first_group env ictx rules (en_container_id e)) of
             Some g \<Rightarrow> g | None \<Rightarrow> en_container_id e)\<rparr>)\<rparr>
      | ContainerNode _ \<Rightarrow> n)
      (elements_of nodes)"
  using apply_element_rules_elements [OF assms, of env rules titles] by (simp add: final_container_def cong: NodeType.case_cong)

definition demo_tagged_element :: "Node \<Rightarrow> ElementMatchData option" where
  "demo_tagged_element n = Some \<lparr>md_categories = {}, md_tag_ids = (if node_id n = 1 then {70} else {}), md_entity = EntService,
     md_virtualizer = None, md_deployment_group = None, md_native_vlan_id = None, md_vlan_number = None,
     md_vlan_name = None, md_is_trunk_port = False, md_oper_status = None\<rparr>"

definition demo_elements :: "Node list" where
  "demo_elements = [node_element 1 9 5 ServiceElement, node_element 2 9 5 ServiceElement]"

definition demo_tag_rule :: "ElementRule IdentifiedRule list" where
  "demo_tag_rule = [\<lparr>rule_id = 40, rule = ByTag [70] None\<rparr>]"

theorem first_matching_rule_places_witness:
  "map (\<lambda>n. container_of n = Some 9)
     (elements_of (fst (apply_element_rules demo_topo_env demo_elements demo_tag_rule demo_tagged_element None None))) = [False, True]"
proof -
  have "virtualizers_apart (elements_by_container demo_elements) (match_data_of demo_tagged_element demo_elements) None"
    by (rule virtualizers_apart_none) (auto simp: demo_tagged_element_def)
  moreover have "distinct (element_ids demo_elements)" by code_simp
  moreover have "first_group demo_topo_env None demo_tag_rule 9 (the (demo_tagged_element (demo_elements ! 0))) \<notin> {None, Some 9}"
    "first_group demo_topo_env None demo_tag_rule 9 (the (demo_tagged_element (demo_elements ! 1))) = None" by code_simp+
  ultimately show ?thesis
    using first_matching_rule_places [of demo_elements demo_tagged_element None demo_topo_env demo_tag_rule None]
    by (auto simp: demo_elements_def node_element_def container_of_def demo_tagged_element_def split: option.splits)
qed

text \<open>
  The logical view draws every address of a known host once, except on subnets that the topology
  leaves out: in its subnet, or with merged container bridges in the first bridge of its host and
  kind, and there in the first group that a rule has for it. It draws nothing else.
\<close>

theorem logical_view_draws_addresses_once:
  assumes "distinct (map ip_id (tc_ip_addresses ctx))"
  shows "mset (elements_of (fst (l3_build env ctx grouping))) =
      mset (List.map_filter (drawn_address env ctx grouping) (tc_ip_addresses ctx))
    \<and> (\<forall>a \<in> set (tc_ip_addresses ctx). drawn_address env ctx grouping a \<noteq> None \<longleftrightarrow>
         get_host_by_id ctx (ip_host_id (ip_base a)) \<noteq> None \<and> \<not> exclude_from_topology (address_subnet_type ctx a))"
  using l3_drawn_once [OF assms] l3_home_drawn [of _ ctx grouping] by (simp add: drawn_address_def)

theorem logical_view_draws_addresses_once_witness:
  "size (mset (elements_of (fst (l3_build demo_topo_env (topology_context demo_loaded demo_options L3Logical)
     (from_request_options demo_options L3Logical))))) = 1"
proof -
  let ?ctx = "topology_context demo_loaded demo_options L3Logical" and ?g = "from_request_options demo_options L3Logical"
  have "distinct (map ip_id (tc_ip_addresses ?ctx))" by code_simp
  moreover have "length (List.map_filter (drawn_address demo_topo_env ?ctx ?g) (tc_ip_addresses ?ctx)) = 1" by code_simp
  ultimately show ?thesis using logical_view_draws_addresses_once [of ?ctx demo_topo_env ?g] by simp
qed

text \<open>
  The application view draws every eligible service once, in the container of its application
  tag or among the ungrouped ones, and there in the first group that a rule has for it.
\<close>

theorem application_view_draws_services_once:
  assumes "distinct (map svc_id (tc_services ctx))"
  shows "mset (elements_of (fst (app_build env ctx grouping))) =
    mset (map (drawn_service env ctx grouping) (eligible_services env ctx))"
  using assms by (rule app_drawn_once)

theorem application_view_draws_services_once_witness:
  "size (mset (elements_of (fst (app_build demo_topo_env (topology_context demo_loaded demo_options ApplicationView)
     (from_request_options demo_options ApplicationView))))) = 2"
proof -
  let ?ctx = "topology_context demo_loaded demo_options ApplicationView"
  have "distinct (map svc_id (tc_services ?ctx))" by code_simp
  moreover have "length (eligible_services demo_topo_env ?ctx) = 2" by code_simp
  ultimately show ?thesis using application_view_draws_services_once [of ?ctx demo_topo_env] by simp
qed

text \<open>
  Filling in the default hidden values keeps every opinion that was saved, also an empty one,
  fills in the default where there was none, and changes nothing when done again.
\<close>

theorem saved_opinions_survive:
  "opinion (hide_metadata_values (merge_missing_hide_defaults options)) view e f =
      (case opinion (hide_metadata_values options) view e f of
         Some vs \<Rightarrow> Some vs | None \<Rightarrow> opinion default_hide_metadata_values view e f)
    \<and> opinion (hide_metadata_values (merge_missing_hide_defaults (merge_missing_hide_defaults options))) view e f =
      opinion (hide_metadata_values (merge_missing_hide_defaults options)) view e f"
  by (simp add: merged_opinion split: option.split)

section \<open>SNMP: walks, tables and what they may overwrite\<close>

text \<open>
  Three interfaces of a switch, served in an order that is not the numeric one, and a row of another
  column behind them.
\<close>

definition demo_if_rows :: varbinds where
  "demo_if_rows = map (\<lambda>i. (base_parts IF_INDEX @ [i], Integer (uint i))) [3, 1, 2]"

definition demo_if_rest :: varbinds where
  "demo_if_rest = [(base_parts IF_DESCR @ [1], OctetString [])]"

definition demo_agent :: "nat transport" where
  "demo_agent = session_transport (mib_session ([] @ demo_if_rows @ demo_if_rest) False)"

text \<open>An agent that implements none of the tables and says so by what comes behind them.\<close>

definition demo_bare_session :: "nat snmp_session" where
  "demo_bare_session = mib_session ([] @ [] @ [([9], Null)]) True"

definition demo_snmp_env :: "nat snmp_env" where
  "demo_snmp_env =
     \<lparr>env_codec = demo_codec, env_deadline = (\<lambda>name s. if name = ''lldp'' then None else Some s),
      env_cancelled = False, env_fresh = (\<lambda>i. word_of_int i), env_now = 0, env_upsert_vlans = (\<lambda>_ _. None),
      env_iter_lldp = id, env_iter_cdp = id, env_iter_arp = id, env_iter_entity = id, env_iter_fdb = id,
      env_iter_ports = id\<rparr>"

definition demo_egress :: varbinds where
  "demo_egress = [(base_parts DOT1Q_VLAN_CURRENT_EGRESS_PORTS @ [0, 10], OctetString [0xC0])]"

definition demo_untagged :: varbinds where
  "demo_untagged = [(base_parts DOT1Q_VLAN_CURRENT_UNTAGGED_PORTS @ [0, 10], OctetString [0x80])]"

definition demo_pvid :: varbinds where
  "demo_pvid = [(base_parts DOT1Q_PVID @ [1], Integer 10)]"

definition demo_vlan_agent :: "nat transport" where
  "demo_vlan_agent = session_transport (mib_session (demo_egress @ demo_untagged @ demo_pvid) True)"

definition demo_bridge_ports :: "(int \<times> int) list SnmpCollection" where
  "demo_bridge_ports = collection_skipped [(1, 101), (2, 102)]"

text \<open>
  C26: a walk of an SNMP column ends for every agent, whatever it answers: repeated pages, rows in any
  order, answers that belong to other requests, refusals or errors. It sends at most 10003 requests,
  one for each of the rows it may take, two repeated ones and one for the change from \<open>getbulk\<close> to
  \<open>getnext\<close>, and delivers at most 10000 rows.
\<close>

theorem walk_requests_bounded:
  "case walk_subtree (logged tr) base_oid_str (s, []) of (entries, stop, _, log) \<Rightarrow>
     length log \<le> 10003 \<and> length entries \<le> 10000"
proof -
  let ?b = "base_parts base_oid_str"
  let ?r = "walk_loop (logged tr) ?b (start_walk ?b (s, []))"
  have "length (log_of (fst ?r)) \<le> 10003"
    using walk_requests [of tr ?b "start_walk ?b (s, [])"]
    by (simp add: log_of_def start_walk_def budget_def MAX_WALK_ENTRIES_def MAX_DESYNC_RETRIES_def)
  moreover have "length (delivered (wk_coll (fst ?r))) \<le> 10000"
    using walk_collected_ok [of ?b "logged tr" "(s, [])"] by (simp add: collected_ok_def MAX_WALK_ENTRIES_def)
  ultimately show ?thesis by (simp add: walk_subtree_loop Let_def log_of_def case_prod_beta)
qed

text \<open>
  C27: a walk hands on what the agent said and nothing else: every row it delivers is a varbind of one
  of the answers, with the value it had there and an identifier below the root of the column, and no
  identifier is delivered twice, even when a page is asked for again.
\<close>

theorem walk_rows_are_answers:
  "case walk_subtree (logged tr) base_oid_str (s, []) of (entries, stop, _, log) \<Rightarrow>
     (\<lambda>(suffix, v). (base_parts base_oid_str @ suffix, v)) ` set entries \<subseteq> set (concat log)
     \<and> distinct (map fst entries) \<and> [] \<notin> fst ` set entries"
proof -
  let ?b = "base_parts base_oid_str"
  let ?r = "walk_loop (logged tr) ?b (start_walk ?b (s, []))"
  have "(\<lambda>(suffix, v). (?b @ suffix, v)) ` set (delivered (wk_coll (fst ?r))) \<subseteq> set (concat (log_of (fst ?r)))"
    using walk_answered_loop [of ?b tr s] by (auto simp: rows_answered_def)
  moreover have "distinct (map fst (delivered (wk_coll (fst ?r)))) \<and> [] \<notin> fst ` set (delivered (wk_coll (fst ?r)))"
    using walk_collected_ok [of ?b "logged tr" "(s, [])"] by (simp add: collected_ok_def)
  ultimately show ?thesis by (simp add: walk_subtree_loop Let_def log_of_def case_prod_beta)
qed

text \<open>
  C28: from an agent that serves a column of fewer than 10000 rows (the cap of a walk) in some fixed
  order of its own, not necessarily the numeric one, the walk obtains exactly the rows of the column, in
  that order, and ends as a complete one. This holds with \<open>getbulk\<close> and, for an agent that refuses it,
  with \<open>getnext\<close>, and also when up to two requests read an answer to an earlier one.
\<close>

theorem walk_reads_whole_table:
  assumes "holds_column (base_parts base_oid_str) front table rest"
    and "length table < MAX_WALK_ENTRIES" "stale \<le> MAX_DESYNC_RETRIES"
  shows "walk_subtree (session_transport (mib_session (front @ table @ rest) bulk)) base_oid_str stale
    = (map (\<lambda>r. (drop (length (base_parts base_oid_str)) (fst r), snd r)) table,
       if rest = [] then EndOfMib else EndOfSubtree, 0)"
  using assms by (rule mib_walk)

lemma demo_column: "holds_column (base_parts IF_INDEX) [] demo_if_rows demo_if_rest"
  by code_simp

lemma demo_small: "length demo_if_rows < MAX_WALK_ENTRIES" "(2 :: nat) \<le> MAX_DESYNC_RETRIES"
  by (simp_all add: demo_if_rows_def MAX_WALK_ENTRIES_def MAX_DESYNC_RETRIES_def)

theorem walk_reads_whole_table_witness:
  "walk_subtree demo_agent IF_INDEX 2 = ([([3], Integer 3), ([1], Integer 1), ([2], Integer 2)], EndOfSubtree, 0)"
proof -
  have "map (\<lambda>r. (drop (length (base_parts IF_INDEX)) (fst r), snd r)) demo_if_rows
      = [([3], Integer 3), ([1], Integer 1), ([2], Integer 2)]"
    by (simp add: demo_if_rows_def)
  moreover have "demo_if_rest \<noteq> []" by (simp add: demo_if_rest_def)
  ultimately show ?thesis
    using walk_reads_whole_table [OF demo_column demo_small, of False] by (simp add: demo_agent_def)
qed

text \<open>
  C29: where the index column of the interface table lists any interface, the interfaces of a walk are
  exactly the listed ones, each once and in order of their numbers, whatever the attribute columns
  answer; and the walk claims to have the whole set, which lets the server prune, only if the index
  column was read to its end.
\<close>

theorem interfaces_are_the_listed_ones:
  assumes "walk_subtree tr IF_INDEX s = (index_rows, stop, s1)" "listed index_rows \<noteq> {}"
    and "walk_if_table tr s = (W, s2)"
  shows "map ite_if_index (itw_entries W) = sorted_list_of_set (listed index_rows)
    \<and> (set_complete W \<longrightarrow> is_complete stop)"
proof -
  note facts = walk_if_table_set [OF assms(1,3)]
  then have "map ite_if_index (itw_entries W) = sorted_list_of_set (set (map ite_if_index (itw_entries W)))"
    by (intro sorted_distinct_set_unique) simp_all
  then show ?thesis using facts(3) [OF assms(2)] facts(4) by metis
qed

theorem interfaces_are_the_listed_ones_witness:
  "map ite_if_index (itw_entries (fst (walk_if_table demo_agent 2))) = [1, 2, 3]"
proof -
  have rows: "walk_subtree demo_agent IF_INDEX 2
      = (map (\<lambda>r. (drop (length (base_parts IF_INDEX)) (fst r), snd r)) demo_if_rows,
         if demo_if_rest = [] then EndOfMib else EndOfSubtree, 0)"
    unfolding demo_agent_def by (rule mib_walk [OF demo_column demo_small])
  have l: "listed (map (\<lambda>r. (drop (length (base_parts IF_INDEX)) (fst r), snd r)) demo_if_rows) = {1, 2, 3}"
    by (auto simp: listed_def demo_if_rows_def sub_id_i32_def wrap_i32_def)
  have "sorted_list_of_set {1, 2, 3 :: int} = [1, 2, 3]" by simp
  then show ?thesis
    using interfaces_are_the_listed_ones [OF rows _ surjective_pairing, unfolded l] by simp
qed

text \<open>
  The same walk on a device whose index column ends without a row: the attribute columns then mint the
  set, and the walk calls it complete even where one of them was cut short.
\<close>

theorem empty_index_column_claims_the_set:
  assumes "walk_subtree tr IF_INDEX s = ([], stop, s1)" "walk_if_table tr s = (W, s2)"
  shows "set_complete W \<longleftrightarrow> is_complete stop"
  using walk_if_table_no_index [OF assms] by (simp add: listed_def)

text \<open>
  C30: what a query of the LLDP neighbours says about itself: every neighbour it returns has its chassis
  id with its subtype; it is complete exactly when all seven columns were read to their ends and nothing
  was discarded; it calls the table unsupported exactly when every column answered that there is no such
  object and there is no neighbour; and it gives a reason for discarding exactly when it discarded.
\<close>

theorem lldp_query_reports_itself:
  "case query_lldp_neighbors iter tr s of (c, _) \<Rightarrow>
     set (sc_records c) \<subseteq> Collect has_chassis
     \<and> (sc_complete c \<longleftrightarrow> list_all is_complete (column_stops tr lldp_columns s) \<and> sc_discarded c = 0)
     \<and> (sc_unsupported c \<longleftrightarrow> list_all is_unsupported (column_stops tr lldp_columns s) \<and> sc_records c = [])
     \<and> (sc_discard_reason c = None \<longleftrightarrow> sc_discarded c = 0)"
proof -
  obtain c s' where q: "query_lldp_neighbors iter tr s = (c, s')" by fastforce
  then show ?thesis using query_lldp_facts [OF q] by auto
qed

text \<open>
  C31: the number of neighbours that the collection reports as dropped is the number of neighbours that
  end up on no interface: the interfaces get exactly the neighbours that are the first on their port,
  where the port is an interface, and every other neighbour is counted.
\<close>

theorem dropped_neighbours_are_lost:
  "case remap_lldp_local_ports neighbors loc_ports if_entries of (ns, out) \<Rightarrow>
     dropped out = card {i. i < length ns \<and> \<not> attached ns if_entries i}
     \<and> {n. \<exists>e. e \<in> set if_entries \<and> lldp_neighbor_of ns e = Some n}
       = (\<lambda>i. ns ! i) ` {i. i < length ns \<and> attached ns if_entries i}
     \<and> length ns = length neighbors"
proof -
  obtain ns out where r: "remap_lldp_local_ports neighbors loc_ports if_entries = (ns, out)" by fastforce
  have "length (fst (place_neighbors loc_ports if_entries macs neighbors)) = length neighbors" for macs
    by (induction neighbors) (auto split: prod.splits option.splits)
  then have "dropped out = count_dropped_neighbours ns if_entries" "length ns = length neighbors"
    using r by (auto simp: remap_lldp_local_ports_def Let_def split: prod.splits if_splits) (metis fst_conv)
  moreover have "{n. \<exists>e. e \<in> set if_entries \<and> lldp_neighbor_of ns e = Some n}
      = (\<lambda>i. ns ! i) ` {i. i < length ns \<and> attached ns if_entries i}"
    using attached_finds [of _ ns if_entries] found_attached [of _ if_entries ns] by fastforce
  ultimately show ?thesis by (simp add: r dropped_are_unattached)
qed

text \<open>
  C32: the VLANs that the collection reports as tagged on a port are those whose egress port list has the
  bit of the port set and whose untagged port list has not, where bit k of octet j of a port list, counted
  from the most significant bit, is port 8 j + k + 1; a port is reported under the interface that its
  bridge port number is mapped to, and every mapped port with such a VLAN is reported. For port lists of
  at most 65535 octets, the length of an SNMP string.
\<close>

theorem tagged_vlans_exact:
  assumes "sc_records bridge_ports \<noteq> []" "set (iter (sc_records bridge_ports)) = set (sc_records bridge_ports)"
    and "walk_subtree tr DOT1Q_PVID s = (pvid, stop1, s1)"
    and "walk_subtree tr DOT1Q_VLAN_CURRENT_EGRESS_PORTS s1 = (egress, stop2, s2)"
    and "walk_subtree tr DOT1Q_VLAN_CURRENT_UNTAGGED_PORTS s2 = (untagged, stop3, s3)"
    and "short_octets egress" "short_octets untagged"
  shows "(\<forall>m \<in> set (sc_records (fst (query_port_vlan_membership iter bridge_ports tr s))).
      \<exists>bp. (bp, pvm_if_index m) \<in> set (sc_records bridge_ports)
        \<and> set (pvm_tagged_vlans m) = {v. on_port egress bp v \<and> \<not> on_port untagged bp v})
    \<and> (\<forall>(bp, ifx) \<in> set (sc_records bridge_ports).
      (\<exists>v. on_port egress bp v \<and> \<not> on_port untagged bp v) \<longrightarrow>
      (\<exists>m \<in> set (sc_records (fst (query_port_vlan_membership iter bridge_ports tr s))).
         pvm_if_index m = ifx \<and> set (pvm_tagged_vlans m) = {v. on_port egress bp v \<and> \<not> on_port untagged bp v}))"
proof -
  note tagged = port_membership_tagged [OF assms(6,7)] and mem = memberships_of_walks [of bridge_ports iter, OF assms(1-5)]
  have "\<exists>m \<in> set (sc_records (fst (query_port_vlan_membership iter bridge_ports tr s))).
      pvm_if_index m = ifx \<and> set (pvm_tagged_vlans m) = {v. on_port egress bp v \<and> \<not> on_port untagged bp v}"
    if "(bp, ifx) \<in> set (sc_records bridge_ports)" "on_port egress bp v" "\<not> on_port untagged bp v" for bp ifx v
    using tagged(1) tagged(2) [OF that(2,3)] mem that(1) by blast
  moreover have "\<exists>bp. (bp, pvm_if_index m) \<in> set (sc_records bridge_ports)
      \<and> set (pvm_tagged_vlans m) = {v. on_port egress bp v \<and> \<not> on_port untagged bp v}"
    if "m \<in> set (sc_records (fst (query_port_vlan_membership iter bridge_ports tr s)))" for m
    using that mem [of m] tagged(1) by auto
  ultimately show ?thesis by blast
qed

lemma demo_vlan_columns:
  "holds_column (base_parts DOT1Q_PVID) (demo_egress @ demo_untagged) demo_pvid []"
  "holds_column (base_parts DOT1Q_VLAN_CURRENT_EGRESS_PORTS) [] demo_egress (demo_untagged @ demo_pvid)"
  "holds_column (base_parts DOT1Q_VLAN_CURRENT_UNTAGGED_PORTS) demo_egress demo_untagged demo_pvid"
  by code_simp+

lemma demo_vlan_walks:
  "walk_subtree demo_vlan_agent DOT1Q_PVID 0 = ([([1], Integer 10)], EndOfMib, 0)"
  "walk_subtree demo_vlan_agent DOT1Q_VLAN_CURRENT_EGRESS_PORTS 0 = ([([0, 10], OctetString [0xC0])], EndOfSubtree, 0)"
  "walk_subtree demo_vlan_agent DOT1Q_VLAN_CURRENT_UNTAGGED_PORTS 0 = ([([0, 10], OctetString [0x80])], EndOfSubtree, 0)"
  using mib_walk [OF demo_vlan_columns(1), of 0 True] mib_walk [OF demo_vlan_columns(2), of 0 True]
    mib_walk [OF demo_vlan_columns(3), of 0 True]
  by (simp_all add: demo_vlan_agent_def demo_egress_def demo_untagged_def demo_pvid_def MAX_WALK_ENTRIES_def)

lemma demo_memberships:
  "sc_records (fst (query_port_vlan_membership id demo_bridge_ports demo_vlan_agent 0))
     = [\<lparr>pvm_if_index = 101, pvm_native_vlan = Some 10, pvm_tagged_vlans = []\<rparr>,
        \<lparr>pvm_if_index = 102, pvm_native_vlan = None, pvm_tagged_vlans = [10]\<rparr>]"
proof -
  have "List.map_filter (port_membership (fold native_vlan_row [([1], Integer 10)] [])
        (fold portlist_row [([0, 10], OctetString [0xC0])] []) (fold portlist_row [([0, 10], OctetString [0x80])] []))
      [(1, 101), (2, 102)]
    = [\<lparr>pvm_if_index = 101, pvm_native_vlan = Some 10, pvm_tagged_vlans = []\<rparr>,
       \<lparr>pvm_if_index = 102, pvm_native_vlan = None, pvm_tagged_vlans = [10]\<rparr>]"
    by code_simp
  moreover have "sc_records (fst (query_port_vlan_membership id demo_bridge_ports demo_vlan_agent 0))
    = List.map_filter (port_membership (fold native_vlan_row [([1], Integer 10)] [])
        (fold portlist_row [([0, 10], OctetString [0xC0])] []) (fold portlist_row [([0, 10], OctetString [0x80])] []))
      [(1, 101), (2, 102)]"
    by (simp add: query_port_vlan_membership_def demo_bridge_ports_def collection_skipped_def walk_column_def
        demo_vlan_walks from_walk_def Let_def del: map_filter_simps)
  ultimately show ?thesis by (rule trans [rotated])
qed

theorem tagged_vlans_exact_witness:
  "(\<exists>bp. (bp, 102) \<in> {(1, 101), (2, 102 :: int)}
    \<and> {10} = {v. on_port [([0, 10], OctetString [0xC0])] bp v \<and> \<not> on_port [([0, 10], OctetString [0x80])] bp v})
   \<and> on_port [([0, 10], OctetString [0xC0])] 2 10 \<and> \<not> on_port [([0, 10], OctetString [0x80])] 2 10"
proof -
  have m: "\<lparr>pvm_if_index = 102, pvm_native_vlan = None, pvm_tagged_vlans = [10]\<rparr>
      \<in> set (sc_records (fst (query_port_vlan_membership id demo_bridge_ports demo_vlan_agent 0)))"
    by (simp add: demo_memberships)
  have short: "short_octets [([0, 10], OctetString [0xC0])]" "short_octets [([0, 10], OctetString [0x80])]"
    by (auto simp: short_octets_def)
  have "\<exists>bp. (bp, 102) \<in> {(1, 101), (2, 102 :: int)}
    \<and> {10} = {v. on_port [([0, 10], OctetString [0xC0])] bp v \<and> \<not> on_port [([0, 10], OctetString [0x80])] bp v}"
    using bspec [OF conjunct1 [OF tagged_vlans_exact [OF _ _ demo_vlan_walks short]] m]
    by (simp add: demo_bridge_ports_def collection_skipped_def)
  moreover have "on_port [([0, 10], OctetString [0xC0])] 2 10"
    unfolding on_port_def
    by (intro exI [of _ "[0, 10]"] exI [of _ "[0xC0]"]) (auto intro!: exI [of _ "1 :: nat"] simp: bit_iff_odd_drop_bit)
  moreover have "\<not> on_port [([0, 10], OctetString [0x80])] 2 10"
    by (auto simp: on_port_def bit_iff_odd_drop_bit)
  ultimately show ?thesis by blast
qed

text \<open>
  C33: the LLDP data of the final report of a collection comes from one query, which runs on the session
  in the state that the walk of the interface table leaves; and the report lets the server overwrite the
  LLDP data it holds exactly if that query ran to its end within its deadline, every column of it was read
  to the end, nothing was discarded, and the device has the table: some column answered otherwise than
  that there is no such object, or there are neighbours. The report committed before the neighbour queries
  overwrites no neighbour, forwarding or VLAN data at all.
\<close>

theorem lldp_overwrites_only_what_was_read:
  assumes "snmp_collect env S ip network s = (Ok c, s')"
    and "if_table_of env S s = (w, t)"
    and "query_or_default env ''lldp'' (collection_default [])
           (query_lldp_neighbors (env_iter_lldp env) (session_transport S)) t = (q, t')"
  shows "(\<exists>loc cdps fdb vlans numbers. rep_interfaces (cl_final c) =
        map (\<lambda>e. convert_snmp_if_entry (env_codec env) (env_fresh env (ite_if_index e)) (env_now env) e network
          (fst (remap_lldp_local_ports (sc_records q) loc (itw_entries w))) cdps fdb vlans numbers) (itw_entries w))
    \<and> (dc_lldp (rep_data_complete (cl_final c)) \<longleftrightarrow>
        env_deadline env ''lldp'' t = None
        \<and> list_all is_complete (column_stops (session_transport S) lldp_columns t) \<and> sc_discarded q = 0
        \<and> (sc_records q \<noteq> [] \<or> \<not> list_all is_unsupported (column_stops (session_transport S) lldp_columns t)))
    \<and> rep_data_complete (cl_checkpoint c) = data_complete_none"
proof -
  obtain n lldps ports r where n: "n = fst (read_neighbors env (session_transport S) t)"
    and lldps: "remap_lldp_local_ports (sc_records (nr_lldp n)) (sc_records (nr_local_ports n)) (itw_entries w) = (lldps, ports)"
    and final: "cl_final c = final_report env network w n lldps r" "cl_checkpoint c = checkpoint_report env network w"
    using collect_parts [OF assms(1)] unfolding assms(2) fst_conv snd_conv by metis
  have q: "nr_lldp n = q" using read_neighbors_queries(1) [of env "session_transport S" t] n assms(3) by simp
  have from_q: "lldps = fst (remap_lldp_local_ports (sc_records q) (sc_records (nr_local_ports n)) (itw_entries w))"
    using lldps q by simp
  have "\<exists>loc cdps fdb vlans numbers. rep_interfaces (cl_final c) =
      map (\<lambda>e. convert_snmp_if_entry (env_codec env) (env_fresh env (ite_if_index e)) (env_now env) e network
        (fst (remap_lldp_local_ports (sc_records q) loc (itw_entries w))) cdps fdb vlans numbers) (itw_entries w)"
    unfolding final(1) final_report_def from_q interface_report.simps by blast
  moreover have "dc_lldp (rep_data_complete (cl_final c)) \<longleftrightarrow> sc_complete q \<and> \<not> sc_unsupported q"
    by (simp add: final(1) final_report_def q)
  moreover have "rep_data_complete (cl_checkpoint c) = data_complete_none"
    by (simp add: final(2) checkpoint_report_def)
  ultimately show ?thesis unfolding lldp_authority [OF assms(3)] by blast
qed

lemma demo_bare_walk:
  assumes "holds_column (base_parts b) [] [] [([9], Null)]"
  shows "walk_subtree (session_transport demo_bare_session) b 0 = ([], EndOfSubtree, 0)"
  using mib_walk [OF assms, of 0 True] by (simp add: demo_bare_session_def MAX_WALK_ENTRIES_def)

lemma demo_bare_columns:
  "list_all (\<lambda>b. holds_column (base_parts b) [] [] [([9], Null)])
     (LLDP_REM_MAN_ADDR_IF_SUBTYPE # map fst lldp_columns)"
  by code_simp

lemma demo_lldp_query:
  "query_lldp_neighbors id (session_transport demo_bare_session) 0
     = (\<lparr>sc_records = [], sc_complete = True, sc_unsupported = False, sc_reason = None, sc_discarded = 0,
         sc_discard_reason = None\<rparr>, 0)"
  using demo_bare_columns
  by (simp add: query_lldp_neighbors_def lldp_columns_def walk_column_def demo_bare_walk lldp_column_def lldp_start_def
      record_stop_def is_complete_def is_truncation_def is_unsupported_def lldp_result_def dominant_discard_reason_def
      shortfall_default_def Let_def)

lemma demo_collect:
  "\<exists>c s'. snmp_collect demo_snmp_env demo_bare_session (V4 1) 8 0 = (Ok c, s') \<and> dc_lldp (rep_data_complete (cl_final c))"
  by (simp add: snmp_collect_def query_or_default_def demo_snmp_env_def read_neighbors_def demo_lldp_query
      remap_lldp_local_ports_def read_tables_def final_report_def collection_skipped_def Let_def)

theorem lldp_overwrites_only_what_was_read_witness:
  "\<exists>w t q t'. if_table_of demo_snmp_env demo_bare_session 0 = (w, t)
     \<and> query_or_default demo_snmp_env ''lldp'' (collection_default [])
         (query_lldp_neighbors (env_iter_lldp demo_snmp_env) (session_transport demo_bare_session)) t = (q, t')
     \<and> env_deadline demo_snmp_env ''lldp'' t = None
     \<and> list_all is_complete (column_stops (session_transport demo_bare_session) lldp_columns t) \<and> sc_discarded q = 0"
proof -
  obtain c s' where c: "snmp_collect demo_snmp_env demo_bare_session (V4 1) 8 0 = (Ok c, s')"
    "dc_lldp (rep_data_complete (cl_final c))" using demo_collect by blast
  obtain w t where t: "if_table_of demo_snmp_env demo_bare_session 0 = (w, t)" by fastforce
  obtain q t' where q: "query_or_default demo_snmp_env ''lldp'' (collection_default [])
      (query_lldp_neighbors (env_iter_lldp demo_snmp_env) (session_transport demo_bare_session)) t = (q, t')" by fastforce
  show ?thesis using lldp_overwrites_only_what_was_read [OF c(1) t q] c(2) t q by blast
qed

text \<open>
  The CDP data is not protected in this way: a device without the CDP table answers every column at
  once, the query is complete, and the report lets the server clear what it holds.
\<close>

theorem cdp_unsupported_overwrites:
  assumes "snmp_collect env S ip network s = (Ok c, s')"
  shows "\<exists>q t. q = fst (query_or_default env ''cdp'' (collection_default [])
      (query_cdp_neighbors (env_iter_cdp env) (session_transport S)) t)
    \<and> dc_cdp (rep_data_complete (cl_final c)) = sc_complete q"
  using assms by (rule collect_cdp)

section \<open>Authentication and authorization\<close>

text \<open>A small organization with one network, for the concrete instances below. Keys hash to their text with
  a mark in front, every daemon header reads as the daemon 5, and the cache serves what is fresh enough.\<close>

definition demo_versions :: "nat semver" where
  "demo_versions = \<lparr>new_version = (\<lambda>a b c. a * 1000000 + b * 1000 + c), parse_version = (\<lambda>s. Some (length s * 1000)),
     own_version = 17007\<rparr>"

definition demo_auth_env :: "(nat, unit) auth_env" where
  "demo_auth_env = \<lparr>hash_api_key = (\<lambda>s. CHR ''#'' # s), parse_daemon_id = (\<lambda>_. Some 5), parse_cidr = (\<lambda>_. None),
     range_contains = (\<lambda>_ _. False), parse_address = (\<lambda>_. None), versions = demo_versions,
     cache_serves = (\<lambda>_ a b. b < a + RESOLUTION_CACHE_TTL), metrics_token = None,
     external_service_allowed_ips = (\<lambda>_. None)\<rparr>"

definition demo_empty :: auth_state where
  "demo_empty = \<lparr>st_networks = [(1, 2)], st_organizations = [(2, Some PlanPro)], st_daemons = [(5, None)],
     st_users = [], st_user_networks = [], st_user_keys = [], st_key_networks = [], st_daemon_keys = [],
     st_resolutions = (\<lambda>_. None), st_pending = []\<rparr>"

definition demo_member :: AuthenticatedEntity where
  "demo_member = UserAuth 3 2 PermMember [1] ''m'' True"

definition demo_owner :: AuthenticatedEntity where
  "demo_owner = UserAuth 3 2 PermOwner [1] ''m'' True"

definition demo_daemon_key :: DaemonApiKey where
  "demo_daemon_key = \<lparr>dk_id = 7, dk_created_at = 0, dk_updated_at = 0, dk_key = [], dk_name = ''k'', dk_last_used = None,
     dk_expires_at = None, dk_network_id = 1, dk_is_enabled = True, dk_daemon_id = Some 5, dk_plaintext = None\<rparr>"

definition demo_keyed :: auth_state where
  "demo_keyed = snd (create_daemon_api_key (hash_api_key demo_auth_env) ''x'' 0 9 demo_member demo_daemon_key demo_empty)"

definition demo_daemon_request :: http_request where
  "demo_daemon_request = \<lparr>rq_authorization = Some ''Bearer scp_d_x'', rq_service_name = None, rq_daemon_id = Some ''5'',
     rq_daemon_version = Some ''17 characters....'', rq_ip = None, rq_session = None\<rparr>"

definition demo_user :: "uuid \<Rightarrow> UserOrgPermissions \<Rightarrow> string \<Rightarrow> User" where
  "demo_user i p m = \<lparr>usr_id = i, usr_created_at = 0, usr_updated_at = 0, usr_email = m, usr_organization_id = 2,
     usr_permissions = p, usr_password_hash = None, usr_has_password = False, usr_oidc_provider = None,
     usr_oidc_subject = None, usr_oidc_linked_at = None, usr_network_ids = [], usr_terms_accepted_at = None,
     usr_email_verified = True, usr_email_verification_token = None, usr_email_verification_expires = None,
     usr_password_reset_token = None, usr_password_reset_expires = None, usr_pending_email = None,
     usr_email_settings = \<lparr>discovery_digest = True, product_onboarding = True, daemon_alerts = True, trial_and_usage = True\<rparr>,
     usr_session_epoch = 0\<rparr>"

definition demo_staffed :: auth_state where
  "demo_staffed = snd (create_user 0 9 (demo_user 4 PermViewer ''v'')
     (snd (create_user 0 9 (demo_user 3 PermOwner ''m'') demo_empty)))"

definition demo_user_key :: UserApiKey where
  "demo_user_key = \<lparr>uk_id = 8, uk_created_at = 0, uk_updated_at = 0, uk_key = [], uk_name = ''k'', uk_user_id = 0,
     uk_organization_id = 0, uk_permissions = PermMember, uk_last_used = None, uk_expires_at = None,
     uk_is_enabled = True, uk_network_ids = [1]\<rparr>"

definition demo_user_request :: http_request where
  "demo_user_request = \<lparr>rq_authorization = Some ''Bearer scp_u_y'', rq_service_name = None, rq_daemon_id = None,
     rq_daemon_version = None, rq_ip = None, rq_session = None\<rparr>"

lemmas demo_auth = demo_versions_def demo_auth_env_def demo_empty_def demo_member_def demo_owner_def demo_daemon_key_def
  demo_keyed_def demo_daemon_request_def demo_user_def demo_staffed_def demo_user_key_def demo_user_request_def

lemma demo_keyed_eval:
  "demo_keyed = demo_empty\<lparr>st_daemon_keys := [demo_daemon_key\<lparr>dk_key := ''#scp_d_x''\<rparr>]\<rparr>"
  by (simp add: demo_auth create_daemon_api_key_def insert_daemon_key_def daemon_key_allowed_def get_daemon_key_def
      get_by_id_def generate_api_key_for_storage_def generate_prefixed_api_key_def daemon_key_from_body_def
      authorize_def require_level_def permission_order entity_defs validate_network_access_def Let_def)

lemma demo_staffed_eval: "demo_staffed = demo_empty\<lparr>st_users := [demo_user 3 PermOwner ''m'', demo_user 4 PermViewer ''v'']\<rparr>"
  by (simp add: demo_auth create_user_def get_user_by_email_def get_user_def get_by_id_def user_row_allowed_def
      emails_clash_def oidc_clash_def user_row_def to_lowercase_def ascii_lower_def of_char_of Let_def)

lemma demo_empty_reachable: "auth_reachable demo_auth_env (demo_empty, 0)"
  by (rule auth_reachable.start) (simp_all add: demo_empty_def)

lemma demo_keyed_reachable: "auth_reachable demo_auth_env (demo_keyed, 0)"
  unfolding demo_keyed_def by (rule auth_reachable.step [OF demo_empty_reachable auth_step.daemon_key_created])

lemma demo_staffed_reachable: "auth_reachable demo_auth_env (demo_staffed, 0)"
  unfolding demo_staffed_def
  by (rule auth_reachable.step [OF auth_reachable.step [OF demo_empty_reachable auth_step.user_created] auth_step.user_created])

lemma demo_key_found: "get_daemon_key demo_keyed 7 = Some (demo_daemon_key\<lparr>dk_key := ''#scp_d_x''\<rparr>)"
  by (simp add: demo_keyed_eval get_daemon_key_def get_by_id_def demo_daemon_key_def)

lemma demo_key_deleted:
  "delete_daemon_api_key demo_member 7 demo_keyed = (Ok (), snd (delete_daemon_api_key demo_member 7 demo_keyed))"
  "get_daemon_key (snd (delete_daemon_api_key demo_member 7 demo_keyed)) 7 = None"
  using demo_key_found
  by (simp_all add: delete_daemon_api_key_def delete_daemon_key_handler_def authorize_def require_level_def permission_order
      demo_member_def entity_defs validate_delete_access_def validate_organization_access_def get_daemon_key_None
      remove_daemon_keys_def delete_many_def demo_keyed_eval demo_empty_def demo_daemon_key_def)

text \<open>
  C34: a handler that hands its authorization on to one with another requirement never lets a caller in whom
  the other requirement's own check would have turned away, the e-mail check included; and between two
  roles the sources allow handing on exactly where every caller that passes the one passes the other.
\<close>

theorem handed_on_authorization_holds:
  "(satisfies p q \<and> authorize p r = Ok e \<longrightarrow> authorize q r = Ok e)
   \<and> (satisfies (requirement_of_level a) (requirement_of_level b)
      \<longleftrightarrow> (\<forall>x. check_requirement (requirement_of_level a) x = Ok () \<longrightarrow> check_requirement (requirement_of_level b) x = Ok ()))"
proof -
  have "b \<le> a" if "\<forall>x. require_level a x = Ok () \<longrightarrow> require_level b x = Ok ()"
    using that [rule_format, of "UserAuth 0 0 a [] [] True"] by (simp add: require_level_iff entity_permissions_def)
  then have "satisfies (requirement_of_level a) (requirement_of_level b)
      \<longleftrightarrow> (\<forall>x. check_requirement (requirement_of_level a) x = Ok () \<longrightarrow> check_requirement (requirement_of_level b) x = Ok ())"
    by (auto simp: satisfies_level require_level_iff)
  then show ?thesis using authorize_into_permission [of p q r e] by blast
qed

theorem handed_on_authorization_holds_witness:
  "authorize RequireMember (Ok demo_owner) = Ok demo_owner"
  using handed_on_authorization_holds [of "RequireVerified (AndRequirement IsUser RequireOwner)" RequireMember "Ok demo_owner" demo_owner]
  by (simp add: satisfies_simps authorize_def require_level_def permission_order demo_owner_def entity_defs)

text \<open>
  C35: a daemon key that is deleted, rotated or disabled by its handler in a reachable state stops
  authenticating at once and for good: whatever the cache held, and whatever requests, spawned writes and
  other operations follow, every request that presents the old token is refused. Two things are assumed:
  when the key is revoked no last-used write of an earlier request is pending that carries the old hash
  enabled (such a write restores the key), and no later handler leaves an enabled key with the old hash in
  the table (by enabling it again, or by a hash that collides). A request is one step: it does not read the
  table before the revocation and fill the cache after it.
\<close>

theorem revoked_daemon_keys_refused:
  assumes "auth_reachable env (st, t)" "get_daemon_key st i = Some k" "writes_dead (dk_key k) st"
    and "bearer_token rq = Some raw" "fst (key_type_from_key raw) = DaemonKeyType" "\<not> is_metrics_token env raw"
      "hash_api_key env raw = dk_key k"
    and "delete_daemon_api_key e i st = (Ok (), st')
      \<or> rotate_daemon_key_handler (hash_api_key env) r e i st = (Ok p, st') \<and> hash_api_key env p \<noteq> dk_key k
      \<or> update_daemon_api_key e i body st = (Ok k', st') \<and> \<not> dk_is_enabled body"
    and "(unrevived_step env (dk_key k))\<^sup>*\<^sup>* (st', t) (st'', now)"
  shows "\<exists>x. fst (extract_auth env fails now rq st'') = Err x"
  using assms by (rule revoked_key_refused)

theorem revoked_daemon_keys_refused_witness:
  "\<exists>x. fst (extract_auth demo_auth_env (\<lambda>_. False) 1 demo_daemon_request
     (snd (extract_auth demo_auth_env (\<lambda>_. False) 0 demo_daemon_request
       (snd (delete_daemon_api_key demo_member 7 demo_keyed))))) = Err x"
proof -
  let ?st = "snd (delete_daemon_api_key demo_member 7 demo_keyed)"
  let ?rq = "snd (extract_auth demo_auth_env (\<lambda>_. False) 0 demo_daemon_request ?st)"
  have key: "dk_key (demo_daemon_key\<lparr>dk_key := ''#scp_d_x''\<rparr>) = ''#scp_d_x''" by simp
  have writes: "writes_dead (dk_key (demo_daemon_key\<lparr>dk_key := ''#scp_d_x''\<rparr>)) demo_keyed"
    by (simp add: writes_dead_def demo_keyed_eval demo_empty_def)
  have "find_daemon_key ?st ''#scp_d_x'' = None"
    using delete_daemon_key_effect [OF demo_key_deleted(1) demo_key_found] auth_reachable_wf [OF demo_keyed_reachable]
    by simp
  then have gone: "rows_dead ''#scp_d_x'' ?st" by (auto simp: rows_dead_def find_daemon_key_None image_iff)
  then have "unrevived_step demo_auth_env ''#scp_d_x'' (?st, 0) (?rq, 0)" "unrevived_step demo_auth_env ''#scp_d_x'' (?rq, 0) (?rq, 1)"
    using auth_step.request [of demo_auth_env ?st 0 "\<lambda>_. False" demo_daemon_request]
    by (auto simp: unrevived_step_def rows_dead_def request_daemon_keys intro: auth_step.tick)
  then have run: "(unrevived_step demo_auth_env (dk_key (demo_daemon_key\<lparr>dk_key := ''#scp_d_x''\<rparr>)))\<^sup>*\<^sup>* (?st, 0) (?rq, 1)"
    unfolding key by (rule converse_rtranclp_into_rtranclp [OF _ r_into_rtranclp])
  show ?thesis
    by (rule revoked_daemon_keys_refused [OF demo_keyed_reachable demo_key_found writes, of _ "''scp_d_x''" demo_member, OF _ _ _ _ _ run])
       (simp_all add: demo_key_deleted(1) [symmetric] bearer_token_def strip_prefix_def demo_daemon_request_def
         key_type_from_key_def is_metrics_token_def demo_auth_env_def)
qed

text \<open>
  C36: a daemon key that is gone from its table, however it was deleted, authenticates nobody ten seconds
  later: whatever requests, spawned writes and other operations come in between, unless one of them creates
  a key with its identifier again. The cache is assumed to drop entries after their time to live, and a
  request reads the table and fills the cache in one step.
\<close>

theorem deleted_daemon_keys_age_out:
  assumes "auth_reachable env (st, t)" "get_daemon_key st k = None" "(keyless_step env k)\<^sup>*\<^sup>* (st, t) (st', t')"
    and "t + RESOLUTION_CACHE_TTL \<le> t'" "\<And>h a b. cache_serves env h a b \<Longrightarrow> b < a + RESOLUTION_CACHE_TTL"
  shows "fst (extract_auth env fails t' rq st') \<noteq> Ok (DaemonAuth n k d v)"
  using assms by (rule deleted_key_ages_out)

theorem deleted_daemon_keys_age_out_witness:
  "fst (extract_auth demo_auth_env (\<lambda>_. False) RESOLUTION_CACHE_TTL demo_daemon_request
     (snd (delete_daemon_api_key demo_member 7 demo_keyed))) \<noteq> Ok (DaemonAuth 1 7 5 None)"
proof (rule deleted_daemon_keys_age_out)
  let ?st = "snd (delete_daemon_api_key demo_member 7 demo_keyed)"
  show "auth_reachable demo_auth_env (?st, 0)" by (rule auth_reachable.step [OF demo_keyed_reachable auth_step.daemon_key_deleted])
  show "get_daemon_key ?st 7 = None" by (rule demo_key_deleted(2))
  then show "(keyless_step demo_auth_env 7)\<^sup>*\<^sup>* (?st, 0) (?st, RESOLUTION_CACHE_TTL)"
    by (auto simp: keyless_step_def RESOLUTION_CACHE_TTL_def intro!: r_into_rtranclp auth_step.tick)
qed (simp_all add: demo_auth_env_def)

text \<open>
  C37: an organization that has an owner keeps one through every run of user operations, key operations,
  requests and spawned writes: no sequence of deletions, edits and role changes leaves it without. Each
  operation is one step of the run; two that overlap in time are not covered.
\<close>

theorem organizations_keep_an_owner:
  assumes "auth_reachable env (st, t)" "(auth_step env)\<^sup>*\<^sup>* (st, t) (st', t')" "organization_owners st org \<noteq> []"
  shows "organization_owners st' org \<noteq> []"
  using owners.along_run [OF assms(2), of org] auth_reachable_wf [OF assms(1)] assms(3) by (simp add: has_owner_iff)

theorem organizations_keep_an_owner_witness:
  "organization_owners (snd (delete_user demo_owner 3 demo_staffed)) 2 \<noteq> []"
proof (rule organizations_keep_an_owner [OF demo_staffed_reachable])
  show "(auth_step demo_auth_env)\<^sup>*\<^sup>* (demo_staffed, 0) (snd (delete_user demo_owner 3 demo_staffed), 0)"
    by (rule r_into_rtranclp) (rule auth_step.user_deleted)
qed (simp add: demo_staffed_eval organization_owners_def demo_user_def)

text \<open>
  C38: when an administrator's edit of a user succeeds, the user is of the administrator's organization, is not
  the administrator, ranked below the administrator and, unless the administrator is an owner, still does;
  the user's organization, address and password are unchanged, and no other user is touched, although the
  identifier of the row that is written comes from the request body.
\<close>

theorem admin_edits_stay_in_rank:
  assumes "admin_update_user caller i body st = (Ok u, st')"
  shows "\<exists>p old. entity_permissions caller = Some p \<and> get_user st i = Some old
    \<and> entity_organization_id caller = Some (usr_organization_id old) \<and> entity_user_id caller \<noteq> Some i
    \<and> usr_permissions old < p \<and> (p = PermOwner \<or> usr_permissions u < p)
    \<and> usr_organization_id u = usr_organization_id old \<and> usr_email u = usr_email old
    \<and> usr_password_hash u = usr_password_hash old
    \<and> (\<forall>j. get_user st' j = (if j = i then Some (user_row u) else get_user st j))"
  using assms by (rule admin_update_user_effect)

theorem admin_edits_stay_in_rank_witness:
  "\<exists>u st' old. admin_update_user demo_owner 4 (demo_user 4 PermMember ''other'') demo_staffed = (Ok u, st')
     \<and> get_user demo_staffed 4 = Some old \<and> usr_permissions u = PermMember \<and> usr_email u = usr_email old"
proof -
  obtain u st' where a: "admin_update_user demo_owner 4 (demo_user 4 PermMember ''other'') demo_staffed = (Ok u, st')"
    and p: "usr_permissions u = PermMember"
    by (simp add: admin_update_user_def authorize_def require_level_def permission_order demo_owner_def entity_defs
        demo_staffed_eval get_user_def get_by_id_def save_user_def save_for_user_def user_row_allowed_def emails_clash_def
        oidc_clash_def keep_credentials_def user_from_body_def demo_user_def to_lowercase_def ascii_lower_def of_char_of
        update_row_def Let_def)
  show ?thesis using admin_edits_stay_in_rank [OF a] a p by blast
qed

text \<open>
  C39: the token that creating a user key returns authenticates as that key: for the user and organization
  of the caller, with the role and the networks that were asked for, which are no higher than the caller's
  role and among the caller's networks.
\<close>

theorem created_keys_authenticate:
  assumes "auth_reachable env (st, t)" "create_user_api_key (hash_api_key env) r now fresh caller body st = (Ok (p, k), st')"
    and "bearer_token rq = Some p" "\<not> is_metrics_token env p" "\<And>l. \<not> fails l"
    and "uk_is_enabled body" "\<not> key_expired now' (uk_expires_at body)"
  shows "\<exists>u org q. entity_user_id caller = Some u \<and> entity_organization_id caller = Some org
    \<and> entity_permissions caller = Some q \<and> uk_permissions body \<le> q
    \<and> set (uk_network_ids body) \<subseteq> set (entity_network_ids caller)
    \<and> fst (extract_auth env fails now' rq st') = Ok (ApiKeyAuth (uk_id k) u org (uk_permissions body) (uk_network_ids body))"
  using created_key_authenticates [OF assms(2) _ assms(3-7)] auth_reachable_wf [OF assms(1)] by simp

theorem created_keys_authenticate_witness:
  "fst (extract_auth demo_auth_env (\<lambda>_. False) 5 demo_user_request
     (snd (create_user_api_key (hash_api_key demo_auth_env) ''y'' 0 9 demo_owner demo_user_key demo_staffed)))
   = Ok (ApiKeyAuth 8 3 2 PermMember [1])"
proof -
  obtain k st' where c: "create_user_api_key (hash_api_key demo_auth_env) ''y'' 0 9 demo_owner demo_user_key demo_staffed = (Ok (''scp_u_y'', k), st')"
    and k: "uk_id k = 8"
    by (simp add: create_user_api_key_def key_manager_def require_api_key_feature_def authorize_def require_level_def
        permission_order demo_owner_def entity_defs demo_staffed_eval demo_empty_def demo_user_key_def validate_permissions_def
        generate_api_key_for_storage_def generate_prefixed_api_key_def create_with_networks_def save_for_key_def user_key_allowed_def
        get_user_key_def get_user_def get_by_id_def user_key_row_def demo_user_def Let_def)
  have "bearer_token demo_user_request = Some ''scp_u_y''" "\<not> is_metrics_token demo_auth_env ''scp_u_y''"
    "uk_is_enabled demo_user_key" "\<not> key_expired 5 (uk_expires_at demo_user_key)"
    by (simp_all add: demo_user_request_def bearer_token_def strip_prefix_def is_metrics_token_def demo_auth_env_def
        demo_user_key_def key_expired_def)
  then show ?thesis
    using created_keys_authenticate [OF demo_staffed_reachable c, of demo_user_request "\<lambda>_. False" 5] c k
    by (simp add: demo_owner_def demo_user_key_def entity_defs)
qed

text \<open>
  C40: the version gate refuses a daemon exactly when the lifecycle reports its version as unsupported: with
  the cutovers of the sources for every version, and with any announced cutovers for every version from the
  baseline on, as long as no cutover asks for more than the server's own version.
\<close>

theorem version_gate_matches_lifecycle:
  assumes "parse_version sv text = Some v"
  shows "(enforce_daemon_version sv (Some text) now = Err DaemonVersionTooOld
      \<longleftrightarrow> dvs_status (evaluate sv (policy_at sv now) (Some v)) = HealthUnsupported)
    \<and> ((\<forall>s\<in>set sunsets. sf_floor s \<le> own_version sv) \<and> baseline_floor sv \<le> own_version sv \<and> baseline_floor sv \<le> v
      \<longrightarrow> (version_gate sv (floor_from sv sunsets now) (Some text) = Err DaemonVersionTooOld
        \<longleftrightarrow> dvs_status (evaluate sv (policy_with sv now sunsets) (Some v)) = HealthUnsupported))"
proof -
  have status: "dvs_status (evaluate sv p (Some v)) = fst (lifecycle p (Some v))" for p
    by (simp add: evaluate_def split: prod.splits)
  have gate: "version_gate sv f (Some text) = Err DaemonVersionTooOld \<longleftrightarrow> v < f" for f
    using assms by (simp add: version_gate_def)
  have "enforce_daemon_version sv (Some text) now = Err DaemonVersionTooOld
      \<longleftrightarrow> dvs_status (evaluate sv (policy_at sv now) (Some v)) = HealthUnsupported"
    by (simp add: status enforce_daemon_version_def gate enforced_floor_def policy_at_def policy_with_def lifecycle_def
        scheduled_sunsets_def applicable_sunset_in_def)
  then show ?thesis unfolding status gate using gate_iff_unsupported [of sunsets sv v now] by blast
qed

theorem version_gate_matches_lifecycle_witness:
  "version_gate demo_versions (floor_from demo_versions [\<lparr>sf_floor = 16000, effective_on = 3\<rparr>] 4) (Some ''15 characters..'')
     = Err DaemonVersionTooOld
   \<longleftrightarrow> dvs_status (evaluate demo_versions (policy_with demo_versions 4 [\<lparr>sf_floor = 16000, effective_on = 3\<rparr>]) (Some 15000))
     = HealthUnsupported"
  by (rule version_gate_matches_lifecycle [THEN conjunct2, THEN mp]) (auto simp: demo_versions_def baseline_floor_def)

end
